(* ===== verification/Prelude.thy ===== *)
theory Prelude
  imports Main "HOL-Library.Char_ord" "HOL-Library.List_Lexorder" "HOL-Library.Product_Lexorder"
begin

text \<open>
  Shared material of the development: the named collections of rules, the JavaScript
  idioms the sources use on every page (optional arguments with a default, a query that
  returns its first row, \<open>ORDER BY\<close>), rows of a table updated by key, and the
  generic lemmas on lists that the components rest on.

  A \<open>string\<close> of this development is a JavaScript string in its UTF-8 encoding, one
  \<open>char\<close> per byte. This is the form in which SQLite stores and compares it (the
  \<open>BINARY\<close> collation compares bytes), so the lexicographic order of
  \<open>HOL-Library.List_Lexorder\<close> is the order of \<open>ORDER BY\<close>.
\<close>

named_theorems cmd_defs \<open>definitions of the monad operations\<close>
named_theorems stmt_defs \<open>definitions of the SQL statements\<close>
named_theorems ok_simps \<open>inversion of successful commands\<close>
named_theorems viol_defs \<open>constraint predicates of the tables\<close>

section \<open>Optional values\<close>

definition default_to :: "'a option \<Rightarrow> 'a \<Rightarrow> 'a" where
  "default_to x d = (case x of None \<Rightarrow> d | Some v \<Rightarrow> v)"

lemma default_to_simps [simp]:
  "default_to None d = d" "default_to (Some v) d = v"
  by (simp_all add: default_to_def)

section \<open>Queries\<close>

text \<open>
  \<open>first_where P rs\<close> is \<open>select().from(t).where(P).get()\<close>, \<open>top_by k rs\<close> is
  \<open>orderBy(desc(k)).limit(1).get()\<close>; rows are kept in the order of insertion.
\<close>

definition first_where :: "('r \<Rightarrow> bool) \<Rightarrow> 'r list \<Rightarrow> 'r option" where
  "first_where P rs = List.find P rs"

fun top_by :: "('r \<Rightarrow> int) \<Rightarrow> 'r list \<Rightarrow> 'r option" where
  "top_by k [] = None"
| "top_by k (r # rs) =
     (case top_by k rs of None \<Rightarrow> Some r | Some t \<Rightarrow> if k r < k t then Some t else Some r)"

definition order_by :: "('r \<Rightarrow> 'k::linorder) \<Rightarrow> 'r list \<Rightarrow> 'r list" where
  "order_by k rs = sort_key k rs"

definition order_by_desc :: "('r \<Rightarrow> 'k::linorder) \<Rightarrow> 'r list \<Rightarrow> 'r list" where
  "order_by_desc k rs = rev (sort_key k (rev rs))"

definition list_last :: "'a list \<Rightarrow> 'a option" where
  "list_last xs = (if xs = [] then None else Some (last xs))"

lemma first_where_None [simp]: "first_where P rs = None \<longleftrightarrow> (\<forall>r\<in>set rs. \<not> P r)"
  by (auto simp: first_where_def find_None_iff)

lemma first_where_SomeD: "first_where P rs = Some r \<Longrightarrow> r \<in> set rs \<and> P r"
  by (auto simp: first_where_def find_Some_iff in_set_conv_nth)

lemma first_where_Some_ex: "r \<in> set rs \<Longrightarrow> P r \<Longrightarrow> \<exists>x. first_where P rs = Some x"
  by (metis first_where_None option.exhaust)

lemma first_where_append:
  "first_where P (xs @ ys) =
     (case first_where P xs of None \<Rightarrow> first_where P ys | Some x \<Rightarrow> Some x)"
  by (induction xs) (auto simp: first_where_def)

lemma first_where_snoc: "\<forall>r\<in>set xs. \<not> P r \<Longrightarrow> P x \<Longrightarrow> first_where P (xs @ [x]) = Some x"
  by (induction xs) (auto simp: first_where_def)

lemma first_where_snoc_other: "\<not> P x \<Longrightarrow> first_where P (xs @ [x]) = first_where P xs"
  by (induction xs) (auto simp: first_where_def)

lemma first_where_key_eq:
  assumes "distinct (map k rs)" and "r \<in> set rs"
  shows "first_where (\<lambda>x. k x = k r) rs = Some r"
  using assms by (induction rs) (auto simp: first_where_def)

lemma top_by_None [simp]: "top_by k rs = None \<longleftrightarrow> rs = []"
  by (cases rs) (auto split: option.splits)

lemma top_by_SomeD: "top_by k rs = Some t \<Longrightarrow> t \<in> set rs \<and> (\<forall>r\<in>set rs. k r \<le> k t)"
proof (induction rs arbitrary: t)
  case (Cons r rs)
  show ?case
  proof (cases "top_by k rs")
    case (Some u)
    with Cons.IH [of u] Cons.prems show ?thesis by (force split: if_splits)
  qed (use Cons.prems in simp)
qed simp

lemma top_by_eqI:
  assumes "t \<in> set rs" and "\<And>r. r \<in> set rs \<Longrightarrow> r \<noteq> t \<Longrightarrow> k r < k t"
  shows "top_by k rs = Some t"
proof (cases "top_by k rs")
  case None
  with assms show ?thesis by simp
next
  case (Some u)
  from top_by_SomeD [OF Some] assms have "u = t" by force
  with Some show ?thesis by simp
qed

lemma set_order_by [simp]: "set (order_by k rs) = set rs"
  by (simp add: order_by_def)

lemma length_order_by [simp]: "length (order_by k rs) = length rs"
  by (simp add: order_by_def)

lemma sorted_order_by: "sorted (map k (order_by k rs))"
  by (simp add: order_by_def)

lemma order_by_sorted_eq: "sorted (map k rs) \<Longrightarrow> order_by k rs = rs"
proof (induction rs)
  case (Cons r rs)
  then have "insort_key k r rs = r # rs" by (cases rs) auto
  with Cons show ?case by (simp add: order_by_def)
qed (simp add: order_by_def)

section \<open>Rows updated in place\<close>

definition map_where :: "('r \<Rightarrow> bool) \<Rightarrow> ('r \<Rightarrow> 'r) \<Rightarrow> 'r list \<Rightarrow> 'r list" where
  "map_where P f rs = map (\<lambda>r. if P r then f r else r) rs"

lemma map_where_Nil [simp]: "map_where P f [] = []"
  by (simp add: map_where_def)

lemma set_map_where: "set (map_where P f rs) = (\<lambda>r. if P r then f r else r) ` set rs"
  by (simp add: map_where_def)

lemma length_map_where [simp]: "length (map_where P f rs) = length rs"
  by (simp add: map_where_def)

lemma map_map_where [simp]: "(\<And>r. P r \<Longrightarrow> g (f r) = g r) \<Longrightarrow> map g (map_where P f rs) = map g rs"
  by (simp add: map_where_def)

lemma first_where_map_where:
  "(\<And>r. Q r \<Longrightarrow> P (f r) = P r) \<Longrightarrow>
    first_where P (map_where Q f rs) = map_option (\<lambda>r. if Q r then f r else r) (first_where P rs)"
  by (induction rs) (auto simp: first_where_def map_where_def)

lemma map_where_none: "(\<And>r. r \<in> set rs \<Longrightarrow> \<not> P r) \<Longrightarrow> map_where P f rs = rs"
  by (induction rs) (auto simp: map_where_def)

lemma filter_map_where:
  "(\<And>r. P r \<Longrightarrow> Q (f r) = Q r) \<Longrightarrow> filter Q (map_where P f rs) = map_where P f (filter Q rs)"
  by (induction rs) (auto simp: map_where_def)

section \<open>Sequence numbers\<close>

text \<open>A log whose rows carry the numbers \<open>b, b+1, \<dots>\<close> in the order of insertion.\<close>

definition numbered_from :: "int \<Rightarrow> ('r \<Rightarrow> int) \<Rightarrow> 'r list \<Rightarrow> bool" where
  "numbered_from b k rs \<longleftrightarrow> map k rs = map (\<lambda>i. b + int i) [0..<length rs]"

lemma numbered_from_Nil [simp]: "numbered_from b k []"
  by (simp add: numbered_from_def)

lemma numbered_from_snoc:
  "numbered_from b k (rs @ [r]) \<longleftrightarrow> numbered_from b k rs \<and> k r = b + int (length rs)"
  by (auto simp: numbered_from_def)

lemma numbered_from_distinct: "numbered_from b k rs \<Longrightarrow> distinct (map k rs)"
  by (auto simp: numbered_from_def distinct_map inj_on_def)

lemma numbered_from_last:
  assumes "numbered_from b k rs" and "rs \<noteq> []"
  shows "k (last rs) = b + int (length rs) - 1"
  using assms by (cases rs rule: rev_cases) (auto simp: numbered_from_snoc)

lemma numbered_from_bound: "numbered_from b k rs \<Longrightarrow> r \<in> set rs \<Longrightarrow> k r < b + int (length rs)"
proof (induction rs rule: rev_induct)
  case (snoc x xs)
  then show ?case by (auto simp: numbered_from_snoc)
qed simp

lemma top_by_numbered:
  assumes "numbered_from b k rs"
  shows "top_by k rs = list_last rs"
proof (cases rs rule: rev_cases)
  case (snoc xs x)
  have "top_by k rs = Some x"
  proof (rule top_by_eqI)
    fix r assume "r \<in> set rs" and "r \<noteq> x"
    with snoc assms numbered_from_bound [of b k xs r] show "k r < k x"
      by (auto simp: numbered_from_snoc)
  qed (simp add: snoc)
  with snoc show ?thesis by (simp add: list_last_def)
qed (simp add: list_last_def)

lemma numbered_sorted: "numbered_from b k rs \<Longrightarrow> sorted (map k rs)"
  by (auto simp: numbered_from_def sorted_iff_nth_mono)

definition next_number :: "int \<Rightarrow> ('r \<Rightarrow> int) \<Rightarrow> 'r list \<Rightarrow> int" where
  "next_number b k rs = (case top_by k rs of None \<Rightarrow> b | Some t \<Rightarrow> k t) + 1"

lemma next_number_numbered:
  "numbered_from (b + 1) k rs \<Longrightarrow> next_number b k rs = b + 1 + int (length rs)"
  by (cases "rs = []")
    (auto simp: next_number_def top_by_numbered list_last_def dest: numbered_from_last)

lemma numbered_from_map_where:
  "(\<And>r. P r \<Longrightarrow> k (f r) = k r) \<Longrightarrow> numbered_from b k (map_where P f rs) = numbered_from b k rs"
  by (simp add: numbered_from_def)

end
