(* ===== verification/Domain.thy ===== *)
theory Domain
  imports Prelude
begin

text \<open>
  The domain language of \<open>packages/domain/src\<close>: the enumerations of \<open>model.ts\<close> and the
  transition tables and assertions of \<open>invariants.ts\<close>. An assertion that throws a
  \<open>DomainInvariantError\<close> returns it on the left of a sum; one that returns normally is
  \<open>Inr ()\<close>. The lemmas say which chains of legal transitions exist.
\<close>

section \<open>Enumerations\<close>

datatype node_type =
  IDEA | GOAL | REQUIREMENT | CONSTRAINT | DESIGN | DECISION | COMPONENT

datatype node_lifecycle = NL_ACTIVE | NL_DEPRECATED | NL_ARCHIVED

datatype edge_type =
  PARENT_OF | DEPENDS_ON | IMPLEMENTS | CONSTRAINS | SUPERSEDES | DERIVED_FROM | RELATED_TO

datatype edge_status = ES_PROPOSED | ES_ACTIVE | ES_NEEDS_REVIEW | ES_SUPERSEDED | ES_ARCHIVED

datatype baseline_status = BS_DRAFT | BS_ACTIVE | BS_SUPERSEDED

datatype task_type = BOOTSTRAP_PROJECT | IMPLEMENT_CHANGE

datatype task_status =
  TS_DRAFT | TS_READY | TS_IN_PROGRESS | TS_WAITING_REVIEW | TS_COMPLETED | TS_CANCELLED
| TS_ARCHIVED

datatype run_status =
  RS_CREATED | RS_QUEUED | RS_PREPARING | RS_RUNNING | RS_WAITING_INPUT | RS_WAITING_APPROVAL
| RS_PAUSED | RS_INTERRUPTED | RS_FINISHED

datatype run_outcome = RO_SUCCEEDED | RO_PARTIAL | RO_FAILED | RO_CANCELLED | RO_TIMED_OUT

datatype approval_status =
  AP_PENDING | AP_APPROVED | AP_REJECTED | AP_EXPIRED | AP_CANCELLED | AP_CONSUMED

datatype snapshot_status = SS_DRAFT | SS_FROZEN | SS_ARCHIVED

datatype snapshot_freshness = SF_CURRENT | SF_STALE | SF_DIVERGED | SF_ARCHIVED

datatype context_item_type =
  NODE_VERSION | EDGE | REPOSITORY_CONTENT | ARTIFACT | USER_INPUT | PROJECT_RULE_ITEM

datatype context_authority =
  CA_PROJECT_RULE | CA_TASK_INSTRUCTION | CA_PROJECT_FACT | CA_EVIDENCE | CA_REFERENCE
| CA_UNTRUSTED_CONTENT

datatype context_priority = P0 | P1 | P2 | P3

record run_state =
  rst_status :: run_status
  rst_outcome :: "run_outcome option"

text \<open>The literals of the source, as they appear in messages, JSON and text columns.\<close>

fun node_type_str :: "node_type \<Rightarrow> string" where
  "node_type_str IDEA = ''IDEA''"
| "node_type_str GOAL = ''GOAL''"
| "node_type_str REQUIREMENT = ''REQUIREMENT''"
| "node_type_str CONSTRAINT = ''CONSTRAINT''"
| "node_type_str DESIGN = ''DESIGN''"
| "node_type_str DECISION = ''DECISION''"
| "node_type_str COMPONENT = ''COMPONENT''"

fun edge_type_str :: "edge_type \<Rightarrow> string" where
  "edge_type_str PARENT_OF = ''PARENT_OF''"
| "edge_type_str DEPENDS_ON = ''DEPENDS_ON''"
| "edge_type_str IMPLEMENTS = ''IMPLEMENTS''"
| "edge_type_str CONSTRAINS = ''CONSTRAINS''"
| "edge_type_str SUPERSEDES = ''SUPERSEDES''"
| "edge_type_str DERIVED_FROM = ''DERIVED_FROM''"
| "edge_type_str RELATED_TO = ''RELATED_TO''"

fun edge_status_str :: "edge_status \<Rightarrow> string" where
  "edge_status_str ES_PROPOSED = ''PROPOSED''"
| "edge_status_str ES_ACTIVE = ''ACTIVE''"
| "edge_status_str ES_NEEDS_REVIEW = ''NEEDS_REVIEW''"
| "edge_status_str ES_SUPERSEDED = ''SUPERSEDED''"
| "edge_status_str ES_ARCHIVED = ''ARCHIVED''"

fun baseline_status_str :: "baseline_status \<Rightarrow> string" where
  "baseline_status_str BS_DRAFT = ''DRAFT''"
| "baseline_status_str BS_ACTIVE = ''ACTIVE''"
| "baseline_status_str BS_SUPERSEDED = ''SUPERSEDED''"

fun task_type_str :: "task_type \<Rightarrow> string" where
  "task_type_str BOOTSTRAP_PROJECT = ''BOOTSTRAP_PROJECT''"
| "task_type_str IMPLEMENT_CHANGE = ''IMPLEMENT_CHANGE''"

fun task_status_str :: "task_status \<Rightarrow> string" where
  "task_status_str TS_DRAFT = ''DRAFT''"
| "task_status_str TS_READY = ''READY''"
| "task_status_str TS_IN_PROGRESS = ''IN_PROGRESS''"
| "task_status_str TS_WAITING_REVIEW = ''WAITING_REVIEW''"
| "task_status_str TS_COMPLETED = ''COMPLETED''"
| "task_status_str TS_CANCELLED = ''CANCELLED''"
| "task_status_str TS_ARCHIVED = ''ARCHIVED''"

fun run_status_str :: "run_status \<Rightarrow> string" where
  "run_status_str RS_CREATED = ''CREATED''"
| "run_status_str RS_QUEUED = ''QUEUED''"
| "run_status_str RS_PREPARING = ''PREPARING''"
| "run_status_str RS_RUNNING = ''RUNNING''"
| "run_status_str RS_WAITING_INPUT = ''WAITING_INPUT''"
| "run_status_str RS_WAITING_APPROVAL = ''WAITING_APPROVAL''"
| "run_status_str RS_PAUSED = ''PAUSED''"
| "run_status_str RS_INTERRUPTED = ''INTERRUPTED''"
| "run_status_str RS_FINISHED = ''FINISHED''"

fun run_outcome_str :: "run_outcome \<Rightarrow> string" where
  "run_outcome_str RO_SUCCEEDED = ''SUCCEEDED''"
| "run_outcome_str RO_PARTIAL = ''PARTIAL''"
| "run_outcome_str RO_FAILED = ''FAILED''"
| "run_outcome_str RO_CANCELLED = ''CANCELLED''"
| "run_outcome_str RO_TIMED_OUT = ''TIMED_OUT''"

fun approval_status_str :: "approval_status \<Rightarrow> string" where
  "approval_status_str AP_PENDING = ''PENDING''"
| "approval_status_str AP_APPROVED = ''APPROVED''"
| "approval_status_str AP_REJECTED = ''REJECTED''"
| "approval_status_str AP_EXPIRED = ''EXPIRED''"
| "approval_status_str AP_CANCELLED = ''CANCELLED''"
| "approval_status_str AP_CONSUMED = ''CONSUMED''"

section \<open>Transition tables\<close>

datatype domain_error = DomainInvariantError string

fun taskTransitions :: "task_status \<Rightarrow> task_status list" where
  "taskTransitions TS_DRAFT = [TS_READY, TS_CANCELLED]"
| "taskTransitions TS_READY = [TS_IN_PROGRESS, TS_CANCELLED]"
| "taskTransitions TS_IN_PROGRESS = [TS_WAITING_REVIEW, TS_CANCELLED]"
| "taskTransitions TS_WAITING_REVIEW = [TS_IN_PROGRESS, TS_COMPLETED, TS_CANCELLED]"
| "taskTransitions TS_COMPLETED = [TS_ARCHIVED]"
| "taskTransitions TS_CANCELLED = [TS_ARCHIVED]"
| "taskTransitions TS_ARCHIVED = []"

fun baselineTransitions :: "baseline_status \<Rightarrow> baseline_status list" where
  "baselineTransitions BS_DRAFT = [BS_ACTIVE]"
| "baselineTransitions BS_ACTIVE = [BS_SUPERSEDED]"
| "baselineTransitions BS_SUPERSEDED = []"

fun approvalTransitions :: "approval_status \<Rightarrow> approval_status list" where
  "approvalTransitions AP_PENDING = [AP_APPROVED, AP_REJECTED, AP_EXPIRED, AP_CANCELLED]"
| "approvalTransitions AP_APPROVED = [AP_CONSUMED, AP_EXPIRED, AP_CANCELLED]"
| "approvalTransitions AP_REJECTED = []"
| "approvalTransitions AP_EXPIRED = []"
| "approvalTransitions AP_CANCELLED = []"
| "approvalTransitions AP_CONSUMED = []"

fun runTransitions :: "run_status \<Rightarrow> run_status list" where
  "runTransitions RS_CREATED = [RS_QUEUED, RS_FINISHED]"
| "runTransitions RS_QUEUED = [RS_PREPARING, RS_INTERRUPTED, RS_FINISHED]"
| "runTransitions RS_PREPARING =
     [RS_RUNNING, RS_WAITING_INPUT, RS_WAITING_APPROVAL, RS_INTERRUPTED, RS_FINISHED]"
| "runTransitions RS_RUNNING =
     [RS_WAITING_INPUT, RS_WAITING_APPROVAL, RS_PAUSED, RS_INTERRUPTED, RS_FINISHED]"
| "runTransitions RS_WAITING_INPUT = [RS_RUNNING, RS_INTERRUPTED, RS_FINISHED]"
| "runTransitions RS_WAITING_APPROVAL = [RS_RUNNING, RS_INTERRUPTED, RS_FINISHED]"
| "runTransitions RS_PAUSED = [RS_RUNNING, RS_INTERRUPTED, RS_FINISHED]"
| "runTransitions RS_INTERRUPTED = [RS_PREPARING, RS_FINISHED]"
| "runTransitions RS_FINISHED = []"

definition assertTransition ::
  "string \<Rightarrow> ('s \<Rightarrow> string) \<Rightarrow> ('s \<Rightarrow> 's list) \<Rightarrow> 's \<Rightarrow> 's \<Rightarrow> domain_error + unit" where
  "assertTransition entity str transitions from to =
     (if to \<notin> set (transitions from)
      then Inl (DomainInvariantError (''Illegal '' @ entity @ '' transition: '' @ str from @ '' -> '' @ str to))
      else Inr ())"

definition assertTaskTransition :: "task_status \<Rightarrow> task_status \<Rightarrow> domain_error + unit" where
  "assertTaskTransition = assertTransition ''Task'' task_status_str taskTransitions"

definition assertBaselineTransition ::
  "baseline_status \<Rightarrow> baseline_status \<Rightarrow> domain_error + unit" where
  "assertBaselineTransition =
     assertTransition ''ProjectBaseline'' baseline_status_str baselineTransitions"

definition assertApprovalTransition ::
  "approval_status \<Rightarrow> approval_status \<Rightarrow> domain_error + unit" where
  "assertApprovalTransition = assertTransition ''Approval'' approval_status_str approvalTransitions"

definition assertRunTransition :: "run_status \<Rightarrow> run_status \<Rightarrow> domain_error + unit" where
  "assertRunTransition = assertTransition ''Run'' run_status_str runTransitions"

definition assertRunState :: "run_state \<Rightarrow> domain_error + unit" where
  "assertRunState st =
     (let hasOutcome = (rst_outcome st \<noteq> None)
      in if rst_status st = RS_FINISHED \<and> \<not> hasOutcome
         then Inl (DomainInvariantError ''A FINISHED Run must have an outcome'')
         else if rst_status st \<noteq> RS_FINISHED \<and> hasOutcome
         then Inl (DomainInvariantError ''Only a FINISHED Run may have an outcome'')
         else Inr ())"

section \<open>What the assertions accept\<close>

lemma assertTransition_ok [simp]:
  "assertTransition e str tr a b = Inr u \<longleftrightarrow> b \<in> set (tr a)"
  by (simp add: assertTransition_def)

lemma assertTaskTransition_ok [simp]:
  "assertTaskTransition a b = Inr u \<longleftrightarrow> b \<in> set (taskTransitions a)"
  by (simp add: assertTaskTransition_def)

lemma assertBaselineTransition_ok [simp]:
  "assertBaselineTransition a b = Inr u \<longleftrightarrow> b \<in> set (baselineTransitions a)"
  by (simp add: assertBaselineTransition_def)

lemma assertRunTransition_ok [simp]:
  "assertRunTransition a b = Inr u \<longleftrightarrow> b \<in> set (runTransitions a)"
  by (simp add: assertRunTransition_def)

lemma assertRunState_ok [simp]:
  "assertRunState st = Inr u \<longleftrightarrow> (rst_status st = RS_FINISHED \<longleftrightarrow> rst_outcome st \<noteq> None)"
  by (auto simp: assertRunState_def Let_def)

section \<open>Chains of accepted transitions\<close>

text \<open>
  One interface for the four lifecycles: a status type and an assertion. A history is a
  list of statuses in which the assertion accepts every step; statuses that the table
  gives no successor end every history.
\<close>

fun history :: "('s \<Rightarrow> 's \<Rightarrow> domain_error + unit) \<Rightarrow> 's \<Rightarrow> 's list \<Rightarrow> bool" where
  "history accepts a [] \<longleftrightarrow> True"
| "history accepts a (b # bs) \<longleftrightarrow> accepts a b = Inr () \<and> history accepts b bs"

locale lifecycle =
  fixes accepts :: "'s \<Rightarrow> 's \<Rightarrow> domain_error + unit"
    and successors :: "'s \<Rightarrow> 's list"
  assumes accepts_iff: "accepts a b = Inr () \<longleftrightarrow> b \<in> set (successors a)"
begin

lemma history_append: "history accepts a (xs @ ys) \<longleftrightarrow> history accepts a xs \<and> history accepts (last (a # xs)) ys"
  by (induction xs arbitrary: a) auto

lemma terminal_history: "successors a = [] \<Longrightarrow> history accepts a bs \<Longrightarrow> bs = []"
  by (cases bs) (auto simp: accepts_iff)

lemma history_invariant:
  assumes "\<And>x y. I x \<Longrightarrow> y \<in> set (successors x) \<Longrightarrow> I y"
  shows "I a \<Longrightarrow> history accepts a bs \<Longrightarrow> I (last (a # bs))"
  using assms by (induction bs arbitrary: a) (auto simp: accepts_iff)

lemma passes_through:
  assumes cut: "\<And>x y. I x \<Longrightarrow> y \<in> set (successors x) \<Longrightarrow> y \<noteq> gate \<Longrightarrow> I y"
    and "I a" and "history accepts a bs" and "\<not> I (last (a # bs))"
  shows "gate \<in> set bs"
  using assms(2-)
proof (induction bs arbitrary: a)
  case (Cons b bs)
  then show ?case using cut [of a b] by (cases "b = gate") (auto simp: accepts_iff)
qed simp

end

interpretation task_life: lifecycle assertTaskTransition taskTransitions
  by unfold_locales simp

interpretation baseline_life: lifecycle assertBaselineTransition baselineTransitions
  by unfold_locales simp

interpretation run_life: lifecycle assertRunTransition runTransitions
  by unfold_locales simp

interpretation approval_life: lifecycle assertApprovalTransition approvalTransitions
  by unfold_locales (simp add: assertApprovalTransition_def)

end
