(* ===== verification/Json.thy ===== *)
theory Json
  imports Prelude
begin

text \<open>
  \<open>JSON.stringify\<close> on the values the sources pass to it: objects with fixed,
  non-numeric keys in the order of the source (JavaScript keeps insertion order for
  them), arrays, strings, integers, booleans and \<open>null\<close>. A string is escaped as
  ECMAScript's \<open>QuoteJSONString\<close> does; bytes from \<open>0x80\<close> on belong to multi-byte
  UTF-8 sequences and pass unchanged.

  The main result is that the text determines the value (\<open>stringify_inj\<close>), which is
  what makes the canonical texts of \<open>services.ts\<close> usable as content identities.
\<close>

datatype json =
  JNull
| JBool bool
| JNum int
| JStr string
| JArr "json list"
| JObj "(string \<times> json) list"

section \<open>Decimal numerals\<close>

fun nat_digits :: "nat \<Rightarrow> string" where
  "nat_digits n =
     (if n < 10 then [char_of (48 + n)] else nat_digits (n div 10) @ [char_of (48 + n mod 10)])"

declare nat_digits.simps [simp del]

definition int_digits :: "int \<Rightarrow> string" where
  "int_digits i = (if i < 0 then CHR ''-'' # nat_digits (nat (- i)) else nat_digits (nat i))"

definition is_digit :: "char \<Rightarrow> bool" where
  "is_digit c \<longleftrightarrow> 48 \<le> (of_char c :: nat) \<and> (of_char c :: nat) < 58"

fun digits_value :: "string \<Rightarrow> nat \<Rightarrow> nat" where
  "digits_value [] acc = acc"
| "digits_value (c # cs) acc = digits_value cs (10 * acc + (of_char c - 48))"

lemma digits_value_append: "digits_value (xs @ ys) acc = digits_value ys (digits_value xs acc)"
  by (induction xs arbitrary: acc) auto

lemma of_char_digit: "d < 10 \<Longrightarrow> of_char (char_of (48 + d) :: char) = (48 + d :: nat)"
  by (simp add: of_char_of)

lemma nat_digits_value: "digits_value (nat_digits n) 0 = n"
proof (induction n rule: nat_digits.induct)
  case (1 n)
  then show ?case
    by (subst nat_digits.simps) (simp add: digits_value_append of_char_digit)
qed

lemma nat_digits_are_digits: "c \<in> set (nat_digits n) \<Longrightarrow> is_digit c"
proof (induction n rule: nat_digits.induct)
  case (1 n)
  then show ?case
    by (subst (asm) nat_digits.simps)
      (auto simp: is_digit_def of_char_digit split: if_splits)
qed

lemma nat_digits_not_Nil [simp]: "nat_digits n \<noteq> []"
  by (subst nat_digits.simps) simp

lemma nat_digits_inj: "nat_digits m = nat_digits n \<Longrightarrow> m = n"
  by (metis nat_digits_value)

section \<open>Strings\<close>

definition hex_digit :: "nat \<Rightarrow> char" where
  "hex_digit n = char_of (if n < 10 then 48 + n else 87 + n)"

definition escape_char :: "char \<Rightarrow> string" where
  "escape_char c =
     (let n = of_char c in
      if n = 34 then [CHR 0x5C, CHR 0x22]
      else if n = 92 then [CHR 0x5C, CHR 0x5C]
      else if n = 8 then [CHR 0x5C, CHR ''b'']
      else if n = 9 then [CHR 0x5C, CHR ''t'']
      else if n = 10 then [CHR 0x5C, CHR ''n'']
      else if n = 12 then [CHR 0x5C, CHR ''f'']
      else if n = 13 then [CHR 0x5C, CHR ''r'']
      else if n < (32 :: nat)
      then [CHR 0x5C, CHR ''u'', CHR ''0'', CHR ''0'', hex_digit (n div 16), hex_digit (n mod 16)]
      else [c])"

text \<open>For evaluation: a character with one of the upper bits set is not a control character.\<close>

definition escape_control :: "char \<Rightarrow> string" where
  "escape_control c = escape_char c"

lemma of_char_special: "of_char c = (34 :: nat) \<longleftrightarrow> c = CHR 0x22" "of_char c = (92 :: nat) \<longleftrightarrow> c = CHR 0x5C"
  using of_char_eq_iff [of c "CHR 0x22", where 'a = nat] of_char_eq_iff [of c "CHR 0x5C", where 'a = nat]
  by simp_all

lemma of_char_upper: "b5 \<or> b6 \<or> b7 \<Longrightarrow> 32 \<le> (of_char (Char b0 b1 b2 b3 b4 b5 b6 b7) :: nat)"
  by (auto simp: of_char_def split: if_splits)

lemma escape_char_code:
  "escape_char (Char b0 b1 b2 b3 b4 b5 b6 b7) =
     (let c = Char b0 b1 b2 b3 b4 b5 b6 b7
      in if (b5 \<or> b6 \<or> b7) \<and> c \<noteq> CHR 0x22 \<and> c \<noteq> CHR 0x5C then [c] else escape_control c)"
  using of_char_upper [of b5 b6 b7 b0 b1 b2 b3 b4] of_char_special [of "Char b0 b1 b2 b3 b4 b5 b6 b7"]
  by (auto simp: escape_control_def Let_def escape_char_def)

lemmas escape_code [code] = escape_control_def [unfolded escape_char_def] escape_char_code

definition quote :: "string \<Rightarrow> string" where
  "quote s = CHR 0x22 # concat (map escape_char s) @ [CHR 0x22]"

definition join :: "string \<Rightarrow> string list \<Rightarrow> string" where
  "join sep xs = (case xs of [] \<Rightarrow> [] | y # ys \<Rightarrow> y @ concat (map (\<lambda>z. sep @ z) ys))"

fun stringify :: "json \<Rightarrow> string" where
  "stringify JNull = ''null''"
| "stringify (JBool b) = (if b then ''true'' else ''false'')"
| "stringify (JNum i) = int_digits i"
| "stringify (JStr s) = quote s"
| "stringify (JArr js) = ''['' @ join '','' (map stringify js) @ '']''"
| "stringify (JObj kvs) =
     ''{'' @ join '','' (map (\<lambda>kv. quote (fst kv) @ '':'' @ stringify (snd kv)) kvs) @ ''}''"

text \<open>The optional text columns of the schema as JSON: \<open>x ?? null\<close>.\<close>

definition jopt :: "string option \<Rightarrow> json" where
  "jopt x = (case x of None \<Rightarrow> JNull | Some s \<Rightarrow> JStr s)"

lemma jopt_inj [simp]: "jopt x = jopt y \<longleftrightarrow> x = y"
  by (auto simp: jopt_def split: option.splits)

section \<open>The text determines the value\<close>

text \<open>Reading one escaped character back.\<close>

definition hex_value :: "char \<Rightarrow> nat" where
  "hex_value c = (let n = of_char c in if n < 58 then n - 48 else n - 87)"

definition unescape_simple :: "char \<Rightarrow> char" where
  "unescape_simple d =
     (if d = CHR ''b'' then char_of (8 :: nat) else if d = CHR ''t'' then char_of (9 :: nat)
      else if d = CHR ''n'' then char_of (10 :: nat) else if d = CHR ''f'' then char_of (12 :: nat)
      else if d = CHR ''r'' then char_of (13 :: nat) else d)"

fun unescape_char :: "string \<Rightarrow> (char \<times> string) option" where
  "unescape_char (c # cs) =
     (if c = CHR 0x22 then None
      else if c \<noteq> CHR 0x5C then Some (c, cs)
      else (case cs of
         d # ds \<Rightarrow>
           if d = CHR ''u''
           then (case ds of _ # _ # h # l # rest \<Rightarrow> Some (char_of (16 * hex_value h + hex_value l), rest)
                 | _ \<Rightarrow> None)
           else Some (unescape_simple d, ds)
       | [] \<Rightarrow> None))"
| "unescape_char [] = None"

lemma hex_value_digit: "k < 16 \<Longrightarrow> hex_value (hex_digit k) = k"
  by (auto simp: hex_value_def hex_digit_def Let_def of_char_of)

lemma char_codes:
  "char_of (34 :: nat) = CHR 0x22" "char_of (92 :: nat) = CHR 0x5C"
  by code_simp+

lemma char_by_code: "(of_char c :: nat) = n \<Longrightarrow> c = char_of n"
  by (metis char_of_char)

lemma unescape_escape_special:
  "n \<in> {34, 92, 8, 9, 10, 12, 13 :: nat} \<Longrightarrow>
    unescape_char (escape_char (char_of n) @ xs) = Some (char_of n, xs)"
  by (auto simp: escape_char_def of_char_of unescape_simple_def char_codes)

lemma unescape_escape: "unescape_char (escape_char c @ xs) = Some (c, xs)"
proof -
  let ?n = "of_char c :: nat"
  consider "?n \<in> {34, 92, 8, 9, 10, 12, 13}"
    | "?n < 32" "?n \<notin> {8, 9, 10, 12, 13}" | "32 \<le> ?n" "?n \<noteq> 34" "?n \<noteq> 92"
    by fastforce
  then show ?thesis
  proof cases
    case 1
    from unescape_escape_special [OF this, of xs] show ?thesis by simp
  next
    case 2
    have "16 * (?n div 16) + ?n mod 16 = ?n" by simp
    then have "char_of (16 * hex_value (hex_digit (?n div 16)) + hex_value (hex_digit (?n mod 16))) = c"
      using 2 by (simp add: hex_value_digit)
    with 2 show ?thesis by (simp add: escape_char_def Let_def)
  next
    case 3
    then have "c \<noteq> CHR 0x22" and "c \<noteq> CHR 0x5C" by auto
    with 3 show ?thesis by (simp add: escape_char_def Let_def)
  qed
qed

lemma escape_char_det:
  "escape_char c @ xs = escape_char d @ ys \<Longrightarrow> c = d \<and> xs = ys"
  by (metis unescape_escape option.inject prod.inject)

lemma escape_char_not_quote:
  "escape_char c @ xs \<noteq> CHR 0x22 # ys" "CHR 0x22 # ys \<noteq> escape_char c @ xs"
proof -
  show *: "escape_char c @ xs \<noteq> CHR 0x22 # ys"
  proof
    assume "escape_char c @ xs = CHR 0x22 # ys"
    with unescape_escape [of c xs] show False by simp
  qed
  show "CHR 0x22 # ys \<noteq> escape_char c @ xs" using * by metis
qed

lemma escaped_det:
  "concat (map escape_char s) @ CHR 0x22 # xs = concat (map escape_char t) @ CHR 0x22 # ys
    \<Longrightarrow> s = t \<and> xs = ys"
proof (induction s arbitrary: t)
  case Nil
  then show ?case by (cases t) (simp_all add: escape_char_not_quote)
next
  case (Cons c s)
  then obtain d u where t: "t = d # u"
    by (cases t) (simp_all add: escape_char_not_quote)
  from Cons.prems have "escape_char c @ concat (map escape_char s) @ CHR 0x22 # xs
      = escape_char d @ concat (map escape_char u) @ CHR 0x22 # ys"
    by (simp only: t list.map concat.simps append_assoc)
  from escape_char_det [OF this] Cons.IH [of u] show ?case unfolding t by blast
qed

lemma quote_det: "quote s @ xs = quote t @ ys \<Longrightarrow> s = t \<and> xs = ys"
  by (rule escaped_det) (simp add: quote_def)

text \<open>
  A delimiter ends every value inside an array or an object. A printer is determinate if,
  in front of a delimiter, its text can be cut in one way only.
\<close>

definition delim :: "char \<Rightarrow> bool" where
  "delim c \<longleftrightarrow> c \<in> {CHR '','', CHR '']'', CHR ''}''}"

definition determinate_at :: "('a \<Rightarrow> string) \<Rightarrow> 'a \<Rightarrow> bool" where
  "determinate_at f x \<longleftrightarrow>
     (\<forall>y c d xs ys. delim c \<longrightarrow> delim d \<longrightarrow> f x @ c # xs = f y @ d # ys \<longrightarrow> x = y \<and> c # xs = d # ys)"

definition starts_proper :: "('a \<Rightarrow> string) \<Rightarrow> bool" where
  "starts_proper f \<longleftrightarrow> (\<forall>x. f x \<noteq> [] \<and> \<not> delim (hd (f x)))"

lemma join_Cons: "join sep (x # xs) = x @ (if xs = [] then [] else sep @ join sep xs)"
  by (cases xs) (auto simp: join_def)

lemma join_Nil [simp]: "join sep [] = []"
  by (simp add: join_def)

lemma join_proper:
  "starts_proper f \<Longrightarrow> xs \<noteq> [] \<Longrightarrow> \<exists>h t. join sep (map f xs) = h # t \<and> \<not> delim h"
  by (cases xs; cases "f (hd xs)") (auto simp: starts_proper_def join_Cons dest: spec [of _ "hd xs"])

lemma join_det:
  assumes f: "starts_proper f" and end_c: "e = CHR '']'' \<or> e = CHR ''}''"
  shows "\<forall>x\<in>set xs. determinate_at f x \<Longrightarrow>
    join '','' (map f xs) @ e # us = join '','' (map f ys) @ e # vs \<Longrightarrow> xs = ys \<and> us = vs"
proof (induction xs arbitrary: ys)
  case Nil
  have "delim e" using end_c by (auto simp: delim_def)
  with Nil join_proper [OF f, of ys "'',''"] show ?case by (cases "ys = []") auto
next
  case (Cons x xs)
  have e: "delim e" "e \<noteq> CHR '',''" using end_c by (auto simp: delim_def)
  have comma: "delim (CHR '','')" by (simp add: delim_def)
  from Cons.prems(2) e join_proper [OF f, of "x # xs" "'',''"] obtain y zs where ys: "ys = y # zs"
    by (cases ys) auto
  have tail: "\<exists>d r. (if ws = [] then [] else '','' @ join '','' (map f ws)) @ e # ts = d # r \<and> delim d"
    for ws ts using e comma by auto
  obtain c r where c: "(if xs = [] then [] else '','' @ join '','' (map f xs)) @ e # us = c # r" "delim c"
    using tail by blast
  obtain d q where d: "(if zs = [] then [] else '','' @ join '','' (map f zs)) @ e # vs = d # q" "delim d"
    using tail by blast
  have "f x @ c # r = f y @ d # q"
    using Cons.prems(2) unfolding ys c(1) [symmetric] d(1) [symmetric] by (simp add: join_Cons)
  moreover from Cons.prems(1) have "determinate_at f x" by simp
  ultimately have step: "x = y \<and> c # r = d # q"
    using c(2) d(2) unfolding determinate_at_def by blast
  then have "(if xs = [] then [] else '','' @ join '','' (map f xs)) @ e # us
    = (if zs = [] then [] else '','' @ join '','' (map f zs)) @ e # vs"
    using c(1) d(1) by simp
  then show ?case using Cons.IH [of zs] Cons.prems(1) e ys step
    by (cases "xs = []"; cases "zs = []") auto
qed

text \<open>Numbers: a run of digits, ended by the first byte that is not one.\<close>

lemma digits_det:
  assumes "\<forall>c\<in>set u. is_digit c" and "\<forall>c\<in>set v. is_digit c"
    and "\<not> is_digit c" and "\<not> is_digit d" and "u @ c # xs = v @ d # ys"
  shows "u = v \<and> c # xs = d # ys"
  using assms
proof (induction u arbitrary: v)
  case Nil
  then show ?case by (cases v) auto
next
  case (Cons a u)
  then show ?case by (cases v) auto
qed

lemma nat_digits_det:
  assumes "\<not> is_digit c" and "\<not> is_digit d" and "nat_digits m @ c # xs = nat_digits n @ d # ys"
  shows "m = n \<and> c # xs = d # ys"
  using digits_det [OF _ _ assms] nat_digits_are_digits nat_digits_inj by blast

lemma delim_not_digit: "delim c \<Longrightarrow> \<not> is_digit c"
  by (auto simp: delim_def is_digit_def)

lemma minus_not_digit: "\<not> is_digit (CHR ''-'')"
  by (simp add: is_digit_def)

lemma hd_nat_digits: "is_digit (hd (nat_digits n))"
  by (rule nat_digits_are_digits [of _ n]) simp

lemma int_digits_det:
  assumes "delim c" and "delim d" and "int_digits i @ c # xs = int_digits j @ d # ys"
  shows "i = j \<and> c # xs = d # ys"
proof -
  have hd: "hd (nat_digits n @ ws) \<noteq> CHR ''-''" for n ws
    using hd_nat_digits [of n] minus_not_digit by (metis hd_append2 nat_digits_not_Nil)
  have neg: "CHR ''-'' # us \<noteq> nat_digits n @ vs" for us n vs
    using hd [of n vs] by (metis list.sel(1))
  have sign: "(i < 0) = (j < 0)"
    using assms(3) neg [of "nat_digits (nat (- i)) @ c # xs" "nat j" "d # ys"]
      neg [of "nat_digits (nat (- j)) @ d # ys" "nat i" "c # xs"]
    by (simp add: int_digits_def split: if_splits)
  show ?thesis
  proof (cases "i < 0")
    case True
    with sign assms(3) have "nat_digits (nat (- i)) @ c # xs = nat_digits (nat (- j)) @ d # ys"
      by (simp add: int_digits_def)
    from nat_digits_det [OF _ _ this] assms True sign show ?thesis
      by (simp add: delim_not_digit eq_nat_nat_iff)
  next
    case False
    with sign assms(3) have "nat_digits (nat i) @ c # xs = nat_digits (nat j) @ d # ys"
      by (simp add: int_digits_def)
    from nat_digits_det [OF _ _ this] assms False sign show ?thesis
      by (simp add: delim_not_digit eq_nat_nat_iff)
  qed
qed

definition json_tag :: "json \<Rightarrow> nat" where
  "json_tag j = (case j of JNull \<Rightarrow> 0 | JBool _ \<Rightarrow> 1 | JNum _ \<Rightarrow> 2 | JStr _ \<Rightarrow> 3 | JArr _ \<Rightarrow> 4 | JObj _ \<Rightarrow> 5)"

definition char_tag :: "char \<Rightarrow> nat" where
  "char_tag c =
     (if c = CHR ''n'' then 0 else if c \<in> {CHR ''t'', CHR ''f''} then 1
      else if c = CHR ''-'' \<or> is_digit c then 2 else if c = CHR 0x22 then 3
      else if c = CHR ''['' then 4 else if c = CHR ''{'' then 5 else 6)"

lemma hd_stringify: "stringify j \<noteq> [] \<and> char_tag (hd (stringify j)) = json_tag j"
proof (cases j)
  case (JNum i)
  have "char_tag (hd (nat_digits n)) = 2" for n
    using hd_nat_digits [of n] by (auto simp: char_tag_def is_digit_def)
  moreover have "char_tag (CHR ''-'') = 2" by (simp add: char_tag_def)
  ultimately show ?thesis using JNum by (simp add: int_digits_def json_tag_def)
qed (auto simp: char_tag_def json_tag_def quote_def is_digit_def)

lemma stringify_proper: "starts_proper stringify"
proof -
  have "char_tag c = 6" if "delim c" for c
    using that delim_not_digit [OF that] by (auto simp: delim_def char_tag_def)
  moreover have "json_tag j \<noteq> 6" for j by (cases j) (auto simp: json_tag_def)
  ultimately show ?thesis unfolding starts_proper_def by (metis hd_stringify)
qed

lemma member_proper: "starts_proper (\<lambda>kv. quote (fst kv) @ '':'' @ stringify (snd kv))"
  by (auto simp: starts_proper_def quote_def delim_def)

lemma member_determinate:
  assumes "determinate_at stringify (snd kv)"
  shows "determinate_at (\<lambda>kv. quote (fst kv) @ '':'' @ stringify (snd kv)) kv"
  unfolding determinate_at_def
proof (intro allI impI)
  fix y c d xs ys
  assume c: "delim c" and d: "delim d"
    and eq: "(quote (fst kv) @ '':'' @ stringify (snd kv)) @ c # xs
      = (quote (fst y) @ '':'' @ stringify (snd y)) @ d # ys"
  from eq have "quote (fst kv) @ '':'' @ stringify (snd kv) @ c # xs
      = quote (fst y) @ '':'' @ stringify (snd y) @ d # ys"
    by (simp only: append_assoc)
  from quote_det [OF this] have k: "fst kv = fst y"
    and v: "stringify (snd kv) @ c # xs = stringify (snd y) @ d # ys" by auto
  from assms c d v have "snd kv = snd y \<and> c # xs = d # ys"
    unfolding determinate_at_def by blast
  with k show "kv = y \<and> c # xs = d # ys" by (auto simp: prod_eq_iff)
qed

lemma stringify_tag_eq:
  assumes "stringify j @ xs = stringify k @ ys"
  shows "json_tag j = json_tag k"
  using assms hd_stringify [of j] hd_stringify [of k] by (metis hd_append2)

lemma stringify_determinate: "determinate_at stringify j"
proof (induction j)
  case (JNum i)
  show ?case unfolding determinate_at_def
  proof (intro allI impI)
    fix y c d xs ys
    assume cd: "delim c" "delim d" and eq: "stringify (JNum i) @ c # xs = stringify y @ d # ys"
    from stringify_tag_eq [OF eq] obtain k where "y = JNum k"
      by (cases y) (auto simp: json_tag_def)
    with int_digits_det [OF cd] eq show "JNum i = y \<and> c # xs = d # ys" by simp
  qed
next
  case (JStr s)
  show ?case unfolding determinate_at_def
  proof (intro allI impI)
    fix y c d xs ys
    assume eq: "stringify (JStr s) @ c # xs = stringify y @ d # ys"
    from stringify_tag_eq [OF eq] obtain t where y: "y = JStr t"
      by (cases y) (auto simp: json_tag_def)
    from eq have "quote s @ c # xs = quote t @ d # ys" unfolding y stringify.simps .
    from quote_det [OF this] show "JStr s = y \<and> c # xs = d # ys" by (simp add: y)
  qed
next
  case (JArr js)
  show ?case unfolding determinate_at_def
  proof (intro allI impI)
    fix y c d xs ys
    assume eq: "stringify (JArr js) @ c # xs = stringify y @ d # ys"
    from stringify_tag_eq [OF eq] obtain ks where y: "y = JArr ks"
      by (cases y) (auto simp: json_tag_def)
    from eq have "join '','' (map stringify js) @ CHR '']'' # c # xs
        = join '','' (map stringify ks) @ CHR '']'' # d # ys" by (simp add: y)
    from join_det [OF stringify_proper _ _ this] JArr show "JArr js = y \<and> c # xs = d # ys"
      by (simp add: y)
  qed
next
  case (JObj kvs)
  let ?m = "\<lambda>kv. quote (fst kv) @ '':'' @ stringify (snd kv)"
  have det: "\<forall>kv\<in>set kvs. determinate_at ?m kv"
    using JObj by (intro ballI member_determinate) (force simp: snds.simps)
  show ?case unfolding determinate_at_def
  proof (intro allI impI)
    fix y c d xs ys
    assume eq: "stringify (JObj kvs) @ c # xs = stringify y @ d # ys"
    from stringify_tag_eq [OF eq] obtain ks where y: "y = JObj ks"
      by (cases y) (auto simp: json_tag_def)
    from eq have "join '','' (map ?m kvs) @ CHR ''}'' # c # xs
        = join '','' (map ?m ks) @ CHR ''}'' # d # ys" by (simp add: y)
    from join_det [OF member_proper _ det this] show "JObj kvs = y \<and> c # xs = d # ys"
      by (simp add: y)
  qed
next
  case JNull
  show ?case unfolding determinate_at_def
  proof (intro allI impI)
    fix y c d xs ys
    assume eq: "stringify JNull @ c # xs = stringify y @ d # ys"
    from stringify_tag_eq [OF eq] have "y = JNull" by (cases y) (auto simp: json_tag_def)
    with eq show "JNull = y \<and> c # xs = d # ys" by simp
  qed
next
  case (JBool b)
  show ?case unfolding determinate_at_def
  proof (intro allI impI)
    fix y c d xs ys
    assume eq: "stringify (JBool b) @ c # xs = stringify y @ d # ys"
    from stringify_tag_eq [OF eq] obtain e where "y = JBool e"
      by (cases y) (auto simp: json_tag_def)
    with eq show "JBool b = y \<and> c # xs = d # ys" by (auto split: if_splits)
  qed
qed

lemma stringify_inj: "stringify j = stringify k \<longleftrightarrow> j = k"
proof
  assume "stringify j = stringify k"
  then have "stringify j @ CHR '','' # [] = stringify k @ CHR '','' # []" by simp
  moreover have "delim (CHR '','')" by (simp add: delim_def)
  ultimately show "j = k"
    using stringify_determinate [of j] unfolding determinate_at_def by blast
qed simp

end
