(* ===== verification/Schema.thy ===== *)
theory Schema
  imports Domain Json
begin

text \<open>
  The tables of \<open>packages/persistence/src/schema\<close>. A row is a record with the columns of
  the source in their order (a nullable column is an option, a text column with a
  \<open>$type\<close> is the enumeration it names); a table is the list of its rows in the order of
  insertion; the database is the record of all tables and of SQLite's counter for the
  \<open>AUTOINCREMENT\<close> key of the audit log.

  Each table has a predicate \<open>\<dots>_viol\<close> that says which constraint a new row breaks:
  \<open>CHECK\<close>, then \<open>PRIMARY KEY\<close> and \<open>UNIQUE\<close> (where two \<open>NULL\<close>s differ), then the foreign
  keys (\<open>PRAGMA foreign_keys = ON\<close>; a \<open>NULL\<close> refers to nothing). The triggers that
  \<open>installGuards\<close> of \<open>db.ts\<close> creates are part of these predicates.
\<close>

section \<open>Rows\<close>

record project_row =
  pr_id :: string
  pr_name :: string
  pr_description :: "string option"
  pr_createdAt :: string
  pr_updatedAt :: string

record repository_revision_row =
  rr_id :: string
  rr_baseCommit :: string
  rr_treeHash :: string
  rr_workingTreePatchHash :: "string option"
  rr_createdAt :: string

record node_row =
  nd_id :: string
  nd_projectId :: string
  nd_type :: node_type
  nd_lifecycle :: node_lifecycle
  nd_createdAt :: string
  nd_updatedAt :: string

record node_draft_row =
  nf_id :: string
  nf_nodeId :: string
  nf_title :: string
  nf_body :: string
  nf_revision :: int
  nf_updatedAt :: string

record node_version_row =
  nv_id :: string
  nv_nodeId :: string
  nv_sequence :: int
  nv_title :: string
  nv_body :: string
  nv_contentHash :: string
  nv_createdAt :: string

record edge_row =
  eg_id :: string
  eg_projectId :: string
  eg_sourceNodeId :: string
  eg_targetNodeId :: string
  eg_type :: edge_type
  eg_status :: edge_status
  eg_anchoredNodeVersionId :: "string option"
  eg_note :: "string option"
  eg_createdAt :: string
  eg_updatedAt :: string

record task_row =
  tk_id :: string
  tk_projectId :: string
  tk_type :: task_type
  tk_status :: task_status
  tk_title :: string
  tk_createdAt :: string
  tk_updatedAt :: string

record task_draft_row =
  tf_id :: string
  tf_taskId :: string
  tf_description :: string
  tf_scope :: string
  tf_revision :: int
  tf_updatedAt :: string

record task_spec_version_row =
  ts_id :: string
  ts_taskId :: string
  ts_sequence :: int
  ts_description :: string
  ts_scope :: string
  ts_contentHash :: string
  ts_createdAt :: string

datatype verification_method =
  AUTOMATED_TEST | MANUAL_REVIEW | ARTIFACT_CHECK | STRUCTURED_ASSERTION

fun verification_method_str :: "verification_method \<Rightarrow> string" where
  "verification_method_str AUTOMATED_TEST = ''AUTOMATED_TEST''"
| "verification_method_str MANUAL_REVIEW = ''MANUAL_REVIEW''"
| "verification_method_str ARTIFACT_CHECK = ''ARTIFACT_CHECK''"
| "verification_method_str STRUCTURED_ASSERTION = ''STRUCTURED_ASSERTION''"

record acceptance_criterion_row =
  ac_id :: string
  ac_taskSpecVersionId :: string
  ac_position :: int
  ac_description :: string
  ac_verificationMethod :: verification_method

record task_target_row =
  tt_id :: string
  tt_taskSpecVersionId :: string
  tt_nodeId :: "string option"
  tt_nodeVersionId :: "string option"
  tt_position :: int

datatype dependency_type = HARD_BLOCK | SOFT_ORDER

fun dependency_type_str :: "dependency_type \<Rightarrow> string" where
  "dependency_type_str HARD_BLOCK = ''HARD_BLOCK''"
| "dependency_type_str SOFT_ORDER = ''SOFT_ORDER''"

record task_dependency_row =
  dp_id :: string
  dp_projectId :: string
  dp_taskId :: string
  dp_dependsOnTaskId :: string
  dp_type :: dependency_type
  dp_createdAt :: string

record project_baseline_row =
  bl_id :: string
  bl_projectId :: string
  bl_status :: baseline_status
  bl_name :: string
  bl_description :: "string option"
  bl_repositoryRevisionId :: "string option"
  bl_activatedAt :: "string option"
  bl_supersededAt :: "string option"
  bl_createdAt :: string
  bl_updatedAt :: string

record baseline_item_row =
  bi_id :: string
  bi_baselineId :: string
  bi_nodeVersionId :: string
  bi_position :: int

record content_blob_row =
  cb_id :: string
  cb_sizeBytes :: int
  cb_contentType :: string
  cb_createdAt :: string

record context_snapshot_row =
  sn_id :: string
  sn_projectId :: string
  sn_taskId :: string
  sn_taskSpecVersionId :: string
  sn_baseBaselineId :: string
  sn_expectedRepositoryRevisionId :: string
  sn_status :: snapshot_status
  sn_freshness :: snapshot_freshness
  sn_createdAt :: string
  sn_updatedAt :: string

record context_snapshot_item_row =
  si_id :: string
  si_contextSnapshotId :: string
  si_position :: int
  si_itemType :: context_item_type
  si_sourceRef :: string
  si_resolvedContent :: string
  si_contentHash :: string
  si_selectionReason :: "string option"
  si_authority :: context_authority
  si_priority :: context_priority
  si_tokenEstimate :: int
  si_blobId :: "string option"

datatype dispatch_outcome =
  VALIDATION_REJECTED | CLAIM_REJECTED | REVISION_MISMATCH | DO_SUCCEEDED | DO_PARTIAL | DO_CANCELLED

fun dispatch_outcome_str :: "dispatch_outcome \<Rightarrow> string" where
  "dispatch_outcome_str VALIDATION_REJECTED = ''VALIDATION_REJECTED''"
| "dispatch_outcome_str CLAIM_REJECTED = ''CLAIM_REJECTED''"
| "dispatch_outcome_str REVISION_MISMATCH = ''REVISION_MISMATCH''"
| "dispatch_outcome_str DO_SUCCEEDED = ''SUCCEEDED''"
| "dispatch_outcome_str DO_PARTIAL = ''PARTIAL''"
| "dispatch_outcome_str DO_CANCELLED = ''CANCELLED''"

datatype run_event_kind = DISPATCHED | FINISHED | INTERRUPTED

datatype artifact_kind = PATCH | TEST_RESULT | AGENT_SUMMARY | AGENT_PARTIAL

record run_row =
  rn_id :: string
  rn_projectId :: string
  rn_taskId :: string
  rn_taskSpecVersionId :: string
  rn_contextSnapshotId :: string
  rn_repositoryRevisionId :: string
  rn_status :: run_status
  rn_outcome :: "run_outcome option"
  rn_startedAt :: string
  rn_completedAt :: "string option"
  rn_createdAt :: string
  rn_updatedAt :: string

record execution_request_record_row =
  er_executionRequestId :: string
  er_runId :: string
  er_workerAttemptNumber :: int
  er_checkpointId :: "string option"
  er_requestHash :: string
  er_schemaVersion :: int
  er_requestJson :: string
  er_dispatchOutcome :: "dispatch_outcome option"
  er_claimGranted :: "bool option"
  er_rejectionReason :: "string option"
  er_revisionMismatchField :: "string option"
  er_revisionMismatchExpected :: "string option"
  er_revisionMismatchActual :: "string option"
  er_patchHash :: "string option"
  er_timedOut :: "bool option"
  er_recoveryJson :: "string option"
  er_dispatchedAt :: string
  er_completedAt :: "string option"

record run_event_row =
  re_id :: string
  re_runId :: string
  re_sequence :: int
  re_kind :: run_event_kind
  re_detail :: "string option"
  re_createdAt :: string

record artifact_row =
  ar_id :: string
  ar_runId :: string
  ar_executionRequestId :: string
  ar_kind :: artifact_kind
  ar_fileName :: string
  ar_content :: string
  ar_contentHash :: string
  ar_sizeBytes :: int
  ar_position :: int
  ar_createdAt :: string

datatype acceptance_status = AS_PASSED | AS_FAILED

datatype criterion_verdict = CV_PASSED | CV_FAILED

record acceptance_evaluation_row =
  ae_id :: string
  ae_projectId :: string
  ae_taskId :: string
  ae_taskSpecVersionId :: string
  ae_runId :: string
  ae_sequence :: int
  ae_status :: acceptance_status
  ae_createdAt :: string

record acceptance_evaluation_item_row =
  ai_id :: string
  ai_evaluationId :: string
  ai_criterionId :: string
  ai_verdict :: criterion_verdict
  ai_note :: "string option"
  ai_position :: int

datatype application_event_kind =
  AE_AUTHORIZED | AE_APPLYING | AE_APPLIED | AE_FAILED | AE_INTERRUPTED

record artifact_application_row =
  ap_id :: string
  ap_projectId :: string
  ap_taskId :: string
  ap_evaluationId :: string
  ap_runId :: string
  ap_executionRequestId :: string
  ap_artifactId :: string
  ap_baseBaselineId :: string
  ap_baseRepositoryRevisionId :: string
  ap_patchHash :: string
  ap_authorizedAt :: string

record artifact_application_event_row =
  ax_id :: string
  ax_applicationId :: string
  ax_sequence :: int
  ax_kind :: application_event_kind
  ax_repositoryRevisionId :: "string option"
  ax_reasonCode :: "string option"
  ax_detail :: "string option"
  ax_createdAt :: string

record baseline_candidate_source_row =
  bs_baselineId :: string
  bs_parentBaselineId :: string
  bs_taskId :: string
  bs_artifactApplicationId :: string

record audit_log_row =
  au_id :: int
  au_projectId :: "string option"
  au_entityType :: string
  au_entityId :: string
  au_action :: string
  au_payload :: string
  au_createdAt :: string

section \<open>The database\<close>

record database =
  projects :: "project_row list"
  repository_revisions :: "repository_revision_row list"
  nodes :: "node_row list"
  node_drafts :: "node_draft_row list"
  node_versions :: "node_version_row list"
  edges :: "edge_row list"
  tasks :: "task_row list"
  task_drafts :: "task_draft_row list"
  task_spec_versions :: "task_spec_version_row list"
  acceptance_criteria :: "acceptance_criterion_row list"
  task_targets :: "task_target_row list"
  task_dependencies :: "task_dependency_row list"
  project_baselines :: "project_baseline_row list"
  baseline_items :: "baseline_item_row list"
  content_blobs :: "content_blob_row list"
  context_snapshots :: "context_snapshot_row list"
  context_snapshot_items :: "context_snapshot_item_row list"
  runs :: "run_row list"
  execution_request_records :: "execution_request_record_row list"
  run_events :: "run_event_row list"
  artifacts :: "artifact_row list"
  acceptance_evaluations :: "acceptance_evaluation_row list"
  acceptance_evaluation_items :: "acceptance_evaluation_item_row list"
  artifact_applications :: "artifact_application_row list"
  artifact_application_events :: "artifact_application_event_row list"
  baseline_candidate_sources :: "baseline_candidate_source_row list"
  audit_log :: "audit_log_row list"
  audit_sequence :: int

definition empty_database :: database where
  "empty_database =
     \<lparr>projects = [], repository_revisions = [], nodes = [], node_drafts = [], node_versions = [],
      edges = [], tasks = [], task_drafts = [], task_spec_versions = [], acceptance_criteria = [],
      task_targets = [], task_dependencies = [], project_baselines = [], baseline_items = [],
      content_blobs = [], context_snapshots = [], context_snapshot_items = [], runs = [],
      execution_request_records = [], run_events = [], artifacts = [],
      acceptance_evaluations = [], acceptance_evaluation_items = [],
      artifact_applications = [], artifact_application_events = [],
      baseline_candidate_sources = [], audit_log = [], audit_sequence = 0\<rparr>"

section \<open>Constraints on new rows\<close>

datatype sqlite_error =
  CheckViolation string
| UniqueViolation string
| ForeignKeyViolation string
| TriggerAbort string
| NestedTransaction

fun violation :: "(bool \<times> sqlite_error) list \<Rightarrow> sqlite_error option" where
  "violation [] = None"
| "violation ((broken, e) # cs) = (if broken then Some e else violation cs)"

text \<open>\<open>missing k rs v\<close>: no row has key \<open>v\<close>; a \<open>NULL\<close> reference is never missing.\<close>

abbreviation missing :: "('r \<Rightarrow> 'k) \<Rightarrow> 'r list \<Rightarrow> 'k \<Rightarrow> bool" where
  "missing k rs v \<equiv> v \<notin> k ` set rs"

definition missing_opt :: "('r \<Rightarrow> 'k) \<Rightarrow> 'r list \<Rightarrow> 'k option \<Rightarrow> bool" where
  "missing_opt k rs v = (case v of None \<Rightarrow> False | Some x \<Rightarrow> missing k rs x)"

lemma missing_opt_simps [simp]:
  "missing_opt k rs None = False" "missing_opt k rs (Some x) = missing k rs x"
  by (simp_all add: missing_opt_def)

definition project_viol :: "database \<Rightarrow> project_row \<Rightarrow> sqlite_error option" where
  [viol_defs]: "project_viol d r =
     violation [(pr_id r \<in> pr_id ` set (projects d), UniqueViolation ''project.id'')]"

definition revision_key :: "repository_revision_row \<Rightarrow> string \<times> string \<times> string option" where
  "revision_key r = (rr_baseCommit r, rr_treeHash r, rr_workingTreePatchHash r)"

definition repository_revision_viol ::
  "database \<Rightarrow> repository_revision_row \<Rightarrow> sqlite_error option" where
  [viol_defs]: "repository_revision_viol d r =
     violation
       [(rr_id r \<in> rr_id ` set (repository_revisions d), UniqueViolation ''repository_revision.id''),
        (rr_workingTreePatchHash r \<noteq> None
           \<and> revision_key r \<in> revision_key ` set (repository_revisions d),
         UniqueViolation ''repository_revision_unique'')]"

definition node_viol :: "database \<Rightarrow> node_row \<Rightarrow> sqlite_error option" where
  [viol_defs]: "node_viol d r =
     violation
       [(nd_id r \<in> nd_id ` set (nodes d), UniqueViolation ''node.id''),
        (missing pr_id (projects d) (nd_projectId r), ForeignKeyViolation ''node.project_id'')]"

definition node_draft_viol :: "database \<Rightarrow> node_draft_row \<Rightarrow> sqlite_error option" where
  [viol_defs]: "node_draft_viol d r =
     violation
       [(nf_id r \<in> nf_id ` set (node_drafts d), UniqueViolation ''node_draft.id''),
        (nf_nodeId r \<in> nf_nodeId ` set (node_drafts d), UniqueViolation ''node_draft.node_id''),
        (missing nd_id (nodes d) (nf_nodeId r), ForeignKeyViolation ''node_draft.node_id'')]"

definition nv_key :: "node_version_row \<Rightarrow> string \<times> int" where
  "nv_key r = (nv_nodeId r, nv_sequence r)"

definition node_version_viol :: "database \<Rightarrow> node_version_row \<Rightarrow> sqlite_error option" where
  [viol_defs]: "node_version_viol d r =
     violation
       [(nv_id r \<in> nv_id ` set (node_versions d), UniqueViolation ''node_version.id''),
        (nv_key r \<in> nv_key ` set (node_versions d), UniqueViolation ''node_version_node_sequence''),
        (missing nd_id (nodes d) (nv_nodeId r), ForeignKeyViolation ''node_version.node_id'')]"

definition edge_viol :: "database \<Rightarrow> edge_row \<Rightarrow> sqlite_error option" where
  [viol_defs]: "edge_viol d r =
     violation
       [(eg_sourceNodeId r = eg_targetNodeId r, CheckViolation ''edge_no_self_link''),
        (eg_id r \<in> eg_id ` set (edges d), UniqueViolation ''edge.id''),
        (missing pr_id (projects d) (eg_projectId r), ForeignKeyViolation ''edge.project_id''),
        (missing nd_id (nodes d) (eg_sourceNodeId r), ForeignKeyViolation ''edge.source_node_id''),
        (missing nd_id (nodes d) (eg_targetNodeId r), ForeignKeyViolation ''edge.target_node_id''),
        (missing_opt nv_id (node_versions d) (eg_anchoredNodeVersionId r),
         ForeignKeyViolation ''edge.anchored_node_version_id'')]"

definition task_viol :: "database \<Rightarrow> task_row \<Rightarrow> sqlite_error option" where
  [viol_defs]: "task_viol d r =
     violation
       [(tk_id r \<in> tk_id ` set (tasks d), UniqueViolation ''task.id''),
        (missing pr_id (projects d) (tk_projectId r), ForeignKeyViolation ''task.project_id'')]"

definition task_draft_viol :: "database \<Rightarrow> task_draft_row \<Rightarrow> sqlite_error option" where
  [viol_defs]: "task_draft_viol d r =
     violation
       [(tf_id r \<in> tf_id ` set (task_drafts d), UniqueViolation ''task_draft.id''),
        (tf_taskId r \<in> tf_taskId ` set (task_drafts d), UniqueViolation ''task_draft.task_id''),
        (missing tk_id (tasks d) (tf_taskId r), ForeignKeyViolation ''task_draft.task_id'')]"

definition ts_key :: "task_spec_version_row \<Rightarrow> string \<times> int" where
  "ts_key r = (ts_taskId r, ts_sequence r)"

definition task_spec_version_viol ::
  "database \<Rightarrow> task_spec_version_row \<Rightarrow> sqlite_error option" where
  [viol_defs]: "task_spec_version_viol d r =
     violation
       [(ts_id r \<in> ts_id ` set (task_spec_versions d), UniqueViolation ''task_spec_version.id''),
        (ts_key r \<in> ts_key ` set (task_spec_versions d),
         UniqueViolation ''task_spec_version_task_sequence''),
        (missing tk_id (tasks d) (ts_taskId r), ForeignKeyViolation ''task_spec_version.task_id'')]"

definition ac_key :: "acceptance_criterion_row \<Rightarrow> string \<times> int" where
  "ac_key r = (ac_taskSpecVersionId r, ac_position r)"

definition acceptance_criterion_viol ::
  "database \<Rightarrow> acceptance_criterion_row \<Rightarrow> sqlite_error option" where
  [viol_defs]: "acceptance_criterion_viol d r =
     violation
       [(ac_id r \<in> ac_id ` set (acceptance_criteria d), UniqueViolation ''acceptance_criterion.id''),
        (ac_key r \<in> ac_key ` set (acceptance_criteria d),
         UniqueViolation ''acceptance_criterion_position''),
        (missing ts_id (task_spec_versions d) (ac_taskSpecVersionId r),
         ForeignKeyViolation ''acceptance_criterion.task_spec_version_id'')]"

definition tt_key :: "task_target_row \<Rightarrow> string \<times> int" where
  "tt_key r = (tt_taskSpecVersionId r, tt_position r)"

definition task_target_viol :: "database \<Rightarrow> task_target_row \<Rightarrow> sqlite_error option" where
  [viol_defs]: "task_target_viol d r =
     violation
       [(tt_nodeId r = None \<and> tt_nodeVersionId r = None, CheckViolation ''task_target_has_reference''),
        (tt_id r \<in> tt_id ` set (task_targets d), UniqueViolation ''task_target.id''),
        (tt_key r \<in> tt_key ` set (task_targets d), UniqueViolation ''task_target_position''),
        (missing ts_id (task_spec_versions d) (tt_taskSpecVersionId r),
         ForeignKeyViolation ''task_target.task_spec_version_id''),
        (missing_opt nd_id (nodes d) (tt_nodeId r), ForeignKeyViolation ''task_target.node_id''),
        (missing_opt nv_id (node_versions d) (tt_nodeVersionId r),
         ForeignKeyViolation ''task_target.node_version_id'')]"

definition dp_key :: "task_dependency_row \<Rightarrow> string \<times> string" where
  "dp_key r = (dp_taskId r, dp_dependsOnTaskId r)"

definition task_dependency_viol :: "database \<Rightarrow> task_dependency_row \<Rightarrow> sqlite_error option" where
  [viol_defs]: "task_dependency_viol d r =
     violation
       [(dp_taskId r = dp_dependsOnTaskId r, CheckViolation ''task_dependency_no_self''),
        (dp_id r \<in> dp_id ` set (task_dependencies d), UniqueViolation ''task_dependency.id''),
        (dp_key r \<in> dp_key ` set (task_dependencies d), UniqueViolation ''task_dependency_pair''),
        (missing pr_id (projects d) (dp_projectId r), ForeignKeyViolation ''task_dependency.project_id''),
        (missing tk_id (tasks d) (dp_taskId r), ForeignKeyViolation ''task_dependency.task_id''),
        (missing tk_id (tasks d) (dp_dependsOnTaskId r),
         ForeignKeyViolation ''task_dependency.depends_on_task_id'')]"

text \<open>The partial unique index \<open>project_baseline_one_active\<close> covers the ACTIVE rows only.\<close>

definition second_active :: "project_baseline_row list \<Rightarrow> project_baseline_row \<Rightarrow> bool" where
  "second_active rs r \<longleftrightarrow>
     bl_status r = BS_ACTIVE
     \<and> (\<exists>b\<in>set rs. bl_id b \<noteq> bl_id r \<and> bl_projectId b = bl_projectId r \<and> bl_status b = BS_ACTIVE)"

definition project_baseline_viol :: "database \<Rightarrow> project_baseline_row \<Rightarrow> sqlite_error option" where
  [viol_defs]: "project_baseline_viol d r =
     violation
       [(bl_id r \<in> bl_id ` set (project_baselines d), UniqueViolation ''project_baseline.id''),
        (second_active (project_baselines d) r, UniqueViolation ''project_baseline_one_active''),
        (missing pr_id (projects d) (bl_projectId r), ForeignKeyViolation ''project_baseline.project_id''),
        (missing_opt rr_id (repository_revisions d) (bl_repositoryRevisionId r),
         ForeignKeyViolation ''project_baseline.repository_revision_id'')]"

definition bi_key :: "baseline_item_row \<Rightarrow> string \<times> int" where
  "bi_key r = (bi_baselineId r, bi_position r)"

definition bi_version_key :: "baseline_item_row \<Rightarrow> string \<times> string" where
  "bi_version_key r = (bi_baselineId r, bi_nodeVersionId r)"

definition baseline_item_viol :: "database \<Rightarrow> baseline_item_row \<Rightarrow> sqlite_error option" where
  [viol_defs]: "baseline_item_viol d r =
     violation
       [(bi_id r \<in> bi_id ` set (baseline_items d), UniqueViolation ''baseline_item.id''),
        (bi_key r \<in> bi_key ` set (baseline_items d), UniqueViolation ''baseline_item_position''),
        (bi_version_key r \<in> bi_version_key ` set (baseline_items d),
         UniqueViolation ''baseline_item_node_version''),
        (missing bl_id (project_baselines d) (bi_baselineId r),
         ForeignKeyViolation ''baseline_item.baseline_id''),
        (missing nv_id (node_versions d) (bi_nodeVersionId r),
         ForeignKeyViolation ''baseline_item.node_version_id'')]"

definition content_blob_viol :: "database \<Rightarrow> content_blob_row \<Rightarrow> sqlite_error option" where
  [viol_defs]: "content_blob_viol d r =
     violation [(cb_id r \<in> cb_id ` set (content_blobs d), UniqueViolation ''content_blob.id'')]"

definition context_snapshot_viol :: "database \<Rightarrow> context_snapshot_row \<Rightarrow> sqlite_error option" where
  [viol_defs]: "context_snapshot_viol d r =
     violation
       [(sn_id r \<in> sn_id ` set (context_snapshots d), UniqueViolation ''context_snapshot.id''),
        (missing pr_id (projects d) (sn_projectId r), ForeignKeyViolation ''context_snapshot.project_id''),
        (missing tk_id (tasks d) (sn_taskId r), ForeignKeyViolation ''context_snapshot.task_id''),
        (missing ts_id (task_spec_versions d) (sn_taskSpecVersionId r),
         ForeignKeyViolation ''context_snapshot.task_spec_version_id''),
        (missing bl_id (project_baselines d) (sn_baseBaselineId r),
         ForeignKeyViolation ''context_snapshot.base_baseline_id''),
        (missing rr_id (repository_revisions d) (sn_expectedRepositoryRevisionId r),
         ForeignKeyViolation ''context_snapshot.expected_repository_revision_id'')]"

definition si_key :: "context_snapshot_item_row \<Rightarrow> string \<times> int" where
  "si_key r = (si_contextSnapshotId r, si_position r)"

text \<open>
  The triggers of \<open>installGuards\<close>, by the statement they guard. No command issues an
  UPDATE or DELETE on the immutable tables, so of these only the guards on a snapshot
  update and on an item insert are ever consulted by the statements of \<open>Store\<close>.
\<close>

datatype guarded_statement =
  UPDATE_node_version | DELETE_node_version
| UPDATE_task_spec_version | DELETE_task_spec_version
| UPDATE_context_snapshot context_snapshot_row | DELETE_context_snapshot context_snapshot_row
| INSERT_context_snapshot_item context_snapshot_item_row
| UPDATE_context_snapshot_item context_snapshot_item_row
| DELETE_context_snapshot_item context_snapshot_item_row
| UPDATE_audit_log | DELETE_audit_log

definition in_frozen_snapshot :: "database \<Rightarrow> context_snapshot_item_row \<Rightarrow> bool" where
  "in_frozen_snapshot d r \<longleftrightarrow>
     (\<exists>s\<in>set (context_snapshots d). sn_id s = si_contextSnapshotId r \<and> sn_status s = SS_FROZEN)"

fun installGuards :: "database \<Rightarrow> guarded_statement \<Rightarrow> sqlite_error option" where
  "installGuards d UPDATE_node_version = Some (TriggerAbort ''node_version rows are immutable'')"
| "installGuards d DELETE_node_version = Some (TriggerAbort ''node_version rows are immutable'')"
| "installGuards d UPDATE_task_spec_version = Some (TriggerAbort ''task_spec_version rows are immutable'')"
| "installGuards d DELETE_task_spec_version = Some (TriggerAbort ''task_spec_version rows are immutable'')"
| "installGuards d (UPDATE_context_snapshot old) =
     (if sn_status old = SS_FROZEN then Some (TriggerAbort ''frozen context_snapshot rows are immutable'') else None)"
| "installGuards d (DELETE_context_snapshot old) =
     (if sn_status old = SS_FROZEN then Some (TriggerAbort ''frozen context_snapshot rows are immutable'') else None)"
| "installGuards d (INSERT_context_snapshot_item new) =
     (if in_frozen_snapshot d new then Some (TriggerAbort ''frozen context_snapshot items are immutable'') else None)"
| "installGuards d (UPDATE_context_snapshot_item old) =
     (if in_frozen_snapshot d old then Some (TriggerAbort ''frozen context_snapshot items are immutable'') else None)"
| "installGuards d (DELETE_context_snapshot_item old) =
     (if in_frozen_snapshot d old then Some (TriggerAbort ''frozen context_snapshot items are immutable'') else None)"
| "installGuards d UPDATE_audit_log = Some (TriggerAbort ''audit_log is append-only'')"
| "installGuards d DELETE_audit_log = Some (TriggerAbort ''audit_log is append-only'')"

definition context_snapshot_item_viol ::
  "database \<Rightarrow> context_snapshot_item_row \<Rightarrow> sqlite_error option" where
  [viol_defs]: "context_snapshot_item_viol d r =
     violation
       [(installGuards d (INSERT_context_snapshot_item r) \<noteq> None,
         TriggerAbort ''frozen context_snapshot items are immutable''),
        (si_id r \<in> si_id ` set (context_snapshot_items d), UniqueViolation ''context_snapshot_item.id''),
        (si_key r \<in> si_key ` set (context_snapshot_items d),
         UniqueViolation ''context_snapshot_item_position''),
        (missing sn_id (context_snapshots d) (si_contextSnapshotId r),
         ForeignKeyViolation ''context_snapshot_item.context_snapshot_id''),
        (missing_opt cb_id (content_blobs d) (si_blobId r),
         ForeignKeyViolation ''context_snapshot_item.blob_id'')]"

definition run_viol :: "database \<Rightarrow> run_row \<Rightarrow> sqlite_error option" where
  [viol_defs]: "run_viol d r =
     violation
       [(rn_id r \<in> rn_id ` set (runs d), UniqueViolation ''run.id''),
        (missing pr_id (projects d) (rn_projectId r), ForeignKeyViolation ''run.project_id''),
        (missing tk_id (tasks d) (rn_taskId r), ForeignKeyViolation ''run.task_id''),
        (missing ts_id (task_spec_versions d) (rn_taskSpecVersionId r),
         ForeignKeyViolation ''run.task_spec_version_id''),
        (missing sn_id (context_snapshots d) (rn_contextSnapshotId r),
         ForeignKeyViolation ''run.context_snapshot_id''),
        (missing rr_id (repository_revisions d) (rn_repositoryRevisionId r),
         ForeignKeyViolation ''run.repository_revision_id'')]"

definition execution_request_record_viol ::
  "database \<Rightarrow> execution_request_record_row \<Rightarrow> sqlite_error option" where
  [viol_defs]: "execution_request_record_viol d r =
     violation
       [(er_executionRequestId r \<in> er_executionRequestId ` set (execution_request_records d),
         UniqueViolation ''execution_request_record.execution_request_id''),
        (missing rn_id (runs d) (er_runId r), ForeignKeyViolation ''execution_request_record.run_id'')]"

definition re_key :: "run_event_row \<Rightarrow> string \<times> int" where
  "re_key r = (re_runId r, re_sequence r)"

definition run_event_viol :: "database \<Rightarrow> run_event_row \<Rightarrow> sqlite_error option" where
  [viol_defs]: "run_event_viol d r =
     violation
       [(re_id r \<in> re_id ` set (run_events d), UniqueViolation ''run_event.id''),
        (re_key r \<in> re_key ` set (run_events d), UniqueViolation ''run_event_run_sequence''),
        (missing rn_id (runs d) (re_runId r), ForeignKeyViolation ''run_event.run_id'')]"

definition ar_key :: "artifact_row \<Rightarrow> string \<times> int" where
  "ar_key r = (ar_executionRequestId r, ar_position r)"

definition artifact_viol :: "database \<Rightarrow> artifact_row \<Rightarrow> sqlite_error option" where
  [viol_defs]: "artifact_viol d r =
     violation
       [(ar_id r \<in> ar_id ` set (artifacts d), UniqueViolation ''artifact.id''),
        (ar_key r \<in> ar_key ` set (artifacts d), UniqueViolation ''artifact_request_position''),
        (missing rn_id (runs d) (ar_runId r), ForeignKeyViolation ''artifact.run_id''),
        (missing er_executionRequestId (execution_request_records d) (ar_executionRequestId r),
         ForeignKeyViolation ''artifact.execution_request_id'')]"

definition ae_key :: "acceptance_evaluation_row \<Rightarrow> string \<times> int" where
  "ae_key r = (ae_taskId r, ae_sequence r)"

definition acceptance_evaluation_viol ::
  "database \<Rightarrow> acceptance_evaluation_row \<Rightarrow> sqlite_error option" where
  [viol_defs]: "acceptance_evaluation_viol d r =
     violation
       [(ae_id r \<in> ae_id ` set (acceptance_evaluations d), UniqueViolation ''acceptance_evaluation.id''),
        (ae_key r \<in> ae_key ` set (acceptance_evaluations d),
         UniqueViolation ''acceptance_evaluation_task_sequence''),
        (missing pr_id (projects d) (ae_projectId r),
         ForeignKeyViolation ''acceptance_evaluation.project_id''),
        (missing tk_id (tasks d) (ae_taskId r), ForeignKeyViolation ''acceptance_evaluation.task_id''),
        (missing ts_id (task_spec_versions d) (ae_taskSpecVersionId r),
         ForeignKeyViolation ''acceptance_evaluation.task_spec_version_id''),
        (missing rn_id (runs d) (ae_runId r), ForeignKeyViolation ''acceptance_evaluation.run_id'')]"

definition ai_criterion_key :: "acceptance_evaluation_item_row \<Rightarrow> string \<times> string" where
  "ai_criterion_key r = (ai_evaluationId r, ai_criterionId r)"

definition ai_key :: "acceptance_evaluation_item_row \<Rightarrow> string \<times> int" where
  "ai_key r = (ai_evaluationId r, ai_position r)"

definition acceptance_evaluation_item_viol ::
  "database \<Rightarrow> acceptance_evaluation_item_row \<Rightarrow> sqlite_error option" where
  [viol_defs]: "acceptance_evaluation_item_viol d r =
     violation
       [(ai_id r \<in> ai_id ` set (acceptance_evaluation_items d),
         UniqueViolation ''acceptance_evaluation_item.id''),
        (ai_criterion_key r \<in> ai_criterion_key ` set (acceptance_evaluation_items d),
         UniqueViolation ''acceptance_item_evaluation_criterion''),
        (ai_key r \<in> ai_key ` set (acceptance_evaluation_items d),
         UniqueViolation ''acceptance_item_evaluation_position''),
        (missing ae_id (acceptance_evaluations d) (ai_evaluationId r),
         ForeignKeyViolation ''acceptance_evaluation_item.evaluation_id''),
        (missing ac_id (acceptance_criteria d) (ai_criterionId r),
         ForeignKeyViolation ''acceptance_evaluation_item.criterion_id'')]"

definition artifact_application_viol ::
  "database \<Rightarrow> artifact_application_row \<Rightarrow> sqlite_error option" where
  [viol_defs]: "artifact_application_viol d r =
     violation
       [(ap_id r \<in> ap_id ` set (artifact_applications d), UniqueViolation ''artifact_application.id''),
        (ap_taskId r \<in> ap_taskId ` set (artifact_applications d),
         UniqueViolation ''artifact_application_task''),
        (ap_artifactId r \<in> ap_artifactId ` set (artifact_applications d),
         UniqueViolation ''artifact_application_artifact''),
        (missing pr_id (projects d) (ap_projectId r),
         ForeignKeyViolation ''artifact_application.project_id''),
        (missing tk_id (tasks d) (ap_taskId r), ForeignKeyViolation ''artifact_application.task_id''),
        (missing ae_id (acceptance_evaluations d) (ap_evaluationId r),
         ForeignKeyViolation ''artifact_application.evaluation_id''),
        (missing rn_id (runs d) (ap_runId r), ForeignKeyViolation ''artifact_application.run_id''),
        (missing ar_id (artifacts d) (ap_artifactId r),
         ForeignKeyViolation ''artifact_application.artifact_id''),
        (missing bl_id (project_baselines d) (ap_baseBaselineId r),
         ForeignKeyViolation ''artifact_application.base_baseline_id'')]"

definition ax_key :: "artifact_application_event_row \<Rightarrow> string \<times> int" where
  "ax_key r = (ax_applicationId r, ax_sequence r)"

definition artifact_application_event_viol ::
  "database \<Rightarrow> artifact_application_event_row \<Rightarrow> sqlite_error option" where
  [viol_defs]: "artifact_application_event_viol d r =
     violation
       [(ax_id r \<in> ax_id ` set (artifact_application_events d),
         UniqueViolation ''artifact_application_event.id''),
        (ax_key r \<in> ax_key ` set (artifact_application_events d),
         UniqueViolation ''artifact_application_event_sequence''),
        (missing ap_id (artifact_applications d) (ax_applicationId r),
         ForeignKeyViolation ''artifact_application_event.application_id'')]"

definition baseline_candidate_source_viol ::
  "database \<Rightarrow> baseline_candidate_source_row \<Rightarrow> sqlite_error option" where
  [viol_defs]: "baseline_candidate_source_viol d r =
     violation
       [(bs_baselineId r \<in> bs_baselineId ` set (baseline_candidate_sources d),
         UniqueViolation ''baseline_candidate_source.baseline_id''),
        (bs_artifactApplicationId r \<in> bs_artifactApplicationId ` set (baseline_candidate_sources d),
         UniqueViolation ''baseline_candidate_source_application''),
        (missing bl_id (project_baselines d) (bs_baselineId r),
         ForeignKeyViolation ''baseline_candidate_source.baseline_id''),
        (missing bl_id (project_baselines d) (bs_parentBaselineId r),
         ForeignKeyViolation ''baseline_candidate_source.parent_baseline_id''),
        (missing tk_id (tasks d) (bs_taskId r), ForeignKeyViolation ''baseline_candidate_source.task_id''),
        (missing ap_id (artifact_applications d) (bs_artifactApplicationId r),
         ForeignKeyViolation ''baseline_candidate_source.artifact_application_id'')]"

definition audit_log_viol :: "database \<Rightarrow> audit_log_row \<Rightarrow> sqlite_error option" where
  [viol_defs]: "audit_log_viol d r =
     violation
       [(au_id r \<in> au_id ` set (audit_log d), UniqueViolation ''audit_log.id''),
        (missing_opt pr_id (projects d) (au_projectId r), ForeignKeyViolation ''audit_log.project_id'')]"

end
