(* ===== verification/Store.thy ===== *)
theory Store
  imports Schema
begin

text \<open>
  The execution model of the persistence commands: the errors of \<open>errors.ts\<close> (and the four of the
  desktop's \<open>command-errors.ts\<close>, which are thrown around the commands, never by them), the
  services of \<open>services.ts\<close>, the open database of \<open>db.ts\<close> with its transaction, and
  the SQL statements that the commands issue.

  A command is a function from the state to a result and a new state; a thrown error is
  the result \<open>Inl e\<close>, and the state is kept, because what a command wrote before it threw
  stays written unless a transaction rolls it back. The state holds the database, the
  snapshot that \<open>ROLLBACK\<close> restores while a transaction is open, and how many times
  the clock and the id generator have been called: the \<open>n\<close>-th call of \<open>now\<close> and
  \<open>nextId\<close> returns what the services give for \<open>n\<close>, so nothing is assumed about
  clock readings or about ids being fresh, and a rollback does not undo a call.

  The locale \<open>db_order\<close> is the interface of every argument about how the database may
  change: a reflexive and transitive relation that holds for the single statements holds
  for everything composed from them.
\<close>

section \<open>Errors, services and state\<close>

datatype error =
  NotFoundError string string
| ValidationError string
| SelfEdgeError string
| CycleError string string string
| ConcurrencyError string string int int
| Domain domain_error
| Sqlite sqlite_error
| PersistenceError string
| PlainError string
| HostUnavailableError string
| RepositoryUnavailableError string
| WorkspaceUnavailableError string
| AgentNotReadyError string

record services =
  sv_now :: "nat \<Rightarrow> string"
  sv_nextId :: "nat \<Rightarrow> string \<Rightarrow> string"
  sv_sha256Hex :: "string \<Rightarrow> string"

record persistence =
  db :: database
  tx :: "database option"
  nowCalls :: nat
  idCalls :: nat

type_synonym 'a cmd = "persistence \<Rightarrow> (error + 'a) \<times> persistence"

definition open_empty :: persistence where
  "open_empty = \<lparr>db = empty_database, tx = None, nowCalls = 0, idCalls = 0\<rparr>"

section \<open>Sequencing\<close>

definition ret :: "'a \<Rightarrow> 'a cmd" where
  [cmd_defs]: "ret x s = (Inr x, s)"

definition throw :: "error \<Rightarrow> 'a cmd" where
  [cmd_defs]: "throw e s = (Inl e, s)"

definition andThen :: "'a cmd \<Rightarrow> ('a \<Rightarrow> 'b cmd) \<Rightarrow> 'b cmd" where
  [cmd_defs]: "andThen m f s = (case m s of (Inl e, t) \<Rightarrow> (Inl e, t) | (Inr x, t) \<Rightarrow> f x t)"

definition throw_if :: "bool \<Rightarrow> error \<Rightarrow> unit cmd" where
  [cmd_defs]: "throw_if b e = (if b then throw e else ret ())"

definition query :: "(database \<Rightarrow> 'a) \<Rightarrow> 'a cmd" where
  [cmd_defs]: "query f s = (Inr (f (db s)), s)"

fun forEach :: "('a \<Rightarrow> 'b cmd) \<Rightarrow> 'a list \<Rightarrow> 'b list cmd" where
  "forEach f [] = ret []"
| "forEach f (x # xs) = andThen (f x) (\<lambda>y. andThen (forEach f xs) (\<lambda>ys. ret (y # ys)))"

definition require_some :: "error \<Rightarrow> 'a option \<Rightarrow> 'a cmd" where
  [cmd_defs]: "require_some e x = (case x of None \<Rightarrow> throw e | Some v \<Rightarrow> ret v)"

text \<open>\<open>.returning().all()[0]\<close> with the check that the row is there.\<close>

fun first_row :: "error \<Rightarrow> 'r list \<Rightarrow> 'r cmd" where
  "first_row e [] = throw e"
| "first_row e (r # rs) = ret r"

fun assert_domain :: "domain_error + unit \<Rightarrow> unit cmd" where
  "assert_domain (Inl e) = throw (Domain e)"
| "assert_domain (Inr u) = ret ()"

section \<open>Services\<close>

definition now :: "services \<Rightarrow> string cmd" where
  [cmd_defs]: "now sv s = (Inr (sv_now sv (nowCalls s)), s\<lparr>nowCalls := nowCalls s + 1\<rparr>)"

definition nextId :: "services \<Rightarrow> string \<Rightarrow> string cmd" where
  [cmd_defs]: "nextId sv prefix s =
     (Inr (sv_nextId sv (idCalls s) prefix), s\<lparr>idCalls := idCalls s + 1\<rparr>)"

definition or_nextId :: "services \<Rightarrow> string option \<Rightarrow> string \<Rightarrow> string cmd" where
  [cmd_defs]: "or_nextId sv given prefix =
     (case given of Some i \<Rightarrow> ret i | None \<Rightarrow> nextId sv prefix)"

definition sha256Hex :: "services \<Rightarrow> string \<Rightarrow> string" where
  "sha256Hex sv content = sv_sha256Hex sv content"

definition canonicalContent :: "string \<Rightarrow> string \<Rightarrow> string" where
  "canonicalContent title body = stringify (JObj [(''title'', JStr title), (''body'', JStr body)])"

definition taskSpecContentHash ::
  "services \<Rightarrow> string \<Rightarrow> string \<Rightarrow> string list \<Rightarrow> string list \<Rightarrow> string" where
  "taskSpecContentHash sv description scope targets criteria =
     sha256Hex sv (stringify (JObj
       [(''description'', JStr description), (''scope'', JStr scope),
        (''targets'', JArr (map JStr targets)), (''criteria'', JArr (map JStr criteria))]))"

section \<open>Transactions\<close>

text \<open>
  \<open>BEGIN IMMEDIATE\<close> inside an open transaction fails before the \<open>try\<close>; otherwise the
  database is saved, and an error restores it.
\<close>

definition withTransaction :: "'a cmd \<Rightarrow> 'a cmd" where
  "withTransaction work s =
     (if tx s \<noteq> None then (Inl (Sqlite NestedTransaction), s)
      else (case work (s\<lparr>tx := Some (db s)\<rparr>) of
        (Inr r, t) \<Rightarrow> (Inr r, t\<lparr>tx := None\<rparr>)
      | (Inl e, t) \<Rightarrow>
          (Inl e, t\<lparr>db := (case tx t of Some saved \<Rightarrow> saved | None \<Rightarrow> db t), tx := None\<rparr>)))"

section \<open>Statements\<close>

definition insert_into ::
  "(database \<Rightarrow> 'r \<Rightarrow> sqlite_error option) \<Rightarrow> (('r list \<Rightarrow> 'r list) \<Rightarrow> database \<Rightarrow> database)
   \<Rightarrow> 'r \<Rightarrow> 'r list cmd" where
  "insert_into viol upd r s =
     (case viol (db s) r of
        Some e \<Rightarrow> (Inl (Sqlite e), s)
      | None \<Rightarrow> (Inr [r], s\<lparr>db := upd (\<lambda>rs. rs @ [r]) (db s)\<rparr>))"

fun first_Some :: "'a option list \<Rightarrow> 'a option" where
  "first_Some [] = None"
| "first_Some (x # xs) = (case x of Some v \<Rightarrow> Some v | None \<Rightarrow> first_Some xs)"

definition update_where ::
  "(database \<Rightarrow> 'r list) \<Rightarrow> (('r list \<Rightarrow> 'r list) \<Rightarrow> database \<Rightarrow> database)
   \<Rightarrow> (database \<Rightarrow> 'r \<Rightarrow> 'r \<Rightarrow> sqlite_error option) \<Rightarrow> ('r \<Rightarrow> bool) \<Rightarrow> ('r \<Rightarrow> 'r) \<Rightarrow> 'r list cmd" where
  "update_where get upd viol P f s =
     (let hits = filter P (get (db s))
      in case first_Some (map (\<lambda>r. viol (db s) r (f r)) hits) of
           Some e \<Rightarrow> (Inl (Sqlite e), s)
         | None \<Rightarrow> (Inr (map f hits), s\<lparr>db := upd (map_where P f) (db s)\<rparr>))"

definition unconstrained :: "database \<Rightarrow> 'r \<Rightarrow> 'r \<Rightarrow> sqlite_error option" where
  "unconstrained d old new = None"

definition guard_frozen_snapshot_no_update ::
  "database \<Rightarrow> context_snapshot_row \<Rightarrow> context_snapshot_row \<Rightarrow> sqlite_error option" where
  "guard_frozen_snapshot_no_update d old new = installGuards d (UPDATE_context_snapshot old)"

definition one_active_on_update ::
  "database \<Rightarrow> project_baseline_row \<Rightarrow> project_baseline_row \<Rightarrow> sqlite_error option" where
  "one_active_on_update d old new =
     violation [(second_active (project_baselines d) new, UniqueViolation ''project_baseline_one_active'')]"

abbreviation insert_project where "insert_project \<equiv> insert_into project_viol projects_update"
abbreviation insert_revision where
  "insert_revision \<equiv> insert_into repository_revision_viol repository_revisions_update"
abbreviation insert_node where "insert_node \<equiv> insert_into node_viol nodes_update"
abbreviation insert_node_draft where
  "insert_node_draft \<equiv> insert_into node_draft_viol node_drafts_update"
abbreviation insert_node_version where
  "insert_node_version \<equiv> insert_into node_version_viol node_versions_update"
abbreviation insert_edge where "insert_edge \<equiv> insert_into edge_viol edges_update"
abbreviation insert_task where "insert_task \<equiv> insert_into task_viol tasks_update"
abbreviation insert_task_draft where
  "insert_task_draft \<equiv> insert_into task_draft_viol task_drafts_update"
abbreviation insert_spec where
  "insert_spec \<equiv> insert_into task_spec_version_viol task_spec_versions_update"
abbreviation insert_criterion where
  "insert_criterion \<equiv> insert_into acceptance_criterion_viol acceptance_criteria_update"
abbreviation insert_target where "insert_target \<equiv> insert_into task_target_viol task_targets_update"
abbreviation insert_dependency where
  "insert_dependency \<equiv> insert_into task_dependency_viol task_dependencies_update"
abbreviation insert_baseline where
  "insert_baseline \<equiv> insert_into project_baseline_viol project_baselines_update"
abbreviation insert_baseline_item where
  "insert_baseline_item \<equiv> insert_into baseline_item_viol baseline_items_update"
abbreviation insert_blob where "insert_blob \<equiv> insert_into content_blob_viol content_blobs_update"
abbreviation insert_snapshot where
  "insert_snapshot \<equiv> insert_into context_snapshot_viol context_snapshots_update"
abbreviation insert_snapshot_item where
  "insert_snapshot_item \<equiv> insert_into context_snapshot_item_viol context_snapshot_items_update"
abbreviation insert_run where "insert_run \<equiv> insert_into run_viol runs_update"
abbreviation insert_request where
  "insert_request \<equiv> insert_into execution_request_record_viol execution_request_records_update"
abbreviation insert_run_event where
  "insert_run_event \<equiv> insert_into run_event_viol run_events_update"
abbreviation insert_artifact where "insert_artifact \<equiv> insert_into artifact_viol artifacts_update"
abbreviation insert_evaluation where
  "insert_evaluation \<equiv> insert_into acceptance_evaluation_viol acceptance_evaluations_update"
abbreviation insert_evaluation_item where
  "insert_evaluation_item \<equiv>
     insert_into acceptance_evaluation_item_viol acceptance_evaluation_items_update"
abbreviation insert_application where
  "insert_application \<equiv> insert_into artifact_application_viol artifact_applications_update"
abbreviation insert_application_event where
  "insert_application_event \<equiv>
     insert_into artifact_application_event_viol artifact_application_events_update"
abbreviation insert_candidate_source where
  "insert_candidate_source \<equiv>
     insert_into baseline_candidate_source_viol baseline_candidate_sources_update"

definition audit_push :: "(audit_log_row list \<Rightarrow> audit_log_row list) \<Rightarrow> database \<Rightarrow> database" where
  "audit_push f d = d\<lparr>audit_log := f (audit_log d), audit_sequence := audit_sequence d + 1\<rparr>"

abbreviation insert_audit where "insert_audit \<equiv> insert_into audit_log_viol audit_push"

abbreviation update_nodes where "update_nodes \<equiv> update_where nodes nodes_update unconstrained"
abbreviation update_node_drafts where
  "update_node_drafts \<equiv> update_where node_drafts node_drafts_update unconstrained"
abbreviation update_tasks where "update_tasks \<equiv> update_where tasks tasks_update unconstrained"
abbreviation update_task_drafts where
  "update_task_drafts \<equiv> update_where task_drafts task_drafts_update unconstrained"
abbreviation update_baselines where
  "update_baselines \<equiv> update_where project_baselines project_baselines_update one_active_on_update"
abbreviation update_snapshots where
  "update_snapshots \<equiv>
     update_where context_snapshots context_snapshots_update guard_frozen_snapshot_no_update"
abbreviation update_runs where "update_runs \<equiv> update_where runs runs_update unconstrained"
abbreviation update_requests where
  "update_requests \<equiv>
     update_where execution_request_records execution_request_records_update unconstrained"

section \<open>Inversion of success\<close>

lemma andThen_ok [ok_simps]:
  "andThen m f s = (Inr r, t) \<longleftrightarrow> (\<exists>x u. m s = (Inr x, u) \<and> f x u = (Inr r, t))"
  by (auto simp: andThen_def split: prod.splits sum.splits)

lemma ret_ok [ok_simps]: "ret x s = (Inr r, t) \<longleftrightarrow> r = x \<and> t = s"
  by (auto simp: ret_def)

lemma throw_ok [ok_simps]: "throw e s = (Inr r, t) \<longleftrightarrow> False"
  by (simp add: throw_def)

lemma throw_if_ok [ok_simps]: "throw_if b e s = (Inr r, t) \<longleftrightarrow> \<not> b \<and> t = s"
  by (auto simp: throw_if_def ok_simps)

lemma query_ok [ok_simps]: "query f s = (Inr r, t) \<longleftrightarrow> r = f (db s) \<and> t = s"
  by (auto simp: query_def)

lemma require_some_ok [ok_simps]: "require_some e x s = (Inr r, t) \<longleftrightarrow> x = Some r \<and> t = s"
  by (auto simp: require_some_def ok_simps split: option.splits)

lemma now_ok [ok_simps]:
  "now sv s = (Inr r, t) \<longleftrightarrow> r = sv_now sv (nowCalls s) \<and> t = s\<lparr>nowCalls := nowCalls s + 1\<rparr>"
  by (auto simp: now_def)

lemma nextId_ok [ok_simps]:
  "nextId sv p s = (Inr r, t) \<longleftrightarrow> r = sv_nextId sv (idCalls s) p \<and> t = s\<lparr>idCalls := idCalls s + 1\<rparr>"
  by (auto simp: nextId_def)

lemma first_row_ok [ok_simps]: "first_row e rs s = (Inr r, t) \<longleftrightarrow> (\<exists>us. rs = r # us) \<and> t = s"
  by (cases rs) (auto simp: ok_simps)

lemma assert_domain_ok [ok_simps]: "assert_domain x s = (Inr r, t) \<longleftrightarrow> x = Inr () \<and> t = s"
  by (cases x) (auto simp: ok_simps)

lemma insert_into_ok [ok_simps]:
  "insert_into viol upd row s = (Inr r, t) \<longleftrightarrow>
     viol (db s) row = None \<and> r = [row] \<and> t = s\<lparr>db := upd (\<lambda>rs. rs @ [row]) (db s)\<rparr>"
  by (auto simp: insert_into_def split: option.splits)

lemma first_Some_None [simp]: "first_Some xs = None \<longleftrightarrow> (\<forall>x\<in>set xs. x = None)"
  by (induction xs) (auto split: option.splits)

lemma first_Some_SomeD: "first_Some xs = Some e \<Longrightarrow> Some e \<in> set xs"
  by (induction xs) (auto split: option.splits)

lemma update_where_ok [ok_simps]:
  "update_where get upd viol P f s = (Inr r, t) \<longleftrightarrow>
     (\<forall>x\<in>set (get (db s)). P x \<longrightarrow> viol (db s) x (f x) = None)
     \<and> r = map f (filter P (get (db s))) \<and> t = s\<lparr>db := upd (map_where P f) (db s)\<rparr>"
  by (auto simp: update_where_def Let_def split: option.splits dest!: first_Some_SomeD)

lemma withTransaction_ok [ok_simps]:
  "withTransaction m s = (Inr r, t) \<longleftrightarrow>
     tx s = None \<and> (\<exists>u. m (s\<lparr>tx := Some (db s)\<rparr>) = (Inr r, u) \<and> t = u\<lparr>tx := None\<rparr>)"
  by (auto simp: withTransaction_def split: prod.splits sum.splits)

section \<open>How the database changes\<close>

definition evolves_at :: "(database \<Rightarrow> database \<Rightarrow> bool) \<Rightarrow> 'a cmd \<Rightarrow> persistence \<Rightarrow> bool" where
  "evolves_at R m s \<longleftrightarrow> R (db s) (db (snd (m s))) \<and> tx (snd (m s)) = tx s"

definition evolves :: "(database \<Rightarrow> database \<Rightarrow> bool) \<Rightarrow> 'a cmd \<Rightarrow> bool" where
  "evolves R m \<longleftrightarrow> (\<forall>s. evolves_at R m s)"

lemma evolvesI: "(\<And>s. evolves_at R m s) \<Longrightarrow> evolves R m"
  by (simp add: evolves_def)

lemma evolvesD: "evolves R m \<Longrightarrow> evolves_at R m s"
  by (simp add: evolves_def)

lemma evolves_okD: "evolves R m \<Longrightarrow> m s = (Inr r, t) \<Longrightarrow> R (db s) (db t) \<and> tx t = tx s"
  by (metis evolves_at_def evolves_def snd_conv)

lemma evolves_mono: "evolves R m \<Longrightarrow> (\<And>d e. R d e \<Longrightarrow> Q d e) \<Longrightarrow> evolves Q m"
  by (auto simp: evolves_def evolves_at_def)

locale db_order =
  fixes R :: "database \<Rightarrow> database \<Rightarrow> bool"
  assumes refl: "R d d"
    and trans: "R a b \<Longrightarrow> R b c \<Longrightarrow> R a c"
begin

lemma ret: "evolves_at R (ret x) s"
  by (simp add: evolves_at_def ret_def refl)

lemma throw: "evolves_at R (throw e) s"
  by (simp add: evolves_at_def throw_def refl)

lemma throw_if: "evolves_at R (throw_if b e) s"
  by (simp add: throw_if_def ret throw)

lemma query: "evolves_at R (query f) s"
  by (simp add: evolves_at_def query_def refl)

lemma require_some: "evolves_at R (require_some e x) s"
  by (simp add: require_some_def ret throw split: option.split)

lemma first_row: "evolves_at R (first_row e rs) s"
  by (cases rs) (simp_all add: ret throw)

lemma assert_domain: "evolves_at R (assert_domain x) s"
  by (cases x) (simp_all add: ret throw)

lemma now: "evolves_at R (now sv) s"
  by (simp add: evolves_at_def now_def refl)

lemma nextId: "evolves_at R (nextId sv p) s"
  by (simp add: evolves_at_def nextId_def refl)

lemma or_nextId: "evolves_at R (or_nextId sv g p) s"
  by (simp add: or_nextId_def ret nextId split: option.split)

lemma andThen:
  assumes "evolves_at R m s" and "\<And>x t. m s = (Inr x, t) \<Longrightarrow> evolves_at R (f x) t"
  shows "evolves_at R (andThen m f) s"
proof (cases "m s")
  case (Pair res t)
  with assms show ?thesis
    by (cases res) (auto simp: evolves_at_def andThen_def intro: trans)
qed

lemma if_cmd:
  "(b \<Longrightarrow> evolves_at R m s) \<Longrightarrow> (\<not> b \<Longrightarrow> evolves_at R n s) \<Longrightarrow> evolves_at R (if b then m else n) s"
  by simp

lemma case_option_cmd:
  "(x = None \<Longrightarrow> evolves_at R m s) \<Longrightarrow> (\<And>v. x = Some v \<Longrightarrow> evolves_at R (f v) s)
    \<Longrightarrow> evolves_at R (case x of None \<Rightarrow> m | Some v \<Rightarrow> f v) s"
  by (cases x) auto

lemma case_sum_cmd:
  "(\<And>u. x = Inl u \<Longrightarrow> evolves_at R (f u) s) \<Longrightarrow> (\<And>v. x = Inr v \<Longrightarrow> evolves_at R (g v) s)
    \<Longrightarrow> evolves_at R (case x of Inl u \<Rightarrow> f u | Inr v \<Rightarrow> g v) s"
  by (cases x) auto

lemma forEach: "(\<And>x t. x \<in> set xs \<Longrightarrow> evolves_at R (f x) t) \<Longrightarrow> evolves_at R (forEach f xs) s"
  by (induction xs arbitrary: s) (auto intro!: ret andThen)

lemma insert_into:
  assumes "viol (db s) r = None \<Longrightarrow> R (db s) (upd (\<lambda>rs. rs @ [r]) (db s))"
  shows "evolves_at R (insert_into viol upd r) s"
  using assms by (auto simp: evolves_at_def insert_into_def refl split: option.split)

lemma update_where:
  assumes "(\<And>x. x \<in> set (get (db s)) \<Longrightarrow> P x \<Longrightarrow> viol (db s) x (f x) = None)
    \<Longrightarrow> R (db s) (upd (map_where P f) (db s))"
  shows "evolves_at R (update_where get upd viol P f) s"
  using assms by (auto simp: evolves_at_def update_where_def Let_def refl split: option.split)

lemma withTransaction:
  assumes "\<And>t. db t = db s \<Longrightarrow> tx t = Some (db s) \<Longrightarrow> evolves_at R m t"
  shows "evolves_at R (withTransaction m) s"
proof (cases "tx s")
  case None
  have "evolves_at R m (s\<lparr>tx := Some (db s)\<rparr>)" by (rule assms) simp_all
  with None show ?thesis
    by (auto simp: evolves_at_def withTransaction_def refl split: prod.split sum.split)
qed (simp add: evolves_at_def withTransaction_def refl)

lemmas basic = ret throw throw_if query require_some first_row assert_domain now nextId or_nextId
lemmas composed = andThen if_cmd case_option_cmd case_sum_cmd forEach withTransaction

end

text \<open>
  Two frames: what a command does not write stays (\<open>same_on f\<close> for a table \<open>f\<close>), and a
  command that only reads leaves the whole database alone (\<open>same_db\<close>).
\<close>

definition same_on :: "(database \<Rightarrow> 'a) \<Rightarrow> database \<Rightarrow> database \<Rightarrow> bool" where
  "same_on f d e \<longleftrightarrow> f e = f d"

interpretation fr: db_order "same_on f" for f :: "database \<Rightarrow> 'a"
  by unfold_locales (auto simp: same_on_def)

definition same_db :: "database \<Rightarrow> database \<Rightarrow> bool" where
  "same_db d e \<longleftrightarrow> e = d"

interpretation rd: db_order same_db
  by unfold_locales (auto simp: same_db_def)

section \<open>Errors without a trace\<close>

text \<open>A command is atomic at a state if an error leaves the database as it was.\<close>

definition atomic_at :: "'a cmd \<Rightarrow> persistence \<Rightarrow> bool" where
  "atomic_at m s \<longleftrightarrow> (\<forall>e. fst (m s) = Inl e \<longrightarrow> db (snd (m s)) = db s)"

definition succeeds_at :: "'a cmd \<Rightarrow> persistence \<Rightarrow> bool" where
  "succeeds_at m s \<longleftrightarrow> (\<exists>r. fst (m s) = Inr r)"

lemma atomic_readI: "evolves_at same_db m s \<Longrightarrow> atomic_at m s"
  by (simp add: atomic_at_def evolves_at_def same_db_def)

lemma atomic_insert: "atomic_at (insert_into viol upd r) s"
  by (auto simp: atomic_at_def insert_into_def split: option.split)

lemma atomic_update: "atomic_at (update_where get upd viol P f) s"
  by (auto simp: atomic_at_def update_where_def Let_def split: option.split)

lemma succeeds_atomic: "succeeds_at m s \<Longrightarrow> atomic_at m s"
  by (auto simp: atomic_at_def succeeds_at_def)

text \<open>Reads come first; after the first write nothing may fail.\<close>

lemma atomic_read_then:
  assumes "evolves_at same_db m s" and "\<And>x t. m s = (Inr x, t) \<Longrightarrow> db t = db s \<Longrightarrow> atomic_at (f x) t"
  shows "atomic_at (andThen m f) s"
proof (cases "m s")
  case (Pair res t)
  with assms(1) have "db t = db s" by (simp add: evolves_at_def same_db_def)
  with Pair assms show ?thesis
    by (cases res) (auto simp: atomic_at_def andThen_def)
qed

lemma atomic_write_then:
  assumes "atomic_at m s" and "\<And>x t. m s = (Inr x, t) \<Longrightarrow> succeeds_at (f x) t"
  shows "atomic_at (andThen m f) s"
proof (cases "m s")
  case (Pair res t)
  with assms show ?thesis
    by (cases res) (auto simp: atomic_at_def succeeds_at_def andThen_def)
qed

lemma succeeds_then:
  assumes "succeeds_at m s" and "\<And>x t. m s = (Inr x, t) \<Longrightarrow> succeeds_at (f x) t"
  shows "succeeds_at (andThen m f) s"
proof (cases "m s")
  case (Pair res t)
  with assms show ?thesis by (cases res) (auto simp: succeeds_at_def andThen_def)
qed

lemma succeeds_basic [simp]:
  "succeeds_at (ret x) s" "succeeds_at (query g) s" "succeeds_at (now sv) s"
  "succeeds_at (nextId sv p) s" "succeeds_at (or_nextId sv g' p) s"
  "succeeds_at (require_some e y) s \<longleftrightarrow> y \<noteq> None"
  "succeeds_at (first_row e rs) s \<longleftrightarrow> rs \<noteq> []"
  "succeeds_at (throw_if b e) s \<longleftrightarrow> \<not> b"
  "succeeds_at (insert_into viol upd row) s \<longleftrightarrow> viol (db s) row = None"
  by (cases rs; auto simp: succeeds_at_def cmd_defs insert_into_def split: option.splits)+

lemma succeeds_update [simp]:
  "succeeds_at (update_where get upd unconstrained P f) s"
  by (auto simp: succeeds_at_def update_where_def unconstrained_def Let_def split: option.splits)

text \<open>The guarantee of \<open>withTransaction\<close>: whatever the work does, an error leaves no trace.\<close>

lemma atomic_withTransaction:
  assumes "tx (snd (m (s\<lparr>tx := Some (db s)\<rparr>))) = Some (db s)"
  shows "atomic_at (withTransaction m) s"
  using assms by (auto simp: atomic_at_def withTransaction_def split: prod.splits sum.splits)

lemma evolves_tx_kept:
  "evolves_at R m (s\<lparr>tx := Some (db s)\<rparr>) \<Longrightarrow> atomic_at (withTransaction m) s"
  by (rule atomic_withTransaction) (simp add: evolves_at_def)

end
