(* ===== verification/Project_Commands.thy ===== *)
theory Project_Commands
  imports Store
begin

text \<open>
  The audit log (\<open>audit.ts\<close>), projects (\<open>project.ts\<close>) and repository revisions
  (\<open>repository-revision.ts\<close>).
\<close>

section \<open>Audit log\<close>

definition appendAudit ::
  "services \<Rightarrow> string option \<Rightarrow> string \<Rightarrow> string \<Rightarrow> string \<Rightarrow> json \<Rightarrow> audit_log_row cmd" where
  "appendAudit sv projectId entityType entityId action payload =
     andThen (now sv) (\<lambda>t.
     andThen (query audit_sequence) (\<lambda>k.
     andThen (insert_audit
       \<lparr>au_id = k + 1, au_projectId = projectId, au_entityType = entityType,
        au_entityId = entityId, au_action = action, au_payload = stringify payload,
        au_createdAt = t\<rparr>)
     (first_row (PersistenceError (''audit_log insert returned no row for '' @ entityId)))))"

definition listAuditForEntity :: "string \<Rightarrow> string \<Rightarrow> audit_log_row list cmd" where
  "listAuditForEntity entityType entityId =
     query (\<lambda>d. order_by au_id
       (filter (\<lambda>r. au_entityType r = entityType \<and> au_entityId r = entityId) (audit_log d)))"

section \<open>Projects\<close>

record create_project_input =
  cpi_id :: string
  cpi_name :: string
  cpi_description :: "string option"

definition createProject :: "services \<Rightarrow> create_project_input \<Rightarrow> project_row cmd" where
  "createProject sv inp =
     andThen (now sv) (\<lambda>t.
     andThen (insert_project
       \<lparr>pr_id = cpi_id inp, pr_name = cpi_name inp, pr_description = cpi_description inp,
        pr_createdAt = t, pr_updatedAt = t\<rparr>) (\<lambda>rows.
     andThen (first_row (PlainError (''project insert returned no row for '' @ cpi_id inp)) rows) (\<lambda>created.
     andThen (appendAudit sv (Some (cpi_id inp)) ''Project'' (cpi_id inp) ''PROJECT_CREATED''
       (JObj [(''name'', JStr (cpi_name inp))])) (\<lambda>_.
     ret created))))"

definition find_project :: "database \<Rightarrow> string \<Rightarrow> project_row option" where
  "find_project d i = first_where (\<lambda>r. pr_id r = i) (projects d)"

definition getProject :: "string \<Rightarrow> project_row option cmd" where
  "getProject i = query (\<lambda>d. find_project d i)"

definition listProjects :: "project_row list cmd" where
  "listProjects = query (\<lambda>d. order_by (\<lambda>r. (pr_createdAt r, pr_id r)) (projects d))"

section \<open>Repository revisions\<close>

record repository_revision_input =
  rri_id :: string
  rri_baseCommit :: string
  rri_treeHash :: string
  rri_workingTreePatchHash :: "string option"

definition same_revision :: "repository_revision_input \<Rightarrow> repository_revision_row \<Rightarrow> bool" where
  "same_revision inp r \<longleftrightarrow>
     rr_baseCommit r = rri_baseCommit inp \<and> rr_treeHash r = rri_treeHash inp
     \<and> (case rri_workingTreePatchHash inp of
          None \<Rightarrow> rr_workingTreePatchHash r = None
        | Some h \<Rightarrow> rr_workingTreePatchHash r = Some h)"

definition upsertRepositoryRevision ::
  "services \<Rightarrow> repository_revision_input \<Rightarrow> repository_revision_row cmd" where
  "upsertRepositoryRevision sv inp =
     andThen (query (\<lambda>d. first_where (same_revision inp) (repository_revisions d))) (\<lambda>existing.
     case existing of
       Some row \<Rightarrow> ret row
     | None \<Rightarrow>
         andThen (now sv) (\<lambda>t.
         andThen (insert_revision
           \<lparr>rr_id = rri_id inp, rr_baseCommit = rri_baseCommit inp, rr_treeHash = rri_treeHash inp,
            rr_workingTreePatchHash = rri_workingTreePatchHash inp, rr_createdAt = t\<rparr>) (\<lambda>rows.
         andThen (first_row (PlainError (''repository_revision insert returned no row for '' @ rri_id inp)) rows)
           (\<lambda>created.
         andThen (appendAudit sv None ''RepositoryRevision'' (rr_id created) ''REPOSITORY_REVISION_UPSERTED''
           (JObj [(''baseCommit'', JStr (rr_baseCommit created)), (''treeHash'', JStr (rr_treeHash created)),
                  (''workingTreePatchHash'', jopt (rr_workingTreePatchHash created))])) (\<lambda>_.
         ret created)))))"

definition find_revision :: "database \<Rightarrow> string \<Rightarrow> repository_revision_row option" where
  "find_revision d i = first_where (\<lambda>r. rr_id r = i) (repository_revisions d)"

definition requireRepositoryRevision :: "string \<Rightarrow> repository_revision_row cmd" where
  "requireRepositoryRevision i =
     andThen (query (\<lambda>d. find_revision d i)) (require_some (NotFoundError ''RepositoryRevision'' i))"

end
