(* ===== verification/Node_Commands.thy ===== *)
theory Node_Commands
  imports Project_Commands
begin

text \<open>Nodes, node drafts and node versions (\<open>node.ts\<close>).\<close>

record create_node_input =
  cni_id :: string
  cni_projectId :: string
  cni_type :: node_type
  cni_lifecycle :: "node_lifecycle option"

definition createNode :: "services \<Rightarrow> create_node_input \<Rightarrow> node_row cmd" where
  "createNode sv inp =
     andThen (now sv) (\<lambda>t.
     andThen (insert_node
       \<lparr>nd_id = cni_id inp, nd_projectId = cni_projectId inp, nd_type = cni_type inp,
        nd_lifecycle = default_to (cni_lifecycle inp) NL_ACTIVE, nd_createdAt = t, nd_updatedAt = t\<rparr>) (\<lambda>rows.
     andThen (first_row (PlainError (''node insert returned no row for '' @ cni_id inp)) rows) (\<lambda>created.
     andThen (appendAudit sv (Some (cni_projectId inp)) ''Node'' (cni_id inp) ''NODE_CREATED''
       (JObj [(''type'', JStr (node_type_str (cni_type inp)))])) (\<lambda>_.
     ret created))))"

definition find_node :: "database \<Rightarrow> string \<Rightarrow> node_row option" where
  "find_node d i = first_where (\<lambda>r. nd_id r = i) (nodes d)"

definition getNode :: "string \<Rightarrow> node_row option cmd" where
  "getNode i = query (\<lambda>d. find_node d i)"

definition listNodes :: "string \<Rightarrow> node_row list cmd" where
  "listNodes projectId =
     query (\<lambda>d. order_by (\<lambda>r. (nd_createdAt r, nd_id r))
       (filter (\<lambda>r. nd_projectId r = projectId) (nodes d)))"

definition project_node_ids :: "database \<Rightarrow> string \<Rightarrow> string list" where
  "project_node_ids d projectId = map nd_id (filter (\<lambda>r. nd_projectId r = projectId) (nodes d))"

definition listNodeDrafts :: "string \<Rightarrow> node_draft_row list cmd" where
  "listNodeDrafts projectId =
     query (\<lambda>d. order_by nf_nodeId
       (filter (\<lambda>r. nf_nodeId r \<in> set (project_node_ids d projectId)) (node_drafts d)))"

definition listNodeVersions :: "string \<Rightarrow> node_version_row list cmd" where
  "listNodeVersions projectId =
     query (\<lambda>d. order_by (\<lambda>r. (nv_nodeId r, nv_sequence r))
       (filter (\<lambda>r. nv_nodeId r \<in> set (project_node_ids d projectId)) (node_versions d)))"

definition requireNode :: "string \<Rightarrow> node_row cmd" where
  "requireNode i = andThen (getNode i) (require_some (NotFoundError ''Node'' i))"

definition touchNode :: "services \<Rightarrow> string \<Rightarrow> unit cmd" where
  "touchNode sv nodeId =
     andThen (now sv) (\<lambda>t.
     andThen (update_nodes (\<lambda>r. nd_id r = nodeId) (\<lambda>r. r\<lparr>nd_updatedAt := t\<rparr>)) (\<lambda>_.
     ret ()))"

definition projectIdOfNode :: "string \<Rightarrow> string option cmd" where
  "projectIdOfNode nodeId = andThen (getNode nodeId) (\<lambda>n. ret (map_option nd_projectId n))"

record upsert_node_draft_input =
  und_draftId :: "string option"
  und_nodeId :: string
  und_title :: string
  und_body :: "string option"
  und_expectedRevision :: "int option"

definition upsertNodeDraft :: "services \<Rightarrow> upsert_node_draft_input \<Rightarrow> node_draft_row cmd" where
  "upsertNodeDraft sv inp =
     andThen (requireNode (und_nodeId inp)) (\<lambda>_.
     andThen (query (\<lambda>d. first_where (\<lambda>r. nf_nodeId r = und_nodeId inp) (node_drafts d))) (\<lambda>found.
     case found of
       None \<Rightarrow>
         andThen (or_nextId sv (und_draftId inp) ''node_draft'') (\<lambda>i.
         andThen (now sv) (\<lambda>t.
         andThen (insert_node_draft
           \<lparr>nf_id = i, nf_nodeId = und_nodeId inp, nf_title = und_title inp,
            nf_body = default_to (und_body inp) '''', nf_revision = 1, nf_updatedAt = t\<rparr>) (\<lambda>rows.
         andThen (first_row (PlainError (''node_draft insert returned no row for '' @ und_nodeId inp)) rows)
           (\<lambda>created.
         andThen (touchNode sv (und_nodeId inp)) (\<lambda>_.
         andThen (projectIdOfNode (und_nodeId inp)) (\<lambda>pid.
         andThen (appendAudit sv pid ''NodeDraft'' (nf_id created) ''NODE_DRAFT_UPSERTED''
           (JObj [(''revision'', JNum (nf_revision created)), (''nodeId'', JStr (und_nodeId inp))])) (\<lambda>_.
         ret created)))))))
     | Some existing \<Rightarrow>
         (let expected = default_to (und_expectedRevision inp) (nf_revision existing) in
         andThen (throw_if (expected \<noteq> nf_revision existing)
           (ConcurrencyError ''NodeDraft'' (nf_id existing) expected (nf_revision existing))) (\<lambda>_.
         andThen (now sv) (\<lambda>t.
         andThen (update_node_drafts (\<lambda>r. nf_id r = nf_id existing \<and> nf_revision r = expected)
           (\<lambda>r. r\<lparr>nf_title := und_title inp, nf_body := default_to (und_body inp) (nf_body existing),
                  nf_revision := nf_revision existing + 1, nf_updatedAt := t\<rparr>)) (\<lambda>rows.
         andThen (first_row (ConcurrencyError ''NodeDraft'' (nf_id existing) expected (expected + 1)) rows)
           (\<lambda>updated.
         andThen (touchNode sv (und_nodeId inp)) (\<lambda>_.
         andThen (projectIdOfNode (und_nodeId inp)) (\<lambda>pid.
         andThen (appendAudit sv pid ''NodeDraft'' (nf_id updated) ''NODE_DRAFT_UPSERTED''
           (JObj [(''revision'', JNum (nf_revision updated)), (''nodeId'', JStr (und_nodeId inp))])) (\<lambda>_.
         ret updated)))))))))) "

record publish_node_version_input =
  pnv_id :: string
  pnv_nodeId :: string
  pnv_title :: string
  pnv_body :: string

definition publishNodeVersion :: "services \<Rightarrow> publish_node_version_input \<Rightarrow> node_version_row cmd" where
  "publishNodeVersion sv inp =
     andThen (requireNode (pnv_nodeId inp)) (\<lambda>node.
     andThen (query (\<lambda>d. next_number 0 nv_sequence
       (filter (\<lambda>r. nv_nodeId r = pnv_nodeId inp) (node_versions d)))) (\<lambda>sequence.
     andThen (now sv) (\<lambda>t.
     andThen (insert_node_version
       \<lparr>nv_id = pnv_id inp, nv_nodeId = pnv_nodeId inp, nv_sequence = sequence,
        nv_title = pnv_title inp, nv_body = pnv_body inp,
        nv_contentHash = sha256Hex sv (canonicalContent (pnv_title inp) (pnv_body inp)),
        nv_createdAt = t\<rparr>) (\<lambda>rows.
     andThen (first_row (PlainError (''node_version insert returned no row for '' @ pnv_id inp)) rows) (\<lambda>created.
     andThen (touchNode sv (pnv_nodeId inp)) (\<lambda>_.
     andThen (appendAudit sv (Some (nd_projectId node)) ''NodeVersion'' (nv_id created) ''NODE_VERSION_PUBLISHED''
       (JObj [(''nodeId'', JStr (pnv_nodeId inp)), (''sequence'', JNum (nv_sequence created)),
              (''contentHash'', JStr (nv_contentHash created))])) (\<lambda>_.
     ret created)))))))"

definition find_node_version :: "database \<Rightarrow> string \<Rightarrow> node_version_row option" where
  "find_node_version d i = first_where (\<lambda>r. nv_id r = i) (node_versions d)"

definition requireNodeVersion :: "string \<Rightarrow> node_version_row cmd" where
  "requireNodeVersion i =
     andThen (query (\<lambda>d. find_node_version d i)) (require_some (NotFoundError ''NodeVersion'' i))"

end
