(* ===== verification/Baseline_Commands.thy ===== *)
theory Baseline_Commands
  imports Node_Commands
begin

text \<open>Project baselines: drafts, activation, queries (\<open>baseline.ts\<close>).\<close>

record create_baseline_input =
  cbi_id :: string
  cbi_projectId :: string
  cbi_name :: string
  cbi_description :: "string option"
  cbi_repositoryRevisionId :: "string option"
  cbi_nodeVersionIds :: "string list"

definition check_baseline_version :: "string \<Rightarrow> string \<Rightarrow> unit cmd" where
  "check_baseline_version projectId nodeVersionId =
     andThen (requireNodeVersion nodeVersionId) (\<lambda>version.
     andThen (requireNode (nv_nodeId version)) (\<lambda>node.
     throw_if (nd_projectId node \<noteq> projectId)
       (ValidationError ''Baseline NodeVersions must belong to the same project as the Baseline'')))"

definition insert_item_at ::
  "services \<Rightarrow> project_baseline_row \<Rightarrow> nat \<times> string \<Rightarrow> baseline_item_row cmd" where
  "insert_item_at sv created pv =
     andThen (nextId sv ''baseline_item'') (\<lambda>i.
     andThen (insert_baseline_item
       \<lparr>bi_id = i, bi_baselineId = bl_id created, bi_nodeVersionId = snd pv, bi_position = int (fst pv)\<rparr>)
     (first_row (PlainError (''baseline_item insert returned no row for '' @ bl_id created))))"

definition insertBaselineDraft :: "services \<Rightarrow> create_baseline_input \<Rightarrow> project_baseline_row cmd" where
  "insertBaselineDraft sv inp =
     andThen (query (\<lambda>d. find_project d (cbi_projectId inp))) (\<lambda>project.
     andThen (require_some (NotFoundError ''Project'' (cbi_projectId inp)) project) (\<lambda>_.
     andThen (forEach (check_baseline_version (cbi_projectId inp)) (cbi_nodeVersionIds inp)) (\<lambda>_.
     andThen (now sv) (\<lambda>t.
     andThen (insert_baseline
       \<lparr>bl_id = cbi_id inp, bl_projectId = cbi_projectId inp, bl_status = BS_DRAFT, bl_name = cbi_name inp,
        bl_description = cbi_description inp, bl_repositoryRevisionId = cbi_repositoryRevisionId inp,
        bl_activatedAt = None, bl_supersededAt = None, bl_createdAt = t, bl_updatedAt = t\<rparr>) (\<lambda>rows.
     andThen (first_row (PlainError (''project_baseline insert returned no row for '' @ cbi_id inp)) rows)
       (\<lambda>created.
     andThen (forEach (insert_item_at sv created) (enumerate 0 (cbi_nodeVersionIds inp))) (\<lambda>_.
     andThen (appendAudit sv (Some (cbi_projectId inp)) ''ProjectBaseline'' (bl_id created)
       ''BASELINE_DRAFT_CREATED''
       (JObj [(''name'', JStr (cbi_name inp)),
              (''nodeVersionCount'', JNum (int (length (cbi_nodeVersionIds inp))))])) (\<lambda>_.
     ret created))))))))"

definition createBaselineDraft :: "services \<Rightarrow> create_baseline_input \<Rightarrow> project_baseline_row cmd" where
  "createBaselineDraft sv inp = withTransaction (insertBaselineDraft sv inp)"

definition find_baseline :: "database \<Rightarrow> string \<Rightarrow> project_baseline_row option" where
  "find_baseline d i = first_where (\<lambda>r. bl_id r = i) (project_baselines d)"

definition getBaseline :: "string \<Rightarrow> project_baseline_row cmd" where
  "getBaseline i =
     andThen (query (\<lambda>d. find_baseline d i)) (require_some (NotFoundError ''ProjectBaseline'' i))"

definition is_active_of :: "string \<Rightarrow> project_baseline_row \<Rightarrow> bool" where
  "is_active_of projectId r \<longleftrightarrow> bl_projectId r = projectId \<and> bl_status r = BS_ACTIVE"

record activate_baseline_result =
  abr_activated :: project_baseline_row
  abr_superseded :: "project_baseline_row option"

definition supersede_baseline ::
  "services \<Rightarrow> project_baseline_row \<Rightarrow> string \<Rightarrow> project_baseline_row \<Rightarrow> project_baseline_row cmd" where
  "supersede_baseline sv baseline t active =
     andThen (update_baselines (\<lambda>r. bl_id r = bl_id active)
       (\<lambda>r. r\<lparr>bl_status := BS_SUPERSEDED, bl_supersededAt := Some t, bl_updatedAt := t\<rparr>)) (\<lambda>rows.
     andThen (first_row (PlainError (''project_baseline supersede returned no row for '' @ bl_id active)) rows)
       (\<lambda>updated.
     andThen (appendAudit sv (Some (bl_projectId baseline)) ''ProjectBaseline'' (bl_id updated)
       ''BASELINE_SUPERSEDED'' (JObj [(''supersededAt'', JStr t)])) (\<lambda>_.
     ret updated)))"

definition activateBaseline :: "services \<Rightarrow> string \<Rightarrow> activate_baseline_result cmd" where
  "activateBaseline sv baselineId =
     andThen (getBaseline baselineId) (\<lambda>baseline.
     andThen (assert_domain (assertBaselineTransition (bl_status baseline) BS_ACTIVE)) (\<lambda>_.
     withTransaction (
       andThen (now sv) (\<lambda>t.
       andThen (query (\<lambda>d. filter (is_active_of (bl_projectId baseline)) (project_baselines d)))
         (\<lambda>activeBaselines.
       andThen (forEach (supersede_baseline sv baseline t) activeBaselines) (\<lambda>updates.
       andThen (update_baselines (\<lambda>r. bl_id r = bl_id baseline)
         (\<lambda>r. r\<lparr>bl_status := BS_ACTIVE, bl_activatedAt := Some t, bl_updatedAt := t\<rparr>)) (\<lambda>rows.
       andThen (first_row (PlainError (''project_baseline activation returned no row for '' @ bl_id baseline)) rows)
         (\<lambda>activated.
       andThen (appendAudit sv (Some (bl_projectId baseline)) ''ProjectBaseline'' (bl_id activated)
         ''BASELINE_ACTIVATED'' (JObj [(''activatedAt'', JStr t)])) (\<lambda>_.
       ret \<lparr>abr_activated = activated, abr_superseded = list_last updates\<rparr>)))))))))"

definition active_baseline :: "database \<Rightarrow> string \<Rightarrow> project_baseline_row option" where
  "active_baseline d projectId = first_where (is_active_of projectId) (project_baselines d)"

definition getActiveBaseline :: "string \<Rightarrow> project_baseline_row option cmd" where
  "getActiveBaseline projectId = query (\<lambda>d. active_baseline d projectId)"

definition listBaselines :: "string \<Rightarrow> project_baseline_row list cmd" where
  "listBaselines projectId =
     query (\<lambda>d. order_by (\<lambda>r. (bl_createdAt r, bl_id r))
       (filter (\<lambda>r. bl_projectId r = projectId) (project_baselines d)))"

definition items_of_baseline :: "database \<Rightarrow> string \<Rightarrow> baseline_item_row list" where
  "items_of_baseline d baselineId =
     order_by (\<lambda>r. (bi_position r, bi_id r)) (filter (\<lambda>r. bi_baselineId r = baselineId) (baseline_items d))"

definition listBaselineItems :: "string \<Rightarrow> baseline_item_row list cmd" where
  "listBaselineItems baselineId = query (\<lambda>d. items_of_baseline d baselineId)"

definition requireActiveBaseline :: "string \<Rightarrow> project_baseline_row cmd" where
  "requireActiveBaseline projectId =
     andThen (getActiveBaseline projectId)
       (require_some (ValidationError (''Project '' @ projectId @ '' has no ACTIVE baseline'')))"

end
