(* ===== verification/Graph.thy ===== *)
theory Graph
  imports Prelude
begin

text \<open>
  The cycle check that \<open>edge.ts\<close> and \<open>task.ts\<close> share word for word: the adjacency
  \<open>Map\<close> built from the rows of a query, and \<open>isReachable\<close>, a depth-first search with
  an explicit stack. The stack is modelled with its top first, so pushing the successors
  of a node one after the other puts them in front in reverse order.

  The search terminates on every input and decides reachability. The interface
  \<open>reachability\<close> is what the two commands rely on: an edge is added only if its source
  is not reachable from its target, and then an acyclic relation stays acyclic.
\<close>

definition add_target :: "('a \<rightharpoonup> 'a list) \<Rightarrow> 'a \<times> 'a \<Rightarrow> ('a \<rightharpoonup> 'a list)" where
  "add_target m e = m(fst e \<mapsto> default_to (m (fst e)) [] @ [snd e])"

definition adjacency :: "('a \<times> 'a) list \<Rightarrow> ('a \<rightharpoonup> 'a list)" where
  "adjacency es = foldl add_target Map.empty es"

definition successors :: "('a \<times> 'a) list \<Rightarrow> 'a \<Rightarrow> 'a list" where
  "successors es x = default_to (adjacency es x) []"

lemma foldl_add_target:
  "default_to (foldl add_target m es x) [] = default_to (m x) [] @ map snd (filter (\<lambda>e. fst e = x) es)"
  by (induction es arbitrary: m) (auto simp: add_target_def)

lemma successors_eq: "successors es x = map snd (filter (\<lambda>e. fst e = x) es)"
  by (simp add: successors_def adjacency_def foldl_add_target)

lemma set_successors: "set (successors es x) = {y. (x, y) \<in> set es}"
  by (force simp: successors_eq)

lemma successors_Nil: "x \<notin> fst ` set es \<Longrightarrow> successors es x = []"
  by (force simp: successors_eq filter_empty_conv)

function search :: "('a \<times> 'a) list \<Rightarrow> 'a \<Rightarrow> 'a list \<Rightarrow> 'a list \<Rightarrow> bool" where
  "search es goal visited [] = False"
| "search es goal visited (current # stack) =
     (if current = goal then True
      else if current \<in> set visited then search es goal visited stack
      else search es goal (current # visited) (rev (successors es current) @ stack))"
  by pat_completeness auto
termination
proof (relation "inv_image (finite_psubset <*lex*> less_than)
    (\<lambda>(es, goal, visited, stack). (fst ` set es - set visited, length stack))", goal_cases)
  case 1
  show ?case by auto
next
  case (3 es goal visited current stack)
  then show ?case
    by (cases "current \<in> fst ` set es") (auto simp: finite_psubset_def successors_Nil)
qed (auto simp: finite_psubset_def)

definition isReachable :: "('a \<times> 'a) list \<Rightarrow> 'a \<Rightarrow> 'a \<Rightarrow> bool" where
  "isReachable es start goal = search es goal [] [start]"

text \<open>The visited nodes are expanded: their successors are visited or still on the stack.\<close>

definition expanded :: "('a \<times> 'a) list \<Rightarrow> 'a \<Rightarrow> 'a list \<Rightarrow> 'a list \<Rightarrow> bool" where
  "expanded es goal visited stack \<longleftrightarrow>
     goal \<notin> set visited \<and> set es `` set visited \<subseteq> set visited \<union> set stack"

lemma Image_step:
  "(set es)\<^sup>* `` (insert x (set (successors es x)) \<union> A) = (set es)\<^sup>* `` (insert x A)"
  by (auto simp: set_successors intro: converse_rtrancl_into_rtrancl)

lemma search_correct:
  "expanded es goal visited stack \<Longrightarrow>
    search es goal visited stack \<longleftrightarrow> goal \<in> (set es)\<^sup>* `` (set visited \<union> set stack)"
proof (induction es goal visited stack rule: search.induct)
  case (1 es goal visited)
  then have "(set es)\<^sup>* `` set visited = set visited"
    by (intro Image_closed_trancl) (simp add: expanded_def)
  with 1 show ?case by (simp add: expanded_def)
next
  case (2 es goal visited current stack)
  consider "current = goal" | "current \<noteq> goal" "current \<in> set visited"
    | "current \<noteq> goal" "current \<notin> set visited" by blast
  then show ?case
  proof cases
    case 1
    then show ?thesis by auto
  next
    case a: 2
    with "2.prems" have "expanded es goal visited stack" by (auto simp: expanded_def)
    with "2.IH"(1) [OF a] a show ?thesis by (simp add: insert_absorb)
  next
    case 3
    let ?stack = "rev (successors es current) @ stack"
    from 3 "2.prems" have "expanded es goal (current # visited) ?stack"
      by (auto simp: expanded_def set_successors)
    with "2.IH"(2) [OF 3] 3 have "search es goal visited (current # stack) \<longleftrightarrow>
        goal \<in> (set es)\<^sup>* `` (insert current (set (successors es current)) \<union> (set visited \<union> set stack))"
      by (simp add: Un_ac)
    then show ?thesis unfolding Image_step by simp
  qed
qed

lemma isReachable_iff: "isReachable es start goal \<longleftrightarrow> (start, goal) \<in> (set es)\<^sup>*"
  using search_correct [of es goal "[]" "[start]"]
  by (simp add: isReachable_def expanded_def del: search.simps)

locale reachability =
  fixes reaches :: "('a \<times> 'a) list \<Rightarrow> 'a \<Rightarrow> 'a \<Rightarrow> bool"
  assumes reaches_iff: "reaches es a b \<longleftrightarrow> (a, b) \<in> (set es)\<^sup>*"
begin

lemma insert_acyclic:
  assumes "acyclic (set es)" and "\<not> reaches es b a"
  shows "acyclic (insert (a, b) (set es))"
  using assms by (simp add: acyclic_insert reaches_iff)

lemma closes_cycle_iff:
  assumes "acyclic (set es)"
  shows "acyclic (insert (a, b) (set es)) \<longleftrightarrow> \<not> reaches es b a"
  using assms by (simp add: acyclic_insert reaches_iff)

lemma reaches_cycle:
  assumes "reaches es b a"
  shows "(a, a) \<in> (insert (a, b) (set es))\<^sup>+"
proof -
  have "(b, a) \<in> (insert (a, b) (set es))\<^sup>*"
    using assms rtrancl_mono [of "set es" "insert (a, b) (set es)"] by (auto simp: reaches_iff)
  then show ?thesis by (meson insertI1 rtrancl_into_trancl2)
qed

end

interpretation dfs: reachability isReachable
  by unfold_locales (rule isReachable_iff)

end
