(* ===== verification/Task_Commands.thy ===== *)
theory Task_Commands
  imports Node_Commands Graph
begin

text \<open>
  Tasks, task drafts, published task specifications with their acceptance criteria and
  targets, and task dependencies (\<open>task.ts\<close>).
\<close>

record create_task_input =
  cti_id :: string
  cti_projectId :: string
  cti_type :: task_type
  cti_title :: string

definition createTask :: "services \<Rightarrow> create_task_input \<Rightarrow> task_row cmd" where
  "createTask sv inp =
     andThen (now sv) (\<lambda>t.
     andThen (insert_task
       \<lparr>tk_id = cti_id inp, tk_projectId = cti_projectId inp, tk_type = cti_type inp,
        tk_status = TS_DRAFT, tk_title = cti_title inp, tk_createdAt = t, tk_updatedAt = t\<rparr>) (\<lambda>rows.
     andThen (first_row (PlainError (''task insert returned no row for '' @ cti_id inp)) rows) (\<lambda>created.
     andThen (appendAudit sv (Some (cti_projectId inp)) ''Task'' (cti_id inp) ''TASK_CREATED''
       (JObj [(''type'', JStr (task_type_str (cti_type inp))), (''title'', JStr (cti_title inp))])) (\<lambda>_.
     ret created))))"

definition find_task :: "database \<Rightarrow> string \<Rightarrow> task_row option" where
  "find_task d i = first_where (\<lambda>r. tk_id r = i) (tasks d)"

definition requireTask :: "string \<Rightarrow> task_row cmd" where
  "requireTask i = andThen (query (\<lambda>d. find_task d i)) (require_some (NotFoundError ''Task'' i))"

definition touchTask :: "services \<Rightarrow> string \<Rightarrow> unit cmd" where
  "touchTask sv taskId =
     andThen (now sv) (\<lambda>t.
     andThen (update_tasks (\<lambda>r. tk_id r = taskId) (\<lambda>r. r\<lparr>tk_updatedAt := t\<rparr>)) (\<lambda>_.
     ret ()))"

record upsert_task_draft_input =
  utd_draftId :: "string option"
  utd_taskId :: string
  utd_description :: "string option"
  utd_scope :: "string option"
  utd_expectedRevision :: "int option"

definition upsertTaskDraft :: "services \<Rightarrow> upsert_task_draft_input \<Rightarrow> task_draft_row cmd" where
  "upsertTaskDraft sv inp =
     andThen (query (\<lambda>d. find_task d (utd_taskId inp))) (\<lambda>found_task.
     andThen (require_some (NotFoundError ''Task'' (utd_taskId inp)) found_task) (\<lambda>task.
     andThen (query (\<lambda>d. first_where (\<lambda>r. tf_taskId r = utd_taskId inp) (task_drafts d))) (\<lambda>found.
     case found of
       None \<Rightarrow>
         andThen (or_nextId sv (utd_draftId inp) ''task_draft'') (\<lambda>i.
         andThen (now sv) (\<lambda>t.
         andThen (insert_task_draft
           \<lparr>tf_id = i, tf_taskId = utd_taskId inp, tf_description = default_to (utd_description inp) '''',
            tf_scope = default_to (utd_scope inp) '''', tf_revision = 1, tf_updatedAt = t\<rparr>) (\<lambda>rows.
         andThen (first_row (PlainError (''task_draft insert returned no row for '' @ utd_taskId inp)) rows)
           (\<lambda>created.
         andThen (touchTask sv (utd_taskId inp)) (\<lambda>_.
         andThen (appendAudit sv (Some (tk_projectId task)) ''TaskDraft'' (tf_id created) ''TASK_DRAFT_UPSERTED''
           (JObj [(''revision'', JNum (tf_revision created)), (''taskId'', JStr (utd_taskId inp))])) (\<lambda>_.
         ret created))))))
     | Some existing \<Rightarrow>
         (let expected = default_to (utd_expectedRevision inp) (tf_revision existing) in
         andThen (throw_if (expected \<noteq> tf_revision existing)
           (ConcurrencyError ''TaskDraft'' (tf_id existing) expected (tf_revision existing))) (\<lambda>_.
         andThen (now sv) (\<lambda>t.
         andThen (update_task_drafts (\<lambda>r. tf_id r = tf_id existing \<and> tf_revision r = expected)
           (\<lambda>r. r\<lparr>tf_description := default_to (utd_description inp) (tf_description existing),
                  tf_scope := default_to (utd_scope inp) (tf_scope existing),
                  tf_revision := tf_revision existing + 1, tf_updatedAt := t\<rparr>)) (\<lambda>rows.
         andThen (first_row (ConcurrencyError ''TaskDraft'' (tf_id existing) expected (expected + 1)) rows)
           (\<lambda>updated.
         andThen (touchTask sv (utd_taskId inp)) (\<lambda>_.
         andThen (appendAudit sv (Some (tk_projectId task)) ''TaskDraft'' (tf_id updated) ''TASK_DRAFT_UPSERTED''
           (JObj [(''revision'', JNum (tf_revision updated)), (''taskId'', JStr (utd_taskId inp))])) (\<lambda>_.
         ret updated))))))))))"

section \<open>Transitions\<close>

definition transitionTask :: "services \<Rightarrow> string \<Rightarrow> task_status \<Rightarrow> string \<Rightarrow> task_row cmd" where
  "transitionTask sv taskId to t =
     andThen (requireTask taskId) (\<lambda>task.
     if tk_status task = to then ret task
     else
       andThen (case assertTaskTransition (tk_status task) to of
           Inl _ \<Rightarrow> throw (ValidationError (''Task '' @ task_status_str (tk_status task)
                            @ '' cannot transition to '' @ task_status_str to))
         | Inr _ \<Rightarrow> ret ()) (\<lambda>_.
       andThen (update_tasks (\<lambda>r. tk_id r = taskId) (\<lambda>r. r\<lparr>tk_status := to, tk_updatedAt := t\<rparr>)) (\<lambda>rows.
       andThen (first_row (PlainError (''task transition returned no row for '' @ taskId)) rows) (\<lambda>updated.
       andThen (appendAudit sv (Some (tk_projectId task)) ''Task'' taskId ''TASK_STATUS_CHANGED''
         (JObj [(''from'', JStr (task_status_str (tk_status task))), (''to'', JStr (task_status_str to))])) (\<lambda>_.
       ret updated)))))"

section \<open>Published specifications\<close>

record task_target_input =
  tti_nodeId :: "string option"
  tti_nodeVersionId :: "string option"
  tti_position :: int

record acceptance_criterion_input =
  aci_description :: string
  aci_verificationMethod :: "verification_method option"
  aci_position :: int

record publish_task_spec_input =
  pts_id :: string
  pts_taskId :: string
  pts_description :: string
  pts_scope :: string
  pts_targets :: "task_target_input list option"
  pts_criteria :: "acceptance_criterion_input list"

record publish_task_spec_result =
  psr_spec :: task_spec_version_row
  psr_criteria :: "acceptance_criterion_row list"

definition check_target :: "task_row \<Rightarrow> task_target_input \<Rightarrow> unit cmd" where
  "check_target task target =
     andThen (case tti_nodeId target of
         None \<Rightarrow> ret ()
       | Some n \<Rightarrow> andThen (requireNode n) (\<lambda>node.
           throw_if (nd_projectId node \<noteq> tk_projectId task)
             (ValidationError ''TaskSpecVersion targets must reference nodes in the same project as the Task'')))
     (\<lambda>_.
     case tti_nodeVersionId target of
       None \<Rightarrow> ret ()
     | Some v \<Rightarrow> andThen (requireNodeVersion v) (\<lambda>version.
         andThen (requireNode (nv_nodeId version)) (\<lambda>node.
           throw_if (nd_projectId node \<noteq> tk_projectId task)
             (ValidationError ''TaskSpecVersion targets must reference node versions in the same project as the Task''))))"

definition target_json :: "task_target_input \<Rightarrow> string" where
  "target_json target =
     stringify (JObj [(''nodeId'', jopt (tti_nodeId target)), (''nodeVersionId'', jopt (tti_nodeVersionId target)),
                      (''position'', JNum (tti_position target))])"

definition criterion_json :: "acceptance_criterion_input \<Rightarrow> string" where
  "criterion_json criterion =
     stringify (JObj [(''description'', JStr (aci_description criterion)),
       (''verificationMethod'',
        JStr (verification_method_str (default_to (aci_verificationMethod criterion) MANUAL_REVIEW))),
       (''position'', JNum (aci_position criterion))])"

definition spec_content_hash :: "services \<Rightarrow> publish_task_spec_input \<Rightarrow> string" where
  "spec_content_hash sv inp =
     taskSpecContentHash sv (pts_description inp) (pts_scope inp)
       (map target_json (default_to (pts_targets inp) [])) (map criterion_json (pts_criteria inp))"

definition insert_spec_criterion ::
  "services \<Rightarrow> task_spec_version_row \<Rightarrow> acceptance_criterion_input \<Rightarrow> acceptance_criterion_row cmd" where
  "insert_spec_criterion sv spec criterion =
     andThen (nextId sv ''acceptance_criterion'') (\<lambda>i.
     andThen (insert_criterion
       \<lparr>ac_id = i, ac_taskSpecVersionId = ts_id spec, ac_position = aci_position criterion,
        ac_description = aci_description criterion,
        ac_verificationMethod = default_to (aci_verificationMethod criterion) MANUAL_REVIEW\<rparr>)
     (first_row (PlainError (''acceptance_criterion insert returned no row for '' @ ts_id spec))))"

definition insert_spec_target ::
  "services \<Rightarrow> task_spec_version_row \<Rightarrow> task_target_input \<Rightarrow> task_target_row cmd" where
  "insert_spec_target sv spec target =
     andThen (nextId sv ''task_target'') (\<lambda>i.
     andThen (insert_target
       \<lparr>tt_id = i, tt_taskSpecVersionId = ts_id spec, tt_nodeId = tti_nodeId target,
        tt_nodeVersionId = tti_nodeVersionId target, tt_position = tti_position target\<rparr>)
     (first_row (PlainError (''task_target insert returned no row for '' @ ts_id spec))))"

definition publishTaskSpecVersion ::
  "services \<Rightarrow> publish_task_spec_input \<Rightarrow> publish_task_spec_result cmd" where
  "publishTaskSpecVersion sv inp =
     andThen (throw_if (pts_criteria inp = [])
       (ValidationError ''A TaskSpecVersion must carry at least one AcceptanceCriterion'')) (\<lambda>_.
     andThen (query (\<lambda>d. find_task d (pts_taskId inp))) (\<lambda>found_task.
     andThen (require_some (NotFoundError ''Task'' (pts_taskId inp)) found_task) (\<lambda>task.
     andThen (throw_if (tk_status task \<in> {TS_COMPLETED, TS_CANCELLED, TS_ARCHIVED})
       (ValidationError (''Task '' @ pts_taskId inp @ '' is '' @ task_status_str (tk_status task)
          @ '' and cannot publish a new TaskSpecVersion''))) (\<lambda>_.
     andThen (forEach (check_target task) (default_to (pts_targets inp) [])) (\<lambda>_.
     andThen (query (\<lambda>d. next_number 0 ts_sequence
       (filter (\<lambda>r. ts_taskId r = pts_taskId inp) (task_spec_versions d)))) (\<lambda>sequence.
     withTransaction (
       andThen (now sv) (\<lambda>t.
       andThen (insert_spec
         \<lparr>ts_id = pts_id inp, ts_taskId = pts_taskId inp, ts_sequence = sequence,
          ts_description = pts_description inp, ts_scope = pts_scope inp,
          ts_contentHash = spec_content_hash sv inp, ts_createdAt = t\<rparr>) (\<lambda>rows.
       andThen (first_row (PlainError (''task_spec_version insert returned no row for '' @ pts_id inp)) rows)
         (\<lambda>spec.
       andThen (forEach (insert_spec_criterion sv spec) (pts_criteria inp)) (\<lambda>criteria.
       andThen (forEach (insert_spec_target sv spec) (default_to (pts_targets inp) [])) (\<lambda>_.
       andThen (if tk_status task = TS_DRAFT
                then andThen (now sv) (\<lambda>t2. andThen (transitionTask sv (pts_taskId inp) TS_READY t2) (\<lambda>_. ret ()))
                else ret ()) (\<lambda>_.
       andThen (touchTask sv (pts_taskId inp)) (\<lambda>_.
       andThen (appendAudit sv (Some (tk_projectId task)) ''TaskSpecVersion'' (ts_id spec)
         ''TASK_SPEC_VERSION_PUBLISHED''
         (JObj [(''taskId'', JStr (pts_taskId inp)), (''sequence'', JNum sequence),
                (''contentHash'', JStr (spec_content_hash sv inp)),
                (''criterionCount'', JNum (int (length criteria)))])) (\<lambda>_.
       ret \<lparr>psr_spec = spec, psr_criteria = criteria\<rparr>))))))))))))))) "

section \<open>Dependencies\<close>

record create_task_dependency_input =
  ctd_id :: string
  ctd_projectId :: string
  ctd_taskId :: string
  ctd_dependsOnTaskId :: string
  ctd_type :: dependency_type

definition dependency_pairs :: "database \<Rightarrow> string \<Rightarrow> (string \<times> string) list" where
  "dependency_pairs d projectId =
     map (\<lambda>r. (dp_taskId r, dp_dependsOnTaskId r))
       (filter (\<lambda>r. dp_projectId r = projectId) (task_dependencies d))"

definition createTaskDependency ::
  "services \<Rightarrow> create_task_dependency_input \<Rightarrow> task_dependency_row cmd" where
  "createTaskDependency sv inp =
     andThen (query (\<lambda>d. find_task d (ctd_taskId inp))) (\<lambda>found.
     andThen (require_some (NotFoundError ''Task'' (ctd_taskId inp)) found) (\<lambda>task.
     andThen (query (\<lambda>d. find_task d (ctd_dependsOnTaskId inp))) (\<lambda>found_dep.
     andThen (require_some (NotFoundError ''Task'' (ctd_dependsOnTaskId inp)) found_dep) (\<lambda>dependsOn.
     andThen (throw_if (tk_projectId task \<noteq> ctd_projectId inp \<or> tk_projectId dependsOn \<noteq> ctd_projectId inp)
       (ValidationError ''Task dependency tasks must belong to the same project'')) (\<lambda>_.
     andThen (throw_if (ctd_taskId inp = ctd_dependsOnTaskId inp)
       (CycleError ''TaskDependency'' (ctd_taskId inp) (ctd_dependsOnTaskId inp))) (\<lambda>_.
     andThen (query (\<lambda>d. dependency_pairs d (ctd_projectId inp))) (\<lambda>pairs.
     andThen (throw_if (isReachable pairs (ctd_dependsOnTaskId inp) (ctd_taskId inp))
       (CycleError ''TaskDependency'' (ctd_taskId inp) (ctd_dependsOnTaskId inp))) (\<lambda>_.
     andThen (now sv) (\<lambda>t.
     andThen (insert_dependency
       \<lparr>dp_id = ctd_id inp, dp_projectId = ctd_projectId inp, dp_taskId = ctd_taskId inp,
        dp_dependsOnTaskId = ctd_dependsOnTaskId inp, dp_type = ctd_type inp, dp_createdAt = t\<rparr>) (\<lambda>rows.
     andThen (first_row (PlainError (''task_dependency insert returned no row for '' @ ctd_id inp)) rows) (\<lambda>created.
     andThen (appendAudit sv (Some (ctd_projectId inp)) ''TaskDependency'' (dp_id created) ''TASK_DEPENDENCY_CREATED''
       (JObj [(''taskId'', JStr (ctd_taskId inp)), (''dependsOnTaskId'', JStr (ctd_dependsOnTaskId inp)),
              (''type'', JStr (dependency_type_str (ctd_type inp)))])) (\<lambda>_.
     ret created))))))))))))"

section \<open>Queries\<close>

definition find_spec :: "database \<Rightarrow> string \<Rightarrow> task_spec_version_row option" where
  "find_spec d i = first_where (\<lambda>r. ts_id r = i) (task_spec_versions d)"

definition requireTaskSpecVersion :: "string \<Rightarrow> task_spec_version_row cmd" where
  "requireTaskSpecVersion i =
     andThen (query (\<lambda>d. find_spec d i)) (require_some (NotFoundError ''TaskSpecVersion'' i))"

definition listTasks :: "string \<Rightarrow> task_row list cmd" where
  "listTasks projectId =
     query (\<lambda>d. order_by (\<lambda>r. (tk_createdAt r, tk_id r))
       (filter (\<lambda>r. tk_projectId r = projectId) (tasks d)))"

definition task_specs :: "database \<Rightarrow> string \<Rightarrow> task_spec_version_row list" where
  "task_specs d taskId =
     order_by ts_sequence (filter (\<lambda>r. ts_taskId r = taskId) (task_spec_versions d))"

definition listTaskSpecVersions :: "string \<Rightarrow> task_spec_version_row list cmd" where
  "listTaskSpecVersions taskId = query (\<lambda>d. task_specs d taskId)"

definition listTaskTargets :: "string \<Rightarrow> task_target_row list cmd" where
  "listTaskTargets specId =
     query (\<lambda>d. order_by (\<lambda>r. (tt_position r, tt_id r))
       (filter (\<lambda>r. tt_taskSpecVersionId r = specId) (task_targets d)))"

definition spec_criteria :: "database \<Rightarrow> string \<Rightarrow> acceptance_criterion_row list" where
  "spec_criteria d specId =
     order_by (\<lambda>r. (ac_position r, ac_id r))
       (filter (\<lambda>r. ac_taskSpecVersionId r = specId) (acceptance_criteria d))"

definition listCriteria :: "string \<Rightarrow> acceptance_criterion_row list cmd" where
  "listCriteria specId = query (\<lambda>d. spec_criteria d specId)"

end
