(* ===== verification/Snapshot_Commands.thy ===== *)
theory Snapshot_Commands
  imports Baseline_Commands Task_Commands
begin

text \<open>Context snapshots and content blobs (\<open>snapshot.ts\<close>).\<close>

record snapshot_item_input =
  sii_itemType :: context_item_type
  sii_sourceRef :: string
  sii_resolvedContent :: string
  sii_selectionReason :: "string option"
  sii_authority :: context_authority
  sii_priority :: "context_priority option"
  sii_tokenEstimate :: int
  sii_blobId :: "string option"
  sii_position :: int

record freeze_snapshot_input =
  fsi_id :: string
  fsi_projectId :: string
  fsi_taskId :: string
  fsi_taskSpecVersionId :: string
  fsi_baseBaselineId :: string
  fsi_expectedRepositoryRevisionId :: string
  fsi_items :: "snapshot_item_input list"

record freeze_snapshot_result =
  fsr_snapshot :: context_snapshot_row
  fsr_items :: "context_snapshot_item_row list"

definition freeze_item ::
  "services \<Rightarrow> string \<Rightarrow> snapshot_item_input \<Rightarrow> context_snapshot_item_row cmd" where
  "freeze_item sv snapshotId item =
     andThen (nextId sv ''context_snapshot_item'') (\<lambda>i.
     andThen (insert_snapshot_item
       \<lparr>si_id = i, si_contextSnapshotId = snapshotId, si_position = sii_position item,
        si_itemType = sii_itemType item, si_sourceRef = sii_sourceRef item,
        si_resolvedContent = sii_resolvedContent item,
        si_contentHash = sha256Hex sv (sii_resolvedContent item),
        si_selectionReason = sii_selectionReason item, si_authority = sii_authority item,
        si_priority = default_to (sii_priority item) P2, si_tokenEstimate = sii_tokenEstimate item,
        si_blobId = sii_blobId item\<rparr>)
     (first_row (PlainError (''context_snapshot_item insert returned no row for '' @ snapshotId))))"

definition freezeContextSnapshot ::
  "services \<Rightarrow> freeze_snapshot_input \<Rightarrow> freeze_snapshot_result cmd" where
  "freezeContextSnapshot sv inp =
     andThen (requireTask (fsi_taskId inp)) (\<lambda>task.
     andThen (throw_if (tk_projectId task \<noteq> fsi_projectId inp)
       (ValidationError (''Task '' @ fsi_taskId inp @ '' does not belong to Project '' @ fsi_projectId inp))) (\<lambda>_.
     andThen (requireTaskSpecVersion (fsi_taskSpecVersionId inp)) (\<lambda>spec.
     andThen (throw_if (ts_taskId spec \<noteq> fsi_taskId inp)
       (ValidationError (''TaskSpecVersion '' @ fsi_taskSpecVersionId inp @ '' does not belong to Task ''
          @ fsi_taskId inp))) (\<lambda>_.
     andThen (getBaseline (fsi_baseBaselineId inp)) (\<lambda>baseline.
     andThen (throw_if (bl_projectId baseline \<noteq> fsi_projectId inp)
       (ValidationError (''ProjectBaseline '' @ fsi_baseBaselineId inp @ '' does not belong to Project ''
          @ fsi_projectId inp))) (\<lambda>_.
     andThen (throw_if (bl_status baseline \<noteq> BS_ACTIVE)
       (ValidationError (''ProjectBaseline '' @ fsi_baseBaselineId inp
          @ '' is not ACTIVE and cannot be pinned by a snapshot''))) (\<lambda>_.
     andThen (requireRepositoryRevision (fsi_expectedRepositoryRevisionId inp)) (\<lambda>_.
     withTransaction (
       andThen (now sv) (\<lambda>t.
       andThen (insert_snapshot
         \<lparr>sn_id = fsi_id inp, sn_projectId = fsi_projectId inp, sn_taskId = fsi_taskId inp,
          sn_taskSpecVersionId = fsi_taskSpecVersionId inp, sn_baseBaselineId = fsi_baseBaselineId inp,
          sn_expectedRepositoryRevisionId = fsi_expectedRepositoryRevisionId inp, sn_status = SS_DRAFT,
          sn_freshness = SF_CURRENT, sn_createdAt = t, sn_updatedAt = t\<rparr>) (\<lambda>rows.
       andThen (first_row (PlainError (''context_snapshot insert returned no row for '' @ fsi_id inp)) rows) (\<lambda>_.
       andThen (forEach (freeze_item sv (fsi_id inp)) (fsi_items inp)) (\<lambda>items.
       andThen (update_snapshots (\<lambda>r. sn_id r = fsi_id inp)
         (\<lambda>r. r\<lparr>sn_status := SS_FROZEN, sn_updatedAt := t\<rparr>)) (\<lambda>updated.
       andThen (first_row (PlainError (''context_snapshot freeze returned no row for '' @ fsi_id inp)) updated)
         (\<lambda>snapshot.
       andThen (throw_if (sn_status snapshot \<noteq> SS_FROZEN)
         (PlainError (''context_snapshot freeze returned no row for '' @ fsi_id inp))) (\<lambda>_.
       andThen (appendAudit sv (Some (fsi_projectId inp)) ''ContextSnapshot'' (sn_id snapshot) ''SNAPSHOT_FROZEN''
         (JObj [(''taskId'', JStr (fsi_taskId inp)), (''taskSpecVersionId'', JStr (fsi_taskSpecVersionId inp)),
                (''baseBaselineId'', JStr (fsi_baseBaselineId inp)),
                (''expectedRepositoryRevisionId'', JStr (fsi_expectedRepositoryRevisionId inp)),
                (''itemCount'', JNum (int (length items)))])) (\<lambda>_.
       ret \<lparr>fsr_snapshot = snapshot, fsr_items = items\<rparr>)))))))))))))))))"

definition find_snapshot :: "database \<Rightarrow> string \<Rightarrow> context_snapshot_row option" where
  "find_snapshot d i = first_where (\<lambda>r. sn_id r = i) (context_snapshots d)"

definition getSnapshot :: "string \<Rightarrow> context_snapshot_row cmd" where
  "getSnapshot i =
     andThen (query (\<lambda>d. find_snapshot d i)) (require_some (NotFoundError ''ContextSnapshot'' i))"

definition listSnapshotItems :: "string \<Rightarrow> context_snapshot_item_row list cmd" where
  "listSnapshotItems snapshotId =
     query (\<lambda>d. order_by si_position
       (filter (\<lambda>r. si_contextSnapshotId r = snapshotId) (context_snapshot_items d)))"

record register_blob_input =
  rbi_id :: string
  rbi_sizeBytes :: int
  rbi_contentType :: string

definition registerContentBlob :: "services \<Rightarrow> register_blob_input \<Rightarrow> content_blob_row cmd" where
  "registerContentBlob sv inp =
     andThen (now sv) (\<lambda>t.
     andThen (insert_blob
       \<lparr>cb_id = rbi_id inp, cb_sizeBytes = rbi_sizeBytes inp, cb_contentType = rbi_contentType inp,
        cb_createdAt = t\<rparr>)
     (first_row (PlainError (''content_blob insert returned no row for '' @ rbi_id inp))))"

end
