(* ===== verification/Run_Commands.thy ===== *)
theory Run_Commands
  imports Task_Commands
begin

text \<open>Runs: dispatch, completion, interruption and their evidence (\<open>run.ts\<close>).\<close>

fun mapDispatchToRunOutcome :: "dispatch_outcome \<Rightarrow> bool \<Rightarrow> run_outcome" where
  "mapDispatchToRunOutcome DO_SUCCEEDED timedOut = RO_SUCCEEDED"
| "mapDispatchToRunOutcome DO_PARTIAL timedOut = (if timedOut then RO_TIMED_OUT else RO_PARTIAL)"
| "mapDispatchToRunOutcome DO_CANCELLED timedOut = RO_CANCELLED"
| "mapDispatchToRunOutcome VALIDATION_REJECTED timedOut = RO_FAILED"
| "mapDispatchToRunOutcome CLAIM_REJECTED timedOut = RO_FAILED"
| "mapDispatchToRunOutcome REVISION_MISMATCH timedOut = RO_FAILED"

record dispatch_result_metadata =
  dm_dispatchOutcome :: dispatch_outcome
  dm_claimGranted :: bool
  dm_rejectionReason :: "string option"
  dm_revisionMismatchField :: "string option"
  dm_revisionMismatchExpected :: "string option"
  dm_revisionMismatchActual :: "string option"
  dm_patchHash :: "string option"
  dm_timedOut :: "bool option"
  dm_recoveryJson :: "string option"

record artifact_input =
  ari_kind :: artifact_kind
  ari_fileName :: string
  ari_content :: string
  ari_contentHash :: string
  ari_sizeBytes :: int

record dispatched_request =
  dq_executionRequestId :: string
  dq_workerAttemptNumber :: int
  dq_checkpointId :: "string option"
  dq_requestHash :: string
  dq_schemaVersion :: int
  dq_requestJson :: string
  dq_dispatchedAt :: string

record create_dispatched_run_input =
  cdr_runId :: string
  cdr_projectId :: string
  cdr_taskId :: string
  cdr_taskSpecVersionId :: string
  cdr_contextSnapshotId :: string
  cdr_repositoryRevisionId :: string
  cdr_startedAt :: string
  cdr_now :: string
  cdr_request :: dispatched_request

record run_summary =
  rs_id :: string
  rs_projectId :: string
  rs_taskId :: string
  rs_taskSpecVersionId :: string
  rs_contextSnapshotId :: string
  rs_repositoryRevisionId :: string
  rs_status :: run_status
  rs_outcome :: "run_outcome option"
  rs_startedAt :: string
  rs_completedAt :: "string option"
  rs_createdAt :: string
  rs_updatedAt :: string

record run_aggregate =
  ra_run :: run_summary
  ra_executionRequests :: "execution_request_record_row list"
  ra_events :: "run_event_row list"
  ra_artifacts :: "artifact_row list"

definition toRunSummary :: "run_row \<Rightarrow> run_summary" where
  "toRunSummary run =
     \<lparr>rs_id = rn_id run, rs_projectId = rn_projectId run, rs_taskId = rn_taskId run,
      rs_taskSpecVersionId = rn_taskSpecVersionId run, rs_contextSnapshotId = rn_contextSnapshotId run,
      rs_repositoryRevisionId = rn_repositoryRevisionId run, rs_status = rn_status run,
      rs_outcome = rn_outcome run, rs_startedAt = rn_startedAt run, rs_completedAt = rn_completedAt run,
      rs_createdAt = rn_createdAt run, rs_updatedAt = rn_updatedAt run\<rparr>"

definition events_of_run :: "database \<Rightarrow> string \<Rightarrow> run_event_row list" where
  "events_of_run d runId = filter (\<lambda>r. re_runId r = runId) (run_events d)"

definition nextRunEventSequence :: "string \<Rightarrow> int cmd" where
  "nextRunEventSequence runId = query (\<lambda>d. next_number (-1) re_sequence (events_of_run d runId))"

definition appendRunEvent ::
  "services \<Rightarrow> string \<Rightarrow> run_event_kind \<Rightarrow> string option \<Rightarrow> string \<Rightarrow> run_event_row cmd" where
  "appendRunEvent sv runId kind detail createdAt =
     andThen (nextId sv ''run_event'') (\<lambda>i.
     andThen (nextRunEventSequence runId) (\<lambda>sequence.
     andThen (insert_run_event
       \<lparr>re_id = i, re_runId = runId, re_sequence = sequence, re_kind = kind, re_detail = detail,
        re_createdAt = createdAt\<rparr>)
     (first_row (PlainError (''run_event insert returned no row for '' @ runId)))))"

definition createDispatchedRun :: "services \<Rightarrow> create_dispatched_run_input \<Rightarrow> unit cmd" where
  "createDispatchedRun sv inp =
     withTransaction (
       andThen (transitionTask sv (cdr_taskId inp) TS_IN_PROGRESS (cdr_now inp)) (\<lambda>_.
       andThen (insert_run
         \<lparr>rn_id = cdr_runId inp, rn_projectId = cdr_projectId inp, rn_taskId = cdr_taskId inp,
          rn_taskSpecVersionId = cdr_taskSpecVersionId inp, rn_contextSnapshotId = cdr_contextSnapshotId inp,
          rn_repositoryRevisionId = cdr_repositoryRevisionId inp, rn_status = RS_RUNNING,
          rn_outcome = None, rn_startedAt = cdr_startedAt inp, rn_completedAt = None,
          rn_createdAt = cdr_now inp, rn_updatedAt = cdr_now inp\<rparr>) (\<lambda>_.
       andThen (insert_request
         \<lparr>er_executionRequestId = dq_executionRequestId (cdr_request inp), er_runId = cdr_runId inp,
          er_workerAttemptNumber = dq_workerAttemptNumber (cdr_request inp),
          er_checkpointId = dq_checkpointId (cdr_request inp),
          er_requestHash = dq_requestHash (cdr_request inp),
          er_schemaVersion = dq_schemaVersion (cdr_request inp),
          er_requestJson = dq_requestJson (cdr_request inp),
          er_dispatchOutcome = None, er_claimGranted = None, er_rejectionReason = None,
          er_revisionMismatchField = None, er_revisionMismatchExpected = None,
          er_revisionMismatchActual = None, er_patchHash = None, er_timedOut = None,
          er_recoveryJson = None, er_dispatchedAt = dq_dispatchedAt (cdr_request inp),
          er_completedAt = None\<rparr>) (\<lambda>_.
       andThen (appendRunEvent sv (cdr_runId inp) DISPATCHED
         (Some (stringify (JObj
           [(''executionRequestId'', JStr (dq_executionRequestId (cdr_request inp))),
            (''workerAttemptNumber'', JNum (dq_workerAttemptNumber (cdr_request inp))),
            (''requestHash'', JStr (dq_requestHash (cdr_request inp)))])))
         (cdr_now inp)) (\<lambda>_.
       ret ())))))"

definition listRuns :: "string \<Rightarrow> run_summary list cmd" where
  "listRuns projectId =
     query (\<lambda>d. map toRunSummary
       (order_by_desc rn_createdAt (filter (\<lambda>r. rn_projectId r = projectId) (runs d))))"

definition find_run :: "database \<Rightarrow> string \<Rightarrow> run_row option" where
  "find_run d i = first_where (\<lambda>r. rn_id r = i) (runs d)"

definition requireRun :: "string \<Rightarrow> run_row cmd" where
  "requireRun runId = andThen (query (\<lambda>d. find_run d runId)) (require_some (NotFoundError ''Run'' runId))"

definition getRunAggregate :: "string \<Rightarrow> run_aggregate cmd" where
  "getRunAggregate runId =
     andThen (query (\<lambda>d. find_run d runId)) (\<lambda>found.
     andThen (require_some (NotFoundError ''Run'' runId) found) (\<lambda>run.
     andThen (query (\<lambda>d. order_by er_dispatchedAt
       (filter (\<lambda>r. er_runId r = runId) (execution_request_records d)))) (\<lambda>executionRequests.
     andThen (query (\<lambda>d. order_by re_sequence (filter (\<lambda>r. re_runId r = runId) (run_events d)))) (\<lambda>events.
     andThen (query (\<lambda>d. order_by (\<lambda>r. (ar_executionRequestId r, ar_position r, ar_id r))
       (filter (\<lambda>r. ar_runId r = runId) (artifacts d)))) (\<lambda>arts.
     ret \<lparr>ra_run = toRunSummary run, ra_executionRequests = executionRequests, ra_events = events,
          ra_artifacts = arts\<rparr>)))))"

definition finalizeRequestRecord ::
  "string \<Rightarrow> dispatch_result_metadata \<Rightarrow> string \<Rightarrow> unit cmd" where
  "finalizeRequestRecord executionRequestId metadata completedAt =
     andThen (update_requests (\<lambda>r. er_executionRequestId r = executionRequestId)
       (\<lambda>r. r\<lparr>er_dispatchOutcome := Some (dm_dispatchOutcome metadata),
              er_claimGranted := Some (dm_claimGranted metadata),
              er_rejectionReason := dm_rejectionReason metadata,
              er_revisionMismatchField := dm_revisionMismatchField metadata,
              er_revisionMismatchExpected := dm_revisionMismatchExpected metadata,
              er_revisionMismatchActual := dm_revisionMismatchActual metadata,
              er_patchHash := dm_patchHash metadata,
              er_timedOut := dm_timedOut metadata,
              er_recoveryJson := dm_recoveryJson metadata,
              er_completedAt := Some completedAt\<rparr>)) (\<lambda>_.
     ret ())"

definition getRunProjectId :: "string \<Rightarrow> string cmd" where
  "getRunProjectId runId =
     andThen (query (\<lambda>d. find_run d runId)) (\<lambda>found.
     andThen (require_some (NotFoundError ''Run'' runId) found) (\<lambda>run. ret (rn_projectId run)))"

definition requireRunningRun :: "string \<Rightarrow> run_row cmd" where
  "requireRunningRun runId =
     andThen (query (\<lambda>d. find_run d runId)) (\<lambda>found.
     andThen (require_some (NotFoundError ''Run'' runId) found) (\<lambda>run.
     andThen (throw_if (rn_status run \<noteq> RS_RUNNING)
       (ValidationError (''Run '' @ runId @ '' is not RUNNING; cannot transition''))) (\<lambda>_.
     ret run)))"

definition find_request :: "database \<Rightarrow> string \<Rightarrow> execution_request_record_row option" where
  "find_request d i = first_where (\<lambda>r. er_executionRequestId r = i) (execution_request_records d)"

definition requireRequestForRun :: "string \<Rightarrow> string \<Rightarrow> execution_request_record_row cmd" where
  "requireRequestForRun runId executionRequestId =
     andThen (query (\<lambda>d. find_request d executionRequestId)) (\<lambda>found.
     andThen (require_some (NotFoundError ''ExecutionRequestRecord'' executionRequestId) found) (\<lambda>request.
     andThen (throw_if (er_runId request \<noteq> runId)
       (ValidationError (''ExecutionRequest '' @ executionRequestId @ '' does not belong to Run '' @ runId))) (\<lambda>_.
     ret request)))"

record finalize_run_input =
  fri_runId :: string
  fri_executionRequestId :: string
  fri_metadata :: dispatch_result_metadata
  fri_completedAt :: string
  fri_now :: string
  fri_artifacts :: "artifact_input list"

definition metadata_outcome :: "dispatch_result_metadata \<Rightarrow> run_outcome" where
  "metadata_outcome m = mapDispatchToRunOutcome (dm_dispatchOutcome m) (dm_timedOut m = Some True)"

definition insert_artifact_at ::
  "services \<Rightarrow> finalize_run_input \<Rightarrow> nat \<times> artifact_input \<Rightarrow> artifact_row list cmd" where
  "insert_artifact_at sv inp pa =
     andThen (nextId sv ''artifact'') (\<lambda>i.
     insert_artifact
       \<lparr>ar_id = i, ar_runId = fri_runId inp, ar_executionRequestId = fri_executionRequestId inp,
        ar_kind = ari_kind (snd pa), ar_fileName = ari_fileName (snd pa), ar_content = ari_content (snd pa),
        ar_contentHash = ari_contentHash (snd pa), ar_sizeBytes = ari_sizeBytes (snd pa),
        ar_position = int (fst pa), ar_createdAt = fri_now inp\<rparr>)"

definition finalizeRun :: "services \<Rightarrow> finalize_run_input \<Rightarrow> unit cmd" where
  "finalizeRun sv inp =
     withTransaction (
       andThen (requireRunningRun (fri_runId inp)) (\<lambda>_.
       andThen (requireRequestForRun (fri_runId inp) (fri_executionRequestId inp)) (\<lambda>_.
       andThen (forEach (insert_artifact_at sv inp) (enumerate 0 (fri_artifacts inp))) (\<lambda>_.
       andThen (finalizeRequestRecord (fri_executionRequestId inp) (fri_metadata inp) (fri_completedAt inp)) (\<lambda>_.
       andThen (update_runs (\<lambda>r. rn_id r = fri_runId inp)
         (\<lambda>r. r\<lparr>rn_status := RS_FINISHED, rn_outcome := Some (metadata_outcome (fri_metadata inp)),
                rn_completedAt := Some (fri_completedAt inp), rn_updatedAt := fri_now inp\<rparr>)) (\<lambda>_.
       andThen (appendRunEvent sv (fri_runId inp) FINISHED
         (Some (stringify (JObj
           [(''executionRequestId'', JStr (fri_executionRequestId inp)),
            (''dispatchOutcome'', JStr (dispatch_outcome_str (dm_dispatchOutcome (fri_metadata inp)))),
            (''runOutcome'', JStr (run_outcome_str (metadata_outcome (fri_metadata inp))))])))
         (fri_now inp)) (\<lambda>_.
       andThen (getRunProjectId (fri_runId inp)) (\<lambda>pid.
       andThen (appendAudit sv (Some pid) ''Run'' (fri_runId inp) ''RUN_FINISHED''
         (JObj [(''executionRequestId'', JStr (fri_executionRequestId inp)),
                (''dispatchOutcome'', JStr (dispatch_outcome_str (dm_dispatchOutcome (fri_metadata inp)))),
                (''runOutcome'', JStr (run_outcome_str (metadata_outcome (fri_metadata inp)))),
                (''artifactCount'', JNum (int (length (fri_artifacts inp))))])) (\<lambda>_.
       ret ())))))))))"

record interrupt_run_input =
  iri_runId :: string
  iri_executionRequestId :: string
  iri_reasonCode :: string
  iri_now :: string
  iri_terminalMetadata :: "dispatch_result_metadata option"
  iri_terminalCompletedAt :: "string option"

definition interruptRun :: "services \<Rightarrow> interrupt_run_input \<Rightarrow> unit cmd" where
  "interruptRun sv inp =
     withTransaction (
       andThen (requireRunningRun (iri_runId inp)) (\<lambda>_.
       andThen (requireRequestForRun (iri_runId inp) (iri_executionRequestId inp)) (\<lambda>_.
       andThen (case iri_terminalMetadata inp of
           None \<Rightarrow> ret ()
         | Some m \<Rightarrow> finalizeRequestRecord (iri_executionRequestId inp) m
                      (default_to (iri_terminalCompletedAt inp) (iri_now inp))) (\<lambda>_.
       andThen (update_runs (\<lambda>r. rn_id r = iri_runId inp)
         (\<lambda>r. r\<lparr>rn_status := RS_INTERRUPTED, rn_outcome := None, rn_updatedAt := iri_now inp\<rparr>)) (\<lambda>_.
       andThen (appendRunEvent sv (iri_runId inp) INTERRUPTED
         (Some (stringify (JObj
           [(''executionRequestId'', JStr (iri_executionRequestId inp)),
            (''reasonCode'', JStr (iri_reasonCode inp))])))
         (iri_now inp)) (\<lambda>_.
       ret ()))))))"

end
