(* ===== verification/Acceptance_Commands.thy ===== *)
theory Acceptance_Commands
  imports Run_Commands
begin

text \<open>Acceptance evaluations and task completion (\<open>acceptance.ts\<close>).\<close>

record criterion_verdict_input =
  cvi_criterionId :: string
  cvi_verdict :: criterion_verdict
  cvi_note :: "string option"

record create_evaluation_input =
  cae_projectId :: string
  cae_taskId :: string
  cae_taskSpecVersionId :: string
  cae_runId :: string
  cae_criteria :: "criterion_verdict_input list"

record evaluation_aggregate =
  eva_evaluation :: acceptance_evaluation_row
  eva_items :: "acceptance_evaluation_item_row list"

definition USABLE_RUN_OUTCOMES :: "run_outcome set" where
  "USABLE_RUN_OUTCOMES = {RO_SUCCEEDED, RO_PARTIAL, RO_TIMED_OUT}"

definition usable_outcome :: "run_outcome option \<Rightarrow> bool" where
  "usable_outcome x = (case x of None \<Rightarrow> False | Some r \<Rightarrow> r \<in> USABLE_RUN_OUTCOMES)"

definition find_evaluation :: "database \<Rightarrow> string \<Rightarrow> acceptance_evaluation_row option" where
  "find_evaluation d i = first_where (\<lambda>r. ae_id r = i) (acceptance_evaluations d)"

definition requireEvaluation :: "string \<Rightarrow> acceptance_evaluation_row cmd" where
  "requireEvaluation i =
     andThen (query (\<lambda>d. find_evaluation d i)) (require_some (NotFoundError ''AcceptanceEvaluation'' i))"

definition requireAcceptanceEvaluation :: "string \<Rightarrow> acceptance_evaluation_row cmd" where
  "requireAcceptanceEvaluation i = requireEvaluation i"

definition evaluations_of_task :: "database \<Rightarrow> string \<Rightarrow> acceptance_evaluation_row list" where
  "evaluations_of_task d taskId = filter (\<lambda>r. ae_taskId r = taskId) (acceptance_evaluations d)"

definition latest_evaluation :: "database \<Rightarrow> string \<Rightarrow> acceptance_evaluation_row option" where
  "latest_evaluation d taskId = top_by ae_sequence (evaluations_of_task d taskId)"

definition latestEvaluationForTask :: "string \<Rightarrow> acceptance_evaluation_row option cmd" where
  "latestEvaluationForTask taskId = query (\<lambda>d. latest_evaluation d taskId)"

definition latestAcceptanceEvaluationForTask :: "string \<Rightarrow> acceptance_evaluation_row option cmd" where
  "latestAcceptanceEvaluationForTask taskId = latestEvaluationForTask taskId"

definition latest_spec :: "database \<Rightarrow> string \<Rightarrow> task_spec_version_row option" where
  "latest_spec d taskId = list_last (task_specs d taskId)"

definition latestTaskSpecVersionForTask :: "string \<Rightarrow> task_spec_version_row option cmd" where
  "latestTaskSpecVersionForTask taskId =
     andThen (listTaskSpecVersions taskId) (\<lambda>versions. ret (list_last versions))"

text \<open>\<open>new Map(authoritative.map((criterion) => [criterion.id, criterion]))\<close>\<close>

definition criteria_by_id :: "acceptance_criterion_row list \<Rightarrow> (string \<rightharpoonup> acceptance_criterion_row)" where
  "criteria_by_id cs = map_of (rev (map (\<lambda>c. (ac_id c, c)) cs))"

fun check_submitted ::
  "string \<Rightarrow> (string \<rightharpoonup> acceptance_criterion_row) \<Rightarrow> string set \<Rightarrow> criterion_verdict_input list \<Rightarrow> unit cmd" where
  "check_submitted specId byId seen [] = ret ()"
| "check_submitted specId byId seen (v # vs) =
     andThen (throw_if (cvi_criterionId v \<in> seen)
       (ValidationError (''duplicate acceptance criterion '' @ cvi_criterionId v))) (\<lambda>_.
     andThen (throw_if (byId (cvi_criterionId v) = None)
       (ValidationError (''acceptance criterion '' @ cvi_criterionId v
          @ '' does not belong to TaskSpecVersion '' @ specId))) (\<lambda>_.
     check_submitted specId byId (insert (cvi_criterionId v) seen) vs))"

definition insert_verdict ::
  "services \<Rightarrow> (string \<rightharpoonup> acceptance_criterion_row) \<Rightarrow> acceptance_evaluation_row \<Rightarrow> criterion_verdict_input
   \<Rightarrow> acceptance_evaluation_item_row cmd" where
  "insert_verdict sv byId inserted v =
     andThen (require_some (ValidationError (''missing authoritative criterion '' @ cvi_criterionId v))
       (byId (cvi_criterionId v))) (\<lambda>criterion.
     andThen (nextId sv ''acceptance_evaluation_item'') (\<lambda>i.
     andThen (insert_evaluation_item
       \<lparr>ai_id = i, ai_evaluationId = ae_id inserted, ai_criterionId = ac_id criterion,
        ai_verdict = cvi_verdict v, ai_note = cvi_note v, ai_position = ac_position criterion\<rparr>)
     (first_row (PlainError ''acceptance_evaluation_item insert returned no row''))))"

definition all_passed :: "criterion_verdict_input list \<Rightarrow> bool" where
  "all_passed vs \<longleftrightarrow> (\<forall>v\<in>set vs. cvi_verdict v = CV_PASSED)"

fun acceptance_status_str :: "acceptance_status \<Rightarrow> string" where
  "acceptance_status_str AS_PASSED = ''PASSED''"
| "acceptance_status_str AS_FAILED = ''FAILED''"

definition check_evaluation_scope :: "create_evaluation_input \<Rightarrow> run_row cmd" where
  "check_evaluation_scope inp =
     andThen (requireTask (cae_taskId inp)) (\<lambda>task.
     andThen (throw_if (tk_projectId task \<noteq> cae_projectId inp)
       (ValidationError (''Task '' @ tk_id task @ '' does not belong to Project '' @ cae_projectId inp))) (\<lambda>_.
     andThen (requireTaskSpecVersion (cae_taskSpecVersionId inp)) (\<lambda>spec.
     andThen (throw_if (ts_taskId spec \<noteq> cae_taskId inp)
       (ValidationError (''TaskSpecVersion '' @ ts_id spec @ '' does not belong to Task '' @ cae_taskId inp))) (\<lambda>_.
     andThen (requireRun (cae_runId inp)) (\<lambda>run.
     andThen (throw_if (rn_taskId run \<noteq> cae_taskId inp)
       (ValidationError (''Run '' @ rn_id run @ '' does not belong to Task '' @ cae_taskId inp))) (\<lambda>_.
     andThen (throw_if (rn_taskSpecVersionId run \<noteq> cae_taskSpecVersionId inp)
       (ValidationError (''Run '' @ rn_id run @ '' does not match TaskSpecVersion ''
          @ cae_taskSpecVersionId inp))) (\<lambda>_.
     andThen (throw_if (rn_status run \<noteq> RS_FINISHED)
       (ValidationError (''Run '' @ rn_id run @ '' is not FINISHED and cannot be evaluated''))) (\<lambda>_.
     ret run))))))))"

definition createAcceptanceEvaluation ::
  "services \<Rightarrow> create_evaluation_input \<Rightarrow> evaluation_aggregate cmd" where
  "createAcceptanceEvaluation sv inp =
     withTransaction (
       andThen (check_evaluation_scope inp) (\<lambda>run.
       andThen (listCriteria (cae_taskSpecVersionId inp)) (\<lambda>authoritative.
       andThen (throw_if (length authoritative \<noteq> length (cae_criteria inp))
         (ValidationError ''acceptance criteria must exactly match the TaskSpecVersion'')) (\<lambda>_.
       andThen (check_submitted (cae_taskSpecVersionId inp) (criteria_by_id authoritative) {} (cae_criteria inp)) (\<lambda>_.
       andThen (throw_if (all_passed (cae_criteria inp) \<and> \<not> usable_outcome (rn_outcome run))
         (ValidationError ''PASSED acceptance evaluation requires a usable Run outcome'')) (\<lambda>_.
       (let status = (if all_passed (cae_criteria inp) then AS_PASSED else AS_FAILED) in
       andThen (now sv) (\<lambda>t.
       andThen (query (\<lambda>d. next_number (-1) ae_sequence (evaluations_of_task d (cae_taskId inp)))) (\<lambda>sequence.
       andThen (nextId sv ''acceptance_evaluation'') (\<lambda>i.
       andThen (insert_evaluation
         \<lparr>ae_id = i, ae_projectId = cae_projectId inp, ae_taskId = cae_taskId inp,
          ae_taskSpecVersionId = cae_taskSpecVersionId inp, ae_runId = cae_runId inp,
          ae_sequence = sequence, ae_status = status, ae_createdAt = t\<rparr>) (\<lambda>rows.
       andThen (first_row (PlainError ''acceptance_evaluation insert returned no row'') rows) (\<lambda>inserted.
       andThen (forEach (insert_verdict sv (criteria_by_id authoritative) inserted) (cae_criteria inp)) (\<lambda>items.
       andThen (transitionTask sv (cae_taskId inp) TS_WAITING_REVIEW t) (\<lambda>_.
       andThen (appendAudit sv (Some (cae_projectId inp)) ''AcceptanceEvaluation'' (ae_id inserted)
         ''ACCEPTANCE_EVALUATED''
         (JObj [(''taskId'', JStr (cae_taskId inp)), (''taskSpecVersionId'', JStr (cae_taskSpecVersionId inp)),
                (''runId'', JStr (cae_runId inp)), (''sequence'', JNum sequence),
                (''status'', JStr (acceptance_status_str status)),
                (''criterionCount'', JNum (int (length items)))])) (\<lambda>_.
       ret \<lparr>eva_evaluation = inserted, eva_items = items\<rparr>)))))))))))))))"

definition items_of_evaluation :: "database \<Rightarrow> string \<Rightarrow> acceptance_evaluation_item_row list" where
  "items_of_evaluation d evaluationId =
     order_by ai_position (filter (\<lambda>r. ai_evaluationId r = evaluationId) (acceptance_evaluation_items d))"

definition getAcceptanceEvaluationAggregate :: "string \<Rightarrow> evaluation_aggregate cmd" where
  "getAcceptanceEvaluationAggregate evaluationId =
     andThen (requireEvaluation evaluationId) (\<lambda>evaluation.
     andThen (query (\<lambda>d. items_of_evaluation d evaluationId)) (\<lambda>items.
     ret \<lparr>eva_evaluation = evaluation, eva_items = items\<rparr>))"

definition listAcceptanceEvaluations :: "string \<Rightarrow> evaluation_aggregate list cmd" where
  "listAcceptanceEvaluations taskId =
     query (\<lambda>d. map (\<lambda>e. \<lparr>eva_evaluation = e, eva_items = items_of_evaluation d (ae_id e)\<rparr>)
       (order_by ae_sequence (evaluations_of_task d taskId)))"

definition completeTask :: "services \<Rightarrow> string \<Rightarrow> string \<Rightarrow> task_row cmd" where
  "completeTask sv taskId evaluationId =
     withTransaction (
       andThen (requireEvaluation evaluationId) (\<lambda>evaluation.
       andThen (throw_if (ae_taskId evaluation \<noteq> taskId)
         (ValidationError (''AcceptanceEvaluation '' @ ae_id evaluation @ '' does not belong to Task '' @ taskId))) (\<lambda>_.
       andThen (latestEvaluationForTask taskId) (\<lambda>latest.
       andThen (throw_if (case latest of None \<Rightarrow> True | Some l \<Rightarrow> ae_id l \<noteq> ae_id evaluation)
         (ValidationError ''task completion requires the latest acceptance evaluation'')) (\<lambda>_.
       andThen (throw_if (ae_status evaluation \<noteq> AS_PASSED)
         (ValidationError ''task completion requires a PASSED acceptance evaluation'')) (\<lambda>_.
       andThen (latestTaskSpecVersionForTask taskId) (\<lambda>latestSpec.
       andThen (throw_if (case latestSpec of None \<Rightarrow> True | Some l \<Rightarrow> ts_id l \<noteq> ae_taskSpecVersionId evaluation)
         (ValidationError ''acceptance evaluation must reference the latest TaskSpecVersion'')) (\<lambda>_.
       andThen (requireRun (ae_runId evaluation)) (\<lambda>run.
       andThen (throw_if (rn_status run \<noteq> RS_FINISHED)
         (ValidationError ''acceptance evaluation must reference a FINISHED Run'')) (\<lambda>_.
       andThen (throw_if (rn_taskId run \<noteq> taskId)
         (ValidationError (''Run '' @ rn_id run @ '' does not belong to Task '' @ taskId))) (\<lambda>_.
       andThen (throw_if (rn_taskSpecVersionId run \<noteq> ae_taskSpecVersionId evaluation)
         (ValidationError (''Run '' @ rn_id run @ '' does not match the evaluated TaskSpecVersion ''
            @ ae_taskSpecVersionId evaluation))) (\<lambda>_.
       andThen (now sv) (\<lambda>t.
       transitionTask sv taskId TS_COMPLETED t)))))))))))))"

end
