(* ===== verification/Application_Commands.thy ===== *)
theory Application_Commands
  imports Snapshot_Commands Acceptance_Commands
begin

text \<open>
  Result adoption: artifact applications with their event log, and baseline candidates
  (\<open>application.ts\<close>).
\<close>

record create_application_input =
  cap_id :: string
  cap_projectId :: string
  cap_taskId :: string
  cap_evaluationId :: string
  cap_runId :: string
  cap_executionRequestId :: string
  cap_artifactId :: string
  cap_baseBaselineId :: string
  cap_baseRepositoryRevisionId :: string
  cap_patchHash :: string
  cap_authorizedAt :: string

record application_aggregate =
  aag_application :: artifact_application_row
  aag_events :: "artifact_application_event_row list"
  aag_effectiveStatus :: application_event_kind
  aag_repositoryRevision :: "repository_revision_row option"

definition events_of_application :: "database \<Rightarrow> string \<Rightarrow> artifact_application_event_row list" where
  "events_of_application d applicationId =
     filter (\<lambda>r. ax_applicationId r = applicationId) (artifact_application_events d)"

definition appendApplicationEvent ::
  "services \<Rightarrow> string \<Rightarrow> application_event_kind \<Rightarrow> string option \<Rightarrow> string option \<Rightarrow> string option \<Rightarrow> string
   \<Rightarrow> artifact_application_event_row cmd" where
  "appendApplicationEvent sv applicationId kind revisionId reasonCode detail createdAt =
     andThen (query (\<lambda>d. next_number (-1) ax_sequence (events_of_application d applicationId))) (\<lambda>sequence.
     andThen (nextId sv ''artifact_application_event'') (\<lambda>i.
     andThen (insert_application_event
       \<lparr>ax_id = i, ax_applicationId = applicationId, ax_sequence = sequence, ax_kind = kind,
        ax_repositoryRevisionId = revisionId, ax_reasonCode = reasonCode, ax_detail = detail,
        ax_createdAt = createdAt\<rparr>)
     (first_row (PlainError ''artifact_application_event insert returned no row''))))"

definition find_application :: "database \<Rightarrow> string \<Rightarrow> artifact_application_row option" where
  "find_application d i = first_where (\<lambda>r. ap_id r = i) (artifact_applications d)"

definition requireArtifactApplication :: "string \<Rightarrow> artifact_application_row cmd" where
  "requireArtifactApplication i =
     andThen (query (\<lambda>d. find_application d i)) (require_some (NotFoundError ''ArtifactApplication'' i))"

definition buildAggregate :: "artifact_application_row \<Rightarrow> application_aggregate cmd" where
  "buildAggregate application =
     andThen (query (\<lambda>d. order_by ax_sequence (events_of_application d (ap_id application)))) (\<lambda>events.
     (let latest = list_last events;
          revisionId = Option.bind latest ax_repositoryRevisionId in
     andThen (case revisionId of
         None \<Rightarrow> ret None
       | Some i \<Rightarrow> andThen (requireRepositoryRevision i) (\<lambda>r. ret (Some r))) (\<lambda>revision.
     ret \<lparr>aag_application = application, aag_events = events,
          aag_effectiveStatus = default_to (map_option ax_kind latest) AE_AUTHORIZED,
          aag_repositoryRevision = revision\<rparr>)))"

definition getArtifactApplicationAggregate :: "string \<Rightarrow> application_aggregate cmd" where
  "getArtifactApplicationAggregate applicationId =
     andThen (requireArtifactApplication applicationId) buildAggregate"

definition listArtifactApplicationAggregates :: "string \<Rightarrow> application_aggregate list cmd" where
  "listArtifactApplicationAggregates taskId =
     andThen (query (\<lambda>d. filter (\<lambda>r. ap_taskId r = taskId) (artifact_applications d)))
       (forEach buildAggregate)"

definition createArtifactApplication ::
  "services \<Rightarrow> create_application_input \<Rightarrow> application_aggregate cmd" where
  "createArtifactApplication sv inp =
     withTransaction (
       andThen (insert_application
         \<lparr>ap_id = cap_id inp, ap_projectId = cap_projectId inp, ap_taskId = cap_taskId inp,
          ap_evaluationId = cap_evaluationId inp, ap_runId = cap_runId inp,
          ap_executionRequestId = cap_executionRequestId inp, ap_artifactId = cap_artifactId inp,
          ap_baseBaselineId = cap_baseBaselineId inp,
          ap_baseRepositoryRevisionId = cap_baseRepositoryRevisionId inp,
          ap_patchHash = cap_patchHash inp, ap_authorizedAt = cap_authorizedAt inp\<rparr>) (\<lambda>rows.
       andThen (first_row (PlainError ''artifact_application insert returned no row'') rows) (\<lambda>inserted.
       andThen (appendApplicationEvent sv (ap_id inserted) AE_AUTHORIZED None None None (cap_authorizedAt inp)) (\<lambda>_.
       andThen (appendAudit sv (Some (cap_projectId inp)) ''ArtifactApplication'' (ap_id inserted)
         ''ARTIFACT_APPLY_AUTHORIZED''
         (JObj [(''taskId'', JStr (cap_taskId inp)), (''evaluationId'', JStr (cap_evaluationId inp)),
                (''runId'', JStr (cap_runId inp)), (''artifactId'', JStr (cap_artifactId inp)),
                (''patchHash'', JStr (cap_patchHash inp))])) (\<lambda>_.
       buildAggregate inserted)))))"

definition markApplicationApplying :: "services \<Rightarrow> string \<Rightarrow> string \<Rightarrow> unit cmd" where
  "markApplicationApplying sv applicationId t =
     andThen (appendApplicationEvent sv applicationId AE_APPLYING None None None t) (\<lambda>_. ret ())"

record finalize_application_input =
  fai_applicationId :: string
  fai_baseCommit :: string
  fai_treeHash :: string
  fai_workingTreePatchHash :: "string option"
  fai_now :: string

definition finalizeApplicationApplied ::
  "services \<Rightarrow> finalize_application_input \<Rightarrow> application_aggregate cmd" where
  "finalizeApplicationApplied sv inp =
     withTransaction (
       andThen (nextId sv ''rev_'') (\<lambda>i.
       andThen (upsertRepositoryRevision sv
         \<lparr>rri_id = i, rri_baseCommit = fai_baseCommit inp, rri_treeHash = fai_treeHash inp,
          rri_workingTreePatchHash = fai_workingTreePatchHash inp\<rparr>) (\<lambda>revisionRow.
       andThen (requireArtifactApplication (fai_applicationId inp)) (\<lambda>application.
       andThen (appendApplicationEvent sv (fai_applicationId inp) AE_APPLIED (Some (rr_id revisionRow)) None None
         (fai_now inp)) (\<lambda>_.
       andThen (appendAudit sv (Some (ap_projectId application)) ''ArtifactApplication'' (fai_applicationId inp)
         ''ARTIFACT_APPLY_APPLIED'' (JObj [(''repositoryRevisionId'', JStr (rr_id revisionRow))])) (\<lambda>_.
       buildAggregate application))))))"

record fail_application_input =
  fap_applicationId :: string
  fap_reasonCode :: string
  fap_detail :: "string option"
  fap_now :: string

definition failApplication :: "services \<Rightarrow> fail_application_input \<Rightarrow> unit cmd" where
  "failApplication sv inp =
     andThen (appendApplicationEvent sv (fap_applicationId inp) AE_FAILED None (Some (fap_reasonCode inp))
       (fap_detail inp) (fap_now inp)) (\<lambda>_. ret ())"

definition interruptApplication :: "services \<Rightarrow> fail_application_input \<Rightarrow> unit cmd" where
  "interruptApplication sv inp =
     andThen (appendApplicationEvent sv (fap_applicationId inp) AE_INTERRUPTED None (Some (fap_reasonCode inp))
       (fap_detail inp) (fap_now inp)) (\<lambda>_. ret ())"

section \<open>Baseline candidates\<close>

record candidate_aggregate =
  bca_baseline :: project_baseline_row
  bca_source :: baseline_candidate_source_row
  bca_items :: "baseline_item_row list"

record create_candidate_input =
  cci_applicationId :: string
  cci_name :: string
  cci_description :: "string option"

definition candidate_source :: "database \<Rightarrow> string \<Rightarrow> baseline_candidate_source_row option" where
  "candidate_source d baselineId =
     first_where (\<lambda>r. bs_baselineId r = baselineId) (baseline_candidate_sources d)"

definition requireBaselineCandidateSource :: "string \<Rightarrow> baseline_candidate_source_row option cmd" where
  "requireBaselineCandidateSource baselineId = query (\<lambda>d. candidate_source d baselineId)"

definition reuse_candidate ::
  "create_candidate_input \<Rightarrow> baseline_candidate_source_row \<Rightarrow> candidate_aggregate cmd" where
  "reuse_candidate inp existing =
     andThen (getBaseline (bs_baselineId existing)) (\<lambda>baseline.
     andThen (throw_if (cci_name inp \<noteq> bl_name baseline)
       (ValidationError (''candidate already exists for application '' @ cci_applicationId inp
          @ '' with a different name''))) (\<lambda>_.
     andThen (throw_if (cci_description inp \<noteq> bl_description baseline)
       (ValidationError (''candidate already exists for application '' @ cci_applicationId inp
          @ '' with a different description''))) (\<lambda>_.
     andThen (listBaselineItems (bl_id baseline)) (\<lambda>items.
     ret \<lparr>bca_baseline = baseline, bca_source = existing, bca_items = items\<rparr>))))"

definition new_candidate :: "services \<Rightarrow> create_candidate_input \<Rightarrow> candidate_aggregate cmd" where
  "new_candidate sv inp =
     andThen (requireArtifactApplication (cci_applicationId inp)) (\<lambda>application.
     andThen (query (\<lambda>d. top_by ax_sequence (events_of_application d (cci_applicationId inp)))) (\<lambda>event.
     andThen (throw_if (map_option ax_kind event \<noteq> Some AE_APPLIED)
       (ValidationError ''baseline candidate requires an APPLIED artifact application'')) (\<lambda>_.
     andThen (require_some (ValidationError ''APPLIED application has no resulting repository revision'')
       (Option.bind event ax_repositoryRevisionId)) (\<lambda>revisionId.
     andThen (getActiveBaseline (ap_projectId application)) (\<lambda>active.
     andThen (throw_if (case active of None \<Rightarrow> True | Some a \<Rightarrow> bl_id a \<noteq> ap_baseBaselineId application)
       (ValidationError ''application base baseline is no longer the active baseline'')) (\<lambda>_.
     andThen (listBaselineItems (ap_baseBaselineId application)) (\<lambda>parentItems.
     andThen (nextId sv ''baseline_'') (\<lambda>i.
     andThen (insertBaselineDraft sv
       \<lparr>cbi_id = i, cbi_projectId = ap_projectId application, cbi_name = cci_name inp,
        cbi_description = cci_description inp, cbi_repositoryRevisionId = Some revisionId,
        cbi_nodeVersionIds = map bi_nodeVersionId parentItems\<rparr>) (\<lambda>baseline.
     andThen (insert_candidate_source
       \<lparr>bs_baselineId = bl_id baseline, bs_parentBaselineId = ap_baseBaselineId application,
        bs_taskId = ap_taskId application, bs_artifactApplicationId = ap_id application\<rparr>) (\<lambda>rows.
     andThen (first_row (PlainError ''baseline_candidate_source insert returned no row'') rows) (\<lambda>source.
     andThen (listBaselineItems (bl_id baseline)) (\<lambda>items.
     ret \<lparr>bca_baseline = baseline, bca_source = source, bca_items = items\<rparr>))))))))))))"

definition createBaselineCandidate :: "services \<Rightarrow> create_candidate_input \<Rightarrow> candidate_aggregate cmd" where
  "createBaselineCandidate sv inp =
     withTransaction (
       andThen (query (\<lambda>d. first_where (\<lambda>r. bs_artifactApplicationId r = cci_applicationId inp)
         (baseline_candidate_sources d))) (\<lambda>found.
       case found of Some existing \<Rightarrow> reuse_candidate inp existing | None \<Rightarrow> new_candidate sv inp))"

definition requireBaselineParentProject :: "string \<Rightarrow> string cmd" where
  "requireBaselineParentProject baselineId =
     andThen (getBaseline baselineId) (\<lambda>baseline. ret (bl_projectId baseline))"

definition assertCandidateActivationValid :: "string \<Rightarrow> unit cmd" where
  "assertCandidateActivationValid baselineId =
     andThen (requireBaselineCandidateSource baselineId) (\<lambda>found.
     case found of
       None \<Rightarrow> ret ()
     | Some source \<Rightarrow>
         andThen (requireBaselineParentProject baselineId) (\<lambda>projectId.
         andThen (getActiveBaseline projectId) (\<lambda>active.
         throw_if (case active of None \<Rightarrow> True | Some a \<Rightarrow> bl_id a \<noteq> bs_parentBaselineId source)
           (ValidationError ''baseline_candidate_parent_is_stale''))))"

end
