(* ===== verification/Edge_Commands.thy ===== *)
theory Edge_Commands
  imports Node_Commands Graph
begin

text \<open>Edges between nodes and their cycle check (\<open>edge.ts\<close>).\<close>

definition listEdges :: "string \<Rightarrow> edge_row list cmd" where
  "listEdges projectId =
     query (\<lambda>d. order_by (\<lambda>r. (eg_createdAt r, eg_id r))
       (filter (\<lambda>r. eg_projectId r = projectId) (edges d)))"

record create_edge_input =
  cei_id :: string
  cei_projectId :: string
  cei_sourceNodeId :: string
  cei_targetNodeId :: string
  cei_type :: edge_type
  cei_status :: "edge_status option"
  cei_anchoredNodeVersionId :: "string option"
  cei_note :: "string option"

record create_edge_result =
  cer_edge :: edge_row
  cer_warning :: "string option"

definition shouldCheckCycles :: "edge_type \<Rightarrow> bool" where
  "shouldCheckCycles type \<longleftrightarrow> type = PARENT_OF \<or> type = SUPERSEDES \<or> type = DEPENDS_ON"

definition edge_pairs :: "database \<Rightarrow> string \<Rightarrow> edge_type \<Rightarrow> (string \<times> string) list" where
  "edge_pairs d projectId type =
     map (\<lambda>r. (eg_sourceNodeId r, eg_targetNodeId r))
       (filter (\<lambda>r. eg_projectId r = projectId \<and> eg_type r = type) (edges d))"

definition wouldCreateCycle :: "database \<Rightarrow> string \<Rightarrow> edge_type \<Rightarrow> string \<Rightarrow> string \<Rightarrow> bool" where
  "wouldCreateCycle d projectId type source target =
     isReachable (edge_pairs d projectId type) target source"

definition createEdge :: "services \<Rightarrow> create_edge_input \<Rightarrow> create_edge_result cmd" where
  "createEdge sv inp =
     andThen (requireNode (cei_sourceNodeId inp)) (\<lambda>source.
     andThen (requireNode (cei_targetNodeId inp)) (\<lambda>target.
     andThen (case cei_anchoredNodeVersionId inp of
         None \<Rightarrow> ret ()
       | Some v \<Rightarrow> andThen (requireNodeVersion v) (\<lambda>_. ret ())) (\<lambda>_.
     andThen (throw_if (nd_projectId source \<noteq> cei_projectId inp \<or> nd_projectId target \<noteq> cei_projectId inp)
       (ValidationError ''Edge source and target nodes must belong to the same project'')) (\<lambda>_.
     andThen (throw_if (cei_sourceNodeId inp = cei_targetNodeId inp)
       (SelfEdgeError (cei_sourceNodeId inp))) (\<lambda>_.
     andThen (query (\<lambda>d. shouldCheckCycles (cei_type inp)
         \<and> wouldCreateCycle d (cei_projectId inp) (cei_type inp) (cei_sourceNodeId inp) (cei_targetNodeId inp)))
       (\<lambda>cycleDetected.
     andThen (throw_if (cycleDetected \<and> cei_type inp \<noteq> DEPENDS_ON)
       (CycleError (edge_type_str (cei_type inp)) (cei_sourceNodeId inp) (cei_targetNodeId inp))) (\<lambda>_.
     andThen (now sv) (\<lambda>t.
     andThen (insert_edge
       \<lparr>eg_id = cei_id inp, eg_projectId = cei_projectId inp, eg_sourceNodeId = cei_sourceNodeId inp,
        eg_targetNodeId = cei_targetNodeId inp, eg_type = cei_type inp,
        eg_status = default_to (cei_status inp) ES_PROPOSED,
        eg_anchoredNodeVersionId = cei_anchoredNodeVersionId inp, eg_note = cei_note inp,
        eg_createdAt = t, eg_updatedAt = t\<rparr>) (\<lambda>rows.
     andThen (first_row (PlainError (''edge insert returned no row for '' @ cei_id inp)) rows) (\<lambda>created.
     andThen (appendAudit sv (Some (cei_projectId inp)) ''Edge'' (eg_id created) ''EDGE_CREATED''
       (JObj [(''sourceNodeId'', JStr (cei_sourceNodeId inp)), (''targetNodeId'', JStr (cei_targetNodeId inp)),
              (''type'', JStr (edge_type_str (cei_type inp))),
              (''status'', JStr (edge_status_str (eg_status created)))])) (\<lambda>_.
     ret \<lparr>cer_edge = created,
          cer_warning =
            (if cycleDetected
             then Some (''DEPENDS_ON edge '' @ eg_id created @ '' introduces a cycle and is stored with a warning'')
             else None)\<rparr>)))))))))))"

end
