(* ===== verification/Session.thy ===== *)
theory Session
  imports Application_Commands Edge_Commands
begin

text \<open>
  The command interface of the persistence package as one labelled transition system: a
  command with its input, \<open>perform\<close> that dispatches it, the step it makes whether it
  succeeds or throws, and the states that a session can reach from the empty database of
  a fresh migration. \<open>transitionTask\<close> and \<open>insertBaselineDraft\<close> are not commands of the
  interface: they run inside the transactions of the commands below.
\<close>

datatype command =
  CreateProject create_project_input
| UpsertRepositoryRevision repository_revision_input
| CreateNode create_node_input
| UpsertNodeDraft upsert_node_draft_input
| PublishNodeVersion publish_node_version_input
| CreateEdge create_edge_input
| CreateTask create_task_input
| UpsertTaskDraft upsert_task_draft_input
| PublishTaskSpecVersion publish_task_spec_input
| CreateTaskDependency create_task_dependency_input
| CreateBaselineDraft create_baseline_input
| ActivateBaseline string
| FreezeContextSnapshot freeze_snapshot_input
| RegisterContentBlob register_blob_input
| CreateDispatchedRun create_dispatched_run_input
| FinalizeRun finalize_run_input
| InterruptRun interrupt_run_input
| CreateAcceptanceEvaluation create_evaluation_input
| CompleteTask string string
| CreateArtifactApplication create_application_input
| MarkApplicationApplying string string
| FinalizeApplicationApplied finalize_application_input
| FailApplication fail_application_input
| InterruptApplication fail_application_input
| CreateBaselineCandidate create_candidate_input

definition discard :: "'a cmd \<Rightarrow> unit cmd" where
  "discard m = andThen m (\<lambda>_. ret ())"

fun perform :: "services \<Rightarrow> command \<Rightarrow> unit cmd" where
  "perform sv (CreateProject x) = discard (createProject sv x)"
| "perform sv (UpsertRepositoryRevision x) = discard (upsertRepositoryRevision sv x)"
| "perform sv (CreateNode x) = discard (createNode sv x)"
| "perform sv (UpsertNodeDraft x) = discard (upsertNodeDraft sv x)"
| "perform sv (PublishNodeVersion x) = discard (publishNodeVersion sv x)"
| "perform sv (CreateEdge x) = discard (createEdge sv x)"
| "perform sv (CreateTask x) = discard (createTask sv x)"
| "perform sv (UpsertTaskDraft x) = discard (upsertTaskDraft sv x)"
| "perform sv (PublishTaskSpecVersion x) = discard (publishTaskSpecVersion sv x)"
| "perform sv (CreateTaskDependency x) = discard (createTaskDependency sv x)"
| "perform sv (CreateBaselineDraft x) = discard (createBaselineDraft sv x)"
| "perform sv (ActivateBaseline i) = discard (activateBaseline sv i)"
| "perform sv (FreezeContextSnapshot x) = discard (freezeContextSnapshot sv x)"
| "perform sv (RegisterContentBlob x) = discard (registerContentBlob sv x)"
| "perform sv (CreateDispatchedRun x) = createDispatchedRun sv x"
| "perform sv (FinalizeRun x) = finalizeRun sv x"
| "perform sv (InterruptRun x) = interruptRun sv x"
| "perform sv (CreateAcceptanceEvaluation x) = discard (createAcceptanceEvaluation sv x)"
| "perform sv (CompleteTask i e) = discard (completeTask sv i e)"
| "perform sv (CreateArtifactApplication x) = discard (createArtifactApplication sv x)"
| "perform sv (MarkApplicationApplying i t) = markApplicationApplying sv i t"
| "perform sv (FinalizeApplicationApplied x) = discard (finalizeApplicationApplied sv x)"
| "perform sv (FailApplication x) = failApplication sv x"
| "perform sv (InterruptApplication x) = interruptApplication sv x"
| "perform sv (CreateBaselineCandidate x) = discard (createBaselineCandidate sv x)"

text \<open>A session is the list of its commands; a command that throws does not end it.\<close>

fun run_session :: "services \<Rightarrow> command list \<Rightarrow> persistence \<Rightarrow> persistence" where
  "run_session sv [] s = s"
| "run_session sv (c # cs) s = run_session sv cs (snd (perform sv c s))"

inductive session :: "services \<Rightarrow> persistence \<Rightarrow> persistence \<Rightarrow> bool" for sv where
  session_refl: "session sv s s"
| session_step: "session sv s t \<Longrightarrow> perform sv c t = (res, u) \<Longrightarrow> session sv s u"

inductive_cases session_stepE: "session sv s u"

definition reachable :: "services \<Rightarrow> persistence \<Rightarrow> bool" where
  "reachable sv s \<longleftrightarrow> session sv open_empty s"

lemma session_trans: "session sv s t \<Longrightarrow> session sv t u \<Longrightarrow> session sv s u"
  by (rotate_tac 1, induction rule: session.induct) (auto intro: session.intros)

lemma run_session_append: "run_session sv (cs @ ds) s = run_session sv ds (run_session sv cs s)"
  by (induction cs arbitrary: s) auto

lemma session_iff_run: "session sv s t \<longleftrightarrow> (\<exists>cs. t = run_session sv cs s)"
proof
  show "session sv s t \<Longrightarrow> \<exists>cs. t = run_session sv cs s"
  proof (induction rule: session.induct)
    case (session_refl s)
    show ?case by (rule exI [of _ "[]"]) simp
  next
    case (session_step s t c res u)
    then obtain cs where "t = run_session sv cs s" by blast
    with session_step.hyps show ?case by (intro exI [of _ "cs @ [c]"]) (simp add: run_session_append)
  qed
  have "session sv s (run_session sv cs s)" for cs
    by (induction cs rule: rev_induct)
      (auto simp: run_session_append intro: session.intros surjective_pairing)
  then show "\<exists>cs. t = run_session sv cs s \<Longrightarrow> session sv s t" by blast
qed

text \<open>What every command does to the database, a session does.\<close>

context db_order
begin

lemma discard: "evolves_at R m s \<Longrightarrow> evolves_at R (discard m) s"
  unfolding discard_def by (intro andThen ret)

lemma session:
  assumes "\<And>c s. evolves_at R (perform sv c) s"
  shows "session sv s t \<Longrightarrow> R (db s) (db t) \<and> tx t = tx s"
proof (induction rule: session.induct)
  case (session_step s t c res u)
  have "evolves_at R (perform sv c) t" by (rule assms)
  with session_step show ?case by (auto simp: evolves_at_def intro: trans)
qed (simp add: refl)

end

lemma discard_ok [ok_simps]: "discard m s = (Inr u, t) \<longleftrightarrow> (\<exists>x. m s = (Inr x, t))"
  by (auto simp: discard_def ok_simps)

lemma discard_error: "fst (discard m s) = Inl e \<longleftrightarrow> fst (m s) = Inl e"
  by (auto simp: discard_def andThen_def ret_def split: prod.splits sum.splits)

lemma discard_db [simp]: "snd (discard m s) = snd (m s)"
  by (auto simp: discard_def andThen_def ret_def split: prod.splits sum.splits)

end
