(* ===== verification/Evolution.thy ===== *)
theory Evolution
  imports Session
begin

text \<open>
  How a command may change the database, argued once. The locale \<open>statements\<close> takes a
  reflexive and transitive relation on databases that every single statement respects,
  each under the guard the code has checked when it issues the statement, and derives that
  every command respects it, whether it succeeds, throws or rolls back. The later theories
  interpret it for the integrity of the schema, for the permanence of what is published,
  and for the tables a command does not touch.
\<close>

section \<open>Updates that the commands issue\<close>

definition touched_nodes :: "string \<Rightarrow> string \<Rightarrow> database \<Rightarrow> database" where
  "touched_nodes i t = nodes_update (map_where (\<lambda>r. nd_id r = i) (\<lambda>r. r\<lparr>nd_updatedAt := t\<rparr>))"

definition touched_tasks :: "string \<Rightarrow> string \<Rightarrow> database \<Rightarrow> database" where
  "touched_tasks i t = tasks_update (map_where (\<lambda>r. tk_id r = i) (\<lambda>r. r\<lparr>tk_updatedAt := t\<rparr>))"

definition moved_tasks :: "string \<Rightarrow> task_status \<Rightarrow> string \<Rightarrow> database \<Rightarrow> database" where
  "moved_tasks i to t =
     tasks_update (map_where (\<lambda>r. tk_id r = i) (\<lambda>r. r\<lparr>tk_status := to, tk_updatedAt := t\<rparr>))"

definition finished_runs ::
  "string \<Rightarrow> run_outcome \<Rightarrow> string \<Rightarrow> string \<Rightarrow> database \<Rightarrow> database" where
  "finished_runs i out c t =
     runs_update (map_where (\<lambda>r. rn_id r = i)
       (\<lambda>r. r\<lparr>rn_status := RS_FINISHED, rn_outcome := Some out, rn_completedAt := Some c, rn_updatedAt := t\<rparr>))"

definition interrupted_runs :: "string \<Rightarrow> string \<Rightarrow> database \<Rightarrow> database" where
  "interrupted_runs i t =
     runs_update (map_where (\<lambda>r. rn_id r = i)
       (\<lambda>r. r\<lparr>rn_status := RS_INTERRUPTED, rn_outcome := None, rn_updatedAt := t\<rparr>))"

definition superseded_row :: "string \<Rightarrow> project_baseline_row \<Rightarrow> project_baseline_row" where
  "superseded_row t r = r\<lparr>bl_status := BS_SUPERSEDED, bl_supersededAt := Some t, bl_updatedAt := t\<rparr>"

definition activated_row :: "string \<Rightarrow> project_baseline_row \<Rightarrow> project_baseline_row" where
  "activated_row t r = r\<lparr>bl_status := BS_ACTIVE, bl_activatedAt := Some t, bl_updatedAt := t\<rparr>"

definition frozen_row :: "string \<Rightarrow> context_snapshot_row \<Rightarrow> context_snapshot_row" where
  "frozen_row t r = r\<lparr>sn_status := SS_FROZEN, sn_updatedAt := t\<rparr>"

definition completed_request ::
  "dispatch_result_metadata \<Rightarrow> string \<Rightarrow> execution_request_record_row \<Rightarrow> execution_request_record_row" where
  "completed_request m c r =
     r\<lparr>er_dispatchOutcome := Some (dm_dispatchOutcome m), er_claimGranted := Some (dm_claimGranted m),
       er_rejectionReason := dm_rejectionReason m, er_revisionMismatchField := dm_revisionMismatchField m,
       er_revisionMismatchExpected := dm_revisionMismatchExpected m,
       er_revisionMismatchActual := dm_revisionMismatchActual m, er_patchHash := dm_patchHash m,
       er_timedOut := dm_timedOut m, er_recoveryJson := dm_recoveryJson m, er_completedAt := Some c\<rparr>"

lemmas update_shapes = touched_nodes_def touched_tasks_def moved_tasks_def finished_runs_def
  interrupted_runs_def superseded_row_def activated_row_def frozen_row_def completed_request_def

section \<open>Guards that the commands have checked\<close>

text \<open>What the code has established when it completes a task.\<close>

definition completable :: "database \<Rightarrow> string \<Rightarrow> bool" where
  "completable d i \<longleftrightarrow>
     (\<exists>e l s r. e \<in> set (acceptance_evaluations d) \<and> ae_taskId e = i \<and> ae_status e = AS_PASSED
        \<and> latest_evaluation d i = Some l \<and> ae_id l = ae_id e
        \<and> latest_spec d i = Some s \<and> ts_id s = ae_taskSpecVersionId e
        \<and> find_run d (ae_runId e) = Some r \<and> rn_status r = RS_FINISHED
        \<and> rn_taskId r = i \<and> rn_taskSpecVersionId r = ae_taskSpecVersionId e)"

text \<open>
  What is known when a task enters a status. No command of the interface cancels or
  archives a task.
\<close>

definition entry_guard :: "database \<Rightarrow> string \<Rightarrow> task_status \<Rightarrow> bool" where
  "entry_guard d i to =
     (case to of
        TS_READY \<Rightarrow> i \<in> ts_taskId ` set (task_spec_versions d)
      | TS_IN_PROGRESS \<Rightarrow> True
      | TS_WAITING_REVIEW \<Rightarrow> i \<in> ae_taskId ` set (acceptance_evaluations d)
      | TS_COMPLETED \<Rightarrow> completable d i
      | _ \<Rightarrow> False)"

definition open_task :: "database \<Rightarrow> string \<Rightarrow> bool" where
  "open_task d i \<longleftrightarrow>
     (\<exists>k. find_task d i = Some k \<and> tk_status k \<notin> {TS_COMPLETED, TS_CANCELLED, TS_ARCHIVED})"

definition evaluable :: "database \<Rightarrow> acceptance_evaluation_row \<Rightarrow> bool" where
  "evaluable d e \<longleftrightarrow>
     (\<exists>r s k. find_run d (ae_runId e) = Some r \<and> rn_status r = RS_FINISHED \<and> rn_taskId r = ae_taskId e
        \<and> rn_taskSpecVersionId r = ae_taskSpecVersionId e
        \<and> find_spec d (ae_taskSpecVersionId e) = Some s \<and> ts_taskId s = ae_taskId e
        \<and> find_task d (ae_taskId e) = Some k \<and> tk_projectId k = ae_projectId e
        \<and> (ae_status e = AS_PASSED \<longrightarrow> usable_outcome (rn_outcome r)))"

definition node_of_project :: "database \<Rightarrow> string \<Rightarrow> string \<Rightarrow> bool" where
  "node_of_project d p i \<longleftrightarrow> (\<exists>n. find_node d i = Some n \<and> nd_projectId n = p)"

definition version_of_project :: "database \<Rightarrow> string \<Rightarrow> string \<Rightarrow> bool" where
  "version_of_project d p i \<longleftrightarrow>
     (\<exists>v. find_node_version d i = Some v \<and> node_of_project d p (nv_nodeId v))"

definition task_of_project :: "database \<Rightarrow> string \<Rightarrow> string \<Rightarrow> bool" where
  "task_of_project d p i \<longleftrightarrow> (\<exists>k. find_task d i = Some k \<and> tk_projectId k = p)"

definition edge_guard :: "database \<Rightarrow> edge_row \<Rightarrow> bool" where
  "edge_guard d r \<longleftrightarrow>
     node_of_project d (eg_projectId r) (eg_sourceNodeId r)
     \<and> node_of_project d (eg_projectId r) (eg_targetNodeId r)
     \<and> (eg_type r = PARENT_OF \<or> eg_type r = SUPERSEDES \<longrightarrow>
          \<not> wouldCreateCycle d (eg_projectId r) (eg_type r) (eg_sourceNodeId r) (eg_targetNodeId r))"

definition dependency_guard :: "database \<Rightarrow> task_dependency_row \<Rightarrow> bool" where
  "dependency_guard d r \<longleftrightarrow>
     task_of_project d (dp_projectId r) (dp_taskId r)
     \<and> task_of_project d (dp_projectId r) (dp_dependsOnTaskId r)
     \<and> \<not> isReachable (dependency_pairs d (dp_projectId r)) (dp_dependsOnTaskId r) (dp_taskId r)"

definition snapshot_guard :: "database \<Rightarrow> context_snapshot_row \<Rightarrow> bool" where
  "snapshot_guard d r \<longleftrightarrow>
     sn_status r = SS_DRAFT \<and> task_of_project d (sn_projectId r) (sn_taskId r)
     \<and> (\<exists>s. find_spec d (sn_taskSpecVersionId r) = Some s \<and> ts_taskId s = sn_taskId r)
     \<and> (\<exists>b. find_baseline d (sn_baseBaselineId r) = Some b \<and> bl_projectId b = sn_projectId r)"

definition item_guard :: "database \<Rightarrow> string \<Rightarrow> string \<Rightarrow> bool" where
  "item_guard d i v \<longleftrightarrow>
     (\<exists>b\<in>set (project_baselines d). bl_id b = i \<and> version_of_project d (bl_projectId b) v)"

text \<open>The status of a baseline row by its id, where ids are unique.\<close>

definition baselines_at :: "database \<Rightarrow> string \<Rightarrow> baseline_status \<Rightarrow> bool" where
  "baselines_at d i st \<longleftrightarrow>
     (distinct (map bl_id (project_baselines d)) \<longrightarrow>
        (\<forall>x\<in>set (project_baselines d). bl_id x = i \<longrightarrow> bl_status x = st))"

lemmas guard_defs = completable_def entry_guard_def open_task_def evaluable_def node_of_project_def
  version_of_project_def task_of_project_def edge_guard_def dependency_guard_def snapshot_guard_def item_guard_def

lemmas read_defs = requireNode_def getNode_def projectIdOfNode_def requireNodeVersion_def requireTask_def
  requireTaskSpecVersion_def listCriteria_def listTaskSpecVersions_def getBaseline_def getActiveBaseline_def
  requireActiveBaseline_def listBaselineItems_def requireRepositoryRevision_def requireRun_def getRunProjectId_def
  requireRunningRun_def requireRequestForRun_def requireEvaluation_def latestEvaluationForTask_def
  latestTaskSpecVersionForTask_def requireArtifactApplication_def requireBaselineCandidateSource_def
  requireBaselineParentProject_def check_target_def check_baseline_version_def check_evaluation_scope_def
  buildAggregate_def

section \<open>Frames of the loops\<close>

lemma frame_okD: "evolves_at (same_on f) m s \<Longrightarrow> m s = (Inr x, t) \<Longrightarrow> f (db t) = f (db s)"
  by (simp add: evolves_at_def same_on_def)

lemma read_okD: "evolves_at same_db m s \<Longrightarrow> m s = (Inr x, t) \<Longrightarrow> db t = db s"
  by (simp add: evolves_at_def same_db_def)

lemma check_targets_read: "evolves_at same_db (forEach (check_target task) xs) s"
  unfolding read_defs by (intro rd.composed rd.basic)

lemma check_versions_read: "evolves_at same_db (forEach (check_baseline_version p) xs) s"
  unfolding read_defs by (intro rd.composed rd.basic)

lemma check_submitted_read: "evolves_at same_db (check_submitted sp m seen vs) s"
  by (induction sp m seen vs arbitrary: s rule: check_submitted.induct)
    (auto intro!: rd.composed rd.basic)

lemma check_scope_read: "evolves_at same_db (check_evaluation_scope inp) s"
  unfolding read_defs by (intro rd.composed rd.basic)

lemma criteria_keep_specs:
  "evolves_at (same_on task_spec_versions) (forEach (insert_spec_criterion sv spec) xs) s"
  unfolding insert_spec_criterion_def
  by (intro fr.composed fr.basic fr.insert_into) (simp add: same_on_def)

lemma targets_keep_specs:
  "evolves_at (same_on task_spec_versions) (forEach (insert_spec_target sv spec) xs) s"
  unfolding insert_spec_target_def
  by (intro fr.composed fr.basic fr.insert_into) (simp add: same_on_def)

lemma verdicts_keep_evaluations:
  "evolves_at (same_on acceptance_evaluations) (forEach (insert_verdict sv m e) xs) s"
  unfolding insert_verdict_def
  by (intro fr.composed fr.basic fr.insert_into) (simp add: same_on_def)

lemma artifacts_keep_runs: "evolves_at (same_on runs) (forEach (insert_artifact_at sv inp) xs) s"
  unfolding insert_artifact_at_def
  by (intro fr.composed fr.basic fr.insert_into) (simp add: same_on_def)

lemma request_keeps_runs: "evolves_at (same_on runs) (finalizeRequestRecord i m c) s"
  unfolding finalizeRequestRecord_def
  by (intro fr.composed fr.basic fr.update_where) (simp add: same_on_def)

lemmas frames_ok = read_okD [OF check_targets_read] read_okD [OF check_submitted_read]
  frame_okD [OF criteria_keep_specs] frame_okD [OF targets_keep_specs]
  frame_okD [OF verdicts_keep_evaluations] frame_okD [OF artifacts_keep_runs]
  frame_okD [OF request_keeps_runs]

text \<open>Superseding one baseline leaves the rows with another id alone.\<close>

definition baseline_rows :: "string \<Rightarrow> database \<Rightarrow> string list \<times> project_baseline_row list" where
  "baseline_rows i d =
     (map bl_id (project_baselines d), filter (\<lambda>r. bl_id r = i) (project_baselines d))"

lemma filter_map_where_other:
  "(\<And>r. P r \<Longrightarrow> \<not> Q r \<and> \<not> Q (f r)) \<Longrightarrow> filter Q (map_where P f rs) = filter Q rs"
  by (induction rs) (auto simp: map_where_def)

lemma appendAudit_keeps_baselines:
  "evolves_at (same_on (baseline_rows i)) (appendAudit sv p e k a j) s"
  unfolding appendAudit_def
  by (intro fr.composed fr.basic fr.insert_into) (simp add: same_on_def baseline_rows_def audit_push_def)

lemma supersede_keeps_others:
  "bl_id x \<noteq> i \<Longrightarrow> evolves_at (same_on (baseline_rows i)) (supersede_baseline sv b t x) s"
  unfolding supersede_baseline_def
  by (intro fr.composed fr.basic fr.update_where appendAudit_keeps_baselines)
    (simp add: same_on_def baseline_rows_def filter_map_where_other)

lemma baselines_at_rows:
  assumes "baseline_rows i d = baseline_rows i e"
  shows "baselines_at d i st = baselines_at e i st"
proof -
  have "baselines_at x i st \<longleftrightarrow>
      (distinct (fst (baseline_rows i x)) \<longrightarrow> (\<forall>r\<in>set (snd (baseline_rows i x)). bl_status r = st))" for x
    by (auto simp: baselines_at_def baseline_rows_def)
  with assms show ?thesis by simp
qed

lemma supersede_keeps_ids:
  "evolves_at (same_on (\<lambda>d. map bl_id (project_baselines d))) (supersede_baseline sv b t x) s"
  unfolding supersede_baseline_def appendAudit_def
  by (intro fr.composed fr.basic fr.update_where fr.insert_into) (simp_all add: same_on_def audit_push_def)

lemma supersede_baselines_at:
  assumes "supersede_baseline sv b t x s = (Inr y, u)" and "baselines_at (db s) i st"
    and "distinct (map bl_id (project_baselines (db s))) \<Longrightarrow> bl_id x \<noteq> i"
  shows "baselines_at (db u) i st"
proof (cases "distinct (map bl_id (project_baselines (db s)))")
  case True
  with assms show ?thesis
    using frame_okD [OF supersede_keeps_others assms(1)] by (metis baselines_at_rows)
next
  case False
  with frame_okD [OF supersede_keeps_ids assms(1)] show ?thesis by (simp add: baselines_at_def)
qed

lemma supersede_all_baselines_at:
  assumes "forEach (supersede_baseline sv b t) xs s = (Inr ys, u)" and "baselines_at (db s) i st"
    and "\<And>x. x \<in> set xs \<Longrightarrow> distinct (map bl_id (project_baselines (db s))) \<Longrightarrow> bl_id x \<noteq> i"
  shows "baselines_at (db u) i st"
  using assms
proof (induction xs arbitrary: s ys)
  case (Cons a xs)
  from Cons.prems(1) obtain y v zs where a: "supersede_baseline sv b t a s = (Inr y, v)"
    and xs: "forEach (supersede_baseline sv b t) xs v = (Inr zs, u)" by (auto simp: ok_simps)
  have ids: "map bl_id (project_baselines (db v)) = map bl_id (project_baselines (db s))"
    by (rule frame_okD [OF supersede_keeps_ids a])
  show ?case
    by (rule Cons.IH [OF xs]) (use Cons.prems a ids supersede_baselines_at in \<open>auto\<close>)
qed (simp add: ok_simps)

lemma distinct_key_eq: "distinct (map k rs) \<Longrightarrow> x \<in> set rs \<Longrightarrow> y \<in> set rs \<Longrightarrow> k x = k y \<Longrightarrow> x = y"
  by (auto simp: distinct_map inj_on_def)

lemma active_at:
  "x \<in> set (filter (is_active_of p) (project_baselines d)) \<Longrightarrow> baselines_at d (bl_id x) BS_ACTIVE"
  by (auto simp: baselines_at_def is_active_of_def dest: distinct_key_eq)

lemma found_at: "find_baseline d i = Some b \<Longrightarrow> bl_status b = st \<Longrightarrow> baselines_at d i st"
  by (auto simp: baselines_at_def find_baseline_def dest!: first_where_SomeD dest: distinct_key_eq)

lemma draft_not_active:
  "baselines_at d i BS_DRAFT \<Longrightarrow> x \<in> set (filter (is_active_of p) (project_baselines d)) \<Longrightarrow>
    distinct (map bl_id (project_baselines d)) \<Longrightarrow> bl_id x \<noteq> i"
  by (auto simp: baselines_at_def is_active_of_def)

lemma draft_survives:
  assumes "forEach (supersede_baseline sv b t) (filter (is_active_of p) (project_baselines d)) s = (Inr ys, u)"
    and "db s = d" and "find_baseline d j = Some c" and "bl_status c = BS_DRAFT"
  shows "baselines_at (db u) (bl_id c) BS_DRAFT"
proof -
  have "bl_id c = j" using assms(3) by (auto simp: find_baseline_def dest: first_where_SomeD)
  with assms found_at have "baselines_at d (bl_id c) BS_DRAFT" by blast
  with assms show ?thesis
    by (intro supersede_all_baselines_at [OF assms(1)]) (auto dest: draft_not_active)
qed

lemma one_active_on_update_ok [simp]:
  "one_active_on_update d x y = None \<longleftrightarrow> \<not> second_active (project_baselines d) y"
  by (simp add: one_active_on_update_def)

lemma frozen_on_update_ok [simp]:
  "guard_frozen_snapshot_no_update d x y = None \<longleftrightarrow> sn_status x \<noteq> SS_FROZEN"
  by (simp add: guard_frozen_snapshot_no_update_def)

lemma before_active: "BS_ACTIVE \<in> set (baselineTransitions st) \<longleftrightarrow> st = BS_DRAFT"
  by (cases st) auto

lemma distinct_map_filter: "distinct (map k rs) \<Longrightarrow> distinct (map k (filter P rs))"
  by (simp add: distinct_map inj_on_def)

lemma enumerate_snd: "pv \<in> set (enumerate n vs) \<Longrightarrow> snd pv \<in> set vs"
  by (metis imageI list.set_map map_snd_enumerate)

lemma check_versions_ok:
  "forEach (check_baseline_version p) xs s = (Inr ys, t) \<Longrightarrow>
     db t = db s \<and> (\<forall>v\<in>set xs. version_of_project (db s) p v)"
  by (induction xs arbitrary: s ys) (fastforce simp: ok_simps read_defs guard_defs)+

lemma version_of_project_frame [simp]:
  "version_of_project (project_baselines_update f d) = version_of_project d"
  "version_of_project (baseline_items_update g d) = version_of_project d"
  by (auto simp: guard_defs find_node_version_def find_node_def fun_eq_iff)

lemma check_scope_ok:
  "check_evaluation_scope inp s = (Inr r, t) \<Longrightarrow>
     t = s \<and> find_run (db s) (cae_runId inp) = Some r \<and> rn_status r = RS_FINISHED
     \<and> rn_taskId r = cae_taskId inp \<and> rn_taskSpecVersionId r = cae_taskSpecVersionId inp
     \<and> task_of_project (db s) (cae_projectId inp) (cae_taskId inp)
     \<and> (\<exists>sp. find_spec (db s) (cae_taskSpecVersionId inp) = Some sp \<and> ts_taskId sp = cae_taskId inp)"
  by (auto simp: ok_simps read_defs guard_defs)

section \<open>The interface\<close>

locale statements = db_order +
  assumes ins_project: "project_viol d r1 = None \<Longrightarrow> R d (projects_update (\<lambda>rs. rs @ [r1]) d)"
    and ins_revision: "repository_revision_viol d r2 = None \<Longrightarrow> revision_key r2 \<notin> revision_key ` set (repository_revisions d) \<Longrightarrow>
          R d (repository_revisions_update (\<lambda>rs. rs @ [r2]) d)"
    and ins_node: "node_viol d r3 = None \<Longrightarrow> R d (nodes_update (\<lambda>rs. rs @ [r3]) d)"
    and ins_node_draft: "node_draft_viol d r4 = None \<Longrightarrow> R d (node_drafts_update (\<lambda>rs. rs @ [r4]) d)"
    and ins_node_version: "node_version_viol d r5 = None \<Longrightarrow>
          nv_sequence r5 = next_number 0 nv_sequence (filter (\<lambda>r. nv_nodeId r = nv_nodeId r5) (node_versions d)) \<Longrightarrow>
          R d (node_versions_update (\<lambda>rs. rs @ [r5]) d)"
    and ins_edge: "edge_viol d r6 = None \<Longrightarrow> edge_guard d r6 \<Longrightarrow> R d (edges_update (\<lambda>rs. rs @ [r6]) d)"
    and ins_task: "task_viol d r7 = None \<Longrightarrow> tk_status r7 = TS_DRAFT \<Longrightarrow> R d (tasks_update (\<lambda>rs. rs @ [r7]) d)"
    and ins_task_draft: "task_draft_viol d r8 = None \<Longrightarrow> R d (task_drafts_update (\<lambda>rs. rs @ [r8]) d)"
    and ins_spec: "task_spec_version_viol d r9 = None \<Longrightarrow> open_task d (ts_taskId r9) \<Longrightarrow>
          ts_sequence r9 = next_number 0 ts_sequence (filter (\<lambda>r. ts_taskId r = ts_taskId r9) (task_spec_versions d)) \<Longrightarrow>
          R d (task_spec_versions_update (\<lambda>rs. rs @ [r9]) d)"
    and ins_criterion: "acceptance_criterion_viol d r10 = None \<Longrightarrow> R d (acceptance_criteria_update (\<lambda>rs. rs @ [r10]) d)"
    and ins_target: "task_target_viol d r11 = None \<Longrightarrow> R d (task_targets_update (\<lambda>rs. rs @ [r11]) d)"
    and ins_dependency: "task_dependency_viol d r12 = None \<Longrightarrow> dependency_guard d r12 \<Longrightarrow> R d (task_dependencies_update (\<lambda>rs. rs @ [r12]) d)"
    and ins_baseline: "project_baseline_viol d r13 = None \<Longrightarrow> bl_status r13 = BS_DRAFT \<Longrightarrow> R d (project_baselines_update (\<lambda>rs. rs @ [r13]) d)"
    and ins_baseline_item: "baseline_item_viol d r14 = None \<Longrightarrow> item_guard d (bi_baselineId r14) (bi_nodeVersionId r14) \<Longrightarrow> R d (baseline_items_update (\<lambda>rs. rs @ [r14]) d)"
    and ins_blob: "content_blob_viol d r15 = None \<Longrightarrow> R d (content_blobs_update (\<lambda>rs. rs @ [r15]) d)"
    and ins_snapshot: "context_snapshot_viol d r16 = None \<Longrightarrow> snapshot_guard d r16 \<Longrightarrow> R d (context_snapshots_update (\<lambda>rs. rs @ [r16]) d)"
    and ins_snapshot_item: "context_snapshot_item_viol d r17 = None \<Longrightarrow> R d (context_snapshot_items_update (\<lambda>rs. rs @ [r17]) d)"
    and ins_run: "run_viol d r18 = None \<Longrightarrow> rn_status r18 = RS_RUNNING \<Longrightarrow> rn_outcome r18 = None \<Longrightarrow> R d (runs_update (\<lambda>rs. rs @ [r18]) d)"
    and ins_request: "execution_request_record_viol d r19 = None \<Longrightarrow> R d (execution_request_records_update (\<lambda>rs. rs @ [r19]) d)"
    and ins_run_event: "run_event_viol d r20 = None \<Longrightarrow> re_sequence r20 = next_number (-1) re_sequence (events_of_run d (re_runId r20)) \<Longrightarrow> R d (run_events_update (\<lambda>rs. rs @ [r20]) d)"
    and ins_artifact: "artifact_viol d r21 = None \<Longrightarrow> R d (artifacts_update (\<lambda>rs. rs @ [r21]) d)"
    and ins_evaluation: "acceptance_evaluation_viol d r22 = None \<Longrightarrow> evaluable d r22 \<Longrightarrow>
          ae_sequence r22 = next_number (-1) ae_sequence (evaluations_of_task d (ae_taskId r22)) \<Longrightarrow>
          R d (acceptance_evaluations_update (\<lambda>rs. rs @ [r22]) d)"
    and ins_evaluation_item: "acceptance_evaluation_item_viol d r23 = None \<Longrightarrow> R d (acceptance_evaluation_items_update (\<lambda>rs. rs @ [r23]) d)"
    and ins_application: "artifact_application_viol d r24 = None \<Longrightarrow> R d (artifact_applications_update (\<lambda>rs. rs @ [r24]) d)"
    and ins_application_event: "artifact_application_event_viol d r25 = None \<Longrightarrow> ax_sequence r25 = next_number (-1) ax_sequence (events_of_application d (ax_applicationId r25)) \<Longrightarrow> R d (artifact_application_events_update (\<lambda>rs. rs @ [r25]) d)"
    and ins_candidate_source: "baseline_candidate_source_viol d r26 = None \<Longrightarrow> R d (baseline_candidate_sources_update (\<lambda>rs. rs @ [r26]) d)"
    and ins_audit: "audit_log_viol d r27 = None \<Longrightarrow> au_id r27 = audit_sequence d + 1 \<Longrightarrow> R d (audit_push (\<lambda>rs. rs @ [r27]) d)"
    and touch_nodes: "R d (touched_nodes i t d)"
    and touch_tasks: "R d (touched_tasks i t d)"
    and move_tasks: "find_task d i = Some k \<Longrightarrow> to \<in> set (taskTransitions (tk_status k)) \<Longrightarrow>
          entry_guard d i to \<Longrightarrow> R d (moved_tasks i to t d)"
    and edit_node_drafts: "R d (node_drafts_update (map_where (\<lambda>r. nf_id r = i \<and> nf_revision r = v)
          (\<lambda>r. r\<lparr>nf_title := a, nf_body := b, nf_revision := v + 1, nf_updatedAt := t\<rparr>)) d)"
    and edit_task_drafts: "R d (task_drafts_update (map_where (\<lambda>r. tf_id r = i \<and> tf_revision r = v)
          (\<lambda>r. r\<lparr>tf_description := a, tf_scope := b, tf_revision := v + 1, tf_updatedAt := t\<rparr>)) d)"
    and supersede: "baselines_at d i BS_ACTIVE \<Longrightarrow> R d (project_baselines_update (map_where (\<lambda>r. bl_id r = i) (superseded_row t)) d)"
    and activate: "(\<And>x. x \<in> set (project_baselines d) \<Longrightarrow> bl_id x = i \<Longrightarrow> \<not> second_active (project_baselines d) (activated_row t x)) \<Longrightarrow>
          baselines_at d i BS_DRAFT \<Longrightarrow> R d (project_baselines_update (map_where (\<lambda>r. bl_id r = i) (activated_row t)) d)"
    and freeze: "(\<And>x. x \<in> set (context_snapshots d) \<Longrightarrow> sn_id x = i \<Longrightarrow> sn_status x \<noteq> SS_FROZEN)
          \<Longrightarrow> R d (context_snapshots_update (map_where (\<lambda>r. sn_id r = i) (frozen_row t)) d)"
    and complete_request: "R d (execution_request_records_update
          (map_where (\<lambda>r. er_executionRequestId r = i) (completed_request m c)) d)"
    and finish_run: "find_run d i = Some q \<Longrightarrow> rn_status q = RS_RUNNING \<Longrightarrow> R d (finished_runs i out c t d)"
    and interrupt_run: "find_run d i = Some q \<Longrightarrow> rn_status q = RS_RUNNING \<Longrightarrow> R d (interrupted_runs i t d)"
begin

lemma appendAudit: "evolves_at R (appendAudit sv p e i a j) s"
  unfolding appendAudit_def
  by (intro andThen basic insert_into ins_audit) (auto simp: query_ok)

lemma appendRunEvent: "evolves_at R (appendRunEvent sv i k dt c) s"
  unfolding appendRunEvent_def nextRunEventSequence_def
  by (intro andThen basic insert_into ins_run_event) (auto simp: query_ok)

lemma appendApplicationEvent: "evolves_at R (appendApplicationEvent sv i k r rc dt c) s"
  unfolding appendApplicationEvent_def
  by (intro andThen basic insert_into ins_application_event) (auto simp: ok_simps)

lemma touchNode: "evolves_at R (touchNode sv i) s"
  unfolding touchNode_def
  by (intro andThen basic update_where touch_nodes [unfolded touched_nodes_def])

lemma touchTask: "evolves_at R (touchTask sv i) s"
  unfolding touchTask_def
  by (intro andThen basic update_where touch_tasks [unfolded touched_tasks_def])

lemma finalizeRequestRecord: "evolves_at R (finalizeRequestRecord i m c) s"
  unfolding finalizeRequestRecord_def
  by (intro andThen basic update_where complete_request [unfolded completed_request_def [abs_def]])

lemma transitionTask:
  assumes "\<And>k. find_task (db s) i = Some k \<Longrightarrow> tk_status k \<noteq> to \<Longrightarrow> entry_guard (db s) i to"
  shows "evolves_at R (transitionTask sv i to t) s"
  unfolding transitionTask_def requireTask_def
  by (intro composed basic appendAudit update_where move_tasks [unfolded moved_tasks_def])
    (auto simp: ok_simps assms split: sum.splits)

lemma createProject: "evolves_at R (createProject sv inp) s"
  unfolding createProject_def by (intro composed basic appendAudit insert_into ins_project)

lemma upsertRepositoryRevision: "evolves_at R (upsertRepositoryRevision sv inp) s"
  unfolding upsertRepositoryRevision_def
  by (intro composed basic appendAudit insert_into ins_revision)
    (auto simp: ok_simps same_revision_def revision_key_def eq_commute [of None] split: option.splits)

lemma createNode: "evolves_at R (createNode sv inp) s"
  unfolding createNode_def by (intro composed basic appendAudit insert_into ins_node)

lemma upsertNodeDraft: "evolves_at R (upsertNodeDraft sv inp) s"
  unfolding upsertNodeDraft_def read_defs Let_def
  by (intro composed basic appendAudit touchNode insert_into ins_node_draft update_where)
    (auto simp: ok_simps intro!: edit_node_drafts)

lemma publishNodeVersion: "evolves_at R (publishNodeVersion sv inp) s"
  unfolding publishNodeVersion_def read_defs
  by (intro composed basic appendAudit touchNode insert_into ins_node_version) (auto simp: ok_simps)

lemma createEdge: "evolves_at R (createEdge sv inp) s"
  unfolding createEdge_def read_defs
  by (intro composed basic appendAudit insert_into ins_edge)
    (auto simp: ok_simps guard_defs shouldCheckCycles_def split: option.splits)

lemma createTask: "evolves_at R (createTask sv inp) s"
  unfolding createTask_def by (intro composed basic appendAudit insert_into ins_task) simp_all

lemma upsertTaskDraft: "evolves_at R (upsertTaskDraft sv inp) s"
  unfolding upsertTaskDraft_def Let_def
  by (intro composed basic appendAudit touchTask insert_into ins_task_draft update_where)
    (auto simp: ok_simps intro!: edit_task_drafts)

lemma createTaskDependency: "evolves_at R (createTaskDependency sv inp) s"
  unfolding createTaskDependency_def
  by (intro composed basic appendAudit insert_into ins_dependency) (auto simp: ok_simps guard_defs)

lemma reader: "evolves_at same_db m s \<Longrightarrow> evolves_at R m s"
  by (auto simp: evolves_at_def same_db_def refl)

lemmas readers = reader [OF check_targets_read] reader [OF check_versions_read]
  reader [OF check_submitted_read] reader [OF check_scope_read]

lemma insert_spec_criterion: "evolves_at R (insert_spec_criterion sv spec c) s"
  unfolding insert_spec_criterion_def by (intro composed basic insert_into ins_criterion)

lemma insert_spec_target: "evolves_at R (insert_spec_target sv spec c) s"
  unfolding insert_spec_target_def by (intro composed basic insert_into ins_target)

lemma publishTaskSpecVersion: "evolves_at R (publishTaskSpecVersion sv inp) s"
  unfolding publishTaskSpecVersion_def
  by (intro readers composed basic appendAudit touchTask transitionTask insert_into ins_spec
      insert_spec_criterion insert_spec_target)
    (auto simp: ok_simps guard_defs dest!: frames_ok)

lemma forEach_inv:
  assumes "\<And>x t. x \<in> set xs \<Longrightarrow> K t \<Longrightarrow> evolves_at R (f x) t"
    and "\<And>x t y u. x \<in> set xs \<Longrightarrow> K t \<Longrightarrow> f x t = (Inr y, u) \<Longrightarrow> K u" and "K s"
  shows "evolves_at R (forEach f xs) s"
  using assms
proof (induction xs arbitrary: s)
  case (Cons a xs)
  show ?case
  proof (simp, rule andThen)
    fix y t assume "f a s = (Inr y, t)"
    then have "K t" using Cons.prems(2) [of a s y t] Cons.prems(3) by simp
    then have "evolves_at R (forEach f xs) t" by (intro Cons.IH) (auto intro: Cons.prems)
    then show "evolves_at R (andThen (forEach f xs) (\<lambda>ys. ret (y # ys))) t" by (intro andThen ret)
  qed (use Cons.prems in auto)
qed (simp add: ret)

lemma insert_item_at:
  "item_guard (db s) (bl_id b) (snd pv) \<Longrightarrow> evolves_at R (insert_item_at sv b pv) s"
  unfolding insert_item_at_def
  by (intro composed basic insert_into ins_baseline_item) (auto simp: ok_simps)

lemma insert_items:
  assumes "\<And>v. v \<in> set vs \<Longrightarrow> item_guard (db s) (bl_id b) v"
  shows "evolves_at R (forEach (insert_item_at sv b) (enumerate n vs)) s"
proof (rule forEach_inv [where K = "\<lambda>t. \<forall>v\<in>set vs. item_guard (db t) (bl_id b) v"])
  fix pv and t :: persistence
  assume "pv \<in> set (enumerate n vs)" and "\<forall>v\<in>set vs. item_guard (db t) (bl_id b) v"
  then show "evolves_at R (insert_item_at sv b pv) t" by (auto intro!: insert_item_at dest: enumerate_snd)
qed (use assms in \<open>auto simp: insert_item_at_def ok_simps item_guard_def\<close>)

lemma insertBaselineDraft: "evolves_at R (insertBaselineDraft sv inp) s"
  unfolding insertBaselineDraft_def
  by (intro andThen readers basic appendAudit insert_into ins_baseline insert_items)
    (auto simp: ok_simps item_guard_def dest!: check_versions_ok)

lemma createBaselineDraft: "evolves_at R (createBaselineDraft sv inp) s"
  unfolding createBaselineDraft_def by (intro withTransaction insertBaselineDraft)

lemma supersede_baseline:
  "baselines_at (db s) (bl_id x) BS_ACTIVE \<Longrightarrow> evolves_at R (supersede_baseline sv b t x) s"
  unfolding supersede_baseline_def
  by (intro composed basic appendAudit update_where supersede [unfolded superseded_row_def [abs_def]])

lemma supersede_all:
  assumes "\<And>x. x \<in> set xs \<Longrightarrow> baselines_at (db s) (bl_id x) BS_ACTIVE"
    and "distinct (map bl_id (project_baselines (db s))) \<Longrightarrow> distinct (map bl_id xs)"
  shows "evolves_at R (forEach (supersede_baseline sv b t) xs) s"
  using assms
proof (induction xs arbitrary: s)
  case (Cons a xs)
  have "evolves_at R (forEach (supersede_baseline sv b t) xs) u"
    if a: "supersede_baseline sv b t a s = (Inr y, u)" for y u
  proof (rule Cons.IH)
    show "distinct (map bl_id (project_baselines (db u))) \<Longrightarrow> distinct (map bl_id xs)"
      using Cons.prems(2) frame_okD [OF supersede_keeps_ids a] by simp
    show "\<And>x. x \<in> set xs \<Longrightarrow> baselines_at (db u) (bl_id x) BS_ACTIVE"
      using Cons.prems by (intro supersede_baselines_at [OF a]) (force intro: rev_image_eqI)+
  qed
  then show ?case using Cons.prems(1) [of a] by (auto intro!: andThen ret supersede_baseline)
qed (simp add: ret)

lemma activate_rows:
  assumes "baselines_at (db s) i BS_DRAFT"
  shows "evolves_at R (update_baselines (\<lambda>r. bl_id r = i)
    (\<lambda>r. r\<lparr>bl_status := BS_ACTIVE, bl_activatedAt := Some t, bl_updatedAt := t\<rparr>)) s"
  using assms by (intro update_where activate [unfolded activated_row_def [abs_def]]) auto

lemma supersede_active:
  "db s = d \<Longrightarrow>
    evolves_at R (forEach (supersede_baseline sv b t) (filter (is_active_of p) (project_baselines d))) s"
  by (rule supersede_all) (auto simp: active_at distinct_map_filter)

lemma activateBaseline: "evolves_at R (activateBaseline sv i) s"
  unfolding activateBaseline_def getBaseline_def
  by (intro andThen withTransaction basic appendAudit)
    (auto simp: ok_simps before_active elim!: draft_survives intro!: supersede_active activate_rows)

lemma freeze_item: "evolves_at R (freeze_item sv i x) s"
  unfolding freeze_item_def by (intro composed basic insert_into ins_snapshot_item)

lemma freeze_rows:
  "evolves_at R (update_snapshots (\<lambda>r. sn_id r = i) (\<lambda>r. r\<lparr>sn_status := SS_FROZEN, sn_updatedAt := t\<rparr>)) s"
  by (intro update_where freeze [unfolded frozen_row_def [abs_def]]) simp

lemma freezeContextSnapshot: "evolves_at R (freezeContextSnapshot sv inp) s"
  unfolding freezeContextSnapshot_def read_defs
  by (intro composed basic appendAudit freeze_item freeze_rows insert_into ins_snapshot)
    (auto simp: ok_simps guard_defs)

lemma registerContentBlob: "evolves_at R (registerContentBlob sv inp) s"
  unfolding registerContentBlob_def by (intro composed basic insert_into ins_blob)

lemma createDispatchedRun: "evolves_at R (createDispatchedRun sv inp) s"
  unfolding createDispatchedRun_def
  by (intro composed basic transitionTask appendRunEvent insert_into ins_run ins_request)
    (simp_all add: entry_guard_def)

lemma insert_artifact_at: "evolves_at R (insert_artifact_at sv inp pa) s"
  unfolding insert_artifact_at_def by (intro composed basic insert_into ins_artifact)

lemma finalizeRun: "evolves_at R (finalizeRun sv inp) s"
  unfolding finalizeRun_def read_defs
  by (intro composed basic appendRunEvent appendAudit finalizeRequestRecord insert_artifact_at
      update_where finish_run [unfolded finished_runs_def])
    (auto simp: ok_simps find_run_def dest!: frames_ok)

lemma interruptRun: "evolves_at R (interruptRun sv inp) s"
  unfolding interruptRun_def read_defs
  by (intro composed basic appendRunEvent finalizeRequestRecord
      update_where interrupt_run [unfolded interrupted_runs_def])
    (auto simp: ok_simps find_run_def dest!: frames_ok split: option.splits)

lemma insert_verdict: "evolves_at R (insert_verdict sv m e v) s"
  unfolding insert_verdict_def by (intro composed basic insert_into ins_evaluation_item)

lemma createAcceptanceEvaluation: "evolves_at R (createAcceptanceEvaluation sv inp) s"
  unfolding createAcceptanceEvaluation_def listCriteria_def Let_def
  by (intro readers andThen forEach withTransaction basic appendAudit transitionTask insert_verdict insert_into
      ins_evaluation)
    (auto simp: ok_simps evaluable_def task_of_project_def entry_guard_def evaluations_of_task_def
      dest!: check_scope_ok frames_ok)

lemma completeTask: "evolves_at R (completeTask sv i e) s"
  unfolding completeTask_def read_defs
  by (intro composed basic transitionTask)
    (auto simp: ok_simps entry_guard_def completable_def latest_spec_def find_evaluation_def split: option.splits
      dest!: first_where_SomeD)

lemma buildAggregate: "evolves_at R (buildAggregate a) s"
  unfolding buildAggregate_def requireRepositoryRevision_def Let_def by (intro composed basic)

lemma createArtifactApplication: "evolves_at R (createArtifactApplication sv inp) s"
  unfolding createArtifactApplication_def
  by (intro composed basic appendApplicationEvent appendAudit buildAggregate insert_into ins_application)

lemma markApplicationApplying: "evolves_at R (markApplicationApplying sv i t) s"
  unfolding markApplicationApplying_def by (intro composed basic appendApplicationEvent)

lemma finalizeApplicationApplied: "evolves_at R (finalizeApplicationApplied sv inp) s"
  unfolding finalizeApplicationApplied_def requireArtifactApplication_def
  by (intro composed basic appendApplicationEvent appendAudit buildAggregate upsertRepositoryRevision)

lemma failApplication: "evolves_at R (failApplication sv inp) s"
  unfolding failApplication_def by (intro composed basic appendApplicationEvent)

lemma interruptApplication: "evolves_at R (interruptApplication sv inp) s"
  unfolding interruptApplication_def by (intro composed basic appendApplicationEvent)

lemma createBaselineCandidate: "evolves_at R (createBaselineCandidate sv inp) s"
  unfolding createBaselineCandidate_def reuse_candidate_def new_candidate_def read_defs
  by (intro composed basic insertBaselineDraft insert_into ins_candidate_source)

lemma assertCandidateActivationValid: "evolves_at R (assertCandidateActivationValid i) s"
  unfolding assertCandidateActivationValid_def read_defs by (intro composed basic)

lemmas commands = createProject upsertRepositoryRevision createNode upsertNodeDraft publishNodeVersion
  createEdge createTask upsertTaskDraft publishTaskSpecVersion createTaskDependency createBaselineDraft
  activateBaseline freezeContextSnapshot registerContentBlob createDispatchedRun finalizeRun interruptRun
  createAcceptanceEvaluation completeTask createArtifactApplication markApplicationApplying
  finalizeApplicationApplied failApplication interruptApplication createBaselineCandidate

lemma perform: "evolves_at R (perform sv c) s"
  by (cases c) (simp_all add: discard commands)

lemma over_session: "session sv s t \<Longrightarrow> R (db s) (db t) \<and> tx t = tx s"
  using session perform by blast

end

end
