(* ===== verification/Integrity.thy ===== *)
theory Integrity
  imports Evolution
begin

text \<open>
  Integrity of the schema: the declared constraints hold of the tables as a whole.
  SQLite checks a constraint only for the row of the current statement; the invariant
  \<open>schema_ok\<close> says that all rows together satisfy the primary keys, the unique indexes,
  the foreign keys, the \<open>CHECK\<close>s and the partial index on ACTIVE baselines, and the
  interpretation of \<open>statements\<close> shows that every command preserves it.
\<close>

section \<open>Foreign keys as inclusions of columns\<close>

definition fk :: "'k list \<Rightarrow> 'k list \<Rightarrow> bool" where
  "fk xs ks \<longleftrightarrow> set xs \<subseteq> set ks"

definition fk_opt :: "'k option list \<Rightarrow> 'k list \<Rightarrow> bool" where
  "fk_opt xs ks \<longleftrightarrow> (\<forall>x\<in>set xs. case x of None \<Rightarrow> True | Some v \<Rightarrow> v \<in> set ks)"

lemma fk_Nil [simp]: "fk [] ks" "fk_opt [] ks"
  by (simp_all add: fk_def fk_opt_def)

lemma fk_snoc [simp]: "fk (xs @ [x]) ks \<longleftrightarrow> fk xs ks \<and> x \<in> set ks"
  by (auto simp: fk_def)

lemma fk_opt_snoc [simp]: "fk_opt (xs @ [x]) (map k ts) \<longleftrightarrow> fk_opt xs (map k ts) \<and> \<not> missing_opt k ts x"
  by (auto simp: fk_opt_def missing_opt_def split: option.splits)

lemma fk_grow [simp]: "fk xs ks \<Longrightarrow> fk xs (ks @ [k])"
  by (auto simp: fk_def)

lemma fk_opt_grow [simp]: "fk_opt xs ks \<Longrightarrow> fk_opt xs (ks @ [k])"
  by (force simp: fk_opt_def split: option.splits)

lemma fkD: "fk (map f rs) (map k ts) \<Longrightarrow> r \<in> set rs \<Longrightarrow> \<exists>t\<in>set ts. k t = f r"
  by (force simp: fk_def)

lemma violation_Cons_None [simp]: "violation ((b, e) # cs) = None \<longleftrightarrow> \<not> b \<and> violation cs = None"
  by simp

declare violation.simps(2) [simp del]

section \<open>The invariant\<close>

definition keys_ok :: "database \<Rightarrow> bool" where
  "keys_ok d \<longleftrightarrow>
     distinct (map pr_id (projects d)) \<and> distinct (map rr_id (repository_revisions d))
     \<and> distinct (map nd_id (nodes d)) \<and> distinct (map nf_id (node_drafts d))
     \<and> distinct (map nv_id (node_versions d)) \<and> distinct (map eg_id (edges d))
     \<and> distinct (map tk_id (tasks d)) \<and> distinct (map tf_id (task_drafts d))
     \<and> distinct (map ts_id (task_spec_versions d)) \<and> distinct (map ac_id (acceptance_criteria d))
     \<and> distinct (map tt_id (task_targets d)) \<and> distinct (map dp_id (task_dependencies d))
     \<and> distinct (map bl_id (project_baselines d)) \<and> distinct (map bi_id (baseline_items d))
     \<and> distinct (map cb_id (content_blobs d)) \<and> distinct (map sn_id (context_snapshots d))
     \<and> distinct (map si_id (context_snapshot_items d)) \<and> distinct (map rn_id (runs d))
     \<and> distinct (map er_executionRequestId (execution_request_records d))
     \<and> distinct (map re_id (run_events d)) \<and> distinct (map ar_id (artifacts d))
     \<and> distinct (map ae_id (acceptance_evaluations d)) \<and> distinct (map ai_id (acceptance_evaluation_items d))
     \<and> distinct (map ap_id (artifact_applications d)) \<and> distinct (map ax_id (artifact_application_events d))
     \<and> distinct (map bs_baselineId (baseline_candidate_sources d))"

text \<open>
  The unique indexes. A revision without a patch hash is outside the index of the schema
  (two \<open>NULL\<close>s differ); it is unique all the same because \<open>upsertRepositoryRevision\<close>
  looks for it first.
\<close>

definition uniques_ok :: "database \<Rightarrow> bool" where
  "uniques_ok d \<longleftrightarrow>
     distinct (map revision_key (repository_revisions d))
     \<and> distinct (map nf_nodeId (node_drafts d)) \<and> distinct (map tf_taskId (task_drafts d))
     \<and> distinct (map nv_key (node_versions d)) \<and> distinct (map ts_key (task_spec_versions d))
     \<and> distinct (map ac_key (acceptance_criteria d)) \<and> distinct (map tt_key (task_targets d))
     \<and> distinct (map dp_key (task_dependencies d))
     \<and> distinct (map bi_key (baseline_items d)) \<and> distinct (map bi_version_key (baseline_items d))
     \<and> distinct (map si_key (context_snapshot_items d)) \<and> distinct (map re_key (run_events d))
     \<and> distinct (map ar_key (artifacts d)) \<and> distinct (map ae_key (acceptance_evaluations d))
     \<and> distinct (map ai_criterion_key (acceptance_evaluation_items d))
     \<and> distinct (map ai_key (acceptance_evaluation_items d))
     \<and> distinct (map ap_taskId (artifact_applications d))
     \<and> distinct (map ap_artifactId (artifact_applications d))
     \<and> distinct (map ax_key (artifact_application_events d))
     \<and> distinct (map bs_artifactApplicationId (baseline_candidate_sources d))"

definition graph_refs_ok :: "database \<Rightarrow> bool" where
  "graph_refs_ok d \<longleftrightarrow>
     fk (map nd_projectId (nodes d)) (map pr_id (projects d))
     \<and> fk (map nf_nodeId (node_drafts d)) (map nd_id (nodes d))
     \<and> fk (map nv_nodeId (node_versions d)) (map nd_id (nodes d))
     \<and> fk (map eg_projectId (edges d)) (map pr_id (projects d))
     \<and> fk (map eg_sourceNodeId (edges d)) (map nd_id (nodes d))
     \<and> fk (map eg_targetNodeId (edges d)) (map nd_id (nodes d))
     \<and> fk_opt (map eg_anchoredNodeVersionId (edges d)) (map nv_id (node_versions d))
     \<and> fk (map bl_projectId (project_baselines d)) (map pr_id (projects d))
     \<and> fk_opt (map bl_repositoryRevisionId (project_baselines d)) (map rr_id (repository_revisions d))
     \<and> fk (map bi_baselineId (baseline_items d)) (map bl_id (project_baselines d))
     \<and> fk (map bi_nodeVersionId (baseline_items d)) (map nv_id (node_versions d))
     \<and> fk_opt (map au_projectId (audit_log d)) (map pr_id (projects d))"

definition task_refs_ok :: "database \<Rightarrow> bool" where
  "task_refs_ok d \<longleftrightarrow>
     fk (map tk_projectId (tasks d)) (map pr_id (projects d))
     \<and> fk (map tf_taskId (task_drafts d)) (map tk_id (tasks d))
     \<and> fk (map ts_taskId (task_spec_versions d)) (map tk_id (tasks d))
     \<and> fk (map ac_taskSpecVersionId (acceptance_criteria d)) (map ts_id (task_spec_versions d))
     \<and> fk (map tt_taskSpecVersionId (task_targets d)) (map ts_id (task_spec_versions d))
     \<and> fk_opt (map tt_nodeId (task_targets d)) (map nd_id (nodes d))
     \<and> fk_opt (map tt_nodeVersionId (task_targets d)) (map nv_id (node_versions d))
     \<and> fk (map dp_projectId (task_dependencies d)) (map pr_id (projects d))
     \<and> fk (map dp_taskId (task_dependencies d)) (map tk_id (tasks d))
     \<and> fk (map dp_dependsOnTaskId (task_dependencies d)) (map tk_id (tasks d))
     \<and> fk (map sn_projectId (context_snapshots d)) (map pr_id (projects d))
     \<and> fk (map sn_taskId (context_snapshots d)) (map tk_id (tasks d))
     \<and> fk (map sn_taskSpecVersionId (context_snapshots d)) (map ts_id (task_spec_versions d))
     \<and> fk (map sn_baseBaselineId (context_snapshots d)) (map bl_id (project_baselines d))
     \<and> fk (map sn_expectedRepositoryRevisionId (context_snapshots d)) (map rr_id (repository_revisions d))
     \<and> fk (map si_contextSnapshotId (context_snapshot_items d)) (map sn_id (context_snapshots d))
     \<and> fk_opt (map si_blobId (context_snapshot_items d)) (map cb_id (content_blobs d))"

definition run_refs_ok :: "database \<Rightarrow> bool" where
  "run_refs_ok d \<longleftrightarrow>
     fk (map rn_projectId (runs d)) (map pr_id (projects d))
     \<and> fk (map rn_taskId (runs d)) (map tk_id (tasks d))
     \<and> fk (map rn_taskSpecVersionId (runs d)) (map ts_id (task_spec_versions d))
     \<and> fk (map rn_contextSnapshotId (runs d)) (map sn_id (context_snapshots d))
     \<and> fk (map rn_repositoryRevisionId (runs d)) (map rr_id (repository_revisions d))
     \<and> fk (map er_runId (execution_request_records d)) (map rn_id (runs d))
     \<and> fk (map re_runId (run_events d)) (map rn_id (runs d))
     \<and> fk (map ar_runId (artifacts d)) (map rn_id (runs d))
     \<and> fk (map ar_executionRequestId (artifacts d))
         (map er_executionRequestId (execution_request_records d))"

definition adoption_refs_ok :: "database \<Rightarrow> bool" where
  "adoption_refs_ok d \<longleftrightarrow>
     fk (map ae_projectId (acceptance_evaluations d)) (map pr_id (projects d))
     \<and> fk (map ae_taskId (acceptance_evaluations d)) (map tk_id (tasks d))
     \<and> fk (map ae_taskSpecVersionId (acceptance_evaluations d)) (map ts_id (task_spec_versions d))
     \<and> fk (map ae_runId (acceptance_evaluations d)) (map rn_id (runs d))
     \<and> fk (map ai_evaluationId (acceptance_evaluation_items d)) (map ae_id (acceptance_evaluations d))
     \<and> fk (map ai_criterionId (acceptance_evaluation_items d)) (map ac_id (acceptance_criteria d))
     \<and> fk (map ap_projectId (artifact_applications d)) (map pr_id (projects d))
     \<and> fk (map ap_taskId (artifact_applications d)) (map tk_id (tasks d))
     \<and> fk (map ap_evaluationId (artifact_applications d)) (map ae_id (acceptance_evaluations d))
     \<and> fk (map ap_runId (artifact_applications d)) (map rn_id (runs d))
     \<and> fk (map ap_artifactId (artifact_applications d)) (map ar_id (artifacts d))
     \<and> fk (map ap_baseBaselineId (artifact_applications d)) (map bl_id (project_baselines d))
     \<and> fk (map ax_applicationId (artifact_application_events d)) (map ap_id (artifact_applications d))
     \<and> fk (map bs_baselineId (baseline_candidate_sources d)) (map bl_id (project_baselines d))
     \<and> fk (map bs_parentBaselineId (baseline_candidate_sources d)) (map bl_id (project_baselines d))
     \<and> fk (map bs_taskId (baseline_candidate_sources d)) (map tk_id (tasks d))
     \<and> fk (map bs_artifactApplicationId (baseline_candidate_sources d)) (map ap_id (artifact_applications d))"

definition is_active :: "project_baseline_row \<Rightarrow> bool" where
  "is_active r \<longleftrightarrow> bl_status r = BS_ACTIVE"

definition checks_ok :: "database \<Rightarrow> bool" where
  "checks_ok d \<longleftrightarrow>
     distinct (map bl_projectId (filter is_active (project_baselines d)))
     \<and> (\<forall>e\<in>set (edges d). eg_sourceNodeId e \<noteq> eg_targetNodeId e)
     \<and> (\<forall>t\<in>set (task_targets d). tt_nodeId t \<noteq> None \<or> tt_nodeVersionId t \<noteq> None)
     \<and> (\<forall>r\<in>set (task_dependencies d). dp_taskId r \<noteq> dp_dependsOnTaskId r)"

definition audit_ok :: "database \<Rightarrow> bool" where
  "audit_ok d \<longleftrightarrow> numbered_from 1 au_id (audit_log d) \<and> audit_sequence d = int (length (audit_log d))"

definition schema_ok :: "database \<Rightarrow> bool" where
  "schema_ok d \<longleftrightarrow> keys_ok d \<and> uniques_ok d \<and> graph_refs_ok d \<and> task_refs_ok d \<and> run_refs_ok d
     \<and> adoption_refs_ok d \<and> checks_ok d \<and> audit_ok d"

lemmas schema_defs = keys_ok_def uniques_ok_def graph_refs_ok_def task_refs_ok_def run_refs_ok_def
  adoption_refs_ok_def checks_ok_def audit_ok_def

lemma schema_ok_empty: "schema_ok empty_database"
  by (simp add: schema_ok_def schema_defs empty_database_def)

section \<open>Every statement preserves it\<close>

definition keeps_schema :: "database \<Rightarrow> database \<Rightarrow> bool" where
  "keeps_schema d e \<longleftrightarrow> (schema_ok d \<longrightarrow> schema_ok e)"

lemma filter_map_where_out:
  "(\<And>r. P r \<Longrightarrow> \<not> Q (f r)) \<Longrightarrow> filter Q (map_where P f rs) = filter (\<lambda>r. \<not> P r) (filter Q rs)"
  by (induction rs) (auto simp: map_where_def)

lemma active_supersede:
  "distinct (map bl_projectId (filter is_active rs)) \<Longrightarrow>
    distinct (map bl_projectId (filter is_active (map_where P (superseded_row t) rs)))"
  by (subst filter_map_where_out) (simp_all add: is_active_def superseded_row_def distinct_map_filter del: filter_filter)

lemma baseline_row_simps [simp]:
  "bl_id (superseded_row t r) = bl_id r" "bl_projectId (superseded_row t r) = bl_projectId r"
  "bl_repositoryRevisionId (superseded_row t r) = bl_repositoryRevisionId r"
  "bl_status (superseded_row t r) = BS_SUPERSEDED"
  "bl_id (activated_row t r) = bl_id r" "bl_projectId (activated_row t r) = bl_projectId r"
  "bl_repositoryRevisionId (activated_row t r) = bl_repositoryRevisionId r"
  "bl_status (activated_row t r) = BS_ACTIVE"
  by (simp_all add: superseded_row_def activated_row_def)

lemma active_activate:
  assumes "distinct (map bl_projectId (filter is_active rs))" and "distinct (map bl_id rs)"
    and new: "\<And>x. x \<in> set rs \<Longrightarrow> bl_id x = i \<Longrightarrow> \<not> second_active rs (activated_row t x)"
  shows "distinct (map bl_projectId (filter is_active (map_where (\<lambda>r. bl_id r = i) (activated_row t) rs)))"
proof (cases "\<exists>x\<in>set rs. bl_id x = i")
  case True
  then obtain ys x zs where rs: "rs = ys @ x # zs" and x: "bl_id x = i" by (metis split_list)
  have ids: "bl_id y \<noteq> i" if "y \<in> set ys \<union> set zs" for y
    using assms(2) rs x that by (auto intro: rev_image_eqI)
  then have other: "map_where (\<lambda>r. bl_id r = i) (activated_row t) ys = ys"
      "map_where (\<lambda>r. bl_id r = i) (activated_row t) zs = zs"
    by (auto intro!: map_where_none)
  have "\<not> second_active rs (activated_row t x)" using new rs x by simp
  then have "\<forall>y\<in>set ys \<union> set zs. is_active y \<longrightarrow> bl_projectId y \<noteq> bl_projectId x"
    using ids rs x unfolding second_active_def is_active_def by auto
  then have out: "bl_projectId x \<notin> bl_projectId ` set (filter is_active ys @ filter is_active zs)"
    by auto
  have "distinct (map bl_projectId (filter is_active ys @ filter is_active zs))"
    using assms(1) rs by (cases "is_active x") auto
  with out other rs x show ?thesis by (simp add: map_where_def is_active_def image_Un)
next
  case False
  with assms(1) show ?thesis by (simp add: map_where_none)
qed

lemma schema_ok_baselines:
  assumes "schema_ok d" and "\<And>r. bl_id (f r) = bl_id r" and "\<And>r. bl_projectId (f r) = bl_projectId r"
    and "\<And>r. bl_repositoryRevisionId (f r) = bl_repositoryRevisionId r"
    and "distinct (map bl_projectId (filter is_active (map_where P f (project_baselines d))))"
  shows "schema_ok (project_baselines_update (map_where P f) d)"
  using assms by (simp add: schema_ok_def schema_defs)

lemma schema_okD:
  assumes "schema_ok d"
  shows "distinct (map bl_projectId (filter is_active (project_baselines d)))"
    and "distinct (map bl_id (project_baselines d))"
  using assms by (simp_all add: schema_ok_def schema_defs)

interpretation integ: statements keeps_schema
proof (unfold_locales, goal_cases)
  case 1
  then show ?case by (simp add: keeps_schema_def)
next
  case (2 a b c)
  then show ?case by (simp add: keeps_schema_def)
next
  case 35
  then show ?case
    unfolding keeps_schema_def by (intro impI schema_ok_baselines active_supersede schema_okD) simp_all
next
  case 36
  then show ?case
    unfolding keeps_schema_def by (intro impI schema_ok_baselines active_activate schema_okD) simp_all
next
  case 15
  then show ?case
    by (simp add: keeps_schema_def schema_ok_def schema_defs viol_defs is_active_def)
qed (simp_all add: keeps_schema_def schema_ok_def schema_defs viol_defs update_shapes audit_push_def numbered_from_snoc)

lemmas schema_laws = integ.ins_project integ.ins_revision integ.ins_node integ.ins_node_draft integ.ins_node_version
  integ.ins_edge integ.ins_task integ.ins_task_draft integ.ins_spec integ.ins_criterion integ.ins_target
  integ.ins_dependency integ.ins_baseline integ.ins_baseline_item integ.ins_blob integ.ins_snapshot
  integ.ins_snapshot_item integ.ins_run integ.ins_request integ.ins_run_event integ.ins_artifact
  integ.ins_evaluation integ.ins_evaluation_item integ.ins_application integ.ins_application_event
  integ.ins_candidate_source integ.ins_audit integ.touch_nodes integ.touch_tasks integ.move_tasks
  integ.edit_node_drafts integ.edit_task_drafts integ.supersede integ.complete_request integ.finish_run
  integ.interrupt_run

lemma schema_task_ids: "schema_ok d \<Longrightarrow> distinct (map tk_id (tasks d))"
  by (simp add: schema_ok_def keys_ok_def)

lemma schema_run_ids: "schema_ok d \<Longrightarrow> distinct (map rn_id (runs d))"
  by (simp add: schema_ok_def keys_ok_def)

lemma find_task_unique:
  "schema_ok d \<Longrightarrow> find_task d i = Some k \<Longrightarrow> x \<in> set (tasks d) \<Longrightarrow> tk_id x = i \<Longrightarrow> x = k"
  by (auto simp: find_task_def dest!: first_where_SomeD schema_task_ids dest: distinct_key_eq)

lemma find_run_unique:
  "schema_ok d \<Longrightarrow> find_run d i = Some q \<Longrightarrow> x \<in> set (runs d) \<Longrightarrow> rn_id x = i \<Longrightarrow> x = q"
  by (auto simp: find_run_def dest!: first_where_SomeD schema_run_ids dest: distinct_key_eq)

end
