(* ===== verification/Workflow.thy ===== *)
theory Workflow
  imports Integrity
begin

text \<open>
  Invariants of the workflow, beyond what the schema declares: the logs are numbered
  without gaps, the graphs that the cycle check protects are acyclic, references stay
  inside a project, a run has an outcome exactly if it is finished, and the status of a
  task is backed by the records that its guard demanded.
\<close>

section \<open>Numbering\<close>

text \<open>Each group of rows with the same key is numbered \<open>b, b+1, \<dots>\<close> in the order of insertion.\<close>

definition numbered_by :: "int \<Rightarrow> ('r \<Rightarrow> 'k) \<Rightarrow> ('r \<Rightarrow> int) \<Rightarrow> 'r list \<Rightarrow> bool" where
  "numbered_by b f k rs \<longleftrightarrow> (\<forall>i. numbered_from b k (filter (\<lambda>r. f r = i) rs))"

lemma numbered_by_Nil [simp]: "numbered_by b f k []"
  by (simp add: numbered_by_def)

lemma numbered_by_snoc:
  assumes "numbered_by (b + 1) f k rs" and "k x = next_number b k (filter (\<lambda>r. f r = f x) rs)"
  shows "numbered_by (b + 1) f k (rs @ [x])"
  using assms by (auto simp: numbered_by_def numbered_from_snoc next_number_numbered)

definition numbering_ok :: "database \<Rightarrow> bool" where
  "numbering_ok d \<longleftrightarrow>
     numbered_by 1 nv_nodeId nv_sequence (node_versions d)
     \<and> numbered_by 1 ts_taskId ts_sequence (task_spec_versions d)
     \<and> numbered_by 0 re_runId re_sequence (run_events d)
     \<and> numbered_by 0 ae_taskId ae_sequence (acceptance_evaluations d)
     \<and> numbered_by 0 ax_applicationId ax_sequence (artifact_application_events d)"

definition keeps_numbering :: "database \<Rightarrow> database \<Rightarrow> bool" where
  "keeps_numbering d e \<longleftrightarrow> (numbering_ok d \<longrightarrow> numbering_ok e)"

lemmas numbered_snoc1 = numbered_by_snoc [of 0, simplified]
lemmas numbered_snoc0 = numbered_by_snoc [of "-1", simplified]

interpretation num: statements keeps_numbering
  by unfold_locales
    (simp_all add: keeps_numbering_def numbering_ok_def update_shapes audit_push_def numbered_snoc0 numbered_snoc1
      events_of_run_def evaluations_of_task_def events_of_application_def)

section \<open>Acyclic graphs\<close>

definition graphs_ok :: "database \<Rightarrow> bool" where
  "graphs_ok d \<longleftrightarrow>
     (\<forall>p. acyclic (set (dependency_pairs d p)) \<and> acyclic (set (edge_pairs d p PARENT_OF))
        \<and> acyclic (set (edge_pairs d p SUPERSEDES)))"

definition keeps_graphs :: "database \<Rightarrow> database \<Rightarrow> bool" where
  "keeps_graphs d e \<longleftrightarrow> (graphs_ok d \<longrightarrow> graphs_ok e)"

lemma edge_pairs_insert:
  "set (edge_pairs (edges_update (\<lambda>rs. rs @ [r]) d) p ty) =
     (if eg_projectId r = p \<and> eg_type r = ty
      then insert (eg_sourceNodeId r, eg_targetNodeId r) (set (edge_pairs d p ty)) else set (edge_pairs d p ty))"
  "dependency_pairs (edges_update (\<lambda>rs. rs @ [r]) d) p = dependency_pairs d p"
  by (auto simp: edge_pairs_def dependency_pairs_def)

lemma dependency_pairs_insert:
  "set (dependency_pairs (task_dependencies_update (\<lambda>rs. rs @ [r]) d) p) =
     (if dp_projectId r = p
      then insert (dp_taskId r, dp_dependsOnTaskId r) (set (dependency_pairs d p)) else set (dependency_pairs d p))"
  "edge_pairs (task_dependencies_update (\<lambda>rs. rs @ [r]) d) p ty = edge_pairs d p ty"
  by (auto simp: edge_pairs_def dependency_pairs_def)

lemma graphs_ok_edge:
  "graphs_ok d \<Longrightarrow> edge_guard d r \<Longrightarrow> graphs_ok (edges_update (\<lambda>rs. rs @ [r]) d)"
  unfolding graphs_ok_def edge_guard_def wouldCreateCycle_def edge_pairs_insert
  by (auto simp: dfs.reaches_iff)

lemma graphs_ok_dependency:
  "graphs_ok d \<Longrightarrow> dependency_guard d r \<Longrightarrow> graphs_ok (task_dependencies_update (\<lambda>rs. rs @ [r]) d)"
  unfolding graphs_ok_def dependency_guard_def dependency_pairs_insert
  by (auto simp: dfs.reaches_iff)

interpretation acyc: statements keeps_graphs
proof (unfold_locales, goal_cases)
  case 8
  then show ?case by (simp add: keeps_graphs_def graphs_ok_edge)
next
  case 14
  then show ?case by (simp add: keeps_graphs_def graphs_ok_dependency)
qed (simp_all add: keeps_graphs_def graphs_ok_def update_shapes audit_push_def edge_pairs_def dependency_pairs_def)

section \<open>References stay inside a project\<close>

definition node_in :: "database \<Rightarrow> string \<Rightarrow> string \<Rightarrow> bool" where
  "node_in d p i \<longleftrightarrow> (\<exists>n\<in>set (nodes d). nd_id n = i \<and> nd_projectId n = p)"

definition version_in :: "database \<Rightarrow> string \<Rightarrow> string \<Rightarrow> bool" where
  "version_in d p i \<longleftrightarrow> (\<exists>v\<in>set (node_versions d). nv_id v = i \<and> node_in d p (nv_nodeId v))"

definition task_in :: "database \<Rightarrow> string \<Rightarrow> string \<Rightarrow> bool" where
  "task_in d p i \<longleftrightarrow> (\<exists>k\<in>set (tasks d). tk_id k = i \<and> tk_projectId k = p)"

definition spec_of :: "database \<Rightarrow> string \<Rightarrow> string \<Rightarrow> bool" where
  "spec_of d k i \<longleftrightarrow> (\<exists>s\<in>set (task_spec_versions d). ts_id s = i \<and> ts_taskId s = k)"

definition baseline_in :: "database \<Rightarrow> string \<Rightarrow> string \<Rightarrow> bool" where
  "baseline_in d p i \<longleftrightarrow> (\<exists>b\<in>set (project_baselines d). bl_id b = i \<and> bl_projectId b = p)"

definition scope_ok :: "database \<Rightarrow> bool" where
  "scope_ok d \<longleftrightarrow>
     (\<forall>e\<in>set (edges d). node_in d (eg_projectId e) (eg_sourceNodeId e)
        \<and> node_in d (eg_projectId e) (eg_targetNodeId e))
     \<and> (\<forall>r\<in>set (task_dependencies d). task_in d (dp_projectId r) (dp_taskId r)
        \<and> task_in d (dp_projectId r) (dp_dependsOnTaskId r))
     \<and> (\<forall>x\<in>set (baseline_items d). \<exists>p. baseline_in d p (bi_baselineId x) \<and> version_in d p (bi_nodeVersionId x))
     \<and> (\<forall>x\<in>set (context_snapshots d). task_in d (sn_projectId x) (sn_taskId x)
        \<and> spec_of d (sn_taskId x) (sn_taskSpecVersionId x) \<and> baseline_in d (sn_projectId x) (sn_baseBaselineId x))
     \<and> (\<forall>x\<in>set (acceptance_evaluations d). task_in d (ae_projectId x) (ae_taskId x)
        \<and> spec_of d (ae_taskId x) (ae_taskSpecVersionId x))"

definition keeps_scope :: "database \<Rightarrow> database \<Rightarrow> bool" where
  "keeps_scope d e \<longleftrightarrow> (scope_ok d \<longrightarrow> scope_ok e)"

lemmas scope_defs = node_in_def version_in_def task_in_def spec_of_def baseline_in_def

lemma bex_map_where: "(\<And>r. P r \<Longrightarrow> Q (f r) = Q r) \<Longrightarrow> (\<exists>r\<in>set (map_where P f rs). Q r) \<longleftrightarrow> (\<exists>r\<in>set rs. Q r)"
  by (auto simp: set_map_where)

lemma ball_map_where: "(\<And>r. P r \<Longrightarrow> Q (f r) = Q r) \<Longrightarrow> (\<forall>r\<in>set (map_where P f rs). Q r) \<longleftrightarrow> (\<forall>r\<in>set rs. Q r)"
  by (induction rs) (auto simp: map_where_def)

text \<open>New nodes, versions, tasks, specifications and baselines keep what was in scope.\<close>

definition scope_le :: "database \<Rightarrow> database \<Rightarrow> bool" where
  "scope_le d e \<longleftrightarrow>
     (\<forall>p i. (node_in d p i \<longrightarrow> node_in e p i) \<and> (version_in d p i \<longrightarrow> version_in e p i)
        \<and> (task_in d p i \<longrightarrow> task_in e p i) \<and> (spec_of d p i \<longrightarrow> spec_of e p i)
        \<and> (baseline_in d p i \<longrightarrow> baseline_in e p i))"

lemma scope_ok_grow:
  assumes "scope_ok d" and "scope_le d e" and "edges e = edges d" and "task_dependencies e = task_dependencies d"
    and "baseline_items e = baseline_items d" and "context_snapshots e = context_snapshots d"
    and "acceptance_evaluations e = acceptance_evaluations d"
  shows "scope_ok e"
  using assms unfolding scope_ok_def scope_le_def by (simp, meson)

lemma found_in_scope:
  "node_of_project d p i \<Longrightarrow> node_in d p i" "version_of_project d p i \<Longrightarrow> version_in d p i"
  "task_of_project d p i \<Longrightarrow> task_in d p i"
  "find_spec d i = Some s \<Longrightarrow> spec_of d (ts_taskId s) i"
  "find_baseline d i = Some b \<Longrightarrow> baseline_in d (bl_projectId b) i"
  by (auto simp: guard_defs scope_defs find_node_def find_task_def find_spec_def find_baseline_def
      find_node_version_def dest!: first_where_SomeD)

lemma scope_le_insert:
  "scope_le d (nodes_update (\<lambda>rs. rs @ [n]) d)" "scope_le d (node_versions_update (\<lambda>rs. rs @ [v]) d)"
  "scope_le d (tasks_update (\<lambda>rs. rs @ [k]) d)" "scope_le d (task_spec_versions_update (\<lambda>rs. rs @ [sp]) d)"
  "scope_le d (project_baselines_update (\<lambda>rs. rs @ [b]) d)"
  by (simp_all add: scope_le_def scope_defs, blast+)

text \<open>A new row that refers to something is in scope by its guard.\<close>

lemma scope_ok_edge: "scope_ok d \<Longrightarrow> edge_guard d r \<Longrightarrow> scope_ok (edges_update (\<lambda>rs. rs @ [r]) d)"
  using found_in_scope(1) unfolding scope_ok_def edge_guard_def scope_defs by simp

lemma scope_ok_dependency:
  "scope_ok d \<Longrightarrow> dependency_guard d r \<Longrightarrow> scope_ok (task_dependencies_update (\<lambda>rs. rs @ [r]) d)"
  using found_in_scope(3) unfolding scope_ok_def dependency_guard_def scope_defs by simp

lemma scope_ok_item:
  assumes "scope_ok d" and "item_guard d (bi_baselineId r) (bi_nodeVersionId r)"
  shows "scope_ok (baseline_items_update (\<lambda>rs. rs @ [r]) d)"
proof -
  from assms(2) obtain p where "baseline_in d p (bi_baselineId r)" "version_in d p (bi_nodeVersionId r)"
    by (auto simp: item_guard_def baseline_in_def dest: found_in_scope(2))
  with assms(1) show ?thesis unfolding scope_ok_def scope_defs by (simp, blast)
qed

lemma scope_ok_snapshot:
  assumes "scope_ok d" and "snapshot_guard d r"
  shows "scope_ok (context_snapshots_update (\<lambda>rs. rs @ [r]) d)"
proof -
  from assms(2) have "task_in d (sn_projectId r) (sn_taskId r)" "spec_of d (sn_taskId r) (sn_taskSpecVersionId r)"
      "baseline_in d (sn_projectId r) (sn_baseBaselineId r)"
    by (auto simp: snapshot_guard_def dest: found_in_scope)
  with assms(1) show ?thesis unfolding scope_ok_def scope_defs by simp
qed

lemma scope_ok_evaluation:
  assumes "scope_ok d" and "evaluable d r"
  shows "scope_ok (acceptance_evaluations_update (\<lambda>rs. rs @ [r]) d)"
proof -
  from assms(2) have "task_in d (ae_projectId r) (ae_taskId r)" "spec_of d (ae_taskId r) (ae_taskSpecVersionId r)"
    by (auto simp: evaluable_def task_of_project_def dest: found_in_scope intro!: found_in_scope(3))
  with assms(1) show ?thesis unfolding scope_ok_def scope_defs by simp
qed

interpretation scope: statements keeps_scope
proof (unfold_locales, goal_cases)
  case 5
  then show ?case using scope_le_insert(1) by (auto simp: keeps_scope_def elim!: scope_ok_grow)
next
  case 7
  then show ?case using scope_le_insert(2) by (auto simp: keeps_scope_def elim!: scope_ok_grow)
next
  case 9
  then show ?case using scope_le_insert(3) by (auto simp: keeps_scope_def elim!: scope_ok_grow)
next
  case 11
  then show ?case using scope_le_insert(4) by (auto simp: keeps_scope_def elim!: scope_ok_grow)
next
  case 15
  then show ?case using scope_le_insert(5) by (auto simp: keeps_scope_def elim!: scope_ok_grow)
next
  case 8
  then show ?case by (simp add: keeps_scope_def scope_ok_edge)
next
  case 14
  then show ?case by (simp add: keeps_scope_def scope_ok_dependency)
next
  case 16
  then show ?case by (simp add: keeps_scope_def scope_ok_item)
next
  case 18
  then show ?case by (simp add: keeps_scope_def scope_ok_snapshot)
next
  case 24
  then show ?case by (simp add: keeps_scope_def scope_ok_evaluation)
qed (simp_all add: keeps_scope_def scope_ok_def scope_defs update_shapes audit_push_def bex_map_where ball_map_where)

section \<open>Statuses and the records behind them\<close>

definition run_ok :: "run_row \<Rightarrow> bool" where
  "run_ok r \<longleftrightarrow> rn_status r \<in> {RS_RUNNING, RS_INTERRUPTED, RS_FINISHED}
     \<and> assertRunState \<lparr>rst_status = rn_status r, rst_outcome = rn_outcome r\<rparr> = Inr ()"

definition backs_evaluation :: "acceptance_evaluation_row \<Rightarrow> run_row \<Rightarrow> bool" where
  "backs_evaluation e r \<longleftrightarrow>
     rn_id r = ae_runId e \<and> rn_status r = RS_FINISHED \<and> rn_taskId r = ae_taskId e
     \<and> rn_taskSpecVersionId r = ae_taskSpecVersionId e \<and> (ae_status e = AS_PASSED \<longrightarrow> usable_outcome (rn_outcome r))"

definition has_spec :: "database \<Rightarrow> string \<Rightarrow> bool" where
  "has_spec d i \<longleftrightarrow> i \<in> ts_taskId ` set (task_spec_versions d)"

definition accepted :: "database \<Rightarrow> string \<Rightarrow> bool" where
  "accepted d i \<longleftrightarrow>
     (\<exists>e\<in>set (acceptance_evaluations d). ae_taskId e = i \<and> ae_status e = AS_PASSED
        \<and> (\<exists>s. latest_spec d i = Some s \<and> ts_id s = ae_taskSpecVersionId e))"

definition task_backed :: "database \<Rightarrow> task_row \<Rightarrow> bool" where
  "task_backed d k =
     (case tk_status k of
        TS_DRAFT \<Rightarrow> True
      | TS_READY \<Rightarrow> has_spec d (tk_id k)
      | TS_IN_PROGRESS \<Rightarrow> has_spec d (tk_id k)
      | TS_WAITING_REVIEW \<Rightarrow> has_spec d (tk_id k) \<and> tk_id k \<in> ae_taskId ` set (acceptance_evaluations d)
      | TS_COMPLETED \<Rightarrow> accepted d (tk_id k)
      | _ \<Rightarrow> False)"

definition status_ok :: "database \<Rightarrow> bool" where
  "status_ok d \<longleftrightarrow>
     (\<forall>r\<in>set (runs d). run_ok r)
     \<and> (\<forall>e\<in>set (acceptance_evaluations d). \<exists>r\<in>set (runs d). backs_evaluation e r)
     \<and> (\<forall>k\<in>set (tasks d). task_backed d k)"

definition keeps_status :: "database \<Rightarrow> database \<Rightarrow> bool" where
  "keeps_status d e \<longleftrightarrow> (schema_ok d \<and> status_ok d \<longrightarrow> schema_ok e \<and> status_ok e)"

lemma keeps_statusI: "keeps_schema d e \<Longrightarrow> (schema_ok d \<Longrightarrow> status_ok d \<Longrightarrow> status_ok e) \<Longrightarrow> keeps_status d e"
  by (simp add: keeps_status_def keeps_schema_def)

text \<open>What a task status rests on depends on these two tables only, and grows with them.\<close>

lemma task_backed_cong:
  "task_spec_versions e = task_spec_versions d \<Longrightarrow> acceptance_evaluations e = acceptance_evaluations d \<Longrightarrow>
    tk_id k = tk_id l \<Longrightarrow> tk_status k = tk_status l \<Longrightarrow> task_backed e k = task_backed d l"
  by (simp add: task_backed_def has_spec_def accepted_def latest_spec_def task_specs_def split: task_status.split)

lemma status_ok_frame:
  assumes "status_ok d" and "runs e = runs d" and "acceptance_evaluations e = acceptance_evaluations d"
    and "task_spec_versions e = task_spec_versions d"
    and "\<And>k. k \<in> set (tasks e) \<Longrightarrow> \<exists>l\<in>set (tasks d). tk_id k = tk_id l \<and> tk_status k = tk_status l"
  shows "status_ok e"
  using assms unfolding status_ok_def by (metis task_backed_cong)

lemma task_backed_evaluation:
  "task_backed d k \<Longrightarrow> task_backed (acceptance_evaluations_update (\<lambda>rs. rs @ [e]) d) k"
  by (auto simp: task_backed_def has_spec_def accepted_def latest_spec_def task_specs_def split: task_status.splits)

lemma status_ok_evaluation:
  assumes "status_ok d" and "evaluable d e"
  shows "status_ok (acceptance_evaluations_update (\<lambda>rs. rs @ [e]) d)"
  using assms
  by (auto simp: status_ok_def evaluable_def backs_evaluation_def find_run_def task_backed_evaluation
      dest!: first_where_SomeD)

lemma latest_spec_other:
  "ts_taskId r \<noteq> i \<Longrightarrow> latest_spec (task_spec_versions_update (\<lambda>rs. rs @ [r]) d) i = latest_spec d i"
  by (simp add: latest_spec_def task_specs_def)

lemma status_ok_spec:
  assumes "schema_ok d" and "status_ok d" and "open_task d (ts_taskId r)"
  shows "status_ok (task_spec_versions_update (\<lambda>rs. rs @ [r]) d)"
proof -
  have "task_backed (task_spec_versions_update (\<lambda>rs. rs @ [r]) d) k" if k: "k \<in> set (tasks d)" for k
  proof (cases "tk_status k = TS_COMPLETED")
    case True
    with assms k have "ts_taskId r \<noteq> tk_id k" unfolding open_task_def by (metis find_task_unique insertI1)
    moreover have "task_backed d k" using assms k by (simp add: status_ok_def)
    ultimately show ?thesis using True by (simp add: task_backed_def accepted_def latest_spec_other)
  next
    case False
    moreover have "task_backed d k" using assms k by (simp add: status_ok_def)
    ultimately show ?thesis by (auto simp: task_backed_def has_spec_def split: task_status.splits)
  qed
  with assms(2) show ?thesis by (simp add: status_ok_def)
qed

lemma completable_accepted: "completable d i \<Longrightarrow> accepted (tasks_update f d) i"
  unfolding completable_def accepted_def latest_spec_def task_specs_def by auto

lemma status_ok_move:
  assumes "schema_ok d" and "status_ok d" and k: "find_task d i = Some k"
    and to: "to \<in> set (taskTransitions (tk_status k))" and guard: "entry_guard d i to"
  shows "status_ok (moved_tasks i to t d)"
proof -
  have id: "tk_id k = i" and backed: "task_backed d k"
    using k assms(2) by (auto simp: find_task_def status_ok_def dest!: first_where_SomeD)
  have "task_backed (moved_tasks i to t d) (k\<lparr>tk_status := to, tk_updatedAt := t\<rparr>)"
    using to guard backed id unfolding moved_tasks_def
    by (cases "tk_status k"; cases to)
      (auto simp: entry_guard_def task_backed_def has_spec_def dest: completable_accepted)
  moreover have "task_backed (moved_tasks i to t d) x" if "x \<in> set (tasks d)" for x
    using that assms(2) by (subst task_backed_cong [of _ d _ x]) (auto simp: moved_tasks_def status_ok_def)
  ultimately show ?thesis
    using assms(2) find_task_unique [OF assms(1) k] by (auto simp: status_ok_def moved_tasks_def set_map_where)
qed

lemma status_ok_runs:
  assumes "schema_ok d" and "status_ok d" and q: "find_run d i = Some q" and "rn_status q = RS_RUNNING"
    and f: "\<And>r. run_ok r \<Longrightarrow> run_ok (f r)"
  shows "status_ok (runs_update (map_where (\<lambda>r. rn_id r = i) f) d)"
proof -
  have "r \<in> set (map_where (\<lambda>r. rn_id r = i) f (runs d))"
    if "r \<in> set (runs d)" "rn_status r = RS_FINISHED" for r
    using that find_run_unique [OF assms(1) q] assms(4) by (force simp: set_map_where)
  then have "\<exists>r\<in>set (map_where (\<lambda>r. rn_id r = i) f (runs d)). backs_evaluation e r"
    if "e \<in> set (acceptance_evaluations d)" for e
    using that assms(2) unfolding status_ok_def backs_evaluation_def by metis
  moreover have "task_backed (runs_update g d) k = task_backed d k" for g k
    by (rule task_backed_cong) simp_all
  ultimately show ?thesis using assms(2) f by (auto simp: status_ok_def set_map_where)
qed

lemma status_ok_new_run:
  "status_ok d \<Longrightarrow> rn_status r = RS_RUNNING \<Longrightarrow> rn_outcome r = None \<Longrightarrow> status_ok (runs_update (\<lambda>rs. rs @ [r]) d)"
  using task_backed_cong [of "runs_update (\<lambda>rs. rs @ [r]) d" d]
  by (auto simp: status_ok_def run_ok_def)

lemma status_ok_new_task:
  "status_ok d \<Longrightarrow> tk_status r = TS_DRAFT \<Longrightarrow> status_ok (tasks_update (\<lambda>rs. rs @ [r]) d)"
  using task_backed_cong [of "tasks_update (\<lambda>rs. rs @ [r]) d" d]
  by (auto simp: status_ok_def task_backed_def)

interpretation status: statements keeps_status
proof (unfold_locales, goal_cases)
  case 1
  show ?case by (simp add: keeps_status_def)
next
  case 2
  then show ?case by (simp add: keeps_status_def)
next
  case 9
  then show ?case by (intro keeps_statusI [OF integ.ins_task] status_ok_new_task)
next
  case 11
  then show ?case by (intro keeps_statusI [OF integ.ins_spec] status_ok_spec)
next
  case 20
  then show ?case by (intro keeps_statusI [OF integ.ins_run] status_ok_new_run)
next
  case 24
  then show ?case by (intro keeps_statusI [OF integ.ins_evaluation] status_ok_evaluation)
next
  case 32
  then show ?case by (intro keeps_statusI [OF integ.move_tasks] status_ok_move)
next
  case 36
  then show ?case by (rule keeps_statusI [OF integ.activate]) (auto elim!: status_ok_frame)
next
  case 37
  then show ?case by (rule keeps_statusI [OF integ.freeze]) (auto elim!: status_ok_frame)
next
  case 39
  then show ?case unfolding finished_runs_def
    by (intro keeps_statusI [OF integ.finish_run [unfolded finished_runs_def]] status_ok_runs)
      (auto simp: run_ok_def)
next
  case 40
  then show ?case unfolding interrupted_runs_def
    by (intro keeps_statusI [OF integ.interrupt_run [unfolded interrupted_runs_def]] status_ok_runs)
      (auto simp: run_ok_def)
qed ((rule keeps_statusI, (rule schema_laws; assumption),
      erule status_ok_frame; force simp: update_shapes audit_push_def set_map_where)+)

end
