(* ===== verification/Permanence.thy ===== *)
theory Permanence
  imports Integrity "HOL-Library.Sublist"
begin

text \<open>
  What a session can never undo. The tables of published and recorded facts only grow at
  their end; a frozen context snapshot keeps its row and its items; a run that has left
  RUNNING keeps its row; tasks, baselines and runs keep their identity and move along the
  transition tables of the domain.
\<close>

section \<open>Chains of statuses\<close>

definition leads_to :: "('s \<Rightarrow> 's \<Rightarrow> domain_error + unit) \<Rightarrow> 's \<Rightarrow> 's \<Rightarrow> bool" where
  "leads_to accepts a b \<longleftrightarrow> (\<exists>bs. history accepts a bs \<and> last (a # bs) = b)"

context lifecycle
begin

lemma leads_to_refl: "leads_to accepts a a"
  unfolding leads_to_def by (rule exI [of _ "[]"]) simp

lemma leads_to_step: "b \<in> set (successors a) \<Longrightarrow> leads_to accepts a b"
  unfolding leads_to_def by (rule exI [of _ "[b]"]) (simp add: accepts_iff)

lemma leads_to_trans: "leads_to accepts a b \<Longrightarrow> leads_to accepts b c \<Longrightarrow> leads_to accepts a c"
proof -
  assume "leads_to accepts a b" and "leads_to accepts b c"
  then obtain bs cs where "history accepts a bs" "last (a # bs) = b" "history accepts b cs" "last (b # cs) = c"
    unfolding leads_to_def by blast
  then have "history accepts a (bs @ cs)" "last (a # bs @ cs) = c"
    by (auto simp: history_append)
  then show ?thesis unfolding leads_to_def by blast
qed

end

lemmas leads_to_refls [simp] = task_life.leads_to_refl baseline_life.leads_to_refl run_life.leads_to_refl

section \<open>Rows that keep their identity\<close>

definition task_le :: "task_row \<Rightarrow> task_row \<Rightarrow> bool" where
  "task_le k l \<longleftrightarrow> tk_id l = tk_id k \<and> tk_projectId l = tk_projectId k \<and> tk_type l = tk_type k
     \<and> tk_title l = tk_title k \<and> tk_createdAt l = tk_createdAt k
     \<and> leads_to assertTaskTransition (tk_status k) (tk_status l)"

definition baseline_le :: "project_baseline_row \<Rightarrow> project_baseline_row \<Rightarrow> bool" where
  "baseline_le b c \<longleftrightarrow> bl_id c = bl_id b \<and> bl_projectId c = bl_projectId b \<and> bl_name c = bl_name b
     \<and> bl_description c = bl_description b \<and> bl_repositoryRevisionId c = bl_repositoryRevisionId b
     \<and> bl_createdAt c = bl_createdAt b
     \<and> leads_to assertBaselineTransition (bl_status b) (bl_status c)"

definition run_le :: "run_row \<Rightarrow> run_row \<Rightarrow> bool" where
  "run_le r q \<longleftrightarrow> rn_id q = rn_id r \<and> rn_projectId q = rn_projectId r \<and> rn_taskId q = rn_taskId r
     \<and> rn_taskSpecVersionId q = rn_taskSpecVersionId r \<and> rn_contextSnapshotId q = rn_contextSnapshotId r
     \<and> rn_repositoryRevisionId q = rn_repositoryRevisionId r \<and> rn_startedAt q = rn_startedAt r
     \<and> rn_createdAt q = rn_createdAt r
     \<and> leads_to assertRunTransition (rn_status r) (rn_status q) \<and> (rn_status r \<noteq> RS_RUNNING \<longrightarrow> q = r)"

definition rows_le :: "('r \<Rightarrow> 'r \<Rightarrow> bool) \<Rightarrow> 'r list \<Rightarrow> 'r list \<Rightarrow> bool" where
  "rows_le le xs ys \<longleftrightarrow> (\<forall>x\<in>set xs. \<exists>y\<in>set ys. le x y)"

lemma row_le_refl [simp]: "task_le k k" "baseline_le b b" "run_le r r"
  by (simp_all add: task_le_def baseline_le_def run_le_def)

lemma task_le_trans: "task_le a b \<Longrightarrow> task_le b c \<Longrightarrow> task_le a c"
  by (auto simp: task_le_def intro: task_life.leads_to_trans)

lemma baseline_le_trans: "baseline_le a b \<Longrightarrow> baseline_le b c \<Longrightarrow> baseline_le a c"
  by (auto simp: baseline_le_def intro: baseline_life.leads_to_trans)

lemma run_le_trans: "run_le a b \<Longrightarrow> run_le b c \<Longrightarrow> run_le a c"
  by (auto simp: run_le_def intro: run_life.leads_to_trans)

lemma rows_le_refl: "(\<And>x. le x x) \<Longrightarrow> rows_le le xs xs"
  by (auto simp: rows_le_def)

lemma rows_le_trans:
  "(\<And>a b c. le a b \<Longrightarrow> le b c \<Longrightarrow> le a c) \<Longrightarrow> rows_le le xs ys \<Longrightarrow> rows_le le ys zs \<Longrightarrow> rows_le le xs zs"
  unfolding rows_le_def by blast

lemma rows_le_snoc: "(\<And>x. le x x) \<Longrightarrow> rows_le le xs (xs @ [y])"
  by (auto simp: rows_le_def)

lemma rows_le_map_where:
  assumes "\<And>x. le x x" and "\<And>x. x \<in> set xs \<Longrightarrow> P x \<Longrightarrow> le x (f x)"
  shows "rows_le le xs (map_where P f xs)"
proof (unfold rows_le_def, intro ballI)
  fix x assume "x \<in> set xs"
  with assms show "\<exists>y\<in>set (map_where P f xs). le x y"
    by (intro bexI [of _ "if P x then f x else x"]) (auto simp: map_where_def)
qed

section \<open>The relation\<close>

definition logs_grow :: "database \<Rightarrow> database \<Rightarrow> bool" where
  "logs_grow d e \<longleftrightarrow>
     prefix (projects d) (projects e) \<and> prefix (repository_revisions d) (repository_revisions e)
     \<and> prefix (node_versions d) (node_versions e) \<and> prefix (edges d) (edges e)
     \<and> prefix (task_spec_versions d) (task_spec_versions e)
     \<and> prefix (acceptance_criteria d) (acceptance_criteria e) \<and> prefix (task_targets d) (task_targets e)
     \<and> prefix (task_dependencies d) (task_dependencies e) \<and> prefix (baseline_items d) (baseline_items e)
     \<and> prefix (content_blobs d) (content_blobs e)
     \<and> prefix (context_snapshot_items d) (context_snapshot_items e)
     \<and> prefix (run_events d) (run_events e) \<and> prefix (artifacts d) (artifacts e)
     \<and> prefix (acceptance_evaluations d) (acceptance_evaluations e)
     \<and> prefix (acceptance_evaluation_items d) (acceptance_evaluation_items e)
     \<and> prefix (artifact_applications d) (artifact_applications e)
     \<and> prefix (artifact_application_events d) (artifact_application_events e)
     \<and> prefix (baseline_candidate_sources d) (baseline_candidate_sources e)
     \<and> prefix (audit_log d) (audit_log e)"

definition items_of_snapshot :: "database \<Rightarrow> string \<Rightarrow> context_snapshot_item_row list" where
  "items_of_snapshot d i = filter (\<lambda>r. si_contextSnapshotId r = i) (context_snapshot_items d)"

definition frozen_kept :: "database \<Rightarrow> database \<Rightarrow> bool" where
  "frozen_kept d e \<longleftrightarrow>
     (\<forall>x\<in>set (context_snapshots d). sn_status x = SS_FROZEN \<longrightarrow>
        x \<in> set (context_snapshots e) \<and> items_of_snapshot e (sn_id x) = items_of_snapshot d (sn_id x))"

definition rows_evolve :: "database \<Rightarrow> database \<Rightarrow> bool" where
  "rows_evolve d e \<longleftrightarrow>
     rows_le task_le (tasks d) (tasks e) \<and> rows_le baseline_le (project_baselines d) (project_baselines e)
     \<and> rows_le run_le (runs d) (runs e)"

definition permanent :: "database \<Rightarrow> database \<Rightarrow> bool" where
  "permanent d e \<longleftrightarrow> (schema_ok d \<longrightarrow> schema_ok e \<and> logs_grow d e \<and> frozen_kept d e \<and> rows_evolve d e)"

lemma logs_grow_refl [simp]: "logs_grow d d"
  by (simp add: logs_grow_def)

lemma logs_grow_trans: "logs_grow a b \<Longrightarrow> logs_grow b c \<Longrightarrow> logs_grow a c"
  unfolding logs_grow_def by (elim conjE, intro conjI; erule (1) prefix_order.trans)

lemma frozen_kept_refl [simp]: "frozen_kept d d"
  by (simp add: frozen_kept_def)

lemma frozen_kept_trans: "frozen_kept a b \<Longrightarrow> frozen_kept b c \<Longrightarrow> frozen_kept a c"
  by (auto simp: frozen_kept_def)

lemma rows_evolve_refl [simp]: "rows_evolve d d"
  by (simp add: rows_evolve_def rows_le_refl)

lemma rows_evolve_trans: "rows_evolve a b \<Longrightarrow> rows_evolve b c \<Longrightarrow> rows_evolve a c"
  unfolding rows_evolve_def
  by (elim conjE, intro conjI;
      rule rows_le_trans, (erule (1) task_le_trans baseline_le_trans run_le_trans), assumption, assumption)

section \<open>Every statement respects it\<close>

lemma permanentI:
  assumes "keeps_schema d e" and "schema_ok d \<Longrightarrow> logs_grow d e"
    and "schema_ok d \<Longrightarrow> frozen_kept d e" and "schema_ok d \<Longrightarrow> rows_evolve d e"
  shows "permanent d e"
  using assms by (simp add: permanent_def keeps_schema_def)

lemma frozen_kept_frame:
  "context_snapshots e = context_snapshots d \<Longrightarrow> context_snapshot_items e = context_snapshot_items d
    \<Longrightarrow> frozen_kept d e"
  by (simp add: frozen_kept_def items_of_snapshot_def)

lemma rows_evolve_frame:
  "tasks e = tasks d \<Longrightarrow> project_baselines e = project_baselines d \<Longrightarrow> runs e = runs d \<Longrightarrow> rows_evolve d e"
  by (simp add: rows_evolve_def rows_le_refl)

lemma frozen_kept_item:
  "context_snapshot_item_viol d r = None \<Longrightarrow> frozen_kept d (context_snapshot_items_update (\<lambda>rs. rs @ [r]) d)"
  by (auto simp: viol_defs frozen_kept_def items_of_snapshot_def in_frozen_snapshot_def split: if_splits)

lemma frozen_kept_freeze:
  assumes "\<And>x. x \<in> set (context_snapshots d) \<Longrightarrow> sn_id x = i \<Longrightarrow> sn_status x \<noteq> SS_FROZEN"
  shows "frozen_kept d (context_snapshots_update (map_where (\<lambda>r. sn_id r = i) (frozen_row t)) d)"
  using assms by (force simp: frozen_kept_def items_of_snapshot_def set_map_where)

lemma rows_evolve_touch: "rows_evolve d (touched_tasks i t d)"
  by (auto simp: rows_evolve_def touched_tasks_def rows_le_refl task_le_def intro!: rows_le_map_where)

lemma rows_evolve_move:
  assumes "schema_ok d" and "find_task d i = Some k" and "to \<in> set (taskTransitions (tk_status k))"
  shows "rows_evolve d (moved_tasks i to t d)"
proof -
  have "task_le x (x\<lparr>tk_status := to, tk_updatedAt := t\<rparr>)" if "x \<in> set (tasks d)" "tk_id x = i" for x
  proof -
    have "x = k" using assms(1,2) that by (rule find_task_unique)
    with assms(3) show ?thesis by (simp add: task_le_def task_life.leads_to_step)
  qed
  then show ?thesis
    by (auto simp: rows_evolve_def moved_tasks_def rows_le_refl intro!: rows_le_map_where)
qed

lemma rows_evolve_supersede:
  assumes "schema_ok d" and "baselines_at d i BS_ACTIVE"
  shows "rows_evolve d (project_baselines_update (map_where (\<lambda>r. bl_id r = i) (superseded_row t)) d)"
  using assms schema_okD(2) [OF assms(1)]
  by (auto simp: rows_evolve_def rows_le_refl baselines_at_def baseline_le_def superseded_row_def
      intro!: rows_le_map_where baseline_life.leads_to_step)

lemma rows_evolve_activate:
  assumes "schema_ok d" and "baselines_at d i BS_DRAFT"
  shows "rows_evolve d (project_baselines_update (map_where (\<lambda>r. bl_id r = i) (activated_row t)) d)"
  using assms schema_okD(2) [OF assms(1)]
  by (auto simp: rows_evolve_def rows_le_refl baselines_at_def baseline_le_def activated_row_def
      intro!: rows_le_map_where baseline_life.leads_to_step)

lemma rows_evolve_runs:
  assumes "schema_ok d" and "find_run d i = Some q" and "rn_status q = RS_RUNNING"
    and "run_le q (f q)"
  shows "rows_evolve d (runs_update (map_where (\<lambda>r. rn_id r = i) f) d)"
proof -
  have "run_le x (f x)" if "x \<in> set (runs d)" "rn_id x = i" for x
  proof -
    have "x = q" using assms(1,2) that by (rule find_run_unique)
    with assms(4) show ?thesis by simp
  qed
  then show ?thesis by (auto simp: rows_evolve_def rows_le_refl intro!: rows_le_map_where)
qed

lemma rows_evolve_insert:
  "rows_evolve d (tasks_update (\<lambda>rs. rs @ [k]) d)" "rows_evolve d (project_baselines_update (\<lambda>rs. rs @ [b]) d)"
  "rows_evolve d (runs_update (\<lambda>rs. rs @ [r]) d)"
  by (simp_all add: rows_evolve_def rows_le_refl rows_le_snoc)

lemma frozen_kept_insert: "frozen_kept d (context_snapshots_update (\<lambda>rs. rs @ [x]) d)"
  by (simp add: frozen_kept_def items_of_snapshot_def)

lemmas log_frames = logs_grow_def audit_push_def touched_nodes_def touched_tasks_def moved_tasks_def
  finished_runs_def interrupted_runs_def

interpretation perm: statements permanent
proof (unfold_locales, goal_cases)
  case 1
  show ?case by (simp add: permanent_def)
next
  case 2
  then show ?case by (auto simp: permanent_def intro: logs_grow_trans frozen_kept_trans rows_evolve_trans)
next
  case 36
  then show ?case
    by (intro permanentI [OF integ.activate] frozen_kept_frame rows_evolve_activate) (simp_all add: log_frames)
next
  case 37
  then show ?case
    by (intro permanentI [OF integ.freeze] frozen_kept_freeze rows_evolve_frame) (simp_all add: log_frames)
next
  case 39
  then show ?case
    by (intro permanentI [OF integ.finish_run])
      (auto simp: log_frames run_le_def run_life.leads_to_step intro!: frozen_kept_frame rows_evolve_runs)
next
  case 40
  then show ?case
    by (intro permanentI [OF integ.interrupt_run])
      (auto simp: log_frames run_le_def run_life.leads_to_step intro!: frozen_kept_frame rows_evolve_runs)
qed ((rule permanentI, (rule schema_laws; assumption),
      (simp add: log_frames; fail),
      (rule frozen_kept_item frozen_kept_insert frozen_kept_frame; simp add: log_frames; fail),
      (rule rows_evolve_touch rows_evolve_move rows_evolve_supersede rows_evolve_insert rows_evolve_frame;
        simp add: log_frames; fail))+)

end
