(* ===== verification/Atomicity.thy ===== *)
theory Atomicity
  imports Integrity
begin

text \<open>
  A command that throws leaves the database as it was. For the commands that run in a
  transaction this is \<open>ROLLBACK\<close>; the others write first and then append to the audit log
  outside any transaction, and there it holds because the log entry cannot be refused in
  a database whose schema is intact. Transactions never nest.
\<close>

section \<open>Any relation at all\<close>

definition anything :: "database \<Rightarrow> database \<Rightarrow> bool" where
  "anything d e \<longleftrightarrow> True"

interpretation any: statements anything
  by unfold_locales (simp_all add: anything_def)

lemma any_insert: "evolves_at anything (insert_into viol upd r) s"
  by (rule any.insert_into) (simp add: anything_def)

lemma any_update: "evolves_at anything (update_where get upd viol P f) s"
  by (rule any.update_where) (simp add: anything_def)

lemmas any_rules = any.composed any.basic any_insert any_update any.readers any.appendAudit any.appendRunEvent
  any.appendApplicationEvent any.touchTask any.touchNode any.finalizeRequestRecord any.upsertRepositoryRevision
  any.buildAggregate any.insert_spec_criterion any.insert_spec_target any.freeze_item any.insert_artifact_at
  any.insert_verdict any.insertBaselineDraft

lemma any_transitionTask: "evolves_at anything (transitionTask sv i to t) s"
  unfolding transitionTask_def requireTask_def by (intro any_rules)

lemma any_supersede: "evolves_at anything (supersede_baseline sv b t x) s"
  unfolding supersede_baseline_def by (intro any_rules)

section \<open>Transactions roll back\<close>

lemma atomic_transaction: "(\<And>t. evolves_at anything m t) \<Longrightarrow> atomic_at (withTransaction m) s"
  by (rule evolves_tx_kept) blast

lemmas rollback = atomic_transaction any_rules any_transitionTask any_supersede

lemma atomic_after_reads: "evolves_at same_db m s \<Longrightarrow> (\<And>x t. atomic_at (f x) t) \<Longrightarrow> atomic_at (andThen m f) s"
  by (rule atomic_read_then)

lemma atomic_createBaselineDraft: "atomic_at (createBaselineDraft sv inp) s"
  unfolding createBaselineDraft_def by (intro rollback)

lemma atomic_finalizeRun: "atomic_at (finalizeRun sv inp) s"
  unfolding finalizeRun_def read_defs by (intro rollback)

lemma atomic_interruptRun: "atomic_at (interruptRun sv inp) s"
  unfolding interruptRun_def read_defs by (intro rollback)

lemma atomic_createDispatchedRun: "atomic_at (createDispatchedRun sv inp) s"
  unfolding createDispatchedRun_def by (intro rollback)

lemma atomic_createAcceptanceEvaluation: "atomic_at (createAcceptanceEvaluation sv inp) s"
  unfolding createAcceptanceEvaluation_def listCriteria_def Let_def by (intro rollback)

lemma atomic_completeTask: "atomic_at (completeTask sv i e) s"
  unfolding completeTask_def read_defs by (intro rollback)

lemma atomic_createArtifactApplication: "atomic_at (createArtifactApplication sv inp) s"
  unfolding createArtifactApplication_def by (intro rollback)

lemma atomic_finalizeApplicationApplied: "atomic_at (finalizeApplicationApplied sv inp) s"
  unfolding finalizeApplicationApplied_def requireArtifactApplication_def by (intro rollback)

lemma atomic_createBaselineCandidate: "atomic_at (createBaselineCandidate sv inp) s"
  unfolding createBaselineCandidate_def reuse_candidate_def new_candidate_def read_defs by (intro rollback)

lemma atomic_activateBaseline: "atomic_at (activateBaseline sv i) s"
  unfolding activateBaseline_def getBaseline_def
  by (intro rd.andThen rd.basic atomic_after_reads rollback)

lemma atomic_publishTaskSpecVersion: "atomic_at (publishTaskSpecVersion sv inp) s"
  unfolding publishTaskSpecVersion_def
  by (intro rd.basic check_targets_read atomic_after_reads rollback)

lemma atomic_freezeContextSnapshot: "atomic_at (freezeContextSnapshot sv inp) s"
  unfolding freezeContextSnapshot_def read_defs
  by (intro rd.andThen rd.basic atomic_after_reads rollback)

section \<open>Writes followed by an audit entry\<close>

definition audit_ready :: "database \<Rightarrow> string option \<Rightarrow> bool" where
  "audit_ready d p \<longleftrightarrow>
     audit_sequence d + 1 \<notin> au_id ` set (audit_log d) \<and> \<not> missing_opt pr_id (projects d) p"

lemma appendAudit_succeeds: "audit_ready (db s) p \<Longrightarrow> succeeds_at (appendAudit sv p e i a j) s"
  unfolding appendAudit_def
  by (intro succeeds_then) (auto simp: ok_simps audit_ready_def audit_log_viol_def)

lemma schema_audit: "schema_ok d \<Longrightarrow> audit_sequence d + 1 \<notin> au_id ` set (audit_log d)"
  by (auto simp: schema_ok_def audit_ok_def dest: numbered_from_bound)

lemma schema_node_project: "schema_ok d \<Longrightarrow> find_node d i = Some n \<Longrightarrow> nd_projectId n \<in> pr_id ` set (projects d)"
  by (force simp: schema_ok_def graph_refs_ok_def fk_def find_node_def dest!: first_where_SomeD)

lemma schema_task_project: "schema_ok d \<Longrightarrow> find_task d i = Some n \<Longrightarrow> tk_projectId n \<in> pr_id ` set (projects d)"
  by (force simp: schema_ok_def task_refs_ok_def fk_def find_task_def dest!: first_where_SomeD)

text \<open>Reads come first, then one write that may be refused, then what cannot fail.\<close>

lemma succeeds_touchNode [simp]: "succeeds_at (touchNode sv i) s"
  unfolding touchNode_def by (intro succeeds_then) simp_all

lemma succeeds_touchTask [simp]: "succeeds_at (touchTask sv i) s"
  unfolding touchTask_def by (intro succeeds_then) simp_all

lemma touchNode_ok [ok_simps]:
  "touchNode sv i s = (Inr r, t) \<longleftrightarrow>
     t = s\<lparr>nowCalls := nowCalls s + 1, db := touched_nodes i (sv_now sv (nowCalls s)) (db s)\<rparr>"
  by (auto simp: touchNode_def ok_simps unconstrained_def touched_nodes_def)

lemma touchTask_ok [ok_simps]:
  "touchTask sv i s = (Inr r, t) \<longleftrightarrow>
     t = s\<lparr>nowCalls := nowCalls s + 1, db := touched_tasks i (sv_now sv (nowCalls s)) (db s)\<rparr>"
  by (auto simp: touchTask_def ok_simps unconstrained_def touched_tasks_def)

lemmas write_then = atomic_write_then [OF atomic_insert] atomic_write_then [OF atomic_update]

lemma atomic_createProject:
  "schema_ok (db s) \<Longrightarrow> atomic_at (createProject sv inp) s"
  unfolding createProject_def
  by (intro write_then atomic_read_then rd.basic succeeds_then appendAudit_succeeds)
    (auto simp: ok_simps audit_ready_def schema_audit)

lemma atomic_upsertRepositoryRevision:
  "schema_ok (db s) \<Longrightarrow> atomic_at (upsertRepositoryRevision sv inp) s"
  unfolding upsertRepositoryRevision_def
  by (intro atomic_read_then rd.basic)
    (auto simp: ok_simps audit_ready_def schema_audit split: option.split
      intro!: atomic_readI [OF rd.ret] atomic_read_then rd.basic write_then succeeds_then appendAudit_succeeds)

lemma atomic_createNode: "schema_ok (db s) \<Longrightarrow> atomic_at (createNode sv inp) s"
  unfolding createNode_def
  by (intro write_then atomic_read_then rd.basic succeeds_then appendAudit_succeeds)
    (auto simp: ok_simps audit_ready_def schema_audit viol_defs)

lemma atomic_createTask: "schema_ok (db s) \<Longrightarrow> atomic_at (createTask sv inp) s"
  unfolding createTask_def
  by (intro write_then atomic_read_then rd.basic succeeds_then appendAudit_succeeds)
    (auto simp: ok_simps audit_ready_def schema_audit viol_defs)

lemma atomic_registerContentBlob: "atomic_at (registerContentBlob sv inp) s"
  unfolding registerContentBlob_def
  by (intro write_then atomic_read_then rd.basic) (auto simp: ok_simps)

lemma atomic_appendApplicationEvent: "atomic_at (appendApplicationEvent sv i k r c dt t) s"
  unfolding appendApplicationEvent_def
  by (intro write_then atomic_read_then rd.basic) (auto simp: ok_simps)

lemma atomic_application_events:
  "atomic_at (markApplicationApplying sv i t) s" "atomic_at (failApplication sv f) s"
  "atomic_at (interruptApplication sv f) s"
  unfolding markApplicationApplying_def failApplication_def interruptApplication_def
  by (intro atomic_write_then atomic_appendApplicationEvent; simp)+

lemma atomic_createTaskDependency: "schema_ok (db s) \<Longrightarrow> atomic_at (createTaskDependency sv inp) s"
  unfolding createTaskDependency_def
  by (intro write_then atomic_read_then rd.basic succeeds_then appendAudit_succeeds)
    (auto simp: ok_simps audit_ready_def schema_audit viol_defs)

lemma atomic_createEdge: "schema_ok (db s) \<Longrightarrow> atomic_at (createEdge sv inp) s"
  unfolding createEdge_def read_defs
  by (intro write_then atomic_read_then rd.composed rd.basic succeeds_then appendAudit_succeeds)
    (auto simp: ok_simps audit_ready_def schema_audit viol_defs)

lemma atomic_publishNodeVersion: "schema_ok (db s) \<Longrightarrow> atomic_at (publishNodeVersion sv inp) s"
  unfolding publishNodeVersion_def read_defs
  by (intro write_then atomic_read_then rd.composed rd.basic succeeds_then appendAudit_succeeds)
    (auto simp: ok_simps audit_ready_def schema_audit touched_nodes_def dest: schema_node_project)

lemma touched_nodes_frame [simp]:
  "projects (touched_nodes i t d) = projects d" "audit_log (touched_nodes i t d) = audit_log d"
  "audit_sequence (touched_nodes i t d) = audit_sequence d"
  "map nd_projectId (nodes (touched_nodes i t d)) = map nd_projectId (nodes d)"
  by (simp_all add: touched_nodes_def)

lemma touched_tasks_frame [simp]:
  "projects (touched_tasks i t d) = projects d" "audit_log (touched_tasks i t d) = audit_log d"
  "audit_sequence (touched_tasks i t d) = audit_sequence d"
  by (simp_all add: touched_tasks_def)

text \<open>The project of a node, read after the node was touched, is still a project.\<close>

lemma project_of_touched:
  assumes "schema_ok d" and "find_node (touched_nodes i t e) i = Some n"
    and "nodes e = nodes d" and "projects e = projects d"
  shows "nd_projectId n \<in> pr_id ` set (projects d)"
proof -
  from assms(2) have "nd_projectId n \<in> set (map nd_projectId (nodes (touched_nodes i t e)))"
    by (auto simp: find_node_def dest!: first_where_SomeD simp del: touched_nodes_frame(4))
  with assms show ?thesis by (force simp: schema_ok_def graph_refs_ok_def fk_def)
qed

lemma atomic_option: "(x = None \<Longrightarrow> atomic_at m s) \<Longrightarrow> (\<And>v. x = Some v \<Longrightarrow> atomic_at (f v) s)
    \<Longrightarrow> atomic_at (case x of None \<Rightarrow> m | Some v \<Rightarrow> f v) s"
  by (cases x) auto

lemma audit_ready_node:
  assumes "schema_ok d" and "nodes e = nodes d" and "projects e = projects d"
    and "audit_log e = audit_log d" and "audit_sequence e = audit_sequence d"
  shows "audit_ready (touched_nodes i t e) (map_option nd_projectId (find_node (touched_nodes i t e) i))"
  using assms schema_audit [OF assms(1)] project_of_touched [OF assms(1), of i t e]
  by (auto simp: audit_ready_def missing_opt_def split: option.split)

lemma atomic_upsertNodeDraft: "schema_ok (db s) \<Longrightarrow> atomic_at (upsertNodeDraft sv inp) s"
  unfolding upsertNodeDraft_def read_defs Let_def
  by (intro write_then atomic_option atomic_read_then rd.composed rd.basic succeeds_then appendAudit_succeeds)
    (auto simp: ok_simps filter_empty_conv intro!: audit_ready_node dest!: first_where_SomeD [OF sym])

lemma atomic_upsertTaskDraft: "schema_ok (db s) \<Longrightarrow> atomic_at (upsertTaskDraft sv inp) s"
  unfolding upsertTaskDraft_def Let_def
  by (intro write_then atomic_option atomic_read_then rd.composed rd.basic succeeds_then appendAudit_succeeds)
    (auto simp: ok_simps filter_empty_conv audit_ready_def schema_audit schema_task_project
      dest!: first_where_SomeD [OF sym])

lemma atomic_discard: "atomic_at m s \<Longrightarrow> atomic_at (discard m) s"
  by (simp add: atomic_at_def discard_error)

lemmas atomic_commands = atomic_createProject atomic_upsertRepositoryRevision atomic_createNode
  atomic_upsertNodeDraft atomic_publishNodeVersion atomic_createEdge atomic_createTask atomic_upsertTaskDraft
  atomic_publishTaskSpecVersion atomic_createTaskDependency atomic_createBaselineDraft atomic_activateBaseline
  atomic_freezeContextSnapshot atomic_registerContentBlob atomic_createDispatchedRun atomic_finalizeRun
  atomic_interruptRun atomic_createAcceptanceEvaluation atomic_completeTask atomic_createArtifactApplication
  atomic_application_events atomic_finalizeApplicationApplied atomic_createBaselineCandidate

lemma atomic_perform: "schema_ok (db s) \<Longrightarrow> atomic_at (perform sv c) s"
  by (cases c) (simp_all add: atomic_discard atomic_commands)

section \<open>Transactions never nest\<close>

definition flat :: "'a cmd \<Rightarrow> bool" where
  "flat m \<longleftrightarrow> (\<forall>s. fst (m s) \<noteq> Inl (Sqlite NestedTransaction))"

definition flat_viol :: "(database \<Rightarrow> 'r \<Rightarrow> sqlite_error option) \<Rightarrow> bool" where
  "flat_viol viol \<longleftrightarrow> (\<forall>d r. viol d r \<noteq> Some NestedTransaction)"

lemma flat_basic:
  "flat (ret x)" "e \<noteq> Sqlite NestedTransaction \<Longrightarrow> flat (throw e)"
  "e \<noteq> Sqlite NestedTransaction \<Longrightarrow> flat (throw_if b e)" "flat (query f)"
  "e \<noteq> Sqlite NestedTransaction \<Longrightarrow> flat (require_some e y)"
  "e \<noteq> Sqlite NestedTransaction \<Longrightarrow> flat (first_row e rs)" "flat (assert_domain z)"
  "flat (now sv)" "flat (nextId sv p)" "flat (or_nextId sv g p)"
  by (cases rs; cases z; auto simp: flat_def cmd_defs split: option.splits)+

lemma flat_andThen:
  assumes "flat m" and "\<And>x. flat (f x)"
  shows "flat (andThen m f)"
proof (unfold flat_def, intro allI)
  fix s
  obtain res t where m: "m s = (res, t)" by (cases "m s")
  have "fst (m s) \<noteq> Inl (Sqlite NestedTransaction)" using assms(1) by (simp add: flat_def)
  moreover have "fst (f x t) \<noteq> Inl (Sqlite NestedTransaction)" for x using assms(2) by (simp add: flat_def)
  ultimately show "fst (andThen m f s) \<noteq> Inl (Sqlite NestedTransaction)"
    using m by (cases res) (simp_all add: andThen_def)
qed

lemma flat_cases:
  "flat m \<Longrightarrow> flat n \<Longrightarrow> flat (if b then m else n)"
  "flat m \<Longrightarrow> (\<And>v. flat (f v)) \<Longrightarrow> flat (case x of None \<Rightarrow> m | Some v \<Rightarrow> f v)"
  "(\<And>u. flat (g u)) \<Longrightarrow> (\<And>v. flat (h v)) \<Longrightarrow> flat (case y of Inl u \<Rightarrow> g u | Inr v \<Rightarrow> h v)"
  by (auto split: option.split sum.split)

lemma flat_forEach: "(\<And>x. flat (f x)) \<Longrightarrow> flat (forEach f xs)"
  by (induction xs) (auto intro!: flat_andThen flat_basic)

lemma flat_insert: "flat_viol viol \<Longrightarrow> flat (insert_into viol upd r)"
  by (auto simp: flat_def flat_viol_def insert_into_def split: option.splits)

lemma flat_update:
  assumes "\<And>d x y e. viol d x y = Some e \<Longrightarrow> e \<noteq> NestedTransaction"
  shows "flat (update_where get upd viol P f)"
  unfolding flat_def update_where_def Let_def
  by (auto split: option.split dest!: first_Some_SomeD assms [OF sym])

lemma flat_updates:
  "flat (update_nodes p1 f1)" "flat (update_node_drafts p2 f2)" "flat (update_tasks p3 f3)"
  "flat (update_task_drafts p4 f4)" "flat (update_baselines p5 f5)" "flat (update_snapshots p6 f6)"
  "flat (update_runs p7 f7)" "flat (update_requests p8 f8)"
  by (rule flat_update; auto simp: unconstrained_def one_active_on_update_def guard_frozen_snapshot_no_update_def
      violation.simps split: if_splits)+

lemma flat_viols:
  "flat_viol project_viol" "flat_viol repository_revision_viol" "flat_viol node_viol" "flat_viol node_draft_viol"
  "flat_viol node_version_viol" "flat_viol edge_viol" "flat_viol task_viol" "flat_viol task_draft_viol"
  "flat_viol task_spec_version_viol" "flat_viol acceptance_criterion_viol" "flat_viol task_target_viol"
  "flat_viol task_dependency_viol" "flat_viol project_baseline_viol" "flat_viol baseline_item_viol"
  "flat_viol content_blob_viol" "flat_viol context_snapshot_viol" "flat_viol context_snapshot_item_viol"
  "flat_viol run_viol" "flat_viol execution_request_record_viol" "flat_viol run_event_viol"
  "flat_viol artifact_viol" "flat_viol acceptance_evaluation_viol" "flat_viol acceptance_evaluation_item_viol"
  "flat_viol artifact_application_viol" "flat_viol artifact_application_event_viol"
  "flat_viol baseline_candidate_source_viol" "flat_viol audit_log_viol"
  unfolding flat_viol_def viol_defs by (simp_all add: violation.simps)

lemmas flat_statements = flat_andThen flat_cases flat_forEach flat_basic flat_updates
  flat_viols [THEN flat_insert]

lemma flat_appendAudit: "flat (appendAudit sv p e i a j)"
  unfolding appendAudit_def by (intro flat_statements) simp_all

lemma flat_transitionTask: "flat (transitionTask sv i to t)"
  unfolding transitionTask_def requireTask_def by (intro flat_statements flat_appendAudit) simp_all

lemma flat_events: "flat (appendRunEvent sv i k dt c)" "flat (appendApplicationEvent sv i a r rc dt c)"
  unfolding appendRunEvent_def nextRunEventSequence_def appendApplicationEvent_def
  by (intro flat_statements; simp)+

lemma flat_upsertRepositoryRevision: "flat (upsertRepositoryRevision sv x)"
  unfolding upsertRepositoryRevision_def by (intro flat_statements flat_appendAudit) simp_all

lemma flat_check_submitted: "flat (check_submitted sp m seen vs)"
  by (induction sp m seen vs rule: check_submitted.induct) (auto intro!: flat_andThen flat_basic)

lemma flat_insertBaselineDraft: "flat (insertBaselineDraft sv inp)"
  unfolding insertBaselineDraft_def check_baseline_version_def insert_item_at_def read_defs
  by (intro flat_statements flat_appendAudit) simp_all

definition unnested :: "'a cmd \<Rightarrow> bool" where
  "unnested m \<longleftrightarrow> (\<forall>s. tx s = None \<longrightarrow> fst (m s) \<noteq> Inl (Sqlite NestedTransaction))"

lemma unnested_flat: "flat m \<Longrightarrow> unnested m"
  by (simp add: flat_def unnested_def)

lemma unnested_transaction: "flat m \<Longrightarrow> unnested (withTransaction m)"
  by (auto simp: unnested_def flat_def withTransaction_def split: prod.split sum.split)
    (metis fst_conv)

lemma unnested_after_reads:
  assumes "\<And>s. evolves_at same_db m s" and "flat m" and "\<And>x. unnested (f x)"
  shows "unnested (andThen m f)"
proof (unfold unnested_def, intro allI impI)
  fix s :: persistence
  assume "tx s = None"
  moreover obtain res t where m: "m s = (res, t)" by (cases "m s")
  ultimately have "tx t = None" using assms(1) [of s] by (simp add: evolves_at_def)
  then show "fst (andThen m f s) \<noteq> Inl (Sqlite NestedTransaction)"
    using assms(2,3) m by (cases res) (auto simp: andThen_def flat_def unnested_def dest: spec [of _ s] spec [of _ t])
qed

lemma unnested_discard: "unnested m \<Longrightarrow> unnested (discard m)"
  by (simp add: unnested_def discard_error)

lemmas flat_rules = flat_statements flat_appendAudit flat_transitionTask flat_events flat_upsertRepositoryRevision
  flat_check_submitted flat_insertBaselineDraft

lemma unnested_plain:
  "unnested (createProject sv a1)" "unnested (upsertRepositoryRevision sv a2)" "unnested (createNode sv a3)"
  "unnested (createTask sv a4)" "unnested (registerContentBlob sv a5)" "unnested (createTaskDependency sv a6)"
  "unnested (createEdge sv a7)" "unnested (publishNodeVersion sv a8)" "unnested (upsertNodeDraft sv a9)"
  "unnested (upsertTaskDraft sv a10)" "unnested (markApplicationApplying sv i t)" "unnested (failApplication sv a11)"
  "unnested (interruptApplication sv a12)"
  unfolding createProject_def createNode_def createTask_def registerContentBlob_def createTaskDependency_def createEdge_def
    publishNodeVersion_def upsertNodeDraft_def upsertTaskDraft_def markApplicationApplying_def failApplication_def
    interruptApplication_def read_defs touchNode_def touchTask_def Let_def
  by (intro unnested_flat flat_rules; simp)+

lemma unnested_transactions:
  "unnested (createBaselineDraft sv a1)" "unnested (finalizeRun sv a2)" "unnested (interruptRun sv a3)"
  "unnested (createDispatchedRun sv a4)" "unnested (createAcceptanceEvaluation sv a5)" "unnested (completeTask sv i e)"
  "unnested (createArtifactApplication sv a6)" "unnested (finalizeApplicationApplied sv a7)"
  "unnested (createBaselineCandidate sv a8)"
  unfolding createBaselineDraft_def finalizeRun_def interruptRun_def createDispatchedRun_def
    createAcceptanceEvaluation_def completeTask_def createArtifactApplication_def finalizeApplicationApplied_def
    createBaselineCandidate_def reuse_candidate_def new_candidate_def read_defs finalizeRequestRecord_def
    insert_artifact_at_def insert_verdict_def Let_def
  by (intro unnested_transaction flat_rules; simp)+

lemma unnested_after_checks:
  "unnested (activateBaseline sv i)" "unnested (freezeContextSnapshot sv a1)" "unnested (publishTaskSpecVersion sv a2)"
  unfolding activateBaseline_def freezeContextSnapshot_def publishTaskSpecVersion_def read_defs supersede_baseline_def
    freeze_item_def insert_spec_criterion_def insert_spec_target_def touchTask_def
  by (intro unnested_after_reads rd.composed rd.basic unnested_transaction flat_rules; simp)+

lemma unnested_perform: "unnested (perform sv c)"
  by (cases c) (simp_all add: unnested_discard unnested_plain unnested_transactions unnested_after_checks)

end
