(* ===== verification/Example.thy ===== *)
theory Example
  imports Session
begin

text \<open>
  A concrete session for the witnesses: services whose ids count up and whose digest is
  the identity, and the commands of one full pass through the workflow, from the project
  to the adoption of a task's result in a new baseline.
\<close>

definition demo :: services where
  "demo = \<lparr>sv_now = (\<lambda>n. ''n''), sv_nextId = (\<lambda>n p. nat_digits n), sv_sha256Hex = (\<lambda>x. ''h'')\<rparr>"

definition demo_metadata :: dispatch_result_metadata where
  "demo_metadata =
     \<lparr>dm_dispatchOutcome = DO_SUCCEEDED, dm_claimGranted = True, dm_rejectionReason = None,
      dm_revisionMismatchField = None, dm_revisionMismatchExpected = None, dm_revisionMismatchActual = None,
      dm_patchHash = Some ''h'', dm_timedOut = None, dm_recoveryJson = None\<rparr>"

definition prepare_script :: "command list" where
  "prepare_script =
     [CreateProject \<lparr>cpi_id = ''p'', cpi_name = ''P'', cpi_description = None\<rparr>,
      CreateNode \<lparr>cni_id = ''a'', cni_projectId = ''p'', cni_type = IDEA, cni_lifecycle = None\<rparr>,
      CreateNode \<lparr>cni_id = ''b'', cni_projectId = ''p'', cni_type = DESIGN, cni_lifecycle = None\<rparr>,
      PublishNodeVersion \<lparr>pnv_id = ''v'', pnv_nodeId = ''a'', pnv_title = ''T'', pnv_body = ''B''\<rparr>,
      UpsertRepositoryRevision \<lparr>rri_id = ''r'', rri_baseCommit = ''c'', rri_treeHash = ''h'', rri_workingTreePatchHash = None\<rparr>,
      CreateBaselineDraft \<lparr>cbi_id = ''l'', cbi_projectId = ''p'', cbi_name = ''L'', cbi_description = None,
        cbi_repositoryRevisionId = Some ''r'', cbi_nodeVersionIds = [''v'']\<rparr>,
      ActivateBaseline ''l'',
      CreateTask \<lparr>cti_id = ''t'', cti_projectId = ''p'', cti_type = IMPLEMENT_CHANGE, cti_title = ''T''\<rparr>,
      PublishTaskSpecVersion \<lparr>pts_id = ''s'', pts_taskId = ''t'', pts_description = ''D'', pts_scope = ''S'',
        pts_targets = None,
        pts_criteria = [\<lparr>aci_description = ''C'', aci_verificationMethod = None, aci_position = 0\<rparr>]\<rparr>]"

definition execute_script :: "command list" where
  "execute_script =
     [FreezeContextSnapshot \<lparr>fsi_id = ''c'', fsi_projectId = ''p'', fsi_taskId = ''t'', fsi_taskSpecVersionId = ''s'',
        fsi_baseBaselineId = ''l'', fsi_expectedRepositoryRevisionId = ''r'',
        fsi_items = [\<lparr>sii_itemType = NODE_VERSION, sii_sourceRef = ''v'', sii_resolvedContent = ''B'',
          sii_selectionReason = None, sii_authority = CA_PROJECT_FACT, sii_priority = None, sii_tokenEstimate = 1,
          sii_blobId = None, sii_position = 0\<rparr>]\<rparr>,
      CreateDispatchedRun \<lparr>cdr_runId = ''u'', cdr_projectId = ''p'', cdr_taskId = ''t'', cdr_taskSpecVersionId = ''s'',
        cdr_contextSnapshotId = ''c'', cdr_repositoryRevisionId = ''r'', cdr_startedAt = ''n'', cdr_now = ''n'',
        cdr_request = \<lparr>dq_executionRequestId = ''q'', dq_workerAttemptNumber = 1, dq_checkpointId = None,
          dq_requestHash = ''h'', dq_schemaVersion = 1, dq_requestJson = ''j'', dq_dispatchedAt = ''n''\<rparr>\<rparr>,
      FinalizeRun \<lparr>fri_runId = ''u'', fri_executionRequestId = ''q'', fri_metadata = demo_metadata,
        fri_completedAt = ''e'', fri_now = ''e'',
        fri_artifacts = [\<lparr>ari_kind = PATCH, ari_fileName = ''f'', ari_content = ''x'', ari_contentHash = ''h'',
          ari_sizeBytes = 1\<rparr>]\<rparr>,
      CreateAcceptanceEvaluation \<lparr>cae_projectId = ''p'', cae_taskId = ''t'', cae_taskSpecVersionId = ''s'',
        cae_runId = ''u'',
        cae_criteria = [\<lparr>cvi_criterionId = ''1'', cvi_verdict = CV_PASSED, cvi_note = None\<rparr>]\<rparr>,
      CompleteTask ''t'' ''6'']"

definition adopt_script :: "command list" where
  "adopt_script =
     [CreateArtifactApplication \<lparr>cap_id = ''x'', cap_projectId = ''p'', cap_taskId = ''t'',
        cap_evaluationId = ''6'', cap_runId = ''u'', cap_executionRequestId = ''q'',
        cap_artifactId = ''4'', cap_baseBaselineId = ''l'', cap_baseRepositoryRevisionId = ''r'',
        cap_patchHash = ''h'', cap_authorizedAt = ''e''\<rparr>,
      MarkApplicationApplying ''x'' ''e'',
      FinalizeApplicationApplied \<lparr>fai_applicationId = ''x'', fai_baseCommit = ''c'', fai_treeHash = ''k'',
        fai_workingTreePatchHash = None, fai_now = ''e''\<rparr>,
      CreateBaselineCandidate \<lparr>cci_applicationId = ''x'', cci_name = ''M'', cci_description = None\<rparr>,
      ActivateBaseline ''12'']"

section \<open>Small databases\<close>

text \<open>
  The databases in which single commands are evaluated: the state after the preparation,
  during execution, after the evaluation and after the application of the result, without
  their audit entries.
\<close>

definition at :: "database \<Rightarrow> persistence" where
  "at d = \<lparr>db = d, tx = None, nowCalls = 0, idCalls = 0\<rparr>"

definition ready_db :: database where
  "ready_db = empty_database
     \<lparr>projects := [\<lparr>pr_id = ''p'', pr_name = ''P'', pr_description = None, pr_createdAt = ''n'', pr_updatedAt = ''n''\<rparr>],
      repository_revisions := [\<lparr>rr_id = ''r'', rr_baseCommit = ''c'', rr_treeHash = ''h'',
        rr_workingTreePatchHash = None, rr_createdAt = ''n''\<rparr>],
      nodes := [\<lparr>nd_id = ''a'', nd_projectId = ''p'', nd_type = IDEA, nd_lifecycle = NL_ACTIVE,
          nd_createdAt = ''n'', nd_updatedAt = ''n''\<rparr>,
        \<lparr>nd_id = ''b'', nd_projectId = ''p'', nd_type = DESIGN, nd_lifecycle = NL_ACTIVE,
          nd_createdAt = ''n'', nd_updatedAt = ''n''\<rparr>],
      node_drafts := [\<lparr>nf_id = ''f'', nf_nodeId = ''a'', nf_title = ''T'', nf_body = ''B'', nf_revision = 1,
        nf_updatedAt = ''n''\<rparr>],
      node_versions := [\<lparr>nv_id = ''v'', nv_nodeId = ''a'', nv_sequence = 1, nv_title = ''T'', nv_body = ''B'',
        nv_contentHash = ''h'', nv_createdAt = ''n''\<rparr>],
      edges := [\<lparr>eg_id = ''g'', eg_projectId = ''p'', eg_sourceNodeId = ''a'', eg_targetNodeId = ''b'',
        eg_type = DEPENDS_ON, eg_status = ES_PROPOSED, eg_anchoredNodeVersionId = None, eg_note = None,
        eg_createdAt = ''n'', eg_updatedAt = ''n''\<rparr>],
      tasks := [\<lparr>tk_id = ''t'', tk_projectId = ''p'', tk_type = IMPLEMENT_CHANGE, tk_status = TS_READY,
        tk_title = ''T'', tk_createdAt = ''n'', tk_updatedAt = ''n''\<rparr>],
      task_spec_versions := [\<lparr>ts_id = ''s'', ts_taskId = ''t'', ts_sequence = 1, ts_description = ''D'',
        ts_scope = ''S'', ts_contentHash = ''h'', ts_createdAt = ''n''\<rparr>],
      acceptance_criteria := [\<lparr>ac_id = ''k'', ac_taskSpecVersionId = ''s'', ac_position = 0,
        ac_description = ''C'', ac_verificationMethod = MANUAL_REVIEW\<rparr>],
      project_baselines := [\<lparr>bl_id = ''l'', bl_projectId = ''p'', bl_status = BS_ACTIVE, bl_name = ''L'',
          bl_description = None, bl_repositoryRevisionId = Some ''r'', bl_activatedAt = Some ''n'',
          bl_supersededAt = None, bl_createdAt = ''n'', bl_updatedAt = ''n''\<rparr>,
        \<lparr>bl_id = ''m'', bl_projectId = ''p'', bl_status = BS_DRAFT, bl_name = ''M'',
          bl_description = None, bl_repositoryRevisionId = Some ''r'', bl_activatedAt = None,
          bl_supersededAt = None, bl_createdAt = ''n'', bl_updatedAt = ''n''\<rparr>],
      baseline_items := [\<lparr>bi_id = ''i'', bi_baselineId = ''l'', bi_nodeVersionId = ''v'', bi_position = 0\<rparr>]\<rparr>"

definition demo_snapshot :: context_snapshot_row where
  "demo_snapshot = \<lparr>sn_id = ''c'', sn_projectId = ''p'', sn_taskId = ''t'', sn_taskSpecVersionId = ''s'',
     sn_baseBaselineId = ''l'', sn_expectedRepositoryRevisionId = ''r'', sn_status = SS_FROZEN,
     sn_freshness = SF_CURRENT, sn_createdAt = ''n'', sn_updatedAt = ''n''\<rparr>"

definition demo_run :: "run_status \<Rightarrow> run_outcome option \<Rightarrow> run_row" where
  "demo_run st out = \<lparr>rn_id = ''u'', rn_projectId = ''p'', rn_taskId = ''t'', rn_taskSpecVersionId = ''s'',
     rn_contextSnapshotId = ''c'', rn_repositoryRevisionId = ''r'', rn_status = st, rn_outcome = out,
     rn_startedAt = ''n'', rn_completedAt = None, rn_createdAt = ''n'', rn_updatedAt = ''n''\<rparr>"

definition demo_request :: execution_request_record_row where
  "demo_request = \<lparr>er_executionRequestId = ''q'', er_runId = ''u'', er_workerAttemptNumber = 1,
     er_checkpointId = None, er_requestHash = ''h'', er_schemaVersion = 1, er_requestJson = ''j'',
     er_dispatchOutcome = None, er_claimGranted = None, er_rejectionReason = None,
     er_revisionMismatchField = None, er_revisionMismatchExpected = None, er_revisionMismatchActual = None,
     er_patchHash = None, er_timedOut = None, er_recoveryJson = None, er_dispatchedAt = ''n'',
     er_completedAt = None\<rparr>"

definition demo_task :: "task_status \<Rightarrow> task_row" where
  "demo_task st = \<lparr>tk_id = ''t'', tk_projectId = ''p'', tk_type = IMPLEMENT_CHANGE, tk_status = st,
     tk_title = ''T'', tk_createdAt = ''n'', tk_updatedAt = ''n''\<rparr>"

definition running_db :: database where
  "running_db = ready_db\<lparr>tasks := [demo_task TS_IN_PROGRESS], context_snapshots := [demo_snapshot],
     runs := [demo_run RS_RUNNING None], execution_request_records := [demo_request],
     run_events := [\<lparr>re_id = ''0e'', re_runId = ''u'', re_sequence = 0, re_kind = DISPATCHED, re_detail = None,
       re_createdAt = ''n''\<rparr>]\<rparr>"

definition finished_db :: database where
  "finished_db = running_db\<lparr>runs := [demo_run RS_FINISHED (Some RO_SUCCEEDED)],
     artifacts := [\<lparr>ar_id = ''z'', ar_runId = ''u'', ar_executionRequestId = ''q'', ar_kind = PATCH,
       ar_fileName = ''f'', ar_content = ''x'', ar_contentHash = ''h'', ar_sizeBytes = 1, ar_position = 0,
       ar_createdAt = ''n''\<rparr>]\<rparr>"

definition reviewed_db :: database where
  "reviewed_db = finished_db\<lparr>tasks := [demo_task TS_WAITING_REVIEW],
     acceptance_evaluations := [\<lparr>ae_id = ''e'', ae_projectId = ''p'', ae_taskId = ''t'',
       ae_taskSpecVersionId = ''s'', ae_runId = ''u'', ae_sequence = 0, ae_status = AS_PASSED, ae_createdAt = ''n''\<rparr>]\<rparr>"

definition applied_db :: database where
  "applied_db = reviewed_db\<lparr>tasks := [demo_task TS_COMPLETED],
     artifact_applications := [\<lparr>ap_id = ''x'', ap_projectId = ''p'', ap_taskId = ''t'', ap_evaluationId = ''e'',
       ap_runId = ''u'', ap_executionRequestId = ''q'', ap_artifactId = ''z'', ap_baseBaselineId = ''l'',
       ap_baseRepositoryRevisionId = ''r'', ap_patchHash = ''h'', ap_authorizedAt = ''n''\<rparr>],
     artifact_application_events := [\<lparr>ax_id = ''y'', ax_applicationId = ''x'', ax_sequence = 0, ax_kind = AE_APPLIED,
       ax_repositoryRevisionId = Some ''r'', ax_reasonCode = None, ax_detail = None, ax_createdAt = ''n''\<rparr>]\<rparr>"

lemmas demo_db_defs = ready_db_def running_db_def finished_db_def reviewed_db_def applied_db_def demo_task_def
  demo_run_def demo_snapshot_def demo_request_def empty_database_def

end
