(* ===== verification/Content_Behaviour.thy ===== *)
theory Content_Behaviour
  imports Atomicity Workflow Example
begin

text \<open>
  What the commands on project content do: revisions, node drafts and versions, edges,
  dependencies, specifications, baselines and snapshots. Each property is about the
  command as a whole, on the database it starts from.
\<close>

section \<open>Repository revisions\<close>

lemma appendAudit_frame:
  assumes "appendAudit sv p e i a j s = (Inr r, t)"
  shows "\<exists>x. db t = audit_push (\<lambda>rs. rs @ [x]) (db s)"
  using assms by (auto simp: appendAudit_def ok_simps)

lemma audit_push_tables [simp]:
  "projects (audit_push f d) = projects d" "repository_revisions (audit_push f d) = repository_revisions d"
  "nodes (audit_push f d) = nodes d" "node_drafts (audit_push f d) = node_drafts d"
  "node_versions (audit_push f d) = node_versions d" "edges (audit_push f d) = edges d"
  "tasks (audit_push f d) = tasks d" "task_drafts (audit_push f d) = task_drafts d"
  "task_spec_versions (audit_push f d) = task_spec_versions d"
  "acceptance_criteria (audit_push f d) = acceptance_criteria d" "task_targets (audit_push f d) = task_targets d"
  "task_dependencies (audit_push f d) = task_dependencies d"
  "project_baselines (audit_push f d) = project_baselines d" "baseline_items (audit_push f d) = baseline_items d"
  "context_snapshots (audit_push f d) = context_snapshots d"
  "context_snapshot_items (audit_push f d) = context_snapshot_items d" "runs (audit_push f d) = runs d"
  "execution_request_records (audit_push f d) = execution_request_records d"
  "run_events (audit_push f d) = run_events d" "artifacts (audit_push f d) = artifacts d"
  "acceptance_evaluations (audit_push f d) = acceptance_evaluations d"
  "acceptance_evaluation_items (audit_push f d) = acceptance_evaluation_items d"
  "artifact_applications (audit_push f d) = artifact_applications d"
  "artifact_application_events (audit_push f d) = artifact_application_events d"
  "baseline_candidate_sources (audit_push f d) = baseline_candidate_sources d"
  by (simp_all add: audit_push_def)

lemma same_revision_id [simp]: "same_revision (inp\<lparr>rri_id := j\<rparr>) = same_revision inp"
  by (simp add: fun_eq_iff same_revision_def)

lemma same_revision_self:
  "same_revision inp \<lparr>rr_id = i, rr_baseCommit = rri_baseCommit inp, rr_treeHash = rri_treeHash inp,
     rr_workingTreePatchHash = rri_workingTreePatchHash inp, rr_createdAt = t\<rparr>"
  by (simp add: same_revision_def split: option.split)

lemma upsertRepositoryRevision_stored:
  assumes "upsertRepositoryRevision sv inp s = (Inr r, t)"
  shows "first_where (same_revision inp) (repository_revisions (db t)) = Some r"
  using assms same_revision_self
  by (auto simp: upsertRepositoryRevision_def ok_simps eq_commute [of None] dest!: appendAudit_frame
      split: option.splits intro!: first_where_snoc)

text \<open>
  Registering a repository revision is idempotent: a second registration with the same
  commit, tree and patch hashes, under whatever id, returns the stored row and changes
  nothing.
\<close>

lemma upsertRepositoryRevision_idempotent:
  assumes "upsertRepositoryRevision sv inp s = (Inr r, t)"
  shows "upsertRepositoryRevision sv (inp\<lparr>rri_id := j\<rparr>) t = (Inr r, t)"
  using upsertRepositoryRevision_stored [OF assms]
  by (simp add: upsertRepositoryRevision_def cmd_defs)

lemma ok_pair: "fst x = Inr r \<Longrightarrow> x = (Inr r, snd x)"
  by (metis prod.collapse)

section \<open>Node drafts and versions\<close>

lemma requireNode_ok [ok_simps]: "requireNode i s = (Inr r, t) \<longleftrightarrow> find_node (db s) i = Some r \<and> t = s"
  by (auto simp: requireNode_def getNode_def ok_simps)

lemma projectIdOfNode_ok [ok_simps]:
  "projectIdOfNode i s = (Inr r, t) \<longleftrightarrow> r = map_option nd_projectId (find_node (db s) i) \<and> t = s"
  by (auto simp: projectIdOfNode_def getNode_def ok_simps)

lemma filter_key_unique:
  "distinct (map k rs) \<Longrightarrow> x \<in> set rs \<Longrightarrow> Q x \<Longrightarrow> filter (\<lambda>r. k r = k x \<and> Q r) rs = [x]"
  by (induction rs) (auto simp: filter_empty_conv rev_image_eqI)

lemma or_nextId_ok [ok_simps]:
  "or_nextId sv g p s = (Inr r, t) \<longleftrightarrow>
     (case g of Some i \<Rightarrow> r = i \<and> t = s | None \<Rightarrow> r = sv_nextId sv (idCalls s) p \<and> t = s\<lparr>idCalls := idCalls s + 1\<rparr>)"
  by (auto simp: or_nextId_def ok_simps split: option.split)

lemma schema_draft_ids: "schema_ok d \<Longrightarrow> distinct (map nf_id (node_drafts d))"
  by (simp add: schema_ok_def keys_ok_def)

lemma find_node_touched [simp]:
  "find_node (touched_nodes i t d) j =
     map_option (\<lambda>r. if nd_id r = i then r\<lparr>nd_updatedAt := t\<rparr> else r) (find_node d j)"
  by (simp add: find_node_def touched_nodes_def first_where_map_where del: first_where_None)

lemma touched_nodes_drafts [simp]: "node_drafts (touched_nodes i t d) = node_drafts d"
  by (simp add: touched_nodes_def)

lemma first_where_none_snoc: "first_where P xs = None \<Longrightarrow> P x \<Longrightarrow> first_where P (xs @ [x]) = Some x"
  by (simp add: first_where_snoc)

lemma find_node_frames [simp]:
  "find_node (audit_push f d) = find_node d" "find_node (node_drafts_update g d) = find_node d"
  by (simp_all add: find_node_def fun_eq_iff)

text \<open>The draft of a node after a successful save carries the revision that the save returned.\<close>

lemma upsertNodeDraft_stored:
  assumes ok: "upsertNodeDraft sv inp s = (Inr f, t)" and "schema_ok (db s)"
  shows "first_where (\<lambda>r. nf_nodeId r = und_nodeId inp) (node_drafts (db t)) = Some f
    \<and> nf_revision f = (case first_where (\<lambda>r. nf_nodeId r = und_nodeId inp) (node_drafts (db s)) of
           None \<Rightarrow> 1 | Some old \<Rightarrow> nf_revision old + 1)
    \<and> find_node (db t) (und_nodeId inp) \<noteq> None"
proof (cases "first_where (\<lambda>r. nf_nodeId r = und_nodeId inp) (node_drafts (db s))")
  case None
  then show ?thesis using ok
    by (auto simp: upsertNodeDraft_def ok_simps find_node_frames first_where_none_snoc split: option.splits
        dest!: appendAudit_frame simp del: first_where_None)
next
  case (Some old)
  let ?g = "\<lambda>b tm. old\<lparr>nf_title := und_title inp, nf_body := b, nf_revision := nf_revision old + 1, nf_updatedAt := tm\<rparr>"
  have "filter (\<lambda>r. nf_id r = nf_id old \<and> nf_revision r = nf_revision old) (node_drafts (db s)) = [old]"
    using Some assms(2) by (intro filter_key_unique schema_draft_ids) (auto dest: first_where_SomeD)
  then show ?thesis using Some ok
    by (auto simp: upsertNodeDraft_def ok_simps first_where_map_where Let_def dest!: appendAudit_frame)
qed

text \<open>
  C17. No lost update: after a successful save, a writer that still expects an earlier
  revision of the same draft is refused with a \<open>ConcurrencyError\<close> that names both
  revisions, and nothing changes.
\<close>

theorem upsertNodeDraft_no_lost_update:
  assumes "schema_ok (db s)" and "upsertNodeDraft sv inp s = (Inr f, t)"
    and "und_nodeId other = und_nodeId inp" and "und_expectedRevision other = Some e" and "e < nf_revision f"
  shows "upsertNodeDraft sv other t = (Inl (ConcurrencyError ''NodeDraft'' (nf_id f) e (nf_revision f)), t)"
proof -
  obtain n where "find_node (db t) (und_nodeId inp) = Some n"
    and "first_where (\<lambda>r. nf_nodeId r = und_nodeId inp) (node_drafts (db t)) = Some f"
    using upsertNodeDraft_stored [OF assms(2,1)] by auto
  with assms(3-) show ?thesis
    by (simp add: upsertNodeDraft_def requireNode_def getNode_def cmd_defs Let_def)
qed

lemma ready_schema: "schema_ok ready_db"
  by (simp add: demo_db_defs schema_ok_def schema_defs fk_def fk_opt_def is_active_def numbered_from_def
      revision_key_def nv_key_def ts_key_def ac_key_def bi_key_def bi_version_key_def)

definition save_draft :: "string \<Rightarrow> upsert_node_draft_input" where
  "save_draft title = \<lparr>und_draftId = None, und_nodeId = ''a'', und_title = title, und_body = None,
     und_expectedRevision = Some 1\<rparr>"

theorem upsertNodeDraft_no_lost_update_witness:
  "upsertNodeDraft demo (save_draft ''Y'') (snd (upsertNodeDraft demo (save_draft ''X'') (at ready_db))) =
     (Inl (ConcurrencyError ''NodeDraft'' ''f'' 1 2), snd (upsertNodeDraft demo (save_draft ''X'') (at ready_db)))"
proof -
  let ?f = "\<lparr>nf_id = ''f'', nf_nodeId = ''a'', nf_title = ''X'', nf_body = ''B'', nf_revision = 2, nf_updatedAt = ''n''\<rparr>"
  have "fst (upsertNodeDraft demo (save_draft ''X'') (at ready_db)) = Inr ?f" by code_simp
  from upsertNodeDraft_no_lost_update [OF _ ok_pair [OF this], of "save_draft ''Y''" 1] ready_schema
  show ?thesis by (simp add: at_def save_draft_def)
qed

lemma touched_nodes_versions [simp]: "node_versions (touched_nodes i t d) = node_versions d"
  by (simp add: touched_nodes_def)

text \<open>
  Publishing appends exactly one version: the next number of its node, the given
  title and body, and the digest of their canonical JSON.
\<close>

theorem publishNodeVersion_appends:
  assumes "publishNodeVersion sv inp s = (Inr v, t)" and "numbering_ok (db s)"
  shows "node_versions (db t) = node_versions (db s) @ [v]
    \<and> nv_sequence v = 1 + int (length (filter (\<lambda>r. nv_nodeId r = pnv_nodeId inp) (node_versions (db s))))
    \<and> nv_id v = pnv_id inp \<and> nv_nodeId v = pnv_nodeId inp
    \<and> nv_title v = pnv_title inp \<and> nv_body v = pnv_body inp
    \<and> nv_contentHash v = sha256Hex sv (canonicalContent (pnv_title inp) (pnv_body inp))"
proof -
  have "numbered_from 1 nv_sequence (filter (\<lambda>r. nv_nodeId r = pnv_nodeId inp) (node_versions (db s)))"
    using assms(2) by (simp add: numbering_ok_def numbered_by_def)
  then have seq: "next_number 0 nv_sequence (filter (\<lambda>r. nv_nodeId r = pnv_nodeId inp) (node_versions (db s)))
      = 1 + int (length (filter (\<lambda>r. nv_nodeId r = pnv_nodeId inp) (node_versions (db s))))"
    using next_number_numbered [of 0] by simp
  then show ?thesis
    using assms(1) by (auto simp: publishNodeVersion_def ok_simps dest!: appendAudit_frame)
qed

lemma ready_numbering: "numbering_ok ready_db"
  by (auto simp: numbering_ok_def numbered_by_def demo_db_defs numbered_from_def)

definition second_version :: publish_node_version_input where
  "second_version = \<lparr>pnv_id = ''w'', pnv_nodeId = ''a'', pnv_title = ''X'', pnv_body = ''Y''\<rparr>"

definition second_version_row :: node_version_row where
  "second_version_row = \<lparr>nv_id = ''w'', nv_nodeId = ''a'', nv_sequence = 2, nv_title = ''X'', nv_body = ''Y'',
     nv_contentHash = ''h'', nv_createdAt = ''n''\<rparr>"

theorem publishNodeVersion_appends_witness:
  "node_versions (db (snd (publishNodeVersion demo second_version (at ready_db)))) =
     node_versions ready_db @ [second_version_row]"
proof -
  have "fst (publishNodeVersion demo second_version (at ready_db)) = Inr second_version_row" by code_simp
  from publishNodeVersion_appends [OF ok_pair [OF this]] ready_numbering show ?thesis by (simp add: at_def)
qed

text \<open>
  The canonical JSON of a node's content determines title and body, so two contents
  share a hash only if the digest itself collides.
\<close>

theorem canonicalContent_inj:
  "canonicalContent t b = canonicalContent t' b' \<longleftrightarrow> t = t' \<and> b = b'"
  unfolding canonicalContent_def stringify_inj by simp

lemma target_json_inj: "target_json x = target_json y \<longleftrightarrow> x = y"
  unfolding target_json_def stringify_inj by (cases x; cases y) auto

lemma verification_method_str_inj [simp]: "verification_method_str a = verification_method_str b \<longleftrightarrow> a = b"
  by (cases a; cases b) simp_all

lemma criterion_json_inj:
  "criterion_json x = criterion_json y \<longleftrightarrow>
     aci_description x = aci_description y \<and> aci_position x = aci_position y
     \<and> default_to (aci_verificationMethod x) MANUAL_REVIEW = default_to (aci_verificationMethod y) MANUAL_REVIEW"
  unfolding criterion_json_def stringify_inj by auto

lemma map_JStr_inj: "map JStr xs = map JStr ys \<longleftrightarrow> xs = ys"
  by (rule inj_map_eq_map) (simp add: inj_on_def)

text \<open>
  The text under the content hash of a task specification determines the
  specification: description, scope, targets in order, and criteria in order with their
  effective verification method.
\<close>

lemma spec_content_text_inj:
  "spec_content_hash (sv\<lparr>sv_sha256Hex := (\<lambda>x. x)\<rparr>) x = spec_content_hash (sv\<lparr>sv_sha256Hex := (\<lambda>x. x)\<rparr>) y \<longleftrightarrow>
     pts_description x = pts_description y \<and> pts_scope x = pts_scope y
     \<and> default_to (pts_targets x) [] = default_to (pts_targets y) []
     \<and> map (\<lambda>c. (aci_description c, default_to (aci_verificationMethod c) MANUAL_REVIEW, aci_position c)) (pts_criteria x)
       = map (\<lambda>c. (aci_description c, default_to (aci_verificationMethod c) MANUAL_REVIEW, aci_position c)) (pts_criteria y)"
proof -
  have targets: "map target_json xs = map target_json ys \<longleftrightarrow> xs = ys" for xs ys
    by (rule inj_map_eq_map) (simp add: inj_on_def target_json_inj)
  have criteria: "map criterion_json xs = map criterion_json ys \<longleftrightarrow>
      map (\<lambda>c. (aci_description c, default_to (aci_verificationMethod c) MANUAL_REVIEW, aci_position c)) xs
      = map (\<lambda>c. (aci_description c, default_to (aci_verificationMethod c) MANUAL_REVIEW, aci_position c)) ys" for xs ys
    by (induction xs arbitrary: ys; case_tac ys) (auto simp: criterion_json_inj)
  have digest: "sv_sha256Hex (sv\<lparr>sv_sha256Hex := (\<lambda>x. x)\<rparr>) z = z" for z by simp
  show ?thesis
    unfolding spec_content_hash_def taskSpecContentHash_def sha256Hex_def digest stringify_inj
    by (simp only: json.inject list.inject prod.inject map_JStr_inj targets criteria simp_thms)
qed

section \<open>Edges and dependencies\<close>

text \<open>
  C19. The depth-first search of the cycle check ends on every graph and decides
  reachability.
\<close>

theorem isReachable_decides: "isReachable es start goal \<longleftrightarrow> (start, goal) \<in> (set es)\<^sup>*"
  by (rule dfs.reaches_iff)

text \<open>
  A stored edge carries a warning exactly if it is a DEPENDS_ON edge that closes a
  cycle of the project's DEPENDS_ON edges; the edge is appended either way.
\<close>

theorem createEdge_warning:
  assumes "createEdge sv inp s = (Inr r, t)"
  shows "(cer_warning r \<noteq> None \<longleftrightarrow> cei_type inp = DEPENDS_ON
      \<and> (cei_targetNodeId inp, cei_sourceNodeId inp) \<in> (set (edge_pairs (db s) (cei_projectId inp) DEPENDS_ON))\<^sup>*)
    \<and> edges (db t) = edges (db s) @ [cer_edge r]"
  using assms
  by (auto simp: createEdge_def ok_simps shouldCheckCycles_def wouldCreateCycle_def dfs.reaches_iff requireNodeVersion_def
      dest!: appendAudit_frame split: option.splits if_splits)

definition back_edge :: create_edge_input where
  "back_edge = \<lparr>cei_id = ''g2'', cei_projectId = ''p'', cei_sourceNodeId = ''b'', cei_targetNodeId = ''a'',
     cei_type = DEPENDS_ON, cei_status = None, cei_anchoredNodeVersionId = None, cei_note = None\<rparr>"

definition back_edge_result :: create_edge_result where
  "back_edge_result = \<lparr>cer_edge = \<lparr>eg_id = ''g2'', eg_projectId = ''p'', eg_sourceNodeId = ''b'',
       eg_targetNodeId = ''a'', eg_type = DEPENDS_ON, eg_status = ES_PROPOSED, eg_anchoredNodeVersionId = None,
       eg_note = None, eg_createdAt = ''n'', eg_updatedAt = ''n''\<rparr>,
     cer_warning = Some ''DEPENDS_ON edge g2 introduces a cycle and is stored with a warning''\<rparr>"

theorem createEdge_warning_witness:
  "(''a'', ''b'') \<in> (set (edge_pairs ready_db ''p'' DEPENDS_ON))\<^sup>*
   \<and> edges (db (snd (createEdge demo back_edge (at ready_db)))) = edges ready_db @ [cer_edge back_edge_result]"
proof -
  have "fst (createEdge demo back_edge (at ready_db)) = Inr back_edge_result" by code_simp
  from createEdge_warning [OF ok_pair [OF this]] show ?thesis by (simp add: at_def back_edge_def back_edge_result_def)
qed

text \<open>What follows the checks of a command throws only SQLite's errors and those about a missing row.\<close>

definition store_error :: "error \<Rightarrow> bool" where
  "store_error e = (case e of Sqlite _ \<Rightarrow> True | PersistenceError _ \<Rightarrow> True | PlainError _ \<Rightarrow> True | _ \<Rightarrow> False)"

definition stores :: "'a cmd \<Rightarrow> bool" where
  "stores m \<longleftrightarrow> (\<forall>s. case fst (m s) of Inl e \<Rightarrow> store_error e | Inr _ \<Rightarrow> True)"

lemma stores_basic:
  "stores (ret x)" "store_error e \<Longrightarrow> stores (first_row e rs)" "stores (now sv)" "stores (nextId sv p)" "stores (query f)"
  "stores (insert_into viol upd row)" "stores (update_where get upd' unconstrained P g)"
  by (cases rs; auto simp: stores_def cmd_defs insert_into_def update_where_def Let_def unconstrained_def store_error_def
      split: option.splits)+

lemma stores_andThen: "stores m \<Longrightarrow> (\<And>x. stores (f x)) \<Longrightarrow> stores (andThen m f)"
  unfolding stores_def andThen_def by (auto split: prod.splits sum.splits) (metis fst_conv sum.case(1))+

lemma stores_appendAudit: "stores (appendAudit sv p e i a j)"
  unfolding appendAudit_def by (intro stores_andThen stores_basic) (simp add: store_error_def)

lemma storesD: "stores m \<Longrightarrow> fst (m s) = Inl e \<Longrightarrow> store_error e"
  by (auto simp: stores_def split: sum.splits)

lemma storesD': "stores m \<Longrightarrow> \<not> store_error e \<Longrightarrow> fst (m s) \<noteq> Inl e"
  using storesD by blast

lemma step_simps:
  "andThen (ret x) k1 s = k1 x s" "andThen (query g) k2 s = k2 (g (db s)) s"
  "andThen (throw_if False e) k3 s = k3 () s" "andThen (require_some e (Some y)) k4 s = k4 y s"
  "find_node (db s) i = Some n \<Longrightarrow> andThen (requireNode i) k5 s = k5 n s"
  by (simp_all add: andThen_def cmd_defs requireNode_def getNode_def)

lemma store_error_simps [simp]:
  "store_error (PlainError m)" "\<not> store_error (CycleError k a b)"
  by (simp_all add: store_error_def)

lemma guarded_cycle:
  assumes "acyclic (set es)" and "stores (f ())"
  shows "fst (andThen (throw_if (isReachable es b a) (CycleError k x y)) f s) = Inl (CycleError k x y)
    \<longleftrightarrow> \<not> acyclic (insert (a, b) (set es))"
  using assms(1) storesD' [OF assms(2)] by (simp add: throw_if_def dfs.closes_cycle_iff dfs.reaches_iff andThen_def throw_def ret_def)

text \<open>
  Between two nodes of a project whose PARENT_OF or SUPERSEDES edges form no cycle,
  an edge of that type is refused with a \<open>CycleError\<close> exactly if it would close one.
\<close>

theorem createEdge_refuses_cycles:
  assumes "find_node (db s) (cei_sourceNodeId inp) = Some a" and "nd_projectId a = cei_projectId inp"
    and "find_node (db s) (cei_targetNodeId inp) = Some b" and "nd_projectId b = cei_projectId inp"
    and "cei_sourceNodeId inp \<noteq> cei_targetNodeId inp" and "cei_anchoredNodeVersionId inp = None"
    and "cei_type inp = PARENT_OF \<or> cei_type inp = SUPERSEDES"
    and "acyclic (set (edge_pairs (db s) (cei_projectId inp) (cei_type inp)))"
  shows "fst (createEdge sv inp s) =
      Inl (CycleError (edge_type_str (cei_type inp)) (cei_sourceNodeId inp) (cei_targetNodeId inp))
    \<longleftrightarrow> \<not> acyclic (insert (cei_sourceNodeId inp, cei_targetNodeId inp)
          (set (edge_pairs (db s) (cei_projectId inp) (cei_type inp))))"
proof -
  let ?es = "edge_pairs (db s) (cei_projectId inp) (cei_type inp)"
  let ?e = "CycleError (edge_type_str (cei_type inp)) (cei_sourceNodeId inp) (cei_targetNodeId inp)"
  have checked: "shouldCheckCycles (cei_type inp)" and strict: "cei_type inp \<noteq> DEPENDS_ON"
    using assms(7) by (auto simp: shouldCheckCycles_def)
  have "\<exists>f. createEdge sv inp s = andThen (throw_if (isReachable ?es (cei_targetNodeId inp) (cei_sourceNodeId inp)) ?e) f s
      \<and> stores (f ())"
    unfolding createEdge_def
    by (simp only: step_simps assms(1-6) checked strict wouldCreateCycle_def option.case simp_thms not_False_eq_True)
      (rule exI, rule conjI, rule refl, intro stores_andThen stores_basic stores_appendAudit store_error_simps)
  then obtain f where run: "createEdge sv inp s = andThen (throw_if (isReachable ?es (cei_targetNodeId inp) (cei_sourceNodeId inp)) ?e) f s"
    and "stores (f ())" by blast
  then show ?thesis by (simp only: run guarded_cycle [OF assms(8)])
qed
definition parent_db :: database where
  "parent_db = ready_db\<lparr>edges := [\<lparr>eg_id = ''g'', eg_projectId = ''p'', eg_sourceNodeId = ''a'', eg_targetNodeId = ''b'',
     eg_type = PARENT_OF, eg_status = ES_PROPOSED, eg_anchoredNodeVersionId = None, eg_note = None,
     eg_createdAt = ''n'', eg_updatedAt = ''n''\<rparr>]\<rparr>"

definition parent_edge :: create_edge_input where
  "parent_edge = back_edge\<lparr>cei_type := PARENT_OF\<rparr>"

lemma acyclic_empty [simp]: "acyclic {}"
  by (simp add: acyclic_def)

theorem createEdge_refuses_cycles_witness:
  "fst (createEdge demo parent_edge (at parent_db)) = Inl (CycleError ''PARENT_OF'' ''b'' ''a'')"
proof -
  obtain x y where "find_node parent_db ''b'' = Some x" "nd_projectId x = ''p''"
    and "find_node parent_db ''a'' = Some y" "nd_projectId y = ''p''"
    by (simp add: find_node_def parent_db_def demo_db_defs first_where_def)
  moreover have "set (edge_pairs parent_db ''p'' PARENT_OF) = {(''a'', ''b'')}"
    by (simp add: edge_pairs_def parent_db_def)
  ultimately show ?thesis
    using createEdge_refuses_cycles [of "at parent_db" parent_edge x y demo]
    by (simp add: at_def parent_edge_def back_edge_def r_into_rtrancl)
qed

text \<open>
  Between two tasks of a project whose dependencies form no cycle, a dependency is
  refused with a \<open>CycleError\<close> exactly if it would close one; a self-dependency is such a
  cycle.
\<close>

lemma createTaskDependency_refuses_cycles:
  assumes "find_task (db s) (ctd_taskId inp) = Some a" and "tk_projectId a = ctd_projectId inp"
    and "find_task (db s) (ctd_dependsOnTaskId inp) = Some b" and "tk_projectId b = ctd_projectId inp"
    and "acyclic (set (dependency_pairs (db s) (ctd_projectId inp)))"
  shows "fst (createTaskDependency sv inp s) =
      Inl (CycleError ''TaskDependency'' (ctd_taskId inp) (ctd_dependsOnTaskId inp))
    \<longleftrightarrow> \<not> acyclic (insert (ctd_taskId inp, ctd_dependsOnTaskId inp)
          (set (dependency_pairs (db s) (ctd_projectId inp))))"
proof -
  let ?es = "dependency_pairs (db s) (ctd_projectId inp)"
  let ?e = "CycleError ''TaskDependency'' (ctd_taskId inp) (ctd_dependsOnTaskId inp)"
  show ?thesis
  proof (cases "ctd_taskId inp = ctd_dependsOnTaskId inp")
    case True
    then show ?thesis using assms
      by (simp add: createTaskDependency_def step_simps) (simp add: andThen_def throw_if_def throw_def)
  next
    case False
    have "\<exists>f. createTaskDependency sv inp s =
        andThen (throw_if (isReachable ?es (ctd_dependsOnTaskId inp) (ctd_taskId inp)) ?e) f s \<and> stores (f ())"
      unfolding createTaskDependency_def
      by (simp only: step_simps assms(1-4) False simp_thms not_False_eq_True)
        (rule exI, rule conjI, rule refl, intro stores_andThen stores_basic stores_appendAudit store_error_simps)
    then obtain f where run: "createTaskDependency sv inp s =
        andThen (throw_if (isReachable ?es (ctd_dependsOnTaskId inp) (ctd_taskId inp)) ?e) f s" and "stores (f ())" by blast
    then show ?thesis by (simp only: run guarded_cycle [OF assms(5)])
  qed
qed

end
