(* ===== verification/Planning_Behaviour.thy ===== *)
theory Planning_Behaviour
  imports Content_Behaviour
begin

text \<open>
  What the commands that plan the work do: activation of baselines and publication of
  task specifications.
\<close>

section \<open>Baseline activation\<close>

definition superseded_at :: "string \<Rightarrow> project_baseline_row \<Rightarrow> project_baseline_row" where
  "superseded_at n r = r\<lparr>bl_status := BS_SUPERSEDED, bl_supersededAt := Some n, bl_updatedAt := n\<rparr>"

definition activated_at :: "string \<Rightarrow> project_baseline_row \<Rightarrow> project_baseline_row" where
  "activated_at n r = r\<lparr>bl_status := BS_ACTIVE, bl_activatedAt := Some n, bl_updatedAt := n\<rparr>"

lemma activated_at_simps [simp]: "bl_id (activated_at n r) = bl_id r" "bl_projectId (activated_at n r) = bl_projectId r"
  by (simp_all add: activated_at_def)

lemma superseded_at_simps [simp]: "bl_id (superseded_at n r) = bl_id r" "superseded_at n (superseded_at n r) = superseded_at n r"
  "\<not> is_active_of p (superseded_at n r)"
  by (simp_all add: superseded_at_def is_active_of_def)

lemma superseded_rows:
  "forEach (supersede_baseline sv b n) xs s = (Inr us, t) \<Longrightarrow>
     project_baselines (db t) = map_where (\<lambda>r. bl_id r \<in> bl_id ` set xs) (superseded_at n) (project_baselines (db s))"
proof (induction xs arbitrary: s us)
  case Nil
  then show ?case by (simp add: ok_simps map_where_def)
next
  case (Cons x xs)
  then obtain u y ys where "supersede_baseline sv b n x s = (Inr y, u)" and rest: "forEach (supersede_baseline sv b n) xs u = (Inr ys, t)"
    by (auto simp: ok_simps)
  then have "project_baselines (db u) = map_where (\<lambda>r. bl_id r = bl_id x) (superseded_at n) (project_baselines (db s))"
    by (auto simp: supersede_baseline_def ok_simps superseded_at_def [abs_def] dest!: appendAudit_frame)
  then show ?case unfolding Cons.IH [OF rest] by (auto simp: map_where_def)
qed

lemma schema_baseline_ids: "schema_ok d \<Longrightarrow> distinct (map bl_id (project_baselines d))"
  by (simp add: schema_ok_def keys_ok_def)

lemma find_baseline_unique:
  "schema_ok d \<Longrightarrow> find_baseline d i = Some b \<Longrightarrow> x \<in> set (project_baselines d) \<Longrightarrow> bl_id x = i \<Longrightarrow> x = b"
  by (auto simp: find_baseline_def dest!: first_where_SomeD schema_baseline_ids dest: distinct_key_eq)

lemma first_where_unique:
  "x \<in> set rs \<Longrightarrow> P x \<Longrightarrow> (\<And>y. y \<in> set rs \<Longrightarrow> P y \<Longrightarrow> y = x) \<Longrightarrow> first_where P rs = Some x"
  by (metis first_where_SomeD first_where_Some_ex)

lemma draft_only_activated: "BS_ACTIVE \<in> set (baselineTransitions b) \<longleftrightarrow> b = BS_DRAFT"
  by (cases b) simp_all

text \<open>The rows after the supersession and the activation, given distinct ids.\<close>

lemma activation_rows:
  assumes ids: "distinct (map bl_id rs)" and b: "b \<in> set rs" "\<not> is_active_of p b"
  shows "map_where (\<lambda>r. bl_id r = bl_id b) (activated_at n)
      (map_where (\<lambda>r. bl_id r \<in> bl_id ` set (filter (is_active_of p) rs)) (superseded_at n) rs) =
    map (\<lambda>r. if bl_id r = bl_id b then activated_at n r else if is_active_of p r then superseded_at n r else r) rs"
proof -
  have key: "bl_id r \<in> bl_id ` set (filter (is_active_of p) rs) \<longleftrightarrow> is_active_of p r" if "r \<in> set rs" for r
    using distinct_key_eq [OF ids that] that by (auto intro: rev_image_eqI)
  have "r = b" if "r \<in> set rs" "bl_id r = bl_id b" for r using distinct_key_eq [OF ids] that b by blast
  with key b show ?thesis unfolding map_where_def map_map by (intro map_cong) auto
qed

lemma activation_unique:
  assumes ids: "distinct (map bl_id rs)" and b: "b \<in> set rs"
    and y: "y \<in> set (map (\<lambda>r. if bl_id r = bl_id b then activated_at n r else if is_active_of p r then superseded_at n r else r) rs)"
      "bl_id y = bl_id b \<or> is_active_of p y"
  shows "y = activated_at n b"
proof -
  from y(1) obtain x where x: "x \<in> set rs"
      "y = (if bl_id x = bl_id b then activated_at n x else if is_active_of p x then superseded_at n x else x)"
    unfolding set_map by (rule imageE)
  then have "bl_id x = bl_id b" using y(2) by (cases "bl_id x = bl_id b"; cases "is_active_of p x") simp_all
  with x distinct_key_eq [OF ids x(1) b] show ?thesis by simp
qed

text \<open>
  Activating a baseline makes it the ACTIVE baseline of its project, supersedes the one
  that was, and leaves every other baseline as it is.
\<close>

theorem activateBaseline_effect:
  assumes "activateBaseline sv i s = (Inr r, t)" and "schema_ok (db s)"
  shows "project_baselines (db t) =
      map (\<lambda>b. if bl_id b = i then activated_at (sv_now sv (nowCalls s)) b
               else if is_active_of (bl_projectId (abr_activated r)) b then superseded_at (sv_now sv (nowCalls s)) b
               else b) (project_baselines (db s))
    \<and> active_baseline (db t) (bl_projectId (abr_activated r)) = Some (abr_activated r)
    \<and> (\<exists>b. find_baseline (db s) i = Some b \<and> bl_status b = BS_DRAFT
           \<and> abr_activated r = activated_at (sv_now sv (nowCalls s)) b)"
proof -
  let ?n = "sv_now sv (nowCalls s)" and ?rs = "project_baselines (db s)"
  obtain b us u rest where b: "find_baseline (db s) i = Some b" "bl_status b = BS_DRAFT"
    and loop: "forEach (supersede_baseline sv b ?n) (filter (is_active_of (bl_projectId b)) ?rs)
        (s\<lparr>tx := Some (db s), nowCalls := nowCalls s + 1\<rparr>) = (Inr us, u)"
    and hit: "map (activated_at ?n) (filter (\<lambda>r. bl_id r = bl_id b) (project_baselines (db u))) = abr_activated r # rest"
    and out: "project_baselines (db t) = map_where (\<lambda>r. bl_id r = bl_id b) (activated_at ?n) (project_baselines (db u))"
    using assms(1) by (auto simp: activateBaseline_def getBaseline_def ok_simps draft_only_activated activated_at_def [abs_def] dest!: appendAudit_frame)
  have mem: "b \<in> set ?rs" "bl_id b = i" using b(1) by (auto simp: find_baseline_def dest: first_where_SomeD)
  let ?g = "\<lambda>p r. if bl_id r = bl_id b then activated_at ?n r else if is_active_of p r then superseded_at ?n r else r"
  have rows: "project_baselines (db t) = map (?g (bl_projectId b)) ?rs"
    using activation_rows [OF schema_baseline_ids [OF assms(2)] mem(1)] b(2) superseded_rows [OF loop]
    by (simp add: out is_active_of_def)
  note unique = activation_unique [OF schema_baseline_ids [OF assms(2)] mem(1), where n = ?n and p = "bl_projectId b", folded rows]
  obtain y where y: "y \<in> set (project_baselines (db u))" "bl_id y = bl_id b" "abr_activated r = activated_at ?n y"
    using arg_cong [OF hit, of set] by auto
  then have "abr_activated r \<in> set (project_baselines (db t))" "bl_id (abr_activated r) = bl_id b"
    unfolding out set_map_where by (auto simp: activated_at_def)
  then have act: "abr_activated r = activated_at ?n b" by (blast intro: unique)
  have "activated_at ?n b \<in> set (project_baselines (db t))"
    unfolding rows set_map using mem(1) by (rule rev_image_eqI) simp
  then have "first_where (is_active_of (bl_projectId b)) (project_baselines (db t)) = Some (activated_at ?n b)"
    by (rule first_where_unique) (auto simp: is_active_of_def activated_at_def intro: unique [unfolded activated_at_def is_active_of_def])
  with rows act b mem show ?thesis by (simp add: active_baseline_def)
qed

definition activated_m :: activate_baseline_result where
  "activated_m = \<lparr>abr_activated = \<lparr>bl_id = ''m'', bl_projectId = ''p'', bl_status = BS_ACTIVE, bl_name = ''M'',
       bl_description = None, bl_repositoryRevisionId = Some ''r'', bl_activatedAt = Some ''n'',
       bl_supersededAt = None, bl_createdAt = ''n'', bl_updatedAt = ''n''\<rparr>,
     abr_superseded = Some \<lparr>bl_id = ''l'', bl_projectId = ''p'', bl_status = BS_SUPERSEDED, bl_name = ''L'',
       bl_description = None, bl_repositoryRevisionId = Some ''r'', bl_activatedAt = Some ''n'',
       bl_supersededAt = Some ''n'', bl_createdAt = ''n'', bl_updatedAt = ''n''\<rparr>\<rparr>"

theorem activateBaseline_effect_witness:
  "map bl_status (project_baselines (db (snd (activateBaseline demo ''m'' (at ready_db))))) = [BS_SUPERSEDED, BS_ACTIVE]"
proof -
  have "fst (activateBaseline demo ''m'' (at ready_db)) = Inr activated_m" by code_simp
  from activateBaseline_effect [OF ok_pair [OF this]] ready_schema show ?thesis
    by (simp add: at_def activated_m_def is_active_of_def activated_at_def superseded_at_def ready_db_def)
qed

section \<open>Published specifications\<close>

text \<open>A loop of inserts appends the rows it returns, one per element.\<close>

lemma forEach_inserts:
  assumes step: "\<And>x s y t. f x s = (Inr y, t) \<Longrightarrow> db t = upd (\<lambda>rs. rs @ [y]) (db s) \<and> Q x y"
    and upd: "\<And>d. upd (\<lambda>rs. rs) d = d" "\<And>g h d. upd g (upd h d) = upd (\<lambda>rs. g (h rs)) d"
  shows "forEach f xs s = (Inr ys, t) \<Longrightarrow> db t = upd (\<lambda>rs. rs @ ys) (db s) \<and> list_all2 Q xs ys"
  by (induction xs arbitrary: s ys) (auto simp: ok_simps upd dest!: step)

definition criterion_of :: "string \<Rightarrow> acceptance_criterion_input \<Rightarrow> acceptance_criterion_row \<Rightarrow> bool" where
  "criterion_of specId c r \<longleftrightarrow> ac_taskSpecVersionId r = specId \<and> ac_position r = aci_position c
     \<and> ac_description r = aci_description c
     \<and> ac_verificationMethod r = default_to (aci_verificationMethod c) MANUAL_REVIEW"

definition target_of :: "string \<Rightarrow> task_target_input \<Rightarrow> task_target_row \<Rightarrow> bool" where
  "target_of specId g r \<longleftrightarrow> tt_taskSpecVersionId r = specId \<and> tt_nodeId r = tti_nodeId g
     \<and> tt_nodeVersionId r = tti_nodeVersionId g \<and> tt_position r = tti_position g"

lemma insert_spec_criteria_ok:
  "forEach (insert_spec_criterion sv spec) cs s = (Inr rs, t) \<Longrightarrow>
     db t = acceptance_criteria_update (\<lambda>xs. xs @ rs) (db s) \<and> list_all2 (criterion_of (ts_id spec)) cs rs"
  by (rule forEach_inserts) (auto simp: insert_spec_criterion_def ok_simps criterion_of_def)

lemma insert_spec_targets_ok:
  "forEach (insert_spec_target sv spec) gs s = (Inr rs, t) \<Longrightarrow>
     db t = task_targets_update (\<lambda>xs. xs @ rs) (db s) \<and> list_all2 (target_of (ts_id spec)) gs rs"
  by (rule forEach_inserts) (auto simp: insert_spec_target_def ok_simps target_of_def)

lemma requireTask_ok [ok_simps]: "requireTask i s = (Inr k, t) \<longleftrightarrow> find_task (db s) i = Some k \<and> t = s"
  by (auto simp: requireTask_def ok_simps)

definition moved_to :: "task_status \<Rightarrow> string \<Rightarrow> task_row \<Rightarrow> task_row" where
  "moved_to to n k = k\<lparr>tk_status := to, tk_updatedAt := n\<rparr>"

lemma transitionTask_okD:
  assumes "transitionTask sv i to n s = (Inr k, t)"
  shows "\<exists>k0. find_task (db s) i = Some k0 \<and>
    (tk_status k0 = to \<and> k = k0 \<and> t = s \<or>
     tk_status k0 \<noteq> to \<and> to \<in> set (taskTransitions (tk_status k0))
     \<and> (\<exists>f. db t = audit_push f (tasks_update (map_where (\<lambda>r. tk_id r = i) (moved_to to n)) (db s))))"
  using assms unfolding transitionTask_def
  by (auto simp: ok_simps moved_to_def [abs_def] dest!: appendAudit_frame split: if_splits sum.splits)

definition task_status_of :: "database \<Rightarrow> string \<Rightarrow> task_status option" where
  "task_status_of d i = map_option tk_status (find_task d i)"

lemma task_status_touched [simp]: "task_status_of (touched_tasks i n d) j = task_status_of d j"
  by (cases "find_task d j")
    (auto simp: task_status_of_def find_task_def touched_tasks_def first_where_map_where simp del: first_where_None)

lemma touched_tasks_frames [simp]:
  "task_spec_versions (touched_tasks i n d) = task_spec_versions d"
  "acceptance_criteria (touched_tasks i n d) = acceptance_criteria d"
  "task_targets (touched_tasks i n d) = task_targets d"
  by (simp_all add: touched_tasks_def)

lemma find_task_frames [simp]:
  "find_task (audit_push f d) = find_task d" "task_status_of (audit_push f d) = task_status_of d"
  "find_task (task_targets_update g1 d) = find_task d"
  "find_task (acceptance_criteria_update g2 d) = find_task d" "find_task (task_spec_versions_update g3 d) = find_task d"
  by (simp_all add: find_task_def task_status_of_def fun_eq_iff)

lemma find_task_moved:
  "find_task d i = Some k \<Longrightarrow>
     find_task (tasks_update (map_where (\<lambda>r. tk_id r = i) (moved_to to n)) d) i = Some (moved_to to n k)"
  by (auto simp: find_task_def first_where_map_where moved_to_def dest: first_where_SomeD simp del: first_where_None)

text \<open>The step of the publication that moves a DRAFT task to READY.\<close>

lemma ready_step:
  assumes "(if tk_status k = TS_DRAFT
            then andThen (now sv) (\<lambda>n. andThen (transitionTask sv i TS_READY n) (\<lambda>_. ret ()))
            else ret ()) s = (Inr x, t)" and "find_task (db s) i = Some k"
  shows "task_spec_versions (db t) = task_spec_versions (db s) \<and> acceptance_criteria (db t) = acceptance_criteria (db s)
    \<and> task_targets (db t) = task_targets (db s)
    \<and> task_status_of (db t) i = Some (if tk_status k = TS_DRAFT then TS_READY else tk_status k)"
  using assms by (auto simp: ok_simps task_status_of_def find_task_moved moved_to_def split: if_splits dest!: transitionTask_okD)

text \<open>
  Publishing a specification appends it with the next number of its task, one criterion
  row per given criterion and one target row per given target, and a DRAFT task becomes
  READY; it succeeds only with at least one criterion and on a task that has not ended.
\<close>

theorem publishTaskSpecVersion_effect:
  assumes "publishTaskSpecVersion sv inp s = (Inr r, t)" and "numbering_ok (db s)"
  shows "task_spec_versions (db t) = task_spec_versions (db s) @ [psr_spec r]
    \<and> ts_sequence (psr_spec r) = 1 + int (length (filter (\<lambda>v. ts_taskId v = pts_taskId inp) (task_spec_versions (db s))))
    \<and> ts_contentHash (psr_spec r) = spec_content_hash sv inp
    \<and> acceptance_criteria (db t) = acceptance_criteria (db s) @ psr_criteria r
    \<and> list_all2 (criterion_of (pts_id inp)) (pts_criteria inp) (psr_criteria r)
    \<and> (\<exists>gs. task_targets (db t) = task_targets (db s) @ gs
           \<and> list_all2 (target_of (pts_id inp)) (default_to (pts_targets inp) []) gs)
    \<and> pts_criteria inp \<noteq> []
    \<and> task_status_of (db s) (pts_taskId inp) \<notin> {None, Some TS_COMPLETED, Some TS_CANCELLED, Some TS_ARCHIVED}
    \<and> task_status_of (db t) (pts_taskId inp) =
        map_option (\<lambda>st. if st = TS_DRAFT then TS_READY else st) (task_status_of (db s) (pts_taskId inp))"
proof -
  have "numbered_from 1 ts_sequence (filter (\<lambda>v. ts_taskId v = pts_taskId inp) (task_spec_versions (db s)))"
    using assms(2) by (simp add: numbering_ok_def numbered_by_def)
  then have seq: "next_number 0 ts_sequence (filter (\<lambda>v. ts_taskId v = pts_taskId inp) (task_spec_versions (db s)))
      = 1 + int (length (filter (\<lambda>v. ts_taskId v = pts_taskId inp) (task_spec_versions (db s))))"
    using next_number_numbered [of 0] by simp
  from assms(1) show ?thesis
    unfolding publishTaskSpecVersion_def
    apply (simp only: ok_simps simp_thms)
    apply (elim exE conjE)
    apply hypsubst
    apply (drule check_targets_read [THEN read_okD])
    apply (drule insert_spec_criteria_ok insert_spec_targets_ok)+
    apply (drule appendAudit_frame)
    apply (drule ready_step)
     apply simp
    using seq by (clarsimp simp add: task_status_of_def [of "db s"] simp del: first_Some_None first_where_None)
qed

definition draft_db :: database where
  "draft_db = ready_db\<lparr>tasks := [demo_task TS_DRAFT]\<rparr>"

definition second_spec :: publish_task_spec_input where
  "second_spec = \<lparr>pts_id = ''s2'', pts_taskId = ''t'', pts_description = ''D'', pts_scope = ''S'', pts_targets = None,
     pts_criteria = [\<lparr>aci_description = ''C'', aci_verificationMethod = None, aci_position = 0\<rparr>]\<rparr>"

definition second_spec_result :: publish_task_spec_result where
  "second_spec_result = \<lparr>psr_spec = \<lparr>ts_id = ''s2'', ts_taskId = ''t'', ts_sequence = 2, ts_description = ''D'',
       ts_scope = ''S'', ts_contentHash = ''h'', ts_createdAt = ''n''\<rparr>,
     psr_criteria = [\<lparr>ac_id = ''0'', ac_taskSpecVersionId = ''s2'', ac_position = 0, ac_description = ''C'',
       ac_verificationMethod = MANUAL_REVIEW\<rparr>]\<rparr>"

lemma draft_numbering: "numbering_ok draft_db"
  by (auto simp: numbering_ok_def numbered_by_def draft_db_def demo_db_defs numbered_from_def)

theorem publishTaskSpecVersion_effect_witness:
  "task_status_of (db (snd (publishTaskSpecVersion demo second_spec (at draft_db)))) ''t'' = Some TS_READY"
proof -
  have "fst (publishTaskSpecVersion demo second_spec (at draft_db)) = Inr second_spec_result" by code_simp
  moreover have "task_status_of draft_db ''t'' = Some TS_DRAFT"
    by (simp add: task_status_of_def find_task_def draft_db_def demo_task_def first_where_def)
  ultimately show ?thesis
    using publishTaskSpecVersion_effect [OF ok_pair, of demo second_spec "at draft_db" second_spec_result] draft_numbering
    by (simp add: at_def second_spec_def)
qed

end
