(* ===== verification/Execution_Behaviour.thy ===== *)
theory Execution_Behaviour
  imports Planning_Behaviour
begin

text \<open>
  What the commands that judge a run do: acceptance evaluations and the completion of
  tasks.
\<close>

section \<open>Acceptance evaluations\<close>

definition verdict_of :: "string \<Rightarrow> criterion_verdict_input \<Rightarrow> acceptance_evaluation_item_row \<Rightarrow> bool" where
  "verdict_of evaluationId v r \<longleftrightarrow> ai_evaluationId r = evaluationId \<and> ai_criterionId r = cvi_criterionId v
     \<and> ai_verdict r = cvi_verdict v \<and> ai_note r = cvi_note v"

lemma criteria_by_id_key: "criteria_by_id cs i = Some c \<Longrightarrow> ac_id c = i"
  unfolding criteria_by_id_def by (auto dest!: map_of_SomeD)

lemma criteria_by_id_dom: "criteria_by_id cs i \<noteq> None \<longleftrightarrow> i \<in> ac_id ` set cs"
  unfolding criteria_by_id_def by (simp add: map_of_eq_None_iff image_image)

lemma insert_verdicts_ok:
  "forEach (insert_verdict sv (criteria_by_id cs) e) vs s = (Inr rs, t) \<Longrightarrow>
     db t = acceptance_evaluation_items_update (\<lambda>xs. xs @ rs) (db s) \<and> list_all2 (verdict_of (ae_id e)) vs rs"
  by (rule forEach_inserts) (auto simp: insert_verdict_def ok_simps verdict_of_def dest: criteria_by_id_key)

lemma check_submitted_ok:
  "check_submitted sp byId seen vs s = (Inr r, t) \<Longrightarrow>
     t = s \<and> distinct (map cvi_criterionId vs) \<and> set (map cvi_criterionId vs) \<inter> seen = {}
     \<and> (\<forall>v\<in>set vs. byId (cvi_criterionId v) \<noteq> None)"
  by (induction vs arbitrary: seen s) (force simp: ok_simps)+

lemma submitted_covers:
  assumes "check_submitted sp (criteria_by_id cs) {} vs s = (Inr r, t)" and "length cs = length vs"
  shows "t = s \<and> distinct (map cvi_criterionId vs) \<and> cvi_criterionId ` set vs = ac_id ` set cs"
proof -
  from check_submitted_ok [OF assms(1)] have *: "t = s" "distinct (map cvi_criterionId vs)"
      "cvi_criterionId ` set vs \<subseteq> ac_id ` set cs"
    by (auto simp: criteria_by_id_dom [symmetric])
  moreover have "card (ac_id ` set cs) \<le> card (cvi_criterionId ` set vs)"
    using assms(2) *(2) card_image_le [of "set cs" ac_id] card_length [of cs]
    by (metis distinct_card finite_set length_map list.set_map nle_le order_trans)
  ultimately show ?thesis by (metis card_seteq finite_imageI finite_set)
qed

lemma transitionTask_status:
  assumes "transitionTask sv i to n s = (Inr k, t)"
  shows "task_status_of (db t) i = Some to"
    and "acceptance_evaluations (db t) = acceptance_evaluations (db s)"
    and "acceptance_evaluation_items (db t) = acceptance_evaluation_items (db s)"
    and "\<exists>st. task_status_of (db s) i = Some st \<and> (st = to \<or> to \<in> set (taskTransitions st))"
  using transitionTask_okD [OF assms]
  by (auto simp: task_status_of_def find_task_moved moved_to_def)

lemma spec_criteria_set: "set (spec_criteria d i) = {r \<in> set (acceptance_criteria d). ac_taskSpecVersionId r = i}"
  by (auto simp: spec_criteria_def)

text \<open>
  C21. An evaluation is PASSED exactly if every submitted verdict is, the submitted criteria
  are exactly those of the specification, each once, and are recorded one item per verdict;
  the task then waits for review.
\<close>

theorem createAcceptanceEvaluation_effect:
  assumes "createAcceptanceEvaluation sv inp s = (Inr r, t)"
  shows "acceptance_evaluations (db t) = acceptance_evaluations (db s) @ [eva_evaluation r]
    \<and> (ae_status (eva_evaluation r) = AS_PASSED \<longleftrightarrow> (\<forall>v\<in>set (cae_criteria inp). cvi_verdict v = CV_PASSED))
    \<and> acceptance_evaluation_items (db t) = acceptance_evaluation_items (db s) @ eva_items r
    \<and> list_all2 (verdict_of (ae_id (eva_evaluation r))) (cae_criteria inp) (eva_items r)
    \<and> distinct (map cvi_criterionId (cae_criteria inp))
    \<and> set (map cvi_criterionId (cae_criteria inp)) = ac_id ` set (spec_criteria (db s) (cae_taskSpecVersionId inp))
    \<and> task_status_of (db t) (cae_taskId inp) = Some TS_WAITING_REVIEW"
  using assms unfolding createAcceptanceEvaluation_def Let_def listCriteria_def
  apply (simp only: ok_simps simp_thms)
  apply (elim exE conjE)
  apply hypsubst
  apply (drule check_scope_ok insert_verdicts_ok)+
  apply (drule (1) submitted_covers)
  apply (drule appendAudit_frame)
  apply (frule transitionTask_status(1))
  apply (frule transitionTask_status(2))
  apply (drule transitionTask_status(3))
  by (clarsimp simp: all_passed_def simp del: first_Some_None first_where_None)


lemma completed_from_review: "TS_COMPLETED \<in> set (taskTransitions st) \<longleftrightarrow> st = TS_WAITING_REVIEW"
  by (cases st) simp_all

text \<open>
  Completing a task succeeds only with the latest evaluation of the task, PASSED, about
  its latest specification and a FINISHED run of both, and only from WAITING_REVIEW (or
  again on a COMPLETED task); the task is then COMPLETED.
\<close>

theorem completeTask_effect:
  assumes "completeTask sv i e s = (Inr k, t)"
  shows "task_status_of (db t) i = Some TS_COMPLETED
    \<and> task_status_of (db s) i \<in> {Some TS_WAITING_REVIEW, Some TS_COMPLETED}
    \<and> (\<exists>ev l sp q. find_evaluation (db s) e = Some ev \<and> ae_taskId ev = i \<and> ae_status ev = AS_PASSED
        \<and> latest_evaluation (db s) i = Some l \<and> ae_id l = ae_id ev
        \<and> latest_spec (db s) i = Some sp \<and> ts_id sp = ae_taskSpecVersionId ev
        \<and> find_run (db s) (ae_runId ev) = Some q \<and> rn_status q = RS_FINISHED \<and> rn_taskId q = i
        \<and> rn_taskSpecVersionId q = ts_id sp)"
  using assms unfolding completeTask_def read_defs latest_spec_def
  apply (simp only: ok_simps simp_thms)
  apply (elim exE conjE)
  apply hypsubst
  apply (frule transitionTask_status(1))
  apply (drule transitionTask_status(4))
  by (clarsimp simp: completed_from_review split: option.splits)

definition passed_review :: create_evaluation_input where
  "passed_review = \<lparr>cae_projectId = ''p'', cae_taskId = ''t'', cae_taskSpecVersionId = ''s'', cae_runId = ''u'',
     cae_criteria = [\<lparr>cvi_criterionId = ''k'', cvi_verdict = CV_PASSED, cvi_note = None\<rparr>]\<rparr>"

definition passed_aggregate :: evaluation_aggregate where
  "passed_aggregate = \<lparr>eva_evaluation = \<lparr>ae_id = ''0'', ae_projectId = ''p'', ae_taskId = ''t'',
       ae_taskSpecVersionId = ''s'', ae_runId = ''u'', ae_sequence = 0, ae_status = AS_PASSED, ae_createdAt = ''n''\<rparr>,
     eva_items = [\<lparr>ai_id = ''1'', ai_evaluationId = ''0'', ai_criterionId = ''k'', ai_verdict = CV_PASSED,
       ai_note = None, ai_position = 0\<rparr>]\<rparr>"

theorem createAcceptanceEvaluation_effect_witness:
  "task_status_of (db (snd (createAcceptanceEvaluation demo passed_review (at finished_db)))) ''t'' = Some TS_WAITING_REVIEW
   \<and> acceptance_evaluations (db (snd (createAcceptanceEvaluation demo passed_review (at finished_db)))) =
       [eva_evaluation passed_aggregate]"
proof -
  have "fst (createAcceptanceEvaluation demo passed_review (at finished_db)) = Inr passed_aggregate" by code_simp
  from createAcceptanceEvaluation_effect [OF ok_pair [OF this]] show ?thesis
    by (simp add: at_def passed_review_def demo_db_defs)
qed

theorem completeTask_effect_witness:
  "task_status_of (db (snd (completeTask demo ''t'' ''e'' (at reviewed_db)))) ''t'' = Some TS_COMPLETED"
proof -
  have "fst (completeTask demo ''t'' ''e'' (at reviewed_db)) = Inr (demo_task TS_COMPLETED)" by code_simp
  from completeTask_effect [OF ok_pair [OF this]] show ?thesis by simp
qed

end
