(* ===== verification/Runtime_Prelude.thy ===== *)
theory Runtime_Prelude
  imports Json "HOL-Library.AList" "HOL-Library.Multiset"
begin

text \<open>
  Shared material of the context runtime (\<open>packages/context-runtime\<close>): JavaScript numbers
  with the values that are not finite, \<open>Array.prototype.sort\<close> with a comparison function,
  \<open>Map\<close> as an association list in insertion order, \<open>Set\<close> as a list without repetitions,
  thrown errors as the left values of a sum.

  Two functions from outside the repository are parameters, collected in the record
  \<open>runtime\<close>: the digest \<open>createHash('sha256')\<close> of Node and \<open>String.prototype.localeCompare\<close>,
  whose order depends on the locale of the process. All that is assumed of the comparison,
  where it is assumed at all, is that it is consistent (\<open>consistent\<close>), as ECMA-402
  demands of it.
\<close>

named_theorems try_defs \<open>definitions of the error-passing operations\<close>
named_theorems try_simps \<open>inversion of steps that returned\<close>

section \<open>Numbers\<close>

text \<open>
  Timestamps and budgets are checked with \<open>Number.isFinite\<close>; a finite one is an integer
  (milliseconds, tokens).
\<close>

datatype number = Finite int | PosInfinity | NegInfinity | NaN

fun isFinite :: "number \<Rightarrow> bool" where
  "isFinite (Finite i) = True"
| "isFinite PosInfinity = False"
| "isFinite NegInfinity = False"
| "isFinite NaN = False"

text \<open>\<open>a < b\<close>: false as soon as one of the two is \<open>NaN\<close>.\<close>

fun num_less :: "number \<Rightarrow> number \<Rightarrow> bool" where
  "num_less (Finite a) (Finite b) = (a < b)"
| "num_less NaN b = False"
| "num_less a NaN = False"
| "num_less PosInfinity b = False"
| "num_less a NegInfinity = False"
| "num_less NegInfinity b = True"
| "num_less a PosInfinity = True"

fun num_max :: "number \<Rightarrow> number \<Rightarrow> number" where
  "num_max NaN b = NaN"
| "num_max a NaN = NaN"
| "num_max a b = (if num_less a b then b else a)"

fun num_str :: "number \<Rightarrow> string" where
  "num_str (Finite i) = int_digits i"
| "num_str PosInfinity = ''Infinity''"
| "num_str NegInfinity = ''-Infinity''"
| "num_str NaN = ''NaN''"

definition bool_str :: "bool \<Rightarrow> string" where
  "bool_str b = (if b then ''true'' else ''false'')"

lemma isFinite_iff: "isFinite x \<longleftrightarrow> (\<exists>i. x = Finite i)"
  by (cases x) auto

lemma num_max_finite [simp]: "isFinite a \<Longrightarrow> isFinite b \<Longrightarrow> isFinite (num_max a b)"
  by (cases a; cases b) auto

section \<open>What is outside the repository\<close>

record runtime =
  rt_sha256Hex :: "string \<Rightarrow> string"
  rt_localeCompare :: "string \<Rightarrow> string \<Rightarrow> int"

text \<open>The separator U+241F in UTF-8.\<close>

definition unit_separator :: string where
  "unit_separator = [CHR 0xE2, CHR 0x90, CHR 0x9F]"

definition bar :: string where
  "bar = ''|''"

text \<open>A consistent comparison function: a total preorder by the sign of its result.\<close>

definition consistent :: "('a \<Rightarrow> 'a \<Rightarrow> int) \<Rightarrow> bool" where
  "consistent cmp \<longleftrightarrow>
     (\<forall>a b. cmp a b \<le> 0 \<longleftrightarrow> 0 \<le> cmp b a) \<and> (\<forall>a b c. cmp a b \<le> 0 \<longrightarrow> cmp b c \<le> 0 \<longrightarrow> cmp a c \<le> 0)"

lemma consistent_total: "consistent cmp \<Longrightarrow> cmp a b \<le> 0 \<or> cmp b a \<le> 0"
  unfolding consistent_def by (meson linear)

lemma consistent_trans: "consistent cmp \<Longrightarrow> cmp a b \<le> 0 \<Longrightarrow> cmp b c \<le> 0 \<Longrightarrow> cmp a c \<le> 0"
  unfolding consistent_def by blast

lemma consistent_key: "consistent cmp \<Longrightarrow> consistent (\<lambda>a b. cmp (k a) (k b))"
  unfolding consistent_def by blast

section \<open>Sorting\<close>

text \<open>\<open>xs.sort(cmp)\<close>: a stable sort.\<close>

fun insert_by :: "('a \<Rightarrow> 'a \<Rightarrow> int) \<Rightarrow> 'a \<Rightarrow> 'a list \<Rightarrow> 'a list" where
  "insert_by cmp x [] = [x]"
| "insert_by cmp x (y # ys) = (if cmp x y \<le> 0 then x # y # ys else y # insert_by cmp x ys)"

definition sort_by :: "('a \<Rightarrow> 'a \<Rightarrow> int) \<Rightarrow> 'a list \<Rightarrow> 'a list" where
  "sort_by cmp xs = foldr (insert_by cmp) xs []"

lemma sort_by_simps [simp]: "sort_by cmp [] = []" "sort_by cmp (x # xs) = insert_by cmp x (sort_by cmp xs)"
  by (simp_all add: sort_by_def)

lemma mset_insert_by: "mset (insert_by cmp x xs) = add_mset x (mset xs)"
  by (induction xs) auto

lemma mset_sort_by [simp]: "mset (sort_by cmp xs) = mset xs"
  by (induction xs) (simp_all add: mset_insert_by)

lemma set_sort_by [simp]: "set (sort_by cmp xs) = set xs"
  by (metis mset_sort_by set_mset_mset)

lemma length_sort_by [simp]: "length (sort_by cmp xs) = length xs"
  by (metis mset_sort_by size_mset)

lemma distinct_map_sort_by [simp]: "distinct (map k (sort_by cmp xs)) = distinct (map k xs)"
  by (metis mset_map mset_eq_imp_distinct_iff mset_sort_by)

definition sorted_by :: "('a \<Rightarrow> 'a \<Rightarrow> int) \<Rightarrow> 'a list \<Rightarrow> bool" where
  "sorted_by cmp = sorted_wrt (\<lambda>a b. cmp a b \<le> 0)"

lemma sorted_insert_by:
  "consistent cmp \<Longrightarrow> sorted_by cmp xs \<Longrightarrow> sorted_by cmp (insert_by cmp x xs)"
  unfolding sorted_by_def
proof (induction xs)
  case (Cons y ys)
  have "set (insert_by cmp x ys) = insert x (set ys)" by (metis mset_insert_by set_mset_add_mset_insert set_mset_mset)
  with Cons show ?case using consistent_total [OF Cons.prems(1), of x y] consistent_trans [OF Cons.prems(1)]
    by auto
qed simp

lemma sorted_sort_by: "consistent cmp \<Longrightarrow> sorted_by cmp (sort_by cmp xs)"
  by (induction xs) (simp_all add: sorted_insert_by, simp add: sorted_by_def)

lemma sort_by_sorted: "sorted_by cmp xs \<Longrightarrow> sort_by cmp xs = xs"
  unfolding sorted_by_def by (induction xs) (auto simp: neq_Nil_conv intro!: insert_by.simps split: list.splits,
    metis insert_by.simps list.exhaust list.set_intros(1))

lemma sort_by_idem: "consistent cmp \<Longrightarrow> sort_by cmp (sort_by cmp xs) = sort_by cmp xs"
  by (simp add: sort_by_sorted sorted_sort_by)

text \<open>
  \<open>xs.sort()\<close> on strings orders by UTF-16 code units. In UTF-8 that is the lexicographic
  order of the bytes, but with the lead bytes of U+E000 .. U+FFFF after those of the code
  points that need a surrogate pair.
\<close>

definition code_unit_key :: "string \<Rightarrow> nat list" where
  "code_unit_key s =
     map (\<lambda>c. let b = of_char c in if b = 0xEE \<or> b = 0xEF then b + 16 else b) s"

definition sort_strings :: "string list \<Rightarrow> string list" where
  "sort_strings xs = order_by code_unit_key xs"

section \<open>Maps and sets\<close>

text \<open>\<open>new Map(pairs)\<close>: a later pair with the same key overwrites the value, in the old place.\<close>

definition new_Map :: "('k \<times> 'v) list \<Rightarrow> ('k \<times> 'v) list" where
  "new_Map kvs = foldl (\<lambda>m (k, v). AList.update k v m) [] kvs"

abbreviation map_values :: "('k \<times> 'v) list \<Rightarrow> 'v list" where
  "map_values m \<equiv> map snd m"

text \<open>\<open>[...new Set(xs)]\<close>\<close>

fun new_Set :: "'a list \<Rightarrow> 'a list" where
  "new_Set [] = []"
| "new_Set (x # xs) = x # filter (\<lambda>y. y \<noteq> x) (new_Set xs)"

lemma set_new_Set [simp]: "set (new_Set xs) = set xs"
  by (induction xs) auto

lemma distinct_new_Set [simp]: "distinct (new_Set xs)"
  by (induction xs) auto

lemma new_Set_distinct: "distinct xs \<Longrightarrow> new_Set xs = xs"
  by (induction xs) (auto simp: filter_id_conv)

lemma update_new [simp]: "k \<notin> fst ` set m \<Longrightarrow> AList.update k v m = m @ [(k, v)]"
  by (induction m) auto

lemma new_Map_append: "foldl (\<lambda>m (k, v). AList.update k v m) m kvs = m @ kvs"
  if "distinct (map fst (m @ kvs))"
  using that by (induction kvs arbitrary: m) (auto simp: image_iff)

lemma new_Map_distinct: "distinct (map fst kvs) \<Longrightarrow> new_Map kvs = kvs"
  unfolding new_Map_def using new_Map_append [of "[]"] by simp

lemma in_update: "(j, w) \<in> set (AList.update i v m) \<Longrightarrow> (j, w) = (i, v) \<or> (j, w) \<in> set m"
  by (induction m) (auto split: if_splits)

lemma new_Map_keys: "fst ` set (new_Map kvs) = fst ` set kvs"
proof -
  have "fst ` set (foldl (\<lambda>m (k, v). AList.update k v m) m kvs) = fst ` set m \<union> fst ` set kvs" for m
    by (induction kvs arbitrary: m) (auto simp: case_prod_beta dom_update)
  then show ?thesis by (simp add: new_Map_def)
qed

section \<open>Errors\<close>

datatype runtime_error = RuntimeError string | PlanningConflictError string "string list"

type_synonym 'a outcome = "runtime_error + 'a"

definition fail :: "string \<Rightarrow> 'a outcome" where
  [try_defs]: "fail msg = Inl (RuntimeError msg)"

definition try_then :: "'a outcome \<Rightarrow> ('a \<Rightarrow> 'b outcome) \<Rightarrow> 'b outcome" where
  [try_defs]: "try_then m f = (case m of Inl e \<Rightarrow> Inl e | Inr x \<Rightarrow> f x)"

definition fail_if :: "bool \<Rightarrow> string \<Rightarrow> unit outcome" where
  [try_defs]: "fail_if b msg = (if b then fail msg else Inr ())"

fun for_each :: "('s \<Rightarrow> 'a \<Rightarrow> 's outcome) \<Rightarrow> 's \<Rightarrow> 'a list \<Rightarrow> 's outcome" where
  "for_each f s [] = Inr s"
| "for_each f s (x # xs) = try_then (f s x) (\<lambda>t. for_each f t xs)"

lemma try_then_ok [try_simps]: "try_then m f = Inr y \<longleftrightarrow> (\<exists>x. m = Inr x \<and> f x = Inr y)"
  by (cases m) (simp_all add: try_then_def)

lemma fail_ok [try_simps]: "fail msg = Inr y \<longleftrightarrow> False"
  by (simp add: fail_def)

lemma fail_if_ok [try_simps]: "fail_if b msg = Inr y \<longleftrightarrow> \<not> b"
  by (simp add: fail_if_def fail_def)

lemma try_then_Inr [simp]: "try_then (Inr x) f = f x"
  by (simp add: try_then_def)

lemma fail_if_False [simp]: "fail_if False msg = Inr ()"
  by (simp add: fail_if_def)

lemma for_each_append: "for_each f s (xs @ ys) = try_then (for_each f s xs) (\<lambda>t. for_each f t ys)"
  by (induction xs arbitrary: s) (auto simp: try_then_def split: sum.split)

text \<open>A loop invariant, and a loop that cannot fail.\<close>

lemma for_each_invariant:
  assumes "for_each f s xs = Inr t" and "P s" and "\<And>s x t. P s \<Longrightarrow> x \<in> set xs \<Longrightarrow> f s x = Inr t \<Longrightarrow> P t"
  shows "P t"
  using assms
proof (induction xs arbitrary: s)
  case (Cons x xs)
  from Cons.prems(1) obtain u where "f s x = Inr u" "for_each f u xs = Inr t" by (auto simp: try_simps)
  with Cons.prems(2,3) show ?case by (auto intro: Cons.IH)
qed simp

section \<open>Stored forms\<close>

text \<open>
  The contract of the functions that store a value and read it back: a value that was made by
  the code is read back as it was. A stored form then determines its value.
\<close>

locale stored_form =
  fixes store :: "'a \<Rightarrow> 's" and restore :: "'s \<Rightarrow> 'a outcome" and made :: "'a \<Rightarrow> bool"
  assumes restore_store: "made x \<Longrightarrow> restore (store x) = Inr x"
begin

lemma store_determines: "made x \<Longrightarrow> made y \<Longrightarrow> store x = store y \<longleftrightarrow> x = y"
  using restore_store by (metis sum.inject(2))

lemma restore_unique: "made x \<Longrightarrow> restore (store x) = Inr y \<Longrightarrow> y = x"
  by (simp add: restore_store)

end

end
