(* ===== verification/Universe_Revision.thy ===== *)
theory Universe_Revision
  imports Runtime_Prelude
begin

text \<open>
  The context universe as a chain of immutable revisions (\<open>universe/revision.ts\<close>): which
  version of each source was observed, admitted and last good, how a batch of observations
  makes the next revision, and the stored form of a revision.
\<close>

datatype universe_observation_state = US_PRESENT | US_ABSENT | US_UNAVAILABLE

fun universe_state_str :: "universe_observation_state \<Rightarrow> string" where
  "universe_state_str US_PRESENT = ''PRESENT''"
| "universe_state_str US_ABSENT = ''ABSENT''"
| "universe_state_str US_UNAVAILABLE = ''UNAVAILABLE''"

record universe_version =
  uv_versionId :: string
  uv_sourceId :: string
  uv_contentHash :: string
  uv_providerVersion :: "string option"
  uv_observedAt :: number

record universe_entry =
  ue_sourceId :: string
  ue_observationState :: universe_observation_state
  ue_observedVersionId :: "string option"
  ue_admittedVersionId :: "string option"
  ue_lastGoodVersionId :: "string option"
  ue_providerVersion :: "string option"
  ue_contentHash :: "string option"
  ue_lastObservedAt :: number

datatype universe_observation =
  PresentObservation (uo_sourceId: string) string "string option" (uo_observedAt: number)
| AbsentObservation (uo_sourceId: string) (uo_observedAt: number)
| UnavailableObservation (uo_sourceId: string) string (uo_observedAt: number)

datatype universe_action = UA_INITIALIZE | UA_NO_CHANGE | UA_UPDATE | UA_UNAVAILABLE | UA_RECOVER | UA_ABSENT

fun universe_action_str :: "universe_action \<Rightarrow> string" where
  "universe_action_str UA_INITIALIZE = ''INITIALIZE''"
| "universe_action_str UA_NO_CHANGE = ''NO_CHANGE''"
| "universe_action_str UA_UPDATE = ''UPDATE''"
| "universe_action_str UA_UNAVAILABLE = ''UNAVAILABLE''"
| "universe_action_str UA_RECOVER = ''RECOVER''"
| "universe_action_str UA_ABSENT = ''ABSENT''"

record universe_event =
  uw_sourceId :: string
  uw_action :: universe_action
  uw_previousState :: "universe_observation_state option"
  uw_previousVersionId :: "string option"
  uw_nextObservedVersionId :: "string option"
  uw_nextAdmittedVersionId :: "string option"
  uw_observedAt :: number
  uw_providerVersionChanged :: bool
  uw_contentHashChanged :: bool
  uw_reason :: "string option"

record universe_revision =
  ur_revisionId :: string
  ur_parentRevisionId :: "string option"
  ur_entries :: "(string \<times> universe_entry) list"
  ur_versions :: "(string \<times> universe_version) list"
  ur_reconciliationEvents :: "universe_event list"
  ur_createdAt :: number
  ur_logicalHash :: string

definition readonlyMap :: "('k \<times> 'v) list \<Rightarrow> ('k \<times> 'v) list" where
  "readonlyMap values = new_Map values"

section \<open>Copies and canonical texts\<close>

definition freezeVersion :: "universe_version \<Rightarrow> universe_version" where
  "freezeVersion version =
     \<lparr>uv_versionId = uv_versionId version, uv_sourceId = uv_sourceId version,
      uv_contentHash = uv_contentHash version, uv_providerVersion = uv_providerVersion version,
      uv_observedAt = uv_observedAt version\<rparr>"

definition freezeEntry :: "universe_entry \<Rightarrow> universe_entry" where
  "freezeEntry entry =
     \<lparr>ue_sourceId = ue_sourceId entry, ue_observationState = ue_observationState entry,
      ue_observedVersionId = ue_observedVersionId entry, ue_admittedVersionId = ue_admittedVersionId entry,
      ue_lastGoodVersionId = ue_lastGoodVersionId entry, ue_providerVersion = ue_providerVersion entry,
      ue_contentHash = ue_contentHash entry, ue_lastObservedAt = ue_lastObservedAt entry\<rparr>"

definition canonicalVersion :: "universe_version \<Rightarrow> string" where
  "canonicalVersion version =
     join bar [uv_versionId version, uv_sourceId version, uv_contentHash version,
       default_to (uv_providerVersion version) ''-'', num_str (uv_observedAt version)]"

definition canonicalEntry :: "universe_entry \<Rightarrow> string" where
  "canonicalEntry entry =
     join bar [ue_sourceId entry, universe_state_str (ue_observationState entry),
       default_to (ue_observedVersionId entry) ''-'', default_to (ue_admittedVersionId entry) ''-'',
       default_to (ue_lastGoodVersionId entry) ''-'', default_to (ue_providerVersion entry) ''-'',
       default_to (ue_contentHash entry) ''-'', num_str (ue_lastObservedAt entry)]"

definition canonicalEvent :: "universe_event \<Rightarrow> string" where
  "canonicalEvent event =
     join bar [uw_sourceId event, universe_action_str (uw_action event),
       default_to (map_option universe_state_str (uw_previousState event)) ''-'',
       default_to (uw_previousVersionId event) ''-'', default_to (uw_nextObservedVersionId event) ''-'',
       default_to (uw_nextAdmittedVersionId event) ''-'', num_str (uw_observedAt event),
       bool_str (uw_providerVersionChanged event), bool_str (uw_contentHashChanged event),
       default_to (uw_reason event) ''-'']"

definition assertFiniteTimestamp :: "number \<Rightarrow> string \<Rightarrow> unit outcome" where
  "assertFiniteTimestamp value label = fail_if (\<not> isFinite value) (label @ '' must be a finite number'')"

definition check_reference ::
  "universe_entry \<Rightarrow> (string \<times> universe_version) list \<Rightarrow> string option \<Rightarrow> unit outcome" where
  "check_reference entry versions versionId =
     (case versionId of None \<Rightarrow> Inr ()
      | Some v \<Rightarrow> (case map_of versions v of
          None \<Rightarrow> fail (''UniverseEntry '' @ ue_sourceId entry @ '' references unknown version '' @ v)
        | Some version \<Rightarrow> fail_if (uv_sourceId version \<noteq> ue_sourceId entry)
            (''version '' @ v @ '' belongs to '' @ uv_sourceId version @ '', not '' @ ue_sourceId entry)))"

definition assertEntryInvariant ::
  "universe_entry \<Rightarrow> (string \<times> universe_version) list \<Rightarrow> unit outcome" where
  "assertEntryInvariant entry versions =
     try_then (fail_if (ue_sourceId entry = []) ''UniverseEntry.sourceId must not be empty'') (\<lambda>_.
     try_then (assertFiniteTimestamp (ue_lastObservedAt entry) ''UniverseEntry.lastObservedAt'') (\<lambda>_.
     try_then (fail_if (ue_observationState entry = US_PRESENT \<and> ue_observedVersionId entry = None)
       (''PRESENT source '' @ ue_sourceId entry @ '' must have observedVersionId'')) (\<lambda>_.
     try_then (fail_if (ue_observationState entry = US_ABSENT \<and> ue_observedVersionId entry \<noteq> None)
       (''ABSENT source '' @ ue_sourceId entry @ '' cannot have observedVersionId'')) (\<lambda>_.
     try_then (fail_if (ue_observationState entry = US_ABSENT \<and> ue_admittedVersionId entry \<noteq> None)
       (''ABSENT source '' @ ue_sourceId entry @ '' cannot have admittedVersionId'')) (\<lambda>_.
     try_then (fail_if (ue_observationState entry = US_PRESENT \<and> ue_admittedVersionId entry = None)
       (''PRESENT source '' @ ue_sourceId entry @ '' must have admittedVersionId'')) (\<lambda>_.
     try_then (fail_if (ue_admittedVersionId entry \<noteq> None \<and> ue_lastGoodVersionId entry \<noteq> ue_admittedVersionId entry)
       (''admittedVersionId must equal lastGoodVersionId for '' @ ue_sourceId entry)) (\<lambda>_.
     for_each (\<lambda>_. check_reference entry versions) ()
       [ue_observedVersionId entry, ue_admittedVersionId entry, ue_lastGoodVersionId entry])))))))"

definition createContextVersionId :: "runtime \<Rightarrow> string \<Rightarrow> string \<Rightarrow> string" where
  "createContextVersionId rt sourceId contentHash =
     rt_sha256Hex rt (''context-version-v1|'' @ sourceId @ ''|'' @ contentHash)"

section \<open>Construction\<close>

definition by_locale :: "runtime \<Rightarrow> ('a \<Rightarrow> string) \<Rightarrow> 'a \<Rightarrow> 'a \<Rightarrow> int" where
  "by_locale rt k a b = rt_localeCompare rt (k a) (k b)"

definition revision_text ::
  "string option \<Rightarrow> number \<Rightarrow> universe_entry list \<Rightarrow> universe_version list \<Rightarrow> universe_event list \<Rightarrow> string" where
  "revision_text parentRevisionId createdAt entries versions events =
     join unit_separator
       ([''universe-revision-v1'', default_to parentRevisionId ''-'', num_str createdAt]
        @ map canonicalEntry entries @ map canonicalVersion versions @ map canonicalEvent events)"

definition createUniverseRevision ::
  "runtime \<Rightarrow> string option \<Rightarrow> universe_entry list \<Rightarrow> universe_version list \<Rightarrow> universe_event list \<Rightarrow> number
   \<Rightarrow> string option \<Rightarrow> universe_revision outcome" where
  "createUniverseRevision rt parentRevisionId entryValues versionValues events createdAt revisionId =
     try_then (assertFiniteTimestamp createdAt ''UniverseRevision.createdAt'') (\<lambda>_.
     (let normalizedEntries = sort_by (by_locale rt ue_sourceId) (map freezeEntry entryValues);
          normalizedVersions = sort_by (by_locale rt uv_versionId) (map freezeVersion versionValues);
          versions = readonlyMap (map (\<lambda>v. (uv_versionId v, v)) normalizedVersions);
          entries = readonlyMap (map (\<lambda>e. (ue_sourceId e, e)) normalizedEntries)
      in try_then (for_each (\<lambda>_ entry. assertEntryInvariant entry versions) () normalizedEntries) (\<lambda>_.
         (let logicalHash = rt_sha256Hex rt
                (revision_text parentRevisionId createdAt normalizedEntries normalizedVersions events);
              expectedRevisionId = ''universe-revision:'' @ take 24 logicalHash
          in try_then (fail_if (revisionId \<noteq> None \<and> revisionId \<noteq> Some expectedRevisionId)
               (''UniverseRevision.revisionId must equal '' @ expectedRevisionId)) (\<lambda>_.
             Inr \<lparr>ur_revisionId = expectedRevisionId, ur_parentRevisionId = parentRevisionId,
                  ur_entries = entries, ur_versions = versions, ur_reconciliationEvents = events,
                  ur_createdAt = createdAt, ur_logicalHash = logicalHash\<rparr>)))))"

definition createEmptyUniverseRevision :: "runtime \<Rightarrow> number \<Rightarrow> universe_revision outcome" where
  "createEmptyUniverseRevision rt createdAt = createUniverseRevision rt None [] [] [] createdAt None"

section \<open>Reconciliation\<close>

definition present_action :: "universe_entry option \<Rightarrow> string \<Rightarrow> universe_action" where
  "present_action previous versionId =
     (case previous of None \<Rightarrow> UA_INITIALIZE
      | Some p \<Rightarrow>
          if ue_observationState p = US_UNAVAILABLE \<or> ue_observationState p = US_ABSENT then UA_RECOVER
          else if ue_admittedVersionId p = Some versionId then UA_NO_CHANGE else UA_UPDATE)"

definition nextEntry ::
  "runtime \<Rightarrow> universe_entry option \<Rightarrow> universe_observation \<Rightarrow> (string \<times> universe_version) list
   \<Rightarrow> (universe_entry \<times> universe_event \<times> (string \<times> universe_version) list) outcome" where
  "nextEntry rt previous observation versions =
     try_then (fail_if (case previous of None \<Rightarrow> False
         | Some p \<Rightarrow> num_less (uo_observedAt observation) (ue_lastObservedAt p))
       (''out-of-order observation for '' @ uo_sourceId observation @ '': '' @ num_str (uo_observedAt observation)
        @ '' < '' @ num_str (case previous of None \<Rightarrow> NaN | Some p \<Rightarrow> ue_lastObservedAt p))) (\<lambda>_.
     (let previousState = map_option ue_observationState previous;
          previousVersionId = Option.bind previous ue_admittedVersionId;
          previousProvider = Option.bind previous ue_providerVersion;
          previousContentHash = Option.bind previous ue_contentHash
      in case observation of
        PresentObservation sourceId contentHash providerVersion observedAt \<Rightarrow>
          (let versionId = createContextVersionId rt sourceId contentHash;
               versions' = (if map_of versions versionId = None
                 then AList.update versionId
                        (freezeVersion \<lparr>uv_versionId = versionId, uv_sourceId = sourceId,
                           uv_contentHash = contentHash, uv_providerVersion = providerVersion,
                           uv_observedAt = observedAt\<rparr>) versions
                 else versions);
               entry = freezeEntry \<lparr>ue_sourceId = sourceId, ue_observationState = US_PRESENT,
                 ue_observedVersionId = Some versionId, ue_admittedVersionId = Some versionId,
                 ue_lastGoodVersionId = Some versionId, ue_providerVersion = providerVersion,
                 ue_contentHash = Some contentHash, ue_lastObservedAt = observedAt\<rparr>
           in Inr (entry, \<lparr>uw_sourceId = sourceId, uw_action = present_action previous versionId,
                uw_previousState = previousState, uw_previousVersionId = previousVersionId,
                uw_nextObservedVersionId = Some versionId, uw_nextAdmittedVersionId = Some versionId,
                uw_observedAt = observedAt, uw_providerVersionChanged = (previousProvider \<noteq> providerVersion),
                uw_contentHashChanged = (previousContentHash \<noteq> Some contentHash), uw_reason = None\<rparr>, versions'))
      | UnavailableObservation sourceId reason observedAt \<Rightarrow>
          (let entry = freezeEntry \<lparr>ue_sourceId = sourceId, ue_observationState = US_UNAVAILABLE,
                 ue_observedVersionId = None, ue_admittedVersionId = previousVersionId,
                 ue_lastGoodVersionId = Option.bind previous ue_lastGoodVersionId,
                 ue_providerVersion = previousProvider, ue_contentHash = previousContentHash,
                 ue_lastObservedAt = observedAt\<rparr>
           in Inr (entry, \<lparr>uw_sourceId = sourceId, uw_action = UA_UNAVAILABLE,
                uw_previousState = previousState, uw_previousVersionId = previousVersionId,
                uw_nextObservedVersionId = None, uw_nextAdmittedVersionId = ue_admittedVersionId entry,
                uw_observedAt = observedAt, uw_providerVersionChanged = False,
                uw_contentHashChanged = False, uw_reason = Some reason\<rparr>, versions))
      | AbsentObservation sourceId observedAt \<Rightarrow>
          (let entry = freezeEntry \<lparr>ue_sourceId = sourceId, ue_observationState = US_ABSENT,
                 ue_observedVersionId = None, ue_admittedVersionId = None,
                 ue_lastGoodVersionId =
                   (case Option.bind previous ue_lastGoodVersionId of
                      None \<Rightarrow> previousVersionId | Some v \<Rightarrow> Some v),
                 ue_providerVersion = previousProvider, ue_contentHash = previousContentHash,
                 ue_lastObservedAt = observedAt\<rparr>
           in Inr (entry, \<lparr>uw_sourceId = sourceId, uw_action = UA_ABSENT,
                uw_previousState = previousState, uw_previousVersionId = previousVersionId,
                uw_nextObservedVersionId = None, uw_nextAdmittedVersionId = None,
                uw_observedAt = observedAt, uw_providerVersionChanged = False,
                uw_contentHashChanged = False, uw_reason = None\<rparr>, versions))))"

record reconciliation =
  rc_entries :: "(string \<times> universe_entry) list"
  rc_versions :: "(string \<times> universe_version) list"
  rc_seen :: "string set"
  rc_events :: "universe_event list"

definition reconcile_step :: "runtime \<Rightarrow> reconciliation \<Rightarrow> universe_observation \<Rightarrow> reconciliation outcome" where
  "reconcile_step rt st observation =
     try_then (fail_if (uo_sourceId observation \<in> rc_seen st)
       (''duplicate observation in one batch: '' @ uo_sourceId observation)) (\<lambda>_.
     try_then (nextEntry rt (map_of (rc_entries st) (uo_sourceId observation)) observation (rc_versions st))
       (\<lambda>(entry, event, versions).
     Inr \<lparr>rc_entries = AList.update (uo_sourceId observation) entry (rc_entries st), rc_versions = versions,
          rc_seen = insert (uo_sourceId observation) (rc_seen st), rc_events = rc_events st @ [event]\<rparr>))"

definition reconcileUniverseRevision ::
  "runtime \<Rightarrow> universe_revision \<Rightarrow> universe_observation list \<Rightarrow> universe_revision outcome" where
  "reconcileUniverseRevision rt previous observations =
     try_then (for_each (reconcile_step rt)
       \<lparr>rc_entries = ur_entries previous, rc_versions = ur_versions previous, rc_seen = {}, rc_events = []\<rparr>
       observations) (\<lambda>st.
     createUniverseRevision rt (Some (ur_revisionId previous)) (map_values (rc_entries st))
       (map_values (rc_versions st)) (rc_events st)
       (foldl (\<lambda>latest observation. num_max latest (uo_observedAt observation)) (ur_createdAt previous) observations)
       None)"

section \<open>The stored form\<close>

record serialized_universe_revision =
  su_schemaVersion :: int
  su_revisionId :: string
  su_parentRevisionId :: "string option"
  su_entries :: "universe_entry list"
  su_versions :: "universe_version list"
  su_reconciliationEvents :: "universe_event list"
  su_createdAt :: number
  su_logicalHash :: string

definition serialized_revision :: "universe_revision \<Rightarrow> serialized_universe_revision" where
  "serialized_revision revision =
     \<lparr>su_schemaVersion = 1, su_revisionId = ur_revisionId revision,
      su_parentRevisionId = ur_parentRevisionId revision, su_entries = map_values (ur_entries revision),
      su_versions = map_values (ur_versions revision), su_reconciliationEvents = ur_reconciliationEvents revision,
      su_createdAt = ur_createdAt revision, su_logicalHash = ur_logicalHash revision\<rparr>"

text \<open>\<open>JSON.stringify\<close> leaves out undefined fields and writes \<open>null\<close> for a number that is not finite.\<close>

definition num_json :: "number \<Rightarrow> json" where
  "num_json x = (case x of Finite i \<Rightarrow> JNum i | _ \<Rightarrow> JNull)"

definition optional_member :: "string \<Rightarrow> string option \<Rightarrow> (string \<times> json) list" where
  "optional_member k x = (case x of None \<Rightarrow> [] | Some v \<Rightarrow> [(k, JStr v)])"

definition entry_json :: "universe_entry \<Rightarrow> json" where
  "entry_json e = JObj
     ([(''sourceId'', JStr (ue_sourceId e)),
       (''observationState'', JStr (universe_state_str (ue_observationState e))),
       (''observedVersionId'', jopt (ue_observedVersionId e)), (''admittedVersionId'', jopt (ue_admittedVersionId e)),
       (''lastGoodVersionId'', jopt (ue_lastGoodVersionId e))]
      @ optional_member ''providerVersion'' (ue_providerVersion e)
      @ optional_member ''contentHash'' (ue_contentHash e)
      @ [(''lastObservedAt'', num_json (ue_lastObservedAt e))])"

definition version_json :: "universe_version \<Rightarrow> json" where
  "version_json v = JObj
     ([(''versionId'', JStr (uv_versionId v)), (''sourceId'', JStr (uv_sourceId v)),
       (''contentHash'', JStr (uv_contentHash v))]
      @ optional_member ''providerVersion'' (uv_providerVersion v)
      @ [(''observedAt'', num_json (uv_observedAt v))])"

definition event_json :: "universe_event \<Rightarrow> json" where
  "event_json w = JObj
     ([(''sourceId'', JStr (uw_sourceId w)), (''action'', JStr (universe_action_str (uw_action w))),
       (''previousState'', jopt (map_option universe_state_str (uw_previousState w))),
       (''previousVersionId'', jopt (uw_previousVersionId w)),
       (''nextObservedVersionId'', jopt (uw_nextObservedVersionId w)),
       (''nextAdmittedVersionId'', jopt (uw_nextAdmittedVersionId w)),
       (''observedAt'', num_json (uw_observedAt w)),
       (''providerVersionChanged'', JBool (uw_providerVersionChanged w)),
       (''contentHashChanged'', JBool (uw_contentHashChanged w))]
      @ optional_member ''reason'' (uw_reason w))"

definition serializeUniverseRevision :: "universe_revision \<Rightarrow> string" where
  "serializeUniverseRevision revision =
     (let s = serialized_revision revision in stringify (JObj
       [(''schemaVersion'', JNum (su_schemaVersion s)), (''revisionId'', JStr (su_revisionId s)),
        (''parentRevisionId'', jopt (su_parentRevisionId s)), (''entries'', JArr (map entry_json (su_entries s))),
        (''versions'', JArr (map version_json (su_versions s))),
        (''reconciliationEvents'', JArr (map event_json (su_reconciliationEvents s))),
        (''createdAt'', num_json (su_createdAt s)), (''logicalHash'', JStr (su_logicalHash s))]))"

definition deserializeUniverseRevision ::
  "runtime \<Rightarrow> serialized_universe_revision \<Rightarrow> universe_revision outcome" where
  "deserializeUniverseRevision rt value =
     try_then (fail_if (su_schemaVersion value \<noteq> 1)
       (''unsupported UniverseRevision schema: '' @ int_digits (su_schemaVersion value))) (\<lambda>_.
     try_then (createUniverseRevision rt (su_parentRevisionId value) (su_entries value) (su_versions value)
       (su_reconciliationEvents value) (su_createdAt value) (Some (su_revisionId value))) (\<lambda>revision.
     try_then (fail_if (ur_logicalHash revision \<noteq> su_logicalHash value)
       ''UniverseRevision logicalHash mismatch during deserialization'') (\<lambda>_.
     Inr revision)))"

end
