(* ===== verification/Universe_Laws.thy ===== *)
theory Universe_Laws
  imports Universe_Revision
begin

text \<open>
  What reconciliation keeps: chains of revisions from an empty one, the well-formedness of
  every revision of a chain, that a sound batch of observations never fails, that history
  is never lost, and that a stored revision is read back as it was.
\<close>

inductive revision_chain :: "runtime \<Rightarrow> universe_revision \<Rightarrow> bool" for rt where
  empty: "createEmptyUniverseRevision rt t = Inr r \<Longrightarrow> revision_chain rt r"
| step: "revision_chain rt r \<Longrightarrow> reconcileUniverseRevision rt r obs = Inr r' \<Longrightarrow> revision_chain rt r'"

section \<open>Well-formed catalogues\<close>

lemma freeze_id [simp]: "freezeVersion v = v" "freezeEntry e = e" "map freezeVersion vs = vs" "map freezeEntry es = es"
  by (simp_all add: freezeVersion_def freezeEntry_def map_idI)

text \<open>Entries keyed by their source, versions by their id, which is the digest of source and content.\<close>

definition keyed :: "('v \<Rightarrow> string) \<Rightarrow> (string \<times> 'v) list \<Rightarrow> bool" where
  "keyed k m \<longleftrightarrow> distinct (map fst m) \<and> (\<forall>(i, v) \<in> set m. i = k v)"

definition addressed :: "runtime \<Rightarrow> (string \<times> universe_version) list \<Rightarrow> bool" where
  "addressed rt vs \<longleftrightarrow> keyed uv_versionId vs
     \<and> (\<forall>(i, v) \<in> set vs. i = createContextVersionId rt (uv_sourceId v) (uv_contentHash v))"

definition sound_entries :: "(string \<times> universe_entry) list \<Rightarrow> (string \<times> universe_version) list \<Rightarrow> bool" where
  "sound_entries es vs \<longleftrightarrow> keyed ue_sourceId es \<and> (\<forall>(i, e) \<in> set es. assertEntryInvariant e vs = Inr ())"

definition revision_ok :: "runtime \<Rightarrow> universe_revision \<Rightarrow> bool" where
  "revision_ok rt r \<longleftrightarrow> isFinite (ur_createdAt r) \<and> addressed rt (ur_versions r)
     \<and> sound_entries (ur_entries r) (ur_versions r)"

lemma keyed_Nil [simp]: "keyed k []"
  by (simp add: keyed_def)

lemma keyed_values: "keyed k m \<Longrightarrow> map (\<lambda>v. (k v, v)) (map_values m) = m"
  unfolding keyed_def by (auto simp: comp_def case_prod_beta intro!: map_idI)

lemma keyed_distinct: "keyed k m \<Longrightarrow> distinct (map k (map_values m))"
  using arg_cong [OF keyed_values [of k m], of "map fst"] by (simp add: keyed_def comp_def del: map_eq_conv)

lemma keyed_pairs: "distinct (map k vs) \<Longrightarrow> keyed k (map (\<lambda>v. (k v, v)) vs)"
  by (auto simp: keyed_def comp_def)

lemma keyed_update: "keyed k m \<Longrightarrow> k v = i \<Longrightarrow> keyed k (AList.update i v m)"
  unfolding keyed_def using distinct_update [of m i v] by (auto dest!: in_update)

lemma keyed_get: "keyed k m \<Longrightarrow> (i, v) \<in> set m \<longleftrightarrow> map_of m i = Some v"
  by (simp add: keyed_def)

lemma keyed_permuted:
  assumes "keyed k m"
  shows "map_of (map (\<lambda>v. (k v, v)) (sort_by cmp (map_values m))) = map_of m"
proof (rule map_of_inject_set [THEN iffD2])
  show "set (map (\<lambda>v. (k v, v)) (sort_by cmp (map_values m))) = set m"
    using arg_cong [OF keyed_values [OF assms], of set] by (simp add: image_image)
  show "distinct (map fst (map (\<lambda>v. (k v, v)) (sort_by cmp (map_values m))))"
    using keyed_distinct [OF assms] distinct_map_sort_by [of k cmp "map_values m"] by (simp add: comp_def)
qed (use assms in \<open>simp add: keyed_def\<close>)

section \<open>The invariant of an entry\<close>

definition refers :: "string \<Rightarrow> (string \<times> universe_version) list \<Rightarrow> string option \<Rightarrow> bool" where
  "refers i vs x \<longleftrightarrow> (\<forall>v. x = Some v \<longrightarrow> (\<exists>w. map_of vs v = Some w \<and> uv_sourceId w = i))"

lemma refers_None [simp]: "refers i vs None"
  by (simp add: refers_def)

lemma check_reference_ok: "check_reference e vs x = Inr () \<longleftrightarrow> refers (ue_sourceId e) vs x"
  by (auto simp: check_reference_def refers_def try_simps split: option.splits)

lemma assertEntryInvariant_iff:
  "assertEntryInvariant e vs = Inr () \<longleftrightarrow>
     ue_sourceId e \<noteq> [] \<and> isFinite (ue_lastObservedAt e)
     \<and> (ue_observationState e = US_PRESENT \<longrightarrow> ue_observedVersionId e \<noteq> None \<and> ue_admittedVersionId e \<noteq> None)
     \<and> (ue_observationState e = US_ABSENT \<longrightarrow> ue_observedVersionId e = None \<and> ue_admittedVersionId e = None)
     \<and> (ue_admittedVersionId e \<noteq> None \<longrightarrow> ue_lastGoodVersionId e = ue_admittedVersionId e)
     \<and> refers (ue_sourceId e) vs (ue_observedVersionId e) \<and> refers (ue_sourceId e) vs (ue_admittedVersionId e)
     \<and> refers (ue_sourceId e) vs (ue_lastGoodVersionId e)"
  by (auto simp: assertEntryInvariant_def assertFiniteTimestamp_def try_simps check_reference_ok)

lemma refers_mono: "refers i vs x \<Longrightarrow> map_of vs \<subseteq>\<^sub>m map_of ws \<Longrightarrow> refers i ws x"
  unfolding refers_def map_le_def by (metis domI)

lemma entry_mono:
  "assertEntryInvariant e vs = Inr () \<Longrightarrow> map_of vs \<subseteq>\<^sub>m map_of ws \<Longrightarrow> assertEntryInvariant e ws = Inr ()"
  unfolding assertEntryInvariant_iff by (blast intro: refers_mono)

lemma sound_entries_mono: "sound_entries es vs \<Longrightarrow> map_of vs \<subseteq>\<^sub>m map_of ws \<Longrightarrow> sound_entries es ws"
  unfolding sound_entries_def by (auto intro: entry_mono)

section \<open>Construction\<close>

lemma invariant_loop:
  "for_each (\<lambda>_ e. assertEntryInvariant e vs) () es = Inr u \<longleftrightarrow> (\<forall>e\<in>set es. assertEntryInvariant e vs = Inr ())"
  by (induction es) (auto simp: try_simps)

definition entries_of :: "runtime \<Rightarrow> (string \<times> universe_entry) list \<Rightarrow> (string \<times> universe_entry) list" where
  "entries_of rt es = map (\<lambda>e. (ue_sourceId e, e)) (sort_by (by_locale rt ue_sourceId) (map_values es))"

definition versions_of :: "runtime \<Rightarrow> (string \<times> universe_version) list \<Rightarrow> (string \<times> universe_version) list" where
  "versions_of rt vs = map (\<lambda>v. (uv_versionId v, v)) (sort_by (by_locale rt uv_versionId) (map_values vs))"

text \<open>The revision that is made of keyed catalogues, and when it is made.\<close>

definition built :: "runtime \<Rightarrow> string option \<Rightarrow> (string \<times> universe_entry) list \<Rightarrow> (string \<times> universe_version) list
    \<Rightarrow> universe_event list \<Rightarrow> number \<Rightarrow> universe_revision" where
  "built rt p es vs ws t =
     (let h = rt_sha256Hex rt (revision_text p t (map_values (entries_of rt es)) (map_values (versions_of rt vs)) ws)
      in \<lparr>ur_revisionId = ''universe-revision:'' @ take 24 h, ur_parentRevisionId = p, ur_entries = entries_of rt es,
          ur_versions = versions_of rt vs, ur_reconciliationEvents = ws, ur_createdAt = t, ur_logicalHash = h\<rparr>)"

lemma map_values_pairs: "map_values (map (\<lambda>v. (k v, v)) vs) = vs"
  by (simp add: comp_def)

lemma createUniverseRevision_iff:
  assumes "keyed ue_sourceId es" and "keyed uv_versionId vs"
  shows "createUniverseRevision rt p (map_values es) (map_values vs) ws t i = Inr r \<longleftrightarrow>
    isFinite t \<and> sound_entries es vs \<and> r = built rt p es vs ws t \<and> (i = None \<or> i = Some (ur_revisionId r))"
proof -
  have es: "readonlyMap (map (\<lambda>e. (ue_sourceId e, e)) (sort_by (by_locale rt ue_sourceId) (map_values es))) = entries_of rt es"
    using keyed_distinct [OF assms(1)] unfolding readonlyMap_def entries_of_def
    by (intro new_Map_distinct) (simp add: comp_def distinct_map_sort_by [of ue_sourceId, unfolded comp_def])
  have vs: "readonlyMap (map (\<lambda>v. (uv_versionId v, v)) (sort_by (by_locale rt uv_versionId) (map_values vs))) = versions_of rt vs"
    using keyed_distinct [OF assms(2)] unfolding readonlyMap_def versions_of_def
    by (intro new_Map_distinct) (simp add: comp_def)
  have "map_of (versions_of rt vs) = map_of vs" unfolding versions_of_def by (rule keyed_permuted [OF assms(2)])
  then have inv: "assertEntryInvariant e (versions_of rt vs) = Inr () \<longleftrightarrow> assertEntryInvariant e vs = Inr ()" for e
    by (simp add: assertEntryInvariant_iff refers_def)
  have sound: "(\<forall>e\<in>set (map_values es). assertEntryInvariant e vs = Inr ()) \<longleftrightarrow> sound_entries es vs"
    using assms(1) by (auto simp: sound_entries_def)
  have vals: "map_values (entries_of rt es) = sort_by (by_locale rt ue_sourceId) (map_values es)"
    "map_values (versions_of rt vs) = sort_by (by_locale rt uv_versionId) (map_values vs)"
    by (simp_all add: entries_of_def versions_of_def comp_def)
  show ?thesis
    unfolding createUniverseRevision_def Let_def freeze_id es vs assertFiniteTimestamp_def built_def vals
    by (simp only: try_simps simp_thms invariant_loop inv sound set_sort_by sum.inject) auto
qed

section \<open>One observation\<close>

definition bar_free :: "string \<Rightarrow> bool" where
  "bar_free s \<longleftrightarrow> CHR ''|'' \<notin> set s"

lemma split_at_last: "c \<notin> set ys \<Longrightarrow> c \<notin> set ys' \<Longrightarrow> xs @ c # ys = xs' @ c # ys' \<Longrightarrow> xs = xs' \<and> ys = ys'"
  by (induction xs arbitrary: xs') (auto simp: Cons_eq_append_conv append_eq_Cons_conv)

text \<open>Two contents share a version id only if the digest collides.\<close>

lemma version_id_inj:
  assumes "inj (rt_sha256Hex rt)" and "bar_free h" and "bar_free h'"
  shows "createContextVersionId rt s h = createContextVersionId rt s' h' \<longleftrightarrow> s = s' \<and> h = h'"
  using assms split_at_last [of "CHR ''|''" h h' s s']
  by (auto simp: createContextVersionId_def bar_free_def dest!: injD)

definition in_order :: "(string \<times> universe_entry) list \<Rightarrow> universe_observation \<Rightarrow> bool" where
  "in_order es ob \<longleftrightarrow> (case map_of es (uo_sourceId ob) of None \<Rightarrow> True
     | Some p \<Rightarrow> \<not> num_less (uo_observedAt ob) (ue_lastObservedAt p))"

definition observable :: "universe_observation \<Rightarrow> bool" where
  "observable ob \<longleftrightarrow> uo_sourceId ob \<noteq> [] \<and> isFinite (uo_observedAt ob)
     \<and> (case ob of PresentObservation _ h _ _ \<Rightarrow> bar_free h | _ \<Rightarrow> True)"

text \<open>A step succeeds on a new source in order, and only extends the versions.\<close>

lemma reconcile_step_iff:
  "(\<exists>st'. reconcile_step rt st ob = Inr st') \<longleftrightarrow> uo_sourceId ob \<notin> rc_seen st \<and> in_order (rc_entries st) ob"
  by (cases ob) (auto simp: reconcile_step_def nextEntry_def in_order_def Let_def try_simps split: option.splits)

definition recorded :: "runtime \<Rightarrow> universe_observation \<Rightarrow> universe_version option" where
  "recorded rt ob = (case ob of
     PresentObservation i h pv t \<Rightarrow> Some \<lparr>uv_versionId = createContextVersionId rt i h, uv_sourceId = i,
       uv_contentHash = h, uv_providerVersion = pv, uv_observedAt = t\<rparr>
   | _ \<Rightarrow> None)"

lemma reconcile_step_versions:
  "reconcile_step rt st ob = Inr st' \<Longrightarrow> rc_versions st' =
     (case recorded rt ob of None \<Rightarrow> rc_versions st
      | Some v \<Rightarrow> if map_of (rc_versions st) (uv_versionId v) = None then rc_versions st @ [(uv_versionId v, v)]
                  else rc_versions st)"
  by (cases ob) (auto simp: reconcile_step_def nextEntry_def recorded_def Let_def try_simps map_of_eq_None_iff split: if_splits)

definition entry_after :: "runtime \<Rightarrow> universe_entry option \<Rightarrow> universe_observation \<Rightarrow> universe_entry" where
  "entry_after rt previous ob = (case ob of
     PresentObservation i h pv t \<Rightarrow>
       (let v = createContextVersionId rt i h in
        \<lparr>ue_sourceId = i, ue_observationState = US_PRESENT, ue_observedVersionId = Some v, ue_admittedVersionId = Some v,
         ue_lastGoodVersionId = Some v, ue_providerVersion = pv, ue_contentHash = Some h, ue_lastObservedAt = t\<rparr>)
   | UnavailableObservation i _ t \<Rightarrow>
       \<lparr>ue_sourceId = i, ue_observationState = US_UNAVAILABLE, ue_observedVersionId = None,
        ue_admittedVersionId = Option.bind previous ue_admittedVersionId,
        ue_lastGoodVersionId = Option.bind previous ue_lastGoodVersionId,
        ue_providerVersion = Option.bind previous ue_providerVersion,
        ue_contentHash = Option.bind previous ue_contentHash, ue_lastObservedAt = t\<rparr>
   | AbsentObservation i t \<Rightarrow>
       \<lparr>ue_sourceId = i, ue_observationState = US_ABSENT, ue_observedVersionId = None, ue_admittedVersionId = None,
        ue_lastGoodVersionId = (case Option.bind previous ue_lastGoodVersionId of
          None \<Rightarrow> Option.bind previous ue_admittedVersionId | Some v \<Rightarrow> Some v),
        ue_providerVersion = Option.bind previous ue_providerVersion,
        ue_contentHash = Option.bind previous ue_contentHash, ue_lastObservedAt = t\<rparr>)"

lemma reconcile_step_rest:
  "reconcile_step rt st ob = Inr st' \<Longrightarrow>
     rc_entries st' = AList.update (uo_sourceId ob) (entry_after rt (map_of (rc_entries st) (uo_sourceId ob)) ob) (rc_entries st)
     \<and> rc_seen st' = insert (uo_sourceId ob) (rc_seen st)"
  by (cases ob) (auto simp: reconcile_step_def nextEntry_def entry_after_def Let_def try_simps)

lemma entry_after_source [simp]: "ue_sourceId (entry_after rt p ob) = uo_sourceId ob"
  by (cases ob) (simp_all add: entry_after_def Let_def)

lemma entry_after_time [simp]: "ue_lastObservedAt (entry_after rt p ob) = uo_observedAt ob"
  by (cases ob) (simp_all add: entry_after_def Let_def)

section \<open>What a step keeps\<close>

definition catalogued :: "runtime \<Rightarrow> reconciliation \<Rightarrow> bool" where
  "catalogued rt st \<longleftrightarrow> keyed ue_sourceId (rc_entries st) \<and> addressed rt (rc_versions st)"

lemma addressed_snoc:
  "addressed rt vs \<Longrightarrow> map_of vs (uv_versionId v) = None
   \<Longrightarrow> uv_versionId v = createContextVersionId rt (uv_sourceId v) (uv_contentHash v)
   \<Longrightarrow> addressed rt (vs @ [(uv_versionId v, v)])"
  by (auto simp: addressed_def keyed_def map_of_eq_None_iff)

lemma recorded_id:
  "recorded rt ob = Some v \<Longrightarrow> uv_versionId v = createContextVersionId rt (uv_sourceId v) (uv_contentHash v)"
  by (cases ob) (auto simp: recorded_def)

lemma catalogued_step: "reconcile_step rt st ob = Inr st' \<Longrightarrow> catalogued rt st \<Longrightarrow> catalogued rt st'"
  using reconcile_step_rest [of rt st ob st'] reconcile_step_versions [of rt st ob st']
  by (auto simp: catalogued_def intro: keyed_update addressed_snoc recorded_id split: option.splits)

lemma versions_grow: "reconcile_step rt st ob = Inr st' \<Longrightarrow> map_of (rc_versions st) \<subseteq>\<^sub>m map_of (rc_versions st')"
  using reconcile_step_versions [of rt st ob st'] by (auto simp: map_le_def map_add_def split: option.splits)

definition hashes_bar_free :: "(string \<times> universe_version) list \<Rightarrow> bool" where
  "hashes_bar_free vs \<longleftrightarrow> (\<forall>(i, v) \<in> set vs. bar_free (uv_contentHash v))"

lemma hashes_step:
  "reconcile_step rt st ob = Inr st' \<Longrightarrow> observable ob \<Longrightarrow> hashes_bar_free (rc_versions st) \<Longrightarrow> hashes_bar_free (rc_versions st')"
  using reconcile_step_versions [of rt st ob st']
  by (cases ob) (auto simp: hashes_bar_free_def recorded_def observable_def split: if_splits)

text \<open>The version a PRESENT observation refers to is one of its own source.\<close>

lemma recorded_refers:
  assumes "inj (rt_sha256Hex rt)" and "addressed rt vs" and "hashes_bar_free vs" and "bar_free h"
    and "map_of vs (createContextVersionId rt i h) = Some w"
  shows "uv_sourceId w = i"
proof -
  have "(createContextVersionId rt i h, w) \<in> set vs" using assms(5) by (rule map_of_SomeD)
  with assms(2,3) have same: "createContextVersionId rt i h = createContextVersionId rt (uv_sourceId w) (uv_contentHash w)"
    and free: "bar_free (uv_contentHash w)"
    unfolding addressed_def hashes_bar_free_def by blast+
  show ?thesis using version_id_inj [OF assms(1,4) free, THEN iffD1, OF same] by simp
qed

lemma entry_after_sound:
  assumes "observable ob" and "p = None \<or> (\<exists>e. p = Some e \<and> ue_sourceId e = uo_sourceId ob \<and> assertEntryInvariant e vs = Inr ())"
    and "case ob of PresentObservation i h _ _ \<Rightarrow> refers i vs (Some (createContextVersionId rt i h)) | _ \<Rightarrow> True"
  shows "assertEntryInvariant (entry_after rt p ob) vs = Inr ()"
proof (cases p)
  case None
  with assms show ?thesis
    by (cases ob) (simp_all add: assertEntryInvariant_iff entry_after_def observable_def Let_def)
next
  case (Some e)
  with assms show ?thesis
    by (cases ob; cases "ue_lastGoodVersionId e"; cases "ue_admittedVersionId e")
      (simp_all add: assertEntryInvariant_iff entry_after_def observable_def Let_def)
qed

lemma sound_step:
  assumes step: "reconcile_step rt st ob = Inr st'" and ob: "observable ob" and inj: "inj (rt_sha256Hex rt)"
    and st: "catalogued rt st" "hashes_bar_free (rc_versions st)" "sound_entries (rc_entries st) (rc_versions st)"
  shows "sound_entries (rc_entries st') (rc_versions st')"
proof -
  let ?p = "map_of (rc_entries st) (uo_sourceId ob)"
  have old: "sound_entries (rc_entries st) (rc_versions st')" using st(3) versions_grow [OF step] by (rule sound_entries_mono)
  have "?p = None \<or> (\<exists>e. ?p = Some e \<and> ue_sourceId e = uo_sourceId ob \<and> assertEntryInvariant e (rc_versions st') = Inr ())"
    using old by (cases ?p) (auto simp: sound_entries_def keyed_def dest!: map_of_SomeD)
  moreover have "case ob of PresentObservation i h _ _ \<Rightarrow> refers i (rc_versions st') (Some (createContextVersionId rt i h)) | _ \<Rightarrow> True"
  proof (cases ob)
    case (PresentObservation i h pv t)
    have "map_of (rc_versions st') (createContextVersionId rt i h) \<noteq> None"
      using reconcile_step_versions [OF step] by (auto simp: PresentObservation recorded_def map_add_def split: if_splits)
    moreover have "addressed rt (rc_versions st')" using catalogued_step [OF step st(1)] by (simp add: catalogued_def)
    ultimately show ?thesis
      using recorded_refers [OF inj _ hashes_step [OF step ob st(2)]] ob by (auto simp: PresentObservation refers_def observable_def)
  qed simp_all
  ultimately have "assertEntryInvariant (entry_after rt ?p ob) (rc_versions st') = Inr ()" by (rule entry_after_sound [OF ob])
  with old reconcile_step_rest [OF step] show ?thesis
    by (auto simp: sound_entries_def keyed_update dest!: in_update)
qed

section \<open>Chains\<close>

lemma createEmpty_iff: "createEmptyUniverseRevision rt t = Inr r \<longleftrightarrow> isFinite t \<and> r = built rt None [] [] [] t"
  using createUniverseRevision_iff [of "[]" "[]" rt None "[]" t None r]
  by (auto simp: createEmptyUniverseRevision_def sound_entries_def)

lemma built_ok:
  assumes "isFinite t" and "sound_entries es vs" and "addressed rt vs"
  shows "revision_ok rt (built rt p es vs ws t)"
proof -
  have keys: "keyed ue_sourceId es" "keyed uv_versionId vs" using assms by (simp_all add: sound_entries_def addressed_def)
  have sets: "set (entries_of rt es) = set es" "set (versions_of rt vs) = set vs"
    using arg_cong [OF keyed_values [OF keys(1)], of set] arg_cong [OF keyed_values [OF keys(2)], of set]
    by (simp_all add: entries_of_def versions_of_def image_image)
  have "keyed ue_sourceId (entries_of rt es)" "keyed uv_versionId (versions_of rt vs)"
    unfolding entries_of_def versions_of_def using keyed_distinct [OF keys(1)] keyed_distinct [OF keys(2)]
    by (auto intro!: keyed_pairs simp del: map_map)
  moreover have "map_of (versions_of rt vs) = map_of vs" unfolding versions_of_def by (rule keyed_permuted [OF keys(2)])
  then have "assertEntryInvariant e (versions_of rt vs) = Inr () \<longleftrightarrow> assertEntryInvariant e vs = Inr ()" for e
    by (simp add: assertEntryInvariant_iff refers_def)
  ultimately show ?thesis using assms
    by (simp add: revision_ok_def built_def Let_def sound_entries_def addressed_def sets)
qed

definition loop_start :: "universe_revision \<Rightarrow> reconciliation" where
  "loop_start r = \<lparr>rc_entries = ur_entries r, rc_versions = ur_versions r, rc_seen = {}, rc_events = []\<rparr>"

definition latest_time :: "universe_revision \<Rightarrow> universe_observation list \<Rightarrow> number" where
  "latest_time r obs = foldl (\<lambda>latest ob. num_max latest (uo_observedAt ob)) (ur_createdAt r) obs"

lemma reconcile_iff:
  assumes "revision_ok rt r"
  shows "reconcileUniverseRevision rt r obs = Inr r' \<longleftrightarrow>
    (\<exists>st. for_each (reconcile_step rt) (loop_start r) obs = Inr st \<and> isFinite (latest_time r obs)
       \<and> sound_entries (rc_entries st) (rc_versions st)
       \<and> r' = built rt (Some (ur_revisionId r)) (rc_entries st) (rc_versions st) (rc_events st) (latest_time r obs))"
proof -
  have "catalogued rt st" if "for_each (reconcile_step rt) (loop_start r) obs = Inr st" for st
    by (rule for_each_invariant [OF that])
      (use assms in \<open>auto simp: catalogued_def loop_start_def revision_ok_def sound_entries_def intro: catalogued_step [unfolded catalogued_def, THEN conjunct1] catalogued_step [unfolded catalogued_def, THEN conjunct2]\<close>)
  then have "keyed ue_sourceId (rc_entries st) \<and> keyed uv_versionId (rc_versions st)"
    if "for_each (reconcile_step rt) (loop_start r) obs = Inr st" for st
    using that by (auto simp: catalogued_def addressed_def)
  then show ?thesis
    unfolding reconcileUniverseRevision_def loop_start_def [symmetric] latest_time_def [symmetric]
    by (auto simp: try_simps createUniverseRevision_iff)
qed

text \<open>A small chain: an empty universe and one observation.\<close>

definition plain :: runtime where
  "plain = \<lparr>rt_sha256Hex = (\<lambda>x. x), rt_localeCompare = (\<lambda>a b. if a = b then 0 else if a < b then -1 else 1)\<rparr>"

lemma plain_consistent: "consistent (rt_localeCompare plain)"
  by (auto simp: consistent_def plain_def split: if_splits)

lemma plain_inj: "inj (rt_sha256Hex plain)"
  by (simp add: plain_def inj_def)

definition no_sources :: universe_revision where
  "no_sources = built plain None [] [] [] (Finite 0)"

definition seen_a :: universe_observation where
  "seen_a = PresentObservation ''a'' ''h'' None (Finite 1)"

definition version_a :: universe_version where
  "version_a = \<lparr>uv_versionId = createContextVersionId plain ''a'' ''h'', uv_sourceId = ''a'', uv_contentHash = ''h'',
     uv_providerVersion = None, uv_observedAt = Finite 1\<rparr>"

definition event_a :: universe_event where
  "event_a = \<lparr>uw_sourceId = ''a'', uw_action = UA_INITIALIZE, uw_previousState = None, uw_previousVersionId = None,
     uw_nextObservedVersionId = Some (uv_versionId version_a), uw_nextAdmittedVersionId = Some (uv_versionId version_a),
     uw_observedAt = Finite 1, uw_providerVersionChanged = False, uw_contentHashChanged = True, uw_reason = None\<rparr>"

definition one_source :: universe_revision where
  "one_source = built plain (Some (ur_revisionId no_sources)) [(''a'', entry_after plain None seen_a)]
     [(uv_versionId version_a, version_a)] [event_a] (Finite 1)"

lemma no_sources_chain: "revision_chain plain no_sources"
  by (rule revision_chain.empty [of _ "Finite 0"]) (simp add: createEmpty_iff no_sources_def)

lemma one_source_step: "reconcileUniverseRevision plain no_sources [seen_a] = Inr one_source"
  by code_simp

lemma one_source_chain: "revision_chain plain one_source"
  by (rule revision_chain.step [OF no_sources_chain one_source_step])

section \<open>Properties of chains\<close>

lemma chain_ok: "revision_chain rt r \<Longrightarrow> revision_ok rt r"
proof (induction rule: revision_chain.induct)
  case (empty t r)
  then show ?case by (simp add: createEmpty_iff built_ok sound_entries_def addressed_def)
next
  case (step r obs r')
  then obtain st where st: "for_each (reconcile_step rt) (loop_start r) obs = Inr st"
    "isFinite (latest_time r obs)" "sound_entries (rc_entries st) (rc_versions st)"
    "r' = built rt (Some (ur_revisionId r)) (rc_entries st) (rc_versions st) (rc_events st) (latest_time r obs)"
    by (auto simp: reconcile_iff)
  have "catalogued rt (loop_start r)"
    using step.IH by (simp add: catalogued_def loop_start_def revision_ok_def sound_entries_def)
  then have "catalogued rt st" by (rule for_each_invariant [OF st(1)]) (blast intro: catalogued_step)
  with st(2-) show ?case by (simp add: built_ok catalogued_def)
qed

text \<open>
  C22. Every revision of a universe chain is well formed: entries are keyed by their source
  and satisfy the entry invariant (a PRESENT source has an admitted version, an ABSENT one
  none, the admitted version is the last good one, and every version an entry names is a
  recorded version of that source), and every version is keyed by the digest of its source
  and content hash.
\<close>

theorem revision_chain_ok: "revision_chain rt r \<Longrightarrow> revision_ok rt r"
  by (rule chain_ok)

theorem revision_chain_ok_witness: "revision_ok plain one_source"
  by (rule revision_chain_ok [OF one_source_chain])

definition sound_state :: "runtime \<Rightarrow> reconciliation \<Rightarrow> bool" where
  "sound_state rt st \<longleftrightarrow> catalogued rt st \<and> hashes_bar_free (rc_versions st)
     \<and> sound_entries (rc_entries st) (rc_versions st)"

lemma sound_state_step:
  "reconcile_step rt st ob = Inr st' \<Longrightarrow> observable ob \<Longrightarrow> inj (rt_sha256Hex rt) \<Longrightarrow> sound_state rt st \<Longrightarrow> sound_state rt st'"
  unfolding sound_state_def by (blast intro: catalogued_step hashes_step sound_step)

lemma in_order_other: "uo_sourceId ob \<noteq> i \<Longrightarrow> in_order (AList.update i e es) ob \<longleftrightarrow> in_order es ob"
  by (simp add: in_order_def update_conv)

lemma reconcile_loop:
  assumes "inj (rt_sha256Hex rt)"
  shows "sound_state rt st \<Longrightarrow> distinct (map uo_sourceId obs) \<Longrightarrow> uo_sourceId ` set obs \<inter> rc_seen st = {}
    \<Longrightarrow> \<forall>ob\<in>set obs. observable ob \<and> in_order (rc_entries st) ob
    \<Longrightarrow> \<exists>st'. for_each (reconcile_step rt) st obs = Inr st' \<and> sound_state rt st'"
proof (induction obs arbitrary: st)
  case (Cons ob obs)
  then obtain u where u: "reconcile_step rt st ob = Inr u" using reconcile_step_iff [of rt st ob] by auto
  have "sound_state rt u" using Cons.prems sound_state_step [OF u _ assms] by simp
  moreover have "uo_sourceId ` set obs \<inter> rc_seen u = {}" "\<forall>o'\<in>set obs. in_order (rc_entries u) o'"
    using Cons.prems reconcile_step_rest [OF u] by (auto simp: image_iff in_order_other)
  ultimately show ?case using Cons.IH [of u] Cons.prems u by simp
qed simp

lemma latest_time_finite:
  "isFinite (ur_createdAt r) \<Longrightarrow> \<forall>ob\<in>set obs. isFinite (uo_observedAt ob) \<Longrightarrow> isFinite (latest_time r obs)"
  unfolding latest_time_def by (induction obs rule: rev_induct) simp_all

text \<open>
  Reconciliation does not fail on sound input: if no two contents share a digest, a
  batch with at most one observation per source, each of a named source, at a finite time
  not before the source's last observation and with a content hash without the separator,
  gives a next revision.
\<close>

theorem reconcileUniverseRevision_succeeds:
  assumes "inj (rt_sha256Hex rt)" and "revision_chain rt r" and "hashes_bar_free (ur_versions r)"
    and "distinct (map uo_sourceId obs)"
    and "\<forall>ob\<in>set obs. observable ob \<and> in_order (ur_entries r) ob"
  shows "\<exists>r'. reconcileUniverseRevision rt r obs = Inr r'"
proof -
  have ok: "revision_ok rt r" by (rule chain_ok [OF assms(2)])
  then have "sound_state rt (loop_start r)"
    using assms(3) by (simp add: sound_state_def catalogued_def loop_start_def revision_ok_def sound_entries_def)
  from reconcile_loop [OF assms(1) this assms(4)] assms(5) obtain st where
    "for_each (reconcile_step rt) (loop_start r) obs = Inr st" "sound_state rt st" by (auto simp: loop_start_def)
  moreover have "isFinite (latest_time r obs)"
    using ok assms(5) by (intro latest_time_finite) (auto simp: revision_ok_def observable_def)
  ultimately show ?thesis by (auto simp: reconcile_iff [OF ok] sound_state_def)
qed

theorem reconcileUniverseRevision_succeeds_witness:
  "\<exists>r'. reconcileUniverseRevision plain no_sources [seen_a] = Inr r'"
  by (rule reconcileUniverseRevision_succeeds [OF plain_inj no_sources_chain])
    (simp_all add: no_sources_def built_def Let_def hashes_bar_free_def versions_of_def entries_of_def seen_a_def
      observable_def bar_free_def in_order_def)

lemma built_again:
  assumes "consistent (rt_localeCompare rt)"
  shows "built rt p (entries_of rt es) (versions_of rt vs) ws t = built rt p es vs ws t"
proof -
  have "entries_of rt (entries_of rt es) = entries_of rt es" "versions_of rt (versions_of rt vs) = versions_of rt vs"
    by (simp_all add: entries_of_def versions_of_def comp_def by_locale_def [abs_def] sort_by_idem consistent_key [OF assms])
  then show ?thesis by (simp add: built_def)
qed

lemma chain_built: "revision_chain rt r \<Longrightarrow> \<exists>p es vs ws t. r = built rt p es vs ws t"
  by (erule revision_chain.cases) (simp_all only: createEmpty_iff reconcile_iff [OF chain_ok], blast+)

lemma restore_revision:
  assumes "revision_chain rt r" and "consistent (rt_localeCompare rt)"
  shows "deserializeUniverseRevision rt (serialized_revision r) = Inr r"
proof -
  have ok: "revision_ok rt r" by (rule chain_ok [OF assms(1)])
  obtain p es vs ws t where r: "r = built rt p es vs ws t" using chain_built [OF assms(1)] by blast
  have "built rt (ur_parentRevisionId r) (ur_entries r) (ur_versions r) (ur_reconciliationEvents r) (ur_createdAt r) = r"
    unfolding r using built_again [OF assms(2)] by (simp add: built_def Let_def)
  moreover have "keyed ue_sourceId (ur_entries r)" "keyed uv_versionId (ur_versions r)"
    using ok by (simp_all add: revision_ok_def sound_entries_def addressed_def)
  ultimately have "createUniverseRevision rt (ur_parentRevisionId r) (map_values (ur_entries r)) (map_values (ur_versions r))
      (ur_reconciliationEvents r) (ur_createdAt r) (Some (ur_revisionId r)) = Inr r"
    using ok by (simp add: createUniverseRevision_iff revision_ok_def)
  then show ?thesis by (simp add: deserializeUniverseRevision_def serialized_revision_def)
qed

interpretation revisions: stored_form serialized_revision "deserializeUniverseRevision rt"
    "\<lambda>r. revision_chain rt r \<and> consistent (rt_localeCompare rt)"
  for rt
  by unfold_locales (simp add: restore_revision)

text \<open>
  A stored revision is read back as it was: for every revision of a chain and every
  consistent comparison of strings, deserialization of the serialized object, with all its
  checks, returns the revision.
\<close>

theorem deserialize_serialized_revision:
  assumes "revision_chain rt r" and "consistent (rt_localeCompare rt)"
  shows "deserializeUniverseRevision rt (serialized_revision r) = Inr r"
  using assms by (intro revisions.restore_store conjI)

theorem deserialize_serialized_revision_witness:
  "deserializeUniverseRevision plain (serialized_revision one_source) = Inr one_source"
  by (rule deserialize_serialized_revision [OF one_source_chain plain_consistent])

text \<open>
  The specification of a batch on the map from sources to entries: an observed source gets
  the entry that follows from its previous one, whatever the place of its observation in
  the batch, and every other source keeps its entry.
\<close>

definition observed_map ::
  "runtime \<Rightarrow> (string \<rightharpoonup> universe_entry) \<Rightarrow> universe_observation list \<Rightarrow> (string \<rightharpoonup> universe_entry)" where
  "observed_map rt m obs i = (case List.find (\<lambda>ob. uo_sourceId ob = i) obs of
     None \<Rightarrow> m i | Some ob \<Rightarrow> Some (entry_after rt (m i) ob))"

lemma find_fresh: "k \<notin> f ` set xs \<Longrightarrow> List.find (\<lambda>x. f x = k) xs = None"
  by (induction xs) auto

lemma reconcile_loop_entries:
  "for_each (reconcile_step rt) st obs = Inr st' \<Longrightarrow>
     map_of (rc_entries st') = observed_map rt (map_of (rc_entries st)) obs
     \<and> map_of (rc_versions st) \<subseteq>\<^sub>m map_of (rc_versions st') \<and> distinct (map uo_sourceId obs)
     \<and> uo_sourceId ` set obs \<inter> rc_seen st = {}"
proof (induction obs arbitrary: st)
  case (Cons ob obs)
  then obtain u where u: "reconcile_step rt st ob = Inr u" and rest: "for_each (reconcile_step rt) u obs = Inr st'"
    by (auto simp: try_simps)
  from Cons.IH [OF rest] reconcile_step_rest [OF u] reconcile_step_iff [of rt st ob] u versions_grow [OF u]
  have *: "map_of (rc_entries st') = observed_map rt ((map_of (rc_entries st))
        (uo_sourceId ob \<mapsto> entry_after rt (map_of (rc_entries st) (uo_sourceId ob)) ob)) obs"
    "map_of (rc_versions st) \<subseteq>\<^sub>m map_of (rc_versions st')" "distinct (map uo_sourceId obs)"
    "uo_sourceId ` set obs \<inter> insert (uo_sourceId ob) (rc_seen st) = {}" "uo_sourceId ob \<notin> rc_seen st"
    by (auto simp: update_conv' fun_upd_def intro: map_le_trans)
  have "uo_sourceId ob \<notin> uo_sourceId ` set obs" using *(4) by blast
  then have "List.find (\<lambda>o'. uo_sourceId o' = uo_sourceId ob) obs = None" by (rule find_fresh)
  then have "map_of (rc_entries st') = observed_map rt (map_of (rc_entries st)) (ob # obs)"
    unfolding *(1) by (auto simp: observed_map_def fun_eq_iff split: option.split)
  with *(2-5) \<open>uo_sourceId ob \<notin> uo_sourceId ` set obs\<close> show ?case by simp
qed (simp add: observed_map_def fun_eq_iff)

lemma built_maps:
  assumes "keyed ue_sourceId es" and "keyed uv_versionId vs"
  shows "map_of (ur_entries (built rt p es vs ws t)) = map_of es" "map_of (ur_versions (built rt p es vs ws t)) = map_of vs"
  by (simp_all add: built_def Let_def entries_of_def versions_of_def keyed_permuted assms)

text \<open>
  C23. Reconciliation implements that specification, observes each source at most once, and
  never forgets a version. In particular an outage keeps the admitted and the last good
  version of a source, and a confirmed absence withdraws the admitted version but keeps the
  last good one.
\<close>

theorem reconcileUniverseRevision_refines:
  assumes "revision_chain rt r" and "reconcileUniverseRevision rt r obs = Inr r'"
  shows "map_of (ur_entries r') = observed_map rt (map_of (ur_entries r)) obs
    \<and> map_of (ur_versions r) \<subseteq>\<^sub>m map_of (ur_versions r') \<and> distinct (map uo_sourceId obs)"
proof -
  have ok: "revision_ok rt r" by (rule chain_ok [OF assms(1)])
  obtain st where st: "for_each (reconcile_step rt) (loop_start r) obs = Inr st"
    and r': "r' = built rt (Some (ur_revisionId r)) (rc_entries st) (rc_versions st) (rc_events st) (latest_time r obs)"
    using assms(2) by (auto simp: reconcile_iff [OF ok])
  have "catalogued rt (loop_start r)" using ok by (simp add: catalogued_def loop_start_def revision_ok_def sound_entries_def)
  then have "catalogued rt st" by (rule for_each_invariant [OF st]) (blast intro: catalogued_step)
  then show ?thesis using reconcile_loop_entries [OF st]
    by (simp add: r' built_maps catalogued_def addressed_def loop_start_def)
qed

theorem reconcileUniverseRevision_refines_witness:
  "map_of (ur_entries one_source) ''a'' = Some (entry_after plain None seen_a)"
  using reconcileUniverseRevision_refines [OF no_sources_chain one_source_step]
  by (simp add: observed_map_def seen_a_def no_sources_def built_def Let_def entries_of_def)

end
