(* ===== verification/Source_Reconciliation.thy ===== *)
theory Source_Reconciliation
  imports Runtime_Prelude
begin

text \<open>
  Observations of a single context source and how they move its reconciled state
  (\<open>source/source-types.ts\<close>, \<open>source/reconciliation.ts\<close>, \<open>source/fixture-observer.ts\<close>).
\<close>

datatype source_status = SO_AVAILABLE | SO_ABSENT | SO_UNAVAILABLE

fun source_status_str :: "source_status \<Rightarrow> string" where
  "source_status_str SO_AVAILABLE = ''AVAILABLE''"
| "source_status_str SO_ABSENT = ''ABSENT''"
| "source_status_str SO_UNAVAILABLE = ''UNAVAILABLE''"

record source_version =
  cv_versionId :: string
  cv_sourceKey :: string
  cv_contentHash :: string
  cv_observedAt :: string

definition createSourceVersionId :: "runtime \<Rightarrow> string \<Rightarrow> string \<Rightarrow> string" where
  "createSourceVersionId rt sourceKey contentHash =
     rt_sha256Hex rt (''version-v1|'' @ sourceKey @ ''|'' @ contentHash)"

definition createContextSourceVersion :: "runtime \<Rightarrow> string \<Rightarrow> string \<Rightarrow> string \<Rightarrow> source_version" where
  "createContextSourceVersion rt sourceKey contentHash observedAt =
     \<lparr>cv_versionId = createSourceVersionId rt sourceKey contentHash, cv_sourceKey = sourceKey,
      cv_contentHash = contentHash, cv_observedAt = observedAt\<rparr>"

text \<open>The union of three object types: each constructor carries exactly the fields of its case.\<close>

datatype source_observation =
  AvailableObservation (so_sourceKey: string) (so_observedAt: string) (so_contentHash: string)
| AbsentSource (so_sourceKey: string) (so_observedAt: string)
| UnavailableSource (so_sourceKey: string) (so_observedAt: string) (so_reasonCode: string)

fun so_status :: "source_observation \<Rightarrow> source_status" where
  "so_status (AvailableObservation _ _ _) = SO_AVAILABLE"
| "so_status (AbsentSource _ _) = SO_ABSENT"
| "so_status (UnavailableSource _ _ _) = SO_UNAVAILABLE"

definition createAvailableObservation :: "string \<Rightarrow> string \<Rightarrow> string \<Rightarrow> source_observation" where
  "createAvailableObservation sourceKey contentHash observedAt = AvailableObservation sourceKey observedAt contentHash"

definition createAbsentObservation :: "string \<Rightarrow> string \<Rightarrow> source_observation" where
  "createAbsentObservation sourceKey observedAt = AbsentSource sourceKey observedAt"

definition createUnavailableObservation :: "string \<Rightarrow> string \<Rightarrow> string \<Rightarrow> source_observation" where
  "createUnavailableObservation sourceKey reasonCode observedAt = UnavailableSource sourceKey observedAt reasonCode"

record source_state =
  ss_sourceKey :: string
  ss_observationStatus :: source_status
  ss_admittedVersionId :: "string option"
  ss_lastAvailableVersionId :: "string option"
  ss_reconciliationSequence :: int
  ss_lastObservedAt :: string

datatype source_action = SA_INITIALIZE | SA_NO_CHANGE | SA_UPDATE | SA_REMOVE | SA_RETAIN_LAST_KNOWN

fun source_action_str :: "source_action \<Rightarrow> string" where
  "source_action_str SA_INITIALIZE = ''INITIALIZE''"
| "source_action_str SA_NO_CHANGE = ''NO_CHANGE''"
| "source_action_str SA_UPDATE = ''UPDATE''"
| "source_action_str SA_REMOVE = ''REMOVE''"
| "source_action_str SA_RETAIN_LAST_KNOWN = ''RETAIN_LAST_KNOWN''"

record source_event =
  sw_sourceKey :: string
  sw_previousState :: "source_state option"
  sw_observation :: source_observation
  sw_action :: source_action
  sw_previousVersionId :: "string option"
  sw_nextVersionId :: "string option"
  sw_sequence :: int
  sw_timestamp :: string

record reconcile_result =
  rr_state :: source_state
  rr_event :: source_event
  rr_admittedVersion :: "source_version option"

section \<open>Reconciliation of one source\<close>

definition first_observation :: "runtime \<Rightarrow> source_observation \<Rightarrow> int \<Rightarrow> reconcile_result" where
  "first_observation rt observation sequence =
     (let timestamp = so_observedAt observation;
          version = (case observation of
            AvailableObservation key _ contentHash \<Rightarrow> Some (createContextSourceVersion rt key contentHash timestamp)
          | _ \<Rightarrow> None);
          versionId = map_option cv_versionId version
      in \<lparr>rr_state = \<lparr>ss_sourceKey = so_sourceKey observation, ss_observationStatus = so_status observation,
            ss_admittedVersionId = versionId, ss_lastAvailableVersionId = versionId,
            ss_reconciliationSequence = sequence, ss_lastObservedAt = timestamp\<rparr>,
          rr_event = \<lparr>sw_sourceKey = so_sourceKey observation, sw_previousState = None, sw_observation = observation,
            sw_action = SA_INITIALIZE, sw_previousVersionId = None, sw_nextVersionId = versionId,
            sw_sequence = sequence, sw_timestamp = timestamp\<rparr>,
          rr_admittedVersion = version\<rparr>)"

definition next_observation ::
  "source_state \<Rightarrow> source_observation \<Rightarrow> int \<Rightarrow> source_state \<Rightarrow> source_action \<Rightarrow> source_version option \<Rightarrow> reconcile_result" where
  "next_observation previous observation sequence state action version =
     \<lparr>rr_state = state,
      rr_event = \<lparr>sw_sourceKey = so_sourceKey observation, sw_previousState = Some previous,
        sw_observation = observation, sw_action = action, sw_previousVersionId = ss_admittedVersionId previous,
        sw_nextVersionId = ss_admittedVersionId state, sw_sequence = sequence,
        sw_timestamp = so_observedAt observation\<rparr>,
      rr_admittedVersion = version\<rparr>"

definition reconcileSource ::
  "runtime \<Rightarrow> source_state option \<Rightarrow> source_observation \<Rightarrow> int \<Rightarrow> reconcile_result" where
  "reconcileSource rt previous observation sequence =
     (let timestamp = so_observedAt observation in
      case previous of
        None \<Rightarrow> first_observation rt observation sequence
      | Some p \<Rightarrow> (case observation of
          AbsentSource _ _ \<Rightarrow>
            next_observation p observation sequence
              (p\<lparr>ss_observationStatus := SO_ABSENT, ss_admittedVersionId := None,
                 ss_reconciliationSequence := sequence, ss_lastObservedAt := timestamp\<rparr>)
              SA_REMOVE None
        | UnavailableSource _ _ _ \<Rightarrow>
            next_observation p observation sequence
              (p\<lparr>ss_observationStatus := SO_UNAVAILABLE, ss_reconciliationSequence := sequence,
                 ss_lastObservedAt := timestamp\<rparr>)
              SA_RETAIN_LAST_KNOWN None
        | AvailableObservation key _ contentHash \<Rightarrow>
            if ss_admittedVersionId p = Some (createSourceVersionId rt key contentHash)
            then next_observation p observation sequence
              (p\<lparr>ss_observationStatus := SO_AVAILABLE, ss_reconciliationSequence := sequence,
                 ss_lastObservedAt := timestamp\<rparr>)
              SA_NO_CHANGE None
            else
              (let version = createContextSourceVersion rt key contentHash timestamp in
               next_observation p observation sequence
                 (p\<lparr>ss_observationStatus := SO_AVAILABLE, ss_admittedVersionId := Some (cv_versionId version),
                    ss_lastAvailableVersionId := Some (cv_versionId version),
                    ss_reconciliationSequence := sequence, ss_lastObservedAt := timestamp\<rparr>)
                 SA_UPDATE (Some version))))"

section \<open>The fixture observer\<close>

record fixture_entry =
  fx_sourceKey :: string
  fx_status :: source_status
  fx_contentHash :: "string option"
  fx_reasonCode :: "string option"

definition newFixtureSourceObserver :: "fixture_entry list \<Rightarrow> (string \<times> fixture_entry) list" where
  "newFixtureSourceObserver entries = new_Map (map (\<lambda>e. (fx_sourceKey e, e)) entries)"

definition fixture_upsert :: "fixture_entry \<Rightarrow> (string \<times> fixture_entry) list \<Rightarrow> (string \<times> fixture_entry) list" where
  "fixture_upsert entry observers = AList.update (fx_sourceKey entry) entry observers"

definition fixture_observe ::
  "(string \<times> fixture_entry) list \<Rightarrow> string \<Rightarrow> string \<Rightarrow> source_observation option outcome" where
  "fixture_observe observers sourceKey observedAt =
     (case map_of observers sourceKey of
        None \<Rightarrow> Inr None
      | Some entry \<Rightarrow> (case fx_status entry of
          SO_AVAILABLE \<Rightarrow> (case fx_contentHash entry of
              None \<Rightarrow> fail (''FixtureSourceObserver: AVAILABLE entry for '' @ sourceKey @ '' requires contentHash'')
            | Some contentHash \<Rightarrow> Inr (Some (createAvailableObservation sourceKey contentHash observedAt)))
        | SO_ABSENT \<Rightarrow> Inr (Some (createAbsentObservation sourceKey observedAt))
        | SO_UNAVAILABLE \<Rightarrow>
            Inr (Some (createUnavailableObservation sourceKey
              (default_to (fx_reasonCode entry) ''unavailable'') observedAt))))"

section \<open>What one reconciliation keeps\<close>

text \<open>The admitted version is the last available one, and an absent source has none.\<close>

definition state_ok :: "source_state \<Rightarrow> bool" where
  "state_ok s \<longleftrightarrow> (ss_observationStatus s = SO_AVAILABLE \<longrightarrow> ss_admittedVersionId s \<noteq> None)
     \<and> (ss_observationStatus s = SO_ABSENT \<longrightarrow> ss_admittedVersionId s = None)
     \<and> (ss_admittedVersionId s \<noteq> None \<longrightarrow> ss_lastAvailableVersionId s = ss_admittedVersionId s)"

lemma reconcileSource_state_ok:
  "(\<forall>p. previous = Some p \<longrightarrow> state_ok p) \<Longrightarrow> state_ok (rr_state (reconcileSource rt previous ob n))"
  by (cases ob; cases previous)
    (auto simp: reconcileSource_def first_observation_def next_observation_def state_ok_def Let_def)

lemma reconcileSource_key:
  "(\<forall>p. previous = Some p \<longrightarrow> ss_sourceKey p = so_sourceKey ob) \<Longrightarrow>
     ss_sourceKey (rr_state (reconcileSource rt previous ob n)) = so_sourceKey ob"
  by (cases ob; cases previous)
    (auto simp: reconcileSource_def first_observation_def next_observation_def Let_def)

text \<open>The version a reconciliation returns is the admitted one of the new state; without one the old is kept or withdrawn.\<close>

lemma reconcileSource_version:
  "rr_admittedVersion (reconcileSource rt previous ob n) = Some v \<Longrightarrow>
     ss_admittedVersionId (rr_state (reconcileSource rt previous ob n)) = Some (cv_versionId v)
     \<and> cv_sourceKey v = so_sourceKey ob \<and> cv_versionId v = createSourceVersionId rt (cv_sourceKey v) (cv_contentHash v)"
  by (cases ob; cases previous)
    (auto simp: reconcileSource_def first_observation_def next_observation_def createContextSourceVersion_def Let_def
      split: if_splits)

lemma reconcileSource_no_version:
  "rr_admittedVersion (reconcileSource rt previous ob n) = None \<Longrightarrow>
     ss_admittedVersionId (rr_state (reconcileSource rt previous ob n)) \<in> {None, Option.bind previous ss_admittedVersionId}"
  by (cases ob; cases previous)
    (auto simp: reconcileSource_def first_observation_def next_observation_def Let_def split: if_splits)

end
