(* ===== verification/Context_Universe.thy ===== *)
theory Context_Universe
  imports Source_Reconciliation
begin

text \<open>
  The run-time universe: sources seeded from a snapshot, revised by batches of source
  observations and replayed from them (\<open>universe/context-universe.ts\<close>), and the attribution
  vocabulary its summaries count (\<open>attribution/attribution.ts\<close>).
\<close>

datatype attribution_confidence = AC_EXACT | AC_DERIVED_HINT | AC_UNATTRIBUTED | AC_OPAQUE

record snapshot_seed =
  sd_sourceKey :: string
  sd_sourceKind :: string
  sd_contentHash :: string
  sd_authority :: "string option"
  sd_priority :: "string option"
  sd_provenance :: string
  sd_observedAt :: string

record source_descriptor =
  de_sourceKey :: string
  de_sourceKind :: string
  de_provenance :: string
  de_authority :: "string option"
  de_priority :: "string option"

record context_entry =
  ce_source :: source_descriptor
  ce_state :: source_state
  ce_admittedVersion :: "source_version option"

record attribution_summary =
  as_total :: int
  as_exact :: int
  as_derivedHint :: int
  as_unattributed :: int
  as_opaque :: int
  as_resourceHints :: int

record context_revision =
  cx_runtimeSessionId :: string
  cx_sequence :: int
  cx_modelCallSequence :: "int option"
  cx_previousRevisionId :: "string option"
  cx_revisionId :: string
  cx_entries :: "context_entry list"
  cx_reconciliationEvents :: "source_event list"
  cx_attributionSummary :: "attribution_summary option"
  cx_logicalHash :: string

definition entry_key :: "context_entry \<Rightarrow> string" where
  "entry_key e = de_sourceKey (ce_source e)"

definition canonicalEntryText :: "context_entry \<Rightarrow> string" where
  "canonicalEntryText entry =
     (let state = ce_state entry in
      join bar [de_sourceKey (ce_source entry), de_sourceKind (ce_source entry), de_provenance (ce_source entry),
        default_to (de_authority (ce_source entry)) ''-'', default_to (de_priority (ce_source entry)) ''-'',
        source_status_str (ss_observationStatus state), default_to (ss_admittedVersionId state) ''-'',
        default_to (ss_lastAvailableVersionId state) ''-'', int_digits (ss_reconciliationSequence state),
        ss_lastObservedAt state, default_to (map_option cv_contentHash (ce_admittedVersion entry)) ''-''])"

definition canonicalEntries :: "runtime \<Rightarrow> context_entry list \<Rightarrow> string" where
  "canonicalEntries rt entries =
     join [CHR 0x0A] (map canonicalEntryText (sort_by (\<lambda>a b. rt_localeCompare rt (entry_key a) (entry_key b)) entries))"

definition computeUniverseLogicalHash ::
  "runtime \<Rightarrow> string \<Rightarrow> int \<Rightarrow> int option \<Rightarrow> context_entry list \<Rightarrow> source_event list \<Rightarrow> string" where
  "computeUniverseLogicalHash rt runtimeSessionId sequence modelCallSequence entries events =
     rt_sha256Hex rt (''universe-v1|'' @ join [CHR 0x0A]
       [runtimeSessionId, int_digits sequence, default_to (map_option int_digits modelCallSequence) ''-'',
        canonicalEntries rt entries, join '','' (map (\<lambda>event. source_action_str (sw_action event)) events)])"

definition createContextRevision ::
  "runtime \<Rightarrow> string \<Rightarrow> int \<Rightarrow> int option \<Rightarrow> string option \<Rightarrow> context_entry list \<Rightarrow> source_event list
   \<Rightarrow> attribution_summary option \<Rightarrow> context_revision" where
  "createContextRevision rt runtimeSessionId sequence modelCallSequence previousRevisionId entries events summary =
     \<lparr>cx_runtimeSessionId = runtimeSessionId, cx_sequence = sequence, cx_modelCallSequence = modelCallSequence,
      cx_previousRevisionId = previousRevisionId,
      cx_revisionId = ''universe:'' @ runtimeSessionId @ '':rev-'' @ int_digits sequence,
      cx_entries = entries, cx_reconciliationEvents = events, cx_attributionSummary = summary,
      cx_logicalHash = computeUniverseLogicalHash rt runtimeSessionId sequence modelCallSequence entries events\<rparr>"

section \<open>Seeding\<close>

definition seed_entry :: "runtime \<Rightarrow> snapshot_seed \<Rightarrow> context_entry" where
  "seed_entry rt seed =
     (let versionId = createSourceVersionId rt (sd_sourceKey seed) (sd_contentHash seed) in
      \<lparr>ce_source = \<lparr>de_sourceKey = sd_sourceKey seed, de_sourceKind = sd_sourceKind seed,
         de_provenance = sd_provenance seed, de_authority = sd_authority seed, de_priority = sd_priority seed\<rparr>,
       ce_state = \<lparr>ss_sourceKey = sd_sourceKey seed, ss_observationStatus = SO_AVAILABLE,
         ss_admittedVersionId = Some versionId, ss_lastAvailableVersionId = Some versionId,
         ss_reconciliationSequence = 0, ss_lastObservedAt = sd_observedAt seed\<rparr>,
       ce_admittedVersion = Some \<lparr>cv_versionId = versionId, cv_sourceKey = sd_sourceKey seed,
         cv_contentHash = sd_contentHash seed, cv_observedAt = sd_observedAt seed\<rparr>\<rparr>)"

definition seedUniverse :: "runtime \<Rightarrow> string \<Rightarrow> snapshot_seed list \<Rightarrow> context_revision" where
  "seedUniverse rt runtimeSessionId seeds =
     createContextRevision rt runtimeSessionId 0 None None (map (seed_entry rt) seeds) [] None"

section \<open>Observations\<close>

record observation_tables =
  ot_stateByKey :: "(string \<times> source_state) list"
  ot_versionByKey :: "(string \<times> source_version option) list"
  ot_events :: "source_event list"

definition apply_observation ::
  "runtime \<Rightarrow> int \<Rightarrow> observation_tables \<Rightarrow> nat \<times> source_observation \<Rightarrow> observation_tables" where
  "apply_observation rt previousSequence tables indexed =
     (let (index, observation) = indexed;
          key = so_sourceKey observation;
          result = reconcileSource rt (map_of (ot_stateByKey tables) key) observation (previousSequence + int index + 1);
          versions = ot_versionByKey tables
      in \<lparr>ot_stateByKey = AList.update key (rr_state result) (ot_stateByKey tables),
          ot_versionByKey =
            (case rr_admittedVersion result of
               Some version \<Rightarrow> AList.update key (Some version) versions
             | None \<Rightarrow> (case ss_admittedVersionId (rr_state result) of
                 Some versionId \<Rightarrow> (case map_of versions key of
                     Some (Some previousVersion) \<Rightarrow>
                       if cv_versionId previousVersion = versionId
                       then AList.update key (Some previousVersion) versions else versions
                   | _ \<Rightarrow> versions)
               | None \<Rightarrow> AList.update key None versions)),
          ot_events = ot_events tables @ [rr_event result]\<rparr>)"

definition universe_entry_of ::
  "(string \<times> source_descriptor) list \<Rightarrow> (string \<times> source_version option) list \<Rightarrow> string \<times> source_state
   \<Rightarrow> context_entry" where
  "universe_entry_of descriptors versions keyed_state =
     (let (sourceKey, state) = keyed_state in
      \<lparr>ce_source = (case map_of descriptors sourceKey of
          None \<Rightarrow> \<lparr>de_sourceKey = sourceKey, de_sourceKind = ''UNKNOWN'', de_provenance = ''UNKNOWN'',
                     de_authority = None, de_priority = None\<rparr>
        | Some descriptor \<Rightarrow> descriptor),
       ce_state = state, ce_admittedVersion = default_to (map_of versions sourceKey) None\<rparr>)"

definition applySourceObservations ::
  "runtime \<Rightarrow> context_revision \<Rightarrow> source_observation list \<Rightarrow> int \<Rightarrow> attribution_summary option
   \<Rightarrow> source_descriptor list option \<Rightarrow> context_revision" where
  "applySourceObservations rt previous observations modelCallSequence summary sourceDescriptors =
     (let stateByKey = new_Map (map (\<lambda>e. (entry_key e, ce_state e)) (cx_entries previous));
          versionByKey = new_Map (map (\<lambda>e. (entry_key e, ce_admittedVersion e)) (cx_entries previous));
          descriptorByKey = new_Map (map (\<lambda>e. (entry_key e, ce_source e)) (cx_entries previous)
            @ map (\<lambda>d. (de_sourceKey d, d)) (default_to sourceDescriptors []));
          tables = foldl (apply_observation rt (cx_sequence previous))
            \<lparr>ot_stateByKey = stateByKey, ot_versionByKey = versionByKey, ot_events = []\<rparr>
            (enumerate 0 observations);
          entries = sort_by (\<lambda>a b. rt_localeCompare rt (entry_key a) (entry_key b))
            (map (universe_entry_of descriptorByKey (ot_versionByKey tables)) (ot_stateByKey tables))
      in createContextRevision rt (cx_runtimeSessionId previous) (cx_sequence previous + 1) (Some modelCallSequence)
           (Some (cx_revisionId previous)) entries (ot_events tables) summary)"

section \<open>Attribution counts\<close>

definition summarizeAttribution :: "attribution_confidence list \<Rightarrow> attribution_summary" where
  "summarizeAttribution confidences =
     foldl (\<lambda>s c. case c of
         AC_EXACT \<Rightarrow> s\<lparr>as_exact := as_exact s + 1\<rparr>
       | AC_DERIVED_HINT \<Rightarrow> s\<lparr>as_derivedHint := as_derivedHint s + 1\<rparr>
       | AC_UNATTRIBUTED \<Rightarrow> s\<lparr>as_unattributed := as_unattributed s + 1\<rparr>
       | AC_OPAQUE \<Rightarrow> s\<lparr>as_opaque := as_opaque s + 1\<rparr>)
       \<lparr>as_total = int (length confidences), as_exact = 0, as_derivedHint = 0, as_unattributed = 0, as_opaque = 0,
        as_resourceHints = 0\<rparr> confidences"

definition countAttributions :: "attribution_confidence list \<Rightarrow> int \<Rightarrow> attribution_summary" where
  "countAttributions primaryConfidences resourceHintCount =
     (summarizeAttribution primaryConfidences)\<lparr>as_resourceHints := resourceHintCount\<rparr>"

section \<open>Replay\<close>

record observation_batch =
  ob_observations :: "source_observation list"
  ob_modelCallSequence :: int
  ob_sourceDescriptors :: "source_descriptor list option"

definition replayUniverse ::
  "runtime \<Rightarrow> string \<Rightarrow> snapshot_seed list \<Rightarrow> observation_batch list \<Rightarrow> attribution_summary option list option
   \<Rightarrow> context_revision" where
  "replayUniverse rt runtimeSessionId seeds batches summaries =
     foldl (\<lambda>revision (index, batch).
         applySourceObservations rt revision (ob_observations batch) (ob_modelCallSequence batch)
           (case summaries of None \<Rightarrow> None | Some xs \<Rightarrow> if index < length xs then xs ! index else None)
           (ob_sourceDescriptors batch))
       (seedUniverse rt runtimeSessionId seeds) (enumerate 0 batches)"

section \<open>What every revision satisfies\<close>

text \<open>
  An entry agrees with its state: same source, and the version it carries is the admitted
  one, a version of that source with the id of its content. An ABSENT source carries none.
\<close>

definition pair_ok :: "runtime \<Rightarrow> string \<Rightarrow> source_state \<Rightarrow> source_version option \<Rightarrow> bool" where
  "pair_ok rt key s v \<longleftrightarrow> ss_sourceKey s = key \<and> state_ok s \<and> ss_admittedVersionId s = map_option cv_versionId v
     \<and> (case v of None \<Rightarrow> True | Some w \<Rightarrow>
          cv_sourceKey w = key \<and> cv_versionId w = createSourceVersionId rt key (cv_contentHash w))"

definition context_entry_ok :: "runtime \<Rightarrow> context_entry \<Rightarrow> bool" where
  "context_entry_ok rt e \<longleftrightarrow> pair_ok rt (entry_key e) (ce_state e) (ce_admittedVersion e)"

definition tables_ok :: "runtime \<Rightarrow> observation_tables \<Rightarrow> bool" where
  "tables_ok rt tb \<longleftrightarrow> distinct (map fst (ot_stateByKey tb)) \<and>
     (\<forall>key s. map_of (ot_stateByKey tb) key = Some s \<longrightarrow>
        pair_ok rt key s (default_to (map_of (ot_versionByKey tb) key) None))
     \<and> (\<forall>key. map_of (ot_stateByKey tb) key = None \<longrightarrow> default_to (map_of (ot_versionByKey tb) key) None = None)"

lemma new_Map_distinct_keys: "distinct (map fst (new_Map kvs))"
proof -
  have "distinct (map fst m) \<Longrightarrow> distinct (map fst (foldl (\<lambda>m (k, v). AList.update k v m) m kvs))" for m
    by (induction kvs arbitrary: m) (auto simp: distinct_update)
  then show ?thesis by (simp add: new_Map_def)
qed

text \<open>In a map made of pairs each key has the value of its last pair.\<close>

lemma new_Map_get: "map_of (new_Map kvs) = map_of (rev kvs)"
proof -
  have "map_of (foldl (\<lambda>m (k, v). AList.update k v m) m kvs) = map_of m ++ map_of (rev kvs)" for m
    by (induction kvs arbitrary: m) (auto simp: update_conv' map_add_def fun_eq_iff split: option.split)
  then show ?thesis by (simp add: new_Map_def)
qed

lemma step_pair_ok:
  assumes "\<forall>p. previous = Some p \<longrightarrow> pair_ok rt (so_sourceKey ob) p v" and "previous = None \<Longrightarrow> v = None"
    and "result = reconcileSource rt previous ob n"
  shows "pair_ok rt (so_sourceKey ob) (rr_state result)
    (case rr_admittedVersion result of Some w \<Rightarrow> Some w
     | None \<Rightarrow> if ss_admittedVersionId (rr_state result) = None then None else v)"
proof -
  have key: "ss_sourceKey (rr_state result) = so_sourceKey ob" and ok: "state_ok (rr_state result)"
    using assms(1) unfolding assms(3) by (auto intro!: reconcileSource_key reconcileSource_state_ok simp: pair_ok_def)
  show ?thesis
  proof (cases "rr_admittedVersion result")
    case (Some w)
    with reconcileSource_version [of rt previous ob n w] key ok show ?thesis by (auto simp: pair_ok_def assms(3))
  next
    case None
    with reconcileSource_no_version [of rt previous ob n]
    have "ss_admittedVersionId (rr_state result) \<in> {None, Option.bind previous ss_admittedVersionId}" by (simp add: assms(3))
    with None key ok assms(1,2) show ?thesis by (cases previous) (auto simp: pair_ok_def split: option.splits)
  qed
qed

lemma apply_observation_states:
  "ot_stateByKey (apply_observation rt q tb (i, ob)) =
     AList.update (so_sourceKey ob)
       (rr_state (reconcileSource rt (map_of (ot_stateByKey tb) (so_sourceKey ob)) ob (q + int i + 1))) (ot_stateByKey tb)"
  by (simp add: apply_observation_def Let_def)

lemma apply_observation_versions:
  assumes "tables_ok rt tb"
  shows "default_to (map_of (ot_versionByKey (apply_observation rt q tb (i, ob))) key) None =
    (if key = so_sourceKey ob
     then (let result = reconcileSource rt (map_of (ot_stateByKey tb) (so_sourceKey ob)) ob (q + int i + 1) in
           case rr_admittedVersion result of Some w \<Rightarrow> Some w
           | None \<Rightarrow> if ss_admittedVersionId (rr_state result) = None then None
                     else default_to (map_of (ot_versionByKey tb) key) None)
     else default_to (map_of (ot_versionByKey tb) key) None)"
  by (auto simp: apply_observation_def Let_def update_conv split: option.split)

lemma tables_ok_step: "tables_ok rt tb \<Longrightarrow> tables_ok rt (apply_observation rt q tb (i, ob))"
  unfolding tables_ok_def [of rt "apply_observation rt q tb (i, ob)"]
proof (intro conjI allI impI)
  assume ok: "tables_ok rt tb"
  let ?t = "apply_observation rt q tb (i, ob)" and ?key = "so_sourceKey ob"
  let ?r = "reconcileSource rt (map_of (ot_stateByKey tb) ?key) ob (q + int i + 1)"
  show "distinct (map fst (ot_stateByKey ?t))" using ok by (simp add: apply_observation_states distinct_update tables_ok_def)
  {
    fix key s
    assume "map_of (ot_stateByKey ?t) key = Some s"
    then show "pair_ok rt key s (default_to (map_of (ot_versionByKey ?t) key) None)"
    proof (cases "key = ?key")
      case True
      have "pair_ok rt ?key (rr_state ?r) (case rr_admittedVersion ?r of Some w \<Rightarrow> Some w
          | None \<Rightarrow> if ss_admittedVersionId (rr_state ?r) = None then None else default_to (map_of (ot_versionByKey tb) ?key) None)"
        by (rule step_pair_ok) (use ok in \<open>auto simp: tables_ok_def\<close>)
      with True show ?thesis using \<open>map_of (ot_stateByKey ?t) key = Some s\<close>
        by (simp add: apply_observation_versions [OF ok] apply_observation_states update_conv Let_def)
    next
      case False
      with ok show ?thesis using \<open>map_of (ot_stateByKey ?t) key = Some s\<close>
        by (simp add: apply_observation_versions [OF ok] apply_observation_states update_conv tables_ok_def)
    qed
  }
  fix key
  assume "map_of (ot_stateByKey ?t) key = None"
  with ok show "default_to (map_of (ot_versionByKey ?t) key) None = None"
    by (auto simp: apply_observation_versions [OF ok] apply_observation_states update_conv tables_ok_def split: if_splits)
qed

lemma tables_ok_loop: "tables_ok rt tb \<Longrightarrow> tables_ok rt (foldl (apply_observation rt q) tb xs)"
  by (induction xs arbitrary: tb) (auto intro: tables_ok_step)

lemma map_of_keyed: "map_of (map (\<lambda>e. (k e, f e)) xs) i = map_option f (List.find (\<lambda>e. k e = i) xs)"
  by (induction xs) auto

lemma previous_tables_ok:
  assumes "\<forall>e\<in>set es. context_entry_ok rt e"
  shows "tables_ok rt \<lparr>ot_stateByKey = new_Map (map (\<lambda>e. (entry_key e, ce_state e)) es),
    ot_versionByKey = new_Map (map (\<lambda>e. (entry_key e, ce_admittedVersion e)) es), ot_events = []\<rparr>"
proof -
  have get: "map_of (new_Map (map (\<lambda>e. (entry_key e, f e)) es)) key =
      map_option f (first_where (\<lambda>e. entry_key e = key) (rev es))" for f :: "context_entry \<Rightarrow> 'x" and key
    by (simp add: new_Map_get rev_map map_of_keyed first_where_def)
  have "pair_ok rt key (ce_state e) (ce_admittedVersion e)"
    if "first_where (\<lambda>e. entry_key e = key) (rev es) = Some e" for key e
    using first_where_SomeD [OF that] assms by (auto simp: context_entry_ok_def)
  then show ?thesis by (auto simp: tables_ok_def new_Map_distinct_keys get simp del: first_where_None)
qed

lemma descriptor_key: "map_of (new_Map (map (\<lambda>e. (entry_key e, ce_source e)) es @ map (\<lambda>d. (de_sourceKey d, d)) ds)) i = Some d
    \<Longrightarrow> de_sourceKey d = i"
  by (auto simp: new_Map_get entry_key_def dest!: map_of_SomeD)

lemma universe_entry_key:
  "(\<And>i d. map_of ds i = Some d \<Longrightarrow> de_sourceKey d = i) \<Longrightarrow> entry_key (universe_entry_of ds vs (i, s)) = i"
  by (auto simp: entry_key_def universe_entry_of_def split: option.split)

lemma apply_entries_ok:
  assumes "\<forall>e\<in>set (cx_entries r). context_entry_ok rt e"
  shows "(\<forall>e\<in>set (cx_entries (applySourceObservations rt r obs n sm ds)). context_entry_ok rt e)
    \<and> distinct (map entry_key (cx_entries (applySourceObservations rt r obs n sm ds)))"
proof -
  let ?tb = "foldl (apply_observation rt (cx_sequence r))
    \<lparr>ot_stateByKey = new_Map (map (\<lambda>e. (entry_key e, ce_state e)) (cx_entries r)),
     ot_versionByKey = new_Map (map (\<lambda>e. (entry_key e, ce_admittedVersion e)) (cx_entries r)), ot_events = []\<rparr> (enumerate 0 obs)"
  let ?ds = "new_Map (map (\<lambda>e. (entry_key e, ce_source e)) (cx_entries r) @ map (\<lambda>d. (de_sourceKey d, d)) (default_to ds []))"
  have ok: "tables_ok rt ?tb" by (rule tables_ok_loop [OF previous_tables_ok [OF assms]])
  have key: "entry_key (universe_entry_of ?ds vs (i, s)) = i" for vs i s by (rule universe_entry_key) (rule descriptor_key)
  have "context_entry_ok rt (universe_entry_of ?ds (ot_versionByKey ?tb) (i, s))" if "(i, s) \<in> set (ot_stateByKey ?tb)" for i s
  proof -
    have "map_of (ot_stateByKey ?tb) i = Some s" using that ok by (simp add: tables_ok_def)
    then show ?thesis using ok unfolding context_entry_ok_def key by (simp add: tables_ok_def universe_entry_of_def)
  qed
  moreover have "map entry_key (map (universe_entry_of ?ds (ot_versionByKey ?tb)) (ot_stateByKey ?tb)) = map fst (ot_stateByKey ?tb)"
    using key by (auto simp: comp_def)
  ultimately show ?thesis using ok
    by (auto simp: applySourceObservations_def createContextRevision_def Let_def tables_ok_def simp del: map_map)
qed

lemma seed_entry_ok: "context_entry_ok rt (seed_entry rt seed)"
  by (simp add: context_entry_ok_def pair_ok_def seed_entry_def entry_key_def state_ok_def Let_def)

text \<open>
  In a universe replayed from any seeds and any batches of observations, every entry
  agrees with its reconciled state: an AVAILABLE source carries its admitted version, an
  ABSENT one none, an UNAVAILABLE one what it had, and the version carried is a version of
  the entry's own source under the id of its content; after the first batch no two entries
  share a source.
\<close>

theorem replayUniverse_entries_ok:
  "list_all (context_entry_ok rt) (cx_entries (replayUniverse rt sid seeds batches sms))
   \<and> (batches = [] \<or> distinct (map entry_key (cx_entries (replayUniverse rt sid seeds batches sms))))"
proof (induction batches rule: rev_induct)
  case Nil
  then show ?case by (simp add: replayUniverse_def seedUniverse_def createContextRevision_def list_all_iff seed_entry_ok)
next
  case (snoc b bs)
  have "enumerate 0 (bs @ [b]) = enumerate 0 bs @ [(length bs, b)]" by (simp add: enumerate_append_eq)
  then show ?case using snoc apply_entries_ok by (auto simp: replayUniverse_def list_all_iff)
qed

end
