(* ===== verification/Json_Parser.thy ===== *)
theory Json_Parser
  imports Runtime_Prelude "HOL-Library.Monad_Syntax"
begin

text \<open>
  \<open>JSON.parse\<close> on the texts of this library: a recursive descent over the bytes of the
  text, with the white space of JSON between its tokens. It reads every JSON text but those
  with a number that is not an integer or with an escape of a character beyond ASCII; for
  these, as for a text that is not JSON, the result is \<open>None\<close>. An object is kept as the list
  of its members; where a key is repeated, the last member counts (\<open>member\<close>), as in
  JavaScript.

  Each function spends one unit of fuel on a call of another, and every such call comes
  with a byte of the text, so that the length of the text is enough fuel
  (\<open>JSON_parse_stringify\<close>).
\<close>

section \<open>White space, strings and numbers\<close>

definition is_space :: "char \<Rightarrow> bool" where
  "is_space c \<longleftrightarrow> c \<in> {CHR '' '', CHR 0x09, CHR 0x0A, CHR 0x0D}"

definition next_token :: "string \<Rightarrow> (char \<times> string) option" where
  "next_token s = (case dropWhile is_space s of [] \<Rightarrow> None | c # cs \<Rightarrow> Some (c, cs))"

definition hex_of :: "char \<Rightarrow> nat option" where
  "hex_of c =
     (let n = of_char c in
      if 48 \<le> n \<and> n < 58 then Some (n - 48) else if 97 \<le> n \<and> n < 103 then Some (n - 87)
      else if 65 \<le> n \<and> n < 71 then Some (n - 55) else None)"

definition parse_escape :: "string \<Rightarrow> (char \<times> string) option" where
  "parse_escape s = (case s of
     [] \<Rightarrow> None
   | d # ds \<Rightarrow>
       if d = CHR ''u'' then (case ds of
           a # b # h # l # rest \<Rightarrow>
             (case (hex_of h, hex_of l) of
                (Some x, Some y) \<Rightarrow>
                  if a = CHR ''0'' \<and> b = CHR ''0'' \<and> x < 8 then Some (char_of (16 * x + y), rest) else None
              | _ \<Rightarrow> None)
         | _ \<Rightarrow> None)
       else if d \<in> {CHR 0x22, CHR 0x5C, CHR ''/'', CHR ''b'', CHR ''f'', CHR ''n'', CHR ''r'', CHR ''t''}
       then Some (unescape_simple d, ds)
       else None)"

lemma parse_escape_shorter: "parse_escape s = Some (c, rest) \<Longrightarrow> length rest < length s"
  by (auto simp: parse_escape_def split: list.splits option.splits if_splits)

text \<open>What follows the opening quote, up to and with the closing one.\<close>

function parse_chars :: "string \<Rightarrow> (string \<times> string) option" where
  "parse_chars [] = None"
| "parse_chars (c # cs) =
     (if c = CHR 0x22 then Some ([], cs)
      else if c = CHR 0x5C then (case parse_escape cs of None \<Rightarrow> None
        | Some (d, rest) \<Rightarrow> map_option (apfst (Cons d)) (parse_chars rest))
      else if of_char c < (32 :: nat) then None
      else map_option (apfst (Cons c)) (parse_chars cs))"
  by pat_completeness auto

termination
  by (relation "measure length") (auto dest: parse_escape_shorter)

definition parse_unsigned :: "string \<Rightarrow> (nat \<times> string) option" where
  "parse_unsigned s =
     (let digits = takeWhile is_digit s; rest = dropWhile is_digit s in
      if digits = [] \<or> (hd digits = CHR ''0'' \<and> tl digits \<noteq> [])
         \<or> (rest \<noteq> [] \<and> hd rest \<in> {CHR ''.'', CHR ''e'', CHR ''E''})
      then None else Some (digits_value digits 0, rest))"

definition parse_number :: "string \<Rightarrow> (int \<times> string) option" where
  "parse_number s =
     (if s \<noteq> [] \<and> hd s = CHR ''-'' then map_option (apfst (\<lambda>n. - int n)) (parse_unsigned (tl s))
      else map_option (apfst int) (parse_unsigned s))"

definition parse_literal :: "string \<Rightarrow> json \<Rightarrow> string \<Rightarrow> (json \<times> string) option" where
  "parse_literal word j s = (if take (length word) s = word then Some (j, drop (length word) s) else None)"

section \<open>Values\<close>

fun parse_value :: "nat \<Rightarrow> string \<Rightarrow> (json \<times> string) option"
  and parse_elements :: "nat \<Rightarrow> string \<Rightarrow> (json list \<times> string) option"
  and parse_members :: "nat \<Rightarrow> string \<Rightarrow> ((string \<times> json) list \<times> string) option" where
  "parse_value 0 s = None"
| "parse_value (Suc n) s =
     do { (c, cs) \<leftarrow> next_token s;
          if c = CHR ''{'' then
            do { (d, ds) \<leftarrow> next_token cs;
                 if d = CHR ''}'' then Some (JObj [], ds) else map_option (apfst JObj) (parse_members n cs) }
          else if c = CHR ''['' then
            do { (d, ds) \<leftarrow> next_token cs;
                 if d = CHR '']'' then Some (JArr [], ds) else map_option (apfst JArr) (parse_elements n cs) }
          else if c = CHR 0x22 then map_option (apfst JStr) (parse_chars cs)
          else if c = CHR ''n'' then parse_literal ''null'' JNull (c # cs)
          else if c = CHR ''t'' then parse_literal ''true'' (JBool True) (c # cs)
          else if c = CHR ''f'' then parse_literal ''false'' (JBool False) (c # cs)
          else map_option (apfst JNum) (parse_number (c # cs)) }"
| "parse_elements 0 s = None"
| "parse_elements (Suc n) s =
     do { (j, rest) \<leftarrow> parse_value n s;
          (c, cs) \<leftarrow> next_token rest;
          if c = CHR '','' then map_option (apfst (Cons j)) (parse_elements n cs)
          else if c = CHR '']'' then Some ([j], cs)
          else None }"
| "parse_members 0 s = None"
| "parse_members (Suc n) s =
     do { (q, qs) \<leftarrow> next_token s;
          if q \<noteq> CHR 0x22 then None
          else do { (k, ks) \<leftarrow> parse_chars qs;
               (c, cs) \<leftarrow> next_token ks;
               if c \<noteq> CHR '':'' then None
               else do { (j, rest) \<leftarrow> parse_value n cs;
                    (d, ds) \<leftarrow> next_token rest;
                    if d = CHR '','' then map_option (apfst (Cons (k, j))) (parse_members n ds)
                    else if d = CHR ''}'' then Some ([(k, j)], ds)
                    else None } } }"

definition JSON_parse :: "string \<Rightarrow> json option" where
  "JSON_parse s =
     do { (j, rest) \<leftarrow> parse_value (length s) s;
          if dropWhile is_space rest = [] then Some j else None }"

section \<open>Reading back what was written\<close>

lemma next_token_Cons: "\<not> is_space c \<Longrightarrow> next_token (c # cs) = Some (c, cs)"
  by (simp add: next_token_def)

lemma hex_of_digit: "k < 16 \<Longrightarrow> hex_of (hex_digit k) = Some k"
  by (auto simp: hex_of_def hex_digit_def Let_def of_char_of)

lemma parse_escaped_special:
  "n \<in> {34, 92, 8, 9, 10, 12, 13 :: nat} \<Longrightarrow>
    parse_chars (escape_char (char_of n) @ xs) = map_option (apfst (Cons (char_of n))) (parse_chars xs)"
  by (auto simp: escape_char_def of_char_of unescape_simple_def char_codes parse_escape_def)

lemma parse_escaped: "parse_chars (escape_char c @ xs) = map_option (apfst (Cons c)) (parse_chars xs)"
proof -
  let ?n = "of_char c :: nat"
  consider "?n \<in> {34, 92, 8, 9, 10, 12, 13}"
    | "?n < 32" "?n \<notin> {8, 9, 10, 12, 13}" | "32 \<le> ?n" "?n \<noteq> 34" "?n \<noteq> 92"
    by fastforce
  then show ?thesis
  proof cases
    case 1
    from parse_escaped_special [OF this, of xs] show ?thesis by simp
  next
    case 2
    then have "?n div 16 < 8" "?n mod 16 < 16" by simp_all
    moreover have "char_of (16 * (?n div 16) + ?n mod 16) = c" by simp
    ultimately show ?thesis using 2 by (simp add: escape_char_def Let_def parse_escape_def hex_of_digit)
  next
    case 3
    then have "c \<noteq> CHR 0x22" and "c \<noteq> CHR 0x5C" by auto
    with 3 show ?thesis by (simp add: escape_char_def Let_def)
  qed
qed

lemma parse_escaped_string: "parse_chars (concat (map escape_char s) @ CHR 0x22 # xs) = Some (s, xs)"
  by (induction s) (simp_all add: parse_escaped)

definition ends :: "string \<Rightarrow> bool" where
  "ends rest \<longleftrightarrow> rest = [] \<or> delim (hd rest)"

lemma ends_simps [simp]: "ends []" "ends (CHR '','' # s)" "ends (CHR '']'' # s)" "ends (CHR ''}'' # s)"
  by (simp_all add: ends_def delim_def)

lemma nat_digits_zero: "hd (nat_digits n) = CHR ''0'' \<Longrightarrow> n = 0"
proof (induction n rule: nat_digits.induct)
  case (1 n)
  have "char_of (48 + n) = CHR ''0'' \<Longrightarrow> n = 0" if "n < 10"
    using arg_cong [of "char_of (48 + n)" "CHR ''0''" "of_char :: char \<Rightarrow> nat"] of_char_digit [OF that] by simp
  with 1 show ?case by (cases "n < 10") (simp_all add: nat_digits.simps [of n])
qed

lemma parse_unsigned_digits:
  assumes "ends rest"
  shows "parse_unsigned (nat_digits n @ rest) = Some (n, rest)"
proof -
  have stop: "rest = [] \<or> \<not> is_digit (hd rest) \<and> hd rest \<notin> {CHR ''.'', CHR ''e'', CHR ''E''}"
    using assms by (cases rest) (auto simp: ends_def delim_def is_digit_def)
  have digits: "takeWhile is_digit (nat_digits n @ rest) = nat_digits n" "dropWhile is_digit (nat_digits n @ rest) = rest"
    using stop nat_digits_are_digits [of _ n] by (cases rest; auto simp: takeWhile_append dropWhile_append)+
  have "\<not> (nat_digits n = [] \<or> (hd (nat_digits n) = CHR ''0'' \<and> tl (nat_digits n) \<noteq> [])
      \<or> (rest \<noteq> [] \<and> hd rest \<in> {CHR ''.'', CHR ''e'', CHR ''E''}))"
    using stop nat_digits_zero [of n] by (auto simp: nat_digits.simps [of 0])
  then show ?thesis unfolding parse_unsigned_def Let_def digits by (simp only: if_False nat_digits_value)
qed

lemma parse_number_digits: "ends rest \<Longrightarrow> parse_number (int_digits i @ rest) = Some (i, rest)"
  using hd_nat_digits [of "nat i"] minus_not_digit
  by (auto simp: parse_number_def int_digits_def parse_unsigned_digits)

definition parsed_back :: "json \<Rightarrow> bool" where
  "parsed_back j \<longleftrightarrow> (\<forall>n rest. length (stringify j) \<le> n \<longrightarrow> ends rest \<longrightarrow> parse_value n (stringify j @ rest) = Some (j, rest))"

lemma is_space_simps [simp]:
  "\<not> is_space (CHR ''{'')" "\<not> is_space (CHR ''}'')" "\<not> is_space (CHR ''['')" "\<not> is_space (CHR '']'')"
  "\<not> is_space (CHR '','')" "\<not> is_space (CHR '':'')" "\<not> is_space (CHR 0x22)" "\<not> is_space (CHR ''n'')"
  "\<not> is_space (CHR ''t'')" "\<not> is_space (CHR ''f'')"
  by (simp_all add: is_space_def)

lemma stringify_head: "\<exists>c cs. stringify j = c # cs \<and> \<not> is_space c \<and> c \<noteq> CHR '']''"
proof -
  obtain c cs where c: "stringify j = c # cs" "char_tag c = json_tag j"
    using hd_stringify [of j] by (cases "stringify j") auto
  have "char_tag c < 6" unfolding c(2) by (cases j) (simp_all add: json_tag_def)
  then have "\<not> is_space c" "c \<noteq> CHR '']''" by (auto simp: char_tag_def is_space_def is_digit_def split: if_splits)
  with c show ?thesis by blast
qed

lemma parse_elements_join:
  assumes "\<forall>j\<in>set js. parsed_back j" and "js \<noteq> []" and "length (join '','' (map stringify js)) < n"
  shows "parse_elements n (join '','' (map stringify js) @ CHR '']'' # rest) = Some (js, rest)"
  using assms
proof (induction js arbitrary: n)
  case (Cons j js)
  obtain c cs where c: "stringify j = c # cs" using stringify_head by blast
  obtain m where n: "n = Suc m" using Cons.prems(3) by (cases n) auto
  show ?case
  proof (cases "js = []")
    case True
    with Cons.prems n have "parse_value m (stringify j @ CHR '']'' # rest) = Some (j, CHR '']'' # rest)"
      by (simp add: parsed_back_def join_Cons)
    with True n show ?thesis by (simp add: join_Cons next_token_Cons)
  next
    case False
    with Cons.prems n c have "parse_value m (stringify j @ CHR '','' # join '','' (map stringify js) @ CHR '']'' # rest)
      = Some (j, CHR '','' # join '','' (map stringify js) @ CHR '']'' # rest)"
      by (simp add: parsed_back_def join_Cons)
    moreover have "parse_elements m (join '','' (map stringify js) @ CHR '']'' # rest) = Some (js, rest)"
      using Cons.prems False n c by (intro Cons.IH) (auto simp: join_Cons)
    ultimately show ?thesis using False n by (simp add: join_Cons next_token_Cons)
  qed
qed simp

definition member_text :: "string \<times> json \<Rightarrow> string" where
  "member_text kv = quote (fst kv) @ '':'' @ stringify (snd kv)"

lemma parse_members_join:
  assumes "\<forall>kv\<in>set kvs. parsed_back (snd kv)" and "kvs \<noteq> []" and "length (join '','' (map member_text kvs)) < n"
  shows "parse_members n (join '','' (map member_text kvs) @ CHR ''}'' # rest) = Some (kvs, rest)"
  using assms
proof (induction kvs arbitrary: n)
  case (Cons kv kvs)
  obtain k j where kv: "kv = (k, j)" by fastforce
  obtain m where n: "n = Suc m" using Cons.prems(3) by (cases n) auto
  show ?case
  proof (cases "kvs = []")
    case True
    with Cons.prems n kv have "parse_value m (stringify j @ CHR ''}'' # rest) = Some (j, CHR ''}'' # rest)"
      by (simp add: parsed_back_def join_Cons member_text_def)
    with True n kv show ?thesis
      by (simp add: join_Cons next_token_Cons member_text_def quote_def parse_escaped_string)
  next
    case False
    with Cons.prems n kv have "parse_value m (stringify j @ CHR '','' # join '','' (map member_text kvs) @ CHR ''}'' # rest)
      = Some (j, CHR '','' # join '','' (map member_text kvs) @ CHR ''}'' # rest)"
      by (simp add: parsed_back_def join_Cons member_text_def)
    moreover have "parse_members m (join '','' (map member_text kvs) @ CHR ''}'' # rest) = Some (kvs, rest)"
      using Cons.prems False n kv by (intro Cons.IH) (auto simp: join_Cons member_text_def)
    moreover have "member_text kv @ s = CHR 0x22 # concat (map escape_char k) @ CHR 0x22 # CHR '':'' # stringify j @ s" for s
      by (simp add: kv member_text_def quote_def)
    ultimately show ?thesis using False n kv
      by (simp add: join_Cons next_token_Cons parse_escaped_string)
  qed
qed simp

lemma parse_stringify: "parsed_back j"
proof (induction j)
  case (JNum i)
  have head: "\<exists>c cs. int_digits i = c # cs \<and> char_tag c = 2"
    using hd_stringify [of "JNum i"] by (cases "int_digits i") (auto simp: json_tag_def)
  show ?case unfolding parsed_back_def
  proof (intro allI impI)
    fix n rest assume n: "length (stringify (JNum i)) \<le> n" and rest: "ends rest"
    from head obtain c cs where c: "int_digits i = c # cs" "char_tag c = 2" by blast
    with n obtain m where m: "n = Suc m" by (cases n) auto
    from c(2) have "\<not> is_space c" "c \<noteq> CHR ''{''" "c \<noteq> CHR ''[''" "c \<noteq> CHR 0x22" "c \<noteq> CHR ''n''" "c \<noteq> CHR ''t''" "c \<noteq> CHR ''f''"
      by (auto simp: char_tag_def is_space_def is_digit_def split: if_splits)
    with parse_number_digits [OF rest, of i] show "parse_value n (stringify (JNum i) @ rest) = Some (JNum i, rest)"
      by (simp add: m c(1) next_token_Cons)
  qed
next
  case (JStr s)
  show ?case unfolding parsed_back_def
  proof (intro allI impI)
    fix n rest assume "length (stringify (JStr s)) \<le> n"
    then obtain m where m: "n = Suc m" by (cases n) (auto simp: quote_def)
    show "parse_value n (stringify (JStr s) @ rest) = Some (JStr s, rest)"
      by (simp add: m quote_def next_token_Cons parse_escaped_string)
  qed
next
  case (JArr js)
  show ?case unfolding parsed_back_def
  proof (intro allI impI)
    fix n rest assume "length (stringify (JArr js)) \<le> n"
    then obtain m where m: "n = Suc m" "length (join '','' (map stringify js)) < m" by (cases n) auto
    show "parse_value n (stringify (JArr js) @ rest) = Some (JArr js, rest)"
    proof (cases js)
      case (Cons j ks)
      obtain c cs where c: "join '','' (map stringify js) @ CHR '']'' # rest = c # cs" "\<not> is_space c" "c \<noteq> CHR '']''"
        using stringify_head [of j] by (auto simp: Cons join_Cons)
      have "parse_elements m (join '','' (map stringify js) @ CHR '']'' # rest) = Some (js, rest)"
        using JArr m(2) by (intro parse_elements_join) (auto simp: Cons)
      with c show ?thesis by (simp add: m(1) next_token_Cons)
    qed (simp add: m(1) next_token_Cons)
  qed
next
  case (JObj kvs)
  have body: "stringify (JObj kvs) = CHR ''{'' # join '','' (map member_text kvs) @ ''}''"
    by (simp add: member_text_def [abs_def])
  show ?case unfolding parsed_back_def
  proof (intro allI impI)
    fix n rest assume "length (stringify (JObj kvs)) \<le> n"
    then obtain m where m: "n = Suc m" "length (join '','' (map member_text kvs)) < m" unfolding body by (cases n) auto
    show "parse_value n (stringify (JObj kvs) @ rest) = Some (JObj kvs, rest)"
    proof (cases kvs)
      case (Cons kv ks)
      obtain cs where c: "join '','' (map member_text kvs) @ CHR ''}'' # rest = CHR 0x22 # cs"
        by (auto simp: Cons join_Cons member_text_def quote_def)
      have "parse_members m (join '','' (map member_text kvs) @ CHR ''}'' # rest) = Some (kvs, rest)"
        using JObj m(2) by (intro parse_members_join) (force simp: Cons snds.simps)+
      with c show ?thesis unfolding body by (simp add: m(1) next_token_Cons)
    qed (simp add: m(1) next_token_Cons)
  qed
next
  case JNull
  show ?case unfolding parsed_back_def
  proof (intro allI impI)
    fix n rest assume "length (stringify JNull) \<le> n"
    then obtain m where "n = Suc m" by (cases n) auto
    then show "parse_value n (stringify JNull @ rest) = Some (JNull, rest)"
      by (simp add: next_token_Cons parse_literal_def)
  qed
next
  case (JBool b)
  show ?case unfolding parsed_back_def
  proof (intro allI impI)
    fix n rest assume "length (stringify (JBool b)) \<le> n"
    then obtain m where "n = Suc m" by (cases n) (auto split: if_splits)
    then show "parse_value n (stringify (JBool b) @ rest) = Some (JBool b, rest)"
      by (simp add: next_token_Cons parse_literal_def)
  qed
qed

lemma JSON_parse_stringify: "JSON_parse (stringify j) = Some j"
proof -
  have "parse_value (length (stringify j)) (stringify j @ []) = Some (j, [])"
    using parse_stringify [of j] unfolding parsed_back_def by (simp only: order_refl ends_simps)
  then show ?thesis by (simp add: JSON_parse_def)
qed

section \<open>Values of a declared shape\<close>

text \<open>
  The sources cast what \<open>JSON.parse\<close> returns to an interface without a check. The readers
  below say when a value has the shape of an interface, and which value of the model it then
  is; on other values they are \<open>None\<close> and nothing is said about the code. Members that the
  interface does not name are left out.
\<close>

definition member :: "string \<Rightarrow> json \<Rightarrow> json option" where
  "member k j = (case j of JObj kvs \<Rightarrow> map_of (rev kvs) k | _ \<Rightarrow> None)"

definition field :: "string \<Rightarrow> (json \<Rightarrow> 'a option) \<Rightarrow> json \<Rightarrow> 'a option" where
  "field k f j = Option.bind (member k j) f"

definition optional_field :: "string \<Rightarrow> (json \<Rightarrow> 'a option) \<Rightarrow> json \<Rightarrow> 'a option option" where
  "optional_field k f j = (case member k j of None \<Rightarrow> Some None | Some v \<Rightarrow> map_option Some (f v))"

definition nullable :: "(json \<Rightarrow> 'a option) \<Rightarrow> json \<Rightarrow> 'a option option" where
  "nullable f j = (if j = JNull then Some None else map_option Some (f j))"

fun as_string :: "json \<Rightarrow> string option" where
  "as_string (JStr s) = Some s"
| "as_string _ = None"

fun as_int :: "json \<Rightarrow> int option" where
  "as_int (JNum i) = Some i"
| "as_int _ = None"

definition as_number :: "json \<Rightarrow> number option" where
  "as_number j = map_option Finite (as_int j)"

fun as_list :: "(json \<Rightarrow> 'a option) \<Rightarrow> json \<Rightarrow> 'a list option" where
  "as_list f (JArr js) = those (map f js)"
| "as_list f _ = None"

definition as_enum :: "('a \<Rightarrow> string) \<Rightarrow> 'a list \<Rightarrow> json \<Rightarrow> 'a option" where
  "as_enum name xs j = Option.bind (as_string j) (\<lambda>s. List.find (\<lambda>x. name x = s) xs)"

text \<open>A text that is stored, read as one of a shape and restored from it.\<close>

definition restore_text :: "(json \<Rightarrow> 's option) \<Rightarrow> ('s \<Rightarrow> 'a outcome) \<Rightarrow> string \<Rightarrow> 'a outcome option" where
  "restore_text read restore text = map_option restore (Option.bind (JSON_parse text) read)"

lemma those_map: "(\<And>x. x \<in> set xs \<Longrightarrow> f (g x) = Some x) \<Longrightarrow> those (map f (map g xs)) = Some xs"
  by (induction xs) simp_all

lemma as_list_map: "(\<And>x. x \<in> set xs \<Longrightarrow> f (g x) = Some x) \<Longrightarrow> as_list f (JArr (map g xs)) = Some xs"
  by (simp add: those_map [unfolded map_map comp_def] comp_def)

locale text_form = stored_form store restore made
    for store :: "'a \<Rightarrow> 's" and restore :: "'s \<Rightarrow> 'a outcome" and made :: "'a \<Rightarrow> bool" +
  fixes render :: "'s \<Rightarrow> json" and read :: "json \<Rightarrow> 's option"
  assumes read_render: "made x \<Longrightarrow> read (render (store x)) = Some (store x)"
begin

lemma text_restored: "made x \<Longrightarrow> restore_text read restore (stringify (render (store x))) = Some (Inr x)"
  by (simp add: restore_text_def JSON_parse_stringify read_render restore_store)

lemma text_determines: "made x \<Longrightarrow> made y \<Longrightarrow> stringify (render (store x)) = stringify (render (store y)) \<longleftrightarrow> x = y"
  by (metis text_restored option.inject sum.inject(2))

end

end
