(* ===== verification/Working_Set_Proposal.thy ===== *)
theory Working_Set_Proposal
  imports Universe_Laws Context_Universe Json_Parser
begin

text \<open>
  Model-usable representations of source versions (\<open>representation/context-representation.ts\<close>),
  proposed working sets (\<open>planning/proposed-working-set.ts\<close>) and the deterministic planner
  that makes them (\<open>planning/planner.ts\<close>).
\<close>

section \<open>Representations\<close>

datatype representation_kind = RK_REFERENCE | RK_METADATA | RK_FULL | RK_SYMBOL | RK_LINE_RANGE | RK_DIFF | RK_SUMMARY

fun representation_kind_str :: "representation_kind \<Rightarrow> string" where
  "representation_kind_str RK_REFERENCE = ''REFERENCE''"
| "representation_kind_str RK_METADATA = ''METADATA''"
| "representation_kind_str RK_FULL = ''FULL''"
| "representation_kind_str RK_SYMBOL = ''SYMBOL''"
| "representation_kind_str RK_LINE_RANGE = ''LINE_RANGE''"
| "representation_kind_str RK_DIFF = ''DIFF''"
| "representation_kind_str RK_SUMMARY = ''SUMMARY''"

datatype lossiness = LS_NONE | LS_BOUNDED | LS_LOSSY

fun lossiness_str :: "lossiness \<Rightarrow> string" where
  "lossiness_str LS_NONE = ''NONE''"
| "lossiness_str LS_BOUNDED = ''BOUNDED''"
| "lossiness_str LS_LOSSY = ''LOSSY''"

record representation =
  rp_id :: string
  rp_kind :: representation_kind
  rp_sourceVersionIds :: "string list"
  rp_contentHash :: string
  rp_tokenEstimate :: int
  rp_lossiness :: lossiness
  rp_derivation :: json
  rp_content :: "string option"
  rp_contentRef :: "string option"

definition createRepresentationId :: "runtime \<Rightarrow> representation_kind \<Rightarrow> string list \<Rightarrow> string \<Rightarrow> string" where
  "createRepresentationId rt kind sourceVersionIds contentHash =
     rt_sha256Hex rt (''repr-v1|'' @ representation_kind_str kind @ ''|'' @ join '','' (sort_strings sourceVersionIds)
       @ ''|'' @ contentHash)"

definition createRepresentation ::
  "runtime \<Rightarrow> representation_kind \<Rightarrow> string list \<Rightarrow> string \<Rightarrow> int \<Rightarrow> lossiness \<Rightarrow> json \<Rightarrow> string option \<Rightarrow> string option
   \<Rightarrow> representation outcome" where
  "createRepresentation rt kind sourceVersionIds contentHash tokenEstimate loss derivation content contentRef =
     try_then (fail_if (sourceVersionIds = []) ''ContextRepresentation requires at least one source version id'') (\<lambda>_.
     Inr \<lparr>rp_id = createRepresentationId rt kind sourceVersionIds contentHash, rp_kind = kind,
          rp_sourceVersionIds = sourceVersionIds, rp_contentHash = contentHash, rp_tokenEstimate = tokenEstimate,
          rp_lossiness = loss, rp_derivation = derivation, rp_content = content, rp_contentRef = contentRef\<rparr>)"

definition isRepresentationFresh :: "representation \<Rightarrow> source_version list \<Rightarrow> bool" where
  "isRepresentationFresh representation admittedVersions =
     (let admittedByVersionId = new_Map (map (\<lambda>v. (cv_versionId v, v)) admittedVersions) in
      \<forall>versionId\<in>set (rp_sourceVersionIds representation). map_of admittedByVersionId versionId \<noteq> None)"

section \<open>Proposed working sets\<close>

datatype working_priority = WP0 | WP1 | WP2 | WP3

fun working_priority_str :: "working_priority \<Rightarrow> string" where
  "working_priority_str WP0 = ''P0''"
| "working_priority_str WP1 = ''P1''"
| "working_priority_str WP2 = ''P2''"
| "working_priority_str WP3 = ''P3''"

record proposed_entry =
  pe_sourceId :: string
  pe_sourceVersionId :: string
  pe_representation :: representation
  pe_priority :: working_priority
  pe_reason :: "string list"
  pe_estimatedTokens :: "int option"

record proposed_working_set =
  pw_id :: string
  pw_universeRevisionId :: string
  pw_previousCommittedWorkingSetId :: "string option"
  pw_entries :: "proposed_entry list"
  pw_plannerVersion :: string
  pw_createdAt :: number
  pw_logicalHash :: string

definition representationFingerprint :: "representation \<Rightarrow> string" where
  "representationFingerprint representation =
     join bar [rp_id representation, representation_kind_str (rp_kind representation),
       join '','' (rp_sourceVersionIds representation), rp_contentHash representation,
       int_digits (rp_tokenEstimate representation), lossiness_str (rp_lossiness representation)]"

definition canonicalProposedEntry :: "proposed_entry \<Rightarrow> string" where
  "canonicalProposedEntry entry =
     join bar [pe_sourceId entry, pe_sourceVersionId entry, representationFingerprint (pe_representation entry),
       working_priority_str (pe_priority entry), join '','' (pe_reason entry),
       int_digits (default_to (pe_estimatedTokens entry) (rp_tokenEstimate (pe_representation entry)))]"

definition computeProposedWorkingSetLogicalHash ::
  "runtime \<Rightarrow> string \<Rightarrow> string option \<Rightarrow> proposed_entry list \<Rightarrow> string \<Rightarrow> number \<Rightarrow> string" where
  "computeProposedWorkingSetLogicalHash rt universeRevisionId previousId entries plannerVersion createdAt =
     rt_sha256Hex rt (join unit_separator
       ([''proposed-working-set-v1'', universeRevisionId, default_to previousId ''-'', plannerVersion, num_str createdAt]
        @ map canonicalProposedEntry entries))"

definition check_proposed_entry :: "string set \<Rightarrow> proposed_entry \<Rightarrow> string set outcome" where
  "check_proposed_entry sourceIds entry =
     try_then (fail_if (pe_sourceId entry \<in> sourceIds)
       (''ProposedWorkingSet contains duplicate source '' @ pe_sourceId entry)) (\<lambda>_.
     try_then (fail_if (pe_sourceVersionId entry \<notin> set (rp_sourceVersionIds (pe_representation entry)))
       (''representation '' @ rp_id (pe_representation entry) @ '' does not contain proposed version ''
        @ pe_sourceVersionId entry)) (\<lambda>_.
     try_then (fail_if (case pe_estimatedTokens entry of None \<Rightarrow> False | Some n \<Rightarrow> n < 0)
       (''estimatedTokens must be non-negative for '' @ pe_sourceId entry)) (\<lambda>_.
     Inr (insert (pe_sourceId entry) sourceIds))))"

definition createProposedWorkingSet ::
  "runtime \<Rightarrow> universe_revision \<Rightarrow> string option \<Rightarrow> proposed_entry list \<Rightarrow> string \<Rightarrow> number \<Rightarrow> string option
   \<Rightarrow> proposed_working_set outcome" where
  "createProposedWorkingSet rt universe previousId entries plannerVersion createdAt givenId =
     try_then (fail_if (\<not> isFinite createdAt) ''ProposedWorkingSet.createdAt must be a finite number'') (\<lambda>_.
     try_then (for_each check_proposed_entry {} entries) (\<lambda>_.
     (let logicalHash = computeProposedWorkingSetLogicalHash rt (ur_revisionId universe) previousId entries
            plannerVersion createdAt;
          expectedId = ''proposed-working-set:'' @ take 24 logicalHash
      in try_then (fail_if (givenId \<noteq> None \<and> givenId \<noteq> Some expectedId)
           (''ProposedWorkingSet.id must equal '' @ expectedId)) (\<lambda>_.
         Inr \<lparr>pw_id = expectedId, pw_universeRevisionId = ur_revisionId universe,
              pw_previousCommittedWorkingSetId = previousId, pw_entries = entries,
              pw_plannerVersion = plannerVersion, pw_createdAt = createdAt, pw_logicalHash = logicalHash\<rparr>))))"

text \<open>
  The stored form is the JSON text of an object with these fields. A representation is copied
  field by field as it is read back.
\<close>

record serialized_proposal =
  sp_schemaVersion :: int
  sp_id :: string
  sp_universeRevisionId :: string
  sp_previousCommittedWorkingSetId :: "string option"
  sp_entries :: "proposed_entry list"
  sp_plannerVersion :: string
  sp_createdAt :: number
  sp_logicalHash :: string

definition representation_json :: "representation \<Rightarrow> json" where
  "representation_json r = JObj
     ([(''id'', JStr (rp_id r)), (''kind'', JStr (representation_kind_str (rp_kind r))),
       (''sourceVersionIds'', JArr (map JStr (rp_sourceVersionIds r))), (''contentHash'', JStr (rp_contentHash r)),
       (''tokenEstimate'', JNum (rp_tokenEstimate r)), (''lossiness'', JStr (lossiness_str (rp_lossiness r))),
       (''derivation'', rp_derivation r)]
      @ optional_member ''content'' (rp_content r) @ optional_member ''contentRef'' (rp_contentRef r))"

definition proposed_entry_json :: "proposed_entry \<Rightarrow> json" where
  "proposed_entry_json e = JObj
     ([(''sourceId'', JStr (pe_sourceId e)), (''sourceVersionId'', JStr (pe_sourceVersionId e)),
       (''representation'', representation_json (pe_representation e)),
       (''priority'', JStr (working_priority_str (pe_priority e))), (''reason'', JArr (map JStr (pe_reason e)))]
      @ (case pe_estimatedTokens e of None \<Rightarrow> [] | Some n \<Rightarrow> [(''estimatedTokens'', JNum n)]))"

definition serialized_proposed_working_set :: "proposed_working_set \<Rightarrow> serialized_proposal" where
  "serialized_proposed_working_set proposal =
     \<lparr>sp_schemaVersion = 1, sp_id = pw_id proposal, sp_universeRevisionId = pw_universeRevisionId proposal,
      sp_previousCommittedWorkingSetId = pw_previousCommittedWorkingSetId proposal, sp_entries = pw_entries proposal,
      sp_plannerVersion = pw_plannerVersion proposal, sp_createdAt = pw_createdAt proposal,
      sp_logicalHash = pw_logicalHash proposal\<rparr>"

definition serialized_proposal_json :: "serialized_proposal \<Rightarrow> json" where
  "serialized_proposal_json v = JObj
     [(''schemaVersion'', JNum (sp_schemaVersion v)), (''id'', JStr (sp_id v)),
      (''universeRevisionId'', JStr (sp_universeRevisionId v)),
      (''previousCommittedWorkingSetId'', jopt (sp_previousCommittedWorkingSetId v)),
      (''entries'', JArr (map proposed_entry_json (sp_entries v))),
      (''planner'', JObj [(''kind'', JStr ''DETERMINISTIC''), (''version'', JStr (sp_plannerVersion v))]),
      (''createdAt'', num_json (sp_createdAt v)), (''logicalHash'', JStr (sp_logicalHash v))]"

definition serializeProposedWorkingSet :: "proposed_working_set \<Rightarrow> string" where
  "serializeProposedWorkingSet proposal = stringify (serialized_proposal_json (serialized_proposed_working_set proposal))"

definition read_representation :: "json \<Rightarrow> representation option" where
  "read_representation j =
     do { i \<leftarrow> field ''id'' as_string j;
          kind \<leftarrow> field ''kind'' (as_enum representation_kind_str
            [RK_REFERENCE, RK_METADATA, RK_FULL, RK_SYMBOL, RK_LINE_RANGE, RK_DIFF, RK_SUMMARY]) j;
          versionIds \<leftarrow> field ''sourceVersionIds'' (as_list as_string) j;
          h \<leftarrow> field ''contentHash'' as_string j;
          n \<leftarrow> field ''tokenEstimate'' as_int j;
          loss \<leftarrow> field ''lossiness'' (as_enum lossiness_str [LS_NONE, LS_BOUNDED, LS_LOSSY]) j;
          derivation \<leftarrow> member ''derivation'' j;
          content \<leftarrow> optional_field ''content'' as_string j;
          contentRef \<leftarrow> optional_field ''contentRef'' as_string j;
          Some \<lparr>rp_id = i, rp_kind = kind, rp_sourceVersionIds = versionIds, rp_contentHash = h, rp_tokenEstimate = n,
            rp_lossiness = loss, rp_derivation = derivation, rp_content = content, rp_contentRef = contentRef\<rparr> }"

abbreviation read_priority :: "json \<Rightarrow> working_priority option" where
  "read_priority \<equiv> as_enum working_priority_str [WP0, WP1, WP2, WP3]"

definition read_proposed_entry :: "json \<Rightarrow> proposed_entry option" where
  "read_proposed_entry j =
     do { i \<leftarrow> field ''sourceId'' as_string j;
          v \<leftarrow> field ''sourceVersionId'' as_string j;
          rep \<leftarrow> field ''representation'' read_representation j;
          priority \<leftarrow> field ''priority'' read_priority j;
          reason \<leftarrow> field ''reason'' (as_list as_string) j;
          n \<leftarrow> optional_field ''estimatedTokens'' as_int j;
          Some \<lparr>pe_sourceId = i, pe_sourceVersionId = v, pe_representation = rep, pe_priority = priority,
            pe_reason = reason, pe_estimatedTokens = n\<rparr> }"

definition read_proposal :: "json \<Rightarrow> serialized_proposal option" where
  "read_proposal j =
     do { schema \<leftarrow> field ''schemaVersion'' as_int j;
          i \<leftarrow> field ''id'' as_string j;
          u \<leftarrow> field ''universeRevisionId'' as_string j;
          previous \<leftarrow> field ''previousCommittedWorkingSetId'' (nullable as_string) j;
          es \<leftarrow> field ''entries'' (as_list read_proposed_entry) j;
          version \<leftarrow> field ''planner'' (field ''version'' as_string) j;
          t \<leftarrow> field ''createdAt'' as_number j;
          h \<leftarrow> field ''logicalHash'' as_string j;
          Some \<lparr>sp_schemaVersion = schema, sp_id = i, sp_universeRevisionId = u, sp_previousCommittedWorkingSetId = previous,
            sp_entries = es, sp_plannerVersion = version, sp_createdAt = t, sp_logicalHash = h\<rparr> }"

definition deserializeRepresentation :: "representation \<Rightarrow> representation" where
  "deserializeRepresentation r =
     \<lparr>rp_id = rp_id r, rp_kind = rp_kind r, rp_sourceVersionIds = rp_sourceVersionIds r,
      rp_contentHash = rp_contentHash r, rp_tokenEstimate = rp_tokenEstimate r, rp_lossiness = rp_lossiness r,
      rp_derivation = rp_derivation r, rp_content = rp_content r, rp_contentRef = rp_contentRef r\<rparr>"

definition deserialized_entry :: "proposed_entry \<Rightarrow> proposed_entry" where
  "deserialized_entry e =
     \<lparr>pe_sourceId = pe_sourceId e, pe_sourceVersionId = pe_sourceVersionId e,
      pe_representation = deserializeRepresentation (pe_representation e), pe_priority = pe_priority e,
      pe_reason = pe_reason e, pe_estimatedTokens = pe_estimatedTokens e\<rparr>"

definition deserializeProposedWorkingSet ::
  "runtime \<Rightarrow> serialized_proposal \<Rightarrow> universe_revision \<Rightarrow> proposed_working_set outcome" where
  "deserializeProposedWorkingSet rt value universe =
     try_then (fail_if (sp_schemaVersion value \<noteq> 1)
       (''unsupported ProposedWorkingSet schema: '' @ int_digits (sp_schemaVersion value))) (\<lambda>_.
     try_then (fail_if (sp_universeRevisionId value \<noteq> ur_revisionId universe)
       ''ProposedWorkingSet is bound to a different UniverseRevision'') (\<lambda>_.
     try_then (createProposedWorkingSet rt universe (sp_previousCommittedWorkingSetId value)
       (map deserialized_entry (sp_entries value)) (sp_plannerVersion value) (sp_createdAt value)
       (Some (sp_id value))) (\<lambda>proposal.
     try_then (fail_if (pw_logicalHash proposal \<noteq> sp_logicalHash value)
       ''ProposedWorkingSet logicalHash mismatch during deserialization'') (\<lambda>_.
     Inr proposal))))"

section \<open>Committed working sets: the data\<close>

record committed_entry =
  co_position :: int
  co_sourceId :: string
  co_sourceVersionId :: string
  co_representation :: representation
  co_priority :: working_priority
  co_reason :: "string list"
  co_renderedHash :: string

record committed_working_set =
  cw_id :: string
  cw_universeRevisionId :: string
  cw_proposedWorkingSetId :: string
  cw_admissionReceiptId :: string
  cw_previousCommittedWorkingSetId :: "string option"
  cw_entries :: "committed_entry list"
  cw_renderedContextHash :: string
  cw_adapterId :: string
  cw_adapterVersion :: string
  cw_createdAt :: number
  cw_logicalHash :: string

section \<open>The planner\<close>

record planner_hints =
  ph_mandatorySourceIds :: "string list option"
  ph_pinnedSourceIds :: "string list option"
  ph_currentTargetSourceIds :: "string list option"
  ph_referencedSourceIds :: "string list option"
  ph_dependencySourceIds :: "string list option"

record planner_policy =
  pp_version :: string
  pp_maxSemanticTokens :: number
  pp_represent :: "universe_entry \<Rightarrow> universe_version \<Rightarrow> representation option"

record candidate =
  cd_entry :: universe_entry
  cd_version :: universe_version
  cd_representation :: representation
  cd_priority :: working_priority
  cd_reasons :: "string list"

fun PRIORITY_ORDER :: "working_priority \<Rightarrow> int" where
  "PRIORITY_ORDER WP0 = 0"
| "PRIORITY_ORDER WP1 = 1"
| "PRIORITY_ORDER WP2 = 2"
| "PRIORITY_ORDER WP3 = 3"

definition sourceSet :: "string list option \<Rightarrow> string set" where
  "sourceSet xs = set (default_to xs [])"

definition classify :: "string \<Rightarrow> string set \<Rightarrow> planner_hints \<Rightarrow> working_priority \<times> string list" where
  "classify sourceId previous hints =
     (if sourceId \<in> sourceSet (ph_mandatorySourceIds hints) then (WP0, [''MANDATORY_INSTRUCTION''])
      else if sourceId \<in> sourceSet (ph_pinnedSourceIds hints) then (WP0, [''USER_PINNED''])
      else let directReasons =
             (if sourceId \<in> sourceSet (ph_currentTargetSourceIds hints) then [''CURRENT_TASK_TARGET''] else [])
             @ (if sourceId \<in> sourceSet (ph_referencedSourceIds hints) then [''CURRENT_TASK_REFERENCE''] else [])
           in if directReasons \<noteq> [] then (WP1, directReasons)
           else if sourceId \<in> sourceSet (ph_dependencySourceIds hints) then (WP2, [''DEPENDENCY''])
           else if sourceId \<in> previous then (WP2, [''PREVIOUSLY_ACTIVE''])
           else (WP3, [''BACKGROUND_CANDIDATE'']))"

definition add_candidate ::
  "universe_revision \<Rightarrow> planner_policy \<Rightarrow> string set \<Rightarrow> planner_hints \<Rightarrow> candidate list \<Rightarrow> universe_entry
   \<Rightarrow> candidate list outcome" where
  "add_candidate universe policy previous hints candidates entry =
     (if ue_observationState entry = US_ABSENT then Inr candidates
      else case ue_admittedVersionId entry of
        None \<Rightarrow> Inr candidates
      | Some versionId \<Rightarrow> (case map_of (ur_versions universe) versionId of
          None \<Rightarrow> fail (''Universe entry '' @ ue_sourceId entry @ '' references missing version '' @ versionId)
        | Some version \<Rightarrow> (case pp_represent policy entry version of
            None \<Rightarrow> Inr candidates
          | Some representation \<Rightarrow>
              (let (priority, reasons) = classify (ue_sourceId entry) previous hints in
               Inr (candidates @
                 [\<lparr>cd_entry = entry, cd_version = version, cd_representation = representation, cd_priority = priority,
                   cd_reasons = (if ue_observationState entry = US_UNAVAILABLE
                                 then reasons @ [''SOURCE_UNAVAILABLE_CONSERVATIVE_KEEP''] else reasons)\<rparr>])))))"

definition candidate_compare :: "runtime \<Rightarrow> candidate \<Rightarrow> candidate \<Rightarrow> int" where
  "candidate_compare rt a b =
     (let priorityDelta = PRIORITY_ORDER (cd_priority a) - PRIORITY_ORDER (cd_priority b) in
      if priorityDelta \<noteq> 0 then priorityDelta
      else rt_localeCompare rt (ue_sourceId (cd_entry a)) (ue_sourceId (cd_entry b)))"

fun select_candidates :: "int \<Rightarrow> int \<Rightarrow> candidate list \<Rightarrow> candidate list" where
  "select_candidates budget estimatedTotal [] = []"
| "select_candidates budget estimatedTotal (c # cs) =
     (let estimate = rp_tokenEstimate (cd_representation c) in
      if cd_priority c = WP0 \<or> estimatedTotal + estimate \<le> budget
      then c # select_candidates budget (estimatedTotal + estimate) cs
      else select_candidates budget estimatedTotal cs)"

definition proposal_of :: "candidate \<Rightarrow> proposed_entry" where
  "proposal_of c =
     \<lparr>pe_sourceId = ue_sourceId (cd_entry c), pe_sourceVersionId = uv_versionId (cd_version c),
      pe_representation = cd_representation c, pe_priority = cd_priority c, pe_reason = cd_reasons c,
      pe_estimatedTokens = Some (rp_tokenEstimate (cd_representation c))\<rparr>"

definition planProposedWorkingSet ::
  "runtime \<Rightarrow> universe_revision \<Rightarrow> committed_working_set option \<Rightarrow> planner_policy \<Rightarrow> planner_hints option \<Rightarrow> number
   \<Rightarrow> proposed_working_set outcome" where
  "planProposedWorkingSet rt universe previousCommitted policy taskHints createdAt =
     (case pp_maxSemanticTokens policy of
        Finite budget \<Rightarrow>
          try_then (fail_if (budget < 0) ''Planner budget must be a non-negative finite number'') (\<lambda>_.
          (let hints = default_to taskHints
                 \<lparr>ph_mandatorySourceIds = None, ph_pinnedSourceIds = None, ph_currentTargetSourceIds = None,
                  ph_referencedSourceIds = None, ph_dependencySourceIds = None\<rparr>;
               previousSourceIds = (case previousCommitted of None \<Rightarrow> {} | Some c \<Rightarrow> co_sourceId ` set (cw_entries c))
           in try_then (for_each (add_candidate universe policy previousSourceIds hints) []
                (map_values (ur_entries universe))) (\<lambda>candidates.
              createProposedWorkingSet rt universe (map_option cw_id previousCommitted)
                (map proposal_of (select_candidates budget 0 (sort_by (candidate_compare rt) candidates)))
                (pp_version policy) createdAt None)))
      | _ \<Rightarrow> fail ''Planner budget must be a non-negative finite number'')"

end
