(* ===== verification/Proposal_Laws.thy ===== *)
theory Proposal_Laws
  imports Working_Set_Proposal "HOL-Library.Monad_Syntax"
begin

text \<open>
  What the planner promises: on every revision of a chain it makes a proposal, of admitted
  versions only, with every protected source in it, and within the budget as far as the
  protected sources allow.
\<close>

section \<open>Proposals\<close>

definition proposable :: "proposed_entry \<Rightarrow> bool" where
  "proposable p \<longleftrightarrow> pe_sourceVersionId p \<in> set (rp_sourceVersionIds (pe_representation p))
     \<and> (\<forall>n. pe_estimatedTokens p = Some n \<longrightarrow> 0 \<le> n)"

lemma check_proposed_loop:
  "for_each check_proposed_entry seen ps = Inr s \<longleftrightarrow>
     distinct (map pe_sourceId ps) \<and> pe_sourceId ` set ps \<inter> seen = {} \<and> (\<forall>p\<in>set ps. proposable p)
     \<and> s = seen \<union> pe_sourceId ` set ps"
proof (induction ps arbitrary: seen)
  case (Cons p ps)
  have "check_proposed_entry seen p = Inr t \<longleftrightarrow> pe_sourceId p \<notin> seen \<and> proposable p \<and> t = insert (pe_sourceId p) seen" for t
    by (auto simp: check_proposed_entry_def proposable_def try_simps split: option.splits)
  then show ?case by (auto simp: try_simps Cons.IH)
qed auto

definition proposal_made ::
  "runtime \<Rightarrow> string \<Rightarrow> string option \<Rightarrow> proposed_entry list \<Rightarrow> string \<Rightarrow> number \<Rightarrow> proposed_working_set" where
  "proposal_made rt u previousId ps ver t =
     (let h = computeProposedWorkingSetLogicalHash rt u previousId ps ver t in
      \<lparr>pw_id = ''proposed-working-set:'' @ take 24 h, pw_universeRevisionId = u,
       pw_previousCommittedWorkingSetId = previousId, pw_entries = ps, pw_plannerVersion = ver, pw_createdAt = t,
       pw_logicalHash = h\<rparr>)"

lemma createProposedWorkingSet_iff:
  "createProposedWorkingSet rt u previousId ps ver t i = Inr p \<longleftrightarrow>
     isFinite t \<and> distinct (map pe_sourceId ps) \<and> (\<forall>q\<in>set ps. proposable q)
     \<and> p = proposal_made rt (ur_revisionId u) previousId ps ver t \<and> (i = None \<or> i = Some (pw_id p))"
  unfolding createProposedWorkingSet_def Let_def proposal_made_def
  by (simp only: try_simps simp_thms check_proposed_loop sum.inject) auto

section \<open>Candidates\<close>

definition candidate_of ::
  "universe_revision \<Rightarrow> planner_policy \<Rightarrow> string set \<Rightarrow> planner_hints \<Rightarrow> universe_entry \<Rightarrow> candidate option" where
  "candidate_of u policy prev hints e =
     (if ue_observationState e = US_ABSENT then None else
      do { i \<leftarrow> ue_admittedVersionId e; v \<leftarrow> map_of (ur_versions u) i; rep \<leftarrow> pp_represent policy e v;
           Some \<lparr>cd_entry = e, cd_version = v, cd_representation = rep,
             cd_priority = fst (classify (ue_sourceId e) prev hints),
             cd_reasons = snd (classify (ue_sourceId e) prev hints)
               @ (if ue_observationState e = US_UNAVAILABLE then [''SOURCE_UNAVAILABLE_CONSERVATIVE_KEEP''] else [])\<rparr> })"

lemma candidate_of_SomeD:
  assumes "candidate_of u policy prev hints e = Some c"
  shows "cd_entry c = e \<and> ue_observationState e \<noteq> US_ABSENT \<and> ue_admittedVersionId e \<noteq> None
    \<and> map_of (ur_versions u) (the (ue_admittedVersionId e)) = Some (cd_version c)
    \<and> pp_represent policy e (cd_version c) = Some (cd_representation c)
    \<and> cd_priority c = fst (classify (ue_sourceId e) prev hints)"
  using assms by (auto simp: candidate_of_def split: if_splits bind_splits)

lemma add_candidate_ok:
  assumes "refers i (ur_versions u) (ue_admittedVersionId e)"
  shows "add_candidate u policy prev hints cs e = Inr (cs @ (case candidate_of u policy prev hints e of None \<Rightarrow> [] | Some c \<Rightarrow> [c]))"
  using assms by (auto simp: add_candidate_def candidate_of_def refers_def Let_def case_prod_beta split: option.splits bind_splits)

lemma add_candidates:
  "(\<And>e. e \<in> set es \<Longrightarrow> refers (ue_sourceId e) (ur_versions u) (ue_admittedVersionId e)) \<Longrightarrow>
   for_each (add_candidate u policy prev hints) cs es = Inr (cs @ List.map_filter (candidate_of u policy prev hints) es)"
proof (induction es arbitrary: cs)
  case (Cons e es)
  have "refers (ue_sourceId e) (ur_versions u) (ue_admittedVersionId e)" using Cons.prems by simp
  from add_candidate_ok [OF this] Cons show ?case by (simp add: map_filter_simps split: option.split)
qed (simp add: map_filter_simps)

lemma set_map_filter': "c \<in> set (List.map_filter f es) \<longleftrightarrow> (\<exists>e\<in>set es. f e = Some c)"
  by (induction es) (auto simp: map_filter_simps split: option.splits)

lemma candidates_distinct:
  assumes "distinct (map ue_sourceId es)"
  shows "distinct (map (ue_sourceId \<circ> cd_entry) (List.map_filter (candidate_of u policy prev hints) es))"
  using assms
proof (induction es)
  case (Cons e es)
  then show ?case
    by (auto simp: map_filter_simps set_map_filter' dest!: candidate_of_SomeD split: option.splits)
qed (simp add: map_filter_simps)

section \<open>Selection\<close>

definition estimates :: "candidate list \<Rightarrow> int" where
  "estimates cs = (\<Sum>c\<leftarrow>cs. rp_tokenEstimate (cd_representation c))"

definition protected_first :: "candidate list \<Rightarrow> bool" where
  "protected_first = sorted_wrt (\<lambda>a b. cd_priority b = WP0 \<longrightarrow> cd_priority a = WP0)"

lemma select_subset: "set (select_candidates b t cs) \<subseteq> set cs"
  by (induction b t cs rule: select_candidates.induct) (auto simp: Let_def)

lemma select_distinct: "distinct (map f cs) \<Longrightarrow> distinct (map f (select_candidates b t cs))"
proof (induction b t cs rule: select_candidates.induct)
  case (2 b t c cs)
  then show ?case using select_subset [of b _ cs] by (auto simp: Let_def)
qed simp

lemma select_protected: "c \<in> set cs \<Longrightarrow> cd_priority c = WP0 \<Longrightarrow> c \<in> set (select_candidates b t cs)"
  by (induction b t cs rule: select_candidates.induct) (auto simp: Let_def)

lemma no_protected: "(\<forall>c\<in>set cs. cd_priority c \<noteq> WP0) \<Longrightarrow> t \<le> m \<Longrightarrow> b \<le> m \<Longrightarrow> t + estimates (select_candidates b t cs) \<le> m"
proof (induction b t cs rule: select_candidates.induct)
  case (2 b t c cs)
  then show ?case by (cases "t + rp_tokenEstimate (cd_representation c) \<le> b") (auto simp: Let_def estimates_def algebra_simps)
qed (simp add: estimates_def)

lemma select_total:
  "protected_first cs \<Longrightarrow> t + estimates (select_candidates b t cs) \<le> max b (t + estimates (filter (\<lambda>c. cd_priority c = WP0) cs))"
proof (induction b t cs rule: select_candidates.induct)
  case (2 b t c cs)
  show ?case
  proof (cases "cd_priority c = WP0")
    case True
    with "2.prems" "2.IH"(1) [OF refl] show ?thesis
      by (simp add: Let_def estimates_def protected_first_def algebra_simps)
  next
    case False
    with "2.prems" have none: "\<forall>x\<in>set (c # cs). cd_priority x \<noteq> WP0" by (auto simp: protected_first_def)
    then have "filter (\<lambda>c. cd_priority c = WP0) (c # cs) = []" by (simp add: filter_empty_conv)
    then show ?thesis using no_protected [OF none, of t "max b t" b] by (simp add: estimates_def)
  qed
qed (simp add: estimates_def)

lemma candidate_compare_consistent:
  assumes "consistent (rt_localeCompare rt)"
  shows "consistent (candidate_compare rt)"
proof -
  have order: "candidate_compare rt a b \<le> 0 \<longleftrightarrow> PRIORITY_ORDER (cd_priority a) < PRIORITY_ORDER (cd_priority b)
      \<or> PRIORITY_ORDER (cd_priority a) = PRIORITY_ORDER (cd_priority b)
        \<and> rt_localeCompare rt (ue_sourceId (cd_entry a)) (ue_sourceId (cd_entry b)) \<le> 0" for a b
    by (auto simp: candidate_compare_def Let_def)
  have reverse: "0 \<le> candidate_compare rt b a \<longleftrightarrow> PRIORITY_ORDER (cd_priority a) < PRIORITY_ORDER (cd_priority b)
      \<or> PRIORITY_ORDER (cd_priority a) = PRIORITY_ORDER (cd_priority b)
        \<and> 0 \<le> rt_localeCompare rt (ue_sourceId (cd_entry b)) (ue_sourceId (cd_entry a))" for a b
    by (auto simp: candidate_compare_def Let_def)
  show ?thesis using assms unfolding consistent_def order reverse by (auto intro: less_trans)
qed

lemma PRIORITY_ORDER_WP0: "candidate_compare rt a b \<le> 0 \<Longrightarrow> cd_priority b = WP0 \<Longrightarrow> cd_priority a = WP0"
  by (cases "cd_priority a") (auto simp: candidate_compare_def Let_def split: if_splits)

lemma sorted_protected_first: "sorted_by (candidate_compare rt) cs \<Longrightarrow> protected_first cs"
  unfolding sorted_by_def protected_first_def
  by (erule sorted_wrt_mono_rel [rotated]) (auto dest: PRIORITY_ORDER_WP0)

section \<open>The planner\<close>

definition no_hints :: planner_hints where
  "no_hints = \<lparr>ph_mandatorySourceIds = None, ph_pinnedSourceIds = None, ph_currentTargetSourceIds = None,
     ph_referencedSourceIds = None, ph_dependencySourceIds = None\<rparr>"

definition protected_source :: "planner_hints option \<Rightarrow> string \<Rightarrow> bool" where
  "protected_source hints i \<longleftrightarrow> i \<in> sourceSet (ph_mandatorySourceIds (default_to hints no_hints))
     \<or> i \<in> sourceSet (ph_pinnedSourceIds (default_to hints no_hints))"

text \<open>A representation function that represents the version it is given, at no negative price.\<close>

definition honest :: "planner_policy \<Rightarrow> bool" where
  "honest policy \<longleftrightarrow> (\<forall>e v rep. pp_represent policy e v = Some rep \<longrightarrow>
     uv_versionId v \<in> set (rp_sourceVersionIds rep) \<and> 0 \<le> rp_tokenEstimate rep)"

text \<open>What a source contributes: the representation of its admitted version.\<close>

definition representable :: "universe_revision \<Rightarrow> planner_policy \<Rightarrow> string \<Rightarrow> string \<Rightarrow> representation \<Rightarrow> bool" where
  "representable u policy i v rep \<longleftrightarrow> (\<exists>e w. map_of (ur_entries u) i = Some e \<and> ue_observationState e \<noteq> US_ABSENT
     \<and> ue_admittedVersionId e = Some v \<and> map_of (ur_versions u) v = Some w \<and> pp_represent policy e w = Some rep)"

definition tokens :: "proposed_entry list \<Rightarrow> int" where
  "tokens ps = (\<Sum>p\<leftarrow>ps. rp_tokenEstimate (pe_representation p))"

definition candidates_in ::
  "universe_revision \<Rightarrow> committed_working_set option \<Rightarrow> planner_policy \<Rightarrow> planner_hints option \<Rightarrow> candidate list" where
  "candidates_in u prev policy hints =
     List.map_filter (candidate_of u policy (case prev of None \<Rightarrow> {} | Some c \<Rightarrow> co_sourceId ` set (cw_entries c))
       (default_to hints no_hints)) (map_values (ur_entries u))"

definition chosen ::
  "runtime \<Rightarrow> int \<Rightarrow> universe_revision \<Rightarrow> committed_working_set option \<Rightarrow> planner_policy \<Rightarrow> planner_hints option
   \<Rightarrow> candidate list" where
  "chosen rt budget u prev policy hints =
     select_candidates budget 0 (sort_by (candidate_compare rt) (candidates_in u prev policy hints))"

lemma classify_protected: "fst (classify i prev (default_to hints no_hints)) = WP0 \<longleftrightarrow> protected_source hints i"
  by (auto simp: classify_def protected_source_def Let_def)

lemma candidates_in_iff:
  assumes "revision_ok rt u"
  shows "(\<exists>c\<in>set (candidates_in u prev policy hints). ue_sourceId (cd_entry c) = i \<and> uv_versionId (cd_version c) = v
      \<and> cd_representation c = rep) \<longleftrightarrow> representable u policy i v rep"
    (is "?l \<longleftrightarrow> ?r")
proof
  have es: "keyed ue_sourceId (ur_entries u)" and vs: "keyed uv_versionId (ur_versions u)"
    using assms by (simp_all add: revision_ok_def sound_entries_def addressed_def)
  show ?r if ?l
  proof -
    from that obtain c e k where "(k, e) \<in> set (ur_entries u)"
        and c: "candidate_of u policy (case prev of None \<Rightarrow> {} | Some c \<Rightarrow> co_sourceId ` set (cw_entries c))
          (default_to hints no_hints) e = Some c"
        and eqs: "ue_sourceId (cd_entry c) = i" "uv_versionId (cd_version c) = v" "cd_representation c = rep"
      by (auto simp: candidates_in_def set_map_filter')
    moreover from this es have "k = ue_sourceId e" by (auto simp: keyed_def)
    ultimately have "map_of (ur_entries u) (ue_sourceId e) = Some e" using keyed_get [OF es] by simp
    moreover from candidate_of_SomeD [OF c] have
      "map_of (ur_versions u) (the (ue_admittedVersionId e)) = Some (cd_version c)" by simp
    moreover from this have "the (ue_admittedVersionId e) = uv_versionId (cd_version c)"
      using keyed_get [OF vs, of "the (ue_admittedVersionId e)" "cd_version c"] vs by (auto simp: keyed_def)
    ultimately show ?r using candidate_of_SomeD [OF c] eqs unfolding representable_def by auto
  qed
  show ?l if ?r
  proof -
    from that obtain e w where e: "map_of (ur_entries u) i = Some e" "ue_observationState e \<noteq> US_ABSENT"
        "ue_admittedVersionId e = Some v" and w: "map_of (ur_versions u) v = Some w" "pp_represent policy e w = Some rep"
      by (auto simp: representable_def)
    from e(1) have "(i, e) \<in> set (ur_entries u)" using keyed_get [OF es] by simp
    moreover from this es have "ue_sourceId e = i" by (auto simp: keyed_def)
    moreover from w(1) have "uv_versionId w = v" using keyed_get [OF vs, of v w] vs by (auto simp: keyed_def)
    ultimately show ?l using e w unfolding candidates_in_def set_map_filter' Bex_def
      by (intro exI [of _ "the (candidate_of u policy (case prev of None \<Rightarrow> {} | Some c \<Rightarrow> co_sourceId ` set (cw_entries c))
          (default_to hints no_hints) e)"]) (force simp: candidate_of_def)
  qed
qed

lemma planProposedWorkingSet_eq:
  assumes "revision_ok rt u" and "pp_maxSemanticTokens policy = Finite budget" and "0 \<le> budget"
  shows "planProposedWorkingSet rt u prev policy hints t =
    createProposedWorkingSet rt u (map_option cw_id prev) (map proposal_of (chosen rt budget u prev policy hints))
      (pp_version policy) t None"
proof -
  have "refers (ue_sourceId e) (ur_versions u) (ue_admittedVersionId e)" if "e \<in> set (map_values (ur_entries u))" for e
    using assms(1) that by (auto simp: revision_ok_def sound_entries_def assertEntryInvariant_iff)
  then have "for_each (add_candidate u policy ps hs) [] (map_values (ur_entries u))
      = Inr (List.map_filter (candidate_of u policy ps hs) (map_values (ur_entries u)))" for ps hs
    by (subst add_candidates) simp_all
  with assms(2,3) show ?thesis
    by (simp add: planProposedWorkingSet_def chosen_def candidates_in_def no_hints_def)
qed

lemma chosen_candidate: "c \<in> set (chosen rt budget u prev policy hints) \<Longrightarrow> c \<in> set (candidates_in u prev policy hints)"
  unfolding chosen_def using select_subset by fastforce

lemma candidate_protected:
  "c \<in> set (candidates_in u prev policy hints) \<Longrightarrow> cd_priority c = WP0 \<longleftrightarrow> protected_source hints (ue_sourceId (cd_entry c))"
  by (auto simp: candidates_in_def set_map_filter' classify_protected dest: candidate_of_SomeD)

lemma candidate_honest:
  assumes "honest policy" and "c \<in> set (candidates_in u prev policy hints)"
  shows "proposable (proposal_of c)"
proof -
  from assms(2) obtain e where "pp_represent policy e (cd_version c) = Some (cd_representation c)"
    by (auto simp: candidates_in_def set_map_filter' dest: candidate_of_SomeD)
  with assms(1) show ?thesis by (auto simp: honest_def proposable_def proposal_of_def)
qed

lemma chosen_tokens: "tokens (map proposal_of cs) = estimates cs"
  by (simp add: tokens_def estimates_def proposal_of_def comp_def)

lemma sum_list_sort_by: "sum_list (map f (sort_by cmp xs)) = (sum_list (map f xs) :: int)"
  by (metis mset_map mset_sort_by sum_mset_sum_list)

lemma proposed_source [simp]: "pe_sourceId (proposal_of c) = ue_sourceId (cd_entry c)"
  by (simp add: proposal_of_def)

lemma chosen_distinct:
  assumes "revision_ok rt u"
  shows "distinct (map pe_sourceId (map proposal_of (chosen rt budget u prev policy hints)))"
proof -
  have "distinct (map ue_sourceId (map_values (ur_entries u)))"
    using assms keyed_distinct by (auto simp: revision_ok_def sound_entries_def)
  from candidates_distinct [OF this] show ?thesis
    by (simp add: chosen_def candidates_in_def comp_def select_distinct distinct_map_sort_by [unfolded comp_def])
qed

lemma chosen_total:
  assumes "consistent (rt_localeCompare rt)"
  shows "tokens (map proposal_of (chosen rt budget u prev policy hints)) \<le>
    max budget (tokens (filter (\<lambda>p. protected_source hints (pe_sourceId p))
      (map proposal_of (chosen rt budget u prev policy hints))))"
proof -
  let ?cs = "sort_by (candidate_compare rt) (candidates_in u prev policy hints)"
  have same: "filter (\<lambda>c. cd_priority c = WP0) (select_candidates b t cs) = filter (\<lambda>c. cd_priority c = WP0) cs" for b t cs
    by (induction b t cs rule: select_candidates.induct) (auto simp: Let_def)
  have "estimates (chosen rt budget u prev policy hints) \<le> max budget (estimates (filter (\<lambda>c. cd_priority c = WP0) ?cs))"
    using select_total [of ?cs 0 budget] sorted_protected_first [OF sorted_sort_by [OF candidate_compare_consistent [OF assms]]]
    by (simp add: chosen_def)
  also have "filter (\<lambda>c. cd_priority c = WP0) ?cs = filter (\<lambda>c. cd_priority c = WP0) (chosen rt budget u prev policy hints)"
    by (simp add: chosen_def same)
  also have "\<dots> = filter (\<lambda>c. protected_source hints (ue_sourceId (cd_entry c))) (chosen rt budget u prev policy hints)"
    by (rule filter_cong) (auto dest: chosen_candidate simp: candidate_protected)
  finally show ?thesis by (simp add: chosen_tokens filter_map comp_def)
qed

lemma chosen_entries:
  assumes "revision_ok rt u" and "p \<in> set (map proposal_of (chosen rt budget u prev policy hints))"
  shows "representable u policy (pe_sourceId p) (pe_sourceVersionId p) (pe_representation p)"
  using assms(2) chosen_candidate candidates_in_iff [OF assms(1), of prev policy hints]
  by (force simp: proposal_of_def)

lemma protected_chosen:
  assumes "revision_ok rt u" and "representable u policy i v rep" and "protected_source hints i"
  shows "\<exists>p\<in>set (map proposal_of (chosen rt budget u prev policy hints)).
    pe_sourceId p = i \<and> pe_sourceVersionId p = v \<and> pe_representation p = rep"
proof -
  from candidates_in_iff [OF assms(1)] assms(2) obtain c where c: "c \<in> set (candidates_in u prev policy hints)"
      "ue_sourceId (cd_entry c) = i" "uv_versionId (cd_version c) = v" "cd_representation c = rep" by blast
  with assms(3) candidate_protected [OF c(1)] have "c \<in> set (chosen rt budget u prev policy hints)"
    by (auto simp: chosen_def intro: select_protected)
  with c show ?thesis by (force simp: proposal_of_def)
qed

lemma plan_made:
  assumes "revision_ok rt u" and "pp_maxSemanticTokens policy = Finite budget" and "0 \<le> budget" and "isFinite t"
    and "honest policy"
  shows "planProposedWorkingSet rt u prev policy hints t =
    Inr (proposal_made rt (ur_revisionId u) (map_option cw_id prev)
      (map proposal_of (chosen rt budget u prev policy hints)) (pp_version policy) t)"
  unfolding planProposedWorkingSet_eq [OF assms(1-3)] createProposedWorkingSet_iff
  using assms(4) chosen_distinct [OF assms(1)] by (auto intro: candidate_honest [OF assms(5)] chosen_candidate)

text \<open>
  C24. On every revision of a chain the planner returns a proposal, for every representation
  function that represents the version it is given at no negative price. The proposal names
  no source twice; each of its entries is the representation of the version that the
  universe admits for a source that is not absent; every mandatory or pinned source that can
  be represented is in it; and its token estimates stay within the budget, or within the
  estimates of the mandatory and pinned sources where these alone exceed it.
\<close>

theorem planProposedWorkingSet_correct:
  assumes "revision_chain rt u" and "consistent (rt_localeCompare rt)" and "honest policy"
    and "pp_maxSemanticTokens policy = Finite budget" and "0 \<le> budget" and "isFinite createdAt"
  shows "\<exists>p. planProposedWorkingSet rt u prev policy hints createdAt = Inr p
    \<and> distinct (map pe_sourceId (pw_entries p))
    \<and> (\<forall>x\<in>set (pw_entries p). representable u policy (pe_sourceId x) (pe_sourceVersionId x) (pe_representation x))
    \<and> (\<forall>i v rep. representable u policy i v rep \<and> protected_source hints i \<longrightarrow>
        (\<exists>x\<in>set (pw_entries p). pe_sourceId x = i \<and> pe_sourceVersionId x = v \<and> pe_representation x = rep))
    \<and> tokens (pw_entries p) \<le> max budget (tokens (filter (\<lambda>x. protected_source hints (pe_sourceId x)) (pw_entries p)))"
proof -
  have ok: "revision_ok rt u" by (rule chain_ok [OF assms(1)])
  have entries: "pw_entries (proposal_made rt a b ps c d) = ps" for a b ps c d
    by (simp add: proposal_made_def Let_def)
  show ?thesis
    unfolding plan_made [OF ok assms(4-6,3)] sum.inject ex_simps simp_thms entries
    using chosen_distinct [OF ok] chosen_entries [OF ok] protected_chosen [OF ok] chosen_total [OF assms(2)]
    by (intro exI [of _ "proposal_made rt (ur_revisionId u) (map_option cw_id prev)
      (map proposal_of (chosen rt budget u prev policy hints)) (pp_version policy) createdAt"] conjI refl)
      (simp_all only: entries, blast+)
qed

text \<open>A policy that represents every version in full at three tokens.\<close>

definition full_of :: "string \<Rightarrow> representation" where
  "full_of v = \<lparr>rp_id = v, rp_kind = RK_FULL, rp_sourceVersionIds = [v], rp_contentHash = ''h'', rp_tokenEstimate = 3,
     rp_lossiness = LS_NONE, rp_derivation = JNull, rp_content = None, rp_contentRef = None\<rparr>"

definition full_policy :: planner_policy where
  "full_policy = \<lparr>pp_version = ''v0'', pp_maxSemanticTokens = Finite 10, pp_represent = (\<lambda>_ v. Some (full_of (uv_versionId v)))\<rparr>"

lemma full_policy_honest: "honest full_policy"
  by (auto simp: honest_def full_policy_def full_of_def)

theorem planProposedWorkingSet_correct_witness:
  "\<exists>p. planProposedWorkingSet plain one_source None full_policy None (Finite 7) = Inr p
    \<and> tokens (pw_entries p) \<le> max 10 (tokens (filter (\<lambda>x. protected_source None (pe_sourceId x)) (pw_entries p)))"
  using planProposedWorkingSet_correct [OF one_source_chain plain_consistent full_policy_honest, of 10 "Finite 7" None None]
  by (auto simp: full_policy_def)

end
