(* ===== verification/Admission.thy ===== *)
theory Admission
  imports Working_Set_Proposal
begin

text \<open>
  Admission of a proposed working set against one universe revision
  (\<open>admission/admission.ts\<close>), the receipt it leaves (\<open>admission/receipt.ts\<close>) and the
  committed working set that is made of both (\<open>working-set/committed-working-set.ts\<close>).
\<close>

section \<open>Receipts\<close>

datatype rejection_reason = RJ_BUDGET | RJ_POLICY | RJ_STALE | RJ_CONFLICT | RJ_ADAPTER_LIMIT

fun rejection_reason_str :: "rejection_reason \<Rightarrow> string" where
  "rejection_reason_str RJ_BUDGET = ''BUDGET''"
| "rejection_reason_str RJ_POLICY = ''POLICY''"
| "rejection_reason_str RJ_STALE = ''STALE''"
| "rejection_reason_str RJ_CONFLICT = ''CONFLICT''"
| "rejection_reason_str RJ_ADAPTER_LIMIT = ''ADAPTER_LIMIT''"

datatype freshness = FR_FRESH | FR_LAST_GOOD

fun freshness_str :: "freshness \<Rightarrow> string" where
  "freshness_str FR_FRESH = ''FRESH''"
| "freshness_str FR_LAST_GOOD = ''LAST_GOOD''"

datatype admission_basis = AB_OBSERVED_CURRENT | AB_LAST_GOOD_FALLBACK

fun admission_basis_str :: "admission_basis \<Rightarrow> string" where
  "admission_basis_str AB_OBSERVED_CURRENT = ''OBSERVED_CURRENT''"
| "admission_basis_str AB_LAST_GOOD_FALLBACK = ''LAST_GOOD_FALLBACK''"

datatype admission_outcome =
  Admitted (ao_sourceId: string) (ao_sourceVersionId: string) freshness admission_basis (ao_representation: representation) string
| Rejected (ao_sourceId: string) (ao_sourceVersionId: string) rejection_reason
| Deferred (ao_sourceId: string) (ao_sourceVersionId: string) string

record admission_receipt =
  rc_id :: string
  rc_proposedWorkingSetId :: string
  rc_universeRevisionId :: string
  rc_outcomes :: "admission_outcome list"
  rc_renderedContextHash :: string
  rc_adapterId :: string
  rc_adapterVersion :: string
  rc_createdAt :: number
  rc_logicalHash :: string

fun canonicalOutcome :: "admission_outcome \<Rightarrow> string" where
  "canonicalOutcome (Admitted i v f b rep h) =
     join bar [''ADMITTED'', i, v, freshness_str f, admission_basis_str b, representationFingerprint rep, h]"
| "canonicalOutcome (Rejected i v reason) = join bar [''REJECTED'', i, v, rejection_reason_str reason]"
| "canonicalOutcome (Deferred i v reason) = join bar [''DEFERRED'', i, v, reason]"

definition computeAdmissionReceiptLogicalHash ::
  "runtime \<Rightarrow> string \<Rightarrow> string \<Rightarrow> admission_outcome list \<Rightarrow> string \<Rightarrow> string \<Rightarrow> string \<Rightarrow> number \<Rightarrow> string" where
  "computeAdmissionReceiptLogicalHash rt proposedWorkingSetId universeRevisionId outcomes renderedContextHash
     adapterId adapterVersion createdAt =
     rt_sha256Hex rt (join unit_separator
       ([''admission-receipt-v1'', proposedWorkingSetId, universeRevisionId, renderedContextHash, adapterId,
         adapterVersion, num_str createdAt] @ map canonicalOutcome outcomes))"

text \<open>
  The checks of one outcome. That freshness and basis are among the known values is a
  matter of type here; that they belong together is checked.
\<close>

definition check_outcome :: "(string \<times> string) list \<Rightarrow> string set \<Rightarrow> admission_outcome \<Rightarrow> string set outcome" where
  "check_outcome proposalVersions seen outcome =
     (let i = ao_sourceId outcome in
      try_then (fail_if (map_of proposalVersions i = None)
        (''AdmissionReceipt contains unknown proposal source '' @ i)) (\<lambda>_.
      try_then (fail_if (map_of proposalVersions i \<noteq> Some (ao_sourceVersionId outcome))
        (''AdmissionReceipt sourceVersionId does not match proposal for '' @ i)) (\<lambda>_.
      try_then (fail_if (i \<in> seen) (''AdmissionReceipt contains duplicate source '' @ i)) (\<lambda>_.
      try_then (case outcome of
          Admitted _ v f b rep _ \<Rightarrow>
            try_then (fail_if (f = FR_FRESH \<and> b \<noteq> AB_OBSERVED_CURRENT)
              (''AdmissionReceipt freshness/basis mismatch for '' @ i)) (\<lambda>_.
            try_then (fail_if (f = FR_LAST_GOOD \<and> b \<noteq> AB_LAST_GOOD_FALLBACK)
              (''AdmissionReceipt freshness/basis mismatch for '' @ i)) (\<lambda>_.
            fail_if (v \<notin> set (rp_sourceVersionIds rep))
              (''AdmissionReceipt representation does not contain outcome sourceVersionId for '' @ i)))
        | _ \<Rightarrow> Inr ()) (\<lambda>_.
      Inr (insert i seen))))))"

definition createAdmissionReceipt ::
  "runtime \<Rightarrow> proposed_working_set \<Rightarrow> string option \<Rightarrow> admission_outcome list \<Rightarrow> string \<Rightarrow> string \<Rightarrow> string \<Rightarrow> number
   \<Rightarrow> string option \<Rightarrow> admission_receipt outcome" where
  "createAdmissionReceipt rt proposal universeRevisionId outcomes renderedContextHash adapterId adapterVersion
     createdAt givenId =
     try_then (fail_if (\<not> isFinite createdAt) ''AdmissionReceipt.createdAt must be a finite number'') (\<lambda>_.
     (let proposalSourceIds = pe_sourceId ` set (pw_entries proposal);
          proposalVersions = new_Map (map (\<lambda>e. (pe_sourceId e, pe_sourceVersionId e)) (pw_entries proposal));
          universeId = default_to universeRevisionId (pw_universeRevisionId proposal)
      in try_then (for_each (check_outcome proposalVersions) {} outcomes) (\<lambda>seen.
         try_then (fail_if (card seen \<noteq> card proposalSourceIds)
           ''AdmissionReceipt must contain one outcome for every proposal entry'') (\<lambda>_.
         (let logicalHash = computeAdmissionReceiptLogicalHash rt (pw_id proposal) universeId outcomes
                renderedContextHash adapterId adapterVersion createdAt;
              expectedId = ''admission-receipt:'' @ take 24 logicalHash
          in try_then (fail_if (givenId \<noteq> None \<and> givenId \<noteq> Some expectedId)
               (''AdmissionReceipt.id must equal '' @ expectedId)) (\<lambda>_.
             Inr \<lparr>rc_id = expectedId, rc_proposedWorkingSetId = pw_id proposal, rc_universeRevisionId = universeId,
                  rc_outcomes = outcomes, rc_renderedContextHash = renderedContextHash, rc_adapterId = adapterId,
                  rc_adapterVersion = adapterVersion, rc_createdAt = createdAt, rc_logicalHash = logicalHash\<rparr>))))))"

text \<open>The stored form of a receipt.\<close>

record serialized_receipt =
  sr_schemaVersion :: int
  sr_id :: string
  sr_proposedWorkingSetId :: string
  sr_universeRevisionId :: string
  sr_outcomes :: "admission_outcome list"
  sr_renderedContextHash :: string
  sr_adapterId :: string
  sr_adapterVersion :: string
  sr_createdAt :: number
  sr_logicalHash :: string

fun outcome_json :: "admission_outcome \<Rightarrow> json" where
  "outcome_json (Admitted i v f b rep h) = JObj
     [(''status'', JStr ''ADMITTED''), (''sourceId'', JStr i), (''sourceVersionId'', JStr v),
      (''freshness'', JStr (freshness_str f)), (''admissionBasis'', JStr (admission_basis_str b)),
      (''representation'', representation_json rep), (''renderedHash'', JStr h)]"
| "outcome_json (Rejected i v reason) = JObj
     [(''status'', JStr ''REJECTED''), (''sourceId'', JStr i), (''sourceVersionId'', JStr v),
      (''reason'', JStr (rejection_reason_str reason))]"
| "outcome_json (Deferred i v reason) = JObj
     [(''status'', JStr ''DEFERRED''), (''sourceId'', JStr i), (''sourceVersionId'', JStr v), (''reason'', JStr reason)]"

definition serialized_admission_receipt :: "admission_receipt \<Rightarrow> serialized_receipt" where
  "serialized_admission_receipt receipt =
     \<lparr>sr_schemaVersion = 1, sr_id = rc_id receipt, sr_proposedWorkingSetId = rc_proposedWorkingSetId receipt,
      sr_universeRevisionId = rc_universeRevisionId receipt, sr_outcomes = rc_outcomes receipt,
      sr_renderedContextHash = rc_renderedContextHash receipt, sr_adapterId = rc_adapterId receipt,
      sr_adapterVersion = rc_adapterVersion receipt, sr_createdAt = rc_createdAt receipt,
      sr_logicalHash = rc_logicalHash receipt\<rparr>"

definition serialized_receipt_json :: "serialized_receipt \<Rightarrow> json" where
  "serialized_receipt_json v = JObj
     [(''schemaVersion'', JNum (sr_schemaVersion v)), (''id'', JStr (sr_id v)),
      (''proposedWorkingSetId'', JStr (sr_proposedWorkingSetId v)),
      (''universeRevisionId'', JStr (sr_universeRevisionId v)), (''outcomes'', JArr (map outcome_json (sr_outcomes v))),
      (''renderedContextHash'', JStr (sr_renderedContextHash v)), (''adapterId'', JStr (sr_adapterId v)),
      (''adapterVersion'', JStr (sr_adapterVersion v)), (''createdAt'', num_json (sr_createdAt v)),
      (''logicalHash'', JStr (sr_logicalHash v))]"

definition serializeAdmissionReceipt :: "admission_receipt \<Rightarrow> string" where
  "serializeAdmissionReceipt receipt = stringify (serialized_receipt_json (serialized_admission_receipt receipt))"

definition read_outcome :: "json \<Rightarrow> admission_outcome option" where
  "read_outcome j =
     do { status \<leftarrow> field ''status'' as_string j;
          i \<leftarrow> field ''sourceId'' as_string j;
          v \<leftarrow> field ''sourceVersionId'' as_string j;
          if status = ''ADMITTED'' then
            do { f \<leftarrow> field ''freshness'' (as_enum freshness_str [FR_FRESH, FR_LAST_GOOD]) j;
                 b \<leftarrow> field ''admissionBasis'' (as_enum admission_basis_str [AB_OBSERVED_CURRENT, AB_LAST_GOOD_FALLBACK]) j;
                 rep \<leftarrow> field ''representation'' read_representation j;
                 h \<leftarrow> field ''renderedHash'' as_string j;
                 Some (Admitted i v f b rep h) }
          else if status = ''REJECTED'' then
            do { reason \<leftarrow> field ''reason'' (as_enum rejection_reason_str
                   [RJ_BUDGET, RJ_POLICY, RJ_STALE, RJ_CONFLICT, RJ_ADAPTER_LIMIT]) j;
                 Some (Rejected i v reason) }
          else if status = ''DEFERRED'' then
            do { reason \<leftarrow> field ''reason'' as_string j; Some (Deferred i v reason) }
          else None }"

definition read_receipt :: "json \<Rightarrow> serialized_receipt option" where
  "read_receipt j =
     do { schema \<leftarrow> field ''schemaVersion'' as_int j;
          i \<leftarrow> field ''id'' as_string j;
          p \<leftarrow> field ''proposedWorkingSetId'' as_string j;
          u \<leftarrow> field ''universeRevisionId'' as_string j;
          xs \<leftarrow> field ''outcomes'' (as_list read_outcome) j;
          rh \<leftarrow> field ''renderedContextHash'' as_string j;
          ai \<leftarrow> field ''adapterId'' as_string j;
          av \<leftarrow> field ''adapterVersion'' as_string j;
          t \<leftarrow> field ''createdAt'' as_number j;
          h \<leftarrow> field ''logicalHash'' as_string j;
          Some \<lparr>sr_schemaVersion = schema, sr_id = i, sr_proposedWorkingSetId = p, sr_universeRevisionId = u,
            sr_outcomes = xs, sr_renderedContextHash = rh, sr_adapterId = ai, sr_adapterVersion = av,
            sr_createdAt = t, sr_logicalHash = h\<rparr> }"

definition deserializeAdmissionReceipt ::
  "runtime \<Rightarrow> serialized_receipt \<Rightarrow> proposed_working_set \<Rightarrow> universe_revision \<Rightarrow> admission_receipt outcome" where
  "deserializeAdmissionReceipt rt value proposal admissionUniverse =
     try_then (fail_if (sr_schemaVersion value \<noteq> 1)
       (''unsupported AdmissionReceipt schema: '' @ int_digits (sr_schemaVersion value))) (\<lambda>_.
     try_then (fail_if (sr_proposedWorkingSetId value \<noteq> pw_id proposal
         \<or> sr_universeRevisionId value \<noteq> ur_revisionId admissionUniverse)
       ''AdmissionReceipt is bound to a different proposal or admission UniverseRevision'') (\<lambda>_.
     try_then (createAdmissionReceipt rt proposal (Some (sr_universeRevisionId value)) (sr_outcomes value)
       (sr_renderedContextHash value) (sr_adapterId value) (sr_adapterVersion value) (sr_createdAt value)
       (Some (sr_id value))) (\<lambda>receipt.
     try_then (fail_if (rc_logicalHash receipt \<noteq> sr_logicalHash value)
       ''AdmissionReceipt logicalHash mismatch during deserialization'') (\<lambda>_.
     Inr receipt))))"

section \<open>Admission\<close>

datatype materialization =
  Materialized representation
| MaterialRejected rejection_reason
| MaterialDeferred string

record admission_adapter =
  aa_adapterId :: string
  aa_adapterVersion :: string
  aa_materialize :: "(proposed_entry \<Rightarrow> universe_entry \<Rightarrow> universe_version \<Rightarrow> int \<Rightarrow> materialization) option"
  aa_render :: "representation list \<Rightarrow> string"

definition renderedRepresentationHash :: "runtime \<Rightarrow> representation \<Rightarrow> string" where
  "renderedRepresentationHash rt representation =
     rt_sha256Hex rt (join bar [''rendered-representation-v1'', representation_kind_str (rp_kind representation),
       join '','' (rp_sourceVersionIds representation), rp_contentHash representation,
       int_digits (rp_tokenEstimate representation),
       (case rp_content representation of Some c \<Rightarrow> c | None \<Rightarrow> default_to (rp_contentRef representation) [])])"

definition admissionEvidence :: "universe_entry \<Rightarrow> string option \<times> freshness option \<times> admission_basis option" where
  "admissionEvidence entry =
     (case ue_observationState entry of
        US_PRESENT \<Rightarrow> (ue_observedVersionId entry, Some FR_FRESH, Some AB_OBSERVED_CURRENT)
      | US_UNAVAILABLE \<Rightarrow> (ue_lastGoodVersionId entry, Some FR_LAST_GOOD, Some AB_LAST_GOOD_FALLBACK)
      | US_ABSENT \<Rightarrow> (None, None, None))"

record admission_state =
  am_outcomes :: "admission_outcome list"
  am_admitted :: "representation list"
  am_remaining :: int

definition push_outcome :: "admission_state \<Rightarrow> admission_outcome \<Rightarrow> admission_state" where
  "push_outcome st x = st\<lparr>am_outcomes := am_outcomes st @ [x]\<rparr>"

definition admit_entry ::
  "runtime \<Rightarrow> universe_revision \<Rightarrow> admission_adapter \<Rightarrow> admission_state \<Rightarrow> proposed_entry \<Rightarrow> admission_state outcome" where
  "admit_entry rt universe adapter st p =
     (let i = pe_sourceId p; v = pe_sourceVersionId p in
      case map_of (ur_entries universe) i of
        None \<Rightarrow> Inr (push_outcome st (Rejected i v RJ_STALE))
      | Some entry \<Rightarrow>
          (let (versionId, fresh, basis) = admissionEvidence entry in
           if ue_observationState entry = US_ABSENT \<or> versionId = None \<or> versionId \<noteq> Some v
           then Inr (push_outcome st (Rejected i v RJ_STALE))
           else case (fresh, basis) of
             (Some f, Some b) \<Rightarrow>
               (case map_of (ur_versions universe) v of
                  None \<Rightarrow> Inr (push_outcome st (Rejected i v RJ_CONFLICT))
                | Some version \<Rightarrow>
                    if uv_sourceId version \<noteq> i then Inr (push_outcome st (Rejected i v RJ_CONFLICT))
                    else (case (case aa_materialize adapter of None \<Rightarrow> Materialized (pe_representation p)
                                | Some materialize \<Rightarrow> materialize p entry version (am_remaining st)) of
                        MaterialRejected reason \<Rightarrow> Inr (push_outcome st (Rejected i v reason))
                      | MaterialDeferred reason \<Rightarrow> Inr (push_outcome st (Deferred i v reason))
                      | Materialized rep \<Rightarrow>
                          if v \<notin> set (rp_sourceVersionIds rep) then Inr (push_outcome st (Rejected i v RJ_CONFLICT))
                          else if am_remaining st < rp_tokenEstimate rep
                          then Inr (push_outcome st (Rejected i v RJ_BUDGET))
                          else Inr (push_outcome (st\<lparr>am_admitted := am_admitted st @ [rep],
                                 am_remaining := am_remaining st - rp_tokenEstimate rep\<rparr>)
                                 (Admitted i v f b rep (renderedRepresentationHash rt rep)))))
           | _ \<Rightarrow> fail (''missing admission evidence for '' @ i)))"

definition admitWorkingSet ::
  "runtime \<Rightarrow> universe_revision \<Rightarrow> proposed_working_set \<Rightarrow> number \<Rightarrow> admission_adapter \<Rightarrow> number
   \<Rightarrow> admission_receipt outcome" where
  "admitWorkingSet rt universe proposal maxSemanticTokens adapter createdAt =
     (case maxSemanticTokens of
        Finite budget \<Rightarrow>
          try_then (fail_if (budget < 0) ''Admission budget must be a non-negative finite number'') (\<lambda>_.
          try_then (for_each (admit_entry rt universe adapter)
            \<lparr>am_outcomes = [], am_admitted = [], am_remaining = budget\<rparr> (pw_entries proposal)) (\<lambda>st.
          createAdmissionReceipt rt proposal (Some (ur_revisionId universe)) (am_outcomes st)
            (rt_sha256Hex rt (''rendered-context-v1|'' @ aa_render adapter (am_admitted st)))
            (aa_adapterId adapter) (aa_adapterVersion adapter) createdAt None))
      | _ \<Rightarrow> fail ''Admission budget must be a non-negative finite number'')"

section \<open>Commitment\<close>

definition canonicalCommittedEntry :: "committed_entry \<Rightarrow> string" where
  "canonicalCommittedEntry entry =
     join bar [int_digits (co_position entry), co_sourceId entry, co_sourceVersionId entry,
       rp_id (co_representation entry), representation_kind_str (rp_kind (co_representation entry)),
       rp_contentHash (co_representation entry), int_digits (rp_tokenEstimate (co_representation entry)),
       working_priority_str (co_priority entry), join '','' (co_reason entry), co_renderedHash entry]"

definition computeCommittedWorkingSetLogicalHash ::
  "runtime \<Rightarrow> string \<Rightarrow> string \<Rightarrow> string \<Rightarrow> string option \<Rightarrow> committed_entry list \<Rightarrow> string \<Rightarrow> string \<Rightarrow> string \<Rightarrow> number
   \<Rightarrow> string" where
  "computeCommittedWorkingSetLogicalHash rt universeRevisionId proposedWorkingSetId admissionReceiptId previousId entries
     renderedContextHash adapterId adapterVersion createdAt =
     rt_sha256Hex rt (join unit_separator
       ([''committed-working-set-v1'', universeRevisionId, proposedWorkingSetId, admissionReceiptId,
         default_to previousId ''-'', renderedContextHash, adapterId, adapterVersion, num_str createdAt]
        @ map canonicalCommittedEntry entries))"

definition currentVersionId :: "universe_revision \<Rightarrow> string \<Rightarrow> string option" where
  "currentVersionId universe i =
     (case map_of (ur_entries universe) i of None \<Rightarrow> None
      | Some entry \<Rightarrow> if ue_observationState entry = US_PRESENT then ue_observedVersionId entry
                      else ue_admittedVersionId entry)"

definition commit_entry ::
  "universe_revision \<Rightarrow> (string \<times> proposed_entry) list \<Rightarrow> (string \<times> admission_outcome) list \<Rightarrow> committed_entry list
   \<Rightarrow> proposed_entry \<Rightarrow> committed_entry list outcome" where
  "commit_entry universe proposalBySource outcomes entries p =
     (case map_of outcomes (pe_sourceId p) of
        None \<Rightarrow> fail (''missing admission outcome for '' @ pe_sourceId p)
      | Some (Admitted i v f b rep h) \<Rightarrow>
          (case map_of proposalBySource i of
             None \<Rightarrow> fail (''admitted outcome conflicts with proposal for '' @ i)
           | Some canonical \<Rightarrow>
               try_then (fail_if (pe_sourceVersionId canonical \<noteq> v \<or> v \<notin> set (rp_sourceVersionIds rep))
                 (''admitted outcome conflicts with proposal for '' @ i)) (\<lambda>_.
               try_then (fail_if ((case map_of (ur_versions universe) v of None \<Rightarrow> True
                     | Some version \<Rightarrow> uv_sourceId version \<noteq> i)
                   \<or> (case map_of (ur_entries universe) i of None \<Rightarrow> False
                      | Some entry \<Rightarrow> ue_observationState entry = US_ABSENT)
                   \<or> currentVersionId universe i \<noteq> Some v)
                 (''admitted outcome references unknown version '' @ v)) (\<lambda>_.
               Inr (entries @ [\<lparr>co_position = int (length entries), co_sourceId = i, co_sourceVersionId = v,
                 co_representation = rep, co_priority = pe_priority canonical, co_reason = pe_reason canonical,
                 co_renderedHash = h\<rparr>]))))
      | Some _ \<Rightarrow> Inr entries)"

definition commitAdmission ::
  "runtime \<Rightarrow> universe_revision \<Rightarrow> proposed_working_set \<Rightarrow> admission_receipt \<Rightarrow> committed_working_set option
   \<Rightarrow> string option \<Rightarrow> committed_working_set outcome" where
  "commitAdmission rt universe proposal receipt previous givenId =
     try_then (fail_if (rc_proposedWorkingSetId receipt \<noteq> pw_id proposal
         \<or> rc_universeRevisionId receipt \<noteq> ur_revisionId universe)
       ''receipt is bound to a different proposal or UniverseRevision'') (\<lambda>_.
     (let previousId = map_option cw_id previous in
      try_then (fail_if (pw_previousCommittedWorkingSetId proposal \<noteq> previousId)
        ''proposal previousCommittedWorkingSetId does not match previous committed state'') (\<lambda>_.
      try_then (for_each (commit_entry universe
          (new_Map (map (\<lambda>e. (pe_sourceId e, e)) (pw_entries proposal)))
          (new_Map (map (\<lambda>x. (ao_sourceId x, x)) (rc_outcomes receipt)))) [] (pw_entries proposal)) (\<lambda>entries.
      (let logicalHash = computeCommittedWorkingSetLogicalHash rt (rc_universeRevisionId receipt) (pw_id proposal)
             (rc_id receipt) previousId entries (rc_renderedContextHash receipt) (rc_adapterId receipt)
             (rc_adapterVersion receipt) (rc_createdAt receipt);
           expectedId = ''committed-working-set:'' @ take 24 logicalHash
       in try_then (fail_if (givenId \<noteq> None \<and> givenId \<noteq> Some expectedId)
            (''CommittedWorkingSet.id must equal '' @ expectedId)) (\<lambda>_.
          Inr \<lparr>cw_id = expectedId, cw_universeRevisionId = rc_universeRevisionId receipt,
               cw_proposedWorkingSetId = pw_id proposal, cw_admissionReceiptId = rc_id receipt,
               cw_previousCommittedWorkingSetId = previousId, cw_entries = entries,
               cw_renderedContextHash = rc_renderedContextHash receipt, cw_adapterId = rc_adapterId receipt,
               cw_adapterVersion = rc_adapterVersion receipt, cw_createdAt = rc_createdAt receipt,
               cw_logicalHash = logicalHash\<rparr>))))))"

text \<open>The stored form of a committed working set.\<close>

record serialized_committed =
  sc_schemaVersion :: int
  sc_id :: string
  sc_universeRevisionId :: string
  sc_proposedWorkingSetId :: string
  sc_admissionReceiptId :: string
  sc_previousCommittedWorkingSetId :: "string option"
  sc_entries :: "committed_entry list"
  sc_renderedContextHash :: string
  sc_adapterId :: string
  sc_adapterVersion :: string
  sc_createdAt :: number
  sc_logicalHash :: string

definition committed_entry_json :: "committed_entry \<Rightarrow> json" where
  "committed_entry_json e = JObj
     [(''position'', JNum (co_position e)), (''sourceId'', JStr (co_sourceId e)),
      (''sourceVersionId'', JStr (co_sourceVersionId e)),
      (''representation'', representation_json (co_representation e)),
      (''priority'', JStr (working_priority_str (co_priority e))), (''reason'', JArr (map JStr (co_reason e))),
      (''renderedHash'', JStr (co_renderedHash e))]"

definition serialized_committed_working_set :: "committed_working_set \<Rightarrow> serialized_committed" where
  "serialized_committed_working_set committed =
     \<lparr>sc_schemaVersion = 1, sc_id = cw_id committed, sc_universeRevisionId = cw_universeRevisionId committed,
      sc_proposedWorkingSetId = cw_proposedWorkingSetId committed,
      sc_admissionReceiptId = cw_admissionReceiptId committed,
      sc_previousCommittedWorkingSetId = cw_previousCommittedWorkingSetId committed,
      sc_entries = cw_entries committed, sc_renderedContextHash = cw_renderedContextHash committed,
      sc_adapterId = cw_adapterId committed, sc_adapterVersion = cw_adapterVersion committed,
      sc_createdAt = cw_createdAt committed, sc_logicalHash = cw_logicalHash committed\<rparr>"

definition serialized_committed_json :: "serialized_committed \<Rightarrow> json" where
  "serialized_committed_json v = JObj
     [(''schemaVersion'', JNum (sc_schemaVersion v)), (''id'', JStr (sc_id v)),
      (''universeRevisionId'', JStr (sc_universeRevisionId v)),
      (''proposedWorkingSetId'', JStr (sc_proposedWorkingSetId v)),
      (''admissionReceiptId'', JStr (sc_admissionReceiptId v)),
      (''previousCommittedWorkingSetId'', jopt (sc_previousCommittedWorkingSetId v)),
      (''entries'', JArr (map committed_entry_json (sc_entries v))),
      (''renderedContextHash'', JStr (sc_renderedContextHash v)), (''adapterId'', JStr (sc_adapterId v)),
      (''adapterVersion'', JStr (sc_adapterVersion v)), (''createdAt'', num_json (sc_createdAt v)),
      (''logicalHash'', JStr (sc_logicalHash v))]"

definition serializeCommittedWorkingSet :: "committed_working_set \<Rightarrow> string" where
  "serializeCommittedWorkingSet committed = stringify (serialized_committed_json (serialized_committed_working_set committed))"

definition read_committed_entry :: "json \<Rightarrow> committed_entry option" where
  "read_committed_entry j =
     do { n \<leftarrow> field ''position'' as_int j;
          i \<leftarrow> field ''sourceId'' as_string j;
          v \<leftarrow> field ''sourceVersionId'' as_string j;
          rep \<leftarrow> field ''representation'' read_representation j;
          priority \<leftarrow> field ''priority'' read_priority j;
          reason \<leftarrow> field ''reason'' (as_list as_string) j;
          h \<leftarrow> field ''renderedHash'' as_string j;
          Some \<lparr>co_position = n, co_sourceId = i, co_sourceVersionId = v, co_representation = rep,
            co_priority = priority, co_reason = reason, co_renderedHash = h\<rparr> }"

definition read_committed :: "json \<Rightarrow> serialized_committed option" where
  "read_committed j =
     do { schema \<leftarrow> field ''schemaVersion'' as_int j;
          i \<leftarrow> field ''id'' as_string j;
          u \<leftarrow> field ''universeRevisionId'' as_string j;
          p \<leftarrow> field ''proposedWorkingSetId'' as_string j;
          r \<leftarrow> field ''admissionReceiptId'' as_string j;
          previous \<leftarrow> field ''previousCommittedWorkingSetId'' (nullable as_string) j;
          es \<leftarrow> field ''entries'' (as_list read_committed_entry) j;
          rh \<leftarrow> field ''renderedContextHash'' as_string j;
          ai \<leftarrow> field ''adapterId'' as_string j;
          av \<leftarrow> field ''adapterVersion'' as_string j;
          t \<leftarrow> field ''createdAt'' as_number j;
          h \<leftarrow> field ''logicalHash'' as_string j;
          Some \<lparr>sc_schemaVersion = schema, sc_id = i, sc_universeRevisionId = u, sc_proposedWorkingSetId = p,
            sc_admissionReceiptId = r, sc_previousCommittedWorkingSetId = previous, sc_entries = es,
            sc_renderedContextHash = rh, sc_adapterId = ai, sc_adapterVersion = av, sc_createdAt = t,
            sc_logicalHash = h\<rparr> }"

definition deserializeCommittedWorkingSet ::
  "runtime \<Rightarrow> serialized_committed \<Rightarrow> universe_revision \<Rightarrow> proposed_working_set \<Rightarrow> admission_receipt
   \<Rightarrow> committed_working_set option \<Rightarrow> committed_working_set outcome" where
  "deserializeCommittedWorkingSet rt value universe proposal receipt previous =
     try_then (fail_if (sc_schemaVersion value \<noteq> 1)
       (''unsupported CommittedWorkingSet schema: '' @ int_digits (sc_schemaVersion value))) (\<lambda>_.
     try_then (commitAdmission rt universe proposal receipt previous (Some (sc_id value))) (\<lambda>committed.
     try_then (fail_if (cw_logicalHash committed \<noteq> sc_logicalHash value
         \<or> cw_previousCommittedWorkingSetId committed \<noteq> sc_previousCommittedWorkingSetId value
         \<or> length (cw_entries committed) \<noteq> length (sc_entries value))
       ''CommittedWorkingSet logicalHash mismatch during deserialization'') (\<lambda>_.
     Inr committed)))"

end
