(* ===== verification/Admission_Laws.thy ===== *)
theory Admission_Laws
  imports Proposal_Laws Admission
begin

text \<open>
  What admission and commitment promise: admission never fails on a proposal that was made,
  answers every entry of it in order and never admits more than the budget; a proposal
  planned on a revision is admitted and committed there without a failure, and the
  committed entries are the admitted outcomes.
\<close>

section \<open>Admission of one entry\<close>

fun granted :: "admission_outcome \<Rightarrow> representation list" where
  "granted (Admitted _ _ _ _ rep _) = [rep]"
| "granted (Rejected _ _ _) = []"
| "granted (Deferred _ _ _) = []"

definition price :: "admission_outcome \<Rightarrow> int" where
  "price x = (\<Sum>rep\<leftarrow>granted x. rp_tokenEstimate rep)"

definition spent :: "admission_outcome list \<Rightarrow> int" where
  "spent xs = (\<Sum>x\<leftarrow>xs. price x)"

text \<open>
  An outcome answers an entry: it names its source and version, and when it admits, then
  what the universe has as evidence for that source is this version, and the
  representation contains it.
\<close>

definition evidenced :: "runtime \<Rightarrow> universe_revision \<Rightarrow> admission_outcome \<Rightarrow> bool" where
  "evidenced rt u x = (case x of
     Admitted i v f b rep h \<Rightarrow> v \<in> set (rp_sourceVersionIds rep) \<and> h = renderedRepresentationHash rt rep
       \<and> (case map_of (ur_entries u) i of None \<Rightarrow> False | Some e \<Rightarrow> admissionEvidence e = (Some v, Some f, Some b))
       \<and> (case map_of (ur_versions u) v of None \<Rightarrow> False | Some w \<Rightarrow> uv_sourceId w = i)
   | _ \<Rightarrow> True)"

definition answers :: "runtime \<Rightarrow> universe_revision \<Rightarrow> proposed_entry \<Rightarrow> admission_outcome \<Rightarrow> bool" where
  "answers rt u p x \<longleftrightarrow> ao_sourceId x = pe_sourceId p \<and> ao_sourceVersionId x = pe_sourceVersionId p \<and> evidenced rt u x"

definition after_outcomes :: "admission_state \<Rightarrow> admission_outcome list \<Rightarrow> admission_state" where
  "after_outcomes st xs = \<lparr>am_outcomes = am_outcomes st @ xs, am_admitted = am_admitted st @ concat (map granted xs),
     am_remaining = am_remaining st - spent xs\<rparr>"

text \<open>The outcome of one entry as a function of what remains of the budget.\<close>

definition granted_outcome ::
  "runtime \<Rightarrow> int \<Rightarrow> string \<Rightarrow> string \<Rightarrow> freshness \<Rightarrow> admission_basis \<Rightarrow> materialization \<Rightarrow> admission_outcome" where
  "granted_outcome rt r i v f b m = (case m of
     MaterialRejected reason \<Rightarrow> Rejected i v reason
   | MaterialDeferred reason \<Rightarrow> Deferred i v reason
   | Materialized rep \<Rightarrow>
       if v \<notin> set (rp_sourceVersionIds rep) then Rejected i v RJ_CONFLICT
       else if r < rp_tokenEstimate rep then Rejected i v RJ_BUDGET
       else Admitted i v f b rep (renderedRepresentationHash rt rep))"

definition outcome_of ::
  "runtime \<Rightarrow> universe_revision \<Rightarrow> admission_adapter \<Rightarrow> int \<Rightarrow> proposed_entry \<Rightarrow> admission_outcome" where
  "outcome_of rt u adapter r p =
     (let i = pe_sourceId p; v = pe_sourceVersionId p in
      case map_of (ur_entries u) i of None \<Rightarrow> Rejected i v RJ_STALE
      | Some e \<Rightarrow> (case admissionEvidence e of
          (Some ev, Some f, Some b) \<Rightarrow>
            if ev \<noteq> v then Rejected i v RJ_STALE
            else (case map_of (ur_versions u) v of None \<Rightarrow> Rejected i v RJ_CONFLICT
              | Some w \<Rightarrow> if uv_sourceId w \<noteq> i then Rejected i v RJ_CONFLICT
                  else granted_outcome rt r i v f b (case aa_materialize adapter of
                    None \<Rightarrow> Materialized (pe_representation p) | Some materialize \<Rightarrow> materialize p e w r))
        | _ \<Rightarrow> Rejected i v RJ_STALE))"

lemma push_not_granted: "granted x = [] \<Longrightarrow> push_outcome st x = after_outcomes st [x]"
  by (simp add: push_outcome_def after_outcomes_def price_def spent_def)

lemma push_granted:
  "push_outcome (st\<lparr>am_admitted := am_admitted st @ [rep], am_remaining := am_remaining st - rp_tokenEstimate rep\<rparr>)
     (Admitted i v f b rep h) = after_outcomes st [Admitted i v f b rep h]"
  by (simp add: push_outcome_def after_outcomes_def price_def spent_def)

lemma admit_entry_outcome:
  "admit_entry rt u adapter st p = Inr (after_outcomes st [outcome_of rt u adapter (am_remaining st) p])"
proof (cases "map_of (ur_entries u) (pe_sourceId p)")
  case (Some e)
  show ?thesis
    by (cases "ue_observationState e"; cases "map_of (ur_versions u) (pe_sourceVersionId p)")
      (simp_all add: Some admit_entry_def outcome_of_def granted_outcome_def admissionEvidence_def Let_def push_not_granted
        push_granted split: option.split materialization.split)
qed (simp add: admit_entry_def outcome_of_def Let_def push_not_granted)

lemma outcome_of_price: "0 \<le> r \<Longrightarrow> price (outcome_of rt u adapter r p) \<le> r"
  by (simp add: outcome_of_def granted_outcome_def Let_def price_def split: option.split materialization.split prod.split)

lemma outcome_of_answers: "answers rt u p (outcome_of rt u adapter r p)"
  by (auto simp: outcome_of_def granted_outcome_def Let_def answers_def evidenced_def
    split: option.split materialization.split prod.split)

section \<open>Admission of a proposal\<close>

fun outcomes_of ::
  "runtime \<Rightarrow> universe_revision \<Rightarrow> admission_adapter \<Rightarrow> int \<Rightarrow> proposed_entry list \<Rightarrow> admission_outcome list" where
  "outcomes_of rt u adapter r [] = []"
| "outcomes_of rt u adapter r (p # ps) =
     (let x = outcome_of rt u adapter r p in x # outcomes_of rt u adapter (r - price x) ps)"

lemma after_outcomes_simps [simp]:
  "after_outcomes (after_outcomes st xs) ys = after_outcomes st (xs @ ys)" "after_outcomes st [] = st"
  "am_remaining (after_outcomes st xs) = am_remaining st - spent xs" "am_outcomes (after_outcomes st xs) = am_outcomes st @ xs"
  by (simp_all add: after_outcomes_def spent_def)

lemma spent_simps [simp]: "spent [] = 0" "spent (x # xs) = price x + spent xs"
  by (simp_all add: spent_def)

lemma admit_loop:
  "for_each (admit_entry rt u adapter) st ps = Inr (after_outcomes st (outcomes_of rt u adapter (am_remaining st) ps))"
  by (induction ps arbitrary: st) (simp_all add: admit_entry_outcome Let_def)

lemma outcomes_spent: "0 \<le> r \<Longrightarrow> spent (outcomes_of rt u adapter r ps) \<le> r"
proof (induction ps arbitrary: r)
  case (Cons p ps)
  from Cons.IH [of "r - price (outcome_of rt u adapter r p)"] outcome_of_price [OF Cons.prems, of rt u adapter p]
  show ?case by (simp add: Let_def)
qed simp

lemma outcomes_answer: "list_all2 (answers rt u) ps (outcomes_of rt u adapter r ps)"
  by (induction ps arbitrary: r) (simp_all add: Let_def outcome_of_answers)

section \<open>Receipts\<close>

definition coherent :: "admission_outcome \<Rightarrow> bool" where
  "coherent x = (case x of
     Admitted _ v f b rep _ \<Rightarrow> (f = FR_FRESH \<longleftrightarrow> b = AB_OBSERVED_CURRENT) \<and> v \<in> set (rp_sourceVersionIds rep)
   | _ \<Rightarrow> True)"

lemma answers_coherent: "answers rt u p x \<Longrightarrow> coherent x"
  by (auto simp: answers_def evidenced_def coherent_def admissionEvidence_def
    split: admission_outcome.splits option.splits universe_observation_state.splits)

lemma check_outcome_iff:
  "check_outcome m seen x = Inr s \<longleftrightarrow> map_of m (ao_sourceId x) = Some (ao_sourceVersionId x) \<and> ao_sourceId x \<notin> seen
     \<and> coherent x \<and> s = insert (ao_sourceId x) seen"
proof (cases x)
  case (Admitted i v f b rep h)
  then show ?thesis by (cases f; cases b) (auto simp: check_outcome_def coherent_def Let_def try_simps)
qed (auto simp: check_outcome_def coherent_def Let_def try_simps)

lemma check_outcome_loop:
  "for_each (check_outcome m) seen xs = Inr s \<longleftrightarrow>
     (\<forall>x\<in>set xs. map_of m (ao_sourceId x) = Some (ao_sourceVersionId x) \<and> coherent x)
     \<and> distinct (map ao_sourceId xs) \<and> ao_sourceId ` set xs \<inter> seen = {} \<and> s = seen \<union> ao_sourceId ` set xs"
proof (induction xs arbitrary: seen)
  case (Cons x xs)
  show ?case by (simp only: for_each.simps try_simps check_outcome_iff Cons.IH) auto
qed auto

definition receipt_made ::
  "runtime \<Rightarrow> string \<Rightarrow> string \<Rightarrow> admission_outcome list \<Rightarrow> string \<Rightarrow> string \<Rightarrow> string \<Rightarrow> number \<Rightarrow> admission_receipt" where
  "receipt_made rt pid uid xs rh ai av t =
     (let h = computeAdmissionReceiptLogicalHash rt pid uid xs rh ai av t in
      \<lparr>rc_id = ''admission-receipt:'' @ take 24 h, rc_proposedWorkingSetId = pid, rc_universeRevisionId = uid,
       rc_outcomes = xs, rc_renderedContextHash = rh, rc_adapterId = ai, rc_adapterVersion = av, rc_createdAt = t,
       rc_logicalHash = h\<rparr>)"

definition complete :: "proposed_working_set \<Rightarrow> admission_outcome list \<Rightarrow> bool" where
  "complete p xs \<longleftrightarrow>
     (\<forall>x\<in>set xs. map_of (new_Map (map (\<lambda>e. (pe_sourceId e, pe_sourceVersionId e)) (pw_entries p))) (ao_sourceId x)
        = Some (ao_sourceVersionId x) \<and> coherent x)
     \<and> distinct (map ao_sourceId xs) \<and> card (ao_sourceId ` set xs) = card (pe_sourceId ` set (pw_entries p))"

lemma createAdmissionReceipt_iff:
  "createAdmissionReceipt rt p (Some uid) xs rh ai av t i = Inr r \<longleftrightarrow>
     isFinite t \<and> complete p xs \<and> r = receipt_made rt (pw_id p) uid xs rh ai av t \<and> (i = None \<or> i = Some (rc_id r))"
  unfolding createAdmissionReceipt_def Let_def receipt_made_def complete_def default_to_def option.case
  by (simp only: try_simps simp_thms check_outcome_loop sum.inject) auto

lemma answers_complete:
  assumes "distinct (map pe_sourceId (pw_entries p))" and "list_all2 (answers rt u) (pw_entries p) xs"
  shows "complete p xs"
proof -
  have ids: "map ao_sourceId xs = map pe_sourceId (pw_entries p)"
    "map (\<lambda>x. (ao_sourceId x, ao_sourceVersionId x)) xs = map (\<lambda>e. (pe_sourceId e, pe_sourceVersionId e)) (pw_entries p)"
    using assms(2) by (induction rule: list_all2_induct) (simp_all add: answers_def)
  have new: "new_Map (map (\<lambda>e. (pe_sourceId e, pe_sourceVersionId e)) (pw_entries p))
      = map (\<lambda>x. (ao_sourceId x, ao_sourceVersionId x)) xs"
    using assms(1) by (subst new_Map_distinct) (simp_all add: ids comp_def)
  have "distinct (map fst (map (\<lambda>x. (ao_sourceId x, ao_sourceVersionId x)) xs))"
    using assms(1) ids(1) by (simp add: comp_def)
  then have "map_of (map (\<lambda>x. (ao_sourceId x, ao_sourceVersionId x)) xs) (ao_sourceId x) = Some (ao_sourceVersionId x)"
    if "x \<in> set xs" for x using that by (intro map_of_is_SomeI) auto
  moreover have "coherent x" if "x \<in> set xs" for x
    using assms(2) that by (auto simp: list_all2_conv_all_nth in_set_conv_nth intro: answers_coherent)
  moreover have "ao_sourceId ` set xs = pe_sourceId ` set (pw_entries p)" using arg_cong [OF ids(1), of set] by simp
  ultimately show ?thesis using assms(1) ids(1) by (simp add: complete_def new)
qed

lemma admit_made:
  assumes "distinct (map pe_sourceId (pw_entries p))" and "0 \<le> budget" and "isFinite t"
  shows "admitWorkingSet rt u p (Finite budget) adapter t =
    Inr (receipt_made rt (pw_id p) (ur_revisionId u) (outcomes_of rt u adapter budget (pw_entries p))
      (rt_sha256Hex rt (''rendered-context-v1|'' @ aa_render adapter
        (concat (map granted (outcomes_of rt u adapter budget (pw_entries p))))))
      (aa_adapterId adapter) (aa_adapterVersion adapter) t)"
proof -
  have "admitWorkingSet rt u p (Finite budget) adapter t =
    createAdmissionReceipt rt p (Some (ur_revisionId u)) (outcomes_of rt u adapter budget (pw_entries p))
      (rt_sha256Hex rt (''rendered-context-v1|'' @ aa_render adapter
        (concat (map granted (outcomes_of rt u adapter budget (pw_entries p))))))
      (aa_adapterId adapter) (aa_adapterVersion adapter) t None"
    using assms(2) by (simp add: admitWorkingSet_def admit_loop after_outcomes_def)
  then show ?thesis
    by (simp add: createAdmissionReceipt_iff assms(3) answers_complete [OF assms(1) outcomes_answer])
qed

lemma receipt_made_simps [simp]:
  "rc_outcomes (receipt_made rt pid uid xs rh ai av t) = xs"
  "rc_proposedWorkingSetId (receipt_made rt pid uid xs rh ai av t) = pid"
  "rc_universeRevisionId (receipt_made rt pid uid xs rh ai av t) = uid"
  "rc_renderedContextHash (receipt_made rt pid uid xs rh ai av t) = rh"
  "rc_adapterId (receipt_made rt pid uid xs rh ai av t) = ai"
  "rc_adapterVersion (receipt_made rt pid uid xs rh ai av t) = av"
  "rc_createdAt (receipt_made rt pid uid xs rh ai av t) = t"
  by (simp_all add: receipt_made_def Let_def)

lemma proposal_made_simps [simp]:
  "pw_entries (proposal_made rt a b ps c d) = ps" "pw_universeRevisionId (proposal_made rt a b ps c d) = a"
  "pw_previousCommittedWorkingSetId (proposal_made rt a b ps c d) = b"
  "pw_plannerVersion (proposal_made rt a b ps c d) = c" "pw_createdAt (proposal_made rt a b ps c d) = d"
  by (simp_all add: proposal_made_def Let_def)

text \<open>
  C25. Admission of a proposal that was made returns a receipt on every universe revision,
  whatever the adapter does. The receipt answers the entries of the proposal in order, one
  outcome each; an outcome admits a version only where it is the version that the universe
  has as evidence for the source, fresh for a present source and last good for an
  unavailable one; and the estimates of all that is admitted together stay within the
  budget.
\<close>

theorem admitWorkingSet_correct:
  assumes "createProposedWorkingSet rt u\<^sub>0 previousId ps version t\<^sub>0 givenId = Inr p"
    and "0 \<le> budget" and "isFinite createdAt"
  shows "\<exists>r. admitWorkingSet rt u p (Finite budget) adapter createdAt = Inr r
    \<and> list_all2 (answers rt u) (pw_entries p) (rc_outcomes r) \<and> spent (rc_outcomes r) \<le> budget"
proof -
  from assms(1) have "distinct (map pe_sourceId (pw_entries p))" by (auto simp: createProposedWorkingSet_iff)
  from admit_made [OF this assms(2,3)] outcomes_answer outcomes_spent [OF assms(2)] show ?thesis by simp
qed

definition plain_adapter :: admission_adapter where
  "plain_adapter = \<lparr>aa_adapterId = ''a'', aa_adapterVersion = ''1'', aa_materialize = None, aa_render = (\<lambda>reps. concat (map rp_id reps))\<rparr>"

theorem admitWorkingSet_correct_witness:
  "\<exists>r. admitWorkingSet plain no_sources (proposal_made plain (ur_revisionId no_sources) None [] ''v0'' (Finite 1)) (Finite 2)
      plain_adapter (Finite 3) = Inr r \<and> spent (rc_outcomes r) \<le> 2"
  using admitWorkingSet_correct [of plain no_sources None "[]" "''v0''" "Finite 1" None _ 2 "Finite 3" no_sources plain_adapter]
  by (auto simp: createProposedWorkingSet_iff)

section \<open>Commitment\<close>

fun committed_of :: "nat \<Rightarrow> proposed_entry \<Rightarrow> admission_outcome \<Rightarrow> committed_entry list" where
  "committed_of n p (Admitted i v f b rep h) =
     [\<lparr>co_position = int n, co_sourceId = i, co_sourceVersionId = v, co_representation = rep,
       co_priority = pe_priority p, co_reason = pe_reason p, co_renderedHash = h\<rparr>]"
| "committed_of n p (Rejected _ _ _) = []"
| "committed_of n p (Deferred _ _ _) = []"

fun committed_list :: "nat \<Rightarrow> (proposed_entry \<times> admission_outcome) list \<Rightarrow> committed_entry list" where
  "committed_list n [] = []"
| "committed_list n ((p, x) # pxs) = (let es = committed_of n p x in es @ committed_list (n + length es) pxs)"

text \<open>What is admitted must be the current version of a source that is not absent.\<close>

definition current :: "universe_revision \<Rightarrow> admission_outcome \<Rightarrow> bool" where
  "current u x \<longleftrightarrow> (\<forall>i v f b rep h. x = Admitted i v f b rep h \<longrightarrow> currentVersionId u i = Some v)"

lemma evidenced_not_absent:
  assumes "evidenced rt u (Admitted i v f b rep h)"
  shows "v \<in> set (rp_sourceVersionIds rep) \<and> (\<exists>e. map_of (ur_entries u) i = Some e \<and> ue_observationState e \<noteq> US_ABSENT)
    \<and> (\<exists>w. map_of (ur_versions u) v = Some w \<and> uv_sourceId w = i)"
  using assms by (auto simp: evidenced_def admissionEvidence_def split: option.splits)

lemma commit_entry_ok:
  assumes "map_of outs (pe_sourceId p) = Some x" and "map_of P (pe_sourceId p) = Some p" and "answers rt u p x" and "current u x"
  shows "commit_entry u P outs es p = Inr (es @ committed_of (length es) p x)"
proof (cases x)
  case (Admitted i v f b rep h)
  with assms(3,4) have "pe_sourceId p = i" "pe_sourceVersionId p = v" "currentVersionId u i = Some v"
    and "evidenced rt u (Admitted i v f b rep h)" by (auto simp: answers_def current_def)
  with assms(1,2) evidenced_not_absent [OF this(4)] Admitted show ?thesis
    by (auto simp: commit_entry_def)
qed (use assms in \<open>simp_all add: commit_entry_def\<close>)

lemma commit_loop:
  assumes "list_all2 (\<lambda>p x. map_of outs (pe_sourceId p) = Some x \<and> map_of P (pe_sourceId p) = Some p \<and> answers rt u p x
    \<and> current u x) ps xs"
  shows "for_each (commit_entry u P outs) es ps = Inr (es @ committed_list (length es) (zip ps xs))"
  using assms
proof (induction arbitrary: es rule: list_all2_induct)
  case (Cons p ps x xs)
  then have "commit_entry u P outs es p = Inr (es @ committed_of (length es) p x)" by (intro commit_entry_ok) auto
  with Cons.IH show ?case by (simp add: Let_def)
qed simp

definition committed_made ::
  "runtime \<Rightarrow> proposed_working_set \<Rightarrow> admission_receipt \<Rightarrow> string option \<Rightarrow> committed_entry list \<Rightarrow> committed_working_set" where
  "committed_made rt p r previousId es =
     (let h = computeCommittedWorkingSetLogicalHash rt (rc_universeRevisionId r) (pw_id p) (rc_id r) previousId es
            (rc_renderedContextHash r) (rc_adapterId r) (rc_adapterVersion r) (rc_createdAt r)
      in \<lparr>cw_id = ''committed-working-set:'' @ take 24 h, cw_universeRevisionId = rc_universeRevisionId r,
          cw_proposedWorkingSetId = pw_id p, cw_admissionReceiptId = rc_id r,
          cw_previousCommittedWorkingSetId = previousId, cw_entries = es,
          cw_renderedContextHash = rc_renderedContextHash r, cw_adapterId = rc_adapterId r,
          cw_adapterVersion = rc_adapterVersion r, cw_createdAt = rc_createdAt r, cw_logicalHash = h\<rparr>)"

definition proposals_by_source :: "proposed_working_set \<Rightarrow> (string \<times> proposed_entry) list" where
  "proposals_by_source p = new_Map (map (\<lambda>e. (pe_sourceId e, e)) (pw_entries p))"

definition outcomes_by_source :: "admission_receipt \<Rightarrow> (string \<times> admission_outcome) list" where
  "outcomes_by_source r = new_Map (map (\<lambda>x. (ao_sourceId x, x)) (rc_outcomes r))"

lemma commitAdmission_iff:
  "commitAdmission rt u p r prev i = Inr c \<longleftrightarrow>
     rc_proposedWorkingSetId r = pw_id p \<and> rc_universeRevisionId r = ur_revisionId u
     \<and> pw_previousCommittedWorkingSetId p = map_option cw_id prev
     \<and> (\<exists>es. for_each (commit_entry u (proposals_by_source p) (outcomes_by_source r)) [] (pw_entries p) = Inr es
        \<and> c = committed_made rt p r (map_option cw_id prev) es)
     \<and> (i = None \<or> i = Some (cw_id c))"
  unfolding commitAdmission_def Let_def committed_made_def proposals_by_source_def outcomes_by_source_def
  by (simp only: try_simps simp_thms sum.inject) auto

lemma answered_lookup:
  assumes "distinct (map pe_sourceId (pw_entries p))" and "list_all2 (answers rt u) (pw_entries p) (rc_outcomes r)"
  shows "list_all2 (\<lambda>e x. map_of (outcomes_by_source r) (pe_sourceId e) = Some x
    \<and> map_of (proposals_by_source p) (pe_sourceId e) = Some e \<and> answers rt u e x) (pw_entries p) (rc_outcomes r)"
proof (rule list_all2_all_nthI)
  show len: "length (pw_entries p) = length (rc_outcomes r)" by (rule list_all2_lengthD [OF assms(2)])
  fix n assume n: "n < length (pw_entries p)"
  then have ans: "answers rt u (pw_entries p ! n) (rc_outcomes r ! n)" by (rule list_all2_nthD [OF assms(2)])
  have "map ao_sourceId (rc_outcomes r) = map pe_sourceId (pw_entries p)"
    using assms(2) by (induction rule: list_all2_induct) (simp_all add: answers_def)
  with assms(1) have d: "distinct (map ao_sourceId (rc_outcomes r))" by simp
  have "map_of (outcomes_by_source r) (ao_sourceId (rc_outcomes r ! n)) = Some (rc_outcomes r ! n)"
    unfolding outcomes_by_source_def using d n len by (subst new_Map_distinct) (auto simp: comp_def intro!: map_of_is_SomeI)
  moreover have "map_of (proposals_by_source p) (pe_sourceId (pw_entries p ! n)) = Some (pw_entries p ! n)"
    unfolding proposals_by_source_def using assms(1) n
    by (subst new_Map_distinct) (auto simp: comp_def intro!: map_of_is_SomeI)
  ultimately show "map_of (outcomes_by_source r) (pe_sourceId (pw_entries p ! n)) = Some (rc_outcomes r ! n)
      \<and> map_of (proposals_by_source p) (pe_sourceId (pw_entries p ! n)) = Some (pw_entries p ! n)
      \<and> answers rt u (pw_entries p ! n) (rc_outcomes r ! n)"
    using ans by (simp add: answers_def)
qed

lemma list_all2_mono_in:
  "list_all2 Q xs ys \<Longrightarrow> (\<And>x y. x \<in> set xs \<Longrightarrow> Q x y \<Longrightarrow> R x y) \<Longrightarrow> list_all2 R xs ys"
  by (auto simp: list_all2_conv_all_nth)

lemma representable_current:
  assumes "representable u policy (pe_sourceId p) (pe_sourceVersionId p) rep" and "answers rt u p x"
  shows "current u x"
  using assms by (auto simp: representable_def answers_def evidenced_def current_def currentVersionId_def
    admissionEvidence_def split: universe_observation_state.splits)

lemma committed_positions: "map co_position (committed_list n pxs) = map int [n..<n + length (committed_list n pxs)]"
proof (induction n pxs rule: committed_list.induct)
  case (2 n p x pxs)
  then show ?case by (cases x) (simp_all add: Let_def upt_conv_Cons del: upt_Suc)
qed simp

lemma committed_representations:
  "length ps = length xs \<Longrightarrow> map co_representation (committed_list n (zip ps xs)) = concat (map granted xs)"
proof (induction ps xs arbitrary: n rule: list_induct2)
  case (Cons p ps x xs)
  then show ?case by (cases x) (simp_all add: Let_def)
qed simp

fun admitted_pair :: "admission_outcome \<Rightarrow> (string \<times> string) list" where
  "admitted_pair (Admitted i v _ _ _ _) = [(i, v)]"
| "admitted_pair (Rejected _ _ _) = []"
| "admitted_pair (Deferred _ _ _) = []"

lemma committed_pairs:
  "length ps = length xs \<Longrightarrow>
   map (\<lambda>e. (co_sourceId e, co_sourceVersionId e)) (committed_list n (zip ps xs)) = concat (map admitted_pair xs)"
proof (induction ps xs arbitrary: n rule: list_induct2)
  case (Cons p ps x xs)
  then show ?case by (cases x) (simp_all add: Let_def)
qed simp

lemma spent_granted: "spent xs = (\<Sum>rep\<leftarrow>concat (map granted xs). rp_tokenEstimate rep)"
  by (induction xs) (simp_all add: price_def)

text \<open>
  C26. A proposal planned on a revision of a chain, admitted and committed on the same
  revision, goes through: none of the three steps throws, for every honest policy, every
  adapter and every previous state. The committed entries are the admitted outcomes in the
  order of the proposal, with the source, version and representation of each, at
  positions 0, 1, 2 and so on, and their estimates are within the admission budget.
\<close>

theorem plan_admit_commit_succeeds:
  assumes "revision_chain rt u" and "honest policy" and "pp_maxSemanticTokens policy = Finite planBudget" and "0 \<le> planBudget"
    and "0 \<le> budget" and "isFinite t" and "isFinite t'"
  shows "\<exists>p r c. planProposedWorkingSet rt u prev policy hints t = Inr p
    \<and> admitWorkingSet rt u p (Finite budget) adapter t' = Inr r \<and> commitAdmission rt u p r prev None = Inr c
    \<and> map (\<lambda>e. (co_sourceId e, co_sourceVersionId e)) (cw_entries c) = concat (map admitted_pair (rc_outcomes r))
    \<and> map co_representation (cw_entries c) = concat (map granted (rc_outcomes r))
    \<and> map co_position (cw_entries c) = map int [0..<length (cw_entries c)]
    \<and> (\<Sum>e\<leftarrow>cw_entries c. rp_tokenEstimate (co_representation e)) \<le> budget"
proof -
  have ok: "revision_ok rt u" by (rule chain_ok [OF assms(1)])
  define ps where "ps = map proposal_of (chosen rt planBudget u prev policy hints)"
  define p where "p = proposal_made rt (ur_revisionId u) (map_option cw_id prev) ps (pp_version policy) t"
  define xs where "xs = outcomes_of rt u adapter budget ps"
  have entries: "pw_entries p = ps" by (simp add: p_def)
  have plan: "planProposedWorkingSet rt u prev policy hints t = Inr p"
    using plan_made [OF ok assms(3,4,6,2)] by (simp add: p_def ps_def)
  have d: "distinct (map pe_sourceId (pw_entries p))" using chosen_distinct [OF ok] by (simp add: p_def ps_def)
  from admit_made [OF d assms(5,7)] obtain r where admit: "admitWorkingSet rt u p (Finite budget) adapter t' = Inr r"
      and r: "rc_outcomes r = xs" "rc_proposedWorkingSetId r = pw_id p" "rc_universeRevisionId r = ur_revisionId u"
    by (simp add: xs_def p_def)
  have ans: "list_all2 (answers rt u) (pw_entries p) (rc_outcomes r)"
    by (simp add: p_def r xs_def outcomes_answer)
  have cur: "current u x" if "e \<in> set ps" "answers rt u e x" for e x
    by (rule representable_current [OF chosen_entries [OF ok that(1) [unfolded ps_def]] that(2)])
  have "list_all2 (\<lambda>e x. map_of (outcomes_by_source r) (pe_sourceId e) = Some x
      \<and> map_of (proposals_by_source p) (pe_sourceId e) = Some e \<and> answers rt u e x \<and> current u x) ps xs"
    by (rule list_all2_mono_in [OF answered_lookup [OF d ans, unfolded r(1) entries]]) (auto intro: cur)
  from commit_loop [OF this, of "[]"] have
    "commitAdmission rt u p r prev None = Inr (committed_made rt p r (map_option cw_id prev) (committed_list 0 (zip ps xs)))"
    by (simp add: commitAdmission_iff r) (simp add: p_def)
  moreover have len: "length ps = length xs" using list_all2_lengthD [OF ans] by (simp add: p_def r)
  moreover have "cw_entries (committed_made rt p r i es) = es" for i es by (simp add: committed_made_def Let_def)
  moreover have "(\<Sum>e\<leftarrow>committed_list 0 (zip ps xs). rp_tokenEstimate (co_representation e)) \<le> budget"
    using outcomes_spent [OF assms(5), of rt u adapter ps] arg_cong [OF committed_representations [OF len, of 0], of "map rp_tokenEstimate"]
    by (simp add: xs_def [symmetric] spent_granted comp_def)
  ultimately show ?thesis
    using plan admit committed_representations [OF len] committed_pairs [OF len] committed_positions [of 0] r(1) by simp
qed

theorem plan_admit_commit_succeeds_witness:
  "\<exists>p r c. planProposedWorkingSet plain one_source None full_policy None (Finite 7) = Inr p
    \<and> admitWorkingSet plain one_source p (Finite 5) plain_adapter (Finite 8) = Inr r
    \<and> commitAdmission plain one_source p r None None = Inr c
    \<and> (\<Sum>e\<leftarrow>cw_entries c. rp_tokenEstimate (co_representation e)) \<le> 5"
proof -
  have "pp_maxSemanticTokens full_policy = Finite 10" by (simp add: full_policy_def)
  from plan_admit_commit_succeeds [OF one_source_chain full_policy_honest this, of 5 "Finite 7" "Finite 8" None None plain_adapter]
  show ?thesis by auto
qed

section \<open>Admission and commitment disagree after a removal\<close>

text \<open>A source that was seen, then found absent, then out of reach; and a proposal from the time it was seen.\<close>

definition after_removal :: universe_revision where
  "after_removal = projr (reconcileUniverseRevision plain one_source [AbsentObservation ''a'' (Finite 2)])"

definition after_outage :: universe_revision where
  "after_outage = projr (reconcileUniverseRevision plain after_removal [UnavailableObservation ''a'' ''down'' (Finite 3)])"

definition early_proposal :: proposed_working_set where
  "early_proposal = projr (planProposedWorkingSet plain one_source None full_policy None (Finite 1))"

definition late_receipt :: admission_receipt where
  "late_receipt = projr (admitWorkingSet plain after_outage early_proposal (Finite 10) plain_adapter (Finite 4))"

text \<open>The example goes as it should up to the admission, which admits what was seen first.\<close>

lemma outage_example:
  "createProposedWorkingSet plain one_source None (pw_entries early_proposal) (pw_plannerVersion early_proposal) (Finite 1) None
     = Inr early_proposal"
  "reconcileUniverseRevision plain one_source [AbsentObservation ''a'' (Finite 2)] = Inr after_removal"
  "reconcileUniverseRevision plain after_removal [UnavailableObservation ''a'' ''down'' (Finite 3)] = Inr after_outage"
  "admitWorkingSet plain after_outage early_proposal (Finite 10) plain_adapter (Finite 4) = Inr late_receipt"
  "rc_outcomes late_receipt = [Admitted ''a'' (uv_versionId version_a) FR_LAST_GOOD AB_LAST_GOOD_FALLBACK
     (full_of (uv_versionId version_a)) (renderedRepresentationHash plain (full_of (uv_versionId version_a)))]"
  "pw_previousCommittedWorkingSetId early_proposal = None"
  by code_simp+

text \<open>What the receipt of an admission says, and what the loop of the commitment does with an outcome that is not current.\<close>

lemma admit_answers:
  assumes "distinct (map pe_sourceId (pw_entries p))" and "admitWorkingSet rt u p (Finite budget) adapter t = Inr r"
  shows "list_all2 (answers rt u) (pw_entries p) (rc_outcomes r) \<and> rc_proposedWorkingSetId r = pw_id p
    \<and> rc_universeRevisionId r = ur_revisionId u"
  using assms(2) by (auto simp: admitWorkingSet_def admit_loop try_simps createAdmissionReceipt_iff after_outcomes_def outcomes_answer)

definition unknown_version :: "string \<Rightarrow> runtime_error" where
  "unknown_version v = RuntimeError (''admitted outcome references unknown version '' @ v)"

lemma commit_entry_stale:
  assumes "map_of outs (pe_sourceId p) = Some x" and "map_of P (pe_sourceId p) = Some p" and "answers rt u p x" and "\<not> current u x"
  shows "commit_entry u P outs es p = Inl (unknown_version (ao_sourceVersionId x))"
proof (cases x)
  case (Admitted i v f b rep h)
  with assms(3,4) have "pe_sourceId p = i" "pe_sourceVersionId p = v" "currentVersionId u i \<noteq> Some v"
    and "evidenced rt u (Admitted i v f b rep h)" by (auto simp: answers_def current_def)
  with assms(1,2) evidenced_not_absent [OF this(4)] Admitted show ?thesis
    by (auto simp: commit_entry_def unknown_version_def try_defs)
qed (use assms in \<open>simp_all add: current_def\<close>)

lemma commit_loop_stale:
  assumes "list_all2 (\<lambda>p x. map_of outs (pe_sourceId p) = Some x \<and> map_of P (pe_sourceId p) = Some p \<and> answers rt u p x) ps xs"
    and "\<exists>x\<in>set xs. \<not> current u x"
  shows "\<exists>x\<in>set xs. \<not> current u x \<and> for_each (commit_entry u P outs) es ps = Inl (unknown_version (ao_sourceVersionId x))"
  using assms
proof (induction arbitrary: es rule: list_all2_induct)
  case (Cons p ps x xs)
  show ?case
  proof (cases "current u x")
    case True
    with Cons.hyps(1) have "commit_entry u P outs es p = Inr (es @ committed_of (length es) p x)" by (intro commit_entry_ok) auto
    with Cons.IH Cons.prems True show ?thesis by auto
  next
    case False
    with Cons.hyps(1) have "commit_entry u P outs es p = Inl (unknown_version (ao_sourceVersionId x))"
      by (intro commit_entry_stale) auto
    with False show ?thesis by (auto simp: try_then_def)
  qed
qed simp

lemma commitAdmission_stale:
  assumes "distinct (map pe_sourceId (pw_entries p))" and "admitWorkingSet rt u p (Finite budget) adapter t = Inr r"
    and "x \<in> set (rc_outcomes r)" and "\<not> current u x" and "pw_previousCommittedWorkingSetId p = map_option cw_id prev"
  shows "\<exists>x\<in>set (rc_outcomes r). \<not> current u x
    \<and> commitAdmission rt u p r prev givenId = Inl (unknown_version (ao_sourceVersionId x))"
proof -
  note ans = admit_answers [OF assms(1,2)]
  from commit_loop_stale [OF answered_lookup [OF assms(1) conjunct1 [OF ans]], of "[]"] assms(3,4)
  obtain y where "y \<in> set (rc_outcomes r)" "\<not> current u y"
    "for_each (commit_entry u (proposals_by_source p) (outcomes_by_source r)) [] (pw_entries p)
      = Inl (unknown_version (ao_sourceVersionId y))" by blast
  with ans assms(5) show ?thesis
    by (auto simp: commitAdmission_def proposals_by_source_def outcomes_by_source_def try_defs)
qed

text \<open>What a source is after it was found absent and then out of reach: only its last good version is left.\<close>

lemma observed_entry:
  assumes "revision_ok rt u" and "reconcileUniverseRevision rt u obs = Inr u'" and "ob \<in> set obs"
  shows "revision_ok rt u' \<and> map_of (ur_entries u') (uo_sourceId ob)
    = Some (entry_after rt (map_of (ur_entries u) (uo_sourceId ob)) ob)"
proof -
  obtain st where st: "for_each (reconcile_step rt) (loop_start u) obs = Inr st" "isFinite (latest_time u obs)"
      "sound_entries (rc_entries st) (rc_versions st)"
    and u': "u' = built rt (Some (ur_revisionId u)) (rc_entries st) (rc_versions st) (rc_events st) (latest_time u obs)"
    using assms(2) by (auto simp: reconcile_iff [OF assms(1)])
  have "catalogued rt (loop_start u)" using assms(1) by (simp add: catalogued_def loop_start_def revision_ok_def sound_entries_def)
  then have cat: "catalogued rt st" by (rule for_each_invariant [OF st(1)]) (blast intro: catalogued_step)
  note loop = reconcile_loop_entries [OF st(1)]
  have "List.find (\<lambda>o'. uo_sourceId o' = uo_sourceId ob) obs = Some ob"
    using assms(3) loop by (auto simp: find_Some_iff in_set_conv_nth distinct_conv_nth)
  with cat loop st(2,3) show ?thesis
    by (auto simp: u' built_ok built_maps catalogued_def addressed_def loop_start_def observed_map_def)
qed

lemma entry_after_outage:
  assumes "revision_ok rt u\<^sub>0" and "reconcileUniverseRevision rt u\<^sub>0 obs\<^sub>1 = Inr u\<^sub>1" and "AbsentObservation i t\<^sub>1 \<in> set obs\<^sub>1"
    and "reconcileUniverseRevision rt u\<^sub>1 obs\<^sub>2 = Inr u\<^sub>2" and "UnavailableObservation i reason t\<^sub>2 \<in> set obs\<^sub>2"
  shows "\<exists>e. map_of (ur_entries u\<^sub>2) i = Some e \<and> ue_observationState e = US_UNAVAILABLE \<and> ue_admittedVersionId e = None
    \<and> ue_lastGoodVersionId e = Option.bind (map_of (ur_entries u\<^sub>0) i) ue_lastGoodVersionId"
proof -
  note one = observed_entry [OF assms(1-3)]
  have "Option.bind (map_of (ur_entries u\<^sub>0) i) ue_lastGoodVersionId = None
    \<Longrightarrow> Option.bind (map_of (ur_entries u\<^sub>0) i) ue_admittedVersionId = None"
    using assms(1) by (cases "map_of (ur_entries u\<^sub>0) i")
      (auto simp: revision_ok_def sound_entries_def assertEntryInvariant_iff dest!: map_of_SomeD)
  with one observed_entry [OF conjunct1 [OF one] assms(4,5)] show ?thesis
    by (auto simp: entry_after_def split: option.splits)
qed

text \<open>
  C27. Admission and commitment use different versions of an unavailable source. On every
  chain of revisions, let a source be found absent in one batch of observations and be out
  of reach in the next, whatever else the batches observe; and let a proposal, made on any
  revision, be admitted on the last of these revisions by any adapter. If the receipt
  admits that source, it admits the version that was its last good one before it was found
  absent, as a fallback; and this receipt cannot be committed on this very revision: if the
  proposal follows the state that is given as previous one, the commitment throws that an
  admitted outcome, one that is not current, references an unknown version.
\<close>

theorem commit_after_outage_fails:
  assumes "revision_chain rt u\<^sub>0"
    and "reconcileUniverseRevision rt u\<^sub>0 obs\<^sub>1 = Inr u\<^sub>1" and "AbsentObservation i t\<^sub>1 \<in> set obs\<^sub>1"
    and "reconcileUniverseRevision rt u\<^sub>1 obs\<^sub>2 = Inr u\<^sub>2" and "UnavailableObservation i reason t\<^sub>2 \<in> set obs\<^sub>2"
    and "createProposedWorkingSet rt u previousId ps version t givenId = Inr p"
    and "admitWorkingSet rt u\<^sub>2 p (Finite budget) adapter t' = Inr r"
    and "Admitted i v f b rep h \<in> set (rc_outcomes r)"
    and "pw_previousCommittedWorkingSetId p = map_option cw_id prev"
  shows "f = FR_LAST_GOOD \<and> b = AB_LAST_GOOD_FALLBACK
    \<and> Option.bind (map_of (ur_entries u\<^sub>0) i) ue_lastGoodVersionId = Some v
    \<and> (\<exists>x\<in>set (rc_outcomes r). \<not> current u\<^sub>2 x
        \<and> commitAdmission rt u\<^sub>2 p r prev committedId = Inl (unknown_version (ao_sourceVersionId x)))"
proof -
  from assms(6) have d: "distinct (map pe_sourceId (pw_entries p))" by (auto simp: createProposedWorkingSet_iff)
  obtain e where e: "map_of (ur_entries u\<^sub>2) i = Some e" "ue_observationState e = US_UNAVAILABLE" "ue_admittedVersionId e = None"
      "ue_lastGoodVersionId e = Option.bind (map_of (ur_entries u\<^sub>0) i) ue_lastGoodVersionId"
    using entry_after_outage [OF chain_ok [OF assms(1)] assms(2-5)] by blast
  from admit_answers [OF d assms(7)] assms(8) have "evidenced rt u\<^sub>2 (Admitted i v f b rep h)"
    by (auto simp: list_all2_conv_all_nth in_set_conv_nth answers_def)
  with e have "f = FR_LAST_GOOD \<and> b = AB_LAST_GOOD_FALLBACK \<and> ue_lastGoodVersionId e = Some v"
    by (auto simp: evidenced_def admissionEvidence_def)
  moreover have "\<not> current u\<^sub>2 (Admitted i v f b rep h)" using e by (simp add: current_def currentVersionId_def)
  ultimately show ?thesis using commitAdmission_stale [OF d assms(7,8) _ assms(9)] e(4) by auto
qed

theorem commit_after_outage_fails_witness:
  "commitAdmission plain after_outage early_proposal late_receipt None None = Inl (unknown_version (uv_versionId version_a))"
  using commit_after_outage_fails [OF one_source_chain outage_example(2) _ outage_example(3) _ outage_example(1,4),
    where i = "''a''" and t\<^sub>1 = "Finite 2" and reason = "''down''" and t\<^sub>2 = "Finite 3" and v = "uv_versionId version_a"
      and prev = None and committedId = None]
  by (simp add: outage_example(5,6))

end
