(* ===== verification/Transition.thy ===== *)
theory Transition
  imports Admission
begin

text \<open>
  Transitions between committed working sets: derived from two states, replayed on the
  first, stored and read back (\<open>transition/transition.ts\<close>).
\<close>

datatype transition_action = TA_ADD | TA_KEEP | TA_REMOVE | TA_REPLACE

fun transition_action_str :: "transition_action \<Rightarrow> string" where
  "transition_action_str TA_ADD = ''ADD''"
| "transition_action_str TA_KEEP = ''KEEP''"
| "transition_action_str TA_REMOVE = ''REMOVE''"
| "transition_action_str TA_REPLACE = ''REPLACE''"

record transition_record =
  tr_action :: transition_action
  tr_sourceId :: string
  tr_previousEntry :: "committed_entry option"
  tr_nextEntry :: "committed_entry option"

record transition_target =
  tg_universeRevisionId :: string
  tg_proposedWorkingSetId :: string
  tg_admissionReceiptId :: string
  tg_previousCommittedWorkingSetId :: "string option"
  tg_adapterId :: string
  tg_adapterVersion :: string
  tg_createdAt :: number
  tg_logicalHash :: string

record working_set_transition =
  wt_transitionId :: string
  wt_fromWorkingSetId :: "string option"
  wt_toWorkingSetId :: string
  wt_fromRenderedContextHash :: "string option"
  wt_toRenderedContextHash :: string
  wt_actions :: "transition_record list"
  wt_target :: transition_target
  wt_logicalHash :: string

definition entryFingerprint :: "committed_entry option \<Rightarrow> string" where
  "entryFingerprint entry =
     (case entry of None \<Rightarrow> ''-'' | Some e \<Rightarrow>
       join bar [int_digits (co_position e), co_sourceId e, co_sourceVersionId e, rp_id (co_representation e),
         representation_kind_str (rp_kind (co_representation e)), rp_contentHash (co_representation e),
         int_digits (rp_tokenEstimate (co_representation e)), working_priority_str (co_priority e),
         join '','' (co_reason e), co_renderedHash e])"

definition sameSemanticValue :: "committed_entry \<Rightarrow> committed_entry \<Rightarrow> bool" where
  "sameSemanticValue previous nxt \<longleftrightarrow> co_sourceId previous = co_sourceId nxt
     \<and> co_sourceVersionId previous = co_sourceVersionId nxt
     \<and> rp_id (co_representation previous) = rp_id (co_representation nxt)"

definition canonicalRecord :: "transition_record \<Rightarrow> string" where
  "canonicalRecord r =
     join bar [transition_action_str (tr_action r), tr_sourceId r, entryFingerprint (tr_previousEntry r),
       entryFingerprint (tr_nextEntry r)]"

definition computeWorkingSetTransitionLogicalHash ::
  "runtime \<Rightarrow> string option \<Rightarrow> string \<Rightarrow> string option \<Rightarrow> string \<Rightarrow> transition_record list \<Rightarrow> string \<Rightarrow> string" where
  "computeWorkingSetTransitionLogicalHash rt fromId toId fromHash toHash actions targetLogicalHash =
     rt_sha256Hex rt (join unit_separator
       ([''working-set-transition-v1'', default_to fromId ''-'', toId, default_to fromHash ''-'', toHash,
         targetLogicalHash] @ map canonicalRecord actions))"

section \<open>Derivation\<close>

definition by_source :: "committed_entry list \<Rightarrow> (string \<times> committed_entry) list" where
  "by_source entries = new_Map (map (\<lambda>e. (co_sourceId e, e)) entries)"

definition previous_entries :: "committed_working_set option \<Rightarrow> committed_entry list" where
  "previous_entries previous = (case previous of None \<Rightarrow> [] | Some c \<Rightarrow> cw_entries c)"

definition derive_record ::
  "(string \<times> committed_entry) list \<Rightarrow> (string \<times> committed_entry) list \<Rightarrow> string \<Rightarrow> transition_record" where
  "derive_record previousBySource currentBySource sourceId =
     (let p = map_of previousBySource sourceId; n = map_of currentBySource sourceId in
      \<lparr>tr_action = (case (p, n) of
          (None, Some _) \<Rightarrow> TA_ADD
        | (Some _, None) \<Rightarrow> TA_REMOVE
        | (Some a, Some b) \<Rightarrow> if sameSemanticValue a b then TA_KEEP else TA_REPLACE
        | (None, None) \<Rightarrow> TA_REPLACE),
       tr_sourceId = sourceId, tr_previousEntry = p, tr_nextEntry = n\<rparr>)"

definition target_of_committed :: "committed_working_set \<Rightarrow> transition_target" where
  "target_of_committed current =
     \<lparr>tg_universeRevisionId = cw_universeRevisionId current, tg_proposedWorkingSetId = cw_proposedWorkingSetId current,
      tg_admissionReceiptId = cw_admissionReceiptId current,
      tg_previousCommittedWorkingSetId = cw_previousCommittedWorkingSetId current, tg_adapterId = cw_adapterId current,
      tg_adapterVersion = cw_adapterVersion current, tg_createdAt = cw_createdAt current,
      tg_logicalHash = cw_logicalHash current\<rparr>"

definition computeWorkingSetTransition ::
  "runtime \<Rightarrow> committed_working_set option \<Rightarrow> committed_working_set \<Rightarrow> working_set_transition outcome" where
  "computeWorkingSetTransition rt previous current =
     try_then (fail_if (cw_previousCommittedWorkingSetId current \<noteq> map_option cw_id previous)
       ''current committed state does not point at the supplied previous state'') (\<lambda>_.
     (let previousBySource = by_source (previous_entries previous);
          currentBySource = by_source (cw_entries current);
          sourceIds = sort_by (rt_localeCompare rt) (new_Set (map fst previousBySource @ map fst currentBySource));
          actions = map (derive_record previousBySource currentBySource) sourceIds;
          logicalHash = computeWorkingSetTransitionLogicalHash rt (map_option cw_id previous) (cw_id current)
            (map_option cw_renderedContextHash previous) (cw_renderedContextHash current) actions
            (cw_logicalHash current)
      in Inr \<lparr>wt_transitionId = ''working-set-transition:'' @ take 24 logicalHash,
              wt_fromWorkingSetId = map_option cw_id previous, wt_toWorkingSetId = cw_id current,
              wt_fromRenderedContextHash = map_option cw_renderedContextHash previous,
              wt_toRenderedContextHash = cw_renderedContextHash current, wt_actions = actions,
              wt_target = target_of_committed current, wt_logicalHash = logicalHash\<rparr>))"

section \<open>Replay\<close>

definition apply_record ::
  "(string \<times> committed_entry) list \<Rightarrow> transition_record \<Rightarrow> (string \<times> committed_entry) list outcome" where
  "apply_record entriesBySource r =
     (let i = tr_sourceId r in
      try_then (fail_if (entryFingerprint (map_of entriesBySource i) \<noteq> entryFingerprint (tr_previousEntry r))
        (''transition precondition mismatch for '' @ i)) (\<lambda>_.
      case tr_action r of
        TA_ADD \<Rightarrow> (case (tr_previousEntry r, tr_nextEntry r) of
            (None, Some e) \<Rightarrow> Inr (AList.update i e entriesBySource)
          | _ \<Rightarrow> fail (''invalid ADD transition for '' @ i))
      | TA_REMOVE \<Rightarrow> (case (tr_previousEntry r, tr_nextEntry r) of
            (Some _, None) \<Rightarrow> Inr (AList.delete i entriesBySource)
          | _ \<Rightarrow> fail (''invalid REMOVE transition for '' @ i))
      | a \<Rightarrow> (case (tr_previousEntry r, tr_nextEntry r) of
            (Some _, Some e) \<Rightarrow> Inr (AList.update i e entriesBySource)
          | _ \<Rightarrow> fail (''invalid '' @ transition_action_str a @ '' transition for '' @ i))))"

definition by_position :: "committed_entry \<Rightarrow> committed_entry \<Rightarrow> int" where
  "by_position a b = co_position a - co_position b"

definition applyWorkingSetTransition ::
  "runtime \<Rightarrow> committed_working_set option \<Rightarrow> working_set_transition \<Rightarrow> committed_working_set outcome" where
  "applyWorkingSetTransition rt previous transition =
     try_then (fail_if (map_option cw_id previous \<noteq> wt_fromWorkingSetId transition)
       ''transition source does not match supplied previous committed state'') (\<lambda>_.
     try_then (for_each apply_record (by_source (previous_entries previous)) (wt_actions transition))
       (\<lambda>entriesBySource.
     (let entries = sort_by by_position (map_values entriesBySource);
          target = wt_target transition;
          rebuilt = computeCommittedWorkingSetLogicalHash rt (tg_universeRevisionId target)
            (tg_proposedWorkingSetId target) (tg_admissionReceiptId target)
            (tg_previousCommittedWorkingSetId target) entries (wt_toRenderedContextHash transition)
            (tg_adapterId target) (tg_adapterVersion target) (tg_createdAt target)
      in try_then (fail_if (rebuilt \<noteq> tg_logicalHash target)
           ''transition replay produced a different committed logicalHash'') (\<lambda>_.
         Inr \<lparr>cw_id = wt_toWorkingSetId transition, cw_universeRevisionId = tg_universeRevisionId target,
              cw_proposedWorkingSetId = tg_proposedWorkingSetId target,
              cw_admissionReceiptId = tg_admissionReceiptId target,
              cw_previousCommittedWorkingSetId = tg_previousCommittedWorkingSetId target, cw_entries = entries,
              cw_renderedContextHash = wt_toRenderedContextHash transition, cw_adapterId = tg_adapterId target,
              cw_adapterVersion = tg_adapterVersion target, cw_createdAt = tg_createdAt target,
              cw_logicalHash = rebuilt\<rparr>))))"

section \<open>The stored form\<close>

record serialized_transition =
  st_schemaVersion :: int
  st_transitionId :: string
  st_fromWorkingSetId :: "string option"
  st_toWorkingSetId :: string
  st_fromRenderedContextHash :: "string option"
  st_toRenderedContextHash :: string
  st_actions :: "transition_record list"
  st_target :: transition_target
  st_logicalHash :: string

definition record_json :: "transition_record \<Rightarrow> json" where
  "record_json r = JObj
     [(''action'', JStr (transition_action_str (tr_action r))), (''sourceId'', JStr (tr_sourceId r)),
      (''previousEntry'', case tr_previousEntry r of None \<Rightarrow> JNull | Some e \<Rightarrow> committed_entry_json e),
      (''nextEntry'', case tr_nextEntry r of None \<Rightarrow> JNull | Some e \<Rightarrow> committed_entry_json e)]"

definition target_json :: "transition_target \<Rightarrow> json" where
  "target_json t = JObj
     [(''universeRevisionId'', JStr (tg_universeRevisionId t)),
      (''proposedWorkingSetId'', JStr (tg_proposedWorkingSetId t)),
      (''admissionReceiptId'', JStr (tg_admissionReceiptId t)),
      (''previousCommittedWorkingSetId'', jopt (tg_previousCommittedWorkingSetId t)),
      (''adapterId'', JStr (tg_adapterId t)), (''adapterVersion'', JStr (tg_adapterVersion t)),
      (''createdAt'', num_json (tg_createdAt t)), (''logicalHash'', JStr (tg_logicalHash t))]"

definition serialized_working_set_transition :: "working_set_transition \<Rightarrow> serialized_transition" where
  "serialized_working_set_transition transition =
     \<lparr>st_schemaVersion = 1, st_transitionId = wt_transitionId transition,
      st_fromWorkingSetId = wt_fromWorkingSetId transition, st_toWorkingSetId = wt_toWorkingSetId transition,
      st_fromRenderedContextHash = wt_fromRenderedContextHash transition,
      st_toRenderedContextHash = wt_toRenderedContextHash transition, st_actions = wt_actions transition,
      st_target = wt_target transition, st_logicalHash = wt_logicalHash transition\<rparr>"

definition serialized_transition_json :: "serialized_transition \<Rightarrow> json" where
  "serialized_transition_json v = JObj
     [(''schemaVersion'', JNum (st_schemaVersion v)), (''transitionId'', JStr (st_transitionId v)),
      (''fromWorkingSetId'', jopt (st_fromWorkingSetId v)), (''toWorkingSetId'', JStr (st_toWorkingSetId v)),
      (''fromRenderedContextHash'', jopt (st_fromRenderedContextHash v)),
      (''toRenderedContextHash'', JStr (st_toRenderedContextHash v)),
      (''actions'', JArr (map record_json (st_actions v))), (''target'', target_json (st_target v)),
      (''logicalHash'', JStr (st_logicalHash v))]"

definition serializeWorkingSetTransition :: "working_set_transition \<Rightarrow> string" where
  "serializeWorkingSetTransition transition =
     stringify (serialized_transition_json (serialized_working_set_transition transition))"

definition read_record :: "json \<Rightarrow> transition_record option" where
  "read_record j =
     do { a \<leftarrow> field ''action'' (as_enum transition_action_str [TA_ADD, TA_KEEP, TA_REMOVE, TA_REPLACE]) j;
          i \<leftarrow> field ''sourceId'' as_string j;
          previous \<leftarrow> field ''previousEntry'' (nullable read_committed_entry) j;
          nxt \<leftarrow> field ''nextEntry'' (nullable read_committed_entry) j;
          Some \<lparr>tr_action = a, tr_sourceId = i, tr_previousEntry = previous, tr_nextEntry = nxt\<rparr> }"

definition read_target :: "json \<Rightarrow> transition_target option" where
  "read_target j =
     do { u \<leftarrow> field ''universeRevisionId'' as_string j;
          p \<leftarrow> field ''proposedWorkingSetId'' as_string j;
          r \<leftarrow> field ''admissionReceiptId'' as_string j;
          previous \<leftarrow> field ''previousCommittedWorkingSetId'' (nullable as_string) j;
          ai \<leftarrow> field ''adapterId'' as_string j;
          av \<leftarrow> field ''adapterVersion'' as_string j;
          t \<leftarrow> field ''createdAt'' as_number j;
          h \<leftarrow> field ''logicalHash'' as_string j;
          Some \<lparr>tg_universeRevisionId = u, tg_proposedWorkingSetId = p, tg_admissionReceiptId = r,
            tg_previousCommittedWorkingSetId = previous, tg_adapterId = ai, tg_adapterVersion = av,
            tg_createdAt = t, tg_logicalHash = h\<rparr> }"

definition read_transition :: "json \<Rightarrow> serialized_transition option" where
  "read_transition j =
     do { schema \<leftarrow> field ''schemaVersion'' as_int j;
          i \<leftarrow> field ''transitionId'' as_string j;
          c \<leftarrow> field ''fromWorkingSetId'' (nullable as_string) j;
          d \<leftarrow> field ''toWorkingSetId'' as_string j;
          rc \<leftarrow> field ''fromRenderedContextHash'' (nullable as_string) j;
          rd \<leftarrow> field ''toRenderedContextHash'' as_string j;
          actions \<leftarrow> field ''actions'' (as_list read_record) j;
          t \<leftarrow> field ''target'' read_target j;
          h \<leftarrow> field ''logicalHash'' as_string j;
          Some \<lparr>st_schemaVersion = schema, st_transitionId = i, st_fromWorkingSetId = c, st_toWorkingSetId = d,
            st_fromRenderedContextHash = rc, st_toRenderedContextHash = rd, st_actions = actions, st_target = t,
            st_logicalHash = h\<rparr> }"

definition freezeRecord :: "transition_record \<Rightarrow> transition_record" where
  "freezeRecord r =
     \<lparr>tr_action = tr_action r, tr_sourceId = tr_sourceId r, tr_previousEntry = tr_previousEntry r,
      tr_nextEntry = tr_nextEntry r\<rparr>"

definition deserializeWorkingSetTransition ::
  "runtime \<Rightarrow> serialized_transition \<Rightarrow> working_set_transition outcome" where
  "deserializeWorkingSetTransition rt value =
     (let actions = map freezeRecord (st_actions value);
          logicalHash = computeWorkingSetTransitionLogicalHash rt (st_fromWorkingSetId value)
            (st_toWorkingSetId value) (st_fromRenderedContextHash value) (st_toRenderedContextHash value)
            actions (tg_logicalHash (st_target value));
          expectedTransitionId = ''working-set-transition:'' @ take 24 logicalHash
      in try_then (fail_if (st_schemaVersion value \<noteq> 1)
           (''unsupported WorkingSetTransition schema: '' @ int_digits (st_schemaVersion value))) (\<lambda>_.
         try_then (fail_if (logicalHash \<noteq> st_logicalHash value)
           ''WorkingSetTransition logicalHash mismatch during deserialization'') (\<lambda>_.
         try_then (fail_if (st_transitionId value \<noteq> expectedTransitionId)
           (''WorkingSetTransition.transitionId must equal '' @ expectedTransitionId)) (\<lambda>_.
         Inr \<lparr>wt_transitionId = st_transitionId value, wt_fromWorkingSetId = st_fromWorkingSetId value,
              wt_toWorkingSetId = st_toWorkingSetId value,
              wt_fromRenderedContextHash = st_fromRenderedContextHash value,
              wt_toRenderedContextHash = st_toRenderedContextHash value, wt_actions = actions,
              wt_target = st_target value, wt_logicalHash = logicalHash\<rparr>))))"

end
