(* ===== verification/Transition_Laws.thy ===== *)
theory Transition_Laws
  imports Admission_Laws Transition
begin

text \<open>
  Histories of committed working sets, what holds in each of them, and the two round trips
  of a transition: replayed on the state it starts from it gives the state it leads to, and
  stored it is read back as it was.
\<close>

inductive committed_history :: "runtime \<Rightarrow> committed_working_set option \<Rightarrow> bool" for rt where
  start: "committed_history rt None"
| commit: "committed_history rt prev \<Longrightarrow> createProposedWorkingSet rt u\<^sub>0 previousId ps ver t i = Inr p \<Longrightarrow>
     commitAdmission rt u p r prev j = Inr c \<Longrightarrow> committed_history rt (Some c)"

section \<open>Committed states\<close>

definition committed_ok :: "runtime \<Rightarrow> committed_working_set \<Rightarrow> bool" where
  "committed_ok rt c \<longleftrightarrow> distinct (map co_sourceId (cw_entries c))
     \<and> map co_position (cw_entries c) = map int [0..<length (cw_entries c)]
     \<and> cw_logicalHash c = computeCommittedWorkingSetLogicalHash rt (cw_universeRevisionId c) (cw_proposedWorkingSetId c)
         (cw_admissionReceiptId c) (cw_previousCommittedWorkingSetId c) (cw_entries c) (cw_renderedContextHash c)
         (cw_adapterId c) (cw_adapterVersion c) (cw_createdAt c)"

lemma new_Map_subset: "set (new_Map kvs) \<subseteq> set kvs"
proof -
  have "set (foldl (\<lambda>m (k, v). AList.update k v m) m kvs) \<subseteq> set m \<union> set kvs" for m
    by (induction kvs arbitrary: m) (auto dest!: in_update dest: subsetD)
  from this [of "[]"] show ?thesis by (simp add: new_Map_def)
qed

lemma outcomes_by_source_key: "map_of (outcomes_by_source r) i = Some x \<Longrightarrow> ao_sourceId x = i"
  unfolding outcomes_by_source_def by (drule map_of_SomeD, drule subsetD [OF new_Map_subset]) auto

lemma commit_entry_okD:
  assumes "commit_entry u P (outcomes_by_source r) es p = Inr es'"
  shows "es' = es \<or> (\<exists>e. es' = es @ [e] \<and> co_position e = int (length es) \<and> co_sourceId e = pe_sourceId p)"
  using assms outcomes_by_source_key [of r "pe_sourceId p"]
  by (auto simp: commit_entry_def try_simps split: option.splits admission_outcome.splits)

lemma commit_loop_okD:
  assumes "for_each (commit_entry u P (outcomes_by_source r)) es ps = Inr es'" and "distinct (map pe_sourceId ps)"
    and "distinct (map co_sourceId es)" and "co_sourceId ` set es \<inter> pe_sourceId ` set ps = {}"
    and "map co_position es = map int [0..<length es]"
  shows "distinct (map co_sourceId es') \<and> map co_position es' = map int [0..<length es']"
  using assms
proof (induction ps arbitrary: es)
  case (Cons p ps)
  from Cons.prems(1) obtain es1 where one: "commit_entry u P (outcomes_by_source r) es p = Inr es1"
    and rest: "for_each (commit_entry u P (outcomes_by_source r)) es1 ps = Inr es'" by (auto simp: try_simps)
  from commit_entry_okD [OF one] consider "es1 = es"
    | e where "es1 = es @ [e]" "co_position e = int (length es)" "co_sourceId e = pe_sourceId p" by blast
  then show ?case
    by cases (use Cons.prems in \<open>simp_all add: Cons.IH [OF rest]\<close>)
qed simp

lemma commitAdmission_okD:
  assumes "createProposedWorkingSet rt u\<^sub>0 previousId ps ver t i = Inr p" and "commitAdmission rt u p r prev j = Inr c"
  shows "committed_ok rt c \<and> cw_previousCommittedWorkingSetId c = map_option cw_id prev"
proof -
  from assms(1) have d: "distinct (map pe_sourceId (pw_entries p))" by (auto simp: createProposedWorkingSet_iff)
  from assms(2) obtain es where es: "for_each (commit_entry u (proposals_by_source p) (outcomes_by_source r)) [] (pw_entries p) = Inr es"
    and c: "c = committed_made rt p r (map_option cw_id prev) es" unfolding commitAdmission_iff by blast
  from commit_loop_okD [OF es d] show ?thesis by (simp add: c committed_ok_def committed_made_def Let_def)
qed

lemma committed_history_ok: "committed_history rt x \<Longrightarrow> x = Some c \<Longrightarrow> committed_ok rt c"
  by (induction rule: committed_history.induct) (auto dest: commitAdmission_okD)

section \<open>A committed state\<close>

definition proposed_a :: proposed_entry where
  "proposed_a = \<lparr>pe_sourceId = ''a'', pe_sourceVersionId = uv_versionId version_a,
     pe_representation = full_of (uv_versionId version_a), pe_priority = WP0, pe_reason = [''USER_PINNED''],
     pe_estimatedTokens = Some 3\<rparr>"

definition first_proposal :: proposed_working_set where
  "first_proposal = proposal_made plain (ur_revisionId one_source) None [proposed_a] ''v0'' (Finite 1)"

definition first_receipt :: admission_receipt where
  "first_receipt = projr (admitWorkingSet plain one_source first_proposal (Finite 10) plain_adapter (Finite 4))"

definition first_commit :: committed_working_set where
  "first_commit = projr (commitAdmission plain one_source first_proposal first_receipt None None)"

lemma first_steps:
  "createProposedWorkingSet plain one_source None [proposed_a] ''v0'' (Finite 1) None = Inr first_proposal"
  "admitWorkingSet plain one_source first_proposal (Finite 10) plain_adapter (Finite 4) = Inr first_receipt"
  "commitAdmission plain one_source first_proposal first_receipt None None = Inr first_commit"
  by code_simp+

section \<open>Replay\<close>

definition indexed :: "committed_entry list \<Rightarrow> (string \<times> committed_entry) list" where
  "indexed es = map (\<lambda>e. (co_sourceId e, e)) es"

lemma by_source_distinct: "distinct (map co_sourceId es) \<Longrightarrow> by_source es = indexed es"
  by (simp add: by_source_def indexed_def new_Map_distinct comp_def)

lemma map_of_delete: "map_of (AList.delete i m) j = (if j = i then None else map_of m j)"
  by (simp add: delete_conv)

text \<open>One derived record replayed where the state still has the old entry.\<close>

lemma apply_derived:
  assumes "map_of m i = map_of old i" and "map_of old i \<noteq> None \<or> map_of new i \<noteq> None"
  shows "\<exists>m'. apply_record m (derive_record old new i) = Inr m' \<and> map_of m' i = map_of new i
    \<and> (\<forall>j. j \<noteq> i \<longrightarrow> map_of m' j = map_of m j) \<and> (distinct (map fst m) \<longrightarrow> distinct (map fst m'))"
  using assms
  by (cases "map_of old i"; cases "map_of new i")
    (auto simp: apply_record_def derive_record_def Let_def map_of_delete update_conv' distinct_update distinct_delete
      split: option.splits)

lemma apply_loop:
  assumes "distinct is" and "\<And>i. i \<in> set is \<Longrightarrow> map_of m i = map_of old i"
    and "\<And>i. i \<in> set is \<Longrightarrow> map_of old i \<noteq> None \<or> map_of new i \<noteq> None" and "distinct (map fst m)"
  shows "\<exists>m'. for_each apply_record m (map (derive_record old new) is) = Inr m' \<and> distinct (map fst m')
    \<and> (\<forall>j. map_of m' j = (if j \<in> set is then map_of new j else map_of m j))"
  using assms
proof (induction "is" arbitrary: m)
  case (Cons i "is")
  from apply_derived [of m i old new] Cons.prems obtain m1 where
    m1: "apply_record m (derive_record old new i) = Inr m1" "map_of m1 i = map_of new i"
      "\<And>j. j \<noteq> i \<Longrightarrow> map_of m1 j = map_of m j" "distinct (map fst m1)" by auto
  from Cons.prems m1(3) have "map_of m1 j = map_of old j" if "j \<in> set is" for j using that by (cases "j = i") auto
  from Cons.IH [OF _ this] Cons.prems m1(4) obtain m2 where
    m2: "for_each apply_record m1 (map (derive_record old new) is) = Inr m2" "distinct (map fst m2)"
      "\<forall>j. map_of m2 j = (if j \<in> set is then map_of new j else map_of m1 j)" by auto
  then show ?case using m1 Cons.prems(1) by (intro exI [of _ m2]) auto
qed simp

lemma by_position_consistent: "consistent by_position"
  by (auto simp: consistent_def by_position_def)

lemma sorted_by_position: "sorted_by by_position es \<longleftrightarrow> sorted (map co_position es)"
  by (simp add: sorted_by_def by_position_def sorted_map)

lemma sort_replayed:
  assumes "distinct (map fst m)" and "map_of m = map_of (indexed es)" and "distinct (map co_sourceId es)"
    and "map co_position es = map int [0..<length es]"
  shows "sort_by by_position (map_values m) = es"
proof -
  have d: "distinct (map fst (indexed es))" using assms(3) by (simp add: indexed_def comp_def)
  have "set m = set (indexed es)" using map_of_inject_set [OF assms(1) d] assms(2) by simp
  then have vals: "set (map_values m) = set es" and "distinct m \<and> inj_on snd (set m)"
    using assms(1) by (auto simp: indexed_def image_image distinct_map inj_on_def)
  then have dv: "distinct (map_values m)" by (simp add: distinct_map)
  have pos: "distinct (map co_position es)" "sorted (map co_position es)" by (simp_all add: assms(4) distinct_map sorted_map)
  then have inj: "inj_on co_position (set es)" by (simp add: distinct_map)
  show ?thesis
  proof (rule map_sorted_distinct_set_unique [of co_position])
    show "sorted (map co_position (sort_by by_position (map_values m)))"
      using sorted_sort_by [OF by_position_consistent] by (simp add: sorted_by_position)
    show "distinct (map co_position (sort_by by_position (map_values m)))"
      using dv inj vals distinct_map_sort_by [of "\<lambda>x. x" by_position "map_values m"] by (simp add: distinct_map)
  qed (use pos inj vals in auto)
qed

lemma replay_entries:
  assumes "distinct (map co_sourceId es)" and "distinct (map co_sourceId es')"
    and "map co_position es' = map int [0..<length es']"
  shows "\<exists>m. for_each apply_record (by_source es) (map (derive_record (by_source es) (by_source es'))
      (sort_by cmp (new_Set (map fst (by_source es) @ map fst (by_source es'))))) = Inr m
    \<and> sort_by by_position (map_values m) = es'"
proof -
  let ?old = "indexed es" and ?new = "indexed es'"
  let ?is = "sort_by cmp (new_Set (map fst ?old @ map fst ?new))"
  have "distinct ?is" using distinct_map_sort_by [of "\<lambda>x. x" cmp] by simp
  moreover have ids: "set ?is = fst ` set ?old \<union> fst ` set ?new" by simp
  moreover from ids have "map_of ?old i \<noteq> None \<or> map_of ?new i \<noteq> None" if "i \<in> set ?is" for i
    using that by (simp only: map_of_eq_None_iff Un_iff) blast
  moreover have "distinct (map fst ?old)" using assms(1) by (simp add: indexed_def comp_def)
  ultimately obtain m where m: "for_each apply_record ?old (map (derive_record ?old ?new) ?is) = Inr m" "distinct (map fst m)"
      "\<forall>j. map_of m j = (if j \<in> set ?is then map_of ?new j else map_of ?old j)"
    using apply_loop [of ?is ?old ?old ?new] by blast
  have "map_of m j = map_of ?new j" for j
  proof (cases "j \<in> set ?is")
    case False
    with ids have "map_of ?old j = None" "map_of ?new j = None" by (simp_all only: map_of_eq_None_iff Un_iff) simp_all
    with False m(3) show ?thesis by simp
  qed (use m(3) in simp)
  then have "sort_by by_position (map_values m) = es'" by (intro sort_replayed m(2) assms(2,3) ext)
  with m(1) show ?thesis by (auto simp: by_source_distinct assms(1,2))
qed

lemma history_previous: "committed_history rt prev \<Longrightarrow> distinct (map co_sourceId (previous_entries prev))"
  by (cases prev) (auto simp: previous_entries_def committed_ok_def dest: committed_history_ok)

lemma freezeRecord_id [simp]: "freezeRecord r = r"
  by (simp add: freezeRecord_def)

lemma freezeRecord_map [simp]: "map freezeRecord rs = rs"
  by (simp add: map_idI)

definition made_transition :: "runtime \<Rightarrow> working_set_transition \<Rightarrow> bool" where
  "made_transition rt tr \<longleftrightarrow> (\<exists>prev c. computeWorkingSetTransition rt prev c = Inr tr)"

interpretation transitions: stored_form serialized_working_set_transition "deserializeWorkingSetTransition rt" "made_transition rt"
  for rt
  by unfold_locales (auto simp: made_transition_def computeWorkingSetTransition_def deserializeWorkingSetTransition_def
    serialized_working_set_transition_def Let_def target_of_committed_def try_simps)

text \<open>
  C28. In every history of committed states, the transition computed from a state to the
  next one exists; replayed on the earlier state it passes every precondition and the final
  hash check and gives exactly the later state, entries, order and metadata; and stored it
  is read back as it was. The states come from arbitrary receipts that were committed, and
  the comparison function that orders the actions is arbitrary.
\<close>

theorem transition_replay:
  assumes "committed_history rt prev" and "createProposedWorkingSet rt u\<^sub>0 previousId ps ver t i = Inr p"
    and "commitAdmission rt u p r prev j = Inr c"
  shows "\<exists>tr. computeWorkingSetTransition rt prev c = Inr tr \<and> applyWorkingSetTransition rt prev tr = Inr c
    \<and> deserializeWorkingSetTransition rt (serialized_working_set_transition tr) = Inr tr"
proof -
  have ok: "committed_ok rt c" "cw_previousCommittedWorkingSetId c = map_option cw_id prev"
    using commitAdmission_okD [OF assms(2,3)] by simp_all
  have "distinct (map co_sourceId (cw_entries c))" "map co_position (cw_entries c) = map int [0..<length (cw_entries c)]"
    using ok(1) by (simp_all add: committed_ok_def)
  from replay_entries [OF history_previous [OF assms(1)] this, of "rt_localeCompare rt"] obtain m where
    m: "for_each apply_record (by_source (previous_entries prev)) (map (derive_record (by_source (previous_entries prev))
        (by_source (cw_entries c))) (sort_by (rt_localeCompare rt) (new_Set (map fst (by_source (previous_entries prev))
        @ map fst (by_source (cw_entries c)))))) = Inr m" "sort_by by_position (map_values m) = cw_entries c" by blast
  from ok obtain tr where tr: "computeWorkingSetTransition rt prev c = Inr tr"
    by (simp add: computeWorkingSetTransition_def Let_def)
  with ok(2) have "applyWorkingSetTransition rt prev tr = Inr c"
    using ok(1) m by (auto simp: computeWorkingSetTransition_def applyWorkingSetTransition_def Let_def target_of_committed_def
      committed_ok_def try_simps)
  moreover from tr have "deserializeWorkingSetTransition rt (serialized_working_set_transition tr) = Inr tr"
    by (intro transitions.restore_store) (auto simp: made_transition_def)
  ultimately show ?thesis using tr by blast
qed

theorem transition_replay_witness:
  "\<exists>tr. computeWorkingSetTransition plain None first_commit = Inr tr
    \<and> applyWorkingSetTransition plain None tr = Inr first_commit
    \<and> deserializeWorkingSetTransition plain (serialized_working_set_transition tr) = Inr tr"
  by (rule transition_replay [OF committed_history.start first_steps(1,3)])

end
