(* ===== verification/Stored_Texts.thy ===== *)
theory Stored_Texts
  imports Transition_Laws
begin

text \<open>
  The stored forms of the working set pipeline as texts: \<open>JSON.stringify\<close> writes the fields of
  a proposal, a receipt, a committed state and a transition, \<open>JSON.parse\<close> reads them, and the
  restored value is the one that was stored.
\<close>

section \<open>Shapes read back\<close>

lemma enums_read [simp]:
  "as_enum representation_kind_str [RK_REFERENCE, RK_METADATA, RK_FULL, RK_SYMBOL, RK_LINE_RANGE, RK_DIFF, RK_SUMMARY]
     (JStr (representation_kind_str k)) = Some k"
  "as_enum lossiness_str [LS_NONE, LS_BOUNDED, LS_LOSSY] (JStr (lossiness_str l)) = Some l"
  "read_priority (JStr (working_priority_str p)) = Some p"
  "as_enum freshness_str [FR_FRESH, FR_LAST_GOOD] (JStr (freshness_str f)) = Some f"
  "as_enum admission_basis_str [AB_OBSERVED_CURRENT, AB_LAST_GOOD_FALLBACK] (JStr (admission_basis_str b)) = Some b"
  "as_enum rejection_reason_str [RJ_BUDGET, RJ_POLICY, RJ_STALE, RJ_CONFLICT, RJ_ADAPTER_LIMIT]
     (JStr (rejection_reason_str j)) = Some j"
  "as_enum transition_action_str [TA_ADD, TA_KEEP, TA_REMOVE, TA_REPLACE] (JStr (transition_action_str a)) = Some a"
  by ((cases k; simp add: as_enum_def), (cases l; simp add: as_enum_def), (cases p; simp add: as_enum_def),
    (cases f; simp add: as_enum_def), (cases b; simp add: as_enum_def), (cases j; simp add: as_enum_def),
    (cases a; simp add: as_enum_def))

lemma strings_read [simp]: "as_list as_string (JArr (map JStr xs)) = Some xs"
  by (rule as_list_map) simp

lemma null_read [simp]: "nullable as_string (jopt x) = Some x"
  by (cases x) (simp_all add: nullable_def jopt_def)

lemma number_read [simp]: "isFinite t \<Longrightarrow> as_number (num_json t) = Some t"
  by (cases t) (simp_all add: as_number_def num_json_def)

lemma representation_read [simp]: "read_representation (representation_json r) = Some r"
  by (cases "rp_content r"; cases "rp_contentRef r")
    (simp_all add: read_representation_def representation_json_def field_def optional_field_def member_def optional_member_def
      del: as_list.simps)

lemma proposed_entry_read [simp]: "read_proposed_entry (proposed_entry_json e) = Some e"
  by (cases "pe_estimatedTokens e")
    (simp_all add: read_proposed_entry_def proposed_entry_json_def field_def optional_field_def member_def del: as_list.simps)

lemma outcome_read [simp]: "read_outcome (outcome_json x) = Some x"
  by (cases x) (simp_all add: read_outcome_def field_def member_def)

lemma committed_entry_read [simp]: "read_committed_entry (committed_entry_json e) = Some e"
  by (simp add: read_committed_entry_def committed_entry_json_def field_def member_def del: as_list.simps)

lemma nullable_entry_read [simp]:
  "nullable read_committed_entry (case x of None \<Rightarrow> JNull | Some e \<Rightarrow> committed_entry_json e) = Some x"
  by (cases x) (simp_all add: nullable_def, simp add: committed_entry_json_def)

lemma record_read [simp]: "read_record (record_json r) = Some r"
  by (simp add: read_record_def record_json_def field_def member_def)

lemma target_read: "isFinite (tg_createdAt t) \<Longrightarrow> read_target (target_json t) = Some t"
  by (simp add: read_target_def target_json_def field_def member_def)

lemma proposal_read: "isFinite (sp_createdAt v) \<Longrightarrow> read_proposal (serialized_proposal_json v) = Some v"
  by (simp add: read_proposal_def serialized_proposal_json_def field_def member_def as_list_map del: as_list.simps)

lemma receipt_read: "isFinite (sr_createdAt v) \<Longrightarrow> read_receipt (serialized_receipt_json v) = Some v"
  by (simp add: read_receipt_def serialized_receipt_json_def field_def member_def as_list_map del: as_list.simps)

lemma committed_read: "isFinite (sc_createdAt v) \<Longrightarrow> read_committed (serialized_committed_json v) = Some v"
  by (simp add: read_committed_def serialized_committed_json_def field_def member_def as_list_map del: as_list.simps)

lemma transition_read:
  "isFinite (tg_createdAt (st_target v)) \<Longrightarrow> read_transition (serialized_transition_json v) = Some v"
  by (simp add: read_transition_def serialized_transition_json_def field_def member_def as_list_map target_read
    del: as_list.simps)

section \<open>Stored forms\<close>

definition made_proposal :: "runtime \<Rightarrow> universe_revision \<Rightarrow> proposed_working_set \<Rightarrow> bool" where
  "made_proposal rt u p \<longleftrightarrow> (\<exists>previousId ps ver t i. createProposedWorkingSet rt u previousId ps ver t i = Inr p)"

definition made_receipt :: "runtime \<Rightarrow> universe_revision \<Rightarrow> proposed_working_set \<Rightarrow> admission_receipt \<Rightarrow> bool" where
  "made_receipt rt u p r \<longleftrightarrow> (\<exists>budget adapter t. admitWorkingSet rt u p budget adapter t = Inr r)"

definition made_commit ::
  "runtime \<Rightarrow> universe_revision \<Rightarrow> proposed_working_set \<Rightarrow> admission_receipt \<Rightarrow> committed_working_set option
   \<Rightarrow> committed_working_set \<Rightarrow> bool" where
  "made_commit rt u p r prev c \<longleftrightarrow> isFinite (rc_createdAt r) \<and> (\<exists>i. commitAdmission rt u p r prev i = Inr c)"

lemma deserialized_entry_id [simp]: "map deserialized_entry es = es"
  by (simp add: map_idI deserialized_entry_def deserializeRepresentation_def)

lemma made_receiptD:
  "made_receipt rt u p r \<Longrightarrow> isFinite (rc_createdAt r)
     \<and> createAdmissionReceipt rt p (Some (ur_revisionId u)) (rc_outcomes r) (rc_renderedContextHash r)
         (rc_adapterId r) (rc_adapterVersion r) (rc_createdAt r) (Some (rc_id r)) = Inr r
     \<and> rc_proposedWorkingSetId r = pw_id p \<and> rc_universeRevisionId r = ur_revisionId u"
proof -
  assume "made_receipt rt u p r"
  then obtain budget adapter t where "admitWorkingSet rt u p budget adapter t = Inr r" by (auto simp: made_receipt_def)
  then obtain xs rh ai av where "createAdmissionReceipt rt p (Some (ur_revisionId u)) xs rh ai av t None = Inr r"
    by (cases budget) (auto simp: admitWorkingSet_def try_simps)
  then show ?thesis by (auto simp: createAdmissionReceipt_iff)
qed

interpretation proposals: text_form serialized_proposed_working_set "\<lambda>v. deserializeProposedWorkingSet rt v u"
    "made_proposal rt u" serialized_proposal_json read_proposal
  for rt u
proof
  fix p assume made: "made_proposal rt u p"
  then show "deserializeProposedWorkingSet rt (serialized_proposed_working_set p) u = Inr p"
    unfolding made_proposal_def deserializeProposedWorkingSet_def serialized_proposed_working_set_def try_simps
    by (auto simp: createProposedWorkingSet_iff)
  from made show "read_proposal (serialized_proposal_json (serialized_proposed_working_set p))
      = Some (serialized_proposed_working_set p)"
    by (intro proposal_read) (auto simp: made_proposal_def serialized_proposed_working_set_def createProposedWorkingSet_iff)
qed

interpretation receipts: text_form serialized_admission_receipt "\<lambda>v. deserializeAdmissionReceipt rt v p u"
    "made_receipt rt u p" serialized_receipt_json read_receipt
  for rt u p
proof
  fix r assume "made_receipt rt u p r"
  note r = made_receiptD [OF this]
  then show "deserializeAdmissionReceipt rt (serialized_admission_receipt r) p u = Inr r"
    unfolding deserializeAdmissionReceipt_def serialized_admission_receipt_def try_simps by simp
  from r show "read_receipt (serialized_receipt_json (serialized_admission_receipt r)) = Some (serialized_admission_receipt r)"
    by (intro receipt_read) (simp add: serialized_admission_receipt_def)
qed

interpretation commits: text_form serialized_committed_working_set "\<lambda>v. deserializeCommittedWorkingSet rt v u p r prev"
    "made_commit rt u p r prev" serialized_committed_json read_committed
  for rt u p r prev
proof
  fix c assume made: "made_commit rt u p r prev c"
  then have "commitAdmission rt u p r prev (Some (cw_id c)) = Inr c" unfolding made_commit_def commitAdmission_iff by blast
  then show "deserializeCommittedWorkingSet rt (serialized_committed_working_set c) u p r prev = Inr c"
    by (simp add: deserializeCommittedWorkingSet_def serialized_committed_working_set_def)
  from made have "isFinite (cw_createdAt c)" by (auto simp: made_commit_def commitAdmission_iff committed_made_def Let_def)
  then show "read_committed (serialized_committed_json (serialized_committed_working_set c))
      = Some (serialized_committed_working_set c)"
    by (intro committed_read) (simp add: serialized_committed_working_set_def)
qed

interpretation transition_texts: text_form serialized_working_set_transition "deserializeWorkingSetTransition rt"
    "\<lambda>tr. made_transition rt tr \<and> isFinite (tg_createdAt (wt_target tr))" serialized_transition_json read_transition
  for rt
  by unfold_locales (simp add: transitions.restore_store, simp add: transition_read serialized_working_set_transition_def)

text \<open>
  C29. What planning, admission and commitment make, and the transition to what was
  committed, is read back from its stored text as it was. The text is \<open>JSON.stringify\<close> of the
  fields the source lists; it is parsed, has the shape of the interface it is cast to, and
  passes every check of the function that restores it: the proposal against the revision
  it is bound to, the receipt against the proposal and the revision of the admission, the
  committed state by rebuilding it from revision, proposal and receipt, and the transition
  by its hash and its id.
\<close>

theorem stored_pipeline:
  assumes "createProposedWorkingSet rt u\<^sub>0 previousId ps ver t i = Inr p"
    and "admitWorkingSet rt u p budget adapter t' = Inr r" and "commitAdmission rt u p r prev j = Inr c"
    and "computeWorkingSetTransition rt prev c = Inr tr"
  shows "restore_text read_proposal (\<lambda>v. deserializeProposedWorkingSet rt v u\<^sub>0) (serializeProposedWorkingSet p) = Some (Inr p)
    \<and> restore_text read_receipt (\<lambda>v. deserializeAdmissionReceipt rt v p u) (serializeAdmissionReceipt r) = Some (Inr r)
    \<and> restore_text read_committed (\<lambda>v. deserializeCommittedWorkingSet rt v u p r prev) (serializeCommittedWorkingSet c)
        = Some (Inr c)
    \<and> restore_text read_transition (deserializeWorkingSetTransition rt) (serializeWorkingSetTransition tr) = Some (Inr tr)"
proof -
  have p: "made_proposal rt u\<^sub>0 p" and r: "made_receipt rt u p r" using assms(1,2) unfolding made_proposal_def made_receipt_def by blast+
  with made_receiptD [OF r] assms(3) have c: "made_commit rt u p r prev c" and "isFinite (cw_createdAt c)"
    by (auto simp: made_commit_def commitAdmission_iff committed_made_def Let_def)
  with assms(4) have tr: "made_transition rt tr \<and> isFinite (tg_createdAt (wt_target tr))"
    by (auto simp: made_transition_def computeWorkingSetTransition_def Let_def target_of_committed_def try_simps)
  show ?thesis
    unfolding serializeProposedWorkingSet_def serializeAdmissionReceipt_def serializeCommittedWorkingSet_def
      serializeWorkingSetTransition_def
    by (intro conjI proposals.text_restored receipts.text_restored commits.text_restored transition_texts.text_restored p r c tr
      [THEN conjunct1] tr [THEN conjunct2])
qed

definition first_transition :: working_set_transition where
  "first_transition = projr (computeWorkingSetTransition plain None first_commit)"

lemma first_transition: "computeWorkingSetTransition plain None first_commit = Inr first_transition"
  by code_simp

theorem stored_pipeline_witness:
  "restore_text read_proposal (\<lambda>v. deserializeProposedWorkingSet plain v one_source)
     (serializeProposedWorkingSet first_proposal) = Some (Inr first_proposal)
   \<and> restore_text read_receipt (\<lambda>v. deserializeAdmissionReceipt plain v first_proposal one_source)
     (serializeAdmissionReceipt first_receipt) = Some (Inr first_receipt)
   \<and> restore_text read_committed (\<lambda>v. deserializeCommittedWorkingSet plain v one_source first_proposal first_receipt None)
     (serializeCommittedWorkingSet first_commit) = Some (Inr first_commit)
   \<and> restore_text read_transition (deserializeWorkingSetTransition plain) (serializeWorkingSetTransition first_transition)
     = Some (Inr first_transition)"
  by (rule stored_pipeline [OF first_steps first_transition])

end
