(* ===== verification/Policy_V0.thy ===== *)
theory Policy_V0
  imports Working_Set_Proposal
begin

text \<open>
  The shadow planner: planning requests and their digest (\<open>planning/planning-request.ts\<close>),
  working sets, decisions and transitions (\<open>working-set/working-set-types.ts\<close>), and the
  deterministic policy V0 that plans one working set from a universe revision, a request and
  the previous working set (\<open>planning/policy-v0.ts\<close>).
\<close>

section \<open>Planning requests\<close>

datatype task_phase = PH_INVESTIGATE | PH_PLAN | PH_IMPLEMENT | PH_DEBUG | PH_VERIFY | PH_GENERAL

fun task_phase_str :: "task_phase \<Rightarrow> string" where
  "task_phase_str PH_INVESTIGATE = ''INVESTIGATE''"
| "task_phase_str PH_PLAN = ''PLAN''"
| "task_phase_str PH_IMPLEMENT = ''IMPLEMENT''"
| "task_phase_str PH_DEBUG = ''DEBUG''"
| "task_phase_str PH_VERIFY = ''VERIFY''"
| "task_phase_str PH_GENERAL = ''GENERAL''"

datatype reason_code =
  MANDATORY_INSTRUCTION | USER_PINNED | CURRENT_TARGET | LATEST_FAILURE | PREVIOUSLY_ACTIVE | PREVIOUSLY_REMOVED
| RECENT_RUN_EVIDENCE | SOURCE_ABSENT | SOURCE_UNAVAILABLE_CONSERVATIVE_KEEP | BUDGET_PRESSURE | REHYDRATION_TRIGGERED
| EXPLICIT_EXCLUDE | RULED_OUT | SUPERSEDED | NEW_FAILURE_EVIDENCE | PHASE_IRRELEVANT | REPRESENTATION_NARROWED
| DETAIL_REQUIRED | SOURCE_VERSION_ADVANCED

fun reason_code_str :: "reason_code \<Rightarrow> string" where
  "reason_code_str MANDATORY_INSTRUCTION = ''MANDATORY_INSTRUCTION''"
| "reason_code_str USER_PINNED = ''USER_PINNED''"
| "reason_code_str CURRENT_TARGET = ''CURRENT_TARGET''"
| "reason_code_str LATEST_FAILURE = ''LATEST_FAILURE''"
| "reason_code_str PREVIOUSLY_ACTIVE = ''PREVIOUSLY_ACTIVE''"
| "reason_code_str PREVIOUSLY_REMOVED = ''PREVIOUSLY_REMOVED''"
| "reason_code_str RECENT_RUN_EVIDENCE = ''RECENT_RUN_EVIDENCE''"
| "reason_code_str SOURCE_ABSENT = ''SOURCE_ABSENT''"
| "reason_code_str SOURCE_UNAVAILABLE_CONSERVATIVE_KEEP = ''SOURCE_UNAVAILABLE_CONSERVATIVE_KEEP''"
| "reason_code_str BUDGET_PRESSURE = ''BUDGET_PRESSURE''"
| "reason_code_str REHYDRATION_TRIGGERED = ''REHYDRATION_TRIGGERED''"
| "reason_code_str EXPLICIT_EXCLUDE = ''EXPLICIT_EXCLUDE''"
| "reason_code_str RULED_OUT = ''RULED_OUT''"
| "reason_code_str SUPERSEDED = ''SUPERSEDED''"
| "reason_code_str NEW_FAILURE_EVIDENCE = ''NEW_FAILURE_EVIDENCE''"
| "reason_code_str PHASE_IRRELEVANT = ''PHASE_IRRELEVANT''"
| "reason_code_str REPRESENTATION_NARROWED = ''REPRESENTATION_NARROWED''"
| "reason_code_str DETAIL_REQUIRED = ''DETAIL_REQUIRED''"
| "reason_code_str SOURCE_VERSION_ADVANCED = ''SOURCE_VERSION_ADVANCED''"

datatype need_kind = NK_FULL | NK_LINE_RANGE | NK_REFERENCE

fun need_kind_str :: "need_kind \<Rightarrow> string" where
  "need_kind_str NK_FULL = ''FULL''"
| "need_kind_str NK_LINE_RANGE = ''LINE_RANGE''"
| "need_kind_str NK_REFERENCE = ''REFERENCE''"

record representation_need =
  rn_sourceKey :: string
  rn_preferredKind :: need_kind
  rn_lineRange :: "(int \<times> int) option"
  rn_reasonCode :: string

text \<open>The kinds of lifecycle signals are reason codes of the same names.\<close>

datatype signal_kind = SK_RULED_OUT | SK_SUPERSEDED | SK_NEW_FAILURE_EVIDENCE | SK_PHASE_IRRELEVANT | SK_DETAIL_REQUIRED

fun signal_reason :: "signal_kind \<Rightarrow> reason_code" where
  "signal_reason SK_RULED_OUT = RULED_OUT"
| "signal_reason SK_SUPERSEDED = SUPERSEDED"
| "signal_reason SK_NEW_FAILURE_EVIDENCE = NEW_FAILURE_EVIDENCE"
| "signal_reason SK_PHASE_IRRELEVANT = PHASE_IRRELEVANT"
| "signal_reason SK_DETAIL_REQUIRED = DETAIL_REQUIRED"

definition signal_kind_str :: "signal_kind \<Rightarrow> string" where
  "signal_kind_str k = reason_code_str (signal_reason k)"

record lifecycle_signal =
  ls_sourceKey :: string
  ls_kind :: signal_kind
  ls_evidenceRef :: "string option"

record removal_record =
  rm_sourceKey :: string
  rm_originalRemovalReasonCodes :: "reason_code list"
  rm_removedAtSequence :: int
  rm_removedFromWorkingSetId :: "string option"

record planning_request =
  pq_runtimeSessionId :: string
  pq_recompositionSequence :: int
  pq_taskPhase :: "task_phase option"
  pq_maxSemanticTokens :: number
  pq_pinnedSourceKeys :: "string list"
  pq_excludedSourceKeys :: "string list"
  pq_currentTargetSourceKeys :: "string list"
  pq_latestVerificationSourceKeys :: "string list"
  pq_recentEvidenceSourceKeys :: "string list"
  pq_sourceLifecycleSignals :: "lifecycle_signal list option"
  pq_removalHistory :: "removal_record list option"
  pq_representationNeeds :: "representation_need list option"
  pq_previousWorkingSetId :: "string option"

definition signal_compare :: "runtime \<Rightarrow> lifecycle_signal \<Rightarrow> lifecycle_signal \<Rightarrow> int" where
  "signal_compare rt a b =
     (let sourceDelta = rt_localeCompare rt (ls_sourceKey a) (ls_sourceKey b) in
      if sourceDelta \<noteq> 0 then sourceDelta
      else let kindDelta = rt_localeCompare rt (signal_kind_str (ls_kind a)) (signal_kind_str (ls_kind b)) in
        if kindDelta \<noteq> 0 then kindDelta
        else rt_localeCompare rt (default_to (ls_evidenceRef a) []) (default_to (ls_evidenceRef b) []))"

definition normalizePlanningRequest :: "runtime \<Rightarrow> planning_request \<Rightarrow> planning_request" where
  "normalizePlanningRequest rt request =
     \<lparr>pq_runtimeSessionId = pq_runtimeSessionId request, pq_recompositionSequence = pq_recompositionSequence request,
      pq_taskPhase = pq_taskPhase request, pq_maxSemanticTokens = pq_maxSemanticTokens request,
      pq_pinnedSourceKeys = sort_strings (pq_pinnedSourceKeys request),
      pq_excludedSourceKeys = sort_strings (pq_excludedSourceKeys request),
      pq_currentTargetSourceKeys = sort_strings (pq_currentTargetSourceKeys request),
      pq_latestVerificationSourceKeys = sort_strings (pq_latestVerificationSourceKeys request),
      pq_recentEvidenceSourceKeys = sort_strings (pq_recentEvidenceSourceKeys request),
      pq_sourceLifecycleSignals = map_option (sort_by (signal_compare rt)) (pq_sourceLifecycleSignals request),
      pq_removalHistory = map_option (sort_by (by_locale rt rm_sourceKey)) (pq_removalHistory request),
      pq_representationNeeds = map_option (sort_by (by_locale rt rn_sourceKey)) (pq_representationNeeds request),
      pq_previousWorkingSetId = pq_previousWorkingSetId request\<rparr>"

definition signal_text :: "lifecycle_signal \<Rightarrow> string" where
  "signal_text signal =
     ls_sourceKey signal @ '':'' @ signal_kind_str (ls_kind signal) @ '':'' @ default_to (ls_evidenceRef signal) ''-''"

definition removal_text :: "removal_record \<Rightarrow> string" where
  "removal_text r =
     rm_sourceKey r @ '':'' @ join '','' (map reason_code_str (rm_originalRemovalReasonCodes r)) @ '':''
     @ int_digits (rm_removedAtSequence r)"

definition need_text :: "representation_need \<Rightarrow> string" where
  "need_text need =
     rn_sourceKey need @ '':'' @ need_kind_str (rn_preferredKind need) @ '':''
     @ (case rn_lineRange need of None \<Rightarrow> ''-'' | Some (a, b) \<Rightarrow> int_digits a @ ''-'' @ int_digits b)
     @ '':'' @ rn_reasonCode need"

definition planningRequestHash :: "runtime \<Rightarrow> planning_request \<Rightarrow> string" where
  "planningRequestHash rt request =
     (let normalized = normalizePlanningRequest rt request in
      rt_sha256Hex rt (join unit_separator
        [''planning-request-v1'', pq_runtimeSessionId normalized, int_digits (pq_recompositionSequence normalized),
         task_phase_str (default_to (pq_taskPhase normalized) PH_GENERAL), num_str (pq_maxSemanticTokens normalized),
         join bar (pq_pinnedSourceKeys normalized), join bar (pq_excludedSourceKeys normalized),
         join bar (pq_currentTargetSourceKeys normalized), join bar (pq_latestVerificationSourceKeys normalized),
         join bar (pq_recentEvidenceSourceKeys normalized),
         join '';'' (map signal_text (default_to (pq_sourceLifecycleSignals normalized) [])),
         join '';'' (map removal_text (default_to (pq_removalHistory normalized) [])),
         join '';'' (map need_text (default_to (pq_representationNeeds normalized) [])),
         default_to (pq_previousWorkingSetId normalized) ''-'']))"

section \<open>Working sets, decisions and transitions\<close>

datatype decision_kind = DK_ADD | DK_KEEP | DK_REMOVE | DK_REPLACE | DK_COMPRESS | DK_REHYDRATE

fun decision_kind_str :: "decision_kind \<Rightarrow> string" where
  "decision_kind_str DK_ADD = ''ADD''"
| "decision_kind_str DK_KEEP = ''KEEP''"
| "decision_kind_str DK_REMOVE = ''REMOVE''"
| "decision_kind_str DK_REPLACE = ''REPLACE''"
| "decision_kind_str DK_COMPRESS = ''COMPRESS''"
| "decision_kind_str DK_REHYDRATE = ''REHYDRATE''"

datatype protection = PR_MANDATORY | PR_PINNED | PR_NORMAL | PR_COLD_PREFERRED

fun protection_str :: "protection \<Rightarrow> string" where
  "protection_str PR_MANDATORY = ''MANDATORY''"
| "protection_str PR_PINNED = ''PINNED''"
| "protection_str PR_NORMAL = ''NORMAL''"
| "protection_str PR_COLD_PREFERRED = ''COLD_PREFERRED''"

record working_item =
  wi_position :: int
  wi_representationId :: string
  wi_representationKind :: "string option"
  wi_sourceKeys :: "string list"
  wi_sourceVersionIds :: "string list"
  wi_authority :: string
  wi_baselinePriority :: "string option"
  wi_protection :: protection
  wi_tokenEstimate :: int
  wi_inclusionReasonCodes :: "reason_code list"

record working_set =
  ws_workingSetId :: string
  ws_runtimeSessionId :: string
  ws_sequence :: int
  ws_plannedFromUniverseSequence :: int
  ws_plannedFromUniverseHash :: string
  ws_previousWorkingSetId :: "string option"
  ws_policyVersion :: string
  ws_planningRequestHash :: string
  ws_items :: "working_item list"
  ws_totalTokenEstimate :: int
  ws_maxSemanticTokens :: number
  ws_logicalHash :: string
  ws_createdAt :: string

definition by_item_position :: "working_item \<Rightarrow> working_item \<Rightarrow> int" where
  "by_item_position a b = wi_position a - wi_position b"

definition item_text :: "working_item \<Rightarrow> string" where
  "item_text item =
     join bar [int_digits (wi_position item), wi_representationId item, join '','' (wi_sourceKeys item),
       join '','' (wi_sourceVersionIds item), wi_authority item, default_to (wi_baselinePriority item) ''-'',
       protection_str (wi_protection item), int_digits (wi_tokenEstimate item),
       join '','' (map reason_code_str (wi_inclusionReasonCodes item))]"

definition computeWorkingSetLogicalHash ::
  "runtime \<Rightarrow> string \<Rightarrow> int \<Rightarrow> int \<Rightarrow> string \<Rightarrow> string option \<Rightarrow> string \<Rightarrow> string \<Rightarrow> working_item list \<Rightarrow> string" where
  "computeWorkingSetLogicalHash rt runtimeSessionId sequence universeSequence universeHash previousId policyVersion
     requestHash items =
     rt_sha256Hex rt (join unit_separator
       ([''working-set-v1'', runtimeSessionId, int_digits sequence, int_digits universeSequence, universeHash,
         default_to previousId ''-'', policyVersion, requestHash]
        @ map item_text (sort_by by_item_position items)))"

definition createWorkingSetId :: "runtime \<Rightarrow> string \<Rightarrow> int \<Rightarrow> string \<Rightarrow> string \<Rightarrow> string \<Rightarrow> string" where
  "createWorkingSetId rt runtimeSessionId sequence policyVersion requestHash universeHash =
     (let digest = rt_sha256Hex rt (''working-set-id-v2|'' @ runtimeSessionId @ ''|'' @ int_digits sequence @ ''|''
            @ policyVersion @ ''|'' @ requestHash @ ''|'' @ universeHash)
      in ''working-set:'' @ runtimeSessionId @ '':'' @ int_digits sequence @ '':'' @ take 16 digest)"

text \<open>
  The version of a decision may be \<open>undefined\<close>: it is read as the first element of a list
  that may be empty. In the text of the digest \<open>undefined\<close> is the empty string.
\<close>

record decision =
  dc_decisionId :: string
  dc_kind :: decision_kind
  dc_sourceKey :: string
  dc_sourceVersionId :: "string option"
  dc_representationId :: string
  dc_fromWorkingSetId :: "string option"
  dc_toWorkingSetId :: string
  dc_reasonCodes :: "reason_code list"
  dc_policyVersion :: string
  dc_tokenDelta :: int

definition createDecisionId ::
  "runtime \<Rightarrow> int \<Rightarrow> decision_kind \<Rightarrow> string \<Rightarrow> string option \<Rightarrow> string \<Rightarrow> string \<Rightarrow> reason_code list \<Rightarrow> string" where
  "createDecisionId rt sequence kind sourceKey sourceVersionId representationId toWorkingSetId reasonCodes =
     rt_sha256Hex rt (join bar
       [''decision-v2'', int_digits sequence, decision_kind_str kind, sourceKey, default_to sourceVersionId [],
        representationId, toWorkingSetId, join '','' (map reason_code_str reasonCodes)])"

record context_transition =
  ct_transitionId :: string
  ct_runtimeSessionId :: string
  ct_sequence :: int
  ct_fromWorkingSetId :: "string option"
  ct_toWorkingSetId :: string
  ct_orderedDecisions :: "decision list"
  ct_fromTokenEstimate :: int
  ct_toTokenEstimate :: int
  ct_policyVersion :: string
  ct_logicalHash :: string

definition computeTransitionLogicalHash ::
  "runtime \<Rightarrow> string \<Rightarrow> int \<Rightarrow> string option \<Rightarrow> string \<Rightarrow> decision list \<Rightarrow> int \<Rightarrow> int \<Rightarrow> string \<Rightarrow> string" where
  "computeTransitionLogicalHash rt runtimeSessionId sequence fromId toId decisions fromTokens toTokens policyVersion =
     rt_sha256Hex rt (join unit_separator
       ([''transition-v1'', runtimeSessionId, int_digits sequence, default_to fromId ''-'', toId,
         int_digits fromTokens, int_digits toTokens, policyVersion] @ map dc_decisionId decisions))"

section \<open>The policy\<close>

record policy_options =
  po_policyVersion :: string
  po_createdAt :: string
  po_represent :: "context_entry \<Rightarrow> representation option"
  po_protectionOf :: "(context_entry \<Rightarrow> protection) option"

record planner_result =
  pl_workingSet :: working_set
  pl_decisions :: "decision list"
  pl_transition :: context_transition

definition isPinned :: "planning_request \<Rightarrow> string \<Rightarrow> bool" where
  "isPinned request sourceKey \<longleftrightarrow> sourceKey \<in> set (pq_pinnedSourceKeys request)"

definition isExcluded :: "planning_request \<Rightarrow> string \<Rightarrow> bool" where
  "isExcluded request sourceKey \<longleftrightarrow> sourceKey \<in> set (pq_excludedSourceKeys request)"

definition isCurrentTarget :: "planning_request \<Rightarrow> string \<Rightarrow> bool" where
  "isCurrentTarget request sourceKey \<longleftrightarrow> sourceKey \<in> set (pq_currentTargetSourceKeys request)"

definition isLatestVerification :: "planning_request \<Rightarrow> string \<Rightarrow> bool" where
  "isLatestVerification request sourceKey \<longleftrightarrow> sourceKey \<in> set (pq_latestVerificationSourceKeys request)"

definition isRecentEvidence :: "planning_request \<Rightarrow> string \<Rightarrow> bool" where
  "isRecentEvidence request sourceKey \<longleftrightarrow> sourceKey \<in> set (pq_recentEvidenceSourceKeys request)"

definition lifecycleReasonCodesFor :: "planning_request \<Rightarrow> string \<Rightarrow> reason_code list" where
  "lifecycleReasonCodesFor request sourceKey =
     new_Set (map (\<lambda>signal. signal_reason (ls_kind signal))
       (filter (\<lambda>signal. ls_sourceKey signal = sourceKey) (default_to (pq_sourceLifecycleSignals request) [])))"

definition removalRecordFor :: "planning_request \<Rightarrow> string \<Rightarrow> removal_record option" where
  "removalRecordFor request sourceKey =
     List.find (\<lambda>r. rm_sourceKey r = sourceKey) (default_to (pq_removalHistory request) [])"

definition representationNeedReasonFor :: "planning_request \<Rightarrow> string \<Rightarrow> reason_code" where
  "representationNeedReasonFor request sourceKey =
     (case List.find (\<lambda>n. rn_sourceKey n = sourceKey) (default_to (pq_representationNeeds request) []) of
        Some need \<Rightarrow> if rn_reasonCode need = ''DETAIL_REQUIRED'' then DETAIL_REQUIRED
                     else if rn_reasonCode need = ''REPRESENTATION_NARROWED'' then REPRESENTATION_NARROWED
                     else REPRESENTATION_NARROWED
      | None \<Rightarrow> REPRESENTATION_NARROWED)"

definition defaultProtectionOf :: "context_entry \<Rightarrow> planning_request \<Rightarrow> protection" where
  "defaultProtectionOf entry request =
     (if de_priority (ce_source entry) = Some ''P0'' then PR_MANDATORY
      else if isPinned request (de_sourceKey (ce_source entry)) then PR_PINNED
      else PR_NORMAL)"

text \<open>What stays fixed while one working set is planned.\<close>

record plan_context =
  px_request :: planning_request
  px_policyVersion :: string
  px_workingSetId :: string
  px_previousId :: "string option"
  px_protectionByKey :: "(string \<times> protection) list"
  px_previousByKey :: "(string \<times> working_item) list"
  px_represent :: "context_entry \<Rightarrow> representation option"

definition makeDecision ::
  "runtime \<Rightarrow> plan_context \<Rightarrow> decision_kind \<Rightarrow> string \<Rightarrow> string option \<Rightarrow> string \<Rightarrow> string option \<Rightarrow> reason_code list \<Rightarrow> int
   \<Rightarrow> decision" where
  "makeDecision rt px kind sourceKey sourceVersionId representationId fromId reasonCodes tokenDelta =
     \<lparr>dc_decisionId = createDecisionId rt (pq_recompositionSequence (px_request px)) kind sourceKey sourceVersionId
        representationId (px_workingSetId px) reasonCodes,
      dc_kind = kind, dc_sourceKey = sourceKey, dc_sourceVersionId = sourceVersionId,
      dc_representationId = representationId, dc_fromWorkingSetId = fromId, dc_toWorkingSetId = px_workingSetId px,
      dc_reasonCodes = reasonCodes, dc_policyVersion = px_policyVersion px, dc_tokenDelta = tokenDelta\<rparr>"

definition first_of :: "'a list \<Rightarrow> 'a option" where
  "first_of xs = (case xs of [] \<Rightarrow> None | x # _ \<Rightarrow> Some x)"

definition removal_of :: "runtime \<Rightarrow> plan_context \<Rightarrow> string \<Rightarrow> reason_code list \<Rightarrow> decision list" where
  "removal_of rt px sourceKey reasonCodes =
     (case map_of (px_previousByKey px) sourceKey of None \<Rightarrow> []
      | Some previousItem \<Rightarrow>
          [makeDecision rt px DK_REMOVE sourceKey (first_of (wi_sourceVersionIds previousItem))
             (wi_representationId previousItem) (px_previousId px) reasonCodes (- wi_tokenEstimate previousItem)])"

text \<open>Membership: whether the source is active and the first reason code; the excluded case is apart.\<close>

definition membership :: "plan_context \<Rightarrow> protection \<Rightarrow> string \<Rightarrow> source_status \<Rightarrow> bool \<times> reason_code list" where
  "membership px protect sourceKey status =
     (let request = px_request px in
      if protect = PR_MANDATORY then (True, [MANDATORY_INSTRUCTION])
      else if protect = PR_PINNED then (True, [USER_PINNED])
      else if isExcluded request sourceKey then (False, [])
      else if isCurrentTarget request sourceKey then (True, [CURRENT_TARGET])
      else if isLatestVerification request sourceKey then (True, [LATEST_FAILURE])
      else if status = SO_UNAVAILABLE then (True, [SOURCE_UNAVAILABLE_CONSERVATIVE_KEEP])
      else if map_of (px_previousByKey px) sourceKey \<noteq> None then (True, [PREVIOUSLY_ACTIVE])
      else if isRecentEvidence request sourceKey then (True, [RECENT_RUN_EVIDENCE])
      else (False, []))"

definition admission_decision ::
  "runtime \<Rightarrow> plan_context \<Rightarrow> string \<Rightarrow> string \<Rightarrow> representation \<Rightarrow> reason_code list \<Rightarrow> reason_code list \<Rightarrow> decision" where
  "admission_decision rt px sourceKey versionId rep reasonCodes lifecycleReasonCodes =
     (case map_of (px_previousByKey px) sourceKey of
        Some previous \<Rightarrow>
          (let sameVersion = (first_of (wi_sourceVersionIds previous) = Some versionId);
               sameRepresentation = (wi_representationId previous = rp_id rep);
               tokenDelta = rp_tokenEstimate rep - wi_tokenEstimate previous
           in if sameVersion \<and> sameRepresentation
              then makeDecision rt px DK_KEEP sourceKey (Some versionId) (rp_id rep) (px_previousId px) reasonCodes tokenDelta
              else if \<not> sameVersion
              then makeDecision rt px DK_REPLACE sourceKey (Some versionId) (rp_id rep) (px_previousId px)
                     (SOURCE_VERSION_ADVANCED # reasonCodes) tokenDelta
              else makeDecision rt px DK_REPLACE sourceKey (Some versionId) (rp_id rep) (px_previousId px)
                     (representationNeedReasonFor (px_request px) sourceKey # reasonCodes) tokenDelta)
      | None \<Rightarrow>
          (case removalRecordFor (px_request px) sourceKey of
             Some r \<Rightarrow> makeDecision rt px DK_REHYDRATE sourceKey (Some versionId) (rp_id rep)
               (rm_removedFromWorkingSetId r)
               (new_Set (REHYDRATION_TRIGGERED # rm_originalRemovalReasonCodes r @ lifecycleReasonCodes))
               (rp_tokenEstimate rep)
           | None \<Rightarrow> makeDecision rt px DK_ADD sourceKey (Some versionId) (rp_id rep) (px_previousId px) reasonCodes
               (rp_tokenEstimate rep)))"

record plan_state =
  ps_items :: "working_item list"
  ps_decisions :: "decision list"
  ps_totalTokens :: int

definition plan_entry :: "runtime \<Rightarrow> plan_context \<Rightarrow> plan_state \<Rightarrow> context_entry \<Rightarrow> plan_state" where
  "plan_entry rt px st entry =
     (let sourceKey = de_sourceKey (ce_source entry);
          status = ss_observationStatus (ce_state entry)
      in if status = SO_ABSENT
         then st\<lparr>ps_decisions := ps_decisions st @ removal_of rt px sourceKey [SOURCE_ABSENT]\<rparr>
         else case ce_admittedVersion entry of None \<Rightarrow> st
         | Some admittedVersion \<Rightarrow> (case px_represent px entry of None \<Rightarrow> st
           | Some rep \<Rightarrow>
             (let protect = default_to (map_of (px_protectionByKey px) sourceKey) PR_NORMAL;
                  lifecycleReasonCodes = lifecycleReasonCodesFor (px_request px) sourceKey;
                  (active, codes) = membership px protect sourceKey status;
                  reasonCodes = codes @ lifecycleReasonCodes
              in if \<not> active
                 then (if protect \<noteq> PR_MANDATORY \<and> protect \<noteq> PR_PINNED \<and> isExcluded (px_request px) sourceKey
                       then st\<lparr>ps_decisions := ps_decisions st @ removal_of rt px sourceKey
                              (if lifecycleReasonCodes \<noteq> [] then lifecycleReasonCodes else [EXPLICIT_EXCLUDE])\<rparr>
                       else st)
                 else \<lparr>ps_items = ps_items st @
                        [\<lparr>wi_position = int (length (ps_items st)), wi_representationId = rp_id rep,
                          wi_representationKind = Some (representation_kind_str (rp_kind rep)),
                          wi_sourceKeys = [sourceKey], wi_sourceVersionIds = rp_sourceVersionIds rep,
                          wi_authority = default_to (de_authority (ce_source entry)) ''REFERENCE'',
                          wi_baselinePriority = de_priority (ce_source entry), wi_protection = protect,
                          wi_tokenEstimate = rp_tokenEstimate rep, wi_inclusionReasonCodes = reasonCodes\<rparr>],
                       ps_decisions = ps_decisions st @
                        [admission_decision rt px sourceKey (cv_versionId admittedVersion) rep reasonCodes lifecycleReasonCodes],
                       ps_totalTokens = ps_totalTokens st + rp_tokenEstimate rep\<rparr>)))"

section \<open>Eviction\<close>

text \<open>\<open>a - b\<close> and \<open>a <= b\<close> on numbers.\<close>

fun num_minus :: "number \<Rightarrow> number \<Rightarrow> number" where
  "num_minus (Finite a) (Finite b) = Finite (a - b)"
| "num_minus NaN b = NaN"
| "num_minus a NaN = NaN"
| "num_minus PosInfinity PosInfinity = NaN"
| "num_minus NegInfinity NegInfinity = NaN"
| "num_minus PosInfinity b = PosInfinity"
| "num_minus NegInfinity b = NegInfinity"
| "num_minus a PosInfinity = NegInfinity"
| "num_minus a NegInfinity = PosInfinity"

definition num_le :: "number \<Rightarrow> number \<Rightarrow> bool" where
  "num_le a b \<longleftrightarrow> num_less a b \<or> (a = b \<and> a \<noteq> NaN)"

text \<open>The items of the plan have one source key each.\<close>

definition item_key :: "working_item \<Rightarrow> string" where
  "item_key item = default_to (first_of (wi_sourceKeys item)) []"

definition eviction_compare :: "runtime \<Rightarrow> working_item \<Rightarrow> working_item \<Rightarrow> int" where
  "eviction_compare rt a b =
     (let costDelta = wi_tokenEstimate b - wi_tokenEstimate a in
      if costDelta \<noteq> 0 then costDelta else rt_localeCompare rt (item_key a) (item_key b))"

fun evict_items ::
  "runtime \<Rightarrow> plan_context \<Rightarrow> number \<Rightarrow> string set \<Rightarrow> decision list \<Rightarrow> working_item list \<Rightarrow> string set \<times> decision list" where
  "evict_items rt px excess removed decisions [] = (removed, decisions)"
| "evict_items rt px excess removed decisions (candidate # rest) =
     (if num_le excess (Finite 0) then (removed, decisions)
      else let key = item_key candidate in
        if key \<in> removed then evict_items rt px excess removed decisions rest
        else evict_items rt px (num_minus excess (Finite (wi_tokenEstimate candidate))) (insert key removed)
               (filter (\<lambda>d. \<not> (dc_sourceKey d = key \<and> dc_kind d \<noteq> DK_REMOVE)) decisions
                @ [makeDecision rt px DK_REMOVE key (first_of (wi_sourceVersionIds candidate))
                     (wi_representationId candidate) (px_previousId px) [BUDGET_PRESSURE] (- wi_tokenEstimate candidate)])
               rest)"

definition item_tokens :: "working_item list \<Rightarrow> int" where
  "item_tokens items = foldl (\<lambda>sum item. sum + wi_tokenEstimate item) 0 items"

definition renumber :: "working_item list \<Rightarrow> working_item list" where
  "renumber items = map (\<lambda>(index, item). item\<lparr>wi_position := int index\<rparr>) (List.enumerate 0 items)"

definition fit_budget :: "runtime \<Rightarrow> plan_context \<Rightarrow> plan_state \<Rightarrow> plan_state" where
  "fit_budget rt px st =
     (let maxTokens = pq_maxSemanticTokens (px_request px) in
      if num_less maxTokens (Finite (ps_totalTokens st))
      then (let evictable = sort_by (eviction_compare rt) (filter (\<lambda>item. wi_protection item = PR_NORMAL) (ps_items st));
                (removed, decisions) = evict_items rt px (num_minus (Finite (ps_totalTokens st)) maxTokens) {}
                  (ps_decisions st) evictable;
                remaining = renumber (filter (\<lambda>item. item_key item \<notin> removed) (ps_items st))
            in \<lparr>ps_items = remaining, ps_decisions = decisions, ps_totalTokens = item_tokens remaining\<rparr>)
      else st)"

section \<open>The plan\<close>

definition protections_of :: "policy_options \<Rightarrow> planning_request \<Rightarrow> context_entry list \<Rightarrow> (string \<times> protection) list" where
  "protections_of options request entries =
     (let protectionOf = default_to (po_protectionOf options) (\<lambda>entry. defaultProtectionOf entry request) in
      new_Map (map (\<lambda>entry. (de_sourceKey (ce_source entry), protectionOf entry)) entries))"

definition conflicts_of :: "planning_request \<Rightarrow> (string \<times> protection) list \<Rightarrow> context_entry list \<Rightarrow> string list" where
  "conflicts_of request protections entries =
     map (\<lambda>entry. de_sourceKey (ce_source entry))
       (filter (\<lambda>entry. map_of protections (de_sourceKey (ce_source entry)) = Some PR_MANDATORY
          \<and> isExcluded request (de_sourceKey (ce_source entry))) entries)"

definition previous_by_key :: "working_set option \<Rightarrow> (string \<times> working_item) list" where
  "previous_by_key previous =
     (case previous of None \<Rightarrow> []
      | Some w \<Rightarrow> new_Map (concat (map (\<lambda>item. map (\<lambda>key. (key, item)) (wi_sourceKeys item)) (ws_items w))))"

definition plan_result ::
  "runtime \<Rightarrow> context_revision \<Rightarrow> planning_request \<Rightarrow> working_set option \<Rightarrow> policy_options \<Rightarrow> string \<Rightarrow> string \<Rightarrow> plan_state
   \<Rightarrow> planner_result" where
  "plan_result rt universe request previousWorkingSet options workingSetId requestHash st =
     (let policyVersion = po_policyVersion options;
          sequence = pq_recompositionSequence request;
          previousId = map_option ws_workingSetId previousWorkingSet;
          orderedItems = sort_by by_item_position (ps_items st);
          fromTokens = (case previousWorkingSet of None \<Rightarrow> 0 | Some w \<Rightarrow> ws_totalTokenEstimate w)
      in \<lparr>pl_workingSet =
            \<lparr>ws_workingSetId = workingSetId, ws_runtimeSessionId = cx_runtimeSessionId universe,
             ws_sequence = sequence, ws_plannedFromUniverseSequence = cx_sequence universe,
             ws_plannedFromUniverseHash = cx_logicalHash universe, ws_previousWorkingSetId = previousId,
             ws_policyVersion = policyVersion, ws_planningRequestHash = requestHash, ws_items = orderedItems,
             ws_totalTokenEstimate = ps_totalTokens st, ws_maxSemanticTokens = pq_maxSemanticTokens request,
             ws_logicalHash = computeWorkingSetLogicalHash rt (cx_runtimeSessionId universe) sequence
               (cx_sequence universe) (cx_logicalHash universe) previousId policyVersion requestHash orderedItems,
             ws_createdAt = po_createdAt options\<rparr>,
          pl_decisions = ps_decisions st,
          pl_transition =
            \<lparr>ct_transitionId = ''transition:'' @ workingSetId, ct_runtimeSessionId = cx_runtimeSessionId universe,
             ct_sequence = sequence, ct_fromWorkingSetId = previousId, ct_toWorkingSetId = workingSetId,
             ct_orderedDecisions = ps_decisions st, ct_fromTokenEstimate = fromTokens,
             ct_toTokenEstimate = ps_totalTokens st, ct_policyVersion = policyVersion,
             ct_logicalHash = computeTransitionLogicalHash rt (cx_runtimeSessionId universe) sequence previousId
               workingSetId (ps_decisions st) fromTokens (ps_totalTokens st) policyVersion\<rparr>\<rparr>)"

definition planWorkingSet ::
  "runtime \<Rightarrow> context_revision \<Rightarrow> planning_request \<Rightarrow> working_set option \<Rightarrow> policy_options \<Rightarrow> planner_result outcome" where
  "planWorkingSet rt universe request previousWorkingSet options =
     (let requestHash = planningRequestHash rt request;
          workingSetId = createWorkingSetId rt (cx_runtimeSessionId universe) (pq_recompositionSequence request)
            (po_policyVersion options) requestHash (cx_logicalHash universe);
          protections = protections_of options request (cx_entries universe);
          conflicts = conflicts_of request protections (cx_entries universe)
      in if conflicts \<noteq> []
         then Inl (PlanningConflictError (''mandatory context cannot be silently excluded: '' @ join '', '' conflicts) conflicts)
         else
           (let px = \<lparr>px_request = request, px_policyVersion = po_policyVersion options, px_workingSetId = workingSetId,
                  px_previousId = map_option ws_workingSetId previousWorkingSet, px_protectionByKey = protections,
                  px_previousByKey = previous_by_key previousWorkingSet, px_represent = po_represent options\<rparr>;
                st = fit_budget rt px (foldl (plan_entry rt px) \<lparr>ps_items = [], ps_decisions = [], ps_totalTokens = 0\<rparr>
                  (cx_entries universe))
            in Inr (plan_result rt universe request previousWorkingSet options workingSetId requestHash st)))"

end
