(* ===== verification/Policy_Laws.thy ===== *)
theory Policy_Laws
  imports Policy_V0
begin

text \<open>
  What policy V0 promises of every plan: which sources it keeps, that protected sources are
  never evicted, that it evicts only under budget pressure and then enough, and that each
  source has one decision that agrees with its membership.
\<close>

section \<open>The membership pass\<close>

definition protect_of :: "plan_context \<Rightarrow> context_entry \<Rightarrow> protection" where
  "protect_of px e = default_to (map_of (px_protectionByKey px) (entry_key e)) PR_NORMAL"

text \<open>The sources that the membership pass keeps.\<close>

definition kept :: "plan_context \<Rightarrow> context_entry \<Rightarrow> bool" where
  "kept px e \<longleftrightarrow> ss_observationStatus (ce_state e) \<noteq> SO_ABSENT \<and> ce_admittedVersion e \<noteq> None \<and> px_represent px e \<noteq> None
     \<and> fst (membership px (protect_of px e) (entry_key e) (ss_observationStatus (ce_state e)))"

lemma makeDecision_simps [simp]:
  "dc_sourceKey (makeDecision rt px k s v r f cs t) = s" "dc_kind (makeDecision rt px k s v r f cs t) = k"
  by (simp_all add: makeDecision_def)

lemma admission_decision_simps [simp]:
  "dc_sourceKey (admission_decision rt px s v rep cs ls) = s" "dc_kind (admission_decision rt px s v rep cs ls) \<noteq> DK_REMOVE"
  by (simp_all add: admission_decision_def Let_def split: option.split)

lemma removal_of_cases: "removal_of rt px s cs = [] \<or> (\<exists>d. removal_of rt px s cs = [d] \<and> dc_sourceKey d = s \<and> dc_kind d = DK_REMOVE)"
  by (auto simp: removal_of_def split: option.split)

lemma plan_entry_kept:
  assumes "kept px e"
  shows "\<exists>item d. plan_entry rt px st e = \<lparr>ps_items = ps_items st @ [item], ps_decisions = ps_decisions st @ [d],
      ps_totalTokens = ps_totalTokens st + wi_tokenEstimate item\<rparr>
    \<and> wi_sourceKeys item = [entry_key e] \<and> wi_position item = int (length (ps_items st))
    \<and> wi_protection item = protect_of px e \<and> dc_sourceKey d = entry_key e \<and> dc_kind d \<noteq> DK_REMOVE"
  using assms by (auto simp: kept_def plan_entry_def entry_key_def protect_of_def Let_def case_prod_beta split: option.split)

lemma plan_entry_not_kept:
  assumes "\<not> kept px e"
  shows "\<exists>ds. plan_entry rt px st e = st\<lparr>ps_decisions := ps_decisions st @ ds\<rparr>
    \<and> (ds = [] \<or> (\<exists>d. ds = [d] \<and> dc_sourceKey d = entry_key e \<and> dc_kind d = DK_REMOVE))"
proof -
  have same: "\<exists>ds. st = st\<lparr>ps_decisions := ps_decisions st @ ds\<rparr> \<and> (ds = [] \<or> Q ds)" for Q
    by (intro exI [of _ "[]"]) simp
  have one: "\<exists>ds. st\<lparr>ps_decisions := ps_decisions st @ removal_of rt px (entry_key e) cs\<rparr> = st\<lparr>ps_decisions := ps_decisions st @ ds\<rparr>
    \<and> (ds = [] \<or> (\<exists>d. ds = [d] \<and> dc_sourceKey d = entry_key e \<and> dc_kind d = DK_REMOVE))" for cs
    using removal_of_cases [of rt px "entry_key e" cs] by blast
  show ?thesis
    using assms
    by (auto simp: kept_def plan_entry_def entry_key_def [symmetric] protect_of_def [symmetric] Let_def case_prod_beta same one
      split: option.split)
qed

definition added_keys :: "decision list \<Rightarrow> string set" where
  "added_keys ds = dc_sourceKey ` {d \<in> set ds. dc_kind d \<noteq> DK_REMOVE}"

definition plan_inv :: "plan_context \<Rightarrow> context_entry list \<Rightarrow> plan_state \<Rightarrow> bool" where
  "plan_inv px es st \<longleftrightarrow>
     map (\<lambda>i. (wi_sourceKeys i, wi_protection i)) (ps_items st)
       = map (\<lambda>e. ([entry_key e], protect_of px e)) (filter (kept px) es)
     \<and> map wi_position (ps_items st) = map int [0..<length (ps_items st)]
     \<and> ps_totalTokens st = (\<Sum>i\<leftarrow>ps_items st. wi_tokenEstimate i)
     \<and> distinct (map dc_sourceKey (ps_decisions st)) \<and> dc_sourceKey ` set (ps_decisions st) \<subseteq> entry_key ` set es
     \<and> added_keys (ps_decisions st) = entry_key ` set (filter (kept px) es)"

lemma added_keys_append [simp]: "added_keys (ds @ ds') = added_keys ds \<union> added_keys ds'"
  by (auto simp: added_keys_def)

lemma added_keys_single [simp]: "added_keys [d] = (if dc_kind d = DK_REMOVE then {} else {dc_sourceKey d})" "added_keys [] = {}"
  by (auto simp: added_keys_def)

lemma plan_inv_step:
  assumes "plan_inv px es st" and "entry_key e \<notin> entry_key ` set es"
  shows "plan_inv px (es @ [e]) (plan_entry rt px st e)"
proof (cases "kept px e")
  have fresh: "\<forall>d\<in>set (ps_decisions st). dc_sourceKey d \<noteq> entry_key e"
    using assms unfolding plan_inv_def by (metis imageI subsetD)
  case True
  from plan_entry_kept [OF True, of rt st] obtain item d where
    "plan_entry rt px st e = \<lparr>ps_items = ps_items st @ [item], ps_decisions = ps_decisions st @ [d],
      ps_totalTokens = ps_totalTokens st + wi_tokenEstimate item\<rparr>"
    "wi_sourceKeys item = [entry_key e]" "wi_position item = int (length (ps_items st))"
    "wi_protection item = protect_of px e" "dc_sourceKey d = entry_key e" "dc_kind d \<noteq> DK_REMOVE" by auto
  with assms True fresh show ?thesis by (auto simp: plan_inv_def dest: subsetD)
next
  have fresh: "\<forall>d\<in>set (ps_decisions st). dc_sourceKey d \<noteq> entry_key e"
    using assms unfolding plan_inv_def by (metis imageI subsetD)
  case False
  from plan_entry_not_kept [OF False, of rt st] obtain ds where
    "plan_entry rt px st e = st\<lparr>ps_decisions := ps_decisions st @ ds\<rparr>"
    "ds = [] \<or> (\<exists>d. ds = [d] \<and> dc_sourceKey d = entry_key e \<and> dc_kind d = DK_REMOVE)" by auto
  with assms False fresh show ?thesis by (auto simp: plan_inv_def dest: subsetD)
qed

lemma plan_inv_all:
  "distinct (map entry_key es) \<Longrightarrow>
   plan_inv px es (foldl (plan_entry rt px) \<lparr>ps_items = [], ps_decisions = [], ps_totalTokens = 0\<rparr> es)"
proof (induction es rule: rev_induct)
  case (snoc e es)
  then show ?case by (simp add: plan_inv_step)
qed (simp add: plan_inv_def)

section \<open>Eviction\<close>

definition eviction :: "runtime \<Rightarrow> plan_context \<Rightarrow> working_item \<Rightarrow> decision" where
  "eviction rt px c = makeDecision rt px DK_REMOVE (item_key c) (first_of (wi_sourceVersionIds c)) (wi_representationId c)
     (px_previousId px) [BUDGET_PRESSURE] (- wi_tokenEstimate c)"

definition without :: "string set \<Rightarrow> decision list \<Rightarrow> decision list" where
  "without ks ds = filter (\<lambda>d. \<not> (dc_sourceKey d \<in> ks \<and> dc_kind d \<noteq> DK_REMOVE)) ds"

definition cost :: "working_item list \<Rightarrow> int" where
  "cost is = (\<Sum>i\<leftarrow>is. wi_tokenEstimate i)"

lemma num_minus_twice: "num_minus (num_minus e (Finite a)) (Finite b) = num_minus e (Finite (a + b))"
  by (cases e) simp_all

lemma num_minus_0 [simp]: "num_minus e (Finite 0) = e"
  by (cases e) simp_all

lemma without_simps [simp]:
  "without {} ds = ds" "without ks (ds @ ds') = without ks ds @ without ks ds'" "without ks [eviction rt px c] = [eviction rt px c]"
  "without ks (without ls ds) = without (ls \<union> ks) ds" "without ks [] = []"
  by (auto simp: without_def eviction_def intro!: filter_cong)

lemma evict_items_take:
  assumes "distinct (map item_key cs)" and "item_key ` set cs \<inter> removed = {}"
  shows "\<exists>n\<le>length cs. evict_items rt px excess removed ds cs
      = (removed \<union> item_key ` set (take n cs), without (item_key ` set (take n cs)) ds @ map (eviction rt px) (take n cs))
    \<and> (n = length cs \<or> num_le (num_minus excess (Finite (cost (take n cs)))) (Finite 0))
    \<and> (\<forall>k<n. \<not> num_le (num_minus excess (Finite (cost (take k cs)))) (Finite 0))"
  using assms
proof (induction cs arbitrary: excess removed ds)
  case (Cons c cs)
  show ?case
  proof (cases "num_le excess (Finite 0)")
    case True
    then show ?thesis by (intro exI [of _ 0]) (simp add: cost_def)
  next
    case False
    let ?ds = "without {item_key c} ds @ [eviction rt px c]"
    from Cons.prems have "item_key ` set cs \<inter> insert (item_key c) removed = {}" "distinct (map item_key cs)" by auto
    from Cons.IH [OF this(2,1), of "num_minus excess (Finite (wi_tokenEstimate c))" ?ds] obtain n where
      n: "n \<le> length cs" "evict_items rt px (num_minus excess (Finite (wi_tokenEstimate c))) (insert (item_key c) removed) ?ds cs
        = (insert (item_key c) removed \<union> item_key ` set (take n cs),
           without (item_key ` set (take n cs)) ?ds @ map (eviction rt px) (take n cs))"
      "n = length cs \<or> num_le (num_minus (num_minus excess (Finite (wi_tokenEstimate c))) (Finite (cost (take n cs)))) (Finite 0)"
      "\<forall>k<n. \<not> num_le (num_minus (num_minus excess (Finite (wi_tokenEstimate c))) (Finite (cost (take k cs)))) (Finite 0)"
      by auto
    have before: "\<forall>k<Suc n. \<not> num_le (num_minus excess (Finite (cost (take k (c # cs))))) (Finite 0)"
      using n(4) False by (auto simp: less_Suc_eq_0_disj num_minus_twice cost_def)
    have "evict_items rt px excess removed ds (c # cs)
      = evict_items rt px (num_minus excess (Finite (wi_tokenEstimate c))) (insert (item_key c) removed) ?ds cs"
      using False Cons.prems by (simp add: Let_def without_def eviction_def)
    with n(1-3) before show ?thesis by (intro exI [of _ "Suc n"]) (auto simp: num_minus_twice cost_def)
  qed
qed (simp add: cost_def)

lemma renumber_simps [simp]:
  "map wi_position (renumber is) = map int [0..<length is]" "length (renumber is) = length is"
  "map (\<lambda>i. (wi_sourceKeys i, wi_protection i)) (renumber is) = map (\<lambda>i. (wi_sourceKeys i, wi_protection i)) is"
  "map wi_tokenEstimate (renumber is) = map wi_tokenEstimate is" "map wi_protection (renumber is) = map wi_protection is"
  by (auto simp: renumber_def comp_def case_prod_beta enumerate_eq_zip zip_map1 intro!: nth_equalityI)

lemma item_tokens_cost: "item_tokens is = cost is"
proof -
  have "foldl (\<lambda>sum item. sum + wi_tokenEstimate item) a is = a + cost is" for a
    by (induction "is" arbitrary: a) (simp_all add: cost_def)
  then show ?thesis by (simp add: item_tokens_def)
qed

lemma sorted_positions: "map wi_position is = map int [0..<length is] \<Longrightarrow> sort_by by_item_position is = is"
proof (rule sort_by_sorted)
  assume "map wi_position is = map int [0..<length is]"
  then have "sorted (map wi_position is)" by (simp add: sorted_map)
  then show "sorted_by by_item_position is" by (simp add: sorted_by_def by_item_position_def sorted_map)
qed

section \<open>The plan after eviction\<close>

text \<open>
  A plan in which the sources \<open>gone\<close> were evicted: the items are the other kept sources, in
  the order of the universe and numbered from 0; the total is the sum of the estimates;
  only NORMAL sources are gone; there is one decision for each source at most, and a source
  has one other than REMOVE exactly if it is an item.
\<close>

definition plan_sound :: "plan_context \<Rightarrow> context_entry list \<Rightarrow> string set \<Rightarrow> plan_state \<Rightarrow> bool" where
  "plan_sound px es gone st \<longleftrightarrow>
     map (\<lambda>i. (wi_sourceKeys i, wi_protection i)) (ps_items st)
       = map (\<lambda>e. ([entry_key e], protect_of px e)) (filter (\<lambda>e. kept px e \<and> entry_key e \<notin> gone) es)
     \<and> map wi_position (ps_items st) = map int [0..<length (ps_items st)]
     \<and> ps_totalTokens st = cost (ps_items st)
     \<and> (\<forall>e\<in>set es. entry_key e \<in> gone \<longrightarrow> kept px e \<and> protect_of px e = PR_NORMAL)
     \<and> distinct (map dc_sourceKey (ps_decisions st))
     \<and> added_keys (ps_decisions st) = \<Union> (set ` wi_sourceKeys ` set (ps_items st))"

lemma item_keys:
  assumes "map (\<lambda>i. (wi_sourceKeys i, wi_protection i)) is = map (\<lambda>e. ([entry_key e], f e)) es"
  shows "map item_key is = map entry_key es" and "map wi_protection is = map f es"
    and "\<Union> (set ` wi_sourceKeys ` set is) = entry_key ` set es"
proof -
  have keys: "map wi_sourceKeys is = map (\<lambda>e. [entry_key e]) es" and "map wi_protection is = map f es"
    using arg_cong [OF assms, of "map fst"] arg_cong [OF assms, of "map snd"] by (simp_all add: comp_def)
  then show "map wi_protection is = map f es" by simp
  show "map item_key is = map entry_key es"
    using arg_cong [OF keys, of "map (\<lambda>ks. default_to (first_of ks) [])"] by (simp add: comp_def item_key_def [abs_def] first_of_def)
  have "set ` wi_sourceKeys ` set is = (\<lambda>e. {entry_key e}) ` set es"
    using arg_cong [OF keys, of "\<lambda>xs. set ` set xs"] by (simp add: image_image)
  then show "\<Union> (set ` wi_sourceKeys ` set is) = entry_key ` set es" by auto
qed

lemma inv_sound: "plan_inv px es st \<Longrightarrow> plan_sound px es {} st"
  using item_keys(3) [of "ps_items st" "protect_of px" "filter (kept px) es"]
  by (auto simp: plan_inv_def plan_sound_def cost_def)

lemma filter_pairs:
  "map f xs = map g ys \<Longrightarrow> map f (filter (\<lambda>x. P (f x)) xs) = map g (filter (\<lambda>y. P (g y)) ys)"
  by (drule arg_cong [of _ _ "filter P"]) (simp add: filter_map comp_def)

lemma cost_without:
  assumes "distinct (map item_key is)" and "set cs \<subseteq> set is" and "distinct (map item_key cs)"
  shows "cost (filter (\<lambda>i. item_key i \<notin> item_key ` set cs) is) = cost is - cost cs"
proof -
  have inj: "inj_on item_key (set is)" and d: "distinct is" "distinct cs" using assms by (simp_all add: distinct_map)
  have "{i \<in> set is. item_key i \<in> item_key ` set cs} = set cs"
    using assms(2) inj by (auto dest: inj_onD)
  then have "set is = set cs \<union> {i \<in> set is. item_key i \<notin> item_key ` set cs}" using assms(2) by blast
  moreover have "set cs \<inter> {i \<in> set is. item_key i \<notin> item_key ` set cs} = {}" by auto
  ultimately have "sum wi_tokenEstimate (set is) = sum wi_tokenEstimate (set cs)
      + sum wi_tokenEstimate {i \<in> set is. item_key i \<notin> item_key ` set cs}"
    by (metis (no_types, lifting) List.finite_set finite_Un sum.union_disjoint)
  with d show ?thesis by (simp add: cost_def sum_list_distinct_conv_sum_set)
qed

lemma added_without: "added_keys (without ks ds) = added_keys ds - ks"
  by (auto simp: added_keys_def without_def)

lemma added_evictions [simp]: "added_keys (map (eviction rt px) cs) = {}"
  by (auto simp: added_keys_def eviction_def)

definition within :: "number \<Rightarrow> int \<Rightarrow> bool" where
  "within budget n \<longleftrightarrow> \<not> num_less budget (Finite n)"

lemma fits_after:
  assumes "num_less budget (Finite n)" and "num_le (num_minus (num_minus (Finite n) budget) (Finite c)) (Finite 0)"
  shows "within budget (n - c)"
  using assms by (cases budget) (auto simp: within_def num_le_def)

lemma over_before:
  assumes "num_less budget (Finite n)" and "\<not> num_le (num_minus (num_minus (Finite n) budget) (Finite c)) (Finite 0)"
  shows "\<not> within budget (n - c)"
  using assms by (cases budget) (auto simp: within_def num_le_def)

text \<open>
  What was evicted from the items that membership kept: NORMAL ones in the order of falling cost
  (then of the key), and the next one only while the total still exceeds the budget.
\<close>

definition evicted_in_order :: "runtime \<Rightarrow> number \<Rightarrow> working_item list \<Rightarrow> working_item list \<Rightarrow> bool" where
  "evicted_in_order rt budget items evicted \<longleftrightarrow>
     evicted = take (length evicted) (sort_by (eviction_compare rt) (filter (\<lambda>i. wi_protection i = PR_NORMAL) items))
     \<and> (\<forall>k<length evicted. \<not> within budget (cost items - cost (take k evicted)))"

lemma evicted_distinct:
  assumes "distinct (map dc_sourceKey ds)" and "item_key ` set cs \<subseteq> added_keys ds" and "distinct (map item_key cs)"
  shows "distinct (map dc_sourceKey (without (item_key ` set cs) ds @ map (eviction rt px) cs))"
proof -
  have "dc_sourceKey d \<notin> item_key ` set cs" if "d \<in> set (without (item_key ` set cs) ds)" for d
  proof
    assume k: "dc_sourceKey d \<in> item_key ` set cs"
    with that have "d \<in> set ds" "dc_kind d = DK_REMOVE" by (auto simp: without_def)
    moreover from k assms(2) obtain d' where "d' \<in> set ds" "dc_sourceKey d' = dc_sourceKey d" "dc_kind d' \<noteq> DK_REMOVE"
      by (auto simp: added_keys_def)
    ultimately show False using assms(1) by (metis distinct_map inj_onD)
  qed
  then show ?thesis using assms(1,3) by (auto simp: without_def distinct_map_filter eviction_def comp_def)
qed

lemma gone_normal:
  assumes "distinct (map entry_key es)" and "e \<in> set es" and "i \<in> set is" and "wi_protection i = PR_NORMAL"
    and "item_key i = entry_key e"
    and "map (\<lambda>i. (wi_sourceKeys i, wi_protection i)) is = map (\<lambda>e. ([entry_key e], protect_of px e)) (filter (kept px) es)"
  shows "kept px e \<and> protect_of px e = PR_NORMAL"
proof -
  from assms(3) have "(wi_sourceKeys i, wi_protection i) \<in> set (map (\<lambda>i. (wi_sourceKeys i, wi_protection i)) is)" by auto
  then obtain e' where e': "e' \<in> set es" "kept px e'" "wi_sourceKeys i = [entry_key e']" "wi_protection i = protect_of px e'"
    unfolding assms(6) by auto
  with assms(5) have "entry_key e' = entry_key e" by (simp add: item_key_def first_of_def)
  with assms(1,2) e'(1) have "e' = e" by (metis distinct_map inj_onD)
  with e' assms(4) show ?thesis by simp
qed

lemma fit_budget_sound:
  assumes inv: "plan_inv px es st" and d: "distinct (map entry_key es)"
  shows "\<exists>evicted. plan_sound px es (item_key ` set evicted) (fit_budget rt px st)
    \<and> evicted_in_order rt (pq_maxSemanticTokens (px_request px)) (ps_items st) evicted
    \<and> (within (pq_maxSemanticTokens (px_request px)) (ps_totalTokens (fit_budget rt px st))
       \<or> (\<forall>i\<in>set (ps_items (fit_budget rt px st)). wi_protection i \<noteq> PR_NORMAL))"
proof (cases "num_less (pq_maxSemanticTokens (px_request px)) (Finite (ps_totalTokens st))")
  case False
  with inv_sound [OF inv] show ?thesis by (intro exI [of _ "[]"]) (simp add: fit_budget_def within_def evicted_in_order_def)
next
  case True
  let ?b = "pq_maxSemanticTokens (px_request px)" and ?items = "ps_items st"
  let ?cs = "sort_by (eviction_compare rt) (filter (\<lambda>i. wi_protection i = PR_NORMAL) ?items)"
  have pairs: "map (\<lambda>i. (wi_sourceKeys i, wi_protection i)) ?items
      = map (\<lambda>e. ([entry_key e], protect_of px e)) (filter (kept px) es)" using inv by (simp add: plan_inv_def)
  note keys = item_keys [OF pairs]
  have di: "distinct (map item_key ?items)" unfolding keys(1) using d by (simp add: distinct_map_filter)
  then have dc: "distinct (map item_key ?cs)" by (simp add: distinct_map_filter)
  obtain n where n: "evict_items rt px (num_minus (Finite (ps_totalTokens st)) ?b) {} (ps_decisions st) ?cs
      = (item_key ` set (take n ?cs), without (item_key ` set (take n ?cs)) (ps_decisions st) @ map (eviction rt px) (take n ?cs))"
      "n = length ?cs \<or> num_le (num_minus (num_minus (Finite (ps_totalTokens st)) ?b) (Finite (cost (take n ?cs)))) (Finite 0)"
      "\<forall>k<n. \<not> num_le (num_minus (num_minus (Finite (ps_totalTokens st)) ?b) (Finite (cost (take k ?cs)))) (Finite 0)"
      "n \<le> length ?cs"
    using evict_items_take [OF dc Int_empty_right, of rt px "num_minus (Finite (ps_totalTokens st)) ?b" "ps_decisions st"]
    unfolding Un_empty_left by (elim exE conjE) (rule that)
  define gone where "gone = item_key ` set (take n ?cs)"
  define rest where "rest = filter (\<lambda>i. item_key i \<notin> gone) ?items"
  have fit: "fit_budget rt px st = \<lparr>ps_items = renumber rest,
      ps_decisions = without gone (ps_decisions st) @ map (eviction rt px) (take n ?cs), ps_totalTokens = cost rest\<rparr>"
    using True n(1) by (simp add: fit_budget_def Let_def gone_def rest_def item_tokens_cost cost_def del: set_sort_by)
  have sub: "set (take n ?cs) \<subseteq> set ?items" "\<forall>i\<in>set (take n ?cs). wi_protection i = PR_NORMAL"
    using set_take_subset [of n ?cs] by auto
  have dt: "distinct (map item_key (take n ?cs))" using dc by (metis distinct_take take_map)
  have rest_pairs: "map (\<lambda>i. (wi_sourceKeys i, wi_protection i)) rest
      = map (\<lambda>e. ([entry_key e], protect_of px e)) (filter (\<lambda>e. kept px e \<and> entry_key e \<notin> gone) es)"
    using filter_pairs [OF pairs, of "\<lambda>x. default_to (first_of (fst x)) [] \<notin> gone"]
    by (simp add: rest_def item_key_def first_of_def conj_commute)
  have normal: "\<forall>e\<in>set es. entry_key e \<in> gone \<longrightarrow> kept px e \<and> protect_of px e = PR_NORMAL"
  proof (intro ballI impI)
    fix e assume e: "e \<in> set es" "entry_key e \<in> gone"
    then obtain i where "i \<in> set (take n ?cs)" "item_key i = entry_key e" by (auto simp: gone_def simp del: set_sort_by)
    with sub show "kept px e \<and> protect_of px e = PR_NORMAL" by (intro gone_normal [OF d e(1) _ _ _ pairs]) blast+
  qed
  have "item_key ` set (take n ?cs) \<subseteq> added_keys (ps_decisions st)"
    using sub(1) inv arg_cong [OF keys(1), of set] by (auto simp: plan_inv_def)
  moreover have "distinct (map dc_sourceKey (ps_decisions st))" using inv by (simp add: plan_inv_def)
  ultimately have "distinct (map dc_sourceKey (ps_decisions (fit_budget rt px st)))"
    unfolding fit gone_def plan_state.simps by (intro evicted_distinct dt)
  moreover note normal
  moreover have "added_keys (ps_decisions (fit_budget rt px st)) = entry_key ` {e \<in> set es. kept px e \<and> entry_key e \<notin> gone}"
    using inv by (auto simp: fit added_without plan_inv_def)
  ultimately have "plan_sound px es gone (fit_budget rt px st)"
    using item_keys(3) [OF rest_pairs [folded renumber_simps(3) [of rest]]] rest_pairs
    by (simp add: plan_sound_def fit cost_def)
  moreover have "within ?b (cost rest) \<or> (\<forall>i\<in>set (renumber rest). wi_protection i \<noteq> PR_NORMAL)"
  proof (cases "n = length ?cs")
    case True
    have "wi_protection ` set (renumber rest) = wi_protection ` set rest"
      using arg_cong [OF renumber_simps(5) [of rest], of set] by (simp only: set_map)
    moreover have "\<forall>i\<in>set rest. wi_protection i \<noteq> PR_NORMAL" using True by (auto simp: rest_def gone_def)
    ultimately show ?thesis by (metis imageE imageI)
  next
    case False
    with n(2) fits_after [OF \<open>num_less _ _\<close>] have "within ?b (ps_totalTokens st - cost (take n ?cs))" by blast
    with cost_without [OF di sub(1) dt] inv show ?thesis by (simp add: rest_def gone_def plan_inv_def cost_def)
  qed
  moreover have "evicted_in_order rt ?b ?items (take n ?cs)"
  proof -
    have "\<not> within ?b (ps_totalTokens st - cost (take k ?cs))" if "k < n" for k
      using over_before [OF True] n(3) that by blast
    moreover have "ps_totalTokens st = cost ?items" using inv by (simp add: plan_inv_def cost_def)
    ultimately show ?thesis using n(4) by (simp add: evicted_in_order_def min_def)
  qed
  ultimately show ?thesis unfolding gone_def by (intro exI [of _ "take n ?cs"]) (simp add: fit)
qed

section \<open>The property\<close>

text \<open>What one call of the planner keeps fixed.\<close>

definition context_of :: "runtime \<Rightarrow> context_revision \<Rightarrow> planning_request \<Rightarrow> working_set option \<Rightarrow> policy_options \<Rightarrow> plan_context" where
  "context_of rt u request prev options =
     \<lparr>px_request = request, px_policyVersion = po_policyVersion options,
      px_workingSetId = createWorkingSetId rt (cx_runtimeSessionId u) (pq_recompositionSequence request)
        (po_policyVersion options) (planningRequestHash rt request) (cx_logicalHash u),
      px_previousId = map_option ws_workingSetId prev,
      px_protectionByKey = protections_of options request (cx_entries u),
      px_previousByKey = previous_by_key prev, px_represent = po_represent options\<rparr>"

definition state_of :: "planner_result \<Rightarrow> plan_state" where
  "state_of res = \<lparr>ps_items = ws_items (pl_workingSet res), ps_decisions = pl_decisions res,
     ps_totalTokens = ws_totalTokenEstimate (pl_workingSet res)\<rparr>"

lemma sound_positions: "plan_sound px es gone st \<Longrightarrow> sort_by by_item_position (ps_items st) = ps_items st"
  by (rule sorted_positions) (simp add: plan_sound_def)

lemma planWorkingSet_state:
  assumes "distinct (map entry_key (cx_entries u))"
  shows "planWorkingSet rt u request prev options = Inr res \<Longrightarrow>
    state_of res = fit_budget rt (context_of rt u request prev options)
      (foldl (plan_entry rt (context_of rt u request prev options)) \<lparr>ps_items = [], ps_decisions = [], ps_totalTokens = 0\<rparr> (cx_entries u))"
proof -
  let ?px = "context_of rt u request prev options"
  let ?st = "fit_budget rt ?px (foldl (plan_entry rt ?px) \<lparr>ps_items = [], ps_decisions = [], ps_totalTokens = 0\<rparr> (cx_entries u))"
  from fit_budget_sound [OF plan_inv_all [OF assms] assms] have "sort_by by_item_position (ps_items ?st) = ps_items ?st"
    by (blast dest: sound_positions)
  then show "planWorkingSet rt u request prev options = Inr res \<Longrightarrow> state_of res = ?st"
    by (auto simp: planWorkingSet_def plan_result_def Let_def context_of_def state_of_def split: if_splits)
qed

text \<open>The items that the membership pass keeps, before the budget is looked at.\<close>

definition kept_items :: "runtime \<Rightarrow> plan_context \<Rightarrow> context_entry list \<Rightarrow> working_item list" where
  "kept_items rt px es = ps_items (foldl (plan_entry rt px) \<lparr>ps_items = [], ps_decisions = [], ps_totalTokens = 0\<rparr> es)"

text \<open>
  C30. On a universe whose entries have different keys, policy V0 never drops a mandatory source
  in silence: if one is excluded it throws a conflict that names it, and a conflict names only
  excluded sources that are mandatory or pinned. Otherwise it returns a plan. The items of the
  plan are the sources the membership rules keep, less the evicted ones, numbered from 0 in the
  order of the universe; the evicted ones are NORMAL sources, the most expensive first, and each
  of them was evicted while the total still exceeded the budget, so eviction stops as soon as it
  does not; the total is the sum of the estimates and within the budget, or no NORMAL source is
  left; each source has at most one decision, and one other than REMOVE exactly if it is an item
  of the plan.
\<close>

theorem planWorkingSet_correct:
  assumes "distinct (map entry_key (cx_entries u))"
  shows "case planWorkingSet rt u request prev options of
      Inl err \<Rightarrow> \<exists>msg keys. err = PlanningConflictError msg keys \<and> keys \<noteq> []
        \<and> (\<forall>k\<in>set keys. isExcluded request k \<and> (\<exists>e\<in>set (cx_entries u). entry_key e = k
            \<and> protect_of (context_of rt u request prev options) e \<in> {PR_MANDATORY, PR_PINNED}))
        \<and> (\<forall>e\<in>set (cx_entries u). protect_of (context_of rt u request prev options) e = PR_MANDATORY
            \<longrightarrow> isExcluded request (entry_key e) \<longrightarrow> entry_key e \<in> set keys)
    | Inr res \<Rightarrow> (\<forall>e\<in>set (cx_entries u). \<not> (protect_of (context_of rt u request prev options) e = PR_MANDATORY
            \<and> isExcluded request (entry_key e)))
        \<and> (\<exists>evicted. plan_sound (context_of rt u request prev options) (cx_entries u) (item_key ` set evicted) (state_of res)
            \<and> evicted_in_order rt (pq_maxSemanticTokens request)
                (kept_items rt (context_of rt u request prev options) (cx_entries u)) evicted
            \<and> (within (pq_maxSemanticTokens request) (ws_totalTokenEstimate (pl_workingSet res))
               \<or> (\<forall>i\<in>set (ws_items (pl_workingSet res)). wi_protection i \<noteq> PR_NORMAL)))"
proof -
  let ?px = "context_of rt u request prev options"
  have known: "map_of (px_protectionByKey ?px) (entry_key e) \<noteq> None" if "e \<in> set (cx_entries u)" for e
    using that by (auto simp: context_of_def protections_of_def Let_def entry_key_def map_of_eq_None_iff new_Map_keys image_image)
  then have mand: "map_of (protections_of options request (cx_entries u)) (entry_key e) = Some PR_MANDATORY \<longleftrightarrow> protect_of ?px e = PR_MANDATORY"
    if "e \<in> set (cx_entries u)" for e using that by (force simp: protect_of_def context_of_def default_to_def)
  have confl: "conflicts_of request (protections_of options request (cx_entries u)) (cx_entries u)
      = map entry_key (filter (\<lambda>e. protect_of ?px e = PR_MANDATORY \<and> isExcluded request (entry_key e)) (cx_entries u))"
    unfolding conflicts_of_def entry_key_def [symmetric] using mand
    by (auto intro!: arg_cong [of _ _ "map entry_key"] filter_cong)
  show ?thesis
  proof (cases "planWorkingSet rt u request prev options")
    case (Inl err)
    then show ?thesis by (auto simp: planWorkingSet_def Let_def confl split: if_splits)
  next
    case (Inr res)
    from Inr have "conflicts_of request (protections_of options request (cx_entries u)) (cx_entries u) = []"
      by (auto simp: planWorkingSet_def Let_def split: if_splits)
    moreover have "px_request ?px = request" by (simp add: context_of_def)
    ultimately show ?thesis
      using fit_budget_sound [OF plan_inv_all [OF assms, of ?px rt] assms, of rt] unfolding planWorkingSet_state [OF assms Inr, symmetric]
      by (auto simp: Inr confl state_of_def kept_items_def filter_empty_conv)
  qed
qed

text \<open>A mandatory and an ordinary source of three tokens each, under a budget of four.\<close>

definition two_sources :: context_revision where
  "two_sources = seedUniverse plain ''s''
     [\<lparr>sd_sourceKey = ''m'', sd_sourceKind = ''k'', sd_contentHash = ''h'', sd_authority = None, sd_priority = Some ''P0'',
       sd_provenance = ''p'', sd_observedAt = ''t''\<rparr>,
      \<lparr>sd_sourceKey = ''n'', sd_sourceKind = ''k'', sd_contentHash = ''h'', sd_authority = None, sd_priority = None,
       sd_provenance = ''p'', sd_observedAt = ''t''\<rparr>]"

definition tight_request :: planning_request where
  "tight_request = \<lparr>pq_runtimeSessionId = ''s'', pq_recompositionSequence = 1, pq_taskPhase = None,
     pq_maxSemanticTokens = Finite 4, pq_pinnedSourceKeys = [], pq_excludedSourceKeys = [],
     pq_currentTargetSourceKeys = [''n''], pq_latestVerificationSourceKeys = [], pq_recentEvidenceSourceKeys = [],
     pq_sourceLifecycleSignals = None, pq_removalHistory = None, pq_representationNeeds = None,
     pq_previousWorkingSetId = None\<rparr>"

definition full_options :: policy_options where
  "full_options = \<lparr>po_policyVersion = ''v0'', po_createdAt = ''t'',
     po_represent = (\<lambda>e. map_option (\<lambda>v.
       \<lparr>rp_id = cv_versionId v, rp_kind = RK_FULL, rp_sourceVersionIds = [cv_versionId v], rp_contentHash = ''h'',
        rp_tokenEstimate = 3, rp_lossiness = LS_NONE, rp_derivation = JNull, rp_content = None, rp_contentRef = None\<rparr>)
       (ce_admittedVersion e)), po_protectionOf = None\<rparr>"

lemma two_sources_distinct: "distinct (map entry_key (cx_entries two_sources))"
  by code_simp

lemma two_sources_plan:
  "\<not> isl (planWorkingSet plain two_sources tight_request None full_options)"
  by code_simp

text \<open>An exclusion of a pinned source is no conflict: the source is kept, and nothing says so.\<close>

lemma pinned_exclusion_ignored:
  "map_sum (\<lambda>_. ()) (\<lambda>res. map item_key (ws_items (pl_workingSet res)))
     (planWorkingSet plain two_sources (tight_request\<lparr>pq_pinnedSourceKeys := [''n''], pq_excludedSourceKeys := [''n'']\<rparr>) None full_options)
   = Inr [''m'', ''n'']"
  by code_simp

theorem planWorkingSet_correct_witness:
  "\<exists>res evicted. planWorkingSet plain two_sources tight_request None full_options = Inr res
    \<and> plan_sound (context_of plain two_sources tight_request None full_options) (cx_entries two_sources)
      (item_key ` set evicted) (state_of res)"
  using planWorkingSet_correct [OF two_sources_distinct, where rt = plain and request = tight_request and prev = None and options = full_options] two_sources_plan
  by (auto split: sum.splits)

end
