(* ===== verification/Gate_Evaluator.thy ===== *)
theory Gate_Evaluator
  imports Policy_V0
begin

text \<open>
  The readiness gate over recorded decisions (\<open>c0/evaluator.ts\<close>), the shadow metrics of one
  planning boundary (\<open>metrics/shadow-metrics.ts\<close>), and what a PASS of the gate means: the
  single pass over the records, with its table of unconsumed removals, decides a property of
  the recorded chain.
\<close>

section \<open>Records and verdicts\<close>

datatype gate_criterion =
  REMOVE_OBSERVED | REHYDRATE_AFTER_REMOVE | FALSE_REMOVAL_AUDITABLE | NO_MANDATORY_EVICTION
| EXACT_SOURCE_VERSION_REHYDRATION | DETERMINISTIC_REPLAY | NO_UNEXPLAINED_MATERIALIZATION_FAILURE | REASON_CODE_COVERAGE

definition GATE_D_CRITERIA :: "gate_criterion list" where
  "GATE_D_CRITERIA = [REMOVE_OBSERVED, REHYDRATE_AFTER_REMOVE, FALSE_REMOVAL_AUDITABLE, NO_MANDATORY_EVICTION,
     EXACT_SOURCE_VERSION_REHYDRATION, DETERMINISTIC_REPLAY, NO_UNEXPLAINED_MATERIALIZATION_FAILURE, REASON_CODE_COVERAGE]"

datatype verdict = PASS | FAIL | NOT_OBSERVED

definition ACTIVE_SET_CHANGE_KINDS :: "decision_kind list" where
  "ACTIVE_SET_CHANGE_KINDS = [DK_ADD, DK_REMOVE, DK_REPLACE, DK_COMPRESS, DK_REHYDRATE]"

definition PROTECTED_REASON_CODES :: "reason_code list" where
  "PROTECTED_REASON_CODES = [MANDATORY_INSTRUCTION, USER_PINNED]"

definition DEFAULT_HIGH_PRIORITY_MAX_MODEL_CALL_DISTANCE :: int where
  "DEFAULT_HIGH_PRIORITY_MAX_MODEL_CALL_DISTANCE = 3"

definition DEFAULT_HIGH_PRIORITY_MAX_TRANSITION_DISTANCE :: int where
  "DEFAULT_HIGH_PRIORITY_MAX_TRANSITION_DISTANCE = 5"

datatype materialization_status = MS_MATERIALIZED | MS_REJECTED | MS_DEFERRED

text \<open>\<open>null\<close> and \<open>undefined\<close> are both tested with \<open>!= null\<close> where they may occur; both are \<open>None\<close>.\<close>

record c0_record =
  cr_decisionId :: string
  cr_kind :: decision_kind
  cr_sourceKey :: string
  cr_sourceVersionId :: string
  cr_representationId :: string
  cr_reasonCodes :: "reason_code list"
  cr_transitionSequence :: int
  cr_modelCallSequence :: "int option"
  cr_protection :: "protection option"
  cr_replayVerified :: "bool option"
  cr_materializationStatus :: "materialization_status option"
  cr_materializationFailureReason :: "string option"

datatype removal_priority = HIGH_PRIORITY | LOW_PRIORITY

record false_removal =
  fr_sourceKey :: string
  fr_removeDecisionId :: string
  fr_rehydrateDecisionId :: string
  fr_modelCallDistance :: "int option"
  fr_transitionDistance :: int
  fr_priority :: removal_priority

text \<open>The two ratios of the counts are kept as numerator and denominator.\<close>

record scenario_counts =
  sn_removeObserved :: int
  sn_rehydrateObserved :: int
  sn_rehydrateAfterRemoveObserved :: int
  sn_orphanRehydrates :: int
  sn_falseRemovalCandidates :: "false_removal list"
  sn_mandatoryEvictions :: int
  sn_wrongVersionRehydrates :: int
  sn_replayEvidenceCount :: int
  sn_replayMismatches :: int
  sn_unexplainedMaterializationFailures :: int
  sn_unexplainedDecisions :: int
  sn_activeSetChanges :: int
  sn_explainedActiveSetChanges :: int
  sn_reasonCodeCoverage :: "(int \<times> int) option"
  sn_provenanceResolved :: int
  sn_provenanceTotal :: int
  sn_provenanceRetained :: "(int \<times> int) option"

record scenario_verdict =
  sv_overall :: verdict
  sv_criteria :: "gate_criterion \<Rightarrow> verdict"
  sv_counts :: scenario_counts

definition isProtectedRemoval :: "c0_record \<Rightarrow> bool" where
  "isProtectedRemoval r \<longleftrightarrow>
     (if cr_protection r = Some PR_MANDATORY \<or> cr_protection r = Some PR_PINNED then True
      else list_ex (\<lambda>c. c \<in> set PROTECTED_REASON_CODES) (cr_reasonCodes r))"

definition classifyFalseRemoval :: "c0_record \<Rightarrow> c0_record \<Rightarrow> int \<Rightarrow> int \<Rightarrow> false_removal" where
  "classifyFalseRemoval remove rehydrate maxModelCallDistance maxTransitionDistance =
     (let modelCallDistance = (case (cr_modelCallSequence remove, cr_modelCallSequence rehydrate) of
            (Some a, Some b) \<Rightarrow> Some \<bar>b - a\<bar> | _ \<Rightarrow> None);
          transitionDistance = \<bar>cr_transitionSequence rehydrate - cr_transitionSequence remove\<bar>;
          withinCalls = (case modelCallDistance of None \<Rightarrow> False | Some d \<Rightarrow> d \<le> maxModelCallDistance);
          withinTransitions = (transitionDistance \<le> maxTransitionDistance)
      in \<lparr>fr_sourceKey = cr_sourceKey rehydrate, fr_removeDecisionId = cr_decisionId remove,
          fr_rehydrateDecisionId = cr_decisionId rehydrate, fr_modelCallDistance = modelCallDistance,
          fr_transitionDistance = transitionDistance,
          fr_priority = (if withinCalls \<or> withinTransitions then HIGH_PRIORITY else LOW_PRIORITY)\<rparr>)"

section \<open>The pass over the records\<close>

record gate_state =
  gs_removeObserved :: int
  gs_rehydrateObserved :: int
  gs_rehydrateAfterRemoveObserved :: int
  gs_orphanRehydrates :: int
  gs_wrongVersionRehydrates :: int
  gs_mandatoryEvictions :: int
  gs_replayEvidenceCount :: int
  gs_replayMismatches :: int
  gs_materializationObserved :: int
  gs_unexplainedMaterializationFailures :: int
  gs_unexplainedDecisions :: int
  gs_activeSetChanges :: int
  gs_explainedActiveSetChanges :: int
  gs_provenanceResolved :: int
  gs_falseRemovalCandidates :: "false_removal list"
  gs_lastRemoveByKey :: "(string \<times> c0_record) list"

definition gate_start :: gate_state where
  "gate_start = \<lparr>gs_removeObserved = 0, gs_rehydrateObserved = 0, gs_rehydrateAfterRemoveObserved = 0,
     gs_orphanRehydrates = 0, gs_wrongVersionRehydrates = 0, gs_mandatoryEvictions = 0, gs_replayEvidenceCount = 0,
     gs_replayMismatches = 0, gs_materializationObserved = 0, gs_unexplainedMaterializationFailures = 0,
     gs_unexplainedDecisions = 0, gs_activeSetChanges = 0, gs_explainedActiveSetChanges = 0, gs_provenanceResolved = 0,
     gs_falseRemovalCandidates = [], gs_lastRemoveByKey = []\<rparr>"

text \<open>One more where the condition holds.\<close>

definition tick :: "bool \<Rightarrow> int" where
  "tick b = (if b then 1 else 0)"

definition unexplained_failure :: "c0_record \<Rightarrow> bool" where
  "unexplained_failure r \<longleftrightarrow> (case cr_materializationStatus r of None \<Rightarrow> False
     | Some status \<Rightarrow> status \<noteq> MS_MATERIALIZED
         \<and> (cr_materializationFailureReason r = None \<or> cr_materializationFailureReason r = Some []))"

definition active_change :: "c0_record \<Rightarrow> bool" where
  "active_change r \<longleftrightarrow> cr_kind r \<in> set ACTIVE_SET_CHANGE_KINDS"

definition count_record :: "string set \<Rightarrow> gate_state \<Rightarrow> c0_record \<Rightarrow> gate_state" where
  "count_record universeVersionIds st r =
     st\<lparr>gs_unexplainedDecisions := gs_unexplainedDecisions st + tick (cr_reasonCodes r = []),
        gs_activeSetChanges := gs_activeSetChanges st + tick (active_change r),
        gs_explainedActiveSetChanges := gs_explainedActiveSetChanges st + tick (active_change r \<and> cr_reasonCodes r \<noteq> []),
        gs_provenanceResolved := gs_provenanceResolved st + tick (cr_sourceVersionId r \<in> universeVersionIds),
        gs_replayEvidenceCount := gs_replayEvidenceCount st + tick (cr_replayVerified r \<noteq> None),
        gs_replayMismatches := gs_replayMismatches st + tick (cr_replayVerified r = Some False),
        gs_materializationObserved := gs_materializationObserved st + tick (cr_materializationStatus r \<noteq> None),
        gs_unexplainedMaterializationFailures :=
          gs_unexplainedMaterializationFailures st + tick (unexplained_failure r)\<rparr>"

definition gate_step :: "int \<Rightarrow> int \<Rightarrow> string set \<Rightarrow> gate_state \<Rightarrow> c0_record \<Rightarrow> gate_state" where
  "gate_step maxCalls maxTransitions universeVersionIds st0 r =
     (let st = count_record universeVersionIds st0 r in
      if cr_kind r = DK_REMOVE
      then st\<lparr>gs_removeObserved := gs_removeObserved st + 1,
              gs_mandatoryEvictions := gs_mandatoryEvictions st + tick (isProtectedRemoval r),
              gs_lastRemoveByKey := AList.update (cr_sourceKey r) r (gs_lastRemoveByKey st)\<rparr>
      else if cr_kind r = DK_REHYDRATE
      then (case map_of (gs_lastRemoveByKey st) (cr_sourceKey r) of
          None \<Rightarrow> st\<lparr>gs_rehydrateObserved := gs_rehydrateObserved st + 1,
                     gs_orphanRehydrates := gs_orphanRehydrates st + 1\<rparr>
        | Some remove \<Rightarrow>
            st\<lparr>gs_rehydrateObserved := gs_rehydrateObserved st + 1,
               gs_rehydrateAfterRemoveObserved := gs_rehydrateAfterRemoveObserved st + 1,
               gs_wrongVersionRehydrates := gs_wrongVersionRehydrates st
                 + tick (cr_sourceVersionId r \<noteq> cr_sourceVersionId remove),
               gs_falseRemovalCandidates := gs_falseRemovalCandidates st
                 @ [classifyFalseRemoval remove r maxCalls maxTransitions],
               gs_lastRemoveByKey := AList.delete (cr_sourceKey r) (gs_lastRemoveByKey st)\<rparr>)
      else st)"

definition observed_unless :: "bool \<Rightarrow> bool \<Rightarrow> verdict" where
  "observed_unless failed observed = (if failed then FAIL else if observed then PASS else NOT_OBSERVED)"

fun gate_verdict :: "gate_state \<Rightarrow> gate_criterion \<Rightarrow> verdict" where
  "gate_verdict st REMOVE_OBSERVED = (if gs_removeObserved st > 0 then PASS else FAIL)"
| "gate_verdict st REHYDRATE_AFTER_REMOVE =
     (if gs_rehydrateAfterRemoveObserved st > 0 \<and> gs_orphanRehydrates st = 0 then PASS
      else if gs_rehydrateObserved st > 0 then FAIL else NOT_OBSERVED)"
| "gate_verdict st FALSE_REMOVAL_AUDITABLE =
     (if gs_removeObserved st = 0 then NOT_OBSERVED
      else if list_all (\<lambda>c. fr_modelCallDistance c \<noteq> None) (gs_falseRemovalCandidates st) then PASS else FAIL)"
| "gate_verdict st NO_MANDATORY_EVICTION = observed_unless (gs_mandatoryEvictions st > 0) (gs_removeObserved st > 0)"
| "gate_verdict st EXACT_SOURCE_VERSION_REHYDRATION =
     observed_unless (gs_wrongVersionRehydrates st > 0) (gs_rehydrateAfterRemoveObserved st > 0)"
| "gate_verdict st DETERMINISTIC_REPLAY =
     observed_unless (gs_replayMismatches st > 0) (gs_replayEvidenceCount st > 0)"
| "gate_verdict st NO_UNEXPLAINED_MATERIALIZATION_FAILURE =
     observed_unless (gs_unexplainedMaterializationFailures st > 0) (gs_materializationObserved st > 0)"
| "gate_verdict st REASON_CODE_COVERAGE =
     (if gs_activeSetChanges st = 0 then NOT_OBSERVED
      else if gs_explainedActiveSetChanges st = gs_activeSetChanges st then PASS else FAIL)"

definition counts_of :: "gate_state \<Rightarrow> int \<Rightarrow> scenario_counts" where
  "counts_of st provenanceTotal =
     \<lparr>sn_removeObserved = gs_removeObserved st, sn_rehydrateObserved = gs_rehydrateObserved st,
      sn_rehydrateAfterRemoveObserved = gs_rehydrateAfterRemoveObserved st,
      sn_orphanRehydrates = gs_orphanRehydrates st, sn_falseRemovalCandidates = gs_falseRemovalCandidates st,
      sn_mandatoryEvictions = gs_mandatoryEvictions st, sn_wrongVersionRehydrates = gs_wrongVersionRehydrates st,
      sn_replayEvidenceCount = gs_replayEvidenceCount st, sn_replayMismatches = gs_replayMismatches st,
      sn_unexplainedMaterializationFailures = gs_unexplainedMaterializationFailures st,
      sn_unexplainedDecisions = gs_unexplainedDecisions st, sn_activeSetChanges = gs_activeSetChanges st,
      sn_explainedActiveSetChanges = gs_explainedActiveSetChanges st,
      sn_reasonCodeCoverage = (if gs_activeSetChanges st > 0
        then Some (gs_explainedActiveSetChanges st, gs_activeSetChanges st) else None),
      sn_provenanceResolved = gs_provenanceResolved st, sn_provenanceTotal = provenanceTotal,
      sn_provenanceRetained = (if provenanceTotal > 0 then Some (gs_provenanceResolved st, provenanceTotal) else None)\<rparr>"

record evaluator_options =
  eo_highPriorityMaxModelCallDistance :: "int option"
  eo_highPriorityMaxTransitionDistance :: "int option"

definition evaluateC0Scenario ::
  "c0_record list \<Rightarrow> string list \<Rightarrow> evaluator_options option \<Rightarrow> scenario_verdict" where
  "evaluateC0Scenario records universeVersionIds options =
     (let maxCalls = default_to (Option.bind options eo_highPriorityMaxModelCallDistance)
            DEFAULT_HIGH_PRIORITY_MAX_MODEL_CALL_DISTANCE;
          maxTransitions = default_to (Option.bind options eo_highPriorityMaxTransitionDistance)
            DEFAULT_HIGH_PRIORITY_MAX_TRANSITION_DISTANCE;
          st = foldl (gate_step maxCalls maxTransitions (set universeVersionIds)) gate_start records;
          provenanceTotal = int (length records);
          allCriteriaPass = list_all (\<lambda>c. gate_verdict st c = PASS) GATE_D_CRITERIA;
          provenanceComplete = (provenanceTotal > 0 \<and> gs_provenanceResolved st = provenanceTotal)
      in \<lparr>sv_overall = (if allCriteriaPass \<and> provenanceComplete \<and> gs_unexplainedDecisions st = 0 then PASS else FAIL),
          sv_criteria = gate_verdict st, sv_counts = counts_of st provenanceTotal\<rparr>)"

section \<open>Shadow metrics\<close>

record shadow_metrics =
  sm_modelCallSequence :: int
  sm_universeSequence :: int
  sm_universeHash :: string
  sm_nativeContextEstimate :: int
  sm_workingSetId :: string
  sm_proposedSemanticTokenEstimate :: int
  sm_add :: int
  sm_keep :: int
  sm_remove :: int
  sm_rehydrate :: int
  sm_replace :: int
  sm_compress :: int
  sm_churn :: int
  sm_reasonCodeCounts :: "(string \<times> int) list"
  sm_full :: int
  sm_lineRange :: int
  sm_reference :: int
  sm_representationTokenDelta :: int
  sm_narrowed :: int
  sm_detailed :: int
  sm_sourceVersionAdvanced :: int

record metric_state =
  mt_add :: int
  mt_keep :: int
  mt_remove :: int
  mt_rehydrate :: int
  mt_replace :: int
  mt_compress :: int
  mt_reasonCodeCounts :: "(string \<times> int) list"
  mt_representationTokenDelta :: int
  mt_narrowed :: int
  mt_detailed :: int
  mt_sourceVersionAdvanced :: int

definition count_reason :: "(string \<times> int) list \<Rightarrow> reason_code \<Rightarrow> (string \<times> int) list" where
  "count_reason counts reason =
     AList.update (reason_code_str reason) (default_to (map_of counts (reason_code_str reason)) 0 + 1) counts"

definition metric_kind :: "metric_state \<Rightarrow> decision \<Rightarrow> metric_state" where
  "metric_kind m d =
     (case dc_kind d of
        DK_ADD \<Rightarrow> m\<lparr>mt_add := mt_add m + 1\<rparr>
      | DK_KEEP \<Rightarrow> m\<lparr>mt_keep := mt_keep m + 1\<rparr>
      | DK_REMOVE \<Rightarrow> m\<lparr>mt_remove := mt_remove m + 1\<rparr>
      | DK_REHYDRATE \<Rightarrow> m\<lparr>mt_rehydrate := mt_rehydrate m + 1\<rparr>
      | DK_REPLACE \<Rightarrow>
          (let m1 = m\<lparr>mt_replace := mt_replace m + 1,
                 mt_representationTokenDelta := mt_representationTokenDelta m + dc_tokenDelta d\<rparr>
           in if SOURCE_VERSION_ADVANCED \<in> set (dc_reasonCodes d)
              then m1\<lparr>mt_sourceVersionAdvanced := mt_sourceVersionAdvanced m1 + 1\<rparr>
              else if REPRESENTATION_NARROWED \<in> set (dc_reasonCodes d) then m1\<lparr>mt_narrowed := mt_narrowed m1 + 1\<rparr>
              else if DETAIL_REQUIRED \<in> set (dc_reasonCodes d) then m1\<lparr>mt_detailed := mt_detailed m1 + 1\<rparr>
              else m1)
      | DK_COMPRESS \<Rightarrow> m\<lparr>mt_compress := mt_compress m + 1\<rparr>)"

definition metric_step :: "metric_state \<Rightarrow> decision \<Rightarrow> metric_state" where
  "metric_step m0 d =
     (let m = metric_kind m0 d
      in m\<lparr>mt_reasonCodeCounts := foldl count_reason (mt_reasonCodeCounts m) (dc_reasonCodes d)\<rparr>)"

definition count_kind :: "string \<Rightarrow> working_item list \<Rightarrow> int" where
  "count_kind k items = int (length (filter (\<lambda>item. wi_representationKind item = Some k) items))"

definition computeShadowMetrics ::
  "int \<Rightarrow> int \<Rightarrow> string \<Rightarrow> int \<Rightarrow> working_set \<Rightarrow> decision list \<Rightarrow> shadow_metrics" where
  "computeShadowMetrics modelCallSequence universeSequence universeHash nativeContextEstimate workingSet decisions =
     (let m = foldl metric_step \<lparr>mt_add = 0, mt_keep = 0, mt_remove = 0, mt_rehydrate = 0, mt_replace = 0,
            mt_compress = 0, mt_reasonCodeCounts = [], mt_representationTokenDelta = 0, mt_narrowed = 0,
            mt_detailed = 0, mt_sourceVersionAdvanced = 0\<rparr> decisions
      in \<lparr>sm_modelCallSequence = modelCallSequence, sm_universeSequence = universeSequence,
          sm_universeHash = universeHash, sm_nativeContextEstimate = nativeContextEstimate,
          sm_workingSetId = ws_workingSetId workingSet,
          sm_proposedSemanticTokenEstimate = ws_totalTokenEstimate workingSet, sm_add = mt_add m, sm_keep = mt_keep m,
          sm_remove = mt_remove m, sm_rehydrate = mt_rehydrate m, sm_replace = mt_replace m,
          sm_compress = mt_compress m, sm_churn = mt_add m + mt_remove m + mt_rehydrate m,
          sm_reasonCodeCounts = mt_reasonCodeCounts m, sm_full = count_kind ''FULL'' (ws_items workingSet),
          sm_lineRange = count_kind ''LINE_RANGE'' (ws_items workingSet),
          sm_reference = count_kind ''REFERENCE'' (ws_items workingSet),
          sm_representationTokenDelta = mt_representationTokenDelta m, sm_narrowed = mt_narrowed m,
          sm_detailed = mt_detailed m, sm_sourceVersionAdvanced = mt_sourceVersionAdvanced m\<rparr>)"

section \<open>What the gate decides\<close>

definition consumes :: "c0_record \<Rightarrow> bool" where
  "consumes r \<longleftrightarrow> cr_kind r = DK_REMOVE \<or> cr_kind r = DK_REHYDRATE"

text \<open>
  The removal that a record of a source undoes: the last record of the source before it that
  removes or rehydrates, where it removes.
\<close>

definition removal_before :: "c0_record list \<Rightarrow> string \<Rightarrow> c0_record option" where
  "removal_before rs key =
     (case rev (filter (\<lambda>x. cr_sourceKey x = key \<and> consumes x) rs) of [] \<Rightarrow> None
      | x # _ \<Rightarrow> if cr_kind x = DK_REMOVE then Some x else None)"

text \<open>The rehydrations of a chain, each with the removal it undoes.\<close>

fun rehydrations :: "c0_record list \<Rightarrow> c0_record list \<Rightarrow> (c0_record option \<times> c0_record) list" where
  "rehydrations before [] = []"
| "rehydrations before (r # rs) =
     (if cr_kind r = DK_REHYDRATE then [(removal_before before (cr_sourceKey r), r)] else [])
     @ rehydrations (before @ [r]) rs"

definition counted :: "string set \<Rightarrow> c0_record list \<Rightarrow> gate_state \<Rightarrow> bool" where
  "counted vs rs st \<longleftrightarrow>
     gs_removeObserved st = int (length (filter (\<lambda>r. cr_kind r = DK_REMOVE) rs))
     \<and> gs_mandatoryEvictions st = int (length (filter (\<lambda>r. cr_kind r = DK_REMOVE \<and> isProtectedRemoval r) rs))
     \<and> gs_replayEvidenceCount st = int (length (filter (\<lambda>r. cr_replayVerified r \<noteq> None) rs))
     \<and> gs_replayMismatches st = int (length (filter (\<lambda>r. cr_replayVerified r = Some False) rs))
     \<and> gs_materializationObserved st = int (length (filter (\<lambda>r. cr_materializationStatus r \<noteq> None) rs))
     \<and> gs_unexplainedMaterializationFailures st = int (length (filter unexplained_failure rs))
     \<and> gs_unexplainedDecisions st = int (length (filter (\<lambda>r. cr_reasonCodes r = []) rs))
     \<and> gs_activeSetChanges st = int (length (filter active_change rs))
     \<and> gs_explainedActiveSetChanges st = int (length (filter (\<lambda>r. active_change r \<and> cr_reasonCodes r \<noteq> []) rs))
     \<and> gs_provenanceResolved st = int (length (filter (\<lambda>r. cr_sourceVersionId r \<in> vs) rs))"

lemma tick_filter: "int (length (filter P (rs @ [r]))) = int (length (filter P rs)) + tick (P r)"
  by (simp add: tick_def)

lemma gate_step_counts:
  "gs_removeObserved (gate_step a b vs st r) = gs_removeObserved st + tick (cr_kind r = DK_REMOVE)"
  "gs_mandatoryEvictions (gate_step a b vs st r)
     = gs_mandatoryEvictions st + tick (cr_kind r = DK_REMOVE \<and> isProtectedRemoval r)"
  "gs_replayEvidenceCount (gate_step a b vs st r) = gs_replayEvidenceCount st + tick (cr_replayVerified r \<noteq> None)"
  "gs_replayMismatches (gate_step a b vs st r) = gs_replayMismatches st + tick (cr_replayVerified r = Some False)"
  "gs_materializationObserved (gate_step a b vs st r)
     = gs_materializationObserved st + tick (cr_materializationStatus r \<noteq> None)"
  "gs_unexplainedMaterializationFailures (gate_step a b vs st r)
     = gs_unexplainedMaterializationFailures st + tick (unexplained_failure r)"
  "gs_unexplainedDecisions (gate_step a b vs st r) = gs_unexplainedDecisions st + tick (cr_reasonCodes r = [])"
  "gs_activeSetChanges (gate_step a b vs st r) = gs_activeSetChanges st + tick (active_change r)"
  "gs_explainedActiveSetChanges (gate_step a b vs st r)
     = gs_explainedActiveSetChanges st + tick (active_change r \<and> cr_reasonCodes r \<noteq> [])"
  "gs_provenanceResolved (gate_step a b vs st r) = gs_provenanceResolved st + tick (cr_sourceVersionId r \<in> vs)"
  by (simp_all add: gate_step_def count_record_def Let_def split: option.split) (simp_all add: tick_def)

lemma counted_step: "counted vs rs st \<Longrightarrow> counted vs (rs @ [r]) (gate_step a b vs st r)"
  unfolding counted_def gate_step_counts tick_filter by (elim conjE, intro conjI) simp_all

definition undone :: "(c0_record option \<times> c0_record) list \<Rightarrow> (c0_record \<times> c0_record) list" where
  "undone xs = [(x, r). (Some x, r) \<leftarrow> xs]"

definition paired :: "int \<Rightarrow> int \<Rightarrow> c0_record list \<Rightarrow> gate_state \<Rightarrow> bool" where
  "paired a b rs st \<longleftrightarrow>
     gs_rehydrateObserved st = int (length (rehydrations [] rs))
     \<and> gs_rehydrateAfterRemoveObserved st = int (length (undone (rehydrations [] rs)))
     \<and> gs_orphanRehydrates st = int (length (rehydrations [] rs)) - int (length (undone (rehydrations [] rs)))
     \<and> gs_wrongVersionRehydrates st
         = int (length (filter (\<lambda>(x, r). cr_sourceVersionId r \<noteq> cr_sourceVersionId x) (undone (rehydrations [] rs))))
     \<and> gs_falseRemovalCandidates st = map (\<lambda>(x, r). classifyFalseRemoval x r a b) (undone (rehydrations [] rs))
     \<and> map_of (gs_lastRemoveByKey st) = removal_before rs"

lemma rehydrations_snoc:
  "rehydrations before (rs @ [r]) = rehydrations before rs
     @ (if cr_kind r = DK_REHYDRATE then [(removal_before (before @ rs) (cr_sourceKey r), r)] else [])"
  by (induction rs arbitrary: before) simp_all

lemma undone_snoc: "undone (xs @ [(x, r)]) = undone xs @ (case x of None \<Rightarrow> [] | Some y \<Rightarrow> [(y, r)])"
  by (simp add: undone_def split: option.split)

lemma removal_before_snoc:
  "removal_before (rs @ [r]) k = (if cr_sourceKey r = k \<and> consumes r
     then (if cr_kind r = DK_REMOVE then Some r else None) else removal_before rs k)"
  by (simp add: removal_before_def)

lemma counted_keeps_pairs:
  "paired a b rs (count_record vs st r) \<longleftrightarrow> paired a b rs st"
  by (simp add: paired_def count_record_def)

lemma paired_step:
  assumes "paired a b rs st"
  shows "paired a b (rs @ [r]) (gate_step a b vs st r)"
proof -
  define st' where "st' = count_record vs st r"
  have p: "paired a b rs st'" using assms by (simp add: st'_def counted_keeps_pairs)
  consider "cr_kind r = DK_REMOVE" | "cr_kind r = DK_REHYDRATE" | "\<not> consumes r" by (auto simp: consumes_def)
  then show ?thesis
  proof cases
    case 1
    with p show ?thesis
      by (auto simp: gate_step_def st'_def [symmetric] paired_def rehydrations_snoc removal_before_snoc consumes_def update_conv')
  next
    case 2
    with p show ?thesis
      by (auto simp: gate_step_def Let_def st'_def [symmetric] paired_def rehydrations_snoc removal_before_snoc consumes_def delete_conv'
        undone_snoc tick_def split: option.split)
  next
    case 3
    with p show ?thesis
      by (auto simp: gate_step_def Let_def st'_def [symmetric] paired_def rehydrations_snoc removal_before_snoc consumes_def)
  qed
qed

lemma gate_pass:
  "counted vs rs (foldl (gate_step a b vs) gate_start rs) \<and> paired a b rs (foldl (gate_step a b vs) gate_start rs)"
proof (induction rs rule: rev_induct)
  case Nil
  show ?case by (auto simp: counted_def paired_def gate_start_def undone_def removal_before_def)
next
  case (snoc r rs)
  then show ?case by (simp add: counted_step paired_step)
qed

lemma undone_length: "length (undone xs) \<le> length xs"
  by (induction xs) (auto simp: undone_def split: option.split)

lemma undone_all: "length (undone xs) = length xs \<longleftrightarrow> (\<forall>(x, r)\<in>set xs. x \<noteq> None)"
proof (induction xs)
  case (Cons p xs)
  then show ?case using undone_length [of xs] by (auto simp: undone_def split: option.splits prod.splits)
qed (simp add: undone_def)

lemma set_undone: "(x, r) \<in> set (undone xs) \<longleftrightarrow> (Some x, r) \<in> set xs"
  by (induction xs) (auto simp: undone_def split: option.splits prod.splits)

lemma classified_distance:
  "fr_modelCallDistance (classifyFalseRemoval x r a b) \<noteq> None \<longleftrightarrow> cr_modelCallSequence x \<noteq> None \<and> cr_modelCallSequence r \<noteq> None"
  by (auto simp: classifyFalseRemoval_def Let_def split: option.split)

text \<open>A chain of records is ready: the conditions of the gate, said of the records themselves.\<close>

definition record_clean :: "string set \<Rightarrow> c0_record \<Rightarrow> bool" where
  "record_clean vs r \<longleftrightarrow> cr_reasonCodes r \<noteq> [] \<and> cr_sourceVersionId r \<in> vs \<and> cr_replayVerified r \<noteq> Some False
     \<and> \<not> unexplained_failure r \<and> (cr_kind r = DK_REMOVE \<longrightarrow> \<not> isProtectedRemoval r)"

definition exact_undo :: "c0_record option \<Rightarrow> c0_record \<Rightarrow> bool" where
  "exact_undo x r \<longleftrightarrow> (\<exists>y. x = Some y \<and> cr_sourceVersionId r = cr_sourceVersionId y
     \<and> cr_modelCallSequence y \<noteq> None \<and> cr_modelCallSequence r \<noteq> None)"

lemma count_zero: "int (length (filter P rs)) = 0 \<longleftrightarrow> (\<forall>r\<in>set rs. \<not> P r)" "0 < int (length (filter P rs)) \<longleftrightarrow> (\<exists>r\<in>set rs. P r)"
  by (simp_all add: filter_empty_conv)

lemma filter_length_eq: "int (length (filter P rs)) = int (length rs) \<longleftrightarrow> (\<forall>r\<in>set rs. P r)"
  by (simp add: length_filter_conv_card) (metis (mono_tags, lifting) filter_id_conv length_filter_conv_card length_filter_less less_irrefl)

lemma active_explained:
  "int (length (filter (\<lambda>r. active_change r \<and> cr_reasonCodes r \<noteq> []) rs)) = int (length (filter active_change rs))
   \<longleftrightarrow> (\<forall>r\<in>set rs. active_change r \<longrightarrow> cr_reasonCodes r \<noteq> [])"
  using filter_length_eq [of "\<lambda>r. cr_reasonCodes r \<noteq> []" "filter active_change rs"] by (auto simp: conj_commute)

lemma verdict_PASS:
  "observed_unless f ob = PASS \<longleftrightarrow> \<not> f \<and> ob" "(if b then PASS else FAIL) = PASS \<longleftrightarrow> b"
  "(if b then NOT_OBSERVED else if c then PASS else FAIL) = PASS \<longleftrightarrow> \<not> b \<and> c"
  "(if b then PASS else if c then FAIL else NOT_OBSERVED) = PASS \<longleftrightarrow> b"
  by (simp_all add: observed_unless_def)

lemma remove_active: "cr_kind r = DK_REMOVE \<Longrightarrow> active_change r"
  by (simp add: active_change_def ACTIVE_SET_CHANGE_KINDS_def)

lemma counted_pass_iff:
  assumes "counted vs rs st"
  shows "gate_verdict st REMOVE_OBSERVED = PASS \<and> gate_verdict st NO_MANDATORY_EVICTION = PASS
      \<and> gate_verdict st DETERMINISTIC_REPLAY = PASS \<and> gate_verdict st NO_UNEXPLAINED_MATERIALIZATION_FAILURE = PASS
      \<and> gate_verdict st REASON_CODE_COVERAGE = PASS \<and> gs_unexplainedDecisions st = 0
      \<and> gs_provenanceResolved st = int (length rs) \<longleftrightarrow>
    (\<forall>r\<in>set rs. record_clean vs r) \<and> (\<exists>r\<in>set rs. cr_kind r = DK_REMOVE) \<and> (\<exists>r\<in>set rs. cr_replayVerified r \<noteq> None)
      \<and> (\<exists>r\<in>set rs. cr_materializationStatus r \<noteq> None)"
proof -
  have gt: "\<not> 0 < int n \<longleftrightarrow> int n = 0" for n by simp
  have eqs: "gs_removeObserved st = int (length (filter (\<lambda>r. cr_kind r = DK_REMOVE) rs))"
     "gs_mandatoryEvictions st = int (length (filter (\<lambda>r. cr_kind r = DK_REMOVE \<and> isProtectedRemoval r) rs))"
     "gs_replayEvidenceCount st = int (length (filter (\<lambda>r. cr_replayVerified r \<noteq> None) rs))"
     "gs_replayMismatches st = int (length (filter (\<lambda>r. cr_replayVerified r = Some False) rs))"
     "gs_materializationObserved st = int (length (filter (\<lambda>r. cr_materializationStatus r \<noteq> None) rs))"
     "gs_unexplainedMaterializationFailures st = int (length (filter unexplained_failure rs))"
     "gs_unexplainedDecisions st = int (length (filter (\<lambda>r. cr_reasonCodes r = []) rs))"
     "gs_activeSetChanges st = int (length (filter active_change rs))"
     "gs_explainedActiveSetChanges st = int (length (filter (\<lambda>r. active_change r \<and> cr_reasonCodes r \<noteq> []) rs))"
     "gs_provenanceResolved st = int (length (filter (\<lambda>r. cr_sourceVersionId r \<in> vs) rs))"
    using assms by (simp_all only: counted_def)
  show ?thesis
    unfolding gate_verdict.simps verdict_PASS eqs gt count_zero active_explained filter_length_eq record_clean_def
    using remove_active by blast
qed

lemma ball_pair: "(\<forall>(x, r)\<in>S. P x r) \<longleftrightarrow> (\<forall>x r. (x, r) \<in> S \<longrightarrow> P x r)"
  by auto

lemma undone_nonempty: "undone xs \<noteq> [] \<and> length (undone xs) = length xs \<longleftrightarrow> xs \<noteq> [] \<and> (\<forall>(x, r)\<in>set xs. x \<noteq> None)"
  using undone_all [of xs] by (cases "undone xs"; cases xs) (auto simp: undone_def)

lemma paired_pass_iff:
  assumes "paired a b rs st" and "gs_removeObserved st \<noteq> 0"
  shows "gate_verdict st REHYDRATE_AFTER_REMOVE = PASS \<and> gate_verdict st FALSE_REMOVAL_AUDITABLE = PASS
      \<and> gate_verdict st EXACT_SOURCE_VERSION_REHYDRATION = PASS \<longleftrightarrow>
    rehydrations [] rs \<noteq> [] \<and> (\<forall>(x, r)\<in>set (rehydrations [] rs). exact_undo x r)"
proof -
  let ?xs = "rehydrations [] rs"
  have gt: "\<not> 0 < int n \<longleftrightarrow> int n = 0" for n by simp
  have "gate_verdict st REHYDRATE_AFTER_REMOVE = PASS \<longleftrightarrow> ?xs \<noteq> [] \<and> (\<forall>(x, r)\<in>set ?xs. x \<noteq> None)"
    unfolding gate_verdict.simps verdict_PASS undone_nonempty [symmetric] using assms(1)
    by (auto simp: paired_def)
  moreover have "gate_verdict st FALSE_REMOVAL_AUDITABLE = PASS \<longleftrightarrow>
      (\<forall>(x, r)\<in>set (undone ?xs). cr_modelCallSequence x \<noteq> None \<and> cr_modelCallSequence r \<noteq> None)"
    unfolding gate_verdict.simps verdict_PASS using assms
    by (simp add: paired_def list_all_iff case_prod_beta classified_distance del: not_None_eq)
  moreover have "gate_verdict st EXACT_SOURCE_VERSION_REHYDRATION = PASS \<longleftrightarrow>
      (\<forall>(x, r)\<in>set (undone ?xs). cr_sourceVersionId r = cr_sourceVersionId x) \<and> undone ?xs \<noteq> []"
    unfolding gate_verdict.simps verdict_PASS using assms(1)
    by (simp add: paired_def gt filter_empty_conv case_prod_beta)
  moreover have "undone ?xs \<noteq> []" if "?xs \<noteq> []" "\<forall>(x, r)\<in>set ?xs. x \<noteq> None"
    using undone_nonempty [of ?xs] that by blast
  moreover have "(\<forall>(x, r)\<in>set ?xs. exact_undo x r) \<longleftrightarrow> (\<forall>(x, r)\<in>set ?xs. x \<noteq> None)
      \<and> (\<forall>(x, r)\<in>set (undone ?xs). cr_modelCallSequence x \<noteq> None \<and> cr_modelCallSequence r \<noteq> None)
      \<and> (\<forall>(x, r)\<in>set (undone ?xs). cr_sourceVersionId r = cr_sourceVersionId x)"
    unfolding ball_pair set_undone exact_undo_def by blast
  ultimately show ?thesis by argo
qed

text \<open>
  C16. The gate passes a recorded chain exactly if the chain is ready: some record removes
  and some record rehydrates; every rehydration undoes the last removal of its source, not
  yet undone, of exactly the same version, with the model calls of both known; no removal
  hits a protected source; every record has a reason, a known version, no failed replay and
  no unexplained materialization failure; and there is some evidence of replay and of
  materialization.
\<close>

theorem evaluateC0Scenario_passes_iff:
  "sv_overall (evaluateC0Scenario rs vs options) = PASS \<longleftrightarrow>
     (\<forall>r\<in>set rs. record_clean (set vs) r) \<and> (\<exists>r\<in>set rs. cr_kind r = DK_REMOVE)
     \<and> (\<exists>r\<in>set rs. cr_replayVerified r \<noteq> None) \<and> (\<exists>r\<in>set rs. cr_materializationStatus r \<noteq> None)
     \<and> rehydrations [] rs \<noteq> [] \<and> (\<forall>(x, r)\<in>set (rehydrations [] rs). exact_undo x r)"
proof -
  define a where "a = default_to (Option.bind options eo_highPriorityMaxModelCallDistance) DEFAULT_HIGH_PRIORITY_MAX_MODEL_CALL_DISTANCE"
  define b where "b = default_to (Option.bind options eo_highPriorityMaxTransitionDistance) DEFAULT_HIGH_PRIORITY_MAX_TRANSITION_DISTANCE"
  define st where "st = foldl (gate_step a b (set vs)) gate_start rs"
  have c: "counted (set vs) rs st" and p: "paired a b rs st" using gate_pass [of "set vs" rs a b] by (simp_all add: st_def)
  have "sv_overall (evaluateC0Scenario rs vs options) = PASS \<longleftrightarrow>
      list_all (\<lambda>c. gate_verdict st c = PASS) GATE_D_CRITERIA \<and> rs \<noteq> [] \<and> gs_provenanceResolved st = int (length rs)
      \<and> gs_unexplainedDecisions st = 0"
    by (simp add: evaluateC0Scenario_def Let_def a_def [symmetric] b_def [symmetric] st_def [symmetric])
  moreover have "gate_verdict st REMOVE_OBSERVED = PASS \<Longrightarrow> gs_removeObserved st \<noteq> 0" by (simp split: if_splits)
  moreover have "gs_removeObserved st \<noteq> 0" if "\<exists>r\<in>set rs. cr_kind r = DK_REMOVE"
    using c that by (auto simp: counted_def filter_empty_conv)
  moreover have "rs \<noteq> []" if "\<exists>r\<in>set rs. cr_kind r = DK_REMOVE" using that by auto
  moreover have nil: "list_all P [] = True" for P :: "gate_criterion \<Rightarrow> bool" by simp
  ultimately show ?thesis
    using counted_pass_iff [OF c] paired_pass_iff [OF p] 
    unfolding GATE_D_CRITERIA_def list.pred_inject(2) nil by blast
qed

definition removed_then_back :: "c0_record list" where
  "removed_then_back =
     [\<lparr>cr_decisionId = ''d1'', cr_kind = DK_REMOVE, cr_sourceKey = ''a'', cr_sourceVersionId = ''v'',
       cr_representationId = ''r'', cr_reasonCodes = [BUDGET_PRESSURE], cr_transitionSequence = 1,
       cr_modelCallSequence = Some 1, cr_protection = Some PR_NORMAL, cr_replayVerified = Some True,
       cr_materializationStatus = None, cr_materializationFailureReason = None\<rparr>,
      \<lparr>cr_decisionId = ''d2'', cr_kind = DK_REHYDRATE, cr_sourceKey = ''a'', cr_sourceVersionId = ''v'',
       cr_representationId = ''r'', cr_reasonCodes = [REHYDRATION_TRIGGERED], cr_transitionSequence = 3,
       cr_modelCallSequence = Some 2, cr_protection = None, cr_replayVerified = None,
       cr_materializationStatus = Some MS_MATERIALIZED, cr_materializationFailureReason = None\<rparr>]"

lemma removed_then_back_passes: "sv_overall (evaluateC0Scenario removed_then_back [''v''] None) = PASS"
  by code_simp

theorem evaluateC0Scenario_passes_iff_witness:
  "sv_overall (evaluateC0Scenario removed_then_back [''v''] None) = PASS
     \<and> list_all (record_clean {''v''}) removed_then_back \<and> (\<exists>r\<in>set removed_then_back. cr_kind r = DK_REMOVE)
     \<and> list_all (\<lambda>(x, r). exact_undo x r) (rehydrations [] removed_then_back)"
  using evaluateC0Scenario_passes_iff [of removed_then_back "[''v'']" None] removed_then_back_passes
  by (simp add: list_all_iff)

end
