(* ===== verification/Redaction.thy ===== *)
theory Redaction
  imports Runtime_Prelude
begin

text \<open>
  Text as characters (\<open>util/utf8.ts\<close>) and the scrubbing of credentials (\<open>sink/redaction.ts\<close>).
  A string is its UTF-8 bytes; the regular expressions of the source are matchers on the
  list of its characters. In all of them each greedy part is followed by something it
  cannot match itself, so that no match is found by backtracking only.
\<close>

section \<open>Characters\<close>

definition continuation :: "char \<Rightarrow> bool" where
  "continuation c \<longleftrightarrow> (of_char c :: nat) div 64 = 2"

text \<open>The code points of a text, each as its bytes.\<close>

function utf8_chars :: "string \<Rightarrow> string list" where
  "utf8_chars [] = []"
| "utf8_chars (c # cs) = (c # takeWhile continuation cs) # utf8_chars (dropWhile continuation cs)"
  by pat_completeness auto
termination by (relation "measure length") (simp_all add: le_imp_less_Suc length_dropWhile_le)

lemma concat_utf8_chars [simp]: "concat (utf8_chars s) = s"
  by (induction s rule: utf8_chars.induct) simp_all

definition utf8ByteLength :: "string \<Rightarrow> int" where
  "utf8ByteLength text = int (length text)"

text \<open>UTF-16 code units: two for a code point of four bytes.\<close>

definition code_units :: "string list \<Rightarrow> nat" where
  "code_units cs = sum_list (map (\<lambda>c. if length c = 4 then 2 else 1) cs)"

fun truncate_from :: "int \<Rightarrow> int \<Rightarrow> string list \<Rightarrow> string" where
  "truncate_from maxBytes bytes [] = []"
| "truncate_from maxBytes bytes (codePoint # rest) =
     (if bytes + utf8ByteLength codePoint > maxBytes then []
      else codePoint @ truncate_from maxBytes (bytes + utf8ByteLength codePoint) rest)"

definition truncateToUtf8Bytes :: "string \<Rightarrow> int \<Rightarrow> string" where
  "truncateToUtf8Bytes text maxBytes = (if maxBytes \<le> 0 then [] else truncate_from maxBytes 0 (utf8_chars text))"

text \<open>Whole code points, within the limit, and as many as fit.\<close>

lemma truncate_from_take:
  "\<exists>n\<le>length cs. truncate_from m b cs = concat (take n cs) \<and> (b \<le> m \<longrightarrow> b + int (length (concat (take n cs))) \<le> m)
     \<and> (n < length cs \<longrightarrow> m < b + int (length (concat (take (Suc n) cs))))"
proof (induction cs arbitrary: b)
  case (Cons c cs)
  show ?case
  proof (cases "b + utf8ByteLength c > m")
    case True
    then show ?thesis by (intro exI [of _ 0]) (simp add: utf8ByteLength_def)
  next
    case False
    from Cons.IH [of "b + utf8ByteLength c"] obtain n where n: "n \<le> length cs"
      "truncate_from m (b + utf8ByteLength c) cs = concat (take n cs)"
      "b + utf8ByteLength c \<le> m \<longrightarrow> b + utf8ByteLength c + int (length (concat (take n cs))) \<le> m"
      "n < length cs \<longrightarrow> m < b + utf8ByteLength c + int (length (concat (take (Suc n) cs)))" by blast
    then show ?thesis using False
      by (intro exI [of _ "Suc n"]) (auto simp: utf8ByteLength_def)
  qed
qed simp

lemma truncate_bounded: "int (length (truncateToUtf8Bytes text m)) \<le> max 0 m"
  using truncate_from_take [of "utf8_chars text" m 0] by (auto simp: truncateToUtf8Bytes_def)

section \<open>Character classes\<close>

text \<open>The white space of ECMAScript.\<close>

definition is_space :: "string \<Rightarrow> bool" where
  "is_space c \<longleftrightarrow> c \<in> set
     [[CHR 0x09], [CHR 0x0A], [CHR 0x0B], [CHR 0x0C], [CHR 0x0D], [CHR 0x20], [CHR 0xC2, CHR 0xA0],
      [CHR 0xE1, CHR 0x9A, CHR 0x80], [CHR 0xE2, CHR 0x80, CHR 0xA8], [CHR 0xE2, CHR 0x80, CHR 0xA9],
      [CHR 0xE2, CHR 0x80, CHR 0xAF], [CHR 0xE2, CHR 0x81, CHR 0x9F], [CHR 0xE3, CHR 0x80, CHR 0x80],
      [CHR 0xEF, CHR 0xBB, CHR 0xBF]]
     \<or> (case c of [a, b, d] \<Rightarrow> a = CHR 0xE2 \<and> b = CHR 0x80 \<and> 0x80 \<le> (of_char d :: nat) \<and> (of_char d :: nat) \<le> 0x8A | _ \<Rightarrow> False)"

fun is_alnum :: "string \<Rightarrow> bool" where
  "is_alnum [c] = (let n = (of_char c :: nat) in
     0x30 \<le> n \<and> n \<le> 0x39 \<or> 0x41 \<le> n \<and> n \<le> 0x5A \<or> 0x61 \<le> n \<and> n \<le> 0x7A)"
| "is_alnum _ = False"

definition is_word :: "string \<Rightarrow> bool" where
  "is_word c \<longleftrightarrow> is_alnum c \<or> c = ''_''"

definition one_of :: "string \<Rightarrow> string \<Rightarrow> bool" where
  "one_of cs c \<longleftrightarrow> c \<in> set (map (\<lambda>x. [x]) cs)"

text \<open>\<open>[^\s,;"']\<close>\<close>

definition is_secret :: "string \<Rightarrow> bool" where
  "is_secret c \<longleftrightarrow> \<not> is_space c \<and> \<not> one_of [CHR '','', CHR '';'', CHR 0x22, CHR 0x27] c"

definition to_lower :: "string \<Rightarrow> string" where
  "to_lower c = (case c of [x] \<Rightarrow> (let n = (of_char x :: nat) in if 0x41 \<le> n \<and> n \<le> 0x5A then [char_of (n + 32)] else c) | _ \<Rightarrow> c)"

section \<open>Matchers\<close>

text \<open>
  A matcher gets whether the character before is a word character, and the text from a
  position on; a match is the first capture group, if the expression has one, and the
  number of characters that match.
\<close>

type_synonym matcher = "bool \<Rightarrow> string list \<Rightarrow> (string list option \<times> nat) option"

definition prefix_ignoring_case :: "string \<Rightarrow> string list \<Rightarrow> bool" where
  "prefix_ignoring_case w cs \<longleftrightarrow> map to_lower (take (length w) cs) = map (\<lambda>x. [x]) w"

definition count_while :: "(string \<Rightarrow> bool) \<Rightarrow> string list \<Rightarrow> nat" where
  "count_while p cs = length (takeWhile p cs)"

text \<open>\<open>\bsk-[A-Za-z0-9_-]{8,}\<close>: case matters.\<close>

definition match_sk :: matcher where
  "match_sk before cs =
     (if \<not> before \<and> take 3 cs = [''s'', ''k'', ''-'']
      then let n = count_while (\<lambda>c. is_alnum c \<or> one_of ''_-'' c) (drop 3 cs)
           in if 8 \<le> n then Some (None, 3 + n) else None
      else None)"

text \<open>\<open>\bBearer\s+[A-Za-z0-9._~+/-]+=*\<close>\<close>

definition match_bearer :: matcher where
  "match_bearer before cs =
     (if \<not> before \<and> prefix_ignoring_case ''bearer'' cs
      then let s = count_while is_space (drop 6 cs);
               n = count_while (\<lambda>c. is_alnum c \<or> one_of ''._~+/-'' c) (drop (6 + s) cs);
               e = count_while (one_of ''='') (drop (6 + s + n) cs)
           in if 0 < s \<and> 0 < n then Some (None, 6 + s + n + e) else None
      else None)"

text \<open>What follows a key: \<open>\s*[:=]\s*\<close> in the group, then the secret. The arguments are the characters so far.\<close>

definition match_assignment :: "nat \<Rightarrow> string list \<Rightarrow> (string list option \<times> nat) option" where
  "match_assignment k cs =
     (let k1 = k + count_while is_space (drop k cs) in
      case drop k1 cs of [] \<Rightarrow> None
      | c # _ \<Rightarrow>
          if \<not> one_of '':='' c then None
          else let k2 = k1 + 1 + count_while is_space (drop (k1 + 1) cs);
                   n = count_while is_secret (drop k2 cs)
               in if 0 < n then Some (Some (take k2 cs), k2 + n) else None)"

text \<open>\<open>("?authorization"?\s*[:=]\s*)[^\s,;"']+\<close>\<close>

definition quotes :: "string list \<Rightarrow> nat" where
  "quotes cs = (case cs of [] \<Rightarrow> 0 | c # _ \<Rightarrow> if c = [CHR 0x22] then 1 else 0)"

definition match_authorization :: matcher where
  "match_authorization before cs =
     (let q = quotes cs in
      if prefix_ignoring_case ''authorization'' (drop q cs)
      then match_assignment (q + 13 + quotes (drop (q + 13) cs)) cs
      else None)"

text \<open>
  \<open>(\b(?:api[_-]?key|apiKey|secret|token|password)\b\s*[:=]\s*)[^\s,;"']+\<close>; the alternative
  \<open>apiKey\<close> is the first one without a separator, as case is ignored.
\<close>

definition key_length :: "string list \<Rightarrow> nat option" where
  "key_length cs =
     (if prefix_ignoring_case ''api_key'' cs \<or> prefix_ignoring_case ''api-key'' cs then Some 7
      else if prefix_ignoring_case ''apikey'' cs then Some 6
      else if prefix_ignoring_case ''secret'' cs then Some 6
      else if prefix_ignoring_case ''token'' cs then Some 5
      else if prefix_ignoring_case ''password'' cs then Some 8
      else None)"

definition match_key :: matcher where
  "match_key before cs =
     (if before then None
      else case key_length cs of None \<Rightarrow> None
      | Some k \<Rightarrow> (case drop k cs of
          [] \<Rightarrow> None
        | c # _ \<Rightarrow> if is_word c then None else match_assignment k cs))"

definition KEY_PATTERNS :: "matcher list" where
  "KEY_PATTERNS = [match_sk, match_bearer, match_authorization, match_key]"

section \<open>Replacement\<close>

definition REDACTED :: string where
  "REDACTED = ''***REDACTED***''"

text \<open>
  The replacement function is called with the match, the capture groups and then the offset
  of the match. Where the expression has no group, its second parameter is the offset.
\<close>

definition replacement :: "string list option \<Rightarrow> nat \<Rightarrow> string" where
  "replacement group1 offset =
     (case group1 of Some prefix \<Rightarrow> concat prefix @ REDACTED | None \<Rightarrow> int_digits (int offset) @ REDACTED)"

text \<open>\<open>text.replace(pattern, ...)\<close> for a global expression.\<close>

function replace_from :: "matcher \<Rightarrow> nat \<Rightarrow> bool \<Rightarrow> string list \<Rightarrow> string" where
  "replace_from m offset before [] = []"
| "replace_from m offset before (c # cs) =
     (case m before (c # cs) of
        None \<Rightarrow> c @ replace_from m (offset + code_units [c]) (is_word c) cs
      | Some (group1, n) \<Rightarrow>
          (let matched = take (max 1 n) (c # cs) in
           replacement group1 offset
           @ replace_from m (offset + code_units matched) (is_word (last matched)) (drop (max 1 n) (c # cs))))"
  by pat_completeness auto
termination by (relation "measure (\<lambda>(m, offset, before, cs). length cs)") (auto simp: max_def)

definition redactSensitive :: "string \<Rightarrow> string" where
  "redactSensitive text = foldl (\<lambda>out pattern. replace_from pattern 0 False (utf8_chars out)) text KEY_PATTERNS"

fun matches_from :: "matcher \<Rightarrow> bool \<Rightarrow> string list \<Rightarrow> bool" where
  "matches_from m before [] = False"
| "matches_from m before (c # cs) = (m before (c # cs) \<noteq> None \<or> matches_from m (is_word c) cs)"

text \<open>\<open>text.split(REDACTED).join('')\<close>\<close>

function without_marker :: "string \<Rightarrow> string" where
  "without_marker [] = []"
| "without_marker (c # cs) =
     (if take (length REDACTED) (c # cs) = REDACTED then without_marker (drop (length REDACTED) (c # cs))
      else c # without_marker cs)"
  by pat_completeness auto
termination by (relation "measure length") (simp_all add: REDACTED_def)

definition containsKnownCredential :: "string \<Rightarrow> bool" where
  "containsKnownCredential text = list_ex (\<lambda>pattern. matches_from pattern False (utf8_chars (without_marker text))) KEY_PATTERNS"

section \<open>Where scrubbing does not do what it is for\<close>

text \<open>
  A key or bearer token is replaced by the offset of the match and the marker, not by the
  marker alone; a credential after an authorization scheme is left in the clear; a quoted
  value is not scrubbed at all; and a scrubbed text is still reported as a credential.
\<close>

lemma redaction_leaks_offset: "redactSensitive ''key sk-abcdefgh1 end'' = ''key 4***REDACTED*** end''"
  by code_simp

lemma redaction_leaves_basic_credential:
  "redactSensitive ''Authorization: Basic dXNlcjpwYXNz'' = ''Authorization: ***REDACTED*** dXNlcjpwYXNz''"
  by code_simp

lemma redaction_reports_scrubbed_text:
  "redactSensitive ''token: abc next'' = ''token: ***REDACTED*** next'' \<and> containsKnownCredential ''token: ***REDACTED*** next''"
  by code_simp

end
