(* ===== verification/Observation.thy ===== *)
theory Observation
  imports Redaction
begin

text \<open>
  Observations of model calls (\<open>observation/types.ts\<close>, \<open>token-estimate.ts\<close>, \<open>normalize.ts\<close>,
  \<open>observe.ts\<close>) and of context elements (\<open>elements/observed-element.ts\<close>): what is recorded of
  a message, and the budget of raw text that may be kept.
\<close>

section \<open>Estimates\<close>

text \<open>\<open>text.replace(/\s+/g, ' ')\<close> and \<open>trim()\<close> on characters.\<close>

function collapse_spaces :: "string list \<Rightarrow> string list" where
  "collapse_spaces [] = []"
| "collapse_spaces (c # cs) =
     (if is_space c then '' '' # collapse_spaces (dropWhile is_space cs) else c # collapse_spaces cs)"
  by pat_completeness auto
termination by (relation "measure length") (simp_all add: le_imp_less_Suc length_dropWhile_le)

definition trim :: "string list \<Rightarrow> string list" where
  "trim cs = rev (dropWhile is_space (rev (dropWhile is_space cs)))"

definition estimateTokens :: "string \<Rightarrow> int" where
  "estimateTokens text = max 1 ((int (code_units (trim (collapse_spaces (utf8_chars text)))) + 3) div 4)"

definition estimateChars :: "string \<Rightarrow> int" where
  "estimateChars text = int (code_units (utf8_chars text))"

section \<open>Messages\<close>

datatype message_category = MC_USER | MC_ASSISTANT | MC_TOOL_RESULT | MC_OTHER

record binary_block =
  bb_type :: string
  bb_mimeType :: "string option"
  bb_byteLength :: int
  bb_contentHash :: string

record normalized_message =
  nm_role :: string
  nm_category :: message_category
  nm_contentType :: string
  nm_fingerprintText :: string
  nm_toolName :: "string option"
  nm_toolCallId :: "string option"
  nm_isError :: "bool option"
  nm_binaryBlocks :: "binary_block list option"

record message_descriptor =
  md_position :: int
  md_role :: string
  md_contentType :: string
  md_estimatedTokens :: int
  md_estimatedChars :: int
  md_contentHash :: string
  md_toolName :: "string option"
  md_toolCallId :: "string option"
  md_isError :: "bool option"
  md_binaryBlocks :: "binary_block list option"
  md_rawPreview :: "string option"

definition hashNormalizedMessage :: "runtime \<Rightarrow> string \<Rightarrow> string" where
  "hashNormalizedMessage rt normalizedText = rt_sha256Hex rt (''v1|'' @ normalizedText)"

definition normalizeMessage :: "runtime \<Rightarrow> normalized_message \<Rightarrow> int \<Rightarrow> string option \<Rightarrow> message_descriptor" where
  "normalizeMessage rt message position rawPreview =
     (let fingerprint = nm_fingerprintText message in
      \<lparr>md_position = position, md_role = nm_role message, md_contentType = nm_contentType message,
       md_estimatedTokens = estimateTokens fingerprint, md_estimatedChars = estimateChars fingerprint,
       md_contentHash = hashNormalizedMessage rt fingerprint, md_toolName = nm_toolName message,
       md_toolCallId = nm_toolCallId message, md_isError = nm_isError message,
       md_binaryBlocks = nm_binaryBlocks message, md_rawPreview = rawPreview\<rparr>)"

definition countCategories :: "normalized_message list \<Rightarrow> message_category \<Rightarrow> int" where
  "countCategories messages =
     foldl (\<lambda>counts message. counts(nm_category message := counts (nm_category message) + 1)) (\<lambda>_. 0) messages"

definition countToolResults :: "normalized_message list \<Rightarrow> int" where
  "countToolResults messages = int (length (filter (\<lambda>message. nm_category message = MC_TOOL_RESULT) messages))"

definition countBinaryBlocks :: "normalized_message list \<Rightarrow> int" where
  "countBinaryBlocks messages =
     foldl (\<lambda>sum message. sum + int (length (default_to (nm_binaryBlocks message) []))) 0 messages"

section \<open>The raw capture budget\<close>

record raw_budget =
  rb_perMessageSizeLimit :: int
  rb_perRunTotalLimit :: int
  rb_remaining :: int

definition newRawCaptureBudget :: "int \<Rightarrow> int \<Rightarrow> int option \<Rightarrow> raw_budget" where
  "newRawCaptureBudget perMessage perRun remaining =
     \<lparr>rb_perMessageSizeLimit = perMessage, rb_perRunTotalLimit = perRun, rb_remaining = default_to remaining perRun\<rparr>"

definition disabled_budget :: raw_budget where
  "disabled_budget = newRawCaptureBudget 0 0 (Some 0)"

definition consume :: "raw_budget \<Rightarrow> int \<Rightarrow> raw_budget" where
  "consume budget bytes = budget\<lparr>rb_remaining := max 0 (rb_remaining budget - bytes)\<rparr>"

definition rawCaptureBudget :: "int option \<Rightarrow> int option \<Rightarrow> raw_budget" where
  "rawCaptureBudget perMessage perRun = newRawCaptureBudget (default_to perMessage 500) (default_to perRun 20000) None"

section \<open>Observations\<close>

record observe_request =
  or_runtimeSessionId :: string
  or_sequence :: int
  or_observedAt :: string
  or_harness :: string
  or_messages :: "normalized_message list"

definition ESTIMATE_SCOPE_AGENT_MESSAGES :: string where
  "ESTIMATE_SCOPE_AGENT_MESSAGES = ''agent-messages-pre-provider''"

record model_call_observation =
  mo_runtimeSessionId :: string
  mo_sequence :: int
  mo_observedAt :: string
  mo_harness :: string
  mo_estimateScope :: string
  mo_messageCount :: int
  mo_observedMessageTokenEstimate :: int
  mo_observedMessageCharEstimate :: int
  mo_categoryCounts :: "message_category \<Rightarrow> int"
  mo_toolResultCount :: int
  mo_messageDescriptors :: "message_descriptor list"

definition describe_message ::
  "runtime \<Rightarrow> raw_budget \<times> message_descriptor list \<Rightarrow> nat \<times> normalized_message \<Rightarrow> raw_budget \<times> message_descriptor list" where
  "describe_message rt st indexed =
     (let (budget, descriptors) = st; (index, message) = indexed in
      if rb_remaining budget > 0
      then (let redacted = redactSensitive (nm_fingerprintText message);
                byteLimit = min (rb_perMessageSizeLimit budget) (rb_remaining budget);
                bounded = truncateToUtf8Bytes redacted byteLimit
            in (consume budget (utf8ByteLength bounded),
                descriptors @ [normalizeMessage rt message (int index) (if bounded \<noteq> [] then Some bounded else None)]))
      else (budget, descriptors @ [normalizeMessage rt message (int index) None]))"

definition buildObservation ::
  "runtime \<Rightarrow> observe_request \<Rightarrow> raw_budget \<Rightarrow> model_call_observation \<times> raw_budget" where
  "buildObservation rt request budget0 =
     (let (budget, descriptors) = foldl (describe_message rt) (budget0, []) (List.enumerate 0 (or_messages request)) in
      (\<lparr>mo_runtimeSessionId = or_runtimeSessionId request, mo_sequence = or_sequence request,
        mo_observedAt = or_observedAt request, mo_harness = or_harness request,
        mo_estimateScope = ESTIMATE_SCOPE_AGENT_MESSAGES, mo_messageCount = int (length (or_messages request)),
        mo_observedMessageTokenEstimate = foldl (\<lambda>sum d. sum + md_estimatedTokens d) 0 descriptors,
        mo_observedMessageCharEstimate = foldl (\<lambda>sum d. sum + md_estimatedChars d) 0 descriptors,
        mo_categoryCounts = countCategories (or_messages request),
        mo_toolResultCount = countToolResults (or_messages request), mo_messageDescriptors = descriptors\<rparr>, budget))"

section \<open>Observed elements\<close>

definition observationRef :: "string \<Rightarrow> int \<Rightarrow> int \<Rightarrow> int option \<Rightarrow> string" where
  "observationRef runtimeSessionId modelCallSequence messagePosition blockPosition =
     runtimeSessionId @ ''#call-'' @ int_digits modelCallSequence @ ''-m-'' @ int_digits messagePosition
     @ (case blockPosition of None \<Rightarrow> [] | Some b \<Rightarrow> ''-b-'' @ int_digits b)"

definition elementSemanticHash :: "runtime \<Rightarrow> string list \<Rightarrow> string" where
  "elementSemanticHash rt parts = rt_sha256Hex rt (''element-v1|'' @ join unit_separator parts)"

section \<open>What an observation keeps\<close>

definition preview :: "message_descriptor \<Rightarrow> string" where
  "preview d = default_to (md_rawPreview d) []"

definition raw_bytes :: "message_descriptor list \<Rightarrow> int" where
  "raw_bytes ds = (\<Sum>d\<leftarrow>ds. int (length (preview d)))"

definition described :: "runtime \<Rightarrow> raw_budget \<Rightarrow> normalized_message list \<Rightarrow> raw_budget \<Rightarrow> message_descriptor list \<Rightarrow> bool" where
  "described rt b ms b' ds \<longleftrightarrow>
     map (\<lambda>d. d\<lparr>md_rawPreview := None\<rparr>) ds = map (\<lambda>(i, m). normalizeMessage rt m (int i) None) (List.enumerate 0 ms)
     \<and> rb_perMessageSizeLimit b' = rb_perMessageSizeLimit b \<and> rb_perRunTotalLimit b' = rb_perRunTotalLimit b
     \<and> 0 \<le> rb_remaining b' \<and> rb_remaining b' + raw_bytes ds = rb_remaining b
     \<and> (\<forall>d\<in>set ds. md_rawPreview d \<noteq> Some [] \<and> int (length (preview d)) \<le> max 0 (rb_perMessageSizeLimit b))"

lemma normalize_preview [simp]:
  "md_rawPreview (normalizeMessage rt m i p) = p"
  "(normalizeMessage rt m i p)\<lparr>md_rawPreview := q\<rparr> = normalizeMessage rt m i q"
  by (simp_all add: normalizeMessage_def Let_def)

lemma describe_step:
  assumes "described rt b ms b' ds"
  shows "case describe_message rt (b', ds) (length ms, m) of (b'', ds') \<Rightarrow> described rt b (ms @ [m]) b'' ds'"
proof (cases "rb_remaining b' > 0")
  case True
  let ?t = "truncateToUtf8Bytes (redactSensitive (nm_fingerprintText m)) (min (rb_perMessageSizeLimit b') (rb_remaining b'))"
  have "int (length ?t) \<le> max 0 (min (rb_perMessageSizeLimit b') (rb_remaining b'))" by (rule truncate_bounded)
  with True have "int (length ?t) \<le> rb_remaining b'" "int (length ?t) \<le> max 0 (rb_perMessageSizeLimit b')" by auto
  with True assms show ?thesis
    by (auto simp: describe_message_def Let_def described_def consume_def raw_bytes_def preview_def utf8ByteLength_def
      default_to_def enumerate_append_eq)
next
  case False
  with assms show ?thesis
    by (auto simp: describe_message_def described_def raw_bytes_def preview_def default_to_def enumerate_append_eq)
qed

lemma describe_all:
  "0 \<le> rb_remaining b \<Longrightarrow>
   case foldl (describe_message rt) (b, []) (List.enumerate 0 ms) of (b', ds) \<Rightarrow> described rt b ms b' ds"
proof (induction ms rule: rev_induct)
  case Nil
  then show ?case by (simp add: described_def raw_bytes_def)
next
  case (snoc m ms)
  obtain b' ds where run: "foldl (describe_message rt) (b, []) (List.enumerate 0 ms) = (b', ds)" by fastforce
  with snoc have "described rt b ms b' ds" by simp
  from describe_step [OF this, of m] run show ?case by (simp add: enumerate_append_eq)
qed

lemma foldl_plus: "foldl (\<lambda>sum d. sum + f d) (a :: int) ds = a + (\<Sum>d\<leftarrow>ds. f d)"
  by (induction ds arbitrary: a) simp_all

lemma described_field:
  assumes "described rt b ms b' ds"
    and "\<And>d. f (d\<lparr>md_rawPreview := None\<rparr>) = f d" and "\<And>m i. f (normalizeMessage rt m i None) = g m"
  shows "map f ds = map g ms"
proof -
  have "map (\<lambda>d. d\<lparr>md_rawPreview := None\<rparr>) ds = map (\<lambda>(i, m). normalizeMessage rt m (int i) None) (List.enumerate 0 ms)"
    using assms(1) by (simp add: described_def)
  from arg_cong [OF this, of "map f"] have "map f ds = map (g \<circ> snd) (List.enumerate 0 ms)"
    using assms(2,3) by (simp add: comp_def case_prod_beta)
  then show ?thesis by (metis map_map map_snd_enumerate)
qed

lemma described_positions:
  assumes "described rt b ms b' ds"
  shows "map md_position ds = map int [0..<length ms]"
proof -
  have "map (\<lambda>d. d\<lparr>md_rawPreview := None\<rparr>) ds = map (\<lambda>(i, m). normalizeMessage rt m (int i) None) (List.enumerate 0 ms)"
    using assms by (simp add: described_def)
  from arg_cong [OF this, of "map md_position"] have "map md_position ds = map (int \<circ> fst) (List.enumerate 0 ms)"
    by (simp add: comp_def case_prod_beta normalizeMessage_def Let_def)
  then show ?thesis by (metis (no_types) map_map map_fst_enumerate add_0)
qed

text \<open>
  C18. An observation keeps raw text within its budget. Every preview has at most the bytes
  allowed for one message; all previews together take exactly what is gone from the budget
  of the run, which never becomes negative, so that the observations of a run together stay
  within it. The descriptors are numbered from 0 in the order of the messages, and the
  totals are the sums of the estimates, whatever the budget is.
\<close>

theorem buildObservation_bounded:
  assumes "0 \<le> rb_remaining b"
  shows "case buildObservation rt request b of (ob, b') \<Rightarrow>
      (\<forall>d\<in>set (mo_messageDescriptors ob). int (length (preview d)) \<le> max 0 (rb_perMessageSizeLimit b))
      \<and> raw_bytes (mo_messageDescriptors ob) = rb_remaining b - rb_remaining b' \<and> 0 \<le> rb_remaining b'
      \<and> map md_position (mo_messageDescriptors ob) = map int [0..<length (or_messages request)]
      \<and> mo_observedMessageTokenEstimate ob = (\<Sum>m\<leftarrow>or_messages request. estimateTokens (nm_fingerprintText m))
      \<and> mo_observedMessageCharEstimate ob = (\<Sum>m\<leftarrow>or_messages request. estimateChars (nm_fingerprintText m))"
proof -
  obtain b' ds where run: "foldl (describe_message rt) (b, []) (List.enumerate 0 (or_messages request)) = (b', ds)" by fastforce
  from describe_all [OF assms, of rt "or_messages request"] run have d: "described rt b (or_messages request) b' ds" by simp
  have "map md_estimatedTokens ds = map (\<lambda>m. estimateTokens (nm_fingerprintText m)) (or_messages request)"
    by (rule described_field [OF d]) (simp_all add: normalizeMessage_def Let_def)
  moreover have "map md_estimatedChars ds = map (\<lambda>m. estimateChars (nm_fingerprintText m)) (or_messages request)"
    by (rule described_field [OF d]) (simp_all add: normalizeMessage_def Let_def)
  ultimately show ?thesis using d described_positions [OF d]
    by (auto simp: buildObservation_def run foldl_plus described_def)
qed

definition one_message :: observe_request where
  "one_message = \<lparr>or_runtimeSessionId = ''s'', or_sequence = 1, or_observedAt = ''t'', or_harness = ''h'', or_messages =
     [\<lparr>nm_role = ''user'', nm_category = MC_USER, nm_contentType = ''text'', nm_fingerprintText = ''hello'',
       nm_toolName = None, nm_toolCallId = None, nm_isError = None, nm_binaryBlocks = None\<rparr>]\<rparr>"

definition echo_runtime :: runtime where
  "echo_runtime = \<lparr>rt_sha256Hex = (\<lambda>text. text), rt_localeCompare = (\<lambda>a b. 0)\<rparr>"

theorem buildObservation_bounded_witness:
  "case buildObservation echo_runtime one_message (rawCaptureBudget (Some 3) (Some 4)) of (ob, b') \<Rightarrow>
     raw_bytes (mo_messageDescriptors ob) = 4 - rb_remaining b' \<and> 0 \<le> rb_remaining b'"
proof -
  have "rb_remaining (rawCaptureBudget (Some 3) (Some 4)) = 4"
    by (simp add: rawCaptureBudget_def newRawCaptureBudget_def default_to_def)
  with buildObservation_bounded [of "rawCaptureBudget (Some 3) (Some 4)" one_message echo_runtime] show ?thesis by auto
qed

end
