(* ===== verification/Observation_Sink.thy ===== *)
theory Observation_Sink
  imports Runtime_Prelude
begin

text \<open>
  The research sinks (\<open>sink/jsonl-sink.ts\<close>, \<open>sink/in-memory-sink.ts\<close>) and the numbering of
  model calls (\<open>session/runtime-session.ts\<close>).

  The JSONL sink appends asynchronously: calls of \<open>flush\<close> are chained, an append captures the
  lines it owns and gives control back, and writes, closes and further flushes may happen
  before the file system answers. The model is a step relation: every step is what one of
  these calls or answers does without giving up control. The file system answers through the
  events: an append stores the whole payload, or it is rejected after any part of the payload, none
  or all of it, has reached the file.
\<close>

section \<open>The state of a sink\<close>

text \<open>
  \<open>sk_waiting\<close> are the flushes whose turn in the chain has not come, \<open>sk_inFlight\<close> the number
  of lines that the running append has captured with its payload; \<open>sk_file\<close> is the text of the file.
\<close>

record sink_state =
  sk_buffer :: "string list"
  sk_closed :: bool
  sk_waiting :: nat
  sk_inFlight :: "(nat \<times> string) option"
  sk_file :: string

definition newJsonlObservationSink :: "string \<Rightarrow> sink_state" where
  "newJsonlObservationSink file = \<lparr>sk_buffer = [], sk_closed = False, sk_waiting = 0, sk_inFlight = None, sk_file = file\<rparr>"

definition sink_write :: "sink_state \<Rightarrow> string \<Rightarrow> sink_state outcome" where
  "sink_write st line =
     try_then (fail_if (sk_closed st) ''JsonlObservationSink is closed'') (\<lambda>_.
     Inr (st\<lparr>sk_buffer := sk_buffer st @ [line]\<rparr>))"

definition sink_close :: "sink_state \<Rightarrow> sink_state" where
  "sink_close st = st\<lparr>sk_closed := True\<rparr>"

definition sink_flush :: "sink_state \<Rightarrow> sink_state" where
  "sink_flush st = st\<lparr>sk_waiting := sk_waiting st + 1\<rparr>"

definition line_feed :: string where
  "line_feed = [CHR 0x0A]"

text \<open>\<open>lines.join('\n') + '\n'\<close> of a list that is not empty.\<close>

definition lines_text :: "string list \<Rightarrow> string" where
  "lines_text ls = concat (map (\<lambda>l. l @ line_feed) ls)"

text \<open>The next flush of the chain runs \<open>appendBuffered\<close> up to its first \<open>await\<close>.\<close>

definition append_begin :: "sink_state \<Rightarrow> sink_state" where
  "append_begin st =
     (if sk_buffer st = [] then st\<lparr>sk_waiting := sk_waiting st - 1\<rparr>
      else let lineCount = length (sk_buffer st) in
        st\<lparr>sk_waiting := sk_waiting st - 1, sk_inFlight := Some (lineCount, lines_text (take lineCount (sk_buffer st)))\<rparr>)"

text \<open>The file system answered: the payload is in the file, or the append was rejected after \<open>k\<close> bytes.\<close>

definition append_done :: "sink_state \<Rightarrow> nat \<Rightarrow> string \<Rightarrow> sink_state" where
  "append_done st lineCount payload =
     st\<lparr>sk_file := sk_file st @ payload, sk_buffer := drop lineCount (sk_buffer st), sk_inFlight := None\<rparr>"

definition append_failed :: "sink_state \<Rightarrow> nat \<Rightarrow> string \<Rightarrow> sink_state" where
  "append_failed st k payload = st\<lparr>sk_file := sk_file st @ take k payload, sk_inFlight := None\<rparr>"

datatype sink_event = Wrote string | Closed | Flushed | Began | Stored | Failed nat

inductive sink_step :: "sink_state \<Rightarrow> sink_event \<Rightarrow> sink_state \<Rightarrow> bool" where
  wrote: "sink_write st line = Inr st' \<Longrightarrow> sink_step st (Wrote line) st'"
| closes: "sink_step st Closed (sink_close st)"
| flushed: "sink_step st Flushed (sink_flush st)"
| begin_append: "sk_waiting st > 0 \<Longrightarrow> sk_inFlight st = None \<Longrightarrow> sink_step st Began (append_begin st)"
| stored: "sk_inFlight st = Some (n, payload) \<Longrightarrow> sink_step st Stored (append_done st n payload)"
| failed: "sk_inFlight st = Some (n, payload) \<Longrightarrow> sink_step st (Failed k) (append_failed st k payload)"

inductive sink_run :: "sink_state \<Rightarrow> sink_event list \<Rightarrow> sink_state \<Rightarrow> bool" where
  nil: "sink_run st [] st"
| cons: "sink_step st e st' \<Longrightarrow> sink_run st' es st'' \<Longrightarrow> sink_run st (e # es) st''"

fun written :: "sink_event \<Rightarrow> string list" where
  "written (Wrote line) = [line]"
| "written e = []"

section \<open>No line is lost\<close>

definition sink_ok :: "sink_state \<Rightarrow> bool" where
  "sink_ok st \<longleftrightarrow> (case sk_inFlight st of None \<Rightarrow> True
     | Some (n, payload) \<Rightarrow> 0 < n \<and> n \<le> length (sk_buffer st) \<and> payload = lines_text (take n (sk_buffer st)))"

text \<open>
  What the file is made of: the payloads that were stored, and between them what rejected appends
  left behind. \<open>segments_of ls segs\<close> says that the payloads are the lines \<open>ls\<close> from the first one on,
  and that each fragment is the beginning of the text of the lines that were still to be stored.
\<close>

datatype segment = Whole "string list" | Torn string

fun seg_text :: "segment \<Rightarrow> string" where
  "seg_text (Whole ls) = lines_text ls"
| "seg_text (Torn t) = t"

fun seg_lines :: "segment \<Rightarrow> string list" where
  "seg_lines (Whole ls) = ls"
| "seg_lines (Torn t) = []"

fun segments_of :: "string list \<Rightarrow> segment list \<Rightarrow> bool" where
  "segments_of ls [] \<longleftrightarrow> True"
| "segments_of ls (Whole xs # ss) \<longleftrightarrow> take (length xs) ls = xs \<and> segments_of (drop (length xs) ls) ss"
| "segments_of ls (Torn t # ss) \<longleftrightarrow> take (length t) (lines_text ls) = t \<and> segments_of ls ss"

definition torn :: "segment list \<Rightarrow> nat" where
  "torn segs = length (filter (\<lambda>s. case s of Torn t \<Rightarrow> True | _ \<Rightarrow> False) segs)"

lemma lines_text_append: "lines_text (xs @ ys) = lines_text xs @ lines_text ys"
  by (simp add: lines_text_def)

lemma lines_text_Nil [simp]: "lines_text [] = []"
  by (simp add: lines_text_def)

lemma take_lines_text: "take k (lines_text (take n ls)) = t \<Longrightarrow> take (length t) (lines_text ls) = t"
  by (metis append_eq_conv_conj append_take_drop_id append.assoc lines_text_append)

lemma segments_snoc:
  "segments_of ls segs \<Longrightarrow> ls = concat (map seg_lines segs) @ rest \<Longrightarrow>
     (segments_of ls (segs @ [Whole xs]) \<longleftrightarrow> take (length xs) rest = xs)
     \<and> (segments_of ls (segs @ [Torn t]) \<longleftrightarrow> take (length t) (lines_text rest) = t)"
proof (induction segs arbitrary: ls)
  case (Cons s segs)
  show ?case
  proof (cases s)
    case (Whole ys)
    with Cons.prems have "segments_of (drop (length ys) ls) segs" "drop (length ys) ls = concat (map seg_lines segs) @ rest" by auto
    from Cons.IH [OF this] Whole Cons.prems show ?thesis by auto
  next
    case (Torn u)
    with Cons.prems Cons.IH [of ls] show ?thesis by auto
  qed
qed simp

lemma take_self_le: "take (length xs) ys = xs \<Longrightarrow> length xs \<le> length ys"
  by (metis length_take min.cobounded1)

lemma segments_more: "segments_of ls segs \<Longrightarrow> segments_of (ls @ ms) segs"
  by (induction ls segs rule: segments_of.induct) (auto simp: lines_text_append take_self_le)

text \<open>A run in segments: what its file has gained and what its buffer holds make up what was written.\<close>

definition accounts :: "string \<Rightarrow> sink_event list \<Rightarrow> sink_state \<Rightarrow> segment list \<Rightarrow> bool" where
  "accounts file es st segs \<longleftrightarrow>
     sk_file st = file @ concat (map seg_text segs)
     \<and> concat (map seg_lines segs) @ sk_buffer st = concat (map written es)
     \<and> segments_of (concat (map written es)) segs
     \<and> torn segs = length (filter (\<lambda>e. case e of Failed k \<Rightarrow> True | _ \<Rightarrow> False) es)"

lemma sink_step_ok: "sink_step st e st' \<Longrightarrow> sink_ok st \<Longrightarrow> sink_ok st'"
  by (induction rule: sink_step.induct)
    (auto simp: sink_ok_def sink_write_def sink_close_def sink_flush_def append_begin_def append_done_def append_failed_def
      Let_def try_simps split: option.splits)

lemma accounts_same:
  "accounts file es st segs \<Longrightarrow> sk_file st' = sk_file st \<Longrightarrow> sk_buffer st' = sk_buffer st \<Longrightarrow> written e = []
     \<Longrightarrow> (case e of Failed k \<Rightarrow> False | _ \<Rightarrow> True) \<Longrightarrow> accounts file (es @ [e]) st' segs"
  by (cases e) (simp_all add: accounts_def)

lemma sink_step_accounts:
  assumes "sink_step st e st'" and "sink_ok st" and acc: "accounts file es st segs"
  shows "\<exists>segs'. accounts file (es @ [e]) st' segs'"
proof -
  have kept: "segments_of (concat (map written es)) segs"
    and all: "concat (map written es) = concat (map seg_lines segs) @ sk_buffer st"
    using acc unfolding accounts_def by metis+
  note snoc = segments_snoc [OF kept all]
  show ?thesis using assms(1)
  proof cases
    case (wrote line)
    then have st': "sk_buffer st' = sk_buffer st @ [line]" "sk_file st' = sk_file st" "e = Wrote line"
      by (auto simp: sink_write_def try_simps)
    have "concat (map seg_lines segs) @ sk_buffer st = concat (map written es)" using acc by (simp add: accounts_def)
    then have "concat (map seg_lines segs) @ sk_buffer st' = concat (map written es) @ [line]"
      unfolding st'(1) by (metis append_assoc)
    then show ?thesis using acc st' segments_more by (intro exI [of _ segs]) (simp add: accounts_def)
  next
    case (stored n payload)
    let ?ls = "take n (sk_buffer st)"
    have p: "payload = lines_text ?ls" using stored(3) assms(2) by (simp add: sink_ok_def)
    have "segments_of (concat (map written es)) (segs @ [Whole ?ls])"
      by (rule snoc [THEN conjunct1, THEN iffD2]) (simp add: min_def)
    then show ?thesis using stored(1,2) p acc
      by (intro exI [of _ "segs @ [Whole ?ls]"]) (simp add: accounts_def append_done_def torn_def)
  next
    case (failed n payload k)
    let ?t = "take k payload"
    have p: "payload = lines_text (take n (sk_buffer st))" using failed(3) assms(2) by (simp add: sink_ok_def)
    have "take (length ?t) (lines_text (sk_buffer st)) = ?t" unfolding p by (rule take_lines_text) (rule refl)
    then have "segments_of (concat (map written es)) (segs @ [Torn ?t])"
      by (rule snoc [THEN conjunct2, THEN iffD2])
    then show ?thesis using failed(1,2) acc
      by (intro exI [of _ "segs @ [Torn ?t]"]) (simp add: accounts_def append_failed_def torn_def)
  next
    case closes
    then show ?thesis using accounts_same [OF acc, of st' e] by (auto simp: sink_close_def)
  next
    case flushed
    then show ?thesis using accounts_same [OF acc, of st' e] by (auto simp: sink_flush_def)
  next
    case begin_append
    then show ?thesis using accounts_same [OF acc, of st' e] by (auto simp: append_begin_def Let_def)
  qed
qed

lemma sink_run_ok:
  "sink_run st es st' \<Longrightarrow> sink_ok st \<Longrightarrow> accounts file ds st segs \<Longrightarrow> sink_ok st' \<and> (\<exists>segs'. accounts file (ds @ es) st' segs')"
proof (induction arbitrary: ds segs rule: sink_run.induct)
  case (cons st e st' es st'')
  from sink_step_accounts [OF cons.hyps(1) cons.prems] obtain segs' where "accounts file (ds @ [e]) st' segs'" by blast
  from cons.IH [OF sink_step_ok [OF cons.hyps(1) cons.prems(1)] this] show ?case by simp
qed auto

text \<open>The flush that ends the run: no append is in flight and the file system answers.\<close>

definition settle :: "sink_state \<Rightarrow> sink_event list" where
  "settle st = (if sk_buffer st = [] then [Flushed, Began] else [Flushed, Began, Stored])"

lemma sink_settles:
  assumes "sink_ok st" and "sk_inFlight st = None"
  shows "\<exists>st'. sink_run st (settle st) st' \<and> sk_buffer st' = [] \<and> sk_file st' = sk_file st @ lines_text (sk_buffer st)"
proof (cases "sk_buffer st = []")
  case True
  let ?a = "sink_flush st"
  have "sink_step st Flushed ?a" by (rule sink_step.flushed)
  moreover have "sink_step ?a Began (append_begin ?a)"
    using assms by (intro sink_step.begin_append) (simp_all add: sink_flush_def)
  ultimately show ?thesis using True
    by (intro exI [of _ "append_begin ?a"]) (auto simp: settle_def append_begin_def sink_flush_def lines_text_def intro: sink_run.intros)
next
  case False
  let ?a = "sink_flush st" and ?n = "length (sk_buffer st)"
  let ?c = "append_done (append_begin ?a) ?n (lines_text (sk_buffer st))"
  have "sink_step st Flushed ?a" by (rule sink_step.flushed)
  moreover have "sink_step ?a Began (append_begin ?a)"
    using assms by (intro sink_step.begin_append) (simp_all add: sink_flush_def)
  moreover have "sink_step (append_begin ?a) Stored ?c"
    using False by (intro sink_step.stored) (simp add: append_begin_def sink_flush_def Let_def)
  ultimately have "sink_run st (settle st) ?c" using False unfolding settle_def by (auto intro: sink_run.nil sink_run.cons)
  moreover have "sk_buffer ?c = [] \<and> sk_file ?c = sk_file st @ lines_text (sk_buffer st)"
    using False by (simp add: append_done_def append_begin_def sink_flush_def Let_def)
  ultimately show ?thesis by blast
qed

text \<open>An append that is rejected has left nothing behind.\<close>

fun clean_answer :: "sink_event \<Rightarrow> bool" where
  "clean_answer (Failed k) = (k = 0)"
| "clean_answer e = True"

lemma clean_step:
  "sink_step st e st' \<Longrightarrow> sink_ok st \<Longrightarrow> clean_answer e \<Longrightarrow>
     sk_file st' @ lines_text (sk_buffer st') = sk_file st @ lines_text (sk_buffer st) @ lines_text (written e)"
  by (induction rule: sink_step.induct)
    (auto simp: sink_ok_def sink_write_def sink_close_def sink_flush_def append_begin_def append_done_def append_failed_def
      Let_def try_simps lines_text_append [symmetric] split: option.splits)

lemma clean_run:
  "sink_run st es st' \<Longrightarrow> sink_ok st \<Longrightarrow> list_all clean_answer es \<Longrightarrow>
     sk_file st' @ lines_text (sk_buffer st') = sk_file st @ lines_text (sk_buffer st) @ lines_text (concat (map written es))"
proof (induction rule: sink_run.induct)
  case (cons st e st' es st'')
  from cons.prems have "clean_answer e" "list_all clean_answer es" by simp_all
  from clean_step [OF cons.hyps(1) cons.prems(1) this(1)] cons.IH [OF sink_step_ok [OF cons.hyps(1) cons.prems(1)] this(2)]
  show ?case by (simp add: lines_text_append)
qed simp

text \<open>
  C20. However writes, closes, overlapping flushes and the answers of the file system are
  interleaved, and whatever part of its payload a rejected append leaves in the file: no line is
  lost and none is reordered. The file has gained whole payloads, which with the lines of the buffer
  are exactly the lines written so far, each once and in order, and one fragment for each rejected
  append: the beginning of the lines that were still to be stored, which a retry stores again in
  full. When the rejected appends left nothing, the text of the file followed by that of the buffer
  is exactly what was written. Whenever no append is in flight, one more flush that the file system
  answers adds exactly the lines of the buffer and empties it.
\<close>

theorem sink_loses_nothing:
  assumes "sink_run (newJsonlObservationSink file) es st"
  shows "(\<exists>segs. sk_file st = file @ concat (map seg_text segs)
      \<and> concat (map seg_lines segs) @ sk_buffer st = concat (map written es)
      \<and> segments_of (concat (map written es)) segs
      \<and> torn segs = length (filter (\<lambda>e. case e of Failed k \<Rightarrow> True | _ \<Rightarrow> False) es))
    \<and> (list_all clean_answer es \<longrightarrow> sk_file st @ lines_text (sk_buffer st) = file @ lines_text (concat (map written es)))
    \<and> (sk_inFlight st = None \<longrightarrow>
         (\<exists>st'. sink_run st (settle st) st' \<and> sk_buffer st' = [] \<and> sk_file st' = sk_file st @ lines_text (sk_buffer st)))"
proof -
  let ?s = "newJsonlObservationSink file"
  have start: "sink_ok ?s" "accounts file [] ?s []"
    by (simp_all add: sink_ok_def newJsonlObservationSink_def accounts_def torn_def)
  from sink_run_ok [OF assms start] obtain segs where ok: "sink_ok st" and "accounts file es st segs" by auto
  moreover have "list_all clean_answer es \<Longrightarrow> sk_file st @ lines_text (sk_buffer st) = file @ lines_text (concat (map written es))"
    using clean_run [OF assms start(1)] by (simp add: newJsonlObservationSink_def lines_text_def)
  ultimately show ?thesis using sink_settles unfolding accounts_def by blast
qed

text \<open>A write while an append is in flight, and an append that fails half way.\<close>

definition busy_sink :: sink_state where
  "busy_sink = \<lparr>sk_buffer = [''a'', ''b''], sk_closed = False, sk_waiting = 0, sk_inFlight = None, sk_file = ''a''\<rparr>"

lemma busy_run: "sink_run (newJsonlObservationSink []) [Wrote ''a'', Flushed, Began, Wrote ''b'', Failed 1] busy_sink"
proof -
  let ?a = "\<lparr>sk_buffer = [''a''], sk_closed = False, sk_waiting = 0, sk_inFlight = None, sk_file = []\<rparr>"
  let ?b = "?a\<lparr>sk_inFlight := Some (1, ''a'' @ line_feed)\<rparr>"
  have "sink_step (newJsonlObservationSink []) (Wrote ''a'') ?a"
    by (rule sink_step.wrote) (simp add: sink_write_def newJsonlObservationSink_def)
  moreover have "sink_step ?a Flushed (sink_flush ?a)" by (rule sink_step.flushed)
  moreover have "sink_step (sink_flush ?a) Began ?b"
    using sink_step.begin_append [of "sink_flush ?a"] by (simp add: sink_flush_def append_begin_def lines_text_def)
  moreover have "sink_step ?b (Wrote ''b'') (?b\<lparr>sk_buffer := [''a'', ''b'']\<rparr>)"
    by (rule sink_step.wrote) (simp add: sink_write_def)
  moreover have "sink_step (?b\<lparr>sk_buffer := [''a'', ''b'']\<rparr>) (Failed 1) busy_sink"
    using sink_step.failed [of "?b\<lparr>sk_buffer := [''a'', ''b'']\<rparr>" 1 "''a'' @ line_feed" 1] by (simp add: append_failed_def busy_sink_def)
  ultimately show ?thesis by (meson sink_run.nil sink_run.cons)
qed

theorem sink_loses_nothing_witness:
  "\<exists>st'. sink_run busy_sink (settle busy_sink) st' \<and> sk_file st' = ''aa'' @ line_feed @ ''b'' @ line_feed"
  using sink_loses_nothing [OF busy_run] by (auto simp: busy_sink_def lines_text_def)

section \<open>The in-memory sink\<close>

definition memory_write :: "'o list \<Rightarrow> 'o \<Rightarrow> 'o list" where
  "memory_write observations observation = observations @ [observation]"

definition memory_count :: "'o list \<Rightarrow> int" where
  "memory_count observations = int (length observations)"

definition memory_last :: "'o list \<Rightarrow> 'o option" where
  "memory_last observations = (case rev observations of [] \<Rightarrow> None | x # _ \<Rightarrow> Some x)"

definition memory_clear :: "'o list \<Rightarrow> 'o list" where
  "memory_clear observations = []"

section \<open>Runtime sessions\<close>

record runtime_session =
  rs_runtimeSessionId :: string
  rs_startingSequence :: int
  rs_claimed :: int

definition newRuntimeSession :: "string \<Rightarrow> int \<Rightarrow> runtime_session" where
  "newRuntimeSession runtimeSessionId startingSequence =
     \<lparr>rs_runtimeSessionId = runtimeSessionId, rs_startingSequence = startingSequence, rs_claimed = 0\<rparr>"

definition currentSequence :: "runtime_session \<Rightarrow> int" where
  "currentSequence s = rs_startingSequence s + rs_claimed s - 1"

definition nextSequence :: "runtime_session \<Rightarrow> int \<times> runtime_session" where
  "nextSequence s = (let s' = s\<lparr>rs_claimed := rs_claimed s + 1\<rparr> in (currentSequence s', s'))"

definition sequenceTimeline :: "runtime_session \<Rightarrow> int list" where
  "sequenceTimeline s = map (\<lambda>index. rs_startingSequence s + int index) [0..<nat (rs_claimed s)]"

definition claimedCount :: "runtime_session \<Rightarrow> int" where
  "claimedCount s = rs_claimed s"

definition releaseSequences :: "runtime_session \<Rightarrow> int \<Rightarrow> runtime_session" where
  "releaseSequences s n = s\<lparr>rs_claimed := max 0 (rs_claimed s - n)\<rparr>"

text \<open>A claim is new and extends the timeline; releasing it gives the number back.\<close>

lemma nextSequence_timeline:
  assumes "0 \<le> rs_claimed s"
  shows "sequenceTimeline (snd (nextSequence s)) = sequenceTimeline s @ [fst (nextSequence s)]"
    and "fst (nextSequence s) \<notin> set (sequenceTimeline s)" and "releaseSequences (snd (nextSequence s)) 1 = s"
proof -
  have n: "nat (rs_claimed s + 1) = Suc (nat (rs_claimed s))" using assms by simp
  show "sequenceTimeline (snd (nextSequence s)) = sequenceTimeline s @ [fst (nextSequence s)]"
    using assms by (simp add: sequenceTimeline_def nextSequence_def currentSequence_def Let_def n)
  show "fst (nextSequence s) \<notin> set (sequenceTimeline s)"
    using assms by (auto simp: sequenceTimeline_def nextSequence_def currentSequence_def Let_def)
  show "releaseSequences (snd (nextSequence s)) 1 = s"
    using assms by (simp add: releaseSequences_def nextSequence_def Let_def)
qed

end
