(* ===== verification/Stable_Json.thy ===== *)
theory Stable_Json
  imports Runtime_Prelude
begin

text \<open>
  The canonical text of a JSON value, as \<open>stableStringify\<close> (worker runtime) and
  \<open>stableSerializeArguments\<close> (Pi integration) write it: \<open>JSON.stringify\<close> with the members of
  every object in the order of their keys. It is the ordinary text of the value with its keys
  sorted, so it determines the value up to the order of members.
\<close>

fun stable_text :: "json \<Rightarrow> string" where
  "stable_text (JArr js) = ''['' @ join '','' (map stable_text js) @ '']''"
| "stable_text (JObj kvs) =
     ''{'' @ join '','' (map snd (order_by (\<lambda>kt. code_unit_key (fst kt))
       (map (\<lambda>kv. (fst kv, quote (fst kv) @ '':'' @ stable_text (snd kv))) kvs))) @ ''}''"
| "stable_text v = stringify v"

fun sort_members :: "json \<Rightarrow> json" where
  "sort_members (JArr js) = JArr (map sort_members js)"
| "sort_members (JObj kvs) =
     JObj (order_by (\<lambda>kv. code_unit_key (fst kv)) (map (\<lambda>kv. (fst kv, sort_members (snd kv))) kvs))"
| "sort_members v = v"

lemma insort_key_map: "insort_key k (f x) (map f xs) = map f (insort_key (\<lambda>x. k (f x)) x xs)"
  by (induction xs) auto

lemma order_by_map: "order_by k (map f xs) = map f (order_by (\<lambda>x. k (f x)) xs)"
  by (induction xs) (simp_all add: order_by_def insort_key_map)

lemma stable_text_sorted: "stable_text j = stringify (sort_members j)"
proof (induction j rule: stable_text.induct)
  case (2 kvs)
  have "map snd (order_by (\<lambda>kt. code_unit_key (fst kt)) (map (\<lambda>kv. (fst kv, quote (fst kv) @ '':'' @ stable_text (snd kv))) kvs)) =
      map (\<lambda>kv. quote (fst kv) @ '':'' @ stringify (snd kv))
        (order_by (\<lambda>kv. code_unit_key (fst kv)) (map (\<lambda>kv. (fst kv, sort_members (snd kv))) kvs))"
    using 2 by (simp add: order_by_map)
  then show ?case by simp
qed (simp_all cong: map_cong)

lemma stable_text_eq: "stable_text j = stable_text k \<longleftrightarrow> sort_members j = sort_members k"
  by (simp add: stable_text_sorted stringify_inj)

lemma map_of_order_by: "distinct (map fst kvs) \<Longrightarrow> map_of (order_by k kvs) = map_of kvs"
proof -
  assume d: "distinct (map fst kvs)"
  have "mset (order_by k kvs) = mset kvs" by (simp add: order_by_def)
  then have "distinct (map fst (order_by k kvs))" "set (order_by k kvs) = set kvs"
    using d by (metis mset_map mset_eq_imp_distinct_iff, simp)
  with d show ?thesis by (metis map_of_inject_set)
qed

text \<open>The members of an object, by their keys.\<close>

lemma stable_members:
  assumes "sort_members (JObj kvs) = sort_members (JObj lvs)"
    and "distinct (map fst kvs)" and "distinct (map fst lvs)"
  shows "map_option sort_members (map_of kvs k) = map_option sort_members (map_of lvs k)"
proof -
  let ?s = "map (\<lambda>kv. (fst kv, sort_members (snd kv)))"
  have "map_of (?s kvs) = map_of (?s lvs)"
    using assms map_of_order_by [of "?s kvs" "\<lambda>kv. code_unit_key (fst kv)"]
      map_of_order_by [of "?s lvs" "\<lambda>kv. code_unit_key (fst kv)"]
    by (simp add: comp_def)
  moreover have "map_of (?s ms) k = map_option sort_members (map_of ms k)" for ms
    by (induction ms) auto
  ultimately show ?thesis by metis
qed

end
