(* ===== verification/Pi_Messages.thy ===== *)
theory Pi_Messages
  imports Observation Context_Universe Stable_Json
begin

text \<open>
  The messages of the Pi agent as the integration sees them
  (\<open>packages/pi-context-integration/src\<close>): their blocks, the canonical fingerprint of a message
  (\<open>pi-message-mapper.ts\<close>) and its decomposition into observed elements with an attribution each
  (\<open>element-decomposition.ts\<close>, \<open>attribution/attribution.ts\<close>, \<open>elements/observed-element.ts\<close>).

  A content entry is an unknown value of the agent: a JSON value here, whose numbers are
  integers. A field the sources declare as an optional string is read as absent when the
  entry holds something else there.
\<close>

section \<open>Blocks\<close>

datatype pi_content = Text string | Entries "json list"

record pi_message =
  pm_role :: string
  pm_content :: "pi_content option"
  pm_toolName :: "string option"
  pm_toolCallId :: "string option"
  pm_isError :: "bool option"
  pm_customType :: "string option"

fun json_field :: "string \<Rightarrow> json \<Rightarrow> json option" where
  "json_field k (JObj kvs) = map_of kvs k"
| "json_field k _ = None"

definition string_field :: "string \<Rightarrow> json \<Rightarrow> string option" where
  "string_field k v = (case json_field k v of Some (JStr s) \<Rightarrow> Some s | _ \<Rightarrow> None)"

definition isBlockView :: "json \<Rightarrow> bool" where
  "isBlockView v \<longleftrightarrow> string_field ''type'' v \<noteq> None"

definition block_type :: "json \<Rightarrow> string" where
  "block_type b = default_to (string_field ''type'' b) []"

definition text_block :: "string \<Rightarrow> json" where
  "text_block s = JObj [(''type'', JStr ''text''), (''text'', JStr s)]"

definition toBlocks :: "pi_content option \<Rightarrow> json list" where
  "toBlocks content =
     (case content of
        None \<Rightarrow> []
      | Some (Text s) \<Rightarrow> [text_block s]
      | Some (Entries es) \<Rightarrow> filter isBlockView es)"

section \<open>The fingerprint of a message\<close>

text \<open>\<open>undefined\<close> reads \<open>undefined\<close> in the text it is put into.\<close>

definition stableSerializeArguments :: "json option \<Rightarrow> string" where
  "stableSerializeArguments v = (case v of None \<Rightarrow> ''undefined'' | Some j \<Rightarrow> stable_text j)"

definition image_block :: "runtime \<Rightarrow> json \<Rightarrow> binary_block" where
  "image_block rt b =
     (let data = default_to (string_field ''data'' b) [] in
      \<lparr>bb_type = ''image'', bb_mimeType = string_field ''mimeType'' b, bb_byteLength = utf8ByteLength data,
       bb_contentHash = hashNormalizedMessage rt data\<rparr>)"

definition image_part :: "binary_block \<Rightarrow> string" where
  "image_part bb =
     ''image:'' @ default_to (bb_mimeType bb) [] @ '':'' @ int_digits (bb_byteLength bb) @ '':'' @ bb_contentHash bb"

text \<open>What one block adds to the parts and to the binary blocks of the message.\<close>

definition fingerprint_block :: "runtime \<Rightarrow> json \<Rightarrow> string list \<times> binary_block list" where
  "fingerprint_block rt b =
     (let type = block_type b in
      if type = ''text'' \<and> string_field ''text'' b \<noteq> None
      then ([default_to (string_field ''text'' b) []], [])
      else if type = ''thinking'' \<and> string_field ''thinking'' b \<noteq> None
      then ([''thinking:'' @ default_to (string_field ''thinking'' b) []], [])
      else if type = ''toolCall''
      then ([''toolCall:'' @ default_to (string_field ''name'' b) [] @ '':'' @ default_to (string_field ''id'' b) []
             @ '':'' @ stableSerializeArguments (json_field ''arguments'' b)], [])
      else if type = ''image''
      then ([image_part (image_block rt b)], [image_block rt b])
      else ([], []))"

definition tool_context_text :: "pi_message \<Rightarrow> string" where
  "tool_context_text message =
     ''toolContext:'' @ join '',''
       ((case pm_toolName message of None \<Rightarrow> [] | Some n \<Rightarrow> [''toolName:'' @ n])
        @ (case pm_toolCallId message of None \<Rightarrow> [] | Some i \<Rightarrow> [''toolCallId:'' @ i])
        @ (case pm_isError message of None \<Rightarrow> [] | Some e \<Rightarrow> [''isError:'' @ bool_str e]))"

definition newline :: string where
  "newline = [CHR 0x0A]"

text \<open>The tool context a caller passes repeats the fields of the message.\<close>

definition buildMessageFingerprint :: "runtime \<Rightarrow> pi_message \<Rightarrow> string \<times> binary_block list" where
  "buildMessageFingerprint rt message =
     (let contributions = map (fingerprint_block rt) (toBlocks (pm_content message));
          context = (if pm_toolName message \<noteq> None \<or> pm_toolCallId message \<noteq> None \<or> pm_isError message \<noteq> None
                     then [tool_context_text message] else [])
      in (join newline (concat (map fst contributions) @ context), concat (map snd contributions)))"

definition mapPiMessage :: "runtime \<Rightarrow> pi_message \<Rightarrow> normalized_message" where
  "mapPiMessage rt message =
     (let role = pm_role message;
          (fingerprintText, binaryBlocks) = buildMessageFingerprint rt message;
          blocks = (if binaryBlocks \<noteq> [] then Some binaryBlocks else None)
      in if role = ''user'' then
           \<lparr>nm_role = ''user'', nm_category = MC_USER, nm_contentType = ''text'', nm_fingerprintText = fingerprintText,
            nm_toolName = None, nm_toolCallId = None, nm_isError = None, nm_binaryBlocks = blocks\<rparr>
         else if role = ''assistant'' then
           \<lparr>nm_role = ''assistant'', nm_category = MC_ASSISTANT, nm_contentType = ''text'',
            nm_fingerprintText = fingerprintText, nm_toolName = None, nm_toolCallId = None, nm_isError = None,
            nm_binaryBlocks = blocks\<rparr>
         else if role = ''toolResult'' then
           \<lparr>nm_role = ''toolResult'', nm_category = MC_TOOL_RESULT, nm_contentType = ''toolResult'',
            nm_fingerprintText = fingerprintText, nm_toolName = pm_toolName message,
            nm_toolCallId = pm_toolCallId message, nm_isError = pm_isError message, nm_binaryBlocks = blocks\<rparr>
         else
           \<lparr>nm_role = role, nm_category = MC_OTHER, nm_contentType = default_to (pm_customType message) ''custom'',
            nm_fingerprintText = fingerprintText, nm_toolName = None, nm_toolCallId = None, nm_isError = None,
            nm_binaryBlocks = blocks\<rparr>)"

definition mapPiMessages :: "runtime \<Rightarrow> pi_message list \<Rightarrow> normalized_message list" where
  "mapPiMessages rt messages = map (mapPiMessage rt) messages"

section \<open>Attributions\<close>

record resource_hint =
  rh_sourceKey :: string
  rh_method :: string
  rh_evidenceRefs :: "string list"

record source_attribution =
  sa_confidence :: attribution_confidence
  sa_sourceKey :: "string option"
  sa_method :: "string option"
  sa_evidenceRefs :: "string list"
  sa_resourceHints :: "resource_hint list option"

definition EXACT_ATTRIBUTION :: "string list \<Rightarrow> string \<Rightarrow> string \<Rightarrow> source_attribution" where
  "EXACT_ATTRIBUTION evidence sourceKey method =
     \<lparr>sa_confidence = AC_EXACT, sa_sourceKey = Some sourceKey, sa_method = Some method, sa_evidenceRefs = evidence,
      sa_resourceHints = None\<rparr>"

definition DERIVED_HINT_ATTRIBUTION :: "string list \<Rightarrow> string \<Rightarrow> string \<Rightarrow> source_attribution" where
  "DERIVED_HINT_ATTRIBUTION evidence sourceKey method =
     \<lparr>sa_confidence = AC_DERIVED_HINT, sa_sourceKey = Some sourceKey, sa_method = Some method,
      sa_evidenceRefs = evidence, sa_resourceHints = None\<rparr>"

definition UNATTRIBUTED_ATTRIBUTION :: "string list \<Rightarrow> source_attribution" where
  "UNATTRIBUTED_ATTRIBUTION evidence =
     \<lparr>sa_confidence = AC_UNATTRIBUTED, sa_sourceKey = None, sa_method = Some ''NO_TRUSTWORTHY_IDENTITY'',
      sa_evidenceRefs = evidence, sa_resourceHints = None\<rparr>"

definition OPAQUE_ATTRIBUTION :: "string list \<Rightarrow> source_attribution" where
  "OPAQUE_ATTRIBUTION evidence =
     \<lparr>sa_confidence = AC_OPAQUE, sa_sourceKey = None, sa_method = Some ''ORIGIN_OPAQUE'', sa_evidenceRefs = evidence,
      sa_resourceHints = None\<rparr>"

section \<open>Decomposition\<close>

datatype element_kind =
  EK_USER_TEXT | EK_ASSISTANT_TEXT | EK_ASSISTANT_THINKING | EK_TOOL_CALL | EK_TOOL_RESULT | EK_IMAGE
| EK_OTHER_STRUCTURED | EK_OPAQUE_BLOCK

record observed_element =
  oe_observationRef :: string
  oe_runtimeSessionId :: string
  oe_modelCallSequence :: int
  oe_messagePosition :: int
  oe_blockPosition :: "int option"
  oe_role :: string
  oe_elementKind :: element_kind
  oe_semanticHash :: string
  oe_toolCallId :: "string option"
  oe_toolName :: "string option"

record decomposition_context =
  dx_runtimeSessionId :: string
  dx_modelCallSequence :: int
  dx_messagePosition :: int

definition semantic_part :: "runtime \<Rightarrow> json \<Rightarrow> string" where
  "semantic_part rt b =
     (let type = block_type b in
      if type = ''text'' \<and> string_field ''text'' b \<noteq> None then ''text:'' @ default_to (string_field ''text'' b) []
      else if type = ''thinking'' \<and> string_field ''thinking'' b \<noteq> None
      then ''thinking:'' @ default_to (string_field ''thinking'' b) []
      else if type = ''image'' then image_part (image_block rt b)
      else type @ '':'' @ stringify b)"

definition toolResultSemanticParts :: "runtime \<Rightarrow> pi_content option \<Rightarrow> bool \<Rightarrow> string list" where
  "toolResultSemanticParts rt content isError =
     map (semantic_part rt) (toBlocks content) @ [''isError:'' @ bool_str isError]"

definition PATH_ARGUMENT_FIELDS :: "string list" where
  "PATH_ARGUMENT_FIELDS = [''path'', ''filePath'']"

definition PATH_BEARING_TOOLS :: "string list" where
  "PATH_BEARING_TOOLS = [''read'', ''write'', ''edit'', ''grep'', ''find'', ''ls'']"

definition has_prefix :: "string \<Rightarrow> string \<Rightarrow> bool" where
  "has_prefix p s \<longleftrightarrow> take (length p) s = p"

fun contains :: "string \<Rightarrow> string \<Rightarrow> bool" where
  "contains p [] = (p = [])"
| "contains p (c # cs) = (has_prefix p (c # cs) \<or> contains p cs)"

fun path_hint_of :: "json \<Rightarrow> string list \<Rightarrow> string option" where
  "path_hint_of args [] = None"
| "path_hint_of args (field # rest) =
     (case string_field field args of
        None \<Rightarrow> path_hint_of args rest
      | Some value \<Rightarrow>
          (let normalized = (if has_prefix ''./'' value then drop 2 value else value) in
           if value \<noteq> [] \<and> \<not> contains ''..'' normalized \<and> \<not> has_prefix ''/'' normalized then Some normalized
           else path_hint_of args rest))"

definition extractPathHint :: "string \<Rightarrow> json option \<Rightarrow> string option" where
  "extractPathHint toolName args =
     (if toolName \<notin> set PATH_BEARING_TOOLS then None
      else case args of None \<Rightarrow> None | Some a \<Rightarrow> path_hint_of a PATH_ARGUMENT_FIELDS)"

definition TOOL_CALL_ID_EXACT :: string where
  "TOOL_CALL_ID_EXACT = ''PI_TOOL_CALL_ID_EXACT''"

definition TOOL_RESULT_ID_EXACT :: string where
  "TOOL_RESULT_ID_EXACT = ''PI_TOOL_RESULT_ID_EXACT''"

definition TOOL_ARGUMENT_PATH_HINT :: string where
  "TOOL_ARGUMENT_PATH_HINT = ''PI_TOOL_ARGUMENT_PATH_HINT''"

definition tool_call_key :: "string \<Rightarrow> string" where
  "tool_call_key i = ''run/tool-call://'' @ i"

definition tool_result_key :: "string \<Rightarrow> string" where
  "tool_result_key i = ''run/tool-result://'' @ i"

definition position_evidence :: "decomposition_context \<Rightarrow> string list" where
  "position_evidence ctx =
     [''modelCall='' @ int_digits (dx_modelCallSequence ctx), ''messageIndex='' @ int_digits (dx_messagePosition ctx)]"

definition element_of ::
  "decomposition_context \<Rightarrow> int option \<Rightarrow> string \<Rightarrow> element_kind \<Rightarrow> string \<Rightarrow> observed_element" where
  "element_of ctx block role kind hash =
     \<lparr>oe_observationRef = observationRef (dx_runtimeSessionId ctx) (dx_modelCallSequence ctx) (dx_messagePosition ctx) block,
      oe_runtimeSessionId = dx_runtimeSessionId ctx, oe_modelCallSequence = dx_modelCallSequence ctx,
      oe_messagePosition = dx_messagePosition ctx, oe_blockPosition = block, oe_role = role, oe_elementKind = kind,
      oe_semanticHash = hash, oe_toolCallId = None, oe_toolName = None\<rparr>"

definition decompose_tool_result ::
  "runtime \<Rightarrow> decomposition_context \<Rightarrow> pi_message \<Rightarrow> observed_element \<times> source_attribution" where
  "decompose_tool_result rt ctx message =
     (let parts = toolResultSemanticParts rt (pm_content message) (default_to (pm_isError message) False);
          toolName = default_to (pm_toolName message) []
      in case pm_toolCallId message of
           None \<Rightarrow>
             ((element_of ctx None (pm_role message) EK_TOOL_RESULT
                 (elementSemanticHash rt ([''toolResult'', toolName, ''no-call-id''] @ parts)))\<lparr>oe_toolName := pm_toolName message\<rparr>,
              OPAQUE_ATTRIBUTION (position_evidence ctx @ [''toolCallId=missing'']))
         | Some callId \<Rightarrow>
             ((element_of ctx None (pm_role message) EK_TOOL_RESULT
                 (elementSemanticHash rt ([''toolResult'', callId, toolName] @ parts)))
                 \<lparr>oe_toolCallId := Some callId, oe_toolName := pm_toolName message\<rparr>,
              EXACT_ATTRIBUTION (position_evidence ctx @ [''toolCallId='' @ callId]) (tool_result_key callId)
                TOOL_RESULT_ID_EXACT))"

definition decompose_tool_call ::
  "runtime \<Rightarrow> decomposition_context \<Rightarrow> string \<Rightarrow> int \<Rightarrow> string list \<Rightarrow> json \<Rightarrow> observed_element \<times> source_attribution" where
  "decompose_tool_call rt ctx role blockIndex evidence b =
     (let callId = default_to (string_field ''id'' b) [];
          name = default_to (string_field ''name'' b) [];
          args = json_field ''arguments'' b;
          element = (element_of ctx (Some blockIndex) role EK_TOOL_CALL
              (elementSemanticHash rt [''toolCall'', name, callId, stringify (default_to args JNull)]))
            \<lparr>oe_toolCallId := (if callId \<noteq> [] then Some callId else None),
             oe_toolName := (if name \<noteq> [] then Some name else None)\<rparr>;
          pathHint = extractPathHint name args;
          hintEvidence = evidence @ [''tool='' @ name, ''argumentField=path'']
      in if callId \<noteq> []
         then (element, (EXACT_ATTRIBUTION (evidence @ [''toolCallId='' @ callId, ''tool='' @ name])
                 (tool_call_key callId) TOOL_CALL_ID_EXACT)
               \<lparr>sa_resourceHints := map_option (\<lambda>p. [\<lparr>rh_sourceKey = ''repository/file://'' @ p,
                  rh_method = TOOL_ARGUMENT_PATH_HINT, rh_evidenceRefs = hintEvidence\<rparr>]) pathHint\<rparr>)
         else (case pathHint of
             Some p \<Rightarrow> (element, DERIVED_HINT_ATTRIBUTION hintEvidence (''repository/file://'' @ p) TOOL_ARGUMENT_PATH_HINT)
           | None \<Rightarrow> (element, UNATTRIBUTED_ATTRIBUTION (evidence @ [''elementKind=toolCall'']))))"

definition decompose_block ::
  "runtime \<Rightarrow> decomposition_context \<Rightarrow> string \<Rightarrow> nat \<times> json \<Rightarrow> observed_element \<times> source_attribution" where
  "decompose_block rt ctx role indexed =
     (let (index, b) = indexed; blockIndex = int index; type = block_type b;
          evidence = position_evidence ctx @ [''block='' @ int_digits blockIndex]
      in if type = ''text'' then
           (element_of ctx (Some blockIndex) role (if role = ''user'' then EK_USER_TEXT else EK_ASSISTANT_TEXT)
              (elementSemanticHash rt [role, ''text'', default_to (string_field ''text'' b) []]),
            UNATTRIBUTED_ATTRIBUTION (evidence @ [''elementKind=text'']))
         else if type = ''thinking'' then
           (element_of ctx (Some blockIndex) role EK_ASSISTANT_THINKING
              (elementSemanticHash rt [role, ''thinking'', default_to (string_field ''thinking'' b) []]),
            UNATTRIBUTED_ATTRIBUTION (evidence @ [''elementKind=thinking'']))
         else if type = ''toolCall'' then decompose_tool_call rt ctx role blockIndex evidence b
         else if type = ''image'' then
           (element_of ctx (Some blockIndex) role EK_IMAGE
              (elementSemanticHash rt [''image'', default_to (string_field ''mimeType'' b) [],
                 int_digits (estimateChars (default_to (string_field ''data'' b) []))]),
            OPAQUE_ATTRIBUTION (evidence @ [''elementKind=image'']))
         else
           (element_of ctx (Some blockIndex) role EK_OTHER_STRUCTURED (elementSemanticHash rt [role, type, stringify b]),
            OPAQUE_ATTRIBUTION (evidence @ [''elementKind='' @ type])))"

definition decomposePiMessage ::
  "runtime \<Rightarrow> pi_message \<Rightarrow> decomposition_context \<Rightarrow> (observed_element \<times> source_attribution) list" where
  "decomposePiMessage rt message ctx =
     (if pm_role message = ''toolResult'' then [decompose_tool_result rt ctx message]
      else let blocks = toBlocks (pm_content message) in
        if blocks = []
        then [(element_of ctx None (pm_role message) EK_OPAQUE_BLOCK
                 (elementSemanticHash rt [pm_role message, ''no-blocks'']),
               OPAQUE_ATTRIBUTION (position_evidence ctx @ [''elementKind=opaque-no-blocks'']))]
        else map (decompose_block rt ctx (pm_role message)) (List.enumerate 0 blocks))"

definition decomposePiMessages ::
  "runtime \<Rightarrow> pi_message list \<Rightarrow> string \<Rightarrow> int \<Rightarrow> (observed_element \<times> source_attribution) list" where
  "decomposePiMessages rt messages runtimeSessionId modelCallSequence =
     concat (map (\<lambda>(i, message). decomposePiMessage rt message
       \<lparr>dx_runtimeSessionId = runtimeSessionId, dx_modelCallSequence = modelCallSequence, dx_messagePosition = int i\<rparr>)
       (List.enumerate 0 messages))"

section \<open>The identities a message carries\<close>

definition exact_key :: "source_attribution \<Rightarrow> string option" where
  "exact_key a = (if sa_confidence a = AC_EXACT then sa_sourceKey a else None)"

text \<open>The call id of a block, where it has one.\<close>

definition call_id :: "json \<Rightarrow> string option" where
  "call_id b =
     (if block_type b = ''toolCall'' \<and> default_to (string_field ''id'' b) [] \<noteq> [] then string_field ''id'' b else None)"

lemma call_id_Some: "call_id b = Some i \<longleftrightarrow> block_type b = ''toolCall'' \<and> string_field ''id'' b = Some i \<and> i \<noteq> []"
  by (auto simp: call_id_def default_to_def)

lemma exact_key_simps [simp]:
  "exact_key (EXACT_ATTRIBUTION e k m) = Some k"
  "exact_key ((EXACT_ATTRIBUTION e k m)\<lparr>sa_resourceHints := h\<rparr>) = Some k"
  "exact_key (DERIVED_HINT_ATTRIBUTION e k m) = None"
  "exact_key (UNATTRIBUTED_ATTRIBUTION e) = None" "exact_key (OPAQUE_ATTRIBUTION e) = None"
  by (simp_all add: exact_key_def EXACT_ATTRIBUTION_def DERIVED_HINT_ATTRIBUTION_def UNATTRIBUTED_ATTRIBUTION_def
    OPAQUE_ATTRIBUTION_def)

lemma decompose_block_key:
  "exact_key (snd (decompose_block rt ctx role ib)) = map_option tool_call_key (call_id (snd ib))"
  by (cases ib) (auto simp: decompose_block_def decompose_tool_call_def Let_def call_id_def default_to_def
    split: option.splits)

text \<open>
  The only exact identities are the call ids of tool calls and, for a tool result, the id of
  the call it answers.
\<close>

lemma decompose_keys:
  "List.map_filter (exact_key \<circ> snd) (decomposePiMessage rt message ctx) =
     (if pm_role message = ''toolResult'' then (case pm_toolCallId message of None \<Rightarrow> [] | Some i \<Rightarrow> [tool_result_key i])
      else map tool_call_key (List.map_filter call_id (toBlocks (pm_content message))))"
proof (cases "pm_role message = ''toolResult''")
  case True
  then show ?thesis
    by (simp add: decomposePiMessage_def decompose_tool_result_def Let_def List.map_filter_def split: option.split)
next
  case False
  have "List.map_filter (exact_key \<circ> snd) (map (decompose_block rt ctx r) (List.enumerate n bs)) =
      map tool_call_key (List.map_filter call_id bs)" for r n bs
    by (induction bs arbitrary: n) (auto simp: List.map_filter_def decompose_block_key)
  with False show ?thesis
    by (auto simp: decomposePiMessage_def Let_def List.map_filter_def)
qed

lemma tool_keys_inj [simp]:
  "tool_call_key i = tool_call_key j \<longleftrightarrow> i = j" "tool_result_key i = tool_result_key j \<longleftrightarrow> i = j"
  "tool_call_key i \<noteq> tool_result_key j" "tool_result_key j \<noteq> tool_call_key i"
  by (simp_all add: tool_call_key_def tool_result_key_def)

end
