(* ===== verification/Active_Rewrite.thy ===== *)
theory Active_Rewrite
  imports Pi_Messages Policy_V0
begin

text \<open>
  The active rewrite of the native message list of a Pi run
  (\<open>packages/pi-context-integration/src/active\<close>): the capability profile, the kill switch of a
  run, the analysis of the native messages, the composer and the guard that validates a
  composition once more before it would be sent. The composer is offline and fails closed: what
  it does not accept becomes a fallback to the native messages with a reason.
\<close>

section \<open>Steps that may fall back\<close>

definition check_then :: "'e + 'a \<Rightarrow> ('a \<Rightarrow> 'e + 'b) \<Rightarrow> 'e + 'b" where
  "check_then m f = (case m of Inl e \<Rightarrow> Inl e | Inr x \<Rightarrow> f x)"

definition refuse_if :: "bool \<Rightarrow> 'e \<Rightarrow> 'e + unit" where
  "refuse_if b e = (if b then Inl e else Inr ())"

fun check_each :: "('s \<Rightarrow> 'a \<Rightarrow> 'e + 's) \<Rightarrow> 's \<Rightarrow> 'a list \<Rightarrow> 'e + 's" where
  "check_each f s [] = Inr s"
| "check_each f s (x # xs) = check_then (f s x) (\<lambda>t. check_each f t xs)"

section \<open>The kill switch of a run\<close>

record trip_record =
  kr_reason :: string
  kr_trippedAt :: string

record kill_switch =
  ks_runId :: string
  ks_record :: "trip_record option"

definition createRunKillSwitch :: "string \<Rightarrow> kill_switch outcome" where
  "createRunKillSwitch runId =
     try_then (fail_if (runId = []) ''createRunKillSwitch requires a non-empty runId'') (\<lambda>_.
     Inr \<lparr>ks_runId = runId, ks_record = None\<rparr>)"

definition isTripped :: "kill_switch \<Rightarrow> bool" where
  "isTripped ks \<longleftrightarrow> ks_record ks \<noteq> None"

text \<open>\<open>trip\<close>, with the time the injected clock gives; a later call changes nothing.\<close>

definition trip :: "string \<Rightarrow> string \<Rightarrow> kill_switch \<Rightarrow> kill_switch" where
  "trip time reason ks =
     (case ks_record ks of
        None \<Rightarrow> ks\<lparr>ks_record := Some \<lparr>kr_reason = reason, kr_trippedAt = time\<rparr>\<rparr>
      | Some _ \<Rightarrow> ks)"

definition trip_detail :: "kill_switch \<Rightarrow> string \<Rightarrow> string" where
  "trip_detail ks otherwise =
     (case ks_record ks of None \<Rightarrow> otherwise | Some r \<Rightarrow> kr_reason r @ '' @ '' @ kr_trippedAt r)"

section \<open>Fallbacks\<close>

datatype fallback_reason =
  NOT_OPTED_IN | HARNESS_UNSUPPORTED | UNSUPPORTED_MESSAGE_KIND | EMPTY_NATIVE_CONTEXT | KILL_SWITCH_TRIPPED
| KILL_SWITCH_TRIPPED_MID_COMPOSITION | SYSTEM_INSTRUCTION_ABSENT | SYSTEM_INSTRUCTION_ALTERED
| SYSTEM_INSTRUCTION_DUPLICATED | TRANSITION_INVARIANT_VIOLATED | BUDGET_INVARIANT_VIOLATED | UNEXPLAINED_MEMBERSHIP
| MESSAGE_MIXED_REMOVAL | EMPTY_REMAINDER_AFTER_BLOCK_REMOVAL | TOOL_PAIR_SPLIT | OPAQUE_CONTENT_DROPPED
| MANDATORY_ITEM_MISSING | BINDING_MISMATCH | RUN_ID_MISMATCH | COMPOSITION_TAMPERED

fun fallback_reason_str :: "fallback_reason \<Rightarrow> string" where
  "fallback_reason_str NOT_OPTED_IN = ''NOT_OPTED_IN''"
| "fallback_reason_str HARNESS_UNSUPPORTED = ''HARNESS_UNSUPPORTED''"
| "fallback_reason_str UNSUPPORTED_MESSAGE_KIND = ''UNSUPPORTED_MESSAGE_KIND''"
| "fallback_reason_str EMPTY_NATIVE_CONTEXT = ''EMPTY_NATIVE_CONTEXT''"
| "fallback_reason_str KILL_SWITCH_TRIPPED = ''KILL_SWITCH_TRIPPED''"
| "fallback_reason_str KILL_SWITCH_TRIPPED_MID_COMPOSITION = ''KILL_SWITCH_TRIPPED_MID_COMPOSITION''"
| "fallback_reason_str SYSTEM_INSTRUCTION_ABSENT = ''SYSTEM_INSTRUCTION_ABSENT''"
| "fallback_reason_str SYSTEM_INSTRUCTION_ALTERED = ''SYSTEM_INSTRUCTION_ALTERED''"
| "fallback_reason_str SYSTEM_INSTRUCTION_DUPLICATED = ''SYSTEM_INSTRUCTION_DUPLICATED''"
| "fallback_reason_str TRANSITION_INVARIANT_VIOLATED = ''TRANSITION_INVARIANT_VIOLATED''"
| "fallback_reason_str BUDGET_INVARIANT_VIOLATED = ''BUDGET_INVARIANT_VIOLATED''"
| "fallback_reason_str UNEXPLAINED_MEMBERSHIP = ''UNEXPLAINED_MEMBERSHIP''"
| "fallback_reason_str MESSAGE_MIXED_REMOVAL = ''MESSAGE_MIXED_REMOVAL''"
| "fallback_reason_str EMPTY_REMAINDER_AFTER_BLOCK_REMOVAL = ''EMPTY_REMAINDER_AFTER_BLOCK_REMOVAL''"
| "fallback_reason_str TOOL_PAIR_SPLIT = ''TOOL_PAIR_SPLIT''"
| "fallback_reason_str OPAQUE_CONTENT_DROPPED = ''OPAQUE_CONTENT_DROPPED''"
| "fallback_reason_str MANDATORY_ITEM_MISSING = ''MANDATORY_ITEM_MISSING''"
| "fallback_reason_str BINDING_MISMATCH = ''BINDING_MISMATCH''"
| "fallback_reason_str RUN_ID_MISMATCH = ''RUN_ID_MISMATCH''"
| "fallback_reason_str COMPOSITION_TAMPERED = ''COMPOSITION_TAMPERED''"

record fallback =
  fb_reason :: fallback_reason
  fb_detail :: "string option"

definition fallback_for :: "fallback_reason \<Rightarrow> string \<Rightarrow> fallback" where
  "fallback_for reason detail = \<lparr>fb_reason = reason, fb_detail = Some detail\<rparr>"

definition quoted :: "string \<Rightarrow> string" where
  "quoted s = [CHR 0x27] @ s @ [CHR 0x27]"

section \<open>The capability profile\<close>

definition PI_ACTIVE_HARNESS :: string where
  "PI_ACTIVE_HARNESS = ''PI''"

definition PI_ACTIVE_SUPPORTED_ROLES :: "string list" where
  "PI_ACTIVE_SUPPORTED_ROLES = [''user'', ''assistant'', ''toolResult'', ''custom'']"

definition roleCategory :: "string \<Rightarrow> message_category" where
  "roleCategory role =
     (if role = ''user'' then MC_USER else if role = ''assistant'' then MC_ASSISTANT
      else if role = ''toolResult'' then MC_TOOL_RESULT else MC_OTHER)"

definition check_role :: "unit \<Rightarrow> nat \<times> pi_message \<Rightarrow> fallback + unit" where
  "check_role u indexed =
     (let (index, message) = indexed; role = pm_role message in
      check_then (refuse_if (role = ''system'') (fallback_for UNSUPPORTED_MESSAGE_KIND
        (''message at index '' @ int_digits (int index)
         @ '' has role 'system'; the Pi system instruction travels out-of-band and must not appear in the AgentMessage list (duplicate system carrier)''))) (\<lambda>_.
      refuse_if (role \<notin> set PI_ACTIVE_SUPPORTED_ROLES) (fallback_for UNSUPPORTED_MESSAGE_KIND
        (''message at index '' @ int_digits (int index) @ '' has unsupported role '' @ quoted role))))"

definition checkCapability :: "string \<Rightarrow> pi_message list \<Rightarrow> fallback + unit" where
  "checkCapability harness messages =
     check_then (refuse_if (harness \<noteq> PI_ACTIVE_HARNESS) (fallback_for HARNESS_UNSUPPORTED
       (''active rewrite supports harness 'PI' only, received '' @ quoted harness))) (\<lambda>_.
     check_each check_role () (List.enumerate 0 messages))"

section \<open>Analysis of the native messages\<close>

record analyzed_message =
  am_index :: nat
  am_role :: string
  am_category :: message_category
  am_sourceKeys :: "string list"
  am_toolCallIds :: "string list"
  am_resultToolCallId :: "string option"
  am_opaqueBlockCount :: nat
  am_unattributedBlockCount :: nat
  am_droppable :: bool

record native_tool_pair =
  np_toolCallId :: string
  np_callMessageIndex :: "nat option"
  np_resultMessageIndex :: "nat option"

record analyzed_conversation =
  ac_messages :: "analyzed_message list"
  ac_toolPairs :: "native_tool_pair list"
  ac_opaqueBlockCount :: nat

definition opaque_block :: "string \<Rightarrow> json \<Rightarrow> bool" where
  "opaque_block role b \<longleftrightarrow>
     (if role = ''assistant'' then block_type b \<noteq> ''toolCall'' \<and> block_type b \<noteq> ''text''
      else if role = ''toolResult'' \<or> role = ''user'' then block_type b \<noteq> ''text''
      else True)"

definition unattributed_block :: "string \<Rightarrow> json \<Rightarrow> bool" where
  "unattributed_block role b \<longleftrightarrow>
     (if role = ''assistant''
      then (block_type b = ''toolCall'' \<and> default_to (string_field ''id'' b) [] = []) \<or> block_type b = ''text''
      else role = ''user'' \<and> block_type b = ''text'')"

definition analyzeMessage :: "runtime \<Rightarrow> string \<Rightarrow> int \<Rightarrow> nat \<times> pi_message \<Rightarrow> analyzed_message" where
  "analyzeMessage rt runtimeSessionId modelCallSequence indexed =
     (let (index, message) = indexed; role = pm_role message;
          elements = decomposePiMessage rt message
            \<lparr>dx_runtimeSessionId = runtimeSessionId, dx_modelCallSequence = modelCallSequence,
             dx_messagePosition = int index\<rparr>;
          sourceKeys = new_Set (List.map_filter (exact_key \<circ> snd) elements);
          blocks = toBlocks (pm_content message);
          toolCallIds = (if role = ''assistant'' then List.map_filter call_id blocks else []);
          opaqueBlockCount = length (filter (opaque_block role) blocks)
            + (if blocks = [] \<and> role \<noteq> ''toolResult'' then 1 else 0);
          unattributedBlockCount = length (filter (unattributed_block role) blocks)
      in \<lparr>am_index = index, am_role = role, am_category = roleCategory role, am_sourceKeys = sourceKeys,
          am_toolCallIds = toolCallIds,
          am_resultToolCallId = (if role = ''toolResult'' then pm_toolCallId message else None),
          am_opaqueBlockCount = opaqueBlockCount, am_unattributedBlockCount = unattributedBlockCount,
          am_droppable = (sourceKeys \<noteq> [] \<and> opaqueBlockCount = 0 \<and> unattributedBlockCount = 0
            \<and> ((role = ''assistant'' \<and> length toolCallIds = length blocks) \<or> role = ''toolResult''))\<rparr>)"

text \<open>\<open>if (!m.has(k)) m.set(k, v)\<close>\<close>

definition set_first :: "('k \<times> 'v) list \<Rightarrow> 'k \<times> 'v \<Rightarrow> ('k \<times> 'v) list" where
  "set_first m kv = (if map_of m (fst kv) = None then m @ [kv] else m)"

definition calls_by_id :: "analyzed_message list \<Rightarrow> (string \<times> nat) list" where
  "calls_by_id analyzed =
     foldl set_first [] (concat (map (\<lambda>m. map (\<lambda>i. (i, am_index m)) (am_toolCallIds m)) analyzed))"

definition results_by_id :: "analyzed_message list \<Rightarrow> (string \<times> nat) list" where
  "results_by_id analyzed =
     foldl set_first [] (List.map_filter (\<lambda>m. map_option (\<lambda>i. (i, am_index m)) (am_resultToolCallId m)) analyzed)"

definition analyzeNativeMessages :: "runtime \<Rightarrow> pi_message list \<Rightarrow> string \<Rightarrow> int \<Rightarrow> analyzed_conversation" where
  "analyzeNativeMessages rt messages runtimeSessionId modelCallSequence =
     (let analyzed = map (analyzeMessage rt runtimeSessionId modelCallSequence) (List.enumerate 0 messages);
          callsById = calls_by_id analyzed;
          resultsById = results_by_id analyzed;
          ids = sort_strings (new_Set (map fst callsById @ map fst resultsById))
      in \<lparr>ac_messages = analyzed,
          ac_toolPairs = map (\<lambda>i. \<lparr>np_toolCallId = i, np_callMessageIndex = map_of callsById i,
            np_resultMessageIndex = map_of resultsById i\<rparr>) ids,
          ac_opaqueBlockCount = foldl (\<lambda>sum m. sum + am_opaqueBlockCount m) 0 analyzed\<rparr>)"

section \<open>Compositions\<close>

record rewrite_binding =
  bi_workingSetLogicalHash :: string
  bi_transitionLogicalHash :: string
  bi_runId :: string

record rewrite_continuity =
  cy_optIn :: bool
  cy_harnessSupported :: bool
  cy_killSwitchArmed :: bool
  cy_transitionInvariantsConsistent :: bool
  cy_membershipExplained :: bool
  cy_toolPairsIntact :: bool
  cy_toolPairCount :: nat
  cy_systemInstructionPresent :: bool
  cy_systemInstructionByteIdentical :: bool
  cy_opaqueItemsPreservedVerbatim :: bool
  cy_opaqueBlockCount :: nat
  cy_mandatoryPinnedReasserted :: bool
  cy_removedSourceCount :: nat
  cy_toolBlocksRemoved :: nat

record planned_from =
  pf_workingSet :: working_set
  pf_transition :: context_transition
  pf_harness :: string
  pf_optIn :: bool

record rewrite_ready =
  rw_systemInstruction :: string
  rw_messages :: "pi_message list"
  rw_binding :: rewrite_binding
  rw_continuity :: rewrite_continuity
  rw_removedSourceKeys :: "string list"
  rw_systemInstructionHash :: string
  rw_messagesHash :: string
  rw_compositionHash :: string
  rw_plannedFrom :: planned_from

datatype composition = FALLBACK_NATIVE fallback | REWRITE_READY rewrite_ready

text \<open>The switch is an object of the caller; the hook may trip it during the composition.\<close>

record compose_input =
  ci_messages :: "pi_message list"
  ci_workingSet :: working_set
  ci_transition :: context_transition
  ci_runId :: string
  ci_killSwitch :: kill_switch
  ci_activeModeOptIn :: bool
  ci_harness :: "string option"
  ci_systemInstruction :: "string option"
  ci_beforeFinalValidation :: "kill_switch \<Rightarrow> kill_switch"

definition activeMessageFingerprint :: "runtime \<Rightarrow> pi_message \<Rightarrow> string" where
  "activeMessageFingerprint rt message =
     (let (fingerprintText, binaryBlocks) = buildMessageFingerprint rt message in
      fingerprintText @ ''|'' @ join '',''
        (map (\<lambda>b. bb_type b @ '':'' @ int_digits (bb_byteLength b) @ '':'' @ bb_contentHash b) binaryBlocks))"

definition activeSystemInstructionHash :: "runtime \<Rightarrow> string \<Rightarrow> string" where
  "activeSystemInstructionHash rt systemInstruction = rt_sha256Hex rt (''active-system-v1|'' @ systemInstruction)"

definition activeMessagesHash :: "runtime \<Rightarrow> pi_message list \<Rightarrow> string" where
  "activeMessagesHash rt messages =
     rt_sha256Hex rt (join unit_separator (''active-messages-v1'' # map (activeMessageFingerprint rt) messages))"

definition activeCompositionHash :: "runtime \<Rightarrow> string \<Rightarrow> string \<Rightarrow> string" where
  "activeCompositionHash rt systemInstructionHash messagesHash =
     rt_sha256Hex rt (''active-composition-v1|'' @ systemInstructionHash @ ''|'' @ messagesHash)"

definition item_keys :: "working_set \<Rightarrow> string list" where
  "item_keys ws = concat (map wi_sourceKeys (ws_items ws))"

definition check_decision :: "string list \<Rightarrow> string list \<Rightarrow> decision \<Rightarrow> fallback_reason + string list" where
  "check_decision itemKeys decisionKeys d =
     (if dc_sourceKey d \<in> set decisionKeys then Inl TRANSITION_INVARIANT_VIOLATED
      else if dc_kind d = DK_REMOVE \<and> dc_sourceKey d \<in> set itemKeys then Inl TRANSITION_INVARIANT_VIOLATED
      else if dc_kind d \<noteq> DK_REMOVE \<and> dc_sourceKey d \<notin> set itemKeys then Inl TRANSITION_INVARIANT_VIOLATED
      else Inr (dc_sourceKey d # decisionKeys))"

definition checkTransitionInvariants :: "working_set \<Rightarrow> context_transition \<Rightarrow> fallback_reason option" where
  "checkTransitionInvariants ws transition =
     (if ct_toWorkingSetId transition \<noteq> ws_workingSetId ws then Some TRANSITION_INVARIANT_VIOLATED
      else if ct_fromWorkingSetId transition \<noteq> ws_previousWorkingSetId ws then Some TRANSITION_INVARIANT_VIOLATED
      else if ct_runtimeSessionId transition \<noteq> ws_runtimeSessionId ws then Some TRANSITION_INVARIANT_VIOLATED
      else if ct_toTokenEstimate transition \<noteq> ws_totalTokenEstimate ws then Some TRANSITION_INVARIANT_VIOLATED
      else if num_less (ws_maxSemanticTokens ws) (Finite (ws_totalTokenEstimate ws)) then Some BUDGET_INVARIANT_VIOLATED
      else case check_each (check_decision (item_keys ws)) [] (ct_orderedDecisions transition) of
          Inl reason \<Rightarrow> Some reason
        | Inr _ \<Rightarrow> None)"

definition removed_keys :: "context_transition \<Rightarrow> string list" where
  "removed_keys transition =
     new_Set (map dc_sourceKey (filter (\<lambda>d. dc_kind d = DK_REMOVE) (ct_orderedDecisions transition)))"

section \<open>What is removed from a message\<close>

datatype removal_plan =
  PlanBlocks "string list" "nat list"
| PlanWhole
| PlanRefuse fallback

text \<open>The id of a tool-call entry whose source was removed.\<close>

definition removed_call :: "string list \<Rightarrow> json \<Rightarrow> string option" where
  "removed_call removed entry =
     (case call_id entry of
        None \<Rightarrow> None
      | Some i \<Rightarrow> if tool_call_key i \<in> set removed then Some i else None)"

text \<open>An entry that keeps the message alive: not removed, and not an empty text.\<close>

definition meaningful_entry :: "string list \<Rightarrow> json \<Rightarrow> bool" where
  "meaningful_entry removed entry \<longleftrightarrow>
     removed_call removed entry = None
     \<and> (block_type entry = ''text'' \<longrightarrow> default_to (string_field ''text'' entry) [] \<noteq> [])"

definition removed_indexes :: "string list \<Rightarrow> json list \<Rightarrow> nat list" where
  "removed_indexes removed content =
     map fst (filter (\<lambda>(i, entry). removed_call removed entry \<noteq> None) (List.enumerate 0 content))"

definition planAssistantRemoval :: "string list \<Rightarrow> analyzed_message \<Rightarrow> pi_message \<Rightarrow> removal_plan option" where
  "planAssistantRemoval removed message original =
     (if am_role message \<noteq> ''assistant'' then None
      else case find (\<lambda>key. key \<in> set removed \<and> \<not> has_prefix ''run/tool-call://'' key) (am_sourceKeys message) of
        Some key \<Rightarrow> Some (PlanRefuse (fallback_for MESSAGE_MIXED_REMOVAL
          (''message '' @ int_digits (int (am_index message)) @ '' carries REMOVEd source '' @ quoted key
           @ '' that is not a tool-call identity'')))
      | None \<Rightarrow>
          (case pm_content original of
             Some (Entries content) \<Rightarrow>
               (let ids = List.map_filter (removed_call removed) content;
                    indexes = removed_indexes removed content;
                    textBlockPresent = list_ex (\<lambda>entry. block_type entry = ''text'') content;
                    meaningfulRemainder = list_ex (meaningful_entry removed) content
                in if indexes = [] then None
                   else if meaningfulRemainder then Some (PlanBlocks ids indexes)
                   else if \<not> textBlockPresent \<and> am_opaqueBlockCount message = 0 then Some PlanWhole
                   else Some (PlanRefuse (fallback_for EMPTY_REMAINDER_AFTER_BLOCK_REMOVAL
                     (''dropping toolCall block(s) '' @ join '', '' ids @ '' would leave message ''
                      @ int_digits (int (am_index message)) @ '' with no meaningful content''
                      @ (if textBlockPresent then '' (text block present but empty)'' else [])))))
           | _ \<Rightarrow> None))"

record removal_state =
  rs_dropped :: "nat list"
  rs_blockRemovals :: "(nat \<times> string list \<times> nat list) list"
  rs_toolBlocksRemoved :: nat

definition unexplained_source :: "string list \<Rightarrow> string list \<Rightarrow> analyzed_message \<Rightarrow> string option" where
  "unexplained_source retained removed message =
     find (\<lambda>key. key \<notin> set removed \<and> key \<notin> set retained) (am_sourceKeys message)"

text \<open>A message that is dropped as a whole.\<close>

definition drop_whole ::
  "string list \<Rightarrow> string list \<Rightarrow> removal_state \<Rightarrow> analyzed_message \<Rightarrow> fallback + removal_state" where
  "drop_whole retained removed st message =
     (let removedSources = filter (\<lambda>key. key \<in> set removed) (am_sourceKeys message);
          retainedSource = list_ex (\<lambda>key. key \<notin> set removed \<and> key \<in> set retained) (am_sourceKeys message);
          n = int_digits (int (am_index message))
      in check_then (refuse_if retainedSource (fallback_for MESSAGE_MIXED_REMOVAL
           (''message '' @ n @ '' mixes REMOVEd sources ('' @ join '', '' removedSources @ '') with retained sources''))) (\<lambda>_.
         check_then (refuse_if (am_opaqueBlockCount message > 0) (fallback_for OPAQUE_CONTENT_DROPPED
           (''message '' @ n @ '' carries opaque/reasoning blocks and may not be dropped''))) (\<lambda>_.
         check_then (refuse_if (\<not> am_droppable message) (fallback_for MESSAGE_MIXED_REMOVAL
           (''message '' @ n @ '' mixes REMOVEd sources ('' @ join '', '' removedSources @ '') with unattributed content''))) (\<lambda>_.
         Inr (st\<lparr>rs_dropped := rs_dropped st @ [am_index message]\<rparr>)))))"

definition plan_message ::
  "pi_message list \<Rightarrow> string list \<Rightarrow> string list \<Rightarrow> removal_state \<Rightarrow> analyzed_message \<Rightarrow> fallback + removal_state" where
  "plan_message native retained removed st message =
     (case unexplained_source retained removed message of
        Some key \<Rightarrow> Inl (fallback_for UNEXPLAINED_MEMBERSHIP
          (''message '' @ int_digits (int (am_index message)) @ '' maps to source '' @ quoted key
           @ '' that is neither retained nor REMOVEd''))
      | None \<Rightarrow>
          if \<not> list_ex (\<lambda>key. key \<in> set removed) (am_sourceKeys message) then Inr st
          else (case planAssistantRemoval removed message (native ! am_index message) of
              Some (PlanRefuse f) \<Rightarrow> Inl f
            | Some (PlanBlocks ids indexes) \<Rightarrow>
                Inr (st\<lparr>rs_blockRemovals := AList.update (am_index message) (ids, indexes) (rs_blockRemovals st),
                        rs_toolBlocksRemoved := rs_toolBlocksRemoved st + length ids\<rparr>)
            | _ \<Rightarrow> drop_whole retained removed st message))"

section \<open>Continuity\<close>

definition callDropped :: "removal_state \<Rightarrow> string \<Rightarrow> nat \<Rightarrow> bool" where
  "callDropped st toolCallId index \<longleftrightarrow>
     index \<in> set (rs_dropped st)
     \<or> (case map_of (rs_blockRemovals st) index of None \<Rightarrow> False | Some (ids, _) \<Rightarrow> toolCallId \<in> set ids)"

definition fate_str :: "bool \<Rightarrow> string" where
  "fate_str droppedFate = (if droppedFate then ''dropped'' else ''kept'')"

definition check_pair :: "removal_state \<Rightarrow> unit \<Rightarrow> native_tool_pair \<Rightarrow> fallback + unit" where
  "check_pair st u pair =
     (case (np_callMessageIndex pair, np_resultMessageIndex pair) of
        (Some c, Some r) \<Rightarrow>
          (let callFate = callDropped st (np_toolCallId pair) c; resultFate = (r \<in> set (rs_dropped st)) in
           refuse_if (callFate \<noteq> resultFate) (fallback_for TOOL_PAIR_SPLIT
             (''tool pair '' @ quoted (np_toolCallId pair) @ '' would be split (call '' @ fate_str callFate
              @ '', result '' @ fate_str resultFate @ '')'')))
      | _ \<Rightarrow> Inr ())"

definition kept_keys :: "removal_state \<Rightarrow> string list \<Rightarrow> analyzed_message list \<Rightarrow> string list" where
  "kept_keys st removed messages =
     concat (map (\<lambda>m. filter (\<lambda>key. key \<notin> set removed) (am_sourceKeys m))
       (filter (\<lambda>m. am_index m \<notin> set (rs_dropped st)) messages))"

definition check_mandatory :: "string list \<Rightarrow> unit \<Rightarrow> working_item \<Rightarrow> fallback + unit" where
  "check_mandatory kept u item =
     (if wi_protection item \<noteq> PR_MANDATORY \<and> wi_protection item \<noteq> PR_PINNED then Inr ()
      else case find (\<lambda>key. key \<notin> set kept) (wi_sourceKeys item) of
          None \<Rightarrow> Inr ()
        | Some key \<Rightarrow> Inl (fallback_for MANDATORY_ITEM_MISSING
            (''working set claims '' @ protection_str (wi_protection item) @ '' for '' @ quoted key
             @ '' but no composed message carries it'')))"

section \<open>The composer\<close>

definition compose_message :: "removal_state \<Rightarrow> nat \<times> pi_message \<Rightarrow> pi_message option" where
  "compose_message st indexed =
     (let (index, original) = indexed in
      if index \<in> set (rs_dropped st) then None
      else case (map_of (rs_blockRemovals st) index, pm_content original) of
          (Some (ids, indexes), Some (Entries content)) \<Rightarrow>
            Some (original\<lparr>pm_content := Some (Entries
              (map snd (filter (\<lambda>(blockIndex, _). blockIndex \<notin> set indexes) (List.enumerate 0 content))))\<rparr>)
        | _ \<Rightarrow> Some original)"

text \<open>The plan of a composition: everything that is decided before the final look at the switch.\<close>

definition plan_rewrite :: "runtime \<Rightarrow> compose_input \<Rightarrow> fallback + analyzed_conversation \<times> removal_state" where
  "plan_rewrite rt inp =
     check_then (refuse_if (\<not> ci_activeModeOptIn inp) (fallback_for NOT_OPTED_IN
       ''active mode requires an explicit per-Run experimental opt-in'')) (\<lambda>_.
     check_then (refuse_if (isTripped (ci_killSwitch inp)) (fallback_for KILL_SWITCH_TRIPPED
       (trip_detail (ci_killSwitch inp) ''run kill switch is tripped''))) (\<lambda>_.
     check_then (checkCapability (default_to (ci_harness inp) PI_ACTIVE_HARNESS) (ci_messages inp)) (\<lambda>_.
     check_then (refuse_if (ci_messages inp = []) (fallback_for EMPTY_NATIVE_CONTEXT
       ''nothing to compose: the native message list is empty'')) (\<lambda>_.
     check_then (refuse_if (default_to (ci_systemInstruction inp) [] = []) (fallback_for SYSTEM_INSTRUCTION_ABSENT
       ''the system instruction must be present'')) (\<lambda>_.
     check_then (case checkTransitionInvariants (ci_workingSet inp) (ci_transition inp) of
         Some reason \<Rightarrow> Inl (fallback_for reason ''working set / transition invariants are inconsistent'')
       | None \<Rightarrow> Inr ()) (\<lambda>_.
     (let retained = item_keys (ci_workingSet inp);
          removed = removed_keys (ci_transition inp);
          analysis = analyzeNativeMessages rt (ci_messages inp) (ci_runId inp) (ws_sequence (ci_workingSet inp))
      in check_then (check_each (plan_message (ci_messages inp) retained removed)
           \<lparr>rs_dropped = [], rs_blockRemovals = [], rs_toolBlocksRemoved = 0\<rparr> (ac_messages analysis)) (\<lambda>st.
         check_then (check_each (check_pair st) () (ac_toolPairs analysis)) (\<lambda>_.
         check_then (check_each (check_mandatory (kept_keys st removed (ac_messages analysis))) ()
           (ws_items (ci_workingSet inp))) (\<lambda>_.
         Inr (analysis, st)))))))))))"

definition rewrite_of :: "runtime \<Rightarrow> compose_input \<Rightarrow> analyzed_conversation \<Rightarrow> removal_state \<Rightarrow> rewrite_ready" where
  "rewrite_of rt inp analysis st =
     (let systemInstruction = default_to (ci_systemInstruction inp) [];
          composed = List.map_filter (compose_message st) (List.enumerate 0 (ci_messages inp));
          systemInstructionHash = activeSystemInstructionHash rt systemInstruction;
          messagesHash = activeMessagesHash rt composed;
          removed = removed_keys (ci_transition inp)
      in \<lparr>rw_systemInstruction = systemInstruction, rw_messages = composed,
          rw_binding = \<lparr>bi_workingSetLogicalHash = ws_logicalHash (ci_workingSet inp),
            bi_transitionLogicalHash = ct_logicalHash (ci_transition inp), bi_runId = ci_runId inp\<rparr>,
          rw_continuity = \<lparr>cy_optIn = True, cy_harnessSupported = True, cy_killSwitchArmed = True,
            cy_transitionInvariantsConsistent = True, cy_membershipExplained = True, cy_toolPairsIntact = True,
            cy_toolPairCount = length (ac_toolPairs analysis), cy_systemInstructionPresent = True,
            cy_systemInstructionByteIdentical = True, cy_opaqueItemsPreservedVerbatim = True,
            cy_opaqueBlockCount = ac_opaqueBlockCount analysis, cy_mandatoryPinnedReasserted = True,
            cy_removedSourceCount = length removed, cy_toolBlocksRemoved = rs_toolBlocksRemoved st\<rparr>,
          rw_removedSourceKeys = sort_strings removed,
          rw_systemInstructionHash = systemInstructionHash, rw_messagesHash = messagesHash,
          rw_compositionHash = activeCompositionHash rt systemInstructionHash messagesHash,
          rw_plannedFrom = \<lparr>pf_workingSet = ci_workingSet inp, pf_transition = ci_transition inp,
            pf_harness = default_to (ci_harness inp) PI_ACTIVE_HARNESS, pf_optIn = True\<rparr>\<rparr>)"

definition composeActiveRewrite :: "runtime \<Rightarrow> compose_input \<Rightarrow> composition \<times> kill_switch" where
  "composeActiveRewrite rt inp =
     (case plan_rewrite rt inp of
        Inl f \<Rightarrow> (FALLBACK_NATIVE f, ci_killSwitch inp)
      | Inr (analysis, st) \<Rightarrow>
          (let ks = ci_beforeFinalValidation inp (ci_killSwitch inp) in
           if isTripped ks
           then (FALLBACK_NATIVE (fallback_for KILL_SWITCH_TRIPPED_MID_COMPOSITION
                   (trip_detail ks ''run kill switch tripped during composition'')), ks)
           else (REWRITE_READY (rewrite_of rt inp analysis st), ks)))"

section \<open>The guard before sending\<close>

datatype guard_result = GuardOk | GuardFallback fallback

definition guard_fail :: "string \<Rightarrow> kill_switch \<Rightarrow> fallback_reason \<Rightarrow> string option \<Rightarrow> guard_result \<times> kill_switch" where
  "guard_fail time ks reason detail =
     (GuardFallback \<lparr>fb_reason = reason, fb_detail = detail\<rparr>,
      trip time (''pre-send guard: '' @ fallback_reason_str reason) ks)"

definition rederiveWorkingSetHash :: "runtime \<Rightarrow> rewrite_ready \<Rightarrow> string" where
  "rederiveWorkingSetHash rt c =
     (let ws = pf_workingSet (rw_plannedFrom c) in
      computeWorkingSetLogicalHash rt (ws_runtimeSessionId ws) (ws_sequence ws) (ws_plannedFromUniverseSequence ws)
        (ws_plannedFromUniverseHash ws) (ws_previousWorkingSetId ws) (ws_policyVersion ws) (ws_planningRequestHash ws)
        (ws_items ws))"

definition rederiveTransitionHash :: "runtime \<Rightarrow> rewrite_ready \<Rightarrow> string" where
  "rederiveTransitionHash rt c =
     (let t = pf_transition (rw_plannedFrom c) in
      computeTransitionLogicalHash rt (ct_runtimeSessionId t) (ct_sequence t) (ct_fromWorkingSetId t)
        (ct_toWorkingSetId t) (ct_orderedDecisions t) (ct_fromTokenEstimate t) (ct_toTokenEstimate t)
        (ct_policyVersion t))"

definition content_entries :: "pi_message \<Rightarrow> json list" where
  "content_entries message = (case pm_content message of Some (Entries es) \<Rightarrow> es | _ \<Rightarrow> [])"

definition entry_calls :: "pi_message \<Rightarrow> string list" where
  "entry_calls message =
     List.map_filter (\<lambda>entry. if block_type entry = ''toolCall'' then string_field ''id'' entry else None)
       (content_entries message)"

definition answered_call :: "pi_message \<Rightarrow> string option" where
  "answered_call message = (if pm_role message = ''toolResult'' then pm_toolCallId message else None)"

definition composed_calls :: "pi_message list \<Rightarrow> string list" where
  "composed_calls messages = concat (map entry_calls messages)"

definition composed_results :: "pi_message list \<Rightarrow> string list" where
  "composed_results messages = List.map_filter answered_call messages"

definition composedToolPairsIntact :: "rewrite_ready \<Rightarrow> bool" where
  "composedToolPairsIntact c \<longleftrightarrow>
     list_all (\<lambda>i. i \<in> set (composed_results (rw_messages c))) (composed_calls (rw_messages c))
     \<and> list_all (\<lambda>i. i \<in> set (composed_calls (rw_messages c))) (composed_results (rw_messages c))"

definition assertRewriteSafe :: "runtime \<Rightarrow> string \<Rightarrow> composition \<Rightarrow> kill_switch \<Rightarrow> guard_result \<times> kill_switch" where
  "assertRewriteSafe rt time composition ks =
     (case composition of
        FALLBACK_NATIVE f \<Rightarrow> guard_fail time ks (fb_reason f) None
      | REWRITE_READY c \<Rightarrow>
          let wsHash = rederiveWorkingSetHash rt c; transitionHash = rederiveTransitionHash rt c in
          if isTripped ks
          then (GuardFallback (fallback_for KILL_SWITCH_TRIPPED (trip_detail ks ''run kill switch is tripped'')), ks)
          else if \<not> pf_optIn (rw_plannedFrom c)
          then guard_fail time ks NOT_OPTED_IN (Some ''composition does not record an active-mode opt-in'')
          else if bi_runId (rw_binding c) \<noteq> ks_runId ks
          then guard_fail time ks RUN_ID_MISMATCH (Some (''composition run '' @ quoted (bi_runId (rw_binding c))
            @ '' does not match kill-switch run '' @ quoted (ks_runId ks)))
          else if rw_systemInstruction c = [] then guard_fail time ks SYSTEM_INSTRUCTION_ABSENT None
          else if wsHash \<noteq> ws_logicalHash (pf_workingSet (rw_plannedFrom c))
               \<or> wsHash \<noteq> bi_workingSetLogicalHash (rw_binding c)
          then guard_fail time ks BINDING_MISMATCH (Some ''working set logical hash mismatch'')
          else if transitionHash \<noteq> ct_logicalHash (pf_transition (rw_plannedFrom c))
               \<or> transitionHash \<noteq> bi_transitionLogicalHash (rw_binding c)
          then guard_fail time ks BINDING_MISMATCH (Some ''transition logical hash mismatch'')
          else if activeSystemInstructionHash rt (rw_systemInstruction c) \<noteq> rw_systemInstructionHash c
          then guard_fail time ks SYSTEM_INSTRUCTION_ALTERED None
          else if activeMessagesHash rt (rw_messages c) \<noteq> rw_messagesHash c
          then guard_fail time ks COMPOSITION_TAMPERED (Some ''composed message fingerprints changed'')
          else if activeCompositionHash rt (rw_systemInstructionHash c) (rw_messagesHash c) \<noteq> rw_compositionHash c
          then guard_fail time ks COMPOSITION_TAMPERED (Some ''composition hash mismatch'')
          else if \<not> composedToolPairsIntact c
          then guard_fail time ks TOOL_PAIR_SPLIT (Some ''composed output contains a split tool pair'')
          else if list_ex (\<lambda>m. pm_role m = ''system'') (rw_messages c)
          then guard_fail time ks SYSTEM_INSTRUCTION_DUPLICATED None
          else (GuardOk, ks))"

end
