(* ===== verification/Active_Laws.thy ===== *)
theory Active_Laws
  imports Active_Rewrite Universe_Laws
begin

text \<open>
  What a composition of the active rewrite guarantees. The composer collects its removals in two
  tables over message indexes and rebuilds the list from them; the reference is a function of
  one message, \<open>rewrite_message\<close>, that removes the tool calls and tool results whose source was
  removed and nothing else. On top of that: pairs of calls and results stay together, protected
  sources stay in the context, opaque content stays, the guard accepts what the composer made,
  and a tripped switch ends every later attempt of the run.
\<close>

section \<open>Steps that did not fall back\<close>

lemma check_then_ok [try_simps]: "check_then m f = Inr y \<longleftrightarrow> (\<exists>x. m = Inr x \<and> f x = Inr y)"
  by (cases m) (simp_all add: check_then_def)

lemma refuse_if_ok [try_simps]: "refuse_if b e = Inr u \<longleftrightarrow> \<not> b"
  by (simp add: refuse_if_def)

lemma check_each_unit: "check_each f () xs = Inr u \<longleftrightarrow> (\<forall>x\<in>set xs. f () x = Inr ())"
  by (induction xs) (auto simp: try_simps)

section \<open>The reference\<close>

definition rewrite_message :: "string list \<Rightarrow> pi_message \<Rightarrow> pi_message option" where
  "rewrite_message removed m =
     (if pm_role m = ''toolResult''
      then (case pm_toolCallId m of
          Some i \<Rightarrow> if tool_result_key i \<in> set removed then None else Some m
        | None \<Rightarrow> Some m)
      else if pm_role m = ''assistant''
      then (case pm_content m of
          Some (Entries es) \<Rightarrow>
            (let kept = filter (\<lambda>e. removed_call removed e = None) es in
             if kept = es then Some m
             else if kept = [] then None else Some (m\<lparr>pm_content := Some (Entries kept)\<rparr>))
        | _ \<Rightarrow> Some m)
      else Some m)"

text \<open>The sources a message carries, its opaque blocks and the calls it makes.\<close>

definition message_keys :: "pi_message \<Rightarrow> string list" where
  "message_keys m =
     (if pm_role m = ''toolResult'' then (case pm_toolCallId m of None \<Rightarrow> [] | Some i \<Rightarrow> [tool_result_key i])
      else map tool_call_key (List.map_filter call_id (toBlocks (pm_content m))))"

definition opaque_blocks :: "pi_message \<Rightarrow> json list" where
  "opaque_blocks m = filter (opaque_block (pm_role m)) (toBlocks (pm_content m))"

definition tool_calls :: "pi_message list \<Rightarrow> string list" where
  "tool_calls ms =
     concat (map (\<lambda>m. if pm_role m = ''assistant'' then List.map_filter call_id (toBlocks (pm_content m)) else []) ms)"

lemma set_map_filter: "set (List.map_filter f xs) = {y. \<exists>x\<in>set xs. f x = Some y}"
  by (force simp: List.map_filter_def image_iff)

lemma map_filter_filter:
  "(\<And>x. f x \<noteq> None \<Longrightarrow> P x) \<Longrightarrow> List.map_filter f (filter P xs) = List.map_filter f xs"
  by (induction xs) (auto simp: List.map_filter_simps split: option.split)

lemma call_is_block: "call_id e \<noteq> None \<Longrightarrow> isBlockView e"
  by (auto simp: call_id_def isBlockView_def block_type_def default_to_def split: if_splits option.splits)

lemma removed_call_Some:
  "removed_call removed e = Some i \<longleftrightarrow> call_id e = Some i \<and> tool_call_key i \<in> set removed"
  by (auto simp: removed_call_def split: option.splits)

lemma removed_call_None: "removed_call removed e = None \<longleftrightarrow> (\<forall>i. call_id e = Some i \<longrightarrow> tool_call_key i \<notin> set removed)"
  by (auto simp: removed_call_def split: option.splits)

lemma call_ids_entries: "List.map_filter call_id (toBlocks (Some (Entries es))) = List.map_filter call_id es"
  using map_filter_filter [of call_id isBlockView es] call_is_block by (simp add: toBlocks_def)

lemma call_ids_text [simp]: "List.map_filter call_id (toBlocks (Some (Text s))) = []"
  by (simp add: toBlocks_def List.map_filter_simps call_id_def block_type_def text_block_def string_field_def default_to_def)

lemma call_ids_nothing [simp]: "List.map_filter call_id (toBlocks None) = []"
  by (simp add: toBlocks_def List.map_filter_simps)

section \<open>The analysis of a message\<close>

lemma analyzed_fields:
  "am_index (analyzeMessage rt s q (n, m)) = n"
  "am_role (analyzeMessage rt s q (n, m)) = pm_role m"
  "set (am_sourceKeys (analyzeMessage rt s q (n, m))) = set (message_keys m)"
  "am_toolCallIds (analyzeMessage rt s q (n, m)) =
     (if pm_role m = ''assistant'' then List.map_filter call_id (toBlocks (pm_content m)) else [])"
  "am_resultToolCallId (analyzeMessage rt s q (n, m)) = answered_call m"
  by (simp_all add: analyzeMessage_def Let_def decompose_keys message_keys_def answered_call_def)

lemma analyzed_opaque: "am_opaqueBlockCount (analyzeMessage rt s q (n, m)) = 0 \<Longrightarrow> opaque_blocks m = []"
  by (simp add: analyzeMessage_def Let_def opaque_blocks_def)

lemma analyzed_droppable:
  "am_droppable (analyzeMessage rt s q (n, m)) \<Longrightarrow>
     opaque_blocks m = []
     \<and> (pm_role m = ''assistant'' \<and> length (List.map_filter call_id (toBlocks (pm_content m))) = length (toBlocks (pm_content m))
        \<or> pm_role m = ''toolResult'')"
  by (auto simp: analyzeMessage_def Let_def opaque_blocks_def)

section \<open>The plan of a message\<close>

text \<open>What the tables of the composer say of an index, and what they should say of its message.\<close>

definition fate :: "removal_state \<Rightarrow> nat \<Rightarrow> bool \<times> (string list \<times> nat list) option" where
  "fate st n = (n \<in> set (rs_dropped st), map_of (rs_blockRemovals st) n)"

definition planned :: "string list \<Rightarrow> pi_message \<Rightarrow> bool \<times> (string list \<times> nat list) option" where
  "planned removed m =
     (rewrite_message removed m = None,
      (case pm_content m of
         Some (Entries es) \<Rightarrow>
           if pm_role m = ''assistant'' \<and> (\<exists>e\<in>set es. removed_call removed e \<noteq> None) \<and> (\<exists>e\<in>set es. removed_call removed e = None)
           then Some (List.map_filter (removed_call removed) es, removed_indexes removed es) else None
       | _ \<Rightarrow> None))"

lemma removed_indexes_empty: "removed_indexes removed es = [] \<longleftrightarrow> (\<forall>e\<in>set es. removed_call removed e = None)"
proof -
  have "set es = snd ` set (List.enumerate 0 es)" by (metis map_snd_enumerate set_map)
  then show ?thesis by (auto simp: removed_indexes_def filter_empty_conv)
qed

lemma filter_by_index:
  "map snd (filter (\<lambda>(i, _). i \<notin> set (removed_indexes removed es)) (List.enumerate 0 es)) =
     filter (\<lambda>e. removed_call removed e = None) es"
proof -
  have "i \<in> set (removed_indexes removed es) \<longleftrightarrow> removed_call removed e \<noteq> None"
    if "(i, e) \<in> set (List.enumerate 0 es)" for i e
    using that by (force simp: removed_indexes_def in_set_enumerate_eq)
  then have "filter (\<lambda>(i, _). i \<notin> set (removed_indexes removed es)) (List.enumerate 0 es) =
      filter (\<lambda>ie. removed_call removed (snd ie) = None) (List.enumerate 0 es)"
    by (intro filter_cong) auto
  moreover have "map snd (filter (\<lambda>ie. Q (snd ie)) xs) = filter Q (map snd xs)" for Q and xs :: "(nat \<times> json) list"
    by (induction xs) auto
  from this [of "\<lambda>e. removed_call removed e = None" "List.enumerate 0 es"]
  have "map snd (filter (\<lambda>ie. removed_call removed (snd ie) = None) (List.enumerate 0 es)) =
      filter (\<lambda>e. removed_call removed e = None) es" by simp
  ultimately show ?thesis by (simp only:)
qed

lemma filter_kept_iff:
  "filter P es = es \<longleftrightarrow> (\<forall>e\<in>set es. P e)" "filter P es = [] \<longleftrightarrow> (\<forall>e\<in>set es. \<not> P e)"
  by (simp_all add: filter_id_conv filter_empty_conv)

lemma compose_planned:
  assumes "fate st n = planned removed m"
  shows "compose_message st (n, m) = rewrite_message removed m"
proof -
  have "n \<in> set (rs_dropped st) \<longleftrightarrow> rewrite_message removed m = None"
    "map_of (rs_blockRemovals st) n = snd (planned removed m)"
    using assms by (auto simp: fate_def planned_def)
  then show ?thesis
    by (auto simp: compose_message_def planned_def filter_by_index rewrite_message_def Let_def filter_kept_iff
      split: option.splits pi_content.splits if_splits)
qed

section \<open>One step of the loop\<close>

lemma drop_whole_ok:
  assumes "drop_whole retained removed st (analyzeMessage rt s q (n, m)) = Inr st'"
  shows "st' = st\<lparr>rs_dropped := rs_dropped st @ [n]\<rparr>" and "am_droppable (analyzeMessage rt s q (n, m))"
    and "\<forall>k\<in>set (message_keys m). k \<in> set removed \<or> k \<notin> set retained"
  using assms by (auto simp: drop_whole_def Let_def try_simps analyzed_fields list_ex_iff)

lemma all_calls:
  assumes "length (List.map_filter f xs) = length xs" and "x \<in> set xs"
  shows "f x \<noteq> None"
  using assms length_filter_less [of x xs "\<lambda>x. f x \<noteq> None"] by (auto simp: List.map_filter_def)

lemma drop_whole_planned:
  assumes ok: "drop_whole retained removed st (analyzeMessage rt s q (n, m)) = Inr st'"
    and explained: "\<forall>k\<in>set (message_keys m). k \<in> set removed \<or> k \<in> set retained"
    and hit: "\<exists>k\<in>set (message_keys m). k \<in> set removed"
    and whole: "\<And>es. pm_role m = ''assistant'' \<Longrightarrow> pm_content m = Some (Entries es) \<Longrightarrow> \<forall>e\<in>set es. removed_call removed e \<noteq> None"
  shows "planned removed m = (True, None)"
proof -
  note d = drop_whole_ok [OF ok]
  have keys: "\<forall>k\<in>set (message_keys m). k \<in> set removed" using d(3) explained by blast
  consider "pm_role m = ''assistant''" | "pm_role m = ''toolResult''" using analyzed_droppable [OF d(2)] by blast
  then show ?thesis
  proof cases
    case 1
    then obtain es where es: "pm_content m = Some (Entries es)" using hit
      by (cases "pm_content m"; cases "the (pm_content m)") (auto simp: message_keys_def)
    have "es \<noteq> []" using hit 1 es by (auto simp: message_keys_def call_ids_entries List.map_filter_simps)
    with whole [OF 1 es] 1 es show ?thesis by (auto simp: planned_def rewrite_message_def Let_def filter_kept_iff)
  next
    case 2
    then show ?thesis using hit
      by (auto simp: planned_def rewrite_message_def message_keys_def split: option.splits pi_content.splits)
  qed
qed

lemma unhit_planned:
  assumes "\<forall>k\<in>set (message_keys m). k \<notin> set removed"
  shows "planned removed m = (False, None)"
proof -
  have none: "removed_call removed e = None"
    if "pm_role m = ''assistant''" "pm_content m = Some (Entries es)" "e \<in> set es" for es e
    using assms that by (force simp: message_keys_def call_ids_entries set_map_filter removed_call_None)
  have "rewrite_message removed m = Some m"
    using assms none by (auto simp: rewrite_message_def message_keys_def Let_def filter_kept_iff
      split: option.splits pi_content.splits)
  with none show ?thesis by (auto simp: planned_def split: option.splits pi_content.splits)
qed

lemma plan_message_step:
  assumes ok: "plan_message native retained removed st (analyzeMessage rt s q (n, m)) = Inr st'"
    and m: "native ! n = m" and fresh: "fate st n = (False, None)"
  shows "fate st' n = planned removed m \<and> (\<forall>k. k \<noteq> n \<longrightarrow> fate st' k = fate st k)
    \<and> set (message_keys m) \<subseteq> set removed \<union> set retained
    \<and> (rewrite_message removed m = None \<longrightarrow> opaque_blocks m = [])"
proof -
  let ?a = "analyzeMessage rt s q (n, m)"
  have un: "unexplained_source retained removed ?a = None" using ok by (auto simp: plan_message_def split: option.splits)
  then have explained: "\<forall>k\<in>set (message_keys m). k \<in> set removed \<or> k \<in> set retained"
    by (auto simp: unexplained_source_def find_None_iff analyzed_fields)
  show ?thesis
  proof (cases "\<exists>k\<in>set (message_keys m). k \<in> set removed")
    case False
    then have "st' = st" using ok un by (simp add: plan_message_def analyzed_fields list_ex_iff)
    with False fresh explained unhit_planned [of m removed] show ?thesis
      by (auto simp: planned_def)
  next
    case True
    then have step: "(case planAssistantRemoval removed ?a m of
              Some (PlanRefuse f) \<Rightarrow> Inl f
            | Some (PlanBlocks ids indexes) \<Rightarrow>
                Inr (st\<lparr>rs_blockRemovals := AList.update n (ids, indexes) (rs_blockRemovals st),
                        rs_toolBlocksRemoved := rs_toolBlocksRemoved st + length ids\<rparr>)
            | _ \<Rightarrow> drop_whole retained removed st ?a) = Inr st'"
      using ok un m unfolding plan_message_def analyzed_fields(1) by (simp add: analyzed_fields list_ex_iff)
    show ?thesis
    proof (cases "\<exists>ids indexes. planAssistantRemoval removed ?a m = Some (PlanBlocks ids indexes)")
      case blocks: True
      then obtain es where es: "pm_role m = ''assistant''" "pm_content m = Some (Entries es)"
          "removed_indexes removed es \<noteq> []" "list_ex (meaningful_entry removed) es"
          "planAssistantRemoval removed ?a m = Some (PlanBlocks (List.map_filter (removed_call removed) es) (removed_indexes removed es))"
        by (auto simp: planAssistantRemoval_def Let_def analyzed_fields split: if_splits option.splits pi_content.splits)
      have "\<exists>e\<in>set es. removed_call removed e = None" using es(4) by (auto simp: list_ex_iff meaningful_entry_def)
      then have p: "planned removed m = (False, Some (List.map_filter (removed_call removed) es, removed_indexes removed es))"
        using es(1-3) by (auto simp: planned_def removed_indexes_empty rewrite_message_def Let_def filter_kept_iff)
      then have "rewrite_message removed m \<noteq> None" by (simp add: planned_def)
      with p step es(5) fresh explained show ?thesis by (auto simp: fate_def update_conv' split: if_splits)
    next
      case False
      then have dw: "drop_whole retained removed st ?a = Inr st'"
        using step by (auto split: option.splits removal_plan.splits)
      note d = drop_whole_ok [OF dw]
      have "\<forall>e\<in>set es. removed_call removed e \<noteq> None" if "pm_role m = ''assistant''" "pm_content m = Some (Entries es)" for es
      proof -
        have refuse: "\<forall>f. planAssistantRemoval removed ?a m \<noteq> Some (PlanRefuse f)" using step by (auto split: option.splits)
        have "removed_indexes removed es \<noteq> []" using True that
          by (force simp: message_keys_def call_ids_entries set_map_filter removed_indexes_empty removed_call_None)
        with False refuse that have "\<not> list_ex (meaningful_entry removed) es" "\<not> list_ex (\<lambda>e. block_type e = ''text'') es"
          by (auto simp: planAssistantRemoval_def Let_def analyzed_fields split: option.splits if_splits)
        then show ?thesis by (auto simp: list_ex_iff meaningful_entry_def)
      qed
      then have "planned removed m = (True, None)" by (rule drop_whole_planned [OF dw explained True])
      with d fresh explained show ?thesis using analyzed_droppable [OF d(2)] by (auto simp: fate_def)
    qed
  qed
qed

lemma plan_loop:
  assumes "check_each (plan_message native retained removed) st (map (analyzeMessage rt s q) (List.enumerate k ms)) = Inr st'"
    and "\<forall>i<length ms. native ! (k + i) = ms ! i" and "\<forall>n\<ge>k. fate st n = (False, None)"
  shows "(\<forall>n<k. fate st' n = fate st n)
    \<and> (\<forall>i<length ms. fate st' (k + i) = planned removed (ms ! i)
         \<and> set (message_keys (ms ! i)) \<subseteq> set removed \<union> set retained
         \<and> (rewrite_message removed (ms ! i) = None \<longrightarrow> opaque_blocks (ms ! i) = []))"
  using assms
proof (induction ms arbitrary: k st)
  case (Cons m ms)
  from Cons.prems(1) obtain st1 where s1: "plan_message native retained removed st (analyzeMessage rt s q (k, m)) = Inr st1"
    and s2: "check_each (plan_message native retained removed) st1 (map (analyzeMessage rt s q) (List.enumerate (Suc k) ms)) = Inr st'"
    by (auto simp: try_simps)
  have m: "native ! k = m" using Cons.prems(2) by (metis add_0_right length_greater_0_conv list.distinct(1) nth_Cons_0)
  note step = plan_message_step [OF s1 m Cons.prems(3) [rule_format, OF order_refl]]
  have shifted: "\<forall>i<length ms. native ! (Suc k + i) = ms ! i" using Cons.prems(2) by (auto dest: spec [of _ "Suc _"])
  have "\<forall>n\<ge>Suc k. fate st1 n = (False, None)" using step Cons.prems(3) by auto
  note rest = Cons.IH [OF s2 shifted this]
  show ?case
  proof (intro conjI allI impI)
    fix n assume "n < k"
    then show "fate st' n = fate st n" using rest step by simp
  next
    fix i assume i: "i < length (m # ms)"
    show "fate st' (k + i) = planned removed ((m # ms) ! i)"
      "set (message_keys ((m # ms) ! i)) \<subseteq> set removed \<union> set retained"
      "rewrite_message removed ((m # ms) ! i) = None \<Longrightarrow> opaque_blocks ((m # ms) ! i) = []"
      using rest step i by (cases i; auto)+
  qed
qed simp

section \<open>What the reference does to a list of messages\<close>

definition calls_of :: "pi_message \<Rightarrow> string list" where
  "calls_of m = (if pm_role m = ''assistant'' then List.map_filter call_id (toBlocks (pm_content m)) else [])"

lemma tool_calls_eq: "tool_calls ms = concat (map calls_of ms)"
  by (simp add: tool_calls_def calls_of_def [abs_def])

lemma calls_of_iff:
  "i \<in> set (calls_of m) \<longleftrightarrow>
     pm_role m = ''assistant'' \<and> (\<exists>es. pm_content m = Some (Entries es) \<and> (\<exists>e\<in>set es. call_id e = Some i))"
proof (cases "pm_content m")
  case (Some c)
  then show ?thesis by (cases c) (simp_all add: calls_of_def call_ids_entries set_map_filter call_ids_text)
qed (simp add: calls_of_def)

lemma map_filter_kept:
  "List.map_filter call_id (filter (\<lambda>e. removed_call removed e = None) es) =
     filter (\<lambda>i. tool_call_key i \<notin> set removed) (List.map_filter call_id es)"
  by (induction es) (auto simp: List.map_filter_simps removed_call_def split: option.splits)

lemma rewrite_Some:
  assumes "rewrite_message removed m = Some m'"
  shows "pm_role m' = pm_role m" and "pm_toolCallId m' = pm_toolCallId m"
    and "calls_of m' = filter (\<lambda>i. tool_call_key i \<notin> set removed) (calls_of m)"
    and "answered_call m' = answered_call m" and "\<And>i. answered_call m = Some i \<Longrightarrow> tool_result_key i \<notin> set removed"
    and "opaque_blocks m' = opaque_blocks m"
proof -
  have opq: "filter (\<lambda>e. removed_call removed e = None \<and> isBlockView e \<and> opaque_block ''assistant'' e) es =
      filter (\<lambda>e. isBlockView e \<and> opaque_block ''assistant'' e) es" for es
    by (rule filter_cong) (auto simp: opaque_block_def removed_call_def call_id_def split: option.splits)
  have unhit: "filter (\<lambda>i. tool_call_key i \<notin> set removed) (List.map_filter call_id es) = List.map_filter call_id es"
    if "\<forall>e\<in>set es. removed_call removed e = None" for es
    using that by (force simp: filter_id_conv set_map_filter removed_call_None)
  show "pm_role m' = pm_role m" "pm_toolCallId m' = pm_toolCallId m" "answered_call m' = answered_call m"
    "\<And>i. answered_call m = Some i \<Longrightarrow> tool_result_key i \<notin> set removed"
    using assms by (auto simp: rewrite_message_def answered_call_def Let_def split: if_splits option.splits pi_content.splits)
  show "calls_of m' = filter (\<lambda>i. tool_call_key i \<notin> set removed) (calls_of m)"
    using assms by (auto simp: rewrite_message_def calls_of_def Let_def call_ids_entries map_filter_kept unhit filter_kept_iff
      split: if_splits option.splits pi_content.splits)
  show "opaque_blocks m' = opaque_blocks m"
    using assms by (auto simp: rewrite_message_def opaque_blocks_def toBlocks_def Let_def opq
      split: if_splits option.splits pi_content.splits)
qed

lemma rewrite_None:
  assumes "rewrite_message removed m = None"
  shows "\<forall>i\<in>set (calls_of m). tool_call_key i \<in> set removed"
    and "\<And>i. answered_call m = Some i \<Longrightarrow> tool_result_key i \<in> set removed"
  using assms
  by (fastforce simp: rewrite_message_def calls_of_iff answered_call_def Let_def filter_kept_iff removed_call_Some
      split: if_splits option.splits pi_content.splits)+

lemma rewrite_calls:
  "tool_calls (List.map_filter (rewrite_message removed) ms) = filter (\<lambda>i. tool_call_key i \<notin> set removed) (tool_calls ms)"
  unfolding tool_calls_eq
proof (induction ms)
  case (Cons m ms)
  then show ?case
    using rewrite_Some(3) [of removed m] rewrite_None(1) [of removed m]
    by (cases "rewrite_message removed m") (auto simp: List.map_filter_simps filter_empty_conv)
qed (simp add: List.map_filter_simps)

lemma rewrite_results:
  "composed_results (List.map_filter (rewrite_message removed) ms) =
     filter (\<lambda>i. tool_result_key i \<notin> set removed) (composed_results ms)"
  unfolding composed_results_def
proof (induction ms)
  case (Cons m ms)
  then show ?case
    using rewrite_Some(4,5) [of removed m] rewrite_None(2) [of removed m]
    by (cases "rewrite_message removed m"; cases "answered_call m") (auto simp: List.map_filter_simps)
qed (simp add: List.map_filter_simps)

lemma rewrite_opaque:
  assumes "\<forall>m\<in>set ms. rewrite_message removed m = None \<longrightarrow> opaque_blocks m = []"
  shows "concat (map opaque_blocks (List.map_filter (rewrite_message removed) ms)) = concat (map opaque_blocks ms)"
  using assms
proof (induction ms)
  case (Cons m ms)
  then show ?case using rewrite_Some(6) [of removed m]
    by (cases "rewrite_message removed m") (auto simp: List.map_filter_simps)
qed (simp add: List.map_filter_simps)

lemma rewrite_keeps_key:
  assumes "rewrite_message removed m = Some m'" and "k \<in> set (message_keys m)" and "k \<notin> set removed"
  shows "k \<in> set (message_keys m')"
proof (cases "pm_role m = ''assistant''")
  case True
  then show ?thesis
    using assms rewrite_Some(1,3) [OF assms(1)] by (auto simp: message_keys_def calls_of_def)
next
  case False
  then have "m' = m" using assms(1) by (auto simp: rewrite_message_def split: if_splits option.splits)
  with assms show ?thesis by simp
qed

section \<open>Pairs\<close>

lemma set_first_fold:
  "set (foldl set_first m kvs) \<subseteq> set m \<union> set kvs"
  "fst ` set (foldl set_first m kvs) = fst ` set m \<union> fst ` set kvs"
proof (induction kvs arbitrary: m)
  case (Cons kv kvs)
  case 1 show ?case using Cons(1) [of "set_first m kv"] by (auto simp: set_first_def split: if_splits)
  case 2 show ?case using Cons(2) [of "set_first m kv"]
    by (auto simp: set_first_def map_of_eq_None_iff split: if_splits)
qed simp_all

lemma first_indexes:
  "map_of (foldl set_first [] kvs) i = Some n \<Longrightarrow> (i, n) \<in> set kvs"
  "map_of (foldl set_first [] kvs) i = None \<longleftrightarrow> i \<notin> fst ` set kvs"
  using set_first_fold [of "[]" kvs] by (auto simp: map_of_eq_None_iff dest!: map_of_SomeD)

lemma call_fate:
  assumes "fate st c = planned removed m" and "i \<in> set (calls_of m)"
  shows "callDropped st i c \<longleftrightarrow> tool_call_key i \<in> set removed"
proof -
  from assms(2) obtain es e where es: "pm_role m = ''assistant''" "pm_content m = Some (Entries es)" "e \<in> set es" "call_id e = Some i"
    by (auto simp: calls_of_iff)
  have "c \<in> set (rs_dropped st) \<longleftrightarrow> rewrite_message removed m = None" "map_of (rs_blockRemovals st) c = snd (planned removed m)"
    using assms(1) by (auto simp: fate_def planned_def)
  then show ?thesis
    using es by (auto simp: callDropped_def planned_def rewrite_message_def Let_def filter_kept_iff set_map_filter
      removed_call_Some removed_call_None)
qed

section \<open>A plan that was accepted\<close>

lemma decisions_checked:
  assumes "check_each (check_decision itemKeys) seen ds = Inr seen'"
  shows "\<forall>d\<in>set ds. dc_kind d = DK_REMOVE \<longleftrightarrow> dc_sourceKey d \<notin> set itemKeys"
  using assms by (induction ds arbitrary: seen) (auto simp: try_simps check_decision_def split: if_splits)

lemma invariants_checked:
  assumes "checkTransitionInvariants ws t = None"
  shows "set (removed_keys t) \<inter> set (item_keys ws) = {}"
    and "\<not> num_less (ws_maxSemanticTokens ws) (Finite (ws_totalTokenEstimate ws))"
  using assms decisions_checked [of "item_keys ws" "[]" "ct_orderedDecisions t"]
  by (auto simp: checkTransitionInvariants_def removed_keys_def split: if_splits sum.splits)

lemma bex_enumerate: "(\<exists>x\<in>set (List.enumerate 0 xs). P x) \<longleftrightarrow> (\<exists>n<length xs. P (n, xs ! n))"
  by (auto simp: in_set_enumerate_eq)

lemma roles_checked:
  assumes "checkCapability harness ms = Inr u" and "m \<in> set ms"
  shows "pm_role m \<noteq> ''system''" and "pm_role m \<in> set PI_ACTIVE_SUPPORTED_ROLES"
proof -
  obtain n where "(n, m) \<in> set (List.enumerate 0 ms)"
    using assms(2) by (auto simp: in_set_enumerate_eq in_set_conv_nth [of _ ms])
  moreover have "\<forall>im\<in>set (List.enumerate 0 ms). check_role () im = Inr ()"
    using assms(1) by (simp add: checkCapability_def try_simps check_each_unit)
  ultimately have "check_role () (n, m) = Inr ()" by blast
  then show "pm_role m \<noteq> ''system''" "pm_role m \<in> set PI_ACTIVE_SUPPORTED_ROLES"
    by (simp_all add: check_role_def Let_def try_simps)
qed

text \<open>The tables of the composer say of every message what the reference says.\<close>

definition settled :: "pi_message list \<Rightarrow> string list \<Rightarrow> removal_state \<Rightarrow> bool" where
  "settled native removed st \<longleftrightarrow> (\<forall>n<length native. fate st n = planned removed (native ! n))"

lemma map_filter_cong: "(\<And>x. x \<in> set xs \<Longrightarrow> f x = g x) \<Longrightarrow> List.map_filter f xs = List.map_filter g xs"
  by (induction xs) (auto simp: List.map_filter_simps split: option.split)

lemma map_filter_snd: "List.map_filter (\<lambda>im. f (snd im)) xs = List.map_filter f (map snd xs)"
  by (induction xs) (auto simp: List.map_filter_simps split: option.split)

lemma settled_composed:
  assumes "settled native removed st"
  shows "List.map_filter (compose_message st) (List.enumerate 0 native) = List.map_filter (rewrite_message removed) native"
proof -
  have "List.map_filter (compose_message st) (List.enumerate 0 native) =
      List.map_filter (\<lambda>im. rewrite_message removed (snd im)) (List.enumerate 0 native)"
    using assms by (intro map_filter_cong) (auto simp: in_set_enumerate_eq compose_planned settled_def)
  then show ?thesis by (simp add: map_filter_snd)
qed

lemma settled_dropped:
  "settled native removed st \<Longrightarrow> n < length native \<Longrightarrow>
    n \<in> set (rs_dropped st) \<longleftrightarrow> rewrite_message removed (native ! n) = None"
  by (auto simp: settled_def fate_def planned_def)

section \<open>Pairs and protected sources\<close>

lemma analyzed_calls:
  "(j, n) \<in> set (concat (map (\<lambda>m. map (\<lambda>i. (i, am_index m)) (am_toolCallIds m))
       (map (analyzeMessage rt s q) (List.enumerate 0 native)))) \<longleftrightarrow>
     n < length native \<and> j \<in> set (calls_of (native ! n))"
  by (auto simp: bex_enumerate analyzed_fields calls_of_def)

lemma analyzed_results:
  "(j, n) \<in> set (List.map_filter (\<lambda>m. map_option (\<lambda>i. (i, am_index m)) (am_resultToolCallId m))
       (map (analyzeMessage rt s q) (List.enumerate 0 native))) \<longleftrightarrow>
     n < length native \<and> answered_call (native ! n) = Some j"
  by (auto simp: set_map_filter bex_enumerate analyzed_fields)

lemma first_call:
  assumes "i \<in> set (tool_calls native)"
  obtains c where "map_of (calls_by_id (map (analyzeMessage rt s q) (List.enumerate 0 native))) i = Some c"
    "c < length native" "i \<in> set (calls_of (native ! c))"
proof -
  let ?calls = "concat (map (\<lambda>m. map (\<lambda>i. (i, am_index m)) (am_toolCallIds m)) (map (analyzeMessage rt s q) (List.enumerate 0 native)))"
  obtain n where "(i, n) \<in> set ?calls" unfolding analyzed_calls
    using assms by (auto simp: tool_calls_eq in_set_conv_nth [of _ native])
  then have "i \<in> fst ` set ?calls" by force
  then obtain c where c: "map_of (foldl set_first [] ?calls) i = Some c" using first_indexes(2) [of ?calls i] by blast
  with first_indexes(1) [OF c] show thesis unfolding analyzed_calls by (intro that) (auto simp: calls_by_id_def)
qed

lemma first_result:
  assumes "i \<in> set (composed_results native)"
  obtains r where "map_of (results_by_id (map (analyzeMessage rt s q) (List.enumerate 0 native))) i = Some r"
    "r < length native" "answered_call (native ! r) = Some i"
proof -
  let ?results = "List.map_filter (\<lambda>m. map_option (\<lambda>i. (i, am_index m)) (am_resultToolCallId m)) (map (analyzeMessage rt s q) (List.enumerate 0 native))"
  obtain n where "(i, n) \<in> set ?results" unfolding analyzed_results
    using assms by (auto simp: composed_results_def set_map_filter in_set_conv_nth [of _ native])
  then have "i \<in> fst ` set ?results" by force
  then obtain r where r: "map_of (foldl set_first [] ?results) i = Some r" using first_indexes(2) [of ?results i] by blast
  with first_indexes(1) [OF r] show thesis unfolding analyzed_results by (intro that) (auto simp: results_by_id_def)
qed

text \<open>A call and the result that answers it are both removed or both kept.\<close>

lemma pair_together:
  assumes settled: "settled native removed st"
    and ok: "\<forall>pair\<in>set (ac_toolPairs (analyzeNativeMessages rt native s q)). check_pair st () pair = Inr ()"
    and i: "i \<in> set (tool_calls native)" "i \<in> set (composed_results native)"
  shows "tool_call_key i \<in> set removed \<longleftrightarrow> tool_result_key i \<in> set removed"
proof -
  obtain c where c: "map_of (calls_by_id (map (analyzeMessage rt s q) (List.enumerate 0 native))) i = Some c"
    "c < length native" "i \<in> set (calls_of (native ! c))" using i(1) by (rule first_call)
  obtain r where r: "map_of (results_by_id (map (analyzeMessage rt s q) (List.enumerate 0 native))) i = Some r"
    "r < length native" "answered_call (native ! r) = Some i" using i(2) by (rule first_result)
  have "\<lparr>np_toolCallId = i, np_callMessageIndex = Some c, np_resultMessageIndex = Some r\<rparr>
      \<in> set (ac_toolPairs (analyzeNativeMessages rt native s q))"
    using c(1) r(1) by (force simp: analyzeNativeMessages_def Let_def sort_strings_def dest: map_of_SomeD)
  with ok have "callDropped st i c \<longleftrightarrow> r \<in> set (rs_dropped st)" by (force simp: check_pair_def Let_def try_simps)
  moreover have "callDropped st i c \<longleftrightarrow> tool_call_key i \<in> set removed"
    using settled c(2,3) by (intro call_fate) (auto simp: settled_def)
  moreover have "r \<in> set (rs_dropped st) \<longleftrightarrow> tool_result_key i \<in> set removed"
    using r(3) settled_dropped [OF settled r(2)] by (auto simp: answered_call_def rewrite_message_def split: if_splits)
  ultimately show ?thesis by simp
qed

lemma protected_carried:
  assumes settled: "settled native removed st"
    and ok: "check_mandatory (kept_keys st removed (map (analyzeMessage rt s q) (List.enumerate 0 native))) () item = Inr ()"
    and protection: "wi_protection item = PR_MANDATORY \<or> wi_protection item = PR_PINNED"
    and k: "k \<in> set (wi_sourceKeys item)"
  shows "\<exists>m\<in>set (List.map_filter (rewrite_message removed) native). k \<in> set (message_keys m)"
proof -
  have "k \<in> set (kept_keys st removed (map (analyzeMessage rt s q) (List.enumerate 0 native)))"
    using ok protection k by (auto simp: check_mandatory_def find_None_iff split: option.splits if_splits)
  then obtain n where n: "n < length native" "n \<notin> set (rs_dropped st)" "k \<in> set (message_keys (native ! n))" "k \<notin> set removed"
    by (auto simp: kept_keys_def analyzed_fields in_set_enumerate_eq)
  then obtain m' where m': "rewrite_message removed (native ! n) = Some m'" using settled_dropped [OF settled n(1)] by blast
  then have "m' \<in> set (List.map_filter (rewrite_message removed) native)" using n(1) by (force simp: set_map_filter)
  with rewrite_keeps_key [OF m' n(3,4)] show ?thesis by blast
qed

text \<open>Everything a plan that was accepted has passed.\<close>

lemma accepted_plan:
  assumes "plan_rewrite rt inp = Inr (analysis, st)"
  defines "native \<equiv> ci_messages inp" and "removed \<equiv> removed_keys (ci_transition inp)"
    and "retained \<equiv> item_keys (ci_workingSet inp)"
  defines "analyzed \<equiv> map (analyzeMessage rt (ci_runId inp) (ws_sequence (ci_workingSet inp))) (List.enumerate 0 native)"
  shows "ci_activeModeOptIn inp" "\<not> isTripped (ci_killSwitch inp)"
    "checkCapability (default_to (ci_harness inp) PI_ACTIVE_HARNESS) native = Inr ()"
    "default_to (ci_systemInstruction inp) [] \<noteq> []"
    "checkTransitionInvariants (ci_workingSet inp) (ci_transition inp) = None"
    "check_each (plan_message native retained removed) \<lparr>rs_dropped = [], rs_blockRemovals = [], rs_toolBlocksRemoved = 0\<rparr> analyzed = Inr st"
    "\<forall>pair\<in>set (ac_toolPairs (analyzeNativeMessages rt native (ci_runId inp) (ws_sequence (ci_workingSet inp)))). check_pair st () pair = Inr ()"
    "\<forall>item\<in>set (ws_items (ci_workingSet inp)). check_mandatory (kept_keys st removed analyzed) () item = Inr ()"
proof -
  have "ac_messages (analyzeNativeMessages rt native (ci_runId inp) (ws_sequence (ci_workingSet inp))) = analyzed"
    by (simp add: analyzeNativeMessages_def Let_def analyzed_def)
  with assms(1) show "ci_activeModeOptIn inp" "\<not> isTripped (ci_killSwitch inp)"
    "checkCapability (default_to (ci_harness inp) PI_ACTIVE_HARNESS) native = Inr ()"
    "default_to (ci_systemInstruction inp) [] \<noteq> []"
    "checkTransitionInvariants (ci_workingSet inp) (ci_transition inp) = None"
    "check_each (plan_message native retained removed) \<lparr>rs_dropped = [], rs_blockRemovals = [], rs_toolBlocksRemoved = 0\<rparr> analyzed = Inr st"
    "\<forall>pair\<in>set (ac_toolPairs (analyzeNativeMessages rt native (ci_runId inp) (ws_sequence (ci_workingSet inp)))). check_pair st () pair = Inr ()"
    "\<forall>item\<in>set (ws_items (ci_workingSet inp)). check_mandatory (kept_keys st removed analyzed) () item = Inr ()"
    unfolding plan_rewrite_def native_def removed_def retained_def
    by (auto simp: try_simps Let_def check_each_unit split: option.splits)
qed

lemma accepted_settled:
  assumes "plan_rewrite rt inp = Inr (analysis, st)"
  shows "settled (ci_messages inp) (removed_keys (ci_transition inp)) st"
    and "\<And>m. m \<in> set (ci_messages inp) \<Longrightarrow>
       set (message_keys m) \<subseteq> set (removed_keys (ci_transition inp)) \<union> set (item_keys (ci_workingSet inp))
       \<and> (rewrite_message (removed_keys (ci_transition inp)) m = None \<longrightarrow> opaque_blocks m = [])"
proof -
  from plan_loop [OF accepted_plan(6) [OF assms]]
  have "fate st n = planned (removed_keys (ci_transition inp)) (ci_messages inp ! n)
     \<and> set (message_keys (ci_messages inp ! n)) \<subseteq> set (removed_keys (ci_transition inp)) \<union> set (item_keys (ci_workingSet inp))
     \<and> (rewrite_message (removed_keys (ci_transition inp)) (ci_messages inp ! n) = None \<longrightarrow> opaque_blocks (ci_messages inp ! n) = [])"
    if "n < length (ci_messages inp)" for n
    using that by (simp add: fate_def)
  then show "settled (ci_messages inp) (removed_keys (ci_transition inp)) st"
    "\<And>m. m \<in> set (ci_messages inp) \<Longrightarrow>
       set (message_keys m) \<subseteq> set (removed_keys (ci_transition inp)) \<union> set (item_keys (ci_workingSet inp))
       \<and> (rewrite_message (removed_keys (ci_transition inp)) m = None \<longrightarrow> opaque_blocks m = [])"
    by (auto simp: settled_def in_set_conv_nth)
qed

lemma ready_accepted:
  assumes "composeActiveRewrite rt inp = (REWRITE_READY c, ks)"
  obtains analysis st where "plan_rewrite rt inp = Inr (analysis, st)" "c = rewrite_of rt inp analysis st"
    "ks = ci_beforeFinalValidation inp (ci_killSwitch inp)" "\<not> isTripped ks"
  using assms by (auto simp: composeActiveRewrite_def Let_def split: sum.splits if_splits)

section \<open>Compositions that are ready\<close>

text \<open>
  C31. A composition that is ready is the native context with exactly the removed tool calls and
  tool results taken out: the run opted in and its switch is not tripped, the system instruction
  is the one given, the messages are those of the reference \<open>rewrite_message\<close>, every source of
  a native message is either retained or removed and none is both, the result of a call leaves
  the context exactly when the call does, the sources of mandatory and pinned items are still
  carried by a message, and the opaque blocks are those of the native context in their order.
  The hashes it carries are those of the instruction and of the messages that it holds, and the
  binding names the working set, the transition and the run it was made for.
\<close>

theorem composeActiveRewrite_correct:
  assumes "composeActiveRewrite rt inp = (REWRITE_READY c, ks)"
  shows "ci_activeModeOptIn inp \<and> \<not> isTripped (ci_killSwitch inp) \<and> \<not> isTripped ks
    \<and> ci_systemInstruction inp = Some (rw_systemInstruction c)
    \<and> rw_messages c = List.map_filter (rewrite_message (removed_keys (ci_transition inp))) (ci_messages inp)
    \<and> (\<forall>m\<in>set (ci_messages inp). set (message_keys m)
         \<subseteq> set (removed_keys (ci_transition inp)) \<union> set (item_keys (ci_workingSet inp)))
    \<and> set (removed_keys (ci_transition inp)) \<inter> set (item_keys (ci_workingSet inp)) = {}
    \<and> (\<forall>i\<in>set (tool_calls (ci_messages inp)) \<inter> set (composed_results (ci_messages inp)).
         i \<in> set (tool_calls (rw_messages c)) \<longleftrightarrow> i \<in> set (composed_results (rw_messages c)))
    \<and> (\<forall>item\<in>set (ws_items (ci_workingSet inp)). wi_protection item = PR_MANDATORY \<or> wi_protection item = PR_PINNED \<longrightarrow>
         (\<forall>k\<in>set (wi_sourceKeys item). \<exists>m\<in>set (rw_messages c). k \<in> set (message_keys m)))
    \<and> concat (map opaque_blocks (rw_messages c)) = concat (map opaque_blocks (ci_messages inp))
    \<and> rw_systemInstructionHash c = activeSystemInstructionHash rt (rw_systemInstruction c)
    \<and> rw_messagesHash c = activeMessagesHash rt (rw_messages c)
    \<and> rw_compositionHash c = activeCompositionHash rt (rw_systemInstructionHash c) (rw_messagesHash c)
    \<and> rw_binding c = \<lparr>bi_workingSetLogicalHash = ws_logicalHash (ci_workingSet inp),
        bi_transitionLogicalHash = ct_logicalHash (ci_transition inp), bi_runId = ci_runId inp\<rparr>"
proof -
  obtain analysis st where plan: "plan_rewrite rt inp = Inr (analysis, st)" and c: "c = rewrite_of rt inp analysis st"
    and ks: "\<not> isTripped ks" using assms by (rule ready_accepted)
  note p = accepted_plan [OF plan] and settled = accepted_settled [OF plan]
  have sys: "ci_systemInstruction inp = Some (rw_systemInstruction c)"
    using p(4) by (auto simp: c rewrite_of_def Let_def default_to_def split: option.splits)
  have ms: "rw_messages c = List.map_filter (rewrite_message (removed_keys (ci_transition inp))) (ci_messages inp)"
    by (simp add: c rewrite_of_def Let_def settled_composed [OF settled(1)])
  have pairs: "\<forall>i\<in>set (tool_calls (ci_messages inp)) \<inter> set (composed_results (ci_messages inp)).
      i \<in> set (tool_calls (rw_messages c)) \<longleftrightarrow> i \<in> set (composed_results (rw_messages c))"
    using pair_together [OF settled(1) p(7)] by (auto simp: ms rewrite_calls rewrite_results)
  have protected: "\<forall>item\<in>set (ws_items (ci_workingSet inp)). wi_protection item = PR_MANDATORY \<or> wi_protection item = PR_PINNED \<longrightarrow>
      (\<forall>k\<in>set (wi_sourceKeys item). \<exists>m\<in>set (rw_messages c). k \<in> set (message_keys m))"
    unfolding ms using protected_carried [OF settled(1)] p(8) by blast
  have opq: "concat (map opaque_blocks (rw_messages c)) = concat (map opaque_blocks (ci_messages inp))"
    unfolding ms using settled(2) by (intro rewrite_opaque) blast
  have hashes: "rw_systemInstructionHash c = activeSystemInstructionHash rt (rw_systemInstruction c)
      \<and> rw_messagesHash c = activeMessagesHash rt (rw_messages c)
      \<and> rw_compositionHash c = activeCompositionHash rt (rw_systemInstructionHash c) (rw_messagesHash c)
      \<and> rw_binding c = \<lparr>bi_workingSetLogicalHash = ws_logicalHash (ci_workingSet inp),
          bi_transitionLogicalHash = ct_logicalHash (ci_transition inp), bi_runId = ci_runId inp\<rparr>"
    by (simp add: c rewrite_of_def Let_def)
  show ?thesis using p(1,2) ks sys ms settled(2) invariants_checked(1) [OF p(5)] pairs protected opq hashes by simp
qed

text \<open>A run of four messages that made two calls; the first call and its result are removed.\<close>

definition call_block :: "string \<Rightarrow> json" where
  "call_block i = JObj [(''type'', JStr ''toolCall''), (''id'', JStr i), (''name'', JStr ''read''), (''arguments'', JObj [])]"

definition message_of :: "string \<Rightarrow> json list \<Rightarrow> string option \<Rightarrow> pi_message" where
  "message_of role es i =
     \<lparr>pm_role = role, pm_content = Some (Entries es), pm_toolName = None, pm_toolCallId = i, pm_isError = None,
      pm_customType = None\<rparr>"

definition two_calls :: "pi_message list" where
  "two_calls =
     [message_of ''assistant'' [text_block ''look'', call_block ''c1''] None, message_of ''toolResult'' [text_block ''r1''] (Some ''c1''),
      message_of ''assistant'' [call_block ''c2''] None, message_of ''toolResult'' [text_block ''r2''] (Some ''c2'')]"

definition kept_item :: working_item where
  "kept_item =
     \<lparr>wi_position = 0, wi_representationId = ''r'', wi_representationKind = None,
      wi_sourceKeys = [tool_call_key ''c2'', tool_result_key ''c2''], wi_sourceVersionIds = [''v''], wi_authority = ''a'',
      wi_baselinePriority = None, wi_protection = PR_MANDATORY, wi_tokenEstimate = 2, wi_inclusionReasonCodes = []\<rparr>"

definition kept_set :: working_set where
  "kept_set =
     \<lparr>ws_workingSetId = ''w2'', ws_runtimeSessionId = ''s'', ws_sequence = 2, ws_plannedFromUniverseSequence = 1,
      ws_plannedFromUniverseHash = ''u'', ws_previousWorkingSetId = Some ''w1'', ws_policyVersion = ''p'',
      ws_planningRequestHash = ''q'', ws_items = [kept_item], ws_totalTokenEstimate = 2, ws_maxSemanticTokens = Finite 2,
      ws_logicalHash = computeWorkingSetLogicalHash plain ''s'' 2 1 ''u'' (Some ''w1'') ''p'' ''q'' [kept_item],
      ws_createdAt = ''t''\<rparr>"

definition decision_on :: "decision_kind \<Rightarrow> string \<Rightarrow> decision" where
  "decision_on kind key =
     \<lparr>dc_decisionId = key, dc_kind = kind, dc_sourceKey = key, dc_sourceVersionId = None, dc_representationId = ''r'',
      dc_fromWorkingSetId = Some ''w1'', dc_toWorkingSetId = ''w2'', dc_reasonCodes = [], dc_policyVersion = ''p'',
      dc_tokenDelta = 0\<rparr>"

definition first_call_decisions :: "decision list" where
  "first_call_decisions =
     [decision_on DK_REMOVE (tool_call_key ''c1''), decision_on DK_REMOVE (tool_result_key ''c1''),
      decision_on DK_KEEP (tool_call_key ''c2'')]"

definition first_call_removed :: context_transition where
  "first_call_removed =
     \<lparr>ct_transitionId = ''t'', ct_runtimeSessionId = ''s'', ct_sequence = 2, ct_fromWorkingSetId = Some ''w1'',
      ct_toWorkingSetId = ''w2'', ct_orderedDecisions = first_call_decisions, ct_fromTokenEstimate = 4,
      ct_toTokenEstimate = 2, ct_policyVersion = ''p'',
      ct_logicalHash = computeTransitionLogicalHash plain ''s'' 2 (Some ''w1'') ''w2'' first_call_decisions 4 2 ''p''\<rparr>"

definition active_input :: compose_input where
  "active_input =
     \<lparr>ci_messages = two_calls, ci_workingSet = kept_set, ci_transition = first_call_removed, ci_runId = ''run'',
      ci_killSwitch = \<lparr>ks_runId = ''run'', ks_record = None\<rparr>, ci_activeModeOptIn = True, ci_harness = None,
      ci_systemInstruction = Some ''sys'', ci_beforeFinalValidation = id\<rparr>"

lemma active_input_accepted: "\<not> isl (plan_rewrite plain active_input)"
  by code_simp

lemma active_input_ready:
  obtains c where "composeActiveRewrite plain active_input = (REWRITE_READY c, \<lparr>ks_runId = ''run'', ks_record = None\<rparr>)"
proof -
  obtain a st where "plan_rewrite plain active_input = Inr (a, st)"
    using active_input_accepted by (cases "plan_rewrite plain active_input") auto
  then show thesis by (intro that) (simp add: composeActiveRewrite_def active_input_def isTripped_def Let_def)
qed

theorem composeActiveRewrite_correct_witness:
  "\<exists>c ks. composeActiveRewrite plain active_input = (REWRITE_READY c, ks)
     \<and> rw_messages c = [message_of ''assistant'' [text_block ''look''] None,
          message_of ''assistant'' [call_block ''c2''] None, message_of ''toolResult'' [text_block ''r2''] (Some ''c2'')]"
proof -
  obtain c where c: "composeActiveRewrite plain active_input = (REWRITE_READY c, \<lparr>ks_runId = ''run'', ks_record = None\<rparr>)"
    by (rule active_input_ready)
  have "List.map_filter (rewrite_message (removed_keys (ci_transition active_input))) (ci_messages active_input) =
      [message_of ''assistant'' [text_block ''look''] None,
       message_of ''assistant'' [call_block ''c2''] None, message_of ''toolResult'' [text_block ''r2''] (Some ''c2'')]"
    by code_simp
  with composeActiveRewrite_correct [OF c] c show ?thesis by auto
qed

section \<open>The guard\<close>

text \<open>The logical hashes of a working set and of a transition are those of their content.\<close>

definition hashes_hold :: "runtime \<Rightarrow> working_set \<Rightarrow> context_transition \<Rightarrow> bool" where
  "hashes_hold rt ws t \<longleftrightarrow>
     ws_logicalHash ws = computeWorkingSetLogicalHash rt (ws_runtimeSessionId ws) (ws_sequence ws)
       (ws_plannedFromUniverseSequence ws) (ws_plannedFromUniverseHash ws) (ws_previousWorkingSetId ws)
       (ws_policyVersion ws) (ws_planningRequestHash ws) (ws_items ws)
     \<and> ct_logicalHash t = computeTransitionLogicalHash rt (ct_runtimeSessionId t) (ct_sequence t) (ct_fromWorkingSetId t)
         (ct_toWorkingSetId t) (ct_orderedDecisions t) (ct_fromTokenEstimate t) (ct_toTokenEstimate t) (ct_policyVersion t)"

text \<open>The planner makes them so.\<close>

lemma planWorkingSet_hashes:
  "planWorkingSet rt universe request previous options = Inr res \<Longrightarrow> hashes_hold rt (pl_workingSet res) (pl_transition res)"
  by (auto simp: planWorkingSet_def plan_result_def hashes_hold_def Let_def split: if_splits)

text \<open>
  A native context whose calls and results match: calls are made by assistant messages only,
  with an id, and the calls made are the calls answered.
\<close>

definition well_paired :: "pi_message list \<Rightarrow> bool" where
  "well_paired ms \<longleftrightarrow>
     (\<forall>m\<in>set ms. entry_calls m \<noteq> [] \<longrightarrow> pm_role m = ''assistant'') \<and> [] \<notin> set (composed_calls ms)
     \<and> set (composed_calls ms) = set (composed_results ms)"

lemma entry_calls_iff:
  "i \<in> set (entry_calls m) \<longleftrightarrow>
     (\<exists>es. pm_content m = Some (Entries es) \<and> (\<exists>e\<in>set es. block_type e = ''toolCall'' \<and> string_field ''id'' e = Some i))"
proof (cases "pm_content m")
  case (Some content)
  then show ?thesis by (cases content) (auto simp: entry_calls_def content_entries_def set_map_filter split: if_splits)
qed (simp add: entry_calls_def content_entries_def List.map_filter_simps)

lemma calls_of_entry: "i \<in> set (calls_of m) \<longleftrightarrow> pm_role m = ''assistant'' \<and> i \<noteq> [] \<and> i \<in> set (entry_calls m)"
  by (auto simp: calls_of_iff entry_calls_iff call_id_Some)

lemma rewrite_entries:
  "rewrite_message removed m = Some m' \<Longrightarrow> set (entry_calls m') \<subseteq> set (entry_calls m)"
  by (auto simp: rewrite_message_def Let_def entry_calls_iff split: if_splits option.splits pi_content.splits)

lemma paired_calls:
  assumes "\<forall>m\<in>set ms. entry_calls m \<noteq> [] \<longrightarrow> pm_role m = ''assistant''" and "[] \<notin> set (composed_calls ms)"
  shows "set (composed_calls ms) = set (tool_calls ms)"
  using assms by (fastforce simp: composed_calls_def tool_calls_eq calls_of_entry)

lemma rewritten_paired:
  assumes "\<forall>m\<in>set ms. entry_calls m \<noteq> [] \<longrightarrow> pm_role m = ''assistant''" and "[] \<notin> set (composed_calls ms)"
  shows "set (composed_calls (List.map_filter (rewrite_message removed) ms)) =
    set (tool_calls (List.map_filter (rewrite_message removed) ms))"
proof (rule paired_calls)
  show "\<forall>m\<in>set (List.map_filter (rewrite_message removed) ms). entry_calls m \<noteq> [] \<longrightarrow> pm_role m = ''assistant''"
    using assms(1) rewrite_entries rewrite_Some(1) by (fastforce simp: set_map_filter)
  show "[] \<notin> set (composed_calls (List.map_filter (rewrite_message removed) ms))"
    using assms(2) rewrite_entries by (fastforce simp: set_map_filter composed_calls_def)
qed

text \<open>
  C32. What the composer makes of a plan of policy V0 under the switch of the run, the guard
  refuses for one reason only: that the messages of the composition hold a call without a result
  or a result without a call. Then it refuses with \<open>TOOL_PAIR_SPLIT\<close>; otherwise it lets the
  composition pass and leaves the switch alone. The former does not happen when the native
  context is well paired: only assistant messages make calls, with ids that are not empty, and
  the calls made are exactly the calls answered.
\<close>

theorem guard_accepts_composition:
  assumes "planWorkingSet rt universe request previous options = Inr res"
    and "ci_workingSet inp = pl_workingSet res" and "ci_transition inp = pl_transition res"
    and "composeActiveRewrite rt inp = (REWRITE_READY c, ks)" and "ks_runId ks = ci_runId inp"
  shows "assertRewriteSafe rt time (REWRITE_READY c) ks =
      (if composedToolPairsIntact c then (GuardOk, ks)
       else guard_fail time ks TOOL_PAIR_SPLIT (Some ''composed output contains a split tool pair''))
    \<and> (well_paired (ci_messages inp) \<longrightarrow> composedToolPairsIntact c)"
proof -
  obtain analysis st where plan: "plan_rewrite rt inp = Inr (analysis, st)" and c: "c = rewrite_of rt inp analysis st"
    and ks: "\<not> isTripped ks" using assms(4) by (rule ready_accepted)
  note p = accepted_plan [OF plan] and settled = accepted_settled [OF plan]
  have hold: "hashes_hold rt (ci_workingSet inp) (ci_transition inp)"
    unfolding assms(2,3) by (rule planWorkingSet_hashes [OF assms(1)])
  let ?ms = "List.map_filter (rewrite_message (removed_keys (ci_transition inp))) (ci_messages inp)"
  have ms: "rw_messages c = ?ms" by (simp add: c rewrite_of_def Let_def settled_composed [OF settled(1)])
  have pairs: "composedToolPairsIntact c" if "well_paired (ci_messages inp)"
  proof -
    have w: "\<forall>m\<in>set (ci_messages inp). entry_calls m \<noteq> [] \<longrightarrow> pm_role m = ''assistant''" "[] \<notin> set (composed_calls (ci_messages inp))"
        "set (tool_calls (ci_messages inp)) = set (composed_results (ci_messages inp))"
      using that paired_calls [of "ci_messages inp"] by (auto simp: well_paired_def)
    have "set (composed_calls ?ms) = set (composed_results ?ms)"
      using pair_together [OF settled(1) p(7)] w(3)
      by (auto simp: rewritten_paired [OF w(1,2)] rewrite_calls rewrite_results)
    then show ?thesis by (auto simp: composedToolPairsIntact_def ms list_all_iff)
  qed
  have roles: "\<not> list_ex (\<lambda>m. pm_role m = ''system'') (rw_messages c)"
    using roles_checked(1) [OF p(3)] rewrite_Some(1) by (fastforce simp: ms list_ex_iff set_map_filter)
  have bound: "rederiveWorkingSetHash rt c = ws_logicalHash (ci_workingSet inp)"
    "rederiveTransitionHash rt c = ct_logicalHash (ci_transition inp)"
    using hold by (simp_all add: c rewrite_of_def Let_def hashes_hold_def rederiveWorkingSetHash_def rederiveTransitionHash_def)
  have "bi_runId (rw_binding c) = ks_runId ks" "rw_systemInstruction c \<noteq> []" "pf_optIn (rw_plannedFrom c)"
    "bi_workingSetLogicalHash (rw_binding c) = ws_logicalHash (ci_workingSet inp)"
    "bi_transitionLogicalHash (rw_binding c) = ct_logicalHash (ci_transition inp)"
    "pf_workingSet (rw_plannedFrom c) = ci_workingSet inp" "pf_transition (rw_plannedFrom c) = ci_transition inp"
    "activeSystemInstructionHash rt (rw_systemInstruction c) = rw_systemInstructionHash c"
    "activeMessagesHash rt (rw_messages c) = rw_messagesHash c"
    "activeCompositionHash rt (rw_systemInstructionHash c) (rw_messagesHash c) = rw_compositionHash c"
    using assms(5) p(4) by (simp_all add: c rewrite_of_def Let_def)
  with ks pairs roles bound show ?thesis by (simp add: assertRewriteSafe_def)
qed

lemma two_calls_paired: "well_paired two_calls"
  by code_simp

text \<open>A plan for the run of two calls: all was active, now the first call and its result are excluded.\<close>

definition terse :: runtime where
  "terse = plain\<lparr>rt_sha256Hex := (\<lambda>s. ''h'')\<rparr>"

definition call_keys :: "string list" where
  "call_keys = [tool_call_key ''c1'', tool_result_key ''c1'', tool_call_key ''c2'', tool_result_key ''c2'']"

definition call_sources :: context_revision where
  "call_sources = seedUniverse terse ''s'' (map (\<lambda>k.
     \<lparr>sd_sourceKey = k, sd_sourceKind = ''k'', sd_contentHash = ''h'', sd_authority = None, sd_priority = None,
      sd_provenance = ''p'', sd_observedAt = ''t''\<rparr>) call_keys)"

definition call_options :: policy_options where
  "call_options = \<lparr>po_policyVersion = ''v0'', po_createdAt = ''t'',
     po_represent = (\<lambda>e. map_option (\<lambda>v.
       \<lparr>rp_id = cv_versionId v, rp_kind = RK_FULL, rp_sourceVersionIds = [], rp_contentHash = ''h'',
        rp_tokenEstimate = 1, rp_lossiness = LS_NONE, rp_derivation = JNull, rp_content = None, rp_contentRef = None\<rparr>)
       (ce_admittedVersion e)), po_protectionOf = None\<rparr>"

definition call_request :: planning_request where
  "call_request = \<lparr>pq_runtimeSessionId = ''s'', pq_recompositionSequence = 2, pq_taskPhase = None,
     pq_maxSemanticTokens = Finite 9, pq_pinnedSourceKeys = [], pq_excludedSourceKeys = [tool_call_key ''c1'', tool_result_key ''c1''],
     pq_currentTargetSourceKeys = [], pq_latestVerificationSourceKeys = [], pq_recentEvidenceSourceKeys = [],
     pq_sourceLifecycleSignals = None, pq_removalHistory = None, pq_representationNeeds = None,
     pq_previousWorkingSetId = None\<rparr>"

definition all_calls :: working_set where
  "all_calls = kept_set\<lparr>ws_workingSetId := ''w1'', ws_previousWorkingSetId := None,
     ws_items := map (\<lambda>k. kept_item\<lparr>wi_sourceKeys := [k], wi_sourceVersionIds := []\<rparr>) call_keys\<rparr>"

text \<open>What the policy answers, written out.\<close>

definition planned_decisions :: "decision list" where
  "planned_decisions = map (\<lambda>k. \<lparr>dc_decisionId = ''h'', dc_kind = DK_REMOVE, dc_sourceKey = k, dc_sourceVersionId = None,
        dc_representationId = ''r'', dc_fromWorkingSetId = Some ''w1'', dc_toWorkingSetId = ''working-set:s:2:h'',
        dc_reasonCodes = [EXPLICIT_EXCLUDE], dc_policyVersion = ''v0'', dc_tokenDelta = -2\<rparr>)
       [tool_call_key ''c1'', tool_result_key ''c1'']
     @ map (\<lambda>k. \<lparr>dc_decisionId = ''h'', dc_kind = DK_REPLACE, dc_sourceKey = k, dc_sourceVersionId = Some ''h'',
        dc_representationId = ''h'', dc_fromWorkingSetId = Some ''w1'', dc_toWorkingSetId = ''working-set:s:2:h'',
        dc_reasonCodes = [SOURCE_VERSION_ADVANCED, PREVIOUSLY_ACTIVE], dc_policyVersion = ''v0'', dc_tokenDelta = -1\<rparr>)
       [tool_call_key ''c2'', tool_result_key ''c2'']"

definition planned_set :: working_set where
  "planned_set =
     \<lparr>ws_workingSetId = ''working-set:s:2:h'', ws_runtimeSessionId = ''s'', ws_sequence = 2,
      ws_plannedFromUniverseSequence = 0, ws_plannedFromUniverseHash = ''h'', ws_previousWorkingSetId = Some ''w1'',
      ws_policyVersion = ''v0'', ws_planningRequestHash = ''h'',
      ws_items = map (\<lambda>(n, k). \<lparr>wi_position = n, wi_representationId = ''h'', wi_representationKind = Some ''FULL'',
        wi_sourceKeys = [k], wi_sourceVersionIds = [], wi_authority = ''REFERENCE'', wi_baselinePriority = None,
        wi_protection = PR_NORMAL, wi_tokenEstimate = 1, wi_inclusionReasonCodes = [PREVIOUSLY_ACTIVE]\<rparr>)
       [(0, tool_call_key ''c2''), (1, tool_result_key ''c2'')],
      ws_totalTokenEstimate = 2, ws_maxSemanticTokens = Finite 9, ws_logicalHash = ''h'', ws_createdAt = ''t''\<rparr>"

definition planned_transition :: context_transition where
  "planned_transition =
     \<lparr>ct_transitionId = ''transition:working-set:s:2:h'', ct_runtimeSessionId = ''s'', ct_sequence = 2,
      ct_fromWorkingSetId = Some ''w1'', ct_toWorkingSetId = ''working-set:s:2:h'', ct_orderedDecisions = planned_decisions,
      ct_fromTokenEstimate = 2, ct_toTokenEstimate = 2, ct_policyVersion = ''v0'', ct_logicalHash = ''h''\<rparr>"

definition planned_result :: planner_result where
  "planned_result = \<lparr>pl_workingSet = planned_set, pl_decisions = planned_decisions, pl_transition = planned_transition\<rparr>"

lemma call_plan_result: "planWorkingSet terse call_sources call_request (Some all_calls) call_options = Inr planned_result"
  by code_simp

definition planned_input :: compose_input where
  "planned_input = active_input\<lparr>ci_workingSet := planned_set, ci_transition := planned_transition\<rparr>"

lemma planned_input_accepted: "\<not> isl (plan_rewrite terse planned_input)"
  by code_simp

theorem guard_accepts_composition_witness:
  "\<exists>c ks. composeActiveRewrite terse planned_input = (REWRITE_READY c, ks)
     \<and> assertRewriteSafe terse ''t'' (REWRITE_READY c) ks = (GuardOk, ks)"
proof -
  obtain a st where "plan_rewrite terse planned_input = Inr (a, st)"
    using planned_input_accepted by (cases "plan_rewrite terse planned_input") auto
  then obtain c where c: "composeActiveRewrite terse planned_input = (REWRITE_READY c, \<lparr>ks_runId = ''run'', ks_record = None\<rparr>)"
    by (simp add: composeActiveRewrite_def planned_input_def active_input_def isTripped_def Let_def)
  have "well_paired (ci_messages planned_input)" using two_calls_paired by (simp add: planned_input_def active_input_def)
  with guard_accepts_composition [OF call_plan_result _ _ c, of "''t''"] c show ?thesis
    by (auto simp: planned_input_def planned_result_def active_input_def)
qed

section \<open>Failing closed\<close>

lemma trip_tripped [simp]: "isTripped (trip time reason ks)"
  by (simp add: trip_def isTripped_def split: option.split)

lemma trip_again: "isTripped ks \<Longrightarrow> trip time reason ks = ks"
  by (auto simp: trip_def isTripped_def)

lemma guard_refuses: "isTripped ks \<Longrightarrow> \<exists>f. assertRewriteSafe rt time c ks = (GuardFallback f, ks)"
  by (cases c) (simp_all add: assertRewriteSafe_def guard_fail_def trip_again)

lemma composer_refuses:
  "isTripped (ci_killSwitch inp) \<Longrightarrow> \<exists>f. composeActiveRewrite rt inp = (FALLBACK_NATIVE f, ci_killSwitch inp)"
  by (auto simp: composeActiveRewrite_def plan_rewrite_def check_then_def refuse_if_def)

text \<open>
  C33. The guard fails closed and for good: when it refuses a composition, whatever the reason,
  the switch of the run is tripped afterwards, and from then on every composition attempted
  with that switch is a fallback to the native context, every later use of the guard refuses,
  and the record of the first failure stays.
\<close>

theorem guard_fails_closed:
  assumes "assertRewriteSafe rt time c ks = (GuardFallback f, ks')"
  shows "isTripped ks' \<and> ks_runId ks' = ks_runId ks
    \<and> (\<forall>rt' inp. ci_killSwitch inp = ks' \<longrightarrow> (\<exists>f'. composeActiveRewrite rt' inp = (FALLBACK_NATIVE f', ks')))
    \<and> (\<forall>rt' time' c'. \<exists>f'. assertRewriteSafe rt' time' c' ks' = (GuardFallback f', ks'))
    \<and> (\<forall>time' reason. trip time' reason ks' = ks')"
proof -
  have "isTripped ks' \<and> ks_runId ks' = ks_runId ks"
    using assms by (auto simp: assertRewriteSafe_def guard_fail_def trip_def isTripped_def Let_def
      split: composition.splits if_splits option.splits)
  then show ?thesis using guard_refuses composer_refuses trip_again by metis
qed

theorem guard_fails_closed_witness:
  "\<exists>f ks. assertRewriteSafe plain ''t'' (FALLBACK_NATIVE (fallback_for TOOL_PAIR_SPLIT ''x'')) \<lparr>ks_runId = ''run'', ks_record = None\<rparr>
       = (GuardFallback f, ks) \<and> isTripped ks
     \<and> (\<exists>f'. composeActiveRewrite plain (active_input\<lparr>ci_killSwitch := ks\<rparr>) = (FALLBACK_NATIVE f', ks))"
proof -
  obtain f ks where *: "assertRewriteSafe plain ''t'' (FALLBACK_NATIVE (fallback_for TOOL_PAIR_SPLIT ''x''))
      \<lparr>ks_runId = ''run'', ks_record = None\<rparr> = (GuardFallback f, ks)"
    by (simp add: assertRewriteSafe_def guard_fail_def)
  with guard_fails_closed [OF *] show ?thesis by force
qed

end
