(* ===== verification/Workspace_Runtime.thy ===== *)
theory Workspace_Runtime
  imports Json
begin

text \<open>
  The owner of the open workspace (\<open>apps/desktop/src/main/workspace-runtime-manager.ts\<close>):
  commands take a lease on the runtime that is ready, runs are counted apart, opening another
  repository and closing wait until no lease is left, and a change of the agent configuration
  excludes runs.

  JavaScript runs one continuation at a time, from one \<open>await\<close> to the next. The model has a
  step per such piece of code; where an operation waits it stands at a control point
  (\<open>op_point\<close>), and what it waits for (the picker, the settings file, git, the file system,
  SQLite, the worker host) answers with an event. The commands in flight are the calls that
  hold a lease.
\<close>

section \<open>Data\<close>

record active_runtime =
  ar_id :: nat
  ar_identity :: string
  ar_repositoryPath :: string

datatype workspace_error_reason =
  PATH_UNREADABLE | NOT_GIT_WORKTREE | MISSING_HEAD | RUNTIME_NOT_WRITABLE | SETTINGS_INVALID | DATABASE_OPEN_FAILED
| WORKER_DISPOSE_FAILED | ACTIVE_RUN_BLOCKS_SWITCH | OPERATION_IN_PROGRESS | PICKER_FAILED | UNKNOWN

fun workspace_error_reason_str :: "workspace_error_reason \<Rightarrow> string" where
  "workspace_error_reason_str PATH_UNREADABLE = ''PATH_UNREADABLE''"
| "workspace_error_reason_str NOT_GIT_WORKTREE = ''NOT_GIT_WORKTREE''"
| "workspace_error_reason_str MISSING_HEAD = ''MISSING_HEAD''"
| "workspace_error_reason_str RUNTIME_NOT_WRITABLE = ''RUNTIME_NOT_WRITABLE''"
| "workspace_error_reason_str SETTINGS_INVALID = ''SETTINGS_INVALID''"
| "workspace_error_reason_str DATABASE_OPEN_FAILED = ''DATABASE_OPEN_FAILED''"
| "workspace_error_reason_str WORKER_DISPOSE_FAILED = ''WORKER_DISPOSE_FAILED''"
| "workspace_error_reason_str ACTIVE_RUN_BLOCKS_SWITCH = ''ACTIVE_RUN_BLOCKS_SWITCH''"
| "workspace_error_reason_str OPERATION_IN_PROGRESS = ''OPERATION_IN_PROGRESS''"
| "workspace_error_reason_str PICKER_FAILED = ''PICKER_FAILED''"
| "workspace_error_reason_str UNKNOWN = ''UNKNOWN''"

record operation_error =
  we_reasonCode :: workspace_error_reason
  we_message :: string
  we_recoverable :: bool

definition toError :: "workspace_error_reason \<Rightarrow> string \<Rightarrow> bool \<Rightarrow> operation_error" where
  "toError reasonCode message recoverable =
     \<lparr>we_reasonCode = reasonCode,
      we_message = (if message \<noteq> [] then message else workspace_error_reason_str reasonCode),
      we_recoverable = recoverable\<rparr>"

datatype runtime_state =
  WS_CLOSED
| WS_OPENING "active_runtime option"
| WS_READY active_runtime
| WS_CLOSING active_runtime
| WS_ERROR

text \<open>
  Where the operation in progress waits. \<open>OpenWaiting\<close> and \<open>CloseWaiting\<close> are the promise of
  \<open>waitForIdle\<close>; \<open>Finishing\<close> is the return from \<open>doOpen\<close> before the \<open>finally\<close> of its caller.
\<close>

datatype op_point =
  Picking
| ReadingSettings
| OpenWaiting string "active_runtime option"
| OpenIdle string "active_runtime option"
| OpenValidated "active_runtime option" string
| OpenAssembled "active_runtime option" active_runtime
| OpenAborting "active_runtime option" active_runtime workspace_error_reason string
| OpenReplacing active_runtime active_runtime
| CloseWaiting active_runtime
| CloseIdle active_runtime
| CloseDisposing active_runtime
| Finishing

text \<open>
  The fields of the class; \<open>mg_ops\<close> and \<open>mg_calls\<close> are the suspended continuations. An operation
  that was called and has not returned is in \<open>mg_ops\<close> with a number and the place where it waits;
  there is no bound on how many there are, and \<open>idleWaiter\<close> is the number of the one whose promise
  it resolves. A call has the runtime it was given and whether it is a run. \<open>mg_configPending\<close> are
  the changes queued on \<open>configChangeTail\<close>, \<open>mg_disposed\<close> the runtimes whose database was closed,
  or whose closing threw.
\<close>

record manager =
  mg_state :: runtime_state
  mg_lastError :: "operation_error option"
  mg_transitioning :: bool
  mg_activeRuns :: int
  mg_leaseCount :: int
  mg_idleWaiter :: "nat option"
  mg_configChanging :: bool
  mg_configPending :: nat
  mg_ops :: "(nat \<times> op_point) list"
  mg_calls :: "(active_runtime \<times> bool) list"
  mg_disposed :: "nat list"
  mg_nextId :: nat
  mg_nextOp :: nat

definition new_manager :: manager where
  "new_manager =
     \<lparr>mg_state = WS_CLOSED, mg_lastError = None, mg_transitioning = False, mg_activeRuns = 0, mg_leaseCount = 0,
      mg_idleWaiter = None, mg_configChanging = False, mg_configPending = 0, mg_ops = [], mg_calls = [],
      mg_disposed = [], mg_nextId = 0, mg_nextOp = 0\<rparr>"

text \<open>What the manager takes from outside: the digest and the place of a workspace's files.\<close>

record manager_config =
  cf_sha256Hex :: "string \<Rightarrow> string"
  cf_runtimeDirectory :: "string \<Rightarrow> string"

definition workspaceIdentity :: "manager_config \<Rightarrow> string \<Rightarrow> string" where
  "workspaceIdentity cfg canonicalPath = cf_sha256Hex cfg canonicalPath"

section \<open>What the manager reports\<close>

definition path_separator :: "char \<Rightarrow> bool" where
  "path_separator c \<longleftrightarrow> c = CHR ''/'' \<or> c = CHR 0x5C"

definition repositoryName :: "string \<Rightarrow> string" where
  "repositoryName canonicalPath =
     (let trimmed = rev (dropWhile path_separator (rev canonicalPath));
          name = rev (takeWhile (\<lambda>c. \<not> path_separator c) (rev trimmed))
      in if name \<noteq> [] then name else canonicalPath)"

fun currentRuntime :: "runtime_state \<Rightarrow> active_runtime option" where
  "currentRuntime (WS_READY r) = Some r"
| "currentRuntime (WS_CLOSING r) = Some r"
| "currentRuntime (WS_OPENING held) = held"
| "currentRuntime WS_CLOSED = None"
| "currentRuntime WS_ERROR = None"

datatype workspace_lifecycle = LC_CLOSED | LC_OPENING | LC_READY | LC_CLOSING | LC_ERROR

fun publicState :: "runtime_state \<Rightarrow> workspace_lifecycle" where
  "publicState WS_CLOSED = LC_CLOSED"
| "publicState (WS_OPENING held) = LC_OPENING"
| "publicState (WS_READY r) = LC_READY"
| "publicState (WS_CLOSING r) = LC_CLOSING"
| "publicState WS_ERROR = LC_ERROR"

record workspace_summary =
  su_identity :: string
  su_repositoryName :: string
  su_displayPath :: string

record workspace_status =
  wt_state :: workspace_lifecycle
  wt_activeWorkspace :: "workspace_summary option"
  wt_lastError :: "operation_error option"

definition activeSummary :: "manager \<Rightarrow> workspace_summary option" where
  "activeSummary m =
     map_option (\<lambda>r. \<lparr>su_identity = ar_identity r, su_repositoryName = repositoryName (ar_repositoryPath r),
       su_displayPath = ar_repositoryPath r\<rparr>) (currentRuntime (mg_state m))"

definition status :: "manager \<Rightarrow> workspace_status" where
  "status m =
     \<lparr>wt_state = publicState (mg_state m), wt_activeWorkspace = activeSummary m, wt_lastError = mg_lastError m\<rparr>"

definition operationInProgress :: "manager \<Rightarrow> workspace_status" where
  "operationInProgress m =
     (status m)\<lparr>wt_lastError := Some (toError OPERATION_IN_PROGRESS ''a workspace operation is already in progress'' True)\<rparr>"

section \<open>Leases\<close>

definition getReadyRuntime :: "manager \<Rightarrow> active_runtime option" where
  "getReadyRuntime m = (case mg_state m of WS_READY r \<Rightarrow> Some r | _ \<Rightarrow> None)"

definition hasActiveRuns :: "manager \<Rightarrow> bool" where
  "hasActiveRuns m \<longleftrightarrow> mg_activeRuns m > 0"

text \<open>\<open>None\<close>: the command is refused, the workspace is not ready.\<close>

definition acquireLease :: "manager \<Rightarrow> (active_runtime \<times> manager) option" where
  "acquireLease m =
     map_option (\<lambda>r. (r, m\<lparr>mg_leaseCount := mg_leaseCount m + 1\<rparr>)) (getReadyRuntime m)"

text \<open>The waiter is the operation that stands at \<open>waitForIdle\<close>; resolving it lets it go on.\<close>

fun resume :: "op_point \<Rightarrow> op_point" where
  "resume (OpenWaiting rawPath held) = OpenIdle rawPath held"
| "resume (CloseWaiting r) = CloseIdle r"
| "resume p = p"

definition releaseLease :: "manager \<Rightarrow> manager" where
  "releaseLease m =
     (let m' = m\<lparr>mg_leaseCount := mg_leaseCount m - 1\<rparr> in
      if mg_leaseCount m' = 0
      then (case mg_idleWaiter m' of
              None \<Rightarrow> m'
            | Some i \<Rightarrow> m'\<lparr>mg_idleWaiter := None,
                mg_ops := map (\<lambda>x. if fst x = i then (i, resume (snd x)) else x) (mg_ops m')\<rparr>)
      else m')"

text \<open>
  What a piece of an operation leaves: the place where the operation waits next, \<open>None\<close> when it has
  returned, and the state.
\<close>

type_synonym piece = "op_point option \<times> manager"

definition goto :: "op_point \<Rightarrow> manager \<Rightarrow> piece" where
  "goto p m = (Some p, m)"

text \<open>\<open>waitForIdle\<close>, called by operation \<open>i\<close>, which goes on at \<open>idle\<close> and waits at \<open>waiting\<close>.\<close>

definition waitForIdle :: "nat \<Rightarrow> op_point \<Rightarrow> op_point \<Rightarrow> manager \<Rightarrow> piece" where
  "waitForIdle i idle waiting m =
     (if mg_leaseCount m = 0 then goto idle m else goto waiting (m\<lparr>mg_idleWaiter := Some i\<rparr>))"

definition withReadyRuntime_begin :: "manager \<Rightarrow> manager" where
  "withReadyRuntime_begin m =
     (case acquireLease m of
        None \<Rightarrow> m
      | Some (r, m') \<Rightarrow> m'\<lparr>mg_calls := mg_calls m' @ [(r, False)]\<rparr>)"

definition withActiveRun_begin :: "manager \<Rightarrow> manager" where
  "withActiveRun_begin m =
     (if mg_configChanging m then m
      else case acquireLease m of
          None \<Rightarrow> m
        | Some (r, m') \<Rightarrow> m'\<lparr>mg_activeRuns := mg_activeRuns m' + 1, mg_calls := mg_calls m' @ [(r, True)]\<rparr>)"

text \<open>The \<open>finally\<close> of the call at place \<open>n\<close>.\<close>

definition call_end :: "nat \<Rightarrow> manager \<Rightarrow> manager option" where
  "call_end n m =
     (if n < length (mg_calls m)
      then (let isRun = snd (mg_calls m ! n);
                m' = m\<lparr>mg_calls := take n (mg_calls m) @ drop (Suc n) (mg_calls m),
                       mg_activeRuns := (if isRun then mg_activeRuns m - 1 else mg_activeRuns m)\<rparr>
            in Some (releaseLease m'))
      else None)"

section \<open>Changes of the agent configuration\<close>

definition withConfigurationChange :: "manager \<Rightarrow> manager" where
  "withConfigurationChange m =
     (if mg_activeRuns m > 0 then m else m\<lparr>mg_configPending := mg_configPending m + 1\<rparr>)"

definition config_begin :: "manager \<Rightarrow> manager option" where
  "config_begin m =
     (if mg_configPending m = 0 \<or> mg_configChanging m then None
      else if mg_activeRuns m > 0 then Some (m\<lparr>mg_configPending := mg_configPending m - 1\<rparr>)
      else Some (m\<lparr>mg_configChanging := True, mg_configPending := mg_configPending m - 1\<rparr>))"

definition config_end :: "manager \<Rightarrow> manager option" where
  "config_end m = (if mg_configChanging m then Some (m\<lparr>mg_configChanging := False\<rparr>) else None)"

section \<open>Opening and closing\<close>

definition setState :: "runtime_state \<Rightarrow> manager \<Rightarrow> manager" where
  "setState s m = m\<lparr>mg_state := s\<rparr>"

definition failOpen :: "active_runtime option \<Rightarrow> workspace_error_reason \<Rightarrow> string \<Rightarrow> manager \<Rightarrow> manager" where
  "failOpen held reasonCode message m =
     (setState (case held of Some r \<Rightarrow> WS_READY r | None \<Rightarrow> WS_ERROR) m)
       \<lparr>mg_lastError := Some (toError reasonCode message True)\<rparr>"

text \<open>The \<open>finally\<close> of an operation.\<close>

definition operation_end :: "manager \<Rightarrow> piece" where
  "operation_end m = (None, m\<lparr>mg_transitioning := False\<rparr>)"

text \<open>An operation is called: it runs up to its first \<open>await\<close>, or returns.\<close>

definition launch :: "(nat \<Rightarrow> manager \<Rightarrow> piece) \<Rightarrow> manager \<Rightarrow> manager" where
  "launch body m =
     (let i = mg_nextOp m; (point, m') = body i (m\<lparr>mg_nextOp := i + 1\<rparr>)
      in case point of None \<Rightarrow> m' | Some p \<Rightarrow> m'\<lparr>mg_ops := mg_ops m' @ [(i, p)]\<rparr>)"

text \<open>Operation \<open>i\<close> went on.\<close>

definition moved :: "nat \<Rightarrow> piece \<Rightarrow> manager" where
  "moved i piece =
     (case piece of
        (None, m) \<Rightarrow> m\<lparr>mg_ops := filter (\<lambda>x. fst x \<noteq> i) (mg_ops m)\<rparr>
      | (Some p, m) \<Rightarrow> m\<lparr>mg_ops := map (\<lambda>x. if fst x = i then (i, p) else x) (mg_ops m)\<rparr>)"

definition closeDatabase :: "active_runtime \<Rightarrow> manager \<Rightarrow> manager" where
  "closeDatabase r m = m\<lparr>mg_disposed := ar_id r # mg_disposed m\<rparr>"

definition doOpen :: "nat \<Rightarrow> string \<Rightarrow> manager \<Rightarrow> piece" where
  "doOpen i rawPath m =
     (let held = currentRuntime (mg_state m) in
      if mg_activeRuns m > 0
      then goto Finishing (failOpen held ACTIVE_RUN_BLOCKS_SWITCH
             ''an execution is active; switching is blocked until it finishes'' m)
      else waitForIdle i (OpenIdle rawPath held) (OpenWaiting rawPath held) (setState (WS_OPENING held) m))"

text \<open>\<open>openPath\<close>, \<open>chooseRepository\<close> and \<open>reopenLast\<close> up to their first \<open>await\<close>.\<close>

definition openPath :: "string \<Rightarrow> manager \<Rightarrow> manager" where
  "openPath rawPath m =
     (if mg_transitioning m then m
      else launch (\<lambda>i m. doOpen i rawPath (m\<lparr>mg_transitioning := True\<rparr>)) m)"

definition chooseRepository :: "manager \<Rightarrow> manager" where
  "chooseRepository m =
     (if mg_transitioning m then m
      else launch (\<lambda>i m. goto Picking (m\<lparr>mg_transitioning := True\<rparr>)) m)"

definition reopenLast :: "manager \<Rightarrow> manager" where
  "reopenLast m =
     (if mg_transitioning m then m
      else launch (\<lambda>i m. goto ReadingSettings (m\<lparr>mg_transitioning := True\<rparr>)) m)"

definition startup :: "string option \<Rightarrow> manager \<Rightarrow> manager" where
  "startup bootstrapPath m = (case bootstrapPath of Some p \<Rightarrow> openPath p m | None \<Rightarrow> reopenLast m)"

definition close_begin :: "nat \<Rightarrow> manager \<Rightarrow> piece" where
  "close_begin i m =
     (case currentRuntime (mg_state m) of
        None \<Rightarrow> operation_end ((setState WS_CLOSED m)\<lparr>mg_lastError := None\<rparr>)
      | Some r \<Rightarrow>
          if mg_activeRuns m > 0
          then operation_end ((setState (WS_READY r) m)\<lparr>mg_lastError := Some (toError ACTIVE_RUN_BLOCKS_SWITCH
                  ''an execution is active; close is blocked until it finishes'' True)\<rparr>)
          else waitForIdle i (CloseIdle r) (CloseWaiting r) (setState (WS_CLOSING r) m))"

definition close :: "manager \<Rightarrow> manager" where
  "close m =
     (if mg_transitioning m then m
      else launch (\<lambda>i m. close_begin i (m\<lparr>mg_transitioning := True\<rparr>)) m)"

definition dispose_error :: "string option \<Rightarrow> operation_error option" where
  "dispose_error workerError =
     map_option (\<lambda>e. toError WORKER_DISPOSE_FAILED (''worker dispose failed: '' @ e) True) workerError"

text \<open>The candidate that is assembled once the database is open and the worker host exists.\<close>

definition candidate_for :: "manager_config \<Rightarrow> string \<Rightarrow> manager \<Rightarrow> active_runtime" where
  "candidate_for cfg canonical m =
     \<lparr>ar_id = mg_nextId m, ar_identity = workspaceIdentity cfg canonical, ar_repositoryPath = canonical\<rparr>"

section \<open>Steps\<close>

datatype op_answer =
  PickerFailed string | PickerCancelled | PickerChose string
| SettingsInvalid string | SettingsEmpty | SettingsRead string
| ValidationFailed workspace_error_reason string | Validated string
| DirectoryFailed | DatabaseFailed string | HostFailed string bool | Assembled
| SettingsWritten | SettingsWriteFailed bool string
| WaitOver | HostDisposed "string option" bool
| Finished

datatype manager_event =
  CommandBegins | RunBegins | CallEnds nat
| ConfigRequested | ConfigBegins | ConfigEnds
| OpenRequested string | ChooseRequested | ReopenRequested | CloseRequested
| Answered nat op_answer

text \<open>
  The \<open>catch\<close> of \<open>doOpen\<close> closes the database of the candidate before it reports the failure.
  When that throws, \<open>failOpen\<close> is not reached: the exception leaves \<open>doOpen\<close>, the \<open>finally\<close> of the
  caller resets \<open>transitioning\<close>, and the state is left as it is.
\<close>

definition abandon :: "active_runtime option \<Rightarrow> active_runtime \<Rightarrow> workspace_error_reason \<Rightarrow> string \<Rightarrow> bool \<Rightarrow> manager \<Rightarrow> piece" where
  "abandon held candidate reason d closeThrows m =
     (let m' = closeDatabase candidate m in
      goto Finishing (if closeThrows then m' else failOpen held reason (''workspace open failed: '' @ d) m'))"

text \<open>
  An answer to the operation that stands at a control point. The failure of a database or a
  worker host carries the description of what was thrown; a worker host that could not be made
  leaves an open database behind, which is closed. The flag of \<open>HostFailed\<close> and of \<open>HostDisposed\<close>
  says whether the \<open>closeDatabase\<close> that follows throws; \<open>disposeRuntime\<close> logs that and goes on. A
  failure to store the settings says whether it is a \<open>SettingsWriteError\<close>.
\<close>

definition answer :: "manager_config \<Rightarrow> nat \<Rightarrow> op_point \<Rightarrow> op_answer \<Rightarrow> manager \<Rightarrow> piece option" where
  "answer cfg i p e m =
     (case p of
        Picking \<Rightarrow>
          (case e of
             PickerFailed d \<Rightarrow> Some (operation_end (failOpen (currentRuntime (mg_state m)) PICKER_FAILED
               (''repository picker failed: '' @ d) m))
           | PickerCancelled \<Rightarrow> Some (operation_end m)
           | PickerChose path \<Rightarrow> Some (doOpen i path m)
           | _ \<Rightarrow> None)
      | ReadingSettings \<Rightarrow>
          (case e of
             SettingsInvalid d \<Rightarrow> Some (operation_end (failOpen (currentRuntime (mg_state m)) SETTINGS_INVALID d m))
           | SettingsEmpty \<Rightarrow> Some (operation_end m)
           | SettingsRead path \<Rightarrow> Some (doOpen i path m)
           | _ \<Rightarrow> None)
      | OpenIdle rawPath held \<Rightarrow>
          (case e of
             ValidationFailed reason d \<Rightarrow> Some (goto Finishing (failOpen held reason d m))
           | Validated canonical \<Rightarrow> Some (goto (OpenValidated held canonical) m)
           | _ \<Rightarrow> None)
      | OpenValidated held canonical \<Rightarrow>
          (let candidate = candidate_for cfg canonical m; m' = m\<lparr>mg_nextId := mg_nextId m + 1\<rparr> in
           case e of
             DirectoryFailed \<Rightarrow> Some (goto Finishing (failOpen held RUNTIME_NOT_WRITABLE
               (''runtime directory is not writable: '' @ cf_runtimeDirectory cfg (workspaceIdentity cfg canonical)) m))
           | DatabaseFailed d \<Rightarrow> Some (goto Finishing (failOpen held DATABASE_OPEN_FAILED (''database open failed: '' @ d) m))
           | HostFailed d closeThrows \<Rightarrow> Some (abandon held candidate UNKNOWN d closeThrows m')
           | Assembled \<Rightarrow> Some (goto (OpenAssembled held candidate) m')
           | _ \<Rightarrow> None)
      | OpenAssembled held candidate \<Rightarrow>
          (case e of
             SettingsWriteFailed writeError d \<Rightarrow> Some (goto (OpenAborting held candidate
               (if writeError then RUNTIME_NOT_WRITABLE else UNKNOWN) d) m)
           | SettingsWritten \<Rightarrow> Some (case held of
                 None \<Rightarrow> goto Finishing ((setState (WS_READY candidate) m)\<lparr>mg_lastError := None\<rparr>)
               | Some r \<Rightarrow> goto (OpenReplacing r candidate) m)
           | _ \<Rightarrow> None)
      | OpenAborting held candidate reason d \<Rightarrow>
          (case e of
             HostDisposed workerError closeThrows \<Rightarrow> Some (abandon held candidate reason d closeThrows m)
           | _ \<Rightarrow> None)
      | OpenReplacing r candidate \<Rightarrow>
          (case e of
             HostDisposed workerError closeThrows \<Rightarrow> Some (goto Finishing
               ((setState (WS_READY candidate) (closeDatabase r m))\<lparr>mg_lastError := dispose_error workerError\<rparr>))
           | _ \<Rightarrow> None)
      | CloseIdle r \<Rightarrow> (case e of WaitOver \<Rightarrow> Some (goto (CloseDisposing r) m) | _ \<Rightarrow> None)
      | CloseDisposing r \<Rightarrow>
          (case e of
             HostDisposed workerError closeThrows \<Rightarrow> Some (operation_end
               ((setState WS_CLOSED (closeDatabase r m))\<lparr>mg_lastError := dispose_error workerError\<rparr>))
           | _ \<Rightarrow> None)
      | Finishing \<Rightarrow> (case e of Finished \<Rightarrow> Some (operation_end m) | _ \<Rightarrow> None)
      | OpenWaiting rawPath held \<Rightarrow> None
      | CloseWaiting r \<Rightarrow> None)"

fun manager_step :: "manager_config \<Rightarrow> manager \<Rightarrow> manager_event \<Rightarrow> manager option" where
  "manager_step cfg m CommandBegins = Some (withReadyRuntime_begin m)"
| "manager_step cfg m RunBegins = Some (withActiveRun_begin m)"
| "manager_step cfg m (CallEnds n) = call_end n m"
| "manager_step cfg m ConfigRequested = Some (withConfigurationChange m)"
| "manager_step cfg m ConfigBegins = config_begin m"
| "manager_step cfg m ConfigEnds = config_end m"
| "manager_step cfg m (OpenRequested path) = Some (openPath path m)"
| "manager_step cfg m ChooseRequested = Some (chooseRepository m)"
| "manager_step cfg m ReopenRequested = Some (reopenLast m)"
| "manager_step cfg m CloseRequested = Some (close m)"
| "manager_step cfg m (Answered i a) =
     Option.bind (map_of (mg_ops m) i) (\<lambda>p. map_option (moved i) (answer cfg i p a m))"

text \<open>A history of the owner: the events since it was made.\<close>

fun manager_run :: "manager_config \<Rightarrow> manager \<Rightarrow> manager_event list \<Rightarrow> manager option" where
  "manager_run cfg m [] = Some m"
| "manager_run cfg m (e # es) = Option.bind (manager_step cfg m e) (\<lambda>m'. manager_run cfg m' es)"

end
