(* ===== verification/Workspace_Laws.thy ===== *)
theory Workspace_Laws
  imports Workspace_Runtime
begin

text \<open>
  What holds in every reachable state of the workspace owner: a command in flight works on the
  current runtime and that runtime is open, runs exclude changes of the agent configuration and
  of the workspace, at most one operation is in flight, it takes every answer nearer to its end,
  and an operation that waits is woken by the end of the last command.
\<close>

section \<open>The invariant\<close>

definition counts_ok :: "manager \<Rightarrow> bool" where
  "counts_ok m \<longleftrightarrow>
     mg_leaseCount m = int (length (mg_calls m)) \<and> mg_activeRuns m = int (length (filter snd (mg_calls m)))"

definition holders_ok :: "manager \<Rightarrow> bool" where
  "holders_ok m \<longleftrightarrow> (\<forall>call\<in>set (mg_calls m). currentRuntime (mg_state m) = Some (fst call))"

definition settled_state :: "runtime_state \<Rightarrow> bool" where
  "settled_state s \<longleftrightarrow> (case s of WS_OPENING _ \<Rightarrow> False | WS_CLOSING _ \<Rightarrow> False | _ \<Rightarrow> True)"

definition exclusion_ok :: "manager \<Rightarrow> bool" where
  "exclusion_ok m \<longleftrightarrow>
     (\<forall>call\<in>set (mg_calls m). snd call \<longrightarrow> settled_state (mg_state m) \<and> \<not> mg_configChanging m)"

definition identities_ok :: "manager \<Rightarrow> bool" where
  "identities_ok m \<longleftrightarrow>
     (\<forall>i\<in>set (mg_disposed m). i < mg_nextId m)
     \<and> (case currentRuntime (mg_state m) of None \<Rightarrow> True | Some r \<Rightarrow> ar_id r < mg_nextId m \<and> ar_id r \<notin> set (mg_disposed m))"

definition fresh_candidate :: "active_runtime \<Rightarrow> manager \<Rightarrow> bool" where
  "fresh_candidate c m \<longleftrightarrow>
     ar_id c < mg_nextId m \<and> ar_id c \<notin> set (mg_disposed m)
     \<and> (case currentRuntime (mg_state m) of None \<Rightarrow> True | Some r \<Rightarrow> ar_id r \<noteq> ar_id c)"

fun waiting :: "op_point \<Rightarrow> bool" where
  "waiting (OpenWaiting rawPath held) = True"
| "waiting (CloseWaiting r) = True"
| "waiting p = False"

text \<open>
  Between operations. The state is settled, or an exception in the clean-up of \<open>doOpen\<close> left it
  opening.
\<close>

definition rests :: "manager \<Rightarrow> bool" where
  "rests m \<longleftrightarrow> settled_state (mg_state m) \<or> (\<exists>held. mg_state m = WS_OPENING held) \<and> mg_calls m = []"

definition point_ok :: "op_point \<Rightarrow> manager \<Rightarrow> bool" where
  "point_ok p m \<longleftrightarrow>
     (case p of
        Picking \<Rightarrow> rests m
      | ReadingSettings \<Rightarrow> rests m
      | Finishing \<Rightarrow> rests m
      | OpenWaiting rawPath held \<Rightarrow> mg_state m = WS_OPENING held \<and> mg_calls m \<noteq> []
      | OpenIdle rawPath held \<Rightarrow> mg_state m = WS_OPENING held \<and> mg_calls m = []
      | OpenValidated held canonical \<Rightarrow> mg_state m = WS_OPENING held \<and> mg_calls m = []
      | OpenAssembled held c \<Rightarrow> mg_state m = WS_OPENING held \<and> mg_calls m = [] \<and> fresh_candidate c m
      | OpenAborting held c reason d \<Rightarrow> mg_state m = WS_OPENING held \<and> mg_calls m = [] \<and> fresh_candidate c m
      | OpenReplacing r c \<Rightarrow> mg_state m = WS_OPENING (Some r) \<and> mg_calls m = [] \<and> fresh_candidate c m
      | CloseWaiting r \<Rightarrow> mg_state m = WS_CLOSING r \<and> mg_calls m \<noteq> []
      | CloseIdle r \<Rightarrow> mg_state m = WS_CLOSING r \<and> mg_calls m = []
      | CloseDisposing r \<Rightarrow> mg_state m = WS_CLOSING r \<and> mg_calls m = [])"

definition base_ok :: "manager \<Rightarrow> bool" where
  "base_ok m \<longleftrightarrow> counts_ok m \<and> holders_ok m \<and> exclusion_ok m \<and> identities_ok m"

text \<open>What operation \<open>i\<close> leaves when it waits at a point, or has returned.\<close>

definition place_ok :: "nat \<Rightarrow> op_point option \<Rightarrow> manager \<Rightarrow> bool" where
  "place_ok i point m \<longleftrightarrow>
     (case point of
        None \<Rightarrow> \<not> mg_transitioning m \<and> rests m \<and> mg_idleWaiter m = None
      | Some p \<Rightarrow> mg_transitioning m \<and> point_ok p m \<and> mg_idleWaiter m = (if waiting p then Some i else None))"

definition operation_ok :: "manager \<Rightarrow> bool" where
  "operation_ok m \<longleftrightarrow>
     (case mg_ops m of
        [] \<Rightarrow> place_ok 0 None m
      | [(i, p)] \<Rightarrow> place_ok i (Some p) m
      | _ \<Rightarrow> False)"

definition manager_ok :: "manager \<Rightarrow> bool" where
  "manager_ok m \<longleftrightarrow> base_ok m \<and> operation_ok m"

fun piece_ok :: "nat \<Rightarrow> piece \<Rightarrow> bool" where
  "piece_ok i (point, m) \<longleftrightarrow> base_ok m \<and> place_ok i point m"

named_theorems manager_defs \<open>the parts of the invariant\<close>

declare base_ok_def [manager_defs] counts_ok_def [manager_defs] holders_ok_def [manager_defs]
  exclusion_ok_def [manager_defs] identities_ok_def [manager_defs] place_ok_def [manager_defs]
  point_ok_def [manager_defs] rests_def [manager_defs] settled_state_def [manager_defs] fresh_candidate_def [manager_defs]

lemma new_manager_ok: "manager_ok new_manager"
  by (simp add: manager_ok_def operation_ok_def manager_defs new_manager_def)

lemma operation_cases:
  assumes "manager_ok m"
  obtains (idle) "mg_ops m = []" "base_ok m" "place_ok 0 None m"
    | (busy) i p where "mg_ops m = [(i, p)]" "base_ok m" "place_ok i (Some p) m"
proof -
  consider "mg_ops m = []" | i p where "mg_ops m = [(i, p)]" | i p y ys where "mg_ops m = (i, p) # y # ys"
    by (metis list.exhaust surj_pair)
  then show ?thesis using assms that by cases (auto simp: manager_ok_def operation_ok_def)
qed

lemma idle_ok: "mg_ops m = [] \<Longrightarrow> base_ok m \<Longrightarrow> place_ok i None m \<Longrightarrow> manager_ok m"
  by (simp add: manager_ok_def operation_ok_def place_ok_def)

lemma busy_ok: "mg_ops m = [(i, p)] \<Longrightarrow> base_ok m \<Longrightarrow> place_ok i (Some p) m \<Longrightarrow> manager_ok m"
  by (simp add: manager_ok_def operation_ok_def)

text \<open>A change that no part of the invariant looks at, where the operation is.\<close>

lemma stays_ok:
  assumes "manager_ok m" and "base_ok m \<Longrightarrow> base_ok m'" and "\<And>i point. place_ok i point m \<Longrightarrow> place_ok i point m'"
    and "mg_ops m' = mg_ops m"
  shows "manager_ok m'"
  using assms(1)
proof (cases rule: operation_cases)
  case idle
  with assms(2-) show ?thesis by (intro idle_ok) simp_all
next
  case (busy i p)
  with assms(2-) show ?thesis by (intro busy_ok) simp_all
qed

text \<open>A piece of code that leaves the list of operations alone.\<close>

lemma moved_ok:
  assumes "mg_ops (snd piece) = [(i, p)]" and "piece_ok i piece"
  shows "manager_ok (moved i piece)"
proof (cases piece)
  case (Pair point m)
  have frame: "base_ok (m\<lparr>mg_ops := ops\<rparr>) = base_ok m" "place_ok i q (m\<lparr>mg_ops := ops\<rparr>) = place_ok i q m" for ops q
    by (simp_all add: manager_defs split: option.split op_point.split)
  show ?thesis
  proof (cases point)
    case None
    with assms Pair frame show ?thesis by (intro idle_ok [where i = i]) (simp_all add: moved_def)
  next
    case (Some q)
    with assms Pair frame show ?thesis by (intro busy_ok [where i = i and p = q]) (simp_all add: moved_def)
  qed
qed

text \<open>The fields an invariant part looks at.\<close>

lemma settled_simps [simp]:
  "settled_state WS_CLOSED" "settled_state WS_ERROR" "settled_state (WS_READY r)"
  "\<not> settled_state (WS_OPENING held)" "\<not> settled_state (WS_CLOSING r)"
  by (simp_all add: settled_state_def)

lemma no_calls: "counts_ok m \<Longrightarrow> mg_leaseCount m = 0 \<longleftrightarrow> mg_calls m = []"
  by (simp add: counts_ok_def)

lemma no_runs: "counts_ok m \<Longrightarrow> \<not> mg_activeRuns m > 0 \<longleftrightarrow> (\<forall>call\<in>set (mg_calls m). \<not> snd call)"
  by (auto simp: counts_ok_def filter_empty_conv)

section \<open>Commands and runs\<close>

lemma acquire_ok:
  assumes "manager_ok m" and "acquireLease m = Some (r, m1)" and "isRun \<longrightarrow> \<not> mg_configChanging m"
  shows "manager_ok (m1\<lparr>mg_activeRuns := (if isRun then mg_activeRuns m1 + 1 else mg_activeRuns m1),
    mg_calls := mg_calls m1 @ [(r, isRun)]\<rparr>)"
proof -
  have r: "mg_state m = WS_READY r" and m1: "m1 = m\<lparr>mg_leaseCount := mg_leaseCount m + 1\<rparr>"
    using assms(2) by (auto simp: acquireLease_def getReadyRuntime_def split: runtime_state.splits)
  show ?thesis
  proof (rule stays_ok [OF assms(1)])
    show "base_ok m \<Longrightarrow> base_ok (m1\<lparr>mg_activeRuns := (if isRun then mg_activeRuns m1 + 1 else mg_activeRuns m1),
        mg_calls := mg_calls m1 @ [(r, isRun)]\<rparr>)"
      using assms(3) by (auto simp: m1 r manager_defs split: option.splits)
    show "place_ok i point m \<Longrightarrow> place_ok i point (m1\<lparr>mg_activeRuns := (if isRun then mg_activeRuns m1 + 1 else mg_activeRuns m1),
        mg_calls := mg_calls m1 @ [(r, isRun)]\<rparr>)" for i point
      by (auto simp: m1 r manager_defs split: option.splits op_point.splits)
  qed (simp add: m1)
qed

lemma withReadyRuntime_ok: "manager_ok m \<Longrightarrow> manager_ok (withReadyRuntime_begin m)"
  using acquire_ok [of m _ _ False] by (auto simp: withReadyRuntime_begin_def split: option.split)

lemma withActiveRun_ok: "manager_ok m \<Longrightarrow> manager_ok (withActiveRun_begin m)"
  using acquire_ok [of m _ _ True] by (auto simp: withActiveRun_begin_def split: option.split)

lemma runs_without:
  "n < length xs \<Longrightarrow> int (length (filter snd (take n xs @ drop (Suc n) xs))) =
     int (length (filter snd xs)) - (if snd (xs ! n) then 1 else 0)"
  by (subst (3) id_take_nth_drop [of n xs]) auto

text \<open>The last call ends: the operation whose promise is resolved goes on.\<close>

lemma woken_ok:
  assumes "place_ok i (Some p) m" and "mg_idleWaiter m = Some i"
  shows "place_ok i (Some (resume p)) (m\<lparr>mg_calls := [], mg_activeRuns := 0, mg_leaseCount := 0, mg_idleWaiter := None, mg_ops := ops\<rparr>)"
  using assms by (cases p) (auto simp: manager_defs)

lemma call_end_ok:
  assumes ok: "manager_ok m" and e: "call_end n m = Some m'"
  shows "manager_ok m'"
proof -
  define calls where "calls = take n (mg_calls m) @ drop (Suc n) (mg_calls m)"
  define runs where "runs = (if snd (mg_calls m ! n) then mg_activeRuns m - 1 else mg_activeRuns m)"
  define m1 where "m1 = m\<lparr>mg_calls := calls, mg_activeRuns := runs, mg_leaseCount := mg_leaseCount m - 1\<rparr>"
  have base: "base_ok m" using ok by (simp add: manager_ok_def)
  have n: "n < length (mg_calls m)" and m': "m' = releaseLease (m\<lparr>mg_calls := calls, mg_activeRuns := runs\<rparr>)"
    using e by (auto simp: call_end_def Let_def calls_def runs_def split: if_splits)
  have sub: "set calls \<subseteq> set (mg_calls m)" using n by (auto simp: calls_def dest: in_set_takeD in_set_dropD)
  have len: "int (length calls) = mg_leaseCount m - 1" and runs: "runs = int (length (filter snd calls))"
    using base n runs_without [OF n] by (auto simp: base_ok_def counts_ok_def calls_def runs_def)
  have ne: "mg_calls m \<noteq> []" using n by auto
  have base1: "base_ok m1"
    using base sub len runs
    by (auto simp: m1_def base_ok_def counts_ok_def holders_ok_def exclusion_ok_def identities_ok_def split: option.splits)
  show ?thesis
  proof (cases "calls = [] \<and> mg_idleWaiter m \<noteq> None")
    case True
    then obtain i where i: "mg_idleWaiter m = Some i" by blast
    have "\<exists>p. mg_ops m = [(i, p)] \<and> place_ok i (Some p) m"
      using ok
    proof (cases rule: operation_cases)
      case idle
      with i show ?thesis by (simp add: place_ok_def)
    next
      case (busy j p)
      then have "j = i" using i by (simp add: place_ok_def split: if_splits)
      with busy show ?thesis by blast
    qed
    then obtain p where p: "mg_ops m = [(i, p)]" "place_ok i (Some p) m" by blast
    have "m' = m\<lparr>mg_calls := [], mg_activeRuns := 0, mg_leaseCount := 0, mg_idleWaiter := None, mg_ops := [(i, resume p)]\<rparr>"
      using True len runs i p by (simp add: m' releaseLease_def Let_def)
    moreover have "base_ok (m1\<lparr>mg_idleWaiter := None, mg_ops := [(i, resume p)]\<rparr>)"
      using base1 by (simp add: manager_defs split: option.splits)
    ultimately show ?thesis
      using woken_ok [OF p(2) i] True len runs by (intro busy_ok [of _ i "resume p"]) (auto simp: m1_def)
  next
    case False
    then have m'': "m' = m1"
      using len by (auto simp: m' m1_def releaseLease_def Let_def split: option.splits)
    have "place_ok i point m1" if "place_ok i point m" for i point
      using that False ne by (auto simp: m1_def manager_defs split: option.splits op_point.splits if_splits)
    with base1 show ?thesis unfolding m'' by (intro stays_ok [OF ok]) (simp_all add: m1_def)
  qed
qed

section \<open>Configuration\<close>

lemma config_ok:
  assumes ok: "manager_ok m"
  shows "manager_ok (withConfigurationChange m)"
    and "config_begin m = Some m' \<Longrightarrow> manager_ok m'" and "config_end m = Some m' \<Longrightarrow> manager_ok m'"
proof -
  have change: "manager_ok (m\<lparr>mg_configChanging := b, mg_configPending := k\<rparr>)" if "b \<longrightarrow> mg_configChanging m \<or> \<not> mg_activeRuns m > 0" for b k
  proof (rule stays_ok [OF ok])
    show "base_ok (m\<lparr>mg_configChanging := b, mg_configPending := k\<rparr>)" if "base_ok m"
      using that \<open>b \<longrightarrow> _\<close> no_runs [of m] by (auto simp: manager_defs split: option.splits)
    show "place_ok i point (m\<lparr>mg_configChanging := b, mg_configPending := k\<rparr>)" if "place_ok i point m" for i point
      using that by (auto simp: manager_defs split: option.splits op_point.splits)
  qed simp
  have frame: "manager_ok (m\<lparr>mg_configPending := k\<rparr>)" for k using change [of "mg_configChanging m" k] by simp
  then show "manager_ok (withConfigurationChange m)" using ok by (simp add: withConfigurationChange_def)
  from change [of True] frame show "config_begin m = Some m' \<Longrightarrow> manager_ok m'"
    by (auto simp: config_begin_def split: if_splits)
  from change [of False "mg_configPending m"] show "config_end m = Some m' \<Longrightarrow> manager_ok m'"
    by (auto simp: config_end_def split: if_splits)
qed

section \<open>Opening and closing\<close>

text \<open>An operation that has begun, before it says where it goes on.\<close>

definition begun :: "manager \<Rightarrow> bool" where
  "begun m \<longleftrightarrow> base_ok m \<and> mg_transitioning m \<and> rests m \<and> mg_idleWaiter m = None"

lemma stands: "place_ok i (Some p) m \<Longrightarrow> base_ok m \<Longrightarrow> p \<in> {Picking, ReadingSettings, Finishing} \<Longrightarrow> begun m"
  by (auto simp: begun_def place_ok_def point_ok_def)

lemma failOpen_begun:
  assumes "begun m" and "currentRuntime (mg_state m) = held"
  shows "begun (failOpen held reason d m)"
  using assms by (auto simp: begun_def failOpen_def setState_def manager_defs split: option.splits runtime_state.splits)

lemma begun_goto: "begun m \<Longrightarrow> p \<in> {Picking, ReadingSettings, Finishing} \<Longrightarrow> piece_ok i (goto p m)"
  by (auto simp: begun_def goto_def place_ok_def point_ok_def)

lemma operation_end_ok: "begun m \<Longrightarrow> piece_ok i (operation_end m)"
  by (auto simp: begun_def operation_end_def manager_defs split: option.splits)

lemma doOpen_ok:
  assumes b: "begun m"
  shows "piece_ok i (doOpen i path m)"
proof (cases "mg_activeRuns m > 0")
  case True
  then show ?thesis using failOpen_begun [OF b refl] by (simp add: doOpen_def begun_goto)
next
  case False
  then have "\<forall>call\<in>set (mg_calls m). \<not> snd call" using b no_runs by (simp add: begun_def base_ok_def)
  moreover obtain held where held: "currentRuntime (mg_state m) = held" by blast
  moreover have "doOpen i path m =
      (if mg_calls m = [] then goto (OpenIdle path held) (m\<lparr>mg_state := WS_OPENING held\<rparr>)
       else goto (OpenWaiting path held) (m\<lparr>mg_state := WS_OPENING held, mg_idleWaiter := Some i\<rparr>))"
    using False b no_calls [of m] by (simp add: doOpen_def Let_def waitForIdle_def setState_def begun_def base_ok_def held)
  ultimately show ?thesis using b held
    by (cases "mg_calls m"; cases held) (auto simp: begun_def goto_def manager_defs)
qed

lemma close_begin_ok:
  assumes b: "begun m"
  shows "piece_ok i (close_begin i m)"
proof (cases "currentRuntime (mg_state m)")
  case None
  with b have "begun ((setState WS_CLOSED m)\<lparr>mg_lastError := None\<rparr>)"
    by (auto simp: begun_def setState_def manager_defs split: runtime_state.splits)
  with None show ?thesis by (simp add: close_begin_def operation_end_ok)
next
  case (Some r)
  show ?thesis
  proof (cases "mg_activeRuns m > 0")
    case True
    have "begun ((setState (WS_READY r) m)\<lparr>mg_lastError := e\<rparr>)" for e
      using b Some by (cases "mg_state m") (auto simp: begun_def setState_def manager_defs)
    with True Some show ?thesis by (simp add: close_begin_def operation_end_ok)
  next
    case False
    then have "\<forall>call\<in>set (mg_calls m). \<not> snd call" using b no_runs by (simp add: begun_def base_ok_def)
    moreover have "close_begin i m =
        (if mg_calls m = [] then goto (CloseIdle r) (m\<lparr>mg_state := WS_CLOSING r\<rparr>)
         else goto (CloseWaiting r) (m\<lparr>mg_state := WS_CLOSING r, mg_idleWaiter := Some i\<rparr>))"
      using False Some b no_calls [of m] by (simp add: close_begin_def waitForIdle_def setState_def begun_def base_ok_def)
    ultimately show ?thesis using b Some
      by (cases "mg_calls m") (auto simp: begun_def goto_def manager_defs)
  qed
qed

text \<open>Calling an operation while none is in flight.\<close>

lemma launch_ok:
  assumes "manager_ok m" and "\<not> mg_transitioning m"
    and body: "\<And>i m. begun m \<Longrightarrow> piece_ok i (body i m)" and frame: "\<And>i m. mg_ops (snd (body i m)) = mg_ops m"
  shows "manager_ok (launch (\<lambda>i m. body i (m\<lparr>mg_transitioning := True\<rparr>)) m)"
  using assms(1)
proof (cases rule: operation_cases)
  case idle
  let ?m = "m\<lparr>mg_nextOp := mg_nextOp m + 1, mg_transitioning := True\<rparr>"
  have "begun ?m" using idle by (auto simp: begun_def manager_defs split: option.splits)
  then have ok: "piece_ok (mg_nextOp m) (body (mg_nextOp m) ?m)" by (rule body)
  obtain point m1 where b: "body (mg_nextOp m) ?m = (point, m1)" by fastforce
  have ops: "mg_ops m1 = []" using frame [of "mg_nextOp m" ?m] b idle(1) by simp
  show ?thesis
  proof (cases point)
    case None
    with ok b ops show ?thesis by (auto simp: launch_def Let_def intro: idle_ok)
  next
    case (Some p)
    have "base_ok (m1\<lparr>mg_ops := xs\<rparr>) = base_ok m1" "place_ok i (Some p) (m1\<lparr>mg_ops := xs\<rparr>) = place_ok i (Some p) m1" for i xs
      by (simp_all add: manager_defs split: option.split op_point.split)
    with Some ok b ops show ?thesis by (auto simp: launch_def Let_def intro: busy_ok)
  qed
next
  case busy
  with assms(2) show ?thesis by (simp add: place_ok_def)
qed

named_theorems piece_frames \<open>what a piece of an operation leaves alone\<close>

lemma setters [piece_frames]:
  "mg_ops (setState s m) = mg_ops m" "mg_ops (failOpen h r d m) = mg_ops m" "mg_ops (closeDatabase c m) = mg_ops m"
  "snd (goto p m) = m" "mg_ops (snd (operation_end m)) = mg_ops m" "mg_ops (snd (waitForIdle i a b m)) = mg_ops m"
  by (simp_all add: setState_def failOpen_def closeDatabase_def goto_def operation_end_def waitForIdle_def)

lemma openers [piece_frames]:
  "mg_ops (snd (doOpen i path m)) = mg_ops m" "mg_ops (snd (close_begin i m)) = mg_ops m"
  "mg_ops (snd (abandon h c r d b m)) = mg_ops m"
  by (simp_all add: doOpen_def close_begin_def abandon_def Let_def piece_frames split: option.split)

lemma answer_frame: "answer cfg i p a m = Some piece \<Longrightarrow> mg_ops (snd piece) = mg_ops m"
  by (auto simp: answer_def Let_def piece_frames split: op_point.splits op_answer.splits option.splits)

lemma requests_ok:
  assumes "manager_ok m"
  shows "manager_ok (openPath path m)" and "manager_ok (chooseRepository m)" and "manager_ok (reopenLast m)" and "manager_ok (close m)"
  using assms launch_ok [OF assms, of "\<lambda>i. doOpen i path"] launch_ok [OF assms, of "\<lambda>i. goto Picking"]
    launch_ok [OF assms, of "\<lambda>i. goto ReadingSettings"] launch_ok [OF assms, of close_begin]
  by (simp_all add: openPath_def chooseRepository_def reopenLast_def close_def doOpen_ok begun_goto close_begin_ok piece_frames)

section \<open>Answers\<close>

text \<open>An operation that waits for nothing of the manager: no call is in flight.\<close>

definition exclusive :: "active_runtime option \<Rightarrow> manager \<Rightarrow> bool" where
  "exclusive held m \<longleftrightarrow>
     counts_ok m \<and> mg_calls m = [] \<and> identities_ok m \<and> mg_state m = WS_OPENING held \<and> mg_transitioning m \<and> mg_idleWaiter m = None"

lemma exclusive_begun: "exclusive held m \<Longrightarrow> begun m"
  by (auto simp: exclusive_def begun_def manager_defs)

lemma exclusive_fails: "exclusive held m \<Longrightarrow> begun (failOpen held reason d m)"
  by (rule failOpen_begun [OF exclusive_begun]) (simp_all add: exclusive_def)

lemma exclusive_discards:
  assumes "exclusive held m" and "fresh_candidate c m"
  shows "exclusive held (closeDatabase c m)"
  using assms by (auto simp: exclusive_def closeDatabase_def manager_defs split: option.splits)

lemma abandon_ok:
  assumes "exclusive held m" and "fresh_candidate c m"
  shows "piece_ok i (abandon held c reason d closeThrows m)"
  using exclusive_fails [OF exclusive_discards [OF assms]] exclusive_begun [OF exclusive_discards [OF assms]]
  by (simp add: abandon_def Let_def begun_goto)

lemma exclusive_goto:
  assumes "exclusive held m"
  shows "piece_ok i (goto (OpenValidated held canonical) m)"
    and "fresh_candidate c m \<Longrightarrow> piece_ok i (goto (OpenAssembled held c) m)"
    and "fresh_candidate c m \<Longrightarrow> piece_ok i (goto (OpenAborting held c reason d) m)"
    and "fresh_candidate c m \<Longrightarrow> held = Some r \<Longrightarrow> piece_ok i (goto (OpenReplacing r c) m)"
  using assms by (auto simp: exclusive_def goto_def manager_defs split: option.splits)

lemma new_candidate:
  assumes "exclusive held m"
  shows "exclusive held (m\<lparr>mg_nextId := mg_nextId m + 1\<rparr>)"
    and "fresh_candidate (candidate_for cfg canonical m) (m\<lparr>mg_nextId := mg_nextId m + 1\<rparr>)"
  using assms by (auto simp: exclusive_def candidate_for_def manager_defs split: option.splits)

lemma opened_begun:
  assumes "exclusive held m" and "fresh_candidate c m"
  shows "begun ((setState (WS_READY c) (case held of None \<Rightarrow> m | Some r \<Rightarrow> closeDatabase r m))\<lparr>mg_lastError := e\<rparr>)"
  using assms by (auto simp: exclusive_def begun_def setState_def closeDatabase_def manager_defs split: option.splits)

lemma stands_open:
  assumes "base_ok m" and "place_ok i (Some p) m"
  shows "p = OpenIdle path held \<Longrightarrow> exclusive held m"
    "p = OpenValidated held canonical \<Longrightarrow> exclusive held m"
    "p = OpenAssembled held c \<Longrightarrow> exclusive held m \<and> fresh_candidate c m"
    "p = OpenAborting held c reason d \<Longrightarrow> exclusive held m \<and> fresh_candidate c m"
    "p = OpenReplacing r c \<Longrightarrow> exclusive (Some r) m \<and> fresh_candidate c m"
  using assms by (auto simp: base_ok_def place_ok_def point_ok_def exclusive_def)

lemma close_answers:
  assumes "base_ok m" and "place_ok i (Some p) m"
  shows "p = CloseIdle r \<Longrightarrow> piece_ok i (goto (CloseDisposing r) m)"
    and "p = CloseDisposing r \<Longrightarrow> piece_ok i (operation_end ((setState WS_CLOSED (closeDatabase r m))\<lparr>mg_lastError := e\<rparr>))"
  using assms by (auto simp: goto_def operation_end_def setState_def closeDatabase_def manager_defs)

lemma answer_ok:
  assumes base: "base_ok m" and place: "place_ok i (Some p) m" and a: "answer cfg i p e m = Some piece"
  shows "piece_ok i piece"
proof (cases p)
  case Picking
  with a stands [OF place base] show ?thesis
    by (auto simp: answer_def split: op_answer.splits intro: operation_end_ok doOpen_ok failOpen_begun)
next
  case ReadingSettings
  with a stands [OF place base] show ?thesis
    by (auto simp: answer_def split: op_answer.splits intro: operation_end_ok doOpen_ok failOpen_begun)
next
  case (OpenIdle path held)
  note x = stands_open(1) [OF base place OpenIdle]
  show ?thesis using a OpenIdle exclusive_fails [OF x] exclusive_goto(1) [OF x]
    by (auto simp: answer_def begun_goto split: op_answer.splits)
next
  case (OpenValidated held canonical)
  note x = stands_open(2) [OF base place OpenValidated]
  note n = new_candidate(1) [OF x] new_candidate(2) [OF x, of cfg canonical]
  show ?thesis using a OpenValidated exclusive_fails [OF x] abandon_ok [OF n] exclusive_goto(2) [OF n]
    by (auto simp: answer_def Let_def begun_goto split: op_answer.splits)
next
  case (OpenAssembled held c)
  then have x: "exclusive held m" and f: "fresh_candidate c m" using stands_open(3) [OF base place] by auto
  show ?thesis using a OpenAssembled opened_begun [OF x f] exclusive_goto(3,4) [OF x f]
    by (auto simp: answer_def begun_goto split: op_answer.splits option.splits)
next
  case (OpenAborting held c reason d)
  then have x: "exclusive held m" and f: "fresh_candidate c m" using stands_open(4) [OF base place] by auto
  show ?thesis using a OpenAborting abandon_ok [OF x f]
    by (auto simp: answer_def split: op_answer.splits)
next
  case (OpenReplacing r c)
  then have x: "exclusive (Some r) m" and f: "fresh_candidate c m" using stands_open(5) [OF base place] by auto
  show ?thesis using a OpenReplacing opened_begun [OF x f]
    by (auto simp: answer_def begun_goto split: op_answer.splits)
next
  case (CloseIdle r)
  with a close_answers(1) [OF base place] show ?thesis by (auto simp: answer_def split: op_answer.splits)
next
  case (CloseDisposing r)
  with a close_answers(2) [OF base place] show ?thesis by (auto simp: answer_def split: op_answer.splits)
next
  case Finishing
  with a stands [OF place base] show ?thesis by (auto simp: answer_def operation_end_ok split: op_answer.splits)
qed (use a in \<open>simp_all add: answer_def\<close>)

lemma answered_ok:
  assumes ok: "manager_ok m" and s: "manager_step cfg m (Answered i a) = Some m'"
  obtains p piece where "mg_ops m = [(i, p)]" "base_ok m" "place_ok i (Some p) m" "answer cfg i p a m = Some piece"
    "m' = moved i piece" "manager_ok m'"
  using ok
proof (cases rule: operation_cases)
  case (busy j p)
  with s obtain piece where i: "i = j" and a: "answer cfg i p a m = Some piece" and m': "m' = moved i piece"
    by (auto simp: bind_eq_Some_conv split: if_splits)
  have "manager_ok m'"
    unfolding m' using moved_ok [of piece i p] answer_frame [OF a] busy i answer_ok [OF busy(2) _ a] by simp
  with busy i a m' that show ?thesis by blast
qed (use s in simp)

lemma manager_step_ok:
  assumes "manager_ok m" and "manager_step cfg m e = Some m'"
  shows "manager_ok m'"
proof (cases e)
  case (Answered i a)
  with assms show ?thesis by (blast elim: answered_ok)
qed (use assms config_ok [OF assms(1)] call_end_ok [OF assms(1)] requests_ok [OF assms(1)]
    withReadyRuntime_ok [OF assms(1)] withActiveRun_ok [OF assms(1)] in auto)

lemma run_ok: "manager_ok m \<Longrightarrow> manager_run cfg m es = Some m' \<Longrightarrow> manager_ok m'"
  by (induction es arbitrary: m) (auto simp: bind_eq_Some_conv intro: manager_step_ok)

section \<open>Safety\<close>

text \<open>An answer that says that closing a database threw.\<close>

fun close_threw :: "manager_event \<Rightarrow> bool" where
  "close_threw (Answered i (HostFailed d closeThrows)) = closeThrows"
| "close_threw (Answered i (HostDisposed workerError closeThrows)) = closeThrows"
| "close_threw e = False"

text \<open>Unless a closing threw, only an operation at work leaves the state opening or closing.\<close>

fun working :: "op_point \<Rightarrow> bool" where
  "working Picking = False"
| "working ReadingSettings = False"
| "working Finishing = False"
| "working p = True"

definition tidy :: "piece \<Rightarrow> bool" where
  "tidy piece \<longleftrightarrow> settled_state (mg_state (snd piece)) \<or> (\<exists>p. fst piece = Some p \<and> working p)"

definition tidy_manager :: "manager \<Rightarrow> bool" where
  "tidy_manager m \<longleftrightarrow> settled_state (mg_state m) \<or> (\<exists>i p. mg_ops m = [(i, p)] \<and> working p)"

lemma tidy_doOpen: "tidy (doOpen i path m)"
  by (cases "currentRuntime (mg_state m)")
    (simp_all add: tidy_def doOpen_def Let_def goto_def waitForIdle_def failOpen_def setState_def)

lemma tidy_close: "tidy (close_begin i m)"
  by (cases "currentRuntime (mg_state m)")
    (simp_all add: tidy_def close_begin_def goto_def operation_end_def waitForIdle_def setState_def)

lemma failOpen_settled: "settled_state (mg_state (failOpen held reason d m))"
  by (cases held) (simp_all add: failOpen_def setState_def)

lemma tidy_answer:
  assumes "answer cfg i p a m = Some piece" and "\<not> close_threw (Answered j a)" and "settled_state (mg_state m) \<or> working p"
  shows "tidy piece"
  using assms tidy_doOpen [of i _ m]
  by (auto simp: answer_def Let_def tidy_def goto_def operation_end_def abandon_def failOpen_settled setState_def
    split: op_point.splits op_answer.splits option.splits)

lemma tidy_launch:
  assumes "mg_ops m = []" and "\<And>i m. tidy (body i m)" and "\<And>i m. mg_ops (snd (body i m)) = mg_ops m"
  shows "tidy_manager (launch body m)"
proof -
  let ?m = "m\<lparr>mg_nextOp := mg_nextOp m + 1\<rparr>"
  obtain point m1 where b: "body (mg_nextOp m) ?m = (point, m1)" by fastforce
  with assms(2,3) [of "mg_nextOp m" ?m] assms(1) show ?thesis
    by (auto simp: tidy_manager_def tidy_def launch_def Let_def split: option.split)
qed

lemma idle_transition: "manager_ok m \<Longrightarrow> \<not> mg_transitioning m \<Longrightarrow> mg_ops m = []"
  by (erule operation_cases) (auto simp: place_ok_def)

lemma request_tidy:
  assumes "manager_ok m" and "tidy_manager m"
  shows "tidy_manager (openPath path m)" "tidy_manager (close m)"
    "tidy_manager (chooseRepository m)" "tidy_manager (reopenLast m)"
proof -
  have launched: "tidy_manager (launch (\<lambda>i m. body i (m\<lparr>mg_transitioning := True\<rparr>)) m)"
    if "\<And>i m. tidy (body i m)" "\<And>i m. mg_ops (snd (body i m)) = mg_ops m" "\<not> mg_transitioning m" for body
    using that by (intro tidy_launch idle_transition [OF assms(1)]) simp_all
  from this [of "\<lambda>i. doOpen i path"] this [of close_begin] assms(2)
  show "tidy_manager (openPath path m)" "tidy_manager (close m)"
    by (simp_all add: openPath_def close_def tidy_doOpen tidy_close piece_frames)
  have "tidy_manager (launch (\<lambda>i m. goto p (m\<lparr>mg_transitioning := True\<rparr>)) m)" if "\<not> mg_transitioning m" for p
    using idle_transition [OF assms(1) that] assms(2) by (simp add: tidy_manager_def launch_def Let_def goto_def)
  with assms(2) show "tidy_manager (chooseRepository m)" "tidy_manager (reopenLast m)"
    by (simp_all add: chooseRepository_def reopenLast_def)
qed

lemma resume_working: "working (resume p) = working p"
  by (cases p) simp_all

lemma step_tidy:
  assumes ok: "manager_ok m" and tidy: "tidy_manager m" and s: "manager_step cfg m e = Some m'" and e: "\<not> close_threw e"
  shows "tidy_manager m'"
proof (cases e)
  case (Answered j a)
  with ok s obtain p piece where p: "mg_ops m = [(j, p)]" "answer cfg j p a m = Some piece" "m' = moved j piece"
    by (blast elim: answered_ok)
  have "tidy piece" using tidy_answer [OF p(2)] tidy e p(1) Answered by (simp add: tidy_manager_def)
  moreover have "mg_ops (snd piece) = [(j, p)]" using answer_frame [OF p(2)] p(1) by simp
  ultimately show ?thesis
    by (cases piece) (auto simp: p(3) tidy_manager_def tidy_def moved_def split: option.split)
next
  case (CallEnds n)
  with s tidy show ?thesis
    by (auto simp: call_end_def Let_def releaseLease_def tidy_manager_def resume_working split: if_splits option.splits)
qed (use request_tidy [OF ok tidy] s tidy in \<open>auto simp: withReadyRuntime_begin_def withActiveRun_begin_def acquireLease_def
      tidy_manager_def withConfigurationChange_def config_begin_def config_end_def split: option.splits if_splits\<close>)

lemma run_tidy:
  "manager_ok m \<Longrightarrow> tidy_manager m \<Longrightarrow> manager_run cfg m es = Some m' \<Longrightarrow> \<forall>e\<in>set es. \<not> close_threw e \<Longrightarrow> tidy_manager m'"
  by (induction es arbitrary: m) (auto simp: bind_eq_Some_conv intro: step_tidy manager_step_ok)

text \<open>A database is closed by an operation, and one that waits for no call in flight.\<close>

lemma disposed_frames [piece_frames]:
  "mg_disposed (setState s m) = mg_disposed m" "mg_disposed (failOpen h r d m) = mg_disposed m"
  "mg_disposed (snd (operation_end m)) = mg_disposed m" "mg_disposed (snd (waitForIdle i a b m)) = mg_disposed m"
  "mg_disposed (snd (doOpen i path m)) = mg_disposed m" "mg_disposed (snd (close_begin i m)) = mg_disposed m"
  by (simp_all add: setState_def failOpen_def goto_def operation_end_def waitForIdle_def doOpen_def close_begin_def Let_def
    split: option.split)

lemma launch_disposed:
  "(\<And>i m. mg_disposed (snd (body i m)) = mg_disposed m) \<Longrightarrow> mg_disposed (launch body m) = mg_disposed m"
proof -
  assume f: "\<And>i m. mg_disposed (snd (body i m)) = mg_disposed m"
  obtain point m1 where b: "body (mg_nextOp m) (m\<lparr>mg_nextOp := mg_nextOp m + 1\<rparr>) = (point, m1)" by fastforce
  with f [of "mg_nextOp m" "m\<lparr>mg_nextOp := mg_nextOp m + 1\<rparr>"] show ?thesis by (simp add: launch_def Let_def split: option.split)
qed

lemma moved_disposed: "mg_disposed (moved i piece) = mg_disposed (snd piece)"
  by (simp add: moved_def split: prod.split option.split)

lemma disposal_idle:
  assumes ok: "manager_ok m" and s: "manager_step cfg m e = Some m'" and d: "mg_disposed m' \<noteq> mg_disposed m"
  shows "mg_calls m = []"
proof (cases e)
  case (Answered j a)
  with ok s obtain p piece where p: "place_ok j (Some p) m" "answer cfg j p a m = Some piece" "m' = moved j piece"
    by (blast elim: answered_ok)
  have "mg_disposed (snd piece) \<noteq> mg_disposed m" using d by (simp add: p(3) moved_disposed)
  with p show ?thesis
    by (auto simp: answer_def place_ok_def point_ok_def piece_frames Let_def split: op_point.splits op_answer.splits option.splits)
qed (use s d in \<open>auto simp: withReadyRuntime_begin_def withActiveRun_begin_def acquireLease_def call_end_def releaseLease_def
      withConfigurationChange_def config_begin_def config_end_def openPath_def chooseRepository_def reopenLast_def close_def
      launch_disposed piece_frames Let_def split: if_splits option.splits\<close>)

text \<open>
  C34. After any history of the workspace owner, that is any interleaving of commands, runs,
  configuration changes, requests to open and close and any answers from outside: at most one
  operation is in flight, and \<open>transitioning\<close> says whether there is one; a command in flight
  works on the current runtime, whose database is open; the two counters are the commands and
  the runs in flight; a run is in flight only while the workspace is ready and the agent
  configuration is not being changed; and a database is closed only while no command is in
  flight. With no operation in flight the workspace is not closing, and it is opening only if
  closing a database threw earlier: then no command is in flight.
\<close>

theorem workspace_safety:
  assumes "manager_run cfg new_manager es = Some m"
  shows "length (mg_ops m) \<le> 1 \<and> (mg_transitioning m \<longleftrightarrow> mg_ops m \<noteq> [])
    \<and> (\<forall>call\<in>set (mg_calls m). currentRuntime (mg_state m) = Some (fst call) \<and> ar_id (fst call) \<notin> set (mg_disposed m))
    \<and> mg_leaseCount m = int (length (mg_calls m)) \<and> mg_activeRuns m = int (length (filter snd (mg_calls m)))
    \<and> (\<forall>call\<in>set (mg_calls m). snd call \<longrightarrow> mg_state m = WS_READY (fst call) \<and> \<not> mg_configChanging m)
    \<and> (mg_ops m = [] \<longrightarrow> publicState (mg_state m) \<noteq> LC_CLOSING
        \<and> (publicState (mg_state m) = LC_OPENING \<longrightarrow> mg_calls m = [] \<and> (\<exists>e\<in>set es. close_threw e)))
    \<and> (\<forall>e m'. manager_step cfg m e = Some m' \<longrightarrow> mg_disposed m' \<noteq> mg_disposed m \<longrightarrow> mg_calls m = [])"
proof -
  have ok: "manager_ok m" and base: "base_ok m" using run_ok [OF new_manager_ok assms] by (auto simp: manager_ok_def)
  have one: "length (mg_ops m) \<le> 1 \<and> (mg_transitioning m \<longleftrightarrow> mg_ops m \<noteq> [])"
    using ok by (cases rule: operation_cases) (auto simp: place_ok_def)
  have holders: "currentRuntime (mg_state m) = Some (fst call) \<and> ar_id (fst call) \<notin> set (mg_disposed m)"
    if "call \<in> set (mg_calls m)" for call
    using base that by (force simp: base_ok_def holders_ok_def identities_ok_def)
  have runs: "mg_state m = WS_READY (fst call) \<and> \<not> mg_configChanging m" if c: "call \<in> set (mg_calls m)" "snd call" for call
  proof -
    have "settled_state (mg_state m)" "\<not> mg_configChanging m"
      using base c unfolding base_ok_def exclusion_ok_def by blast+
    with holders [OF c(1)] show ?thesis by (cases "mg_state m") auto
  qed
  have counts: "mg_leaseCount m = int (length (mg_calls m))" "mg_activeRuns m = int (length (filter snd (mg_calls m)))"
    using base by (simp_all add: base_ok_def counts_ok_def)
  have quiet: "publicState (mg_state m) \<noteq> LC_CLOSING
      \<and> (publicState (mg_state m) = LC_OPENING \<longrightarrow> mg_calls m = [] \<and> (\<exists>e\<in>set es. close_threw e))" if idle: "mg_ops m = []"
  proof -
    have "rests m" using ok idle by (simp add: manager_ok_def operation_ok_def place_ok_def)
    moreover have "\<exists>e\<in>set es. close_threw e" if "\<not> settled_state (mg_state m)"
      using that idle run_tidy [OF new_manager_ok _ assms] by (auto simp: tidy_manager_def new_manager_def)
    ultimately show ?thesis by (cases "mg_state m") (auto simp: rests_def)
  qed
  show ?thesis using one holders runs counts quiet disposal_idle [OF ok] by blast
qed

text \<open>A workspace is open, a run and a command begin; and an opening is left when its clean-up throws.\<close>

definition plain_config :: manager_config where
  "plain_config = \<lparr>cf_sha256Hex = (\<lambda>x. x), cf_runtimeDirectory = (\<lambda>x. x)\<rparr>"

definition opened_events :: "manager_event list" where
  "opened_events = [OpenRequested ''/r'', Answered 0 (Validated ''/r''), Answered 0 Assembled, Answered 0 SettingsWritten,
     OpenRequested ''/s'', Answered 0 Finished, RunBegins, CommandBegins]"

definition first_runtime :: active_runtime where
  "first_runtime = \<lparr>ar_id = 0, ar_identity = ''/r'', ar_repositoryPath = ''/r''\<rparr>"

theorem workspace_safety_witness:
  "\<exists>m. manager_run plain_config new_manager opened_events = Some m \<and> length (mg_ops m) \<le> 1
     \<and> mg_calls m = [(first_runtime, True), (first_runtime, False)] \<and> mg_leaseCount m = 2 \<and> mg_activeRuns m = 1"
proof -
  have "map_option mg_calls (manager_run plain_config new_manager opened_events) = Some [(first_runtime, True), (first_runtime, False)]"
    by code_simp
  then obtain m where m: "manager_run plain_config new_manager opened_events = Some m"
    "mg_calls m = [(first_runtime, True), (first_runtime, False)]" by auto
  show ?thesis using workspace_safety [OF m(1)] m by auto
qed

definition failed_events :: "manager_event list" where
  "failed_events = [OpenRequested ''/r'', Answered 0 (Validated ''/r''), Answered 0 (HostFailed ''no worker'' True), Answered 0 Finished]"

text \<open>The exception is real: the workspace is left opening, and no operation is in flight.\<close>

lemma opening_left:
  "map_option (\<lambda>m. (mg_ops m, mg_transitioning m, publicState (mg_state m))) (manager_run plain_config new_manager failed_events) =
     Some ([], False, LC_OPENING)"
  by code_simp

section \<open>An operation ends\<close>

text \<open>
  What may answer an operation that waits at a point: every way in which what it awaits can
  settle.
\<close>

definition expects :: "op_point \<Rightarrow> op_answer \<Rightarrow> bool" where
  "expects p a \<longleftrightarrow>
     (case p of
        Picking \<Rightarrow> (case a of PickerFailed d \<Rightarrow> True | PickerCancelled \<Rightarrow> True | PickerChose path \<Rightarrow> True | _ \<Rightarrow> False)
      | ReadingSettings \<Rightarrow> (case a of SettingsInvalid d \<Rightarrow> True | SettingsEmpty \<Rightarrow> True | SettingsRead path \<Rightarrow> True | _ \<Rightarrow> False)
      | OpenIdle rawPath held \<Rightarrow> (case a of ValidationFailed reason d \<Rightarrow> True | Validated canonical \<Rightarrow> True | _ \<Rightarrow> False)
      | OpenValidated held canonical \<Rightarrow>
          (case a of DirectoryFailed \<Rightarrow> True | DatabaseFailed d \<Rightarrow> True | HostFailed d closeThrows \<Rightarrow> True | Assembled \<Rightarrow> True
           | _ \<Rightarrow> False)
      | OpenAssembled held c \<Rightarrow> (case a of SettingsWritten \<Rightarrow> True | SettingsWriteFailed writeError d \<Rightarrow> True | _ \<Rightarrow> False)
      | OpenAborting held c reason d \<Rightarrow> (case a of HostDisposed workerError closeThrows \<Rightarrow> True | _ \<Rightarrow> False)
      | OpenReplacing r c \<Rightarrow> (case a of HostDisposed workerError closeThrows \<Rightarrow> True | _ \<Rightarrow> False)
      | CloseIdle r \<Rightarrow> a = WaitOver
      | CloseDisposing r \<Rightarrow> (case a of HostDisposed workerError closeThrows \<Rightarrow> True | _ \<Rightarrow> False)
      | Finishing \<Rightarrow> a = Finished
      | OpenWaiting rawPath held \<Rightarrow> False
      | CloseWaiting r \<Rightarrow> False)"

fun rank :: "op_point \<Rightarrow> nat" where
  "rank Picking = 8"
| "rank ReadingSettings = 8"
| "rank (OpenWaiting rawPath held) = 7"
| "rank (OpenIdle rawPath held) = 6"
| "rank (OpenValidated held canonical) = 5"
| "rank (OpenAssembled held c) = 4"
| "rank (OpenAborting held c reason d) = 3"
| "rank (OpenReplacing r c) = 3"
| "rank (CloseWaiting r) = 3"
| "rank (CloseIdle r) = 2"
| "rank (CloseDisposing r) = 1"
| "rank Finishing = 1"

definition op_rank :: "op_point option \<Rightarrow> nat" where
  "op_rank point = (case point of None \<Rightarrow> 0 | Some p \<Rightarrow> rank p)"

text \<open>How far operation \<open>i\<close> is from its end.\<close>

definition distance :: "nat \<Rightarrow> manager \<Rightarrow> nat" where
  "distance i m = op_rank (map_of (mg_ops m) i)"

lemma op_rank_simps [simp]: "op_rank None = 0" "op_rank (Some p) = rank p"
  by (simp_all add: op_rank_def)

lemma resume_advances: "waiting p \<Longrightarrow> rank (resume p) < rank p"
  by (cases p) simp_all

lemma resume_rank: "rank (resume p) \<le> rank p"
  by (cases p) simp_all

lemma answer_expects: "(\<exists>piece. answer cfg i p a m = Some piece) \<longleftrightarrow> expects p a"
  by (simp add: answer_def expects_def Let_def split: op_point.splits op_answer.splits)

lemma answer_advances:
  assumes "answer cfg i p a m = Some piece"
  shows "op_rank (fst piece) < rank p"
proof -
  have "op_rank (fst (doOpen i path x)) < 8" for path x
    by (simp add: doOpen_def Let_def goto_def waitForIdle_def)
  then show ?thesis using assms
    by (auto simp: answer_def goto_def operation_end_def abandon_def Let_def split: op_point.splits op_answer.splits option.splits)
qed

lemma moved_place: "mg_ops (snd piece) = [(i, p)] \<Longrightarrow> map_of (mg_ops (moved i piece)) i = fst piece"
  by (cases piece) (auto simp: moved_def split: option.split)

lemma answer_step:
  assumes ok: "manager_ok m" and "(i, p) \<in> set (mg_ops m)" and a: "answer cfg i p a m = Some piece"
  shows "manager_step cfg m (Answered i a) = Some (moved i piece) \<and> manager_ok (moved i piece) \<and> distance i (moved i piece) < rank p"
proof -
  have ops: "mg_ops m = [(i, p)]" using ok assms(2) by (cases rule: operation_cases) auto
  then have s: "manager_step cfg m (Answered i a) = Some (moved i piece)" using a by simp
  have "map_of (mg_ops (moved i piece)) i = fst piece" using moved_place answer_frame [OF a] ops by simp
  with s manager_step_ok [OF ok s] answer_advances [OF a] show ?thesis by (simp add: distance_def)
qed

text \<open>A step that is no answer to an operation leaves it where it waits, or wakes it.\<close>

lemma number_frames [piece_frames]:
  "mg_nextOp (setState s m) = mg_nextOp m" "mg_nextOp (failOpen h r d m) = mg_nextOp m" "mg_nextOp (closeDatabase c m) = mg_nextOp m"
  "mg_nextOp (snd (operation_end m)) = mg_nextOp m" "mg_nextOp (snd (waitForIdle i a b m)) = mg_nextOp m"
  "mg_nextOp (snd (doOpen i path m)) = mg_nextOp m" "mg_nextOp (snd (close_begin i m)) = mg_nextOp m"
  "mg_nextOp (snd (abandon h c r d k m)) = mg_nextOp m"
  by (simp_all add: setState_def failOpen_def closeDatabase_def goto_def operation_end_def waitForIdle_def doOpen_def
    close_begin_def abandon_def Let_def split: option.split)

lemma launch_place:
  assumes "i < mg_nextOp m" and "\<And>j m. mg_ops (snd (body j m)) = mg_ops m" and "\<And>j m. mg_nextOp (snd (body j m)) = mg_nextOp m"
  shows "map_of (mg_ops (launch body m)) i = map_of (mg_ops m) i \<and> i < mg_nextOp (launch body m)"
proof -
  let ?m = "m\<lparr>mg_nextOp := mg_nextOp m + 1\<rparr>"
  obtain point m1 where b: "body (mg_nextOp m) ?m = (point, m1)" by fastforce
  have "mg_ops m1 = mg_ops m" "mg_nextOp m1 = mg_nextOp m + 1"
    using assms(2,3) [of "mg_nextOp m" ?m] b by simp_all
  with assms(1) b show ?thesis
    by (auto simp: launch_def Let_def map_add_def split: option.split)
qed

lemma answer_number: "answer cfg i p a m = Some piece \<Longrightarrow> mg_nextOp (snd piece) = mg_nextOp m"
  by (auto simp: answer_def Let_def piece_frames split: op_point.splits op_answer.splits option.splits)

lemma map_of_resumed:
  "map_of (map (\<lambda>x. if fst x = j then (j, resume (snd x)) else x) ops) i = (if i = j then map_option resume (map_of ops i) else map_of ops i)"
  by (induction ops) auto

lemma call_end_place:
  assumes "call_end n m = Some m'"
  shows "mg_nextOp m' = mg_nextOp m \<and> (map_of (mg_ops m') i = map_of (mg_ops m) i
    \<or> mg_calls m' = [] \<and> map_of (mg_ops m') i = map_option resume (map_of (mg_ops m) i) \<and> mg_idleWaiter m = Some i
    \<or> mg_calls m' \<noteq> [] \<and> mg_leaseCount m = 1)"
  using assms by (auto simp: call_end_def Let_def releaseLease_def map_of_resumed split: if_splits option.splits)

lemma request_place:
  assumes "i < mg_nextOp m" and "e \<in> {OpenRequested path, ChooseRequested, ReopenRequested, CloseRequested}"
    and "manager_step cfg m e = Some m'"
  shows "map_of (mg_ops m') i = map_of (mg_ops m) i \<and> i < mg_nextOp m'"
proof -
  have "map_of (mg_ops (launch (\<lambda>j m. body j (m\<lparr>mg_transitioning := True\<rparr>)) m)) i = map_of (mg_ops m) i
      \<and> i < mg_nextOp (launch (\<lambda>j m. body j (m\<lparr>mg_transitioning := True\<rparr>)) m)"
    if "\<And>j m. mg_ops (snd (body j m)) = mg_ops m" "\<And>j m. mg_nextOp (snd (body j m)) = mg_nextOp m" for body
    using that by (intro launch_place [OF assms(1)]) simp_all
  from this [of "\<lambda>j. doOpen j path"] this [of "\<lambda>j. goto Picking"] this [of "\<lambda>j. goto ReadingSettings"] this [of close_begin]
  show ?thesis using assms
    by (auto simp: openPath_def chooseRepository_def reopenLast_def close_def piece_frames split: if_splits)
qed

lemma step_place:
  assumes ok: "manager_ok m" and i: "i < mg_nextOp m" and s: "manager_step cfg m e = Some m'" and e: "\<And>a. e \<noteq> Answered i a"
  shows "i < mg_nextOp m' \<and> (map_of (mg_ops m') i = map_of (mg_ops m) i
    \<or> mg_calls m' = [] \<and> (\<exists>p. map_of (mg_ops m) i = Some p \<and> waiting p \<and> map_of (mg_ops m') i = Some (resume p)))"
proof (cases e)
  case (CallEnds n)
  then have c: "call_end n m = Some m'" using s by simp
  have ok': "manager_ok m'" by (rule call_end_ok [OF ok c])
  have count: "length (mg_calls m') = length (mg_calls m) - 1" "mg_calls m \<noteq> []"
    using c by (auto simp: call_end_def releaseLease_def Let_def split: if_splits option.splits)
  have lease: "mg_leaseCount m = int (length (mg_calls m))" using ok by (simp add: manager_ok_def base_ok_def counts_ok_def)
  have "\<exists>p. map_of (mg_ops m) i = Some p \<and> waiting p" if "mg_idleWaiter m = Some i"
    using ok
  proof (cases rule: operation_cases)
    case idle
    with that show ?thesis by (simp add: place_ok_def)
  next
    case (busy j p)
    with that show ?thesis by (auto simp: place_ok_def split: if_splits)
  qed
  with call_end_place [OF c, of i] i count lease show ?thesis by auto
next
  case (Answered j a)
  with ok s obtain p piece where p: "mg_ops m = [(j, p)]" "answer cfg j p a m = Some piece" "m' = moved j piece"
    by (blast elim: answered_ok)
  have "j \<noteq> i" using e Answered by blast
  moreover have "mg_ops (snd piece) = [(j, p)]" "mg_nextOp (snd piece) = mg_nextOp m"
    using answer_frame [OF p(2)] answer_number [OF p(2)] p(1) by simp_all
  ultimately show ?thesis using i p(1,3) by (cases piece) (auto simp: moved_def split: option.split)
qed (use request_place [OF i _ s] s i in \<open>auto simp: withReadyRuntime_begin_def withActiveRun_begin_def acquireLease_def
      withConfigurationChange_def config_begin_def config_end_def split: option.splits if_splits\<close>)

text \<open>The answers that operation \<open>i\<close> takes, in any continuation, are bounded by its distance.\<close>

definition answers_of :: "nat \<Rightarrow> manager_event list \<Rightarrow> nat" where
  "answers_of i es = length (filter (\<lambda>e. \<exists>a. e = Answered i a) es)"

lemma answered_distance:
  assumes "manager_ok m" and "manager_step cfg m (Answered i a) = Some m'"
  shows "distance i m' < distance i m \<and> mg_nextOp m' = mg_nextOp m"
proof -
  from assms obtain p piece where p: "mg_ops m = [(i, p)]" "answer cfg i p a m = Some piece" "m' = moved i piece"
    by (rule answered_ok)
  have "mg_nextOp m' = mg_nextOp (snd piece)" by (simp add: p(3) moved_def split: prod.split option.split)
  with answer_step [OF assms(1) _ p(2)] answer_number [OF p(2)] p(1,3) show ?thesis by (simp add: distance_def)
qed

lemma run_distance:
  "manager_ok m \<Longrightarrow> i < mg_nextOp m \<Longrightarrow> manager_run cfg m es = Some m' \<Longrightarrow> answers_of i es + distance i m' \<le> distance i m"
proof (induction es arbitrary: m)
  case (Cons e es)
  then obtain m1 where s: "manager_step cfg m e = Some m1" and r: "manager_run cfg m1 es = Some m'"
    by (auto simp: bind_eq_Some_conv)
  have ok1: "manager_ok m1" by (rule manager_step_ok [OF Cons.prems(1) s])
  show ?case
  proof (cases "\<exists>a. e = Answered i a")
    case True
    then obtain a where e: "e = Answered i a" by blast
    from answered_distance [OF Cons.prems(1) s [unfolded e]] Cons.prems(2) have
      "distance i m1 < distance i m" "i < mg_nextOp m1" by auto
    with Cons.IH [OF ok1 _ r] show ?thesis by (simp add: e answers_of_def)
  next
    case False
    with step_place [OF Cons.prems(1,2) s] have "i < mg_nextOp m1" "distance i m1 \<le> distance i m"
      using resume_rank by (auto simp: distance_def)
    with Cons.IH [OF ok1 _ r] False show ?thesis by (simp add: answers_of_def)
  qed
qed (simp add: answers_of_def)

text \<open>The numbers of the operations are those given out.\<close>

definition below :: "nat \<Rightarrow> (nat \<times> op_point) list \<Rightarrow> bool" where
  "below n ops \<longleftrightarrow> (\<forall>x\<in>set ops. fst x < n)"

definition numbered :: "manager \<Rightarrow> bool" where
  "numbered m \<longleftrightarrow> below (mg_nextOp m) (mg_ops m)"

lemma below_simps [simp]:
  "below n []" "below n (x # ops) \<longleftrightarrow> fst x < n \<and> below n ops"
  by (simp_all add: below_def)

lemma below_launched: "below n ops \<Longrightarrow> below (Suc n) (ops @ [(n, p)])" "below n ops \<Longrightarrow> below (Suc n) ops"
  by (auto simp: below_def less_Suc_eq)

lemma below_resumed: "below n ops \<Longrightarrow> below n (map (\<lambda>x. if fst x = i then (i, resume (snd x)) else x) ops)"
  by (auto simp: below_def)

lemma launch_numbered:
  assumes "numbered m" and "\<And>j m. mg_ops (snd (body j m)) = mg_ops m" and "\<And>j m. mg_nextOp (snd (body j m)) = mg_nextOp m"
  shows "numbered (launch (\<lambda>j m. body j (m\<lparr>mg_transitioning := True\<rparr>)) m)"
proof -
  let ?m = "m\<lparr>mg_nextOp := mg_nextOp m + 1, mg_transitioning := True\<rparr>"
  obtain point m1 where b: "body (mg_nextOp m) ?m = (point, m1)" by fastforce
  have "mg_ops m1 = mg_ops m" "mg_nextOp m1 = mg_nextOp m + 1"
    using assms(2,3) [of "mg_nextOp m" ?m] b by simp_all
  with assms(1) b show ?thesis
    by (simp add: launch_def Let_def numbered_def below_launched split: option.split)
qed

lemma step_numbered:
  assumes ok: "manager_ok m" and n: "numbered m" and s: "manager_step cfg m e = Some m'"
  shows "numbered m'"
proof (cases e)
  case (Answered j a)
  with ok s obtain p piece where p: "mg_ops m = [(j, p)]" "answer cfg j p a m = Some piece" "m' = moved j piece"
    by (blast elim: answered_ok)
  have "mg_ops (snd piece) = mg_ops m" "mg_nextOp (snd piece) = mg_nextOp m"
    using answer_frame [OF p(2)] answer_number [OF p(2)] by simp_all
  with n p(1,3) show ?thesis by (cases piece) (auto simp: numbered_def moved_def split: option.split)
next
  case (CallEnds k)
  with s n show ?thesis by (auto simp: numbered_def below_resumed call_end_def releaseLease_def Let_def split: if_splits option.splits)
qed (use launch_numbered [OF n, of "\<lambda>j. doOpen j _"] launch_numbered [OF n, of "\<lambda>j. goto Picking"]
    launch_numbered [OF n, of "\<lambda>j. goto ReadingSettings"] launch_numbered [OF n, of close_begin] n s in
    \<open>auto simp: openPath_def chooseRepository_def reopenLast_def close_def piece_frames numbered_def withReadyRuntime_begin_def
      withActiveRun_begin_def acquireLease_def withConfigurationChange_def config_begin_def config_end_def
      split: option.splits if_splits\<close>)

lemma run_numbered:
  "manager_ok m \<Longrightarrow> numbered m \<Longrightarrow> manager_run cfg m es = Some m' \<Longrightarrow> numbered m'"
  by (induction es arbitrary: m) (auto simp: bind_eq_Some_conv intro: step_numbered manager_step_ok)

text \<open>The end of the last command in flight wakes an operation that waits.\<close>

lemma drained:
  assumes "manager_ok m" and "(i, p) \<in> set (mg_ops m)" and "waiting p" and "length (mg_calls m) = Suc k"
  shows "\<exists>m'. manager_run cfg m (replicate (Suc k) (CallEnds 0)) = Some m' \<and> manager_ok m' \<and> mg_ops m' = [(i, resume p)]"
  using assms
proof (induction k arbitrary: m)
  case 0
  then obtain c where c: "mg_calls m = [c]" by (cases "mg_calls m") auto
  have ops: "mg_ops m = [(i, p)]" and w: "mg_idleWaiter m = Some i"
    using "0.prems" by (auto elim!: operation_cases simp: place_ok_def)
  have "call_end 0 m = Some (releaseLease (m\<lparr>mg_calls := [], mg_activeRuns := (if snd c then mg_activeRuns m - 1 else mg_activeRuns m)\<rparr>))"
    by (simp add: c call_end_def Let_def)
  moreover have "mg_leaseCount m = 1"
    using "0.prems" c by (simp add: manager_ok_def base_ok_def counts_ok_def)
  ultimately obtain m' where m': "call_end 0 m = Some m'" "mg_ops m' = [(i, resume p)]"
    using ops w by (simp add: releaseLease_def Let_def)
  with call_end_ok [OF "0.prems"(1) m'(1)] show ?case by auto
next
  case (Suc k)
  define m1 where "m1 = m\<lparr>mg_calls := tl (mg_calls m),
    mg_activeRuns := (if snd (mg_calls m ! 0) then mg_activeRuns m - 1 else mg_activeRuns m), mg_leaseCount := mg_leaseCount m - 1\<rparr>"
  have "mg_leaseCount m = int (Suc (Suc k))" using Suc.prems by (simp add: manager_ok_def base_ok_def counts_ok_def)
  then have s: "call_end 0 m = Some m1"
    using Suc.prems(4) by (cases "mg_calls m") (auto simp: call_end_def releaseLease_def Let_def m1_def)
  have "manager_ok m1" by (rule call_end_ok [OF Suc.prems(1) s])
  moreover have "mg_ops m1 = mg_ops m" "length (mg_calls m1) = Suc k" using Suc.prems by (simp_all add: m1_def)
  ultimately obtain m' where "manager_run cfg m1 (replicate (Suc k) (CallEnds 0)) = Some m'" "manager_ok m'" "mg_ops m' = [(i, resume p)]"
    using Suc.IH [of m1] Suc.prems(2,3) by metis
  then show ?case using s by auto
qed

lemma some_answer:
  assumes "\<not> waiting p"
  shows "\<exists>a. expects p a"
proof -
  have "expects Picking PickerCancelled" "expects ReadingSettings SettingsEmpty" "expects (OpenIdle path held) (Validated path)"
    "expects (OpenValidated held canonical) Assembled" "expects (OpenAssembled held c) SettingsWritten"
    "expects (OpenAborting held c reason d) (HostDisposed None False)" "expects (OpenReplacing r c) (HostDisposed None False)"
    "expects (CloseIdle r) WaitOver" "expects (CloseDisposing r) (HostDisposed None False)" "expects Finishing Finished"
    for path held canonical c reason d r
    by (simp_all add: expects_def)
  with assms show ?thesis by (cases p; simp; metis)
qed

lemma run_append: "manager_run cfg m (es @ fs) = Option.bind (manager_run cfg m es) (\<lambda>m'. manager_run cfg m' fs)"
  by (induction es arbitrary: m) (auto split: bind_split)

lemma waiting_calls: "manager_ok m \<Longrightarrow> (i, p) \<in> set (mg_ops m) \<Longrightarrow> waiting p \<Longrightarrow> mg_calls m \<noteq> []"
  by (erule operation_cases; cases p) (auto simp: place_ok_def point_ok_def)

lemma operation_completes:
  "manager_ok m \<Longrightarrow> \<exists>es m'. manager_run cfg m es = Some m' \<and> manager_ok m' \<and> mg_ops m' = []"
proof (induction "op_rank (map_option snd (List.find (\<lambda>_. True) (mg_ops m)))" arbitrary: m rule: less_induct)
  case less
  from less.prems show ?case
  proof (cases rule: operation_cases)
    case idle
    with less.prems show ?thesis by (intro exI [of _ "[]"]) simp
  next
    case (busy i p)
    have "\<exists>es m1. manager_run cfg m es = Some m1 \<and> manager_ok m1 \<and> (\<forall>q. mg_ops m1 = [(i, q)] \<longrightarrow> rank q < rank p)
        \<and> (mg_ops m1 = [] \<or> (\<exists>q. mg_ops m1 = [(i, q)]))"
    proof (cases "waiting p")
      case True
      then obtain k where "length (mg_calls m) = Suc k"
        using waiting_calls [OF less.prems, of i p] busy(1) by (cases "mg_calls m") auto
      from drained [OF less.prems _ True this, of i cfg] busy(1) obtain m1 where
        "manager_run cfg m (replicate (Suc k) (CallEnds 0)) = Some m1" "manager_ok m1" "mg_ops m1 = [(i, resume p)]"
        by auto
      with resume_advances [OF True] show ?thesis by (intro exI [of _ "replicate (Suc k) (CallEnds 0)"] exI [of _ m1]) simp
    next
      case False
      then obtain a piece where a: "answer cfg i p a m = Some piece" using some_answer answer_expects by blast
      have "mg_ops (moved i piece) = (case fst piece of None \<Rightarrow> [] | Some q \<Rightarrow> [(i, q)])"
        using answer_frame [OF a] busy(1) by (cases piece) (auto simp: moved_def split: option.split)
      with answer_step [OF less.prems _ a] busy(1) show ?thesis
        by (intro exI [of _ "[Answered i a]"] exI [of _ "moved i piece"]) (auto simp: distance_def split: option.splits)
    qed
    then obtain es m1 where 1: "manager_run cfg m es = Some m1" "manager_ok m1" "\<forall>q. mg_ops m1 = [(i, q)] \<longrightarrow> rank q < rank p"
      "mg_ops m1 = [] \<or> (\<exists>q. mg_ops m1 = [(i, q)])" by blast
    show ?thesis
    proof (cases "mg_ops m1 = []")
      case False
      with 1(3,4) busy(1) have "op_rank (map_option snd (List.find (\<lambda>_. True) (mg_ops m1))) < op_rank (map_option snd (List.find (\<lambda>_. True) (mg_ops m)))"
        by auto
      from less.hyps [OF this 1(2)] obtain fs m' where "manager_run cfg m1 fs = Some m'" "manager_ok m'" "mg_ops m' = []" by blast
      with 1(1) show ?thesis by (intro exI [of _ "es @ fs"]) (simp add: run_append)
    qed (use 1 in blast)
  qed
qed

text \<open>
  C35. Opening and closing end. After any history, an operation in flight takes exactly the
  answers that what it awaits can give, and every one of them brings it strictly nearer to its
  end. A step that is no answer to it leaves it where it is, or, when it waits for the commands
  in flight and the last of them ends, wakes it. In any continuation it takes at most eight
  answers. While it waits there are commands in flight, and their ends wake it; anywhere else it
  expects some answer; so there always is a continuation that brings it to its end.
\<close>

theorem workspace_operation_ends:
  assumes "manager_run cfg new_manager es = Some m" and "(i, p) \<in> set (mg_ops m)"
  shows "(\<forall>a. if expects p a
         then \<exists>m'. manager_step cfg m (Answered i a) = Some m' \<and> distance i m' < distance i m
         else manager_step cfg m (Answered i a) = None)
    \<and> (\<forall>e m'. manager_step cfg m e = Some m' \<longrightarrow> (\<forall>a. e \<noteq> Answered i a) \<longrightarrow>
         map_of (mg_ops m') i = Some p \<or> waiting p \<and> mg_calls m' = [] \<and> map_of (mg_ops m') i = Some (resume p))
    \<and> (\<forall>es' m'. manager_run cfg m es' = Some m' \<longrightarrow> answers_of i es' + distance i m' \<le> distance i m) \<and> distance i m \<le> 8
    \<and> (if waiting p
       then mg_calls m \<noteq> [] \<and> (\<exists>m'. manager_run cfg m (replicate (length (mg_calls m)) (CallEnds 0)) = Some m' \<and> mg_ops m' = [(i, resume p)])
       else \<exists>a. expects p a)
    \<and> (\<exists>es' m'. manager_run cfg m es' = Some m' \<and> mg_ops m' = [] \<and> \<not> mg_transitioning m')"
proof -
  have ok: "manager_ok m" using run_ok [OF new_manager_ok assms(1)] .
  have ops: "mg_ops m = [(i, p)]" using ok assms(2) by (cases rule: operation_cases) auto
  have d: "distance i m = rank p" by (simp add: distance_def ops)
  have "numbered m" using run_numbered [OF new_manager_ok _ assms(1)] by (simp add: numbered_def new_manager_def)
  then have i: "i < mg_nextOp m" using ops by (simp add: numbered_def)
  have takes: "if expects p a then \<exists>m'. manager_step cfg m (Answered i a) = Some m' \<and> distance i m' < distance i m
      else manager_step cfg m (Answered i a) = None" for a
  proof (cases "answer cfg i p a m")
    case None
    then have "\<not> expects p a" using answer_expects [of cfg i p a m] by simp
    with None ops show ?thesis by simp
  next
    case (Some piece)
    then have "expects p a" using answer_expects [of cfg i p a m] by simp
    with answer_step [OF ok assms(2) Some] d show ?thesis by auto
  qed
  have other: "map_of (mg_ops m') i = Some p \<or> waiting p \<and> mg_calls m' = [] \<and> map_of (mg_ops m') i = Some (resume p)"
    if "manager_step cfg m e = Some m'" "\<forall>a. e \<noteq> Answered i a" for e m'
    using step_place [OF ok i that(1)] that(2) by (auto simp: ops)
  have woken: "mg_calls m \<noteq> [] \<and> (\<exists>m'. manager_run cfg m (replicate (length (mg_calls m)) (CallEnds 0)) = Some m' \<and> mg_ops m' = [(i, resume p)])"
    if w: "waiting p"
  proof -
    obtain k where k: "length (mg_calls m) = Suc k" using waiting_calls [OF ok assms(2) w] by (cases "mg_calls m") auto
    with drained [OF ok assms(2) w k, of cfg] show ?thesis by auto
  qed
  have fork: "if waiting p
      then mg_calls m \<noteq> [] \<and> (\<exists>m'. manager_run cfg m (replicate (length (mg_calls m)) (CallEnds 0)) = Some m' \<and> mg_ops m' = [(i, resume p)])
      else \<exists>a. expects p a"
    using woken some_answer by simp
  have bound: "distance i m \<le> 8" unfolding d by (cases p) simp_all
  obtain es' m' where "manager_run cfg m es' = Some m'" "manager_ok m'" "mg_ops m' = []"
    using operation_completes [OF ok] by blast
  then have ends: "\<exists>es' m'. manager_run cfg m es' = Some m' \<and> mg_ops m' = [] \<and> \<not> mg_transitioning m'"
    by (auto simp: manager_ok_def operation_ok_def place_ok_def)
  show ?thesis
    by (intro conjI allI impI; (rule takes | rule fork | rule bound | rule ends | (rule other; assumption)
      | (rule run_distance [OF ok i]; assumption)))
qed

definition waiting_events :: "manager_event list" where
  "waiting_events = [OpenRequested ''/r'', Answered 0 (Validated ''/r''), Answered 0 Assembled, Answered 0 SettingsWritten,
     Answered 0 Finished, CommandBegins, CloseRequested]"

theorem workspace_operation_ends_witness:
  "\<exists>m i p. manager_run plain_config new_manager waiting_events = Some m
     \<and> mg_ops m = [(i, p)] \<and> waiting p \<and> (\<exists>m'. manager_run plain_config m [CallEnds 0] = Some m' \<and> mg_ops m' = [(i, resume p)])"
proof -
  have e: "map_option (\<lambda>m. (mg_ops m, mg_calls m)) (manager_run plain_config new_manager waiting_events) =
      Some ([(1, CloseWaiting first_runtime)], [(first_runtime, False)])"
    by code_simp
  then obtain m where m: "manager_run plain_config new_manager waiting_events = Some m" "mg_ops m = [(1, CloseWaiting first_runtime)]"
    "mg_calls m = [(first_runtime, False)]" by auto
  show ?thesis using workspace_operation_ends [OF m(1), of 1 "CloseWaiting first_runtime"] m by auto
qed

end
