(* ===== verification/Source_References.thy ===== *)
theory Source_References
  imports Json
begin

text \<open>
  References to the sources of a context snapshot and their canonical text
  (\<open>packages/contracts/src/source-reference.ts\<close>), with the percent encoding of path segments
  that ECMA-262 defines (\<open>encodeURIComponent\<close>, \<open>decodeURIComponent\<close>). Strings are UTF-8, so the
  encoding works byte by byte, and decoding demands that the escaped bytes are UTF-8.
\<close>

section \<open>UTF-8\<close>

abbreviation byte :: "char \<Rightarrow> nat" where
  "byte c \<equiv> of_char c"

text \<open>How many bytes a sequence with a leading byte that is not ASCII has; 0: not a leading byte.\<close>

definition utf8_length :: "nat \<Rightarrow> nat" where
  "utf8_length b =
     (if 194 \<le> b \<and> b \<le> 223 then 2 else if 224 \<le> b \<and> b \<le> 239 then 3 else if 240 \<le> b \<and> b \<le> 244 then 4 else 0)"

text \<open>No overlong sequences, no surrogates, nothing above U+10FFFF.\<close>

definition utf8_sequence :: "string \<Rightarrow> bool" where
  "utf8_sequence cs \<longleftrightarrow>
     (case cs of
        lead # c # rest \<Rightarrow>
          length cs = utf8_length (byte lead) \<and> list_all (\<lambda>d. 128 \<le> byte d \<and> byte d < 192) (c # rest)
          \<and> (byte lead = 224 \<longrightarrow> 160 \<le> byte c) \<and> (byte lead = 237 \<longrightarrow> byte c < 160)
          \<and> (byte lead = 240 \<longrightarrow> 144 \<le> byte c) \<and> (byte lead = 244 \<longrightarrow> byte c < 144)
      | _ \<Rightarrow> False)"

function utf8_valid :: "string \<Rightarrow> bool" where
  "utf8_valid [] = True"
| "utf8_valid (c # cs) =
     (if byte c < 128 then utf8_valid cs
      else (let n = utf8_length (byte c) - 1 in utf8_sequence (c # take n cs) \<and> utf8_valid (drop n cs)))"
  by pat_completeness auto
termination by (relation "measure length") auto

section \<open>Percent encoding\<close>

definition uri_unreserved :: "char \<Rightarrow> bool" where
  "uri_unreserved c \<longleftrightarrow>
     c \<in> set ''ABCDEFGHIJKLMNOPQRSTUVWXYZabcdefghijklmnopqrstuvwxyz0123456789-_.!~*()'' \<or> c = CHR 0x27"

definition upper_hex :: "nat \<Rightarrow> char" where
  "upper_hex n = char_of (if n < 10 then 48 + n else 55 + n)"

definition encode_byte :: "char \<Rightarrow> string" where
  "encode_byte c =
     (if uri_unreserved c then [c] else [CHR ''%'', upper_hex (byte c div 16), upper_hex (byte c mod 16)])"

definition encodeURIComponent :: "string \<Rightarrow> string" where
  "encodeURIComponent s = concat (map encode_byte s)"

definition hex_of_char :: "char \<Rightarrow> nat option" where
  "hex_of_char c =
     (let n = byte c in
      if 48 \<le> n \<and> n \<le> 57 then Some (n - 48) else if 65 \<le> n \<and> n \<le> 70 then Some (n - 55)
      else if 97 \<le> n \<and> n \<le> 102 then Some (n - 87) else None)"

text \<open>One escape at the front of a text.\<close>

fun read_escape :: "string \<Rightarrow> (char \<times> string) option" where
  "read_escape (p # a # b # rest) =
     (if p \<noteq> CHR ''%'' then None
      else case (hex_of_char a, hex_of_char b) of
          (Some x, Some y) \<Rightarrow> Some (char_of (16 * x + y), rest)
        | _ \<Rightarrow> None)"
| "read_escape s = None"

fun read_escapes :: "nat \<Rightarrow> string \<Rightarrow> (string \<times> string) option" where
  "read_escapes 0 s = Some ([], s)"
| "read_escapes (Suc n) s =
     (case read_escape s of
        None \<Rightarrow> None
      | Some (c, s') \<Rightarrow> map_option (\<lambda>(cs, s''). (c # cs, s'')) (read_escapes n s'))"

lemma read_escape_shorter: "read_escape s = Some (c, t) \<Longrightarrow> length t < length s"
  by (induction s rule: read_escape.induct) (auto split: if_splits option.splits)

lemma read_escapes_shorter: "read_escapes n s = Some (cs, t) \<Longrightarrow> length t \<le> length s"
  by (induction n arbitrary: s cs) (fastforce dest: read_escape_shorter split: option.splits)+

text \<open>\<open>None\<close> is the \<open>URIError\<close>.\<close>

function decodeURIComponent :: "string \<Rightarrow> string option" where
  "decodeURIComponent [] = Some []"
| "decodeURIComponent (c # cs) =
     (if c \<noteq> CHR ''%'' then map_option (\<lambda>t. c # t) (decodeURIComponent cs)
      else case read_escape (c # cs) of
          None \<Rightarrow> None
        | Some (lead, rest) \<Rightarrow>
            if byte lead < 128 then map_option (\<lambda>t. lead # t) (decodeURIComponent rest)
            else (case read_escapes (utf8_length (byte lead) - 1) rest of
                None \<Rightarrow> None
              | Some (more, rest') \<Rightarrow>
                  if utf8_sequence (lead # more) then map_option (\<lambda>t. (lead # more) @ t) (decodeURIComponent rest')
                  else None))"
  by pat_completeness auto
termination
  by (relation "measure length") (auto dest!: read_escape_shorter read_escapes_shorter)

section \<open>Repository paths\<close>

text \<open>\<open>s.split(c)\<close>\<close>

fun split_on :: "char \<Rightarrow> string \<Rightarrow> string list" where
  "split_on c [] = [[]]"
| "split_on c (x # xs) =
     (if x = c then [] # split_on c xs
      else case split_on c xs of [] \<Rightarrow> [[x]] | s # ss \<Rightarrow> (x # s) # ss)"

definition is_letter :: "char \<Rightarrow> bool" where
  "is_letter c \<longleftrightarrow> 65 \<le> byte c \<and> byte c \<le> 90 \<or> 97 \<le> byte c \<and> byte c \<le> 122"

definition drive_prefixed :: "string \<Rightarrow> bool" where
  "drive_prefixed path \<longleftrightarrow> (case path of c # d # _ \<Rightarrow> is_letter c \<and> d = CHR '':'' | _ \<Rightarrow> False)"

definition isCanonicalRepositoryPath :: "string \<Rightarrow> bool" where
  "isCanonicalRepositoryPath path \<longleftrightarrow>
     path \<noteq> [] \<and> take 1 path \<noteq> ''/'' \<and> \<not> list_ex (\<lambda>c. c = CHR 0x5C \<or> c = CHR 0x00) path
     \<and> \<not> drive_prefixed path
     \<and> list_all (\<lambda>segment. segment \<noteq> [] \<and> segment \<noteq> ''.'' \<and> segment \<noteq> ''..'') (split_on (CHR ''/'') path)"

definition encodeRepositoryPath :: "string \<Rightarrow> string" where
  "encodeRepositoryPath path = join ''/'' (map encodeURIComponent (split_on (CHR ''/'') path))"

fun decode_segments :: "string list \<Rightarrow> string list option" where
  "decode_segments [] = Some []"
| "decode_segments (s # ss) =
     (case decodeURIComponent s of None \<Rightarrow> None | Some t \<Rightarrow> map_option (\<lambda>ts. t # ts) (decode_segments ss))"

definition decodeRepositoryPath :: "string \<Rightarrow> string option" where
  "decodeRepositoryPath encoded = map_option (join ''/'') (decode_segments (split_on (CHR ''/'') encoded))"

section \<open>References\<close>

datatype source_reference =
  TaskSpecVersionRef string
| NodeVersionRef string
| RepositoryContentRef string

fun sourceRefToString :: "source_reference \<Rightarrow> string" where
  "sourceRefToString (TaskSpecVersionRef i) = ''task-spec://'' @ i"
| "sourceRefToString (NodeVersionRef i) = ''node://'' @ i"
| "sourceRefToString (RepositoryContentRef path) = ''repo://'' @ encodeRepositoryPath path"

text \<open>What \<open>.\<close> of a regular expression does not match: LF, CR, U+2028, U+2029.\<close>

fun has_line_terminator :: "string \<Rightarrow> bool" where
  "has_line_terminator [] = False"
| "has_line_terminator (c # cs) =
     (c = CHR 0x0A \<or> c = CHR 0x0D
      \<or> c = CHR 0xE2 \<and> (take 2 cs = [CHR 0x80, CHR 0xA8] \<or> take 2 cs = [CHR 0x80, CHR 0xA9])
      \<or> has_line_terminator cs)"

definition scheme_char :: "char \<Rightarrow> bool" where
  "scheme_char c \<longleftrightarrow> 97 \<le> byte c \<and> byte c \<le> 122 \<or> 48 \<le> byte c \<and> byte c \<le> 57 \<or> c = CHR ''-''"

text \<open>\<open>/^([a-z][a-z0-9-]*):\/\/(.+)$/\<close>: a scheme character is never a colon.\<close>

definition match_reference :: "string \<Rightarrow> (string \<times> string) option" where
  "match_reference s =
     (let scheme = takeWhile scheme_char s; rest = dropWhile scheme_char s in
      if (case scheme of [] \<Rightarrow> False | c # _ \<Rightarrow> 97 \<le> byte c \<and> byte c \<le> 122)
         \<and> take 3 rest = ''://'' \<and> drop 3 rest \<noteq> [] \<and> \<not> has_line_terminator (drop 3 rest)
      then Some (scheme, drop 3 rest) else None)"

text \<open>Errors are the messages of the thrown \<open>Error\<close>.\<close>

definition invalid_reference :: "string \<Rightarrow> string" where
  "invalid_reference s = ''Invalid source reference: '' @ s"

definition parseSourceRef :: "string \<Rightarrow> string + source_reference" where
  "parseSourceRef s =
     (case match_reference s of
        None \<Rightarrow> Inl (invalid_reference s)
      | Some (scheme, i) \<Rightarrow>
          if scheme = ''task-spec'' then Inr (TaskSpecVersionRef i)
          else if scheme = ''node'' then Inr (NodeVersionRef i)
          else if scheme = ''repo''
          then (case decodeRepositoryPath i of
                  None \<Rightarrow> Inl (invalid_reference s)
                | Some path \<Rightarrow>
                    if \<not> isCanonicalRepositoryPath path then Inl (invalid_reference s)
                    else if ''repo://'' @ encodeRepositoryPath path \<noteq> s then Inl (invalid_reference s)
                    else Inr (RepositoryContentRef path))
          else Inl (''Unknown source reference scheme: '' @ scheme))"

section \<open>The encoding reads back\<close>

lemma byte_less [simp]: "byte c < 256"
  by (cases c) (simp add: of_char_def)

lemma byte_div [simp]: "byte c div 16 < 16"
  by (rule less_mult_imp_div_less) simp

lemma byte_slash [simp]: "byte (CHR ''/'') = 47"
  by (simp add: of_char_def)

lemma hex_of_upper: "n < 16 \<Longrightarrow> hex_of_char (upper_hex n) = Some n"
  by (auto simp: hex_of_char_def upper_hex_def of_char_of Let_def)

lemma read_encoded: "\<not> uri_unreserved c \<Longrightarrow> read_escape (encode_byte c @ s) = Some (c, s)"
  by (simp add: encode_byte_def hex_of_upper)

lemma unreserved_ascii: "uri_unreserved c \<Longrightarrow> byte c < 128 \<and> c \<noteq> CHR ''%'' \<and> c \<noteq> CHR ''/''"
  unfolding uri_unreserved_def by (auto simp: of_char_def)

lemma reserved_high: "128 \<le> byte c \<Longrightarrow> \<not> uri_unreserved c"
  using unreserved_ascii [of c] by auto

lemma encode_reserved: "\<not> uri_unreserved c \<Longrightarrow> \<exists>a b. encode_byte c = [CHR ''%'', a, b]"
  by (simp add: encode_byte_def)

lemma read_encoded_all:
  "list_all (\<lambda>c. 128 \<le> byte c) cs \<Longrightarrow>
     read_escapes (length cs) (concat (map encode_byte cs) @ s) = Some (cs, s)"
  by (induction cs) (auto simp: read_encoded reserved_high)

lemma sequence_high: "utf8_sequence (c # cs) \<Longrightarrow> list_all (\<lambda>d. 128 \<le> byte d) cs"
  by (cases cs) (auto simp: utf8_sequence_def list_all_iff)

lemma sequence_length: "utf8_sequence (c # cs) \<Longrightarrow> length cs = utf8_length (byte c) - 1"
  by (cases cs) (auto simp: utf8_sequence_def)

lemma decode_encode: "utf8_valid s \<Longrightarrow> decodeURIComponent (encodeURIComponent s) = Some s"
proof (induction s rule: utf8_valid.induct)
  case (2 c cs)
  let ?n = "utf8_length (byte c) - 1"
  consider (plain) "uri_unreserved c" | (ascii) "\<not> uri_unreserved c" "byte c < 128" | (multi) "\<not> byte c < 128"
    by blast
  then show ?case
  proof cases
    case plain
    with 2 unreserved_ascii [of c] show ?thesis
      by (simp add: encodeURIComponent_def encode_byte_def)
  next
    case ascii
    obtain a b where ab: "encode_byte c = [CHR ''%'', a, b]" using encode_reserved ascii(1) by blast
    have "read_escape (CHR ''%'' # a # b # encodeURIComponent cs) = Some (c, encodeURIComponent cs)"
      using read_encoded [OF ascii(1), of "encodeURIComponent cs"] ab by simp
    with 2 ascii ab show ?thesis by (simp add: encodeURIComponent_def del: read_escape.simps)
  next
    case multi
    then have r: "\<not> uri_unreserved c" using reserved_high by auto
    obtain a b where ab: "encode_byte c = [CHR ''%'', a, b]" using encode_reserved r by blast
    have v: "utf8_sequence (c # take ?n cs)" "utf8_valid (drop ?n cs)" using 2(3) multi by (auto simp: Let_def)
    have IH: "decodeURIComponent (encodeURIComponent (drop ?n cs)) = Some (drop ?n cs)" using 2 multi v by simp
    have split: "encodeURIComponent cs = concat (map encode_byte (take ?n cs)) @ encodeURIComponent (drop ?n cs)"
      unfolding encodeURIComponent_def by (metis append_take_drop_id concat_append map_append)
    have len: "length (take ?n cs) = ?n" using sequence_length [OF v(1)] by simp
    have "read_escape (CHR ''%'' # a # b # encodeURIComponent cs) = Some (c, encodeURIComponent cs)"
      using read_encoded [OF r, of "encodeURIComponent cs"] ab by simp
    moreover have "read_escapes ?n (encodeURIComponent cs) = Some (take ?n cs, encodeURIComponent (drop ?n cs))"
      using read_encoded_all [OF sequence_high [OF v(1)]] len split by simp
    moreover have "encodeURIComponent (c # cs) = CHR ''%'' # a # b # encodeURIComponent cs"
      using ab by (simp add: encodeURIComponent_def)
    ultimately show ?thesis using multi v(1) IH by (simp del: read_escape.simps)
  qed
qed (simp add: encodeURIComponent_def)

lemma read_escapes_ascii:
  "read_escapes n s = Some (cs, t) \<Longrightarrow> list_all (\<lambda>c. byte c < 128) s \<Longrightarrow> list_all (\<lambda>c. byte c < 128) t"
proof (induction n arbitrary: s cs)
  case (Suc n)
  then obtain c u ds where "read_escape s = Some (c, u)" "read_escapes n u = Some (ds, t)"
    by (auto split: option.splits)
  moreover from this(1) Suc.prems(2) have "list_all (\<lambda>c. byte c < 128) u"
    by (induction s rule: read_escape.induct) (auto split: if_splits option.splits)
  ultimately show ?case using Suc.IH by blast
qed simp

lemma read_escape_ascii:
  "read_escape s = Some (c, t) \<Longrightarrow> list_all (\<lambda>c. byte c < 128) s \<Longrightarrow> list_all (\<lambda>c. byte c < 128) t"
  using read_escapes_ascii [of 1 s "[c]" t] by simp

lemma decoded_valid:
  "decodeURIComponent s = Some t \<Longrightarrow> list_all (\<lambda>c. byte c < 128) s \<Longrightarrow> utf8_valid t"
proof (induction s arbitrary: t rule: decodeURIComponent.induct)
  case (2 c cs)
  show ?case
  proof (cases "c = CHR ''%''")
    case False
    with 2 show ?thesis by auto
  next
    case True_case: True
    then obtain lead rest where r: "read_escape (c # cs) = Some (lead, rest)"
      using 2(4) by (auto simp del: read_escape.simps split: option.splits)
    have a: "list_all (\<lambda>c. byte c < 128) rest" using read_escape_ascii [OF r 2(5)] .
    show ?thesis
    proof (cases "byte lead < 128")
      case True
      with 2 r a True_case show ?thesis by (auto simp del: read_escape.simps)
    next
      case False
      then obtain more rest' u where m: "read_escapes (utf8_length (byte lead) - 1) rest = Some (more, rest')"
        "utf8_sequence (lead # more)" "decodeURIComponent rest' = Some u" "t = (lead # more) @ u"
        using 2(4) r True_case by (auto simp del: read_escape.simps split: option.splits if_splits)
      have "utf8_valid u" using 2(3) [OF _ r refl False m(1) refl m(2,3)] True_case read_escapes_ascii [OF m(1) a] by simp
      with False m sequence_length [OF m(2)] show ?thesis by (simp add: Let_def)
    qed
  qed
qed simp

section \<open>Segments\<close>

lemma split_on_not_Nil [simp]: "split_on c s \<noteq> []"
  by (induction s) (auto split: list.split)

lemma join_segment: "xs \<noteq> [] \<Longrightarrow> join sep ((c # s) # xs) = c # join sep (s # xs)"
  by (simp add: join_def)

lemma join_split [simp]: "join [c] (split_on c s) = s"
proof (induction s)
  case (Cons x xs)
  then show ?case
    by (cases "split_on c xs") (auto simp: join_def)
qed (simp add: join_def)

lemma split_on_free: "c \<notin> set s \<Longrightarrow> split_on c (s @ c # t) = s # split_on c t" "c \<notin> set s \<Longrightarrow> split_on c s = [s]"
  by (induction s) auto

lemma split_join: "ss \<noteq> [] \<Longrightarrow> list_all (\<lambda>s. c \<notin> set s) ss \<Longrightarrow> split_on c (join [c] ss) = ss"
proof (induction ss)
  case (Cons s ss)
  then show ?case by (cases ss) (auto simp: join_Cons split_on_free)
qed simp

lemma segments_free: "s \<in> set (split_on c t) \<Longrightarrow> c \<notin> set s"
  by (induction t arbitrary: s) (auto split: if_splits list.splits)

definition plain_char :: "char \<Rightarrow> bool" where
  "plain_char c \<longleftrightarrow> byte c < 128 \<and> c \<noteq> CHR 0x0A \<and> c \<noteq> CHR 0x0D"

lemma encoded_plain: "list_all (\<lambda>c. plain_char c \<and> c \<noteq> CHR ''/'') (encodeURIComponent s)"
proof -
  have "48 \<le> byte (upper_hex n) \<and> byte (upper_hex n) < 128" if "n < 16" for n
    using that by (auto simp: upper_hex_def of_char_of)
  moreover have "48 \<le> byte c \<Longrightarrow> c \<noteq> CHR 0x0A \<and> c \<noteq> CHR 0x0D \<and> c \<noteq> CHR ''/''" for c
    by (auto simp: of_char_def)
  ultimately have "plain_char (upper_hex n) \<and> upper_hex n \<noteq> CHR ''/''" if "n < 16" for n
    using that by (simp add: plain_char_def)
  moreover have "uri_unreserved c \<Longrightarrow> plain_char c \<and> c \<noteq> CHR ''/''" for c
    using unreserved_ascii [of c] unfolding uri_unreserved_def by (auto simp: plain_char_def)
  moreover have "plain_char (CHR ''%'')" by (simp add: plain_char_def of_char_def)
  ultimately have "list_all (\<lambda>c. plain_char c \<and> c \<noteq> CHR ''/'') (encode_byte c)" for c
    by (simp add: encode_byte_def)
  then show ?thesis by (induction s) (auto simp: encodeURIComponent_def)
qed

lemma plain_no_terminator: "list_all plain_char s \<Longrightarrow> \<not> has_line_terminator s"
  by (induction s) (auto simp: plain_char_def of_char_def)

lemma plain_join: "list_all (list_all plain_char) ss \<Longrightarrow> list_all plain_char (join ''/'' ss)"
  by (induction ss) (auto simp: join_Cons plain_char_def)

lemma utf8_append: "utf8_valid a \<Longrightarrow> utf8_valid b \<Longrightarrow> utf8_valid (a @ b)"
proof (induction a rule: utf8_valid.induct)
  case (2 c cs)
  let ?n = "utf8_length (byte c) - 1"
  show ?case
  proof (cases "byte c < 128")
    case False
    with 2(3) have v: "utf8_sequence (c # take ?n cs)" "utf8_valid (drop ?n cs)" by (auto simp: Let_def)
    have "length (take ?n cs) = ?n" using sequence_length [OF v(1)] .
    then have "?n \<le> length cs" by auto
    with 2 False v show ?thesis by (simp add: Let_def)
  qed (use 2 in auto)
qed simp

lemma utf8_split: "utf8_valid (a @ CHR ''/'' # b) \<Longrightarrow> utf8_valid a \<and> utf8_valid b"
proof (induction a rule: utf8_valid.induct)
  case (2 c cs)
  let ?n = "utf8_length (byte c) - 1"
  show ?case
  proof (cases "byte c < 128")
    case False
    with 2(3) have v: "utf8_sequence (c # take ?n (cs @ CHR ''/'' # b))" "utf8_valid (drop ?n (cs @ CHR ''/'' # b))"
      by (auto simp: Let_def)
    have n: "?n \<le> length cs"
    proof (rule ccontr)
      assume "\<not> ?n \<le> length cs"
      then obtain k where "?n - length cs = Suc k" by (metis not_le Suc_diff_Suc)
      then have "CHR ''/'' \<in> set (take ?n (cs @ CHR ''/'' # b))" by simp
      with sequence_high [OF v(1)] have "128 \<le> byte (CHR ''/'')" unfolding list_all_iff by blast
      then show False by simp
    qed
    with 2 False v show ?thesis by (simp add: Let_def)
  qed (use 2 in auto)
qed auto

lemma utf8_segments: "utf8_valid (join ''/'' ss) \<Longrightarrow> list_all utf8_valid ss"
proof (induction ss)
  case (Cons s ss)
  then show ?case using utf8_split [of s "join ''/'' ss"] by (cases ss) (auto simp: join_Cons)
qed simp

lemma utf8_join: "list_all utf8_valid ss \<Longrightarrow> utf8_valid (join ''/'' ss)"
  by (induction ss) (auto simp: join_Cons intro!: utf8_append)

lemma decode_segments_all:
  "decode_segments ss = Some ts \<longleftrightarrow> list_all2 (\<lambda>s t. decodeURIComponent s = Some t) ss ts"
  by (induction ss arbitrary: ts) (auto simp: list_all2_Cons1 split: option.splits)

section \<open>The round trip\<close>

text \<open>The shape that the schema of a reference demands.\<close>

fun sourceReferenceSchema :: "source_reference \<Rightarrow> bool" where
  "sourceReferenceSchema (TaskSpecVersionRef i) = (i \<noteq> [])"
| "sourceReferenceSchema (NodeVersionRef i) = (i \<noteq> [])"
| "sourceReferenceSchema (RepositoryContentRef path) = isCanonicalRepositoryPath path"

text \<open>An id is read only from a single line; the text of a path is UTF-8.\<close>

fun reference_readable :: "source_reference \<Rightarrow> bool" where
  "reference_readable (TaskSpecVersionRef i) = (\<not> has_line_terminator i)"
| "reference_readable (NodeVersionRef i) = (\<not> has_line_terminator i)"
| "reference_readable (RepositoryContentRef path) = utf8_valid path"

lemma match_reference_eq:
  "match_reference (scheme @ ''://'' @ i) =
     (if (case scheme of [] \<Rightarrow> False | c # _ \<Rightarrow> 97 \<le> byte c \<and> byte c \<le> 122) \<and> i \<noteq> [] \<and> \<not> has_line_terminator i
      then Some (scheme, i) else None)"
  if "list_all scheme_char scheme"
proof -
  have colon: "\<not> scheme_char (CHR '':'')" by (simp add: scheme_char_def of_char_def)
  have "takeWhile scheme_char (scheme @ ''://'' @ i) = scheme" "dropWhile scheme_char (scheme @ ''://'' @ i) = ''://'' @ i"
    using that colon by (simp_all add: takeWhile_append2 dropWhile_append2 list_all_iff)
  then show ?thesis by (simp add: match_reference_def Let_def)
qed

lemma match_reference_Some:
  assumes "match_reference s = Some (scheme, i)"
  shows "s = scheme @ ''://'' @ i \<and> i \<noteq> [] \<and> \<not> has_line_terminator i"
proof -
  have m: "scheme = takeWhile scheme_char s" "take 3 (dropWhile scheme_char s) = ''://''" "i = drop 3 (dropWhile scheme_char s)"
      "i \<noteq> []" "\<not> has_line_terminator i"
    using assms by (auto simp: match_reference_def Let_def split: if_splits)
  have "dropWhile scheme_char s = ''://'' @ i" using m(2,3) by (metis append_take_drop_id)
  with m show ?thesis by (metis takeWhile_dropWhile_id)
qed

lemma schemes: "list_all scheme_char ''task-spec''" "list_all scheme_char ''node''" "list_all scheme_char ''repo''"
  by (simp_all add: scheme_char_def of_char_def)

lemma match_reference_iff:
  assumes "list_all scheme_char (c # scheme)" and "97 \<le> byte c \<and> byte c \<le> 122"
  shows "match_reference s = Some (c # scheme, i)
    \<longleftrightarrow> s = (c # scheme) @ ''://'' @ i \<and> i \<noteq> [] \<and> \<not> has_line_terminator i"
  using match_reference_eq [OF assms(1), of i] match_reference_Some [of s "c # scheme" i] assms(2) by auto

lemma path_roundtrip: "utf8_valid path \<Longrightarrow> decodeRepositoryPath (encodeRepositoryPath path) = Some path"
proof -
  assume "utf8_valid path"
  let ?ss = "split_on (CHR ''/'') path"
  have v: "list_all utf8_valid ?ss" using \<open>utf8_valid path\<close> by (intro utf8_segments) simp
  have "split_on (CHR ''/'') (encodeRepositoryPath path) = map encodeURIComponent ?ss"
    unfolding encodeRepositoryPath_def using encoded_plain by (intro split_join) (fastforce simp: list_all_iff)+
  moreover have "decode_segments (map encodeURIComponent ?ss) = Some ?ss"
    using v by (auto simp: decode_segments_all list_all2_map1 list_all2_same list_all_iff decode_encode)
  ultimately show ?thesis by (simp add: decodeRepositoryPath_def)
qed

lemma path_decoded_valid: "decodeRepositoryPath s = Some path \<Longrightarrow> list_all plain_char s \<Longrightarrow> utf8_valid path"
proof -
  assume d: "decodeRepositoryPath s = Some path" and p: "list_all plain_char s"
  then obtain ts where ts: "list_all2 (\<lambda>s t. decodeURIComponent s = Some t) (split_on (CHR ''/'') s) ts" "path = join ''/'' ts"
    by (auto simp: decodeRepositoryPath_def decode_segments_all)
  have pl: "list_all (list_all plain_char) (split_on (CHR ''/'') s)"
    using p by (induction s) (auto split: list.split)
  have "list_all (list_all (\<lambda>c. byte c < 128)) (split_on (CHR ''/'') s)"
    using pl unfolding list_all_iff plain_char_def by blast
  with ts(1) have "list_all utf8_valid ts"
    by (induction rule: list_all2_induct) (auto intro: decoded_valid)
  with ts(2) show ?thesis by (simp add: utf8_join)
qed

text \<open>
  C36. The parser accepts exactly the canonical texts: it returns a reference for a text if and
  only if the text is the one that is written for this reference, and the reference is one that
  the schema allows and whose id is on one line. So what is written is read back as it was, and
  no two texts mean the same reference. An id with a line break passes the schema, but its text
  is refused.
\<close>

theorem parseSourceRef_canonical:
  "parseSourceRef s = Inr r \<longleftrightarrow> s = sourceRefToString r \<and> sourceReferenceSchema r \<and> reference_readable r"
proof (cases r)
  case (RepositoryContentRef path)
  let ?i = "encodeRepositoryPath path"
  have plain: "list_all plain_char ?i"
    unfolding encodeRepositoryPath_def using encoded_plain by (intro plain_join) (fastforce simp: list_all_iff)
  have "parseSourceRef (sourceRefToString r) = Inr r" if c: "isCanonicalRepositoryPath path" and v: "utf8_valid path"
  proof -
    have "?i \<noteq> []" using path_roundtrip [OF v] c by (auto simp: decodeRepositoryPath_def isCanonicalRepositoryPath_def join_def)
    then have "match_reference (''repo'' @ ''://'' @ ?i) = Some (''repo'', ?i)"
      using match_reference_eq [OF schemes(3)] plain_no_terminator [OF plain] by (simp add: of_char_def)
    then show ?thesis using c path_roundtrip [OF v] RepositoryContentRef by (simp add: parseSourceRef_def)
  qed
  moreover have "s = sourceRefToString r \<and> isCanonicalRepositoryPath path \<and> utf8_valid path" if p: "parseSourceRef s = Inr r"
  proof -
    obtain i where "match_reference s = Some (''repo'', i)" "decodeRepositoryPath i = Some path"
      "isCanonicalRepositoryPath path" "''repo://'' @ ?i = s"
      using p RepositoryContentRef by (auto simp: parseSourceRef_def split: option.splits if_splits)
    moreover from match_reference_Some [OF this(1)] this(4) have "i = ?i" by auto
    ultimately show ?thesis using path_decoded_valid plain RepositoryContentRef by auto
  qed
  ultimately show ?thesis using RepositoryContentRef by auto
next
  case (TaskSpecVersionRef i)
  have "parseSourceRef s = Inr r \<longleftrightarrow> match_reference s = Some (''task-spec'', i)"
    using TaskSpecVersionRef by (auto simp: parseSourceRef_def split: option.splits if_splits)
  also have "\<dots> \<longleftrightarrow> s = ''task-spec://'' @ i \<and> i \<noteq> [] \<and> \<not> has_line_terminator i"
    using match_reference_iff [of "CHR ''t''" "''ask-spec''" s i] by (simp add: scheme_char_def of_char_def)
  finally show ?thesis using TaskSpecVersionRef by auto
next
  case (NodeVersionRef i)
  have "parseSourceRef s = Inr r \<longleftrightarrow> match_reference s = Some (''node'', i)"
    using NodeVersionRef by (auto simp: parseSourceRef_def split: option.splits if_splits)
  also have "\<dots> \<longleftrightarrow> s = ''node://'' @ i \<and> i \<noteq> [] \<and> \<not> has_line_terminator i"
    using match_reference_iff [of "CHR ''n''" "''ode''" s i] by (simp add: scheme_char_def of_char_def)
  finally show ?thesis using NodeVersionRef by auto
qed

end
