(* ===== verification/Execution_Request.thy ===== *)
theory Execution_Request
  imports Domain Observation Stable_Json
begin

text \<open>
  The execution request that the desktop hands to the worker: the contract of its fields
  (\<open>packages/contracts/src/execution-request.ts\<close>), its context bundle, its hash, and the
  validation on both sides (\<open>packages/worker-runtime/src/validation.ts\<close>, \<open>errors.ts\<close>). A
  request of version 1 has no context bundle. The optional temperature of an agent, which the
  desktop never sets, is left out.

  The schema library is outside the repository: what it checks for each field is written out,
  the text of its first issue is a parameter, and so are the reading of a date and the
  ISO format.
\<close>

section \<open>Fields\<close>

fun context_item_type_str :: "context_item_type \<Rightarrow> string" where
  "context_item_type_str NODE_VERSION = ''NODE_VERSION''"
| "context_item_type_str EDGE = ''EDGE''"
| "context_item_type_str REPOSITORY_CONTENT = ''REPOSITORY_CONTENT''"
| "context_item_type_str ARTIFACT = ''ARTIFACT''"
| "context_item_type_str USER_INPUT = ''USER_INPUT''"
| "context_item_type_str PROJECT_RULE_ITEM = ''PROJECT_RULE''"

fun context_authority_str :: "context_authority \<Rightarrow> string" where
  "context_authority_str CA_PROJECT_RULE = ''PROJECT_RULE''"
| "context_authority_str CA_TASK_INSTRUCTION = ''TASK_INSTRUCTION''"
| "context_authority_str CA_PROJECT_FACT = ''PROJECT_FACT''"
| "context_authority_str CA_EVIDENCE = ''EVIDENCE''"
| "context_authority_str CA_REFERENCE = ''REFERENCE''"
| "context_authority_str CA_UNTRUSTED_CONTENT = ''UNTRUSTED_CONTENT''"

fun context_priority_str :: "context_priority \<Rightarrow> string" where
  "context_priority_str P0 = ''P0''"
| "context_priority_str P1 = ''P1''"
| "context_priority_str P2 = ''P2''"
| "context_priority_str P3 = ''P3''"

record context_item_v2 =
  xi_position :: int
  xi_itemType :: context_item_type
  xi_sourceRef :: string
  xi_resolvedContent :: string
  xi_contentHash :: string
  xi_authority :: context_authority
  xi_priority :: context_priority
  xi_tokenEstimate :: int

record context_bundle_v2 =
  xb_items :: "context_item_v2 list"
  xb_contentHash :: string
  xb_totalBytes :: int

record revision_contract =
  rc_baseCommit :: string
  rc_treeHash :: string
  rc_workingTreePatchHash :: "string option"

record agent_configuration =
  ag_provider :: string
  ag_model :: string

record tool_policy =
  tp_allowedTools :: "string list"
  tp_deniedPaths :: "string list"
  tp_allowNetwork :: bool
  tp_allowShell :: bool

record resource_budget =
  rb_maxDurationMs :: int
  rb_maxToolCalls :: int
  rb_maxTokens :: "int option"
  rb_maxCostCents :: "int option"
  rb_maxDiskBytes :: int

record execution_request =
  xr_executionRequestId :: string
  xr_runId :: string
  xr_workerAttemptNumber :: int
  xr_taskSpecVersionId :: string
  xr_contextSnapshotId :: string
  xr_expectedRepositoryRevision :: revision_contract
  xr_checkpointId :: "string option"
  xr_requiredCapabilities :: "string list"
  xr_agentConfiguration :: agent_configuration
  xr_toolPolicy :: tool_policy
  xr_resourceBudget :: resource_budget
  xr_contextBundle :: "context_bundle_v2 option"
  xr_expiresAt :: string
  xr_requestHash :: string

definition xr_schemaVersion :: "execution_request \<Rightarrow> int" where
  "xr_schemaVersion request = (if xr_contextBundle request = None then 1 else 2)"

section \<open>The contract\<close>

record contract_lib =
  cl_isoDatetime :: "string \<Rightarrow> bool"
  cl_getTime :: "string \<Rightarrow> number"
  cl_firstIssue :: "execution_request \<Rightarrow> string"

definition hex_char :: "char \<Rightarrow> bool" where
  "hex_char c \<longleftrightarrow> c \<in> set ''0123456789abcdefABCDEF''"

definition is_contentHash :: "string \<Rightarrow> bool" where
  "is_contentHash s \<longleftrightarrow> length s = 64 \<and> list_all hex_char s"

definition is_gitObjectHash :: "string \<Rightarrow> bool" where
  "is_gitObjectHash s \<longleftrightarrow> (length s = 40 \<or> length s = 64) \<and> list_all hex_char s"

definition id_char :: "char \<Rightarrow> bool" where
  "id_char c \<longleftrightarrow> c \<in> set ''ABCDEFGHIJKLMNOPQRSTUVWXYZabcdefghijklmnopqrstuvwxyz0123456789._-''"

definition executionRequestIdSchema :: "string \<Rightarrow> bool" where
  "executionRequestIdSchema s \<longleftrightarrow>
     1 \<le> length s \<and> length s \<le> 128 \<and> list_all id_char s \<and> s \<noteq> ''.'' \<and> s \<noteq> ''..''"

definition repositoryRevisionSchema :: "revision_contract \<Rightarrow> bool" where
  "repositoryRevisionSchema r \<longleftrightarrow>
     is_gitObjectHash (rc_baseCommit r) \<and> is_gitObjectHash (rc_treeHash r)
     \<and> (case rc_workingTreePatchHash r of None \<Rightarrow> True | Some h \<Rightarrow> is_contentHash h)"

definition MAX_EXECUTION_CONTEXT_ITEMS :: nat where
  "MAX_EXECUTION_CONTEXT_ITEMS = 256"

definition MAX_EXECUTION_CONTEXT_BYTES :: int where
  "MAX_EXECUTION_CONTEXT_BYTES = 4 * 1024 * 1024"

definition executionContextItemV2Schema :: "context_item_v2 \<Rightarrow> bool" where
  "executionContextItemV2Schema item \<longleftrightarrow>
     0 \<le> xi_position item \<and> 1 \<le> estimateChars (xi_sourceRef item) \<and> estimateChars (xi_sourceRef item) \<le> 4096
     \<and> is_contentHash (xi_contentHash item) \<and> 0 \<le> xi_tokenEstimate item"

definition executionContextBundleV2Schema :: "context_bundle_v2 \<Rightarrow> bool" where
  "executionContextBundleV2Schema bundle \<longleftrightarrow>
     list_all executionContextItemV2Schema (xb_items bundle)
     \<and> 1 \<le> length (xb_items bundle) \<and> length (xb_items bundle) \<le> MAX_EXECUTION_CONTEXT_ITEMS
     \<and> is_contentHash (xb_contentHash bundle)
     \<and> 0 < xb_totalBytes bundle \<and> xb_totalBytes bundle \<le> MAX_EXECUTION_CONTEXT_BYTES"

definition executionRequestSchema :: "contract_lib \<Rightarrow> execution_request \<Rightarrow> bool" where
  "executionRequestSchema lib r \<longleftrightarrow>
     executionRequestIdSchema (xr_executionRequestId r) \<and> xr_runId r \<noteq> [] \<and> 0 < xr_workerAttemptNumber r
     \<and> xr_taskSpecVersionId r \<noteq> [] \<and> xr_contextSnapshotId r \<noteq> []
     \<and> repositoryRevisionSchema (xr_expectedRepositoryRevision r)
     \<and> xr_checkpointId r \<noteq> Some [] \<and> list_all (\<lambda>c. c \<noteq> []) (xr_requiredCapabilities r)
     \<and> ag_provider (xr_agentConfiguration r) \<noteq> [] \<and> ag_model (xr_agentConfiguration r) \<noteq> []
     \<and> list_all (\<lambda>c. c \<noteq> []) (tp_allowedTools (xr_toolPolicy r))
     \<and> list_all (\<lambda>c. c \<noteq> []) (tp_deniedPaths (xr_toolPolicy r))
     \<and> 0 < rb_maxDurationMs (xr_resourceBudget r) \<and> 0 < rb_maxToolCalls (xr_resourceBudget r)
     \<and> (case rb_maxTokens (xr_resourceBudget r) of None \<Rightarrow> True | Some n \<Rightarrow> 0 < n)
     \<and> (case rb_maxCostCents (xr_resourceBudget r) of None \<Rightarrow> True | Some n \<Rightarrow> 0 \<le> n)
     \<and> 0 < rb_maxDiskBytes (xr_resourceBudget r)
     \<and> is_contentHash (xr_requestHash r) \<and> cl_isoDatetime lib (xr_expiresAt r)
     \<and> (case xr_contextBundle r of None \<Rightarrow> True | Some b \<Rightarrow> executionContextBundleV2Schema b)"

section \<open>The texts under the hashes\<close>

definition strings_json :: "string list \<Rightarrow> json" where
  "strings_json ss = JArr (map JStr ss)"

definition item_json :: "context_item_v2 \<Rightarrow> json" where
  "item_json item = JObj
     [(''position'', JNum (xi_position item)), (''itemType'', JStr (context_item_type_str (xi_itemType item))),
      (''sourceRef'', JStr (xi_sourceRef item)), (''resolvedContent'', JStr (xi_resolvedContent item)),
      (''contentHash'', JStr (xi_contentHash item)), (''authority'', JStr (context_authority_str (xi_authority item))),
      (''priority'', JStr (context_priority_str (xi_priority item))), (''tokenEstimate'', JNum (xi_tokenEstimate item))]"

definition bundle_json :: "context_bundle_v2 \<Rightarrow> json" where
  "bundle_json b = JObj
     [(''items'', JArr (map item_json (xb_items b))), (''totalBytes'', JNum (xb_totalBytes b)),
      (''contentHash'', JStr (xb_contentHash b))]"

definition revision_json :: "revision_contract \<Rightarrow> json" where
  "revision_json r = JObj
     [(''baseCommit'', JStr (rc_baseCommit r)), (''treeHash'', JStr (rc_treeHash r)),
      (''workingTreePatchHash'', jopt (rc_workingTreePatchHash r))]"

text \<open>A member that is \<open>undefined\<close> is left out.\<close>

definition optional_member :: "string \<Rightarrow> ('a \<Rightarrow> json) \<Rightarrow> 'a option \<Rightarrow> (string \<times> json) list" where
  "optional_member k f x = (case x of None \<Rightarrow> [] | Some v \<Rightarrow> [(k, f v)])"

definition budget_json :: "resource_budget \<Rightarrow> json" where
  "budget_json b = JObj
     ([(''maxDurationMs'', JNum (rb_maxDurationMs b)), (''maxToolCalls'', JNum (rb_maxToolCalls b))]
      @ optional_member ''maxTokens'' JNum (rb_maxTokens b) @ optional_member ''maxCostCents'' JNum (rb_maxCostCents b)
      @ [(''maxDiskBytes'', JNum (rb_maxDiskBytes b))])"

definition agent_json :: "agent_configuration \<Rightarrow> json" where
  "agent_json a = JObj [(''provider'', JStr (ag_provider a)), (''model'', JStr (ag_model a))]"

definition policy_json :: "tool_policy \<Rightarrow> json" where
  "policy_json p = JObj
     [(''allowedTools'', strings_json (tp_allowedTools p)), (''deniedPaths'', strings_json (tp_deniedPaths p)),
      (''allowNetwork'', JBool (tp_allowNetwork p)), (''allowShell'', JBool (tp_allowShell p))]"

text \<open>\<open>stripRequestHash\<close>: the members of a request without its hash.\<close>

definition stripRequestHash :: "execution_request \<Rightarrow> (string \<times> json) list" where
  "stripRequestHash r =
     [(''executionRequestId'', JStr (xr_executionRequestId r)), (''runId'', JStr (xr_runId r)),
      (''workerAttemptNumber'', JNum (xr_workerAttemptNumber r)),
      (''taskSpecVersionId'', JStr (xr_taskSpecVersionId r)), (''contextSnapshotId'', JStr (xr_contextSnapshotId r)),
      (''expectedRepositoryRevision'', revision_json (xr_expectedRepositoryRevision r)),
      (''checkpointId'', jopt (xr_checkpointId r)),
      (''requiredCapabilities'', strings_json (xr_requiredCapabilities r)),
      (''agentConfiguration'', agent_json (xr_agentConfiguration r)),
      (''toolPolicy'', policy_json (xr_toolPolicy r)),
      (''workspaceStrategy'', JStr ''ISOLATED_WORKTREE''),
      (''resourceBudget'', budget_json (xr_resourceBudget r))]
     @ optional_member ''contextBundle'' bundle_json (xr_contextBundle r)
     @ [(''schemaVersion'', JNum (xr_schemaVersion r)), (''expiresAt'', JStr (xr_expiresAt r))]"

definition request_json :: "execution_request \<Rightarrow> json" where
  "request_json r = JObj (stripRequestHash r @ [(''requestHash'', JStr (xr_requestHash r))])"

definition stableStringify :: "json \<Rightarrow> string" where
  "stableStringify v = stable_text v"

definition computeRequestHash :: "(string \<Rightarrow> string) \<Rightarrow> execution_request \<Rightarrow> string" where
  "computeRequestHash sha r = sha (stableStringify (JObj (stripRequestHash r)))"

definition canonicalItems :: "context_item_v2 list \<Rightarrow> string" where
  "canonicalItems items = stableStringify (JArr (map item_json items))"

text \<open>The number of bytes and the hash of the canonical items.\<close>

definition computeExecutionContextBundle :: "(string \<Rightarrow> string) \<Rightarrow> context_item_v2 list \<Rightarrow> int \<times> string" where
  "computeExecutionContextBundle sha items = (int (length (canonicalItems items)), sha (canonicalItems items))"

section \<open>Validation\<close>

text \<open>Errors are the messages that the worker reports.\<close>

definition RequestValidationError :: "string \<Rightarrow> string \<Rightarrow> string" where
  "RequestValidationError issue detail =
     ''ExecutionRequest rejected: '' @ issue @ (if detail \<noteq> [] then '' ('' @ detail @ '')'' else [])"

definition ExpiredRequestError :: "string \<Rightarrow> string" where
  "ExpiredRequestError expiresAt = RequestValidationError ''request has expired'' (''expires_at '' @ expiresAt)"

definition MissingCapabilityError :: "string \<Rightarrow> string" where
  "MissingCapabilityError capability = RequestValidationError ''required capability is not available'' capability"

definition assertValidExecutionContextBundle :: "(string \<Rightarrow> string) \<Rightarrow> context_bundle_v2 \<Rightarrow> string + unit" where
  "assertValidExecutionContextBundle sha bundle =
     (let items = xb_items bundle; (totalBytes, contentHash) = computeExecutionContextBundle sha items in
      if length items < 1 \<or> MAX_EXECUTION_CONTEXT_ITEMS < length items
      then Inl (RequestValidationError ''context bundle item count out of range''
             (''expected 1..'' @ int_digits (int MAX_EXECUTION_CONTEXT_ITEMS) @ '' items, got '' @ int_digits (int (length items))))
      else if \<not> list_all (\<lambda>(index, item). xi_position item = int index) (List.enumerate 0 items)
      then Inl (RequestValidationError ''context bundle positions must be contiguous''
             ''positions are not 0..items.length-1 in array order'')
      else case find (\<lambda>item. sha (xi_resolvedContent item) \<noteq> xi_contentHash item) items of
        Some item \<Rightarrow> Inl (RequestValidationError ''context item hash mismatch'' (''item position '' @ int_digits (xi_position item)))
      | None \<Rightarrow>
      if totalBytes \<noteq> xb_totalBytes bundle
      then Inl (RequestValidationError ''context bundle totalBytes mismatch''
             (''expected '' @ int_digits (xb_totalBytes bundle) @ '' got '' @ int_digits totalBytes))
      else if MAX_EXECUTION_CONTEXT_BYTES < totalBytes
      then Inl (RequestValidationError ''context bundle exceeds byte limit'' (''totalBytes '' @ int_digits totalBytes))
      else if contentHash \<noteq> xb_contentHash bundle
      then Inl (RequestValidationError ''context bundle hash mismatch'' ''content has been tampered with'')
      else if \<not> list_ex (\<lambda>item. xi_authority item = CA_TASK_INSTRUCTION \<and> xi_priority item = P0) items
      then Inl (RequestValidationError ''missing P0 task instruction''
             ''no context item has authority TASK_INSTRUCTION and priority P0'')
      else Inr ())"

text \<open>\<open>a <= b\<close> of JavaScript numbers.\<close>

definition num_le :: "number \<Rightarrow> number \<Rightarrow> bool" where
  "num_le a b \<longleftrightarrow> a \<noteq> NaN \<and> b \<noteq> NaN \<and> \<not> num_less b a"

definition validateExecutionRequest ::
  "contract_lib \<Rightarrow> (string \<Rightarrow> string) \<Rightarrow> string list \<Rightarrow> number \<Rightarrow> execution_request \<Rightarrow> string + unit" where
  "validateExecutionRequest lib sha capabilities nowMs request =
     (if \<not> executionRequestSchema lib request
      then Inl (RequestValidationError ''schema validation failed'' (cl_firstIssue lib request))
      else if computeRequestHash sha request \<noteq> xr_requestHash request
      then Inl (RequestValidationError ''request hash mismatch'' ''content has been tampered with'')
      else if num_le (cl_getTime lib (xr_expiresAt request)) nowMs then Inl (ExpiredRequestError (xr_expiresAt request))
      else case find (\<lambda>c. c \<notin> set capabilities) (xr_requiredCapabilities request) of
        Some capability \<Rightarrow> Inl (MissingCapabilityError capability)
      | None \<Rightarrow>
          (case xr_contextBundle request of
             None \<Rightarrow> Inr ()
           | Some bundle \<Rightarrow> assertValidExecutionContextBundle sha bundle))"

end
