(* ===== verification/Worker_Environment.thy ===== *)
theory Worker_Environment
  imports Execution_Request Schema
begin

text \<open>
  What the worker works with (\<open>packages/worker-runtime/src/types.ts\<close>, \<open>claim.ts\<close>,
  \<open>revision.ts\<close>, \<open>worktree.ts\<close>, \<open>process-runner.ts\<close> and the file operations of \<open>worker.ts\<close>).

  Every call that leaves the worker happens at one place of the source, so the outside of a
  dispatch is a record of answers: what the process of a command at a given place prints and how
  it ends, whether the signal is aborted at a given look, what the agent returns, which file
  operations fail, what the clocks read. The state is what a dispatch leaves behind: the claims,
  the worktrees that may exist, the recovery files and the artifact files. A rejected promise is
  the left value.
\<close>

section \<open>Sequencing\<close>

type_synonym ('s, 'a) work = "'s \<Rightarrow> (string + 'a) \<times> 's"

definition done_with :: "'a \<Rightarrow> ('s, 'a) work" where
  "done_with x s = (Inr x, s)"

definition reject :: "string \<Rightarrow> ('s, 'a) work" where
  "reject e s = (Inl e, s)"

definition await :: "('s, 'a) work \<Rightarrow> ('a \<Rightarrow> ('s, 'b) work) \<Rightarrow> ('s, 'b) work" where
  "await m f s = (case m s of (Inl e, t) \<Rightarrow> (Inl e, t) | (Inr x, t) \<Rightarrow> f x t)"

text \<open>\<open>try { m } catch\<close>: the error as a value.\<close>

definition attempt :: "('s, 'a) work \<Rightarrow> ('s, string + 'a) work" where
  "attempt m s = (let (r, t) = m s in (Inr r, t))"

definition answer_with :: "string + 'a \<Rightarrow> ('s, 'a) work" where
  "answer_with r s = (r, s)"

lemma await_ok: "await m f s = (Inr r, t) \<longleftrightarrow> (\<exists>x u. m s = (Inr x, u) \<and> f x u = (Inr r, t))"
  by (auto simp: await_def split: prod.splits sum.splits)

lemma done_with_ok: "done_with x s = (Inr r, t) \<longleftrightarrow> r = x \<and> t = s"
  by (auto simp: done_with_def)

lemma reject_ok: "reject e s = (Inr r, t) \<longleftrightarrow> False"
  by (simp add: reject_def)

lemma attempt_ok: "attempt m s = (Inr r, t) \<longleftrightarrow> m s = (r, t)"
  by (auto simp: attempt_def split: prod.splits)

lemma answer_with_ok: "answer_with a s = (Inr r, t) \<longleftrightarrow> a = Inr r \<and> t = s"
  by (auto simp: answer_with_def)

lemmas work_ok = await_ok done_with_ok reject_ok attempt_ok answer_with_ok

section \<open>Data\<close>

record command_result =
  cr_exitCode :: "int option"
  cr_signal :: "string option"
  cr_stdout :: string
  cr_stderr :: string
  cr_timedOut :: bool
  cr_cancelled :: bool
  cr_outputTruncated :: bool
  cr_durationMs :: int

record artifact_descriptor =
  ad_kind :: artifact_kind
  ad_fileName :: string
  ad_contentHash :: string
  ad_sizeBytes :: int

datatype recovery_state = RECOVERY_RUNNING | RECOVERY_INTERRUPTED

record recovery_metadata =
  rm_executionRequestId :: string
  rm_worktreePath :: string
  rm_state :: recovery_state
  rm_startedAt :: string
  rm_interruptedAt :: "string option"
  rm_cleanupSucceeded :: bool

record mismatch_detail =
  mi_field :: string
  mi_expected :: "string option"
  mi_actual :: "string option"

record dispatch_result =
  dr_outcome :: dispatch_outcome
  dr_claimGranted :: bool
  dr_rejectionReason :: "string option"
  dr_revisionMismatch :: "mismatch_detail option"
  dr_patch :: "string option"
  dr_patchHash :: "string option"
  dr_verificationResults :: "(string list \<times> command_result) list option"
  dr_artifacts :: "artifact_descriptor list option"
  dr_agentSummary :: "string option"
  dr_recovery :: "recovery_metadata option"
  dr_timedOut :: "bool option"

definition plain_result :: "dispatch_outcome \<Rightarrow> bool \<Rightarrow> string option \<Rightarrow> dispatch_result" where
  "plain_result outcome granted reason =
     \<lparr>dr_outcome = outcome, dr_claimGranted = granted, dr_rejectionReason = reason, dr_revisionMismatch = None,
      dr_patch = None, dr_patchHash = None, dr_verificationResults = None, dr_artifacts = None,
      dr_agentSummary = None, dr_recovery = None, dr_timedOut = None\<rparr>"

record worker_config =
  wc_worktreePath :: "string \<Rightarrow> string"
  wc_capabilities :: "string list"
  wc_commandAllowlist :: "string list"
  wc_verificationCommands :: "string list list"
  wc_hasAgent :: bool
  wc_hasCodexAdapter :: bool
  wc_gitTimeoutMs :: int
  wc_maxOutputBytes :: int

record agent_artifact =
  aa_fileName :: string
  aa_content :: string

text \<open>What an adapter throws, with the message of the error; the transport of a \<open>LocalCliError\<close>.\<close>

datatype agent_error =
  LocalCliError string string "json option"
| CancelledError string
| BudgetExceededError string
| OtherAgentError string

record agent_summary =
  as_text :: string
  as_artifacts :: "agent_artifact list"

datatype git_point =
  RevParseHead | RevParseTree | DiffHead | ListUntracked
| WorktreeAdd | AbortedWorktreeRemove
| WorktreeHead | WorktreeBranch | StageAll | CheckStaged | RunVerification nat | ExportDiff
| WorktreeRemove

datatype abort_look =
  RevisionFailed | WorktreeFailed | AgentFailed | AgentReturned | VerificationBegins nat | VerificationsOver | PatchExported

datatype file_point =
  MakeWorktreesDirectory | WriteRunning | WriteInterrupted | RemoveRecoveryFile | MakeArtifactsDirectory | WriteArtifact string

datatype clock_look = ValidationTime | StartTime | InterruptedFileTime | InterruptedResultTime

text \<open>
  What the process of a command emits, up to the event that settles the promise: chunks of output,
  as the text that \<open>toString\<close> makes of them, an error, or its end with an exit code or a signal.
  When the events end without one that settles, the timer does. \<open>cp_aborted\<close> is whether the signal
  of the caller is aborted at that moment. A \<open>spawn\<close> that throws is an error at once, with no
  abort.
\<close>

datatype process_event = OutData string | ErrData string | ProcessError string | ProcessClosed "int option" "string option"

record child_process =
  cp_events :: "process_event list"
  cp_aborted :: bool
  cp_durationMs :: int

text \<open>
  The outside of one dispatch. \<open>en_leavesWorktree\<close> says whether a \<open>git worktree add\<close> that failed, or
  was killed, has made the worktree all the same. \<open>en_fails\<close> gives the message of a file operation that fails,
  \<open>en_elapsed n\<close> the milliseconds since the agent was started, before the \<open>n\<close>-th verification;
  \<open>en_parse\<close> is \<open>JSON.parse\<close>.
\<close>

record worker_env =
  en_sha256Hex :: "string \<Rightarrow> string"
  en_contract :: contract_lib
  en_parse :: "string \<Rightarrow> json option"
  en_now :: "clock_look \<Rightarrow> string"
  en_nowMs :: number
  en_elapsed :: "nat \<Rightarrow> int"
  en_aborted :: "abort_look \<Rightarrow> bool"
  en_spawn :: "git_point \<Rightarrow> string list \<Rightarrow> child_process"
  en_leavesWorktree :: bool
  en_agent :: "agent_error + agent_summary"
  en_fails :: "file_point \<Rightarrow> string option"

record worker_state =
  wk_claims :: "string list"
  wk_worktrees :: "string list"
  wk_recovery :: "(string \<times> recovery_metadata) list"
  wk_artifacts :: "((string \<times> string) \<times> string) list"

section \<open>Commands\<close>

definition CommandDeniedError :: "string \<Rightarrow> string" where
  "CommandDeniedError command =
     ''Command '' @ [CHR 0x22] @ command @ [CHR 0x22] @ '' is not on the worker command allowlist''"

text \<open>
  \<open>text.slice(0, n)\<close>, which counts UTF-16 units: of a code point of two units it may keep the first,
  a surrogate without its partner, written here as its three bytes.
\<close>

definition high_surrogate :: "string \<Rightarrow> string" where
  "high_surrogate bytes =
     (let part = (\<lambda>n. (of_char (bytes ! n) :: nat) mod 64);
          codePoint = ((of_char (bytes ! 0) :: nat) mod 8) * 262144 + part 1 * 4096 + part 2 * 64 + part 3;
          u = (codePoint - 65536) div 1024 + 55296
      in map char_of [224 + u div 4096, 128 + (u div 64) mod 64, 128 + u mod 64])"

fun take_units :: "nat \<Rightarrow> string list \<Rightarrow> string" where
  "take_units n [] = []"
| "take_units n (c # cs) =
     (if n = 0 then []
      else if length c \<noteq> 4 then c @ take_units (n - 1) cs
      else if n = 1 then high_surrogate c
      else c @ take_units (n - 2) cs)"

definition text_units :: "string \<Rightarrow> int" where
  "text_units s = int (code_units (utf8_chars s))"

text \<open>The handlers of output: what is kept of a stream with a further chunk, and whether it was cut.\<close>

definition captured :: "int \<Rightarrow> string \<Rightarrow> string \<Rightarrow> string \<times> bool" where
  "captured maxOutputBytes kept chunk =
     (let remaining = maxOutputBytes - text_units kept in
      if text_units chunk > remaining then (kept @ take_units (nat (max 0 remaining)) (utf8_chars chunk), True)
      else (kept @ chunk, False))"

definition settled_result :: "child_process \<Rightarrow> string \<Rightarrow> string \<Rightarrow> bool \<Rightarrow> int option \<Rightarrow> string option \<Rightarrow> bool \<Rightarrow> command_result" where
  "settled_result child out err truncated code sig timedOut =
     \<lparr>cr_exitCode = code, cr_signal = sig, cr_stdout = out, cr_stderr = err, cr_timedOut = timedOut,
      cr_cancelled = cp_aborted child, cr_outputTruncated = truncated, cr_durationMs = cp_durationMs child\<rparr>"

text \<open>Once one stream was cut, nothing more is kept of either.\<close>

fun child_result ::
  "int \<Rightarrow> child_process \<Rightarrow> string \<Rightarrow> string \<Rightarrow> bool \<Rightarrow> process_event list \<Rightarrow> string + command_result" where
  "child_result limit child out err truncated [] = Inr (settled_result child out err truncated None None True)"
| "child_result limit child out err truncated (OutData chunk # events) =
     (if truncated then child_result limit child out err truncated events
      else (case captured limit out chunk of (out', isCut) \<Rightarrow> child_result limit child out' err isCut events))"
| "child_result limit child out err truncated (ErrData chunk # events) =
     (if truncated then child_result limit child out err truncated events
      else (case captured limit err chunk of (err', isCut) \<Rightarrow> child_result limit child out err' isCut events))"
| "child_result limit child out err truncated (ProcessError message # events) =
     (if cp_aborted child then Inr (settled_result child out err truncated None None False) else Inl message)"
| "child_result limit child out err truncated (ProcessClosed code sig # events) =
     Inr (settled_result child out err truncated code sig False)"

definition runCommand ::
  "worker_config \<Rightarrow> worker_env \<Rightarrow> git_point \<Rightarrow> string list \<Rightarrow> string + command_result" where
  "runCommand cfg env point argv =
     (case argv of
        [] \<Rightarrow> Inl (CommandDeniedError ''<empty argv>'')
      | command # _ \<Rightarrow>
          if command \<notin> set (wc_commandAllowlist cfg) then Inl (CommandDeniedError command)
          else (let child = en_spawn env point argv
                in child_result (wc_maxOutputBytes cfg) child [] [] False (cp_events child)))"

definition runGitCommand ::
  "worker_config \<Rightarrow> worker_env \<Rightarrow> git_point \<Rightarrow> string list \<Rightarrow> string + command_result" where
  "runGitCommand cfg env point argv = runCommand cfg env point (''git'' # argv)"

definition trim_text :: "string \<Rightarrow> string" where
  "trim_text s = concat (trim (utf8_chars s))"

definition exited_zero :: "command_result \<Rightarrow> bool" where
  "exited_zero r \<longleftrightarrow> cr_exitCode r = Some 0"

text \<open>\<open>r.stderr.trim() || r.stdout.trim()\<close>\<close>

definition output_of :: "command_result \<Rightarrow> string" where
  "output_of r = (if trim_text (cr_stderr r) \<noteq> [] then trim_text (cr_stderr r) else trim_text (cr_stdout r))"

section \<open>Claims\<close>

definition claim :: "string \<Rightarrow> worker_state \<Rightarrow> bool \<times> worker_state" where
  "claim i s = (if i \<in> set (wk_claims s) then (False, s) else (True, s\<lparr>wk_claims := wk_claims s @ [i]\<rparr>))"

definition release :: "string \<Rightarrow> worker_state \<Rightarrow> bool \<times> worker_state" where
  "release i s = (i \<in> set (wk_claims s), s\<lparr>wk_claims := removeAll i (wk_claims s)\<rparr>)"

definition isClaimed :: "string \<Rightarrow> worker_state \<Rightarrow> bool" where
  "isClaimed i s \<longleftrightarrow> i \<in> set (wk_claims s)"

definition claimOrThrow :: "string \<Rightarrow> (worker_state, unit) work" where
  "claimOrThrow i s =
     (let (granted, t) = claim i s in
      if granted then (Inr (), t) else (Inl (''ExecutionRequest '' @ i @ '' has already been claimed''), t))"

section \<open>The revision of the repository\<close>

record actual_revision =
  av_baseCommit :: "string option"
  av_treeHash :: "string option"
  av_workingTreePatchHash :: "string option"

text \<open>\<open>x.exitCode === 0 ? x.stdout.trim() || null : null\<close>\<close>

definition output_or_null :: "command_result \<Rightarrow> string option" where
  "output_or_null r = (if exited_zero r \<and> trim_text (cr_stdout r) \<noteq> [] then Some (trim_text (cr_stdout r)) else None)"

definition readRepositoryRevision :: "worker_config \<Rightarrow> worker_env \<Rightarrow> (worker_state, actual_revision) work" where
  "readRepositoryRevision cfg env =
     await (answer_with (runGitCommand cfg env RevParseHead [''rev-parse'', ''HEAD''])) (\<lambda>baseCommit.
     await (answer_with (runGitCommand cfg env RevParseTree [''rev-parse'', ''HEAD^{tree}''])) (\<lambda>treeHash.
     await (answer_with (runGitCommand cfg env DiffHead [''diff'', ''HEAD''])) (\<lambda>diff.
     await (answer_with (runGitCommand cfg env ListUntracked [''ls-files'', ''--others'', ''--exclude-standard''])) (\<lambda>untracked.
     (let workingPatchContent = cr_stdout diff @ cr_stdout untracked in
      done_with \<lparr>av_baseCommit = output_or_null baseCommit, av_treeHash = output_or_null treeHash,
        av_workingTreePatchHash = (if workingPatchContent \<noteq> [] then Some (en_sha256Hex env workingPatchContent) else None)\<rparr>)))))"

text \<open>The first field that differs from what the request expects.\<close>

definition revision_mismatch :: "revision_contract \<Rightarrow> actual_revision \<Rightarrow> mismatch_detail option" where
  "revision_mismatch expected actual =
     (if av_baseCommit actual \<noteq> Some (rc_baseCommit expected)
      then Some \<lparr>mi_field = ''baseCommit'', mi_expected = Some (rc_baseCommit expected), mi_actual = av_baseCommit actual\<rparr>
      else if av_treeHash actual \<noteq> Some (rc_treeHash expected)
      then Some \<lparr>mi_field = ''treeHash'', mi_expected = Some (rc_treeHash expected), mi_actual = av_treeHash actual\<rparr>
      else if av_workingTreePatchHash actual \<noteq> rc_workingTreePatchHash expected
      then Some \<lparr>mi_field = ''workingTreePatchHash'', mi_expected = rc_workingTreePatchHash expected,
                 mi_actual = av_workingTreePatchHash actual\<rparr>
      else None)"

section \<open>Worktrees and files\<close>

definition file_operation :: "worker_env \<Rightarrow> file_point \<Rightarrow> (worker_state \<Rightarrow> worker_state) \<Rightarrow> (worker_state, unit) work" where
  "file_operation env point effect s = (case en_fails env point of Some e \<Rightarrow> (Inl e, s) | None \<Rightarrow> (Inr (), effect s))"

text \<open>What a \<open>git worktree add\<close> that did not succeed may leave, if it was started at all.\<close>

definition left_behind :: "worker_config \<Rightarrow> worker_env \<Rightarrow> string \<Rightarrow> worker_state \<Rightarrow> worker_state" where
  "left_behind cfg env path s =
     (if ''git'' \<in> set (wc_commandAllowlist cfg) \<and> en_leavesWorktree env
      then s\<lparr>wk_worktrees := wk_worktrees s @ [path]\<rparr> else s)"

definition createIsolatedWorktree ::
  "worker_config \<Rightarrow> worker_env \<Rightarrow> string \<Rightarrow> string \<Rightarrow> (worker_state, unit) work" where
  "createIsolatedWorktree cfg env path baseCommit =
     await (file_operation env MakeWorktreesDirectory (\<lambda>s. s)) (\<lambda>_.
     \<lambda>s. (case runGitCommand cfg env WorktreeAdd [''worktree'', ''add'', ''--detach'', path, baseCommit] of
            Inl e \<Rightarrow> (Inl e, left_behind cfg env path s)
          | Inr r \<Rightarrow>
              if \<not> exited_zero r
              then (Inl (''Failed to create isolated worktree: '' @ output_of r), left_behind cfg env path s)
              else (Inr (), s\<lparr>wk_worktrees := wk_worktrees s @ [path]\<rparr>)))"

definition removeWorktree :: "worker_config \<Rightarrow> worker_env \<Rightarrow> git_point \<Rightarrow> string \<Rightarrow> (worker_state, bool) work" where
  "removeWorktree cfg env point path =
     await (answer_with (runGitCommand cfg env point [''worktree'', ''remove'', ''--force'', path])) (\<lambda>r.
     \<lambda>s. (Inr (exited_zero r), if exited_zero r then s\<lparr>wk_worktrees := removeAll path (wk_worktrees s)\<rparr> else s))"

definition exportWorktreePatch :: "worker_config \<Rightarrow> worker_env \<Rightarrow> (worker_state, string) work" where
  "exportWorktreePatch cfg env =
     await (answer_with (runGitCommand cfg env ExportDiff [''diff'', ''--cached'', ''HEAD''])) (\<lambda>diff.
     if \<not> exited_zero diff then reject (''Failed to export the staged patch: '' @ output_of diff)
     else done_with (cr_stdout diff))"

definition writeRecovery :: "worker_env \<Rightarrow> file_point \<Rightarrow> recovery_metadata \<Rightarrow> (worker_state, recovery_metadata) work" where
  "writeRecovery env point metadata =
     await (file_operation env point (\<lambda>s. s\<lparr>wk_recovery := AList.update (rm_executionRequestId metadata) metadata (wk_recovery s)\<rparr>))
       (\<lambda>_. done_with metadata)"

definition removeRecovery :: "worker_env \<Rightarrow> string \<Rightarrow> (worker_state, unit) work" where
  "removeRecovery env i = file_operation env RemoveRecoveryFile (\<lambda>s. s\<lparr>wk_recovery := AList.delete i (wk_recovery s)\<rparr>)"

text \<open>A file of the same name is overwritten.\<close>

definition persistArtifact ::
  "worker_env \<Rightarrow> string \<Rightarrow> artifact_kind \<Rightarrow> string \<Rightarrow> string \<Rightarrow> (worker_state, artifact_descriptor) work" where
  "persistArtifact env i kind fileName content =
     await (file_operation env (WriteArtifact fileName) (\<lambda>s. s\<lparr>wk_artifacts := AList.update (i, fileName) content (wk_artifacts s)\<rparr>)) (\<lambda>_.
     done_with \<lparr>ad_kind = kind, ad_fileName = fileName, ad_contentHash = en_sha256Hex env content,
                ad_sizeBytes = int (length content)\<rparr>)"

fun persist_all ::
  "worker_env \<Rightarrow> string \<Rightarrow> (artifact_kind \<times> string \<times> string) list \<Rightarrow> (worker_state, artifact_descriptor list) work" where
  "persist_all env i [] = done_with []"
| "persist_all env i ((kind, fileName, content) # rest) =
     await (persistArtifact env i kind fileName content) (\<lambda>d.
     await (persist_all env i rest) (\<lambda>ds. done_with (d # ds)))"

end
