(* ===== verification/Worker_Dispatch.thy ===== *)
theory Worker_Dispatch
  imports Worker_Environment
begin

text \<open>
  One dispatch of the worker (\<open>packages/worker-runtime/src/worker.ts\<close>): validation, claim,
  revision, worktree, agent, the checks after the agent, the export of the patch, cleanup, and the
  artifacts.
\<close>

section \<open>Texts\<close>

definition AGENT_CANCELLED :: string where
  "AGENT_CANCELLED = ''AGENT_CANCELLED''"

definition AGENT_TIMED_OUT :: string where
  "AGENT_TIMED_OUT = ''AGENT_TIMED_OUT''"

definition DIRTY_REPOSITORY_EXECUTION_UNSUPPORTED :: string where
  "DIRTY_REPOSITORY_EXECUTION_UNSUPPORTED = ''DIRTY_REPOSITORY_EXECUTION_UNSUPPORTED''"

definition line_break :: string where
  "line_break = [CHR 0x0A]"

text \<open>\<open>JSON.stringify(v, null, 2)\<close>, indented by \<open>n\<close>.\<close>

fun pretty :: "nat \<Rightarrow> json \<Rightarrow> string" where
  "pretty n (JArr js) =
     (if js = [] then ''[]''
      else ''['' @ line_break @ join ('','' @ line_break) (map (\<lambda>j. replicate (n + 2) (CHR '' '') @ pretty (n + 2) j) js)
           @ line_break @ replicate n (CHR '' '') @ '']'')"
| "pretty n (JObj kvs) =
     (if kvs = [] then ''{}''
      else ''{'' @ line_break
           @ join ('','' @ line_break) (map (\<lambda>kv. replicate (n + 2) (CHR '' '') @ quote (fst kv) @ '': '' @ pretty (n + 2) (snd kv)) kvs)
           @ line_break @ replicate n (CHR '' '') @ ''}'')"
| "pretty n v = stringify v"

definition result_json :: "string list \<times> command_result \<Rightarrow> json" where
  "result_json v = JObj
     [(''argv'', strings_json (fst v)),
      (''exitCode'', case cr_exitCode (snd v) of None \<Rightarrow> JNull | Some n \<Rightarrow> JNum n),
      (''signal'', jopt (cr_signal (snd v))), (''stdout'', JStr (cr_stdout (snd v))), (''stderr'', JStr (cr_stderr (snd v))),
      (''timedOut'', JBool (cr_timedOut (snd v))), (''cancelled'', JBool (cr_cancelled (snd v))),
      (''outputTruncated'', JBool (cr_outputTruncated (snd v))), (''durationMs'', JNum (cr_durationMs (snd v)))]"

definition summaryClaimsChanges :: "worker_env \<Rightarrow> string option \<Rightarrow> bool" where
  "summaryClaimsChanges env text =
     (case Option.bind text (en_parse env) of
        Some (JObj kvs) \<Rightarrow> (case map_of kvs ''changes'' of Some (JArr js) \<Rightarrow> js \<noteq> [] | _ \<Rightarrow> False)
      | _ \<Rightarrow> False)"

section \<open>The run of the agent\<close>

text \<open>The variables of a dispatch from the agent on.\<close>

record progress =
  pg_outcome :: dispatch_outcome
  pg_reason :: "string option"
  pg_agentSummary :: "string option"
  pg_agentEvidence :: "string option"
  pg_agentArtifacts :: "agent_artifact list option"
  pg_verificationResults :: "(string list \<times> command_result) list"
  pg_patch :: "string option"
  pg_patchHash :: "string option"

definition no_progress :: progress where
  "no_progress =
     \<lparr>pg_outcome = DO_SUCCEEDED, pg_reason = None, pg_agentSummary = None, pg_agentEvidence = None,
      pg_agentArtifacts = None, pg_verificationResults = [], pg_patch = None, pg_patchHash = None\<rparr>"

definition ends_with :: "dispatch_outcome \<Rightarrow> string \<Rightarrow> progress \<Rightarrow> progress" where
  "ends_with outcome reason p = p\<lparr>pg_outcome := outcome, pg_reason := Some reason\<rparr>"

definition markCancelled :: "progress \<Rightarrow> progress" where
  "markCancelled p = ends_with DO_CANCELLED AGENT_CANCELLED p"

definition cancel_if_aborted :: "worker_env \<Rightarrow> abort_look \<Rightarrow> progress \<Rightarrow> progress" where
  "cancel_if_aborted env look p = (if en_aborted env look then markCancelled p else p)"

fun error_message :: "agent_error \<Rightarrow> string" where
  "error_message (LocalCliError code message transport) = message"
| "error_message (CancelledError message) = message"
| "error_message (BudgetExceededError message) = message"
| "error_message (OtherAgentError message) = message"

definition agent_failed :: "worker_env \<Rightarrow> agent_error \<Rightarrow> progress \<Rightarrow> progress" where
  "agent_failed env e p =
     (let p' = (case e of
          LocalCliError code message transport \<Rightarrow>
            (let q = ends_with (if code = AGENT_CANCELLED then DO_CANCELLED else DO_PARTIAL) code p in
             case transport of None \<Rightarrow> q
             | Some t \<Rightarrow> q\<lparr>pg_agentArtifacts := Some [\<lparr>aa_fileName = ''transport.json'', aa_content = pretty 0 t\<rparr>]\<rparr>)
        | CancelledError message \<Rightarrow> ends_with DO_CANCELLED AGENT_CANCELLED p
        | BudgetExceededError message \<Rightarrow>
            if en_aborted env AgentFailed then ends_with DO_CANCELLED AGENT_CANCELLED p
            else ends_with DO_PARTIAL message p
        | OtherAgentError message \<Rightarrow>
            if en_aborted env AgentFailed then ends_with DO_CANCELLED AGENT_CANCELLED p
            else ends_with DO_PARTIAL (''agent step failed: '' @ message) p)
      in p'\<lparr>pg_agentEvidence := Some (error_message e)\<rparr>)"

definition run_agent :: "worker_env \<Rightarrow> progress \<Rightarrow> progress" where
  "run_agent env p =
     cancel_if_aborted env AgentReturned
       (case en_agent env of
          Inr a \<Rightarrow> p\<lparr>pg_agentSummary := Some (as_text a), pg_agentArtifacts := Some (as_artifacts a)\<rparr>
        | Inl e \<Rightarrow> agent_failed env e p)"

section \<open>After the agent\<close>

text \<open>\<open>None\<close>: the worktree is where it was, without a branch.\<close>

definition verifyWorktreeRepositoryState ::
  "worker_config \<Rightarrow> worker_env \<Rightarrow> string \<Rightarrow> (worker_state, string option) work" where
  "verifyWorktreeRepositoryState cfg env baseCommit =
     await (answer_with (runGitCommand cfg env WorktreeHead [''rev-parse'', ''HEAD''])) (\<lambda>head.
     if \<not> exited_zero head \<or> trim_text (cr_stdout head) \<noteq> baseCommit then done_with (Some ''AGENT_REPOSITORY_STATE_VIOLATION'')
     else await (answer_with (runGitCommand cfg env WorktreeBranch [''symbolic-ref'', ''--quiet'', ''HEAD''])) (\<lambda>branch.
     if exited_zero branch \<and> trim_text (cr_stdout branch) \<noteq> [] then done_with (Some ''AGENT_REPOSITORY_STATE_VIOLATION'')
     else done_with None))"

text \<open>The guard and the staging; the flag is \<open>skipPostAgent\<close>.\<close>

definition guard_state :: "worker_config \<Rightarrow> worker_env \<Rightarrow> string \<Rightarrow> progress \<Rightarrow> (worker_state, bool \<times> progress) work" where
  "guard_state cfg env baseCommit p =
     (if pg_outcome p = DO_CANCELLED then done_with (False, p)
      else await (verifyWorktreeRepositoryState cfg env baseCommit) (\<lambda>found.
        case found of Some what \<Rightarrow> done_with (True, ends_with DO_PARTIAL what p) | None \<Rightarrow> done_with (False, p)))"

definition stage_all :: "worker_config \<Rightarrow> worker_env \<Rightarrow> bool \<times> progress \<Rightarrow> (worker_state, bool \<times> progress) work" where
  "stage_all cfg env violated =
     (let (skipPostAgent, p) = violated in
      if pg_outcome p = DO_CANCELLED \<or> skipPostAgent then done_with (skipPostAgent, p)
      else await (answer_with (runGitCommand cfg env StageAll [''add'', ''-A''])) (\<lambda>stage.
        if \<not> exited_zero stage then done_with (True, ends_with DO_PARTIAL ''git add failed'' p) else done_with (False, p)))"

definition push_result :: "string list \<Rightarrow> command_result \<Rightarrow> progress \<Rightarrow> progress" where
  "push_result argv r p = p\<lparr>pg_verificationResults := pg_verificationResults p @ [(argv, r)]\<rparr>"

fun run_verifications ::
  "worker_config \<Rightarrow> worker_env \<Rightarrow> int \<Rightarrow> nat \<Rightarrow> string list list \<Rightarrow> progress \<Rightarrow> (worker_state, progress) work" where
  "run_verifications cfg env maxDurationMs n [] p = done_with p"
| "run_verifications cfg env maxDurationMs n (argv # rest) p =
     (if en_aborted env (VerificationBegins n) then done_with (markCancelled p)
      else if maxDurationMs - en_elapsed env n \<le> 0
      then done_with (ends_with DO_PARTIAL ''budget exceeded: maxDurationMs'' p)
      else await (answer_with (runCommand cfg env (RunVerification n) argv)) (\<lambda>result.
        (let p' = push_result argv result p;
             p'' = (if cr_timedOut result then ends_with DO_PARTIAL ''verification command timed out'' p' else p')
         in run_verifications cfg env maxDurationMs (Suc n) rest p'')))"

definition check_staged :: "worker_config \<Rightarrow> worker_env \<Rightarrow> int \<Rightarrow> bool \<Rightarrow> progress \<Rightarrow> (worker_state, progress) work" where
  "check_staged cfg env maxDurationMs skipPostAgent p =
     (if pg_outcome p = DO_CANCELLED \<or> skipPostAgent then done_with p
      else await (answer_with (runGitCommand cfg env CheckStaged [''diff'', ''--cached'', ''--check''])) (\<lambda>check.
        (let p' = push_result [''git'', ''diff'', ''--cached'', ''--check''] check p;
             p'' = (if \<not> exited_zero check then ends_with DO_PARTIAL ''git diff --cached --check failed'' p' else p')
         in await (run_verifications cfg env maxDurationMs 0 (wc_verificationCommands cfg) p'')
              (\<lambda>q. done_with (cancel_if_aborted env VerificationsOver q)))))"

definition export_patch :: "worker_config \<Rightarrow> worker_env \<Rightarrow> bool \<Rightarrow> progress \<Rightarrow> (worker_state, progress) work" where
  "export_patch cfg env skipPostAgent p =
     (if pg_outcome p = DO_CANCELLED \<or> skipPostAgent then done_with p
      else await (attempt (exportWorktreePatch cfg env)) (\<lambda>exported.
        case exported of
          Inl e \<Rightarrow> done_with (ends_with DO_PARTIAL (''patch export failed: '' @ e) p)
        | Inr patch \<Rightarrow>
            (let p' = p\<lparr>pg_patch := Some patch,
                        pg_patchHash := (if patch \<noteq> [] then Some (en_sha256Hex env patch) else None)\<rparr>
             in done_with (if patch = [] \<and> summaryClaimsChanges env (pg_agentSummary p)
                  then ends_with DO_PARTIAL ''agent claimed changes but produced an empty patch'' p' else p'))))"

section \<open>Artifacts\<close>

definition verifications_text :: "progress \<Rightarrow> string" where
  "verifications_text p = pretty 0 (JArr (map result_json (pg_verificationResults p)))"

definition summary_artifact :: "progress \<Rightarrow> (artifact_kind \<times> string \<times> string) list" where
  "summary_artifact p = (case pg_agentSummary p of None \<Rightarrow> [] | Some t \<Rightarrow> [(AGENT_SUMMARY, ''agent-summary.txt'', t)])"

definition patch_artifact :: "string \<Rightarrow> progress \<Rightarrow> (artifact_kind \<times> string \<times> string) list" where
  "patch_artifact name p = (case pg_patch p of None \<Rightarrow> [] | Some t \<Rightarrow> [(PATCH, name, t)])"

definition success_artifacts :: "progress \<Rightarrow> (artifact_kind \<times> string \<times> string) list" where
  "success_artifacts p =
     patch_artifact ''patch.diff'' p @ [(TEST_RESULT, ''verification.json'', verifications_text p)] @ summary_artifact p
     @ map (\<lambda>a. (AGENT_SUMMARY, aa_fileName a, aa_content a)) (default_to (pg_agentArtifacts p) [])"

definition transport_members :: "worker_env \<Rightarrow> progress \<Rightarrow> (string \<times> json) list" where
  "transport_members env p =
     new_Map (map (\<lambda>a. (aa_fileName a, default_to (en_parse env (aa_content a)) (JStr (aa_content a))))
       (default_to (pg_agentArtifacts p) []))"

definition partial_evidence :: "worker_env \<Rightarrow> progress \<Rightarrow> json" where
  "partial_evidence env p =
     JObj (optional_member ''reason'' JStr (pg_reason p) @ optional_member ''agentEvidence'' JStr (pg_agentEvidence p)
       @ [(''verificationResults'', JArr (map result_json (pg_verificationResults p)))]
       @ (if transport_members env p \<noteq> [] then [(''transport'', JObj (transport_members env p))] else []))"

definition partial_artifacts :: "worker_env \<Rightarrow> progress \<Rightarrow> (artifact_kind \<times> string \<times> string) list" where
  "partial_artifacts env p =
     patch_artifact ''patch.partial.diff'' p
     @ [(AGENT_PARTIAL, ''partial-evidence.json'', pretty 0 (partial_evidence env p))] @ summary_artifact p"

definition write_artifacts ::
  "worker_env \<Rightarrow> string \<Rightarrow> (artifact_kind \<times> string \<times> string) list \<Rightarrow> (worker_state, artifact_descriptor list) work" where
  "write_artifacts env i files = await (file_operation env MakeArtifactsDirectory (\<lambda>s. s)) (\<lambda>_. persist_all env i files)"

section \<open>The end of a dispatch\<close>

definition recovery_record :: "worker_config \<Rightarrow> worker_env \<Rightarrow> string \<Rightarrow> clock_look option \<Rightarrow> bool \<Rightarrow> recovery_metadata" where
  "recovery_record cfg env i interrupted cleanupSucceeded =
     \<lparr>rm_executionRequestId = i, rm_worktreePath = wc_worktreePath cfg i,
      rm_state = (if interrupted = None then RECOVERY_RUNNING else RECOVERY_INTERRUPTED),
      rm_startedAt = en_now env StartTime, rm_interruptedAt = map_option (en_now env) interrupted,
      rm_cleanupSucceeded = cleanupSucceeded\<rparr>"

definition final_result ::
  "worker_config \<Rightarrow> worker_env \<Rightarrow> string \<Rightarrow> progress \<Rightarrow> bool \<Rightarrow> artifact_descriptor list \<Rightarrow> dispatch_result" where
  "final_result cfg env i p cleanupSucceeded arts =
     \<lparr>dr_outcome = pg_outcome p, dr_claimGranted = True, dr_rejectionReason = pg_reason p, dr_revisionMismatch = None,
      dr_patch = pg_patch p, dr_patchHash = pg_patchHash p, dr_verificationResults = Some (pg_verificationResults p),
      dr_artifacts = Some arts, dr_agentSummary = pg_agentSummary p,
      dr_recovery = (if pg_outcome p \<noteq> DO_SUCCEEDED
        then Some (recovery_record cfg env i (Some InterruptedResultTime) cleanupSucceeded) else None),
      dr_timedOut = (if pg_reason p = Some ''verification command timed out'' \<or> pg_reason p = Some AGENT_TIMED_OUT
        then Some True else None)\<rparr>"

text \<open>Cleanup always runs, detached from the signal of the dispatch.\<close>

definition clean_up :: "worker_config \<Rightarrow> worker_env \<Rightarrow> string \<Rightarrow> (worker_state, bool) work" where
  "clean_up cfg env i =
     await (attempt (removeWorktree cfg env WorktreeRemove (wc_worktreePath cfg i))) (\<lambda>r.
     done_with (case r of Inl e \<Rightarrow> False | Inr removed \<Rightarrow> removed))"

definition finish_dispatch :: "worker_config \<Rightarrow> worker_env \<Rightarrow> string \<Rightarrow> progress \<Rightarrow> (worker_state, dispatch_result) work" where
  "finish_dispatch cfg env i p =
     await (clean_up cfg env i) (\<lambda>cleanupSucceeded.
     await (if pg_outcome p \<noteq> DO_SUCCEEDED
            then await (writeRecovery env WriteInterrupted (recovery_record cfg env i (Some InterruptedFileTime) cleanupSucceeded))
                   (\<lambda>_. done_with ())
            else removeRecovery env i) (\<lambda>_.
     await (write_artifacts env i (if pg_outcome p \<noteq> DO_SUCCEEDED then partial_artifacts env p else success_artifacts p)) (\<lambda>arts.
     done_with (final_result cfg env i p cleanupSucceeded arts))))"

text \<open>From the recovery file to the result.\<close>

definition execute :: "worker_config \<Rightarrow> worker_env \<Rightarrow> execution_request \<Rightarrow> (worker_state, dispatch_result) work" where
  "execute cfg env request =
     (let i = xr_executionRequestId request;
          baseCommit = rc_baseCommit (xr_expectedRepositoryRevision request);
          maxDurationMs = rb_maxDurationMs (xr_resourceBudget request)
      in await (writeRecovery env WriteRunning (recovery_record cfg env i None False)) (\<lambda>_.
         await (guard_state cfg env baseCommit (run_agent env no_progress)) (\<lambda>guarded.
         await (stage_all cfg env guarded) (\<lambda>(skipPostAgent, p).
         await (check_staged cfg env maxDurationMs skipPostAgent p) (\<lambda>q.
         await (export_patch cfg env skipPostAgent q) (\<lambda>q'.
         finish_dispatch cfg env i (cancel_if_aborted env PatchExported q')))))))"

section \<open>Dispatch\<close>

definition selectAdapter :: "worker_config \<Rightarrow> execution_request \<Rightarrow> bool" where
  "selectAdapter cfg request =
     (let provider = ag_provider (xr_agentConfiguration request) in
      if provider = ''codex-cli'' then wc_hasCodexAdapter cfg
      else if provider = ''fixture'' then wc_hasAgent cfg else False)"

definition adapterRejectionReason :: "execution_request \<Rightarrow> string" where
  "adapterRejectionReason request =
     (if ag_provider (xr_agentConfiguration request) = ''codex-cli'' then ''AGENT_EXECUTABLE_NOT_FOUND''
      else ''AGENT_POLICY_REJECTED'')"

text \<open>Why a request is rejected before it is claimed.\<close>

definition rejection :: "worker_config \<Rightarrow> worker_env \<Rightarrow> execution_request \<Rightarrow> string option" where
  "rejection cfg env request =
     (case validateExecutionRequest (en_contract env) (en_sha256Hex env) (wc_capabilities cfg) (en_nowMs env) request of
        Inl e \<Rightarrow> Some e
      | Inr _ \<Rightarrow>
          if rc_workingTreePatchHash (xr_expectedRepositoryRevision request) \<noteq> None
          then Some DIRTY_REPOSITORY_EXECUTION_UNSUPPORTED
          else if ag_provider (xr_agentConfiguration request) = ''codex-cli'' \<and> xr_schemaVersion request \<noteq> 2
          then Some ''EXECUTION_CONTEXT_REQUIRED''
          else if \<not> selectAdapter cfg request then Some (adapterRejectionReason request)
          else None)"

definition make_worktree :: "worker_config \<Rightarrow> worker_env \<Rightarrow> execution_request \<Rightarrow> (worker_state, dispatch_result option) work" where
  "make_worktree cfg env request =
     (let path = wc_worktreePath cfg (xr_executionRequestId request) in
      await (attempt (createIsolatedWorktree cfg env path (rc_baseCommit (xr_expectedRepositoryRevision request)))) (\<lambda>made.
      case made of
        Inr _ \<Rightarrow> done_with None
      | Inl e \<Rightarrow>
          if en_aborted env WorktreeFailed
          then await (attempt (removeWorktree cfg env AbortedWorktreeRemove path)) (\<lambda>_.
               done_with (Some (plain_result DO_CANCELLED True (Some AGENT_CANCELLED))))
          else done_with (Some (plain_result DO_PARTIAL True (Some (''worktree creation failed: '' @ e))))))"

definition check_revision :: "worker_config \<Rightarrow> worker_env \<Rightarrow> execution_request \<Rightarrow> (worker_state, dispatch_result option) work" where
  "check_revision cfg env request =
     await (attempt (readRepositoryRevision cfg env)) (\<lambda>r.
     done_with (case r of
         Inl e \<Rightarrow> Some (if en_aborted env RevisionFailed then plain_result DO_CANCELLED True (Some AGENT_CANCELLED)
                       else plain_result DO_PARTIAL True (Some (''revision verification failed: '' @ e)))
       | Inr actual \<Rightarrow>
           (case revision_mismatch (xr_expectedRepositoryRevision request) actual of
              None \<Rightarrow> None
            | Some detail \<Rightarrow> Some (if en_aborted env RevisionFailed then plain_result DO_CANCELLED True (Some AGENT_CANCELLED)
                       else (plain_result REVISION_MISMATCH True None)\<lparr>dr_revisionMismatch := Some detail\<rparr>))))"

definition dispatch :: "worker_config \<Rightarrow> worker_env \<Rightarrow> execution_request \<Rightarrow> (worker_state, dispatch_result) work" where
  "dispatch cfg env request s =
     (case rejection cfg env request of
        Some reason \<Rightarrow> (Inr (plain_result VALIDATION_REJECTED False (Some reason)), s)
      | None \<Rightarrow>
          (let i = xr_executionRequestId request; (granted, t) = claim i s in
           if \<not> granted
           then (Inr (plain_result CLAIM_REJECTED False (Some (''ExecutionRequest '' @ i @ '' has already been claimed''))), t)
           else await (check_revision cfg env request) (\<lambda>refused.
                case refused of Some r \<Rightarrow> done_with r
                | None \<Rightarrow> await (make_worktree cfg env request) (\<lambda>failed.
                  case failed of Some r \<Rightarrow> done_with r | None \<Rightarrow> execute cfg env request)) t))"

end
