(* ===== verification/Request_Laws.thy ===== *)
theory Request_Laws
  imports Execution_Request
begin

text \<open>
  The hash of a request covers everything in it: the text under the hash determines every
  field, so a request that was changed after it was hashed is refused.
\<close>

section \<open>The texts determine the values\<close>

lemma type_str_inj [simp]: "context_item_type_str a = context_item_type_str b \<longleftrightarrow> a = b"
  by (cases a; cases b) simp_all

lemma authority_str_inj [simp]: "context_authority_str a = context_authority_str b \<longleftrightarrow> a = b"
  by (cases a; cases b) simp_all

lemma priority_str_inj [simp]: "context_priority_str a = context_priority_str b \<longleftrightarrow> a = b"
  by (cases a; cases b) simp_all

lemma sort_jopt [simp]: "sort_members (jopt x) = jopt x"
  by (simp add: jopt_def split: option.split)

lemma sort_strings_json [simp]: "sort_members (strings_json ss) = strings_json ss"
  by (simp add: strings_json_def)

lemma strings_json_inj [simp]: "strings_json ss = strings_json ts \<longleftrightarrow> ss = ts"
  by (simp add: strings_json_def inj_map_eq_map inj_def)

text \<open>The members of an object.\<close>

fun members :: "json \<Rightarrow> (string \<times> json) list" where
  "members (JObj kvs) = kvs"
| "members j = []"

definition field :: "string \<Rightarrow> json \<Rightarrow> json option" where
  "field k j = map_option sort_members (map_of (members j) k)"

lemma same_field:
  assumes "sort_members i = sort_members j" and "distinct (map fst (members i))" and "distinct (map fst (members j))"
  shows "field k i = field k j"
proof (cases "\<exists>kvs lvs. i = JObj kvs \<and> j = JObj lvs")
  case True
  then obtain kvs lvs where "i = JObj kvs" "j = JObj lvs" by blast
  with stable_members [of kvs lvs k] assms show ?thesis unfolding field_def by (simp only: members.simps)
next
  case False
  with assms(1) have "members i = [] \<and> members j = []" by (cases i; cases j) auto
  then show ?thesis by (simp add: field_def)
qed

lemma item_json_inj:
  assumes "sort_members (item_json x) = sort_members (item_json y)"
  shows "x = y"
proof -
  have field: "field l (item_json x) = field l (item_json y)" for l
    using same_field [OF assms] by (simp add: item_json_def)
  have "xi_position x = xi_position y" using field [of "''position''"] by (simp add: field_def item_json_def)
  moreover have "xi_itemType x = xi_itemType y" using field [of "''itemType''"] by (simp add: field_def item_json_def)
  moreover have "xi_sourceRef x = xi_sourceRef y" using field [of "''sourceRef''"] by (simp add: field_def item_json_def)
  moreover have "xi_resolvedContent x = xi_resolvedContent y" using field [of "''resolvedContent''"] by (simp add: field_def item_json_def)
  moreover have "xi_contentHash x = xi_contentHash y" using field [of "''contentHash''"] by (simp add: field_def item_json_def)
  moreover have "xi_authority x = xi_authority y" using field [of "''authority''"] by (simp add: field_def item_json_def)
  moreover have "xi_priority x = xi_priority y" using field [of "''priority''"] by (simp add: field_def item_json_def)
  moreover have "xi_tokenEstimate x = xi_tokenEstimate y" using field [of "''tokenEstimate''"] by (simp add: field_def item_json_def)
  ultimately show ?thesis by (cases x; cases y) simp
qed

lemma items_inj: "map (\<lambda>x. sort_members (item_json x)) xs = map (\<lambda>x. sort_members (item_json x)) ys \<Longrightarrow> xs = ys"
proof (induction xs arbitrary: ys)
  case (Cons x xs)
  then show ?case by (cases ys) (auto dest: item_json_inj)
qed simp

lemma bundle_json_inj:
  assumes "sort_members (bundle_json x) = sort_members (bundle_json y)"
  shows "x = y"
proof -
  have field: "field l (bundle_json x) = field l (bundle_json y)" for l
    using same_field [OF assms] by (simp add: bundle_json_def)
  have "xb_items x = xb_items y" using field [of "''items''"] by (simp add: field_def bundle_json_def comp_def items_inj)
  moreover have "xb_totalBytes x = xb_totalBytes y" using field [of "''totalBytes''"] by (simp add: field_def bundle_json_def)
  moreover have "xb_contentHash x = xb_contentHash y" using field [of "''contentHash''"] by (simp add: field_def bundle_json_def)
  ultimately show ?thesis by (cases x; cases y) simp
qed

lemma revision_json_inj:
  assumes "sort_members (revision_json x) = sort_members (revision_json y)"
  shows "x = y"
proof -
  have field: "field l (revision_json x) = field l (revision_json y)" for l
    using same_field [OF assms] by (simp add: revision_json_def)
  have "rc_baseCommit x = rc_baseCommit y" using field [of "''baseCommit''"] by (simp add: field_def revision_json_def)
  moreover have "rc_treeHash x = rc_treeHash y" using field [of "''treeHash''"] by (simp add: field_def revision_json_def)
  moreover have "rc_workingTreePatchHash x = rc_workingTreePatchHash y" using field [of "''workingTreePatchHash''"] by (simp add: field_def revision_json_def)
  ultimately show ?thesis by (cases x; cases y) simp
qed

lemma optional_member_of [simp]: "map_of (optional_member k f x) l = (if l = k then map_option f x else None)"
  by (simp add: optional_member_def split: option.split)

lemma optional_member_keys [simp]: "map fst (optional_member k f x) = (case x of None \<Rightarrow> [] | Some v \<Rightarrow> [k])"
  by (simp add: optional_member_def split: option.split)

lemma map_option_JNum [simp]: "map_option (sort_members \<circ> JNum) x = map_option (sort_members \<circ> JNum) y \<longleftrightarrow> x = y"
  by (cases x; cases y) simp_all

lemma budget_json_inj:
  assumes "sort_members (budget_json x) = sort_members (budget_json y)"
  shows "x = y"
proof -
  have field: "field l (budget_json x) = field l (budget_json y)" for l
    using same_field [OF assms] by (simp add: budget_json_def split: option.split)
  have "rb_maxDurationMs x = rb_maxDurationMs y" using field [of "''maxDurationMs''"] by (simp add: field_def budget_json_def map_add_def)
  moreover have "rb_maxToolCalls x = rb_maxToolCalls y" using field [of "''maxToolCalls''"] by (simp add: field_def budget_json_def map_add_def)
  moreover have "rb_maxTokens x = rb_maxTokens y" using field [of "''maxTokens''"] by (simp add: field_def budget_json_def map_add_def option.map_comp split: option.splits)
  moreover have "rb_maxCostCents x = rb_maxCostCents y" using field [of "''maxCostCents''"] by (simp add: field_def budget_json_def map_add_def option.map_comp split: option.splits)
  moreover have "rb_maxDiskBytes x = rb_maxDiskBytes y" using field [of "''maxDiskBytes''"] by (simp add: field_def budget_json_def map_add_def)
  ultimately show ?thesis by (cases x; cases y) simp
qed

lemma agent_json_inj:
  assumes "sort_members (agent_json x) = sort_members (agent_json y)"
  shows "x = y"
proof -
  have field: "field l (agent_json x) = field l (agent_json y)" for l
    using same_field [OF assms] by (simp add: agent_json_def)
  have "ag_provider x = ag_provider y" using field [of "''provider''"] by (simp add: field_def agent_json_def)
  moreover have "ag_model x = ag_model y" using field [of "''model''"] by (simp add: field_def agent_json_def)
  ultimately show ?thesis by (cases x; cases y) simp
qed

lemma policy_json_inj:
  assumes "sort_members (policy_json x) = sort_members (policy_json y)"
  shows "x = y"
proof -
  have field: "field l (policy_json x) = field l (policy_json y)" for l
    using same_field [OF assms] by (simp add: policy_json_def)
  have "tp_allowedTools x = tp_allowedTools y" using field [of "''allowedTools''"] by (simp add: field_def policy_json_def)
  moreover have "tp_deniedPaths x = tp_deniedPaths y" using field [of "''deniedPaths''"] by (simp add: field_def policy_json_def)
  moreover have "tp_allowNetwork x = tp_allowNetwork y" using field [of "''allowNetwork''"] by (simp add: field_def policy_json_def)
  moreover have "tp_allowShell x = tp_allowShell y" using field [of "''allowShell''"] by (simp add: field_def policy_json_def)
  ultimately show ?thesis by (cases x; cases y) simp
qed

section \<open>The request\<close>

definition without_hash :: "execution_request \<Rightarrow> execution_request" where
  "without_hash r = r\<lparr>xr_requestHash := []\<rparr>"

lemma with_its_hash: "without_hash r = without_hash r' \<Longrightarrow> xr_requestHash r = xr_requestHash r' \<Longrightarrow> r' = r"
proof -
  have eq: "x = without_hash x\<lparr>xr_requestHash := xr_requestHash x\<rparr>" for x by (simp add: without_hash_def)
  assume "without_hash r = without_hash r'" "xr_requestHash r = xr_requestHash r'"
  with eq [of r] eq [of r'] show ?thesis by (simp only:)
qed

lemma stripped_keys: "distinct (map fst (stripRequestHash r))"
  by (simp add: stripRequestHash_def split: option.split)

lemma request_fields:
  assumes "sort_members (JObj (stripRequestHash x)) = sort_members (JObj (stripRequestHash y))"
  shows "map_option sort_members (map_of (stripRequestHash x) l) = map_option sort_members (map_of (stripRequestHash y) l)"
  using stable_members [OF assms stripped_keys stripped_keys] .

lemma stripRequestHash_inj:
  assumes "sort_members (JObj (stripRequestHash x)) = sort_members (JObj (stripRequestHash y))"
  shows "without_hash x = without_hash y"
proof -
  note field = request_fields [OF assms]
  have "xr_executionRequestId x = xr_executionRequestId y" using field [of "''executionRequestId''"] by (simp add: stripRequestHash_def map_add_def)
  moreover have "xr_runId x = xr_runId y" using field [of "''runId''"] by (simp add: stripRequestHash_def map_add_def)
  moreover have "xr_workerAttemptNumber x = xr_workerAttemptNumber y" using field [of "''workerAttemptNumber''"] by (simp add: stripRequestHash_def map_add_def)
  moreover have "xr_taskSpecVersionId x = xr_taskSpecVersionId y" using field [of "''taskSpecVersionId''"] by (simp add: stripRequestHash_def map_add_def)
  moreover have "xr_contextSnapshotId x = xr_contextSnapshotId y" using field [of "''contextSnapshotId''"] by (simp add: stripRequestHash_def map_add_def)
  moreover have "xr_expectedRepositoryRevision x = xr_expectedRepositoryRevision y" using field [of "''expectedRepositoryRevision''"] by (auto simp: stripRequestHash_def map_add_def intro: revision_json_inj)
  moreover have "xr_checkpointId x = xr_checkpointId y" using field [of "''checkpointId''"] by (simp add: stripRequestHash_def map_add_def)
  moreover have "xr_requiredCapabilities x = xr_requiredCapabilities y" using field [of "''requiredCapabilities''"] by (simp add: stripRequestHash_def map_add_def)
  moreover have "xr_agentConfiguration x = xr_agentConfiguration y" using field [of "''agentConfiguration''"] by (auto simp: stripRequestHash_def map_add_def intro: agent_json_inj)
  moreover have "xr_toolPolicy x = xr_toolPolicy y" using field [of "''toolPolicy''"] by (auto simp: stripRequestHash_def map_add_def intro: policy_json_inj)
  moreover have "xr_resourceBudget x = xr_resourceBudget y" using field [of "''resourceBudget''"] by (auto simp: stripRequestHash_def map_add_def intro: budget_json_inj)
  moreover have "xr_contextBundle x = xr_contextBundle y" using field [of "''contextBundle''"] by (auto simp: stripRequestHash_def map_add_def dest: bundle_json_inj split: option.splits)
  moreover have "xr_expiresAt x = xr_expiresAt y" using field [of "''expiresAt''"] by (simp add: stripRequestHash_def map_add_def)
  ultimately show ?thesis by (cases x; cases y) (simp add: without_hash_def)
qed

section \<open>Validation\<close>

text \<open>What a valid context bundle is.\<close>

definition bundle_sound :: "(string \<Rightarrow> string) \<Rightarrow> context_bundle_v2 \<Rightarrow> bool" where
  "bundle_sound sha b \<longleftrightarrow>
     xb_items b \<noteq> [] \<and> length (xb_items b) \<le> MAX_EXECUTION_CONTEXT_ITEMS
     \<and> map xi_position (xb_items b) = map int [0..<length (xb_items b)]
     \<and> list_all (\<lambda>item. sha (xi_resolvedContent item) = xi_contentHash item) (xb_items b)
     \<and> xb_totalBytes b = int (length (canonicalItems (xb_items b))) \<and> xb_totalBytes b \<le> MAX_EXECUTION_CONTEXT_BYTES
     \<and> xb_contentHash b = sha (canonicalItems (xb_items b))
     \<and> list_ex (\<lambda>item. xi_authority item = CA_TASK_INSTRUCTION \<and> xi_priority item = P0) (xb_items b)"

lemma positions_contiguous:
  "list_all (\<lambda>(index, item). xi_position item = int index) (List.enumerate 0 items)
     \<longleftrightarrow> map xi_position items = map int [0..<length items]"
proof -
  have "list_all (\<lambda>(index, item). xi_position item = int index) (List.enumerate n items)
      \<longleftrightarrow> map xi_position items = map int [n..<n + length items]" for n
  proof (induction items arbitrary: n)
    case (Cons x xs)
    have "[n..<n + length (x # xs)] = n # [Suc n..<Suc n + length xs]" by (simp add: upt_rec)
    with Cons [of "Suc n"] show ?case by simp
  qed simp
  from this [of 0] show ?thesis by simp
qed

lemma checked_none:
  "(case find P xs of None \<Rightarrow> rest | Some x \<Rightarrow> Inl (f x)) = Inr u \<longleftrightarrow> list_all (\<lambda>x. \<not> P x) xs \<and> rest = Inr u"
  by (induction xs) auto

lemma assertValidExecutionContextBundle_iff:
  "assertValidExecutionContextBundle sha b = Inr () \<longleftrightarrow> bundle_sound sha b"
  unfolding assertValidExecutionContextBundle_def bundle_sound_def computeExecutionContextBundle_def Let_def
    positions_contiguous prod.case
  by (cases "xb_items b = []") (auto simp: checked_none not_less)

definition request_sound :: "contract_lib \<Rightarrow> (string \<Rightarrow> string) \<Rightarrow> string list \<Rightarrow> number \<Rightarrow> execution_request \<Rightarrow> bool" where
  "request_sound lib sha capabilities nowMs r \<longleftrightarrow>
     executionRequestSchema lib r \<and> xr_requestHash r = computeRequestHash sha r
     \<and> \<not> num_le (cl_getTime lib (xr_expiresAt r)) nowMs \<and> set (xr_requiredCapabilities r) \<subseteq> set capabilities
     \<and> (case xr_contextBundle r of None \<Rightarrow> True | Some b \<Rightarrow> bundle_sound sha b)"

lemma validateExecutionRequest_iff:
  "validateExecutionRequest lib sha capabilities nowMs r = Inr () \<longleftrightarrow> request_sound lib sha capabilities nowMs r"
  unfolding validateExecutionRequest_def request_sound_def
  by (auto simp: checked_none list_all_iff assertValidExecutionContextBundle_iff split: option.splits)

text \<open>
  C37. An accepted request is the one that was hashed: it satisfies the contract, it has not
  expired, its capabilities are there, its bundle is sound (items in contiguous positions with the
  hashes of their contents, within the limits of items and bytes, under the hash of their
  canonical text, with a task instruction of priority P0), and any other request that is
  accepted under the same hash, by any worker at any time, is the same in every field, unless the
  digest collides on the two texts.
\<close>

theorem validated_request_untampered:
  assumes "validateExecutionRequest lib sha capabilities nowMs r = Inr ()"
    and "validateExecutionRequest lib' sha capabilities' nowMs' r' = Inr ()"
    and "xr_requestHash r = xr_requestHash r'"
    and "inj_on sha {stableStringify (JObj (stripRequestHash r)), stableStringify (JObj (stripRequestHash r'))}"
  shows "request_sound lib sha capabilities nowMs r \<and> r' = r"
proof -
  have sound: "request_sound lib sha capabilities nowMs r" "request_sound lib' sha capabilities' nowMs' r'"
    using assms(1,2) by (simp_all add: validateExecutionRequest_iff)
  have "xr_requestHash r = sha (stableStringify (JObj (stripRequestHash r)))"
    "xr_requestHash r' = sha (stableStringify (JObj (stripRequestHash r')))"
    using sound unfolding request_sound_def computeRequestHash_def by blast+
  with assms(3) have "sha (stableStringify (JObj (stripRequestHash r))) = sha (stableStringify (JObj (stripRequestHash r')))"
    by metis
  with assms(4) have "stableStringify (JObj (stripRequestHash r)) = stableStringify (JObj (stripRequestHash r'))"
    unfolding inj_on_def by blast
  then have "sort_members (JObj (stripRequestHash r)) = sort_members (JObj (stripRequestHash r'))"
    unfolding stableStringify_def stable_text_eq .
  then have "without_hash r = without_hash r'" by (rule stripRequestHash_inj)
  from with_its_hash [OF this assms(3)] sound(1) show ?thesis by blast
qed

definition zeros :: "string \<Rightarrow> string" where
  "zeros s = replicate 64 (CHR ''0'')"

definition any_date :: contract_lib where
  "any_date = \<lparr>cl_isoDatetime = (\<lambda>s. True), cl_getTime = (\<lambda>s. Finite 1), cl_firstIssue = (\<lambda>r. [])\<rparr>"

definition small_request :: execution_request where
  "small_request =
     \<lparr>xr_executionRequestId = ''req-1'', xr_runId = ''run'', xr_workerAttemptNumber = 1, xr_taskSpecVersionId = ''spec'',
      xr_contextSnapshotId = ''snap'', xr_expectedRepositoryRevision =
        \<lparr>rc_baseCommit = zeros [], rc_treeHash = zeros [], rc_workingTreePatchHash = None\<rparr>,
      xr_checkpointId = None, xr_requiredCapabilities = [''git''],
      xr_agentConfiguration = \<lparr>ag_provider = ''codex-cli'', ag_model = ''m''\<rparr>,
      xr_toolPolicy = \<lparr>tp_allowedTools = [''write_file''], tp_deniedPaths = [], tp_allowNetwork = False, tp_allowShell = True\<rparr>,
      xr_resourceBudget = \<lparr>rb_maxDurationMs = 1, rb_maxToolCalls = 1, rb_maxTokens = None, rb_maxCostCents = None, rb_maxDiskBytes = 1\<rparr>,
      xr_contextBundle = None, xr_expiresAt = ''d'', xr_requestHash = zeros []\<rparr>"

theorem validated_request_untampered_witness:
  "validateExecutionRequest any_date zeros [''git''] (Finite 0) small_request = Inr ()
   \<and> request_sound any_date zeros [''git''] (Finite 0) small_request"
proof -
  have v: "validateExecutionRequest any_date zeros [''git''] (Finite 0) small_request = Inr ()"
    unfolding validateExecutionRequest_iff request_sound_def
    by (simp add: executionRequestSchema_def executionRequestIdSchema_def repositoryRevisionSchema_def is_contentHash_def
        is_gitObjectHash_def small_request_def any_date_def zeros_def id_char_def hex_char_def computeRequestHash_def num_le_def
        list_all_iff)
  show ?thesis using validated_request_untampered [OF v v] v by simp
qed

end
