(* ===== verification/Worker_Laws.thy ===== *)
theory Worker_Laws
  imports Worker_Dispatch Request_Laws
begin

text \<open>
  The steps of a dispatch one by one: what each has found when the outcome is still a success,
  and which part of the state it leaves as it was.
\<close>

section \<open>Success\<close>

lemma outcome_ends_with [simp]: "pg_outcome (ends_with oc reason p) = oc"
  by (simp add: ends_with_def)

lemma cancel_succeeded:
  "pg_outcome (cancel_if_aborted env look p) = DO_SUCCEEDED \<longleftrightarrow> \<not> en_aborted env look \<and> pg_outcome p = DO_SUCCEEDED"
  by (simp add: cancel_if_aborted_def markCancelled_def)

lemma cancel_same: "\<not> en_aborted env look \<Longrightarrow> cancel_if_aborted env look p = p"
  by (simp add: cancel_if_aborted_def)

lemma agent_failed_outcome: "pg_outcome (agent_failed env e p) \<noteq> DO_SUCCEEDED"
  by (cases e) (auto simp: agent_failed_def Let_def ends_with_def split: option.split)

lemma run_agent_succeeded:
  assumes "pg_outcome (run_agent env p) = DO_SUCCEEDED"
  shows "\<exists>a. en_agent env = Inr a \<and> \<not> en_aborted env AgentReturned
     \<and> run_agent env p = p\<lparr>pg_agentSummary := Some (as_text a), pg_agentArtifacts := Some (as_artifacts a)\<rparr>"
  using assms unfolding run_agent_def cancel_succeeded
  by (cases "en_agent env") (simp_all add: agent_failed_outcome cancel_same)

text \<open>The worktree after the agent: at its commit, on no branch.\<close>

definition worktree_untouched :: "worker_config \<Rightarrow> worker_env \<Rightarrow> string \<Rightarrow> bool" where
  "worktree_untouched cfg env baseCommit \<longleftrightarrow>
     (\<exists>head branch. runGitCommand cfg env WorktreeHead [''rev-parse'', ''HEAD''] = Inr head
        \<and> exited_zero head \<and> trim_text (cr_stdout head) = baseCommit
        \<and> runGitCommand cfg env WorktreeBranch [''symbolic-ref'', ''--quiet'', ''HEAD''] = Inr branch
        \<and> (exited_zero branch \<longrightarrow> trim_text (cr_stdout branch) = []))"

lemma verifyWorktree_none:
  assumes "verifyWorktreeRepositoryState cfg env baseCommit s = (Inr None, t)"
  shows "worktree_untouched cfg env baseCommit \<and> t = s"
  using assms unfolding verifyWorktreeRepositoryState_def worktree_untouched_def
  by (auto simp: work_ok split: if_splits)

lemma guard_state_succeeded:
  assumes "guard_state cfg env baseCommit p s = (Inr (skip, q), t)" and "pg_outcome q = DO_SUCCEEDED"
  shows "worktree_untouched cfg env baseCommit \<and> \<not> skip \<and> q = p \<and> t = s"
  using assms unfolding guard_state_def
  by (auto simp: work_ok dest: verifyWorktree_none split: if_splits option.splits)

definition git_ok :: "worker_config \<Rightarrow> worker_env \<Rightarrow> git_point \<Rightarrow> string list \<Rightarrow> bool" where
  "git_ok cfg env point argv \<longleftrightarrow> (\<exists>r. runGitCommand cfg env point argv = Inr r \<and> exited_zero r)"

lemma stage_all_succeeded:
  assumes "stage_all cfg env (False, p) s = (Inr (skip, q), t)" and "pg_outcome q = DO_SUCCEEDED"
  shows "git_ok cfg env StageAll [''add'', ''-A''] \<and> \<not> skip \<and> q = p \<and> t = s"
  using assms unfolding stage_all_def git_ok_def by (auto simp: work_ok split: if_splits)

text \<open>The verification commands from the \<open>n\<close>-th on, run to their end one after the other.\<close>

fun verified_by :: "worker_config \<Rightarrow> worker_env \<Rightarrow> int \<Rightarrow> nat \<Rightarrow> string list list \<Rightarrow> (string list \<times> command_result) list \<Rightarrow> bool" where
  "verified_by cfg env limit n [] rs \<longleftrightarrow> rs = []"
| "verified_by cfg env limit n (argv # rest) rs \<longleftrightarrow>
     (\<exists>r rs'. rs = (argv, r) # rs' \<and> \<not> en_aborted env (VerificationBegins n) \<and> en_elapsed env n < limit
        \<and> runCommand cfg env (RunVerification n) argv = Inr r \<and> \<not> cr_timedOut r
        \<and> verified_by cfg env limit (Suc n) rest rs')"

lemma run_verifications_outcome:
  "run_verifications cfg env limit n argvs p s = (Inr q, t) \<Longrightarrow> pg_outcome q = DO_SUCCEEDED \<Longrightarrow> pg_outcome p = DO_SUCCEEDED"
proof (induction argvs arbitrary: n p s)
  case (Cons argv rest)
  from Cons.prems show ?case
    by (auto simp: work_ok Let_def markCancelled_def push_result_def dest!: Cons.IH split: if_splits)
qed (simp add: work_ok)

lemma push_result_more:
  "push_result argv r p\<lparr>pg_verificationResults := pg_verificationResults (push_result argv r p) @ rs\<rparr>
     = p\<lparr>pg_verificationResults := pg_verificationResults p @ (argv, r) # rs\<rparr>"
  by (simp add: push_result_def)

lemma run_verifications_succeeded:
  "run_verifications cfg env limit n argvs p s = (Inr q, t) \<Longrightarrow> pg_outcome q = DO_SUCCEEDED \<Longrightarrow>
     \<exists>rs. verified_by cfg env limit n argvs rs \<and> q = p\<lparr>pg_verificationResults := pg_verificationResults p @ rs\<rparr> \<and> t = s"
proof (induction argvs arbitrary: n p s)
  case Nil
  then show ?case by (simp add: work_ok)
next
  case (Cons argv rest)
  from Cons.prems obtain r where r: "\<not> en_aborted env (VerificationBegins n)" "en_elapsed env n < limit"
    "runCommand cfg env (RunVerification n) argv = Inr r"
    and rest: "run_verifications cfg env limit (Suc n) rest
      (if cr_timedOut r then ends_with DO_PARTIAL ''verification command timed out'' (push_result argv r p)
       else push_result argv r p) s = (Inr q, t)"
    by (auto simp: work_ok markCancelled_def Let_def split: if_splits)
  have "\<not> cr_timedOut r" using run_verifications_outcome [OF rest Cons.prems(2)] by (auto split: if_splits)
  with Cons.IH [OF rest Cons.prems(2)] obtain rs where "verified_by cfg env limit (Suc n) rest rs"
    "q = push_result argv r p\<lparr>pg_verificationResults := pg_verificationResults (push_result argv r p) @ rs\<rparr>" "t = s"
    by auto
  with r \<open>\<not> cr_timedOut r\<close> show ?case unfolding push_result_more by auto
qed

lemma check_staged_succeeded:
  assumes "check_staged cfg env limit False p s = (Inr q, t)" and "pg_outcome q = DO_SUCCEEDED"
  shows "\<exists>check rs. runGitCommand cfg env CheckStaged [''diff'', ''--cached'', ''--check''] = Inr check \<and> exited_zero check
     \<and> verified_by cfg env limit 0 (wc_verificationCommands cfg) rs \<and> \<not> en_aborted env VerificationsOver
     \<and> q = p\<lparr>pg_verificationResults := pg_verificationResults p @ ([''git'', ''diff'', ''--cached'', ''--check''], check) # rs\<rparr> \<and> t = s"
proof (cases "pg_outcome p = DO_CANCELLED")
  case True
  with assms show ?thesis by (simp add: check_staged_def work_ok)
next
  case False
  let ?argv = "[''git'', ''diff'', ''--cached'', ''--check'']"
  from assms(1) False obtain check q' where check: "runGitCommand cfg env CheckStaged [''diff'', ''--cached'', ''--check''] = Inr check"
    and verified: "run_verifications cfg env limit 0 (wc_verificationCommands cfg)
      (if \<not> exited_zero check then ends_with DO_PARTIAL ''git diff --cached --check failed'' (push_result ?argv check p)
       else push_result ?argv check p) s = (Inr q', t)" and q: "q = cancel_if_aborted env VerificationsOver q'"
    by (auto simp: check_staged_def work_ok Let_def)
  have good: "\<not> en_aborted env VerificationsOver" "pg_outcome q' = DO_SUCCEEDED" using assms(2) unfolding q cancel_succeeded by simp_all
  have "exited_zero check" using run_verifications_outcome [OF verified good(2)] by (auto split: if_splits)
  with run_verifications_succeeded [OF verified good(2)] obtain rs where
    "verified_by cfg env limit 0 (wc_verificationCommands cfg) rs"
    "q' = push_result ?argv check p\<lparr>pg_verificationResults := pg_verificationResults (push_result ?argv check p) @ rs\<rparr>" "t = s"
    by auto
  with check good \<open>exited_zero check\<close> show ?thesis unfolding push_result_more q cancel_same [OF good(1)] by auto
qed

lemma check_staged_outcome:
  "check_staged cfg env limit skip p s = (Inr q, t) \<Longrightarrow> pg_outcome q = DO_SUCCEEDED \<Longrightarrow> pg_outcome p = DO_SUCCEEDED"
  using check_staged_succeeded [of cfg env limit p s q t] by (cases skip) (auto simp: check_staged_def work_ok)

text \<open>What a process has printed to its output before the event that settles, chunk by chunk.\<close>

fun printed :: "process_event list \<Rightarrow> string list" where
  "printed (OutData chunk # events) = chunk # printed events"
| "printed (ErrData chunk # events) = printed events"
| "printed events = []"

text \<open>
  The output of a result is all that was printed, unless it is marked as truncated: then it is the
  first chunks and no more, or a first part of the chunk that goes beyond the limit.
\<close>

definition kept_of :: "int \<Rightarrow> string list \<Rightarrow> command_result \<Rightarrow> bool" where
  "kept_of limit chunks r \<longleftrightarrow>
     (if \<not> cr_outputTruncated r then cr_stdout r = concat chunks
      else \<exists>ts rest. chunks = ts @ rest \<and>
        (cr_stdout r = concat ts
         \<or> (\<exists>t rest'. rest = t # rest' \<and> text_units (concat ts) + text_units t > limit
              \<and> cr_stdout r = concat ts @ take_units (nat (max 0 (limit - text_units (concat ts)))) (utf8_chars t))))"

lemma child_result_truncated:
  "child_result limit child out err True events = Inr r \<Longrightarrow> cr_outputTruncated r \<and> cr_stdout r = out"
  by (induction events rule: printed.induct) (auto simp: settled_result_def split: if_splits)

lemma child_result_kept:
  "child_result limit child (concat ts) err False events = Inr r \<Longrightarrow> kept_of limit (ts @ printed events) r"
proof (induction events arbitrary: ts err)
  case Nil
  then show ?case by (auto simp: kept_of_def settled_result_def)
next
  case (Cons e events)
  show ?case
  proof (cases e)
    case (OutData chunk)
    show ?thesis
    proof (cases "text_units (concat ts) + text_units chunk > limit")
      case True
      with Cons.prems OutData have "cr_outputTruncated r"
        "cr_stdout r = concat ts @ take_units (nat (max 0 (limit - text_units (concat ts)))) (utf8_chars chunk)"
        by (auto simp: captured_def Let_def dest!: child_result_truncated)
      with True OutData show ?thesis unfolding kept_of_def
        by simp (intro exI [of _ ts] exI [of _ "chunk # printed events"], auto)
    next
      case False
      with Cons.prems OutData have "child_result limit child (concat (ts @ [chunk])) err False events = Inr r"
        by (simp add: captured_def Let_def)
      from Cons.IH [OF this] OutData show ?thesis by simp
    qed
  next
    case (ErrData chunk)
    show ?thesis
    proof (cases "text_units err + text_units chunk > limit")
      case True
      with Cons.prems ErrData have "cr_outputTruncated r" "cr_stdout r = concat ts"
        by (auto simp: captured_def Let_def dest!: child_result_truncated)
      then show ?thesis unfolding kept_of_def by simp (intro exI [of _ ts] exI [of _ "printed (e # events)"], simp)
    next
      case False
      with Cons.prems ErrData have "child_result limit child (concat ts) (err @ chunk) False events = Inr r"
        by (simp add: captured_def Let_def)
      from Cons.IH [OF this] ErrData show ?thesis by simp
    qed
  qed (use Cons.prems in \<open>auto simp: kept_of_def settled_result_def split: if_splits\<close>)
qed

lemma runGitCommand_kept:
  assumes "runGitCommand cfg env point argv = Inr r"
  shows "kept_of (wc_maxOutputBytes cfg) (printed (cp_events (en_spawn env point (''git'' # argv)))) r"
  using assms child_result_kept [of "wc_maxOutputBytes cfg" "en_spawn env point (''git'' # argv)" "[]"]
  by (auto simp: runGitCommand_def runCommand_def Let_def split: if_splits)

text \<open>
  The patch of a result, and its digest: what git printed up to the limit of the worker, of a diff
  that exited with zero.
\<close>

definition patch_of :: "worker_config \<Rightarrow> worker_env \<Rightarrow> string \<Rightarrow> bool" where
  "patch_of cfg env patch \<longleftrightarrow>
     (\<exists>r. runGitCommand cfg env ExportDiff [''diff'', ''--cached'', ''HEAD''] = Inr r \<and> exited_zero r \<and> cr_stdout r = patch
        \<and> kept_of (wc_maxOutputBytes cfg)
            (printed (cp_events (en_spawn env ExportDiff [''git'', ''diff'', ''--cached'', ''HEAD'']))) r)"

definition patch_digest :: "worker_env \<Rightarrow> string \<Rightarrow> string option" where
  "patch_digest env patch = (if patch \<noteq> [] then Some (en_sha256Hex env patch) else None)"

lemma exportWorktreePatch_ok:
  "exportWorktreePatch cfg env s = (Inr patch, t) \<longleftrightarrow> patch_of cfg env patch \<and> t = s"
  using runGitCommand_kept [of cfg env ExportDiff "[''diff'', ''--cached'', ''HEAD'']"]
  unfolding exportWorktreePatch_def patch_of_def by (auto simp: work_ok)

lemma exportWorktreePatch_state: "exportWorktreePatch cfg env s = (x, t) \<Longrightarrow> t = s"
  by (auto simp: exportWorktreePatch_def await_def answer_with_def reject_def done_with_def split: sum.splits if_splits)

lemma export_patch_pure:
  assumes "pg_outcome p \<noteq> DO_CANCELLED"
  obtains e where "export_patch cfg env False p s = (Inr (ends_with DO_PARTIAL e p), s)"
  | patch where "patch_of cfg env patch"
      "export_patch cfg env False p s =
         (Inr (let p' = p\<lparr>pg_patch := Some patch, pg_patchHash := patch_digest env patch\<rparr> in
            if patch = [] \<and> summaryClaimsChanges env (pg_agentSummary p)
            then ends_with DO_PARTIAL ''agent claimed changes but produced an empty patch'' p' else p'), s)"
proof -
  obtain x where x: "exportWorktreePatch cfg env s = (x, s)"
    using exportWorktreePatch_state by (cases "exportWorktreePatch cfg env s") blast
  show thesis
  proof (cases x)
    case (Inl e)
    with x assms that(1) [of "''patch export failed: '' @ e"] show ?thesis
      by (simp add: export_patch_def await_def attempt_def done_with_def)
  next
    case (Inr patch)
    with x have "patch_of cfg env patch" using exportWorktreePatch_ok by blast
    then show ?thesis
      by (rule that(2)) (simp add: export_patch_def await_def attempt_def done_with_def Let_def patch_digest_def x Inr assms)
  qed
qed

lemma export_patch_succeeded:
  assumes "export_patch cfg env False p s = (Inr q, t)" and "pg_outcome q = DO_SUCCEEDED"
  shows "\<exists>patch. patch_of cfg env patch \<and> (patch = [] \<longrightarrow> \<not> summaryClaimsChanges env (pg_agentSummary p))
     \<and> q = p\<lparr>pg_patch := Some patch, pg_patchHash := patch_digest env patch\<rparr> \<and> t = s"
proof (cases "pg_outcome p = DO_CANCELLED")
  case True
  with assms show ?thesis by (simp add: export_patch_def work_ok)
next
  case False
  from export_patch_pure [OF this, of cfg env s] show ?thesis
  proof cases
    case (1 e)
    with assms show ?thesis by auto
  next
    case (2 patch)
    with assms show ?thesis by (auto simp: Let_def split: if_splits)
  qed
qed

lemma export_patch_outcome:
  "export_patch cfg env skip p s = (Inr q, t) \<Longrightarrow> pg_outcome q = DO_SUCCEEDED \<Longrightarrow> pg_outcome p = DO_SUCCEEDED"
proof (cases skip)
  case False
  assume a: "export_patch cfg env skip p s = (Inr q, t)" "pg_outcome q = DO_SUCCEEDED"
  with False have a': "export_patch cfg env False p s = (Inr q, t)" by simp
  from export_patch_succeeded [OF this a(2)] obtain patch
    where "q = p\<lparr>pg_patch := Some patch, pg_patchHash := patch_digest env patch\<rparr>" by blast
  with a(2) show ?thesis by simp
qed (simp add: export_patch_def work_ok)

text \<open>Before the agent: the repository is where the request expects it, with nothing uncommitted in sight.\<close>

definition repository_at :: "worker_config \<Rightarrow> worker_env \<Rightarrow> revision_contract \<Rightarrow> bool" where
  "repository_at cfg env expected \<longleftrightarrow>
     (\<exists>h tree d u. runGitCommand cfg env RevParseHead [''rev-parse'', ''HEAD''] = Inr h
        \<and> runGitCommand cfg env RevParseTree [''rev-parse'', ''HEAD^{tree}''] = Inr tree
        \<and> runGitCommand cfg env DiffHead [''diff'', ''HEAD''] = Inr d
        \<and> runGitCommand cfg env ListUntracked [''ls-files'', ''--others'', ''--exclude-standard''] = Inr u
        \<and> output_or_null h = Some (rc_baseCommit expected) \<and> output_or_null tree = Some (rc_treeHash expected)
        \<and> (cr_stdout d = [] \<and> cr_stdout u = [] \<longleftrightarrow> rc_workingTreePatchHash expected = None)
        \<and> (rc_workingTreePatchHash expected \<noteq> None
             \<longrightarrow> rc_workingTreePatchHash expected = Some (en_sha256Hex env (cr_stdout d @ cr_stdout u))))"

lemma revision_mismatch_None:
  "revision_mismatch expected actual = None \<longleftrightarrow>
     av_baseCommit actual = Some (rc_baseCommit expected) \<and> av_treeHash actual = Some (rc_treeHash expected)
     \<and> av_workingTreePatchHash actual = rc_workingTreePatchHash expected"
  by (simp add: revision_mismatch_def)

lemma readRepositoryRevision_state: "readRepositoryRevision cfg env s = (x, t) \<Longrightarrow> t = s"
  by (auto simp: readRepositoryRevision_def await_def answer_with_def done_with_def Let_def split: sum.splits)

lemma readRepositoryRevision_at:
  assumes "readRepositoryRevision cfg env s = (Inr actual, t)" and "revision_mismatch expected actual = None"
  shows "repository_at cfg env expected"
  using assms unfolding readRepositoryRevision_def revision_mismatch_None repository_at_def
  by (auto simp: work_ok Let_def split: if_splits)

lemma check_revision_pure:
  obtains x where "readRepositoryRevision cfg env s = (x, s)"
    "check_revision cfg env request s = (Inr (case x of
         Inl e \<Rightarrow> Some (if en_aborted env RevisionFailed then plain_result DO_CANCELLED True (Some AGENT_CANCELLED)
                       else plain_result DO_PARTIAL True (Some (''revision verification failed: '' @ e)))
       | Inr actual \<Rightarrow>
           (case revision_mismatch (xr_expectedRepositoryRevision request) actual of
              None \<Rightarrow> None
            | Some detail \<Rightarrow> Some (if en_aborted env RevisionFailed then plain_result DO_CANCELLED True (Some AGENT_CANCELLED)
                       else (plain_result REVISION_MISMATCH True None)\<lparr>dr_revisionMismatch := Some detail\<rparr>))), s)"
proof -
  obtain x where x: "readRepositoryRevision cfg env s = (x, s)"
    using readRepositoryRevision_state by (cases "readRepositoryRevision cfg env s") blast
  show thesis by (rule that [OF x]) (simp add: check_revision_def await_def attempt_def done_with_def x)
qed

lemma check_revision_none:
  assumes "check_revision cfg env request s = (Inr None, t)"
  shows "repository_at cfg env (xr_expectedRepositoryRevision request) \<and> t = s"
  by (rule check_revision_pure [of cfg env s request])
    (use assms in \<open>auto dest: readRepositoryRevision_at split: sum.splits option.splits\<close>)

lemma plain_result_fields [simp]:
  "dr_outcome (plain_result oc granted reason) = oc" "dr_claimGranted (plain_result oc granted reason) = granted"
  "dr_rejectionReason (plain_result oc granted reason) = reason"
  by (simp_all add: plain_result_def)

lemma check_revision_some:
  assumes "check_revision cfg env request s = (Inr (Some r), t)"
  shows "dr_outcome r \<noteq> DO_SUCCEEDED \<and> dr_claimGranted r \<and> t = s
     \<and> (en_aborted env RevisionFailed \<longrightarrow> dr_outcome r = DO_CANCELLED \<and> dr_rejectionReason r = Some AGENT_CANCELLED)"
  by (rule check_revision_pure [of cfg env s request])
    (use assms in \<open>auto split: sum.splits option.splits if_splits\<close>)

text \<open>The files a dispatch hands over: their descriptors are those of what was written.\<close>

definition described :: "worker_env \<Rightarrow> artifact_kind \<times> string \<times> string \<Rightarrow> artifact_descriptor" where
  "described env f = (case f of (kind, name, content) \<Rightarrow>
     \<lparr>ad_kind = kind, ad_fileName = name, ad_contentHash = en_sha256Hex env content, ad_sizeBytes = int (length content)\<rparr>)"

text \<open>The files once they were written one after the other: of files with one name the last one is left.\<close>

definition with_files :: "string \<Rightarrow> (artifact_kind \<times> string \<times> string) list \<Rightarrow> ((string \<times> string) \<times> string) list \<Rightarrow>
    ((string \<times> string) \<times> string) list" where
  "with_files i files = fold (\<lambda>(kind, name, content). AList.update (i, name) content) files"

lemma with_files_content:
  "map_of (with_files i files m) (i, name) =
     (case map_of (rev (map snd files)) name of None \<Rightarrow> map_of m (i, name) | Some content \<Rightarrow> Some content)"
  by (induction files arbitrary: m) (auto simp: with_files_def map_add_def update_conv' split: option.split)

lemma with_files_other: "j \<noteq> i \<Longrightarrow> map_of (with_files i files m) (j, name) = map_of m (j, name)"
  by (induction files arbitrary: m) (auto simp: with_files_def update_conv')

lemma persist_all_ok:
  "persist_all env i files s = (Inr ds, t) \<Longrightarrow>
     ds = map (described env) files \<and> t = s\<lparr>wk_artifacts := with_files i files (wk_artifacts s)\<rparr>"
proof (induction files arbitrary: s ds)
  case (Cons f rest)
  obtain kind name content where f: "f = (kind, name, content)" by (cases f)
  let ?s = "s\<lparr>wk_artifacts := AList.update (i, name) content (wk_artifacts s)\<rparr>"
  from Cons.prems obtain ds' where "persist_all env i rest ?s = (Inr ds', t)" "ds = described env f # ds'"
    by (auto simp: f work_ok persistArtifact_def file_operation_def described_def split: option.splits)
  with Cons.IH [of ?s ds'] show ?case by (simp add: f with_files_def)
qed (simp add: work_ok with_files_def)

lemma write_artifacts_ok:
  assumes "write_artifacts env i files s = (Inr ds, t)"
  shows "ds = map (described env) files \<and> t = s\<lparr>wk_artifacts := with_files i files (wk_artifacts s)\<rparr>"
  using assms persist_all_ok [of env i files s ds t] by (auto simp: write_artifacts_def work_ok file_operation_def split: option.splits)

section \<open>What the steps leave as it was\<close>

definition leaves :: "('s \<Rightarrow> 's \<Rightarrow> bool) \<Rightarrow> ('s, 'a) work \<Rightarrow> bool" where
  "leaves R m \<longleftrightarrow> (\<forall>s. R s (snd (m s)))"

lemma leavesD: "leaves R m \<Longrightarrow> m s = (x, t) \<Longrightarrow> R s t"
  unfolding leaves_def by (metis snd_conv)

text \<open>A relation between states that holds over every sequence of steps if it holds over each.\<close>

locale kept =
  fixes R :: "worker_state \<Rightarrow> worker_state \<Rightarrow> bool"
  assumes kept_refl: "R s s"
    and kept_trans: "R s t \<Longrightarrow> R t u \<Longrightarrow> R s u"
begin

lemma leaves_done: "leaves R (done_with x)"
  by (simp add: leaves_def done_with_def kept_refl)

lemma leaves_reject: "leaves R (reject e)"
  by (simp add: leaves_def reject_def kept_refl)

lemma leaves_answer: "leaves R (answer_with a)"
  by (simp add: leaves_def answer_with_def kept_refl)

lemma leaves_attempt: "leaves R m \<Longrightarrow> leaves R (attempt m)"
  by (simp add: leaves_def attempt_def Let_def split_def)

lemma leaves_await:
  assumes "leaves R m" and "\<And>x. leaves R (f x)"
  shows "leaves R (await m f)"
  unfolding leaves_def
proof
  fix s
  obtain x t where "m s = (x, t)" by (cases "m s")
  with assms show "R s (snd (await m f s))"
    by (cases x) (auto simp: leaves_def await_def intro: kept_trans dest: spec [of _ s])
qed

lemmas leaves_rules = leaves_done leaves_reject leaves_answer leaves_attempt leaves_await

lemma leaves_verifications: "leaves R (run_verifications cfg env limit n argvs p)"
  by (induction argvs arbitrary: n p) (auto simp: Let_def intro!: leaves_rules)

lemma leaves_guard: "leaves R (guard_state cfg env baseCommit p)"
  by (auto simp: guard_state_def verifyWorktreeRepositoryState_def intro!: leaves_rules split: option.split)

lemma leaves_stage: "leaves R (stage_all cfg env g)"
  by (auto simp: stage_all_def split_def Let_def intro!: leaves_rules)

lemma leaves_check: "leaves R (check_staged cfg env limit skip p)"
  by (auto simp: check_staged_def Let_def intro!: leaves_rules leaves_verifications)

lemma leaves_export: "leaves R (export_patch cfg env skip p)"
  by (auto simp: export_patch_def exportWorktreePatch_def Let_def intro!: leaves_rules split: sum.split)

lemma leaves_check_revision: "leaves R (check_revision cfg env request)"
  by (auto simp: check_revision_def readRepositoryRevision_def Let_def intro!: leaves_rules)

end

interpretation same: kept "(=)"
  by unfold_locales auto

interpretation same_claims: kept "\<lambda>s t. wk_claims t = wk_claims s"
  by unfold_locales auto

lemma same_claims_file:
  "(\<And>s. wk_claims (f s) = wk_claims s) \<Longrightarrow> leaves (\<lambda>s t. wk_claims t = wk_claims s) (file_operation env point f)"
  by (simp add: leaves_def file_operation_def split: option.split)

lemma same_claims_persist: "leaves (\<lambda>s t. wk_claims t = wk_claims s) (persist_all env i files)"
  by (induction files) (auto simp: persistArtifact_def intro!: same_claims.leaves_rules same_claims_file)

lemma same_claims_remove: "leaves (\<lambda>s t. wk_claims t = wk_claims s) (removeWorktree cfg env point path)"
  unfolding removeWorktree_def by (intro same_claims.leaves_rules) (simp add: leaves_def)

lemma same_claims_make: "leaves (\<lambda>s t. wk_claims t = wk_claims s) (make_worktree cfg env request)"
  by (auto simp: make_worktree_def createIsolatedWorktree_def Let_def
      intro!: same_claims.leaves_rules same_claims_remove same_claims_file split: sum.split) (simp add: leaves_def left_behind_def split: sum.split)

lemma same_claims_finish: "leaves (\<lambda>s t. wk_claims t = wk_claims s) (finish_dispatch cfg env i p)"
  by (auto simp: finish_dispatch_def clean_up_def writeRecovery_def removeRecovery_def write_artifacts_def
      intro!: same_claims.leaves_rules same_claims_remove same_claims_file same_claims_persist)

lemma same_claims_execute: "leaves (\<lambda>s t. wk_claims t = wk_claims s) (execute cfg env request)"
  by (auto simp: execute_def Let_def writeRecovery_def
      intro!: same_claims.leaves_rules same_claims.leaves_guard same_claims.leaves_stage same_claims.leaves_check
        same_claims.leaves_export same_claims_finish same_claims_file split: prod.split)

section \<open>What success stands for\<close>

lemma finish_succeeded:
  assumes "finish_dispatch cfg env i p s = (Inr r, t)" and "dr_outcome r = DO_SUCCEEDED"
  shows "\<exists>cleaned. r = final_result cfg env i p cleaned (map (described env) (success_artifacts p))
     \<and> pg_outcome p = DO_SUCCEEDED
     \<and> wk_artifacts t = with_files i (success_artifacts p) (wk_artifacts s)"
proof -
  from assms(1) obtain cleaned s1 s2 arts v
    where clean: "clean_up cfg env i s = (Inr cleaned, s1)"
      and rec: "(if pg_outcome p \<noteq> DO_SUCCEEDED
            then await (writeRecovery env WriteInterrupted (recovery_record cfg env i (Some InterruptedFileTime) cleaned))
                   (\<lambda>_. done_with ())
            else removeRecovery env i) s1 = (Inr v, s2)"
      and arts: "write_artifacts env i (if pg_outcome p \<noteq> DO_SUCCEEDED then partial_artifacts env p else success_artifacts p) s2 = (Inr arts, t)"
      and r: "r = final_result cfg env i p cleaned arts"
    unfolding finish_dispatch_def await_ok done_with_ok by blast
  have ok: "pg_outcome p = DO_SUCCEEDED" using assms(2) by (simp add: r final_result_def)
  have "wk_artifacts s1 = wk_artifacts s" using clean
    by (auto simp: clean_up_def removeWorktree_def await_def attempt_def answer_with_def done_with_def split: sum.splits prod.splits if_splits)
  moreover have "wk_artifacts s2 = wk_artifacts s1" using rec ok
    by (auto simp: removeRecovery_def file_operation_def split: option.splits)
  ultimately show ?thesis using write_artifacts_ok [OF arts] ok r by auto
qed

text \<open>The state once the recovery file of a running request is written.\<close>

definition noted :: "worker_config \<Rightarrow> worker_env \<Rightarrow> string \<Rightarrow> worker_state \<Rightarrow> worker_state" where
  "noted cfg env i s = s\<lparr>wk_recovery := AList.update i (recovery_record cfg env i None False) (wk_recovery s)\<rparr>"

lemma noted_fields [simp]:
  "wk_artifacts (noted cfg env i s) = wk_artifacts s" "wk_worktrees (noted cfg env i s) = wk_worktrees s"
  "wk_recovery (noted cfg env i s) = AList.update i (recovery_record cfg env i None False) (wk_recovery s)"
  by (simp_all add: noted_def)

lemma execute_steps:
  assumes "execute cfg env request s = (Inr r, t)"
  obtains s1 skip p skip' p' q q' where
    "s1 = noted cfg env (xr_executionRequestId request) s"
    "guard_state cfg env (rc_baseCommit (xr_expectedRepositoryRevision request)) (run_agent env no_progress) s1 = (Inr (skip, p), s1)"
    "stage_all cfg env (skip, p) s1 = (Inr (skip', p'), s1)"
    "check_staged cfg env (rb_maxDurationMs (xr_resourceBudget request)) skip' p' s1 = (Inr q, s1)"
    "export_patch cfg env skip' q s1 = (Inr q', s1)"
    "finish_dispatch cfg env (xr_executionRequestId request) (cancel_if_aborted env PatchExported q') s1 = (Inr r, t)"
proof -
  let ?i = "xr_executionRequestId request"
  from assms obtain m s1 skip p s2 skip' p' s3 q s4 q' s5 where
    w: "writeRecovery env WriteRunning (recovery_record cfg env ?i None False) s = (Inr m, s1)"
    and g: "guard_state cfg env (rc_baseCommit (xr_expectedRepositoryRevision request)) (run_agent env no_progress) s1 = (Inr (skip, p), s2)"
    and st: "stage_all cfg env (skip, p) s2 = (Inr (skip', p'), s3)"
    and ch: "check_staged cfg env (rb_maxDurationMs (xr_resourceBudget request)) skip' p' s3 = (Inr q, s4)"
    and ex: "export_patch cfg env skip' q s4 = (Inr q', s5)"
    and fi: "finish_dispatch cfg env ?i (cancel_if_aborted env PatchExported q') s5 = (Inr r, t)"
    unfolding execute_def Let_def await_ok by (auto simp only: await_ok split_paired_Ex prod.case)
  have "s1 = s2" "s2 = s3" "s3 = s4" "s4 = s5"
    using leavesD [OF same.leaves_guard g] leavesD [OF same.leaves_stage st] leavesD [OF same.leaves_check ch]
      leavesD [OF same.leaves_export ex] by simp_all
  moreover have "s1 = noted cfg env ?i s"
    using w by (auto simp: noted_def writeRecovery_def work_ok file_operation_def recovery_record_def split: option.splits)
  ultimately show thesis using that g st ch ex fi by simp
qed

text \<open>What a successful dispatch hands over.\<close>

definition handed_over :: "agent_summary \<Rightarrow> (string list \<times> command_result) list \<Rightarrow> string \<Rightarrow> (artifact_kind \<times> string \<times> string) list" where
  "handed_over a results patch =
     [(PATCH, ''patch.diff'', patch), (TEST_RESULT, ''verification.json'', pretty 0 (JArr (map result_json results))),
      (AGENT_SUMMARY, ''agent-summary.txt'', as_text a)]
     @ map (\<lambda>x. (AGENT_SUMMARY, aa_fileName x, aa_content x)) (as_artifacts a)"

definition integrity_check :: "string list" where
  "integrity_check = [''git'', ''diff'', ''--cached'', ''--check'']"

lemma steps_succeeded:
  assumes g: "guard_state cfg env baseCommit (run_agent env no_progress) s = (Inr (skip, p), s)"
    and st: "stage_all cfg env (skip, p) s = (Inr (skip', p'), s)"
    and ch: "check_staged cfg env limit skip' p' s = (Inr q, s)"
    and ex: "export_patch cfg env skip' q s = (Inr q', s)"
    and q': "pg_outcome q' = DO_SUCCEEDED"
  shows "worktree_untouched cfg env baseCommit \<and> git_ok cfg env StageAll [''add'', ''-A'']
    \<and> \<not> en_aborted env AgentReturned \<and> \<not> en_aborted env VerificationsOver
    \<and> (\<exists>a check rs patch. en_agent env = Inr a
         \<and> runGitCommand cfg env CheckStaged [''diff'', ''--cached'', ''--check''] = Inr check \<and> exited_zero check
         \<and> verified_by cfg env limit 0 (wc_verificationCommands cfg) rs
         \<and> patch_of cfg env patch \<and> (patch = [] \<longrightarrow> \<not> summaryClaimsChanges env (Some (as_text a)))
         \<and> q' = no_progress\<lparr>pg_agentSummary := Some (as_text a), pg_agentArtifacts := Some (as_artifacts a),
              pg_verificationResults := (integrity_check, check) # rs, pg_patch := Some patch, pg_patchHash := patch_digest env patch\<rparr>)"
proof -
  have q: "pg_outcome q = DO_SUCCEEDED" by (rule export_patch_outcome [OF ex q'])
  have p': "pg_outcome p' = DO_SUCCEEDED" by (rule check_staged_outcome [OF ch q])
  have p: "pg_outcome p = DO_SUCCEEDED" using st p' by (auto simp: stage_all_def work_ok split: if_splits)
  from guard_state_succeeded [OF g p] have untouched: "worktree_untouched cfg env baseCommit"
    and "\<not> skip" and p_eq: "p = run_agent env no_progress" by blast+
  with st have "stage_all cfg env (False, p) s = (Inr (skip', p'), s)" by simp
  from stage_all_succeeded [OF this p'] have staged: "git_ok cfg env StageAll [''add'', ''-A'']"
    and "\<not> skip'" and p'_eq: "p' = p" by blast+
  with ch ex have ch': "check_staged cfg env limit False p s = (Inr q, s)"
    and ex': "export_patch cfg env False q s = (Inr q', s)" by simp_all
  from run_agent_succeeded [of env no_progress] p p_eq obtain a where a: "en_agent env = Inr a" "\<not> en_aborted env AgentReturned"
    "p = no_progress\<lparr>pg_agentSummary := Some (as_text a), pg_agentArtifacts := Some (as_artifacts a)\<rparr>" by auto
  from check_staged_succeeded [OF ch' q] obtain check rs where check:
    "runGitCommand cfg env CheckStaged [''diff'', ''--cached'', ''--check''] = Inr check" "exited_zero check"
    "verified_by cfg env limit 0 (wc_verificationCommands cfg) rs" "\<not> en_aborted env VerificationsOver"
    "q = p\<lparr>pg_verificationResults := pg_verificationResults p @ (integrity_check, check) # rs\<rparr>"
    unfolding integrity_check_def by blast
  from export_patch_succeeded [OF ex' q'] obtain patch where patch: "patch_of cfg env patch"
    "patch = [] \<longrightarrow> \<not> summaryClaimsChanges env (pg_agentSummary q)"
    "q' = q\<lparr>pg_patch := Some patch, pg_patchHash := patch_digest env patch\<rparr>" by blast
  have "pg_agentSummary q = Some (as_text a)" by (simp add: check(5) a(3))
  moreover have "q' = no_progress\<lparr>pg_agentSummary := Some (as_text a), pg_agentArtifacts := Some (as_artifacts a),
      pg_verificationResults := (integrity_check, check) # rs, pg_patch := Some patch, pg_patchHash := patch_digest env patch\<rparr>"
    by (simp add: patch(3) check(5) a(3) no_progress_def)
  ultimately show ?thesis using untouched staged a(1,2) check(1-4) patch(1,2) by auto
qed

text \<open>Everything that was looked at after the worktree was made is in order.\<close>

definition checks_passed :: "worker_config \<Rightarrow> worker_env \<Rightarrow> execution_request \<Rightarrow> bool" where
  "checks_passed cfg env request \<longleftrightarrow>
     worktree_untouched cfg env (rc_baseCommit (xr_expectedRepositoryRevision request)) \<and> git_ok cfg env StageAll [''add'', ''-A'']
     \<and> \<not> en_aborted env AgentReturned \<and> \<not> en_aborted env VerificationsOver \<and> \<not> en_aborted env PatchExported
     \<and> git_ok cfg env CheckStaged [''diff'', ''--cached'', ''--check'']
     \<and> (\<exists>rs. verified_by cfg env (rb_maxDurationMs (xr_resourceBudget request)) 0 (wc_verificationCommands cfg) rs)
     \<and> (\<exists>a patch. en_agent env = Inr a \<and> patch_of cfg env patch
          \<and> (patch = [] \<longrightarrow> \<not> summaryClaimsChanges env (Some (as_text a))))"

lemma execute_succeeded:
  assumes "execute cfg env request s = (Inr r, t)" and "dr_outcome r = DO_SUCCEEDED"
  shows "worktree_untouched cfg env (rc_baseCommit (xr_expectedRepositoryRevision request)) \<and> git_ok cfg env StageAll [''add'', ''-A'']
    \<and> \<not> en_aborted env AgentReturned \<and> \<not> en_aborted env VerificationsOver \<and> \<not> en_aborted env PatchExported
    \<and> (\<exists>a check rs patch. en_agent env = Inr a
         \<and> runGitCommand cfg env CheckStaged [''diff'', ''--cached'', ''--check''] = Inr check \<and> exited_zero check
         \<and> verified_by cfg env (rb_maxDurationMs (xr_resourceBudget request)) 0 (wc_verificationCommands cfg) rs
         \<and> patch_of cfg env patch \<and> (patch = [] \<longrightarrow> \<not> summaryClaimsChanges env (Some (as_text a)))
         \<and> dr_verificationResults r = Some ((integrity_check, check) # rs) \<and> dr_agentSummary r = Some (as_text a)
         \<and> dr_patch r = Some patch \<and> dr_patchHash r = patch_digest env patch
         \<and> dr_artifacts r = Some (map (described env) (handed_over a ((integrity_check, check) # rs) patch))
         \<and> wk_artifacts t = with_files (xr_executionRequestId request) (handed_over a ((integrity_check, check) # rs) patch)
              (wk_artifacts s))"
proof -
  let ?i = "xr_executionRequestId request"
  from execute_steps [OF assms(1)] obtain s1 skip p skip' p' q q' where
    s1: "s1 = noted cfg env ?i s"
    and steps: "guard_state cfg env (rc_baseCommit (xr_expectedRepositoryRevision request)) (run_agent env no_progress) s1 = (Inr (skip, p), s1)"
      "stage_all cfg env (skip, p) s1 = (Inr (skip', p'), s1)"
      "check_staged cfg env (rb_maxDurationMs (xr_resourceBudget request)) skip' p' s1 = (Inr q, s1)"
      "export_patch cfg env skip' q s1 = (Inr q', s1)"
    and fi: "finish_dispatch cfg env ?i (cancel_if_aborted env PatchExported q') s1 = (Inr r, t)"
    by metis
  note f = finish_succeeded [OF fi assms(2)]
  then have q': "pg_outcome q' = DO_SUCCEEDED" and last: "\<not> en_aborted env PatchExported" unfolding cancel_succeeded by blast+
  from steps_succeeded [OF steps q'] obtain a check rs patch where good: "en_agent env = Inr a"
    "runGitCommand cfg env CheckStaged [''diff'', ''--cached'', ''--check''] = Inr check" "exited_zero check"
    "verified_by cfg env (rb_maxDurationMs (xr_resourceBudget request)) 0 (wc_verificationCommands cfg) rs"
    "patch_of cfg env patch" "patch = [] \<longrightarrow> \<not> summaryClaimsChanges env (Some (as_text a))"
    and q'_eq: "q' = no_progress\<lparr>pg_agentSummary := Some (as_text a), pg_agentArtifacts := Some (as_artifacts a),
      pg_verificationResults := (integrity_check, check) # rs, pg_patch := Some patch, pg_patchHash := patch_digest env patch\<rparr>"
    by blast
  have files: "success_artifacts q' = handed_over a ((integrity_check, check) # rs) patch"
    by (simp add: q'_eq success_artifacts_def patch_artifact_def summary_artifact_def verifications_text_def handed_over_def default_to_def)
  from f obtain cleaned where
    "r = final_result cfg env ?i q' cleaned (map (described env) (handed_over a ((integrity_check, check) # rs) patch))"
    "wk_artifacts t = with_files ?i (handed_over a ((integrity_check, check) # rs) patch) (wk_artifacts s)"
    unfolding cancel_same [OF last] files s1 noted_fields by blast
  with steps_succeeded [OF steps q'] last good show ?thesis
    by (intro conjI exI [of _ a] exI [of _ check] exI [of _ rs] exI [of _ patch]) (simp_all add: final_result_def q'_eq)
qed

lemma rejection_None:
  "rejection cfg env request = None \<longleftrightarrow>
     request_sound (en_contract env) (en_sha256Hex env) (wc_capabilities cfg) (en_nowMs env) request
     \<and> rc_workingTreePatchHash (xr_expectedRepositoryRevision request) = None
     \<and> (ag_provider (xr_agentConfiguration request) = ''codex-cli'' \<longrightarrow> xr_schemaVersion request = 2)
     \<and> selectAdapter cfg request"
  unfolding rejection_def validateExecutionRequest_iff [symmetric] by (auto split: sum.split)

lemma make_worktree_some:
  assumes "make_worktree cfg env request s = (Inr (Some r), t)"
  shows "dr_outcome r \<noteq> DO_SUCCEEDED \<and> dr_claimGranted r
     \<and> (en_aborted env WorktreeFailed \<longrightarrow> dr_outcome r = DO_CANCELLED \<and> dr_rejectionReason r = Some AGENT_CANCELLED)"
proof -
  obtain made u where "createIsolatedWorktree cfg env (wc_worktreePath cfg (xr_executionRequestId request))
      (rc_baseCommit (xr_expectedRepositoryRevision request)) s = (made, u)" by fastforce
  with assms show ?thesis
    by (cases made) (auto simp: make_worktree_def work_ok Let_def split: if_splits)
qed

text \<open>The dispatch once the request is claimed.\<close>

definition claimed_dispatch :: "worker_config \<Rightarrow> worker_env \<Rightarrow> execution_request \<Rightarrow> (worker_state, dispatch_result) work" where
  "claimed_dispatch cfg env request =
     await (check_revision cfg env request) (\<lambda>refused.
       case refused of Some r \<Rightarrow> done_with r
       | None \<Rightarrow> await (make_worktree cfg env request) (\<lambda>failed.
         case failed of Some r \<Rightarrow> done_with r | None \<Rightarrow> execute cfg env request))"

definition claimed :: "string \<Rightarrow> worker_state \<Rightarrow> worker_state" where
  "claimed i s = s\<lparr>wk_claims := wk_claims s @ [i]\<rparr>"

lemma claimed_fields [simp]:
  "wk_claims (claimed i s) = wk_claims s @ [i]" "wk_artifacts (claimed i s) = wk_artifacts s"
  "wk_worktrees (claimed i s) = wk_worktrees s" "wk_recovery (claimed i s) = wk_recovery s"
  by (simp_all add: claimed_def)

lemma dispatch_eq:
  "dispatch cfg env request s =
     (case rejection cfg env request of
        Some reason \<Rightarrow> (Inr (plain_result VALIDATION_REJECTED False (Some reason)), s)
      | None \<Rightarrow>
          if xr_executionRequestId request \<in> set (wk_claims s)
          then (Inr (plain_result CLAIM_REJECTED False
             (Some (''ExecutionRequest '' @ xr_executionRequestId request @ '' has already been claimed''))), s)
          else claimed_dispatch cfg env request (claimed (xr_executionRequestId request) s))"
  by (simp add: dispatch_def Let_def claim_def claimed_def claimed_dispatch_def split: option.split)

lemma claimed_dispatch_ok:
  assumes "claimed_dispatch cfg env request s = (Inr r, t)"
  obtains "check_revision cfg env request s = (Inr (Some r), t)"
  | "repository_at cfg env (xr_expectedRepositoryRevision request)" "make_worktree cfg env request s = (Inr (Some r), t)"
  | u where "repository_at cfg env (xr_expectedRepositoryRevision request)"
      "make_worktree cfg env request s = (Inr None, u)" "execute cfg env request u = (Inr r, t)"
  using assms that check_revision_none unfolding claimed_dispatch_def
  by (auto simp: work_ok split: option.splits) (metis done_with_ok option.case_eq_if option.exhaust_sel)+

lemma same_claims_dispatch: "leaves (\<lambda>s t. wk_claims t = wk_claims s) (claimed_dispatch cfg env request)"
  unfolding claimed_dispatch_def
  by (auto intro!: same_claims.leaves_rules same_claims.leaves_check_revision same_claims_make same_claims_execute split: option.split)

text \<open>
  The worktree was not made as far as the worker can tell, and \<open>git worktree add\<close> has left one all
  the same.
\<close>

definition half_made :: "worker_config \<Rightarrow> worker_env \<Rightarrow> execution_request \<Rightarrow> bool" where
  "half_made cfg env request \<longleftrightarrow>
     en_leavesWorktree env \<and> \<not> git_ok cfg env WorktreeAdd [''worktree'', ''add'', ''--detach'',
       wc_worktreePath cfg (xr_executionRequestId request), rc_baseCommit (xr_expectedRepositoryRevision request)]"

lemma createIsolatedWorktree_steps:
  obtains e where "createIsolatedWorktree cfg env path baseCommit s = (Inl e, s)"
  | e where "createIsolatedWorktree cfg env path baseCommit s = (Inl e, s\<lparr>wk_worktrees := wk_worktrees s @ [path]\<rparr>)"
      "en_leavesWorktree env" "\<not> git_ok cfg env WorktreeAdd [''worktree'', ''add'', ''--detach'', path, baseCommit]"
  | "createIsolatedWorktree cfg env path baseCommit s = (Inr (), s\<lparr>wk_worktrees := wk_worktrees s @ [path]\<rparr>)"
proof (cases "en_fails env MakeWorktreesDirectory")
  case (Some e)
  then show ?thesis by (intro that(1)) (simp add: createIsolatedWorktree_def await_def file_operation_def)
next
  case None
  show ?thesis
  proof (cases "runGitCommand cfg env WorktreeAdd [''worktree'', ''add'', ''--detach'', path, baseCommit]")
    case (Inl e)
    then have "\<not> git_ok cfg env WorktreeAdd [''worktree'', ''add'', ''--detach'', path, baseCommit]" by (simp add: git_ok_def)
    with None Inl that show ?thesis
      by (cases "en_leavesWorktree env"; cases "''git'' \<in> set (wc_commandAllowlist cfg)")
        (auto simp: createIsolatedWorktree_def await_def file_operation_def left_behind_def)
  next
    case (Inr r)
    then have "git_ok cfg env WorktreeAdd [''worktree'', ''add'', ''--detach'', path, baseCommit] = exited_zero r" by (simp add: git_ok_def)
    with None Inr that show ?thesis
      by (cases "exited_zero r"; cases "en_leavesWorktree env"; cases "''git'' \<in> set (wc_commandAllowlist cfg)")
        (auto simp: createIsolatedWorktree_def await_def file_operation_def left_behind_def)
  qed
qed

lemma make_worktree_none:
  assumes "make_worktree cfg env request s = (Inr None, u)"
  shows "u = s\<lparr>wk_worktrees := wk_worktrees s @ [wc_worktreePath cfg (xr_executionRequestId request)]\<rparr>"
  by (rule createIsolatedWorktree_steps [of cfg env "wc_worktreePath cfg (xr_executionRequestId request)"
      "rc_baseCommit (xr_expectedRepositoryRevision request)" s])
    (use assms in \<open>auto simp: make_worktree_def work_ok Let_def split: if_splits\<close>)

end
