(* ===== verification/Worker_Example.thy ===== *)
theory Worker_Example
  imports Worker_Laws
begin

text \<open>A dispatch with a git that answers as expected and an agent that does its work.\<close>

definition exited :: "int \<Rightarrow> string \<Rightarrow> command_result" where
  "exited code out =
     \<lparr>cr_exitCode = Some code, cr_signal = None, cr_stdout = out, cr_stderr = [], cr_timedOut = False,
      cr_cancelled = False, cr_outputTruncated = False, cr_durationMs = 0\<rparr>"

definition quiet_exit :: "git_point \<Rightarrow> int \<times> string" where
  "quiet_exit point =
     (if point \<in> {RevParseHead, RevParseTree, WorktreeHead} then (0, zeros [])
      else if point = ExportDiff then (0, ''diff'') else if point = WorktreeBranch then (1, []) else (0, []))"

text \<open>What it prints comes in two chunks.\<close>

definition quiet_child :: "git_point \<Rightarrow> child_process" where
  "quiet_child point =
     (case quiet_exit point of (code, out) \<Rightarrow>
        \<lparr>cp_events = [OutData (take 2 out), OutData (drop 2 out), ProcessClosed (Some code) None],
         cp_aborted = False, cp_durationMs = 0\<rparr>)"

definition quiet_git :: "git_point \<Rightarrow> string list \<Rightarrow> string + command_result" where
  "quiet_git point argv = (case quiet_exit point of (code, out) \<Rightarrow> Inr (exited code out))"

definition quiet_env :: worker_env where
  "quiet_env =
     \<lparr>en_sha256Hex = zeros, en_contract = any_date, en_parse = (\<lambda>s. None), en_now = (\<lambda>look. ''now''), en_nowMs = Finite 0,
      en_elapsed = (\<lambda>n. 0), en_aborted = (\<lambda>look. False), en_spawn = (\<lambda>point argv. quiet_child point), en_leavesWorktree = False,
      en_agent = Inr \<lparr>as_text = ''done'', as_artifacts = []\<rparr>, en_fails = (\<lambda>point. None)\<rparr>"

definition small_worker :: worker_config where
  "small_worker =
     \<lparr>wc_worktreePath = (\<lambda>i. ''/w/'' @ i), wc_capabilities = [''git''], wc_commandAllowlist = [''git''],
      wc_verificationCommands = [[''git'', ''status'']], wc_hasAgent = True, wc_hasCodexAdapter = False, wc_gitTimeoutMs = 1,
      wc_maxOutputBytes = 1000\<rparr>"

definition fixture_request :: execution_request where
  "fixture_request = small_request\<lparr>xr_agentConfiguration := \<lparr>ag_provider = ''fixture'', ag_model = ''m''\<rparr>\<rparr>"

definition idle_worker :: worker_state where
  "idle_worker = \<lparr>wk_claims = [], wk_worktrees = [], wk_recovery = [], wk_artifacts = []\<rparr>"

lemma quiet_outputs: "text_units (take 2 (snd (quiet_exit point))) + text_units (drop 2 (snd (quiet_exit point))) \<le> 1000"
    "text_units (take 2 (snd (quiet_exit point))) \<le> 1000"
proof -
  have "text_units (take 2 (zeros [])) + text_units (drop 2 (zeros [])) \<le> 1000" "text_units (take 2 (zeros [])) \<le> 1000"
    "text_units (take 2 ''diff'') + text_units (drop 2 ''diff'') \<le> 1000" "text_units (take 2 ''diff'') \<le> 1000"
    by code_simp+
  then show "text_units (take 2 (snd (quiet_exit point))) + text_units (drop 2 (snd (quiet_exit point))) \<le> 1000"
    "text_units (take 2 (snd (quiet_exit point))) \<le> 1000"
    by (auto simp: quiet_exit_def text_units_def code_units_def)
qed

lemma quiet_child_result:
  "child_result 1000 (quiet_child point) [] [] False (cp_events (quiet_child point)) = quiet_git point argv"
  using quiet_outputs [of point]
  by (cases "quiet_exit point") (simp add: text_units_def [of "[]"] code_units_def [of "[]"] quiet_child_def quiet_git_def settled_result_def exited_def captured_def Let_def split: prod.split)

lemma quiet_run [simp]: "runGitCommand small_worker quiet_env point argv = quiet_git point (''git'' # argv)"
  "runCommand small_worker quiet_env point [''git'', ''status''] = quiet_git point [''git'', ''status'']"
  using quiet_child_result by (simp_all add: runGitCommand_def runCommand_def small_worker_def quiet_env_def Let_def)

lemma quiet_accepted: "rejection small_worker quiet_env fixture_request = None"
  unfolding rejection_None request_sound_def
  by (simp add: fixture_request_def small_worker_def quiet_env_def selectAdapter_def executionRequestSchema_def executionRequestIdSchema_def
      repositoryRevisionSchema_def is_contentHash_def is_gitObjectHash_def small_request_def any_date_def zeros_def id_char_def
      hex_char_def computeRequestHash_def num_le_def list_all_iff)

lemma quiet_trim: "trim_text (zeros []) = zeros []" "zeros [] \<noteq> []"
  by code_simp+

lemma fixture_fields [simp]:
  "xr_executionRequestId fixture_request = ''req-1''" "rc_baseCommit (xr_expectedRepositoryRevision fixture_request) = zeros []"
  "rc_treeHash (xr_expectedRepositoryRevision fixture_request) = zeros []"
  "rc_workingTreePatchHash (xr_expectedRepositoryRevision fixture_request) = None"
  "rb_maxDurationMs (xr_resourceBudget fixture_request) = 1"
  by (simp_all add: fixture_request_def small_request_def)

lemma quiet_fields [simp]:
  "en_fails quiet_env point = None" "en_aborted quiet_env look = False" "en_elapsed quiet_env n = 0"
  "en_parse quiet_env c = None" "en_agent quiet_env = Inr \<lparr>as_text = ''done'', as_artifacts = []\<rparr>"
  "wc_worktreePath small_worker i = ''/w/'' @ i" "wc_verificationCommands small_worker = [[''git'', ''status'']]"
  by (simp_all add: quiet_env_def small_worker_def)

lemmas quiet_simps = await_def answer_with_def done_with_def attempt_def quiet_git_def quiet_exit_def exited_def exited_zero_def quiet_trim

lemma quiet_revision: "check_revision small_worker quiet_env fixture_request s = (Inr None, s)"
  by (simp add: check_revision_def readRepositoryRevision_def quiet_simps Let_def output_or_null_def revision_mismatch_def)

lemma quiet_worktree:
  "make_worktree small_worker quiet_env fixture_request s = (Inr None, s\<lparr>wk_worktrees := wk_worktrees s @ [''/w/req-1'']\<rparr>)"
  by (simp add: make_worktree_def createIsolatedWorktree_def file_operation_def quiet_simps Let_def)

lemma quiet_files: "\<exists>ds t. persist_all quiet_env i fs s = (Inr ds, t)"
proof (induction fs arbitrary: s)
  case (Cons f fs)
  obtain kind name content where f: "f = (kind, name, content)" by (cases f)
  from Cons [of "s\<lparr>wk_artifacts := AList.update (i, name) content (wk_artifacts s)\<rparr>"] show ?case
    by (auto simp: f persistArtifact_def file_operation_def await_def done_with_def)
qed (simp add: done_with_def)

definition quiet_progress :: progress where
  "quiet_progress = no_progress\<lparr>pg_agentSummary := Some ''done'', pg_agentArtifacts := Some []\<rparr>"

lemma quiet_guard:
  "guard_state small_worker quiet_env (zeros []) (run_agent quiet_env no_progress) s = (Inr (False, quiet_progress), s)"
  by (simp add: run_agent_def cancel_if_aborted_def guard_state_def verifyWorktreeRepositoryState_def quiet_simps)
    (simp add: no_progress_def quiet_progress_def)

lemma quiet_stage: "stage_all small_worker quiet_env (False, quiet_progress) s = (Inr (False, quiet_progress), s)"
  by (simp add: stage_all_def quiet_simps)

lemma quiet_check:
  "check_staged small_worker quiet_env 1 False quiet_progress s =
     (Inr (push_result [''git'', ''status''] (exited 0 []) (push_result [''git'', ''diff'', ''--cached'', ''--check''] (exited 0 []) quiet_progress)), s)"
  by (simp add: check_staged_def quiet_simps Let_def cancel_if_aborted_def) (simp add: quiet_progress_def no_progress_def)

lemma quiet_outcome: "pg_outcome (push_result a r p) = pg_outcome p" "pg_outcome quiet_progress = DO_SUCCEEDED"
  by (simp_all add: push_result_def quiet_progress_def no_progress_def)

lemma quiet_export:
  "pg_outcome p = DO_SUCCEEDED \<Longrightarrow> export_patch small_worker quiet_env False p s =
     (Inr (p\<lparr>pg_patch := Some ''diff'', pg_patchHash := Some (zeros [])\<rparr>), s)"
  by (simp add: export_patch_def exportWorktreePatch_def quiet_simps) (simp add: quiet_env_def zeros_def)

lemma quiet_finish:
  assumes "pg_outcome p = DO_SUCCEEDED"
  shows "\<exists>r t. finish_dispatch small_worker quiet_env i p s = (Inr r, t) \<and> dr_outcome r = DO_SUCCEEDED \<and> dr_patch r = pg_patch p"
proof -
  obtain cleaned s1 where "clean_up small_worker quiet_env i s = (Inr cleaned, s1)"
    by (cases "removeWorktree small_worker quiet_env WorktreeRemove (wc_worktreePath small_worker i) s")
      (auto simp: clean_up_def await_def attempt_def done_with_def)
  moreover obtain ds t where "persist_all quiet_env i (success_artifacts p) (s1\<lparr>wk_recovery := AList.delete i (wk_recovery s1)\<rparr>) = (Inr ds, t)"
    using quiet_files by blast
  ultimately show ?thesis using assms
    by (simp add: finish_dispatch_def await_def removeRecovery_def file_operation_def write_artifacts_def done_with_def final_result_def)
qed

lemma quiet_execute:
  "\<exists>r t. execute small_worker quiet_env fixture_request s = (Inr r, t) \<and> dr_outcome r = DO_SUCCEEDED \<and> dr_patch r = Some ''diff''"
  using quiet_finish [of "push_result [''git'', ''status''] (exited 0 []) (push_result [''git'', ''diff'', ''--cached'', ''--check''] (exited 0 []) quiet_progress)
      \<lparr>pg_patch := Some ''diff'', pg_patchHash := Some (zeros [])\<rparr>" "''req-1''" "noted small_worker quiet_env ''req-1'' s"]
  by (simp add: execute_def Let_def await_def writeRecovery_def file_operation_def done_with_def recovery_record_def noted_def
      quiet_guard quiet_stage quiet_check quiet_export quiet_outcome cancel_if_aborted_def)

lemma quiet_dispatch:
  "\<exists>r t. dispatch small_worker quiet_env fixture_request idle_worker = (Inr r, t) \<and> dr_outcome r = DO_SUCCEEDED \<and> dr_patch r = Some ''diff''"
  using quiet_execute [of "claimed ''req-1'' idle_worker\<lparr>wk_worktrees := wk_worktrees (claimed ''req-1'' idle_worker) @ [''/w/req-1'']\<rparr>"]
  by (simp add: dispatch_eq quiet_accepted claimed_dispatch_def await_def quiet_revision quiet_worktree) (simp add: idle_worker_def)

end
