(* ===== verification/Worker_Promises.thy ===== *)
theory Worker_Promises
  imports Worker_Example
begin

text \<open>
  What a dispatch promises: what a successful result stands for, that a request is executed at
  most once, that no worktree is left behind unrecorded, and that cancellation prevails.
\<close>

section \<open>Success\<close>



section \<open>Once per request\<close>

lemma claimed_dispatch_granted: "claimed_dispatch cfg env request s = (Inr r, t) \<Longrightarrow> dr_claimGranted r"
proof (erule claimed_dispatch_ok)
  show "check_revision cfg env request s = (Inr (Some r), t) \<Longrightarrow> dr_claimGranted r" using check_revision_some by blast
  show "make_worktree cfg env request s = (Inr (Some r), t) \<Longrightarrow> dr_claimGranted r" using make_worktree_some by blast
  fix u
  assume "execute cfg env request u = (Inr r, t)"
  then show "dr_claimGranted r"
    by (rule execute_steps) (auto simp: finish_dispatch_def work_ok final_result_def)
qed

text \<open>One worker over time: requests as they arrive, each with its own outside.\<close>

fun dispatch_all ::
  "worker_config \<Rightarrow> (worker_env \<times> execution_request) list \<Rightarrow> worker_state \<Rightarrow>
     (execution_request \<times> (string + dispatch_result)) list \<times> worker_state" where
  "dispatch_all cfg [] s = ([], s)"
| "dispatch_all cfg ((env, request) # rest) s =
     (let (r, t) = dispatch cfg env request s; (rs, u) = dispatch_all cfg rest t in ((request, r) # rs, u))"

text \<open>The request was claimed: a result that says so, or an error, which only comes after the claim.\<close>

definition grants :: "string \<Rightarrow> execution_request \<times> (string + dispatch_result) \<Rightarrow> bool" where
  "grants i q \<longleftrightarrow> xr_executionRequestId (fst q) = i \<and> (case snd q of Inl e \<Rightarrow> True | Inr r \<Rightarrow> dr_claimGranted r)"

lemma dispatch_claims:
  assumes "dispatch cfg env request s = (r, t)"
  shows "grants i (request, r) \<and> i \<notin> set (wk_claims s) \<and> set (wk_claims t) = insert i (set (wk_claims s))
    \<or> \<not> grants i (request, r) \<and> set (wk_claims s) \<subseteq> set (wk_claims t)"
proof (cases "rejection cfg env request = None \<and> xr_executionRequestId request \<notin> set (wk_claims s)")
  case True
  with assms have run: "claimed_dispatch cfg env request (claimed (xr_executionRequestId request) s) = (r, t)" by (simp add: dispatch_eq)
  then have "wk_claims t = wk_claims s @ [xr_executionRequestId request]" using leavesD [OF same_claims_dispatch run] by simp
  moreover have "grants (xr_executionRequestId request) (request, r)"
    using run claimed_dispatch_granted by (auto simp: grants_def split: sum.split)
  ultimately show ?thesis using True by (cases "i = xr_executionRequestId request") (auto simp: grants_def)
next
  case False
  with assms show ?thesis by (auto simp: dispatch_eq grants_def split: option.splits if_splits)
qed

lemma granted_at_most:
  "length (filter (grants i) (fst (dispatch_all cfg ds s))) \<le> (if i \<in> set (wk_claims s) then 0 else 1)"
proof (induction ds arbitrary: s)
  case (Cons d ds)
  obtain env request where d: "d = (env, request)" by (cases d)
  obtain r t where step: "dispatch cfg env request s = (r, t)" by fastforce
  from dispatch_claims [OF step, of i] Cons.IH [of t] show ?case
    by (auto simp: d step split_def Let_def split: if_splits)
qed simp

lemma claims_grow: "set (wk_claims s) \<subseteq> set (wk_claims (snd (dispatch_all cfg ds s)))"
proof (induction ds arbitrary: s)
  case (Cons d ds)
  obtain env request where d: "d = (env, request)" by (cases d)
  obtain r t where step: "dispatch cfg env request s = (r, t)" by fastforce
  have "set (wk_claims s) \<subseteq> set (wk_claims t)" using dispatch_claims [OF step] by blast
  with Cons.IH [of t] show ?case by (auto simp: d step split_def Let_def)
qed simp

lemma granted_stays:
  "filter (grants i) (fst (dispatch_all cfg ds s)) \<noteq> [] \<Longrightarrow> i \<in> set (wk_claims (snd (dispatch_all cfg ds s)))"
proof (induction ds arbitrary: s)
  case (Cons d ds)
  obtain env request where d: "d = (env, request)" by (cases d)
  obtain r t where step: "dispatch cfg env request s = (r, t)" by fastforce
  show ?case
  proof (cases "grants i (request, r)")
    case True
    then have "i \<in> set (wk_claims t)" using dispatch_claims [OF step, of i] by blast
    then show ?thesis using claims_grow [of t cfg ds] by (auto simp: d step split_def Let_def)
  next
    case False
    with Cons.prems Cons.IH [of t] show ?thesis by (simp add: d step split_def Let_def)
  qed
qed simp

lemma dispatch_claimed_id:
  "xr_executionRequestId request \<in> set (wk_claims s) \<Longrightarrow> snd (dispatch cfg env request s) = s"
  by (simp add: dispatch_eq split: option.split)

text \<open>
  C39. Over the life of a worker a request is claimed, and so executed, at most once, whatever
  happened to its first dispatch; once it was claimed, a further dispatch of it changes nothing.
\<close>

theorem executed_at_most_once:
  "length (filter (grants i) (fst (dispatch_all cfg ds s))) \<le> 1
   \<and> (filter (grants (xr_executionRequestId request)) (fst (dispatch_all cfg ds s)) = []
      \<or> snd (dispatch cfg env request (snd (dispatch_all cfg ds s))) = snd (dispatch_all cfg ds s))"
  using granted_at_most [of i cfg ds s] granted_stays [of "xr_executionRequestId request" cfg ds s] dispatch_claimed_id
  by (auto split: if_splits)

section \<open>Worktrees on record\<close>

definition on_record :: "string \<Rightarrow> worker_state \<Rightarrow> bool" where
  "on_record i s \<longleftrightarrow> map_of (wk_recovery s) i \<noteq> None"

lemma on_record_updates [simp]:
  "on_record i (s\<lparr>wk_artifacts := as\<rparr>) = on_record i s" "on_record i (s\<lparr>wk_worktrees := ws\<rparr>) = on_record i s"
  "on_record i (s\<lparr>wk_recovery := AList.update j m (wk_recovery s)\<rparr>) \<longleftrightarrow> i = j \<or> on_record i s"
  by (auto simp: on_record_def update_conv')

interpretation on_record: kept "\<lambda>s t. on_record i s \<longrightarrow> on_record i t"
  by unfold_locales auto

interpretation shrinking: kept "\<lambda>s t. set (wk_worktrees t) \<subseteq> set (wk_worktrees s)"
  by unfold_locales auto

lemma on_record_file:
  "(\<And>s. on_record i s \<Longrightarrow> on_record i (f s)) \<Longrightarrow> leaves (\<lambda>s t. on_record i s \<longrightarrow> on_record i t) (file_operation env point f)"
  by (simp add: leaves_def file_operation_def split: option.split)

lemma on_record_persist: "leaves (\<lambda>s t. on_record i s \<longrightarrow> on_record i t) (persist_all env j files)"
  by (induction files) (auto simp: persistArtifact_def intro!: on_record.leaves_rules on_record_file)

lemma on_record_remove: "leaves (\<lambda>s t. on_record i s \<longrightarrow> on_record i t) (removeWorktree cfg env point path)"
  unfolding removeWorktree_def by (intro on_record.leaves_rules) (simp add: leaves_def)

lemma finish_keeps_record:
  assumes "pg_outcome p \<noteq> DO_SUCCEEDED"
  shows "leaves (\<lambda>s t. on_record i s \<longrightarrow> on_record i t) (finish_dispatch cfg env i p)"
  using assms
  by (auto simp: finish_dispatch_def clean_up_def writeRecovery_def write_artifacts_def
      intro!: on_record.leaves_rules on_record_remove on_record_file on_record_persist)

lemma shrinking_file:
  "(\<And>s. wk_worktrees (f s) = wk_worktrees s) \<Longrightarrow>
     leaves (\<lambda>s t. set (wk_worktrees t) \<subseteq> set (wk_worktrees s)) (file_operation env point f)"
  by (simp add: leaves_def file_operation_def split: option.split)

lemma shrinking_persist: "leaves (\<lambda>s t. set (wk_worktrees t) \<subseteq> set (wk_worktrees s)) (persist_all env j files)"
  by (induction files) (auto simp: persistArtifact_def intro!: shrinking.leaves_rules shrinking_file)

lemma finish_after_cleanup:
  "leaves (\<lambda>s t. set (wk_worktrees t) \<subseteq> set (wk_worktrees s))
     (await (if pg_outcome p \<noteq> DO_SUCCEEDED
            then await (writeRecovery env WriteInterrupted (recovery_record cfg env i (Some InterruptedFileTime) cleaned))
                   (\<lambda>_. done_with ())
            else removeRecovery env i) (\<lambda>_.
     await (write_artifacts env i (if pg_outcome p \<noteq> DO_SUCCEEDED then partial_artifacts env p else success_artifacts p)) (\<lambda>arts.
     done_with (final_result cfg env i p cleaned arts))))"
  by (auto simp: writeRecovery_def removeRecovery_def write_artifacts_def
      intro!: shrinking.leaves_rules shrinking_file shrinking_persist)

lemma clean_up_removes:
  assumes "git_ok cfg env WorktreeRemove [''worktree'', ''remove'', ''--force'', wc_worktreePath cfg i]"
  shows "clean_up cfg env i s = (Inr True, s\<lparr>wk_worktrees := removeAll (wc_worktreePath cfg i) (wk_worktrees s)\<rparr>)"
  using assms by (auto simp: git_ok_def clean_up_def removeWorktree_def await_def attempt_def answer_with_def done_with_def)

lemma finish_removes:
  assumes "git_ok cfg env WorktreeRemove [''worktree'', ''remove'', ''--force'', wc_worktreePath cfg i]"
    and "finish_dispatch cfg env i p s = (x, t)"
  shows "wc_worktreePath cfg i \<notin> set (wk_worktrees t)"
  using leavesD [OF finish_after_cleanup] assms(2)
  unfolding finish_dispatch_def by (subst (asm) await_def) (auto simp: clean_up_removes [OF assms(1)] dest!: leavesD [OF finish_after_cleanup])

lemma await_cases:
  assumes "await m f s = (x, t)" and "leaves (=) m"
  obtains e where "x = Inl e" "t = s" | y where "m s = (Inr y, s)" "f y s = (x, t)"
  using assms by (cases "m s"; cases "fst (m s)") (auto simp: await_def leaves_def dest: spec [of _ s])

lemma execute_cases:
  assumes "execute cfg env request s = (x, t)" and "en_fails env WriteRunning = None"
    and s1: "s1 = noted cfg env (xr_executionRequestId request) s"
  obtains e where "x = Inl e" "t = s1"
  | skip p skip' p' q q' where
    "guard_state cfg env (rc_baseCommit (xr_expectedRepositoryRevision request)) (run_agent env no_progress) s1 = (Inr (skip, p), s1)"
    "stage_all cfg env (skip, p) s1 = (Inr (skip', p'), s1)"
    "check_staged cfg env (rb_maxDurationMs (xr_resourceBudget request)) skip' p' s1 = (Inr q, s1)"
    "export_patch cfg env skip' q s1 = (Inr q', s1)"
    "finish_dispatch cfg env (xr_executionRequestId request) (cancel_if_aborted env PatchExported q') s1 = (x, t)"
proof -
  have "writeRecovery env WriteRunning (recovery_record cfg env (xr_executionRequestId request) None False) s
      = (Inr (recovery_record cfg env (xr_executionRequestId request) None False), s1)"
    using assms(2) by (simp add: s1 writeRecovery_def await_def file_operation_def done_with_def noted_def recovery_record_def)
  with assms(1) have "await (guard_state cfg env (rc_baseCommit (xr_expectedRepositoryRevision request)) (run_agent env no_progress)) (\<lambda>guarded.
         await (stage_all cfg env guarded) (\<lambda>(skipPostAgent, p).
         await (check_staged cfg env (rb_maxDurationMs (xr_resourceBudget request)) skipPostAgent p) (\<lambda>q.
         await (export_patch cfg env skipPostAgent q) (\<lambda>q'.
         finish_dispatch cfg env (xr_executionRequestId request) (cancel_if_aborted env PatchExported q'))))) s1 = (x, t)"
    unfolding execute_def Let_def by (subst (asm) await_def) simp
  then show thesis
    by (auto elim!: await_cases [OF _ same.leaves_guard] await_cases [OF _ same.leaves_stage] await_cases [OF _ same.leaves_check]
        await_cases [OF _ same.leaves_export] intro: that)
qed

text \<open>A run that passed all its checks, and a removal of its worktree that failed.\<close>

definition leaked_by_success :: "worker_config \<Rightarrow> worker_env \<Rightarrow> execution_request \<Rightarrow> bool" where
  "leaked_by_success cfg env request \<longleftrightarrow>
     checks_passed cfg env request
     \<and> \<not> git_ok cfg env WorktreeRemove [''worktree'', ''remove'', ''--force'', wc_worktreePath cfg (xr_executionRequestId request)]"

text \<open>A worktree left by a failed \<open>git worktree add\<close>, and the signal not aborted, or the removal failed too.\<close>

definition leaked_by_add :: "worker_config \<Rightarrow> worker_env \<Rightarrow> execution_request \<Rightarrow> bool" where
  "leaked_by_add cfg env request \<longleftrightarrow>
     half_made cfg env request
     \<and> \<not> (en_aborted env WorktreeFailed
          \<and> git_ok cfg env AbortedWorktreeRemove [''worktree'', ''remove'', ''--force'', wc_worktreePath cfg (xr_executionRequestId request)])"

lemma execute_on_record:
  assumes "execute cfg env request s = (x, t)" and "en_fails env WriteRunning = None"
  shows "wc_worktreePath cfg (xr_executionRequestId request) \<notin> set (wk_worktrees t) \<or> on_record (xr_executionRequestId request) t
    \<or> leaked_by_success cfg env request"
proof -
  let ?i = "xr_executionRequestId request"
  let ?s1 = "noted cfg env ?i s"
  have recorded: "on_record ?i ?s1" by (simp add: noted_def)
  from assms(1,2) refl [of ?s1] show ?thesis
  proof (cases rule: execute_cases)
    case (1 e)
    with recorded show ?thesis by simp
  next
    case (2 skip p skip' p' q q')
    show ?thesis
    proof (cases "pg_outcome (cancel_if_aborted env PatchExported q') = DO_SUCCEEDED")
      case True
      then have q': "pg_outcome q' = DO_SUCCEEDED" and last: "\<not> en_aborted env PatchExported" unfolding cancel_succeeded by blast+
      with steps_succeeded [OF 2(1-4) q'] have "checks_passed cfg env request" unfolding checks_passed_def git_ok_def by blast
      with finish_removes [OF _ 2(5)] show ?thesis unfolding leaked_by_success_def by blast
    next
      case False
      from leavesD [OF finish_keeps_record [OF False] 2(5)] recorded show ?thesis by blast
    qed
  qed
qed

lemma removeWorktree_shrinks:
  "removeWorktree cfg env point path s = (x, t) \<Longrightarrow> w \<in> set (wk_worktrees t) \<Longrightarrow> w \<in> set (wk_worktrees s)"
  by (auto simp: removeWorktree_def await_def answer_with_def split: sum.splits if_splits)

lemma removeWorktree_removes:
  "git_ok cfg env point [''worktree'', ''remove'', ''--force'', path] \<Longrightarrow> removeWorktree cfg env point path s = (x, t) \<Longrightarrow>
     path \<notin> set (wk_worktrees t)"
  by (auto simp: git_ok_def removeWorktree_def await_def answer_with_def)

lemma make_worktree_fails:
  assumes "make_worktree cfg env request s = (Inr (Some r), t)"
    and "wc_worktreePath cfg (xr_executionRequestId request) \<notin> set (wk_worktrees s)"
  shows "wc_worktreePath cfg (xr_executionRequestId request) \<notin> set (wk_worktrees t) \<or> leaked_by_add cfg env request"
proof (rule createIsolatedWorktree_steps [of cfg env "wc_worktreePath cfg (xr_executionRequestId request)"
      "rc_baseCommit (xr_expectedRepositoryRevision request)" s], goal_cases)
  case (1 e)
  with assms show ?thesis
    by (auto simp: make_worktree_def work_ok Let_def split: if_splits) (metis removeWorktree_shrinks)
next
  case (2 e)
  then have half: "half_made cfg env request" by (simp add: half_made_def)
  show ?thesis
  proof (cases "en_aborted env WorktreeFailed
      \<and> git_ok cfg env AbortedWorktreeRemove [''worktree'', ''remove'', ''--force'', wc_worktreePath cfg (xr_executionRequestId request)]")
    case True
    with 2(1) assms(1) obtain y where "removeWorktree cfg env AbortedWorktreeRemove (wc_worktreePath cfg (xr_executionRequestId request))
        (s\<lparr>wk_worktrees := wk_worktrees s @ [wc_worktreePath cfg (xr_executionRequestId request)]\<rparr>) = (y, t)"
      by (auto simp: make_worktree_def work_ok Let_def)
    with True removeWorktree_removes show ?thesis by blast
  next
    case False
    with half show ?thesis by (simp add: leaked_by_add_def)
  qed
next
  case 3
  with assms(1) show ?thesis by (simp add: make_worktree_def work_ok Let_def)
qed

lemma make_worktree_answers: "\<exists>a. fst (make_worktree cfg env request s) = Inr a"
  by (rule createIsolatedWorktree_steps [of cfg env "wc_worktreePath cfg (xr_executionRequestId request)"
      "rc_baseCommit (xr_expectedRepositoryRevision request)" s])
    (auto simp: make_worktree_def Let_def await_def attempt_def done_with_def split: prod.split)

text \<open>
  C40. When a dispatch ends, with a result or an error, and the worktree of its request was not
  there before, then it is not there now, or its recovery file is, with three exceptions: the
  recovery file could not be written at the start; a failed or killed \<open>git worktree add\<close> has left
  the worktree, and either the signal was not aborted, when nothing removes it, or its removal
  failed; or the run passed all its checks and the removal of its worktree failed, when the
  recovery file is removed all the same.
\<close>

theorem worktrees_on_record:
  assumes "dispatch cfg env request s = (x, t)" and "wc_worktreePath cfg (xr_executionRequestId request) \<notin> set (wk_worktrees s)"
  shows "wc_worktreePath cfg (xr_executionRequestId request) \<notin> set (wk_worktrees t) \<or> on_record (xr_executionRequestId request) t
    \<or> en_fails env WriteRunning \<noteq> None \<or> leaked_by_add cfg env request \<or> leaked_by_success cfg env request"
proof (cases "rejection cfg env request = None \<and> xr_executionRequestId request \<notin> set (wk_claims s)")
  case False
  with assms show ?thesis by (auto simp: dispatch_eq split: option.splits if_splits)
next
  case True
  let ?s = "claimed (xr_executionRequestId request) s"
  from True assms(1) have "claimed_dispatch cfg env request ?s = (x, t)" by (simp add: dispatch_eq)
  then show ?thesis unfolding claimed_dispatch_def
  proof (rule await_cases [OF _ same.leaves_check_revision])
    assume "t = ?s"
    with assms(2) show ?thesis by simp
  next
    fix refused
    assume step: "(case refused of Some r \<Rightarrow> done_with r | None \<Rightarrow> await (make_worktree cfg env request) (\<lambda>failed.
         case failed of Some r \<Rightarrow> done_with r | None \<Rightarrow> execute cfg env request)) ?s = (x, t)"
    obtain failed u where made: "make_worktree cfg env request ?s = (Inr failed, u)"
      using make_worktree_answers by (metis surjective_pairing)
    show ?thesis
    proof (cases "refused = None \<and> failed = None")
      case True
      with step made have run: "execute cfg env request u = (x, t)" by (simp add: await_def)
      show ?thesis
      proof (cases "en_fails env WriteRunning")
        case None
        with execute_on_record [OF run] show ?thesis by blast
      qed simp
    next
      case False
      with step made have "t = ?s \<or> (\<exists>r. make_worktree cfg env request ?s = (Inr (Some r), t))"
        by (auto simp: await_def done_with_def split: option.splits)
      with make_worktree_fails [of cfg env request ?s _ t] assms(2) show ?thesis by auto
    qed
  qed
qed

theorem worktrees_on_record_witness:
  "\<exists>r t. dispatch small_worker quiet_env fixture_request idle_worker = (Inr r, t)
     \<and> (''/w/req-1'' \<notin> set (wk_worktrees t) \<or> on_record ''req-1'' t)"
proof -
  obtain r t where d: "dispatch small_worker quiet_env fixture_request idle_worker = (Inr r, t)" using quiet_dispatch by blast
  have "git_ok small_worker quiet_env WorktreeRemove argv" for argv
    by (simp add: git_ok_def quiet_git_def quiet_exit_def exited_def exited_zero_def)
  moreover have "\<not> half_made small_worker quiet_env fixture_request" by (simp add: half_made_def quiet_env_def)
  ultimately show ?thesis using worktrees_on_record [OF d] d
    by (auto simp: idle_worker_def leaked_by_add_def leaked_by_success_def)
qed

text \<open>The second exception is real: an add that was killed, and an untouched signal.\<close>

definition killed_env :: worker_env where
  "killed_env = quiet_env\<lparr>en_leavesWorktree := True,
     en_spawn := (\<lambda>point argv. if point = WorktreeAdd then \<lparr>cp_events = [], cp_aborted = False, cp_durationMs = 1\<rparr> else quiet_child point)\<rparr>"

lemma add_killed:
  "make_worktree small_worker killed_env fixture_request s =
     (Inr (Some (plain_result DO_PARTIAL True (Some ''worktree creation failed: Failed to create isolated worktree: ''))),
      s\<lparr>wk_worktrees := wk_worktrees s @ [''/w/req-1'']\<rparr>)"
proof -
  have "runGitCommand small_worker killed_env WorktreeAdd argv =
      Inr (settled_result \<lparr>cp_events = [], cp_aborted = False, cp_durationMs = 1\<rparr> [] [] False None None True)" for argv
    by (simp add: runGitCommand_def runCommand_def killed_env_def small_worker_def Let_def)
  moreover have "trim_text [] = []" by code_simp
  ultimately show ?thesis
    by (simp add: make_worktree_def createIsolatedWorktree_def file_operation_def await_def attempt_def done_with_def Let_def
      settled_result_def exited_zero_def output_of_def left_behind_def) (simp add: done_with_def killed_env_def quiet_env_def small_worker_def)
qed

section \<open>Cancellation\<close>

lemma execute_cancelled:
  assumes "execute cfg env request s = (Inr r, t)" and "en_aborted env PatchExported"
  shows "dr_outcome r = DO_CANCELLED \<and> dr_rejectionReason r = Some AGENT_CANCELLED"
  using assms(1)
  by (rule execute_steps)
    (use assms(2) in \<open>auto simp: finish_dispatch_def work_ok final_result_def cancel_if_aborted_def markCancelled_def ends_with_def\<close>)

text \<open>
  A dispatch whose signal is aborted, as seen where it looks last or where a step before the agent
  failed, ends as cancelled, whatever else went wrong.
\<close>

theorem cancelled_dispatch:
  assumes "dispatch cfg env request s = (Inr r, t)" and "dr_claimGranted r"
    and "en_aborted env RevisionFailed" and "en_aborted env WorktreeFailed" and "en_aborted env PatchExported"
  shows "dr_outcome r = DO_CANCELLED \<and> dr_rejectionReason r = Some AGENT_CANCELLED"
proof -
  have "claimed_dispatch cfg env request (claimed (xr_executionRequestId request) s) = (Inr r, t)"
    using assms(1,2) by (auto simp: dispatch_eq split: option.splits if_splits)
  then show ?thesis
    by (rule claimed_dispatch_ok) (use check_revision_some make_worktree_some execute_cancelled assms(3-5) in blast)+
qed

end
