(* ===== verification/Context_Resolver.thy ===== *)
theory Context_Resolver
  imports Session Source_References Observation
begin

text \<open>
  From the sources a user selects to the items of a context snapshot
  (\<open>apps/desktop/src/main/context-resolver.ts\<close>, \<open>git-repository-content-reader.ts\<close> and
  \<open>freezeSnapshot\<close>, \<open>resolveContext\<close> of \<open>workspace-service.ts\<close>).

  The operations run on the database and wait for git in between. While one waits, other
  commands may run: an \<open>await\<close> is an answer together with the commands that were performed
  meanwhile, any list of them. A git process is the sequence of its events as the reader gets
  them.
\<close>

section \<open>Waiting\<close>

definition awaits :: "services \<Rightarrow> command list \<Rightarrow> error + 'a \<Rightarrow> 'a cmd" where
  "awaits sv others answer s = (answer, run_session sv others s)"

section \<open>Repository content\<close>

definition MAX_REPOSITORY_CONTENT_BYTES :: nat where
  "MAX_REPOSITORY_CONTENT_BYTES = 512 * 1024"

datatype child_event = ChildData string | ChildError string | ChildClose "int option" | ChildTimeout

datatype git_mode = BlobMode | CheckMode

text \<open>
  The promise settles with the first event that settles it; the timer settles it when nothing
  else does.
\<close>

fun execGit :: "string list \<Rightarrow> git_mode \<Rightarrow> string \<Rightarrow> child_event list \<Rightarrow> error + bool \<times> string" where
  "execGit args mode stdout [] = Inl (PlainError (''repository read timed out for '' @ join '' '' args))"
| "execGit args mode stdout (ChildTimeout # events) = Inl (PlainError (''repository read timed out for '' @ join '' '' args))"
| "execGit args mode stdout (ChildError message # events) =
     Inl (PlainError (''git binary or repository is unavailable: '' @ message))"
| "execGit args mode stdout (ChildData chunk # events) =
     (if length (stdout @ chunk) > MAX_REPOSITORY_CONTENT_BYTES then Inl (ValidationError ''repository_content_too_large'')
      else execGit args mode (stdout @ chunk) events)"
| "execGit args mode stdout (ChildClose code # events) =
     (if code \<noteq> Some 0
      then (case mode of
              BlobMode \<Rightarrow> Inl (NotFoundError (''Repository file '' @ last args @ '' is not available at the pinned revision'') [])
            | CheckMode \<Rightarrow> Inr (False, stdout))
      else Inr (True, stdout))"

text \<open>\<open>new TextDecoder('utf-8', { fatal: true }).decode\<close>: a byte order mark at the start is dropped.\<close>

definition byte_order_mark :: string where
  "byte_order_mark = [CHR 0xEF, CHR 0xBB, CHR 0xBF]"

definition decode_utf8 :: "string \<Rightarrow> string option" where
  "decode_utf8 bytes =
     (if \<not> utf8_valid bytes then None
      else if take 3 bytes = byte_order_mark then Some (drop 3 bytes) else Some bytes)"

definition readFileAtCommit :: "child_event list \<Rightarrow> child_event list \<Rightarrow> string \<Rightarrow> string \<Rightarrow> error + string" where
  "readFileAtCommit commitEvents blobEvents path baseCommit =
     (case execGit [''cat-file'', ''-e'', baseCommit @ ''^{commit}''] CheckMode [] commitEvents of
        Inl e \<Rightarrow> Inl e
      | Inr (ok, _) \<Rightarrow>
          if \<not> ok then Inl (PlainError (''repository content: pinned commit '' @ baseCommit @ '' is unavailable''))
          else (case execGit [''cat-file'', ''blob'', baseCommit @ '':'' @ path] BlobMode [] blobEvents of
              Inl e \<Rightarrow> Inl e
            | Inr (_, stdout) \<Rightarrow>
                (case decode_utf8 stdout of None \<Rightarrow> Inl (ValidationError ''repository_content_not_utf8'') | Some content \<Rightarrow> Inr content)))"

section \<open>Items\<close>

record resolution_scope =
  rs_scopeProjectId :: string
  rs_scopeTaskId :: string
  rs_scopeTaskSpecVersionId :: string
  rs_scopeBaseBaselineId :: string
  rs_scopeExpectedRepositoryRevisionId :: string

record resolved_item =
  ri_itemType :: context_item_type
  ri_sourceRef :: string
  ri_resolvedContent :: string
  ri_contentHash :: string
  ri_authority :: context_authority
  ri_priority :: context_priority
  ri_tokenEstimate :: int
  ri_selectionReason :: "string option"

text \<open>
  The outside of one operation: the commands performed while its \<open>n\<close>-th step is awaited and while
  that step waits for git, and the events of its two git processes.
\<close>

record resolver_env =
  rv_others :: "nat \<Rightarrow> command list"
  rv_reading :: "nat \<Rightarrow> command list"
  rv_commitEvents :: "nat \<Rightarrow> child_event list"
  rv_blobEvents :: "nat \<Rightarrow> child_event list"

definition validateContextResolutionScope :: "resolution_scope \<Rightarrow> unit cmd" where
  "validateContextResolutionScope scope =
     andThen (requireTask (rs_scopeTaskId scope)) (\<lambda>task.
     andThen (throw_if (tk_projectId task \<noteq> rs_scopeProjectId scope)
       (ValidationError (''Task '' @ tk_id task @ '' does not belong to Project '' @ rs_scopeProjectId scope))) (\<lambda>_.
     andThen (requireTaskSpecVersion (rs_scopeTaskSpecVersionId scope)) (\<lambda>spec.
     andThen (throw_if (ts_taskId spec \<noteq> rs_scopeTaskId scope)
       (ValidationError (''TaskSpecVersion '' @ ts_id spec @ '' does not belong to Task '' @ rs_scopeTaskId scope))) (\<lambda>_.
     andThen (getBaseline (rs_scopeBaseBaselineId scope)) (\<lambda>baseline.
     andThen (throw_if (bl_projectId baseline \<noteq> rs_scopeProjectId scope)
       (ValidationError (''ProjectBaseline '' @ bl_id baseline @ '' does not belong to Project '' @ rs_scopeProjectId scope))) (\<lambda>_.
     andThen (throw_if (bl_status baseline \<noteq> BS_ACTIVE)
       (ValidationError (''ProjectBaseline '' @ bl_id baseline @ '' is not ACTIVE and cannot be pinned by a snapshot''))) (\<lambda>_.
     andThen (requireRepositoryRevision (rs_scopeExpectedRepositoryRevisionId scope)) (\<lambda>_.
     ret ()))))))))"

definition stored_target_json :: "task_target_row \<Rightarrow> string" where
  "stored_target_json target =
     stringify (JObj [(''nodeId'', jopt (tt_nodeId target)), (''nodeVersionId'', jopt (tt_nodeVersionId target)),
                      (''position'', JNum (tt_position target))])"

definition stored_criterion_json :: "acceptance_criterion_row \<Rightarrow> string" where
  "stored_criterion_json criterion =
     stringify (JObj [(''description'', JStr (ac_description criterion)),
       (''verificationMethod'', JStr (verification_method_str (ac_verificationMethod criterion))),
       (''position'', JNum (ac_position criterion))])"

definition task_spec_content :: "task_spec_version_row \<Rightarrow> task_target_row list \<Rightarrow> acceptance_criterion_row list \<Rightarrow> string" where
  "task_spec_content spec targets criteria =
     stringify (JObj
       [(''description'', JStr (ts_description spec)), (''scope'', JStr (ts_scope spec)),
        (''targets'', JArr (map (\<lambda>t. JStr (stored_target_json t)) targets)),
        (''criteria'', JArr (map (\<lambda>c. JStr (stored_criterion_json c)) criteria))])"

definition materializeTaskSpec :: "services \<Rightarrow> resolution_scope \<Rightarrow> resolved_item cmd" where
  "materializeTaskSpec sv scope =
     andThen (requireTaskSpecVersion (rs_scopeTaskSpecVersionId scope)) (\<lambda>spec.
     andThen (throw_if (ts_taskId spec \<noteq> rs_scopeTaskId scope)
       (ValidationError (''TaskSpecVersion '' @ ts_id spec @ '' does not belong to Task '' @ rs_scopeTaskId scope))) (\<lambda>_.
     andThen (listTaskTargets (ts_id spec)) (\<lambda>targets.
     andThen (listCriteria (ts_id spec)) (\<lambda>criteria.
     (let resolvedContent = task_spec_content spec targets criteria in
      ret \<lparr>ri_itemType = USER_INPUT, ri_sourceRef = sourceRefToString (TaskSpecVersionRef (ts_id spec)),
           ri_resolvedContent = resolvedContent, ri_contentHash = sha256Hex sv resolvedContent,
           ri_authority = CA_TASK_INSTRUCTION, ri_priority = P0, ri_tokenEstimate = estimateTokens resolvedContent,
           ri_selectionReason = None\<rparr>)))))"

definition materializeNodeVersion ::
  "services \<Rightarrow> resolution_scope \<Rightarrow> string \<Rightarrow> string option \<Rightarrow> resolved_item cmd" where
  "materializeNodeVersion sv scope nodeVersionId selectionReason =
     andThen (requireNodeVersion nodeVersionId) (\<lambda>version.
     andThen (requireNode (nv_nodeId version)) (\<lambda>node.
     andThen (throw_if (nd_projectId node \<noteq> rs_scopeProjectId scope)
       (ValidationError (''NodeVersion '' @ nv_id version @ '' does not belong to Project '' @ rs_scopeProjectId scope))) (\<lambda>_.
     andThen (listBaselineItems (rs_scopeBaseBaselineId scope)) (\<lambda>baselineItems.
     andThen (throw_if (\<not> list_ex (\<lambda>item. bi_nodeVersionId item = nv_id version) baselineItems)
       (ValidationError (''NodeVersion '' @ nv_id version @ '' is not a member of Baseline '' @ rs_scopeBaseBaselineId scope))) (\<lambda>_.
     (let resolvedContent = canonicalContent (nv_title version) (nv_body version) in
      ret \<lparr>ri_itemType = NODE_VERSION, ri_sourceRef = sourceRefToString (NodeVersionRef (nv_id version)),
           ri_resolvedContent = resolvedContent, ri_contentHash = sha256Hex sv resolvedContent,
           ri_authority = CA_PROJECT_FACT, ri_priority = P1, ri_tokenEstimate = estimateTokens resolvedContent,
           ri_selectionReason = selectionReason\<rparr>))))))"

definition materializeRepositoryContent ::
  "services \<Rightarrow> resolver_env \<Rightarrow> nat \<Rightarrow> resolution_scope \<Rightarrow> string \<Rightarrow> string option \<Rightarrow> resolved_item cmd" where
  "materializeRepositoryContent sv env n scope path selectionReason =
     andThen (throw_if (\<not> isCanonicalRepositoryPath path) (ValidationError ''repository_content_non_canonical_path'')) (\<lambda>_.
     andThen (requireRepositoryRevision (rs_scopeExpectedRepositoryRevisionId scope)) (\<lambda>revision.
     andThen (throw_if (rr_workingTreePatchHash revision \<noteq> None)
       (ValidationError ''repository_content_dirty_revision_unsupported'')) (\<lambda>_.
     andThen (awaits sv (rv_reading env n)
       (readFileAtCommit (rv_commitEvents env n) (rv_blobEvents env n) path (rr_baseCommit revision))) (\<lambda>content.
     ret \<lparr>ri_itemType = REPOSITORY_CONTENT, ri_sourceRef = sourceRefToString (RepositoryContentRef path),
          ri_resolvedContent = content, ri_contentHash = sha256Hex sv content,
          ri_authority = CA_REFERENCE, ri_priority = P2, ri_tokenEstimate = estimateTokens content,
          ri_selectionReason = selectionReason\<rparr>))))"

definition resolve :: "services \<Rightarrow> resolver_env \<Rightarrow> nat \<Rightarrow> resolution_scope \<Rightarrow> source_reference \<Rightarrow> resolved_item cmd" where
  "resolve sv env n scope ref =
     andThen (validateContextResolutionScope scope) (\<lambda>_.
     case ref of
       TaskSpecVersionRef i \<Rightarrow>
         andThen (throw_if (i \<noteq> rs_scopeTaskSpecVersionId scope) (ValidationError ''task_spec_binding_mismatch'')) (\<lambda>_.
         materializeTaskSpec sv scope)
     | NodeVersionRef i \<Rightarrow> materializeNodeVersion sv scope i None
     | RepositoryContentRef path \<Rightarrow> materializeRepositoryContent sv env n scope path None)"

datatype freeze_source = NodeVersionSource string | RepositoryContentSource string

record freeze_selection =
  fs_source :: freeze_source
  fs_selectionReason :: "string option"

definition materialize_selection ::
  "services \<Rightarrow> resolver_env \<Rightarrow> nat \<Rightarrow> resolution_scope \<Rightarrow> freeze_selection \<Rightarrow> resolved_item cmd" where
  "materialize_selection sv env n scope selection =
     (case fs_source selection of
        RepositoryContentSource path \<Rightarrow> materializeRepositoryContent sv env n scope path (fs_selectionReason selection)
      | NodeVersionSource i \<Rightarrow> materializeNodeVersion sv scope i (fs_selectionReason selection))"

fun materialize_from ::
  "services \<Rightarrow> resolver_env \<Rightarrow> resolution_scope \<Rightarrow> nat \<Rightarrow> string list \<Rightarrow> freeze_selection list \<Rightarrow> resolved_item list cmd" where
  "materialize_from sv env scope n seen [] = ret []"
| "materialize_from sv env scope n seen (selection # selections) =
     andThen (materialize_selection sv env n scope selection) (\<lambda>item.
     andThen (throw_if (ri_sourceRef item \<in> set seen) (ValidationError (''duplicate_context_source: '' @ ri_sourceRef item))) (\<lambda>_.
     andThen (materialize_from sv env scope (Suc n) (ri_sourceRef item # seen) selections) (\<lambda>items.
     ret (item # items))))"

text \<open>The pinned specification comes first; its resolution is awaited too.\<close>

definition materialize ::
  "services \<Rightarrow> resolver_env \<Rightarrow> resolution_scope \<Rightarrow> freeze_selection list \<Rightarrow> resolved_item list cmd" where
  "materialize sv env scope selections =
     andThen (validateContextResolutionScope scope) (\<lambda>_.
     andThen (resolve sv env 0 scope (TaskSpecVersionRef (rs_scopeTaskSpecVersionId scope))) (\<lambda>first.
     andThen (awaits sv (rv_others env 0) (Inr ())) (\<lambda>_.
     andThen (materialize_from sv env scope 1 [ri_sourceRef first] selections) (\<lambda>items.
     ret (first # items)))))"

section \<open>Freezing\<close>

definition toFreezeItem :: "nat \<times> resolved_item \<Rightarrow> snapshot_item_input" where
  "toFreezeItem pi = (case pi of (position, item) \<Rightarrow>
     \<lparr>sii_itemType = ri_itemType item, sii_sourceRef = ri_sourceRef item, sii_resolvedContent = ri_resolvedContent item,
      sii_selectionReason = ri_selectionReason item, sii_authority = ri_authority item,
      sii_priority = Some (ri_priority item), sii_tokenEstimate = ri_tokenEstimate item, sii_blobId = None,
      sii_position = int position\<rparr>)"

definition toFreezeItems :: "resolved_item list \<Rightarrow> snapshot_item_input list" where
  "toFreezeItems items = map toFreezeItem (enumerate 0 items)"

definition freezeSnapshot ::
  "services \<Rightarrow> resolver_env \<Rightarrow> resolution_scope \<Rightarrow> freeze_selection list \<Rightarrow> freeze_snapshot_result cmd" where
  "freezeSnapshot sv env scope selections =
     andThen (requireRepositoryRevision (rs_scopeExpectedRepositoryRevisionId scope)) (\<lambda>_.
     andThen (materialize sv env scope selections) (\<lambda>resolved.
     andThen (awaits sv (rv_others env (Suc (length selections))) (Inr ())) (\<lambda>_.
     andThen (nextId sv ''snap_'') (\<lambda>i.
     freezeContextSnapshot sv
       \<lparr>fsi_id = i, fsi_projectId = rs_scopeProjectId scope, fsi_taskId = rs_scopeTaskId scope,
        fsi_taskSpecVersionId = rs_scopeTaskSpecVersionId scope, fsi_baseBaselineId = rs_scopeBaseBaselineId scope,
        fsi_expectedRepositoryRevisionId = rs_scopeExpectedRepositoryRevisionId scope,
        fsi_items = toFreezeItems resolved\<rparr>))))"

fun resolve_all ::
  "services \<Rightarrow> resolver_env \<Rightarrow> nat \<Rightarrow> resolution_scope \<Rightarrow> source_reference list \<Rightarrow> resolved_item list cmd" where
  "resolve_all sv env n scope [] = ret []"
| "resolve_all sv env n scope (ref # refs) =
     andThen (resolve sv env n scope ref) (\<lambda>item.
     andThen (awaits sv (rv_others env n) (Inr ())) (\<lambda>_.
     andThen (resolve_all sv env (Suc n) scope refs) (\<lambda>items. ret (item # items))))"

definition resolveContext ::
  "services \<Rightarrow> resolver_env \<Rightarrow> resolution_scope \<Rightarrow> source_reference list \<Rightarrow> resolved_item list cmd" where
  "resolveContext sv env scope refs = resolve_all sv env 0 scope refs"

end
