(* ===== verification/Artifact_Ingestor.thy ===== *)
theory Artifact_Ingestor
  imports Context_Resolver Worker_Environment
begin

text \<open>
  What the main process accepts of the files a worker left (\<open>apps/desktop/src/main/artifact-ingestor.ts\<close>).
  The descriptors of the worker are claims; the ingestor establishes the facts. The file system
  answers through a record, with the functions of \<open>node:path\<close> as the source takes them
  (\<open>PathFlavor\<close>), and POSIX paths as the instance for which containment is proved.
\<close>

section \<open>Containment of paths\<close>

record path_flavor =
  pf_relative :: "string \<Rightarrow> string \<Rightarrow> string"
  pf_isAbsolute :: "string \<Rightarrow> bool"
  pf_sep :: string

definition isStrictDescendant :: "path_flavor \<Rightarrow> string \<Rightarrow> string \<Rightarrow> bool" where
  "isStrictDescendant flavor candidate ancestor =
     (let rel = pf_relative flavor ancestor candidate in
      rel \<noteq> [] \<and> rel \<noteq> ''..'' \<and> take (2 + length (pf_sep flavor)) rel \<noteq> ''..'' @ pf_sep flavor \<and> \<not> pf_isAbsolute flavor rel)"

text \<open>POSIX: a resolved path is absolute and given by its segments.\<close>

definition absolute_path :: "string list \<Rightarrow> string" where
  "absolute_path segments = ''/'' @ join ''/'' segments"

definition path_segments :: "string \<Rightarrow> string list" where
  "path_segments path = filter (\<lambda>s. s \<noteq> []) (split_on (CHR ''/'') path)"

fun drop_common :: "string list \<Rightarrow> string list \<Rightarrow> string list \<times> string list" where
  "drop_common (x # xs) (y # ys) = (if x = y then drop_common xs ys else (x # xs, y # ys))"
| "drop_common xs ys = (xs, ys)"

text \<open>\<open>path.posix.relative\<close> of two absolute paths without dot segments.\<close>

definition posix_relative :: "string \<Rightarrow> string \<Rightarrow> string" where
  "posix_relative from to =
     (let (up, down) = drop_common (path_segments from) (path_segments to) in
      join ''/'' (map (\<lambda>_. ''..'') up @ down))"

definition posix :: path_flavor where
  "posix = \<lparr>pf_relative = posix_relative, pf_isAbsolute = (\<lambda>p. take 1 p = ''/''), pf_sep = ''/''\<rparr>"

section \<open>The file system\<close>

definition MAX_ARTIFACT_BYTES :: nat where
  "MAX_ARTIFACT_BYTES = 16 * 1024 * 1024"

text \<open>
  \<open>fi_lstat\<close>: whether the path is a symbolic link and whether it is a regular file; \<open>fi_stat\<close>: the size
  of the open file; \<open>fi_reads\<close>: what the successive reads return, before an empty one.
\<close>

record ingest_files =
  fi_flavor :: path_flavor
  fi_join :: "string \<Rightarrow> string \<Rightarrow> string"
  fi_realpath :: "string \<Rightarrow> string + string"
  fi_lstat :: "string \<Rightarrow> string + bool \<times> bool"
  fi_open :: "string \<Rightarrow> string option"
  fi_stat :: "string \<Rightarrow> string + nat"
  fi_reads :: "string \<Rightarrow> (string + string) list"

definition or_fail :: "string + 'a \<Rightarrow> ('a \<Rightarrow> error + 'b) \<Rightarrow> error + 'b" where
  "or_fail x f = (case x of Inl message \<Rightarrow> Inl (PlainError message) | Inr v \<Rightarrow> f v)"

definition or_throw :: "error + 'a \<Rightarrow> ('a \<Rightarrow> error + 'b) \<Rightarrow> error + 'b" where
  "or_throw x f = (case x of Inl e \<Rightarrow> Inl e | Inr v \<Rightarrow> f v)"

definition invalid :: "bool \<Rightarrow> string \<Rightarrow> error + 'a \<Rightarrow> error + 'a" where
  "invalid b code rest = (if b then Inl (ValidationError code) else rest)"

fun read_chunks :: "string \<Rightarrow> (string + string) list \<Rightarrow> error + string" where
  "read_chunks buffer [] = Inr buffer"
| "read_chunks buffer (Inl message # reads) = Inl (PlainError message)"
| "read_chunks buffer (Inr chunk # reads) =
     (let got = take (MAX_ARTIFACT_BYTES + 1 - length buffer) chunk in
      if got = [] then Inr buffer
      else if length (buffer @ got) > MAX_ARTIFACT_BYTES then Inl (ValidationError ''artifact_too_large'')
      else read_chunks (buffer @ got) reads)"

definition readBounded :: "ingest_files \<Rightarrow> string \<Rightarrow> error + string" where
  "readBounded files path =
     (case fi_open files path of
        Some message \<Rightarrow> Inl (PlainError message)
      | None \<Rightarrow>
          or_fail (fi_stat files path) (\<lambda>size.
          invalid (size > MAX_ARTIFACT_BYTES) ''artifact_too_large''
            (read_chunks [] (fi_reads files path))))"

definition validateFileName :: "string \<Rightarrow> bool" where
  "validateFileName fileName \<longleftrightarrow>
     fileName \<noteq> [] \<and> fileName \<noteq> ''.'' \<and> fileName \<noteq> ''..''
     \<and> \<not> list_ex (\<lambda>c. c = CHR 0x5C \<or> c = CHR ''/'' \<or> c = CHR 0x00) fileName"

section \<open>Ingestion\<close>

definition ingest_one :: "(string \<Rightarrow> string) \<Rightarrow> ingest_files \<Rightarrow> string \<Rightarrow> artifact_descriptor \<Rightarrow> error + artifact_input" where
  "ingest_one sha files executionDirectory descriptor =
     invalid (\<not> validateFileName (ad_fileName descriptor)) ''artifact_invalid_file_name''
     (let unresolvedPath = fi_join files executionDirectory (ad_fileName descriptor) in
      or_fail (fi_lstat files unresolvedPath) (\<lambda>(isSymbolicLink, isFile).
      invalid isSymbolicLink ''artifact_symlink_unsupported''
      (invalid (\<not> isFile) ''artifact_not_regular_file''
      (or_fail (fi_realpath files unresolvedPath) (\<lambda>artifactPath.
       invalid (\<not> isStrictDescendant (fi_flavor files) artifactPath executionDirectory) ''artifact_path_escape''
       (or_throw (readBounded files artifactPath) (\<lambda>bytes.
        invalid (int (length bytes) \<noteq> ad_sizeBytes descriptor) ''artifact_size_mismatch''
        (case decode_utf8 bytes of
           None \<Rightarrow> Inl (ValidationError ''artifact_not_utf8'')
         | Some content \<Rightarrow>
             invalid (sha content \<noteq> ad_contentHash descriptor) ''artifact_hash_mismatch''
             (Inr \<lparr>ari_kind = ad_kind descriptor, ari_fileName = ad_fileName descriptor, ari_content = content,
                   ari_contentHash = sha content, ari_sizeBytes = int (length bytes)\<rparr>)))))))))"

fun ingest_all ::
  "(string \<Rightarrow> string) \<Rightarrow> ingest_files \<Rightarrow> string \<Rightarrow> artifact_descriptor list \<Rightarrow> error + artifact_input list" where
  "ingest_all sha files directory [] = Inr []"
| "ingest_all sha files directory (d # ds) =
     or_throw (ingest_one sha files directory d) (\<lambda>x.
     or_throw (ingest_all sha files directory ds) (\<lambda>xs. Inr (x # xs)))"

definition ingest ::
  "(string \<Rightarrow> string) \<Rightarrow> ingest_files \<Rightarrow> string \<Rightarrow> string \<Rightarrow> artifact_descriptor list \<Rightarrow> error + artifact_input list" where
  "ingest sha files runtimeDirectory executionRequestId descriptors =
     (if descriptors = [] then Inr []
      else or_fail (fi_realpath files (fi_join files runtimeDirectory ''artifacts'')) (\<lambda>trustedArtifactRoot.
           or_fail (fi_realpath files (fi_join files trustedArtifactRoot executionRequestId)) (\<lambda>executionDirectory.
           invalid (\<not> isStrictDescendant (fi_flavor files) executionDirectory trustedArtifactRoot) ''artifact_execution_dir_escape''
             (ingest_all sha files executionDirectory descriptors))))"

end
