(* ===== verification/Execution_Coordinator.thy ===== *)
theory Execution_Coordinator
  imports Artifact_Ingestor
begin

text \<open>
  The dispatch of a run by the main process (\<open>apps/desktop/src/main/execution-coordinator.ts\<close>,
  \<open>execution-profile.ts\<close>): it builds the request from a frozen snapshot, stores run and request,
  hands the request to the worker, and stores what came back. The worker, the files it left and
  the clock are answers; other commands may run while the coordinator waits.
\<close>

section \<open>The request\<close>

definition profile_requiredCapabilities :: "string list" where
  "profile_requiredCapabilities = [''git'', ''node'']"

definition profile_agentConfiguration :: agent_configuration where
  "profile_agentConfiguration = \<lparr>ag_provider = ''codex-cli'', ag_model = ''configured-by-user''\<rparr>"

definition profile_toolPolicy :: tool_policy where
  "profile_toolPolicy =
     \<lparr>tp_allowedTools = [''write_file'', ''run_command''], tp_deniedPaths = [], tp_allowNetwork = False, tp_allowShell = True\<rparr>"

definition profile_resourceBudget :: resource_budget where
  "profile_resourceBudget =
     \<lparr>rb_maxDurationMs = 900000, rb_maxToolCalls = 100, rb_maxTokens = None, rb_maxCostCents = None,
      rb_maxDiskBytes = 1000000000\<rparr>"

text \<open>
  The outside of one dispatch: \<open>ce_expiry\<close> is \<open>new Date(Date.parse(now) + 24 h).toISOString()\<close>; the
  commands performed while the coordinator waits for the worker, for the files and for an
  interruption.
\<close>

record coordinator_env =
  ce_expiry :: "string \<Rightarrow> string"
  ce_worker :: "execution_request \<Rightarrow> error + dispatch_result"
  ce_files :: ingest_files
  ce_runtimeDirectory :: string
  ce_whileWorking :: "command list"
  ce_whileIngesting :: "command list"

definition bundle_item :: "context_snapshot_item_row \<Rightarrow> context_item_v2" where
  "bundle_item row =
     \<lparr>xi_position = si_position row, xi_itemType = si_itemType row, xi_sourceRef = si_sourceRef row,
      xi_resolvedContent = si_resolvedContent row, xi_contentHash = si_contentHash row,
      xi_authority = si_authority row, xi_priority = si_priority row, xi_tokenEstimate = si_tokenEstimate row\<rparr>"

definition bundle_of :: "(string \<Rightarrow> string) \<Rightarrow> context_item_v2 list \<Rightarrow> context_bundle_v2" where
  "bundle_of sha items =
     (let (totalBytes, contentHash) = computeExecutionContextBundle sha items in
      \<lparr>xb_items = items, xb_contentHash = contentHash, xb_totalBytes = totalBytes\<rparr>)"

definition materializeContextBundle :: "services \<Rightarrow> string \<Rightarrow> context_bundle_v2 cmd" where
  "materializeContextBundle sv snapshotId =
     andThen (listSnapshotItems snapshotId) (\<lambda>rows.
     (let items = map bundle_item rows in
     andThen (throw_if (items = [])
       (ValidationError (''ContextSnapshot '' @ snapshotId @ '' has no materialized context items; dispatch is blocked''))) (\<lambda>_.
     (let bundle = bundle_of (sv_sha256Hex sv) items in
      case assertValidExecutionContextBundle (sv_sha256Hex sv) bundle of
        Inl e \<Rightarrow> throw (ValidationError (''ContextSnapshot '' @ snapshotId @ '' failed bundle validation: '' @ e))
      | Inr _ \<Rightarrow> ret bundle))))"

definition base_request ::
  "coordinator_env \<Rightarrow> string \<Rightarrow> string \<Rightarrow> string \<Rightarrow> context_snapshot_row \<Rightarrow> repository_revision_row \<Rightarrow> context_bundle_v2
   \<Rightarrow> execution_request" where
  "base_request env executionRequestId runId t snapshot revision bundle =
     \<lparr>xr_executionRequestId = executionRequestId, xr_runId = runId, xr_workerAttemptNumber = 1,
      xr_taskSpecVersionId = sn_taskSpecVersionId snapshot, xr_contextSnapshotId = sn_id snapshot,
      xr_expectedRepositoryRevision =
        \<lparr>rc_baseCommit = rr_baseCommit revision, rc_treeHash = rr_treeHash revision,
         rc_workingTreePatchHash = rr_workingTreePatchHash revision\<rparr>,
      xr_checkpointId = None, xr_requiredCapabilities = profile_requiredCapabilities,
      xr_agentConfiguration = profile_agentConfiguration, xr_toolPolicy = profile_toolPolicy,
      xr_resourceBudget = profile_resourceBudget, xr_contextBundle = Some bundle,
      xr_expiresAt = ce_expiry env t, xr_requestHash = []\<rparr>"

definition signed_request :: "(string \<Rightarrow> string) \<Rightarrow> execution_request \<Rightarrow> execution_request" where
  "signed_request sha r = r\<lparr>xr_requestHash := computeRequestHash sha r\<rparr>"

definition dispatched_run_input :: "string \<Rightarrow> context_snapshot_row \<Rightarrow> execution_request \<Rightarrow> create_dispatched_run_input" where
  "dispatched_run_input t snapshot request =
     \<lparr>cdr_runId = xr_runId request, cdr_projectId = sn_projectId snapshot, cdr_taskId = sn_taskId snapshot,
      cdr_taskSpecVersionId = sn_taskSpecVersionId snapshot, cdr_contextSnapshotId = sn_id snapshot,
      cdr_repositoryRevisionId = sn_expectedRepositoryRevisionId snapshot, cdr_startedAt = t, cdr_now = t,
      cdr_request =
        \<lparr>dq_executionRequestId = xr_executionRequestId request, dq_workerAttemptNumber = xr_workerAttemptNumber request,
         dq_checkpointId = xr_checkpointId request, dq_requestHash = xr_requestHash request,
         dq_schemaVersion = xr_schemaVersion request, dq_requestJson = stableStringify (request_json request),
         dq_dispatchedAt = t\<rparr>\<rparr>"

text \<open>Everything before the worker is called, in one turn of the event loop.\<close>

definition prepare :: "services \<Rightarrow> coordinator_env \<Rightarrow> string \<Rightarrow> string \<Rightarrow> execution_request cmd" where
  "prepare sv env contextSnapshotId executionRequestId =
     andThen (getSnapshot contextSnapshotId) (\<lambda>snapshot.
     andThen (throw_if (sn_status snapshot \<noteq> SS_FROZEN)
       (ValidationError (''ContextSnapshot '' @ sn_id snapshot @ '' is not FROZEN''))) (\<lambda>_.
     andThen (requireTaskSpecVersion (sn_taskSpecVersionId snapshot)) (\<lambda>_.
     andThen (requireRepositoryRevision (sn_expectedRepositoryRevisionId snapshot)) (\<lambda>revision.
     andThen (throw_if (rr_workingTreePatchHash revision \<noteq> None)
       (ValidationError (''DIRTY_REPOSITORY_EXECUTION_UNSUPPORTED: the repository has uncommitted changes ''
          @ ''and v0.2 does not materialize dirty source state''))) (\<lambda>_.
     andThen (materializeContextBundle sv (sn_id snapshot)) (\<lambda>bundle.
     andThen (nextId sv ''run_'') (\<lambda>runId.
     andThen (now sv) (\<lambda>t.
     (let request = signed_request (sv_sha256Hex sv) (base_request env executionRequestId runId t snapshot revision bundle) in
     andThen (createDispatchedRun sv (dispatched_run_input t snapshot request)) (\<lambda>_.
     ret request))))))))))"

section \<open>The answer\<close>

definition recovery_state_str :: "recovery_state \<Rightarrow> string" where
  "recovery_state_str s = (case s of RECOVERY_RUNNING \<Rightarrow> ''running'' | RECOVERY_INTERRUPTED \<Rightarrow> ''interrupted'')"

definition recovery_json :: "recovery_metadata \<Rightarrow> json" where
  "recovery_json m = JObj
     ([(''executionRequestId'', JStr (rm_executionRequestId m)), (''worktreePath'', JStr (rm_worktreePath m)),
       (''state'', JStr (recovery_state_str (rm_state m))), (''startedAt'', JStr (rm_startedAt m))]
      @ optional_member ''interruptedAt'' JStr (rm_interruptedAt m)
      @ [(''cleanupSucceeded'', JBool (rm_cleanupSucceeded m))])"

definition toDispatchMetadata :: "dispatch_result \<Rightarrow> dispatch_result_metadata" where
  "toDispatchMetadata r =
     \<lparr>dm_dispatchOutcome = dr_outcome r, dm_claimGranted = dr_claimGranted r, dm_rejectionReason = dr_rejectionReason r,
      dm_revisionMismatchField = map_option mi_field (dr_revisionMismatch r),
      dm_revisionMismatchExpected = Option.bind (dr_revisionMismatch r) mi_expected,
      dm_revisionMismatchActual = Option.bind (dr_revisionMismatch r) mi_actual,
      dm_patchHash = dr_patchHash r, dm_timedOut = dr_timedOut r,
      dm_recoveryJson = map_option (\<lambda>m. stableStringify (recovery_json m)) (dr_recovery r)\<rparr>"

text \<open>\<open>interrupt\<close>: an error of the command is logged and dropped.\<close>

definition interrupt ::
  "services \<Rightarrow> string \<Rightarrow> string \<Rightarrow> string \<Rightarrow> dispatch_result option \<Rightarrow> string option \<Rightarrow> unit cmd" where
  "interrupt sv runId executionRequestId reasonCode terminalResult terminalCompletedAt =
     andThen (now sv) (\<lambda>t s.
       (Inr (), snd (interruptRun sv
          \<lparr>iri_runId = runId, iri_executionRequestId = executionRequestId, iri_reasonCode = reasonCode, iri_now = t,
           iri_terminalMetadata = map_option toDispatchMetadata terminalResult,
           iri_terminalCompletedAt = terminalCompletedAt\<rparr> s)))"

definition catching :: "'a cmd \<Rightarrow> (error \<Rightarrow> 'a cmd) \<Rightarrow> 'a cmd" where
  "catching m handler s = (case m s of (Inl e, t) \<Rightarrow> handler e t | (Inr x, t) \<Rightarrow> (Inr x, t))"

record execution_response =
  xs_runId :: string
  xs_executionRequestId :: string
  xs_result :: dispatch_result

text \<open>From the answer of the worker on.\<close>

definition settle :: "services \<Rightarrow> coordinator_env \<Rightarrow> execution_request \<Rightarrow> dispatch_result \<Rightarrow> execution_response cmd" where
  "settle sv env request result =
     (let runId = xr_runId request; i = xr_executionRequestId request in
      andThen (now sv) (\<lambda>completedAt.
      andThen (catching
        (awaits sv (ce_whileIngesting env)
          (ingest (sv_sha256Hex sv) (ce_files env) (ce_runtimeDirectory env) i (default_to (dr_artifacts result) [])))
        (\<lambda>e. andThen (interrupt sv runId i ''artifact_integrity_failure'' (Some result) (Some completedAt)) (\<lambda>_. throw e))) (\<lambda>artifacts.
      andThen (catching
        (finalizeRun sv
          \<lparr>fri_runId = runId, fri_executionRequestId = i, fri_metadata = toDispatchMetadata result,
           fri_completedAt = completedAt, fri_now = completedAt, fri_artifacts = artifacts\<rparr>)
        (\<lambda>e. andThen (interrupt sv runId i ''durable_finalize_failure'' (Some result) (Some completedAt)) (\<lambda>_. throw e))) (\<lambda>_.
      ret \<lparr>xs_runId = runId, xs_executionRequestId = i, xs_result = result\<rparr>))))"

definition dispatch_run :: "services \<Rightarrow> coordinator_env \<Rightarrow> string \<Rightarrow> string \<Rightarrow> execution_response cmd" where
  "dispatch_run sv env contextSnapshotId executionRequestId =
     andThen (prepare sv env contextSnapshotId executionRequestId) (\<lambda>request.
     andThen (catching
       (awaits sv (ce_whileWorking env) (ce_worker env request))
       (\<lambda>e. andThen (interrupt sv (xr_runId request) executionRequestId ''worker_host_failure'' None None) (\<lambda>_. throw e))) (\<lambda>result.
     settle sv env request result))"

end
