(* ===== verification/Repository_Writer.thy ===== *)
theory Repository_Writer
  imports Artifact_Ingestor
begin

text \<open>
  The side effect on the real repository (\<open>apps/desktop/src/main/git-repository-writer.ts\<close>) and the
  reading of its revision (\<open>git-revision-reader.ts\<close>). Git answers at the places where it is called;
  the hooks directory, the author and the dates that the calls carry do not matter to what follows
  from the answers.
\<close>

section \<open>Calls of git\<close>

datatype git_answer = GitUnavailable string | GitExited "int option" string string

datatype head_look = BeforeApply | BeforeReset | AfterReset | AfterCommit | Reconciling | AfterFailure

datatype writer_point = HeadAt head_look | RevisionAt head_look | Mutating

record writer_env =
  wr_runtimePath :: "string \<Rightarrow> string"
  wr_mkdir :: "string option"
  wr_writePatch :: "string option"
  wr_git :: "writer_point \<Rightarrow> string list \<Rightarrow> git_answer"

text \<open>\<open>gitOutput\<close>; \<open>runGit\<close> is the same without the output.\<close>

definition gitOutput :: "writer_env \<Rightarrow> writer_point \<Rightarrow> string list \<Rightarrow> error + string" where
  "gitOutput env point args =
     (case wr_git env point args of
        GitUnavailable message \<Rightarrow> Inl (PlainError (''git unavailable: '' @ message))
      | GitExited code stdout stderr \<Rightarrow>
          if code \<noteq> Some 0 then Inl (PlainError (''git '' @ join '' '' args @ '' failed: '' @ trim_text stderr))
          else Inr stdout)"

definition runGit :: "writer_env \<Rightarrow> string list \<Rightarrow> error + unit" where
  "runGit env args = or_throw (gitOutput env Mutating args) (\<lambda>_. Inr ())"

section \<open>Looking\<close>

record head_inspection =
  hi_baseCommit :: string
  hi_parent :: "string option"
  hi_message :: string
  hi_clean :: bool

definition inspectHead :: "writer_env \<Rightarrow> head_look \<Rightarrow> error + head_inspection" where
  "inspectHead env look =
     or_throw (gitOutput env (HeadAt look) [''rev-parse'', ''HEAD'']) (\<lambda>baseCommit.
     or_throw (gitOutput env (HeadAt look) [''log'', ''-1'', ''--format=%P'']) (\<lambda>parent.
     or_throw (gitOutput env (HeadAt look) [''log'', ''-1'', ''--format=%B'']) (\<lambda>message.
     or_throw (gitOutput env (HeadAt look) [''status'', ''--porcelain'']) (\<lambda>status.
     Inr \<lparr>hi_baseCommit = trim_text baseCommit,
          hi_parent = (if trim_text parent = [] then None else Some (trim_text parent)), hi_message = message,
          hi_clean = (trim_text status = [])\<rparr>))))"

definition currentRevision :: "writer_env \<Rightarrow> head_look \<Rightarrow> error + revision_contract" where
  "currentRevision env look =
     or_throw (gitOutput env (RevisionAt look) [''rev-parse'', ''HEAD'']) (\<lambda>baseCommit.
     or_throw (gitOutput env (RevisionAt look) [''rev-parse'', ''HEAD^{tree}'']) (\<lambda>treeHash.
     or_throw (gitOutput env (RevisionAt look) [''status'', ''--porcelain'']) (\<lambda>status.
     Inr \<lparr>rc_baseCommit = trim_text baseCommit, rc_treeHash = trim_text treeHash,
          rc_workingTreePatchHash = (if trim_text status = [] then None else Some ''dirty'')\<rparr>)))"

section \<open>Applying a patch\<close>

record apply_patch_input =
  api_applicationId :: string
  api_baseCommit :: string
  api_patchContent :: string
  api_patchHash :: string
  api_taskId :: string
  api_runId :: string
  api_artifactId :: string
  api_authorizedAt :: string

definition assertHeadEquals :: "writer_env \<Rightarrow> string \<Rightarrow> error + unit" where
  "assertHeadEquals env expectedBaseCommit =
     or_throw (inspectHead env BeforeApply) (\<lambda>head.
     invalid (hi_baseCommit head \<noteq> expectedBaseCommit) ''adoption_base_changed''
     (invalid (\<not> hi_clean head) ''adoption_base_dirty'' (Inr ())))"

definition compensateIfPossible :: "writer_env \<Rightarrow> string \<Rightarrow> error + unit" where
  "compensateIfPossible env expectedBaseCommit =
     or_throw (inspectHead env BeforeReset) (\<lambda>head.
     if hi_baseCommit head \<noteq> expectedBaseCommit then Inr ()
     else (let reset = runGit env [''reset'', ''--hard'', expectedBaseCommit] \<comment> \<open>\<open>.catch(() => undefined)\<close>\<close> in
       or_throw (inspectHead env AfterReset) (\<lambda>after.
       invalid (hi_baseCommit after \<noteq> expectedBaseCommit \<or> \<not> hi_clean after) ''adoption_compensation_failed'' (Inr ()))))"

definition commitMessage :: "apply_patch_input \<Rightarrow> string" where
  "commitMessage inp =
     join [CHR 0x0A]
       [''canvas-agent: adopt '' @ api_taskId inp, [], ''Canvas-Agent-Application: '' @ api_applicationId inp,
        ''Canvas-Agent-Run: '' @ api_runId inp, ''Canvas-Agent-Artifact: '' @ api_artifactId inp,
        ''Canvas-Agent-Patch-SHA256: '' @ api_patchHash inp]"

definition patchFile :: "writer_env \<Rightarrow> apply_patch_input \<Rightarrow> string" where
  "patchFile env inp = wr_runtimePath env (''adoption-patch-'' @ api_applicationId inp @ ''.diff'')"

text \<open>The inner \<open>try\<close>: an error is thrown again once the compensation has run.\<close>

definition apply_and_commit :: "writer_env \<Rightarrow> apply_patch_input \<Rightarrow> error + unit" where
  "apply_and_commit env inp =
     (case or_throw (runGit env [''apply'', ''--index'', patchFile env inp]) (\<lambda>_. runGit env [''commit'', ''-m'', commitMessage inp]) of
        Inr _ \<Rightarrow> Inr ()
      | Inl e \<Rightarrow> or_throw (compensateIfPossible env (api_baseCommit inp)) (\<lambda>_. Inl e))"

definition applyAcceptedPatch :: "writer_env \<Rightarrow> apply_patch_input \<Rightarrow> error + revision_contract" where
  "applyAcceptedPatch env inp =
     (case (wr_mkdir env, wr_writePatch env) of
        (Some message, _) \<Rightarrow> Inl (PlainError message)
      | (None, Some message) \<Rightarrow> Inl (PlainError message)
      | (None, None) \<Rightarrow>
          or_throw (assertHeadEquals env (api_baseCommit inp)) (\<lambda>_.
          or_throw (runGit env [''apply'', ''--check'', patchFile env inp]) (\<lambda>_.
          or_throw (apply_and_commit env inp) (\<lambda>_.
          or_throw (inspectHead env AfterCommit) (\<lambda>head.
          invalid (hi_parent head \<noteq> Some (api_baseCommit inp)) ''adoption commit parent does not match the expected base''
          (invalid (\<not> hi_clean head) ''adoption commit left a dirty working tree''
          (currentRevision env AfterCommit)))))))"

section \<open>The revision of the repository\<close>

text \<open>\<open>GitRevisionReader.current\<close>, given what \<open>readRepositoryRevision\<close> returned.\<close>

definition current :: "error + actual_revision \<Rightarrow> error + revision_contract" where
  "current answer =
     or_throw answer (\<lambda>revision.
     case (av_baseCommit revision, av_treeHash revision) of
       (Some baseCommit, Some treeHash) \<Rightarrow>
         Inr \<lparr>rc_baseCommit = baseCommit, rc_treeHash = treeHash, rc_workingTreePatchHash = av_workingTreePatchHash revision\<rparr>
     | _ \<Rightarrow> Inl (RepositoryUnavailableError ''repository_has_no_head''))"

end
