(* ===== verification/Workspace_Service.thy ===== *)
theory Workspace_Service
  imports Execution_Coordinator Repository_Writer
begin

text \<open>
  The services of an open workspace (\<open>apps/desktop/src/main/workspace-service.ts\<close>): the persistence
  commands with generated ids, and the operations that also look at or change the repository:
  candidate baselines, activation, and the adoption of an artifact with its recovery.
  \<open>freezeSnapshot\<close> and \<open>resolveContext\<close> are in \<open>Context_Resolver\<close>.
\<close>

text \<open>
  The outside of one operation: what \<open>readRepositoryRevision\<close> returned, what the writer meets, and the
  commands that other operations performed while this one was waiting for the \<open>n\<close>-th time.
\<close>

record workspace_env =
  we_revision :: "error + actual_revision"
  we_writer :: writer_env
  we_others :: "nat \<Rightarrow> command list"

section \<open>Commands with generated ids\<close>

definition ws_createProject :: "services \<Rightarrow> string \<Rightarrow> string option \<Rightarrow> project_row cmd" where
  "ws_createProject sv name description =
     andThen (nextId sv ''proj_'') (\<lambda>i.
     createProject sv \<lparr>cpi_id = i, cpi_name = name, cpi_description = description\<rparr>)"

definition ws_getProject :: "string \<Rightarrow> project_row cmd" where
  "ws_getProject projectId =
     andThen (getProject projectId) (require_some (NotFoundError ''Project'' projectId))"

definition ws_createNode :: "services \<Rightarrow> string \<Rightarrow> node_type \<Rightarrow> node_lifecycle option \<Rightarrow> node_row cmd" where
  "ws_createNode sv projectId type given =
     andThen (nextId sv ''node_'') (\<lambda>i.
     createNode sv \<lparr>cni_id = i, cni_projectId = projectId, cni_type = type, cni_lifecycle = given\<rparr>)"

definition ws_upsertNodeDraft ::
  "services \<Rightarrow> string \<Rightarrow> string \<Rightarrow> string option \<Rightarrow> int option \<Rightarrow> node_draft_row cmd" where
  "ws_upsertNodeDraft sv nodeId title body expectedRevision =
     upsertNodeDraft sv \<lparr>und_draftId = None, und_nodeId = nodeId, und_title = title, und_body = body,
       und_expectedRevision = expectedRevision\<rparr>"

definition ws_publishNodeVersion :: "services \<Rightarrow> string \<Rightarrow> string \<Rightarrow> string \<Rightarrow> node_version_row cmd" where
  "ws_publishNodeVersion sv nodeId title body =
     andThen (nextId sv ''nv_'') (\<lambda>i.
     publishNodeVersion sv \<lparr>pnv_id = i, pnv_nodeId = nodeId, pnv_title = title, pnv_body = body\<rparr>)"

definition ws_createTask :: "services \<Rightarrow> string \<Rightarrow> task_type \<Rightarrow> string \<Rightarrow> task_row cmd" where
  "ws_createTask sv projectId type title =
     andThen (nextId sv ''task_'') (\<lambda>i.
     createTask sv \<lparr>cti_id = i, cti_projectId = projectId, cti_type = type, cti_title = title\<rparr>)"

definition ws_publishTaskSpec ::
  "services \<Rightarrow> string \<Rightarrow> string \<Rightarrow> string \<Rightarrow> task_target_input list option \<Rightarrow> acceptance_criterion_input list
   \<Rightarrow> publish_task_spec_result cmd" where
  "ws_publishTaskSpec sv taskId description scope targets criteria =
     andThen (nextId sv ''spec_'') (\<lambda>i.
     publishTaskSpecVersion sv \<lparr>pts_id = i, pts_taskId = taskId, pts_description = description, pts_scope = scope,
       pts_targets = targets, pts_criteria = criteria\<rparr>)"

definition ws_createBaselineDraft ::
  "services \<Rightarrow> string \<Rightarrow> string \<Rightarrow> string option \<Rightarrow> string option \<Rightarrow> string list \<Rightarrow> project_baseline_row cmd" where
  "ws_createBaselineDraft sv projectId name description repositoryRevisionId nodeVersionIds =
     andThen (nextId sv ''baseline_'') (\<lambda>i.
     createBaselineDraft sv \<lparr>cbi_id = i, cbi_projectId = projectId, cbi_name = name, cbi_description = description,
       cbi_repositoryRevisionId = repositoryRevisionId, cbi_nodeVersionIds = nodeVersionIds\<rparr>)"

definition revisionCurrent :: "services \<Rightarrow> workspace_env \<Rightarrow> repository_revision_row cmd" where
  "revisionCurrent sv env =
     andThen (awaits sv (we_others env 0) (current (we_revision env))) (\<lambda>revision.
     andThen (nextId sv ''rev_'') (\<lambda>i.
     upsertRepositoryRevision sv
       \<lparr>rri_id = i, rri_baseCommit = rc_baseCommit revision, rri_treeHash = rc_treeHash revision,
        rri_workingTreePatchHash = rc_workingTreePatchHash revision\<rparr>))"

section \<open>The state of a project\<close>

record project_state_view =
  ps_project :: project_row
  ps_nodes :: "node_row list"
  ps_nodeDrafts :: "node_draft_row list"
  ps_nodeVersions :: "node_version_row list"
  ps_edges :: "edge_row list"
  ps_tasks :: "task_row list"
  ps_taskSpecs :: "(task_spec_version_row \<times> task_target_row list \<times> acceptance_criterion_row list) list"
  ps_baselines :: "(project_baseline_row \<times> baseline_item_row list) list"
  ps_activeBaseline :: "project_baseline_row option"

definition spec_view :: "task_spec_version_row \<Rightarrow> (task_spec_version_row \<times> task_target_row list \<times> acceptance_criterion_row list) cmd" where
  "spec_view spec =
     andThen (listTaskTargets (ts_id spec)) (\<lambda>targets.
     andThen (listCriteria (ts_id spec)) (\<lambda>criteria. ret (spec, targets, criteria)))"

definition projectState :: "string \<Rightarrow> project_state_view cmd" where
  "projectState projectId =
     andThen (ws_getProject projectId) (\<lambda>project.
     andThen (listTasks projectId) (\<lambda>tasks.
     andThen (forEach (\<lambda>task. andThen (listTaskSpecVersions (tk_id task)) (forEach spec_view)) tasks) (\<lambda>taskSpecs.
     andThen (listBaselines projectId) (\<lambda>baselines.
     andThen (forEach (\<lambda>baseline. andThen (listBaselineItems (bl_id baseline)) (\<lambda>items. ret (baseline, items))) baselines) (\<lambda>baselineViews.
     andThen (listNodes projectId) (\<lambda>nodes.
     andThen (listNodeDrafts projectId) (\<lambda>nodeDrafts.
     andThen (listNodeVersions projectId) (\<lambda>nodeVersions.
     andThen (listEdges projectId) (\<lambda>edges.
     andThen (getActiveBaseline projectId) (\<lambda>activeBaseline.
     ret \<lparr>ps_project = project, ps_nodes = nodes, ps_nodeDrafts = nodeDrafts, ps_nodeVersions = nodeVersions,
          ps_edges = edges, ps_tasks = tasks, ps_taskSpecs = concat taskSpecs, ps_baselines = baselineViews,
          ps_activeBaseline = activeBaseline\<rparr>))))))))))"

section \<open>Baselines and the repository\<close>

definition still_at :: "repository_revision_row \<Rightarrow> revision_contract \<Rightarrow> bool" where
  "still_at revision actual \<longleftrightarrow>
     rc_baseCommit actual = rr_baseCommit revision \<and> rc_treeHash actual = rr_treeHash revision \<and> rc_workingTreePatchHash actual = None"

definition ws_createBaselineCandidate :: "services \<Rightarrow> workspace_env \<Rightarrow> create_candidate_input \<Rightarrow> candidate_aggregate cmd" where
  "ws_createBaselineCandidate sv env payload =
     andThen (getArtifactApplicationAggregate (cci_applicationId payload)) (\<lambda>aggregate.
     andThen (throw_if (aag_effectiveStatus aggregate \<noteq> AE_APPLIED)
       (ValidationError ''baseline candidate requires an APPLIED artifact application'')) (\<lambda>_.
     andThen (require_some (ValidationError ''APPLIED application has no resulting repository revision'')
       (aag_repositoryRevision aggregate)) (\<lambda>revision.
     andThen (awaits sv (we_others env 0) (current (we_revision env))) (\<lambda>actual.
     andThen (throw_if (\<not> still_at revision actual)
       (ValidationError ''application result repository revision does not match the real repository'')) (\<lambda>_.
     createBaselineCandidate sv payload)))))"

definition ws_activateBaseline :: "services \<Rightarrow> workspace_env \<Rightarrow> string \<Rightarrow> activate_baseline_result cmd" where
  "ws_activateBaseline sv env baselineId =
     andThen (assertCandidateActivationValid baselineId) (\<lambda>_.
     andThen (requireBaselineCandidateSource baselineId) (\<lambda>source.
     andThen (case source of
         None \<Rightarrow> ret ()
       | Some _ \<Rightarrow>
           andThen (getBaseline baselineId) (\<lambda>candidate.
           andThen (case bl_repositoryRevisionId candidate of
               None \<Rightarrow> throw (ValidationError ''candidate baseline has no repository revision'')
             | Some i \<Rightarrow> requireRepositoryRevision i) (\<lambda>revision.
           andThen (awaits sv (we_others env 0) (current (we_revision env))) (\<lambda>actual.
           throw_if (\<not> still_at revision actual)
             (ValidationError ''baseline repository revision does not match the real repository''))))) (\<lambda>_.
     activateBaseline sv baselineId)))"

section \<open>Adoption\<close>

record apply_artifact_payload =
  aap_taskId :: string
  aap_evaluationId :: string
  aap_artifactId :: string

definition usable_run :: "run_row \<Rightarrow> bool" where
  "usable_run run \<longleftrightarrow>
     rn_status run = RS_FINISHED \<and> rn_outcome run \<in> {Some RO_SUCCEEDED, Some RO_PARTIAL, Some RO_TIMED_OUT}"

text \<open>\<open>error.message\<close> of what the writer throws: errors and validation errors, nothing else.\<close>

definition error_detail :: "error \<Rightarrow> string" where
  "error_detail e = (case e of ValidationError m \<Rightarrow> m | PlainError m \<Rightarrow> m | _ \<Rightarrow> [])"

text \<open>The failure is recorded, then thrown on: the repository is untouched, or nobody knows.\<close>

definition handleApplyFailure :: "services \<Rightarrow> workspace_env \<Rightarrow> string \<Rightarrow> string \<Rightarrow> error \<Rightarrow> 'a cmd" where
  "handleApplyFailure sv env applicationId baseCommit e =
     andThen (awaits sv (we_others env 2) (Inr (inspectHead (we_writer env) AfterFailure))) (\<lambda>head.
     andThen (now sv) (\<lambda>t.
     (let untouched = (case head of Inl _ \<Rightarrow> False | Inr h \<Rightarrow> hi_baseCommit h = baseCommit \<and> hi_clean h);
          record = \<lparr>fap_applicationId = applicationId,
                    fap_reasonCode = (if untouched then ''adoption_apply_failed'' else ''adoption_apply_interrupted''),
                    fap_detail = Some (error_detail e), fap_now = t\<rparr>
      in andThen (if untouched then failApplication sv record else interruptApplication sv record) (\<lambda>_. throw e))))"

definition finalize_at :: "services \<Rightarrow> string \<Rightarrow> revision_contract \<Rightarrow> application_aggregate cmd" where
  "finalize_at sv applicationId revision =
     andThen (now sv) (\<lambda>t.
     finalizeApplicationApplied sv
       \<lparr>fai_applicationId = applicationId, fai_baseCommit = rc_baseCommit revision, fai_treeHash = rc_treeHash revision,
        fai_workingTreePatchHash = rc_workingTreePatchHash revision, fai_now = t\<rparr>)"

text \<open>The writer and what follows it, the same on the first attempt and on a retry.\<close>

definition apply_and_record :: "services \<Rightarrow> workspace_env \<Rightarrow> apply_patch_input \<Rightarrow> application_aggregate cmd" where
  "apply_and_record sv env inp =
     andThen (awaits sv (we_others env 1) (Inr (applyAcceptedPatch (we_writer env) inp))) (\<lambda>applied.
     case applied of
       Inl e \<Rightarrow> handleApplyFailure sv env (api_applicationId inp) (api_baseCommit inp) e
     | Inr revision \<Rightarrow> finalize_at sv (api_applicationId inp) revision)"

text \<open>What may be adopted: the checks before the repository is looked at.\<close>

definition adoptable ::
  "services \<Rightarrow> apply_artifact_payload \<Rightarrow> (task_row \<times> run_row \<times> artifact_row \<times> string \<times> repository_revision_row) cmd" where
  "adoptable sv payload =
     andThen (requireTask (aap_taskId payload)) (\<lambda>task.
     andThen (throw_if (tk_status task \<noteq> TS_COMPLETED)
       (ValidationError (''Task '' @ aap_taskId payload @ '' is not COMPLETED and cannot be adopted''))) (\<lambda>_.
     andThen (requireAcceptanceEvaluation (aap_evaluationId payload)) (\<lambda>evaluation.
     andThen (throw_if (ae_taskId evaluation \<noteq> aap_taskId payload)
       (ValidationError (''AcceptanceEvaluation '' @ aap_evaluationId payload @ '' does not belong to Task '' @ aap_taskId payload))) (\<lambda>_.
     andThen (latestAcceptanceEvaluationForTask (aap_taskId payload)) (\<lambda>latestEvaluation.
     andThen (throw_if (map_option ae_id latestEvaluation \<noteq> Some (aap_evaluationId payload))
       (ValidationError ''adoption requires the latest PASSED acceptance evaluation'')) (\<lambda>_.
     andThen (throw_if (ae_status evaluation \<noteq> AS_PASSED)
       (ValidationError ''adoption requires a PASSED acceptance evaluation'')) (\<lambda>_.
     andThen (listTaskSpecVersions (aap_taskId payload)) (\<lambda>specs.
     andThen (throw_if (map_option ts_id (list_last specs) \<noteq> Some (ae_taskSpecVersionId evaluation))
       (ValidationError ''adoption evaluation must reference the latest TaskSpecVersion'')) (\<lambda>_.
     andThen (requireRun (ae_runId evaluation)) (\<lambda>run.
     andThen (throw_if (\<not> usable_run run)
       (ValidationError (''Run '' @ rn_id run @ '' is not a usable FINISHED run''))) (\<lambda>_.
     andThen (throw_if (rn_taskId run \<noteq> aap_taskId payload \<or> rn_taskSpecVersionId run \<noteq> ae_taskSpecVersionId evaluation)
       (ValidationError ''Run does not match the evaluated Task / TaskSpecVersion'')) (\<lambda>_.
     andThen (getRunAggregate (rn_id run)) (\<lambda>aggregate.
     andThen (require_some (NotFoundError ''Artifact'' (aap_artifactId payload))
       (find (\<lambda>item. ar_id item = aap_artifactId payload) (ra_artifacts aggregate))) (\<lambda>artifact.
     andThen (throw_if (ar_kind artifact \<noteq> PATCH) (ValidationError ''adoption requires a PATCH artifact'')) (\<lambda>_.
     andThen (throw_if (ar_runId artifact \<noteq> rn_id run) (ValidationError ''artifact does not belong to the Run'')) (\<lambda>_.
     andThen (require_some (ValidationError ''artifact does not belong to the Run execution'')
       (find (\<lambda>candidate. er_executionRequestId candidate = ar_executionRequestId artifact) (ra_executionRequests aggregate))) (\<lambda>request.
     andThen (throw_if (sha256Hex sv (ar_content artifact) \<noteq> ar_contentHash artifact)
       (ValidationError ''artifact content hash mismatch'')) (\<lambda>_.
     andThen (throw_if (ar_sizeBytes artifact \<noteq> int (length (ar_content artifact)))
       (ValidationError ''artifact size mismatch'')) (\<lambda>_.
     andThen (throw_if (er_patchHash request \<noteq> None \<and> er_patchHash request \<noteq> Some (ar_contentHash artifact))
       (ValidationError ''artifact does not match the request patch hash'')) (\<lambda>_.
     andThen (throw_if (ar_content artifact = []) (ValidationError ''patch content is empty'')) (\<lambda>_.
     andThen (requireRepositoryRevision (rn_repositoryRevisionId run)) (\<lambda>runRevision.
     andThen (throw_if (rr_workingTreePatchHash runRevision \<noteq> None)
       (ValidationError ''dirty_run_revision_adoption_unsupported'')) (\<lambda>_.
     ret (task, run, artifact, er_executionRequestId request, runRevision))))))))))))))))))))))))"

definition authorizeAndApply :: "services \<Rightarrow> workspace_env \<Rightarrow> apply_artifact_payload \<Rightarrow> application_aggregate cmd" where
  "authorizeAndApply sv env payload =
     andThen (adoptable sv payload) (\<lambda>(task, run, artifact, requestId, runRevision).
     andThen (awaits sv (we_others env 0) (current (we_revision env))) (\<lambda>actual.
     andThen (throw_if (\<not> still_at runRevision actual)
       (ValidationError ''current repository does not match the Run revision'')) (\<lambda>_.
     andThen (getSnapshot (rn_contextSnapshotId run)) (\<lambda>snapshot.
     andThen (getActiveBaseline (tk_projectId task)) (\<lambda>activeBaseline.
     andThen (throw_if (map_option bl_id activeBaseline \<noteq> Some (sn_baseBaselineId snapshot))
       (ValidationError ''application base baseline is no longer the active baseline'')) (\<lambda>_.
     andThen (now sv) (\<lambda>authorizedAt.
     andThen (nextId sv ''app_'') (\<lambda>applicationId.
     andThen (createArtifactApplication sv
       \<lparr>cap_id = applicationId, cap_projectId = tk_projectId task, cap_taskId = aap_taskId payload,
        cap_evaluationId = aap_evaluationId payload, cap_runId = rn_id run, cap_executionRequestId = requestId,
        cap_artifactId = ar_id artifact, cap_baseBaselineId = sn_baseBaselineId snapshot,
        cap_baseRepositoryRevisionId = rn_repositoryRevisionId run, cap_patchHash = ar_contentHash artifact,
        cap_authorizedAt = authorizedAt\<rparr>) (\<lambda>_.
     andThen (now sv) (\<lambda>t.
     andThen (markApplicationApplying sv applicationId t) (\<lambda>_.
     apply_and_record sv env
       \<lparr>api_applicationId = applicationId, api_baseCommit = rr_baseCommit runRevision, api_patchContent = ar_content artifact,
        api_patchHash = ar_contentHash artifact, api_taskId = aap_taskId payload, api_runId = rn_id run,
        api_artifactId = ar_id artifact, api_authorizedAt = authorizedAt\<rparr>)))))))))))"

definition readArtifactContent :: "string \<Rightarrow> string \<Rightarrow> string cmd" where
  "readArtifactContent runId artifactId =
     andThen (getRunAggregate runId) (\<lambda>aggregate.
     andThen (require_some (NotFoundError ''Artifact'' artifactId)
       (find (\<lambda>item. ar_id item = artifactId) (ra_artifacts aggregate))) (\<lambda>artifact.
     ret (ar_content artifact)))"

text \<open>\<open>message.includes(part)\<close>\<close>

fun text_includes :: "string \<Rightarrow> string \<Rightarrow> bool" where
  "text_includes [] part = (part = [])"
| "text_includes (c # cs) part = (take (length part) (c # cs) = part \<or> text_includes cs part)"

definition trailersMatch :: "string \<Rightarrow> artifact_application_row \<Rightarrow> bool" where
  "trailersMatch message application \<longleftrightarrow>
     text_includes message (''Canvas-Agent-Application: '' @ ap_id application)
     \<and> text_includes message (''Canvas-Agent-Artifact: '' @ ap_artifactId application)
     \<and> text_includes message (''Canvas-Agent-Patch-SHA256: '' @ ap_patchHash application)"

definition reconcileApplication :: "services \<Rightarrow> workspace_env \<Rightarrow> application_aggregate \<Rightarrow> application_aggregate cmd" where
  "reconcileApplication sv env existing =
     (let application = aag_application existing in
     andThen (requireRepositoryRevision (ap_baseRepositoryRevisionId application)) (\<lambda>baseRevision.
     andThen (awaits sv (we_others env 0) (inspectHead (we_writer env) Reconciling)) (\<lambda>head.
     if hi_baseCommit head = rr_baseCommit baseRevision \<and> hi_clean head
     then
       andThen (now sv) (\<lambda>t.
       andThen (markApplicationApplying sv (ap_id application) t) (\<lambda>_.
       andThen (readArtifactContent (ap_runId application) (ap_artifactId application)) (\<lambda>content.
       apply_and_record sv env
         \<lparr>api_applicationId = ap_id application, api_baseCommit = rr_baseCommit baseRevision, api_patchContent = content,
          api_patchHash = ap_patchHash application, api_taskId = ap_taskId application, api_runId = ap_runId application,
          api_artifactId = ap_artifactId application, api_authorizedAt = ap_authorizedAt application\<rparr>)))
     else if hi_parent head = Some (rr_baseCommit baseRevision) \<and> hi_clean head \<and> trailersMatch (hi_message head) application
     then
       andThen (awaits sv (we_others env 1) (currentRevision (we_writer env) Reconciling)) (\<lambda>revision.
       finalize_at sv (ap_id application) revision)
     else
       andThen (now sv) (\<lambda>t.
       andThen (interruptApplication sv
         \<lparr>fap_applicationId = ap_id application, fap_reasonCode = ''application_recovery_conflict'',
          fap_detail = Some ''Git HEAD does not match the base or a recognized adoption commit'', fap_now = t\<rparr>) (\<lambda>_.
       throw (ValidationError ''application_recovery_conflict''))))))"

definition application_status_str :: "application_event_kind \<Rightarrow> string" where
  "application_status_str k =
     (case k of AE_AUTHORIZED \<Rightarrow> ''AUTHORIZED'' | AE_APPLYING \<Rightarrow> ''APPLYING'' | AE_APPLIED \<Rightarrow> ''APPLIED''
      | AE_FAILED \<Rightarrow> ''FAILED'' | AE_INTERRUPTED \<Rightarrow> ''INTERRUPTED'')"

definition applyArtifact :: "services \<Rightarrow> workspace_env \<Rightarrow> apply_artifact_payload \<Rightarrow> application_aggregate cmd" where
  "applyArtifact sv env payload =
     andThen (listArtifactApplicationAggregates (aap_taskId payload)) (\<lambda>applications.
     case applications of
       [] \<Rightarrow> authorizeAndApply sv env payload
     | existing # _ \<Rightarrow>
         andThen (throw_if (ap_evaluationId (aag_application existing) \<noteq> aap_evaluationId payload
             \<or> ap_artifactId (aag_application existing) \<noteq> aap_artifactId payload)
           (ValidationError ''artifact_application_binding_conflict'')) (\<lambda>_.
         if aag_effectiveStatus existing = AE_APPLIED then ret existing
         else if aag_effectiveStatus existing \<in> {AE_AUTHORIZED, AE_APPLYING, AE_INTERRUPTED}
         then reconcileApplication sv env existing
         else throw (ValidationError (''application for task '' @ aap_taskId payload @ '' is ''
                @ application_status_str (aag_effectiveStatus existing)))))"

end
