(* ===== verification/Command_Core.thy ===== *)
theory Command_Core
  imports Workspace_Service
begin

text \<open>
  The command interface of the main process (\<open>apps/desktop/src/main/command-core.ts\<close>,
  \<open>command-errors.ts\<close>): the routes that reach the database, each as a call with the outside it
  meets, and the answer to a request. The payloads are those that the request schema has
  accepted; the schemas of outputs and responses are parameters.
\<close>

section \<open>Errors as the renderer sees them\<close>

definition INTERNAL_FAILURE :: string where
  "INTERNAL_FAILURE = ''Internal command failure''"

record command_error =
  co_name :: string
  co_message :: string
  co_details :: "(string \<times> string) list option"

definition plain_error :: "string \<Rightarrow> string \<Rightarrow> command_error" where
  "plain_error name message = \<lparr>co_name = name, co_message = message, co_details = None\<rparr>"

definition mapCommandError :: "error \<Rightarrow> command_error" where
  "mapCommandError e =
     (case e of
        ConcurrencyError entity i expected actual \<Rightarrow>
          plain_error ''ConcurrencyError''
            (''Concurrent modification of '' @ entity @ '' '' @ i @ '': expected revision '' @ int_digits expected
             @ '', actual revision '' @ int_digits actual)
      | NotFoundError entity i \<Rightarrow> plain_error ''NotFoundError'' (''Cannot find '' @ entity @ '' with id '' @ i)
      | SelfEdgeError nodeId \<Rightarrow>
          (plain_error ''ValidationError'' (''An Edge must not connect a Node to itself ('' @ nodeId @ '')''))
            \<lparr>co_details := Some [(''reason'', ''SELF_EDGE'')]\<rparr>
      | CycleError relation start end' \<Rightarrow>
          (plain_error ''ValidationError''
             (''Rejected '' @ relation @ '' edge '' @ start @ '' -> '' @ end' @ '': it would create a cycle''))
            \<lparr>co_details := Some [(''reason'', ''CYCLE''), (''relation'', relation), (''startNodeId'', start), (''endNodeId'', end')]\<rparr>
      | ValidationError m \<Rightarrow> plain_error ''ValidationError'' m
      | PersistenceError m \<Rightarrow> plain_error ''PersistenceError'' m
      | HostUnavailableError m \<Rightarrow> plain_error ''HostUnavailableError'' m
      | RepositoryUnavailableError m \<Rightarrow>
          (plain_error ''ValidationError'' m)\<lparr>co_details := Some [(''reason'', ''repository_has_no_head'')]\<rparr>
      | WorkspaceUnavailableError m \<Rightarrow> plain_error ''HostUnavailableError'' m
      | AgentNotReadyError m \<Rightarrow> plain_error ''HostUnavailableError'' m
      | Domain _ \<Rightarrow> plain_error ''InternalError'' INTERNAL_FAILURE
      | Sqlite _ \<Rightarrow> plain_error ''InternalError'' INTERNAL_FAILURE
      | PlainError _ \<Rightarrow> plain_error ''InternalError'' INTERNAL_FAILURE)"

section \<open>Routes\<close>

datatype agent_runtime_state = READY | NOT_FOUND | UNSUPPORTED_VERSION | AUTH_REQUIRED | INTERPRETER_MISSING | ERROR

definition agent_runtime_state_str :: "agent_runtime_state \<Rightarrow> string" where
  "agent_runtime_state_str state =
     (case state of READY \<Rightarrow> ''READY'' | NOT_FOUND \<Rightarrow> ''NOT_FOUND'' | UNSUPPORTED_VERSION \<Rightarrow> ''UNSUPPORTED_VERSION''
      | AUTH_REQUIRED \<Rightarrow> ''AUTH_REQUIRED'' | INTERPRETER_MISSING \<Rightarrow> ''INTERPRETER_MISSING'' | ERROR \<Rightarrow> ''ERROR'')"

definition agentReadinessCode :: "agent_runtime_state \<Rightarrow> string option" where
  "agentReadinessCode state =
     (case state of NOT_FOUND \<Rightarrow> Some ''AGENT_EXECUTABLE_NOT_FOUND'' | UNSUPPORTED_VERSION \<Rightarrow> Some ''AGENT_VERSION_UNSUPPORTED''
      | AUTH_REQUIRED \<Rightarrow> Some ''AGENT_AUTH_REQUIRED'' | INTERPRETER_MISSING \<Rightarrow> Some ''AGENT_INTERPRETER_MISSING''
      | ERROR \<Rightarrow> Some ''AGENT_NOT_READY'' | READY \<Rightarrow> None)"

text \<open>The agent is asked inside the lease of the run, before anything is stored.\<close>

definition execution_dispatch ::
  "services \<Rightarrow> coordinator_env \<Rightarrow> command list \<Rightarrow> error + agent_runtime_state \<Rightarrow> string \<Rightarrow> string \<Rightarrow> execution_response cmd" where
  "execution_dispatch sv env others agent contextSnapshotId executionRequestId =
     andThen (awaits sv others agent) (\<lambda>state.
     andThen (case agentReadinessCode state of
         Some code \<Rightarrow> throw (AgentNotReadyError (code @ '': codex runtime is '' @ agent_runtime_state_str state))
       | None \<Rightarrow> ret ()) (\<lambda>_.
     dispatch_run sv env contextSnapshotId executionRequestId))"

text \<open>The calls that reach the database; those that only read it are the last seven.\<close>

datatype service_call =
  ProjectCreate string "string option"
| NodeCreate string node_type "node_lifecycle option"
| NodeDraftUpsert string string "string option" "int option"
| NodeVersionPublish string string string
| TaskCreate string task_type string
| TaskSpecPublish string string string "task_target_input list option" "acceptance_criterion_input list"
| BaselineCreateDraft string string "string option" "string option" "string list"
| BaselineActivate workspace_env string
| RevisionCurrent workspace_env
| SnapshotFreeze resolver_env resolution_scope "freeze_selection list"
| ContextResolve resolver_env resolution_scope "source_reference list"
| ExecutionDispatch coordinator_env "command list" "error + agent_runtime_state" string string
| AcceptanceEvaluate create_evaluation_input
| TaskComplete string string
| ArtifactApply workspace_env apply_artifact_payload
| BaselineCreateCandidate workspace_env create_candidate_input
| ProjectGet string
| ProjectList
| ProjectState string
| RunList string
| RunGet string
| AcceptanceList string
| ArtifactApplicationList string

fun serve :: "services \<Rightarrow> service_call \<Rightarrow> unit cmd" where
  "serve sv (ProjectCreate name description) = discard (ws_createProject sv name description)"
| "serve sv (NodeCreate projectId type given) = discard (ws_createNode sv projectId type given)"
| "serve sv (NodeDraftUpsert nodeId title body revision) = discard (ws_upsertNodeDraft sv nodeId title body revision)"
| "serve sv (NodeVersionPublish nodeId title body) = discard (ws_publishNodeVersion sv nodeId title body)"
| "serve sv (TaskCreate projectId type title) = discard (ws_createTask sv projectId type title)"
| "serve sv (TaskSpecPublish taskId description scope targets criteria) =
     discard (ws_publishTaskSpec sv taskId description scope targets criteria)"
| "serve sv (BaselineCreateDraft projectId name description revision versions) =
     discard (ws_createBaselineDraft sv projectId name description revision versions)"
| "serve sv (BaselineActivate env baselineId) = discard (ws_activateBaseline sv env baselineId)"
| "serve sv (RevisionCurrent env) = discard (revisionCurrent sv env)"
| "serve sv (SnapshotFreeze env scope selections) = discard (freezeSnapshot sv env scope selections)"
| "serve sv (ContextResolve env scope refs) = discard (resolveContext sv env scope refs)"
| "serve sv (ExecutionDispatch env others agent snapshotId requestId) =
     discard (execution_dispatch sv env others agent snapshotId requestId)"
| "serve sv (AcceptanceEvaluate payload) = discard (createAcceptanceEvaluation sv payload)"
| "serve sv (TaskComplete taskId evaluationId) = discard (completeTask sv taskId evaluationId)"
| "serve sv (ArtifactApply env payload) = discard (applyArtifact sv env payload)"
| "serve sv (BaselineCreateCandidate env payload) = discard (ws_createBaselineCandidate sv env payload)"
| "serve sv (ProjectGet projectId) = discard (ws_getProject projectId)"
| "serve sv ProjectList = discard listProjects"
| "serve sv (ProjectState projectId) = discard (projectState projectId)"
| "serve sv (RunList projectId) = discard (listRuns projectId)"
| "serve sv (RunGet runId) = discard (getRunAggregate runId)"
| "serve sv (AcceptanceList taskId) = discard (listAcceptanceEvaluations taskId)"
| "serve sv (ArtifactApplicationList taskId) = discard (listArtifactApplicationAggregates taskId)"

fun run_services :: "services \<Rightarrow> service_call list \<Rightarrow> persistence \<Rightarrow> persistence" where
  "run_services sv [] s = s"
| "run_services sv (c # cs) s = run_services sv cs (snd (serve sv c s))"

section \<open>Answers\<close>

datatype 'a command_response = Answer string string 'a | Refusal string string command_error

text \<open>\<open>finalize\<close>; \<open>accepts\<close> is the schema of the responses of the command.\<close>

definition finalize :: "('a command_response \<Rightarrow> bool) \<Rightarrow> string \<Rightarrow> string \<Rightarrow> 'a command_response \<Rightarrow> 'a command_response" where
  "finalize accepts requestId command response =
     (if accepts response then response else Refusal requestId command (plain_error ''InternalError'' INTERNAL_FAILURE))"

text \<open>
  A request that the schema accepted, with the route of its command; \<open>outputOk\<close> is the schema of the
  output.
\<close>

definition handleCommand ::
  "('a command_response \<Rightarrow> bool) \<Rightarrow> ('a \<Rightarrow> bool) \<Rightarrow> string \<Rightarrow> string \<Rightarrow> 'a cmd \<Rightarrow> persistence \<Rightarrow> 'a command_response \<times> persistence" where
  "handleCommand accepts outputOk requestId command execute s =
     (case execute s of
        (Inl e, t) \<Rightarrow> (finalize accepts requestId command (Refusal requestId command (mapCommandError e)), t)
      | (Inr x, t) \<Rightarrow>
          (if \<not> outputOk x
           then finalize accepts requestId command (Refusal requestId command (plain_error ''InternalError'' INTERNAL_FAILURE))
           else finalize accepts requestId command (Answer requestId command x), t))"

end
