(* ===== verification/Desktop_Laws.thy ===== *)
theory Desktop_Laws
  imports Command_Core Workflow Permanence
begin

text \<open>
  Everything the desktop does to the database it does through the commands, also where operations
  wait and others run in between: the invariants of sessions hold over every sequence of calls of
  the command interface.
\<close>

section \<open>Calls change the database as commands do\<close>

lemma run_session_step: "session sv s (run_session sv cs s)"
  by (auto simp: session_iff_run)

context statements
begin

lemma awaits: "evolves_at R (awaits sv others answer) s"
  using over_session [OF run_session_step [of sv s others]] by (simp add: evolves_at_def awaits_def)

lemma catching:
  assumes "evolves_at R m s" and "\<And>e t. evolves_at R (handler e) t"
  shows "evolves_at R (catching m handler) s"
proof -
  obtain x t where x: "m s = (x, t)" by fastforce
  show ?thesis using assms(1) assms(2) [of _ t]
    by (cases x) (auto simp: evolves_at_def catching_def x intro: trans)
qed

lemma interrupt: "evolves_at R (interrupt sv runId i code result c) s"
  using interruptRun unfolding interrupt_def by (intro composed basic) (simp add: evolves_at_def)

lemmas waiting = awaits catching interrupt

lemma validateScope: "evolves_at R (validateContextResolutionScope scope) s"
  unfolding validateContextResolutionScope_def read_defs by (intro composed basic)

lemma materializers:
  "evolves_at R (materializeTaskSpec sv scope) s" "evolves_at R (materializeNodeVersion sv scope i reason) s"
  "evolves_at R (materializeRepositoryContent sv env n scope path reason) s"
  unfolding materializeTaskSpec_def materializeNodeVersion_def materializeRepositoryContent_def read_defs
    listTaskTargets_def listCriteria_def listBaselineItems_def Let_def
  by (intro composed basic waiting)+

lemma resolve: "evolves_at R (resolve sv env n scope ref) s"
  unfolding resolve_def by (cases ref) (auto intro!: composed basic validateScope materializers)

lemma materialize_from: "evolves_at R (materialize_from sv env scope n seen selections) s"
proof (induction selections arbitrary: n seen s)
  case (Cons selection selections)
  have "evolves_at R (materialize_selection sv env n scope selection) t" for t
    by (auto simp: materialize_selection_def materializers split: freeze_source.split)
  then show ?case unfolding materialize_from.simps by (intro composed basic Cons.IH)
qed (simp add: basic)

lemma resolve_all: "evolves_at R (resolve_all sv env n scope refs) s"
  by (induction refs arbitrary: n s) (auto intro!: composed basic resolve waiting)

lemma freezeSnapshot: "evolves_at R (freezeSnapshot sv env scope selections) s"
  unfolding freezeSnapshot_def materialize_def read_defs
  by (intro composed basic waiting validateScope resolve materialize_from freezeContextSnapshot)

lemma materializeContextBundle: "evolves_at R (materializeContextBundle sv i) s"
  unfolding materializeContextBundle_def listSnapshotItems_def Let_def by (intro composed basic)

lemma prepare: "evolves_at R (prepare sv env snapshotId i) s"
  unfolding prepare_def getSnapshot_def read_defs Let_def
  by (intro composed basic materializeContextBundle createDispatchedRun)

lemma dispatch_run: "evolves_at R (dispatch_run sv env snapshotId i) s"
  unfolding dispatch_run_def settle_def Let_def by (intro composed basic waiting prepare finalizeRun)

lemma execution_dispatch: "evolves_at R (execution_dispatch sv env others agent snapshotId i) s"
  unfolding execution_dispatch_def by (intro composed basic waiting dispatch_run)

lemma handleApplyFailure: "evolves_at R (handleApplyFailure sv env i baseCommit e) s"
  unfolding handleApplyFailure_def Let_def by (intro composed basic waiting failApplication interruptApplication)

lemma apply_and_record: "evolves_at R (apply_and_record sv env inp) s"
  unfolding apply_and_record_def finalize_at_def
  by (intro composed basic waiting handleApplyFailure finalizeApplicationApplied)

lemma getRunAggregate: "evolves_at R (getRunAggregate runId) s"
  unfolding getRunAggregate_def by (intro composed basic)

lemma adoptable: "evolves_at R (adoptable sv payload) s"
  unfolding adoptable_def read_defs requireAcceptanceEvaluation_def requireEvaluation_def latestAcceptanceEvaluationForTask_def
    latestEvaluationForTask_def listTaskSpecVersions_def requireRun_def
  by (intro composed basic getRunAggregate)

lemma authorizeAndApply: "evolves_at R (authorizeAndApply sv env payload) s"
  unfolding authorizeAndApply_def split_def getSnapshot_def getActiveBaseline_def
  by (intro composed basic waiting adoptable createArtifactApplication markApplicationApplying apply_and_record)

lemma reconcileApplication: "evolves_at R (reconcileApplication sv env existing) s"
  unfolding reconcileApplication_def readArtifactContent_def finalize_at_def Let_def read_defs
  by (intro composed basic waiting getRunAggregate markApplicationApplying apply_and_record finalizeApplicationApplied interruptApplication)

lemma listApplications: "evolves_at R (listArtifactApplicationAggregates taskId) s"
  unfolding listArtifactApplicationAggregates_def by (intro composed basic buildAggregate)

lemma applyArtifact: "evolves_at R (applyArtifact sv env payload) s"
proof -
  have "evolves_at R (case applications of [] \<Rightarrow> authorizeAndApply sv env payload
     | existing # _ \<Rightarrow>
         andThen (throw_if (ap_evaluationId (aag_application existing) \<noteq> aap_evaluationId payload
             \<or> ap_artifactId (aag_application existing) \<noteq> aap_artifactId payload)
           (ValidationError ''artifact_application_binding_conflict'')) (\<lambda>_.
         if aag_effectiveStatus existing = AE_APPLIED then Store.ret existing
         else if aag_effectiveStatus existing \<in> {AE_AUTHORIZED, AE_APPLYING, AE_INTERRUPTED}
         then reconcileApplication sv env existing
         else Store.throw (ValidationError (''application for task '' @ aap_taskId payload @ '' is ''
                @ application_status_str (aag_effectiveStatus existing))))) t" for applications t
    by (cases applications) (auto intro!: composed basic authorizeAndApply reconcileApplication)
  then show ?thesis unfolding applyArtifact_def by (intro composed listApplications)
qed

lemma with_ids:
  "evolves_at R (ws_createProject sv name description) s" "evolves_at R (ws_createNode sv projectId type given) s"
  "evolves_at R (ws_upsertNodeDraft sv nodeId title nodeBody revision) s" "evolves_at R (ws_publishNodeVersion sv nodeId title versionBody) s"
  "evolves_at R (ws_createTask sv projectId taskType title) s"
  "evolves_at R (ws_publishTaskSpec sv taskId specDescription scope targets criteria) s"
  "evolves_at R (ws_createBaselineDraft sv projectId name description revisionId versions) s"
  unfolding ws_createProject_def ws_createNode_def ws_upsertNodeDraft_def ws_publishNodeVersion_def ws_createTask_def
    ws_publishTaskSpec_def ws_createBaselineDraft_def
  by (intro composed basic commands)+

lemma with_repository:
  "evolves_at R (revisionCurrent sv env) s" "evolves_at R (ws_createBaselineCandidate sv env candidate) s"
  "evolves_at R (ws_activateBaseline sv env baselineId) s"
  unfolding revisionCurrent_def ws_createBaselineCandidate_def ws_activateBaseline_def getArtifactApplicationAggregate_def
    requireArtifactApplication_def requireBaselineCandidateSource_def getBaseline_def requireRepositoryRevision_def
  by (intro composed basic waiting commands buildAggregate assertCandidateActivationValid)+

lemma views:
  "evolves_at R (ws_getProject projectId) s" "evolves_at R (projectState projectId) s" "evolves_at R (listRuns projectId) s"
  "evolves_at R (listAcceptanceEvaluations taskId) s" "evolves_at R listProjects s"
  unfolding listProjects_def ws_getProject_def projectState_def spec_view_def listRuns_def listAcceptanceEvaluations_def getProject_def
    listTasks_def listTaskSpecVersions_def listTaskTargets_def listCriteria_def listBaselines_def listBaselineItems_def
    listNodes_def listNodeDrafts_def listNodeVersions_def listEdges_def getActiveBaseline_def
  by (intro composed basic)+

lemmas calls = with_ids with_repository views freezeSnapshot resolve_all execution_dispatch createAcceptanceEvaluation completeTask
  applyArtifact getRunAggregate listApplications

lemma serve: "evolves_at R (serve sv c) s"
  by (cases c) (simp_all add: discard calls resolveContext_def)

lemma over_services: "R (db s) (db (run_services sv cs s)) \<and> tx (run_services sv cs s) = tx s"
proof (induction cs arbitrary: s)
  case (Cons c cs)
  from serve [of sv c s] Cons [of "snd (serve sv c s)"] show ?case by (auto simp: evolves_at_def intro: trans)
qed (simp add: refl)

end

lemma run_services_append: "run_services sv (cs @ ds) s = run_services sv ds (run_services sv cs s)"
  by (induction cs arbitrary: s) auto

lemma services_schema: "schema_ok (db (run_services sv cs open_empty))"
  using integ.over_services [of open_empty sv cs] schema_ok_empty by (simp add: keeps_schema_def open_empty_def)

text \<open>
  C3. Whatever the renderer calls, in whatever order, with whatever answers of git, the worker and
  the files, and with other commands running wherever an operation waits: every constraint of the
  schema holds, no transaction stays open, numbers are consecutive, graphs acyclic, references in
  scope and statuses backed; and what was published, frozen, finished or logged before a part of
  the calls is there after it.
\<close>

theorem desktop_keeps_invariants:
  "schema_ok (db (run_services sv cs open_empty)) \<and> tx (run_services sv cs open_empty) = None
   \<and> numbering_ok (db (run_services sv cs open_empty)) \<and> graphs_ok (db (run_services sv cs open_empty))
   \<and> scope_ok (db (run_services sv cs open_empty)) \<and> status_ok (db (run_services sv cs open_empty))
   \<and> logs_grow (db (run_services sv cs open_empty)) (db (run_services sv (cs @ ds) open_empty))
   \<and> frozen_kept (db (run_services sv cs open_empty)) (db (run_services sv (cs @ ds) open_empty))
   \<and> rows_evolve (db (run_services sv cs open_empty)) (db (run_services sv (cs @ ds) open_empty))"
proof -
  let ?s = "run_services sv cs open_empty"
  have empty: "db open_empty = empty_database" "tx open_empty = None" by (simp_all add: open_empty_def)
  have "permanent (db ?s) (db (run_services sv (cs @ ds) open_empty))"
    using perm.over_services [of ?s sv ds] by (simp add: run_services_append)
  moreover have "numbering_ok (db ?s)"
    using num.over_services [of open_empty sv cs] by (simp add: keeps_numbering_def numbering_ok_def empty empty_database_def)
  moreover have "graphs_ok (db ?s)"
    using acyc.over_services [of open_empty sv cs]
    by (simp add: keeps_graphs_def graphs_ok_def empty empty_database_def dependency_pairs_def edge_pairs_def acyclic_def)
  moreover have "scope_ok (db ?s)"
    using scope.over_services [of open_empty sv cs] by (simp add: keeps_scope_def scope_ok_def empty empty_database_def)
  moreover have "status_ok (db ?s)"
    using status.over_services [of open_empty sv cs] schema_ok_empty by (simp add: keeps_status_def status_ok_def empty empty_database_def)
  moreover have "tx ?s = None" using integ.over_services [of open_empty sv cs] by (simp add: empty)
  ultimately show ?thesis using services_schema [of sv cs] unfolding permanent_def by blast
qed

end
