(* ===== verification/Context_Laws.thy ===== *)
theory Context_Laws
  imports Desktop_Laws Request_Laws Execution_Behaviour
begin

text \<open>
  From the selection of a user to the bundle of a worker: what is frozen is what was resolved, in
  order and without repetition, and it is what every later dispatch of the snapshot hands over.
\<close>

lemma below_next_number: "r \<in> set rs \<Longrightarrow> k r < next_number b k rs"
  by (cases "top_by k rs") (auto simp: next_number_def dest: top_by_SomeD)

section \<open>What is resolved\<close>

definition selection_ref :: "freeze_selection \<Rightarrow> source_reference" where
  "selection_ref selection =
     (case fs_source selection of NodeVersionSource i \<Rightarrow> NodeVersionRef i | RepositoryContentSource path \<Rightarrow> RepositoryContentRef path)"

definition honest_item :: "services \<Rightarrow> resolved_item \<Rightarrow> bool" where
  "honest_item sv item \<longleftrightarrow> ri_contentHash item = sha256Hex sv (ri_resolvedContent item) \<and> 1 \<le> ri_tokenEstimate item"

lemma awaits_ok [ok_simps]: "awaits sv others answer s = (Inr x, t) \<longleftrightarrow> answer = Inr x \<and> t = run_session sv others s"
  by (auto simp: awaits_def)

lemma require_reads [ok_simps]:
  "requireTaskSpecVersion i s = (Inr spec, t) \<longleftrightarrow> find_spec (db s) i = Some spec \<and> t = s"
  "requireNodeVersion i s = (Inr version, t) \<longleftrightarrow> find_node_version (db s) i = Some version \<and> t = s"
  "getBaseline i s = (Inr baseline, t) \<longleftrightarrow> find_baseline (db s) i = Some baseline \<and> t = s"
  "requireRepositoryRevision i s = (Inr revision, t) \<longleftrightarrow> find_revision (db s) i = Some revision \<and> t = s"
  "getSnapshot i s = (Inr snapshot, t) \<longleftrightarrow> find_snapshot (db s) i = Some snapshot \<and> t = s"
  by (auto simp: read_defs getSnapshot_def ok_simps)

lemma estimate_positive [simp]: "1 \<le> estimateTokens text"
  by (simp add: estimateTokens_def)

lemma found_version: "find_node_version d i = Some v \<Longrightarrow> nv_id v = i"
  by (auto simp: find_node_version_def dest: first_where_SomeD)

lemma found_spec: "find_spec d i = Some v \<Longrightarrow> ts_id v = i"
  by (auto simp: find_spec_def dest: first_where_SomeD)

lemma materialize_selection_ok:
  "materialize_selection sv env n scope selection s = (Inr item, t) \<Longrightarrow>
     ri_sourceRef item = sourceRefToString (selection_ref selection) \<and> honest_item sv item"
  by (auto simp: materialize_selection_def selection_ref_def honest_item_def materializeNodeVersion_def requireNodeVersion_def
      materializeRepositoryContent_def Let_def ok_simps found_version split: freeze_source.splits)

lemma materialize_from_ok:
  "materialize_from sv env scope n seen selections s = (Inr items, t) \<Longrightarrow>
     map ri_sourceRef items = map (sourceRefToString \<circ> selection_ref) selections \<and> list_all (honest_item sv) items"
  by (induction selections arbitrary: n seen s items) (auto simp: ok_simps dest!: materialize_selection_ok)

lemma materialize_from_distinct:
  "materialize_from sv env scope n seen selections s = (Inr items, t) \<Longrightarrow>
     distinct (map ri_sourceRef items) \<and> set (map ri_sourceRef items) \<inter> set seen = {}"
  by (induction selections arbitrary: n seen s items) (force simp: ok_simps)+

definition scope_refs :: "resolution_scope \<Rightarrow> freeze_selection list \<Rightarrow> source_reference list" where
  "scope_refs scope selections = TaskSpecVersionRef (rs_scopeTaskSpecVersionId scope) # map selection_ref selections"

definition instruction_first :: "resolved_item list \<Rightarrow> bool" where
  "instruction_first items \<longleftrightarrow> items \<noteq> [] \<and> ri_authority (hd items) = CA_TASK_INSTRUCTION \<and> ri_priority (hd items) = P0"

definition resolved_from :: "services \<Rightarrow> resolution_scope \<Rightarrow> freeze_selection list \<Rightarrow> resolved_item list \<Rightarrow> bool" where
  "resolved_from sv scope selections items \<longleftrightarrow>
     map ri_sourceRef items = map sourceRefToString (scope_refs scope selections) \<and> distinct (map ri_sourceRef items)
     \<and> instruction_first items \<and> list_all (honest_item sv) items"

lemma materialize_ok:
  assumes "materialize sv env scope selections s = (Inr items, t)"
  shows "resolved_from sv scope selections items"
proof -
  from assms obtain first rest u where items: "items = first # rest" "instruction_first [first]" "honest_item sv first"
      "ri_sourceRef first = sourceRefToString (TaskSpecVersionRef (rs_scopeTaskSpecVersionId scope))"
    and rest: "materialize_from sv env scope 1 [ri_sourceRef first] selections u = (Inr rest, t)"
    by (auto simp: materialize_def resolve_def materializeTaskSpec_def Let_def ok_simps
        instruction_first_def honest_item_def found_spec)
  from materialize_from_distinct [OF rest] have "distinct (map ri_sourceRef items)" by (simp add: items(1))
  with materialize_from_ok [OF rest] items show ?thesis by (simp add: resolved_from_def scope_refs_def instruction_first_def)
qed

section \<open>What freezing stores\<close>

definition frozen_from :: "services \<Rightarrow> string \<Rightarrow> snapshot_item_input \<Rightarrow> context_snapshot_item_row \<Rightarrow> bool" where
  "frozen_from sv snapshotId item r \<longleftrightarrow>
     si_contextSnapshotId r = snapshotId \<and> si_position r = sii_position item \<and> si_itemType r = sii_itemType item
     \<and> si_sourceRef r = sii_sourceRef item \<and> si_resolvedContent r = sii_resolvedContent item
     \<and> si_contentHash r = sha256Hex sv (sii_resolvedContent item) \<and> si_authority r = sii_authority item
     \<and> si_priority r = default_to (sii_priority item) P2 \<and> si_tokenEstimate r = sii_tokenEstimate item"

lemma freeze_items_ok:
  "forEach (freeze_item sv i) xs s = (Inr rs, t) \<Longrightarrow>
     db t = context_snapshot_items_update (\<lambda>ys. ys @ rs) (db s) \<and> list_all2 (frozen_from sv i) xs rs"
  by (rule forEach_inserts) (auto simp: freeze_item_def ok_simps frozen_from_def)

text \<open>Freezing in a database whose constraints hold: the rows of the new snapshot are those returned.\<close>

definition drafted :: "freeze_snapshot_input \<Rightarrow> string \<Rightarrow> context_snapshot_row" where
  "drafted inp n =
     \<lparr>sn_id = fsi_id inp, sn_projectId = fsi_projectId inp, sn_taskId = fsi_taskId inp,
      sn_taskSpecVersionId = fsi_taskSpecVersionId inp, sn_baseBaselineId = fsi_baseBaselineId inp,
      sn_expectedRepositoryRevisionId = fsi_expectedRepositoryRevisionId inp, sn_status = SS_DRAFT,
      sn_freshness = SF_CURRENT, sn_createdAt = n, sn_updatedAt = n\<rparr>"

lemma drafted_id [simp]: "sn_id (drafted inp n) = fsi_id inp"
  by (simp add: drafted_def)

lemma freezeContextSnapshot_stored:
  assumes "freezeContextSnapshot sv inp s = (Inr r, t)" and n: "n = sv_now sv (nowCalls s)"
  shows "context_snapshot_viol (db s) (drafted inp n) = None \<and> (\<exists>f.
    db t = audit_push f (context_snapshots_update (map_where (\<lambda>r. sn_id r = fsi_id inp) (frozen_row n))
        (context_snapshot_items_update (\<lambda>xs. xs @ fsr_items r) (context_snapshots_update (\<lambda>xs. xs @ [drafted inp n]) (db s)))))
    \<and> (\<exists>us. map (frozen_row n) (filter (\<lambda>r. sn_id r = fsi_id inp) (context_snapshots (db s) @ [drafted inp n])) = fsr_snapshot r # us)
    \<and> list_all2 (frozen_from sv (fsi_id inp)) (fsi_items inp) (fsr_items r)"
  using assms(1) unfolding freezeContextSnapshot_def frozen_row_def [abs_def, symmetric] drafted_def [symmetric]
  apply (simp only: ok_simps simp_thms)
  apply (elim exE conjE)
  apply hypsubst
  apply (drule freeze_items_ok)
  apply (drule appendAudit_frame)
  apply (elim exE conjE)
  by (simp add: n frozen_row_def [abs_def]) blast

lemma schema_item_owner: "schema_ok d \<Longrightarrow> si_contextSnapshotId ` set (context_snapshot_items d) \<subseteq> sn_id ` set (context_snapshots d)"
  by (simp add: schema_ok_def task_refs_ok_def run_refs_ok_def graph_refs_ok_def fk_def)

lemma freezeContextSnapshot_effect:
  assumes "freezeContextSnapshot sv inp s = (Inr r, t)" and "schema_ok (db s)"
  shows "sn_id (fsr_snapshot r) = fsi_id inp \<and> sn_status (fsr_snapshot r) = SS_FROZEN
    \<and> fsr_snapshot r \<in> set (context_snapshots (db t)) \<and> items_of_snapshot (db t) (fsi_id inp) = fsr_items r
    \<and> list_all2 (frozen_from sv (fsi_id inp)) (fsi_items inp) (fsr_items r)"
proof -
  let ?n = "sv_now sv (nowCalls s)"
  let ?row = "drafted inp ?n"
  note stored = freezeContextSnapshot_stored [OF assms(1) refl]
  from stored obtain f where
    out: "db t = audit_push f (context_snapshots_update (map_where (\<lambda>r. sn_id r = fsi_id inp) (frozen_row ?n))
        (context_snapshot_items_update (\<lambda>xs. xs @ fsr_items r) (context_snapshots_update (\<lambda>xs. xs @ [?row]) (db s))))"
    by blast
  from stored obtain us where
    hit: "map (frozen_row ?n) (filter (\<lambda>r. sn_id r = fsi_id inp) (context_snapshots (db s) @ [?row])) = fsr_snapshot r # us"
    by (elim conjE exE) (erule that)
  from stored have items: "list_all2 (frozen_from sv (fsi_id inp)) (fsi_items inp) (fsr_items r)" by blast
  from stored have "context_snapshot_viol (db s) ?row = None" by (rule conjunct1)
  then have fresh: "fsi_id inp \<notin> sn_id ` set (context_snapshots (db s))" by (auto simp: viol_defs split: if_splits)
  have snapshot: "fsr_snapshot r = frozen_row ?n ?row"
  proof -
    have "filter (\<lambda>r. sn_id r = fsi_id inp) (context_snapshots (db s)) = []"
      using fresh by (auto simp: filter_empty_conv image_iff)
    with hit show ?thesis by simp
  qed
  have "si_contextSnapshotId x \<noteq> fsi_id inp" if "x \<in> set (context_snapshot_items (db s))" for x
  proof -
    from schema_item_owner [OF assms(2)] that have "si_contextSnapshotId x \<in> sn_id ` set (context_snapshots (db s))"
      by (rule subsetD [OF _ imageI])
    with fresh show ?thesis by auto
  qed
  then have "items_of_snapshot (db t) (fsi_id inp) = filter (\<lambda>x. si_contextSnapshotId x = fsi_id inp) (fsr_items r)"
    by (simp add: items_of_snapshot_def out filter_empty_conv)
  also have "\<dots> = fsr_items r"
    using items by (auto simp: filter_id_conv frozen_from_def list_all2_conv_all_nth in_set_conv_nth)
  finally show ?thesis using items fresh by (simp add: snapshot out frozen_row_def set_map_where image_iff)
qed

section \<open>What a dispatch hands over\<close>

lemma schema_step: "evolves_at keeps_schema m s \<Longrightarrow> m s = (x, t) \<Longrightarrow> schema_ok (db s) \<Longrightarrow> schema_ok (db t)"
  by (simp add: evolves_at_def keeps_schema_def)

lemma schema_session: "schema_ok (db s) \<Longrightarrow> schema_ok (db (run_session sv cs s))"
  using integ.over_session [OF run_session_step [of sv s cs]] by (simp add: keeps_schema_def)

lemma toFreezeItems_fields:
  "list_all2 (frozen_from sv i) (toFreezeItems items) rows \<Longrightarrow>
     length rows = length items \<and> map si_position rows = map int [0..<length items] \<and> map si_sourceRef rows = map ri_sourceRef items
     \<and> map si_authority rows = map ri_authority items \<and> map si_priority rows = map ri_priority items
     \<and> map si_resolvedContent rows = map ri_resolvedContent items
     \<and> map si_contentHash rows = map (\<lambda>x. sha256Hex sv (ri_resolvedContent x)) items"
  by (auto simp: list_all2_conv_all_nth toFreezeItems_def toFreezeItem_def frozen_from_def nth_enumerate_eq
      intro!: nth_equalityI)

lemma freezeSnapshot_ok:
  assumes "freezeSnapshot sv env scope selections s = (Inr r, t)" and "schema_ok (db s)"
  shows "\<exists>items. resolved_from sv scope selections items \<and> sn_status (fsr_snapshot r) = SS_FROZEN
    \<and> fsr_snapshot r \<in> set (context_snapshots (db t)) \<and> items_of_snapshot (db t) (sn_id (fsr_snapshot r)) = fsr_items r
    \<and> list_all2 (frozen_from sv (sn_id (fsr_snapshot r))) (toFreezeItems items) (fsr_items r) \<and> schema_ok (db t)"
proof -
  from assms(1) obtain items u inp where items: "materialize sv env scope selections s = (Inr items, u)"
    and freeze: "freezeContextSnapshot sv inp (run_session sv (rv_others env (Suc (length selections))) u\<lparr>idCalls := idCalls (run_session sv (rv_others env (Suc (length selections))) u) + 1\<rparr>) = (Inr r, t)"
      "fsi_items inp = toFreezeItems items"
    by (auto simp: freezeSnapshot_def ok_simps)
  have "evolves_at keeps_schema (materialize sv env scope selections) s"
    unfolding materialize_def by (intro integ.composed integ.basic integ.waiting integ.validateScope integ.resolve integ.materialize_from)
  then have "schema_ok (db u)" using items assms(2) by (rule schema_step)
  then have schema: "schema_ok (db (run_session sv (rv_others env (Suc (length selections))) u\<lparr>idCalls := n\<rparr>))" for n
    by (simp add: schema_session)
  have "schema_ok (db t)" by (rule schema_step [OF integ.freezeContextSnapshot freeze(1) schema])
  with freezeContextSnapshot_effect [OF freeze(1) schema] materialize_ok [OF items] show ?thesis by (auto simp: freeze(2))
qed

definition frozen_bundle :: "services \<Rightarrow> context_snapshot_item_row list \<Rightarrow> context_bundle_v2" where
  "frozen_bundle sv rows = bundle_of (sv_sha256Hex sv) (map bundle_item rows)"

definition within_limits :: "context_bundle_v2 \<Rightarrow> bool" where
  "within_limits b \<longleftrightarrow> length (xb_items b) \<le> MAX_EXECUTION_CONTEXT_ITEMS \<and> xb_totalBytes b \<le> MAX_EXECUTION_CONTEXT_BYTES"

text \<open>Rows as \<open>freezeSnapshot\<close> stores them.\<close>

definition rows_sound :: "services \<Rightarrow> context_snapshot_item_row list \<Rightarrow> bool" where
  "rows_sound sv rows \<longleftrightarrow>
     map si_position rows = map int [0..<length rows]
     \<and> list_all (\<lambda>r. si_contentHash r = sha256Hex sv (si_resolvedContent r)) rows
     \<and> rows \<noteq> [] \<and> si_authority (hd rows) = CA_TASK_INSTRUCTION \<and> si_priority (hd rows) = P0"

lemma frozen_bundle_sound:
  assumes "rows_sound sv rows"
  shows "bundle_sound (sv_sha256Hex sv) (frozen_bundle sv rows) \<longleftrightarrow> within_limits (frozen_bundle sv rows)"
  using assms
  by (cases rows) (auto simp: bundle_sound_def frozen_bundle_def bundle_of_def computeExecutionContextBundle_def within_limits_def
      rows_sound_def bundle_item_def sha256Hex_def list_all_iff comp_def)

lemma materialize_rows:
  assumes "items_of_snapshot (db s) i = rows" and "rows_sound sv rows"
  shows "fst (materializeContextBundle sv i s) = Inr b \<longleftrightarrow> b = frozen_bundle sv rows \<and> within_limits b"
proof -
  have "sorted (map si_position rows)"
    using assms(2) by (simp add: rows_sound_def sorted_map sorted_wrt_mono_rel [OF _ sorted_wrt_upt])
  then have "order_by si_position rows = rows" by (rule order_by_sorted_eq)
  moreover have "assertValidExecutionContextBundle (sv_sha256Hex sv) (frozen_bundle sv rows) = Inr () \<longleftrightarrow> within_limits (frozen_bundle sv rows)"
    unfolding assertValidExecutionContextBundle_iff by (rule frozen_bundle_sound [OF assms(2)])
  moreover have "rows \<noteq> []" using assms(2) by (simp add: rows_sound_def)
  ultimately show ?thesis using assms(1)
    by (auto simp: materializeContextBundle_def listSnapshotItems_def items_of_snapshot_def Let_def andThen_def query_def throw_if_def
        ret_def throw_def frozen_bundle_def [symmetric] split: sum.splits)
qed

lemma frozen_rows_sound:
  assumes "resolved_from sv scope selections items" and "list_all2 (frozen_from sv i) (toFreezeItems items) rows"
  shows "rows_sound sv rows"
proof -
  note fields = toFreezeItems_fields [OF assms(2)]
  have "items \<noteq> []" using assms(1) by (simp add: resolved_from_def instruction_first_def)
  then have "rows \<noteq> []" using fields by auto
  then have "si_authority (hd rows) = ri_authority (hd items)" "si_priority (hd rows) = ri_priority (hd items)"
    using fields \<open>items \<noteq> []\<close> by (metis list.map_sel(1))+
  moreover have "list_all (\<lambda>r. si_contentHash r = sha256Hex sv (si_resolvedContent r)) rows"
    using assms(2) by (auto simp: list_all_length list_all2_conv_all_nth frozen_from_def)
  ultimately show ?thesis using assms(1) fields \<open>rows \<noteq> []\<close>
    by (simp add: rows_sound_def resolved_from_def instruction_first_def)
qed

lemma frozen_later:
  assumes "x \<in> set (context_snapshots (db s))" and "sn_status x = SS_FROZEN" and "schema_ok (db s)"
  shows "items_of_snapshot (db (run_services sv cs s)) (sn_id x) = items_of_snapshot (db s) (sn_id x)"
  using perm.over_services [of s sv cs] assms by (simp add: permanent_def frozen_kept_def)

text \<open>
  C4. A snapshot holds the pinned specification and the selected sources, in this order and none
  twice; and whatever is called between, every later dispatch hands over exactly the items that
  were frozen, in one sound bundle, or is refused: and it is refused exactly if there are more
  than 256 of them or their canonical text is longer than 4 MiB.
\<close>

theorem frozen_context_reaches_worker:
  assumes "freezeSnapshot sv env scope selections s = (Inr r, t)" and "schema_ok (db s)"
  shows "map si_sourceRef (fsr_items r) = map sourceRefToString (scope_refs scope selections)
    \<and> distinct (map si_sourceRef (fsr_items r))
    \<and> (fst (materializeContextBundle sv (sn_id (fsr_snapshot r)) (run_services sv cs t)) = Inr b
         \<longleftrightarrow> b = frozen_bundle sv (fsr_items r) \<and> within_limits b)
    \<and> (bundle_sound (sv_sha256Hex sv) (frozen_bundle sv (fsr_items r)) \<longleftrightarrow> within_limits (frozen_bundle sv (fsr_items r)))"
proof -
  obtain items where items: "resolved_from sv scope selections items"
    and stored: "sn_status (fsr_snapshot r) = SS_FROZEN" "fsr_snapshot r \<in> set (context_snapshots (db t))" "schema_ok (db t)"
      "items_of_snapshot (db t) (sn_id (fsr_snapshot r)) = fsr_items r"
      "list_all2 (frozen_from sv (sn_id (fsr_snapshot r))) (toFreezeItems items) (fsr_items r)"
    using freezeSnapshot_ok [OF assms] by blast
  have sound: "rows_sound sv (fsr_items r)" by (rule frozen_rows_sound [OF items stored(5)])
  have "items_of_snapshot (db (run_services sv cs t)) (sn_id (fsr_snapshot r)) = fsr_items r"
    using frozen_later [OF stored(2,1,3)] stored(4) by simp
  note handed = materialize_rows [OF this sound]
  have refs: "map si_sourceRef (fsr_items r) = map ri_sourceRef items" using toFreezeItems_fields [OF stored(5)] by blast
  have "map ri_sourceRef items = map sourceRefToString (scope_refs scope selections)" "distinct (map ri_sourceRef items)"
    using items unfolding resolved_from_def by blast+
  then show ?thesis unfolding refs handed using frozen_bundle_sound [OF sound] by blast
qed

definition no_waiting :: resolver_env where
  "no_waiting = \<lparr>rv_others = (\<lambda>n. []), rv_reading = (\<lambda>n. []), rv_commitEvents = (\<lambda>n. []), rv_blobEvents = (\<lambda>n. [])\<rparr>"

definition demo_scope :: resolution_scope where
  "demo_scope = \<lparr>rs_scopeProjectId = ''p'', rs_scopeTaskId = ''t'', rs_scopeTaskSpecVersionId = ''s'', rs_scopeBaseBaselineId = ''l'',
     rs_scopeExpectedRepositoryRevisionId = ''r''\<rparr>"

definition demo_selections :: "freeze_selection list" where
  "demo_selections = [\<lparr>fs_source = NodeVersionSource ''v'', fs_selectionReason = None\<rparr>]"

theorem frozen_context_reaches_worker_witness:
  "\<exists>r. fst (freezeSnapshot demo no_waiting demo_scope demo_selections (at ready_db)) = Inr r
    \<and> map si_sourceRef (fsr_items r) = [''task-spec://s'', ''node://v'']"
proof -
  have "\<not> isl (fst (freezeSnapshot demo no_waiting demo_scope demo_selections (at ready_db)))" by code_simp
  then obtain r where r: "fst (freezeSnapshot demo no_waiting demo_scope demo_selections (at ready_db)) = Inr r"
    by (cases "fst (freezeSnapshot demo no_waiting demo_scope demo_selections (at ready_db))") simp_all
  from frozen_context_reaches_worker [OF ok_pair [OF r]] ready_schema
  have "map si_sourceRef (fsr_items r) = map sourceRefToString (scope_refs demo_scope demo_selections)" by (simp add: at_def)
  with r show ?thesis by (simp add: scope_refs_def demo_scope_def demo_selections_def selection_ref_def)
qed

end
