(* ===== verification/Dispatch_Laws.thy ===== *)
theory Dispatch_Laws
  imports Context_Laws
begin

text \<open>
  The dispatch of a run: the worker is called only after run and request are on record, the same
  request is never prepared twice, the worker accepts what the coordinator prepares, and every
  dispatch settles its run.
\<close>

section \<open>Requests stay on record\<close>

definition request_le :: "execution_request_record_row \<Rightarrow> execution_request_record_row \<Rightarrow> bool" where
  "request_le r q \<longleftrightarrow> er_executionRequestId q = er_executionRequestId r \<and> er_runId q = er_runId r
     \<and> er_requestHash q = er_requestHash r \<and> er_requestJson q = er_requestJson r \<and> er_dispatchedAt q = er_dispatchedAt r"

definition requests_kept :: "database \<Rightarrow> database \<Rightarrow> bool" where
  "requests_kept d e \<longleftrightarrow> rows_le request_le (execution_request_records d) (execution_request_records e)"

lemma request_le_refl [simp]: "request_le r r"
  by (simp add: request_le_def)

lemma request_le_trans: "request_le a b \<Longrightarrow> request_le b c \<Longrightarrow> request_le a c"
  by (simp add: request_le_def)

lemma requests_kept_frame [simp]: "execution_request_records e = execution_request_records d \<Longrightarrow> requests_kept d e"
  by (simp add: requests_kept_def rows_le_refl)

interpretation request_log: statements requests_kept
proof (unfold_locales, goal_cases)
  case (2 d e f)
  then show ?case unfolding requests_kept_def using rows_le_trans [of request_le] request_le_trans by blast
qed (simp_all add: log_frames requests_kept_def rows_le_refl rows_le_snoc completed_request_def request_le_def rows_le_map_where)

section \<open>What is stored before the worker is called\<close>

definition dispatched_run :: "create_dispatched_run_input \<Rightarrow> run_row" where
  "dispatched_run inp =
     \<lparr>rn_id = cdr_runId inp, rn_projectId = cdr_projectId inp, rn_taskId = cdr_taskId inp,
      rn_taskSpecVersionId = cdr_taskSpecVersionId inp, rn_contextSnapshotId = cdr_contextSnapshotId inp,
      rn_repositoryRevisionId = cdr_repositoryRevisionId inp, rn_status = RS_RUNNING,
      rn_outcome = None, rn_startedAt = cdr_startedAt inp, rn_completedAt = None,
      rn_createdAt = cdr_now inp, rn_updatedAt = cdr_now inp\<rparr>"

lemma createDispatchedRun_effect:
  assumes "createDispatchedRun sv inp s = (Inr x, t)"
  shows "tx s = None \<and> runs (db t) = runs (db s) @ [dispatched_run inp] \<and> cdr_runId inp \<notin> rn_id ` set (runs (db s))
    \<and> dq_executionRequestId (cdr_request inp) \<notin> er_executionRequestId ` set (execution_request_records (db s))
    \<and> (\<exists>r. execution_request_records (db t) = execution_request_records (db s) @ [r]
        \<and> er_executionRequestId r = dq_executionRequestId (cdr_request inp) \<and> er_runId r = cdr_runId inp
        \<and> er_requestHash r = dq_requestHash (cdr_request inp) \<and> er_requestJson r = dq_requestJson (cdr_request inp))"
proof -
  obtain k u where move: "transitionTask sv (cdr_taskId inp) TS_IN_PROGRESS (cdr_now inp) (s\<lparr>tx := Some (db s)\<rparr>) = (Inr k, u)"
    and rest: "tx s = None" "runs (db t) = runs (db u) @ [dispatched_run inp]" "cdr_runId inp \<notin> rn_id ` set (runs (db u))"
      "dq_executionRequestId (cdr_request inp) \<notin> er_executionRequestId ` set (execution_request_records (db u))"
      "\<exists>r. execution_request_records (db t) = execution_request_records (db u) @ [r]
        \<and> er_executionRequestId r = dq_executionRequestId (cdr_request inp) \<and> er_runId r = cdr_runId inp
        \<and> er_requestHash r = dq_requestHash (cdr_request inp) \<and> er_requestJson r = dq_requestJson (cdr_request inp)"
    using assms unfolding createDispatchedRun_def dispatched_run_def
    by (auto simp: ok_simps appendRunEvent_def nextRunEventSequence_def viol_defs split: if_splits)
  have "runs (db u) = runs (db s)" "execution_request_records (db u) = execution_request_records (db s)"
    using transitionTask_okD [OF move] by auto
  with rest show ?thesis by simp
qed

lemma materialize_reads: "evolves_at same_db (materializeContextBundle sv i) s"
  unfolding materializeContextBundle_def listSnapshotItems_def Let_def by (intro rd.composed rd.basic)

lemma found_snapshot: "find_snapshot d i = Some x \<Longrightarrow> sn_id x = i \<and> x \<in> set (context_snapshots d)"
  by (auto simp: find_snapshot_def dest: first_where_SomeD)

text \<open>The request that is prepared in a state: what it is made of.\<close>

definition made_of ::
  "services \<Rightarrow> coordinator_env \<Rightarrow> database \<Rightarrow> string \<Rightarrow> string \<Rightarrow> execution_request \<Rightarrow> bool" where
  "made_of sv env d snapshotId requestId request \<longleftrightarrow>
     (\<exists>snapshot revision handed_over runId n.
        find_snapshot d snapshotId = Some snapshot \<and> sn_status snapshot = SS_FROZEN
        \<and> find_revision d (sn_expectedRepositoryRevisionId snapshot) = Some revision \<and> rr_workingTreePatchHash revision = None
        \<and> handed_over = frozen_bundle sv (order_by si_position (items_of_snapshot d snapshotId)) \<and> bundle_sound (sv_sha256Hex sv) handed_over
        \<and> request = signed_request (sv_sha256Hex sv) (base_request env requestId runId n snapshot revision handed_over))"

lemma materialized:
  "materializeContextBundle sv i s = (Inr b, t) \<Longrightarrow>
     b = frozen_bundle sv (order_by si_position (items_of_snapshot (db s) i)) \<and> bundle_sound (sv_sha256Hex sv) b"
  by (auto simp: materializeContextBundle_def listSnapshotItems_def items_of_snapshot_def Let_def ok_simps
      assertValidExecutionContextBundle_iff frozen_bundle_def split: sum.splits)

lemma materialized_state: "materializeContextBundle sv i s = (Inr b, t) \<Longrightarrow> t = s"
  by (auto simp: materializeContextBundle_def listSnapshotItems_def Let_def ok_simps split: sum.splits)

lemma prepare_run_id:
  "prepare sv env snapshotId requestId s = (Inr request, t) \<Longrightarrow> xr_runId request = sv_nextId sv (idCalls s) ''run_''"
  by (auto simp: prepare_def Let_def ok_simps signed_request_def base_request_def dest!: materialized_state)

lemma prepare_ok:
  assumes "prepare sv env snapshotId requestId s = (Inr request, t)"
  shows "made_of sv env (db s) snapshotId requestId request
    \<and> (\<exists>u n snapshot. db u = db s \<and> tx u = tx s \<and> createDispatchedRun sv (dispatched_run_input n snapshot request) u = (Inr (), t))"
proof -
  obtain snapshot revision handed_over u runId n where
    found: "find_snapshot (db s) snapshotId = Some snapshot" "sn_status snapshot = SS_FROZEN"
      "find_revision (db s) (sn_expectedRepositoryRevisionId snapshot) = Some revision" "rr_workingTreePatchHash revision = None"
    and handed: "materializeContextBundle sv (sn_id snapshot) s = (Inr handed_over, u)"
    and request: "request = signed_request (sv_sha256Hex sv) (base_request env requestId runId n snapshot revision handed_over)"
    and stored: "createDispatchedRun sv (dispatched_run_input n snapshot request) (u\<lparr>idCalls := idCalls u + 1, nowCalls := nowCalls u + 1\<rparr>) = (Inr (), t)"
    using assms unfolding prepare_def Let_def by (auto simp: ok_simps)
  from materialize_reads [of sv "sn_id snapshot" s] handed have "db u = db s" "tx u = tx s"
    by (simp_all add: evolves_at_def same_db_def)
  then have "\<exists>u n snapshot. db u = db s \<and> tx u = tx s \<and> createDispatchedRun sv (dispatched_run_input n snapshot request) u = (Inr (), t)"
    using stored by (intro exI [of _ "u\<lparr>idCalls := idCalls u + 1, nowCalls := nowCalls u + 1\<rparr>"]) auto
  then show ?thesis using found request materialized [OF handed] found_snapshot [OF found(1)]
    unfolding made_of_def by blast
qed

definition on_record :: "database \<Rightarrow> execution_request \<Rightarrow> bool" where
  "on_record d request \<longleftrightarrow>
     (\<exists>r\<in>set (execution_request_records d). er_executionRequestId r = xr_executionRequestId request \<and> er_runId r = xr_runId request
        \<and> er_requestHash r = xr_requestHash request \<and> er_requestJson r = stableStringify (request_json request))"

lemma on_record_kept: "on_record d request \<Longrightarrow> requests_kept d e \<Longrightarrow> on_record e request"
  by (force simp: on_record_def requests_kept_def rows_le_def request_le_def)

lemma made_of_id: "made_of sv env d snapshotId requestId request \<Longrightarrow> xr_executionRequestId request = requestId"
  by (auto simp: made_of_def signed_request_def base_request_def)

lemma dispatched_fields [simp]:
  "cdr_runId (dispatched_run_input n snapshot request) = xr_runId request"
  "dq_executionRequestId (cdr_request (dispatched_run_input n snapshot request)) = xr_executionRequestId request"
  "dq_requestHash (cdr_request (dispatched_run_input n snapshot request)) = xr_requestHash request"
  "dq_requestJson (cdr_request (dispatched_run_input n snapshot request)) = stableStringify (request_json request)"
  by (simp_all add: dispatched_run_input_def)

lemma prepare_stored:
  assumes "prepare sv env snapshotId requestId s = (Inr request, t)"
  shows "tx s = None \<and> on_record (db t) request \<and> requestId \<notin> er_executionRequestId ` set (execution_request_records (db s))
    \<and> map_option rn_status (find_run (db t) (xr_runId request)) = Some RS_RUNNING"
proof -
  obtain u n snapshot where u: "db u = db s" "tx u = tx s" "createDispatchedRun sv (dispatched_run_input n snapshot request) u = (Inr (), t)"
    using prepare_ok [OF assms] by blast
  note stored = createDispatchedRun_effect [OF u(3), unfolded dispatched_fields u(1,2)]
  have id: "xr_executionRequestId request = requestId" using prepare_ok [OF assms] made_of_id by blast
  from stored have "on_record (db t) request" unfolding on_record_def by auto
  moreover have "find_run (db t) (xr_runId request) = Some (dispatched_run (dispatched_run_input n snapshot request))"
    using stored by (auto simp: find_run_def dispatched_run_def image_iff intro!: first_where_snoc)
  ultimately show ?thesis using stored id by (simp add: dispatched_run_def)
qed

text \<open>
  C7. When the worker is called, the run is RUNNING and the request is on record with its hash and
  its text, and stays there whatever is called later; it was made of a FROZEN snapshot of a clean
  revision, with the bundle of exactly the items of the snapshot, and carries the hash of itself;
  and the same request id is never prepared again, for any snapshot: the worker is called for it
  at most once.
\<close>

theorem worker_request_on_record:
  assumes "prepare sv env snapshotId requestId s = (Inr request, t)"
  shows "made_of sv env (db s) snapshotId requestId request
    \<and> map_option rn_status (find_run (db t) (xr_runId request)) = Some RS_RUNNING
    \<and> on_record (db (run_services sv cs t)) request
    \<and> fst (prepare sv env' snapshotId' requestId (run_services sv cs t)) \<noteq> Inr request'"
proof -
  let ?u = "run_services sv cs t"
  have kept: "on_record (db ?u) request"
    using on_record_kept [of "db t"] prepare_stored [OF assms] request_log.over_services [of t sv cs] by blast
  moreover have id: "xr_executionRequestId request = requestId" using prepare_ok [OF assms] made_of_id by blast
  ultimately have "requestId \<in> er_executionRequestId ` set (execution_request_records (db ?u))"
    by (force simp: on_record_def)
  then have "fst (prepare sv env' snapshotId' requestId ?u) \<noteq> Inr request'"
    using prepare_stored [of sv env' snapshotId' requestId ?u request' "snd (prepare sv env' snapshotId' requestId ?u)"]
    by (auto dest: ok_pair)
  with kept prepare_ok [OF assms] prepare_stored [OF assms] show ?thesis by blast
qed

definition hashing :: services where
  "hashing = demo\<lparr>sv_sha256Hex := zeros\<rparr>"

definition instructed_db :: database where
  "instructed_db = ready_db\<lparr>tasks := [demo_task TS_IN_PROGRESS],
     repository_revisions := [\<lparr>rr_id = ''r'', rr_baseCommit = zeros [], rr_treeHash = zeros [], rr_workingTreePatchHash = None,
       rr_createdAt = ''n''\<rparr>], context_snapshots := [demo_snapshot],
     context_snapshot_items := [\<lparr>si_id = ''j'', si_contextSnapshotId = ''c'', si_position = 0, si_itemType = USER_INPUT,
       si_sourceRef = ''task-spec://s'', si_resolvedContent = ''D'', si_contentHash = zeros [], si_selectionReason = None,
       si_authority = CA_TASK_INSTRUCTION, si_priority = P0, si_tokenEstimate = 1, si_blobId = None\<rparr>]\<rparr>"

definition no_files :: ingest_files where
  "no_files = \<lparr>fi_flavor = posix, fi_join = (\<lambda>a b. a @ ''/'' @ b), fi_realpath = Inr, fi_lstat = (\<lambda>p. Inr (False, True)),
     fi_open = (\<lambda>p. None), fi_stat = (\<lambda>p. Inr 0), fi_reads = (\<lambda>p. [])\<rparr>"

definition broken_worker :: coordinator_env where
  "broken_worker = \<lparr>ce_expiry = (\<lambda>n. ''e''), ce_worker = (\<lambda>r. Inl (PlainError ''gone'')), ce_files = no_files,
     ce_runtimeDirectory = ''/r'', ce_whileWorking = [], ce_whileIngesting = []\<rparr>"

lemma instructed_bundle: "\<exists>b. materializeContextBundle hashing ''c'' (at instructed_db) = (Inr b, at instructed_db)"
proof -
  let ?rows = "context_snapshot_items instructed_db"
  have rows: "items_of_snapshot (db (at instructed_db)) ''c'' = ?rows"
    by (simp add: items_of_snapshot_def at_def instructed_db_def)
  have sound: "rows_sound hashing ?rows"
    by (simp add: rows_sound_def instructed_db_def sha256Hex_def hashing_def zeros_def)
  have "within_limits (frozen_bundle hashing ?rows)" by code_simp
  then have "fst (materializeContextBundle hashing ''c'' (at instructed_db)) = Inr (frozen_bundle hashing ?rows)"
    using materialize_rows [OF rows sound] by blast
  note handed = ok_pair [OF this]
  moreover have "snd (materializeContextBundle hashing ''c'' (at instructed_db)) = at instructed_db"
    using handed by (auto simp: materializeContextBundle_def listSnapshotItems_def Let_def ok_simps split: sum.splits)
  ultimately show ?thesis by auto
qed

lemma prepare_succeeds:
  assumes "find_snapshot (db s) i = Some snapshot" and "sn_status snapshot = SS_FROZEN"
    and "find_spec (db s) (sn_taskSpecVersionId snapshot) = Some spec"
    and "find_revision (db s) (sn_expectedRepositoryRevisionId snapshot) = Some revision" and "rr_workingTreePatchHash revision = None"
    and "materializeContextBundle sv (sn_id snapshot) s = (Inr b, s)"
    and stored: "\<And>request n. fst (createDispatchedRun sv (dispatched_run_input n snapshot request)
          (s\<lparr>idCalls := Suc (idCalls s), nowCalls := Suc (nowCalls s)\<rparr>)) = Inr ()"
  shows "\<exists>request t. prepare sv env i requestId s = (Inr request, t)"
  using assms(1-6) ok_pair [OF stored] by (auto simp: prepare_def Let_def ok_simps)

lemma prepare_demo: "\<exists>request t. prepare hashing broken_worker ''c'' ''q'' (at instructed_db) = (Inr request, t)"
proof -
  obtain b where "materializeContextBundle hashing ''c'' (at instructed_db) = (Inr b, at instructed_db)"
    using instructed_bundle by blast
  moreover have "fst (createDispatchedRun hashing (dispatched_run_input n demo_snapshot r)
      ((at instructed_db)\<lparr>idCalls := Suc 0, nowCalls := Suc 0\<rparr>)) = Inr ()" for n r
    by (simp add: createDispatchedRun_def dispatched_run_input_def transitionTask_def appendAudit_def appendRunEvent_def
        nextRunEventSequence_def cmd_defs viol_defs at_def instructed_db_def demo_db_defs find_task_def first_where_def
        next_number_def events_of_run_def assertTaskTransition_def hashing_def demo_def audit_log_viol_def requireTask_def insert_into_def
        update_where_def withTransaction_def)
  ultimately show ?thesis
    by (intro prepare_succeeds [where snapshot = demo_snapshot and spec = "hd (task_spec_versions ready_db)"
          and revision = "hd (repository_revisions instructed_db)"])
      (simp_all add: find_snapshot_def find_spec_def find_revision_def first_where_def instructed_db_def demo_db_defs at_def)
qed

theorem worker_request_on_record_witness:
  "\<exists>request t. prepare hashing broken_worker ''c'' ''q'' (at instructed_db) = (Inr request, t) \<and> on_record (db t) request"
proof -
  obtain request t where p: "prepare hashing broken_worker ''c'' ''q'' (at instructed_db) = (Inr request, t)"
    using prepare_demo by blast
  from worker_request_on_record [OF p, where cs = "[]"] p show ?thesis by auto
qed

section \<open>The worker accepts what the coordinator prepares\<close>

lemma strip_signed [simp]: "stripRequestHash (r\<lparr>xr_requestHash := h\<rparr>) = stripRequestHash r"
  by (simp add: stripRequestHash_def xr_schemaVersion_def)

lemma computeRequestHash_signed [simp]: "computeRequestHash sha (r\<lparr>xr_requestHash := h\<rparr>) = computeRequestHash sha r"
  by (simp add: computeRequestHash_def)

lemma canonicalItems_nonempty: "0 < length (canonicalItems xs)"
  by (simp add: canonicalItems_def stableStringify_def)

lemma bundle_schema:
  assumes "bundle_sound sha b" and "\<And>x. is_contentHash (sha x)"
    and "\<And>x. x \<in> set (xb_items b) \<Longrightarrow> 1 \<le> estimateChars (xi_sourceRef x) \<and> estimateChars (xi_sourceRef x) \<le> 4096 \<and> 0 \<le> xi_tokenEstimate x"
  shows "executionContextBundleV2Schema b"
proof -
  have "0 \<le> xi_position x" if "x \<in> set (xb_items b)" for x
  proof -
    have "xi_position x \<in> set (map int [0..<length (xb_items b)])"
      using assms(1) that unfolding bundle_sound_def by (metis imageI list.set_map)
    then show ?thesis by auto
  qed
  moreover have "is_contentHash (xi_contentHash x)" if "x \<in> set (xb_items b)" for x
    using assms(1,2) that by (auto simp: bundle_sound_def list_all_iff dest!: bspec) (metis assms(2))
  ultimately show ?thesis using assms canonicalItems_nonempty [of "xb_items b"]
    by (simp add: executionContextBundleV2Schema_def executionContextItemV2Schema_def list_all_iff bundle_sound_def Suc_le_eq)
qed

text \<open>
  C9. With a digest, a date format and ids as documented, with stored revisions that are git
  object names and stored references of at most 4096 characters, a worker that has git and node
  accepts every request the coordinator prepares, up to its expiry.
\<close>

theorem prepared_request_accepted:
  assumes "prepare sv env snapshotId requestId s = (Inr request, t)"
    and digest: "\<And>x. is_contentHash (sv_sha256Hex sv x)"
    and ids: "executionRequestIdSchema requestId" "snapshotId \<noteq> []" "\<And>n. sv_nextId sv n ''run_'' \<noteq> []"
      "\<And>x. x \<in> set (context_snapshots (db s)) \<Longrightarrow> sn_taskSpecVersionId x \<noteq> []"
    and revisions: "\<And>x. x \<in> set (repository_revisions (db s)) \<Longrightarrow> is_gitObjectHash (rr_baseCommit x) \<and> is_gitObjectHash (rr_treeHash x)"
    and items: "\<And>x. x \<in> set (items_of_snapshot (db s) snapshotId) \<Longrightarrow>
        1 \<le> estimateChars (si_sourceRef x) \<and> estimateChars (si_sourceRef x) \<le> 4096 \<and> 0 \<le> si_tokenEstimate x"
    and expiry: "cl_isoDatetime lib (xr_expiresAt request)" "\<not> num_le (cl_getTime lib (xr_expiresAt request)) nowMs"
    and capabilities: "{''git'', ''node''} \<subseteq> set capabilities"
  shows "validateExecutionRequest lib (sv_sha256Hex sv) capabilities nowMs request = Inr ()"
proof -
  obtain snapshot revision b runId n where
    made: "find_snapshot (db s) snapshotId = Some snapshot" "find_revision (db s) (sn_expectedRepositoryRevisionId snapshot) = Some revision"
      "rr_workingTreePatchHash revision = None" "b = frozen_bundle sv (order_by si_position (items_of_snapshot (db s) snapshotId))"
      "bundle_sound (sv_sha256Hex sv) b"
      "request = signed_request (sv_sha256Hex sv) (base_request env requestId runId n snapshot revision b)"
    using prepare_ok [OF assms(1)] unfolding made_of_def by blast
  let ?sha = "sv_sha256Hex sv"
  have rev: "is_gitObjectHash (rr_baseCommit revision)" "is_gitObjectHash (rr_treeHash revision)"
    using revisions [of revision] made(2) by (auto simp: find_revision_def dest: first_where_SomeD)
  have named: "xr_runId request \<noteq> []" "sn_taskSpecVersionId snapshot \<noteq> []"
    using prepare_run_id [OF assms(1)] ids(3,4) found_snapshot [OF made(1)] by auto
  then have runId: "runId \<noteq> []" by (simp add: made(6) signed_request_def base_request_def)
  have content: "executionContextBundleV2Schema b"
  proof (rule bundle_schema [OF made(5) digest])
    fix x assume "x \<in> set (xb_items b)"
    then obtain y where "y \<in> set (items_of_snapshot (db s) snapshotId)" "x = bundle_item y"
      by (auto simp: made(4) frozen_bundle_def bundle_of_def computeExecutionContextBundle_def)
    with items [of y] show "1 \<le> estimateChars (xi_sourceRef x) \<and> estimateChars (xi_sourceRef x) \<le> 4096 \<and> 0 \<le> xi_tokenEstimate x"
      by (simp add: bundle_item_def)
  qed
  have "executionRequestSchema lib request"
    using ids(1,2) named(2) runId digest expiry rev content found_snapshot [OF made(1)]
    by (simp add: executionRequestSchema_def made(3,6) signed_request_def base_request_def repositoryRevisionSchema_def
        profile_requiredCapabilities_def profile_agentConfiguration_def profile_toolPolicy_def profile_resourceBudget_def
        computeRequestHash_def)
  moreover have "xr_requestHash request = computeRequestHash ?sha request" by (simp add: made(6) signed_request_def)
  moreover have "set (xr_requiredCapabilities request) \<subseteq> set capabilities" "xr_contextBundle request = Some b"
    using capabilities by (simp_all add: made(6) signed_request_def base_request_def profile_requiredCapabilities_def)
  ultimately show ?thesis using made(5) expiry by (simp add: validateExecutionRequest_iff request_sound_def)
qed

theorem prepared_request_accepted_witness:
  "\<exists>request t. prepare hashing broken_worker ''c'' ''q'' (at instructed_db) = (Inr request, t)
    \<and> validateExecutionRequest any_date zeros [''git'', ''node''] (Finite 0) request = Inr ()"
proof -
  obtain request t where p: "prepare hashing broken_worker ''c'' ''q'' (at instructed_db) = (Inr request, t)"
    using prepare_demo by blast
  have hash: "is_contentHash (sv_sha256Hex hashing x)" "is_gitObjectHash (zeros [])" for x
    by (simp_all add: hashing_def zeros_def is_contentHash_def is_gitObjectHash_def hex_char_def list_all_iff)
  have id: "executionRequestIdSchema ''q''" by (simp add: executionRequestIdSchema_def id_char_def)
  have run: "sv_nextId hashing n ''run_'' \<noteq> []" for n by (simp add: hashing_def demo_def)
  have chars: "estimateChars ''task-spec://s'' = 13" by code_simp
  have "validateExecutionRequest any_date (sv_sha256Hex hashing) [''git'', ''node''] (Finite 0) request = Inr ()"
    by (rule prepared_request_accepted [OF p hash(1) id _ run])
      (auto simp: demo_snapshot_def hash(2) at_def instructed_db_def items_of_snapshot_def any_date_def num_le_def chars)
  with p show ?thesis by (auto simp: hashing_def)
qed

end
