(* ===== verification/Dispatch_Outcome.thy ===== *)
theory Dispatch_Outcome
  imports Dispatch_Laws Atomicity
begin

text \<open>
  Every dispatch settles its run. The ids of run events are counted: none is generated twice, so
  the interruption of a run that is still RUNNING cannot be refused.
\<close>

section \<open>Generated ids are counted\<close>

definition counted_db :: "services \<Rightarrow> nat \<Rightarrow> database \<Rightarrow> bool" where
  "counted_db sv n d \<longleftrightarrow> (\<forall>e\<in>set (run_events d). \<exists>k<n. re_id e = sv_nextId sv k ''run_event'')"

definition counted :: "services \<Rightarrow> persistence \<Rightarrow> bool" where
  "counted sv s \<longleftrightarrow> counted_db sv (idCalls s) (db s) \<and> (case tx s of None \<Rightarrow> True | Some d \<Rightarrow> counted_db sv (idCalls s) d)"

definition counts :: "services \<Rightarrow> 'a cmd \<Rightarrow> bool" where
  "counts sv m \<longleftrightarrow> (\<forall>s. counted sv s \<longrightarrow> counted sv (snd (m s)) \<and> idCalls s \<le> idCalls (snd (m s)))"

lemma countsD: "counts sv m \<Longrightarrow> counted sv s \<Longrightarrow> m s = (x, t) \<Longrightarrow> counted sv t \<and> idCalls s \<le> idCalls t"
  by (auto simp: counts_def dest!: spec [of _ s])

lemma counted_db_later: "counted_db sv m d \<Longrightarrow> run_events e = run_events d \<Longrightarrow> m \<le> n \<Longrightarrow> counted_db sv n e"
  by (auto simp: counted_db_def dest: order.strict_trans2)

lemma counts_same:
  assumes "\<And>s. run_events (db (snd (m s))) = run_events (db s) \<and> tx (snd (m s)) = tx s \<and> idCalls s \<le> idCalls (snd (m s))"
  shows "counts sv m"
  using assms by (auto simp: counts_def counted_def split: option.splits intro: counted_db_later [OF _ _ assms [THEN conjunct2, THEN conjunct2]])

lemma counts_basic:
  "counts sv (ret x)" "counts sv (throw e)" "counts sv (throw_if b e)" "counts sv (query f)" "counts sv (require_some e y)"
  "counts sv (first_row e rs)" "counts sv (assert_domain z)" "counts sv (now sv')" "counts sv (nextId sv' p)" "counts sv (or_nextId sv' g p)"
  by (cases rs; cases z; rule counts_same; auto simp: cmd_defs split: option.splits)+

lemma counts_andThen:
  assumes "counts sv m" and "\<And>x. counts sv (f x)"
  shows "counts sv (andThen m f)"
proof (unfold counts_def, intro allI impI)
  fix s assume "counted sv s"
  obtain x t where m: "m s = (x, t)" by (cases "m s")
  from countsD [OF assms(1) \<open>counted sv s\<close> m] assms(2)
  show "counted sv (snd (andThen m f s)) \<and> idCalls s \<le> idCalls (snd (andThen m f s))"
    by (cases x) (auto simp: andThen_def m counts_def intro: order.trans)
qed

lemma counts_cases:
  "counts sv m \<Longrightarrow> counts sv n \<Longrightarrow> counts sv (if b then m else n)"
  "counts sv m \<Longrightarrow> (\<And>v. counts sv (f v)) \<Longrightarrow> counts sv (case x of None \<Rightarrow> m | Some v \<Rightarrow> f v)"
  "(\<And>u. counts sv (g u)) \<Longrightarrow> (\<And>v. counts sv (h v)) \<Longrightarrow> counts sv (case y of Inl u \<Rightarrow> g u | Inr v \<Rightarrow> h v)"
  by (auto split: option.split sum.split)

lemma counts_forEach: "(\<And>x. counts sv (f x)) \<Longrightarrow> counts sv (forEach f xs)"
  by (induction xs) (auto intro!: counts_andThen counts_basic)

lemma counts_transaction:
  assumes "counts sv m"
  shows "counts sv (withTransaction m)"
proof (unfold counts_def, intro allI impI)
  fix s assume c: "counted sv s"
  obtain x t where m: "m (s\<lparr>tx := Some (db s)\<rparr>) = (x, t)" by fastforce
  have "counted sv (s\<lparr>tx := Some (db s)\<rparr>)" using c by (simp add: counted_def)
  from countsD [OF assms this m] c
  show "counted sv (snd (withTransaction m s)) \<and> idCalls s \<le> idCalls (snd (withTransaction m s))"
    by (cases x; cases "tx t") (auto simp: withTransaction_def m counted_def)
qed

lemma counts_insert: "(\<And>f d. run_events (upd f d) = run_events d) \<Longrightarrow> counts sv (insert_into viol upd r)"
  by (rule counts_same) (auto simp: insert_into_def split: option.splits)

lemma counts_update: "(\<And>f d. run_events (upd f d) = run_events d) \<Longrightarrow> counts sv (update_where get upd viol P f)"
  by (rule counts_same) (auto simp: update_where_def Let_def split: option.splits)

lemma counts_appendRunEvent: "counts sv (appendRunEvent sv i k dt c)"
proof -
  have "counted sv s \<Longrightarrow> counted sv (snd (appendRunEvent sv i k dt c s)) \<and> idCalls s \<le> idCalls (snd (appendRunEvent sv i k dt c s))" for s
    by (auto simp: appendRunEvent_def nextRunEventSequence_def cmd_defs insert_into_def counted_def counted_db_def less_Suc_eq split: option.splits)
  then show ?thesis by (simp add: counts_def)
qed

lemmas counts_statements = counts_andThen counts_cases counts_forEach counts_basic counts_insert counts_update
  counts_appendRunEvent counts_transaction

lemma counts_appendAudit: "counts sv (appendAudit sv p e i a j)"
  unfolding appendAudit_def by (intro counts_statements) (simp_all add: audit_push_def)

lemma counts_transitionTask: "counts sv (transitionTask sv i to t)"
  unfolding transitionTask_def requireTask_def by (intro counts_statements counts_appendAudit) simp_all

lemma counts_appendApplicationEvent: "counts sv (appendApplicationEvent sv i a r rc dt c)"
  unfolding appendApplicationEvent_def by (intro counts_statements) simp_all

lemma counts_upsertRepositoryRevision: "counts sv (upsertRepositoryRevision sv x)"
  unfolding upsertRepositoryRevision_def by (intro counts_statements counts_appendAudit) simp_all

lemma counts_check_submitted: "counts sv (check_submitted sp m seen vs)"
  by (induction sp m seen vs rule: check_submitted.induct) (auto intro!: counts_andThen counts_basic)

lemma counts_insertBaselineDraft: "counts sv (insertBaselineDraft sv inp)"
  unfolding insertBaselineDraft_def check_baseline_version_def insert_item_at_def read_defs
  by (intro counts_statements counts_appendAudit) simp_all

lemma counts_buildAggregate: "counts sv (buildAggregate application)"
  unfolding buildAggregate_def Let_def read_defs by (intro counts_statements)

lemmas counts_rules = counts_statements counts_appendAudit counts_transitionTask counts_appendApplicationEvent
  counts_upsertRepositoryRevision counts_check_submitted counts_insertBaselineDraft counts_buildAggregate

lemma counts_plain:
  "counts sv (createProject sv a1)" "counts sv (createNode sv a3)" "counts sv (createTask sv a4)" "counts sv (registerContentBlob sv a5)"
  "counts sv (createTaskDependency sv a6)" "counts sv (createEdge sv a7)" "counts sv (publishNodeVersion sv a8)"
  "counts sv (upsertNodeDraft sv a9)" "counts sv (upsertTaskDraft sv a10)" "counts sv (markApplicationApplying sv i t)"
  "counts sv (failApplication sv a11)" "counts sv (interruptApplication sv a12)"
  unfolding createProject_def createNode_def createTask_def registerContentBlob_def createTaskDependency_def createEdge_def
    publishNodeVersion_def upsertNodeDraft_def upsertTaskDraft_def markApplicationApplying_def failApplication_def
    interruptApplication_def read_defs touchNode_def touchTask_def Let_def
  by (intro counts_rules; simp)+

lemma counts_transactions:
  "counts sv (createBaselineDraft sv a1)" "counts sv (finalizeRun sv a2)" "counts sv (interruptRun sv a3)"
  "counts sv (createDispatchedRun sv a4)" "counts sv (createAcceptanceEvaluation sv a5)" "counts sv (completeTask sv i e)"
  "counts sv (createArtifactApplication sv a6)" "counts sv (finalizeApplicationApplied sv a7)"
  "counts sv (createBaselineCandidate sv a8)"
  unfolding createBaselineDraft_def finalizeRun_def interruptRun_def createDispatchedRun_def
    createAcceptanceEvaluation_def completeTask_def createArtifactApplication_def finalizeApplicationApplied_def
    createBaselineCandidate_def reuse_candidate_def new_candidate_def read_defs finalizeRequestRecord_def
    insert_artifact_at_def insert_verdict_def Let_def
  by (intro counts_rules; simp)+

lemma counts_after_checks:
  "counts sv (activateBaseline sv i)" "counts sv (freezeContextSnapshot sv a1)" "counts sv (publishTaskSpecVersion sv a2)"
  unfolding activateBaseline_def freezeContextSnapshot_def publishTaskSpecVersion_def read_defs supersede_baseline_def
    freeze_item_def insert_spec_criterion_def insert_spec_target_def touchTask_def check_target_def
  by (intro counts_rules; simp)+

lemma counts_discard: "counts sv m \<Longrightarrow> counts sv (discard m)"
  unfolding discard_def by (intro counts_statements)

lemma counts_perform: "counts sv (perform sv c)"
  by (cases c) (simp_all add: counts_discard counts_plain counts_transactions counts_after_checks counts_upsertRepositoryRevision)

lemma counted_session: "counted sv s \<Longrightarrow> counted sv (run_session sv cs s)"
proof (induction cs arbitrary: s)
  case (Cons c cs)
  have "counted sv (snd (perform sv c s))" using counts_perform [of sv c] Cons.prems unfolding counts_def by blast
  then show ?case by (simp add: Cons.IH)
qed simp

section \<open>Ending a run\<close>

lemma find_run_map:
  fixes f :: "run_row \<Rightarrow> run_row"
  assumes "\<And>r. rn_id (f r) = rn_id r"
  shows "find_run (runs_update (map_where (\<lambda>r. rn_id r = i) f) d) i = map_option f (find_run d i)"
proof -
  have "first_where (\<lambda>r. rn_id r = i) (map_where (\<lambda>r. rn_id r = i) f (runs d)) = map_option f (first_where (\<lambda>r. rn_id r = i) (runs d))"
    by (subst first_where_map_where)
      (auto simp: assms dest: first_where_SomeD simp del: first_where_None intro!: option.map_cong)
  then show ?thesis by (simp add: find_run_def)
qed

definition run_known :: "persistence \<Rightarrow> execution_request \<Rightarrow> bool" where
  "run_known s request \<longleftrightarrow> tx s = None \<and> find_run (db s) (xr_runId request) \<noteq> None
     \<and> (\<exists>r. find_request (db s) (xr_executionRequestId request) = Some r \<and> er_runId r = xr_runId request)"

definition settled :: "persistence \<Rightarrow> execution_request \<Rightarrow> bool" where
  "settled s request \<longleftrightarrow> (\<exists>q. find_run (db s) (xr_runId request) = Some q \<and> rn_status q \<noteq> RS_RUNNING)"

definition ids_unique :: "services \<Rightarrow> bool" where
  "ids_unique sv \<longleftrightarrow> (\<forall>m n. sv_nextId sv m ''run_event'' = sv_nextId sv n ''run_event'' \<longrightarrow> m = n)"

lemma appendRunEvent_succeeds:
  assumes "counted sv s" and "ids_unique sv" and "find_run (db s) i \<noteq> None"
  shows "\<exists>x t. appendRunEvent sv i k dt c s = (Inr x, t) \<and> runs (db t) = runs (db s)
    \<and> execution_request_records (db t) = execution_request_records (db s) \<and> tx t = tx s"
proof -
  have id: "re_id e \<noteq> sv_nextId sv (idCalls s) ''run_event''" if "e \<in> set (run_events (db s))" for e
  proof -
    have "counted_db sv (idCalls s) (db s)" using assms(1) unfolding counted_def by (rule conjunct1)
    with that have "\<exists>k<idCalls s. re_id e = sv_nextId sv k ''run_event''" unfolding counted_db_def by blast
    then obtain k where "k < idCalls s" "re_id e = sv_nextId sv k ''run_event''" by blast
    moreover from this(1) have "k \<noteq> idCalls s" by simp
    moreover have "sv_nextId sv k ''run_event'' = sv_nextId sv (idCalls s) ''run_event'' \<longrightarrow> k = idCalls s"
      using assms(2) unfolding ids_unique_def by blast
    ultimately show ?thesis by simp
  qed
  have key: "re_sequence e \<noteq> next_number (-1) re_sequence (events_of_run (db s) i)" if "e \<in> set (run_events (db s))" "re_runId e = i" for e
    using below_next_number [of e "events_of_run (db s) i" re_sequence "-1"] that by (auto simp: events_of_run_def)
  have run: "i \<in> rn_id ` set (runs (db s))"
    using assms(3) by (auto simp: find_run_def dest!: first_where_SomeD)
  show ?thesis using id key run
    by (force simp: appendRunEvent_def nextRunEventSequence_def ok_simps viol_defs re_key_def image_iff)
qed

definition interrupted_row :: "string \<Rightarrow> run_row \<Rightarrow> run_row" where
  "interrupted_row t r = r\<lparr>rn_status := RS_INTERRUPTED, rn_outcome := None, rn_updatedAt := t\<rparr>"

text \<open>The request of a run with the result of the worker.\<close>

definition holds_result :: "persistence \<Rightarrow> execution_request \<Rightarrow> dispatch_result \<Rightarrow> bool" where
  "holds_result s request result \<longleftrightarrow>
     (\<exists>r c. find_request (db s) (xr_executionRequestId request) = Some (completed_request (toDispatchMetadata result) c r))"

lemma find_request_completed:
  "find_request (execution_request_records_update (map_where (\<lambda>r. er_executionRequestId r = i) (completed_request m c)) d) i
     = map_option (completed_request m c) (find_request d i)"
proof -
  have "first_where (\<lambda>r. er_executionRequestId r = i) (map_where (\<lambda>r. er_executionRequestId r = i) (completed_request m c) (execution_request_records d))
      = map_option (completed_request m c) (first_where (\<lambda>r. er_executionRequestId r = i) (execution_request_records d))"
    by (subst first_where_map_where)
      (auto simp: completed_request_def dest: first_where_SomeD simp del: first_where_None intro!: option.map_cong)
  then show ?thesis by (simp add: find_request_def)
qed

lemma interruptRun_succeeds:
  assumes "run_known s request" and q: "find_run (db s) (xr_runId request) = Some q" "rn_status q = RS_RUNNING"
    and "counted sv s" and "ids_unique sv"
    and inp: "iri_runId inp = xr_runId request" "iri_executionRequestId inp = xr_executionRequestId request"
  shows "settled (snd (interruptRun sv inp s)) request
    \<and> (\<forall>result. iri_terminalMetadata inp = Some (toDispatchMetadata result) \<longrightarrow> holds_result (snd (interruptRun sv inp s)) request result)"
proof -
  let ?i = "xr_runId request" and ?n = "iri_now inp"
  let ?s = "s\<lparr>tx := Some (db s)\<rparr>"
  obtain r where r: "find_request (db s) (xr_executionRequestId request) = Some r" "er_runId r = ?i" and tx: "tx s = None"
    using assms(1) unfolding run_known_def by blast
  have 1: "requireRunningRun ?i ?s = (Inr q, ?s)" using q by (simp add: requireRunningRun_def cmd_defs)
  have 2: "requireRequestForRun ?i (xr_executionRequestId request) ?s = (Inr r, ?s)"
    using r by (simp add: requireRequestForRun_def cmd_defs)
  have 3: "\<exists>g. (case iri_terminalMetadata inp of None \<Rightarrow> ret ()
         | Some m \<Rightarrow> finalizeRequestRecord (xr_executionRequestId request) m (default_to (iri_terminalCompletedAt inp) ?n)) ?s
       = (Inr (), ?s\<lparr>db := execution_request_records_update g (db s)\<rparr>)
     \<and> (\<forall>m. iri_terminalMetadata inp = Some m \<longrightarrow>
          (\<exists>c. find_request (execution_request_records_update g (db s)) (xr_executionRequestId request) = Some (completed_request m c r)))"
  proof (cases "iri_terminalMetadata inp")
    case None
    then show ?thesis by (intro exI [of _ "\<lambda>rs. rs"]) (simp add: ret_def)
  next
    case (Some m)
    let ?g = "map_where (\<lambda>r. er_executionRequestId r = xr_executionRequestId request)
      (completed_request m (default_to (iri_terminalCompletedAt inp) ?n))"
    have "finalizeRequestRecord (xr_executionRequestId request) m (default_to (iri_terminalCompletedAt inp) ?n) ?s
      = (Inr (), ?s\<lparr>db := execution_request_records_update ?g (db s)\<rparr>)"
      by (auto simp: finalizeRequestRecord_def ok_simps unconstrained_def completed_request_def [abs_def])
    with Some r(1) show ?thesis by (intro exI [of _ ?g]) (auto simp: find_request_completed)
  qed
  then obtain g where g: "(case iri_terminalMetadata inp of None \<Rightarrow> ret ()
         | Some m \<Rightarrow> finalizeRequestRecord (xr_executionRequestId request) m (default_to (iri_terminalCompletedAt inp) ?n)) ?s
       = (Inr (), ?s\<lparr>db := execution_request_records_update g (db s)\<rparr>)"
    and held: "\<And>m. iri_terminalMetadata inp = Some m \<Longrightarrow>
          \<exists>c. find_request (execution_request_records_update g (db s)) (xr_executionRequestId request) = Some (completed_request m c r)"
    by blast
  let ?t = "?s\<lparr>db := execution_request_records_update g (db s)\<rparr>"
  let ?u = "?t\<lparr>db := runs_update (map_where (\<lambda>r. rn_id r = ?i) (interrupted_row ?n)) (db ?t)\<rparr>"
  have 4: "update_runs (\<lambda>r. rn_id r = ?i) (interrupted_row ?n) ?t = (Inr (map (interrupted_row ?n) (filter (\<lambda>r. rn_id r = ?i) (runs (db s)))), ?u)"
    by (simp add: update_where_ok unconstrained_def)
  have "find_run (db ?t) ?i = Some q" using q(1) by (simp add: find_run_def)
  then have run: "find_run (db ?u) ?i = Some (interrupted_row ?n q)"
    using find_run_map [of "interrupted_row ?n" ?i "db ?t"] by (simp add: interrupted_row_def)
  have "counted sv ?u" using assms(4) by (simp add: counted_def counted_db_def)
  with run have 5: "\<exists>x t. appendRunEvent sv ?i k dt c ?u = (Inr x, t) \<and> runs (db t) = runs (db ?u)
      \<and> execution_request_records (db t) = execution_request_records (db ?u) \<and> tx t = tx ?u" for k dt c
    by (intro appendRunEvent_succeeds) (simp_all add: assms(5))
  obtain x t where event: "appendRunEvent sv ?i INTERRUPTED (Some (stringify (JObj
           [(''executionRequestId'', JStr (iri_executionRequestId inp)), (''reasonCode'', JStr (iri_reasonCode inp))]))) ?n ?u = (Inr x, t)"
    and same: "runs (db t) = runs (db ?u)" "execution_request_records (db t) = execution_request_records (db ?u)" using 5 by blast
  have "interruptRun sv inp s = (Inr (), t\<lparr>tx := None\<rparr>)"
    unfolding interruptRun_def withTransaction_ok andThen_ok ret_ok inp
    by (rule conjI [OF tx], rule exI, rule conjI [OF _ refl], (rule exI, rule exI, rule conjI, (rule 1 2 g 4 [unfolded interrupted_row_def [abs_def]] event [unfolded inp interrupted_row_def [abs_def]]))+, simp)
  moreover have "settled (t\<lparr>tx := None\<rparr>) request" using run same by (simp add: settled_def find_run_def interrupted_row_def)
  moreover have "holds_result (t\<lparr>tx := None\<rparr>) request result" if "iri_terminalMetadata inp = Some (toDispatchMetadata result)" for result
    using held [OF that] same(2) by (auto simp: holds_result_def find_request_def)
  ultimately show ?thesis by simp
qed

definition stored_artifact :: "finalize_run_input \<Rightarrow> nat \<times> artifact_input \<Rightarrow> artifact_row \<Rightarrow> bool" where
  "stored_artifact inp pa a \<longleftrightarrow>
     ar_runId a = fri_runId inp \<and> ar_executionRequestId a = fri_executionRequestId inp \<and> ar_position a = int (fst pa)
     \<and> ar_kind a = ari_kind (snd pa) \<and> ar_fileName a = ari_fileName (snd pa) \<and> ar_content a = ari_content (snd pa)
     \<and> ar_contentHash a = ari_contentHash (snd pa) \<and> ar_sizeBytes a = ari_sizeBytes (snd pa)"

lemma insert_artifact_at_ok:
  "insert_artifact_at sv inp pa s = (Inr rs, u) \<Longrightarrow>
     \<exists>row. rs = [row] \<and> db u = artifacts_update (\<lambda>xs. xs @ [row]) (db s) \<and> stored_artifact inp pa row"
  by (auto simp: ok_simps insert_artifact_at_def stored_artifact_def)

lemma insert_artifacts_ok:
  "forEach (insert_artifact_at sv inp) pas s = (Inr rows, t) \<Longrightarrow>
     db t = artifacts_update (\<lambda>xs. xs @ concat rows) (db s) \<and> list_all2 (stored_artifact inp) pas (concat rows)"
  by (induction pas arbitrary: s rows) (fastforce simp: ok_simps dest!: insert_artifact_at_ok)+

definition finished_row :: "finalize_run_input \<Rightarrow> run_row \<Rightarrow> run_row" where
  "finished_row inp r = r\<lparr>rn_status := RS_FINISHED, rn_outcome := Some (metadata_outcome (fri_metadata inp)),
     rn_completedAt := Some (fri_completedAt inp), rn_updatedAt := fri_now inp\<rparr>"

lemma finalizeRun_effect:
  assumes "finalizeRun sv inp s = (Inr x, t)"
  shows "(\<exists>q. find_run (db t) (fri_runId inp) = Some (finished_row inp q))
    \<and> (\<exists>rows. artifacts (db t) = artifacts (db s) @ rows \<and> list_all2 (stored_artifact inp) (enumerate 0 (fri_artifacts inp)) rows)
    \<and> (\<exists>r. find_request (db t) (fri_executionRequestId inp) = Some (completed_request (fri_metadata inp) (fri_completedAt inp) r))"
proof -
  obtain q r u rows where q: "find_run (db s) (fri_runId inp) = Some q"
    and loop: "forEach (insert_artifact_at sv inp) (enumerate 0 (fri_artifacts inp)) (s\<lparr>tx := Some (db s)\<rparr>) = (Inr rows, u)"
    and out: "runs (db t) = map_where (\<lambda>r. rn_id r = fri_runId inp) (finished_row inp) (runs (db u))" "artifacts (db t) = artifacts (db u)"
      "execution_request_records (db t) = map_where (\<lambda>r. er_executionRequestId r = fri_executionRequestId inp)
         (completed_request (fri_metadata inp) (fri_completedAt inp)) (execution_request_records (db u))"
    and r: "find_request (db s) (fri_executionRequestId inp) = Some r"
    using assms
    by (auto simp: finalizeRun_def ok_simps requireRunningRun_def requireRequestForRun_def finalizeRequestRecord_def
        appendRunEvent_def nextRunEventSequence_def getRunProjectId_def finished_row_def [abs_def] unconstrained_def completed_request_def [abs_def]
        dest!: appendAudit_frame)
  note inserted = insert_artifacts_ok [OF loop]
  then have "find_run (db u) (fri_runId inp) = Some q" using q by (simp add: find_run_def)
  then have "find_run (db t) (fri_runId inp) = Some (finished_row inp q)"
    using find_run_map [of "finished_row inp" "fri_runId inp" "db u"] out(1) by (simp add: find_run_def finished_row_def)
  moreover have "find_request (db u) (fri_executionRequestId inp) = Some r" using inserted r by (simp add: find_request_def)
  then have "find_request (db t) (fri_executionRequestId inp) = Some (completed_request (fri_metadata inp) (fri_completedAt inp) r)"
    using find_request_completed [of "fri_executionRequestId inp" "fri_metadata inp" "fri_completedAt inp" "db u"] out(3)
    by (simp add: find_request_def)
  ultimately show ?thesis using inserted out(2) by auto
qed

section \<open>Every dispatch settles its run\<close>

definition dispatch_ready :: "services \<Rightarrow> persistence \<Rightarrow> execution_request \<Rightarrow> bool" where
  "dispatch_ready sv s request \<longleftrightarrow> schema_ok (db s) \<and> tx s = None \<and> counted sv s \<and> on_record (db s) request
     \<and> find_run (db s) (xr_runId request) \<noteq> None"

lemma schema_request_ids: "schema_ok d \<Longrightarrow> distinct (map er_executionRequestId (execution_request_records d))"
  by (simp add: schema_ok_def keys_ok_def)

lemma ready_known: "dispatch_ready sv s request \<Longrightarrow> run_known s request"
proof -
  assume ready: "dispatch_ready sv s request"
  then obtain r where r: "r \<in> set (execution_request_records (db s))" "er_executionRequestId r = xr_executionRequestId request"
      "er_runId r = xr_runId request"
    by (auto simp: dispatch_ready_def on_record_def)
  have "distinct (map er_executionRequestId (execution_request_records (db s)))"
    using ready schema_request_ids unfolding dispatch_ready_def by blast
  then have "find_request (db s) (xr_executionRequestId request) = Some r"
    unfolding find_request_def using r by (intro first_where_unique) (auto dest: distinct_key_eq)
  with ready r show ?thesis unfolding dispatch_ready_def run_known_def by blast
qed

lemma find_run_kept: "rows_evolve d e \<Longrightarrow> find_run d i \<noteq> None \<Longrightarrow> find_run e i \<noteq> None"
  unfolding find_run_def
  by (auto simp: rows_evolve_def rows_le_def run_le_def dest!: first_where_SomeD)

lemma ready_session: "dispatch_ready sv s request \<Longrightarrow> dispatch_ready sv (run_session sv cs s) request"
proof -
  assume ready: "dispatch_ready sv s request"
  let ?t = "run_session sv cs s"
  have "permanent (db s) (db ?t) \<and> tx ?t = tx s" by (rule perm.over_session [OF run_session_step])
  then have "schema_ok (db ?t)" "rows_evolve (db s) (db ?t)" "tx ?t = None"
    using ready by (simp_all add: permanent_def dispatch_ready_def)
  moreover have "on_record (db ?t) request"
    using ready request_log.over_session [OF run_session_step] on_record_kept unfolding dispatch_ready_def by blast
  moreover have "counted sv ?t" using ready counted_session unfolding dispatch_ready_def by blast
  ultimately show ?thesis using ready find_run_kept unfolding dispatch_ready_def by blast
qed

lemma ready_cong: "dispatch_ready sv s request \<Longrightarrow> db t = db s \<Longrightarrow> tx t = tx s \<Longrightarrow> counted sv t \<Longrightarrow> dispatch_ready sv t request"
  by (simp add: dispatch_ready_def)

lemma ready_now: "dispatch_ready sv s request \<Longrightarrow> dispatch_ready sv (s\<lparr>nowCalls := n\<rparr>) request"
  by (auto simp: dispatch_ready_def counted_def)

lemma interrupt_settles:
  assumes "dispatch_ready sv s request" and "ids_unique sv"
  shows "fst (interrupt sv (xr_runId request) (xr_executionRequestId request) code result c s) = Inr ()
    \<and> settled (snd (interrupt sv (xr_runId request) (xr_executionRequestId request) code result c s)) request
    \<and> (\<forall>r. result = Some r \<longrightarrow> settled s request
         \<or> holds_result (snd (interrupt sv (xr_runId request) (xr_executionRequestId request) code result c s)) request r)"
proof -
  let ?inp = "\<lparr>iri_runId = xr_runId request, iri_executionRequestId = xr_executionRequestId request, iri_reasonCode = code,
    iri_now = sv_now sv (nowCalls s), iri_terminalMetadata = map_option toDispatchMetadata result, iri_terminalCompletedAt = c\<rparr>"
  let ?s = "s\<lparr>nowCalls := nowCalls s + 1\<rparr>"
  have ready: "dispatch_ready sv ?s request" using assms(1) by (rule ready_now)
  then obtain q where q: "find_run (db ?s) (xr_runId request) = Some q" by (auto simp: dispatch_ready_def)
  have "settled (snd (interruptRun sv ?inp ?s)) request
    \<and> (\<forall>r. result = Some r \<longrightarrow> settled s request \<or> holds_result (snd (interruptRun sv ?inp ?s)) request r)"
  proof (cases "rn_status q = RS_RUNNING")
    case True
    have "counted sv ?s" using ready by (simp add: dispatch_ready_def)
    from interruptRun_succeeds [OF ready_known [OF ready] q True this assms(2), of ?inp] show ?thesis by auto
  next
    case False
    have "fst (interruptRun sv ?inp ?s) \<noteq> Inr x" for x
      using q False ok_pair [of "interruptRun sv ?inp ?s"]
      by (auto simp: interruptRun_def requireRunningRun_def ok_simps)
    then obtain e where "fst (interruptRun sv ?inp ?s) = Inl e" by (cases "fst (interruptRun sv ?inp ?s)") auto
    then have "db (snd (interruptRun sv ?inp ?s)) = db ?s" using atomic_interruptRun unfolding atomic_at_def by blast
    with q False show ?thesis by (simp add: settled_def)
  qed
  then show ?thesis by (simp add: interrupt_def andThen_def now_def)
qed

lemma interrupted:
  assumes "dispatch_ready sv s request" and "ids_unique sv"
  obtains w where "interrupt sv (xr_runId request) (xr_executionRequestId request) code result c s = (Inr (), w)" and "settled w request"
    and "\<And>r. result = Some r \<Longrightarrow> settled s request \<or> holds_result w request r"
  using interrupt_settles [OF assms, of code result c] ok_pair [of "interrupt sv (xr_runId request) (xr_executionRequestId request) code result c s"]
  by blast

lemma refused_ready:
  assumes "dispatch_ready sv s request" and "finalizeRun sv inp s = (Inl e, w)"
  shows "dispatch_ready sv w request"
proof -
  have "db w = db s" using atomic_finalizeRun [of sv inp s] assms(2) by (simp add: atomic_at_def)
  moreover have "tx w = tx s" using integ.finalizeRun [of sv inp s] assms(2) by (simp add: evolves_at_def)
  moreover have "counted sv w"
    using countsD [OF counts_transactions(2) _ assms(2)] assms(1) by (simp add: dispatch_ready_def)
  ultimately show ?thesis by (rule ready_cong [OF assms(1)])
qed

definition settle_input :: "services \<Rightarrow> coordinator_env \<Rightarrow> execution_request \<Rightarrow> dispatch_result \<Rightarrow> string \<Rightarrow> artifact_input list \<Rightarrow> finalize_run_input" where
  "settle_input sv env request result completedAt arts =
     \<lparr>fri_runId = xr_runId request, fri_executionRequestId = xr_executionRequestId request, fri_metadata = toDispatchMetadata result,
      fri_completedAt = completedAt, fri_now = completedAt, fri_artifacts = arts\<rparr>"

text \<open>What a finished dispatch has stored.\<close>

definition stored_result :: "services \<Rightarrow> coordinator_env \<Rightarrow> execution_request \<Rightarrow> execution_response \<Rightarrow> persistence \<Rightarrow> bool" where
  "stored_result sv env request response t \<longleftrightarrow>
     xs_runId response = xr_runId request \<and> xs_executionRequestId response = xr_executionRequestId request
     \<and> (\<exists>completedAt arts q before rows.
          ingest (sv_sha256Hex sv) (ce_files env) (ce_runtimeDirectory env) (xr_executionRequestId request)
            (default_to (dr_artifacts (xs_result response)) []) = Inr arts
          \<and> find_run (db t) (xr_runId request) = Some (finished_row (settle_input sv env request (xs_result response) completedAt arts) q)
          \<and> artifacts (db t) = before @ rows
          \<and> list_all2 (stored_artifact (settle_input sv env request (xs_result response) completedAt arts)) (enumerate 0 arts) rows)"

text \<open>The state in which the coordinator stores what the worker answered at \<open>s\<close>.\<close>

definition after_ingestion :: "services \<Rightarrow> coordinator_env \<Rightarrow> persistence \<Rightarrow> persistence" where
  "after_ingestion sv env s = run_session sv (ce_whileIngesting env) (s\<lparr>nowCalls := nowCalls s + 1\<rparr>)"

lemma settle_settles:
  assumes "dispatch_ready sv s request" and "ids_unique sv" and "settle sv env request result s = (x, t)"
  shows "settled t request \<and> (settled (after_ingestion sv env s) request \<or> holds_result t request result)
    \<and> (case x of Inl e \<Rightarrow> True | Inr response \<Rightarrow> xs_result response = result \<and> stored_result sv env request response t)"
proof -
  let ?i = "xr_executionRequestId request"
  let ?n = "sv_now sv (nowCalls s)"
  let ?ingest = "ingest (sv_sha256Hex sv) (ce_files env) (ce_runtimeDirectory env) ?i (default_to (dr_artifacts result) [])"
  let ?u = "run_session sv (ce_whileIngesting env) (s\<lparr>nowCalls := nowCalls s + 1\<rparr>)"
  have ready: "dispatch_ready sv ?u request" by (intro ready_session ready_now assms(1))
  note steps = settle_def Let_def andThen_def now_def catching_def awaits_def throw_def ret_def
  show ?thesis
  proof (cases ?ingest)
    case (Inl e)
    obtain w where "interrupt sv (xr_runId request) ?i ''artifact_integrity_failure'' (Some result) (Some ?n) ?u = (Inr (), w)" "settled w request"
      and "settled ?u request \<or> holds_result w request result"
      by (rule interrupted [OF ready assms(2), where code = "''artifact_integrity_failure''" and result = "Some result" and c = "Some ?n"]) simp
    then show ?thesis using assms(3) Inl by (auto simp: steps after_ingestion_def)
  next
    case (Inr arts)
    obtain y w where f: "finalizeRun sv (settle_input sv env request result ?n arts) ?u = (y, w)" by fastforce
    show ?thesis
    proof (cases y)
      case (Inl e)
      obtain v where v: "interrupt sv (xr_runId request) ?i ''durable_finalize_failure'' (Some result) (Some ?n) w = (Inr (), v)" "settled v request"
        and held: "settled w request \<or> holds_result v request result"
        by (rule interrupted [OF refused_ready [OF ready] assms(2), where code = "''durable_finalize_failure''" and result = "Some result" and c = "Some ?n"])
          (use f Inl in simp_all)
      have "db w = db ?u" using atomic_finalizeRun [of sv "settle_input sv env request result ?n arts" ?u] f Inl by (simp add: atomic_at_def)
      with held have "settled ?u request \<or> holds_result v request result" by (simp add: settled_def)
      then show ?thesis using assms(3) \<open>?ingest = Inr arts\<close> f Inl v by (auto simp: steps settle_input_def after_ingestion_def)
    next
      case (Inr z)
      let ?response = "\<lparr>xs_runId = xr_runId request, xs_executionRequestId = ?i, xs_result = result\<rparr>"
      from assms(3) \<open>?ingest = Inr arts\<close> f Inr have out: "x = Inr ?response" "t = w"
        by (auto simp: steps settle_input_def)
      note done' = finalizeRun_effect [OF f [unfolded Inr]]
      then have "settled w request" by (auto simp: settled_def settle_input_def finished_row_def)
      moreover have "stored_result sv env request ?response w"
        unfolding stored_result_def using done' \<open>?ingest = Inr arts\<close> by (auto simp: settle_input_def)
      moreover have "holds_result w request result" using done' by (auto simp: holds_result_def settle_input_def)
      ultimately show ?thesis by (simp add: out)
    qed
  qed
qed

lemma counts_prepare: "counts sv (prepare sv env snapshotId requestId)"
  unfolding prepare_def materializeContextBundle_def listSnapshotItems_def getSnapshot_def read_defs Let_def
  by (intro counts_rules counts_transactions)

lemma prepare_ready:
  assumes "prepare sv env snapshotId requestId s = (Inr request, u)" and "schema_ok (db s)" and "counted sv s"
  shows "dispatch_ready sv u request"
proof -
  note stored = prepare_stored [OF assms(1)]
  have "evolves_at keeps_schema (prepare sv env snapshotId requestId) s" by (rule integ.prepare)
  with assms(1,2) stored have "schema_ok (db u)" "tx u = None" by (simp_all add: evolves_at_def keeps_schema_def)
  moreover have "counted sv u" using countsD [OF counts_prepare assms(3,1)] by blast
  ultimately show ?thesis using stored by (auto simp: dispatch_ready_def)
qed

text \<open>
  C5. Once the worker host has answered a dispatch, with a result or with an error, and whatever
  else runs while the dispatch waits: its run is no longer RUNNING at the end. If the answer was a
  result, the request holds that result, also when the dispatch then throws, unless another
  operation had settled the run before. A dispatch that returns has stored the result it returns:
  the run is FINISHED with the outcome of that result, and the artifacts are those that were
  ingested, in order. (A host that never answers leaves the dispatch waiting.)
\<close>

theorem dispatch_settles_run:
  assumes prepared: "prepare sv env snapshotId requestId s = (Inr request, u)"
    and run: "dispatch_run sv env snapshotId requestId s = (x, t)"
    and "schema_ok (db s)" and "counted sv s" and unique: "ids_unique sv"
  shows "settled t request
    \<and> (case ce_worker env request of
         Inl e \<Rightarrow> x = Inl e
       | Inr result \<Rightarrow>
           (settled (after_ingestion sv env (run_session sv (ce_whileWorking env) u)) request \<or> holds_result t request result)
           \<and> (case x of Inl e \<Rightarrow> True
              | Inr response \<Rightarrow> xs_result response = result \<and> stored_result sv env request response t))"
proof -
  have id: "xr_executionRequestId request = requestId" using prepare_ok [OF prepared] made_of_id by blast
  let ?u = "run_session sv (ce_whileWorking env) u"
  have ready: "dispatch_ready sv ?u request" by (intro ready_session prepare_ready [OF prepared]) fact+
  show ?thesis
  proof (cases "ce_worker env request")
    case (Inl e)
    obtain w where "interrupt sv (xr_runId request) (xr_executionRequestId request) ''worker_host_failure'' None None ?u = (Inr (), w)"
        "settled w request"
      by (rule interrupted [OF ready unique])
    then show ?thesis using run Inl
      by (auto simp: dispatch_run_def andThen_def prepared catching_def awaits_def throw_def id)
  next
    case (Inr result)
    then have "settle sv env request result ?u = (x, t)"
      using run by (simp add: dispatch_run_def andThen_def prepared catching_def awaits_def)
    from settle_settles [OF ready unique this] Inr show ?thesis by simp
  qed
qed

lemma instructed_schema: "schema_ok instructed_db"
  by (simp add: instructed_db_def demo_db_defs schema_ok_def schema_defs fk_def fk_opt_def is_active_def numbered_from_def
      revision_key_def nv_key_def ts_key_def ac_key_def bi_key_def bi_version_key_def si_key_def)

theorem dispatch_settles_run_witness:
  "\<exists>request u. prepare hashing broken_worker ''c'' ''q'' (at instructed_db) = (Inr request, u)
    \<and> settled (snd (dispatch_run hashing broken_worker ''c'' ''q'' (at instructed_db))) request"
proof -
  obtain request u where p: "prepare hashing broken_worker ''c'' ''q'' (at instructed_db) = (Inr request, u)"
    using prepare_demo by blast
  have "counted hashing (at instructed_db)"
    by (simp add: counted_def counted_db_def at_def instructed_db_def demo_db_defs)
  moreover have "ids_unique hashing"
    by (auto simp: ids_unique_def hashing_def demo_def dest: nat_digits_inj)
  ultimately show ?thesis
    using dispatch_settles_run [OF p, where x = "fst (dispatch_run hashing broken_worker ''c'' ''q'' (at instructed_db))"]
      instructed_schema p by (auto simp: at_def)
qed

end
