(* ===== verification/Ingest_Laws.thy ===== *)
theory Ingest_Laws
  imports Artifact_Ingestor
begin

text \<open>
  What the ingestion of artifacts establishes: whatever a worker claims, an accepted artifact is a
  regular file strictly inside the directory of its execution, of the claimed size and within the
  limit, readable as UTF-8, and its content has the claimed hash.
\<close>

section \<open>Containment on POSIX paths\<close>

definition clean :: "string list \<Rightarrow> bool" where
  "clean segments \<longleftrightarrow> list_all (\<lambda>s. s \<noteq> [] \<and> s \<noteq> ''.'' \<and> s \<noteq> ''..'' \<and> CHR ''/'' \<notin> set s) segments"

lemma path_segments_absolute [simp]: "clean segments \<Longrightarrow> path_segments (absolute_path segments) = segments"
proof -
  assume c: "clean segments"
  have "filter (\<lambda>s. s \<noteq> []) (split_on (CHR ''/'') (join ''/'' segments)) = segments"
  proof (cases "segments = []")
    case False
    then have "split_on (CHR ''/'') (join ''/'' segments) = segments"
      using c by (intro split_join) (auto simp: clean_def list_all_iff)
    with c show ?thesis by (auto simp: clean_def list_all_iff intro!: filter_True)
  qed simp
  then show ?thesis by (simp add: path_segments_def absolute_path_def)
qed

lemma drop_common_sound: "drop_common xs ys = (us, ds) \<Longrightarrow> \<exists>zs. xs = zs @ us \<and> ys = zs @ ds"
  by (induction xs ys rule: drop_common.induct) (auto split: if_splits)

lemma drop_common_prefix [simp]: "drop_common xs (xs @ ds) = ([], ds)"
  by (induction xs) (cases ds; simp)+

lemma isStrictDescendant_posix:
  assumes "clean as" and "clean cs"
  shows "isStrictDescendant posix (absolute_path cs) (absolute_path as) \<longleftrightarrow> (\<exists>ds. ds \<noteq> [] \<and> cs = as @ ds)"
proof
  obtain us ds where d: "drop_common as cs = (us, ds)" by fastforce
  then obtain zs where zs: "as = zs @ us" "cs = zs @ ds" using drop_common_sound by blast
  assume inside: "isStrictDescendant posix (absolute_path cs) (absolute_path as)"
  have "us = []"
  proof (rule ccontr)
    assume "us \<noteq> []"
    then obtain rest where "map (\<lambda>_. ''..'') us @ ds = ''..'' # rest" by (cases us) auto
    with inside show False
      using assms d by (cases rest) (auto simp: isStrictDescendant_def posix_def posix_relative_def join_Cons)
  qed
  moreover from inside this have "ds \<noteq> []"
    using assms d by (auto simp: isStrictDescendant_def posix_def posix_relative_def)
  ultimately show "\<exists>ds. ds \<noteq> [] \<and> cs = as @ ds" using zs by auto
next
  assume "\<exists>ds. ds \<noteq> [] \<and> cs = as @ ds"
  then obtain d ds where cs: "cs = as @ d # ds" by (metis neq_Nil_conv)
  then have d: "d \<noteq> []" "d \<noteq> ''..''" "CHR ''/'' \<notin> set d" using assms by (simp_all add: clean_def)
  let ?rel = "join ''/'' (d # ds)"
  have split: "split_on (CHR ''/'') ?rel = d # ds"
    using assms(2) by (intro split_join) (auto simp: cs clean_def list_all_iff)
  have "?rel \<noteq> ''..''" "?rel \<noteq> []" using split d by auto
  moreover have "take 1 ?rel \<noteq> ''/''" using split d by (cases ?rel) auto
  moreover have "take 3 ?rel \<noteq> ''../''"
  proof
    assume "take 3 ?rel = ''../''"
    then obtain x where x: "?rel = ''..'' @ CHR ''/'' # x" by (metis append_Cons append_Nil append_take_drop_id)
    have "split_on (CHR ''/'') ?rel = ''..'' # split_on (CHR ''/'') x" unfolding x by (rule split_on_free) simp
    with split d show False by simp
  qed
  ultimately have "?rel \<noteq> ''..'' \<and> ?rel \<noteq> [] \<and> take 1 ?rel \<noteq> ''/'' \<and> take 3 ?rel \<noteq> ''../''" by blast
  then show "isStrictDescendant posix (absolute_path cs) (absolute_path as)"
    using assms by (simp add: isStrictDescendant_def posix_def posix_relative_def cs)
qed

section \<open>Accepted artifacts\<close>

text \<open>\<open>realpath\<close> as documented: a resolved absolute path.\<close>

definition resolves :: "ingest_files \<Rightarrow> bool" where
  "resolves files \<longleftrightarrow> fi_flavor files = posix
     \<and> (\<forall>p q. fi_realpath files p = Inr q \<longrightarrow> (\<exists>segments. clean segments \<and> q = absolute_path segments))"

definition strictly_inside :: "string \<Rightarrow> string \<Rightarrow> bool" where
  "strictly_inside path directory \<longleftrightarrow>
     (\<exists>as ds. directory = absolute_path as \<and> ds \<noteq> [] \<and> clean (as @ ds) \<and> path = absolute_path (as @ ds))"

definition without_mark :: "string \<Rightarrow> string" where
  "without_mark bytes = (if take 3 bytes = byte_order_mark then drop 3 bytes else bytes)"

definition accepted_artifact :: "(string \<Rightarrow> string) \<Rightarrow> ingest_files \<Rightarrow> string \<Rightarrow> artifact_descriptor \<Rightarrow> artifact_input \<Rightarrow> bool" where
  "accepted_artifact sha files directory d a \<longleftrightarrow>
     ari_kind a = ad_kind d \<and> ari_fileName a = ad_fileName d \<and> validateFileName (ad_fileName d)
     \<and> ari_contentHash a = ad_contentHash d \<and> ari_contentHash a = sha (ari_content a)
     \<and> ari_sizeBytes a = ad_sizeBytes d \<and> ari_sizeBytes a \<le> int MAX_ARTIFACT_BYTES
     \<and> (\<exists>path bytes. fi_lstat files (fi_join files directory (ad_fileName d)) = Inr (False, True)
          \<and> fi_realpath files (fi_join files directory (ad_fileName d)) = Inr path \<and> strictly_inside path directory
          \<and> readBounded files path = Inr bytes \<and> utf8_valid bytes
          \<and> ari_content a = without_mark bytes \<and> ari_sizeBytes a = int (length bytes))"

lemma invalid_ok: "invalid b code rest = Inr x \<longleftrightarrow> \<not> b \<and> rest = Inr x"
  by (simp add: invalid_def)

lemma or_throw_ok: "or_throw m f = Inr x \<longleftrightarrow> (\<exists>y. m = Inr y \<and> f y = Inr x)"
  by (simp add: or_throw_def split: sum.split)

lemma or_fail_ok: "or_fail m f = Inr x \<longleftrightarrow> (\<exists>y. m = Inr y \<and> f y = Inr x)"
  by (simp add: or_fail_def split: sum.split)

lemmas fallible_ok = invalid_ok or_throw_ok or_fail_ok

lemma read_chunks_bounded: "read_chunks buffer reads = Inr bytes \<Longrightarrow> length buffer \<le> MAX_ARTIFACT_BYTES \<Longrightarrow> length bytes \<le> MAX_ARTIFACT_BYTES"
  by (induction buffer reads rule: read_chunks.induct) (auto simp: Let_def split: if_splits)

lemma readBounded_bounded: "readBounded files path = Inr bytes \<Longrightarrow> length bytes \<le> MAX_ARTIFACT_BYTES"
  by (auto simp: readBounded_def fallible_ok split: option.splits intro: read_chunks_bounded)

lemma inside:
  assumes "resolves files" and "fi_realpath files p = Inr path" and "fi_realpath files q = Inr directory"
    and "isStrictDescendant (fi_flavor files) path directory"
  shows "strictly_inside path directory"
proof -
  obtain as cs where "clean as" "directory = absolute_path as" "clean cs" "path = absolute_path cs"
    using assms(1-3) unfolding resolves_def by metis
  with assms(1,4) show ?thesis unfolding resolves_def strictly_inside_def
    using isStrictDescendant_posix [of as cs] by auto
qed

lemma ingest_one_ok:
  assumes "resolves files" and "fi_realpath files q = Inr directory" and "ingest_one sha files directory d = Inr a"
  shows "accepted_artifact sha files directory d a"
  using assms inside [OF assms(1) _ assms(2)]
  by (auto simp: ingest_one_def Let_def fallible_ok accepted_artifact_def decode_utf8_def without_mark_def
      dest: readBounded_bounded split: option.splits if_splits)

lemma ingest_all_ok:
  assumes "resolves files" and "fi_realpath files q = Inr directory"
  shows "ingest_all sha files directory ds = Inr xs \<Longrightarrow> list_all2 (accepted_artifact sha files directory) ds xs"
  by (induction ds arbitrary: xs) (auto simp: fallible_ok dest: ingest_one_ok [OF assms])

text \<open>
  C8. An accepted list of artifacts answers the claims of the worker one by one: each is a regular
  file, not a link, strictly inside the directory of the execution, which is strictly inside the
  directory of artifacts; it has the claimed size, at most 16 MiB, it is valid UTF-8, and what is
  stored is its text, whose hash is the claimed one.
\<close>

theorem ingested_artifacts:
  assumes "resolves files" and "ingest sha files runtimeDirectory requestId descriptors = Inr xs"
  shows "descriptors = [] \<and> xs = []
    \<or> (\<exists>root directory. fi_realpath files (fi_join files runtimeDirectory ''artifacts'') = Inr root
        \<and> fi_realpath files (fi_join files root requestId) = Inr directory \<and> strictly_inside directory root
        \<and> list_all2 (accepted_artifact sha files directory) descriptors xs)"
proof (cases "descriptors = []")
  case False
  with assms(2) obtain root directory where
    root: "fi_realpath files (fi_join files runtimeDirectory ''artifacts'') = Inr root"
    and directory: "fi_realpath files (fi_join files root requestId) = Inr directory"
    and descendant: "isStrictDescendant (fi_flavor files) directory root"
    and all: "ingest_all sha files directory descriptors = Inr xs"
    by (auto simp: ingest_def fallible_ok)
  from inside [OF assms(1) directory root descendant] ingest_all_ok [OF assms(1) directory all] root directory
  show ?thesis by blast
qed (use assms(2) in \<open>simp add: ingest_def\<close>)

definition one_file :: ingest_files where
  "one_file = \<lparr>fi_flavor = posix, fi_join = (\<lambda>a b. a @ ''/'' @ b),
     fi_realpath = (\<lambda>p. if p \<in> {''/r/artifacts'', ''/r/artifacts/q'', ''/r/artifacts/q/f''} then Inr p else Inl ''ENOENT''),
     fi_lstat = (\<lambda>p. Inr (False, True)), fi_open = (\<lambda>p. None), fi_stat = (\<lambda>p. Inr 1), fi_reads = (\<lambda>p. [Inr ''x''])\<rparr>"

definition one_descriptor :: artifact_descriptor where
  "one_descriptor = \<lparr>ad_kind = PATCH, ad_fileName = ''f'', ad_contentHash = ''h'', ad_sizeBytes = 1\<rparr>"

definition one_artifact :: artifact_input where
  "one_artifact = \<lparr>ari_kind = PATCH, ari_fileName = ''f'', ari_content = ''x'', ari_contentHash = ''h'', ari_sizeBytes = 1\<rparr>"

lemma one_file_resolves: "resolves one_file"
proof -
  have "clean [''r'', ''artifacts'']" "clean [''r'', ''artifacts'', ''q'']" "clean [''r'', ''artifacts'', ''q'', ''f'']"
    by (simp_all add: clean_def)
  moreover have "''/r/artifacts'' = absolute_path [''r'', ''artifacts'']" "''/r/artifacts/q'' = absolute_path [''r'', ''artifacts'', ''q'']"
      "''/r/artifacts/q/f'' = absolute_path [''r'', ''artifacts'', ''q'', ''f'']"
    by (simp_all add: absolute_path_def join_Cons)
  ultimately show ?thesis unfolding resolves_def one_file_def by (auto split: if_splits)
qed

theorem ingested_artifacts_witness:
  "ingest (\<lambda>x. ''h'') one_file ''/r'' ''q'' [one_descriptor] = Inr [one_artifact]
   \<and> (\<exists>directory. accepted_artifact (\<lambda>x. ''h'') one_file directory one_descriptor one_artifact)"
proof -
  have e: "ingest (\<lambda>x. ''h'') one_file ''/r'' ''q'' [one_descriptor] = Inr [one_artifact]"
  proof -
    have inside: "isStrictDescendant posix ''/r/artifacts/q'' ''/r/artifacts''" "isStrictDescendant posix ''/r/artifacts/q/f'' ''/r/artifacts/q''"
      by code_simp+
    have bytes: "readBounded one_file p = Inr ''x''" for p
      by (simp add: readBounded_def one_file_def or_fail_def invalid_def MAX_ARTIFACT_BYTES_def)
    have decoded: "decode_utf8 ''x'' = Some ''x''" by code_simp
    have name: "validateFileName ''f''" by code_simp
    have env: "fi_flavor one_file = posix" "fi_join one_file a b = a @ ''/'' @ b" "fi_lstat one_file p = Inr (False, True)"
        "fi_realpath one_file ''/r/artifacts'' = Inr ''/r/artifacts''" "fi_realpath one_file ''/r/artifacts/q'' = Inr ''/r/artifacts/q''"
        "fi_realpath one_file ''/r/artifacts/q/f'' = Inr ''/r/artifacts/q/f''" for a b p
      by (simp_all add: one_file_def)
    show ?thesis
      by (simp add: ingest_def ingest_one_def fallible_ok or_fail_def or_throw_def invalid_def env inside bytes decoded name
          one_descriptor_def one_artifact_def)
  qed
  from ingested_artifacts [OF one_file_resolves e] e show ?thesis by auto
qed

end
