(* ===== verification/Adoption_Laws.thy ===== *)
theory Adoption_Laws
  imports Context_Laws
begin

text \<open>
  The adoption of an artifact is reported only on the evidence of git: the commit was made on the
  expected base in a clean repository, or it was there before and names the application.
\<close>

section \<open>The event log of an application\<close>

lemma last_order_by:
  assumes "\<And>x. x \<in> set xs \<Longrightarrow> k x < k y"
  shows "last (order_by k (xs @ [y])) = y"
proof -
  let ?zs = "order_by k (xs @ [y])"
  have set: "set ?zs = insert y (set xs)" by simp
  then have ne: "?zs \<noteq> []" by (metis insert_not_empty set_empty)
  then have "last ?zs \<in> insert y (set xs)" using last_in_set [OF ne] by (simp only: set)
  moreover have "k y \<le> k (last ?zs)"
  proof -
    have "y \<in> set ?zs" by simp
    then obtain i where i: "i < length ?zs" "?zs ! i = y" by (metis in_set_conv_nth)
    then have "k (?zs ! i) \<le> k (?zs ! (length ?zs - 1))"
      using sorted_nth_mono [OF sorted_order_by [of k "xs @ [y]"], of i "length ?zs - 1"] by simp
    then have "k y \<le> k (?zs ! (length ?zs - 1))" unfolding i(2) .
    then show ?thesis unfolding last_conv_nth [OF ne] .
  qed
  ultimately show ?thesis using assms by fastforce
qed

lemma events_append:
  "events_of_application (artifact_application_events_update (\<lambda>rs. rs @ [e]) d) i =
     events_of_application d i @ (if ax_applicationId e = i then [e] else [])"
  by (simp add: events_of_application_def)

lemma buildAggregate_ok:
  assumes "buildAggregate application s = (Inr agg, t)"
    and latest: "list_last (order_by ax_sequence (events_of_application (db s) (ap_id application))) = Some e"
  shows "t = s \<and> aag_application agg = application \<and> aag_effectiveStatus agg = ax_kind e
    \<and> (\<forall>i. ax_repositoryRevisionId e = Some i \<longrightarrow> aag_repositoryRevision agg = find_revision (db s) i \<and> find_revision (db s) i \<noteq> None)"
  using assms by (auto simp: buildAggregate_def Let_def ok_simps split: option.splits)

text \<open>What it means that an answered application is on record as APPLIED, with its revision.\<close>

definition applied_on_record :: "database \<Rightarrow> application_aggregate \<Rightarrow> bool" where
  "applied_on_record d agg \<longleftrightarrow>
     aag_application agg \<in> set (artifact_applications d)
     \<and> (case list_last (order_by ax_sequence (events_of_application d (ap_id (aag_application agg)))) of
          None \<Rightarrow> False
        | Some e \<Rightarrow> ax_kind e = AE_APPLIED
            \<and> aag_repositoryRevision agg = Option.bind (ax_repositoryRevisionId e) (find_revision d))"

lemma build_reads: "buildAggregate a s = (Inr agg, t) \<Longrightarrow> t = s \<and> aag_application agg = a"
  by (auto simp: buildAggregate_def Let_def ok_simps split: option.splits)

lemma build_on_record:
  assumes "buildAggregate a s = (Inr agg, t)" and "aag_effectiveStatus agg = AE_APPLIED" and "a \<in> set (artifact_applications (db s))"
  shows "applied_on_record (db s) agg"
  using assms
  by (cases "list_last (order_by ax_sequence (events_of_application (db s) (ap_id a)))")
    (auto simp: buildAggregate_def applied_on_record_def Let_def ok_simps split: option.splits)

lemma upsert_frame:
  assumes "upsertRepositoryRevision sv inp s = (Inr r, t)"
  shows "artifact_applications (db t) = artifact_applications (db s)
    \<and> artifact_application_events (db t) = artifact_application_events (db s)"
  using assms by (auto simp: upsertRepositoryRevision_def ok_simps dest!: appendAudit_frame split: option.splits)

lemma find_revision_unique:
  assumes "schema_ok d" and "r \<in> set (repository_revisions d)"
  shows "find_revision d (rr_id r) = Some r"
proof -
  have "distinct (map rr_id (repository_revisions d))" using assms(1) by (simp add: schema_ok_def keys_ok_def)
  then show ?thesis unfolding find_revision_def using assms(2)
    by (intro first_where_unique) (auto dest: distinct_key_eq)
qed

lemma appended_last:
  assumes "ax_sequence e = next_number (-1) ax_sequence (events_of_application d i)" and "ax_applicationId e = i"
  shows "list_last (order_by ax_sequence (events_of_application (artifact_application_events_update (\<lambda>rs. rs @ [e]) d) i)) = Some e"
proof -
  let ?es = "events_of_application d i"
  have "last (order_by ax_sequence (?es @ [e])) = e"
    by (rule last_order_by) (simp add: assms(1) below_next_number)
  moreover have "order_by ax_sequence (?es @ [e]) \<noteq> []"
    by (metis append_is_Nil_conv length_0_conv length_order_by not_Cons_self2)
  ultimately show ?thesis using assms(2) by (simp add: events_append list_last_def)
qed

lemma appendApplicationEvent_ok:
  assumes "appendApplicationEvent sv a k i c d n s = (Inr e, t)"
  shows "ax_sequence e = next_number (-1) ax_sequence (events_of_application (db s) a) \<and> ax_applicationId e = a
    \<and> ax_kind e = k \<and> ax_repositoryRevisionId e = i \<and> db t = artifact_application_events_update (\<lambda>rs. rs @ [e]) (db s)"
  using assms by (auto simp: appendApplicationEvent_def ok_simps)

text \<open>The aggregate after a finalization: APPLIED, at the revision that was found.\<close>

lemma finalizeApplicationApplied_ok:
  assumes "finalizeApplicationApplied sv inp s = (Inr agg, t)" and "schema_ok (db s)"
  shows "aag_effectiveStatus agg = AE_APPLIED \<and> find_application (db s) (fai_applicationId inp) = Some (aag_application agg)
    \<and> (\<exists>revision. aag_repositoryRevision agg = Some revision \<and> rr_baseCommit revision = fai_baseCommit inp
        \<and> rr_treeHash revision = fai_treeHash inp \<and> rr_workingTreePatchHash revision = fai_workingTreePatchHash inp)
    \<and> applied_on_record (db t) agg"
proof -
  let ?s = "s\<lparr>tx := Some (db s), idCalls := idCalls s + 1\<rparr>"
  let ?inp = "\<lparr>rri_id = sv_nextId sv (idCalls s) ''rev_'', rri_baseCommit = fai_baseCommit inp, rri_treeHash = fai_treeHash inp,
          rri_workingTreePatchHash = fai_workingTreePatchHash inp\<rparr>"
  from assms(1) obtain revision u application e v1 x j v w where
    upsert: "upsertRepositoryRevision sv ?inp ?s = (Inr revision, u)"
    and found: "find_application (db u) (fai_applicationId inp) = Some application"
    and event: "appendApplicationEvent sv (fai_applicationId inp) AE_APPLIED (Some (rr_id revision)) None None (fai_now inp) u
      = (Inr e, v1)"
    and audit: "appendAudit sv (Some (ap_projectId application)) ''ArtifactApplication'' (fai_applicationId inp)
      ''ARTIFACT_APPLY_APPLIED'' j v1 = (Inr x, v)"
    and built: "buildAggregate application v = (Inr agg, w)" and t: "db t = db w"
    unfolding finalizeApplicationApplied_def requireArtifactApplication_def
    by (simp only: ok_simps) (elim exE conjE, simp)
  note e = appendApplicationEvent_ok [OF event]
  have v: "artifact_application_events (db v) = artifact_application_events (db u) @ [e]"
      "repository_revisions (db v) = repository_revisions (db u)" "artifact_applications (db v) = artifact_applications (db u)"
    using appendAudit_frame [OF audit] e by auto
  have "revision \<in> set (repository_revisions (db u))" and same: "same_revision ?inp revision"
    using upsertRepositoryRevision_stored [OF upsert] by (auto dest: first_where_SomeD)
  moreover have "schema_ok (db u)"
    using integ.upsertRepositoryRevision [of sv ?inp ?s] upsert assms(2) by (simp add: evolves_at_def keeps_schema_def)
  ultimately have "find_revision (db u) (rr_id revision) = Some revision" by (intro find_revision_unique)
  then have revision: "find_revision (db v) (rr_id revision) = Some revision" using v(2) by (simp add: find_revision_def)
  have "ap_id application = fai_applicationId inp" using found by (auto simp: find_application_def dest: first_where_SomeD)
  moreover have "events_of_application (db v) i = events_of_application (artifact_application_events_update (\<lambda>rs. rs @ [e]) (db u)) i" for i
    by (simp add: events_of_application_def v(1))
  ultimately have "list_last (order_by ax_sequence (events_of_application (db v) (ap_id application))) = Some e"
    using appended_last [of e "db u" "fai_applicationId inp"] e by simp
  from buildAggregate_ok [OF built this] e revision
  have "aag_application agg = application \<and> aag_effectiveStatus agg = AE_APPLIED \<and> aag_repositoryRevision agg = Some revision" by simp
  moreover have "find_application (db s) (fai_applicationId inp) = Some application"
    using found upsert_frame [OF upsert] by (simp add: find_application_def)
  moreover have "application \<in> set (artifact_applications (db v))"
    using found by (auto simp: v(3) find_application_def dest: first_where_SomeD)
  then have "applied_on_record (db t) agg"
    using build_on_record [OF built] buildAggregate_ok [OF built] build_reads [OF built] calculation(1) t by simp
  ultimately show ?thesis using same by (auto simp: same_revision_def split: option.splits)
qed

section \<open>What the writer has seen\<close>

definition adoption_committed :: "writer_env \<Rightarrow> string \<Rightarrow> revision_contract \<Rightarrow> bool" where
  "adoption_committed env base revision \<longleftrightarrow>
     (case (inspectHead env BeforeApply, inspectHead env AfterCommit) of
        (Inr before, Inr after) \<Rightarrow>
          hi_baseCommit before = base \<and> hi_clean before \<and> hi_parent after = Some base \<and> hi_clean after
          \<and> currentRevision env AfterCommit = Inr revision
      | _ \<Rightarrow> False)"

definition adoption_recognised :: "writer_env \<Rightarrow> string \<Rightarrow> artifact_application_row \<Rightarrow> revision_contract \<Rightarrow> bool" where
  "adoption_recognised env base application revision \<longleftrightarrow>
     (case inspectHead env Reconciling of
        Inr head \<Rightarrow> hi_parent head = Some base \<and> hi_clean head \<and> trailersMatch (hi_message head) application
          \<and> currentRevision env Reconciling = Inr revision
      | Inl _ \<Rightarrow> False)"

definition records_revision :: "application_aggregate \<Rightarrow> revision_contract \<Rightarrow> bool" where
  "records_revision agg revision \<longleftrightarrow>
     (case aag_repositoryRevision agg of
        None \<Rightarrow> False
      | Some r \<Rightarrow> rr_baseCommit r = rc_baseCommit revision \<and> rr_treeHash r = rc_treeHash revision
          \<and> rr_workingTreePatchHash r = rc_workingTreePatchHash revision)"

lemma applyAcceptedPatch_ok:
  "applyAcceptedPatch env inp = Inr revision \<Longrightarrow> adoption_committed env (api_baseCommit inp) revision"
  by (auto simp: applyAcceptedPatch_def assertHeadEquals_def adoption_committed_def or_throw_def invalid_def
      split: option.splits sum.splits if_splits)

lemma finalize_at_ok:
  assumes "finalize_at sv i revision s = (Inr agg, t)" and "schema_ok (db s)"
  shows "aag_effectiveStatus agg = AE_APPLIED \<and> find_application (db s) i = Some (aag_application agg) \<and> records_revision agg revision
    \<and> applied_on_record (db t) agg"
proof -
  from assms(1) obtain n where "finalizeApplicationApplied sv
      \<lparr>fai_applicationId = i, fai_baseCommit = rc_baseCommit revision, fai_treeHash = rc_treeHash revision,
       fai_workingTreePatchHash = rc_workingTreePatchHash revision, fai_now = n\<rparr> (s\<lparr>nowCalls := nowCalls s + 1\<rparr>) = (Inr agg, t)"
    by (auto simp: finalize_at_def ok_simps)
  from finalizeApplicationApplied_ok [OF this] assms(2) show ?thesis by (auto simp: records_revision_def)
qed

lemma handleApplyFailure_throws: "handleApplyFailure sv env i c e s \<noteq> (Inr r, t)"
  by (auto simp: handleApplyFailure_def Let_def ok_simps)

section \<open>What stays stored\<close>

lemma first_where_prefix: "prefix xs ys \<Longrightarrow> first_where P xs = Some a \<Longrightarrow> first_where P ys = Some a"
  by (auto simp: prefix_def first_where_append)

lemma application_kept: "logs_grow d e \<Longrightarrow> find_application d i = Some a \<Longrightarrow> find_application e i = Some a"
  unfolding find_application_def logs_grow_def by (blast intro: first_where_prefix)

lemma revision_kept: "logs_grow d e \<Longrightarrow> find_revision d i = Some r \<Longrightarrow> find_revision e i = Some r"
  unfolding find_revision_def logs_grow_def by (blast intro: first_where_prefix)

definition later :: "database \<Rightarrow> database \<Rightarrow> bool" where
  "later d e \<longleftrightarrow> schema_ok d \<and> schema_ok e \<and> logs_grow d e"

lemma later_trans: "later a b \<Longrightarrow> later b c \<Longrightarrow> later a c"
  by (auto simp: later_def intro: logs_grow_trans)

lemma later_evolves: "evolves_at permanent m s \<Longrightarrow> m s = (r, t) \<Longrightarrow> schema_ok (db s) \<Longrightarrow> later (db s) (db t)"
  by (auto simp: evolves_at_def permanent_def later_def)

lemma later_session: "schema_ok (db s) \<Longrightarrow> later (db s) (db (run_session sv cs s))"
  using perm.over_session [OF run_session_step, of s sv cs] by (auto simp: permanent_def later_def)

lemma later_refl: "schema_ok d \<Longrightarrow> later d d"
  by (simp add: later_def)

lemma later_schema: "later d e \<Longrightarrow> schema_ok e"
  by (simp add: later_def)

section \<open>Adoption\<close>

text \<open>How an adoption ends: the application, its base and what the writer reported.\<close>

definition adopted :: "database \<Rightarrow> application_aggregate \<Rightarrow> artifact_application_row \<Rightarrow> revision_contract \<Rightarrow> bool" where
  "adopted d agg application revision \<longleftrightarrow>
     applied_on_record d agg \<and> aag_effectiveStatus agg = AE_APPLIED \<and> aag_application agg = application \<and> records_revision agg revision"

lemma apply_and_record_ok:
  assumes "apply_and_record sv env inp s = (Inr agg, t)" and "schema_ok (db s)"
    and "find_application (db s) (api_applicationId inp) = Some application"
  shows "\<exists>revision. adopted (db t) agg application revision \<and> adoption_committed (we_writer env) (api_baseCommit inp) revision"
proof -
  let ?u = "run_session sv (we_others env 1) s"
  from assms(1) obtain revision where committed: "applyAcceptedPatch (we_writer env) inp = Inr revision"
    and final: "finalize_at sv (api_applicationId inp) revision ?u = (Inr agg, t)"
    by (auto simp: apply_and_record_def ok_simps handleApplyFailure_throws split: sum.splits)
  have u: "later (db s) (db ?u)" by (rule later_session [OF assms(2)])
  then have "find_application (db ?u) (api_applicationId inp) = Some application"
    using application_kept [OF _ assms(3)] by (simp add: later_def)
  with finalize_at_ok [OF final later_schema [OF u]] have "adopted (db t) agg application revision" by (simp add: adopted_def)
  with applyAcceptedPatch_ok [OF committed] show ?thesis by blast
qed

text \<open>The first branch of a reconciliation: the writer runs again.\<close>

abbreviation retry :: "services \<Rightarrow> workspace_env \<Rightarrow> artifact_application_row \<Rightarrow> string \<Rightarrow> application_aggregate cmd" where
  "retry sv env a base \<equiv>
     andThen (now sv) (\<lambda>n. andThen (markApplicationApplying sv (ap_id a) n) (\<lambda>_.
         andThen (readArtifactContent (ap_runId a) (ap_artifactId a)) (\<lambda>content.
         apply_and_record sv env
           \<lparr>api_applicationId = ap_id a, api_baseCommit = base, api_patchContent = content, api_patchHash = ap_patchHash a,
            api_taskId = ap_taskId a, api_runId = ap_runId a, api_artifactId = ap_artifactId a,
            api_authorizedAt = ap_authorizedAt a\<rparr>)))"

lemma retry_ok:
  assumes "retry sv env a base s = (Inr agg, t)"
    and "schema_ok (db s)" and "find_application (db s) (ap_id a) = Some a"
  shows "\<exists>revision. adopted (db t) agg a revision \<and> adoption_committed (we_writer env) base revision"
proof -
  from assms(1) obtain n v content w where
    mark: "markApplicationApplying sv (ap_id a) n (s\<lparr>nowCalls := nowCalls s + 1\<rparr>) = (Inr (), v)"
    and read: "readArtifactContent (ap_runId a) (ap_artifactId a) v = (Inr content, w)"
    and final: "apply_and_record sv env
        \<lparr>api_applicationId = ap_id a, api_baseCommit = base, api_patchContent = content, api_patchHash = ap_patchHash a,
         api_taskId = ap_taskId a, api_runId = ap_runId a, api_artifactId = ap_artifactId a,
         api_authorizedAt = ap_authorizedAt a\<rparr> w = (Inr agg, t)"
    by (auto simp: ok_simps)
  have "w = v" using read by (auto simp: readArtifactContent_def getRunAggregate_def ok_simps)
  then have w: "later (db s) (db w)" using later_evolves [OF perm.markApplicationApplying mark] assms(2) by simp
  then have "find_application (db w) (ap_id a) = Some a" using application_kept [OF _ assms(3)] by (simp add: later_def)
  with apply_and_record_ok [OF final later_schema [OF w]] show ?thesis by simp
qed

lemma reconcileApplication_ok:
  assumes "reconcileApplication sv env existing s = (Inr agg, t)" and "schema_ok (db s)" and a: "a = aag_application existing"
    and "find_application (db s) (ap_id a) = Some a"
  shows "\<exists>base revision. find_revision (db s) (ap_baseRepositoryRevisionId a) = Some base \<and> adopted (db t) agg a revision
    \<and> (adoption_committed (we_writer env) (rr_baseCommit base) revision
       \<or> adoption_recognised (we_writer env) (rr_baseCommit base) a revision)"
proof -
  let ?u = "run_session sv (we_others env 0) s"
  let ?v = "run_session sv (we_others env 1) ?u"
  have u: "later (db s) (db ?u)" by (rule later_session [OF assms(2)])
  then have v: "later (db s) (db ?v)" by (blast intro: later_trans later_schema later_session)
  have kept: "find_application (db ?u) (ap_id a) = Some a" "find_application (db ?v) (ap_id a) = Some a"
    using u v application_kept [OF _ assms(4)] by (simp_all add: later_def)
  note inverted = assms(1) [unfolded reconcileApplication_def Let_def a [symmetric]]
  consider base where "find_revision (db s) (ap_baseRepositoryRevisionId a) = Some base"
      "retry sv env a (rr_baseCommit base) ?u = (Inr agg, t)"
    | base head revision where "find_revision (db s) (ap_baseRepositoryRevisionId a) = Some base"
      "inspectHead (we_writer env) Reconciling = Inr head" "hi_parent head = Some (rr_baseCommit base)" "hi_clean head"
      "trailersMatch (hi_message head) a" "currentRevision (we_writer env) Reconciling = Inr revision"
      "finalize_at sv (ap_id a) revision ?v = (Inr agg, t)"
  proof -
    from inverted obtain base head where base: "find_revision (db s) (ap_baseRepositoryRevisionId a) = Some base"
      and head: "inspectHead (we_writer env) Reconciling = Inr head"
      and branch: "(if hi_baseCommit head = rr_baseCommit base \<and> hi_clean head
        then retry sv env a (rr_baseCommit base)
        else if hi_parent head = Some (rr_baseCommit base) \<and> hi_clean head \<and> trailersMatch (hi_message head) a
        then andThen (awaits sv (we_others env 1) (currentRevision (we_writer env) Reconciling)) (\<lambda>revision.
          finalize_at sv (ap_id a) revision)
        else andThen (now sv) (\<lambda>n. andThen (interruptApplication sv
            \<lparr>fap_applicationId = ap_id a, fap_reasonCode = ''application_recovery_conflict'',
             fap_detail = Some ''Git HEAD does not match the base or a recognized adoption commit'', fap_now = n\<rparr>)
            (\<lambda>_. Store.throw (ValidationError ''application_recovery_conflict'')))) ?u = (Inr agg, t)"
      by (simp only: andThen_ok awaits_ok require_reads) (elim exE conjE, simp)
    show thesis
    proof (cases "hi_baseCommit head = rr_baseCommit base \<and> hi_clean head")
      case True
      with branch show thesis by (simp only: simp_thms if_True) (rule that(1) [OF base])
    next
      case False
      with branch show thesis by (auto simp only: if_False andThen_ok awaits_ok throw_ok split: if_splits intro: that(2) [OF base head])
    qed
  qed
  then show ?thesis
  proof cases
    case 1
    from retry_ok [OF 1(2) later_schema [OF u] kept(1)] 1(1) show ?thesis by blast
  next
    case 2
    with finalize_at_ok [OF 2(7) later_schema [OF v]] kept(2) have "adopted (db t) agg a revision" by (simp add: adopted_def)
    then show ?thesis using 2 by (auto simp: adoption_recognised_def)
  qed
qed

text \<open>What is required before an application is made.\<close>

definition adoption_authorized :: "database \<Rightarrow> apply_artifact_payload \<Rightarrow> bool" where
  "adoption_authorized d payload \<longleftrightarrow>
     (case (find_task d (aap_taskId payload), find_evaluation d (aap_evaluationId payload)) of
        (Some task, Some evaluation) \<Rightarrow>
          tk_status task = TS_COMPLETED \<and> ae_taskId evaluation = aap_taskId payload \<and> ae_status evaluation = AS_PASSED
          \<and> map_option ae_id (latest_evaluation d (aap_taskId payload)) = Some (aap_evaluationId payload)
      | _ \<Rightarrow> False)"

lemma find_memD: "find P xs = Some x \<Longrightarrow> x \<in> set xs \<and> P x"
  by (auto simp: find_Some_iff)

lemma adoptable_ok:
  assumes "adoptable sv payload s = (Inr (task, run, artifact, requestId, revision), t)"
  shows "t = s \<and> adoption_authorized (db s) payload \<and> ar_id artifact = aap_artifactId payload
    \<and> find_revision (db s) (rn_repositoryRevisionId run) = Some revision"
proof -
  from assms have t: "t = s" and facts: "adoption_authorized (db s) payload"
      "find_revision (db s) (rn_repositoryRevisionId run) = Some revision"
    and found: "\<exists>arts. find (\<lambda>item. ar_id item = aap_artifactId payload) arts = Some artifact"
    unfolding adoptable_def adoption_authorized_def
    by (auto simp: ok_simps requireTask_def requireAcceptanceEvaluation_def requireEvaluation_def
        latestAcceptanceEvaluationForTask_def latestEvaluationForTask_def listTaskSpecVersions_def requireRun_def getRunAggregate_def)
  from found have "ar_id artifact = aap_artifactId payload" by (auto dest: find_memD)
  with t facts show ?thesis by simp
qed

lemma find_application_unique:
  assumes "schema_ok d" and "a \<in> set (artifact_applications d)"
  shows "find_application d (ap_id a) = Some a"
  unfolding find_application_def
  using assms by (intro first_where_key_eq) (simp_all add: schema_ok_def keys_ok_def)

definition application_of :: "create_application_input \<Rightarrow> artifact_application_row" where
  "application_of inp =
     \<lparr>ap_id = cap_id inp, ap_projectId = cap_projectId inp, ap_taskId = cap_taskId inp, ap_evaluationId = cap_evaluationId inp,
      ap_runId = cap_runId inp, ap_executionRequestId = cap_executionRequestId inp, ap_artifactId = cap_artifactId inp,
      ap_baseBaselineId = cap_baseBaselineId inp, ap_baseRepositoryRevisionId = cap_baseRepositoryRevisionId inp,
      ap_patchHash = cap_patchHash inp, ap_authorizedAt = cap_authorizedAt inp\<rparr>"

lemma createArtifactApplication_row:
  assumes "createArtifactApplication sv inp s = (Inr agg, t)"
  shows "application_of inp \<in> set (artifact_applications (db t))"
proof -
  let ?u = "s\<lparr>tx := Some (db s), db := artifact_applications_update (\<lambda>rs. rs @ [application_of inp]) (db s)\<rparr>"
  from assms obtain i e v1 p k x act j y v2 v where
    event: "appendApplicationEvent sv i AE_AUTHORIZED None None None (cap_authorizedAt inp) ?u = (Inr e, v1)"
    and audit: "appendAudit sv p k x act j v1 = (Inr y, v2)"
    and built: "buildAggregate (application_of inp) v2 = (Inr agg, v)" and t: "t = v\<lparr>tx := None\<rparr>"
    unfolding createArtifactApplication_def application_of_def [symmetric]
    by (simp only: andThen_ok withTransaction_ok insert_into_ok first_row_ok) (elim exE conjE, hypsubst, simp)
  from appendApplicationEvent_ok [OF event] have "artifact_applications (db v1) = artifact_applications (db s) @ [application_of inp]"
    by simp
  moreover have "artifact_applications (db v2) = artifact_applications (db v1)" using appendAudit_frame [OF audit] by auto
  moreover have "db t = db v2" using build_reads [OF built] t by simp
  ultimately show ?thesis by simp
qed

definition bound_to :: "artifact_application_row \<Rightarrow> apply_artifact_payload \<Rightarrow> bool" where
  "bound_to a payload \<longleftrightarrow> ap_evaluationId a = aap_evaluationId payload \<and> ap_artifactId a = aap_artifactId payload"

lemma andThen_known: "m s = (Inr x, u) \<Longrightarrow> andThen m f s = f x u"
  by (simp add: andThen_def)

lemma authorizeAndApply_ok:
  assumes "authorizeAndApply sv env payload s = (Inr agg, t)" and schema: "schema_ok (db s)"
  shows "\<exists>a base revision. bound_to a payload \<and> adoption_authorized (db s) payload
    \<and> find_revision (db s) (ap_baseRepositoryRevisionId a) = Some base
    \<and> adopted (db t) agg a revision \<and> adoption_committed (we_writer env) (rr_baseCommit base) revision"
proof -
  let ?u = "run_session sv (we_others env 0) s"
  from assms(1) obtain task run artifact requestId base v agg' w inp patch n x where
    ready: "adoptable sv payload s = (Inr (task, run, artifact, requestId, base), s)"
    and created: "createArtifactApplication sv inp v = (Inr agg', w)" and v: "db v = db ?u"
    and inp: "cap_evaluationId inp = aap_evaluationId payload" "cap_artifactId inp = ar_id artifact"
        "cap_baseRepositoryRevisionId inp = rn_repositoryRevisionId run"
    and mark: "markApplicationApplying sv (cap_id inp) n (w\<lparr>nowCalls := nowCalls w + 1\<rparr>) = (Inr (), x)"
    and patch: "api_applicationId patch = cap_id inp" "api_baseCommit patch = rr_baseCommit base"
    and final: "apply_and_record sv env patch x = (Inr agg, t)"
  proof -
    from assms(1) obtain z u where "adoptable sv payload s = (Inr z, u)"
      unfolding authorizeAndApply_def by (simp only: andThen_ok) blast
    then obtain task run artifact requestId base where
      ready: "adoptable sv payload s = (Inr (task, run, artifact, requestId, base), s)"
      by (cases z) (auto dest: adoptable_ok)
    from assms(1) show thesis unfolding authorizeAndApply_def getActiveBaseline_def andThen_known [of "adoptable sv payload" s, OF ready] prod.case
      by (simp only: andThen_ok awaits_ok throw_if_ok require_reads query_ok now_ok nextId_ok)
        (elim exE conjE, hypsubst, rule that [OF ready], assumption, simp_all)
  qed
  note facts = adoptable_ok [OF ready]
  have w: "later (db s) (db w)"
    using later_evolves [OF perm.createArtifactApplication created] v later_session [OF schema, of sv "we_others env 0"]
    by (auto simp: later_def intro: logs_grow_trans)
  then have x: "later (db s) (db x)" "later (db w) (db x)"
    using later_evolves [OF perm.markApplicationApplying mark] by (auto simp: later_def intro: logs_grow_trans)
  have "find_application (db w) (cap_id inp) = Some (application_of inp)"
    using find_application_unique [OF later_schema [OF w] createArtifactApplication_row [OF created]]
    by (simp add: application_of_def)
  then have "find_application (db x) (cap_id inp) = Some (application_of inp)"
    using application_kept [of "db w" "db x"] x(2) by (simp add: later_def)
  with apply_and_record_ok [OF final later_schema [OF x(1)]] patch obtain revision where
    "adopted (db t) agg (application_of inp) revision" "adoption_committed (we_writer env) (rr_baseCommit base) revision" by auto
  moreover have "bound_to (application_of inp) payload" using inp facts by (simp add: bound_to_def application_of_def)
  moreover have "find_revision (db s) (ap_baseRepositoryRevisionId (application_of inp)) = Some base"
    using facts inp(3) by (simp add: application_of_def)
  ultimately show ?thesis using facts by blast
qed

lemma aggregates_of:
  "forEach buildAggregate rs s = (Inr aggs, t) \<Longrightarrow>
     t = s \<and> map aag_application aggs = rs \<and> (\<forall>agg\<in>set aggs. \<exists>a u. buildAggregate a s = (Inr agg, u))"
  by (induction rs arbitrary: s aggs) (fastforce simp: ok_simps dest: build_reads)+

lemma listed_application:
  assumes "listArtifactApplicationAggregates taskId s = (Inr aggs, t)" and "schema_ok (db s)" and "agg \<in> set aggs"
  shows "t = s \<and> aag_application agg \<in> set (artifact_applications (db s))
    \<and> find_application (db s) (ap_id (aag_application agg)) = Some (aag_application agg)
    \<and> (aag_effectiveStatus agg = AE_APPLIED \<longrightarrow> applied_on_record (db s) agg)"
proof -
  from assms(1) have "t = s" and listed: "map aag_application aggs = filter (\<lambda>r. ap_taskId r = taskId) (artifact_applications (db s))"
    by (auto simp: listArtifactApplicationAggregates_def ok_simps dest!: aggregates_of)
  from assms(3) have "aag_application agg \<in> set (map aag_application aggs)" by simp
  then have "aag_application agg \<in> set (artifact_applications (db s))" unfolding listed by simp
  moreover have "\<exists>a u. buildAggregate a s = (Inr agg, u)"
    using assms(1,3) by (auto simp: listArtifactApplicationAggregates_def ok_simps dest!: aggregates_of)
  ultimately show ?thesis using \<open>t = s\<close> find_application_unique [OF assms(2)] by (auto dest: build_reads intro: build_on_record)
qed

text \<open>
  C6. A call to adopt an artifact that answers at all answers with an APPLIED application of the
  evaluation and the artifact it was asked for, and afterwards that application is on record with
  APPLIED as its last event and with the revision that was answered. Either nothing was changed, so
  all this was on record before, or git has shown it to be done: the application starts from a
  stored revision whose commit was the clean \<open>HEAD\<close> when the patch went in and is the parent of the
  clean commit made of it, or, on a retry, the parent of a clean commit whose message names this
  application; and the revision on record is the one git then reported. A new application is made
  only for a completed task whose latest evaluation passed.
\<close>

theorem adoption_rests_on_git:
  assumes "applyArtifact sv env payload s = (Inr agg, t)" and "schema_ok (db s)"
  shows "aag_effectiveStatus agg = AE_APPLIED \<and> bound_to (aag_application agg) payload \<and> applied_on_record (db t) agg
    \<and> (t = s \<or> (\<exists>base revision. find_revision (db s) (ap_baseRepositoryRevisionId (aag_application agg)) = Some base
        \<and> records_revision agg revision
        \<and> (adoption_authorized (db s) payload \<and> adoption_committed (we_writer env) (rr_baseCommit base) revision
          \<or> aag_application agg \<in> set (artifact_applications (db s))
            \<and> (adoption_committed (we_writer env) (rr_baseCommit base) revision
              \<or> adoption_recognised (we_writer env) (rr_baseCommit base) (aag_application agg) revision))))"
proof -
  from assms(1) obtain aggs u where listed: "listArtifactApplicationAggregates (aap_taskId payload) s = (Inr aggs, u)"
    and branch: "(case aggs of [] \<Rightarrow> authorizeAndApply sv env payload
       | existing # _ \<Rightarrow> andThen (throw_if (ap_evaluationId (aag_application existing) \<noteq> aap_evaluationId payload
             \<or> ap_artifactId (aag_application existing) \<noteq> aap_artifactId payload)
           (ValidationError ''artifact_application_binding_conflict'')) (\<lambda>_.
         if aag_effectiveStatus existing = AE_APPLIED then Store.ret existing
         else if aag_effectiveStatus existing \<in> {AE_AUTHORIZED, AE_APPLYING, AE_INTERRUPTED}
         then reconcileApplication sv env existing
         else Store.throw (ValidationError (''application for task '' @ aap_taskId payload @ '' is ''
                @ application_status_str (aag_effectiveStatus existing))))) u = (Inr agg, t)"
    unfolding applyArtifact_def by (simp only: andThen_ok) blast
  show ?thesis
  proof (cases aggs)
    case Nil
    with listed have "u = s" by (auto simp: listArtifactApplicationAggregates_def ok_simps dest!: aggregates_of)
    with branch Nil have "authorizeAndApply sv env payload s = (Inr agg, t)" by simp
    from authorizeAndApply_ok [OF this assms(2)] show ?thesis by (auto simp: adopted_def)
  next
    case (Cons existing rest)
    with listed_application [OF listed assms(2)] have row: "u = s" "aag_application existing \<in> set (artifact_applications (db s))"
        "find_application (db s) (ap_id (aag_application existing)) = Some (aag_application existing)"
        "aag_effectiveStatus existing = AE_APPLIED \<Longrightarrow> applied_on_record (db s) existing" by auto
    from branch Cons row(1) have bound: "bound_to (aag_application existing) payload"
      and ends: "aag_effectiveStatus existing = AE_APPLIED \<and> agg = existing \<and> t = s
        \<or> reconcileApplication sv env existing s = (Inr agg, t)"
      by (auto simp: ok_simps bound_to_def split: if_splits)
    from ends show ?thesis
    proof (elim disjE conjE)
      assume "reconcileApplication sv env existing s = (Inr agg, t)"
      from reconcileApplication_ok [OF this assms(2) refl row(3)] show ?thesis using bound row(2) by (auto simp: adopted_def)
    qed (simp add: bound row(4))
  qed
qed

definition demo_git :: "writer_point \<Rightarrow> string list \<Rightarrow> git_answer" where
  "demo_git point args =
     GitExited (Some 0)
       (if args = [''rev-parse'', ''HEAD''] then (if point = HeadAt BeforeApply then ''c'' else ''m'')
        else if args = [''rev-parse'', ''HEAD^{tree}''] then ''k''
        else if args = [''log'', ''-1'', ''--format=%P''] then ''c'' else []) []"

definition demo_workspace :: workspace_env where
  "demo_workspace =
     \<lparr>we_revision = Inr \<lparr>av_baseCommit = Some ''c'', av_treeHash = Some ''h'', av_workingTreePatchHash = None\<rparr>,
      we_writer = \<lparr>wr_runtimePath = (\<lambda>f. ''/r/'' @ f), wr_mkdir = None, wr_writePatch = None, wr_git = demo_git\<rparr>,
      we_others = (\<lambda>n. [])\<rparr>"

definition completed_db :: database where
  "completed_db = reviewed_db\<lparr>tasks := [demo_task TS_COMPLETED]\<rparr>"

definition demo_adoption :: apply_artifact_payload where
  "demo_adoption = \<lparr>aap_taskId = ''t'', aap_evaluationId = ''e'', aap_artifactId = ''z''\<rparr>"

lemma completed_schema: "schema_ok completed_db"
  by (simp add: completed_db_def demo_db_defs schema_ok_def schema_defs fk_def fk_opt_def is_active_def numbered_from_def
      revision_key_def nv_key_def ts_key_def ac_key_def bi_key_def bi_version_key_def)

theorem adoption_rests_on_git_witness:
  "\<exists>agg. fst (applyArtifact demo demo_workspace demo_adoption (at completed_db)) = Inr agg
    \<and> aag_effectiveStatus agg = AE_APPLIED \<and> bound_to (aag_application agg) demo_adoption"
proof -
  have "\<not> isl (fst (applyArtifact demo demo_workspace demo_adoption (at completed_db)))" by code_simp
  then obtain agg where agg: "fst (applyArtifact demo demo_workspace demo_adoption (at completed_db)) = Inr agg"
    by (cases "fst (applyArtifact demo demo_workspace demo_adoption (at completed_db))") simp_all
  from adoption_rests_on_git [OF ok_pair [OF agg]] completed_schema agg show ?thesis by (simp add: at_def)
qed

end
