(* ===== verification/Worker_Host.thy ===== *)
theory Worker_Host
  imports Execution_Coordinator
begin

text \<open>
  The host of the worker process (\<open>apps/desktop/src/main/utility-process-worker-host.ts\<close>): starting,
  restarting and disposing of the process, and the requests that wait for its frames.

  Whatever suspends is an entry of the state: a start that waits for its acknowledgement with the
  calls that wait for the start, a disposal that waits for its acknowledgement with what follows
  it, an armed timer. Continuations run to their end within the event that resumes them. The fields
  that the source shares between starts and between disposals (\<open>initResolve\<close>, \<open>initTimer\<close>,
  \<open>disposeResolve\<close>, ...) are fields here, holding the number of the start or the disposal they belong
  to; a start has the number of the process it made.
\<close>

section \<open>Frames, calls and the state\<close>

datatype host_request_frame =
    InitFrame "string option"
  | DispatchFrame string string execution_request
  | CancelFrame string string
  | DisposeFrame

datatype host_error_code = NOT_INITIALIZED | INVALID_FRAME | SERVICE_FAILURE

datatype host_response =
    InitAck
  | DispatchResultFrame string string dispatch_result
  | CancelResultFrame string string bool
  | ErrorFrame "string option" host_error_code
  | DisposeAck

datatype host_state = HS_STOPPED | HS_STARTING | HS_READY | HS_DISPOSING | HS_DISPOSED

datatype pending_kind = DispatchKind | CancelKind

text \<open>The call stands for the two functions that settle its promise.\<close>

record pending_request =
  pq_kind :: pending_kind
  pq_executionRequestId :: string
  pq_call :: nat

datatype host_outcome = Dispatched dispatch_result | Cancelled bool | Disposed | Failed error

datatype host_task = DispatchTask nat execution_request | CancelTask nat string | DisposeTask nat

text \<open>What follows a disposal: the call that asked for it, or the restart for a new launch plan.\<close>

datatype after_disposal = ReturnTo nat | RestartFor host_task

text \<open>The calls that wait for a start, and the one that waits for the restart the start is part of.\<close>

record start_in_flight =
  si_child :: nat
  si_waiters :: "host_task list"
  si_restarter :: "host_task option"

record disposal_in_flight =
  di_number :: nat
  di_child :: nat
  di_after :: after_disposal

text \<open>
  \<open>wh_plan\<close> is what the provider of launch plans would answer; \<open>wh_posted\<close>, \<open>wh_killed\<close> and \<open>wh_answers\<close>
  record what left the host.
\<close>

record worker_host =
  wh_state :: host_state
  wh_startPromise :: "nat option"
  wh_child :: "nat option"
  wh_pending :: "(string \<times> pending_request) list"
  wh_submitted :: "string list"
  wh_messageCounter :: nat
  wh_initResolve :: "nat option"
  wh_initReject :: "nat option"
  wh_initTimer :: "nat option"
  wh_disposeResolve :: "nat option"
  wh_disposeTimer :: "nat option"
  wh_fingerprint :: "string option"
  wh_plan :: "string option"
  wh_starts :: "start_in_flight list"
  wh_disposals :: "disposal_in_flight list"
  wh_armedInit :: "nat list"
  wh_armedDispose :: "nat list"
  wh_spawned :: nat
  wh_disposed :: nat
  wh_posted :: "(nat \<times> host_request_frame) list"
  wh_killed :: "nat list"
  wh_answers :: "(nat \<times> host_outcome) list"

definition new_host :: worker_host where
  "new_host =
     \<lparr>wh_state = HS_STOPPED, wh_startPromise = None, wh_child = None, wh_pending = [], wh_submitted = [],
      wh_messageCounter = 0, wh_initResolve = None, wh_initReject = None, wh_initTimer = None,
      wh_disposeResolve = None, wh_disposeTimer = None, wh_fingerprint = None, wh_plan = None, wh_starts = [],
      wh_disposals = [], wh_armedInit = [], wh_armedDispose = [], wh_spawned = 0, wh_disposed = 0, wh_posted = [],
      wh_killed = [], wh_answers = []\<rparr>"

text \<open>\<open>hc_frameOk\<close> is the schema of request frames, \<open>hc_sha256\<close> the digest of an executable's path.\<close>

record host_config =
  hc_frameOk :: "host_request_frame \<Rightarrow> bool"
  hc_sha256 :: "string \<Rightarrow> string"

section \<open>Answering and posting\<close>

fun opt_list :: "'a option \<Rightarrow> 'a list" where
  "opt_list None = []"
| "opt_list (Some x) = [x]"

definition answer_to :: "nat \<Rightarrow> host_outcome \<Rightarrow> worker_host \<Rightarrow> worker_host" where
  "answer_to c x h = h\<lparr>wh_answers := wh_answers h @ [(c, x)]\<rparr>"

definition unavailable :: "string \<Rightarrow> host_outcome" where
  "unavailable m = Failed (HostUnavailableError m)"

definition invalid_frame :: host_outcome where
  "invalid_frame = Failed (PlainError ''ZodError'')"

fun task_call :: "host_task \<Rightarrow> nat" where
  "task_call (DispatchTask c r) = c"
| "task_call (CancelTask c i) = c"
| "task_call (DisposeTask c) = c"

definition postFrame :: "host_request_frame \<Rightarrow> worker_host \<Rightarrow> worker_host" where
  "postFrame frame h =
     (case wh_child h of None \<Rightarrow> h | Some child \<Rightarrow> h\<lparr>wh_posted := wh_posted h @ [(child, frame)]\<rparr>)"

definition message_id :: "nat \<Rightarrow> string" where
  "message_id n = ''msg-'' @ nat_digits n"

definition host_send :: "host_config \<Rightarrow> string \<Rightarrow> pending_kind \<Rightarrow> string \<Rightarrow> nat \<Rightarrow> host_request_frame \<Rightarrow> worker_host \<Rightarrow> worker_host" where
  "host_send cfg messageId kind executionRequestId c frame h =
     (case wh_child h of
        None \<Rightarrow> answer_to c (unavailable ''worker host is not started'') h
      | Some _ \<Rightarrow>
          if hc_frameOk cfg frame
          then postFrame frame
            (h\<lparr>wh_pending := AList.update messageId
                \<lparr>pq_kind = kind, pq_executionRequestId = executionRequestId, pq_call = c\<rparr> (wh_pending h)\<rparr>)
          else answer_to c invalid_frame (h\<lparr>wh_pending := AList.delete messageId (wh_pending h)\<rparr>))"

definition rejectAll :: "host_outcome \<Rightarrow> worker_host \<Rightarrow> worker_host" where
  "rejectAll x h =
     h\<lparr>wh_answers := wh_answers h @ map (\<lambda>(m, p). (pq_call p, x)) (wh_pending h), wh_pending := []\<rparr>"

section \<open>Starting\<close>

definition launchFingerprint :: "host_config \<Rightarrow> worker_host \<Rightarrow> string option" where
  "launchFingerprint cfg h = map_option (hc_sha256 cfg) (wh_plan h)"

definition clear_init_timer :: "worker_host \<Rightarrow> worker_host" where
  "clear_init_timer h =
     (case wh_initTimer h of
        None \<Rightarrow> h
      | Some t \<Rightarrow> h\<lparr>wh_initTimer := None, wh_armedInit := removeAll t (wh_armedInit h)\<rparr>)"

text \<open>A start that fails: \<open>abortStart\<close>, then the calls that waited.\<close>

definition start_failed :: "nat \<Rightarrow> host_outcome \<Rightarrow> worker_host \<Rightarrow> worker_host" where
  "start_failed child x h =
     (case find (\<lambda>s. si_child s = child) (wh_starts h) of
        None \<Rightarrow> h
      | Some s \<Rightarrow>
          (let h' = clear_init_timer (h\<lparr>wh_child := None, wh_state := HS_STOPPED, wh_startPromise := None,
                      wh_initResolve := None, wh_initReject := None\<rparr>) in
           h'\<lparr>wh_killed := wh_killed h' @ [child],
              wh_starts := filter (\<lambda>s. si_child s \<noteq> child) (wh_starts h'),
              wh_answers := wh_answers h' @ map (\<lambda>t. (task_call t, x)) (si_waiters s @ opt_list (si_restarter s))\<rparr>))"

text \<open>\<open>start\<close> up to its first wait, with the call that asked for it.\<close>

definition start_with :: "host_config \<Rightarrow> host_task list \<Rightarrow> host_task option \<Rightarrow> worker_host \<Rightarrow> worker_host" where
  "start_with cfg waiters restarter h =
     (let child = wh_spawned h;
          frame = InitFrame (wh_plan h);
          h' = h\<lparr>wh_state := HS_STARTING, wh_spawned := Suc child, wh_child := Some child,
                 wh_fingerprint := launchFingerprint cfg h, wh_initResolve := Some child, wh_initReject := Some child,
                 wh_startPromise := Some child,
                 wh_starts := wh_starts h @ [\<lparr>si_child = child, si_waiters = waiters, si_restarter = restarter\<rparr>]\<rparr> in
      if hc_frameOk cfg frame
      then (postFrame frame h')\<lparr>wh_initTimer := Some child, wh_armedInit := wh_armedInit h @ [child]\<rparr>
      else start_failed child invalid_frame h')"

definition wait_for_start :: "nat \<Rightarrow> host_task \<Rightarrow> worker_host \<Rightarrow> worker_host" where
  "wait_for_start child t h =
     h\<lparr>wh_starts := map (\<lambda>s. if si_child s = child then s\<lparr>si_waiters := si_waiters s @ [t]\<rparr> else s) (wh_starts h)\<rparr>"

section \<open>Disposing\<close>

fun after_dispose :: "host_config \<Rightarrow> after_disposal \<Rightarrow> worker_host \<Rightarrow> worker_host" where
  "after_dispose cfg (ReturnTo c) h = answer_to c Disposed h"
| "after_dispose cfg (RestartFor t) h = start_with cfg [] (Some t) (h\<lparr>wh_startPromise := None\<rparr>)"

text \<open>\<open>dispose\<close> from the check for \<open>READY\<close> to its wait.\<close>

definition dispose_ready :: "host_config \<Rightarrow> after_disposal \<Rightarrow> worker_host \<Rightarrow> worker_host" where
  "dispose_ready cfg next h =
     (if wh_state h \<noteq> HS_READY then after_dispose cfg next h
      else case wh_child h of
             None \<Rightarrow> after_dispose cfg next (h\<lparr>wh_state := HS_DISPOSED\<rparr>)
           | Some child \<Rightarrow>
               (let n = wh_disposed h;
                    h' = postFrame DisposeFrame (h\<lparr>wh_state := HS_DISPOSING, wh_disposeResolve := Some n\<rparr>) in
                h'\<lparr>wh_disposed := Suc n, wh_disposeTimer := Some n, wh_armedDispose := wh_armedDispose h' @ [n],
                   wh_disposals := wh_disposals h' @ [\<lparr>di_number = n, di_child = child, di_after = next\<rparr>]\<rparr>))"

definition clear_dispose_timer :: "worker_host \<Rightarrow> worker_host" where
  "clear_dispose_timer h =
     (case wh_disposeTimer h of
        None \<Rightarrow> h
      | Some t \<Rightarrow> h\<lparr>wh_disposeTimer := None, wh_armedDispose := removeAll t (wh_armedDispose h)\<rparr>)"

text \<open>\<open>dispose\<close> from its wait on.\<close>

definition dispose_resolved :: "host_config \<Rightarrow> nat \<Rightarrow> worker_host \<Rightarrow> worker_host" where
  "dispose_resolved cfg n h =
     (case find (\<lambda>d. di_number d = n) (wh_disposals h) of
        None \<Rightarrow> h
      | Some d \<Rightarrow>
          (let h' = clear_dispose_timer (h\<lparr>wh_disposeResolve := None\<rparr>) in
           after_dispose cfg (di_after d)
             (h'\<lparr>wh_killed := wh_killed h' @ [di_child d], wh_child := None, wh_state := HS_DISPOSED, wh_startPromise := None,
                 wh_disposals := filter (\<lambda>d. di_number d \<noteq> n) (wh_disposals h')\<rparr>)))"

section \<open>Calls\<close>

text \<open>What a call does once the process is started.\<close>

fun run_task :: "host_config \<Rightarrow> host_task \<Rightarrow> worker_host \<Rightarrow> worker_host" where
  "run_task cfg (DispatchTask c r) h =
     (let i = xr_executionRequestId r in
      if i \<in> set (wh_submitted h)
      then answer_to c (unavailable (''executionRequestId '' @ i @ '' was already submitted; retry with a new ExecutionRequest'')) h
      else (let n = Suc (wh_messageCounter h) in
            host_send cfg (message_id n) DispatchKind i c (DispatchFrame (message_id n) i r)
              (h\<lparr>wh_submitted := wh_submitted h @ [i], wh_messageCounter := n\<rparr>)))"
| "run_task cfg (CancelTask c i) h =
     (let n = Suc (wh_messageCounter h) in
      host_send cfg (message_id n) CancelKind i c (CancelFrame (message_id n) i) (h\<lparr>wh_messageCounter := n\<rparr>))"
| "run_task cfg (DisposeTask c) h = dispose_ready cfg (ReturnTo c) h"

definition ensureStarted :: "host_config \<Rightarrow> host_task \<Rightarrow> worker_host \<Rightarrow> worker_host" where
  "ensureStarted cfg t h =
     (case wh_state h of
        HS_READY \<Rightarrow>
          if launchFingerprint cfg h = wh_fingerprint h then run_task cfg t h
          else dispose_ready cfg (RestartFor t) h
      | HS_DISPOSING \<Rightarrow> answer_to (task_call t) (unavailable ''worker host is shutting down or disposed'') h
      | HS_DISPOSED \<Rightarrow> answer_to (task_call t) (unavailable ''worker host is shutting down or disposed'') h
      | HS_STARTING \<Rightarrow>
          (case wh_startPromise h of
             Some child \<Rightarrow> wait_for_start child t h
           | None \<Rightarrow> start_with cfg [t] None h)
      | HS_STOPPED \<Rightarrow> start_with cfg [t] None h)"

definition dispose :: "host_config \<Rightarrow> nat \<Rightarrow> worker_host \<Rightarrow> worker_host" where
  "dispose cfg c h =
     (case wh_state h of
        HS_DISPOSED \<Rightarrow> answer_to c Disposed h
      | HS_STOPPED \<Rightarrow> answer_to c Disposed (h\<lparr>wh_state := HS_DISPOSED\<rparr>)
      | HS_STARTING \<Rightarrow> ensureStarted cfg (DisposeTask c) h
      | _ \<Rightarrow> dispose_ready cfg (ReturnTo c) h)"

section \<open>Frames and exits of the process\<close>

text \<open>\<open>start\<close> from its acknowledgement on, then the calls that waited.\<close>

definition start_ready :: "host_config \<Rightarrow> nat \<Rightarrow> worker_host \<Rightarrow> worker_host" where
  "start_ready cfg child h =
     (case find (\<lambda>s. si_child s = child) (wh_starts h) of
        None \<Rightarrow> h
      | Some s \<Rightarrow>
          fold (run_task cfg) (si_waiters s @ opt_list (si_restarter s))
            (clear_init_timer
              (h\<lparr>wh_state := HS_READY, wh_startPromise := None, wh_initResolve := None, wh_initReject := None,
                 wh_starts := filter (\<lambda>s. si_child s \<noteq> child) (wh_starts h)\<rparr>)))"

definition mapErrorCode :: "host_error_code \<Rightarrow> host_outcome" where
  "mapErrorCode code =
     (case code of
        NOT_INITIALIZED \<Rightarrow> unavailable ''worker is not initialized''
      | INVALID_FRAME \<Rightarrow> Failed (PlainError ''worker protocol frame invalid'')
      | SERVICE_FAILURE \<Rightarrow> Failed (PlainError ''worker service failure''))"

text \<open>\<open>settle\<close>: the entry is answered by the frame if it is for its request and of its kind.\<close>

definition settle_with :: "string \<Rightarrow> string \<Rightarrow> pending_kind \<Rightarrow> host_outcome \<Rightarrow> worker_host \<Rightarrow> worker_host" where
  "settle_with messageId executionRequestId kind x h =
     (case map_of (wh_pending h) messageId of
        None \<Rightarrow> h
      | Some p \<Rightarrow>
          answer_to (pq_call p)
            (if pq_executionRequestId p \<noteq> executionRequestId then unavailable ''response executionRequestId mismatch''
             else if pq_kind p = kind then x else unavailable ''unexpected response frame'')
            (h\<lparr>wh_pending := AList.delete messageId (wh_pending h)\<rparr>))"

definition handleError :: "string option \<Rightarrow> host_error_code \<Rightarrow> worker_host \<Rightarrow> worker_host" where
  "handleError messageId code h =
     (case messageId of
        None \<Rightarrow> rejectAll (unavailable ''worker host reported an unattributable error'') h
      | Some m \<Rightarrow>
          (case map_of (wh_pending h) m of
             None \<Rightarrow> h
           | Some p \<Rightarrow> answer_to (pq_call p) (mapErrorCode code) (h\<lparr>wh_pending := AList.delete m (wh_pending h)\<rparr>)))"

fun handleMessage :: "host_config \<Rightarrow> host_response \<Rightarrow> worker_host \<Rightarrow> worker_host" where
  "handleMessage cfg InitAck h = (case wh_initResolve h of None \<Rightarrow> h | Some child \<Rightarrow> start_ready cfg child h)"
| "handleMessage cfg (DispatchResultFrame m i r) h = settle_with m i DispatchKind (Dispatched r) h"
| "handleMessage cfg (CancelResultFrame m i b) h = settle_with m i CancelKind (Cancelled b) h"
| "handleMessage cfg (ErrorFrame m code) h = handleError m code h"
| "handleMessage cfg DisposeAck h = (case wh_disposeResolve h of None \<Rightarrow> h | Some n \<Rightarrow> dispose_resolved cfg n h)"

definition handleExit :: "int \<Rightarrow> worker_host \<Rightarrow> worker_host" where
  "handleExit code h =
     (let h' = (rejectAll (unavailable (''worker host exited ('' @ int_digits code @ '')'')) (h\<lparr>wh_initReject := None\<rparr>))
                 \<lparr>wh_child := None, wh_state := HS_STOPPED, wh_startPromise := None\<rparr> in
      case wh_initReject h of
        None \<Rightarrow> h'
      | Some child \<Rightarrow> start_failed child (unavailable (''worker exited during start ('' @ int_digits code @ '')'')) h')"

section \<open>Events\<close>

datatype host_event =
    DispatchCall nat execution_request
  | CancelCall nat string
  | DisposeCall nat
  | PlanChanged "string option"
  | FrameReceived nat host_response
  | ProcessExited nat int
  | InitTimerFired nat
  | DisposeTimerFired nat

fun host_step :: "host_config \<Rightarrow> host_event \<Rightarrow> worker_host \<Rightarrow> worker_host" where
  "host_step cfg (DispatchCall c r) h = ensureStarted cfg (DispatchTask c r) h"
| "host_step cfg (CancelCall c i) h = ensureStarted cfg (CancelTask c i) h"
| "host_step cfg (DisposeCall c) h = dispose cfg c h"
| "host_step cfg (PlanChanged plan) h = h\<lparr>wh_plan := plan\<rparr>"
| "host_step cfg (FrameReceived child response) h = (if wh_child h = Some child then handleMessage cfg response h else h)"
| "host_step cfg (ProcessExited child code) h = (if wh_child h = Some child then handleExit code h else h)"
| "host_step cfg (InitTimerFired child) h =
     (if child \<in> set (wh_armedInit h)
      then start_failed child (unavailable ''worker init timed out'') (h\<lparr>wh_armedInit := removeAll child (wh_armedInit h)\<rparr>)
      else h)"
| "host_step cfg (DisposeTimerFired n) h =
     (if n \<in> set (wh_armedDispose h)
      then dispose_resolved cfg n (h\<lparr>wh_armedDispose := removeAll n (wh_armedDispose h)\<rparr>)
      else h)"

definition run_host :: "host_config \<Rightarrow> host_event list \<Rightarrow> worker_host" where
  "run_host cfg events = fold (host_step cfg) events new_host"

end
