(* ===== verification/Host_Laws.thy ===== *)
theory Host_Laws
  imports Worker_Host
begin

text \<open>
  What holds of the worker host under every order of calls, frames, exits and timers: no call is
  lost or answered twice, no execution request is posted twice, and what a call is answered with
  was sent for it.
\<close>

section \<open>Where a call is\<close>

definition waiting_calls :: "start_in_flight \<Rightarrow> nat list" where
  "waiting_calls s = map task_call (si_waiters s @ opt_list (si_restarter s))"

fun next_call :: "after_disposal \<Rightarrow> nat" where
  "next_call (ReturnTo c) = c"
| "next_call (RestartFor t) = task_call t"

definition calls_of :: "worker_host \<Rightarrow> nat multiset" where
  "calls_of h =
     mset (map fst (wh_answers h)) + mset (map (pq_call \<circ> snd) (wh_pending h))
     + mset (concat (map waiting_calls (wh_starts h))) + mset (map (next_call \<circ> di_after) (wh_disposals h))"

definition starts_ok :: "worker_host \<Rightarrow> bool" where
  "starts_ok h \<longleftrightarrow>
     distinct (map si_child (wh_starts h)) \<and> set (map si_child (wh_starts h)) \<subseteq> {..<wh_spawned h}
     \<and> (\<forall>c. wh_startPromise h = Some c \<longrightarrow> c \<in> set (map si_child (wh_starts h)))"

definition disposals_ok :: "worker_host \<Rightarrow> bool" where
  "disposals_ok h \<longleftrightarrow>
     distinct (map di_number (wh_disposals h)) \<and> set (map di_number (wh_disposals h)) \<subseteq> {..<wh_disposed h}"

definition pending_ok :: "worker_host \<Rightarrow> bool" where
  "pending_ok h \<longleftrightarrow>
     distinct (map fst (wh_pending h)) \<and> set (map fst (wh_pending h)) \<subseteq> message_id ` {..wh_messageCounter h}"

definition host_ok :: "worker_host \<Rightarrow> bool" where
  "host_ok h \<longleftrightarrow> starts_ok h \<and> disposals_ok h \<and> pending_ok h"

text \<open>The state becomes \<open>h'\<close>, in order again, with the calls \<open>M\<close> taken up.\<close>

definition takes :: "nat multiset \<Rightarrow> worker_host \<Rightarrow> worker_host \<Rightarrow> bool" where
  "takes M h h' \<longleftrightarrow> (host_ok h \<longrightarrow> host_ok h' \<and> calls_of h' = calls_of h + M)"

lemma takes_nothing [simp]: "takes {#} h h"
  by (simp add: takes_def)

lemma takes_trans: "takes M h h' \<Longrightarrow> takes N h' h'' \<Longrightarrow> takes (M + N) h h''"
  by (auto simp: takes_def)

lemma mset_of_found:
  assumes "distinct (map k xs)" and "find (\<lambda>x. k x = c) xs = Some x"
  shows "mset xs = add_mset x (mset (filter (\<lambda>x. k x \<noteq> c) xs))"
  using assms
proof (induction xs)
  case (Cons y ys)
  show ?case
  proof (cases "k y = c")
    case True
    have "k y \<notin> k ` set ys" using Cons.prems(1) by simp
    with True have "filter (\<lambda>x. k x \<noteq> c) ys = ys" unfolding filter_id_conv by (metis imageI)
    then show ?thesis using True Cons.prems by simp
  qed (use Cons in auto)
qed simp

lemma mset_of_entry:
  assumes "distinct (map fst xs)" and "map_of xs m = Some p"
  shows "mset xs = add_mset (m, p) (mset (AList.delete m xs))"
  using assms
proof (induction xs)
  case (Cons x xs)
  obtain k q where x: "x = (k, q)" by (cases x)
  show ?case
  proof (cases "k = m")
    case True
    have "m \<notin> fst ` set xs" using Cons.prems(1) x True by simp
    then have "AList.delete m xs = xs" by (rule AList.delete_id)
    then show ?thesis using True Cons.prems(2) x by simp
  qed (use Cons x in auto)
qed simp

lemma mset_concat: "mset (concat (map f xs)) = (\<Sum>x\<in>#mset xs. mset (f x))"
  by (induction xs) auto

lemma fresh_entry: "m \<notin> fst ` set xs \<Longrightarrow> AList.update m p xs = xs @ [(m, p)]"
  by (induction xs) auto

lemma message_id_inj: "message_id m = message_id n \<longleftrightarrow> m = n"
  by (auto simp: message_id_def dest: nat_digits_inj)

lemma below_fresh: "set ks \<subseteq> {..<n} \<Longrightarrow> n \<notin> set ks" for n :: nat
  by auto

lemma below_next: "set ks \<subseteq> {..<n} \<Longrightarrow> set ks \<subseteq> {..<Suc n}" for n :: nat
  by auto

lemmas host_defs = host_ok_def starts_ok_def disposals_ok_def pending_ok_def calls_of_def

section \<open>Every operation accounts for its calls\<close>

lemma takes_answer: "takes {#c#} h (answer_to c x h)"
  by (simp add: takes_def answer_to_def host_defs)

lemma takes_reject: "takes {#} h (rejectAll x h)"
  by (simp add: takes_def rejectAll_def host_defs comp_def case_prod_unfold)

lemma pending_delete:
  assumes "pending_ok h"
  shows "pending_ok (h\<lparr>wh_pending := AList.delete m (wh_pending h)\<rparr>)"
proof -
  have "distinct (map fst (AList.delete m (wh_pending h)))" using assms by (simp add: pending_ok_def AList.distinct_delete)
  moreover have "fst ` set (AList.delete m (wh_pending h)) \<subseteq> message_id ` {..wh_messageCounter h}"
    using assms AList.dom_delete_subset [of m "wh_pending h"] unfolding pending_ok_def set_map by blast
  ultimately show ?thesis unfolding pending_ok_def by simp
qed

lemma takes_settled:
  assumes "map_of (wh_pending h) m = Some p"
  shows "takes {#} h (answer_to (pq_call p) x (h\<lparr>wh_pending := AList.delete m (wh_pending h)\<rparr>))"
proof -
  {
    assume ok: "host_ok h"
    then have "distinct (map fst (wh_pending h))" by (simp add: host_defs)
    from mset_of_entry [OF this assms]
    have "mset (map (pq_call \<circ> snd) (wh_pending h)) = add_mset (pq_call p) (mset (map (pq_call \<circ> snd) (AList.delete m (wh_pending h))))"
      by simp
    then have "calls_of (answer_to (pq_call p) x (h\<lparr>wh_pending := AList.delete m (wh_pending h)\<rparr>)) = calls_of h"
      by (simp add: calls_of_def answer_to_def)
    moreover have "host_ok (answer_to (pq_call p) x (h\<lparr>wh_pending := AList.delete m (wh_pending h)\<rparr>))"
      using ok pending_delete [of h m] by (simp add: host_ok_def starts_ok_def disposals_ok_def pending_ok_def answer_to_def)
    ultimately have "host_ok (answer_to (pq_call p) x (h\<lparr>wh_pending := AList.delete m (wh_pending h)\<rparr>))
      \<and> calls_of (answer_to (pq_call p) x (h\<lparr>wh_pending := AList.delete m (wh_pending h)\<rparr>)) = calls_of h" by simp
  }
  then show ?thesis by (simp add: takes_def)
qed

lemma takes_settle_with: "takes {#} h (settle_with m i kind x h)"
  by (auto simp: settle_with_def split: option.splits intro!: takes_settled)

lemma takes_handleError: "takes {#} h (handleError m code h)"
  by (auto simp: handleError_def takes_reject split: option.splits intro!: takes_settled)

text \<open>Fields that no account looks at.\<close>

lemma same_calls:
  assumes "wh_answers h' = wh_answers h" "wh_pending h' = wh_pending h" "wh_starts h' = wh_starts h"
    "wh_disposals h' = wh_disposals h" "wh_spawned h' = wh_spawned h" "wh_disposed h' = wh_disposed h"
    "wh_messageCounter h' = wh_messageCounter h" "wh_startPromise h' = wh_startPromise h \<or> wh_startPromise h' = None"
  shows "takes {#} h h'"
  using assms by (auto simp: takes_def host_defs)

lemma postFrame_same [simp]:
  "wh_answers (postFrame f h) = wh_answers h" "wh_pending (postFrame f h) = wh_pending h" "wh_starts (postFrame f h) = wh_starts h"
  "wh_disposals (postFrame f h) = wh_disposals h" "wh_spawned (postFrame f h) = wh_spawned h"
  "wh_disposed (postFrame f h) = wh_disposed h" "wh_messageCounter (postFrame f h) = wh_messageCounter h"
  "wh_startPromise (postFrame f h) = wh_startPromise h" "wh_submitted (postFrame f h) = wh_submitted h"
  "wh_state (postFrame f h) = wh_state h" "wh_child (postFrame f h) = wh_child h"
  by (simp_all add: postFrame_def split: option.splits)

lemma clear_init_timer_same [simp]:
  "wh_answers (clear_init_timer h) = wh_answers h" "wh_pending (clear_init_timer h) = wh_pending h"
  "wh_starts (clear_init_timer h) = wh_starts h" "wh_disposals (clear_init_timer h) = wh_disposals h"
  "wh_spawned (clear_init_timer h) = wh_spawned h" "wh_disposed (clear_init_timer h) = wh_disposed h"
  "wh_messageCounter (clear_init_timer h) = wh_messageCounter h" "wh_startPromise (clear_init_timer h) = wh_startPromise h"
  "wh_submitted (clear_init_timer h) = wh_submitted h" "wh_posted (clear_init_timer h) = wh_posted h"
  by (simp_all add: clear_init_timer_def split: option.splits)

lemma clear_dispose_timer_same [simp]:
  "wh_answers (clear_dispose_timer h) = wh_answers h" "wh_pending (clear_dispose_timer h) = wh_pending h"
  "wh_starts (clear_dispose_timer h) = wh_starts h" "wh_disposals (clear_dispose_timer h) = wh_disposals h"
  "wh_spawned (clear_dispose_timer h) = wh_spawned h" "wh_disposed (clear_dispose_timer h) = wh_disposed h"
  "wh_messageCounter (clear_dispose_timer h) = wh_messageCounter h" "wh_startPromise (clear_dispose_timer h) = wh_startPromise h"
  "wh_submitted (clear_dispose_timer h) = wh_submitted h" "wh_posted (clear_dispose_timer h) = wh_posted h"
  by (simp_all add: clear_dispose_timer_def split: option.splits)

lemma removed_starts:
  assumes "starts_ok h" and "wh_starts h' = filter (\<lambda>s. si_child s \<noteq> child) (wh_starts h)" "wh_spawned h' = wh_spawned h"
    "wh_startPromise h' = None"
  shows "starts_ok h'"
  using assms by (auto simp: starts_ok_def distinct_map_filter)

lemma takes_start_failed: "takes {#} h (start_failed child x h)"
proof (cases "find (\<lambda>s. si_child s = child) (wh_starts h)")
  case (Some s)
  {
    assume ok: "host_ok h"
    then have "distinct (map si_child (wh_starts h))" by (simp add: host_defs)
    from mset_of_found [OF this Some]
    have "mset (concat (map waiting_calls (wh_starts h)))
      = mset (waiting_calls s) + mset (concat (map waiting_calls (filter (\<lambda>s. si_child s \<noteq> child) (wh_starts h))))"
      unfolding mset_concat by (simp only: mset_filter) (metis image_mset_add_mset sum_mset.insert)
    then have "calls_of (start_failed child x h) = calls_of h"
      by (simp add: start_failed_def Some Let_def calls_of_def waiting_calls_def comp_def)
    moreover have "host_ok (start_failed child x h)"
      using ok removed_starts [of h _ child]
      by (simp add: start_failed_def Some Let_def host_ok_def disposals_ok_def pending_ok_def)
    ultimately have "host_ok (start_failed child x h) \<and> calls_of (start_failed child x h) = calls_of h" by simp
  }
  then show ?thesis by (simp add: takes_def)
qed (simp add: start_failed_def)

lemma takes_start_with: "takes (mset (map task_call (waiters @ opt_list restarter))) h (start_with cfg waiters restarter h)"
proof -
  let ?c = "wh_spawned h"
  let ?h = "h\<lparr>wh_state := HS_STARTING, wh_spawned := Suc ?c, wh_child := Some ?c,
      wh_fingerprint := launchFingerprint cfg h, wh_initResolve := Some ?c, wh_initReject := Some ?c,
      wh_startPromise := Some ?c,
      wh_starts := wh_starts h @ [\<lparr>si_child = ?c, si_waiters = waiters, si_restarter = restarter\<rparr>]\<rparr>"
  let ?M = "mset (map task_call (waiters @ opt_list restarter))"
  have started: "takes ?M h ?h"
    by (auto simp: takes_def host_defs waiting_calls_def lessThan_Suc)
  have good: "takes {#} ?h ((postFrame f ?h)\<lparr>wh_initTimer := t, wh_armedInit := ts\<rparr>)" for f t ts
    by (rule same_calls) simp_all
  have bad: "takes {#} ?h (start_failed ?c invalid_frame ?h)" by (rule takes_start_failed)
  show ?thesis using takes_trans [OF started good] takes_trans [OF started bad] unfolding start_with_def Let_def by simp
qed

lemma mset_changed:
  assumes "distinct (map k xs)" and "c \<in> k ` set xs" and "\<And>x. mset (f (g x)) = mset (f x) + M"
  shows "mset (concat (map f (map (\<lambda>x. if k x = c then g x else x) xs))) = mset (concat (map f xs)) + M"
  using assms(1,2)
proof (induction xs)
  case (Cons x xs)
  show ?case
  proof (cases "k x = c")
    case True
    have "k x \<notin> k ` set xs" using Cons.prems(1) by simp
    then have "map (\<lambda>x. if k x = c then g x else x) xs = xs" using True by (intro map_idI) (metis imageI)
    then show ?thesis using True assms(3) by simp
  qed (use Cons in auto)
qed simp

lemma takes_wait:
  assumes "child \<in> si_child ` set (wh_starts h)"
  shows "takes {#task_call t#} h (wait_for_start child t h)"
proof -
  let ?g = "\<lambda>s. s\<lparr>si_waiters := si_waiters s @ [t]\<rparr>"
  let ?starts = "map (\<lambda>s. if si_child s = child then ?g s else s) (wh_starts h)"
  have keys: "map si_child ?starts = map si_child (wh_starts h)" by (simp add: comp_def)
  {
    assume ok: "host_ok h"
    then have "mset (concat (map waiting_calls ?starts)) = mset (concat (map waiting_calls (wh_starts h))) + {#task_call t#}"
      by (intro mset_changed assms) (simp_all add: host_defs waiting_calls_def)
    then have "calls_of (wait_for_start child t h) = calls_of h + {#task_call t#}"
      by (simp add: calls_of_def wait_for_start_def)
    moreover have "host_ok (wait_for_start child t h)"
      using ok by (simp add: host_ok_def starts_ok_def wait_for_start_def disposals_ok_def pending_ok_def keys del: map_map set_map)
    ultimately have "host_ok (wait_for_start child t h) \<and> calls_of (wait_for_start child t h) = calls_of h + {#task_call t#}" by simp
  }
  then show ?thesis by (simp add: takes_def)
qed

lemma takes_after_dispose: "takes {#next_call next#} h (after_dispose cfg next h)"
proof (cases "next")
  case (RestartFor t)
  have "takes {#} h (h\<lparr>wh_startPromise := None\<rparr>)" by (rule same_calls) simp_all
  from takes_trans [OF this takes_start_with [of "[]" "Some t"]] show ?thesis using RestartFor by simp
qed (simp add: takes_answer)

lemma takes_dispose_ready: "takes {#next_call next#} h (dispose_ready cfg next h)"
proof (cases "wh_state h \<noteq> HS_READY \<or> wh_child h = None")
  case True
  have "takes {#} h (h\<lparr>wh_state := HS_DISPOSED\<rparr>)" by (rule same_calls) simp_all
  from takes_trans [OF this takes_after_dispose [of "next"]] takes_after_dispose [of "next" h] True
  show ?thesis by (auto simp: dispose_ready_def)
next
  case False
  then obtain child where child: "wh_child h = Some child" "wh_state h = HS_READY" by auto
  show ?thesis
    by (simp add: dispose_ready_def Let_def child takes_def host_defs below_fresh below_next del: set_map)
qed

lemma takes_dispose_resolved: "takes {#} h (dispose_resolved cfg n h)"
proof (cases "find (\<lambda>d. di_number d = n) (wh_disposals h)")
  case (Some d)
  let ?h = "clear_dispose_timer (h\<lparr>wh_disposeResolve := None\<rparr>)"
  let ?u = "?h\<lparr>wh_killed := wh_killed ?h @ [di_child d], wh_child := None, wh_state := HS_DISPOSED, wh_startPromise := None,
      wh_disposals := filter (\<lambda>d. di_number d \<noteq> n) (wh_disposals ?h)\<rparr>"
  {
    assume ok: "host_ok h"
    then have "distinct (map di_number (wh_disposals h))" by (simp add: host_defs)
    from mset_of_found [OF this Some]
    have "mset (map (next_call \<circ> di_after) (wh_disposals h))
        = add_mset (next_call (di_after d)) (mset (map (next_call \<circ> di_after) (filter (\<lambda>d. di_number d \<noteq> n) (wh_disposals h))))"
      unfolding mset_map by (simp only: image_mset_add_mset comp_apply)
    then have "calls_of h = calls_of ?u + {#next_call (di_after d)#}" by (simp add: calls_of_def del: mset_map)
    moreover have "host_ok ?u"
      using ok by (simp add: host_defs distinct_map_filter) blast
    ultimately have "host_ok (after_dispose cfg (di_after d) ?u) \<and> calls_of (after_dispose cfg (di_after d) ?u) = calls_of h"
      using takes_after_dispose [of "di_after d" ?u cfg] by (simp add: takes_def)
  }
  then show ?thesis by (simp add: dispose_resolved_def Some Let_def takes_def)
qed (simp add: dispose_resolved_def)

lemma takes_host_send:
  assumes "m \<notin> fst ` set (wh_pending h)" and "m = message_id n" and "n \<le> wh_messageCounter h"
  shows "takes {#c#} h (host_send cfg m kind i c frame h)"
proof -
  have fresh: "AList.delete m (wh_pending h) = wh_pending h" "AList.update m p (wh_pending h) = wh_pending h @ [(m, p)]" for p
    using assms(1) by (simp_all add: fresh_entry)
  have "takes {#c#} h (postFrame frame
      (h\<lparr>wh_pending := wh_pending h @ [(m, \<lparr>pq_kind = kind, pq_executionRequestId = i, pq_call = c\<rparr>)]\<rparr>))"
    using assms by (auto simp: takes_def host_defs)
  moreover have "takes {#c#} h (answer_to c x h)" for x by (rule takes_answer)
  ultimately show ?thesis by (simp add: host_send_def fresh split: option.splits)
qed

lemma takes_next_message:
  assumes "wh_answers h' = wh_answers h" "wh_pending h' = wh_pending h" "wh_starts h' = wh_starts h"
    "wh_disposals h' = wh_disposals h" "wh_spawned h' = wh_spawned h" "wh_disposed h' = wh_disposed h"
    "wh_startPromise h' = wh_startPromise h" and counter: "wh_messageCounter h' = Suc (wh_messageCounter h)"
  shows "takes {#c#} h (host_send cfg (message_id (Suc (wh_messageCounter h))) kind i c frame h')"
proof -
  {
    assume ok: "host_ok h"
    have "message_id ` {..wh_messageCounter h} \<subseteq> message_id ` {..wh_messageCounter h'}" using counter by auto
    then have "set (map fst (wh_pending h')) \<subseteq> message_id ` {..wh_messageCounter h'}"
      using ok assms(2) unfolding host_ok_def pending_ok_def by (metis subset_trans)
    with ok have "host_ok h'" "calls_of h' = calls_of h" using assms(1-7) by (simp_all add: host_defs del: set_map)
    moreover have "message_id (Suc (wh_messageCounter h)) \<notin> fst ` set (wh_pending h')"
      using ok assms(2) by (auto simp: host_ok_def pending_ok_def message_id_inj)
    ultimately have "host_ok (host_send cfg (message_id (Suc (wh_messageCounter h))) kind i c frame h')
        \<and> calls_of (host_send cfg (message_id (Suc (wh_messageCounter h))) kind i c frame h') = calls_of h + {#c#}"
      using takes_host_send [OF _ refl, of "Suc (wh_messageCounter h)" h' c] counter by (simp add: takes_def)
  }
  then show ?thesis by (simp add: takes_def)
qed

lemma takes_run_task: "takes {#task_call t#} h (run_task cfg t h)"
proof (cases t)
  case (DispatchTask c r)
  then show ?thesis by (auto simp: Let_def takes_answer intro!: takes_next_message)
next
  case (CancelTask c i)
  then show ?thesis by (auto simp: Let_def intro!: takes_next_message)
next
  case (DisposeTask c)
  then show ?thesis using takes_dispose_ready [of "ReturnTo c"] by simp
qed

lemma takes_run_tasks: "takes (mset (map task_call ts)) h (fold (run_task cfg) ts h)"
proof (induction ts arbitrary: h)
  case (Cons t ts)
  from takes_trans [OF takes_run_task Cons] show ?case by simp
qed simp

lemma takes_ensureStarted: "takes {#task_call t#} h (ensureStarted cfg t h)"
proof -
  have start: "takes {#task_call t#} h (start_with cfg [t] None h)" using takes_start_with [of "[t]" None] by simp
  have wait: "takes {#task_call t#} h (wait_for_start child t h)" if "wh_startPromise h = Some child" for child
    using takes_wait [of child h t] that by (auto simp: takes_def host_ok_def starts_ok_def)
  have restart: "takes {#task_call t#} h (dispose_ready cfg (RestartFor t) h)" using takes_dispose_ready [of "RestartFor t"] by simp
  show ?thesis
    using start wait restart takes_run_task takes_answer [of "task_call t"]
    by (cases "wh_state h"; cases "wh_startPromise h") (simp_all add: ensureStarted_def)
qed

lemma takes_dispose: "takes {#c#} h (dispose cfg c h)"
proof -
  have "takes {#} h (h\<lparr>wh_state := HS_DISPOSED\<rparr>)" by (rule same_calls) simp_all
  from takes_trans [OF this takes_answer] have "takes {#c#} h (answer_to c Disposed (h\<lparr>wh_state := HS_DISPOSED\<rparr>))" by simp
  then show ?thesis
    using takes_ensureStarted [of "DisposeTask c"] takes_dispose_ready [of "ReturnTo c"] takes_answer [of c]
    by (cases "wh_state h") (simp_all add: dispose_def)
qed

lemma takes_start_ready: "takes {#} h (start_ready cfg child h)"
proof (cases "find (\<lambda>s. si_child s = child) (wh_starts h)")
  case (Some s)
  let ?u = "clear_init_timer (h\<lparr>wh_state := HS_READY, wh_startPromise := None, wh_initResolve := None, wh_initReject := None,
      wh_starts := filter (\<lambda>s. si_child s \<noteq> child) (wh_starts h)\<rparr>)"
  let ?ts = "si_waiters s @ opt_list (si_restarter s)"
  {
    assume ok: "host_ok h"
    then have "distinct (map si_child (wh_starts h))" by (simp add: host_defs)
    from mset_of_found [OF this Some]
    have "mset (concat (map waiting_calls (wh_starts h)))
      = mset (waiting_calls s) + mset (concat (map waiting_calls (filter (\<lambda>s. si_child s \<noteq> child) (wh_starts h))))"
      unfolding mset_concat by (simp only: mset_filter) (metis image_mset_add_mset sum_mset.insert)
    then have "calls_of h = calls_of ?u + mset (map task_call ?ts)" by (simp add: calls_of_def waiting_calls_def)
    moreover have "host_ok ?u"
      using ok removed_starts [of h ?u child] by (simp add: host_ok_def disposals_ok_def pending_ok_def)
    ultimately have "host_ok (fold (run_task cfg) ?ts ?u) \<and> calls_of (fold (run_task cfg) ?ts ?u) = calls_of h"
      using takes_run_tasks [of ?ts ?u cfg] unfolding takes_def by simp
  }
  then show ?thesis unfolding takes_def start_ready_def Some option.case by simp
qed (simp add: start_ready_def)

lemma takes_handleMessage: "takes {#} h (handleMessage cfg response h)"
  by (cases "(cfg, response, h)" rule: handleMessage.cases)
    (auto simp: takes_settle_with takes_handleError takes_start_ready takes_dispose_resolved split: option.splits)

lemma takes_handleExit: "takes {#} h (handleExit code h)"
proof -
  let ?h = "h\<lparr>wh_initReject := None\<rparr>"
  have "takes {#} h ?h" by (rule same_calls) simp_all
  from takes_trans [OF this takes_reject] have "takes {#} h (rejectAll x ?h)" for x by simp
  moreover have "takes {#} u (u\<lparr>wh_child := None, wh_state := HS_STOPPED, wh_startPromise := None\<rparr>)" for u
    by (rule same_calls) simp_all
  ultimately have gone: "takes {#} h ((rejectAll x ?h)\<lparr>wh_child := None, wh_state := HS_STOPPED, wh_startPromise := None\<rparr>)" for x
    using takes_trans by fastforce
  have "takes {#} h (start_failed c y ((rejectAll x ?h)\<lparr>wh_child := None, wh_state := HS_STOPPED, wh_startPromise := None\<rparr>))" for c x y
    using takes_trans [OF gone takes_start_failed] by simp
  with gone show ?thesis by (simp add: handleExit_def Let_def split: option.splits)
qed

fun event_call :: "host_event \<Rightarrow> nat list" where
  "event_call (DispatchCall c r) = [c]"
| "event_call (CancelCall c i) = [c]"
| "event_call (DisposeCall c) = [c]"
| "event_call e = []"

lemma takes_step: "takes (mset (event_call e)) h (host_step cfg e h)"
proof (cases e)
  case (InitTimerFired child)
  have "takes {#} h (h\<lparr>wh_armedInit := removeAll child (wh_armedInit h)\<rparr>)" by (rule same_calls) simp_all
  from takes_trans [OF this takes_start_failed] show ?thesis using InitTimerFired by simp
next
  case (DisposeTimerFired n)
  have "takes {#} h (h\<lparr>wh_armedDispose := removeAll n (wh_armedDispose h)\<rparr>)" by (rule same_calls) simp_all
  from takes_trans [OF this takes_dispose_resolved] show ?thesis using DisposeTimerFired by simp
next
  case (PlanChanged plan)
  have "takes {#} h (h\<lparr>wh_plan := plan\<rparr>)" by (rule same_calls) simp_all
  then show ?thesis using PlanChanged by simp
next
  case (DispatchCall c r)
  show ?thesis using takes_ensureStarted [of "DispatchTask c r"] DispatchCall by simp
next
  case (CancelCall c i)
  show ?thesis using takes_ensureStarted [of "CancelTask c i"] CancelCall by simp
qed (simp_all add: takes_dispose takes_handleMessage takes_handleExit)

lemma host_ok_new: "host_ok new_host" "calls_of new_host = {#}"
  by (simp_all add: new_host_def host_defs)

lemma takes_steps: "takes (mset (concat (map event_call es))) h (fold (host_step cfg) es h)"
proof (induction es arbitrary: h)
  case (Cons e es)
  from takes_trans [OF takes_step [of e] Cons] show ?case by simp
qed simp

text \<open>
  C10. Whatever calls are made of the host and whatever frames, exits and timers come between: every
  call is in exactly one place, answered once, waiting for a frame, for a start or for a disposal.
\<close>

theorem host_keeps_calls: "calls_of (run_host cfg events) = mset (concat (map event_call events))"
  using takes_steps [of events new_host cfg] host_ok_new by (simp add: takes_def run_host_def)

lemma run_host_ok: "host_ok (run_host cfg events)"
  using takes_steps [of events new_host cfg] host_ok_new by (simp add: takes_def run_host_def)

section \<open>What calls are answered with, and what is posted\<close>

definition dispatched_ids :: "worker_host \<Rightarrow> string list" where
  "dispatched_ids h = concat (map (\<lambda>(child, f). case f of DispatchFrame m i r \<Rightarrow> [i] | _ \<Rightarrow> []) (wh_posted h))"

fun task_asked :: "host_event set \<Rightarrow> host_task \<Rightarrow> bool" where
  "task_asked es (DispatchTask c r) = (DispatchCall c r \<in> es)"
| "task_asked es (CancelTask c i) = (CancelCall c i \<in> es)"
| "task_asked es (DisposeTask c) = (DisposeCall c \<in> es)"

fun next_asked :: "host_event set \<Rightarrow> after_disposal \<Rightarrow> bool" where
  "next_asked es (ReturnTo c) = (DisposeCall c \<in> es)"
| "next_asked es (RestartFor t) = task_asked es t"

definition request_posted :: "host_event set \<Rightarrow> (nat \<times> host_request_frame) set \<Rightarrow> nat \<Rightarrow> string \<Rightarrow> string \<Rightarrow> bool" where
  "request_posted es posted c m i \<longleftrightarrow>
     (\<exists>r child. DispatchCall c r \<in> es \<and> xr_executionRequestId r = i \<and> (child, DispatchFrame m i r) \<in> posted)"

fun answer_true :: "host_event set \<Rightarrow> (nat \<times> host_request_frame) set \<Rightarrow> nat \<times> host_outcome \<Rightarrow> bool" where
  "answer_true es posted (c, Dispatched x) =
     (\<exists>child m i. FrameReceived child (DispatchResultFrame m i x) \<in> es \<and> request_posted es posted c m i)"
| "answer_true es posted (c, Cancelled b) = (\<exists>child m i. FrameReceived child (CancelResultFrame m i b) \<in> es \<and> CancelCall c i \<in> es)"
| "answer_true es posted (c, Disposed) = (DisposeCall c \<in> es)"
| "answer_true es posted (c, Failed e) = True"

definition entry_asked :: "host_event set \<Rightarrow> (nat \<times> host_request_frame) set \<Rightarrow> string \<times> pending_request \<Rightarrow> bool" where
  "entry_asked es posted mp =
     (case mp of (m, p) \<Rightarrow>
        (case pq_kind p of
           DispatchKind \<Rightarrow> request_posted es posted (pq_call p) m (pq_executionRequestId p)
         | CancelKind \<Rightarrow> CancelCall (pq_call p) (pq_executionRequestId p) \<in> es))"

definition told :: "host_event set \<Rightarrow> worker_host \<Rightarrow> bool" where
  "told es h \<longleftrightarrow>
     (\<forall>a\<in>set (wh_answers h). answer_true es (set (wh_posted h)) a)
     \<and> (\<forall>e\<in>set (wh_pending h). entry_asked es (set (wh_posted h)) e)
     \<and> (\<forall>s\<in>set (wh_starts h). \<forall>t\<in>set (si_waiters s @ opt_list (si_restarter s)). task_asked es t)
     \<and> (\<forall>d\<in>set (wh_disposals h). next_asked es (di_after d))"

definition once :: "worker_host \<Rightarrow> bool" where
  "once h \<longleftrightarrow> distinct (dispatched_ids h) \<and> set (dispatched_ids h) \<subseteq> set (wh_submitted h)"

definition sound :: "host_event set \<Rightarrow> worker_host \<Rightarrow> bool" where
  "sound es h \<longleftrightarrow> told es h \<and> once h"

lemmas sound_defs = sound_def told_def once_def dispatched_ids_def

lemma request_posted_mono: "request_posted es A c m i \<Longrightarrow> A \<subseteq> B \<Longrightarrow> request_posted es B c m i"
  by (auto simp: request_posted_def)

lemma answer_true_mono: "answer_true es A a \<Longrightarrow> A \<subseteq> B \<Longrightarrow> answer_true es B a"
  by (cases "(es, A, a)" rule: answer_true.cases) (auto intro: request_posted_mono)

lemma entry_asked_mono: "entry_asked es A e \<Longrightarrow> A \<subseteq> B \<Longrightarrow> entry_asked es B e"
  by (auto simp: entry_asked_def intro: request_posted_mono split: prod.splits pending_kind.splits)

lemma sound_answer: "sound es h \<Longrightarrow> answer_true es (set (wh_posted h)) (c, x) \<Longrightarrow> sound es (answer_to c x h)"
  by (auto simp: sound_defs answer_to_def)

lemma sound_unavailable [simp]: "sound es h \<Longrightarrow> sound es (answer_to c (unavailable m) h)"
  by (rule sound_answer) (simp_all add: unavailable_def)

lemma sound_same:
  assumes "sound es h" "wh_answers h' = wh_answers h" "set (wh_pending h') \<subseteq> set (wh_pending h)"
    "set (wh_starts h') \<subseteq> set (wh_starts h)" "set (wh_disposals h') \<subseteq> set (wh_disposals h)" "wh_posted h' = wh_posted h"
    "wh_submitted h' = wh_submitted h"
  shows "sound es h'"
  using assms by (auto simp: sound_defs)

lemma sound_failed:
  assumes "sound es h" "wh_answers h' = wh_answers h @ map (\<lambda>c. (f c, Failed e)) cs" "set (wh_pending h') \<subseteq> set (wh_pending h)"
    "set (wh_starts h') \<subseteq> set (wh_starts h)" "set (wh_disposals h') \<subseteq> set (wh_disposals h)" "wh_posted h' = wh_posted h"
    "wh_submitted h' = wh_submitted h"
  shows "sound es h'"
  using assms by (auto simp: sound_defs)

lemma sound_post:
  assumes "sound es h" and "\<And>m i r. f \<noteq> DispatchFrame m i r"
  shows "sound es (postFrame f h)"
proof -
  have "set (wh_posted h) \<subseteq> set (wh_posted (postFrame f h))" by (auto simp: postFrame_def split: option.splits)
  moreover have ids: "dispatched_ids (postFrame f h) = dispatched_ids h"
    using assms(2) by (auto simp: dispatched_ids_def postFrame_def split: option.splits host_request_frame.splits)
  ultimately show ?thesis
    using assms(1) unfolding sound_def told_def once_def postFrame_same ids by (blast intro: answer_true_mono entry_asked_mono)
qed

lemma sound_start_failed:
  assumes "sound es h"
  shows "sound es (start_failed child (Failed e) h)"
proof (cases "find (\<lambda>s. si_child s = child) (wh_starts h)")
  case (Some s)
  show ?thesis
    by (rule sound_failed [OF assms, where f = task_call and e = e and cs = "si_waiters s @ opt_list (si_restarter s)"])
      (auto simp: start_failed_def Let_def Some)
qed (simp add: start_failed_def assms)

lemma sound_start_with:
  assumes "sound es h" and "\<forall>t\<in>set (waiters @ opt_list restarter). task_asked es t"
  shows "sound es (start_with cfg waiters restarter h)"
proof -
  let ?c = "wh_spawned h"
  let ?h = "h\<lparr>wh_state := HS_STARTING, wh_spawned := Suc ?c, wh_child := Some ?c,
      wh_fingerprint := launchFingerprint cfg h, wh_initResolve := Some ?c, wh_initReject := Some ?c,
      wh_startPromise := Some ?c,
      wh_starts := wh_starts h @ [\<lparr>si_child = ?c, si_waiters = waiters, si_restarter = restarter\<rparr>]\<rparr>"
  have started: "sound es ?h" using assms by (auto simp: sound_defs)
  then have "sound es (postFrame (InitFrame (wh_plan h)) ?h)" by (rule sound_post) simp
  then have "sound es ((postFrame (InitFrame (wh_plan h)) ?h)\<lparr>wh_initTimer := Some ?c, wh_armedInit := wh_armedInit h @ [?c]\<rparr>)"
    by (rule sound_same) simp_all
  moreover have "sound es (start_failed ?c invalid_frame ?h)"
    unfolding invalid_frame_def by (rule sound_start_failed [OF started])
  ultimately show ?thesis by (simp add: start_with_def Let_def)
qed

lemma sound_wait: "sound es h \<Longrightarrow> task_asked es t \<Longrightarrow> sound es (wait_for_start child t h)"
  by (auto simp: sound_defs wait_for_start_def)

lemma sound_after_dispose:
  assumes "sound es h" and "next_asked es next"
  shows "sound es (after_dispose cfg next h)"
proof (cases "next")
  case (RestartFor t)
  have "sound es (h\<lparr>wh_startPromise := None\<rparr>)" using assms(1) by (rule sound_same) simp_all
  then show ?thesis using assms(2) RestartFor by (simp add: sound_start_with)
qed (use assms in \<open>simp add: sound_answer\<close>)

lemma sound_dispose_ready:
  assumes "sound es h" and "next_asked es next"
  shows "sound es (dispose_ready cfg next h)"
proof -
  have "sound es (h\<lparr>wh_state := HS_DISPOSED\<rparr>)" using assms(1) by (rule sound_same) simp_all
  note gone = sound_after_dispose [OF this assms(2)]
  let ?h = "postFrame DisposeFrame (h\<lparr>wh_state := HS_DISPOSING, wh_disposeResolve := Some (wh_disposed h)\<rparr>)"
  have "sound es (h\<lparr>wh_state := HS_DISPOSING, wh_disposeResolve := Some (wh_disposed h)\<rparr>)"
    using assms(1) by (rule sound_same) simp_all
  then have "sound es ?h" by (rule sound_post) simp
  then have "sound es (?h\<lparr>wh_disposed := m, wh_disposeTimer := t, wh_armedDispose := ts,
      wh_disposals := wh_disposals ?h @ [\<lparr>di_number = n, di_child = child, di_after = next\<rparr>]\<rparr>)" for m t ts n child
    using assms(2) by (auto simp: sound_defs)
  then show ?thesis using gone sound_after_dispose [OF assms] by (simp add: dispose_ready_def Let_def split: option.splits)
qed

lemma sound_dispose_resolved:
  assumes "sound es h"
  shows "sound es (dispose_resolved cfg n h)"
proof (cases "find (\<lambda>d. di_number d = n) (wh_disposals h)")
  case (Some d)
  let ?h = "clear_dispose_timer (h\<lparr>wh_disposeResolve := None\<rparr>)"
  let ?u = "?h\<lparr>wh_killed := wh_killed ?h @ [di_child d], wh_child := None, wh_state := HS_DISPOSED, wh_startPromise := None,
      wh_disposals := filter (\<lambda>d. di_number d \<noteq> n) (wh_disposals ?h)\<rparr>"
  have "sound es ?u" using assms by (rule sound_same) auto
  moreover have "next_asked es (di_after d)" using assms Some by (auto simp: sound_defs find_Some_iff)
  ultimately show ?thesis by (simp add: dispose_resolved_def Some Let_def sound_after_dispose)
qed (simp add: dispose_resolved_def assms)

lemma sound_sent:
  assumes "sound es h" and "wh_child h = Some child" and entry: "entry_asked es (set (wh_posted h) \<union> {(child, f)}) (m, p)"
    and ids: "\<And>m' i' r'. f = DispatchFrame m' i' r' \<Longrightarrow> i' \<notin> set (dispatched_ids h) \<and> i' \<in> set (wh_submitted h)"
  shows "sound es (postFrame f (h\<lparr>wh_pending := AList.update m p (wh_pending h)\<rparr>))"
proof -
  let ?h = "postFrame f (h\<lparr>wh_pending := AList.update m p (wh_pending h)\<rparr>)"
  have posted: "set (wh_posted ?h) = set (wh_posted h) \<union> {(child, f)}" using assms(2) by (simp add: postFrame_def)
  have "set (AList.update m p xs) \<subseteq> insert (m, p) (set xs)" for xs by (induction xs) auto
  then have pending: "set (wh_pending ?h) \<subseteq> insert (m, p) (set (wh_pending h))" by simp
  have "\<forall>e\<in>insert (m, p) (set (wh_pending h)). entry_asked es (set (wh_posted ?h)) e"
    using assms(1) entry unfolding sound_def told_def posted by (auto intro: entry_asked_mono)
  with pending have "\<forall>e\<in>set (wh_pending ?h). entry_asked es (set (wh_posted ?h)) e" by blast
  moreover have "\<forall>a\<in>set (wh_answers ?h). answer_true es (set (wh_posted ?h)) a"
    using assms(1) unfolding sound_def told_def posted by (auto intro: answer_true_mono)
  ultimately have "told es ?h" using assms(1) by (simp add: sound_def told_def)
  moreover have "once ?h"
    using assms(1,2) ids unfolding sound_def once_def dispatched_ids_def
    by (auto simp: postFrame_def split: host_request_frame.splits)
  ultimately show ?thesis by (simp add: sound_def)
qed

lemma sound_host_send:
  assumes "sound es h" and "\<And>child. entry_asked es (set (wh_posted h) \<union> {(child, f)}) (m, \<lparr>pq_kind = kind, pq_executionRequestId = i, pq_call = c\<rparr>)"
    and "\<And>m' i' r'. f = DispatchFrame m' i' r' \<Longrightarrow> i' \<notin> set (dispatched_ids h) \<and> i' \<in> set (wh_submitted h)"
  shows "sound es (host_send cfg m kind i c f h)"
proof -
  have "set (AList.delete m xs) \<subseteq> set xs" for xs :: "(string \<times> pending_request) list" by (auto simp: AList.delete_eq)
  then have "sound es (h\<lparr>wh_pending := AList.delete m (wh_pending h)\<rparr>)" by (intro sound_same [OF assms(1)]) simp_all
  then have "sound es (answer_to c invalid_frame (h\<lparr>wh_pending := AList.delete m (wh_pending h)\<rparr>))"
    by (rule sound_answer) (simp add: invalid_frame_def)
  then show ?thesis using sound_sent [OF assms(1) _ assms(2,3)] assms(1) by (simp add: host_send_def split: option.splits)
qed

lemma submitted_ids [simp]: "dispatched_ids (h\<lparr>wh_submitted := is, wh_messageCounter := n\<rparr>) = dispatched_ids h"
  by (simp add: dispatched_ids_def)

lemma sound_submitted:
  "sound es h \<Longrightarrow> sound es (h\<lparr>wh_submitted := wh_submitted h @ xs, wh_messageCounter := n\<rparr>)"
  unfolding sound_def told_def once_def by auto

lemma sound_run_task:
  assumes "sound es h" and "task_asked es t"
  shows "sound es (run_task cfg t h)"
proof (cases t)
  case (DispatchTask c r)
  let ?i = "xr_executionRequestId r" and ?n = "Suc (wh_messageCounter h)"
  let ?h = "h\<lparr>wh_submitted := wh_submitted h @ [?i], wh_messageCounter := ?n\<rparr>"
  have "sound es (host_send cfg (message_id ?n) DispatchKind ?i c (DispatchFrame (message_id ?n) ?i r) ?h)" if "?i \<notin> set (wh_submitted h)"
  proof (rule sound_host_send)
    show "sound es ?h" by (rule sound_submitted [OF assms(1)])
    show "entry_asked es (set (wh_posted ?h) \<union> {(child, DispatchFrame (message_id ?n) ?i r)})
        (message_id ?n, \<lparr>pq_kind = DispatchKind, pq_executionRequestId = ?i, pq_call = c\<rparr>)" for child
      using assms(2) DispatchTask by (auto simp: entry_asked_def request_posted_def)
    show "i' \<notin> set (dispatched_ids ?h) \<and> i' \<in> set (wh_submitted ?h)"
      if "DispatchFrame (message_id ?n) ?i r = DispatchFrame m' i' r'" for m' i' r'
      using that \<open>?i \<notin> set (wh_submitted h)\<close> assms(1)
      by (auto simp: sound_def once_def submitted_ids)
  qed
  then show ?thesis using DispatchTask assms(1) by (simp add: Let_def)
next
  case (CancelTask c i)
  let ?n = "Suc (wh_messageCounter h)"
  have "sound es (host_send cfg (message_id ?n) CancelKind i c (CancelFrame (message_id ?n) i) (h\<lparr>wh_messageCounter := ?n\<rparr>))"
    using assms CancelTask by (intro sound_host_send sound_same [OF assms(1)]) (simp_all add: entry_asked_def)
  then show ?thesis using CancelTask by (simp add: Let_def)
next
  case (DisposeTask c)
  then show ?thesis using assms by (simp add: sound_dispose_ready)
qed

lemma sound_run_tasks: "sound es h \<Longrightarrow> \<forall>t\<in>set ts. task_asked es t \<Longrightarrow> sound es (fold (run_task cfg) ts h)"
  by (induction ts arbitrary: h) (simp_all add: sound_run_task)

lemma sound_ensureStarted:
  assumes "sound es h" and "task_asked es t"
  shows "sound es (ensureStarted cfg t h)"
  using assms by (cases "wh_state h"; cases "wh_startPromise h")
    (simp_all add: ensureStarted_def sound_run_task sound_dispose_ready sound_wait sound_start_with)

lemma sound_dispose:
  assumes "sound es h" and "DisposeCall c \<in> es"
  shows "sound es (dispose cfg c h)"
proof -
  have "sound es (h\<lparr>wh_state := HS_DISPOSED\<rparr>)" using assms(1) by (rule sound_same) simp_all
  then have "sound es (answer_to c Disposed (h\<lparr>wh_state := HS_DISPOSED\<rparr>))" by (rule sound_answer) (simp add: assms(2))
  then show ?thesis using assms
    by (cases "wh_state h") (simp_all add: dispose_def sound_ensureStarted sound_dispose_ready sound_answer)
qed

lemma sound_start_ready:
  assumes "sound es h"
  shows "sound es (start_ready cfg child h)"
proof (cases "find (\<lambda>s. si_child s = child) (wh_starts h)")
  case (Some s)
  have "sound es (clear_init_timer (h\<lparr>wh_state := HS_READY, wh_startPromise := None, wh_initResolve := None,
      wh_initReject := None, wh_starts := filter (\<lambda>s. si_child s \<noteq> child) (wh_starts h)\<rparr>))"
    using assms by (rule sound_same) auto
  moreover have "\<forall>t\<in>set (si_waiters s @ opt_list (si_restarter s)). task_asked es t"
    using assms Some by (auto simp: sound_defs find_Some_iff)
  ultimately show ?thesis unfolding start_ready_def Some option.case by (rule sound_run_tasks)
qed (simp add: start_ready_def assms)

lemma sound_reject: "sound es h \<Longrightarrow> sound es (rejectAll (Failed e) h)"
  by (rule sound_failed [where f = "pq_call \<circ> snd" and e = e and cs = "wh_pending h"]) (auto simp: rejectAll_def)

lemma sound_removed:
  assumes "sound es h" and "answer_true es (set (wh_posted h)) (c, x)"
  shows "sound es (answer_to c x (h\<lparr>wh_pending := AList.delete m (wh_pending h)\<rparr>))"
proof -
  have "set (AList.delete m (wh_pending h)) \<subseteq> set (wh_pending h)" by (auto simp: AList.delete_eq)
  then have "sound es (h\<lparr>wh_pending := AList.delete m (wh_pending h)\<rparr>)" by (intro sound_same [OF assms(1)]) simp_all
  then show ?thesis by (rule sound_answer) (simp add: assms(2))
qed

lemma asked_entry: "sound es h \<Longrightarrow> map_of (wh_pending h) m = Some p \<Longrightarrow> entry_asked es (set (wh_posted h)) (m, p)"
  by (auto simp: sound_defs dest: map_of_SomeD)

lemma sound_settle_dispatch:
  assumes "sound es h" and "FrameReceived child (DispatchResultFrame m i r) \<in> es"
  shows "sound es (settle_with m i DispatchKind (Dispatched r) h)"
proof (cases "map_of (wh_pending h) m")
  case (Some p)
  have "answer_true es (set (wh_posted h)) (pq_call p, if pq_executionRequestId p \<noteq> i then unavailable ''response executionRequestId mismatch''
      else if pq_kind p = DispatchKind then Dispatched r else unavailable ''unexpected response frame'')"
    using asked_entry [OF assms(1) Some] assms(2) by (auto simp: unavailable_def entry_asked_def) blast
  from sound_removed [OF assms(1) this] show ?thesis by (simp only: settle_with_def Some option.case)
qed (simp add: settle_with_def assms)

lemma sound_settle_cancel:
  assumes "sound es h" and "FrameReceived child (CancelResultFrame m i b) \<in> es"
  shows "sound es (settle_with m i CancelKind (Cancelled b) h)"
proof (cases "map_of (wh_pending h) m")
  case (Some p)
  have "answer_true es (set (wh_posted h)) (pq_call p, if pq_executionRequestId p \<noteq> i then unavailable ''response executionRequestId mismatch''
      else if pq_kind p = CancelKind then Cancelled b else unavailable ''unexpected response frame'')"
    using asked_entry [OF assms(1) Some] assms(2) by (auto simp: unavailable_def entry_asked_def) blast
  from sound_removed [OF assms(1) this] show ?thesis by (simp only: settle_with_def Some option.case)
qed (simp add: settle_with_def assms)

lemma sound_handleError: "sound es h \<Longrightarrow> sound es (handleError m code h)"
  by (auto simp: handleError_def unavailable_def sound_reject mapErrorCode_def split: option.splits host_error_code.splits
      intro!: sound_removed)

lemma sound_handleMessage:
  assumes "sound es h" and "FrameReceived child response \<in> es"
  shows "sound es (handleMessage cfg response h)"
  using assms by (cases response)
    (auto simp: sound_handleError sound_start_ready sound_dispose_resolved sound_settle_dispatch sound_settle_cancel
      split: option.splits)

lemma sound_handleExit:
  assumes "sound es h"
  shows "sound es (handleExit code h)"
proof -
  have "sound es (h\<lparr>wh_initReject := None\<rparr>)" using assms by (rule sound_same) simp_all
  from sound_reject [OF this] have "sound es (rejectAll (unavailable m) (h\<lparr>wh_initReject := None\<rparr>))" for m
    by (simp add: unavailable_def)
  then have "sound es ((rejectAll (unavailable m) (h\<lparr>wh_initReject := None\<rparr>))
      \<lparr>wh_child := None, wh_state := HS_STOPPED, wh_startPromise := None\<rparr>)" for m
    by (rule sound_same) simp_all
  then show ?thesis by (simp add: handleExit_def Let_def unavailable_def sound_start_failed split: option.splits)
qed

lemma sound_host_step:
  assumes "sound es h" and "e \<in> es"
  shows "sound es (host_step cfg e h)"
proof (cases e)
  case (InitTimerFired child)
  have "sound es (h\<lparr>wh_armedInit := removeAll child (wh_armedInit h)\<rparr>)" using assms(1) by (rule sound_same) simp_all
  then show ?thesis using InitTimerFired assms(1) by (simp add: unavailable_def sound_start_failed)
next
  case (DisposeTimerFired n)
  have "sound es (h\<lparr>wh_armedDispose := removeAll n (wh_armedDispose h)\<rparr>)" using assms(1) by (rule sound_same) simp_all
  then show ?thesis using DisposeTimerFired assms(1) by (simp add: sound_dispose_resolved)
next
  case (PlanChanged plan)
  have "sound es (h\<lparr>wh_plan := plan\<rparr>)" using assms(1) by (rule sound_same) simp_all
  then show ?thesis using PlanChanged by simp
qed (use assms in \<open>auto simp: sound_ensureStarted sound_dispose sound_handleMessage sound_handleExit\<close>)

lemma sound_steps: "sound es h \<Longrightarrow> set evs \<subseteq> es \<Longrightarrow> sound es (fold (host_step cfg) evs h)"
  by (induction evs arbitrary: h) (simp_all add: sound_host_step)

lemma sound_run: "sound (set events) (run_host cfg events)"
  unfolding run_host_def by (rule sound_steps) (simp_all add: new_host_def sound_defs)

text \<open>
  C11. No execution request is posted to a process twice over the life of a host, however often the
  process is restarted; and a call that is answered with a result was answered by a frame under the
  message under which its own request was posted.
\<close>

theorem host_answers_truthfully:
  "distinct (dispatched_ids (run_host cfg events))
   \<and> list_all (answer_true (set events) (set (wh_posted (run_host cfg events)))) (wh_answers (run_host cfg events))"
  using sound_run [of events cfg] by (auto simp: sound_def once_def told_def list_all_iff)

section \<open>The end of a process\<close>

lemma start_failed_pending [simp]: "wh_pending (start_failed c x h) = wh_pending h"
  by (simp add: start_failed_def Let_def split: option.splits)

text \<open>When the process exits nothing waits for its frames any more.\<close>

lemma exit_answers_all: "wh_child h = Some child \<Longrightarrow> wh_pending (host_step cfg (ProcessExited child code) h) = []"
  by (simp add: handleExit_def Let_def rejectAll_def split: option.splits)

text \<open>
  After a disposal that ended while requests were pending nobody answers them: the process is no
  longer listened to, and nothing else looks at them.
\<close>

definition abandoned :: "worker_host \<Rightarrow> bool" where
  "abandoned h \<longleftrightarrow> wh_state h = HS_DISPOSED \<and> wh_child h = None \<and> wh_starts h = [] \<and> wh_disposals h = []"

lemma abandoned_step:
  "abandoned h \<Longrightarrow> abandoned (host_step cfg e h) \<and> wh_pending (host_step cfg e h) = wh_pending h"
  by (cases e) (simp_all add: abandoned_def ensureStarted_def dispose_def answer_to_def start_failed_def dispose_resolved_def)

lemma abandoned_requests: "abandoned h \<Longrightarrow> wh_pending (fold (host_step cfg) events h) = wh_pending h"
  using abandoned_step by (induction events arbitrary: h) simp_all

end
