(* ===== verification/Spec2Isabelle.thy ===== *)
theory Spec2Isabelle
  imports Workflow Permanence Atomicity Example Execution_Behaviour Stored_Texts Policy_Laws Gate_Evaluator Observation Observation_Sink
    Active_Laws Workspace_Laws Source_References Worker_Promises Dispatch_Outcome Ingest_Laws Adoption_Laws Host_Laws
begin

text \<open>
  A model of the parts of Canvas Agent that carry its own logic, and the theorems that make
  them correct.

  \<^bold>\<open>The program.\<close> Canvas Agent keeps a project as a graph of nodes and edges, tasks with
  published specifications, baselines, frozen context snapshots, runs of an agent,
  evaluations of their results and the adoption of artifacts. \<open>packages/domain\<close> holds the
  enumerations, transition tables and assertions; \<open>packages/persistence\<close> stores everything in
  SQLite through commands, each a function that checks, writes and appends to an audit log.
  \<open>packages/context-runtime\<close> decides what an agent gets to see: sources are observed and
  reconciled into universe revisions, a planner proposes a working set, admission checks it
  against the universe and a budget, what is admitted is committed, and transitions lead from
  one committed state to the next. A shadow planner (policy V0), a readiness gate over its
  recorded decisions, and the observation of model calls accompany it.
  \<open>packages/pi-context-integration\<close> applies a plan of policy V0 to the conversation of a running
  agent. \<open>packages/contracts\<close> fixes source references and execution requests,
  \<open>packages/worker-runtime\<close> executes a request in an isolated worktree. The main process of
  \<open>apps/desktop\<close> composes them: it opens a repository as a workspace, freezes what a user selects,
  dispatches a frozen snapshot to the worker, takes over what the worker produced, and adopts
  an accepted patch in the repository.

  \<^bold>\<open>Project state: theories and sources.\<close>
  \<^item> \<open>Prelude\<close>: lists, maps, the state-and-error monad of the commands.
  \<^item> \<open>Domain\<close>: \<open>domain/src/model.ts\<close>, \<open>invariants.ts\<close>. \<open>Json\<close>: \<open>JSON.stringify\<close> and that its text
    determines the value.
  \<^item> \<open>Schema\<close>: the tables of \<open>persistence/src/schema/*.ts\<close> as records of one \<open>database\<close>, with the
    primary keys, unique indexes, foreign keys and CHECKs a row can violate.
  \<^item> \<open>Store\<close>: \<open>db.ts\<close>, \<open>errors.ts\<close>, \<open>services.ts\<close>, \<open>commands/audit.ts\<close>: connection state, transactions
    with rollback, inserts and updates that check the schema, the triggers on frozen snapshots.
  \<^item> \<open>Graph\<close>: the depth-first search of \<open>commands/edge.ts\<close> with its termination proof.
  \<^item> \<open>Project_Commands\<close>, \<open>Node_Commands\<close>, \<open>Edge_Commands\<close>, \<open>Task_Commands\<close>, \<open>Baseline_Commands\<close>,
    \<open>Snapshot_Commands\<close>, \<open>Run_Commands\<close>, \<open>Acceptance_Commands\<close>, \<open>Application_Commands\<close>: every exported
    function of the files of the same names under \<open>persistence/src/commands\<close>.
  \<^item> \<open>Session\<close>: a call of any command as a datatype, sessions as sequences of calls, as a step
    relation and as an executable function; the locales of what a command keeps.
  \<^item> \<open>Evolution\<close>, \<open>Integrity\<close>, \<open>Workflow\<close>, \<open>Permanence\<close>, \<open>Atomicity\<close>: the locales interpreted for all
    commands: how rows evolve, that the schema is kept, that statuses are backed by records, that
    logs only grow, that a failed command leaves no trace.
  \<^item> \<open>Example\<close>: a small database for witnesses. \<open>Content_Behaviour\<close>, \<open>Planning_Behaviour\<close>,
    \<open>Execution_Behaviour\<close>: what single commands do.

  \<^bold>\<open>Context runtime: theories and sources\<close> (under \<open>context-runtime/src\<close>).
  \<^item> \<open>Runtime_Prelude\<close>: JavaScript numbers with infinities and NaN, stable sorting with a
    comparison, \<open>Map\<close> and \<open>Set\<close>, loops that may throw, the locale of stored forms.
    \<open>Json_Parser\<close>: \<open>JSON.parse\<close>, the readers of declared shapes, the locale of stored texts.
  \<^item> \<open>Universe_Revision\<close>: \<open>universe/revision.ts\<close>; \<open>Universe_Laws\<close>: chains of revisions.
  \<^item> \<open>Source_Reconciliation\<close>, \<open>Context_Universe\<close>: \<open>source/*.ts\<close>, \<open>universe/context-universe.ts\<close>.
  \<^item> \<open>Working_Set_Proposal\<close>: \<open>representation/*.ts\<close>, \<open>planning/proposed-working-set.ts\<close>,
    \<open>planning/planner.ts\<close>; \<open>Proposal_Laws\<close>: the planner.
  \<^item> \<open>Admission\<close>: \<open>admission/*.ts\<close>, \<open>working-set/committed-working-set.ts\<close>; \<open>Admission_Laws\<close>: budgets,
    and planning, admission and commitment together.
  \<^item> \<open>Transition\<close>: \<open>transition/transition.ts\<close>; \<open>Transition_Laws\<close>: replay. \<open>Stored_Texts\<close>: the
    stored texts of proposals, receipts, committed states and transitions.
  \<^item> \<open>Policy_V0\<close>: \<open>planning/planning-request.ts\<close>, \<open>working-set/working-set-types.ts\<close>,
    \<open>planning/policy-v0.ts\<close>; \<open>Policy_Laws\<close>: its plans.
  \<^item> \<open>Gate_Evaluator\<close>: \<open>c0/evaluator.ts\<close>, \<open>metrics/shadow-metrics.ts\<close>.
  \<^item> \<open>Redaction\<close>, \<open>Observation\<close>: \<open>util/utf8.ts\<close>, \<open>sink/redaction.ts\<close>, \<open>observation/*.ts\<close>,
    \<open>elements/observed-element.ts\<close>.
  \<^item> \<open>Observation_Sink\<close>: \<open>sink/jsonl-sink.ts\<close>, \<open>sink/in-memory-sink.ts\<close>, \<open>session/runtime-session.ts\<close>.

  \<^bold>\<open>Integration with Pi: theories and sources\<close> (under \<open>pi-context-integration/src\<close>).
  \<^item> \<open>Pi_Messages\<close>: \<open>pi-message-mapper.ts\<close>, \<open>element-decomposition.ts\<close>, \<open>pi-source-methods.ts\<close>.
  \<^item> \<open>Active_Rewrite\<close>: \<open>active/kill-switch.ts\<close>, \<open>capability-profile.ts\<close>, \<open>native-message-analysis.ts\<close>,
    \<open>rewrite-composer.ts\<close>, \<open>pre-send-guard.ts\<close>; \<open>Active_Laws\<close>: composer and guard.

  \<^bold>\<open>Requests and worker: theories and sources\<close> (under \<open>contracts/src\<close> and \<open>worker-runtime/src\<close>).
  \<^item> \<open>Stable_Json\<close>: \<open>stableStringify\<close> on JSON values. \<open>Source_References\<close>: \<open>source-reference.ts\<close>.
  \<^item> \<open>Execution_Request\<close>: \<open>execution-request.ts\<close>, \<open>validation.ts\<close>; \<open>Request_Laws\<close>: what validation promises.
  \<^item> \<open>Worker_Environment\<close>: \<open>process-runner.ts\<close>, \<open>claim.ts\<close>, \<open>revision.ts\<close>, \<open>worktree.ts\<close>, \<open>errors.ts\<close>,
    \<open>types.ts\<close>, \<open>agent-adapter.ts\<close>, with the outside as a record. \<open>Worker_Dispatch\<close>: \<open>worker.ts\<close>.
  \<^item> \<open>Worker_Laws\<close>, \<open>Worker_Example\<close>, \<open>Worker_Promises\<close>: what a dispatch leaves behind and what its
    result stands for.

  \<^bold>\<open>Desktop main process: theories and sources\<close> (under \<open>apps/desktop/src/main\<close>).
  \<^item> \<open>Workspace_Runtime\<close>: \<open>workspace-runtime-manager.ts\<close>, \<open>workspace-storage.ts\<close>; \<open>Workspace_Laws\<close>: its
    reachable states.
  \<^item> \<open>Context_Resolver\<close>: \<open>context-resolver.ts\<close>, \<open>git-repository-content-reader.ts\<close>.
  \<^item> \<open>Artifact_Ingestor\<close>: \<open>artifact-ingestor.ts\<close>. \<open>Execution_Coordinator\<close>: \<open>execution-coordinator.ts\<close>,
    \<open>execution-profile.ts\<close>. \<open>Repository_Writer\<close>: \<open>git-repository-writer.ts\<close>, \<open>git-revision-reader.ts\<close>.
  \<^item> \<open>Workspace_Service\<close>: \<open>workspace-service.ts\<close>. \<open>Command_Core\<close>: \<open>command-core.ts\<close>, \<open>command-errors.ts\<close>.
  \<^item> \<open>Desktop_Laws\<close>: the locales of \<open>Session\<close> for every call of a service. \<open>Context_Laws\<close>: from a
    selection to the bundle of a worker. \<open>Dispatch_Laws\<close>, \<open>Dispatch_Outcome\<close>: before and after the
    call of the worker. \<open>Ingest_Laws\<close>: artifacts. \<open>Adoption_Laws\<close>: adoption.
  \<^item> \<open>Worker_Host\<close>: \<open>utility-process-worker-host.ts\<close>, the events of one host over all processes it
    starts; \<open>Host_Laws\<close>: what becomes of every call.

  \<^bold>\<open>State and errors.\<close> The database is a record with one list of rows per table, in insertion
  order; a command is a function from the connection state to a result or an error and the new
  state. In the context runtime every value is immutable and functions return a value or a
  thrown error. The JSONL sink, the workspace manager and the worker host, where calls and answers
  from outside interleave, are step relations or runs over lists of events: an append may store any
  part of its payload before it is rejected; the manager holds the operations that are in flight
  under numbers, and the answers to them arrive in any order. The worker passes its claims, files and counters as one state. An
  operation of the desktop services is a command that waits at its \<open>await\<close>s: what other operations
  perform meanwhile is an argument, any list of commands.

  \<^bold>\<open>Parameters.\<close> Code outside the repository is a parameter: the clock, the id generator and
  SHA-256 of the persistence services; SHA-256 and \<open>localeCompare\<close> of the context runtime
  (assumed consistent where order matters); the \<open>represent\<close> function of the planners and the
  adapter of admission; the date functions of zod and JavaScript; git, the file system, the agent
  and the worker, which answer through the records \<open>worker_env\<close>, \<open>resolver_env\<close>,
  \<open>coordinator_env\<close>, \<open>ingest_files\<close>, \<open>writer_env\<close> and \<open>workspace_env\<close>. Where an identifier must be
  determined by its content, the digest is assumed injective on the texts in question, or the
  statement is about the text itself, or it names the collision.

  \<^bold>\<open>What the theorems show.\<close> This theory: invariants of every session of commands, whatever
  succeeds or throws (C1, C2, C12 to C15). The desktop services keep them through any calls (C3);
  a frozen selection reaches the worker unchanged or not at all (C4); a dispatch is on record
  before the worker is called, is accepted by it, and settles its run once the worker host has
  answered, keeping the result it answered with (C5, C7, C9); what a worker wrote is checked before
  it is stored (C8); an adoption was on record already or rests on what git showed (C6). The worker
  host loses no call and answers none twice, posts no request twice and takes results only for the
  message they belong to (C10, C11).
  Single commands: lost updates, the cycle check, evaluations (C17, C19, C21). The readiness gate
  decides a declarative property (C16), raw text stays within its budget (C18), the sink keeps
  every line in order, with a torn beginning of lines for each append that was rejected (C20). Universe revisions: well-formed chains, refinement of a map (C22, C23). The pipeline:
  the planner, admission within budget, planning to commitment without a failure, a case where
  commitment refuses what admission admitted, replay of transitions, stored texts (C24 to C29).
  Policy V0: conflicts, protection, eviction by price and only over budget, coherent decisions (C30). The active rewrite: what the
  composer sends and the hashes and the binding it sends with it, what the guard accepts of a composed
  plan, what a refusal does (C31 to C33). The workspace manager: one operation at a time, leases, runs
  and exclusion, and that every answer brings the operation in flight nearer to its end (C34, C35). Source references and
  requests (C36, C37). The worker: what success stands for, at most one execution, and in which cases
  a worktree is left without a record (C38 to C40).

  \<^bold>\<open>Bounds.\<close> Loops are structural, or have a measure: the nodes not yet visited of the depth-first
  search, the characters left of a text. Only \<open>JSON_parse\<close> runs on fuel, the length of the text, which
  is enough for every text that \<open>stringify\<close> writes (\<open>JSON_parse_stringify\<close>).

  \<^bold>\<open>Not modelled.\<close> SQLite itself below the level of tables and constraints, its PRAGMAs and the
  migrator; \<open>JSON.parse\<close> on numbers that are not integers and on escapes beyond ASCII, and what the
  code does with a parsed value that has not the shape it is cast to (a universe revision is read
  from the parsed object only); the JSON text of a sink line; the random session id; the zod schemas of the commands, which a library evaluates and
  whose accepted payloads are the arguments of the model; the spawning of processes, the
  programs of agents and the search for them; the React renderer, Electron and its windows; the
  experiments around admission in \<open>pi-context-integration\<close> and the research benchmarks, which are no
  part of the product.
\<close>

section \<open>Sessions\<close>

lemma session_run: "session sv s (run_session sv cs s)"
  by (auto simp: session_iff_run)

lemma db_open_empty [simp]: "db open_empty = empty_database" "tx open_empty = None"
  by (simp_all add: open_empty_def)

lemma run_schema: "schema_ok (db (run_session sv cs open_empty))"
  using integ.over_session [OF session_run [of sv open_empty cs]] schema_ok_empty
  by (simp add: keeps_schema_def)

lemma run_tx: "tx (run_session sv cs open_empty) = None"
  using integ.over_session [OF session_run [of sv open_empty cs]] by simp

lemma run_status: "status_ok (db (run_session sv cs open_empty))"
proof -
  have "status_ok empty_database" by (simp add: status_ok_def empty_database_def)
  then show ?thesis
    using status.over_session [OF session_run [of sv open_empty cs]] schema_ok_empty by (simp add: keeps_status_def)
qed

lemma run_permanent:
  "permanent (db (run_session sv cs open_empty)) (db (run_session sv (cs @ ds) open_empty))"
  using perm.over_session [OF session_run [of sv "run_session sv cs open_empty" ds]] by (simp add: run_session_append)

text \<open>
  C1. Whatever commands a session issues, with whatever results, the tables satisfy every
  primary key, unique index, foreign key and CHECK of the schema, and the audit log is
  numbered 1, 2, 3, ... in the order of its entries.
\<close>

theorem session_schema_ok: "schema_ok (db (run_session sv cs open_empty))"
  by (rule run_schema)

text \<open>A project has at most one ACTIVE baseline at any time.\<close>

theorem session_one_active:
  "length (filter (is_active_of p) (project_baselines (db (run_session sv cs open_empty)))) \<le> 1"
proof -
  let ?rs = "project_baselines (db (run_session sv cs open_empty))"
  have "distinct (map bl_projectId (filter is_active ?rs))" by (rule schema_okD(1) [OF run_schema])
  then have "distinct (map bl_projectId (filter (is_active_of p) ?rs))"
    using distinct_map_filter [of bl_projectId "filter is_active ?rs" "\<lambda>r. bl_projectId r = p"]
    by (simp add: is_active_of_def [abs_def] is_active_def [abs_def] conj_commute)
  moreover have "set (map bl_projectId (filter (is_active_of p) ?rs)) \<subseteq> {p}" by (auto simp: is_active_of_def)
  ultimately show ?thesis by (metis card_mono distinct_card finite.emptyI finite_insert is_singletonI is_singleton_altdef length_map)
qed

text \<open>
  C2. A command that throws leaves the database exactly as it was, also when it writes
  outside a transaction.
\<close>

theorem session_errors_leave_no_trace:
  assumes "fst (perform sv c (run_session sv cs open_empty)) = Inl e"
  shows "db (snd (perform sv c (run_session sv cs open_empty))) = db (run_session sv cs open_empty)"
  using atomic_perform [OF run_schema] assms unfolding atomic_at_def by blast

definition orphan_node :: command where
  "orphan_node = CreateNode \<lparr>cni_id = ''a'', cni_projectId = ''p'', cni_type = IDEA, cni_lifecycle = None\<rparr>"

lemma orphan_node_error:
  "fst (perform demo orphan_node (run_session demo [] open_empty)) = Inl (Sqlite (ForeignKeyViolation ''node.project_id''))"
  by code_simp

theorem session_errors_leave_no_trace_witness:
  "db (snd (perform demo orphan_node (run_session demo [] open_empty))) = db (run_session demo [] open_empty)"
  by (rule session_errors_leave_no_trace [OF orphan_node_error])

text \<open>No command ever opens a transaction inside a transaction.\<close>

theorem session_never_nests:
  "fst (perform sv c (run_session sv cs open_empty)) \<noteq> Inl (Sqlite NestedTransaction)"
  using unnested_perform [of sv c] run_tx unfolding unnested_def by blast

text \<open>
  C12. What is recorded stays recorded: projects, revisions, published node versions and
  task specifications, their criteria and targets, edges, dependencies, baseline and
  snapshot items, run events, artifacts, evaluations, applications and the audit log are
  only extended at their end by the rest of a session.
\<close>

theorem session_logs_grow:
  "logs_grow (db (run_session sv cs open_empty)) (db (run_session sv (cs @ ds) open_empty))"
  using run_permanent run_schema unfolding permanent_def by blast

text \<open>A frozen context snapshot keeps its row and its items for the rest of the session.\<close>

theorem session_frozen_kept:
  "frozen_kept (db (run_session sv cs open_empty)) (db (run_session sv (cs @ ds) open_empty))"
  using run_permanent run_schema unfolding permanent_def by blast

text \<open>
  C13. A task keeps its identity and moves only along the task transitions of the domain.
\<close>

theorem session_tasks_evolve:
  "rows_le task_le (tasks (db (run_session sv cs open_empty))) (tasks (db (run_session sv (cs @ ds) open_empty)))"
  using run_permanent run_schema unfolding permanent_def rows_evolve_def by blast

text \<open>
  A baseline keeps its identity and content references and moves only from DRAFT to
  ACTIVE to SUPERSEDED.
\<close>

theorem session_baselines_evolve:
  "rows_le baseline_le (project_baselines (db (run_session sv cs open_empty)))
     (project_baselines (db (run_session sv (cs @ ds) open_empty)))"
  using run_permanent run_schema unfolding permanent_def rows_evolve_def by blast

text \<open>
  C14. A run keeps what it was dispatched with, moves along the run transitions, and once
  it has left RUNNING its row never changes again.
\<close>

theorem session_runs_evolve:
  "rows_le run_le (runs (db (run_session sv cs open_empty))) (runs (db (run_session sv (cs @ ds) open_empty)))"
  using run_permanent run_schema unfolding permanent_def rows_evolve_def by blast

text \<open>
  C15. Every task status is backed: a READY or IN_PROGRESS task has a published
  specification, one in WAITING_REVIEW also an evaluation, a COMPLETED one a PASSED
  evaluation of its latest specification; no task is ever cancelled or archived.
\<close>

theorem session_tasks_backed:
  "list_all (task_backed (db (run_session sv cs open_empty))) (tasks (db (run_session sv cs open_empty)))"
  using run_status [of sv cs] by (simp add: status_ok_def list_all_iff)

text \<open>
  Every acceptance evaluation is about a FINISHED run of its task and specification,
  and a PASSED one about a run with a usable outcome.
\<close>

theorem session_evaluations_backed:
  "list_all (\<lambda>e. list_ex (backs_evaluation e) (runs (db (run_session sv cs open_empty))))
     (acceptance_evaluations (db (run_session sv cs open_empty)))"
  using run_status [of sv cs] by (simp add: status_ok_def list_all_iff list_ex_iff)

text \<open>
  A run has an outcome exactly if it is FINISHED, as the domain invariant
  \<open>assertRunState\<close> demands, and is RUNNING, INTERRUPTED or FINISHED.
\<close>

theorem session_runs_ok: "list_all run_ok (runs (db (run_session sv cs open_empty)))"
  using run_status [of sv cs] by (simp add: status_ok_def list_all_iff)

text \<open>
  Versions and specifications are numbered 1, 2, ... per node and task; run events,
  evaluations and application events 0, 1, ... per run, task and application.
\<close>

theorem session_numbering: "numbering_ok (db (run_session sv cs open_empty))"
proof -
  have "numbering_ok empty_database" by (simp add: numbering_ok_def empty_database_def)
  then show ?thesis
    using num.over_session [OF session_run [of sv open_empty cs]] by (simp add: keeps_numbering_def)
qed

text \<open>
  Task dependencies, PARENT_OF edges and SUPERSEDES edges of a project form no cycle.
\<close>

theorem session_graphs_acyclic:
  "acyclic (set (dependency_pairs (db (run_session sv cs open_empty)) p))
   \<and> acyclic (set (edge_pairs (db (run_session sv cs open_empty)) p PARENT_OF))
   \<and> acyclic (set (edge_pairs (db (run_session sv cs open_empty)) p SUPERSEDES))"
proof -
  have "graphs_ok empty_database"
    by (simp add: graphs_ok_def empty_database_def dependency_pairs_def edge_pairs_def acyclic_def)
  then have "graphs_ok (db (run_session sv cs open_empty))"
    using acyc.over_session [OF session_run [of sv open_empty cs]] by (simp add: keeps_graphs_def)
  then show ?thesis by (simp add: graphs_ok_def)
qed

text \<open>
  References stay inside a project: edges join nodes, dependencies tasks and
  baselines node versions of their own project; a snapshot and an evaluation refer to a
  task of their project and to a specification of that task.
\<close>

theorem session_scope: "scope_ok (db (run_session sv cs open_empty))"
proof -
  have "scope_ok empty_database" by (simp add: scope_ok_def empty_database_def)
  then show ?thesis
    using scope.over_session [OF session_run [of sv open_empty cs]] by (simp add: keeps_scope_def)
qed

end
